(* ===== verification/Prelude.thy ===== *)
theory Prelude
  imports Main "HOL-Library.Word" "HOL-Library.Multiset"
begin

text \<open>
  Shared vocabulary of the development.

  \<^item> Names for Rust's integer ranges, and its saturating and checked operations on the
    integers the sources keep at a fixed width.
  \<^item> Small pieces of the Rust standard library the sources call: \<open>str::trim\<close>,
    \<open>char::is_control\<close>, the \<open>Debug\<close> rendering of a string, \<open>Iterator::position\<close>,
    \<open>VecDeque::remove\<close>.
  \<^item> Two interfaces several components share: \<open>wire_enum\<close>, an enumeration with a wire
    spelling and a parser for it, and \<open>step_system\<close>, a machine with an invariant every
    step keeps.

  A Rust \<open>String\<close> is modelled as a HOL \<open>string\<close>, one HOL character for one Unicode scalar
  value, so \<open>length\<close> is \<open>chars().count()\<close>.
\<close>

section \<open>Fact collections\<close>

named_theorems frame_simps \<open>which fields an operation leaves alone\<close>
named_theorems account_simps \<open>what an operation does to the calls the engine answers for\<close>
named_theorems inv_intros \<open>operations that keep an invariant\<close>

section \<open>Fixed-width integers\<close>

type_synonym u8 = "8 word"
type_synonym u64 = "64 word"

definition u64_max :: nat where
  "u64_max = 2 ^ 64 - 1"

definition u32_max :: nat where
  "u32_max = 2 ^ 32 - 1"

definition u128_max :: nat where
  "u128_max = 2 ^ 128 - 1"

definition i64_max :: int where
  "i64_max = 2 ^ 63 - 1"

definition i64_min :: int where
  "i64_min = - (2 ^ 63)"

definition in_i64 :: "int \<Rightarrow> bool" where
  "in_i64 x \<longleftrightarrow> i64_min \<le> x \<and> x \<le> i64_max"

definition sat_add_u64 :: "nat \<Rightarrow> nat \<Rightarrow> nat" where
  "sat_add_u64 a b = min (a + b) u64_max"

definition u64_to_be_bytes :: "u64 \<Rightarrow> u8 list" where
  "u64_to_be_bytes w = map (\<lambda>i. ucast (drop_bit (56 - 8 * i) w)) [0..<8]"

section \<open>Strings\<close>

text \<open>\<open>char::is_whitespace\<close> and \<open>char::is_control\<close> on the scalar values below 256.\<close>

definition is_whitespace :: "char \<Rightarrow> bool" where
  "is_whitespace c \<longleftrightarrow>
     (let n = of_char c :: nat in (9 \<le> n \<and> n \<le> 13) \<or> n = 32 \<or> n = 133 \<or> n = 160)"

definition is_control :: "char \<Rightarrow> bool" where
  "is_control c \<longleftrightarrow> (let n = of_char c :: nat in n < 32 \<or> (127 \<le> n \<and> n < 160))"

definition trim :: "string \<Rightarrow> string" where
  "trim s = rev (dropWhile is_whitespace (rev (dropWhile is_whitespace s)))"

definition hex_digit :: "nat \<Rightarrow> char" where
  "hex_digit n = ''0123456789abcdef'' ! (n mod 16)"

text \<open>\<open>char::escape_debug\<close> inside a string, and \<open>{:?}\<close> of a string.\<close>

definition escape_debug :: "char \<Rightarrow> string" where
  "escape_debug c =
     (let n = of_char c :: nat in
      if n = 0 then [CHR 0x5C, CHR ''0'']
      else if n = 9 then [CHR 0x5C, CHR ''t'']
      else if n = 10 then [CHR 0x5C, CHR ''n'']
      else if n = 13 then [CHR 0x5C, CHR ''r'']
      else if n = 34 \<or> n = 92 then [CHR 0x5C, c]
      else if is_control c \<or> n = 160 \<or> n = 173
      then [CHR 0x5C, CHR ''u'', CHR 0x7B] @
           (if n < 16 then [] else [hex_digit (n div 16)]) @ [hex_digit n, CHR 0x7D]
      else [c])"

definition debug_str :: "string \<Rightarrow> string" where
  "debug_str s = [CHR 0x22] @ concat (map escape_debug s) @ [CHR 0x22]"

section \<open>Sequences\<close>

text \<open>\<open>Iterator::position\<close>, and \<open>VecDeque::remove\<close> at a valid index.\<close>

fun position :: "('a \<Rightarrow> bool) \<Rightarrow> 'a list \<Rightarrow> nat option" where
  "position P [] = None"
| "position P (x # xs) = (if P x then Some 0 else map_option Suc (position P xs))"

definition remove_at :: "nat \<Rightarrow> 'a list \<Rightarrow> 'a list" where
  "remove_at i xs = take i xs @ drop (Suc i) xs"

text \<open>\<open>(0..n).find(p)\<close> on indices.\<close>

definition find_index :: "nat \<Rightarrow> (nat \<Rightarrow> bool) \<Rightarrow> nat option" where
  "find_index n p = List.find p [0..<n]"

text \<open>The order of \<open>str\<close>, and a linear-time check that a list is strictly ascending in it.\<close>

fun str_less :: "string \<Rightarrow> string \<Rightarrow> bool" where
  "str_less [] ys \<longleftrightarrow> ys \<noteq> []"
| "str_less (x # xs) [] \<longleftrightarrow> False"
| "str_less (x # xs) (y # ys) \<longleftrightarrow>
     (of_char x :: nat) < of_char y \<or> x = y \<and> str_less xs ys"

fun ascending :: "string list \<Rightarrow> bool" where
  "ascending (x # y # zs) \<longleftrightarrow> str_less x y \<and> ascending (y # zs)"
| "ascending zs \<longleftrightarrow> True"

section \<open>Interfaces\<close>

text \<open>
  An enumeration with a canonical wire spelling. \<open>to_wire\<close> prints, \<open>of_wire\<close> parses; the
  parser accepts what the printer writes and nothing else.
\<close>

locale wire_enum =
  fixes to_wire :: "'e \<Rightarrow> 'w" and of_wire :: "'w \<Rightarrow> 'e option"
  assumes of_to: "of_wire (to_wire e) = Some e"
    and of_some: "of_wire w = Some e \<Longrightarrow> w = to_wire e"
begin

lemma of_wire_iff: "of_wire w = Some e \<longleftrightarrow> w = to_wire e"
  using of_to of_some by blast

lemma to_wire_inj: "to_wire a = to_wire b \<longleftrightarrow> a = b"
  by (metis of_to option.inject)

lemma of_wire_none: "of_wire w = None \<longleftrightarrow> w \<notin> range to_wire"
  by (metis not_Some_eq of_wire_iff rangeE rangeI)

end

text \<open>A deterministic machine and a property each of its steps keeps.\<close>

locale step_system =
  fixes step :: "'s \<Rightarrow> 'e \<Rightarrow> 's" and inv :: "'s \<Rightarrow> bool"
  assumes step_inv: "inv s \<Longrightarrow> inv (step s e)"
begin

lemma run_inv: "inv s \<Longrightarrow> inv (foldl step s es)"
  by (induction es arbitrary: s) (auto intro: step_inv)

end

section \<open>Lemmas\<close>

lemma sat_add_u64_le [simp]: "sat_add_u64 a b \<le> u64_max"
  by (simp add: sat_add_u64_def)

lemma sat_add_u64_ge: "a \<le> u64_max \<Longrightarrow> a \<le> sat_add_u64 a b"
  by (simp add: sat_add_u64_def)

lemma sat_add_u64_mono: "a \<le> c \<Longrightarrow> b \<le> d \<Longrightarrow> sat_add_u64 a b \<le> sat_add_u64 c d"
  by (auto simp: sat_add_u64_def min_def)

lemma position_None: "position P xs = None \<longleftrightarrow> (\<forall>x \<in> set xs. \<not> P x)"
  by (induction xs) auto

lemma position_Some:
  "position P xs = Some i \<longleftrightarrow> i < length xs \<and> P (xs ! i) \<and> (\<forall>j < i. \<not> P (xs ! j))"
proof (induction xs arbitrary: i)
  case Nil
  then show ?case by simp
next
  case (Cons x xs)
  show ?case
  proof (cases i)
    case 0
    then show ?thesis by auto
  next
    case (Suc k)
    then show ?thesis
      using Cons.IH [of k] by (auto simp: All_less_Suc2)
  qed
qed

lemma position_nth: "i < length xs \<Longrightarrow> P (xs ! i) \<Longrightarrow> \<exists>k \<le> i. position P xs = Some k"
proof (cases "position P xs")
  case None
  assume "i < length xs" and "P (xs ! i)"
  with None show ?thesis by (auto simp: position_None)
next
  case (Some k)
  assume "i < length xs" and "P (xs ! i)"
  with Some show ?thesis by (metis not_le position_Some)
qed

lemma remove_at_split:
  "i < length xs \<Longrightarrow> xs = take i xs @ xs ! i # drop (Suc i) xs"
  by (simp add: id_take_nth_drop)

lemma length_remove_at [simp]: "i < length xs \<Longrightarrow> length (remove_at i xs) = length xs - 1"
  by (simp add: remove_at_def)

lemma set_remove_at: "set (remove_at i xs) \<subseteq> set xs"
  using set_take_subset [of i xs] set_drop_subset [of "Suc i" xs] by (auto simp: remove_at_def)

lemma in_set_remove_atD: "x \<in> set (remove_at i xs) \<Longrightarrow> x \<in> set xs"
  by (rule subsetD [OF set_remove_at])

lemma mset_remove_at:
  assumes "i < length xs"
  shows "mset (map f xs) = add_mset (f (xs ! i)) (mset (map f (remove_at i xs)))"
proof -
  have "mset (map f xs) = mset (map f (take i xs @ xs ! i # drop (Suc i) xs))"
    using remove_at_split [OF assms] by simp
  then show ?thesis by (simp add: remove_at_def)
qed

lemma filter_remove_at:
  assumes "i < length xs" and "\<not> P (xs ! i)"
  shows "filter P (remove_at i xs) = filter P xs"
proof -
  have "filter P xs = filter P (take i xs @ xs ! i # drop (Suc i) xs)"
    using remove_at_split [OF assms(1)] by simp
  then show ?thesis using assms(2) by (simp add: remove_at_def)
qed

lemma filter_remove_first:
  assumes "i < length xs" and "P (xs ! i)" and "\<forall>j < i. \<not> P (xs ! j)"
  shows "filter P xs = xs ! i # filter P (remove_at i xs)"
proof -
  have none: "filter P (take i xs) = []"
    using assms(1,3) by (auto simp: filter_empty_conv in_set_conv_nth)
  have "filter P xs = filter P (take i xs @ xs ! i # drop (Suc i) xs)"
    using remove_at_split [OF assms(1)] by simp
  then show ?thesis using none assms(2) by (simp add: remove_at_def)
qed

lemma find_index_Some:
  "find_index n p = Some i \<longleftrightarrow> i < n \<and> p i \<and> (\<forall>j < i. \<not> p j)"
  by (auto simp: find_index_def find_Some_iff)

lemma find_index_None: "find_index n p = None \<longleftrightarrow> (\<forall>i < n. \<not> p i)"
  by (auto simp: find_index_def find_None_iff)

lemma str_less_irrefl: "\<not> str_less x x"
  by (induction x) auto

lemma str_less_trans: "str_less x y \<Longrightarrow> str_less y z \<Longrightarrow> str_less x z"
proof (induction x y arbitrary: z rule: str_less.induct)
  case (1 ys)
  then show ?case by (cases ys; cases z) auto
next
  case (3 x xs y ys)
  then show ?case by (cases z) auto
qed simp

lemma ascending_sorted: "ascending xs \<Longrightarrow> sorted_wrt str_less xs"
proof (induction xs rule: ascending.induct)
  case (1 x y zs)
  then have "sorted_wrt str_less (y # zs)" "str_less x y" by simp_all
  then show ?case by (auto intro: str_less_trans)
qed auto

lemma ascending_distinct: "ascending xs \<Longrightarrow> distinct xs"
proof -
  assume "ascending xs"
  then have "sorted_wrt str_less xs" by (rule ascending_sorted)
  then show ?thesis
    by (induction xs) (auto simp: str_less_irrefl)
qed

lemma length_u64_to_be_bytes [simp]: "length (u64_to_be_bytes w) = 8"
  by (simp add: u64_to_be_bytes_def)

end
