(* ===== verification/Engine_Time.thy ===== *)
theory Engine_Time
  imports Prelude
begin

text \<open>
  The engine's clock and the reconnect schedule: \<open>engine/time.rs\<close> and
  \<open>engine/backoff.rs\<close>.

  A \<open>Duration\<close> is a number of nanoseconds no greater than \<open>duration_max\<close> (Rust keeps a
  \<open>u64\<close> of seconds and a nanosecond part); its arithmetic saturates there. An \<open>Instant\<close>
  is a record with its \<open>u64\<close> of milliseconds, and adding a duration saturates at the end of
  the clock. The \<open>u32\<close> and \<open>u64\<close> quantities are naturals and each narrowing of the
  source is written out.

  The lemmas show that time never runs backwards under \<open>+\<close>, that a reconnect wait stays
  between its base and its base plus the random range, grows with the attempt and stops
  growing after \<open>repeat_times\<close> doublings.
\<close>

section \<open>Durations\<close>

type_synonym duration = nat

definition duration_max :: duration where
  "duration_max = u64_max * 1000000000 + 999999999"

definition from_millis :: "nat \<Rightarrow> duration" where
  "from_millis ms = ms * 1000000"

definition from_secs :: "nat \<Rightarrow> duration" where
  "from_secs s = s * 1000000000"

definition as_millis :: "duration \<Rightarrow> nat" where
  "as_millis d = d div 1000000"

definition duration_saturating_mul :: "duration \<Rightarrow> nat \<Rightarrow> duration" where
  "duration_saturating_mul d k = min (d * k) duration_max"

definition duration_saturating_add :: "duration \<Rightarrow> duration \<Rightarrow> duration" where
  "duration_saturating_add a b = min (a + b) duration_max"

section \<open>Instants and timers\<close>

record instant =
  millis :: nat

definition instant_from_millis :: "nat \<Rightarrow> instant" where
  "instant_from_millis ms = \<lparr>millis = ms\<rparr>"

definition instant_zero :: instant where
  "instant_zero = instant_from_millis 0"

definition saturating_duration_since :: "instant \<Rightarrow> instant \<Rightarrow> duration" where
  "saturating_duration_since t earlier = from_millis (millis t - millis earlier)"

definition instant_add :: "instant \<Rightarrow> duration \<Rightarrow> instant" where
  "instant_add t d =
     (let ms = (if as_millis d \<le> u64_max then as_millis d else u64_max)
      in \<lparr>millis = sat_add_u64 (millis t) ms\<rparr>)"

datatype timer = CallTimeout | HeartbeatTimer | BootRetry | TransactionRetry | DrainDeadline

section \<open>Reconnect back-off\<close>

record backoff =
  wait_minimum :: duration
  random_range :: duration
  repeat_times :: nat

definition backoff_default :: backoff where
  "backoff_default =
     \<lparr>wait_minimum = from_secs 10, random_range = from_secs 10, repeat_times = 3\<rparr>"

definition backoff_immediate :: backoff where
  "backoff_immediate = \<lparr>wait_minimum = 0, random_range = 0, repeat_times = 0\<rparr>"

datatype jitter = Jitter (jitter_bits: nat)

definition jitter_none :: jitter where
  "jitter_none = Jitter 0"

definition jitter_full :: jitter where
  "jitter_full = Jitter u32_max"

text \<open>\<open>None\<close> is the panic of the \<open>assert!\<close>.\<close>

definition from_ratio :: "nat \<Rightarrow> nat \<Rightarrow> jitter option" where
  "from_ratio numerator denominator =
     (if denominator = 0 then None
      else if numerator \<ge> denominator then Some jitter_full
      else
        let scaled = (numerator * u32_max + denominator div 2) div denominator
        in Some (Jitter (scaled mod 2 ^ 32)))"

definition of_millis :: "jitter \<Rightarrow> nat \<Rightarrow> nat" where
  "of_millis j ms =
     (let whole = u32_max;
          scaled = (ms * jitter_bits j + whole div 2) div whole
      in if scaled > u64_max then u64_max else scaled)"

definition delay :: "backoff \<Rightarrow> nat \<Rightarrow> jitter \<Rightarrow> duration" where
  "delay b attempt j =
     (let doublings = (if attempt < repeat_times b then attempt else repeat_times b);
          factor = 2 ^ (if doublings < 32 then doublings else 32);
          base = duration_saturating_mul (wait_minimum b)
                   (if factor > u32_max then u32_max else factor);
          spread = of_millis j (as_millis (random_range b))
      in duration_saturating_add base (from_millis spread))"

section \<open>Lemmas\<close>

lemma instant_add_ge: "millis t \<le> u64_max \<Longrightarrow> millis t \<le> millis (instant_add t d)"
  by (simp add: instant_add_def Let_def sat_add_u64_ge)

lemma instant_add_le [simp]: "millis (instant_add t d) \<le> u64_max"
  by (simp add: instant_add_def Let_def)

lemma instant_add_since:
  assumes "millis t + as_millis d \<le> u64_max"
  shows "saturating_duration_since (instant_add t d) t = from_millis (as_millis d)"
  using assms by (simp add: saturating_duration_since_def instant_add_def sat_add_u64_def Let_def)

lemma u32_max_pos [simp]: "0 < u32_max"
  by (simp add: u32_max_def)

text \<open>A jitter's share of a range never exceeds the range; the whole jitter is the whole range.\<close>

lemma of_millis_full: "ms \<le> u64_max \<Longrightarrow> of_millis jitter_full ms = ms"
proof -
  assume le: "ms \<le> u64_max"
  have "(ms * u32_max + u32_max div 2) div u32_max = ms"
    by (simp add: u32_max_def)
  then show ?thesis using le by (simp add: of_millis_def jitter_full_def)
qed

lemma of_millis_none: "of_millis jitter_none ms = 0"
  by (simp add: of_millis_def jitter_none_def u32_max_def)

lemma of_millis_mono:
  assumes "jitter_bits i \<le> jitter_bits j"
  shows "of_millis i ms \<le> of_millis j ms"
proof -
  have "(ms * jitter_bits i + u32_max div 2) div u32_max
        \<le> (ms * jitter_bits j + u32_max div 2) div u32_max"
    using assms by (intro div_le_mono add_right_mono mult_le_mono2)
  then show ?thesis by (simp add: of_millis_def Let_def)
qed

lemma of_millis_le:
  assumes "jitter_bits j \<le> u32_max"
  shows "of_millis j ms \<le> ms"
proof -
  have "(ms * jitter_bits j + u32_max div 2) div u32_max
        \<le> (ms * u32_max + u32_max div 2) div u32_max"
    using assms by (intro div_le_mono add_right_mono mult_le_mono2)
  also have "\<dots> = ms" by (simp add: u32_max_def)
  finally show ?thesis by (simp add: of_millis_def Let_def)
qed

lemma from_ratio_bits: "from_ratio n d = Some j \<Longrightarrow> jitter_bits j \<le> u32_max"
  by (auto simp: from_ratio_def jitter_full_def Let_def u32_max_def less_Suc_eq_le
           split: if_splits intro: order_trans [OF less_imp_le [OF mod_less_divisor]])

text \<open>The cast in \<open>from_ratio\<close> loses nothing.\<close>

lemma from_ratio_exact:
  assumes "n < d"
  shows "(n * u32_max + d div 2) div d < 2 ^ 32"
proof -
  have "n * u32_max + d div 2 < d * 2 ^ 32"
  proof -
    have "n * u32_max \<le> (d - 1) * u32_max" using assms by (intro mult_le_mono1) simp
    also have "\<dots> = d * u32_max - u32_max" by (simp add: diff_mult_distrib)
    finally have "n * u32_max \<le> d * u32_max - u32_max" .
    moreover have "d * u32_max + d = d * 2 ^ 32" by (simp add: u32_max_def)
    moreover have "0 < d" using assms by simp
    ultimately show ?thesis using u32_max_pos by linarith
  qed
  then show ?thesis by (simp add: less_mult_imp_div_less mult.commute)
qed

definition backoff_factor :: "backoff \<Rightarrow> nat \<Rightarrow> nat" where
  "backoff_factor b attempt = min (2 ^ min attempt (repeat_times b)) u32_max"

lemma capped_shift:
  "(if (2::nat) ^ (if n < 32 then n else 32) > u32_max then u32_max
    else 2 ^ (if n < 32 then n else 32)) = min (2 ^ n) u32_max"
proof (cases "n < 32")
  case True
  then have "(2::nat) ^ n < 2 ^ 32" by (rule power_strict_increasing) simp
  then show ?thesis using True by (simp add: u32_max_def)
next
  case False
  then have "(2::nat) ^ 32 \<le> 2 ^ n" by (intro power_increasing) auto
  then show ?thesis using False by (simp add: u32_max_def)
qed

lemma delay_factor:
  "delay b attempt j =
     min (min (wait_minimum b * backoff_factor b attempt) duration_max
          + of_millis j (as_millis (random_range b)) * 1000000) duration_max"
proof -
  have "(if attempt < repeat_times b then attempt else repeat_times b) =
        min attempt (repeat_times b)"
    by simp
  then show ?thesis
    unfolding delay_def backoff_factor_def Let_def duration_saturating_mul_def
      duration_saturating_add_def from_millis_def
    by (simp only: capped_shift)
qed

lemma backoff_factor_mono: "a \<le> c \<Longrightarrow> backoff_factor b a \<le> backoff_factor b c"
  unfolding backoff_factor_def by (intro min.mono power_increasing) auto

lemma backoff_factor_top: "backoff_factor b n \<le> backoff_factor b (repeat_times b)"
  using backoff_factor_mono [of n "max n (repeat_times b)" b]
  by (simp add: backoff_factor_def)

lemma backoff_factor_doubles:
  assumes "a < repeat_times b" and "a < 31"
  shows "backoff_factor b (Suc a) = 2 * backoff_factor b a"
proof -
  have "(2::nat) ^ Suc a \<le> 2 ^ 31" using assms(2) by (intro power_increasing) auto
  then show ?thesis using assms(1) by (simp add: backoff_factor_def u32_max_def min_def)
qed

text \<open>
  C11. The reconnect wait before every attempt, whatever the jitter, is at least the doubled
  minimum wait and at most that plus the random range (unless the clock's own maximum
  intervenes); it doubles from one attempt to the next until \<open>repeat_times\<close> doublings have
  happened, never shrinks, and is constant from then on.
\<close>

theorem backoff_schedule:
  assumes "jitter_bits j \<le> u32_max"
    and "wait_minimum b * backoff_factor b (repeat_times b) + random_range b \<le> duration_max"
  shows "wait_minimum b * backoff_factor b n \<le> delay b n j \<and>
    delay b n j \<le> wait_minimum b * backoff_factor b n + random_range b \<and>
    (\<forall>m. n \<le> m \<longrightarrow> delay b n j \<le> delay b m j) \<and>
    (repeat_times b \<le> n \<longrightarrow> delay b n j = delay b (repeat_times b) j) \<and>
    (n < repeat_times b \<and> n < 31 \<longrightarrow>
       delay b (Suc n) jitter_none = 2 * delay b n jitter_none)"
proof -
  let ?w = "\<lambda>n. wait_minimum b * backoff_factor b n"
  let ?s = "\<lambda>j. of_millis j (as_millis (random_range b)) * 1000000"
  have s: "?s i \<le> random_range b" if "jitter_bits i \<le> u32_max" for i
  proof -
    have "?s i \<le> as_millis (random_range b) * 1000000"
      using of_millis_le [OF that] by (rule mult_le_mono1)
    also have "\<dots> \<le> random_range b" by (simp add: as_millis_def)
    finally show ?thesis .
  qed
  have w: "?w n \<le> ?w (repeat_times b)" for n
    by (intro mult_le_mono2 backoff_factor_top)
  have d: "delay b n i = ?w n + ?s i" if "jitter_bits i \<le> u32_max" for n i
  proof -
    have "?w n + ?s i \<le> duration_max" using s [OF that] w [of n] assms(2) by linarith
    then show ?thesis unfolding delay_factor by linarith
  qed
  have "delay b n j \<le> delay b m j" if "n \<le> m" for m
    using d [OF assms(1)] backoff_factor_mono [OF that] by simp
  moreover have "delay b n j = delay b (repeat_times b) j" if "repeat_times b \<le> n"
    using that by (simp add: delay_factor backoff_factor_def)
  moreover have "delay b (Suc n) jitter_none = 2 * delay b n jitter_none"
    if "n < repeat_times b" "n < 31"
    using d [of jitter_none] backoff_factor_doubles [OF that]
    by (simp add: jitter_none_def of_millis_none [unfolded jitter_none_def])
  ultimately show ?thesis
    using d [OF assms(1)] s [OF assms(1)] by simp
qed

theorem backoff_schedule_witness:
  "delay backoff_default 4 jitter_full = delay backoff_default 3 jitter_full \<and>
   delay backoff_default 2 jitter_none = 2 * delay backoff_default 1 jitter_none \<and>
   delay backoff_default 3 jitter_full = from_secs 90"
  using backoff_schedule [of jitter_full backoff_default 4]
    backoff_schedule [of jitter_full backoff_default 1]
  by (simp add: backoff_default_def jitter_full_def u32_max_def backoff_factor_def from_secs_def
      duration_max_def u64_max_def delay_def of_millis_def as_millis_def from_millis_def
      duration_saturating_mul_def duration_saturating_add_def Let_def)

end
