(* ===== verification/Version.thy ===== *)
theory Version
  imports Prelude
begin

text \<open>
  \<open>src/src/version.rs\<close>: the protocol versions, what each of them has, and the negotiation
  of the WebSocket subprotocol. A client offers a list of versions in order of preference
  (\<open>subprotocol_new\<close>), a server picks one (\<open>select\<close>), the client checks the pick
  (\<open>accept\<close>).
\<close>

section \<open>Versions\<close>

datatype version = V1_6 | V2_0_1 | V2_1

text \<open>The derived order: oldest first.\<close>

fun version_rank :: "version \<Rightarrow> nat" where
  "version_rank V1_6 = 0"
| "version_rank V2_0_1 = 1"
| "version_rank V2_1 = 2"

definition ALL_versions :: "version list" where
  "ALL_versions = [V1_6, V2_0_1, V2_1]"

fun subprotocol :: "version \<Rightarrow> string" where
  "subprotocol V1_6 = ''ocpp1.6''"
| "subprotocol V2_0_1 = ''ocpp2.0.1''"
| "subprotocol V2_1 = ''ocpp2.1''"

fun slug :: "version \<Rightarrow> string" where
  "slug V1_6 = ''v1_6''"
| "slug V2_0_1 = ''v2_0_1''"
| "slug V2_1 = ''v2_1''"

definition from_subprotocol :: "string \<Rightarrow> version option" where
  "from_subprotocol token =
     (let t = trim token in
      if t = ''ocpp1.6'' then Some V1_6
      else if t = ''ocpp2.0.1'' then Some V2_0_1
      else if t = ''ocpp2.1'' then Some V2_1
      else None)"

definition has_extended_message_types :: "version \<Rightarrow> bool" where
  "has_extended_message_types v \<longleftrightarrow> v = V2_1"

definition has_rpc_framework_error :: "version \<Rightarrow> bool" where
  "has_rpc_framework_error v \<longleftrightarrow> v \<noteq> V1_6"

definition uses_unreadable_message_id :: "version \<Rightarrow> bool" where
  "uses_unreadable_message_id v \<longleftrightarrow> v \<noteq> V1_6"

definition strict_synchronicity :: "version \<Rightarrow> bool" where
  "strict_synchronicity v \<longleftrightarrow> v \<noteq> V1_6"

definition supports_compression :: "version \<Rightarrow> bool" where
  "supports_compression v \<longleftrightarrow> v = V2_1"

fun version_to_string :: "version \<Rightarrow> string" where
  "version_to_string V1_6 = ''1.6''"
| "version_to_string V2_0_1 = ''2.0.1''"
| "version_to_string V2_1 = ''2.1''"

definition version_from_str :: "string \<Rightarrow> version option" where
  "version_from_str value =
     (let t = trim value in
      if t \<in> set [''1.6'', ''1.6J'', ''1.6j'', ''ocpp1.6''] then Some V1_6
      else if t \<in> set [''2.0.1'', ''ocpp2.0.1''] then Some V2_0_1
      else if t \<in> set [''2.1'', ''ocpp2.1''] then Some V2_1
      else None)"

section \<open>Negotiation\<close>

datatype negotiation_error = NoSubprotocol | UnsupportedSubprotocol | NotOffered version

record subprotocol_offer =
  offered :: "version list"

fun dedup_onto :: "version list \<Rightarrow> version list \<Rightarrow> version list" where
  "dedup_onto acc [] = acc"
| "dedup_onto acc (v # vs) = dedup_onto (if v \<in> set acc then acc else acc @ [v]) vs"

definition subprotocol_new :: "version list \<Rightarrow> subprotocol_offer" where
  "subprotocol_new versions = \<lparr>offered = dedup_onto [] versions\<rparr>"

definition subprotocol_default :: subprotocol_offer where
  "subprotocol_default = subprotocol_new [V2_1, V2_0_1, V1_6]"

fun join_comma :: "string list \<Rightarrow> string" where
  "join_comma [] = []"
| "join_comma [t] = t"
| "join_comma (t # u # ts) = t @ '', '' @ join_comma (u # ts)"

definition header_value :: "subprotocol_offer \<Rightarrow> string" where
  "header_value s = join_comma (map subprotocol (offered s))"

definition select :: "subprotocol_offer \<Rightarrow> version list \<Rightarrow> version option" where
  "select s supported = List.find (\<lambda>v. v \<in> set supported) (offered s)"

definition accept :: "subprotocol_offer \<Rightarrow> string option \<Rightarrow> negotiation_error + version" where
  "accept s selected =
     (case selected of
        None \<Rightarrow> Inl NoSubprotocol
      | Some token \<Rightarrow>
          (case from_subprotocol token of
             None \<Rightarrow> Inl UnsupportedSubprotocol
           | Some v \<Rightarrow> if v \<in> set (offered s) then Inr v else Inl (NotOffered v)))"

section \<open>Lemmas\<close>

instantiation version :: linorder
begin

definition less_eq_version :: "version \<Rightarrow> version \<Rightarrow> bool" where
  "less_eq_version a b \<longleftrightarrow> version_rank a \<le> version_rank b"

definition less_version :: "version \<Rightarrow> version \<Rightarrow> bool" where
  "less_version a b \<longleftrightarrow> version_rank a < version_rank b"

instance
proof
  fix a b :: version
  show "a \<le> b \<Longrightarrow> b \<le> a \<Longrightarrow> a = b"
    by (cases a; cases b) (simp_all add: less_eq_version_def)
qed (auto simp: less_eq_version_def less_version_def)

end

lemma from_subprotocol_subprotocol [simp]: "from_subprotocol (subprotocol v) = Some v"
  by (induction v) code_simp+

lemma from_subprotocol_trimmed:
  "from_subprotocol t = Some v \<longleftrightarrow> trim t = subprotocol v"
  by (cases v) (auto simp: from_subprotocol_def Let_def)

lemma version_from_str_to_string [simp]: "version_from_str (version_to_string v) = Some v"
  by (induction v) code_simp+

lemma set_dedup_onto [simp]: "set (dedup_onto acc vs) = set acc \<union> set vs"
  by (induction acc vs rule: dedup_onto.induct) auto

lemma distinct_dedup_onto: "distinct acc \<Longrightarrow> distinct (dedup_onto acc vs)"
  by (induction acc vs rule: dedup_onto.induct) auto

lemma dedup_onto_distinct:
  "distinct (acc @ vs) \<Longrightarrow> dedup_onto acc vs = acc @ vs"
  by (induction acc vs rule: dedup_onto.induct) auto

lemma select_Some:
  "select s supported = Some v \<longleftrightarrow>
     (\<exists>i < length (offered s). v = offered s ! i \<and> v \<in> set supported
        \<and> (\<forall>j < i. offered s ! j \<notin> set supported))"
  by (auto simp: select_def find_Some_iff)

lemma select_None: "select s supported = None \<longleftrightarrow> set (offered s) \<inter> set supported = {}"
  by (auto simp: select_def find_None_iff)

text \<open>
  Subprotocol negotiation. A version is agreed on exactly when the client's offer and the
  server's support overlap; the agreed version is supported by the server, nothing the client
  prefers over it is, and the client accepts the token the server answers with as that
  version.
\<close>

theorem negotiation_agrees:
  "(select (subprotocol_new vs) supported = None \<longleftrightarrow> set vs \<inter> set supported = {}) \<and>
   (\<forall>v. select (subprotocol_new vs) supported = Some v \<longrightarrow>
      v \<in> set supported \<and>
      accept (subprotocol_new vs) (Some (subprotocol v)) = Inr v \<and>
      (\<exists>i < length (offered (subprotocol_new vs)). offered (subprotocol_new vs) ! i = v \<and>
         (\<forall>j < i. offered (subprotocol_new vs) ! j \<notin> set supported)))"
proof (intro conjI allI impI)
  show "(select (subprotocol_new vs) supported = None) = (set vs \<inter> set supported = {})"
    by (simp add: select_None subprotocol_new_def)
next
  fix v assume sel: "select (subprotocol_new vs) supported = Some v"
  then obtain i where i: "i < length (offered (subprotocol_new vs))"
    "v = offered (subprotocol_new vs) ! i" "v \<in> set supported"
    "\<forall>j < i. offered (subprotocol_new vs) ! j \<notin> set supported"
    by (auto simp: select_Some)
  then show "v \<in> set supported" by simp
  from i(1,2) have "v \<in> set (offered (subprotocol_new vs))" by simp
  then show "accept (subprotocol_new vs) (Some (subprotocol v)) = Inr v"
    by (simp add: accept_def)
  show "\<exists>i < length (offered (subprotocol_new vs)). offered (subprotocol_new vs) ! i = v \<and>
      (\<forall>j < i. offered (subprotocol_new vs) ! j \<notin> set supported)"
    using i by blast
qed

theorem negotiation_agrees_witness:
  "select (subprotocol_new [V2_1, V2_0_1, V2_1, V1_6]) [V1_6, V2_0_1] = Some V2_0_1 \<and>
   accept (subprotocol_new [V2_1, V2_0_1, V2_1, V1_6]) (Some ''ocpp2.0.1'') = Inr V2_0_1"
proof -
  have sel: "select (subprotocol_new [V2_1, V2_0_1, V2_1, V1_6]) [V1_6, V2_0_1] = Some V2_0_1"
    by (simp add: select_def subprotocol_new_def)
  with negotiation_agrees [of "[V2_1, V2_0_1, V2_1, V1_6]" "[V1_6, V2_0_1]"] show ?thesis
    by simp
qed

end
