(* ===== verification/Actions.thy ===== *)
theory Actions
  imports Version
begin

text \<open>
  \<open>src/src/message.rs\<close> (message kinds and origins), the action tables of
  \<open>src/src/v1_6/action.rs\<close>, \<open>src/src/v2_0_1/action.rs\<close> and \<open>src/src/v2_1/action.rs\<close>, and
  the version-aware lookups over them in \<open>src/src/actions.rs\<close>.

  A value of the per-version \<open>Action\<close> enumeration is represented by its wire name, which is
  also the name of its variant; \<open>from_wire\<close> yields it for the names that version defines.
\<close>

section \<open>Message kinds and origins\<close>

datatype message_kind = Call | Send

datatype origin = ChargingStationOrigin | CsmsOrigin | BothOrigin

definition from_charging_station :: "origin \<Rightarrow> bool" where
  "from_charging_station og \<longleftrightarrow> og = ChargingStationOrigin \<or> og = BothOrigin"

definition from_csms :: "origin \<Rightarrow> bool" where
  "from_csms og \<longleftrightarrow> og = CsmsOrigin \<or> og = BothOrigin"

type_synonym action = string

section \<open>OCPP 1.6\<close>

definition v1_6_ALL :: "action list" where
  "v1_6_ALL =
     [
      ''Authorize'', ''BootNotification'', ''CancelReservation'', ''CertificateSigned'',
      ''ChangeAvailability'', ''ChangeConfiguration'', ''ClearCache'',
      ''ClearChargingProfile'', ''DataTransfer'', ''DeleteCertificate'',
      ''DiagnosticsStatusNotification'', ''ExtendedTriggerMessage'',
      ''FirmwareStatusNotification'', ''GetCompositeSchedule'', ''GetConfiguration'',
      ''GetDiagnostics'', ''GetInstalledCertificateIds'', ''GetLocalListVersion'', ''GetLog'',
      ''Heartbeat'', ''InstallCertificate'', ''LogStatusNotification'', ''MeterValues'',
      ''RemoteStartTransaction'', ''RemoteStopTransaction'', ''ReserveNow'', ''Reset'',
      ''SecurityEventNotification'', ''SendLocalList'', ''SetChargingProfile'',
      ''SignCertificate'', ''SignedFirmwareStatusNotification'', ''SignedUpdateFirmware'',
      ''StartTransaction'', ''StatusNotification'', ''StopTransaction'', ''TriggerMessage'',
      ''UnlockConnector'', ''UpdateFirmware'']"

definition v1_6_from_wire :: "string \<Rightarrow> action option" where
  "v1_6_from_wire name =
     (if name \<in> set [
          ''Authorize'', ''BootNotification'', ''CancelReservation'', ''CertificateSigned'',
          ''ChangeAvailability'', ''ChangeConfiguration'', ''ClearCache'',
          ''ClearChargingProfile'', ''DataTransfer'', ''DeleteCertificate'',
          ''DiagnosticsStatusNotification'', ''ExtendedTriggerMessage'',
          ''FirmwareStatusNotification'', ''GetCompositeSchedule'', ''GetConfiguration'',
          ''GetDiagnostics'', ''GetInstalledCertificateIds'', ''GetLocalListVersion'',
          ''GetLog'', ''Heartbeat'', ''InstallCertificate'', ''LogStatusNotification'',
          ''MeterValues'', ''RemoteStartTransaction'', ''RemoteStopTransaction'',
          ''ReserveNow'', ''Reset'', ''SecurityEventNotification'', ''SendLocalList'',
          ''SetChargingProfile'', ''SignCertificate'', ''SignedFirmwareStatusNotification'',
          ''SignedUpdateFirmware'', ''StartTransaction'', ''StatusNotification'',
          ''StopTransaction'', ''TriggerMessage'', ''UnlockConnector'', ''UpdateFirmware'']
      then Some name else None)"

definition v1_6_kind :: "action \<Rightarrow> message_kind" where
  "v1_6_kind a = Call"

definition v1_6_origin_table :: "(action \<times> origin) list" where
  "v1_6_origin_table =
     [
      (''Authorize'', ChargingStationOrigin), (''BootNotification'', ChargingStationOrigin),
      (''CancelReservation'', CsmsOrigin), (''CertificateSigned'', CsmsOrigin),
      (''ChangeAvailability'', CsmsOrigin), (''ChangeConfiguration'', CsmsOrigin),
      (''ClearCache'', CsmsOrigin), (''ClearChargingProfile'', CsmsOrigin),
      (''DataTransfer'', BothOrigin), (''DeleteCertificate'', CsmsOrigin),
      (''DiagnosticsStatusNotification'', ChargingStationOrigin),
      (''ExtendedTriggerMessage'', CsmsOrigin),
      (''FirmwareStatusNotification'', ChargingStationOrigin),
      (''GetCompositeSchedule'', CsmsOrigin), (''GetConfiguration'', CsmsOrigin),
      (''GetDiagnostics'', CsmsOrigin), (''GetInstalledCertificateIds'', CsmsOrigin),
      (''GetLocalListVersion'', CsmsOrigin), (''GetLog'', CsmsOrigin),
      (''Heartbeat'', ChargingStationOrigin), (''InstallCertificate'', CsmsOrigin),
      (''LogStatusNotification'', ChargingStationOrigin),
      (''MeterValues'', ChargingStationOrigin), (''RemoteStartTransaction'', CsmsOrigin),
      (''RemoteStopTransaction'', CsmsOrigin), (''ReserveNow'', CsmsOrigin),
      (''Reset'', CsmsOrigin), (''SecurityEventNotification'', ChargingStationOrigin),
      (''SendLocalList'', CsmsOrigin), (''SetChargingProfile'', CsmsOrigin),
      (''SignCertificate'', ChargingStationOrigin),
      (''SignedFirmwareStatusNotification'', ChargingStationOrigin),
      (''SignedUpdateFirmware'', CsmsOrigin), (''StartTransaction'', ChargingStationOrigin),
      (''StatusNotification'', ChargingStationOrigin),
      (''StopTransaction'', ChargingStationOrigin), (''TriggerMessage'', CsmsOrigin),
      (''UnlockConnector'', CsmsOrigin), (''UpdateFirmware'', CsmsOrigin)]"

definition v1_6_origin :: "action \<Rightarrow> origin" where
  "v1_6_origin a = the (map_of v1_6_origin_table a)"

section \<open>OCPP 2.0.1\<close>

definition v2_0_1_ALL :: "action list" where
  "v2_0_1_ALL =
     [
      ''Authorize'', ''BootNotification'', ''CancelReservation'', ''CertificateSigned'',
      ''ChangeAvailability'', ''ClearCache'', ''ClearChargingProfile'',
      ''ClearDisplayMessage'', ''ClearVariableMonitoring'', ''ClearedChargingLimit'',
      ''CostUpdated'', ''CustomerInformation'', ''DataTransfer'', ''DeleteCertificate'',
      ''FirmwareStatusNotification'', ''Get15118EVCertificate'', ''GetBaseReport'',
      ''GetCertificateStatus'', ''GetChargingProfiles'', ''GetCompositeSchedule'',
      ''GetDisplayMessages'', ''GetInstalledCertificateIds'', ''GetLocalListVersion'',
      ''GetLog'', ''GetMonitoringReport'', ''GetReport'', ''GetTransactionStatus'',
      ''GetVariables'', ''Heartbeat'', ''InstallCertificate'', ''LogStatusNotification'',
      ''MeterValues'', ''NotifyChargingLimit'', ''NotifyCustomerInformation'',
      ''NotifyDisplayMessages'', ''NotifyEVChargingNeeds'', ''NotifyEVChargingSchedule'',
      ''NotifyEvent'', ''NotifyMonitoringReport'', ''NotifyReport'', ''PublishFirmware'',
      ''PublishFirmwareStatusNotification'', ''ReportChargingProfiles'',
      ''RequestStartTransaction'', ''RequestStopTransaction'', ''ReservationStatusUpdate'',
      ''ReserveNow'', ''Reset'', ''SecurityEventNotification'', ''SendLocalList'',
      ''SetChargingProfile'', ''SetDisplayMessage'', ''SetMonitoringBase'',
      ''SetMonitoringLevel'', ''SetNetworkProfile'', ''SetVariableMonitoring'',
      ''SetVariables'', ''SignCertificate'', ''StatusNotification'', ''TransactionEvent'',
      ''TriggerMessage'', ''UnlockConnector'', ''UnpublishFirmware'', ''UpdateFirmware'']"

definition v2_0_1_from_wire :: "string \<Rightarrow> action option" where
  "v2_0_1_from_wire name =
     (if name \<in> set [
          ''Authorize'', ''BootNotification'', ''CancelReservation'', ''CertificateSigned'',
          ''ChangeAvailability'', ''ClearCache'', ''ClearChargingProfile'',
          ''ClearDisplayMessage'', ''ClearVariableMonitoring'', ''ClearedChargingLimit'',
          ''CostUpdated'', ''CustomerInformation'', ''DataTransfer'', ''DeleteCertificate'',
          ''FirmwareStatusNotification'', ''Get15118EVCertificate'', ''GetBaseReport'',
          ''GetCertificateStatus'', ''GetChargingProfiles'', ''GetCompositeSchedule'',
          ''GetDisplayMessages'', ''GetInstalledCertificateIds'', ''GetLocalListVersion'',
          ''GetLog'', ''GetMonitoringReport'', ''GetReport'', ''GetTransactionStatus'',
          ''GetVariables'', ''Heartbeat'', ''InstallCertificate'', ''LogStatusNotification'',
          ''MeterValues'', ''NotifyChargingLimit'', ''NotifyCustomerInformation'',
          ''NotifyDisplayMessages'', ''NotifyEVChargingNeeds'', ''NotifyEVChargingSchedule'',
          ''NotifyEvent'', ''NotifyMonitoringReport'', ''NotifyReport'', ''PublishFirmware'',
          ''PublishFirmwareStatusNotification'', ''ReportChargingProfiles'',
          ''RequestStartTransaction'', ''RequestStopTransaction'', ''ReservationStatusUpdate'',
          ''ReserveNow'', ''Reset'', ''SecurityEventNotification'', ''SendLocalList'',
          ''SetChargingProfile'', ''SetDisplayMessage'', ''SetMonitoringBase'',
          ''SetMonitoringLevel'', ''SetNetworkProfile'', ''SetVariableMonitoring'',
          ''SetVariables'', ''SignCertificate'', ''StatusNotification'', ''TransactionEvent'',
          ''TriggerMessage'', ''UnlockConnector'', ''UnpublishFirmware'', ''UpdateFirmware'']
      then Some name else None)"

definition v2_0_1_kind :: "action \<Rightarrow> message_kind" where
  "v2_0_1_kind a = Call"

definition v2_0_1_origin_table :: "(action \<times> origin) list" where
  "v2_0_1_origin_table =
     [
      (''Authorize'', ChargingStationOrigin), (''BootNotification'', ChargingStationOrigin),
      (''CancelReservation'', CsmsOrigin), (''CertificateSigned'', CsmsOrigin),
      (''ChangeAvailability'', CsmsOrigin), (''ClearCache'', CsmsOrigin),
      (''ClearChargingProfile'', CsmsOrigin), (''ClearDisplayMessage'', CsmsOrigin),
      (''ClearVariableMonitoring'', CsmsOrigin),
      (''ClearedChargingLimit'', ChargingStationOrigin), (''CostUpdated'', CsmsOrigin),
      (''CustomerInformation'', CsmsOrigin), (''DataTransfer'', BothOrigin),
      (''DeleteCertificate'', CsmsOrigin),
      (''FirmwareStatusNotification'', ChargingStationOrigin),
      (''Get15118EVCertificate'', ChargingStationOrigin), (''GetBaseReport'', CsmsOrigin),
      (''GetCertificateStatus'', ChargingStationOrigin), (''GetChargingProfiles'', CsmsOrigin),
      (''GetCompositeSchedule'', CsmsOrigin), (''GetDisplayMessages'', CsmsOrigin),
      (''GetInstalledCertificateIds'', CsmsOrigin), (''GetLocalListVersion'', CsmsOrigin),
      (''GetLog'', CsmsOrigin), (''GetMonitoringReport'', CsmsOrigin),
      (''GetReport'', CsmsOrigin), (''GetTransactionStatus'', CsmsOrigin),
      (''GetVariables'', CsmsOrigin), (''Heartbeat'', ChargingStationOrigin),
      (''InstallCertificate'', CsmsOrigin), (''LogStatusNotification'', ChargingStationOrigin),
      (''MeterValues'', ChargingStationOrigin),
      (''NotifyChargingLimit'', ChargingStationOrigin),
      (''NotifyCustomerInformation'', ChargingStationOrigin),
      (''NotifyDisplayMessages'', ChargingStationOrigin),
      (''NotifyEVChargingNeeds'', ChargingStationOrigin),
      (''NotifyEVChargingSchedule'', ChargingStationOrigin),
      (''NotifyEvent'', ChargingStationOrigin),
      (''NotifyMonitoringReport'', ChargingStationOrigin),
      (''NotifyReport'', ChargingStationOrigin), (''PublishFirmware'', CsmsOrigin),
      (''PublishFirmwareStatusNotification'', ChargingStationOrigin),
      (''ReportChargingProfiles'', ChargingStationOrigin),
      (''RequestStartTransaction'', CsmsOrigin), (''RequestStopTransaction'', CsmsOrigin),
      (''ReservationStatusUpdate'', ChargingStationOrigin), (''ReserveNow'', CsmsOrigin),
      (''Reset'', CsmsOrigin), (''SecurityEventNotification'', ChargingStationOrigin),
      (''SendLocalList'', CsmsOrigin), (''SetChargingProfile'', CsmsOrigin),
      (''SetDisplayMessage'', CsmsOrigin), (''SetMonitoringBase'', CsmsOrigin),
      (''SetMonitoringLevel'', CsmsOrigin), (''SetNetworkProfile'', CsmsOrigin),
      (''SetVariableMonitoring'', CsmsOrigin), (''SetVariables'', CsmsOrigin),
      (''SignCertificate'', ChargingStationOrigin),
      (''StatusNotification'', ChargingStationOrigin),
      (''TransactionEvent'', ChargingStationOrigin), (''TriggerMessage'', CsmsOrigin),
      (''UnlockConnector'', CsmsOrigin), (''UnpublishFirmware'', CsmsOrigin),
      (''UpdateFirmware'', CsmsOrigin)]"

definition v2_0_1_origin :: "action \<Rightarrow> origin" where
  "v2_0_1_origin a = the (map_of v2_0_1_origin_table a)"

section \<open>OCPP 2.1\<close>

definition v2_1_ALL :: "action list" where
  "v2_1_ALL =
     [
      ''AFRRSignal'', ''AdjustPeriodicEventStream'', ''Authorize'', ''BatterySwap'',
      ''BootNotification'', ''CancelReservation'', ''CertificateSigned'',
      ''ChangeAvailability'', ''ChangeTransactionTariff'', ''ClearCache'',
      ''ClearChargingProfile'', ''ClearDERControl'', ''ClearDisplayMessage'', ''ClearTariffs'',
      ''ClearVariableMonitoring'', ''ClearedChargingLimit'', ''ClosePeriodicEventStream'',
      ''CostUpdated'', ''CustomerInformation'', ''DataTransfer'', ''DeleteCertificate'',
      ''FirmwareStatusNotification'', ''Get15118EVCertificate'', ''GetBaseReport'',
      ''GetCertificateChainStatus'', ''GetCertificateStatus'', ''GetChargingProfiles'',
      ''GetCompositeSchedule'', ''GetDERControl'', ''GetDisplayMessages'',
      ''GetInstalledCertificateIds'', ''GetLocalListVersion'', ''GetLog'',
      ''GetMonitoringReport'', ''GetPeriodicEventStream'', ''GetReport'', ''GetTariffs'',
      ''GetTransactionStatus'', ''GetVariables'', ''Heartbeat'', ''InstallCertificate'',
      ''LogStatusNotification'', ''MeterValues'', ''NotifyAllowedEnergyTransfer'',
      ''NotifyChargingLimit'', ''NotifyCustomerInformation'', ''NotifyDERAlarm'',
      ''NotifyDERStartStop'', ''NotifyDisplayMessages'', ''NotifyEVChargingNeeds'',
      ''NotifyEVChargingSchedule'', ''NotifyEvent'', ''NotifyMonitoringReport'',
      ''NotifyPeriodicEventStream'', ''NotifyPriorityCharging'', ''NotifyReport'',
      ''NotifySettlement'', ''NotifyWebPaymentStarted'', ''OpenPeriodicEventStream'',
      ''PublishFirmware'', ''PublishFirmwareStatusNotification'',
      ''PullDynamicScheduleUpdate'', ''ReportChargingProfiles'', ''ReportDERControl'',
      ''RequestBatterySwap'', ''RequestStartTransaction'', ''RequestStopTransaction'',
      ''ReservationStatusUpdate'', ''ReserveNow'', ''Reset'', ''SecurityEventNotification'',
      ''SendLocalList'', ''SetChargingProfile'', ''SetDERControl'', ''SetDefaultTariff'',
      ''SetDisplayMessage'', ''SetMonitoringBase'', ''SetMonitoringLevel'',
      ''SetNetworkProfile'', ''SetVariableMonitoring'', ''SetVariables'', ''SignCertificate'',
      ''StatusNotification'', ''TransactionEvent'', ''TriggerMessage'', ''UnlockConnector'',
      ''UnpublishFirmware'', ''UpdateDynamicSchedule'', ''UpdateFirmware'',
      ''UsePriorityCharging'', ''VatNumberValidation'']"

definition v2_1_from_wire :: "string \<Rightarrow> action option" where
  "v2_1_from_wire name =
     (if name \<in> set [
          ''AFRRSignal'', ''AdjustPeriodicEventStream'', ''Authorize'', ''BatterySwap'',
          ''BootNotification'', ''CancelReservation'', ''CertificateSigned'',
          ''ChangeAvailability'', ''ChangeTransactionTariff'', ''ClearCache'',
          ''ClearChargingProfile'', ''ClearDERControl'', ''ClearDisplayMessage'',
          ''ClearTariffs'', ''ClearVariableMonitoring'', ''ClearedChargingLimit'',
          ''ClosePeriodicEventStream'', ''CostUpdated'', ''CustomerInformation'',
          ''DataTransfer'', ''DeleteCertificate'', ''FirmwareStatusNotification'',
          ''Get15118EVCertificate'', ''GetBaseReport'', ''GetCertificateChainStatus'',
          ''GetCertificateStatus'', ''GetChargingProfiles'', ''GetCompositeSchedule'',
          ''GetDERControl'', ''GetDisplayMessages'', ''GetInstalledCertificateIds'',
          ''GetLocalListVersion'', ''GetLog'', ''GetMonitoringReport'',
          ''GetPeriodicEventStream'', ''GetReport'', ''GetTariffs'', ''GetTransactionStatus'',
          ''GetVariables'', ''Heartbeat'', ''InstallCertificate'', ''LogStatusNotification'',
          ''MeterValues'', ''NotifyAllowedEnergyTransfer'', ''NotifyChargingLimit'',
          ''NotifyCustomerInformation'', ''NotifyDERAlarm'', ''NotifyDERStartStop'',
          ''NotifyDisplayMessages'', ''NotifyEVChargingNeeds'', ''NotifyEVChargingSchedule'',
          ''NotifyEvent'', ''NotifyMonitoringReport'', ''NotifyPeriodicEventStream'',
          ''NotifyPriorityCharging'', ''NotifyReport'', ''NotifySettlement'',
          ''NotifyWebPaymentStarted'', ''OpenPeriodicEventStream'', ''PublishFirmware'',
          ''PublishFirmwareStatusNotification'', ''PullDynamicScheduleUpdate'',
          ''ReportChargingProfiles'', ''ReportDERControl'', ''RequestBatterySwap'',
          ''RequestStartTransaction'', ''RequestStopTransaction'', ''ReservationStatusUpdate'',
          ''ReserveNow'', ''Reset'', ''SecurityEventNotification'', ''SendLocalList'',
          ''SetChargingProfile'', ''SetDERControl'', ''SetDefaultTariff'',
          ''SetDisplayMessage'', ''SetMonitoringBase'', ''SetMonitoringLevel'',
          ''SetNetworkProfile'', ''SetVariableMonitoring'', ''SetVariables'',
          ''SignCertificate'', ''StatusNotification'', ''TransactionEvent'',
          ''TriggerMessage'', ''UnlockConnector'', ''UnpublishFirmware'',
          ''UpdateDynamicSchedule'', ''UpdateFirmware'', ''UsePriorityCharging'',
          ''VatNumberValidation'']
      then Some name else None)"

definition v2_1_kind :: "action \<Rightarrow> message_kind" where
  "v2_1_kind a = (if a = ''NotifyPeriodicEventStream'' then Send else Call)"

definition v2_1_origin_table :: "(action \<times> origin) list" where
  "v2_1_origin_table =
     [
      (''AFRRSignal'', CsmsOrigin), (''AdjustPeriodicEventStream'', CsmsOrigin),
      (''Authorize'', ChargingStationOrigin), (''BatterySwap'', ChargingStationOrigin),
      (''BootNotification'', ChargingStationOrigin), (''CancelReservation'', CsmsOrigin),
      (''CertificateSigned'', CsmsOrigin), (''ChangeAvailability'', CsmsOrigin),
      (''ChangeTransactionTariff'', CsmsOrigin), (''ClearCache'', CsmsOrigin),
      (''ClearChargingProfile'', CsmsOrigin), (''ClearDERControl'', CsmsOrigin),
      (''ClearDisplayMessage'', CsmsOrigin), (''ClearTariffs'', CsmsOrigin),
      (''ClearVariableMonitoring'', CsmsOrigin),
      (''ClearedChargingLimit'', ChargingStationOrigin),
      (''ClosePeriodicEventStream'', ChargingStationOrigin), (''CostUpdated'', CsmsOrigin),
      (''CustomerInformation'', CsmsOrigin), (''DataTransfer'', BothOrigin),
      (''DeleteCertificate'', CsmsOrigin),
      (''FirmwareStatusNotification'', ChargingStationOrigin),
      (''Get15118EVCertificate'', ChargingStationOrigin), (''GetBaseReport'', CsmsOrigin),
      (''GetCertificateChainStatus'', ChargingStationOrigin),
      (''GetCertificateStatus'', ChargingStationOrigin), (''GetChargingProfiles'', CsmsOrigin),
      (''GetCompositeSchedule'', CsmsOrigin), (''GetDERControl'', CsmsOrigin),
      (''GetDisplayMessages'', CsmsOrigin), (''GetInstalledCertificateIds'', CsmsOrigin),
      (''GetLocalListVersion'', CsmsOrigin), (''GetLog'', CsmsOrigin),
      (''GetMonitoringReport'', CsmsOrigin), (''GetPeriodicEventStream'', CsmsOrigin),
      (''GetReport'', CsmsOrigin), (''GetTariffs'', CsmsOrigin),
      (''GetTransactionStatus'', CsmsOrigin), (''GetVariables'', CsmsOrigin),
      (''Heartbeat'', ChargingStationOrigin), (''InstallCertificate'', CsmsOrigin),
      (''LogStatusNotification'', ChargingStationOrigin),
      (''MeterValues'', ChargingStationOrigin), (''NotifyAllowedEnergyTransfer'', CsmsOrigin),
      (''NotifyChargingLimit'', ChargingStationOrigin),
      (''NotifyCustomerInformation'', ChargingStationOrigin),
      (''NotifyDERAlarm'', ChargingStationOrigin),
      (''NotifyDERStartStop'', ChargingStationOrigin),
      (''NotifyDisplayMessages'', ChargingStationOrigin),
      (''NotifyEVChargingNeeds'', ChargingStationOrigin),
      (''NotifyEVChargingSchedule'', ChargingStationOrigin),
      (''NotifyEvent'', ChargingStationOrigin),
      (''NotifyMonitoringReport'', ChargingStationOrigin),
      (''NotifyPeriodicEventStream'', ChargingStationOrigin),
      (''NotifyPriorityCharging'', ChargingStationOrigin),
      (''NotifyReport'', ChargingStationOrigin), (''NotifySettlement'', ChargingStationOrigin),
      (''NotifyWebPaymentStarted'', ChargingStationOrigin),
      (''OpenPeriodicEventStream'', ChargingStationOrigin), (''PublishFirmware'', CsmsOrigin),
      (''PublishFirmwareStatusNotification'', ChargingStationOrigin),
      (''PullDynamicScheduleUpdate'', ChargingStationOrigin),
      (''ReportChargingProfiles'', ChargingStationOrigin),
      (''ReportDERControl'', ChargingStationOrigin), (''RequestBatterySwap'', CsmsOrigin),
      (''RequestStartTransaction'', CsmsOrigin), (''RequestStopTransaction'', CsmsOrigin),
      (''ReservationStatusUpdate'', ChargingStationOrigin), (''ReserveNow'', CsmsOrigin),
      (''Reset'', CsmsOrigin), (''SecurityEventNotification'', ChargingStationOrigin),
      (''SendLocalList'', CsmsOrigin), (''SetChargingProfile'', CsmsOrigin),
      (''SetDERControl'', CsmsOrigin), (''SetDefaultTariff'', CsmsOrigin),
      (''SetDisplayMessage'', CsmsOrigin), (''SetMonitoringBase'', CsmsOrigin),
      (''SetMonitoringLevel'', CsmsOrigin), (''SetNetworkProfile'', CsmsOrigin),
      (''SetVariableMonitoring'', CsmsOrigin), (''SetVariables'', CsmsOrigin),
      (''SignCertificate'', ChargingStationOrigin),
      (''StatusNotification'', ChargingStationOrigin),
      (''TransactionEvent'', ChargingStationOrigin), (''TriggerMessage'', CsmsOrigin),
      (''UnlockConnector'', CsmsOrigin), (''UnpublishFirmware'', CsmsOrigin),
      (''UpdateDynamicSchedule'', CsmsOrigin), (''UpdateFirmware'', CsmsOrigin),
      (''UsePriorityCharging'', CsmsOrigin), (''VatNumberValidation'', ChargingStationOrigin)]"

definition v2_1_origin :: "action \<Rightarrow> origin" where
  "v2_1_origin a = the (map_of v2_1_origin_table a)"

section \<open>The version-aware lookups\<close>

fun kind_of :: "version \<Rightarrow> string \<Rightarrow> message_kind option" where
  "kind_of V1_6 a = map_option v1_6_kind (v1_6_from_wire a)"
| "kind_of V2_0_1 a = map_option v2_0_1_kind (v2_0_1_from_wire a)"
| "kind_of V2_1 a = map_option v2_1_kind (v2_1_from_wire a)"

definition is_known :: "version \<Rightarrow> string \<Rightarrow> bool" where
  "is_known v a \<longleftrightarrow> kind_of v a \<noteq> None"

fun origin_of :: "version \<Rightarrow> string \<Rightarrow> origin option" where
  "origin_of V1_6 a = map_option v1_6_origin (v1_6_from_wire a)"
| "origin_of V2_0_1 a = map_option v2_0_1_origin (v2_0_1_from_wire a)"
| "origin_of V2_1 a = map_option v2_1_origin (v2_1_from_wire a)"

fun is_transaction_related :: "version \<Rightarrow> string \<Rightarrow> bool" where
  "is_transaction_related V1_6 a \<longleftrightarrow>
     a \<in> set [''StartTransaction'', ''StopTransaction'', ''MeterValues'']"
| "is_transaction_related V2_0_1 a \<longleftrightarrow> a = ''TransactionEvent''"
| "is_transaction_related V2_1 a \<longleftrightarrow> a = ''TransactionEvent''"

definition solicited_by :: "version \<Rightarrow> string \<Rightarrow> string list" where
  "solicited_by v requested =
     (if requested \<in> set [''GetBaseReport'', ''GetReport''] then [''NotifyReport'']
      else if requested = ''GetMonitoringReport'' then [''NotifyMonitoringReport'']
      else if requested = ''CustomerInformation'' then [''NotifyCustomerInformation'']
      else if requested = ''GetDisplayMessages'' then [''NotifyDisplayMessages'']
      else if requested = ''GetChargingProfiles'' then [''ReportChargingProfiles'']
      else if requested = ''GetDERControl'' then [''ReportDERControl'']
      else if requested = ''GetLog'' then [''LogStatusNotification'']
      else if requested \<in> set [''UpdateFirmware'', ''SignedUpdateFirmware'']
      then [''FirmwareStatusNotification'', ''SignedFirmwareStatusNotification'']
      else if requested = ''PublishFirmware'' then [''PublishFirmwareStatusNotification'']
      else if requested = ''GetDiagnostics'' then [''DiagnosticsStatusNotification'']
      else [])"

section \<open>Lemmas\<close>

lemmas from_wire_defs = v1_6_from_wire_def v2_0_1_from_wire_def v2_1_from_wire_def

fun all_actions :: "version \<Rightarrow> action list" where
  "all_actions V1_6 = v1_6_ALL"
| "all_actions V2_0_1 = v2_0_1_ALL"
| "all_actions V2_1 = v2_1_ALL"

lemma from_wire_ALL:
  "v1_6_from_wire a = (if a \<in> set v1_6_ALL then Some a else None)"
  "v2_0_1_from_wire a = (if a \<in> set v2_0_1_ALL then Some a else None)"
  "v2_1_from_wire a = (if a \<in> set v2_1_ALL then Some a else None)"
  by (simp_all only: from_wire_defs v1_6_ALL_def v2_0_1_ALL_def v2_1_ALL_def)

lemma kind_known: "kind_of v a \<noteq> None \<longleftrightarrow> a \<in> set (all_actions v)"
  by (cases v) (simp_all add: from_wire_ALL)

lemma origin_known: "origin_of v a \<noteq> None \<longleftrightarrow> a \<in> set (all_actions v)"
  by (cases v) (simp_all add: from_wire_ALL)

fun origin_table :: "version \<Rightarrow> (action \<times> origin) list" where
  "origin_table V1_6 = v1_6_origin_table"
| "origin_table V2_0_1 = v2_0_1_origin_table"
| "origin_table V2_1 = v2_1_origin_table"

lemma stream_known: "''NotifyPeriodicEventStream'' \<in> set v2_1_ALL"
  by (simp add: v2_1_ALL_def)

lemma kind_of_Send: "kind_of v a = Some Send \<longleftrightarrow> v = V2_1 \<and> a = ''NotifyPeriodicEventStream''"
  using stream_known
  by (cases v) (auto simp: from_wire_ALL v1_6_kind_def v2_0_1_kind_def v2_1_kind_def)

text \<open>Every pair of a licensing request and one of its follow-ups.\<close>

definition follow_ups :: "(action \<times> action) list" where
  "follow_ups =
     [(''GetBaseReport'', ''NotifyReport''), (''GetReport'', ''NotifyReport''),
      (''GetMonitoringReport'', ''NotifyMonitoringReport''),
      (''CustomerInformation'', ''NotifyCustomerInformation''),
      (''GetDisplayMessages'', ''NotifyDisplayMessages''),
      (''GetChargingProfiles'', ''ReportChargingProfiles''),
      (''GetDERControl'', ''ReportDERControl''), (''GetLog'', ''LogStatusNotification''),
      (''UpdateFirmware'', ''FirmwareStatusNotification''),
      (''UpdateFirmware'', ''SignedFirmwareStatusNotification''),
      (''SignedUpdateFirmware'', ''FirmwareStatusNotification''),
      (''SignedUpdateFirmware'', ''SignedFirmwareStatusNotification''),
      (''PublishFirmware'', ''PublishFirmwareStatusNotification''),
      (''GetDiagnostics'', ''DiagnosticsStatusNotification'')]"

lemma solicited_by_follow_ups: "f \<in> set (solicited_by v r) \<longleftrightarrow> (r, f) \<in> set follow_ups"
  by (auto simp: solicited_by_def follow_ups_def)

lemma origin_table_keys: "map fst (origin_table v) = all_actions v"
  by (cases v) (simp_all add: v1_6_ALL_def v2_0_1_ALL_def v2_1_ALL_def
      v1_6_origin_table_def v2_0_1_origin_table_def v2_1_origin_table_def)

lemma from_wire_same:
  "v1_6_from_wire a = Some z \<Longrightarrow> z = a"
  "v2_0_1_from_wire a = Some z \<Longrightarrow> z = a"
  "v2_1_from_wire a = Some z \<Longrightarrow> z = a"
  unfolding from_wire_ALL by (simp_all only: option.inject option.distinct split: if_splits)

lemma origin_of_table: "origin_of v a = Some og \<Longrightarrow> (a, og) \<in> set (origin_table v)"
proof -
  assume o: "origin_of v a = Some og"
  have "a \<in> set (all_actions v)" using o origin_known by auto
  then have "a \<in> fst ` set (origin_table v)" by (simp flip: origin_table_keys)
  then obtain og' where og': "map_of (origin_table v) a = Some og'"
    by (metis (no_types, lifting) domD dom_map_of_conv_image_fst)
  moreover have "og' = og"
    using o og' by (cases v) (auto simp: v1_6_origin_def v2_0_1_origin_def v2_1_origin_def
        dest: from_wire_same)
  ultimately show ?thesis by (auto dest: map_of_SomeD)
qed

lemma tables_checked:
  "list_all (\<lambda>(a, og).
     (List.member (map snd follow_ups) a \<longrightarrow> og = ChargingStationOrigin) \<and>
     (List.member (map fst follow_ups) a \<longrightarrow> og = CsmsOrigin)) (origin_table v)"
  by (induction v) code_simp+

lemma transaction_tables_checked:
  "list_all (\<lambda>(a, og). is_transaction_related v a \<longrightarrow> og = ChargingStationOrigin) (origin_table v)"
  by (induction v) code_simp+

lemma transaction_known: "is_transaction_related v a \<Longrightarrow> a \<in> set (all_actions v)"
  by (cases v) (auto simp: v1_6_ALL_def v2_0_1_ALL_def v2_1_ALL_def)

lemma known_call:
  "a \<in> set (all_actions v) \<Longrightarrow> a \<noteq> ''NotifyPeriodicEventStream'' \<Longrightarrow> kind_of v a = Some Call"
  using kind_known [of v a] kind_of_Send [of v a] by (metis message_kind.exhaust not_None_eq)

text \<open>
  The action tables agree with each other: every version's table lists 39, 64 and 91
  distinct actions, exactly the names its parser accepts, each with an origin in the same
  order; and the only unconfirmed action of any version is 2.1's \<open>NotifyPeriodicEventStream\<close>.
\<close>

theorem action_tables_agree:
  "distinct (all_actions v) \<and>
   length (all_actions v) = (case v of V1_6 \<Rightarrow> 39 | V2_0_1 \<Rightarrow> 64 | V2_1 \<Rightarrow> 91) \<and>
   map fst (origin_table v) = all_actions v \<and>
   (is_known v a \<longleftrightarrow> a \<in> set (all_actions v)) \<and>
   (origin_of v a \<noteq> None \<longleftrightarrow> a \<in> set (all_actions v)) \<and>
   (kind_of v a = Some Send \<longleftrightarrow> v = V2_1 \<and> a = ''NotifyPeriodicEventStream'')"
proof -
  have "ascending (all_actions v)"
    by (induction v) code_simp+
  then have "distinct (all_actions v)" by (rule ascending_distinct)
  moreover have "length (all_actions v) = (case v of V1_6 \<Rightarrow> 39 | V2_0_1 \<Rightarrow> 64 | V2_1 \<Rightarrow> 91)"
    by (induction v) code_simp+
  moreover have "is_known v a \<longleftrightarrow> a \<in> set (all_actions v)"
    unfolding is_known_def by (rule kind_known)
  ultimately show ?thesis
    using origin_known kind_of_Send origin_table_keys by blast
qed

text \<open>
  What the protocol engine assumes of the tables: a transaction-related action is a
  confirmed \<open>CALL\<close> of the charging station in every version, and so is every follow-up that a
  request of the CSMS licenses, wherever the version defines both.
\<close>

theorem engine_actions_sound:
  "(is_transaction_related v a \<longrightarrow>
      kind_of v a = Some Call \<and> origin_of v a = Some ChargingStationOrigin) \<and>
   (f \<in> set (solicited_by v r) \<and> is_known v r \<and> is_known v f \<longrightarrow>
      kind_of v f = Some Call \<and> origin_of v f = Some ChargingStationOrigin \<and>
      origin_of v r = Some CsmsOrigin)"
proof (intro conjI impI)
  assume tx: "is_transaction_related v a"
  then have known: "a \<in> set (all_actions v)" by (rule transaction_known)
  moreover have "a \<noteq> ''NotifyPeriodicEventStream''" using tx by (cases v) auto
  ultimately show "kind_of v a = Some Call" by (rule known_call)
  from known obtain og where og: "origin_of v a = Some og" using origin_known by fastforce
  with transaction_tables_checked [of v] tx origin_of_table [OF og]
  show "origin_of v a = Some ChargingStationOrigin" by (auto simp: list_all_iff)
next
  assume h: "f \<in> set (solicited_by v r) \<and> is_known v r \<and> is_known v f"
  then have fu: "(r, f) \<in> set follow_ups" by (simp add: solicited_by_follow_ups)
  from h have known: "r \<in> set (all_actions v)" "f \<in> set (all_actions v)"
    unfolding is_known_def by (simp_all only: kind_known)
  have "f \<noteq> ''NotifyPeriodicEventStream''" using fu by (auto simp: follow_ups_def)
  with known(2) show "kind_of v f = Some Call" by (rule known_call)
  from known obtain og og' where og: "origin_of v r = Some og" "origin_of v f = Some og'"
    using origin_known by fastforce
  have "r \<in> set (map fst follow_ups)" "f \<in> set (map snd follow_ups)"
    using fu by force+
  with tables_checked [of v] origin_of_table [OF og(1)] origin_of_table [OF og(2)] og
  show "origin_of v f = Some ChargingStationOrigin" "origin_of v r = Some CsmsOrigin"
    by (auto simp: list_all_iff)
qed

theorem engine_actions_sound_witness:
  "kind_of V2_1 ''TransactionEvent'' = Some Call \<and>
   origin_of V2_1 ''NotifyReport'' = Some ChargingStationOrigin"
proof -
  have "is_known V2_1 ''GetBaseReport''" "is_known V2_1 ''NotifyReport''"
    "''NotifyReport'' \<in> set (solicited_by V2_1 ''GetBaseReport'')"
    by code_simp+
  with engine_actions_sound [of V2_1 "''TransactionEvent''" "''NotifyReport''" "''GetBaseReport''"]
  show ?thesis by simp
qed

end
