(* ===== verification/Serde_Json.thy ===== *)
theory Serde_Json
  imports Prelude
begin

text \<open>
  The JSON library is not part of the repository, so its calls are a parameter of the model: a
  record of functions, passed to every definition whose source calls \<open>serde_json\<close>.

  JSON text is a \<open>string\<close>; a \<open>RawValue\<close> is the text of one JSON value. \<open>js_array\<close> is
  \<open>from_str::<Vec<&RawValue>>\<close>, \<open>js_i64\<close> and \<open>js_string\<close> are \<open>from_str\<close> at those types,
  \<open>js_value\<close> reads any value and gives its canonical text, \<open>js_boot\<close>, \<open>js_current_time\<close> and
  \<open>js_trigger\<close> are \<open>from_str\<close> at the three small structs the engine declares, and
  \<open>js_tuple\<close> is \<open>to_string\<close> of a tuple of numbers, strings and raw values.
\<close>

type_synonym raw_value = string

text \<open>A date-time is opaque to the engine: only its identity matters.\<close>

type_synonym date_time = int

datatype json_elem = JNum nat | JStr string | JRaw raw_value

record boot_answer =
  ba_status :: string
  ba_interval :: "nat option"
  ba_current_time :: "date_time option"

record serde =
  js_array :: "string \<Rightarrow> raw_value list option"
  js_i64 :: "raw_value \<Rightarrow> int option"
  js_string :: "raw_value \<Rightarrow> string option"
  js_value :: "raw_value \<Rightarrow> raw_value option"
  js_tuple :: "json_elem list \<Rightarrow> string option"
  js_boot :: "raw_value \<Rightarrow> boot_answer option"
  js_current_time :: "raw_value \<Rightarrow> date_time option"
  js_trigger :: "raw_value \<Rightarrow> string option option"

text \<open>
  The documented behaviour the frame codec relies on: what \<open>to_string\<close> writes for a tuple,
  \<open>from_str\<close> reads back as an array of the same length, a number as that number, a string as
  that string, a raw value verbatim.
\<close>

fun elem_reads :: "serde \<Rightarrow> json_elem \<Rightarrow> raw_value \<Rightarrow> bool" where
  "elem_reads js (JNum n) r \<longleftrightarrow> js_i64 js r = Some (int n)"
| "elem_reads js (JStr s) r \<longleftrightarrow> js_string js r = Some s"
| "elem_reads js (JRaw p) r \<longleftrightarrow> r = p"

definition tuples_read_back :: "serde \<Rightarrow> bool" where
  "tuples_read_back js \<longleftrightarrow>
     (\<forall>es t. js_tuple js es = Some t \<longrightarrow>
        (\<exists>rs. js_array js t = Some rs \<and> list_all2 (elem_reads js) es rs))"

lemma tuples_read_backE:
  assumes "tuples_read_back js" and "js_tuple js es = Some t"
  obtains rs where "js_array js t = Some rs" and "list_all2 (elem_reads js) es rs"
  using assms unfolding tuples_read_back_def by blast

section \<open>An instance\<close>

text \<open>
  A concrete library with the documented behaviour, for evaluating the model on concrete
  input. Elements are tagged (\<open>n\<close>, \<open>s\<close>, or nothing for a raw value) and an array is written
  as its elements, each preceded by its length in unary.
\<close>

definition sample_elem :: "json_elem \<Rightarrow> raw_value" where
  "sample_elem e = (case e of JNum n \<Rightarrow> CHR ''n'' # replicate n CHR ''1''
     | JStr s \<Rightarrow> CHR ''s'' # s | JRaw p \<Rightarrow> p)"

definition sample_num :: "raw_value \<Rightarrow> int option" where
  "sample_num r = (case r of [] \<Rightarrow> None
     | c # cs \<Rightarrow> if c = CHR ''n'' \<and> list_all (\<lambda>d. d = CHR ''1'') cs then Some (int (length cs)) else None)"

definition sample_str :: "raw_value \<Rightarrow> string option" where
  "sample_str r = (case r of [] \<Rightarrow> None | c # cs \<Rightarrow> if c = CHR ''s'' then Some cs else None)"

definition sample_tuple :: "json_elem list \<Rightarrow> string option" where
  "sample_tuple es = Some (concat (map (\<lambda>e. replicate (length (sample_elem e)) CHR ''#'' @ CHR ''.'' # sample_elem e) es))"

function sample_array :: "string \<Rightarrow> raw_value list option" where
  "sample_array t =
     (if t = [] then Some []
      else let n = length (takeWhile (\<lambda>c. c = CHR ''#'') t); rest = drop (Suc n) t in
        if drop n t = [] \<or> drop n t ! 0 \<noteq> CHR ''.'' \<or> length rest < n then None
        else map_option (Cons (take n rest)) (sample_array (drop n rest)))"
  by pat_completeness auto
termination
  by (relation "measure length") (auto simp: Let_def)

declare sample_array.simps [simp del]

definition sample_serde :: serde where
  "sample_serde =
     \<lparr>js_array = sample_array, js_i64 = sample_num, js_string = sample_str, js_value = Some,
      js_tuple = sample_tuple,
      js_boot = (\<lambda>r. map_option (\<lambda>s. \<lparr>ba_status = s, ba_interval = Some 300, ba_current_time = None\<rparr>)
        (sample_str r)),
      js_current_time = (\<lambda>r. sample_num r), js_trigger = (\<lambda>r. Some (sample_str r))\<rparr>"

lemma sample_array_chunk:
  "sample_array (replicate (length x) CHR ''#'' @ CHR ''.'' # x @ t) = map_option (Cons x) (sample_array t)"
proof -
  let ?t = "replicate (length x) CHR ''#'' @ CHR ''.'' # x @ t"
  have "takeWhile (\<lambda>c. c = CHR ''#'') ?t = replicate (length x) CHR ''#''"
    by (subst takeWhile_append2) auto
  then show ?thesis
    by (subst sample_array.simps) (simp add: Let_def)
qed

lemma sample_array_tuple:
  "sample_array (concat (map (\<lambda>e. replicate (length (sample_elem e)) CHR ''#'' @ CHR ''.'' # sample_elem e) es))
     = Some (map sample_elem es)"
proof (induction es)
  case Nil
  then show ?case by (simp add: sample_array.simps)
next
  case (Cons e es)
  then show ?case by (simp add: sample_array_chunk)
qed

lemma sample_tuples_read_back: "tuples_read_back sample_serde"
proof -
  have "elem_reads sample_serde e (sample_elem e)" for e
    by (cases e) (simp_all add: sample_serde_def sample_elem_def sample_num_def sample_str_def list_all_iff)
  then have reads: "list_all2 (elem_reads sample_serde) es (map sample_elem es)" for es
    by (simp add: list_all2_map2 list_all2_same)
  show ?thesis unfolding tuples_read_back_def
  proof (intro allI impI)
    fix es t
    assume "js_tuple sample_serde es = Some t"
    then have "js_array sample_serde t = Some (map sample_elem es)"
      by (auto simp: sample_serde_def sample_tuple_def sample_array_tuple)
    with reads show "\<exists>rs. js_array sample_serde t = Some rs \<and> list_all2 (elem_reads sample_serde) es rs"
      by blast
  qed
qed

end
