(* ===== verification/Message_Store.thy ===== *)
theory Message_Store
  imports Engine_Time Actions Serde_Json
begin

text \<open>
  \<open>engine/queue.rs\<close>: what a queued call looks like in durable storage, the \<open>MessageStore\<close>
  trait, its in-memory implementation \<open>MemStore\<close>, and the retry schedule of transaction
  messages.

  The trait is a dictionary of functions (\<open>store_ops\<close>), so that the engine is defined for
  every store; each operation gives its \<open>Result\<close> and the store after it. The locale
  \<open>message_store\<close> states what an implementation promises of its \<open>contents\<close>, and what a
  client may conclude; \<open>MemStore\<close> is an interpretation of it.
\<close>

type_synonym seq = nat

record queued_call =
  qc_action :: string
  qc_payload :: raw_value
  qc_kind :: message_kind
  qc_attempts :: nat
  qc_transactional :: bool

datatype store_error = StoreError (reason: string)

text \<open>The trait. \<open>Inl\<close> is \<open>Err\<close>, \<open>Inr\<close> is \<open>Ok\<close>.\<close>

record 's store_ops =
  so_push :: "'s \<Rightarrow> queued_call \<Rightarrow> (store_error + seq) \<times> 's"
  so_pending :: "'s \<Rightarrow> store_error + (seq \<times> queued_call) list"
  so_ack :: "'s \<Rightarrow> seq \<Rightarrow> (store_error + unit) \<times> 's"
  so_set_attempts :: "'s \<Rightarrow> seq \<Rightarrow> nat \<Rightarrow> (store_error + unit) \<times> 's"
  so_len :: "'s \<Rightarrow> store_error + nat"

definition store_is_empty :: "'s store_ops \<Rightarrow> 's \<Rightarrow> store_error + bool" where
  "store_is_empty ops s = (case so_len ops s of Inl e \<Rightarrow> Inl e | Inr n \<Rightarrow> Inr (n = 0))"

section \<open>The in-memory store\<close>

record mem_store =
  ms_entries :: "(seq \<times> queued_call) list"
  ms_next_seq :: seq
  ms_capacity :: "nat option"

definition mem_new :: mem_store where
  "mem_new = \<lparr>ms_entries = [], ms_next_seq = 0, ms_capacity = None\<rparr>"

definition mem_bounded :: "nat \<Rightarrow> mem_store" where
  "mem_bounded capacity = mem_new\<lparr>ms_capacity := Some capacity\<rparr>"

definition mem_push :: "mem_store \<Rightarrow> queued_call \<Rightarrow> (store_error + seq) \<times> mem_store" where
  "mem_push s entry =
     (if (case ms_capacity s of None \<Rightarrow> False | Some c \<Rightarrow> length (ms_entries s) \<ge> c)
      then (Inl (StoreError ''offline queue is full''), s)
      else (Inr (ms_next_seq s),
            s\<lparr>ms_next_seq := ms_next_seq s + 1,
              ms_entries := ms_entries s @ [(ms_next_seq s, entry)]\<rparr>))"

definition mem_pending :: "mem_store \<Rightarrow> store_error + (seq \<times> queued_call) list" where
  "mem_pending s = Inr (ms_entries s)"

definition mem_ack :: "mem_store \<Rightarrow> seq \<Rightarrow> (store_error + unit) \<times> mem_store" where
  "mem_ack s q = (Inr (), s\<lparr>ms_entries := filter (\<lambda>(k, e). k \<noteq> q) (ms_entries s)\<rparr>)"

definition mem_set_attempts :: "mem_store \<Rightarrow> seq \<Rightarrow> nat \<Rightarrow> (store_error + unit) \<times> mem_store" where
  "mem_set_attempts s q n =
     (case position (\<lambda>(k, e). k = q) (ms_entries s) of
        None \<Rightarrow> (Inr (), s)
      | Some i \<Rightarrow>
          (Inr (), s\<lparr>ms_entries := (ms_entries s)
             [i := (q, (snd (ms_entries s ! i))\<lparr>qc_attempts := n\<rparr>)]\<rparr>))"

definition mem_len :: "mem_store \<Rightarrow> store_error + nat" where
  "mem_len s = Inr (length (ms_entries s))"

definition mem_ops :: "mem_store store_ops" where
  "mem_ops = \<lparr>so_push = mem_push, so_pending = mem_pending, so_ack = mem_ack,
     so_set_attempts = mem_set_attempts, so_len = mem_len\<rparr>"

section \<open>The retry schedule\<close>

record retry_policy =
  rp_attempts :: nat
  rp_interval :: duration

definition retry_default :: retry_policy where
  "retry_default = \<lparr>rp_attempts = 3, rp_interval = from_secs 60\<rparr>"

definition retry_none :: retry_policy where
  "retry_none = \<lparr>rp_attempts = 1, rp_interval = 0\<rparr>"

definition delay_after :: "retry_policy \<Rightarrow> nat \<Rightarrow> duration" where
  "delay_after p attempts_made = duration_saturating_mul (rp_interval p) attempts_made"

definition may_retry :: "retry_policy \<Rightarrow> nat \<Rightarrow> bool" where
  "may_retry p attempts_made \<longleftrightarrow> attempts_made < rp_attempts p"

section \<open>The contract\<close>

definition with_attempts :: "seq \<Rightarrow> nat \<Rightarrow> (seq \<times> queued_call) list \<Rightarrow> (seq \<times> queued_call) list" where
  "with_attempts q n xs = map (\<lambda>(k, e). (k, if k = q then e\<lparr>qc_attempts := n\<rparr> else e)) xs"

definition without :: "seq \<Rightarrow> (seq \<times> queued_call) list \<Rightarrow> (seq \<times> queued_call) list" where
  "without q xs = filter (\<lambda>(k, e). k \<noteq> q) xs"

text \<open>
  What a store promises: its contents are a list of messages with ascending sequence numbers,
  oldest first. A push that succeeds appends under a number larger than any in the store, a
  push that fails changes nothing the store would replay; an acknowledgement removes the one
  message, whether or not the medium reported an error; an attempt count touches one message.
\<close>

locale message_store =
  fixes ops :: "'s store_ops"
    and contents :: "'s \<Rightarrow> (seq \<times> queued_call) list"
    and store_ok :: "'s \<Rightarrow> bool"
  assumes pending_contents: "store_ok s \<Longrightarrow> so_pending ops s = Inr xs \<Longrightarrow> xs = contents s"
    and contents_sorted: "store_ok s \<Longrightarrow> sorted_wrt (<) (map fst (contents s))"
    and push_ok: "store_ok s \<Longrightarrow> so_push ops s c = (Inr q, s') \<Longrightarrow>
      store_ok s' \<and> contents s' = contents s @ [(q, c)]"
    and push_err: "store_ok s \<Longrightarrow> so_push ops s c = (Inl e, s') \<Longrightarrow>
      store_ok s' \<and> contents s' = contents s"
    and ack_contents: "store_ok s \<Longrightarrow> so_ack ops s q = (r, s') \<Longrightarrow>
      store_ok s' \<and> contents s' = without q (contents s)"
    and set_attempts_contents: "store_ok s \<Longrightarrow> so_set_attempts ops s q n = (r, s') \<Longrightarrow>
      store_ok s' \<and> contents s' = with_attempts q n (contents s)"
    and len_contents: "store_ok s \<Longrightarrow> so_len ops s = Inr n \<Longrightarrow> n = length (contents s)"
begin

lemma push_fresh:
  assumes "store_ok s" and "so_push ops s c = (Inr q, s')"
  shows "\<forall>k \<in> fst ` set (contents s). k < q"
proof -
  have "sorted_wrt (<) (map fst (contents s) @ [q])"
    using push_ok [OF assms] contents_sorted [of s'] by simp
  then show ?thesis by (auto simp: sorted_wrt_append)
qed

lemma ack_then_absent:
  "store_ok s \<Longrightarrow> so_ack ops s q = (r, s') \<Longrightarrow> q \<notin> fst ` set (contents s')"
  using ack_contents by (fastforce simp: without_def)

lemma contents_distinct: "store_ok s \<Longrightarrow> distinct (map fst (contents s))"
  using contents_sorted [of s] by (simp add: strict_sorted_iff)

lemma push_ack:
  assumes "store_ok s" and "so_push ops s c = (Inr q, s')" and "so_ack ops s' q = (r, s'')"
  shows "contents s'' = contents s"
proof -
  have "filter (\<lambda>(k, e). k \<noteq> q) (contents s) = contents s"
    using push_fresh [OF assms(1,2)] by (intro filter_True) fastforce
  then show ?thesis
    using push_ok [OF assms(1,2)] ack_contents [of s' q r s''] assms(3) by (simp add: without_def)
qed

end

section \<open>MemStore keeps the contract\<close>

definition mem_ok :: "mem_store \<Rightarrow> bool" where
  "mem_ok s \<longleftrightarrow> sorted_wrt (<) (map fst (ms_entries s)) \<and> (\<forall>k \<in> fst ` set (ms_entries s). k < ms_next_seq s)"

lemma mem_ok_new: "mem_ok mem_new" "mem_ok (mem_bounded n)"
  by (simp_all add: mem_ok_def mem_new_def mem_bounded_def)

lemma map_fst_with_attempts [simp]: "map fst (with_attempts q n xs) = map fst xs"
  by (induction xs) (auto simp: with_attempts_def)

lemma with_attempts_absent: "q \<notin> fst ` set xs \<Longrightarrow> with_attempts q n xs = xs"
  unfolding with_attempts_def by (rule map_idI) force

lemma with_attempts_position:
  assumes "distinct (map fst xs)" and "position (\<lambda>(k, e). k = q) xs = Some i"
  shows "xs[i := (q, (snd (xs ! i))\<lparr>qc_attempts := n\<rparr>)] = with_attempts q n xs"
proof (rule nth_equalityI)
  fix j assume "j < length (xs[i := (q, (snd (xs ! i))\<lparr>qc_attempts := n\<rparr>)])"
  then have j: "j < length xs" by simp
  have i: "i < length xs" "fst (xs ! i) = q"
    using assms(2) by (auto simp: position_Some case_prod_unfold)
  have "fst (xs ! j) = q \<longleftrightarrow> j = i"
    using assms(1) i j by (metis length_map nth_eq_iff_index_eq nth_map)
  then show "xs[i := (q, (snd (xs ! i))\<lparr>qc_attempts := n\<rparr>)] ! j = with_attempts q n xs ! j"
    using i j by (auto simp: with_attempts_def nth_list_update case_prod_unfold prod_eq_iff)
qed (simp add: with_attempts_def)

lemma sorted_wrt_map_filter: "sorted_wrt R (map f xs) \<Longrightarrow> sorted_wrt R (map f (filter P xs))"
  by (induction xs) auto

lemma mem_set_attempts_eq:
  assumes "mem_ok s"
  shows "mem_set_attempts s q n = (Inr (), s\<lparr>ms_entries := with_attempts q n (ms_entries s)\<rparr>)"
proof (cases "position (\<lambda>(k, e). k = q) (ms_entries s)")
  case None
  then have "q \<notin> fst ` set (ms_entries s)" by (auto simp: position_None)
  then show ?thesis using None by (simp add: mem_set_attempts_def with_attempts_absent)
next
  case (Some i)
  have "distinct (map fst (ms_entries s))"
    using assms by (simp add: mem_ok_def strict_sorted_iff)
  from with_attempts_position [OF this Some] Some show ?thesis
    by (simp add: mem_set_attempts_def)
qed

interpretation mem: message_store mem_ops ms_entries mem_ok
proof
  fix s :: mem_store and c q s' assume "mem_ok s" "so_push mem_ops s c = (Inr q, s')"
  then show "mem_ok s' \<and> ms_entries s' = ms_entries s @ [(q, c)]"
    by (fastforce simp: mem_ops_def mem_push_def mem_ok_def sorted_wrt_append less_Suc_eq
        split: if_splits)
next
  fix s :: mem_store and q r s' assume "mem_ok s" "so_ack mem_ops s q = (r, s')"
  then show "mem_ok s' \<and> ms_entries s' = without q (ms_entries s)"
    by (fastforce simp: mem_ops_def mem_ack_def mem_ok_def without_def sorted_wrt_map_filter)
next
  fix s :: mem_store and q n r s' assume ok: "mem_ok s" "so_set_attempts mem_ops s q n = (r, s')"
  then have "ms_entries s' = with_attempts q n (ms_entries s)" "ms_next_seq s' = ms_next_seq s"
    by (auto simp: mem_ops_def mem_set_attempts_eq)
  moreover have "fst ` set (with_attempts q n (ms_entries s)) = fst ` set (ms_entries s)"
    by (metis map_fst_with_attempts set_map)
  ultimately show "mem_ok s' \<and> ms_entries s' = with_attempts q n (ms_entries s)"
    using ok(1) by (simp add: mem_ok_def)
qed (auto simp: mem_ops_def mem_push_def mem_pending_def mem_len_def mem_ok_def split: if_splits)

section \<open>The retry schedule is linear and bounded\<close>

lemma delay_after_linear:
  assumes "rp_interval p * Suc n \<le> duration_max"
  shows "delay_after p (Suc n) = delay_after p n + rp_interval p"
  using assms by (simp add: delay_after_def duration_saturating_mul_def)

lemma delay_after_le: "delay_after p n \<le> duration_max"
  by (simp add: delay_after_def duration_saturating_mul_def)

end
