(* ===== verification/Rpc_Error.thy ===== *)
theory Rpc_Error
  imports Version Serde_Json
begin

text \<open>
  \<open>src/src/rpc/error.rs\<close>: the OCPP-J error codes with their version-dependent spelling, and
  the body of a \<open>CALLERROR\<close>. The details object, a JSON value, is represented by its text.
\<close>

section \<open>Error codes\<close>

datatype error_code =
    FormatViolation
  | GenericError
  | InternalError
  | MessageTypeNotSupported
  | NotImplemented
  | NotSupported
  | OccurrenceConstraintViolation
  | PropertyConstraintViolation
  | ProtocolError
  | RpcFrameworkError
  | SecurityError
  | TypeConstraintViolation
  | Other string

fun as_wire :: "error_code \<Rightarrow> version \<Rightarrow> string" where
  "as_wire FormatViolation v =
     (if v = V1_6 then ''FormationViolation'' else ''FormatViolation'')"
| "as_wire GenericError v = ''GenericError''"
| "as_wire InternalError v = ''InternalError''"
| "as_wire MessageTypeNotSupported v =
     (if v = V1_6 then ''GenericError'' else ''MessageTypeNotSupported'')"
| "as_wire NotImplemented v = ''NotImplemented''"
| "as_wire NotSupported v = ''NotSupported''"
| "as_wire OccurrenceConstraintViolation v =
     (if v = V1_6 then ''OccurenceConstraintViolation'' else ''OccurrenceConstraintViolation'')"
| "as_wire PropertyConstraintViolation v = ''PropertyConstraintViolation''"
| "as_wire ProtocolError v = ''ProtocolError''"
| "as_wire RpcFrameworkError v =
     (if v = V1_6 then ''GenericError'' else ''RpcFrameworkError'')"
| "as_wire SecurityError v = ''SecurityError''"
| "as_wire TypeConstraintViolation v = ''TypeConstraintViolation''"
| "as_wire (Other code) v = code"

definition parse_error_code :: "string \<Rightarrow> error_code" where
  "parse_error_code code =
     (if code \<in> set [''FormatViolation'', ''FormationViolation''] then FormatViolation
      else if code = ''GenericError'' then GenericError
      else if code = ''InternalError'' then InternalError
      else if code = ''MessageTypeNotSupported'' then MessageTypeNotSupported
      else if code = ''NotImplemented'' then NotImplemented
      else if code = ''NotSupported'' then NotSupported
      else if code \<in> set [''OccurrenceConstraintViolation'', ''OccurenceConstraintViolation'']
      then OccurrenceConstraintViolation
      else if code = ''PropertyConstraintViolation'' then PropertyConstraintViolation
      else if code = ''ProtocolError'' then ProtocolError
      else if code = ''RpcFrameworkError'' then RpcFrameworkError
      else if code = ''SecurityError'' then SecurityError
      else if code = ''TypeConstraintViolation'' then TypeConstraintViolation
      else Other code)"

fun code_defined_in :: "error_code \<Rightarrow> version \<Rightarrow> bool" where
  "code_defined_in RpcFrameworkError v \<longleftrightarrow> v \<noteq> V1_6"
| "code_defined_in MessageTypeNotSupported v \<longleftrightarrow> v \<noteq> V1_6"
| "code_defined_in (Other code) v \<longleftrightarrow> False"
| "code_defined_in c v \<longleftrightarrow> True"

section \<open>The CALLERROR body\<close>

definition ERROR_DESCRIPTION_MAX_LEN :: nat where
  "ERROR_DESCRIPTION_MAX_LEN = 255"

definition cap_description :: "string \<Rightarrow> string" where
  "cap_description text =
     (if length text > ERROR_DESCRIPTION_MAX_LEN then take ERROR_DESCRIPTION_MAX_LEN text
      else text)"

record call_error =
  code :: error_code
  description :: string
  details :: raw_value

definition empty_object :: raw_value where
  "empty_object = [CHR 0x7B, CHR 0x7D]"

definition call_error_new :: "error_code \<Rightarrow> string \<Rightarrow> call_error" where
  "call_error_new c d = \<lparr>code = c, description = cap_description d, details = empty_object\<rparr>"

definition with_details :: "call_error \<Rightarrow> raw_value \<Rightarrow> call_error" where
  "with_details e d = e\<lparr>details := d\<rparr>"

definition not_implemented :: "string \<Rightarrow> call_error" where
  "not_implemented action = call_error_new NotImplemented (''unknown action '' @ debug_str action)"

definition not_supported :: "string \<Rightarrow> call_error" where
  "not_supported action =
     call_error_new NotSupported (''action '' @ debug_str action @ '' is not supported'')"

definition internal_error :: "string \<Rightarrow> call_error" where
  "internal_error d = call_error_new InternalError d"

definition security_error :: "string \<Rightarrow> call_error" where
  "security_error d = call_error_new SecurityError d"

text \<open>
  The borrowed form that framing produces and consumes: the code and the description of
  \<open>call_error\<close>, and the details as unparsed text.
\<close>

record call_error_ref =
  ref_code :: error_code
  ref_description :: string
  ref_details :: raw_value

definition to_call_error :: "serde \<Rightarrow> call_error_ref \<Rightarrow> call_error" where
  "to_call_error js r =
     \<lparr>code = ref_code r, description = ref_description r,
      details = (case js_value js (ref_details r) of Some v \<Rightarrow> v | None \<Rightarrow> empty_object)\<rparr>"

definition of_call_error :: "call_error \<Rightarrow> call_error_ref" where
  "of_call_error e =
     \<lparr>ref_code = code e, ref_description = cap_description (description e),
      ref_details = details e\<rparr>"

section \<open>Lemmas\<close>

lemma length_cap_description [simp]: "length (cap_description t) \<le> ERROR_DESCRIPTION_MAX_LEN"
  by (simp add: cap_description_def)

lemma cap_description_idem [simp]: "cap_description (cap_description t) = cap_description t"
  by (simp add: cap_description_def)

lemma parse_as_wire_defined:
  "code_defined_in c v \<Longrightarrow> parse_error_code (as_wire c v) = c"
  by (cases c) (auto simp: parse_error_code_def)

lemma parse_as_wire_other:
  "parse_error_code s = Other s \<Longrightarrow> parse_error_code (as_wire (Other s) v) = Other s"
  by simp

lemma parse_as_wire_legacy:
  "\<not> code_defined_in c V1_6 \<Longrightarrow> \<forall>s. c \<noteq> Other s \<Longrightarrow> as_wire c V1_6 = ''GenericError''"
  by (cases c) auto

text \<open>
  Error codes survive the wire. A code the version defines is read back as itself; one
  that 1.6 does not define arrives as \<open>GenericError\<close>; and whatever text a peer sends as its
  code, printing the parsed code in 2.x spelling and parsing it again changes nothing.
\<close>

theorem error_code_roundtrip:
  "(code_defined_in c v \<longrightarrow> parse_error_code (as_wire c v) = c) \<and>
   (\<not> code_defined_in c v \<and> (\<forall>s. c \<noteq> Other s) \<longrightarrow>
      v = V1_6 \<and> parse_error_code (as_wire c v) = GenericError) \<and>
   parse_error_code (as_wire (parse_error_code t) V2_1) = parse_error_code t"
proof (intro conjI impI)
  assume "code_defined_in c v"
  then show "parse_error_code (as_wire c v) = c" by (rule parse_as_wire_defined)
next
  assume h: "\<not> code_defined_in c v \<and> (\<forall>s. c \<noteq> Other s)"
  then show v: "v = V1_6" by (cases c) auto
  with h have "as_wire c V1_6 = ''GenericError''" by (simp add: parse_as_wire_legacy)
  with v show "parse_error_code (as_wire c v) = GenericError"
    by (simp add: parse_error_code_def)
next
  show "parse_error_code (as_wire (parse_error_code t) V2_1) = parse_error_code t"
  proof (cases "code_defined_in (parse_error_code t) V2_1")
    case True
    then show ?thesis by (rule parse_as_wire_defined)
  next
    case False
    then have "\<exists>s. parse_error_code t = Other s" by (cases "parse_error_code t") auto
    then have "parse_error_code t = Other t"
      by (auto simp: parse_error_code_def split: if_splits)
    then show ?thesis by (simp add: parse_as_wire_other)
  qed
qed

theorem error_code_roundtrip_witness:
  "parse_error_code (as_wire FormatViolation V1_6) = FormatViolation \<and>
   parse_error_code (as_wire RpcFrameworkError V1_6) = GenericError"
  using error_code_roundtrip [of FormatViolation V1_6] error_code_roundtrip [of RpcFrameworkError V1_6]
  by simp

end
