(* ===== verification/Identifiers.thy ===== *)
theory Identifiers
  imports Prelude
begin

unbundle bit_operations_syntax

text \<open>
  \<open>src/src/types.rs\<close>: the charging-station identity, the OCPP-J message id, and the
  generators of outgoing message ids. \<open>counter_next_id\<close> is the counter generator, with the
  13-byte digit buffer of the source: running past its front is \<open>None\<close>, the panic it would
  be. \<open>random_next_id\<close> takes what the operating system's entropy source delivered as an
  argument; \<open>None\<close> is its failure, on which the generator falls back to \<open>degraded_uuid\<close>.
\<close>

section \<open>Identity\<close>

datatype identity_error = IdEmpty | IdTooLong nat | IdColon | IdControl

definition IDENTITY_MAX_LEN :: nat where
  "IDENTITY_MAX_LEN = 48"

type_synonym identity = string

definition identity_new :: "string \<Rightarrow> identity_error + identity" where
  "identity_new s =
     (if s = [] then Inl IdEmpty
      else if length s > IDENTITY_MAX_LEN then Inl (IdTooLong (length s))
      else if CHR '':'' \<in> set s then Inl IdColon
      else if list_ex is_control s then Inl IdControl
      else Inr s)"

section \<open>Message ids\<close>

datatype message_id_error = MidEmpty | MidTooLong nat

type_synonym message_id = string

definition MESSAGE_ID_MAX_LEN :: nat where
  "MESSAGE_ID_MAX_LEN = 36"

definition message_id_new :: "string \<Rightarrow> message_id_error + message_id" where
  "message_id_new s =
     (if s = [] then Inl MidEmpty
      else if length s > MESSAGE_ID_MAX_LEN then Inl (MidTooLong (length s))
      else Inr s)"

definition is_conforming :: "message_id \<Rightarrow> bool" where
  "is_conforming s \<longleftrightarrow> s \<noteq> [] \<and> length s \<le> MESSAGE_ID_MAX_LEN"

definition truncating :: "string \<Rightarrow> message_id" where
  "truncating s = (if length s > MESSAGE_ID_MAX_LEN then take MESSAGE_ID_MAX_LEN s else s)"

definition unreadable :: message_id where
  "unreadable = ''-1''"

section \<open>The counter generator\<close>

record counter_ids =
  ci_prefix :: string
  ci_next :: u64

definition counter_with_prefix :: "string \<Rightarrow> counter_ids" where
  "counter_with_prefix p = \<lparr>ci_prefix = p, ci_next = 0\<rparr>"

definition base36_digit :: "nat \<Rightarrow> char" where
  "base36_digit d =
     (if d < 10 then char_of (48 + d :: nat) else char_of (97 + d - 10 :: nat))"

text \<open>
  The digit loop. \<open>index\<close> is the position in the 13-byte buffer, \<open>acc\<close> the bytes already
  written behind it; a further digit at index 0 would be an underflow.
\<close>

fun base36_loop :: "nat \<Rightarrow> nat \<Rightarrow> string \<Rightarrow> string option" where
  "base36_loop 0 remaining acc = None"
| "base36_loop (Suc index) remaining acc =
     (let acc' = base36_digit (remaining mod 36) # acc in
      if remaining div 36 = 0 then Some acc' else base36_loop index (remaining div 36) acc')"

definition counter_next_id :: "counter_ids \<Rightarrow> (message_id \<times> counter_ids) option" where
  "counter_next_id c =
     (case base36_loop 13 (unat (ci_next c)) [] of
        None \<Rightarrow> None
      | Some suffix \<Rightarrow>
          Some (truncating (ci_prefix c @ suffix), c\<lparr>ci_next := ci_next c + 1\<rparr>))"

text \<open>The ids a generator hands out one after the other.\<close>

fun counter_ids_from :: "counter_ids \<Rightarrow> nat \<Rightarrow> message_id list option" where
  "counter_ids_from c 0 = Some []"
| "counter_ids_from c (Suc n) =
     (case counter_next_id c of
        None \<Rightarrow> None
      | Some (i, c') \<Rightarrow> map_option (Cons i) (counter_ids_from c' n))"

section \<open>The random generator\<close>

definition hex_byte :: "u8 \<Rightarrow> string" where
  "hex_byte b = [hex_digit (unat (drop_bit 4 b)), hex_digit (unat (b AND 0x0F))]"

fun hyphenate_from :: "nat \<Rightarrow> u8 list \<Rightarrow> string" where
  "hyphenate_from p [] = []"
| "hyphenate_from p (b # bs) =
     (if p \<in> {4, 6, 8, 10} then ''-'' else []) @ hex_byte b @ hyphenate_from (Suc p) bs"

definition hyphenate :: "u8 list \<Rightarrow> string" where
  "hyphenate bytes = hyphenate_from 0 bytes"

definition stamp :: "u8 \<Rightarrow> u8 list \<Rightarrow> u8 list" where
  "stamp version bytes =
     (let b = bytes[6 := (bytes ! 6 AND 0x0F) OR version]
      in b[8 := (b ! 8 AND 0x3F) OR 0x80])"

definition uuid_v4 :: "u8 list option \<Rightarrow> string option" where
  "uuid_v4 entropy = map_option (\<lambda>bytes. hyphenate (stamp 0x40 bytes)) entropy"

definition degraded_uuid :: "u64 \<Rightarrow> string" where
  "degraded_uuid counter = hyphenate (stamp 0x80 (u64_to_be_bytes counter @ replicate 8 0))"

definition random_next_id :: "u8 list option \<Rightarrow> u64 \<Rightarrow> message_id \<times> u64" where
  "random_next_id entropy counter =
     (let c = counter + 1 in
      (case uuid_v4 entropy of Some s \<Rightarrow> s | None \<Rightarrow> degraded_uuid c, c))"

section \<open>Interface\<close>

text \<open>
  What a user of a generator relies on: the first \<open>limit\<close> ids of one generator are pairwise
  different and conforming.
\<close>

locale id_source =
  fixes nth_id :: "nat \<Rightarrow> message_id" and limit :: nat
  assumes fresh: "i < limit \<Longrightarrow> j < limit \<Longrightarrow> nth_id i = nth_id j \<Longrightarrow> i = j"
    and conforming: "i < limit \<Longrightarrow> is_conforming (nth_id i)"
begin

lemma ids_distinct: "n \<le> limit \<Longrightarrow> distinct (map nth_id [0..<n])"
  by (auto simp: distinct_map inj_on_def fresh)

lemma stale_id: "i < j \<Longrightarrow> j < limit \<Longrightarrow> nth_id i \<noteq> nth_id j"
  by (metis fresh less_irrefl less_trans)

end

section \<open>Lemmas\<close>

lemma base36_digit_inj:
  assumes "a < 36" and "b < 36" and "base36_digit a = base36_digit b"
  shows "a = b"
proof -
  define f where "f d = (if d < 10 then 48 + d else 87 + d)" for d :: nat
  have digit: "of_char (base36_digit d) = f d" if "d < 36" for d
    using that by (auto simp: base36_digit_def f_def)
  have "f a = f b"
    using digit [OF assms(1)] digit [OF assms(2)] assms(3) by simp
  with assms(1,2) show ?thesis by (auto simp: f_def split: if_splits)
qed

lemma base36_loop_append:
  "base36_loop k r acc = Some s \<Longrightarrow>
     \<exists>ds. ds \<noteq> [] \<and> length ds \<le> k \<and> s = ds @ acc \<and> base36_loop k r [] = Some ds"
proof (induction k r acc arbitrary: s rule: base36_loop.induct)
  case (1 r acc)
  then show ?case by simp
next
  case (2 k r acc)
  show ?case
  proof (cases "r div 36 = 0")
    case True
    with "2.prems" show ?thesis by auto
  next
    case False
    let ?d = "base36_digit (r mod 36)"
    from False "2.prems" have "base36_loop k (r div 36) (?d # acc) = Some s"
      by (simp add: Let_def)
    with "2.IH" False obtain ds where ds: "ds \<noteq> []" "length ds \<le> k" "s = ds @ ?d # acc"
      "base36_loop k (r div 36) [] = Some ds" by blast
    have gen: "base36_loop n q a = map_option (\<lambda>xs. xs @ a) (base36_loop n q [])" for n q a
    proof (induction n arbitrary: q a)
      case (Suc n)
      have "base36_loop n q' (x # a) = map_option (\<lambda>xs. xs @ x # a) (base36_loop n q' [])" for q' x
        by (rule Suc.IH)
      moreover have "base36_loop n q' [x] = map_option (\<lambda>xs. xs @ [x]) (base36_loop n q' [])" for q' x
        by (rule Suc.IH)
      ultimately show ?case
        by (auto simp: Let_def option.map_comp comp_def)
    qed simp
    have "base36_loop (Suc k) r [] = Some (ds @ [?d])"
      using False ds(4) gen [of k "r div 36" "[?d]"] by (simp add: Let_def)
    with ds show ?thesis by auto
  qed
qed

lemma base36_loop_enough: "r < 36 ^ k \<Longrightarrow> 0 < k \<Longrightarrow> \<exists>s. base36_loop k r acc = Some s"
proof (induction k arbitrary: r acc)
  case (Suc k)
  show ?case
  proof (cases "r div 36 = 0")
    case True
    then show ?thesis by simp
  next
    case False
    with Suc.prems have "r div 36 < 36 ^ k" by (simp add: less_mult_imp_div_less mult.commute)
    moreover from this False have "0 < k" by (cases k) auto
    ultimately show ?thesis using Suc.IH False by (auto simp: Let_def)
  qed
qed simp

lemma base36_value:
  "base36_loop k r [] = Some s \<Longrightarrow> base36_loop k' r' [] = Some s \<Longrightarrow> r = r'"
proof (induction k arbitrary: r s k' r')
  case (Suc k)
  from Suc.prems(2) obtain m where k': "k' = Suc m" by (cases k') auto
  have split: "\<exists>ds. s = ds @ [base36_digit (q mod 36)] \<and>
      (if q div 36 = 0 then ds = [] else ds \<noteq> [] \<and> base36_loop n (q div 36) [] = Some ds)"
    if "base36_loop (Suc n) q [] = Some s" for n q
    using that base36_loop_append [of n "q div 36" "[base36_digit (q mod 36)]" s]
    by (auto simp: Let_def split: if_splits)
  obtain ds where ds: "s = ds @ [base36_digit (r mod 36)]"
    "if r div 36 = 0 then ds = [] else ds \<noteq> [] \<and> base36_loop k (r div 36) [] = Some ds"
    using split [OF Suc.prems(1)] by blast
  obtain es where es: "s = es @ [base36_digit (r' mod 36)]"
    "if r' div 36 = 0 then es = [] else es \<noteq> [] \<and> base36_loop m (r' div 36) [] = Some es"
    using split Suc.prems(2) k' by blast
  have same: "es = ds" "r mod 36 = r' mod 36"
    using ds(1) es(1) base36_digit_inj [of "r mod 36" "r' mod 36"] by auto
  have "r div 36 = r' div 36"
  proof (cases "ds = []")
    case True
    with ds(2) es(2) same show ?thesis by (auto split: if_splits)
  next
    case False
    with ds(2) es(2) same have "base36_loop k (r div 36) [] = Some ds"
      "base36_loop m (r' div 36) [] = Some ds" by (auto split: if_splits)
    then show ?thesis by (rule Suc.IH)
  qed
  with same(2) show ?case by (metis div_mult_mod_eq)
qed simp

definition base36 :: "nat \<Rightarrow> string" where
  "base36 n = the (base36_loop 13 n [])"

lemma u64_fits_base36: "unat (w :: u64) < 36 ^ 13"
proof -
  have "unat w < 2 ^ 64" using unsigned_less [of w, where 'a = nat] by simp
  then show ?thesis by simp
qed

lemma base36_loop_13:
  assumes "n < 36 ^ 13"
  shows "base36_loop 13 n [] = Some (base36 n)"
  using base36_loop_enough [OF assms, of "[]"] by (auto simp: base36_def)

lemma base36_inj: "m < 36 ^ 13 \<Longrightarrow> n < 36 ^ 13 \<Longrightarrow> base36 m = base36 n \<Longrightarrow> m = n"
  by (metis base36_loop_13 base36_value)

lemma length_base36: "n < 36 ^ 13 \<Longrightarrow> base36 n \<noteq> [] \<and> length (base36 n) \<le> 13"
  using base36_loop_append [OF base36_loop_13] by fastforce

lemma counter_next_id_eq:
  "counter_next_id c =
     Some (truncating (ci_prefix c @ base36 (unat (ci_next c))), c\<lparr>ci_next := ci_next c + 1\<rparr>)"
  by (simp add: counter_next_id_def base36_loop_13 [OF u64_fits_base36] del: base36_loop.simps)

lemma counter_ids_from_eq:
  "counter_ids_from c n =
     Some (map (\<lambda>i. truncating (ci_prefix c @ base36 (unat (ci_next c + of_nat i)))) [0..<n])"
proof (induction n arbitrary: c)
  case (Suc n)
  have "[0..<Suc n] = 0 # map Suc [0..<n]" by (simp add: upt_conv_Cons map_Suc_upt)
  then show ?case
    by (simp add: counter_next_id_eq Suc.IH comp_def ac_simps)
qed simp

lemma truncating_short: "length s \<le> MESSAGE_ID_MAX_LEN \<Longrightarrow> truncating s = s"
  by (simp add: truncating_def)

text \<open>The counter generator with the default, empty prefix is an id source for all of \<open>u64\<close>.\<close>

interpretation default_counter: id_source
  "\<lambda>i. truncating (ci_prefix (counter_with_prefix []) @ base36 (unat (of_nat i :: u64)))"
  "2 ^ 64"
proof
  have id: "unat (of_nat i :: u64) = i" if "i < 2 ^ 64" for i
    using that by (simp add: unat_of_nat)
  have small: "i < 36 ^ 13" if "i < 2 ^ 64" for i :: nat
    using that by simp
  have id': "truncating (ci_prefix (counter_with_prefix []) @ base36 (unat (of_nat i :: u64)))
      = base36 i" if "i < 2 ^ 64" for i
    using length_base36 [OF small [OF that]] that
    by (simp add: id truncating_short MESSAGE_ID_MAX_LEN_def counter_with_prefix_def)
  fix i :: nat
  assume i: "i < 2 ^ 64"
  show "is_conforming (truncating (ci_prefix (counter_with_prefix [])
      @ base36 (unat (of_nat i :: u64))))"
    using length_base36 [OF small [OF i]]
    unfolding id' [OF i] by (simp add: is_conforming_def MESSAGE_ID_MAX_LEN_def)
  fix j :: nat
  assume j: "j < 2 ^ 64"
    and eq: "truncating (ci_prefix (counter_with_prefix []) @ base36 (unat (of_nat i :: u64))) =
      truncating (ci_prefix (counter_with_prefix []) @ base36 (unat (of_nat j :: u64)))"
  from eq have "base36 i = base36 j" unfolding id' [OF i] id' [OF j] .
  then show "i = j" by (rule base36_inj [OF small [OF i] small [OF j]])
qed

text \<open>
  The counter generator never runs out of its 13-byte buffer, and with a prefix of at
  most 23 characters the ids it hands out before its 64-bit counter wraps are pairwise
  different and all within the 36-character limit.
\<close>

theorem counter_ids_fresh:
  assumes "length p \<le> 23" and "n \<le> 2 ^ 64"
  shows "\<exists>ids. counter_ids_from (counter_with_prefix p) n = Some ids \<and> length ids = n \<and>
    distinct ids \<and> list_all is_conforming ids"
proof -
  have id: "unat (of_nat i :: u64) = i" if "i < n" for i
    using that assms(2) by (simp add: unat_of_nat)
  have small: "i < 36 ^ 13" if "i < n" for i :: nat
    using that assms(2) by simp
  let ?ids = "map (\<lambda>i. p @ base36 i) [0..<n]"
  have "counter_ids_from (counter_with_prefix p) n = Some ?ids"
    using length_base36 [OF small] assms(1)
    by (fastforce simp: counter_ids_from_eq counter_with_prefix_def id
        intro!: truncating_short simp: MESSAGE_ID_MAX_LEN_def)
  moreover have "distinct ?ids"
    using base36_inj [OF small small] by (auto simp: distinct_map inj_on_def)
  moreover have "list_all is_conforming ?ids"
    using length_base36 [OF small] assms(1)
    by (fastforce simp: list_all_iff is_conforming_def MESSAGE_ID_MAX_LEN_def)
  ultimately show ?thesis by auto
qed

theorem counter_ids_fresh_witness:
  "length ''lc-'' \<le> (23 :: nat) \<and> (2 :: nat) \<le> 2 ^ 64 \<and>
   (\<exists>ids. counter_ids_from (counter_with_prefix ''lc-'') 2 = Some ids \<and> length ids = 2 \<and>
     distinct ids \<and> list_all is_conforming ids)"
proof -
  have "length ''lc-'' \<le> (23 :: nat)" and "(2 :: nat) \<le> 2 ^ 64" by simp_all
  with counter_ids_fresh [of "''lc-''" 2] show ?thesis by blast
qed

lemma hex_digit_inj: "m < 16 \<Longrightarrow> n < 16 \<Longrightarrow> hex_digit m = hex_digit n \<Longrightarrow> m = n"
proof -
  have d: "distinct ''0123456789abcdef''" by simp
  assume "m < 16" "n < 16" "hex_digit m = hex_digit n"
  then show ?thesis using d by (auto simp: hex_digit_def nth_eq_iff_index_eq simp del: distinct.simps)
qed

lemma hex_byte_inj: "hex_byte b = hex_byte c \<longleftrightarrow> b = c"
proof
  assume eq: "hex_byte b = hex_byte c"
  have low: "(x AND 0x0F) = take_bit 4 x" for x :: u8
    by (simp only: take_bit_eq_mask mask_eq_exp_minus_1) simp
  have lt: "unat (drop_bit 4 x) < 16" "unat (take_bit 4 x) < 16" for x :: u8
  proof -
    have "unat x < 256" using unsigned_less [of x, where 'a = nat] by simp
    then show "unat (drop_bit 4 x) < 16" unfolding unat_drop_bit_eq by (simp add: drop_bit_eq_div)
    show "unat (take_bit 4 x) < 16" unfolding unsigned_take_bit_eq by (simp add: take_bit_eq_mod)
  qed
  have "drop_bit 4 b = drop_bit 4 c" "take_bit 4 b = take_bit 4 c"
    using eq hex_digit_inj [OF lt(1) [of b] lt(1) [of c]] hex_digit_inj [OF lt(2) [of b] lt(2) [of c]]
    unfolding hex_byte_def low by (auto simp only: list.inject word_unat_eq_iff [symmetric])
  then show "b = c" by (metis bits_ident)
qed simp

lemma hyphenate_from_inj:
  "length bs = length cs \<Longrightarrow> hyphenate_from p bs = hyphenate_from p cs \<longleftrightarrow> bs = cs"
proof (induction bs arbitrary: p cs)
  case (Cons b bs)
  then obtain c cs' where "cs = c # cs'" "length bs = length cs'" by (cases cs) auto
  moreover have "length (hex_byte x) = 2" for x by (simp add: hex_byte_def)
  ultimately show ?case using Cons.IH by (auto simp: hex_byte_inj)
qed simp



lemma byte_eq:
  "(ucast (drop_bit k c) :: u8) = ucast (drop_bit k (d :: u64)) \<longleftrightarrow>
   (\<forall>n < 8. bit c (k + n) = bit d (k + n))"
  by (auto simp: bit_eq_iff bit_simps)

lemma nibble_eq:
  "((ucast (drop_bit k c) :: u8) AND 0x0F) OR 0x80 = (ucast (drop_bit k (d :: u64)) AND 0x0F) OR 0x80 \<longleftrightarrow>
   (\<forall>n < 4. bit c (k + n) = bit d (k + n))"
proof -
  have strip: "((x AND 0x0F) OR 0x80) AND 0x0F = x AND (0x0F :: u8)" for x
    unfolding bit.conj_disj_distrib2 by (simp add: and.assoc)
  have cancel: "((x AND 0x0F) OR 0x80 = (y AND 0x0F) OR 0x80) \<longleftrightarrow> x AND 0x0F = y AND (0x0F :: u8)" for x y
    using strip [of x] strip [of y] by metis
  have m: "(0x0F :: u8) = mask 4" by (simp add: mask_eq_exp_minus_1)
  have red: "(\<forall>n < 8. (P n \<and> n < 4) = (Q n \<and> n < 4)) \<longleftrightarrow> (\<forall>n < (4 :: nat). P n = Q n)" for P Q
  proof
    assume h: "\<forall>n < 8. (P n \<and> n < 4) = (Q n \<and> n < (4 :: nat))"
    have "n < 8" if "n < 4" for n :: nat using that by simp
    with h show "\<forall>n < 4. P n = Q n" by blast
  qed auto
  show ?thesis unfolding cancel unfolding m by (simp add: bit_eq_iff bit_simps red conj_commute)
qed

lemma masked_eq:
  "c AND NOT 0xF000 = d AND NOT (0xF000 :: u64) \<longleftrightarrow>
   (\<forall>n < 64. \<not> (12 \<le> n \<and> n < 16) \<longrightarrow> bit c n = bit d n)"
proof -
  have m: "(0xF000 :: u64) = push_bit 12 (mask 4)" by (simp add: mask_eq_exp_minus_1)
  show ?thesis unfolding m by (auto simp: bit_eq_iff bit_simps)
qed

lemma stamp_list:
  "stamp v [b0, b1, b2, b3, b4, b5, b6, b7, b8, b9, b10, b11, b12, b13, b14, b15] =
     [b0, b1, b2, b3, b4, b5, (b6 AND 0x0F) OR v, b7, (b8 AND 0x3F) OR 0x80, b9, b10, b11, b12, b13,
      b14, b15]"
  by (simp add: stamp_def eval_nat_numeral)

lemma be_list:
  "u64_to_be_bytes c = [ucast (drop_bit 56 c), ucast (drop_bit 48 c), ucast (drop_bit 40 c),
     ucast (drop_bit 32 c), ucast (drop_bit 24 c), ucast (drop_bit 16 c), ucast (drop_bit 8 c),
     ucast (drop_bit 0 c)]"
  by (simp add: u64_to_be_bytes_def upt_rec)

lemma stamp_be_eq:
  "stamp 0x80 (u64_to_be_bytes c @ replicate 8 0) = stamp 0x80 (u64_to_be_bytes d @ replicate 8 0)
   \<longleftrightarrow> c AND NOT 0xF000 = d AND NOT 0xF000" (is "?L = ?R")
proof -
  have rep: "replicate 8 (0 :: u8) = [0, 0, 0, 0, 0, 0, 0, 0]" by (simp add: eval_nat_numeral)
  have "?L \<longleftrightarrow> (\<forall>q \<in> {0, 2, 3, 4, 5, 6, 7}. \<forall>n < 8. bit c (8 * q + n) = bit d (8 * q + n)) \<and>
      (\<forall>n < 4. bit c (8 + n) = bit d (8 + n))"
    unfolding be_list rep stamp_list append.simps by (simp add: byte_eq nibble_eq [of 8] byte_eq [of 0, simplified] conj_ac bit_drop_bit_eq)
  moreover have "\<dots> \<longleftrightarrow> (\<forall>n < 64. \<not> (12 \<le> n \<and> n < 16) \<longrightarrow> bit c n = bit d n)"
  proof (rule iffI; (intro allI impI)?)
    fix n :: nat
    assume h: "(\<forall>q \<in> {0, 2, 3, 4, 5, 6, 7}. \<forall>n < 8. bit c (8 * q + n) = bit d (8 * q + n)) \<and>
      (\<forall>n < 4. bit c (8 + n) = bit d (8 + n))" and n: "n < 64" "\<not> (12 \<le> n \<and> n < 16)"
    have e: "n = 8 * (n div 8) + n mod 8" "n mod 8 < 8" "n div 8 < 8" using n by simp_all
    show "bit c n = bit d n"
    proof (cases "n div 8 = 1")
      case True
      with e(1) n(2) have "n = 8 + n mod 8" "n mod 8 < 4" by linarith+
      with h show ?thesis by metis
    next
      case False
      with e(3) have "n div 8 \<in> {0, 2, 3, 4, 5, 6, 7}" by auto
      with h e show ?thesis by metis
    qed
  qed auto
  ultimately show ?thesis by (simp only: masked_eq)
qed
lemma length_stamp [simp]: "length (stamp v bs) = length bs"
  by (simp add: stamp_def Let_def)

text \<open>
  The fallback id of the random generator drops bits 12 to 15 of its counter, where it
  writes the version nibble: two counter values give the same id exactly when they agree on the
  other sixty bits. So the ids of one run repeat after 4096 failures of the entropy source,
  although the generator promises distinct ones.
\<close>

theorem degraded_uuid_collides:
  "degraded_uuid c = degraded_uuid d \<longleftrightarrow> c AND NOT 0xF000 = d AND NOT 0xF000"
  unfolding degraded_uuid_def hyphenate_def stamp_be_eq [symmetric]
  by (rule hyphenate_from_inj) simp

lemma random_ids_repeat:
  "fst (random_next_id None 0) = fst (random_next_id None 4096)"
proof -
  have "(1 :: u64) AND NOT 0xF000 = 4097 AND NOT 0xF000" by simp
  then have "degraded_uuid 1 = degraded_uuid 4097"
    unfolding degraded_uuid_def hyphenate_def stamp_be_eq [symmetric] by simp
  then show ?thesis by (simp add: random_next_id_def uuid_v4_def)
qed

end
