(* ===== verification/Rpc_Frame.thy ===== *)
theory Rpc_Frame
  imports Rpc_Error Identifiers
begin

text \<open>
  \<open>src/src/rpc/frame.rs\<close>: the five OCPP-J frames, their parser (\<open>parse\<close>), their printer
  (\<open>to_json\<close>), and what a receiver answers to text it cannot parse (\<open>reply\<close>, \<open>reply_id\<close>,
  \<open>frame_error_code\<close>). The JSON library is the parameter \<open>js\<close>.
\<close>

section \<open>Message types\<close>

datatype message_type_id = MCall | MCallResult | MCallError | MCallResultError | MSend

definition from_number :: "nat \<Rightarrow> message_type_id option" where
  "from_number n =
     (if n = 2 then Some MCall
      else if n = 3 then Some MCallResult
      else if n = 4 then Some MCallError
      else if n = 5 then Some MCallResultError
      else if n = 6 then Some MSend
      else None)"

fun number :: "message_type_id \<Rightarrow> nat" where
  "number MCall = 2"
| "number MCallResult = 3"
| "number MCallError = 4"
| "number MCallResultError = 5"
| "number MSend = 6"

definition type_defined_in :: "message_type_id \<Rightarrow> version \<Rightarrow> bool" where
  "type_defined_in m v \<longleftrightarrow>
     (if m \<in> {MCallResultError, MSend} then has_extended_message_types v else True)"

section \<open>Frames\<close>

datatype frame =
    FrameCall message_id string raw_value
  | FrameCallResult message_id raw_value
  | FrameCallError message_id call_error_ref
  | FrameCallResultError message_id call_error_ref
  | FrameSend message_id string raw_value

fun frame_type :: "frame \<Rightarrow> message_type_id" where
  "frame_type (FrameCall i a p) = MCall"
| "frame_type (FrameCallResult i p) = MCallResult"
| "frame_type (FrameCallError i e) = MCallError"
| "frame_type (FrameCallResultError i e) = MCallResultError"
| "frame_type (FrameSend i a p) = MSend"

fun frame_id :: "frame \<Rightarrow> message_id" where
  "frame_id (FrameCall i a p) = i"
| "frame_id (FrameCallResult i p) = i"
| "frame_id (FrameCallError i e) = i"
| "frame_id (FrameCallResultError i e) = i"
| "frame_id (FrameSend i a p) = i"

fun frame_action :: "frame \<Rightarrow> string option" where
  "frame_action (FrameCall i a p) = Some a"
| "frame_action (FrameSend i a p) = Some a"
| "frame_action f = None"

fun frame_payload :: "frame \<Rightarrow> raw_value option" where
  "frame_payload (FrameCall i a p) = Some p"
| "frame_payload (FrameCallResult i p) = Some p"
| "frame_payload (FrameSend i a p) = Some p"
| "frame_payload f = None"

datatype frame_error =
    NotAnArray
  | WrongArity message_type_id nat nat
  | UnknownMessageType string
  | MessageTypeNotInVersion message_type_id version
  | UnreadableMessageId message_type_id
  | UnreadableAction message_id
  | UnreadableErrorCode message_id

section \<open>Parsing\<close>

definition string_at :: "serde \<Rightarrow> raw_value list \<Rightarrow> nat \<Rightarrow> string option" where
  "string_at js es i = (if i < length es then js_string js (es ! i) else None)"

definition raw_number :: "raw_value list \<Rightarrow> string" where
  "raw_number es = (case es of [] \<Rightarrow> ''?'' | e # _ \<Rightarrow> e)"

definition first_i64 :: "serde \<Rightarrow> raw_value list \<Rightarrow> int option" where
  "first_i64 js es = (case es of [] \<Rightarrow> None | e # _ \<Rightarrow> js_i64 js e)"

definition type_of_number :: "int \<Rightarrow> message_type_id option" where
  "type_of_number n = (if 0 \<le> n \<and> n \<le> 255 then from_number (nat n) else None)"

fun arity :: "message_type_id \<Rightarrow> nat \<times> nat" where
  "arity MCall = (4, 4)"
| "arity MSend = (4, 4)"
| "arity MCallResult = (3, 3)"
| "arity MCallError = (5, 3)"
| "arity MCallResultError = (5, 3)"

text \<open>The part of \<open>Frame::parse\<close> after the message type and the id have been read.\<close>

definition parse_body ::
  "serde \<Rightarrow> raw_value list \<Rightarrow> message_type_id \<Rightarrow> message_id \<Rightarrow> frame_error + frame" where
  "parse_body js es m i =
     (if m = MCall \<or> m = MSend then
        (case string_at js es 2 of
           None \<Rightarrow> Inl (UnreadableAction i)
         | Some a \<Rightarrow> Inr (if m = MCall then FrameCall i a (es ! 3) else FrameSend i a (es ! 3)))
      else if m = MCallResult then Inr (FrameCallResult i (es ! 2))
      else
        (case string_at js es 2 of
           None \<Rightarrow> Inl (UnreadableErrorCode i)
         | Some c \<Rightarrow>
             let error =
               \<lparr>ref_code = parse_error_code c,
                ref_description = (case string_at js es 3 of None \<Rightarrow> [] | Some d \<Rightarrow> d),
                ref_details = (if 4 < length es then es ! 4 else empty_object)\<rparr>
             in Inr (if m = MCallError then FrameCallError i error
                     else FrameCallResultError i error)))"

definition parse :: "serde \<Rightarrow> string \<Rightarrow> version \<Rightarrow> frame_error + frame" where
  "parse js text v =
     (case js_array js text of
        None \<Rightarrow> Inl NotAnArray
      | Some es \<Rightarrow>
          (case first_i64 js es of
             None \<Rightarrow> Inl NotAnArray
           | Some n \<Rightarrow>
               (case type_of_number n of
                  None \<Rightarrow> Inl (UnknownMessageType (raw_number es))
                | Some m \<Rightarrow>
                    if \<not> type_defined_in m v then Inl (MessageTypeNotInVersion m v)
                    else if length es < snd (arity m)
                    then Inl (WrongArity m (length es) (fst (arity m)))
                    else
                      (case string_at js es 1 of
                         None \<Rightarrow> Inl (UnreadableMessageId m)
                       | Some i \<Rightarrow>
                           if i = [] then Inl (UnreadableMessageId m)
                           else parse_body js es m i))))"

section \<open>Printing\<close>

fun frame_elems :: "frame \<Rightarrow> version \<Rightarrow> json_elem list" where
  "frame_elems (FrameCall i a p) v = [JNum 2, JStr i, JStr a, JRaw p]"
| "frame_elems (FrameCallResult i p) v = [JNum 3, JStr i, JRaw p]"
| "frame_elems (FrameCallError i e) v =
     [JNum 4, JStr i, JStr (as_wire (ref_code e) v), JStr (ref_description e), JRaw (ref_details e)]"
| "frame_elems (FrameCallResultError i e) v =
     [JNum 5, JStr i, JStr (as_wire (ref_code e) v), JStr (ref_description e), JRaw (ref_details e)]"
| "frame_elems (FrameSend i a p) v = [JNum 6, JStr i, JStr a, JRaw p]"

definition to_json :: "serde \<Rightarrow> frame \<Rightarrow> version \<Rightarrow> string option" where
  "to_json js f v = js_tuple js (frame_elems f v)"

section \<open>Answering text that does not parse\<close>

datatype frame_reply = Ignore | ReplyCallError | ReplyCallResultError

fun error_message_type :: "frame_error \<Rightarrow> message_type_id option" where
  "error_message_type (WrongArity m found expected) = Some m"
| "error_message_type (MessageTypeNotInVersion m v) = Some m"
| "error_message_type (UnreadableMessageId m) = Some m"
| "error_message_type e = None"

definition unknown_type :: "frame_error \<Rightarrow> bool" where
  "unknown_type e \<longleftrightarrow>
     (case e of UnknownMessageType n \<Rightarrow> True | MessageTypeNotInVersion m v \<Rightarrow> True | _ \<Rightarrow> False)"

definition is_ignorable :: "frame_error \<Rightarrow> version \<Rightarrow> bool" where
  "is_ignorable e v \<longleftrightarrow> unknown_type e \<and> v \<noteq> V2_0_1"

definition reply :: "frame_error \<Rightarrow> version \<Rightarrow> frame_reply" where
  "reply e v =
     (if is_ignorable e v then Ignore
      else if (case e of MessageTypeNotInVersion m w \<Rightarrow> True | _ \<Rightarrow> False) then ReplyCallError
      else
        (case error_message_type e of
           Some MCallResult \<Rightarrow>
             if has_extended_message_types v then ReplyCallResultError else Ignore
         | Some MSend \<Rightarrow> Ignore
         | Some MCallError \<Rightarrow> Ignore
         | Some MCallResultError \<Rightarrow> Ignore
         | Some MCall \<Rightarrow> ReplyCallError
         | None \<Rightarrow> ReplyCallError))"

definition frame_error_code :: "frame_error \<Rightarrow> error_code" where
  "frame_error_code e = (if unknown_type e then MessageTypeNotSupported else RpcFrameworkError)"

definition reply_id :: "frame_error \<Rightarrow> message_id" where
  "reply_id e =
     (case e of UnreadableAction i \<Rightarrow> i | UnreadableErrorCode i \<Rightarrow> i | _ \<Rightarrow> unreadable)"

section \<open>Lemmas\<close>

interpretation type_number: wire_enum number from_number
proof
  fix e show "from_number (number e) = Some e" by (cases e) (simp_all add: from_number_def)
next
  fix w e assume "from_number w = Some e" then show "w = number e"
    by (auto simp: from_number_def split: if_splits)
qed

lemma type_of_number_iff: "type_of_number n = Some m \<longleftrightarrow> n = int (number m)"
proof
  assume "type_of_number n = Some m"
  then show "n = int (number m)"
    by (auto simp: type_of_number_def type_number.of_wire_iff split: if_splits)
next
  assume "n = int (number m)"
  then show "type_of_number n = Some m"
    by (cases m) (simp_all add: type_of_number_def from_number_def)
qed

text \<open>An error frame whose code the version can spell, or any other frame.\<close>

fun code_survives :: "frame \<Rightarrow> version \<Rightarrow> bool" where
  "code_survives (FrameCallError i e) v \<longleftrightarrow> parse_error_code (as_wire (ref_code e) v) = ref_code e"
| "code_survives (FrameCallResultError i e) v \<longleftrightarrow>
     parse_error_code (as_wire (ref_code e) v) = ref_code e"
| "code_survives f v \<longleftrightarrow> True"

lemmas frame_list_simps = list_all2_Cons1 list_all2_Nil numeral_3_eq_3 numeral_2_eq_2
  eval_nat_numeral

lemma parse_to_json_aux:
  assumes "tuples_read_back js" and "to_json js f v = Some t" and "frame_id f \<noteq> []"
    and "type_defined_in (frame_type f) v"
  shows "\<exists>g. parse js t v = Inr g \<and> frame_type g = frame_type f \<and> frame_id g = frame_id f \<and>
    (code_survives f v \<longrightarrow> g = f)"
proof -
  obtain rs where rs: "js_array js t = Some rs" "list_all2 (elem_reads js) (frame_elems f v) rs"
    using assms(1,2) unfolding to_json_def by (rule tuples_read_backE)
  have n: "first_i64 js rs = Some (int (number (frame_type f)))"
    using rs(2) by (cases f) (auto simp: first_i64_def list_all2_Cons1)
  have i: "string_at js rs 1 = Some (frame_id f)"
    using rs(2) by (cases f) (auto simp: string_at_def list_all2_Cons1)
  have len: "length rs = fst (arity (frame_type f))" "snd (arity (frame_type f)) \<le> length rs"
    using list_all2_lengthD [OF rs(2)] by (cases f; simp)+
  have "parse js t v = parse_body js rs (frame_type f) (frame_id f)"
    using rs(1) n i len assms(3,4) by (simp add: parse_def type_of_number_iff [THEN iffD2, OF refl])
  moreover have "\<exists>g. parse_body js rs (frame_type f) (frame_id f) = Inr g \<and>
      frame_type g = frame_type f \<and> frame_id g = frame_id f \<and> (code_survives f v \<longrightarrow> g = f)"
    using rs(2) by (cases f) (auto simp: parse_body_def string_at_def list_all2_Cons1 Let_def)
  ultimately show ?thesis by simp
qed

text \<open>
  C10. Every frame this peer can print is read back as itself: given a JSON library that reads
  back the tuples it writes, parsing the text of a frame with a non-empty id, of a type the
  version has, yields that frame, provided the version can spell its error code.
\<close>

theorem frame_roundtrip:
  assumes "tuples_read_back js" and "to_json js f v = Some t" and "frame_id f \<noteq> []"
    and "type_defined_in (frame_type f) v" and "code_survives f v"
  shows "parse js t v = Inr f"
  using parse_to_json_aux [OF assms(1-4)] assms(5) by auto

theorem frame_roundtrip_witness:
  "\<exists>t. to_json sample_serde (FrameCall ''7'' ''Heartbeat'' empty_object) V1_6 = Some t \<and>
     parse sample_serde t V1_6 = Inr (FrameCall ''7'' ''Heartbeat'' empty_object)"
proof -
  let ?f = "FrameCall ''7'' ''Heartbeat'' empty_object"
  obtain t where t: "to_json sample_serde ?f V1_6 = Some t"
    by (simp add: to_json_def sample_serde_def sample_tuple_def)
  have "parse sample_serde t V1_6 = Inr ?f"
    by (rule frame_roundtrip [OF sample_tuples_read_back t]) (simp_all add: type_defined_in_def)
  with t show ?thesis by blast
qed

text \<open>
  What a parser failure is answered with. Nothing is ever sent in answer to a \<open>SEND\<close> or
  to a broken error frame of a type the version has; a type number the version does not have
  is answered by 2.0.1 only, with \<open>MessageTypeNotSupported\<close>; a \<open>CALLRESULTERROR\<close> answers
  broken results only, and only in 2.1; everything else that is answered gets a \<open>CALLERROR\<close>
  with \<open>RpcFrameworkError\<close>.
\<close>

theorem parse_failure_reply:
  assumes "parse js t v = Inl e"
  shows "(unknown_type e \<longrightarrow> reply e v = (if v = V2_0_1 then ReplyCallError else Ignore) \<and>
        frame_error_code e = MessageTypeNotSupported) \<and>
    (\<not> unknown_type e \<longrightarrow> frame_error_code e = RpcFrameworkError \<and>
        (reply e v = Ignore \<longleftrightarrow>
           (\<exists>m. error_message_type e = Some m \<and> (m \<in> {MSend, MCallError, MCallResultError} \<or>
              m = MCallResult \<and> v \<noteq> V2_1))) \<and>
        (reply e v = ReplyCallResultError \<longleftrightarrow>
           error_message_type e = Some MCallResult \<and> v = V2_1))"
proof -
  have notin: "e = MessageTypeNotInVersion m w \<Longrightarrow> w = v" for m w
    using assms by (auto simp: parse_def parse_body_def Let_def split: option.splits if_splits)
  show ?thesis
    by (cases e; cases v)
      (auto simp: reply_def is_ignorable_def unknown_type_def frame_error_code_def
        has_extended_message_types_def split: option.splits message_type_id.splits)
qed

theorem parse_failure_reply_witness:
  "\<exists>t. parse sample_serde t V2_0_1 = Inl (UnknownMessageType ''n1111111'') \<and>
     reply (UnknownMessageType ''n1111111'') V2_0_1 = ReplyCallError"
proof -
  define t where "t = the (sample_tuple [JNum 7])"
  have arr: "js_array sample_serde t = Some [''n1111111'']"
    unfolding t_def sample_tuple_def option.sel
    by (simp only: sample_serde_def serde.simps sample_array_tuple)
      (simp add: sample_elem_def eval_nat_numeral)
  have p: "parse sample_serde t V2_0_1 = Inl (UnknownMessageType ''n1111111'')"
    using arr by (simp add: parse_def first_i64_def sample_serde_def sample_num_def type_of_number_def
        from_number_def raw_number_def)
  from parse_failure_reply [OF p] show ?thesis
    using p by (auto simp: unknown_type_def)
qed

end
