(* ===== verification/Engine.thy ===== *)
theory Engine
  imports Message_Store Rpc_Frame "HOL-Library.Code_Target_Nat"
begin

text \<open>
  \<open>engine/mod.rs\<close>: the sans-I/O protocol engine that both sides of an OCPP connection run.

  The engine is a record (\<open>engine\<close>) with the fields of the Rust struct; every method is a
  function from engines to engines (with the method's \<open>Result\<close> beside it where it has one).
  A method that pushes onto \<open>outputs\<close> appends to the list of that name. What the engine is
  generic in or calls outside the repository is in the environment record \<open>env\<close>: the
  \<open>MessageStore\<close> implementation, the \<open>IdGenerator\<close> trait object, and the JSON library.

  \<open>step\<close> is one interaction of the driver or the application with the engine; \<open>run\<close> is a
  sequence of them. A run also keeps the log of every output the driver has taken, so that
  statements about everything the engine ever said are statements about
  \<open>log @ outputs\<close>.

  The tokens and counters the source keeps in a \<open>u64\<close> (\<open>next_token\<close>) and the attempt
  count (\<open>u32\<close>) are naturals: none of them can reach its bound in a run of feasible length.
\<close>

section \<open>Configuration\<close>

datatype role = ChargingStation | Csms

fun sends :: "role \<Rightarrow> origin" where
  "sends ChargingStation = ChargingStationOrigin"
| "sends Csms = CsmsOrigin"

fun receives :: "role \<Rightarrow> origin" where
  "receives ChargingStation = CsmsOrigin"
| "receives Csms = ChargingStationOrigin"

datatype inbound_concurrency = Serve | Reject

datatype heartbeat_policy = Automatic | Manual

record offline_policy =
  queue_all_messages :: bool
  max_queued :: nat

definition offline_default :: offline_policy where
  "offline_default = \<lparr>queue_all_messages = False, max_queued = 1024\<rparr>"

record engine_config =
  c_role :: role
  c_version :: version
  c_call_timeout :: duration
  c_inbound_concurrency :: inbound_concurrency
  c_heartbeat :: heartbeat_policy
  c_retry :: retry_policy
  c_offline :: offline_policy
  c_backoff :: backoff
  c_enforce_boot_gate :: bool
  c_boot_retry_fallback :: duration
  c_max_peer_requests :: nat

definition config_new :: "role \<Rightarrow> version \<Rightarrow> engine_config" where
  "config_new r v =
     \<lparr>c_role = r, c_version = v, c_call_timeout = from_secs 30,
      c_inbound_concurrency = Serve, c_heartbeat = Automatic, c_retry = retry_default,
      c_offline = offline_default, c_backoff = backoff_default, c_enforce_boot_gate = True,
      c_boot_retry_fallback = from_secs 30, c_max_peer_requests = 64\<rparr>"

datatype boot_state = BootIdle | BootPending | BootAccepted | BootRejected

definition allows_traffic :: "boot_state \<Rightarrow> bool" where
  "allows_traffic b \<longleftrightarrow> b = BootAccepted"

definition blocks_unsolicited_traffic :: "boot_state \<Rightarrow> bool" where
  "blocks_unsolicited_traffic b \<longleftrightarrow> b = BootPending \<or> b = BootRejected"

fun boot_debug :: "boot_state \<Rightarrow> string" where
  "boot_debug BootIdle = ''Idle''"
| "boot_debug BootPending = ''Pending''"
| "boot_debug BootAccepted = ''Accepted''"
| "boot_debug BootRejected = ''Rejected''"

fun kind_debug :: "message_kind \<Rightarrow> string" where
  "kind_debug Call = ''Call''"
| "kind_debug Send = ''Send''"

section \<open>Calls, outcomes, inputs and outputs\<close>

type_synonym call_token = nat

record call_options =
  o_triggered :: bool
  o_persist :: "bool option"
  o_queue_when_offline :: "bool option"

definition options_default :: call_options where
  "options_default = \<lparr>o_triggered = False, o_persist = None, o_queue_when_offline = None\<rparr>"

definition options_triggered :: call_options where
  "options_triggered = \<lparr>o_triggered = True, o_persist = None, o_queue_when_offline = None\<rparr>"

datatype protocol_violation =
    UnexpectedResponse message_id
  | UnknownMessageTypeNumber string
  | ConcurrentCall message_id
  | WrongMessageKind string message_kind
  | WrongDirection string
  | NonConformingMessageId message_id
  | DuplicateMessageId message_id
  | TooManyPeerRequests message_id
  | MalformedFrame frame_error
  | StoreFailure store_error
  | UnserializableFrame string

datatype close_reason = Drained | DrainTimedOut | Requested

record incoming_request =
  ir_id :: message_id
  ir_action :: string
  ir_payload :: raw_value
  ir_kind :: message_kind

datatype call_failure =
    PeerRejected call_error
  | CallTimedOut
  | Disconnected
  | RetriesExhausted
  | QueueFull
  | Cancelled
  | CallShuttingDown

datatype answer = AnswerResult raw_value | Sent

fun answer_payload :: "answer \<Rightarrow> raw_value option" where
  "answer_payload (AnswerResult p) = Some p"
| "answer_payload Sent = None"

record call_outcome =
  co_token :: call_token
  co_id :: "message_id option"
  co_action :: string
  co_result :: "call_failure + answer"

record clock_sample =
  csms_time :: date_time
  cs_at :: instant

datatype engine_output =
    Transmit string
  | Request incoming_request
  | Outcome call_outcome
  | ResultRejected message_id call_error
  | SetTimer timer instant
  | ClearTimer timer
  | BootStateChanged boot_state
  | ClockSampled clock_sample
  | Violation protocol_violation
  | Close close_reason

datatype engine_input =
    Connected version
  | Received string
  | DisconnectedInput
  | Timeout

datatype engine_error =
    UnknownAction string
  | WrongDirectionError string
  | SendNotSupported string
  | WrongMessageKindError string
  | NoSuchRequest message_id
  | CallResultErrorNotSupported
  | ShuttingDown

section \<open>State\<close>

record pending =
  p_token :: call_token
  p_action :: string
  p_payload :: raw_value
  p_kind :: message_kind
  p_transactional :: bool
  p_attempts :: nat
  p_seq :: "seq option"
  p_not_before :: "instant option"
  p_triggered :: bool
  p_queue_when_offline :: bool

record in_flight =
  f_id :: message_id
  f_token :: call_token
  f_action :: string
  f_transactional :: bool
  f_attempts :: nat
  f_seq :: "seq option"
  f_payload :: raw_value
  f_triggered :: bool
  f_queue_when_offline :: bool
  f_deadline :: instant

record ('s, 'g) engine =
  config :: engine_config
  store :: 's
  ids :: 'g
  outputs :: "engine_output list"
  queue :: "pending list"
  inflight :: "in_flight option"
  peer_inflight :: "message_id set"
  connected :: bool
  version :: version
  now :: instant
  next_token :: nat
  boot :: boot_state
  heartbeat_interval :: "duration option"
  solicited :: "string set"
  draining :: "instant option"
  boot_retry_at :: "instant option"
  heartbeat_at :: "instant option"

record ('s, 'g) env =
  js :: serde
  st :: "'s store_ops"
  next_id :: "'g \<Rightarrow> message_id \<times> 'g"
  json_error :: "frame \<Rightarrow> string"

section \<open>Helpers\<close>

definition emit :: "engine_output \<Rightarrow> ('s, 'g) engine \<Rightarrow> ('s, 'g) engine" where
  "emit x e = e\<lparr>outputs := outputs e @ [x]\<rparr>"

definition allows :: "origin \<Rightarrow> origin \<Rightarrow> bool" where
  "allows og side \<longleftrightarrow>
     (case side of ChargingStationOrigin \<Rightarrow> from_charging_station og
      | CsmsOrigin \<Rightarrow> from_csms og
      | BothOrigin \<Rightarrow> True)"

definition empty_payload :: raw_value where
  "empty_payload = [CHR 0x7B, CHR 0x7D]"

definition advance :: "instant \<Rightarrow> ('s, 'g) engine \<Rightarrow> ('s, 'g) engine" where
  "advance t e = (if millis t > millis (now e) then e\<lparr>now := t\<rparr> else e)"

definition mint_token :: "('s, 'g) engine \<Rightarrow> call_token \<times> ('s, 'g) engine" where
  "mint_token e = (next_token e, e\<lparr>next_token := next_token e + 1\<rparr>)"

definition take_inflight ::
  "message_id \<Rightarrow> ('s, 'g) engine \<Rightarrow> in_flight option \<times> ('s, 'g) engine" where
  "take_inflight i e =
     (case inflight e of
        Some f \<Rightarrow> if f_id f = i then (Some f, e\<lparr>inflight := None\<rparr>) else (None, e)
      | None \<Rightarrow> (None, e))"

definition take_peer_request ::
  "message_id \<Rightarrow> ('s, 'g) engine \<Rightarrow> (engine_error + unit) \<times> ('s, 'g) engine" where
  "take_peer_request i e =
     (if i \<in> peer_inflight e then (Inr (), e\<lparr>peer_inflight := peer_inflight e - {i}\<rparr>)
      else (Inl (NoSuchRequest i), e))"

definition arm_heartbeat :: "('s, 'g) engine \<Rightarrow> ('s, 'g) engine" where
  "arm_heartbeat e =
     (if c_heartbeat (config e) \<noteq> Automatic \<or> c_role (config e) \<noteq> ChargingStation then e
      else
        (case heartbeat_interval e of
           None \<Rightarrow> e
         | Some interval \<Rightarrow>
             if interval = 0 then e
             else
               let at = instant_add (now e) interval in
               if heartbeat_at e = Some at then e
               else emit (SetTimer HeartbeatTimer at) (e\<lparr>heartbeat_at := Some at\<rparr>)))"

definition transmit :: "('s, 'g) env \<Rightarrow> frame \<Rightarrow> ('s, 'g) engine \<Rightarrow> ('s, 'g) engine" where
  "transmit v f e =
     (case to_json (js v) f (version e) of
        Some text \<Rightarrow> arm_heartbeat (emit (Transmit text) e)
      | None \<Rightarrow>
          emit (Violation (StoreFailure
            (StoreError (''frame could not be serialized: '' @ json_error v f)))) e)"

definition reject ::
  "('s, 'g) env \<Rightarrow> message_id \<Rightarrow> message_kind \<Rightarrow> call_error \<Rightarrow> ('s, 'g) engine \<Rightarrow> ('s, 'g) engine" where
  "reject v i kind error e =
     (if kind = Send then e else transmit v (FrameCallError i (of_call_error error)) e)"

definition ack_store :: "('s, 'g) env \<Rightarrow> seq option \<Rightarrow> ('s, 'g) engine \<Rightarrow> ('s, 'g) engine" where
  "ack_store v q e =
     (case q of
        None \<Rightarrow> e
      | Some k \<Rightarrow>
          (case so_ack (st v) (store e) k of
             (Inl error, s) \<Rightarrow> emit (Violation (StoreFailure error)) (e\<lparr>store := s\<rparr>)
           | (Inr _, s) \<Rightarrow> e\<lparr>store := s\<rparr>))"

definition outcome ::
  "call_token \<Rightarrow> message_id option \<Rightarrow> string \<Rightarrow> call_failure + answer \<Rightarrow> engine_output" where
  "outcome t i a r = Outcome \<lparr>co_token = t, co_id = i, co_action = a, co_result = r\<rparr>"

definition fail ::
  "call_token \<Rightarrow> message_id option \<Rightarrow> string \<Rightarrow> call_failure \<Rightarrow> ('s, 'g) engine \<Rightarrow> ('s, 'g) engine" where
  "fail t i a why e = emit (outcome t i a (Inl why)) e"

definition set_attempts_store ::
  "('s, 'g) env \<Rightarrow> seq option \<Rightarrow> nat \<Rightarrow> ('s, 'g) engine \<Rightarrow> ('s, 'g) engine" where
  "set_attempts_store v q n e =
     (case q of
        None \<Rightarrow> e
      | Some k \<Rightarrow>
          (case so_set_attempts (st v) (store e) k n of
             (Inl error, s) \<Rightarrow> emit (Violation (StoreFailure error)) (e\<lparr>store := s\<rparr>)
           | (Inr _, s) \<Rightarrow> e\<lparr>store := s\<rparr>))"

definition requeue_or_fail ::
  "('s, 'g) env \<Rightarrow> in_flight \<Rightarrow> call_failure \<Rightarrow> ('s, 'g) engine \<Rightarrow> ('s, 'g) engine" where
  "requeue_or_fail v f why e =
     (if f_transactional f \<and> may_retry (c_retry (config e)) (f_attempts f) then
        let not_before = instant_add (now e) (delay_after (c_retry (config e)) (f_attempts f));
            e1 = set_attempts_store v (f_seq f) (f_attempts f) e;
            entry =
              \<lparr>p_token = f_token f, p_action = f_action f, p_payload = f_payload f,
               p_kind = Call, p_transactional = True, p_attempts = f_attempts f,
               p_seq = f_seq f, p_not_before = Some not_before,
               p_triggered = f_triggered f, p_queue_when_offline = f_queue_when_offline f\<rparr>
        in emit (SetTimer TransactionRetry not_before) (e1\<lparr>queue := entry # queue e1\<rparr>)
      else
        let why' = (if f_transactional f then RetriesExhausted else why)
        in emit (outcome (f_token f) (Some (f_id f)) (f_action f) (Inl why'))
             (ack_store v (f_seq f) e))"

section \<open>Sending\<close>

text \<open>\<open>is_some_and(|at| self.now < at)\<close>.\<close>

definition waiting :: "instant \<Rightarrow> pending \<Rightarrow> bool" where
  "waiting t p \<longleftrightarrow> (case p_not_before p of None \<Rightarrow> False | Some at \<Rightarrow> millis t < millis at)"

definition eligible :: "('s, 'g) engine \<Rightarrow> nat \<Rightarrow> bool" where
  "eligible e i =
     (let entry = queue e ! i in
      if waiting (now e) entry then False
      else if p_transactional entry \<and> position p_transactional (queue e) \<noteq> Some i then False
      else if \<not> c_enforce_boot_gate (config e) \<or> c_role (config e) \<noteq> ChargingStation then True
      else allows_traffic (boot e) \<or> p_action entry = ''BootNotification'' \<or> p_triggered entry)"

definition next_of_kind :: "message_kind \<Rightarrow> ('s, 'g) engine \<Rightarrow> nat option" where
  "next_of_kind k e =
     find_index (length (queue e)) (\<lambda>i. p_kind (queue e ! i) = k \<and> eligible e i)"

text \<open>The body of the first loop of \<open>pump\<close>: write one \<open>SEND\<close>.\<close>

definition send_entry :: "('s, 'g) env \<Rightarrow> nat \<Rightarrow> ('s, 'g) engine \<Rightarrow> ('s, 'g) engine" where
  "send_entry v i e =
     (let entry = queue e ! i;
          e1 = e\<lparr>queue := remove_at i (queue e)\<rparr>;
          (mid, g) = next_id v (ids e1);
          e2 = transmit v (FrameSend mid (p_action entry) (p_payload entry)) (e1\<lparr>ids := g\<rparr>);
          e3 = ack_store v (p_seq entry) e2
      in emit (outcome (p_token entry) (Some mid) (p_action entry) (Inr Sent)) e3)"

text \<open>The body of the second loop: write one \<open>CALL\<close> and remember it.\<close>

definition start_call :: "('s, 'g) env \<Rightarrow> nat \<Rightarrow> ('s, 'g) engine \<Rightarrow> ('s, 'g) engine" where
  "start_call v i e =
     (let entry = queue e ! i;
          e1 = e\<lparr>queue := remove_at i (queue e)\<rparr>;
          (mid, g) = next_id v (ids e1);
          e2 = transmit v (FrameCall mid (p_action entry) (p_payload entry)) (e1\<lparr>ids := g\<rparr>);
          deadline = instant_add (now e2) (c_call_timeout (config e2));
          e3 = emit (SetTimer CallTimeout deadline) e2
      in e3\<lparr>inflight := Some
           \<lparr>f_id = mid, f_token = p_token entry, f_action = p_action entry,
            f_transactional = p_transactional entry, f_attempts = p_attempts entry + 1,
            f_seq = p_seq entry, f_payload = p_payload entry, f_triggered = p_triggered entry,
            f_queue_when_offline = p_queue_when_offline entry, f_deadline = deadline\<rparr>\<rparr>)"

lemma outputs_only [frame_simps]:
  "queue (emit x e) = queue e" "inflight (emit x e) = inflight e"
  "queue (arm_heartbeat e) = queue e" "inflight (arm_heartbeat e) = inflight e"
  "queue (transmit v f e) = queue e" "inflight (transmit v f e) = inflight e"
  "queue (ack_store v q e) = queue e" "inflight (ack_store v q e) = inflight e"
  by (simp_all add: emit_def arm_heartbeat_def transmit_def ack_store_def Let_def
      split: option.split prod.split sum.split)

lemma next_of_kind_Some:
  "next_of_kind k e = Some i \<Longrightarrow>
   i < length (queue e) \<and> p_kind (queue e ! i) = k \<and> eligible e i"
  by (simp add: next_of_kind_def find_index_Some)

lemma queue_send_entry: "queue (send_entry v i e) = remove_at i (queue e)"
  by (simp add: send_entry_def frame_simps Let_def split: prod.split)

lemma queue_start_call: "queue (start_call v i e) = remove_at i (queue e)"
  by (simp add: start_call_def frame_simps Let_def split: prod.split)

function pump_sends :: "('s, 'g) env \<Rightarrow> ('s, 'g) engine \<Rightarrow> ('s, 'g) engine" where
  "pump_sends v e =
     (case next_of_kind Send e of
        None \<Rightarrow> e
      | Some i \<Rightarrow> pump_sends v (send_entry v i e))"
  by pat_completeness auto
termination
  by (relation "measure (\<lambda>(v, e). length (queue e))")
    (auto simp: queue_send_entry dest!: next_of_kind_Some)

function pump_calls :: "('s, 'g) env \<Rightarrow> ('s, 'g) engine \<Rightarrow> ('s, 'g) engine" where
  "pump_calls v e =
     (if inflight e \<noteq> None then e
      else
        (case next_of_kind Call e of
           None \<Rightarrow> e
         | Some i \<Rightarrow> pump_calls v (start_call v i e)))"
  by pat_completeness auto
termination
  by (relation "measure (\<lambda>(v, e). length (queue e))")
    (auto simp: queue_start_call dest!: next_of_kind_Some)

declare pump_sends.simps [simp del] pump_calls.simps [simp del]

definition pump :: "('s, 'g) env \<Rightarrow> ('s, 'g) engine \<Rightarrow> ('s, 'g) engine" where
  "pump v e = (if \<not> connected e then e else pump_calls v (pump_sends v e))"

section \<open>Drain\<close>

definition drain_complete :: "('s, 'g) engine \<Rightarrow> bool" where
  "drain_complete e \<longleftrightarrow> inflight e = None \<and> queue e = []"

definition check_drain :: "('s, 'g) engine \<Rightarrow> ('s, 'g) engine" where
  "check_drain e =
     (if draining e \<noteq> None \<and> drain_complete e
      then emit (Close Drained) (emit (ClearTimer DrainDeadline) (e\<lparr>draining := None\<rparr>))
      else e)"

section \<open>The boot state machine\<close>

definition boot_state_of :: "string \<Rightarrow> boot_state option" where
  "boot_state_of status =
     (if status = ''Accepted'' then Some BootAccepted
      else if status = ''Pending'' then Some BootPending
      else if status = ''Rejected'' then Some BootRejected
      else None)"

text \<open>\<open>Option::filter(|d| !d.is_zero())\<close>.\<close>

definition nonzero :: "duration option \<Rightarrow> duration option" where
  "nonzero d = (case d of None \<Rightarrow> None | Some x \<Rightarrow> if x = 0 then None else Some x)"

definition observe_boot_answer ::
  "('s, 'g) env \<Rightarrow> raw_value \<Rightarrow> bool \<Rightarrow> ('s, 'g) engine \<Rightarrow> ('s, 'g) engine" where
  "observe_boot_answer v payload outgoing e =
     (case js_boot (js v) payload of
        None \<Rightarrow> e
      | Some ans \<Rightarrow>
          (case boot_state_of (ba_status ans) of
             None \<Rightarrow> e
           | Some state \<Rightarrow>
               let e1 = emit (BootStateChanged state) (e\<lparr>boot := state\<rparr>);
                   e2 = (case ba_current_time ans of
                           Some time \<Rightarrow>
                             if \<not> outgoing
                             then emit (ClockSampled \<lparr>csms_time = time, cs_at = now e1\<rparr>) e1
                             else e1
                         | None \<Rightarrow> e1);
                   interval = map_option from_secs (ba_interval ans)
               in if state = BootAccepted then
                    let e3 = e2\<lparr>heartbeat_interval := nonzero interval\<rparr>
                    in if \<not> outgoing then pump v (arm_heartbeat e3) else e3
                  else if \<not> outgoing then
                    let wait = (case nonzero interval of
                                  Some d \<Rightarrow> d | None \<Rightarrow> c_boot_retry_fallback (config e2));
                        at = instant_add (now e2) wait
                    in emit (SetTimer BootRetry at) (e2\<lparr>boot_retry_at := Some at\<rparr>)
                  else e2))"

definition remember_solicited ::
  "('s, 'g) env \<Rightarrow> string \<Rightarrow> raw_value \<Rightarrow> ('s, 'g) engine \<Rightarrow> ('s, 'g) engine" where
  "remember_solicited v action payload e =
     (let requested =
            (if action = ''TriggerMessage'' \<or> action = ''ExtendedTriggerMessage'' then
               (case js_trigger (js v) payload of
                  Some (Some r) \<Rightarrow>
                    {r} \<union> (if r = ''SignChargePointCertificate'' then {''SignCertificate''} else {})
                | _ \<Rightarrow> {})
             else {})
      in e\<lparr>solicited := solicited e \<union> requested \<union> set (solicited_by (version e) action)\<rparr>)"

section \<open>The application's operations\<close>

text \<open>The part of \<open>call_with\<close> that refuses a call before a token is minted.\<close>

definition call_refused :: "('s, 'g) engine \<Rightarrow> string \<Rightarrow> engine_error + message_kind" where
  "call_refused e action =
     (if draining e \<noteq> None then Inl ShuttingDown
      else
        (case kind_of (version e) action of
           None \<Rightarrow> Inl (UnknownAction action)
         | Some kind \<Rightarrow>
             let og = (case origin_of (version e) action of None \<Rightarrow> BothOrigin | Some x \<Rightarrow> x) in
             if \<not> allows og (sends (c_role (config e))) then Inl (WrongDirectionError action)
             else if kind = Send \<and> \<not> has_extended_message_types (version e)
             then Inl (SendNotSupported action)
             else Inr kind))"

text \<open>The part that makes the call durable: \<open>None\<close> when the store refused it.\<close>

definition persist_call ::
  "('s, 'g) env \<Rightarrow> bool \<Rightarrow> queued_call \<Rightarrow> ('s, 'g) engine \<Rightarrow> seq option option \<times> ('s, 'g) engine" where
  "persist_call v persist entry e =
     (if \<not> persist then (Some None, e)
      else
        (case so_push (st v) (store e) entry of
           (Inr q, s) \<Rightarrow> (Some (Some q), e\<lparr>store := s\<rparr>)
         | (Inl error, s) \<Rightarrow> (None, emit (Violation (StoreFailure error)) (e\<lparr>store := s\<rparr>))))"

definition call_with ::
  "('s, 'g) env \<Rightarrow> instant \<Rightarrow> string \<Rightarrow> raw_value \<Rightarrow> call_options \<Rightarrow> ('s, 'g) engine \<Rightarrow>
   (engine_error + call_token) \<times> ('s, 'g) engine" where
  "call_with v t action payload options e0 =
     (let e = advance t e0 in
      case call_refused e action of
        Inl error \<Rightarrow> (Inl error, e)
      | Inr kind \<Rightarrow>
          let transactional = is_transaction_related (version e) action;
              persist = (case o_persist options of None \<Rightarrow> transactional | Some b \<Rightarrow> b);
              queue_offline =
                (case o_queue_when_offline options of
                   None \<Rightarrow> transactional \<or> queue_all_messages (c_offline (config e))
                 | Some b \<Rightarrow> b);
              (token, e1) = mint_token e
          in if \<not> connected e1 \<and> \<not> queue_offline
             then (Inr token, fail token None action Disconnected e1)
             else if length (queue e1) \<ge> max_queued (c_offline (config e1))
             then (Inr token, fail token None action QueueFull e1)
             else
               (case persist_call v persist
                       \<lparr>qc_action = action, qc_payload = payload, qc_kind = kind,
                        qc_attempts = 0, qc_transactional = transactional\<rparr> e1 of
                  (None, e2) \<Rightarrow> (Inr token, fail token None action QueueFull e2)
                | (Some q, e2) \<Rightarrow>
                    let e3 = (if c_role (config e2) = Csms
                              then remember_solicited v action payload e2 else e2);
                        entry =
                          \<lparr>p_token = token, p_action = action, p_payload = payload,
                           p_kind = kind, p_transactional = transactional, p_attempts = 0,
                           p_seq = q, p_not_before = None,
                           p_triggered = o_triggered options,
                           p_queue_when_offline = queue_offline\<rparr>
                    in (Inr token, pump v (e3\<lparr>queue := queue e3 @ [entry]\<rparr>))))"

definition call ::
  "('s, 'g) env \<Rightarrow> instant \<Rightarrow> string \<Rightarrow> raw_value \<Rightarrow> ('s, 'g) engine \<Rightarrow>
   (engine_error + call_token) \<times> ('s, 'g) engine" where
  "call v t action payload e = call_with v t action payload options_default e"

definition respond ::
  "('s, 'g) env \<Rightarrow> instant \<Rightarrow> message_id \<Rightarrow> raw_value \<Rightarrow> ('s, 'g) engine \<Rightarrow>
   (engine_error + unit) \<times> ('s, 'g) engine" where
  "respond v t i payload e =
     (case take_peer_request i (advance t e) of
        (Inl error, e1) \<Rightarrow> (Inl error, e1)
      | (Inr _, e1) \<Rightarrow>
          let e2 = (if c_role (config e1) = Csms then observe_boot_answer v payload True e1
                    else e1)
          in (Inr (), transmit v (FrameCallResult i payload) e2))"

definition respond_error ::
  "('s, 'g) env \<Rightarrow> instant \<Rightarrow> message_id \<Rightarrow> call_error \<Rightarrow> ('s, 'g) engine \<Rightarrow>
   (engine_error + unit) \<times> ('s, 'g) engine" where
  "respond_error v t i error e =
     (case take_peer_request i (advance t e) of
        (Inl err, e1) \<Rightarrow> (Inl err, e1)
      | (Inr _, e1) \<Rightarrow> (Inr (), transmit v (FrameCallError i (of_call_error error)) e1))"

definition reject_result ::
  "('s, 'g) env \<Rightarrow> instant \<Rightarrow> message_id \<Rightarrow> call_error \<Rightarrow> ('s, 'g) engine \<Rightarrow>
   (engine_error + unit) \<times> ('s, 'g) engine" where
  "reject_result v t i error e =
     (let e1 = advance t e in
      if \<not> has_extended_message_types (version e1) then (Inl CallResultErrorNotSupported, e1)
      else (Inr (), transmit v (FrameCallResultError i (of_call_error error)) e1))"

definition cancel ::
  "('s, 'g) env \<Rightarrow> call_token \<Rightarrow> ('s, 'g) engine \<Rightarrow> bool \<times> ('s, 'g) engine" where
  "cancel v token e =
     (case position (\<lambda>p. p_token p = token) (queue e) of
        None \<Rightarrow> (False, e)
      | Some i \<Rightarrow>
          let entry = queue e ! i;
              e1 = ack_store v (p_seq entry) (e\<lparr>queue := remove_at i (queue e)\<rparr>)
          in (True, emit (outcome token None (p_action entry) (Inl Cancelled)) e1))"

definition shutdown :: "instant \<Rightarrow> instant \<Rightarrow> ('s, 'g) engine \<Rightarrow> ('s, 'g) engine" where
  "shutdown t deadline e0 =
     (let e = advance t e0 in
      if draining e \<noteq> None then e
      else check_drain (emit (SetTimer DrainDeadline deadline)
             (e\<lparr>draining := Some deadline\<rparr>)))"

definition set_call_timeout :: "duration \<Rightarrow> ('s, 'g) engine \<Rightarrow> ('s, 'g) engine" where
  "set_call_timeout d e = e\<lparr>config := (config e)\<lparr>c_call_timeout := d\<rparr>\<rparr>"

definition set_id_generator :: "'g \<Rightarrow> ('s, 'g) engine \<Rightarrow> ('s, 'g) engine" where
  "set_id_generator g e = e\<lparr>ids := g\<rparr>"

definition poll_output :: "('s, 'g) engine \<Rightarrow> engine_output option \<times> ('s, 'g) engine" where
  "poll_output e =
     (case outputs e of [] \<Rightarrow> (None, e) | x # xs \<Rightarrow> (Some x, e\<lparr>outputs := xs\<rparr>))"

definition drain :: "('s, 'g) engine \<Rightarrow> engine_output list \<times> ('s, 'g) engine" where
  "drain e = (outputs e, e\<lparr>outputs := []\<rparr>)"

section \<open>Inputs\<close>

definition on_connected :: "('s, 'g) env \<Rightarrow> version \<Rightarrow> ('s, 'g) engine \<Rightarrow> ('s, 'g) engine" where
  "on_connected v w e =
     pump v (arm_heartbeat (e\<lparr>version := w, connected := True, peer_inflight := {}\<rparr>))"

text \<open>
  The loop of \<open>on_disconnected\<close>: pops the queue from the front, keeps what waits out the
  outage and fails the rest.
\<close>

fun offline_sweep ::
  "('s, 'g) env \<Rightarrow> pending list \<Rightarrow> pending list \<Rightarrow> ('s, 'g) engine \<Rightarrow> ('s, 'g) engine" where
  "offline_sweep v kept [] e = e\<lparr>queue := kept\<rparr>"
| "offline_sweep v kept (entry # rest) e =
     (if p_queue_when_offline entry then offline_sweep v (kept @ [entry]) rest (e\<lparr>queue := rest\<rparr>)
      else
        offline_sweep v kept rest
          (emit (outcome (p_token entry) None (p_action entry) (Inl Disconnected))
            (ack_store v (p_seq entry) (e\<lparr>queue := rest\<rparr>))))"

definition on_disconnected :: "('s, 'g) env \<Rightarrow> ('s, 'g) engine \<Rightarrow> ('s, 'g) engine" where
  "on_disconnected v e =
     (let e1 = emit (ClearTimer CallTimeout) (e\<lparr>connected := False, peer_inflight := {}\<rparr>);
          e2 = (emit (ClearTimer HeartbeatTimer) e1)\<lparr>heartbeat_at := None\<rparr>;
          e3 = (case inflight e2 of
                  Some f \<Rightarrow> requeue_or_fail v f Disconnected (e2\<lparr>inflight := None\<rparr>)
                | None \<Rightarrow> e2)
      in check_drain (offline_sweep v [] (queue e3) e3))"

definition send_heartbeat :: "('s, 'g) env \<Rightarrow> ('s, 'g) engine \<Rightarrow> ('s, 'g) engine" where
  "send_heartbeat v e =
     snd (call_with v (now e) ''Heartbeat'' empty_payload
            (options_default\<lparr>o_queue_when_offline := Some False\<rparr>) e)"

text \<open>The four timer checks of \<open>on_timeout\<close>, in order.\<close>

definition call_timeout_due :: "('s, 'g) env \<Rightarrow> ('s, 'g) engine \<Rightarrow> ('s, 'g) engine" where
  "call_timeout_due v e =
     (case inflight e of
        Some f \<Rightarrow>
          if millis (now e) \<ge> millis (f_deadline f)
          then requeue_or_fail v f CallTimedOut (emit (ClearTimer CallTimeout) (e\<lparr>inflight := None\<rparr>))
          else e
      | None \<Rightarrow> e)"

definition heartbeat_due :: "('s, 'g) env \<Rightarrow> ('s, 'g) engine \<Rightarrow> ('s, 'g) engine" where
  "heartbeat_due v e =
     (case heartbeat_at e of
        Some at \<Rightarrow>
          if millis (now e) \<ge> millis at then
            let e1 = e\<lparr>heartbeat_at := None\<rparr>;
                e2 = (if connected e1 \<and> allows_traffic (boot e1) then send_heartbeat v e1 else e1)
            in arm_heartbeat e2
          else e
      | None \<Rightarrow> e)"

definition boot_retry_due :: "('s, 'g) engine \<Rightarrow> ('s, 'g) engine" where
  "boot_retry_due e =
     (case boot_retry_at e of
        Some at \<Rightarrow>
          if millis (now e) \<ge> millis at
          then emit (BootStateChanged BootIdle) (e\<lparr>boot_retry_at := None, boot := BootIdle\<rparr>)
          else e
      | None \<Rightarrow> e)"

definition drain_overdue :: "('s, 'g) engine \<Rightarrow> bool" where
  "drain_overdue e \<longleftrightarrow>
     (case draining e of
        Some deadline \<Rightarrow> millis (now e) \<ge> millis deadline \<and> \<not> drain_complete e
      | None \<Rightarrow> False)"

definition on_timeout :: "('s, 'g) env \<Rightarrow> ('s, 'g) engine \<Rightarrow> ('s, 'g) engine" where
  "on_timeout v e0 =
     (let e = boot_retry_due (heartbeat_due v (call_timeout_due v e0)) in
      if drain_overdue e
      then (emit (Close DrainTimedOut) e)\<lparr>draining := None\<rparr>
      else check_drain (pump v e))"

definition section_sign :: string where
  "section_sign = [CHR 0xA7]"

text \<open>
  The checks \<open>on_call\<close> makes of a \<open>CALL\<close> the peer may not have started; \<open>None\<close> lets
  it through. The violations reported on the way are in the engine returned.
\<close>

definition peer_call_refused ::
  "message_id \<Rightarrow> ('s, 'g) engine \<Rightarrow> call_error option \<times> ('s, 'g) engine" where
  "peer_call_refused i e =
     (if i \<in> peer_inflight e then
        (Some (call_error_new RpcFrameworkError
           (''a CALL with this MessageId is already being handled (Part 4 '' @ section_sign @
            ''4.2.3)'')),
         emit (Violation (DuplicateMessageId i)) e)
      else if peer_inflight e \<noteq> {} then
        let e1 = emit (Violation (ConcurrentCall i)) e;
            over_limit = card (peer_inflight e1) \<ge> c_max_peer_requests (config e1);
            e2 = (if over_limit then emit (Violation (TooManyPeerRequests i)) e1 else e1)
        in (if over_limit \<or> c_inbound_concurrency (config e2) = Reject
            then Some (call_error_new ProtocolError
              (''a CALL is already outstanding in this direction (Part 4 '' @ section_sign @
               ''4.1.1)''))
            else None, e2)
      else (None, e))"

definition boot_gate_blocks :: "string \<Rightarrow> ('s, 'g) engine \<Rightarrow> bool" where
  "boot_gate_blocks action e \<longleftrightarrow>
     c_role (config e) = Csms \<and> c_enforce_boot_gate (config e) \<and>
     blocks_unsolicited_traffic (boot e) \<and> action \<noteq> ''BootNotification'' \<and>
     action \<notin> solicited e"

definition on_call ::
  "('s, 'g) env \<Rightarrow> message_id \<Rightarrow> string \<Rightarrow> raw_value \<Rightarrow> message_kind \<Rightarrow>
   ('s, 'g) engine \<Rightarrow> ('s, 'g) engine" where
  "on_call v i action payload received e =
     (case kind_of (version e) action of
        None \<Rightarrow> reject v i received (not_implemented action) e
      | Some expected \<Rightarrow>
          let og = (case origin_of (version e) action of None \<Rightarrow> BothOrigin | Some x \<Rightarrow> x) in
          if expected \<noteq> received then
            reject v i received
              (call_error_new ProtocolError
                (action @ '' is a '' @ kind_debug expected @ '' message, not a '' @
                 kind_debug received @ '' message''))
              (emit (Violation (WrongMessageKind action received)) e)
          else if \<not> allows og (receives (c_role (config e))) then
            reject v i received (not_supported action)
              (emit (Violation (WrongDirection action)) e)
          else
            (case (if received = Call then peer_call_refused i e else (None, e)) of
               (Some error, e1) \<Rightarrow> reject v i received error e1
             | (None, e1) \<Rightarrow>
                 if boot_gate_blocks action e1 then
                   reject v i received
                     (security_error (action @ '' is not allowed while the charging station is ''
                        @ boot_debug (boot e1) @ '' (B02.FR.09)'')) e1
                 else
                   let e2 = (if c_role (config e1) = Csms \<and> action = ''BootNotification''
                             then e1\<lparr>boot := BootIdle\<rparr> else e1);
                       e3 = (if received = Call
                             then e2\<lparr>peer_inflight := insert i (peer_inflight e2)\<rparr> else e2)
                   in emit (Request \<lparr>ir_id = i, ir_action = action, ir_payload = payload,
                              ir_kind = received\<rparr>) e3))"

definition on_call_result ::
  "('s, 'g) env \<Rightarrow> message_id \<Rightarrow> raw_value \<Rightarrow> ('s, 'g) engine \<Rightarrow> ('s, 'g) engine" where
  "on_call_result v i payload e =
     (case take_inflight i e of
        (None, e1) \<Rightarrow> emit (Violation (UnexpectedResponse i)) e1
      | (Some f, e1) \<Rightarrow>
          let e2 = emit (ClearTimer CallTimeout) (ack_store v (f_seq f) e1);
              e3 = (if f_action f = ''BootNotification'' \<and> c_role (config e2) = ChargingStation
                    then observe_boot_answer v payload False e2
                    else if f_action f = ''Heartbeat'' then
                      (case js_current_time (js v) payload of
                         Some time \<Rightarrow> emit (ClockSampled \<lparr>csms_time = time, cs_at = now e2\<rparr>) e2
                       | None \<Rightarrow> e2)
                    else e2);
              e4 = emit (outcome (f_token f) (Some (f_id f)) (f_action f)
                     (Inr (AnswerResult payload))) e3
          in check_drain (pump v e4))"

definition on_call_error ::
  "('s, 'g) env \<Rightarrow> message_id \<Rightarrow> call_error_ref \<Rightarrow> ('s, 'g) engine \<Rightarrow> ('s, 'g) engine" where
  "on_call_error v i error e =
     (case take_inflight i e of
        (None, e1) \<Rightarrow> emit (Violation (UnexpectedResponse i)) e1
      | (Some f, e1) \<Rightarrow>
          let e2 = emit (ClearTimer CallTimeout) (ack_store v (f_seq f) e1);
              e3 = emit (outcome (f_token f) (Some (f_id f)) (f_action f)
                     (Inl (PeerRejected (to_call_error (js v) error)))) e2
          in check_drain (pump v e3))"

definition on_malformed ::
  "('s, 'g) env \<Rightarrow> frame_error \<Rightarrow> ('s, 'g) engine \<Rightarrow> ('s, 'g) engine" where
  "on_malformed v error e =
     (let e1 = emit (Violation (case error of
                  UnknownMessageType n \<Rightarrow> UnknownMessageTypeNumber n
                | _ \<Rightarrow> MalformedFrame error)) e
      in case reply error (version e) of
           Ignore \<Rightarrow> e1
         | ReplyCallError \<Rightarrow>
             transmit v (FrameCallError (reply_id error)
               (of_call_error (call_error_new (frame_error_code error)
                  ''frame could not be processed''))) e1
         | ReplyCallResultError \<Rightarrow>
             transmit v (FrameCallResultError (reply_id error)
               (of_call_error (call_error_new (frame_error_code error)
                  ''result could not be processed''))) e1)"

definition on_received :: "('s, 'g) env \<Rightarrow> string \<Rightarrow> ('s, 'g) engine \<Rightarrow> ('s, 'g) engine" where
  "on_received v text e0 =
     (let e = arm_heartbeat e0 in
      case parse (js v) text (version e) of
        Inl error \<Rightarrow> on_malformed v error e
      | Inr f \<Rightarrow>
          let e1 = (if \<not> is_conforming (frame_id f)
                    then emit (Violation (NonConformingMessageId (frame_id f))) e else e)
          in (case f of
                FrameCall i a p \<Rightarrow> on_call v i a p Call e1
              | FrameSend i a p \<Rightarrow> on_call v i a p Send e1
              | FrameCallResult i p \<Rightarrow> on_call_result v i p e1
              | FrameCallError i err \<Rightarrow> on_call_error v i err e1
              | FrameCallResultError i err \<Rightarrow>
                  emit (ResultRejected i (to_call_error (js v) err)) e1))"

definition handle ::
  "('s, 'g) env \<Rightarrow> instant \<Rightarrow> engine_input \<Rightarrow> ('s, 'g) engine \<Rightarrow> ('s, 'g) engine" where
  "handle v t i e0 =
     (let e = advance t e0 in
      case i of
        Connected w \<Rightarrow> on_connected v w e
      | Received text \<Rightarrow> on_received v text e
      | DisconnectedInput \<Rightarrow> on_disconnected v e
      | Timeout \<Rightarrow> on_timeout v e)"

section \<open>Construction\<close>

definition recover_entry :: "('s, 'g) engine \<Rightarrow> seq \<times> queued_call \<Rightarrow> ('s, 'g) engine" where
  "recover_entry e x =
     (let (token, e1) = mint_token e; (q, entry) = x in
      e1\<lparr>queue := queue e1 @
         [\<lparr>p_token = token, p_action = qc_action entry, p_payload = qc_payload entry,
           p_kind = qc_kind entry, p_transactional = qc_transactional entry,
           p_attempts = qc_attempts entry, p_seq = Some q, p_not_before = None,
           p_triggered = False, p_queue_when_offline = True\<rparr>]\<rparr>)"

definition fresh_engine :: "engine_config \<Rightarrow> 's \<Rightarrow> 'g \<Rightarrow> ('s, 'g) engine" where
  "fresh_engine cfg s g =
     \<lparr>config = cfg, store = s, ids = g, outputs = [], queue = [], inflight = None,
      peer_inflight = {}, connected = False, version = c_version cfg, now = instant_zero,
      next_token = 0, boot = BootIdle, heartbeat_interval = None, solicited = {},
      draining = None, boot_retry_at = None, heartbeat_at = None\<rparr>"

definition with_store ::
  "('s, 'g) env \<Rightarrow> engine_config \<Rightarrow> 's \<Rightarrow> 'g \<Rightarrow> store_error + ('s, 'g) engine" where
  "with_store v cfg s g =
     (let e = fresh_engine cfg s g
      in case so_pending (st v) (store e) of
           Inl error \<Rightarrow> Inl error
         | Inr xs \<Rightarrow> Inr (foldl recover_entry e xs))"

text \<open>\<open>Engine::new\<close>; \<open>None\<close> is the panic of its \<open>expect\<close>.\<close>

definition engine_new ::
  "(mem_store, 'g) env \<Rightarrow> engine_config \<Rightarrow> 'g \<Rightarrow> (mem_store, 'g) engine option" where
  "engine_new v cfg g =
     (case with_store v cfg mem_new g of Inl error \<Rightarrow> None | Inr e \<Rightarrow> Some e)"

section \<open>Observers\<close>

definition queued :: "('s, 'g) engine \<Rightarrow> nat" where
  "queued e = length (queue e)"

definition has_outstanding_call :: "('s, 'g) engine \<Rightarrow> bool" where
  "has_outstanding_call e \<longleftrightarrow> inflight e \<noteq> None"

definition awaiting_response :: "('s, 'g) engine \<Rightarrow> nat" where
  "awaiting_response e = card (peer_inflight e)"

section \<open>Runs\<close>

datatype 'g command =
    Handle instant engine_input
  | CallWith instant string raw_value call_options
  | Respond instant message_id raw_value
  | RespondError instant message_id call_error
  | RejectResult instant message_id call_error
  | Cancel call_token
  | Shutdown instant instant
  | SetCallTimeout duration
  | SetIdGenerator 'g
  | PollOutput
  | Drain

text \<open>An engine together with everything the driver has already taken from it.\<close>

type_synonym ('s, 'g) session = "('s, 'g) engine \<times> engine_output list"

fun step :: "('s, 'g) env \<Rightarrow> ('s, 'g) session \<Rightarrow> 'g command \<Rightarrow> ('s, 'g) session" where
  "step v (e, log) (Handle t i) = (handle v t i e, log)"
| "step v (e, log) (CallWith t a p opts) = (snd (call_with v t a p opts e), log)"
| "step v (e, log) (Respond t i p) = (snd (respond v t i p e), log)"
| "step v (e, log) (RespondError t i err) = (snd (respond_error v t i err e), log)"
| "step v (e, log) (RejectResult t i err) = (snd (reject_result v t i err e), log)"
| "step v (e, log) (Cancel token) = (snd (cancel v token e), log)"
| "step v (e, log) (Shutdown t d) = (shutdown t d e, log)"
| "step v (e, log) (SetCallTimeout d) = (set_call_timeout d e, log)"
| "step v (e, log) (SetIdGenerator g) = (set_id_generator g e, log)"
| "step v (e, log) PollOutput =
     (case poll_output e of
        (None, e1) \<Rightarrow> (e1, log)
      | (Some x, e1) \<Rightarrow> (e1, log @ [x]))"
| "step v (e, log) Drain = (case drain e of (xs, e1) \<Rightarrow> (e1, log @ xs))"

definition run :: "('s, 'g) env \<Rightarrow> ('s, 'g) session \<Rightarrow> 'g command list \<Rightarrow> ('s, 'g) session" where
  "run v s cs = foldl (step v) s cs"

definition said :: "('s, 'g) session \<Rightarrow> engine_output list" where
  "said s = snd s @ outputs (fst s)"

section \<open>A concrete environment\<close>

text \<open>
  The repository's own store and counter, with the JSON instance of \<open>Serde_Json\<close>: an
  environment the model can be evaluated in.
\<close>

definition counter_source :: "counter_ids \<Rightarrow> message_id \<times> counter_ids" where
  "counter_source g = (case counter_next_id g of None \<Rightarrow> ([], g) | Some x \<Rightarrow> x)"

definition sample_env :: "(mem_store, counter_ids) env" where
  "sample_env =
     \<lparr>js = sample_serde, st = mem_ops, next_id = counter_source, json_error = (\<lambda>_. [])\<rparr>"

definition sample_engine :: "engine_config \<Rightarrow> (mem_store, counter_ids) engine" where
  "sample_engine cfg = fresh_engine cfg mem_new (counter_with_prefix ''k'')"

text \<open>The text of a frame in that environment.\<close>

definition sample_text :: "frame \<Rightarrow> version \<Rightarrow> string" where
  "sample_text f w = (case to_json sample_serde f w of None \<Rightarrow> [] | Some t \<Rightarrow> t)"

definition at_ms :: "nat \<Rightarrow> instant" where
  "at_ms n = instant_from_millis n"

lemma sample_start:
  "with_store sample_env cfg mem_new (counter_with_prefix ''k'') = Inr (sample_engine cfg)"
  by (simp add: with_store_def sample_env_def mem_ops_def mem_pending_def mem_new_def
      sample_engine_def fresh_engine_def Let_def)

end
