(* ===== verification/Engine_Account.thy ===== *)
theory Engine_Account
  imports Engine
begin

text \<open>
  Every call the engine accepts is answered exactly once.

  \<open>accounted\<close> says that the tokens of the outcomes the engine has reported and the tokens of
  the calls it still holds (queued, or outstanding) are together the tokens it has minted, each
  once. Every operation keeps it, for every store, id generator and JSON library, failing ones
  included. The lemmas named \<open>frame_*\<close> record which fields the helpers leave alone; the
  other proofs of invariants share them.
\<close>

section \<open>What the helpers leave alone\<close>

lemma frame_emit [frame_simps]:
  "config (emit x e) = config e" "store (emit x e) = store e" "ids (emit x e) = ids e"
  "queue (emit x e) = queue e" "inflight (emit x e) = inflight e"
  "peer_inflight (emit x e) = peer_inflight e" "connected (emit x e) = connected e"
  "version (emit x e) = version e" "now (emit x e) = now e"
  "next_token (emit x e) = next_token e" "boot (emit x e) = boot e"
  "heartbeat_interval (emit x e) = heartbeat_interval e" "solicited (emit x e) = solicited e"
  "draining (emit x e) = draining e" "outputs (emit x e) = outputs e @ [x]"
  by (simp_all add: emit_def)

lemma frame_arm_heartbeat [frame_simps]:
  "config (arm_heartbeat e) = config e" "store (arm_heartbeat e) = store e"
  "ids (arm_heartbeat e) = ids e" "queue (arm_heartbeat e) = queue e"
  "inflight (arm_heartbeat e) = inflight e" "peer_inflight (arm_heartbeat e) = peer_inflight e"
  "connected (arm_heartbeat e) = connected e" "version (arm_heartbeat e) = version e"
  "now (arm_heartbeat e) = now e" "next_token (arm_heartbeat e) = next_token e"
  "boot (arm_heartbeat e) = boot e" "solicited (arm_heartbeat e) = solicited e"
  "heartbeat_interval (arm_heartbeat e) = heartbeat_interval e"
  "draining (arm_heartbeat e) = draining e"
  by (simp_all add: arm_heartbeat_def emit_def Let_def split: option.split)

lemma frame_transmit [frame_simps]:
  "config (transmit v f e) = config e" "store (transmit v f e) = store e"
  "ids (transmit v f e) = ids e" "queue (transmit v f e) = queue e"
  "inflight (transmit v f e) = inflight e" "peer_inflight (transmit v f e) = peer_inflight e"
  "connected (transmit v f e) = connected e" "version (transmit v f e) = version e"
  "now (transmit v f e) = now e" "next_token (transmit v f e) = next_token e"
  "boot (transmit v f e) = boot e" "solicited (transmit v f e) = solicited e"
  "heartbeat_interval (transmit v f e) = heartbeat_interval e"
  "draining (transmit v f e) = draining e"
  by (simp_all add: transmit_def frame_simps split: option.split)

lemma frame_reject [frame_simps]:
  "config (reject v i k c e) = config e" "store (reject v i k c e) = store e"
  "ids (reject v i k c e) = ids e" "queue (reject v i k c e) = queue e"
  "inflight (reject v i k c e) = inflight e"
  "peer_inflight (reject v i k c e) = peer_inflight e"
  "connected (reject v i k c e) = connected e" "version (reject v i k c e) = version e"
  "now (reject v i k c e) = now e" "next_token (reject v i k c e) = next_token e"
  "boot (reject v i k c e) = boot e" "solicited (reject v i k c e) = solicited e"
  "draining (reject v i k c e) = draining e"
  by (simp_all add: reject_def frame_simps)

lemma frame_ack_store [frame_simps]:
  "config (ack_store v q e) = config e" "ids (ack_store v q e) = ids e"
  "queue (ack_store v q e) = queue e" "inflight (ack_store v q e) = inflight e"
  "peer_inflight (ack_store v q e) = peer_inflight e"
  "connected (ack_store v q e) = connected e" "version (ack_store v q e) = version e"
  "now (ack_store v q e) = now e" "next_token (ack_store v q e) = next_token e"
  "boot (ack_store v q e) = boot e" "solicited (ack_store v q e) = solicited e"
  "heartbeat_interval (ack_store v q e) = heartbeat_interval e"
  "draining (ack_store v q e) = draining e"
  by (simp_all add: ack_store_def frame_simps split: option.split prod.split sum.split)

lemma frame_set_attempts_store [frame_simps]:
  "config (set_attempts_store v q n e) = config e" "ids (set_attempts_store v q n e) = ids e"
  "queue (set_attempts_store v q n e) = queue e"
  "inflight (set_attempts_store v q n e) = inflight e"
  "peer_inflight (set_attempts_store v q n e) = peer_inflight e"
  "connected (set_attempts_store v q n e) = connected e"
  "version (set_attempts_store v q n e) = version e" "now (set_attempts_store v q n e) = now e"
  "next_token (set_attempts_store v q n e) = next_token e"
  "boot (set_attempts_store v q n e) = boot e"
  "solicited (set_attempts_store v q n e) = solicited e"
  "draining (set_attempts_store v q n e) = draining e"
  by (simp_all add: set_attempts_store_def frame_simps split: option.split prod.split sum.split)

lemma frame_advance [frame_simps]:
  "config (advance t e) = config e" "store (advance t e) = store e" "ids (advance t e) = ids e"
  "queue (advance t e) = queue e" "inflight (advance t e) = inflight e"
  "peer_inflight (advance t e) = peer_inflight e" "connected (advance t e) = connected e"
  "version (advance t e) = version e" "next_token (advance t e) = next_token e"
  "boot (advance t e) = boot e" "solicited (advance t e) = solicited e"
  "draining (advance t e) = draining e" "outputs (advance t e) = outputs e"
  by (simp_all add: advance_def)

lemma frame_check_drain [frame_simps]:
  "config (check_drain e) = config e" "store (check_drain e) = store e"
  "ids (check_drain e) = ids e" "queue (check_drain e) = queue e"
  "inflight (check_drain e) = inflight e" "peer_inflight (check_drain e) = peer_inflight e"
  "connected (check_drain e) = connected e" "version (check_drain e) = version e"
  "now (check_drain e) = now e" "next_token (check_drain e) = next_token e"
  "boot (check_drain e) = boot e" "solicited (check_drain e) = solicited e"
  by (simp_all add: check_drain_def frame_simps)

section \<open>Accounts\<close>

text \<open>The tokens of the outcomes in a list of outputs, and of the calls an engine still holds.\<close>

fun outcome_tokens :: "engine_output list \<Rightarrow> call_token list" where
  "outcome_tokens [] = []"
| "outcome_tokens (Outcome oc # xs) = co_token oc # outcome_tokens xs"
| "outcome_tokens (x # xs) = outcome_tokens xs"

definition held_tokens :: "('s, 'g) engine \<Rightarrow> call_token list" where
  "held_tokens e =
     (case inflight e of None \<Rightarrow> [] | Some f \<Rightarrow> [f_token f]) @ map p_token (queue e)"

definition account :: "('s, 'g) engine \<Rightarrow> call_token multiset" where
  "account e = mset (outcome_tokens (outputs e)) + mset (held_tokens e)"

lemma outcome_tokens_append [simp]: "outcome_tokens (xs @ ys) = outcome_tokens xs @ outcome_tokens ys"
  by (induction xs rule: outcome_tokens.induct) simp_all

lemma outcome_tokens_outcome [simp]: "outcome_tokens [outcome t i a r] = [t]"
  by (simp add: outcome_def)

text \<open>The helpers that report no outcome.\<close>

lemma tokens_arm_heartbeat [account_simps]:
  "outcome_tokens (outputs (arm_heartbeat e)) = outcome_tokens (outputs e)"
  by (simp add: arm_heartbeat_def emit_def Let_def split: option.split)

lemma tokens_transmit [account_simps]:
  "outcome_tokens (outputs (transmit v f e)) = outcome_tokens (outputs e)"
  by (simp add: transmit_def account_simps frame_simps split: option.split)

lemma tokens_quiet [account_simps]:
  "outcome_tokens (outputs (reject v i k c e)) = outcome_tokens (outputs e)"
  "outcome_tokens (outputs (ack_store v q e)) = outcome_tokens (outputs e)"
  "outcome_tokens (outputs (set_attempts_store v q n e)) = outcome_tokens (outputs e)"
  "outcome_tokens (outputs (check_drain e)) = outcome_tokens (outputs e)"
  by (simp_all add: reject_def account_simps ack_store_def set_attempts_store_def check_drain_def
      frame_simps split: option.split prod.split sum.split)

lemma account_emit [account_simps]: "account (emit x e) = account e + mset (outcome_tokens [x])"
  by (simp add: account_def held_tokens_def frame_simps)

lemma account_quiet [account_simps]:
  "account (arm_heartbeat e) = account e" "account (transmit v f e) = account e"
  "account (reject v i k c e) = account e" "account (ack_store v q e) = account e"
  "account (set_attempts_store v q n e) = account e" "account (check_drain e) = account e"
  "account (advance t e) = account e"
  by (simp_all add: account_def held_tokens_def account_simps frame_simps)

text \<open>Updates of fields that hold no call.\<close>

lemma account_fields [account_simps]:
  "account (e\<lparr>store := s\<rparr>) = account e" "account (e\<lparr>ids := g\<rparr>) = account e"
  "account (e\<lparr>boot := b\<rparr>) = account e" "account (e\<lparr>heartbeat_at := h\<rparr>) = account e"
  "account (e\<lparr>heartbeat_interval := d\<rparr>) = account e"
  "account (e\<lparr>boot_retry_at := h\<rparr>) = account e" "account (e\<lparr>solicited := q\<rparr>) = account e"
  "account (e\<lparr>draining := h\<rparr>) = account e" "account (e\<lparr>peer_inflight := ps\<rparr>) = account e"
  "account (e\<lparr>connected := c\<rparr>) = account e" "account (e\<lparr>version := w\<rparr>) = account e"
  "account (e\<lparr>config := cfg\<rparr>) = account e" "account (e\<lparr>next_token := n\<rparr>) = account e"
  by (simp_all add: account_def held_tokens_def)

section \<open>The pump\<close>

lemma held_remove:
  assumes "i < length (queue e)"
  shows "mset (map p_token (queue e)) =
    add_mset (p_token (queue e ! i)) (mset (map p_token (remove_at i (queue e))))"
  by (rule mset_remove_at [OF assms])

lemma account_send_entry:
  assumes "i < length (queue e)"
  shows "account (send_entry v i e) = account e"
  using held_remove [OF assms]
  by (simp add: account_def held_tokens_def send_entry_def Let_def frame_simps account_simps
      split: prod.split)

lemma account_start_call:
  assumes "i < length (queue e)" and "inflight e = None"
  shows "account (start_call v i e) = account e"
  using held_remove [OF assms(1)] assms(2)
  by (simp add: account_def held_tokens_def start_call_def Let_def frame_simps account_simps
      split: prod.split)

lemma frame_send_entry [frame_simps]:
  "config (send_entry v i e) = config e" "inflight (send_entry v i e) = inflight e"
  "peer_inflight (send_entry v i e) = peer_inflight e"
  "connected (send_entry v i e) = connected e" "version (send_entry v i e) = version e"
  "now (send_entry v i e) = now e" "next_token (send_entry v i e) = next_token e"
  "boot (send_entry v i e) = boot e" "solicited (send_entry v i e) = solicited e"
  "draining (send_entry v i e) = draining e"
  "heartbeat_interval (send_entry v i e) = heartbeat_interval e"
  by (simp_all add: send_entry_def Let_def frame_simps split: prod.split)

lemma frame_start_call [frame_simps]:
  "config (start_call v i e) = config e" "store (start_call v i e) = store e"
  "peer_inflight (start_call v i e) = peer_inflight e"
  "connected (start_call v i e) = connected e" "version (start_call v i e) = version e"
  "now (start_call v i e) = now e" "next_token (start_call v i e) = next_token e"
  "boot (start_call v i e) = boot e" "solicited (start_call v i e) = solicited e"
  "draining (start_call v i e) = draining e"
  "heartbeat_interval (start_call v i e) = heartbeat_interval e"
  by (simp_all add: start_call_def Let_def frame_simps split: prod.split)

text \<open>
  Induction over the two loops: a property of engines that both loop bodies keep, on an index
  the search returned, is kept by \<open>pump\<close>.
\<close>

lemma pump_sends_induct:
  assumes "P e"
    and "\<And>i e. P e \<Longrightarrow> next_of_kind Send e = Some i \<Longrightarrow> P (send_entry v i e)"
  shows "P (pump_sends v e)"
  using assms(1)
proof (induction e rule: measure_induct_rule [where f = "\<lambda>e. length (queue e)"])
  case (less e)
  show ?case
  proof (cases "next_of_kind Send e")
    case None
    then show ?thesis using less.prems by (simp add: pump_sends.simps [of v e])
  next
    case (Some i)
    then have "i < length (queue e)" by (simp add: next_of_kind_Some)
    then have "length (queue (send_entry v i e)) < length (queue e)"
      by (simp add: queue_send_entry)
    from less.IH [OF this assms(2) [OF less.prems Some]] Some show ?thesis
      by (simp add: pump_sends.simps [of v e])
  qed
qed

text \<open>The second loop runs its body at most once, since the body fills the slot it tests.\<close>

lemma inflight_start_call [simp]: "inflight (start_call v i e) \<noteq> None"
  by (simp add: start_call_def Let_def split: prod.split)

lemma pump_calls_once:
  "pump_calls v e =
     (if inflight e \<noteq> None then e
      else case next_of_kind Call e of None \<Rightarrow> e | Some i \<Rightarrow> start_call v i e)"
proof -
  have "pump_calls v (start_call v i e) = start_call v i e" for i
    using pump_calls.simps [of v "start_call v i e"] by simp
  then show ?thesis by (subst pump_calls.simps) (simp split: option.split)
qed

lemma pump_calls_induct:
  assumes "P e"
    and "\<And>i. P e \<Longrightarrow> inflight e = None \<Longrightarrow> next_of_kind Call e = Some i \<Longrightarrow> P (start_call v i e)"
  shows "P (pump_calls v e)"
  using assms by (simp add: pump_calls_once split: option.split)

lemma pump_induct:
  assumes "P e"
    and "\<And>i e. P e \<Longrightarrow> connected e \<Longrightarrow> next_of_kind Send e = Some i \<Longrightarrow> P (send_entry v i e)"
    and "\<And>i e. P e \<Longrightarrow> connected e \<Longrightarrow> inflight e = None \<Longrightarrow> next_of_kind Call e = Some i \<Longrightarrow>
      P (start_call v i e)"
  shows "P (pump v e)"
proof (cases "connected e")
  case True
  have "P (pump_sends v e) \<and> connected (pump_sends v e)"
    by (rule pump_sends_induct [where P = "\<lambda>e. P e \<and> connected e"])
      (auto simp: assms True frame_simps)
  then have "P (pump_calls v (pump_sends v e))"
    using assms(3) by (auto intro: pump_calls_induct [of P])
  then show ?thesis using True by (simp add: pump_def)
qed (simp add: pump_def assms(1))

lemma account_pump [account_simps]: "account (pump v e) = account e"
  by (rule pump_induct [where P = "\<lambda>x. account x = account e"])
    (auto simp: account_send_entry account_start_call dest!: next_of_kind_Some)

lemma frame_pump [frame_simps]:
  fixes e :: "('s, 'g) engine"
  shows "config (pump v e) = config e" "peer_inflight (pump v e) = peer_inflight e"
  "connected (pump v e) = connected e" "version (pump v e) = version e"
  "now (pump v e) = now e" "next_token (pump v e) = next_token e" "boot (pump v e) = boot e"
  "solicited (pump v e) = solicited e" "draining (pump v e) = draining e"
  "heartbeat_interval (pump v e) = heartbeat_interval e"
proof -
  define same where "same x \<longleftrightarrow>
    config x = config e \<and> peer_inflight x = peer_inflight e \<and> connected x = connected e \<and>
    version x = version e \<and> now x = now e \<and> next_token x = next_token e \<and> boot x = boot e \<and>
    solicited x = solicited e \<and> draining x = draining e \<and>
    heartbeat_interval x = heartbeat_interval e" for x :: "('s, 'g) engine"
  have "same (pump v e)"
    by (rule pump_induct) (simp_all add: same_def frame_simps)
  then show
    "config (pump v e) = config e" "peer_inflight (pump v e) = peer_inflight e"
    "connected (pump v e) = connected e" "version (pump v e) = version e"
    "now (pump v e) = now e" "next_token (pump v e) = next_token e" "boot (pump v e) = boot e"
    "solicited (pump v e) = solicited e" "draining (pump v e) = draining e"
    "heartbeat_interval (pump v e) = heartbeat_interval e"
    by (simp_all add: same_def)
qed

section \<open>The operations\<close>

lemma account_requeue_or_fail [account_simps]:
  "account (requeue_or_fail v f why e) = add_mset (f_token f) (account e)"
  by (simp add: requeue_or_fail_def account_def held_tokens_def Let_def frame_simps account_simps)

lemma frame_requeue_or_fail [frame_simps]:
  "config (requeue_or_fail v f why e) = config e" "ids (requeue_or_fail v f why e) = ids e"
  "inflight (requeue_or_fail v f why e) = inflight e"
  "peer_inflight (requeue_or_fail v f why e) = peer_inflight e"
  "connected (requeue_or_fail v f why e) = connected e"
  "version (requeue_or_fail v f why e) = version e" "now (requeue_or_fail v f why e) = now e"
  "next_token (requeue_or_fail v f why e) = next_token e"
  "boot (requeue_or_fail v f why e) = boot e"
  "solicited (requeue_or_fail v f why e) = solicited e"
  "draining (requeue_or_fail v f why e) = draining e"
  by (simp_all add: requeue_or_fail_def Let_def frame_simps)

lemma account_offline_sweep:
  "account (offline_sweep v kept rest e) = account (e\<lparr>queue := kept @ rest\<rparr>)"
  by (induction v kept rest e rule: offline_sweep.induct)
    (simp_all add: account_def held_tokens_def frame_simps account_simps)

lemma frame_offline_sweep [frame_simps]:
  "config (offline_sweep v kept rest e) = config e" "ids (offline_sweep v kept rest e) = ids e"
  "inflight (offline_sweep v kept rest e) = inflight e"
  "peer_inflight (offline_sweep v kept rest e) = peer_inflight e"
  "connected (offline_sweep v kept rest e) = connected e"
  "version (offline_sweep v kept rest e) = version e" "now (offline_sweep v kept rest e) = now e"
  "next_token (offline_sweep v kept rest e) = next_token e"
  "boot (offline_sweep v kept rest e) = boot e"
  "solicited (offline_sweep v kept rest e) = solicited e"
  "draining (offline_sweep v kept rest e) = draining e"
  "queue (offline_sweep v kept rest e) = kept @ filter p_queue_when_offline rest"
  by (induction v kept rest e rule: offline_sweep.induct) (simp_all add: frame_simps)

lemma account_take_inflight: "inflight e = Some f \<Longrightarrow> account e = add_mset (f_token f) (account (e\<lparr>inflight := None\<rparr>))"
  by (simp add: account_def held_tokens_def)

lemma account_dropped:
  "account (e\<lparr>inflight := None\<rparr>) = mset (outcome_tokens (outputs e)) + mset (map p_token (queue e))"
  by (simp add: account_def held_tokens_def)

lemma account_sweep_all [account_simps]: "account (offline_sweep v [] (queue e) e) = account e"
  by (simp add: account_offline_sweep)

lemma account_on_disconnected [account_simps]: "account (on_disconnected v e) = account e"
  using account_take_inflight [of e]
  by (auto simp: on_disconnected_def Let_def account_simps frame_simps account_dropped
      split: option.split)

lemma account_observe_boot_answer [account_simps]:
  "account (observe_boot_answer v p out e) = account e"
  by (simp add: observe_boot_answer_def Let_def account_simps frame_simps split: option.split)

lemma frame_observe_boot_answer [frame_simps]:
  "config (observe_boot_answer v p out e) = config e"
  "peer_inflight (observe_boot_answer v p out e) = peer_inflight e"
  "connected (observe_boot_answer v p out e) = connected e"
  "version (observe_boot_answer v p out e) = version e"
  "now (observe_boot_answer v p out e) = now e"
  "next_token (observe_boot_answer v p out e) = next_token e"
  "solicited (observe_boot_answer v p out e) = solicited e"
  "draining (observe_boot_answer v p out e) = draining e"
  by (simp_all add: observe_boot_answer_def Let_def frame_simps split: option.split)

lemma frame_remember_solicited [frame_simps]:
  "config (remember_solicited v a p e) = config e" "store (remember_solicited v a p e) = store e"
  "ids (remember_solicited v a p e) = ids e" "queue (remember_solicited v a p e) = queue e"
  "inflight (remember_solicited v a p e) = inflight e"
  "peer_inflight (remember_solicited v a p e) = peer_inflight e"
  "connected (remember_solicited v a p e) = connected e"
  "version (remember_solicited v a p e) = version e" "now (remember_solicited v a p e) = now e"
  "next_token (remember_solicited v a p e) = next_token e"
  "boot (remember_solicited v a p e) = boot e"
  "draining (remember_solicited v a p e) = draining e"
  "outputs (remember_solicited v a p e) = outputs e"
  by (simp_all add: remember_solicited_def Let_def)

lemma frame_persist_call [frame_simps]:
  "config (snd (persist_call v b c e)) = config e" "ids (snd (persist_call v b c e)) = ids e"
  "queue (snd (persist_call v b c e)) = queue e"
  "inflight (snd (persist_call v b c e)) = inflight e"
  "peer_inflight (snd (persist_call v b c e)) = peer_inflight e"
  "connected (snd (persist_call v b c e)) = connected e"
  "version (snd (persist_call v b c e)) = version e" "now (snd (persist_call v b c e)) = now e"
  "next_token (snd (persist_call v b c e)) = next_token e"
  "boot (snd (persist_call v b c e)) = boot e"
  "solicited (snd (persist_call v b c e)) = solicited e"
  "draining (snd (persist_call v b c e)) = draining e"
  by (simp_all add: persist_call_def frame_simps split: prod.split sum.split)

lemma account_persist_call [account_simps]: "account (snd (persist_call v b c e)) = account e"
  by (simp add: persist_call_def account_simps split: prod.split sum.split)

lemma account_enqueue [account_simps]:
  "account (e\<lparr>queue := queue e @ [p]\<rparr>) = add_mset (p_token p) (account e)"
  "account (e\<lparr>queue := p # queue e\<rparr>) = add_mset (p_token p) (account e)"
  by (simp_all add: account_def held_tokens_def)

lemma account_remember_solicited [account_simps]: "account (remember_solicited v a p e) = account e"
  by (simp add: remember_solicited_def account_simps Let_def)

lemma call_refused_Inr:
  "call_refused e a = Inr k \<Longrightarrow> kind_of (version e) a = Some k \<and> draining e = None"
  by (auto simp: call_refused_def Let_def split: if_splits option.splits)

definition wants_offline :: "('s, 'g) engine \<Rightarrow> string \<Rightarrow> call_options \<Rightarrow> bool" where
  "wants_offline e a opts =
     (case o_queue_when_offline opts of
        None \<Rightarrow> is_transaction_related (version e) a \<or> queue_all_messages (c_offline (config e))
      | Some b \<Rightarrow> b)"

definition wants_persist :: "('s, 'g) engine \<Rightarrow> string \<Rightarrow> call_options \<Rightarrow> bool" where
  "wants_persist e a opts =
     (case o_persist opts of None \<Rightarrow> is_transaction_related (version e) a | Some b \<Rightarrow> b)"

definition minted :: "instant \<Rightarrow> ('s, 'g) engine \<Rightarrow> ('s, 'g) engine" where
  "minted t e = (advance t e)\<lparr>next_token := next_token e + 1\<rparr>"

definition stored_form :: "('s, 'g) engine \<Rightarrow> string \<Rightarrow> raw_value \<Rightarrow> message_kind \<Rightarrow> queued_call" where
  "stored_form e a p k =
     \<lparr>qc_action = a, qc_payload = p, qc_kind = k, qc_attempts = 0,
      qc_transactional = is_transaction_related (version e) a\<rparr>"

definition queued_form ::
  "('s, 'g) engine \<Rightarrow> string \<Rightarrow> raw_value \<Rightarrow> message_kind \<Rightarrow> call_options \<Rightarrow> seq option \<Rightarrow> pending" where
  "queued_form e a p k opts q =
     \<lparr>p_token = next_token e, p_action = a, p_payload = p, p_kind = k,
      p_transactional = is_transaction_related (version e) a, p_attempts = 0, p_seq = q,
      p_not_before = None, p_triggered = o_triggered opts,
      p_queue_when_offline = wants_offline e a opts\<rparr>"

text \<open>
  \<open>call_with\<close> case by case: refused without a token, answered at once, or queued and pumped.
\<close>

lemma call_with_accepted:
  assumes "call_refused (advance t e) a = Inr k"
  shows "call_with v t a p opts e =
    (if \<not> connected e \<and> \<not> wants_offline e a opts
     then (Inr (next_token e), fail (next_token e) None a Disconnected (minted t e))
     else if length (queue e) \<ge> max_queued (c_offline (config e))
     then (Inr (next_token e), fail (next_token e) None a QueueFull (minted t e))
     else
       (case persist_call v (wants_persist e a opts) (stored_form e a p k) (minted t e) of
          (None, e2) \<Rightarrow> (Inr (next_token e), fail (next_token e) None a QueueFull e2)
        | (Some q, e2) \<Rightarrow>
            let e3 = (if c_role (config e2) = Csms then remember_solicited v a p e2 else e2)
            in (Inr (next_token e),
                pump v (e3\<lparr>queue := queue e3 @ [queued_form e a p k opts q]\<rparr>))))"
  unfolding call_with_def Let_def assms mint_token_def minted_def wants_offline_def
    wants_persist_def stored_form_def queued_form_def
  by (simp add: frame_simps cong: option.case_cong)

lemma call_with_cases:
  obtains (refused) err where "call_with v t a p opts e = (Inl err, advance t e)"
  | (answered) e1 why where
      "call_with v t a p opts e = (Inr (next_token e), fail (next_token e) None a why e1)"
      "e1 = minted t e \<or> (\<exists>k. persist_call v (wants_persist e a opts) (stored_form e a p k)
         (minted t e) = (None, e1))"
  | (queued) k q e2 e3 where
      "call_with v t a p opts e =
         (Inr (next_token e), pump v (e3\<lparr>queue := queue e3 @ [queued_form e a p k opts q]\<rparr>))"
      "e3 = (if c_role (config e2) = Csms then remember_solicited v a p e2 else e2)"
      "persist_call v (wants_persist e a opts) (stored_form e a p k) (minted t e) = (Some q, e2)"
      "kind_of (version e) a = Some k" "connected e \<or> wants_offline e a opts"
      "draining e = None" "length (queue e) < max_queued (c_offline (config e))"
proof (cases "call_refused (advance t e) a")
  case (Inl err)
  then show ?thesis by (intro refused) (simp add: call_with_def Let_def)
next
  case (Inr k)
  then have k: "kind_of (version e) a = Some k" "draining e = None"
    by (auto dest: call_refused_Inr simp: frame_simps)
  show ?thesis
  proof (cases "\<not> connected e \<and> \<not> wants_offline e a opts \<or>
      length (queue e) \<ge> max_queued (c_offline (config e))")
    case True
    then show ?thesis
      by (intro answered [of "if \<not> connected e \<and> \<not> wants_offline e a opts then Disconnected
            else QueueFull" "minted t e"])
        (auto simp: call_with_accepted [OF Inr])
  next
    case False
    obtain r e2 where stored:
      "persist_call v (wants_persist e a opts) (stored_form e a p k) (minted t e) = (r, e2)"
      by (cases "persist_call v (wants_persist e a opts) (stored_form e a p k) (minted t e)")
    show ?thesis
    proof (cases r)
      case None
      with stored False show ?thesis
        by (intro answered [of QueueFull e2]) (auto simp: call_with_accepted [OF Inr])
    next
      case (Some q)
      with stored False k show ?thesis
        by (intro queued [of _ k q e2]) (auto simp: call_with_accepted [OF Inr] Let_def)
    qed
  qed
qed

section \<open>The invariant\<close>

definition accounted :: "call_token multiset \<Rightarrow> ('s, 'g) engine \<Rightarrow> bool" where
  "accounted base e \<longleftrightarrow> base + account e = mset [0..<next_token e]"

lemma accountedI:
  "accounted b e \<Longrightarrow> account e' = account e \<Longrightarrow> next_token e' = next_token e \<Longrightarrow> accounted b e'"
  by (simp add: accounted_def)

lemma accounted_minted:
  assumes "accounted b e" and "account e' = add_mset (next_token e) (account e)"
    and "next_token e' = Suc (next_token e)"
  shows "accounted b e'"
  using assms by (simp add: accounted_def)

lemma minted_simps [account_simps, frame_simps]:
  "account (minted t e) = account e" "next_token (minted t e) = Suc (next_token e)"
  by (simp_all add: minted_def account_simps)

lemma accounted_call_with [inv_intros]:
  assumes "accounted b e"
  shows "accounted b (snd (call_with v t a p opts e))"
proof (cases rule: call_with_cases [of v t a p opts e])
  case (refused err)
  then show ?thesis using assms by (auto intro: accountedI simp: account_simps frame_simps)
next
  case (answered e1 why)
  from answered(2) have "account e1 = account e \<and> next_token e1 = Suc (next_token e)"
  proof
    assume "\<exists>k. persist_call v (wants_persist e a opts) (stored_form e a p k) (minted t e) = (None, e1)"
    then obtain k where
      "e1 = snd (persist_call v (wants_persist e a opts) (stored_form e a p k) (minted t e))"
      by (metis snd_conv)
    then show ?thesis by (simp add: account_simps frame_simps)
  qed (simp add: account_simps frame_simps)
  then show ?thesis
    using assms answered(1)
    by (auto intro!: accounted_minted [OF assms] simp: fail_def account_simps frame_simps)
next
  case (queued k q e2 e3)
  have "e2 = snd (persist_call v (wants_persist e a opts) (stored_form e a p k) (minted t e))"
    using queued(3) by simp
  then have "account e3 = account e \<and> next_token e3 = Suc (next_token e)"
    using queued(2) by (simp add: account_simps frame_simps)
  then show ?thesis
    using queued(1) assms
    by (auto intro!: accounted_minted [OF assms] simp: queued_form_def account_simps frame_simps)
qed

lemma accounted_call_timeout_due [inv_intros]:
  "accounted b e \<Longrightarrow> accounted b (call_timeout_due v e)"
  using account_take_inflight [of e]
  by (auto simp: call_timeout_due_def accounted_def account_simps frame_simps split: option.split)

lemma accounted_heartbeat_due [inv_intros]:
  assumes "accounted b e"
  shows "accounted b (heartbeat_due v e)"
proof -
  have "accounted b (e\<lparr>heartbeat_at := None\<rparr>)"
    using assms by (simp add: accounted_def account_simps)
  then have "accounted b (send_heartbeat v (e\<lparr>heartbeat_at := None\<rparr>))"
    unfolding send_heartbeat_def by (rule accounted_call_with)
  with assms show ?thesis
    by (simp add: heartbeat_due_def accounted_def Let_def account_simps frame_simps
        split: option.split)
qed

lemma accounted_boot_retry_due [inv_intros]: "accounted b e \<Longrightarrow> accounted b (boot_retry_due e)"
  by (simp add: boot_retry_due_def accounted_def account_simps frame_simps split: option.split)

lemma accounted_on_timeout [inv_intros]:
  assumes "accounted b e"
  shows "accounted b (on_timeout v e)"
proof -
  have "accounted b (boot_retry_due (heartbeat_due v (call_timeout_due v e)))"
    by (intro inv_intros assms)
  then show ?thesis
    by (simp add: on_timeout_def accounted_def Let_def account_simps frame_simps)
qed

lemma frame_peer_call_refused [frame_simps]:
  "config (snd (peer_call_refused i e)) = config e" "store (snd (peer_call_refused i e)) = store e"
  "ids (snd (peer_call_refused i e)) = ids e" "queue (snd (peer_call_refused i e)) = queue e"
  "inflight (snd (peer_call_refused i e)) = inflight e"
  "peer_inflight (snd (peer_call_refused i e)) = peer_inflight e"
  "connected (snd (peer_call_refused i e)) = connected e"
  "version (snd (peer_call_refused i e)) = version e" "now (snd (peer_call_refused i e)) = now e"
  "next_token (snd (peer_call_refused i e)) = next_token e"
  "boot (snd (peer_call_refused i e)) = boot e"
  "solicited (snd (peer_call_refused i e)) = solicited e"
  "draining (snd (peer_call_refused i e)) = draining e"
  by (simp_all add: peer_call_refused_def Let_def frame_simps)

lemma account_peer_call_refused [account_simps]:
  "account (snd (peer_call_refused i e)) = account e"
  by (simp add: peer_call_refused_def Let_def account_simps)

text \<open>\<open>on_call\<close> either turns the message away or hands it to the application.\<close>

lemma on_call_cases:
  obtains (rejected) c e1 where "on_call v i a p k e = reject v i k c e1"
    "e1 = e \<or> (\<exists>x. e1 = emit (Violation x) e) \<or> e1 = snd (peer_call_refused i e)"
  | (served) e1 e2 where
    "on_call v i a p k e =
       emit (Request \<lparr>ir_id = i, ir_action = a, ir_payload = p, ir_kind = k\<rparr>)
         (if k = Call then e2\<lparr>peer_inflight := insert i (peer_inflight e2)\<rparr> else e2)"
    "e2 = (if c_role (config e) = Csms \<and> a = ''BootNotification'' then e1\<lparr>boot := BootIdle\<rparr> else e1)"
    "(if k = Call then peer_call_refused i e else (None, e)) = (None, e1)"
    "\<not> boot_gate_blocks a e1" "kind_of (version e) a = Some k"
    "allows (case origin_of (version e) a of None \<Rightarrow> BothOrigin | Some x \<Rightarrow> x)
       (receives (c_role (config e)))"
proof (cases "kind_of (version e) a")
  case None
  then show ?thesis by (intro rejected [of _ e]) (auto simp: on_call_def)
next
  case (Some expected)
  let ?og = "case origin_of (version e) a of None \<Rightarrow> BothOrigin | Some x \<Rightarrow> x"
  let ?r = "if k = Call then peer_call_refused i e else (None, e)"
  consider (kind) "expected \<noteq> k" | (dir) "expected = k" "\<not> allows ?og (receives (c_role (config e)))"
    | (ok) "expected = k" "allows ?og (receives (c_role (config e)))" by blast
  then show ?thesis
  proof cases
    case kind
    with Some show ?thesis
      by (intro rejected [of _ "emit (Violation (WrongMessageKind a k)) e"])
        (auto simp: on_call_def Let_def)
  next
    case dir
    with Some show ?thesis
      by (intro rejected [of _ "emit (Violation (WrongDirection a)) e"])
        (auto simp: on_call_def Let_def)
  next
    case ok
    obtain r e1 where r: "?r = (r, e1)" by fastforce
    then have e1: "e1 = e \<or> e1 = snd (peer_call_refused i e)" by (auto split: if_splits)
    then have config: "config e1 = config e" by (auto simp: frame_simps)
    show ?thesis
    proof (cases "r = None \<and> \<not> boot_gate_blocks a e1")
      case True
      with Some ok r config show ?thesis
        by (intro served [of _ e1]) (simp_all add: on_call_def Let_def)
    next
      case False
      with Some ok r have "\<exists>c. on_call v i a p k e = reject v i k c e1"
        by (cases r) (auto simp: on_call_def Let_def)
      with e1 show ?thesis using rejected by blast
    qed
  qed
qed

lemma accounted_on_call [inv_intros]:
  assumes "accounted b e"
  shows "accounted b (on_call v i a p k e)"
proof (cases rule: on_call_cases [of v i a p k e])
  case (rejected c e1)
  then show ?thesis
    using assms by (auto simp: accounted_def account_simps frame_simps)
next
  case (served e1 e2)
  have "e1 = e \<or> e1 = snd (peer_call_refused i e)"
    using served(3) by (auto split: if_splits)
  then show ?thesis
    using assms served(1,2) by (auto simp: accounted_def account_simps frame_simps)
qed

lemma accounted_take_inflight:
  assumes "accounted b e" and "take_inflight i e = (r, e1)"
  shows "case r of None \<Rightarrow> accounted b e1
    | Some f \<Rightarrow> b + add_mset (f_token f) (account e1) = mset [0..<next_token e1]"
  using assms account_take_inflight [of e]
  by (auto simp: take_inflight_def accounted_def split: option.splits if_splits)

lemma accounted_on_call_result [inv_intros]:
  assumes "accounted b e"
  shows "accounted b (on_call_result v i p e)"
proof (cases "take_inflight i e")
  case (Pair r e1)
  with accounted_take_inflight [OF assms Pair] show ?thesis
    by (cases r) (simp_all add: on_call_result_def accounted_def Let_def account_simps frame_simps
        split: option.split)
qed

lemma accounted_on_call_error [inv_intros]:
  assumes "accounted b e"
  shows "accounted b (on_call_error v i err e)"
proof (cases "take_inflight i e")
  case (Pair r e1)
  with accounted_take_inflight [OF assms Pair] show ?thesis
    by (cases r) (simp_all add: on_call_error_def accounted_def Let_def account_simps frame_simps)
qed

lemma accounted_on_malformed [inv_intros]: "accounted b e \<Longrightarrow> accounted b (on_malformed v err e)"
  by (cases "reply err (version e)")
    (simp_all add: on_malformed_def accounted_def Let_def account_simps frame_simps)

lemma accounted_on_received [inv_intros]:
  assumes "accounted b e"
  shows "accounted b (on_received v text e)"
proof -
  have "accounted b (arm_heartbeat e)" using assms by (simp add: accounted_def account_simps frame_simps)
  moreover from this have "accounted b (emit (Violation x) (arm_heartbeat e))" for x
    by (simp add: accounted_def account_simps frame_simps)
  moreover from calculation have
    "accounted b (emit (ResultRejected i r) (arm_heartbeat e))"
    "accounted b (emit (ResultRejected i r) (emit (Violation x) (arm_heartbeat e)))" for i r x
    by (simp_all add: accounted_def account_simps frame_simps)
  ultimately show ?thesis
    by (auto simp: on_received_def Let_def intro: inv_intros split: sum.split frame.split)
qed

lemma accounted_handle [inv_intros]:
  assumes "accounted b e"
  shows "accounted b (handle v t i e)"
proof -
  have "accounted b (advance t e)" using assms by (simp add: accounted_def account_simps frame_simps)
  then have "accounted b (on_connected v w (advance t e))" for w
    by (simp add: on_connected_def accounted_def account_simps frame_simps)
  moreover have "accounted b (on_disconnected v (advance t e))"
    using \<open>accounted b (advance t e)\<close> account_on_disconnected [of v "advance t e"]
    by (auto simp: accounted_def account_simps frame_simps on_disconnected_def Let_def split: option.split)
  ultimately show ?thesis
    using \<open>accounted b (advance t e)\<close>
    by (cases i) (simp_all add: handle_def Let_def inv_intros)
qed

lemma accounted_respond [inv_intros]:
  "accounted b e \<Longrightarrow> accounted b (snd (respond v t i p e))"
  by (simp add: respond_def take_peer_request_def accounted_def Let_def account_simps frame_simps)

lemma accounted_respond_error [inv_intros]:
  "accounted b e \<Longrightarrow> accounted b (snd (respond_error v t i err e))"
  by (simp add: respond_error_def take_peer_request_def accounted_def account_simps frame_simps)

lemma accounted_reject_result [inv_intros]:
  "accounted b e \<Longrightarrow> accounted b (snd (reject_result v t i err e))"
  by (simp add: reject_result_def accounted_def Let_def account_simps frame_simps)

lemma accounted_cancel [inv_intros]:
  assumes "accounted b e"
  shows "accounted b (snd (cancel v token e))"
proof (cases "position (\<lambda>p. p_token p = token) (queue e)")
  case None
  then show ?thesis using assms by (simp add: cancel_def)
next
  case (Some i)
  then have i: "i < length (queue e)" "p_token (queue e ! i) = token" by (simp_all add: position_Some)
  then have "account e = add_mset token (account (e\<lparr>queue := remove_at i (queue e)\<rparr>))"
    using held_remove [OF i(1)] by (simp add: account_def held_tokens_def)
  then show ?thesis
    using assms Some by (simp add: cancel_def Let_def accounted_def account_simps frame_simps)
qed

lemma accounted_shutdown [inv_intros]: "accounted b e \<Longrightarrow> accounted b (shutdown t d e)"
  by (simp add: shutdown_def Let_def accounted_def account_simps frame_simps)

lemma accounted_setters [inv_intros]:
  "accounted b e \<Longrightarrow> accounted b (set_call_timeout d e)"
  "accounted b e \<Longrightarrow> accounted b (set_id_generator g e)"
  by (simp_all add: set_call_timeout_def set_id_generator_def accounted_def account_simps)

definition session_accounted :: "('s, 'g) session \<Rightarrow> bool" where
  "session_accounted s \<longleftrightarrow> accounted (mset (outcome_tokens (snd s))) (fst s)"

lemma session_accounted_step:
  assumes "session_accounted s"
  shows "session_accounted (step v s c)"
proof (cases s)
  case (Pair e log)
  with assms have a: "accounted (mset (outcome_tokens log)) e" by (simp add: session_accounted_def)
  show ?thesis
  proof (cases c)
    case PollOutput
    show ?thesis
    proof (cases "outputs e")
      case (Cons x xs)
      have "outcome_tokens (x # xs) = outcome_tokens [x] @ outcome_tokens xs"
        using outcome_tokens_append [of "[x]" xs] by simp
      with a Cons PollOutput Pair show ?thesis
        by (simp add: session_accounted_def accounted_def account_def held_tokens_def
            poll_output_def ac_simps)
    qed (use a PollOutput Pair in \<open>simp add: session_accounted_def poll_output_def\<close>)
  next
    case Drain
    with a Pair show ?thesis
      by (simp add: session_accounted_def accounted_def account_def held_tokens_def drain_def ac_simps)
  qed (use a Pair in \<open>simp_all add: session_accounted_def inv_intros\<close>)
qed

interpretation accounts: step_system "step v" session_accounted
  by unfold_locales (rule session_accounted_step)

lemma accounted_recover: "accounted b e \<Longrightarrow> accounted b (foldl recover_entry e xs)"
proof (induction xs arbitrary: e)
  case (Cons x xs)
  have "accounted b (recover_entry e x)"
    by (rule accounted_minted [OF Cons.prems])
      (simp_all add: recover_entry_def mint_token_def account_def held_tokens_def split: prod.split)
  from Cons.IH [OF this] show ?case by simp
qed simp

lemma accounted_with_store: "with_store v cfg s g = Inr e \<Longrightarrow> accounted {#} e"
  by (auto simp: with_store_def Let_def split: sum.splits intro!: accounted_recover)
    (simp add: accounted_def account_def held_tokens_def fresh_engine_def)

text \<open>
  C1. Every call the engine has ever accepted is accounted for exactly once: over any run of
  inputs and commands, from any store, the tokens of the outcomes reported so far together with
  the tokens of the calls still queued or outstanding are exactly the tokens minted, each
  once. So no call is answered twice and none is lost, whatever the peer, the network, the
  store or the JSON library does.
\<close>

theorem calls_answered_once:
  assumes "with_store v cfg s g = Inr e"
  shows "mset (outcome_tokens (said (run v (e, []) cs))) + mset (held_tokens (fst (run v (e, []) cs)))
    = mset [0..<next_token (fst (run v (e, []) cs))]"
proof -
  have "session_accounted (e, [])"
    using accounted_with_store [OF assms] by (simp add: session_accounted_def)
  then have "session_accounted (run v (e, []) cs)"
    unfolding run_def by (rule accounts.run_inv)
  then show ?thesis
    by (simp add: session_accounted_def accounted_def account_def said_def ac_simps)
qed

text \<open>A station that boots, has its first call answered and its second cancelled.\<close>

definition boot_run :: "counter_ids command list" where
  "boot_run =
     [Handle (at_ms 5) (Connected V2_1),
      CallWith (at_ms 6) ''BootNotification'' ''{}'' options_default,
      CallWith (at_ms 7) ''StatusNotification'' ''{}'' options_default,
      Handle (at_ms 9) (Received (sample_text (FrameCallError ''k0''
        \<lparr>ref_code = GenericError, ref_description = [], ref_details = ''{}''\<rparr>) V2_1)),
      Drain, Cancel 1]"

theorem calls_answered_once_witness:
  "let s = run sample_env (sample_engine (config_new ChargingStation V2_1), []) boot_run in
   mset (outcome_tokens (said s)) + mset (held_tokens (fst s)) = mset [0..<next_token (fst s)] \<and>
   outcome_tokens (said s) = [0, 1] \<and> next_token (fst s) = 2"
proof -
  have "outcome_tokens (said (run sample_env (sample_engine (config_new ChargingStation V2_1), []) boot_run))
      = [0, 1] \<and> next_token (fst (run sample_env (sample_engine (config_new ChargingStation V2_1), []) boot_run)) = 2"
    by code_simp
  with calls_answered_once [OF sample_start, of "config_new ChargingStation V2_1" boot_run]
  show ?thesis by (simp add: Let_def)
qed

end
