(* ===== verification/Engine_Timers.thy ===== *)
theory Engine_Timers
  imports Engine_Account
begin

text \<open>
  One outstanding call, and a timer for it.

  The driver sees only outputs. \<open>watch\<close> replays them: it starts a call at a \<open>SetTimer\<close> of
  \<open>CallTimeout\<close> (which \<open>pump\<close> emits right after it writes a \<open>CALL\<close>), ends it at the matching
  \<open>ClearTimer\<close>, and reports \<open>None\<close> if a second call starts while one is outstanding. The
  invariant is that what the driver sees agrees with the engine's own slot, so a driver that
  fires the timer it was asked for will always end the call that armed it.
\<close>

section \<open>Watching the call timer\<close>

definition watch :: "instant option option \<Rightarrow> engine_output \<Rightarrow> instant option option" where
  "watch a x =
     (case x of
        SetTimer tm at \<Rightarrow>
          if tm \<noteq> CallTimeout then a
          else if a = Some None then Some (Some at) else None
      | ClearTimer tm \<Rightarrow> if tm \<noteq> CallTimeout then a else map_option (\<lambda>_. None) a
      | _ \<Rightarrow> a)"

definition watched :: "engine_output list \<Rightarrow> instant option option" where
  "watched xs = foldl watch (Some None) xs"

definition on_the_clock :: "instant option option \<Rightarrow> ('s, 'g) engine \<Rightarrow> bool" where
  "on_the_clock a e \<longleftrightarrow> foldl watch a (outputs e) = Some (map_option f_deadline (inflight e))"

lemma watch_outcome [simp]: "watch a (outcome t i act r) = a"
  by (simp add: watch_def outcome_def)

lemma watch_arm_heartbeat [frame_simps]:
  "foldl watch a (outputs (arm_heartbeat e)) = foldl watch a (outputs e)"
  by (simp add: arm_heartbeat_def Let_def frame_simps watch_def split: option.split)

lemma watch_transmit [frame_simps]:
  "foldl watch a (outputs (transmit v f e)) = foldl watch a (outputs e)"
  by (simp add: transmit_def frame_simps watch_def split: option.split)

lemma watch_quiet [frame_simps]:
  "foldl watch a (outputs (reject v i k c e)) = foldl watch a (outputs e)"
  "foldl watch a (outputs (ack_store v q e)) = foldl watch a (outputs e)"
  "foldl watch a (outputs (set_attempts_store v q n e)) = foldl watch a (outputs e)"
  "foldl watch a (outputs (check_drain e)) = foldl watch a (outputs e)"
  "foldl watch a (outputs (requeue_or_fail v f why e)) = foldl watch a (outputs e)"
  "foldl watch a (outputs (snd (peer_call_refused i e))) = foldl watch a (outputs e)"
  "foldl watch a (outputs (snd (persist_call v b qc e))) = foldl watch a (outputs e)"
  by (simp_all add: reject_def ack_store_def set_attempts_store_def check_drain_def
      requeue_or_fail_def peer_call_refused_def persist_call_def Let_def frame_simps watch_def
      outcome_def split: option.split prod.split sum.split)

lemma watch_offline_sweep [frame_simps]:
  "foldl watch a (outputs (offline_sweep v kept rest e)) = foldl watch a (outputs e)"
  by (induction v kept rest e rule: offline_sweep.induct) (simp_all add: frame_simps)

section \<open>Every step\<close>

lemma clock_cong:
  assumes "foldl watch a (outputs x) = foldl watch a (outputs e)" and "inflight x = inflight e"
  shows "on_the_clock a x = on_the_clock a e"
  using assms by (simp add: on_the_clock_def)

lemma clock_emit: "watch (Some (map_option f_deadline (inflight e))) x = Some (map_option f_deadline (inflight e)) \<Longrightarrow>
  on_the_clock a e \<Longrightarrow> on_the_clock a (emit x e)"
  by (simp add: on_the_clock_def frame_simps)

lemma clock_quiet [inv_intros]:
  "on_the_clock a e \<Longrightarrow> on_the_clock a (arm_heartbeat e)"
  "on_the_clock a e \<Longrightarrow> on_the_clock a (transmit v f e)"
  "on_the_clock a e \<Longrightarrow> on_the_clock a (reject v i k c e)"
  "on_the_clock a e \<Longrightarrow> on_the_clock a (ack_store v q e)"
  "on_the_clock a e \<Longrightarrow> on_the_clock a (check_drain e)"
  "on_the_clock a e \<Longrightarrow> on_the_clock a (advance t e)"
  "on_the_clock a e \<Longrightarrow> on_the_clock a (snd (peer_call_refused i e))"
  "on_the_clock a e \<Longrightarrow> on_the_clock a (snd (persist_call v b qc e))"
  "on_the_clock a e \<Longrightarrow> on_the_clock a (remember_solicited v act p e)"
  "on_the_clock a e \<Longrightarrow> on_the_clock a (minted t e)"
  "on_the_clock a e \<Longrightarrow> on_the_clock a (requeue_or_fail v fl why e)"
  "on_the_clock a e \<Longrightarrow> on_the_clock a (offline_sweep v kept rest e)"
  "on_the_clock a e \<Longrightarrow> on_the_clock a (set_call_timeout d e)"
  "on_the_clock a e \<Longrightarrow> on_the_clock a (set_id_generator g e)"
  by (simp_all add: on_the_clock_def frame_simps minted_def set_call_timeout_def
      set_id_generator_def)

lemma clock_fields [inv_intros]:
  "on_the_clock a e \<Longrightarrow> on_the_clock a (e\<lparr>queue := ps\<rparr>)"
  "on_the_clock a e \<Longrightarrow> on_the_clock a (e\<lparr>boot := b\<rparr>)"
  "on_the_clock a e \<Longrightarrow> on_the_clock a (e\<lparr>heartbeat_at := h\<rparr>)"
  "on_the_clock a e \<Longrightarrow> on_the_clock a (e\<lparr>boot_retry_at := h\<rparr>)"
  "on_the_clock a e \<Longrightarrow> on_the_clock a (e\<lparr>draining := h\<rparr>)"
  "on_the_clock a e \<Longrightarrow> on_the_clock a (e\<lparr>heartbeat_interval := d\<rparr>)"
  "on_the_clock a e \<Longrightarrow> on_the_clock a (e\<lparr>peer_inflight := is\<rparr>)"
  "on_the_clock a e \<Longrightarrow> on_the_clock a (e\<lparr>connected := c\<rparr>)"
  "on_the_clock a e \<Longrightarrow> on_the_clock a (e\<lparr>version := w\<rparr>)"
  by (simp_all add: on_the_clock_def)

lemma clock_emits [inv_intros]:
  "on_the_clock a e \<Longrightarrow> on_the_clock a (emit (outcome t i act r) e)"
  "on_the_clock a e \<Longrightarrow> on_the_clock a (emit (Violation x) e)"
  "on_the_clock a e \<Longrightarrow> on_the_clock a (emit (Request rq) e)"
  "on_the_clock a e \<Longrightarrow> on_the_clock a (emit (ResultRejected mid ce) e)"
  "on_the_clock a e \<Longrightarrow> on_the_clock a (emit (BootStateChanged b) e)"
  "on_the_clock a e \<Longrightarrow> on_the_clock a (emit (ClockSampled cs) e)"
  "on_the_clock a e \<Longrightarrow> on_the_clock a (emit (Close cr) e)"
  "on_the_clock a e \<Longrightarrow> tm \<noteq> CallTimeout \<Longrightarrow> on_the_clock a (emit (SetTimer tm at) e)"
  "on_the_clock a e \<Longrightarrow> tm \<noteq> CallTimeout \<Longrightarrow> on_the_clock a (emit (ClearTimer tm) e)"
  by (simp_all add: clock_emit watch_def outcome_def)

text \<open>Ending a call and clearing its timer go together.\<close>

lemma clock_clear:
  "on_the_clock a (e\<lparr>inflight := Some f\<rparr>) \<or> on_the_clock a e \<Longrightarrow> inflight e = None \<Longrightarrow>
   on_the_clock a (emit (ClearTimer CallTimeout) e)"
  by (auto simp: on_the_clock_def frame_simps watch_def)

lemma clock_start_call:
  "on_the_clock a e \<Longrightarrow> inflight e = None \<Longrightarrow> on_the_clock a (start_call v i e)"
  by (simp add: on_the_clock_def start_call_def Let_def frame_simps watch_def split: prod.split)

lemma clock_send_entry: "on_the_clock a e \<Longrightarrow> on_the_clock a (send_entry v i e)"
  by (simp add: on_the_clock_def send_entry_def Let_def frame_simps split: prod.split)

lemma clock_pump [inv_intros]: "on_the_clock a e \<Longrightarrow> on_the_clock a (pump v e)"
  by (rule pump_induct) (auto intro: clock_start_call clock_send_entry)

lemma clock_call_with [inv_intros]:
  assumes "on_the_clock a e"
  shows "on_the_clock a (snd (call_with v t act p opts e))"
proof (cases rule: call_with_cases [of v t act p opts e])
  case (refused err)
  then show ?thesis using assms by (auto intro: inv_intros)
next
  case (answered e1 why)
  have "on_the_clock a e1"
    using answered(2) assms by (metis clock_quiet(8,10) snd_conv)
  then show ?thesis using answered(1) by (auto simp: fail_def intro: inv_intros)
next
  case (queued k q e2 e3)
  have "e2 = snd (persist_call v (wants_persist e act opts) (stored_form e act p k) (minted t e))"
    using queued(3) by simp
  then have "on_the_clock a e3" using queued(2) assms by (auto intro: inv_intros)
  then show ?thesis using queued(1) by (auto intro: inv_intros)
qed

lemma clock_observe_boot_answer [inv_intros]:
  "on_the_clock a e \<Longrightarrow> on_the_clock a (observe_boot_answer v p out e)"
  by (auto simp: observe_boot_answer_def Let_def intro!: inv_intros split: option.split)

lemma clock_on_disconnected [inv_intros]:
  assumes "on_the_clock a e"
  shows "on_the_clock a (on_disconnected v e)"
proof -
  let ?e1 = "emit (ClearTimer CallTimeout) (e\<lparr>connected := False, peer_inflight := {}\<rparr>)"
  let ?e2 = "(emit (ClearTimer HeartbeatTimer) ?e1)\<lparr>heartbeat_at := None\<rparr>"
  have "on_the_clock a (?e2\<lparr>inflight := None\<rparr>)"
    using assms by (simp add: on_the_clock_def frame_simps watch_def)
  moreover from this have "inflight ?e2 = None \<Longrightarrow> on_the_clock a ?e2"
    by (simp add: on_the_clock_def)
  ultimately show ?thesis
    unfolding on_disconnected_def Let_def
    by (intro inv_intros) (auto intro: inv_intros split: option.split)
qed

lemma clock_on_timeout [inv_intros]:
  assumes "on_the_clock a e"
  shows "on_the_clock a (on_timeout v e)"
proof -
  have "on_the_clock a (call_timeout_due v e)"
  proof (cases "inflight e")
    case (Some f)
    have "on_the_clock a (emit (ClearTimer CallTimeout) (e\<lparr>inflight := None\<rparr>))"
      using assms by (simp add: on_the_clock_def frame_simps watch_def)
    then show ?thesis using assms Some by (auto simp: call_timeout_due_def intro: inv_intros)
  qed (use assms in \<open>simp add: call_timeout_due_def\<close>)
  moreover have "on_the_clock a (heartbeat_due v x)" if "on_the_clock a x" for x
    using that by (auto simp: heartbeat_due_def send_heartbeat_def Let_def
        intro!: inv_intros split: option.split)
  moreover have "on_the_clock a (boot_retry_due x)" if "on_the_clock a x" for x :: "('a, 'b) engine"
    using that by (auto simp: boot_retry_due_def intro!: inv_intros split: option.split)
  ultimately show ?thesis by (simp add: on_timeout_def Let_def inv_intros)
qed

lemma clock_on_call [inv_intros]:
  assumes "on_the_clock a e"
  shows "on_the_clock a (on_call v i act p k e)"
proof (cases rule: on_call_cases [of v i act p k e])
  case (rejected c e1)
  then have "on_the_clock a e1" using assms by (auto intro: inv_intros)
  then show ?thesis using rejected(1) by (simp add: inv_intros)
next
  case (served e1 e2)
  have "e1 = e \<or> e1 = snd (peer_call_refused i e)"
    using served(3) by (auto split: if_splits)
  then have "on_the_clock a e2" using assms served(2) by (auto intro: inv_intros)
  then show ?thesis using served(1) by (auto intro!: inv_intros)
qed

lemma clock_taken:
  assumes "on_the_clock a e" and "take_inflight i e = (Some f, e1)"
  shows "on_the_clock a (emit (ClearTimer CallTimeout) (ack_store v q e1))"
  using assms
  by (auto simp: take_inflight_def on_the_clock_def frame_simps watch_def
      split: option.splits if_splits)

lemma clock_not_taken:
  "on_the_clock a e \<Longrightarrow> take_inflight i e = (None, e1) \<Longrightarrow> on_the_clock a e1"
  by (auto simp: take_inflight_def split: option.splits if_splits)

lemma clock_on_response [inv_intros]:
  assumes "on_the_clock a e"
  shows "on_the_clock a (on_call_result v i p e)" "on_the_clock a (on_call_error v i err e)"
proof -
  obtain r e1 where r: "take_inflight i e = (r, e1)" by fastforce
  have "on_the_clock a (on_call_result v i p e) \<and> on_the_clock a (on_call_error v i err e)"
  proof (cases r)
    case None
    with r have "on_the_clock a e1" by (simp add: clock_not_taken [OF assms])
    with r None show ?thesis
      by (simp add: on_call_result_def on_call_error_def inv_intros)
  next
    case (Some f)
    obtain e2 where e2: "emit (ClearTimer CallTimeout) (ack_store v (f_seq f) e1) = e2" by simp
    then have "on_the_clock a e2" using clock_taken [OF assms, of i f e1] r Some by blast
    with r Some e2 show ?thesis
      by (auto simp: on_call_result_def on_call_error_def Let_def intro!: inv_intros
          split: option.split)
  qed
  then show "on_the_clock a (on_call_result v i p e)" "on_the_clock a (on_call_error v i err e)"
    by simp_all
qed

lemma clock_on_received [inv_intros]:
  assumes "on_the_clock a e"
  shows "on_the_clock a (on_received v text e)"
proof -
  have "on_the_clock a (on_malformed v err x)" if "on_the_clock a x" for err x
    using that by (auto simp: on_malformed_def Let_def intro!: inv_intros split: frame_reply.split)
  then show ?thesis
    using clock_quiet(1) [OF assms]
    by (auto simp: on_received_def Let_def intro!: inv_intros split: sum.split frame.split)
qed

lemma clock_handle [inv_intros]: "on_the_clock a e \<Longrightarrow> on_the_clock a (handle v t i e)"
  by (auto simp: handle_def on_connected_def Let_def intro!: inv_intros split: engine_input.split)

lemma clock_commands [inv_intros]:
  assumes "on_the_clock a e"
  shows "on_the_clock a (snd (respond v t i p e))" "on_the_clock a (snd (respond_error v t i err e))"
    "on_the_clock a (snd (reject_result v t i err e))" "on_the_clock a (shutdown t d e)"
    "on_the_clock a (snd (cancel v token e))"
  using assms
  by (auto simp: respond_def respond_error_def reject_result_def shutdown_def take_peer_request_def
      cancel_def Let_def intro!: inv_intros split: option.split)

definition session_on_the_clock :: "('s, 'g) session \<Rightarrow> bool" where
  "session_on_the_clock s \<longleftrightarrow> on_the_clock (watched (snd s)) (fst s)"

lemma session_on_the_clock_step:
  assumes "session_on_the_clock s"
  shows "session_on_the_clock (step v s c)"
proof -
  obtain e log where s: "s = (e, log)" by fastforce
  then have "on_the_clock (watched log) e" using assms by (simp add: session_on_the_clock_def)
  then show ?thesis
    using s
    by (cases c) (auto simp: session_on_the_clock_def poll_output_def drain_def watched_def
        on_the_clock_def intro: inv_intros [unfolded on_the_clock_def] split: list.splits)
qed

interpretation clock: step_system "step v" session_on_the_clock
  by unfold_locales (rule session_on_the_clock_step)

text \<open>
  C4. At most one call is outstanding, and the driver always holds the timer for it. Replaying
  everything an engine has told its driver, a \<open>CALL\<close> is never started while another is
  outstanding, and the call-timeout timer is armed exactly while the engine awaits an answer,
  for exactly the deadline of that call.
\<close>

theorem one_outstanding_call:
  assumes "with_store v cfg s g = Inr e"
  shows "watched (said (run v (e, []) cs)) =
    Some (map_option f_deadline (inflight (fst (run v (e, []) cs))))"
proof -
  have "outputs (foldl recover_entry x xs) = outputs x \<and> inflight (foldl recover_entry x xs) = inflight x"
    for x :: "('a, 'b) engine" and xs
    by (induction xs arbitrary: x) (simp_all add: recover_entry_def mint_token_def split: prod.split)
  then have "session_on_the_clock (e, [])"
    using assms
    by (auto simp: session_on_the_clock_def on_the_clock_def watched_def with_store_def
        fresh_engine_def Let_def split: sum.splits)
  then have "session_on_the_clock (run v (e, []) cs)"
    unfolding run_def by (rule clock.run_inv)
  then show ?thesis
    by (simp add: session_on_the_clock_def on_the_clock_def watched_def said_def)
qed

theorem one_outstanding_call_witness:
  "let s = run sample_env (sample_engine (config_new ChargingStation V2_1), [])
      [Handle (at_ms 5) (Connected V2_1),
       CallWith (at_ms 6) ''BootNotification'' ''{}'' options_default] in
   watched (said s) = Some (map_option f_deadline (inflight (fst s))) \<and>
   watched (said s) = Some (Some (at_ms 30006))"
proof -
  have "watched (said (run sample_env (sample_engine (config_new ChargingStation V2_1), [])
      [Handle (at_ms 5) (Connected V2_1),
       CallWith (at_ms 6) ''BootNotification'' ''{}'' options_default]))
     = Some (Some (at_ms 30006))"
    by code_simp
  with one_outstanding_call [OF sample_start, of "config_new ChargingStation V2_1"
      "[Handle (at_ms 5) (Connected V2_1),
        CallWith (at_ms 6) ''BootNotification'' ''{}'' options_default]"]
  show ?thesis by (simp add: Let_def)
qed

section \<open>A call that times out is answered\<close>

text \<open>Outputs are only ever added.\<close>

definition said_in :: "engine_output \<Rightarrow> ('s, 'g) engine \<Rightarrow> bool" where
  "said_in x e \<longleftrightarrow> x \<in> set (outputs e)"

lemma said_in_quiet [inv_intros]:
  "said_in x e \<Longrightarrow> said_in x (emit y e)"
  "said_in x e \<Longrightarrow> said_in x (arm_heartbeat e)"
  "said_in x e \<Longrightarrow> said_in x (transmit v f e)"
  "said_in x e \<Longrightarrow> said_in x (ack_store v q e)"
  "said_in x e \<Longrightarrow> said_in x (check_drain e)"
  "said_in x e \<Longrightarrow> said_in x (advance t e)"
  "said_in x e \<Longrightarrow> said_in x (snd (persist_call v b qc e))"
  "said_in x e \<Longrightarrow> said_in x (remember_solicited v act p e)"
  "said_in x e \<Longrightarrow> said_in x (minted t e)"
  "said_in x e \<Longrightarrow> said_in x (e\<lparr>queue := ps\<rparr>)"
  "said_in x e \<Longrightarrow> said_in x (e\<lparr>draining := h\<rparr>)"
  "said_in x e \<Longrightarrow> said_in x (e\<lparr>heartbeat_at := h\<rparr>)"
  by (simp_all add: said_in_def emit_def arm_heartbeat_def transmit_def ack_store_def
      check_drain_def advance_def persist_call_def remember_solicited_def minted_def Let_def
      split: option.split prod.split sum.split)

lemma said_in_pump [inv_intros]: "said_in x e \<Longrightarrow> said_in x (pump v e)"
  by (rule pump_induct)
    (auto simp: send_entry_def start_call_def said_in_def Let_def frame_simps transmit_def
      arm_heartbeat_def ack_store_def emit_def split: prod.split option.split sum.split)

lemma said_in_call_with [inv_intros]:
  assumes "said_in x e"
  shows "said_in x (snd (call_with v t act p opts e))"
proof (cases rule: call_with_cases [of v t act p opts e])
  case (refused err)
  then show ?thesis using assms by (auto intro: inv_intros)
next
  case (answered e1 why)
  have "said_in x e1"
    using answered(2) assms by (metis said_in_quiet(7,9) snd_conv)
  then show ?thesis using answered(1) by (auto simp: fail_def intro: inv_intros)
next
  case (queued k q e2 e3)
  have "e2 = snd (persist_call v (wants_persist e act opts) (stored_form e act p k) (minted t e))"
    using queued(3) by simp
  then have "said_in x e3" using queued(2) assms by (auto intro: inv_intros)
  then show ?thesis using queued(1) by (auto intro: inv_intros)
qed

lemma said_in_on_timeout:
  assumes "said_in x (call_timeout_due v e)"
  shows "said_in x (on_timeout v e)"
proof -
  have "said_in x (heartbeat_due v y)" if "said_in x y" for y
    using that by (auto simp: heartbeat_due_def send_heartbeat_def Let_def
        intro!: inv_intros split: option.split)
  moreover have "said_in x (boot_retry_due y)" if "said_in x y" for y :: "('a, 'b) engine"
    using that by (simp add: boot_retry_due_def said_in_def emit_def split: option.split)
  ultimately show ?thesis using assms by (simp add: on_timeout_def Let_def inv_intros)
qed

text \<open>
  C8. A call whose deadline has passed is answered at the next timeout the driver delivers:
  with \<open>Timeout\<close>, or with \<open>RetriesExhausted\<close> for a transaction message whose attempts are
  used up. Only a transaction message with attempts left goes back to the queue instead, to
  its front and with its retry time.
\<close>

theorem timeout_answers_call:
  assumes "inflight e = Some f" and "millis (f_deadline f) \<le> millis t"
  shows "if f_transactional f \<and> may_retry (c_retry (config e)) (f_attempts f)
    then inflight (call_timeout_due v (advance t e)) = None \<and>
      (\<exists>p. queue (call_timeout_due v (advance t e)) = p # queue e \<and> p_token p = f_token f \<and>
        p_action p = f_action f \<and> p_payload p = f_payload f \<and> p_attempts p = f_attempts f \<and>
        p_not_before p = Some (instant_add (now (advance t e))
          (delay_after (c_retry (config e)) (f_attempts f))))
    else outcome (f_token f) (Some (f_id f)) (f_action f)
      (Inl (if f_transactional f then RetriesExhausted else CallTimedOut))
      \<in> set (outputs (handle v t Timeout e))"
proof -
  have due: "millis (f_deadline f) \<le> millis (now (advance t e))"
    using assms(2) by (simp add: advance_def)
  show ?thesis
  proof (cases "f_transactional f \<and> may_retry (c_retry (config e)) (f_attempts f)")
    case True
    with assms(1) due show ?thesis
      by (auto simp: call_timeout_due_def requeue_or_fail_def Let_def frame_simps)
  next
    case False
    let ?o = "outcome (f_token f) (Some (f_id f)) (f_action f)
      (Inl (if f_transactional f then RetriesExhausted else CallTimedOut))"
    have "said_in ?o (call_timeout_due v (advance t e))"
      using assms(1) due False
      by (auto simp: call_timeout_due_def requeue_or_fail_def Let_def frame_simps said_in_def)
    from said_in_on_timeout [OF this] False show ?thesis
      by (auto simp: handle_def said_in_def)
  qed
qed

theorem timeout_answers_call_witness:
  "\<exists>e f. inflight e = Some f \<and> f_action f = ''BootNotification'' \<and>
     outcome (f_token f) (Some (f_id f)) (f_action f) (Inl CallTimedOut)
       \<in> set (outputs (handle sample_env (at_ms 40000) Timeout e))"
proof -
  let ?e = "fst (run sample_env (sample_engine (config_new ChargingStation V2_1), [])
    [Handle (at_ms 5) (Connected V2_1),
     CallWith (at_ms 6) ''BootNotification'' ''{}'' options_default])"
  have "(case inflight ?e of None \<Rightarrow> False | Some f \<Rightarrow> f_action f = ''BootNotification'' \<and>
      \<not> f_transactional f \<and> millis (f_deadline f) \<le> millis (at_ms 40000))"
    by code_simp
  then obtain e f where f: "inflight e = Some f" "f_action f = ''BootNotification''"
    "\<not> f_transactional f" "millis (f_deadline f) \<le> millis (at_ms 40000)"
    and e: "e = ?e"
    by (simp split: option.splits)
  from timeout_answers_call [OF f(1,4), of sample_env] f(3)
  have "outcome (f_token f) (Some (f_id f)) (f_action f) (Inl CallTimedOut)
       \<in> set (outputs (handle sample_env (at_ms 40000) Timeout e))"
    by simp
  with f(1,2) show ?thesis by blast
qed

end
