(* ===== verification/Ws_Frame.thy ===== *)
theory Ws_Frame
  imports Prelude
begin

unbundle bit_operations_syntax

text \<open>
  \<open>transport/ws/frame.rs\<close>: WebSocket frame headers, the masking of payloads, and close codes.

  A byte is an \<open>8 word\<close>, a buffer a list of bytes; a length is a natural, read from and
  written to big-endian bytes. The key of a masked frame is a tuple of its four bytes.

  The lemmas show that a header is read back from what was written, that a buffer is read in
  only one way, that reading is not affected by what follows, and that the word-at-a-time
  masking is the byte-wise one.
\<close>

section \<open>Opcodes\<close>

datatype op_code = Continuation | Text | Binary | Close | Ping | Pong

definition op_from_bits :: "u8 \<Rightarrow> op_code option" where
  "op_from_bits b =
     (if b = 0x0 then Some Continuation else if b = 0x1 then Some Text
      else if b = 0x2 then Some Binary else if b = 0x8 then Some Close
      else if b = 0x9 then Some Ping else if b = 0xA then Some Pong else None)"

fun op_bits :: "op_code \<Rightarrow> u8" where
  "op_bits Continuation = 0x0"
| "op_bits Text = 0x1"
| "op_bits Binary = 0x2"
| "op_bits Close = 0x8"
| "op_bits Ping = 0x9"
| "op_bits Pong = 0xA"

definition op_is_control :: "op_code \<Rightarrow> bool" where
  "op_is_control op \<longleftrightarrow> op = Close \<or> op = Ping \<or> op = Pong"

section \<open>Headers\<close>

type_synonym bytes = "u8 list"
type_synonym mask_key = "u8 \<times> u8 \<times> u8 \<times> u8"

record ws_header =
  fin :: bool
  rsv1 :: bool
  rsv2 :: bool
  rsv3 :: bool
  opcode :: op_code
  mask_of :: "mask_key option"
  payload_length :: nat
  prefix_length :: nat

datatype header_error = ReservedOpcodeBits u8 | NonMinimal | LengthTooLarge

text \<open>\<open>from_be_bytes\<close> and \<open>to_be_bytes\<close> at a width of \<open>k\<close> bytes.\<close>

definition be_value :: "bytes \<Rightarrow> nat" where
  "be_value bs = foldl (\<lambda>a b. a * 256 + unat b) 0 bs"

fun be_bytes :: "nat \<Rightarrow> nat \<Rightarrow> bytes" where
  "be_bytes 0 n = []"
| "be_bytes (Suc k) n = be_bytes k (n div 256) @ [of_nat (n mod 256)]"

text \<open>
  The length and where the header continues after it; \<open>None\<close> when the buffer ends first.
\<close>

definition read_length :: "bytes \<Rightarrow> header_error + (nat \<times> nat) option" where
  "read_length buf =
     (let short = buf ! 1 AND 0x7F in
      if short = 126 then
        if length buf < 4 then Inr None
        else
          let n = be_value (take 2 (drop 2 buf)) in
          if n < 126 then Inl NonMinimal else Inr (Some (n, 4))
      else if short = 127 then
        if length buf < 10 then Inr None
        else
          let n = be_value (take 8 (drop 2 buf)) in
          if n \<ge> 2 ^ 63 then Inl LengthTooLarge
          else if n < 65536 then Inl NonMinimal else Inr (Some (n, 10))
      else Inr (Some (unat short, 2)))"

definition read_header :: "bytes \<Rightarrow> header_error + ws_header option" where
  "read_header buf =
     (if length buf < 2 then Inr None
      else
        let first = buf ! 0; second = buf ! 1 in
        case op_from_bits (first AND 0x0F) of
          None \<Rightarrow> Inl (ReservedOpcodeBits (first AND 0x0F))
        | Some op \<Rightarrow>
            (case read_length buf of
               Inl e \<Rightarrow> Inl e
             | Inr None \<Rightarrow> Inr None
             | Inr (Some (n, offset)) \<Rightarrow>
                 let masked = (second AND 0x80 \<noteq> 0);
                     header = \<lparr>fin = (first AND 0x80 \<noteq> 0), rsv1 = (first AND 0x40 \<noteq> 0),
                       rsv2 = (first AND 0x20 \<noteq> 0), rsv3 = (first AND 0x10 \<noteq> 0), opcode = op,
                       mask_of = None, payload_length = n, prefix_length = offset\<rparr>
                 in if \<not> masked then Inr (Some header)
                    else if length buf < offset + 4 then Inr None
                    else Inr (Some (header\<lparr>mask_of := Some (buf ! offset, buf ! (offset + 1),
                        buf ! (offset + 2), buf ! (offset + 3)), prefix_length := offset + 4\<rparr>))))"

fun key_bytes :: "mask_key \<Rightarrow> bytes" where
  "key_bytes (a, b, c, d) = [a, b, c, d]"

definition write_length :: "u8 \<Rightarrow> nat \<Rightarrow> bytes" where
  "write_length mask_bit n =
     (if n < 126 then [mask_bit OR of_nat n]
      else if n < 65536 then (mask_bit OR 0x7E) # be_bytes 2 n
      else (mask_bit OR 0x7F) # be_bytes 8 n)"

definition write_header :: "bool \<Rightarrow> bool \<Rightarrow> op_code \<Rightarrow> mask_key option \<Rightarrow> nat \<Rightarrow> bytes" where
  "write_header is_fin is_rsv1 op key n =
     (op_bits op OR (if is_fin then 0x80 else 0) OR (if is_rsv1 then 0x40 else 0)) #
     write_length (if key \<noteq> None then 0x80 else 0) n @
     (case key of None \<Rightarrow> [] | Some k \<Rightarrow> key_bytes k)"

section \<open>Masking\<close>

text \<open>
  A machine word from four bytes and back. The byte order of the machine does not matter to
  what masking does; the least significant byte comes first here.
\<close>

definition from_ne_bytes :: "u8 \<Rightarrow> u8 \<Rightarrow> u8 \<Rightarrow> u8 \<Rightarrow> 32 word" where
  "from_ne_bytes a b c d =
     ucast a OR push_bit 8 (ucast b) OR push_bit 16 (ucast c) OR push_bit 24 (ucast d)"

definition to_ne_bytes :: "32 word \<Rightarrow> bytes" where
  "to_ne_bytes w = map (\<lambda>i. ucast (drop_bit (8 * i) w)) [0, 1, 2, 3]"

text \<open>Whole words of the payload while there are four bytes, and then the rest byte by byte.\<close>

fun apply_mask :: "bytes \<Rightarrow> mask_key \<Rightarrow> bytes" where
  "apply_mask (p # q # r # s # rest) (a, b, c, d) =
     to_ne_bytes (from_ne_bytes p q r s XOR from_ne_bytes a b c d) @ apply_mask rest (a, b, c, d)"
| "apply_mask rest key = map2 (XOR) rest (take (length rest) (key_bytes key))"

section \<open>Close codes\<close>

definition is_sendable :: "nat \<Rightarrow> bool" where
  "is_sendable c \<longleftrightarrow> 1000 \<le> c \<and> c \<le> 1003 \<or> 1007 \<le> c \<and> c \<le> 1011 \<or> 3000 \<le> c \<and> c \<le> 4999"

text \<open>The body of a close frame: the code and the bytes of the reason.\<close>

record close_frame =
  cf_code :: nat
  cf_reason :: bytes

section \<open>Bytes and lengths\<close>

interpretation opcodes: wire_enum op_bits op_from_bits
proof
  show "op_from_bits (op_bits e) = Some e" for e by (cases e) (simp_all add: op_from_bits_def)
  show "op_from_bits w = Some e \<Longrightarrow> w = op_bits e" for w e
    by (auto simp: op_from_bits_def split: if_splits)
qed

lemma unat_byte: "unat (b :: u8) < 256"
proof -
  have "unat b < 2 ^ LENGTH(8)" by (rule unsigned_less)
  then show ?thesis by simp
qed

lemma be_value_snoc [simp]: "be_value (bs @ [b]) = be_value bs * 256 + unat b"
  by (simp add: be_value_def)

lemma length_be_bytes [simp]: "length (be_bytes k n) = k"
  by (induction k arbitrary: n) simp_all

lemma be_value_bytes: "n < 256 ^ k \<Longrightarrow> be_value (be_bytes k n) = n"
proof (induction k arbitrary: n)
  case 0
  then show ?case by (simp add: be_value_def)
next
  case (Suc k)
  have "n div 256 < 256 ^ k" using Suc.prems by (simp add: less_mult_imp_div_less mult.commute)
  moreover have "unat (of_nat (n mod 256) :: u8) = n mod 256"
    by (simp add: unat_of_nat take_bit_eq_mod)
  ultimately show ?case using Suc.IH [of "n div 256"] by simp
qed

lemma be_bytes_value: "be_bytes (length bs) (be_value bs) = bs"
proof (induction bs rule: rev_induct)
  case (snoc b bs)
  have "unat b < 256" by (rule unat_byte)
  with snoc show ?case by simp
qed simp

lemma be_value_bound: "be_value bs < 256 ^ length bs"
proof (induction bs rule: rev_induct)
  case (snoc b bs)
  have "unat b < 256" by (rule unat_byte)
  with snoc show ?case by simp
qed (simp add: be_value_def)

text \<open>The length byte: seven bits of length below the mask bit.\<close>

lemma seven_bits:
  fixes w :: u8
  assumes "w < 128"
  shows "w AND 0x7F = w" "(0x80 OR w) AND 0x7F = w" "w AND 0x80 = 0" "(0x80 OR w) AND 0x80 = 0x80"
proof -
  have m: "(0x7F :: u8) = mask 7" by (simp add: mask_eq_exp_minus_1)
  have "unat w < 2 ^ 7" using assms by (simp add: word_less_nat_alt)
  then have t: "take_bit 7 w = w"
    by (simp add: word_unat_eq_iff unsigned_take_bit_eq take_bit_nat_eq_self)
  show "w AND 0x7F = w" unfolding m using t by (simp add: take_bit_eq_mask)
  have z: "w AND 0x80 = 0"
  proof -
    have "w AND 0x80 = (take_bit 7 w) AND 0x80" using t by simp
    also have "\<dots> = w AND (mask 7 AND 0x80)" by (simp add: take_bit_eq_mask and.assoc)
    also have "mask 7 AND (0x80 :: u8) = 0" by (simp add: m [symmetric])
    finally show ?thesis by simp
  qed
  show "w AND 0x80 = 0" by (rule z)
  show "(0x80 OR w) AND 0x7F = w" using \<open>w AND 0x7F = w\<close> by (simp add: bit.conj_disj_distrib2)
  show "(0x80 OR w) AND 0x80 = 0x80" using z by (simp add: bit.conj_disj_distrib2)
qed

lemma single_bit:
  fixes w :: u8
  shows "w AND 0x80 = (if w AND 0x80 \<noteq> 0 then 0x80 else 0)" "w AND 0x40 = (if w AND 0x40 \<noteq> 0 then 0x40 else 0)"
proof -
  have bit: "w AND push_bit n 1 = (if bit w n then push_bit n 1 else 0)" for n
    by (rule bit_eqI) (auto simp: bit_simps)
  show "w AND 0x80 = (if w AND 0x80 \<noteq> 0 then 0x80 else 0)" "w AND 0x40 = (if w AND 0x40 \<noteq> 0 then 0x40 else 0)"
    using bit [of 7] bit [of 6] by (auto simp: push_bit_eq_mult)
qed

text \<open>Any byte is its mask bit and its seven bits of length.\<close>

lemma byte_split:
  fixes w :: u8
  shows "w AND 0x7F < 128" "(if w AND 0x80 \<noteq> 0 then 0x80 else 0) OR (w AND 0x7F) = w"
proof -
  have "w AND 0x7F \<le> 0x7F" by (rule word_and_le1)
  then show "w AND 0x7F < 128" by (simp add: word_less_nat_alt word_le_nat_alt)
  have ones: "(0x80 OR 0x7F :: u8) = - 1" by simp
  have "(w AND 0x80) OR (w AND 0x7F) = w"
    unfolding bit.conj_disj_distrib [symmetric] ones by simp
  then show "(if w AND 0x80 \<noteq> 0 then 0x80 else 0) OR (w AND 0x7F) = w"
    unfolding single_bit(1) [symmetric] .
qed

lemma first_byte_read:
  "op_from_bits ((op_bits op OR (if f then 0x80 else 0) OR (if r then 0x40 else 0)) AND 0x0F) = Some op"
  "(op_bits op OR (if f then 0x80 else 0) OR (if r then 0x40 else 0)) AND 0x80 \<noteq> 0 \<longleftrightarrow> f"
  "(op_bits op OR (if f then 0x80 else 0) OR (if r then 0x40 else 0)) AND 0x40 \<noteq> 0 \<longleftrightarrow> r"
  "(op_bits op OR (if f then 0x80 else 0) OR (if r then 0x40 else 0)) AND 0x20 = 0"
  "(op_bits op OR (if f then 0x80 else 0) OR (if r then 0x40 else 0)) AND 0x10 = 0"
  by (cases op; cases f; cases r; simp add: op_from_bits_def)+

lemma first_byte_written:
  fixes w :: u8
  assumes "op_from_bits (w AND 0x0F) = Some op" and "w AND 0x20 = 0" and "w AND 0x10 = 0"
  shows "op_bits op OR (if w AND 0x80 \<noteq> 0 then 0x80 else 0) OR (if w AND 0x40 \<noteq> 0 then 0x40 else 0) = w"
proof -
  have "(0x0F OR 0x80 OR 0x40 OR 0x20 OR 0x10 :: u8) = - 1" by simp
  then have "w = w AND (0x0F OR 0x80 OR 0x40 OR 0x20 OR 0x10)" by (simp only: and_minus_numerals bit.conj_one_right)
  also have "\<dots> = (w AND 0x0F) OR (w AND 0x80) OR (w AND 0x40) OR (w AND 0x20) OR (w AND 0x10)"
    by (simp only: bit.conj_disj_distrib or.assoc)
  also have "\<dots> = op_bits op OR (w AND 0x80) OR (w AND 0x40)"
    using opcodes.of_some [OF assms(1)] assms(2,3) by simp
  finally have "op_bits op OR (w AND 0x80) OR (w AND 0x40) = w" by (rule sym)
  then show ?thesis by (simp only: single_bit [symmetric])
qed

section \<open>Reading what was written\<close>

lemma read_length_written:
  fixes m :: u8
  assumes "m = 0 \<or> m = 0x80" and "n < 2 ^ 63"
  shows "read_length (first # write_length m n @ rest) = Inr (Some (n, Suc (length (write_length m n))))"
    "hd (write_length m n) AND 0x80 = m" "write_length m n \<noteq> []"
proof -
  have small: "(of_nat n :: u8) < 128" "unat (of_nat n :: u8) = n" if "n < 126"
    using that by (simp_all add: word_less_nat_alt unat_of_nat take_bit_eq_mod)
  have not: "(of_nat n :: u8) \<noteq> 126" "(of_nat n :: u8) \<noteq> 127" if "n < 126"
    using small(2) [OF that] that by auto
  have "(m OR w) AND 0x7F = w \<and> (m OR w) AND 0x80 = m" if "w < 128" for w :: u8
    using assms(1) seven_bits [OF that] by auto
  from this [of "0x7E"] this [of "0x7F"] this [OF small(1)]
  have m: "(m OR 0x7E) AND 0x7F = 0x7E" "(m OR 0x7E) AND 0x80 = m" "(m OR 0x7F) AND 0x7F = 0x7F"
    "(m OR 0x7F) AND 0x80 = m" "n < 126 \<Longrightarrow> (m OR of_nat n) AND 0x7F = of_nat n"
    "n < 126 \<Longrightarrow> (m OR of_nat n) AND 0x80 = m" by simp_all
  consider "n < 126" | "126 \<le> n" "n < 65536" | "65536 \<le> n" by linarith
  note cs = this
  from cs show "read_length (first # write_length m n @ rest) = Inr (Some (n, Suc (length (write_length m n))))"
  proof cases
    case 1
    then show ?thesis using m small not by (simp add: read_length_def write_length_def Let_def)
  next
    case 2
    then show ?thesis using m be_value_bytes [of n 2] by (simp add: read_length_def write_length_def Let_def)
  next
    case 3
    then show ?thesis using m be_value_bytes [of n 8] assms(2) by (simp add: read_length_def write_length_def Let_def)
  qed
  from cs show "hd (write_length m n) AND 0x80 = m" "write_length m n \<noteq> []"
    using m by (cases; simp add: write_length_def)+
qed

lemma read_written:
  assumes "n < 2 ^ 63"
  shows "read_header (write_header f r op key n @ rest) =
    Inr (Some \<lparr>fin = f, rsv1 = r, rsv2 = False, rsv3 = False, opcode = op, mask_of = key,
      payload_length = n, prefix_length = length (write_header f r op key n)\<rparr>)"
proof -
  define m :: u8 where "m = (if key \<noteq> None then 0x80 else 0)"
  define first where "first = op_bits op OR (if f then 0x80 else 0) OR (if r then 0x40 else 0)"
  define tail where "tail = (case key of None \<Rightarrow> [] | Some k \<Rightarrow> key_bytes k)"
  have m: "m = 0 \<or> m = 0x80" by (simp add: m_def)
  note len = read_length_written [OF m assms]
  obtain second others where wl: "write_length m n = second # others" using len(3) by (meson list.exhaust)
  have w: "write_header f r op key n = first # write_length m n @ tail"
    by (simp add: write_header_def m_def first_def tail_def)
  have first: "op_from_bits (first AND 0x0F) = Some op" "first AND 0x80 \<noteq> 0 \<longleftrightarrow> f"
    "first AND 0x40 \<noteq> 0 \<longleftrightarrow> r" "first AND 0x20 = 0" "first AND 0x10 = 0"
    unfolding first_def by (rule first_byte_read)+
  have second: "second AND 0x80 = m" using len(2) wl by simp
  show ?thesis
  proof (cases key)
    case None
    then show ?thesis
      using first second len(1) [of first "tail @ rest"] unfolding w wl
      by (simp add: read_header_def Let_def m_def tail_def)
  next
    case (Some k)
    obtain a b c d where k: "k = (a, b, c, d)" by (cases k) auto
    then show ?thesis
      using Some first second len(1) [of first "tail @ rest"] unfolding w wl
      by (simp add: read_header_def Let_def m_def tail_def nth_append)
  qed
qed

lemma read_length_stable:
  assumes "2 \<le> length buf" and "read_length buf \<noteq> Inr None"
  shows "read_length (buf @ xs) = read_length buf"
  using assms by (auto simp: read_length_def Let_def nth_append split: if_splits)

lemma read_length_written_back:
  assumes "2 \<le> length buf" and "read_length buf = Inr (Some (n, offset))"
  shows "n < 2 ^ 63 \<and> offset \<le> length buf \<and> 2 \<le> offset \<and>
    take offset buf = buf ! 0 # write_length (if buf ! 1 AND 0x80 \<noteq> 0 then 0x80 else 0) n"
proof -
  obtain x y rest where buf: "buf = x # y # rest"
    using assms(1) by (cases buf; cases "tl buf") auto
  define m :: u8 where "m = (if y AND 0x80 \<noteq> 0 then 0x80 else 0)"
  have y: "y = m OR (y AND 0x7F)" using byte_split(2) [of y] by (simp add: m_def)
  have short: "unat (y AND 0x7F) < 128" using byte_split(1) [of y] by (simp add: word_less_nat_alt)
  consider "y AND 0x7F = 126" | "y AND 0x7F = 127" | "y AND 0x7F \<noteq> 126" "y AND 0x7F \<noteq> 127" by blast
  then show ?thesis
  proof cases
    case 1
    then have n: "n = be_value (take 2 rest)" "126 \<le> n" "offset = 4" "2 \<le> length rest"
      using assms(2) by (auto simp: read_length_def Let_def buf split: if_splits)
    have "n < 65536" using be_value_bound [of "take 2 rest"] n by simp
    moreover have "be_bytes 2 n = take 2 rest" using be_bytes_value [of "take 2 rest"] n by simp
    moreover have "y = m OR 0x7E" using y 1 by simp
    ultimately show ?thesis using n by (simp add: buf m_def write_length_def)
  next
    case 2
    then have n: "n = be_value (take 8 rest)" "65536 \<le> n" "n < 2 ^ 63" "offset = 10" "8 \<le> length rest"
      using assms(2) by (auto simp: read_length_def Let_def buf split: if_splits)
    moreover have "be_bytes 8 n = take 8 rest" using be_bytes_value [of "take 8 rest"] n by simp
    moreover have "y = m OR 0x7F" using y 2 by simp
    ultimately show ?thesis by (simp add: buf m_def write_length_def)
  next
    case 3
    then have n: "n = unat (y AND 0x7F)" "offset = 2"
      using assms(2) by (auto simp: read_length_def Let_def buf split: if_splits)
    have "n \<noteq> 126" "n \<noteq> 127" using 3 n(1) word_unat_eq_iff [of "y AND 0x7F"] by auto
    then have "n < 126" using short n(1) by simp
    moreover have "m OR of_nat n = y" using y n(1) by simp
    ultimately show ?thesis using n(2) by (simp add: buf m_def write_length_def)
  qed
qed

lemma read_header_Some:
  assumes "read_header buf = Inr (Some h)"
  obtains op offset where "2 \<le> length buf" "op_from_bits (buf ! 0 AND 0x0F) = Some op"
    "read_length buf = Inr (Some (payload_length h, offset))" "opcode h = op"
    "fin h \<longleftrightarrow> buf ! 0 AND 0x80 \<noteq> 0" "rsv1 h \<longleftrightarrow> buf ! 0 AND 0x40 \<noteq> 0"
    "rsv2 h \<longleftrightarrow> buf ! 0 AND 0x20 \<noteq> 0" "rsv3 h \<longleftrightarrow> buf ! 0 AND 0x10 \<noteq> 0"
    "buf ! 1 AND 0x80 = 0 \<and> mask_of h = None \<and> prefix_length h = offset \<or>
     buf ! 1 AND 0x80 \<noteq> 0 \<and> prefix_length h = offset + 4 \<and> offset + 4 \<le> length buf \<and>
     mask_of h = Some (buf ! offset, buf ! (offset + 1), buf ! (offset + 2), buf ! (offset + 3))"
  using assms
  by (auto simp: read_header_def Let_def split: if_splits option.splits sum.splits)

text \<open>What was read does not change when more bytes arrive.\<close>

lemma read_header_stable:
  assumes "read_header buf \<noteq> Inr None"
  shows "read_header (buf @ xs) = read_header buf"
proof -
  have two: "2 \<le> length buf" using assms by (auto simp: read_header_def split: if_splits)
  then have nth: "(buf @ xs) ! 0 = buf ! 0" "(buf @ xs) ! 1 = buf ! 1" by (auto simp: nth_append)
  show ?thesis
  proof (cases "op_from_bits (buf ! 0 AND 0x0F)")
    case None
    then show ?thesis using two by (simp add: read_header_def Let_def nth)
  next
    case (Some op)
    then have "read_length buf \<noteq> Inr None" using assms two by (auto simp: read_header_def Let_def)
    then have len: "read_length (buf @ xs) = read_length buf" by (rule read_length_stable [OF two])
    show ?thesis
    proof (cases "read_length buf")
      case (Inl e)
      then show ?thesis using two Some by (simp add: read_header_def Let_def nth len)
    next
      case (Inr x)
      with \<open>read_length buf \<noteq> Inr None\<close> obtain n offset where x: "read_length buf = Inr (Some (n, offset))"
        by (cases x) auto
      have "buf ! 1 AND 0x80 = 0 \<or> offset + 4 \<le> length buf"
        using assms two Some x by (auto simp: read_header_def Let_def split: if_splits)
      then show ?thesis using two Some x by (auto simp: read_header_def Let_def nth len nth_append)
    qed
  qed
qed

lemma take_four: "offset + 4 \<le> length buf \<Longrightarrow>
  take (offset + 4) buf = take offset buf @ [buf ! offset, buf ! (offset + 1), buf ! (offset + 2), buf ! (offset + 3)]"
proof -
  assume a: "offset + 4 \<le> length buf"
  have "take (offset + 4) buf = take offset buf @ take 4 (drop offset buf)" by (rule take_add)
  moreover have "take 4 (drop offset buf) = map ((!) (drop offset buf)) [0..<4]"
    using a by (intro nth_equalityI) auto
  moreover have "map ((!) (drop offset buf)) [0..<4] = [buf ! offset, buf ! (offset + 1), buf ! (offset + 2), buf ! (offset + 3)]"
    using a by (simp add: upt_rec numeral_3_eq_3)
  ultimately show ?thesis by simp
qed

text \<open>A header with no reserved bit set is the one way of writing what it says.\<close>

lemma header_written_back:
  assumes "read_header buf = Inr (Some h)"
  shows "prefix_length h \<le> length buf \<and> 2 \<le> prefix_length h \<and> payload_length h < 2 ^ 63 \<and>
    (\<not> rsv2 h \<longrightarrow> \<not> rsv3 h \<longrightarrow>
      take (prefix_length h) buf =
        write_header (fin h) (rsv1 h) (opcode h) (mask_of h) (payload_length h))"
  using assms
proof (rule read_header_Some)
  fix op offset
  assume r: "2 \<le> length buf" "op_from_bits (buf ! 0 AND 0x0F) = Some op"
    "read_length buf = Inr (Some (payload_length h, offset))" "opcode h = op"
    "fin h \<longleftrightarrow> buf ! 0 AND 0x80 \<noteq> 0" "rsv1 h \<longleftrightarrow> buf ! 0 AND 0x40 \<noteq> 0"
    "rsv2 h \<longleftrightarrow> buf ! 0 AND 0x20 \<noteq> 0" "rsv3 h \<longleftrightarrow> buf ! 0 AND 0x10 \<noteq> 0"
    and mask: "buf ! 1 AND 0x80 = 0 \<and> mask_of h = None \<and> prefix_length h = offset \<or>
     buf ! 1 AND 0x80 \<noteq> 0 \<and> prefix_length h = offset + 4 \<and> offset + 4 \<le> length buf \<and>
     mask_of h = Some (buf ! offset, buf ! (offset + 1), buf ! (offset + 2), buf ! (offset + 3))"
  from read_length_written_back [OF r(1,3)]
  have len: "payload_length h < 2 ^ 63" "offset \<le> length buf" "2 \<le> offset"
    "take offset buf = buf ! 0 # write_length (if buf ! 1 AND 0x80 \<noteq> 0 then 0x80 else 0) (payload_length h)"
    by simp_all
  have first: "op_bits op OR (if fin h then 0x80 else 0) OR (if rsv1 h then 0x40 else 0) = buf ! 0"
    if "\<not> rsv2 h" "\<not> rsv3 h"
    using first_byte_written [OF r(2)] r(5-8) that by simp
  from mask show ?thesis
  proof
    assume "buf ! 1 AND 0x80 = 0 \<and> mask_of h = None \<and> prefix_length h = offset"
    then show ?thesis using len first r(4) by (auto simp: write_header_def)
  next
    assume m: "buf ! 1 AND 0x80 \<noteq> 0 \<and> prefix_length h = offset + 4 \<and> offset + 4 \<le> length buf \<and>
     mask_of h = Some (buf ! offset, buf ! (offset + 1), buf ! (offset + 2), buf ! (offset + 3))"
    then have "take (prefix_length h) buf =
        take offset buf @ [buf ! offset, buf ! (offset + 1), buf ! (offset + 2), buf ! (offset + 3)]"
      using take_four [of offset buf] by simp
    then show ?thesis using m len first r(4) by (auto simp: write_header_def)
  qed
qed

text \<open>
  Header and bytes determine each other. A header written is read back, whatever bytes
  follow it; and a header read, with the bits no extension of the program uses clear, is
  exactly the bytes the program would write for it, so two readers cannot disagree about where
  a frame ends.
\<close>

theorem header_roundtrip:
  assumes "n < 2 ^ 63" and "read_header buf = Inr (Some h)" and "\<not> rsv2 h" and "\<not> rsv3 h"
  shows "read_header (write_header f r op key n @ rest) =
      Inr (Some \<lparr>fin = f, rsv1 = r, rsv2 = False, rsv3 = False, opcode = op, mask_of = key,
        payload_length = n, prefix_length = length (write_header f r op key n)\<rparr>) \<and>
    buf = write_header (fin h) (rsv1 h) (opcode h) (mask_of h) (payload_length h) @ drop (prefix_length h) buf \<and>
    payload_length h < 2 ^ 63"
  using read_written [OF assms(1)] header_written_back [OF assms(2)] assms(3,4)
  by (metis append_take_drop_id)

theorem header_roundtrip_witness:
  "read_header (write_header True False Text None 300 @ [1, 2]) =
     Inr (Some \<lparr>fin = True, rsv1 = False, rsv2 = False, rsv3 = False, opcode = Text, mask_of = None,
       payload_length = 300, prefix_length = 4\<rparr>)"
proof -
  have "read_header [0x81, 0x82, 1, 2, 3, 4, 5] =
      Inr (Some \<lparr>fin = True, rsv1 = False, rsv2 = False, rsv3 = False, opcode = Text,
        mask_of = Some (1, 2, 3, 4), payload_length = 2, prefix_length = 6\<rparr>)"
    by (simp add: read_header_def read_length_def op_from_bits_def Let_def)
  moreover have "write_header True False Text None 300 = [0x81, 0x7E, 1, 44]"
    by (simp add: write_header_def write_length_def numeral_2_eq_2)
  ultimately show ?thesis
    using header_roundtrip [of 300 "[0x81, 0x82, 1, 2, 3, 4, 5]" _ True False Text None "[1, 2]"] by simp
qed

section \<open>Masking\<close>

text \<open>The reference: each byte of the payload with the byte of the key at its position modulo four.\<close>

definition masked :: "mask_key \<Rightarrow> bytes \<Rightarrow> bytes" where
  "masked key payload = map (\<lambda>i. payload ! i XOR key_bytes key ! (i mod 4)) [0..<length payload]"

lemma word_mask:
  "to_ne_bytes (from_ne_bytes p q r s XOR from_ne_bytes a b c d) = [p XOR a, q XOR b, r XOR c, s XOR d]"
proof -
  have high: "\<not> bit w (8 + n)" "\<not> bit w (16 + n)" "\<not> bit w (24 + n)" for w :: u8 and n
    by (simp_all add: bit_imp_le_length impossible_bit)
  show ?thesis unfolding to_ne_bytes_def from_ne_bytes_def
    by (simp, intro conjI; rule bit_word_eqI; simp add: bit_simps high)
qed

lemma masked_word:
  "masked (a, b, c, d) (p # q # r # s # rest) = [p XOR a, q XOR b, r XOR c, s XOR d] @ masked (a, b, c, d) rest"
proof -
  have first: "[0..<4] = [0, 1, 2, 3 :: nat]" by (simp add: upt_rec)
  have range: "[0..<length rest + 4] = [0, 1, 2, 3] @ map (\<lambda>i. i + 4) [0..<length rest]"
    unfolding map_add_upt first [symmetric] by (metis add.commute le0 upt_add_eq_append add_0)
  have "length (p # q # r # s # rest) = length rest + 4" by simp
  then have "masked (a, b, c, d) (p # q # r # s # rest) =
      map (\<lambda>i. (p # q # r # s # rest) ! i XOR [a, b, c, d] ! (i mod 4))
        ([0, 1, 2, 3] @ map (\<lambda>i. i + 4) [0..<length rest])"
    by (simp only: masked_def key_bytes.simps range)
  then show ?thesis by (simp add: masked_def)
qed

lemma apply_mask_masked: "apply_mask payload key = masked key payload"
proof (induction payload key rule: apply_mask.induct)
  case (1 p q r s rest a b c d)
  then show ?case by (simp add: word_mask masked_word)
qed (auto simp: masked_def upt_rec numeral_2_eq_2)

lemma masked_twice: "masked key (masked key payload) = payload"
  by (rule nth_equalityI) (simp_all add: masked_def xor.assoc)

lemma length_masked [simp]: "length (masked key payload) = length payload"
  by (simp add: masked_def)

text \<open>
  Masking four bytes at a time as a machine word is masking byte by byte with the key
  repeated, and masking twice with one key gives the payload back.
\<close>

theorem apply_mask_correct:
  "apply_mask payload key = masked key payload \<and> apply_mask (apply_mask payload key) key = payload"
  by (simp add: apply_mask_masked masked_twice)

end
