(* ===== verification/Ws_Codec.thy ===== *)
theory Ws_Codec
  imports Ws_Frame "HOL-Library.Code_Target_Nat"
begin

unbundle bit_operations_syntax

text \<open>
  \<open>transport/ws/codec.rs\<close>: the WebSocket codec. It turns messages into frames and the bytes of
  the connection into messages, and checks every rule the protocol places on a frame.

  A Rust \<open>String\<close> is the list of its UTF-8 bytes here. The bytes buffered by the connection are
  an argument and a result of \<open>decode\<close>. Two things are parameters kept in the state: what the
  operating system answers to each request for random bytes, one entry of a list per request,
  and the compressor and decompressor of \<open>transport/ws/deflate.rs\<close>, over an external library,
  as functions on a state of their own.

  The lemmas show that what one side encodes the other decodes, that decoding does not depend
  on how the bytes of the connection are cut into pieces, and what it can be made to hold.
\<close>

section \<open>Text\<close>

text \<open>\<open>String::from_utf8\<close>: the well-formed byte sequences of UTF-8.\<close>

definition is_cont :: "u8 \<Rightarrow> bool" where
  "is_cont b \<longleftrightarrow> 0x80 \<le> b \<and> b \<le> 0xBF"

text \<open>How many continuation bytes a lead byte takes, and the range of the first of them.\<close>

definition utf8_lead :: "u8 \<Rightarrow> (nat \<times> u8 \<times> u8) option" where
  "utf8_lead b =
     (if b < 0x80 then Some (0, 0, 0)
      else if b < 0xC2 then None
      else if b \<le> 0xDF then Some (1, 0x80, 0xBF)
      else if b = 0xE0 then Some (2, 0xA0, 0xBF)
      else if b = 0xED then Some (2, 0x80, 0x9F)
      else if b \<le> 0xEF then Some (2, 0x80, 0xBF)
      else if b = 0xF0 then Some (3, 0x90, 0xBF)
      else if b \<le> 0xF3 then Some (3, 0x80, 0xBF)
      else if b = 0xF4 then Some (3, 0x80, 0x8F)
      else None)"

function utf8_valid :: "bytes \<Rightarrow> bool" where
  "utf8_valid [] = True"
| "utf8_valid (b # bs) =
     (case utf8_lead b of
        None \<Rightarrow> False
      | Some (n, lo, hi) \<Rightarrow>
          n \<le> length bs \<and> (n > 0 \<longrightarrow> lo \<le> hd bs \<and> hd bs \<le> hi) \<and> list_all is_cont (take n bs) \<and>
          utf8_valid (drop n bs))"
  by pat_completeness auto
termination by (relation "measure length") auto

text \<open>\<open>str::is_char_boundary\<close>.\<close>

definition is_char_boundary :: "bytes \<Rightarrow> nat \<Rightarrow> bool" where
  "is_char_boundary text i \<longleftrightarrow>
     i = 0 \<or> i = length text \<or> i < length text \<and> \<not> is_cont (text ! i)"

fun floor_boundary_from :: "bytes \<Rightarrow> nat \<Rightarrow> nat" where
  "floor_boundary_from text 0 = 0"
| "floor_boundary_from text (Suc i) =
     (if is_char_boundary text (Suc i) then Suc i else floor_boundary_from text i)"

definition floor_char_boundary :: "bytes \<Rightarrow> nat \<Rightarrow> nat" where
  "floor_char_boundary text i = floor_boundary_from text (min i (length text))"

section \<open>Messages and errors\<close>

datatype ws_role = Client | Server

datatype ws_message =
    TextMessage bytes
  | BinaryMessage bytes
  | PingMessage bytes
  | PongMessage bytes
  | CloseMessage "close_frame option"

fun message_len :: "ws_message \<Rightarrow> nat" where
  "message_len (TextMessage t) = length t"
| "message_len (BinaryMessage d) = length d"
| "message_len (PingMessage d) = length d"
| "message_len (PongMessage d) = length d"
| "message_len (CloseMessage f) = (case f of None \<Rightarrow> 0 | Some cf \<Rightarrow> length (cf_reason cf) + 2)"

record ws_config =
  max_message_size :: nat
  max_frame_size :: nat
  compression_threshold :: nat

definition ws_config_default :: ws_config where
  "ws_config_default =
     \<lparr>max_message_size = 1024 * 1024, max_frame_size = 1024 * 1024, compression_threshold = 256\<rparr>"

datatype protocol_error =
    ReservedBits
  | ReservedOpcode u8
  | UnmaskedFrameFromClient
  | MaskedFrameFromServer
  | FragmentedControlFrame
  | ControlFrameTooBig
  | UnexpectedContinuation
  | ExpectedContinuation
  | FrameTooBig nat
  | MessageTooBig
  | NonMinimalLength
  | InvalidCloseFrame
  | InvalidCloseReason
  | InvalidUtf8
  | CompressionNotNegotiated

definition NORMAL :: nat where "NORMAL = 1000"
definition PROTOCOL_ERROR :: nat where "PROTOCOL_ERROR = 1002"
definition INVALID_PAYLOAD :: nat where "INVALID_PAYLOAD = 1007"
definition TOO_BIG :: nat where "TOO_BIG = 1009"

fun protocol_close_code :: "protocol_error \<Rightarrow> nat" where
  "protocol_close_code InvalidUtf8 = INVALID_PAYLOAD"
| "protocol_close_code InvalidCloseReason = INVALID_PAYLOAD"
| "protocol_close_code (FrameTooBig n) = TOO_BIG"
| "protocol_close_code MessageTooBig = TOO_BIG"
| "protocol_close_code e = PROTOCOL_ERROR"

datatype deflate_error = CompressFailed | DecompressFailed | InflatesTooLarge

datatype ws_error = WsIo string | WsProtocol protocol_error | WsDeflate deflate_error

fun ws_close_code :: "ws_error \<Rightarrow> nat option" where
  "ws_close_code (WsProtocol e) = Some (protocol_close_code e)"
| "ws_close_code (WsDeflate InflatesTooLarge) = Some TOO_BIG"
| "ws_close_code (WsDeflate e) = Some INVALID_PAYLOAD"
| "ws_close_code (WsIo e) = None"

section \<open>The codec\<close>

record fragment =
  fr_opcode :: op_code
  fr_compressed :: bool
  fr_payload :: bytes

record mask_keys =
  mk_buffer :: bytes
  mk_used :: nat
  mk_fills :: "bytes option list"

definition mask_keys_new :: "bytes option list \<Rightarrow> mask_keys" where
  "mask_keys_new fills = \<lparr>mk_buffer = replicate 256 0, mk_used = 256, mk_fills = fills\<rparr>"

text \<open>\<open>getrandom::fill\<close>: the next answer, a failure when there is none left.\<close>

definition fill_keys :: "mask_keys \<Rightarrow> (ws_error + unit) \<times> mask_keys" where
  "fill_keys k =
     (case mk_fills k of
        Some bs # rest \<Rightarrow> (Inr (), k\<lparr>mk_buffer := bs, mk_used := 0, mk_fills := rest\<rparr>)
      | None # rest \<Rightarrow> (Inl (WsIo ''no entropy for a WebSocket masking key''), k\<lparr>mk_fills := rest\<rparr>)
      | [] \<Rightarrow> (Inl (WsIo ''no entropy for a WebSocket masking key''), k))"

definition next_key :: "mask_keys \<Rightarrow> (ws_error + mask_key) \<times> mask_keys" where
  "next_key k =
     (case (if mk_used k + 4 > length (mk_buffer k) then fill_keys k else (Inr (), k)) of
        (Inl e, k1) \<Rightarrow> (Inl e, k1)
      | (Inr _, k1) \<Rightarrow>
          let i = mk_used k1; b = mk_buffer k1 in
          (Inr (b ! i, b ! (i + 1), b ! (i + 2), b ! (i + 3)), k1\<lparr>mk_used := i + 4\<rparr>))"

record 'z deflate =
  df_state :: 'z
  df_threshold :: nat
  df_compress :: "'z \<Rightarrow> bytes \<Rightarrow> (deflate_error + bytes) \<times> 'z"
  df_decompress :: "'z \<Rightarrow> bytes \<Rightarrow> nat \<Rightarrow> (deflate_error + bytes) \<times> 'z"

definition worth_compressing :: "'z deflate \<Rightarrow> nat \<Rightarrow> bool" where
  "worth_compressing z n \<longleftrightarrow> n \<ge> df_threshold z"

record 'z ws_codec =
  wc_role :: ws_role
  wc_config :: ws_config
  wc_fragment :: "fragment option"
  wc_keys :: mask_keys
  wc_deflate :: "'z deflate option"

definition ws_codec_new :: "ws_role \<Rightarrow> ws_config \<Rightarrow> bytes option list \<Rightarrow> 'z ws_codec" where
  "ws_codec_new role cfg fills =
     \<lparr>wc_role = role, wc_config = cfg, wc_fragment = None, wc_keys = mask_keys_new fills,
      wc_deflate = None\<rparr>"

definition is_compressed :: "'z ws_codec \<Rightarrow> bool" where
  "is_compressed c \<longleftrightarrow> wc_deflate c \<noteq> None"

definition masks :: "'z ws_codec \<Rightarrow> bool" where
  "masks c \<longleftrightarrow> wc_role c = Client"

text \<open>The rules a header must keep; the first one broken is the answer.\<close>

definition check_header :: "'z ws_codec \<Rightarrow> ws_header \<Rightarrow> protocol_error option" where
  "check_header c h =
     (if rsv2 h \<or> rsv3 h then Some ReservedBits
      else if rsv1 h \<and> \<not> is_compressed c then Some CompressionNotNegotiated
      else if rsv1 h \<and> (opcode h = Continuation \<or> op_is_control (opcode h)) then Some ReservedBits
      else if wc_role c = Server \<and> mask_of h = None then Some UnmaskedFrameFromClient
      else if wc_role c = Client \<and> mask_of h \<noteq> None then Some MaskedFrameFromServer
      else if op_is_control (opcode h) then
        (if \<not> fin h then Some FragmentedControlFrame
         else if payload_length h > 125 then Some ControlFrameTooBig else None)
      else if payload_length h > max_frame_size (wc_config c) then Some (FrameTooBig (payload_length h))
      else if opcode h = Continuation \<and> wc_fragment c = None then Some UnexpectedContinuation
      else if (opcode h = Text \<or> opcode h = Binary) \<and> wc_fragment c \<noteq> None
      then Some ExpectedContinuation
      else None)"

definition finish ::
  "'z ws_codec \<Rightarrow> op_code \<Rightarrow> bool \<Rightarrow> bytes \<Rightarrow> (ws_error + ws_message) \<times> 'z ws_codec" where
  "finish c op compressed payload =
     (let (plain, c1) =
        (if compressed then
           (case wc_deflate c of
              None \<Rightarrow> (Inl (WsProtocol CompressionNotNegotiated), c)
            | Some z \<Rightarrow>
                let (r, st) = df_decompress z (df_state z) payload (max_message_size (wc_config c)) in
                (map_sum WsDeflate id r, c\<lparr>wc_deflate := Some (z\<lparr>df_state := st\<rparr>)\<rparr>))
         else (Inr payload, c))
      in case plain of
           Inl e \<Rightarrow> (Inl e, c1)
         | Inr bs \<Rightarrow>
             (if op = Text
              then (if utf8_valid bs then Inr (TextMessage bs) else Inl (WsProtocol InvalidUtf8))
              else Inr (BinaryMessage bs), c1))"

definition close_frame_of :: "bytes \<Rightarrow> protocol_error + close_frame option" where
  "close_frame_of payload =
     (case payload of
        [] \<Rightarrow> Inr None
      | [b] \<Rightarrow> Inl InvalidCloseFrame
      | a # b # reason \<Rightarrow>
          let code = be_value [a, b] in
          if \<not> is_sendable code then Inl InvalidCloseFrame
          else if \<not> utf8_valid reason then Inl InvalidCloseReason
          else Inr (Some \<lparr>cf_code = code, cf_reason = reason\<rparr>))"

fun header_failure :: "header_error \<Rightarrow> protocol_error" where
  "header_failure (ReservedOpcodeBits b) = ReservedOpcode b"
| "header_failure NonMinimal = NonMinimalLength"
| "header_failure LengthTooLarge = FrameTooBig u64_max"

definition control_message :: "op_code \<Rightarrow> bytes \<Rightarrow> ws_error + ws_message option" where
  "control_message op payload =
     (if op = Close then
        (case close_frame_of payload of
           Inl e \<Rightarrow> Inl (WsProtocol e)
         | Inr f \<Rightarrow> Inr (Some (CloseMessage f)))
      else if op = Ping then Inr (Some (PingMessage payload))
      else Inr (Some (PongMessage payload)))"

definition unmask :: "mask_key option \<Rightarrow> bytes \<Rightarrow> bytes" where
  "unmask key payload = (case key of None \<Rightarrow> payload | Some k \<Rightarrow> apply_mask payload k)"

definition fragment_of :: "'z ws_codec \<Rightarrow> ws_header \<Rightarrow> fragment" where
  "fragment_of c h =
     (case wc_fragment c of
        Some f \<Rightarrow> f
      | None \<Rightarrow> \<lparr>fr_opcode = opcode h, fr_compressed = rsv1 h, fr_payload = []\<rparr>)"

text \<open>
  One call of \<open>decode\<close>: a message, an error, or nothing yet; the codec after it; and the bytes
  left in the buffer.
\<close>

function decode ::
  "'z ws_codec \<Rightarrow> bytes \<Rightarrow> (ws_error + ws_message option) \<times> 'z ws_codec \<times> bytes" where
  "decode c src =
     (case read_header src of
        Inl e \<Rightarrow> (Inl (WsProtocol (header_failure e)), c, src)
      | Inr None \<Rightarrow> (Inr None, c, src)
      | Inr (Some h) \<Rightarrow>
          (case check_header c h of
             Some e \<Rightarrow> (Inl (WsProtocol e), c, src)
           | None \<Rightarrow>
               let n = payload_length h; total = prefix_length h + n in
               if length src < total then (Inr None, c, src)
               else
                 let payload = unmask (mask_of h) (take n (drop (prefix_length h) src));
                     rest = drop total src
                 in
                 if op_is_control (opcode h) then (control_message (opcode h) payload, c, rest)
                 else
                   let f = fragment_of c h in
                   if length (fr_payload f) + n > max_message_size (wc_config c)
                   then (Inl (WsProtocol MessageTooBig), c\<lparr>wc_fragment := None\<rparr>, rest)
                   else
                     let f1 = f\<lparr>fr_payload := fr_payload f @ payload\<rparr> in
                     if fin h then
                       (let (r, c1) = finish (c\<lparr>wc_fragment := None\<rparr>) (fr_opcode f1) (fr_compressed f1) (fr_payload f1)
                        in (map_sum id Some r, c1, rest))
                     else decode (c\<lparr>wc_fragment := Some f1\<rparr>) rest))"
  by pat_completeness auto
termination
proof (relation "measure (length o snd)")
  fix c :: "'z ws_codec" and src x h n total payload rest f f1
  assume h: "read_header src = Inr x" "x = Some h" and "n = payload_length h" "total = prefix_length h + n"
    and "\<not> length src < total" "rest = drop total src"
  moreover have "2 \<le> prefix_length h" using header_written_back [of src h] h by simp
  ultimately show "((c\<lparr>wc_fragment := Some f1\<rparr>, rest), c, src) \<in> measure (length o snd)" by simp
qed simp

declare decode.simps [simp del]

text \<open>The opcode and payload of a message; a long close reason is cut at a character.\<close>

fun frame_of :: "ws_message \<Rightarrow> op_code \<times> bytes" where
  "frame_of (TextMessage t) = (Text, t)"
| "frame_of (BinaryMessage d) = (Binary, d)"
| "frame_of (PingMessage d) = (Ping, d)"
| "frame_of (PongMessage d) = (Pong, d)"
| "frame_of (CloseMessage None) = (Close, [])"
| "frame_of (CloseMessage (Some f)) =
     (Close, be_bytes 2 (cf_code f) @
        take (floor_char_boundary (cf_reason f) (min 123 (length (cf_reason f)))) (cf_reason f))"

text \<open>Compression of a data message, when there is a compressor and the message is worth it.\<close>

definition compressed_payload ::
  "'z ws_codec \<Rightarrow> op_code \<Rightarrow> bytes \<Rightarrow> (ws_error + bytes \<times> bool) \<times> 'z ws_codec" where
  "compressed_payload c op payload =
     (case wc_deflate c of
        Some z \<Rightarrow>
          if (op = Text \<or> op = Binary) \<and> worth_compressing z (length payload) then
            (let (r, st) = df_compress z (df_state z) payload in
             (case r of Inl e \<Rightarrow> Inl (WsDeflate e) | Inr bs \<Rightarrow> Inr (bs, True),
              c\<lparr>wc_deflate := Some (z\<lparr>df_state := st\<rparr>)\<rparr>))
          else (Inr (payload, False), c)
      | None \<Rightarrow> (Inr (payload, False), c))"

definition frame_key :: "'z ws_codec \<Rightarrow> (ws_error + mask_key option) \<times> 'z ws_codec" where
  "frame_key c =
     (if masks c then
        (let (r, k) = next_key (wc_keys c) in (map_sum id Some r, c\<lparr>wc_keys := k\<rparr>))
      else (Inr None, c))"

definition encode_frame ::
  "'z ws_codec \<Rightarrow> ws_message \<Rightarrow> bytes \<Rightarrow> (ws_error + bytes) \<times> 'z ws_codec" where
  "encode_frame c item dst =
     (let (op, plain) = frame_of item in
      case compressed_payload c op plain of
        (Inl e, c1) \<Rightarrow> (Inl e, c1)
      | (Inr (payload, compressed), c1) \<Rightarrow>
          (case frame_key c1 of
             (Inl e, c2) \<Rightarrow> (Inl e, c2)
           | (Inr key, c2) \<Rightarrow>
               (Inr (dst @ write_header True compressed op key (length payload) @ unmask key payload), c2)))"

section \<open>Decoding in pieces\<close>

text \<open>One whole frame at the front of the buffer: its header, and what the codec does with it.\<close>

definition frame_done ::
  "'z ws_codec \<Rightarrow> ws_header \<Rightarrow> bytes \<Rightarrow> (ws_error + ws_message option) \<times> 'z ws_codec" where
  "frame_done c h payload =
     (if op_is_control (opcode h) then (control_message (opcode h) payload, c)
      else
        let f = fragment_of c h; f1 = f\<lparr>fr_payload := fr_payload f @ payload\<rparr> in
        if length (fr_payload f) + payload_length h > max_message_size (wc_config c)
        then (Inl (WsProtocol MessageTooBig), c\<lparr>wc_fragment := None\<rparr>)
        else if fin h then
          (let (r, c1) = finish (c\<lparr>wc_fragment := None\<rparr>) (fr_opcode f1) (fr_compressed f1) (fr_payload f1)
           in (map_sum id Some r, c1))
        else (Inr None, c\<lparr>wc_fragment := Some f1\<rparr>))"

definition frame_payload :: "ws_header \<Rightarrow> bytes \<Rightarrow> bytes" where
  "frame_payload h src = unmask (mask_of h) (take (payload_length h) (drop (prefix_length h) src))"

lemma frame_done_None:
  "fst (frame_done c h payload) = Inr None \<longleftrightarrow>
     \<not> op_is_control (opcode h) \<and> \<not> fin h \<and>
     length (fr_payload (fragment_of c h)) + payload_length h \<le> max_message_size (wc_config c)"
proof -
  have "control_message (opcode h) payload \<noteq> Inr None"
    by (simp add: control_message_def split: sum.split)
  moreover have "map_sum id Some r \<noteq> Inr None" for r :: "ws_error + ws_message" by (cases r) simp_all
  ultimately show ?thesis by (auto simp: frame_done_def Let_def split: prod.split)
qed

lemma decode_frame:
  "decode c src =
     (case read_header src of
        Inl e \<Rightarrow> (Inl (WsProtocol (header_failure e)), c, src)
      | Inr None \<Rightarrow> (Inr None, c, src)
      | Inr (Some h) \<Rightarrow>
          (case check_header c h of
             Some e \<Rightarrow> (Inl (WsProtocol e), c, src)
           | None \<Rightarrow>
               let total = prefix_length h + payload_length h in
               if length src < total then (Inr None, c, src)
               else
                 let (r, c1) = frame_done c h (frame_payload h src) in
                 if r = Inr None then decode c1 (drop total src) else (r, c1, drop total src)))"
proof (cases "read_header src")
  case (Inr x)
  show ?thesis
  proof (cases x)
    case (Some h)
    have none: "(case frame_done c h (frame_payload h src) of (r, c1) \<Rightarrow> r = Inr None) \<longleftrightarrow>
        fst (frame_done c h (frame_payload h src)) = Inr None" by (simp add: case_prod_unfold)
    show ?thesis
      unfolding decode.simps [of c src] Inr Some
      using frame_done_None [of c h "frame_payload h src"]
      by (auto simp: frame_payload_def frame_done_def Let_def case_prod_unfold
          split: option.split)
  qed (simp add: decode.simps Inr)
qed (simp add: decode.simps)

lemma decode_induct:
  assumes "\<And>c src. (\<And>h c1. read_header src = Inr (Some h) \<Longrightarrow> check_header c h = None \<Longrightarrow>
      prefix_length h + payload_length h \<le> length src \<Longrightarrow>
      frame_done c h (frame_payload h src) = (Inr None, c1) \<Longrightarrow>
      P c1 (drop (prefix_length h + payload_length h) src)) \<Longrightarrow> P c src"
  shows "P c src"
proof (induction "length src" arbitrary: c src rule: less_induct)
  case less
  show ?case
  proof (rule assms)
    fix h c1
    assume h: "read_header src = Inr (Some h)" and "prefix_length h + payload_length h \<le> length src"
    moreover have "2 \<le> prefix_length h" using header_written_back [OF h] by simp
    ultimately show "P c1 (drop (prefix_length h + payload_length h) src)" by (intro less) simp
  qed
qed

lemma decode_append:
  "case decode c src of (r, c1, rest) \<Rightarrow>
     decode c (src @ xs) = (if r = Inr None then decode c1 (rest @ xs) else (r, c1, rest @ xs))"
proof (induction c src rule: decode_induct)
  case (1 c src)
  show ?case
  proof (cases "read_header src")
    case (Inl e)
    then have "read_header (src @ xs) = Inl e" using read_header_stable [of src xs] by simp
    then show ?thesis using Inl by (simp add: decode.simps)
  next
    case (Inr x)
    show ?thesis
    proof (cases x)
      case None
      then show ?thesis using Inr by (simp add: decode.simps [of c src])
    next
      case (Some h)
      then have h: "read_header src = Inr (Some h)" "read_header (src @ xs) = Inr (Some h)"
        using Inr read_header_stable [of src xs] by simp_all
      let ?total = "prefix_length h + payload_length h"
      show ?thesis
      proof (cases "check_header c h = None \<and> ?total \<le> length src")
        case False
        then show ?thesis
          using h by (cases "check_header c h") (auto simp: decode_frame [of c src] decode_frame [of c "src @ xs"])
      next
        case True
        then have p: "frame_payload h (src @ xs) = frame_payload h src"
          by (simp add: frame_payload_def)
        obtain r c1 where d: "frame_done c h (frame_payload h src) = (r, c1)" by fastforce
        have ih: "case decode c1 (drop ?total src) of (r, c2, rest) \<Rightarrow>
            decode c1 (drop ?total src @ xs) = (if r = Inr None then decode c2 (rest @ xs) else (r, c2, rest @ xs))"
          if "r = Inr None"
          by (rule 1 [OF h(1) conjunct1 [OF True] conjunct2 [OF True] d [unfolded that]])
        have both: "decode c src = (if r = Inr None then decode c1 (drop ?total src) else (r, c1, drop ?total src))"
          "decode c (src @ xs) =
             (if r = Inr None then decode c1 (drop ?total src @ xs) else (r, c1, drop ?total src @ xs))"
          using h True d p by (simp_all add: decode_frame [of c src] decode_frame [of c "src @ xs"] Let_def)
        show ?thesis
          using ih unfolding both by (cases "r = Inr None") simp_all
      qed
    qed
  qed
qed

text \<open>
  Every message the buffer holds, in order, up to what is incomplete or the first error: what
  the connection sees of a codec given more and more bytes.
\<close>

lemma decode_shrinks:
  "case decode c src of (r, c1, rest) \<Rightarrow>
     length rest \<le> length src \<and> (\<forall>m. r = Inr (Some m) \<longrightarrow> length rest < length src)"
proof (induction c src rule: decode_induct)
  case (1 c src)
  show ?case
  proof (cases "\<exists>h. read_header src = Inr (Some h) \<and> check_header c h = None \<and>
      prefix_length h + payload_length h \<le> length src")
    case False
    then show ?thesis
      by (auto simp: decode_frame [of c src] Let_def split: sum.split option.split)
  next
    case True
    then obtain h where h: "read_header src = Inr (Some h)" "check_header c h = None"
      "prefix_length h + payload_length h \<le> length src" by blast
    obtain r c1 where d: "frame_done c h (frame_payload h src) = (r, c1)" by fastforce
    have two: "2 \<le> prefix_length h" using header_written_back [OF h(1)] by simp
    have "decode c src = (if r = Inr None then decode c1 (drop (prefix_length h + payload_length h) src)
        else (r, c1, drop (prefix_length h + payload_length h) src))"
      using h d by (simp add: decode_frame [of c src] Let_def)
    then show ?thesis using two h(3) 1 [OF h, of c1] d by (cases "r = Inr None") auto
  qed
qed

function receive ::
  "'z ws_codec \<Rightarrow> bytes \<Rightarrow> ws_message list \<times> ws_error option \<times> 'z ws_codec \<times> bytes" where
  "receive c src =
     (case decode c src of
        (Inl e, c1, rest) \<Rightarrow> ([], Some e, c1, rest)
      | (Inr None, c1, rest) \<Rightarrow> ([], None, c1, rest)
      | (Inr (Some m), c1, rest) \<Rightarrow>
          (case receive c1 rest of (ms, e, c2, rest2) \<Rightarrow> (m # ms, e, c2, rest2)))"
  by pat_completeness auto
termination
proof (relation "measure (length o snd)")
  fix c :: "'z ws_codec" and src x y z w rest and m :: ws_message
  assume "(x, z) = decode c src" "x = Inr y" "y = Some m" "(w, rest) = z"
  then have "decode c src = (Inr (Some m), w, rest)" by simp
  then show "((w, rest), c, src) \<in> measure (length o snd)"
    using decode_shrinks [where c = c and src = src] by simp
qed simp

declare receive.simps [simp del]

lemma receive_append:
  "receive c (src @ xs) =
     (case receive c src of (ms, e, c1, rest) \<Rightarrow>
        (case e of
           Some err \<Rightarrow> (ms, e, c1, rest @ xs)
         | None \<Rightarrow> (case receive c1 (rest @ xs) of (ms2, e2, c2, rest2) \<Rightarrow> (ms @ ms2, e2, c2, rest2))))"
proof (induction c src rule: receive.induct)
  case (1 c src)
  obtain r c1 rest where d: "decode c src = (r, c1, rest)" by (metis prod_cases3)
  have app: "decode c (src @ xs) = (if r = Inr None then decode c1 (rest @ xs) else (r, c1, rest @ xs))"
    using decode_append [of c src xs] d by simp
  show ?case
  proof (cases r)
    case (Inl e)
    then show ?thesis using d app by (simp add: receive.simps [of c])
  next
    case (Inr y)
    show ?thesis
    proof (cases y)
      case None
      then have "receive c (src @ xs) = receive c1 (rest @ xs)"
        using Inr app by (simp add: receive.simps [of c "src @ xs"] receive.simps [of c1 "rest @ xs"])
      then show ?thesis using d Inr None by (simp add: receive.simps [of c src] split: prod.split)
    next
      case (Some m)
      then show ?thesis using d app Inr 1 [OF d [symmetric] Inr Some refl]
        by (auto simp: receive.simps [of c "src @ xs"] receive.simps [of c src] split: prod.splits option.splits)
    qed
  qed
qed

text \<open>Bytes arriving in pieces: after each, every message the buffer then holds.\<close>

fun receive_chunks ::
  "'z ws_codec \<Rightarrow> bytes \<Rightarrow> bytes list \<Rightarrow> ws_message list \<times> ws_error option \<times> 'z ws_codec" where
  "receive_chunks c buf [] = ([], None, c)"
| "receive_chunks c buf (x # xs) =
     (case receive c (buf @ x) of
        (ms, Some e, c1, rest) \<Rightarrow> (ms, Some e, c1)
      | (ms, None, c1, rest) \<Rightarrow>
          (case receive_chunks c1 rest xs of (ms2, e2, c2) \<Rightarrow> (ms @ ms2, e2, c2)))"

lemma receive_settled:
  assumes "receive c src = (ms, None, c1, rest)"
  shows "receive c1 rest = ([], None, c1, rest)"
  using receive_append [of c src "[]"] assms by (auto split: prod.splits)

lemma receive_chunks_concat:
  assumes "receive c buf = ([], None, c, buf)"
  shows "receive_chunks c buf xs = (case receive c (buf @ concat xs) of (ms, e, c1, rest) \<Rightarrow> (ms, e, c1))"
  using assms
proof (induction xs arbitrary: c buf)
  case (Cons x xs)
  obtain ms e c1 rest where r: "receive c (buf @ x) = (ms, e, c1, rest)" by (metis prod_cases4)
  show ?case
  proof (cases e)
    case None
    then show ?thesis
      using r receive_append [of c "buf @ x" "concat xs"] Cons.IH [OF receive_settled] by (auto split: prod.split)
  next
    case (Some err)
    then show ?thesis using r receive_append [of c "buf @ x" "concat xs"] by simp
  qed
qed simp

text \<open>
  C14. The messages, the error and the state a connection ends with depend only on the bytes the
  peer sent, not on how the network cut them into pieces.
\<close>

theorem chunking_irrelevant:
  assumes "concat xs = concat ys"
  shows "receive_chunks c [] xs = receive_chunks c [] ys"
proof -
  have "receive c [] = ([], None, c, [])"
    by (simp add: receive.simps decode.simps read_header_def)
  from receive_chunks_concat [OF this] assms show ?thesis by simp
qed

section \<open>What one side encodes the other decodes\<close>

lemma length_unmask [simp]: "length (unmask key payload) = length payload"
  by (simp add: unmask_def apply_mask_masked split: option.split)

lemma unmask_twice: "unmask key (unmask key payload) = payload"
  by (simp add: unmask_def apply_mask_masked masked_twice split: option.split)

lemma read_frame:
  assumes "length payload < 2 ^ 63" and "w = write_header True z op key (length payload) @ unmask key payload"
  shows "\<exists>h. read_header (w @ rest) = Inr (Some h) \<and> fin h \<and> (rsv1 h \<longleftrightarrow> z) \<and> \<not> rsv2 h \<and> \<not> rsv3 h \<and>
    opcode h = op \<and> mask_of h = key \<and> payload_length h = length payload \<and>
    prefix_length h + payload_length h = length w \<and> frame_payload h (w @ rest) = payload"
  using read_written [OF assms(1), of True z op key "unmask key payload @ rest"] assms(2)
  by (simp add: frame_payload_def unmask_twice)

lemma received_control:
  assumes "length payload \<le> 125" and "op_is_control op" and "key = None \<longleftrightarrow> wc_role r = Client"
    and "w = write_header True False op key (length payload) @ unmask key payload"
    and "control_message op payload = m" and "m \<noteq> Inr None"
  shows "decode r (w @ rest) = (m, r, rest)"
proof -
  have "length payload < 2 ^ 63" using assms(1) by simp
  from read_frame [OF this assms(4), of rest] obtain h where
    h: "read_header (w @ rest) = Inr (Some h)" "fin h" "\<not> rsv1 h" "\<not> rsv2 h" "\<not> rsv3 h" "opcode h = op"
      "mask_of h = key" "payload_length h = length payload"
      "prefix_length h + payload_length h = length w" "frame_payload h (w @ rest) = payload" by blast
  have "check_header r h = None"
    using h assms(1-3) by (cases "wc_role r") (simp_all add: check_header_def)
  moreover have "frame_done r h payload = (m, r)" using h assms(2,5) by (simp add: frame_done_def)
  ultimately show ?thesis using h assms(6) by (simp add: decode_frame [of r "w @ rest"] Let_def)
qed

lemma received_data:
  assumes "length payload < 2 ^ 63" and "op = Text \<or> op = Binary" and "key = None \<longleftrightarrow> wc_role r = Client"
    and "w = write_header True z op key (length payload) @ unmask key payload"
    and "wc_fragment r = None" and "z \<Longrightarrow> is_compressed r"
    and "length payload \<le> max_frame_size (wc_config r)" and "length payload \<le> max_message_size (wc_config r)"
    and "finish r op z payload = (m, r1)"
  shows "decode r (w @ rest) = (map_sum id Some m, r1, rest)"
proof -
  from read_frame [OF assms(1,4), of rest] obtain h where
    h: "read_header (w @ rest) = Inr (Some h)" "fin h" "rsv1 h \<longleftrightarrow> z" "\<not> rsv2 h" "\<not> rsv3 h" "opcode h = op"
      "mask_of h = key" "payload_length h = length payload"
      "prefix_length h + payload_length h = length w" "frame_payload h (w @ rest) = payload" by blast
  have op: "\<not> op_is_control op" "op \<noteq> Continuation" using assms(2) by (auto simp: op_is_control_def)
  have "check_header r h = None"
    using h assms(3,5,6,7) op by (cases "wc_role r") (auto simp: check_header_def)
  moreover have "frame_done r h payload = (map_sum id Some m, r1)"
  proof -
    have "r\<lparr>wc_fragment := None\<rparr> = r" using assms(5) by (cases r) simp
    then have "finish (r\<lparr>wc_fragment := None\<rparr>) op z payload = (m, r1)" using assms(9) by simp
    then show ?thesis using h op assms(5,8) by (simp add: frame_done_def fragment_of_def Let_def)
  qed
  moreover have "map_sum id Some m \<noteq> Inr None" by (cases m) simp_all
  ultimately show ?thesis using h by (simp add: decode_frame [of r "w @ rest"] Let_def)
qed

text \<open>Cutting well-formed text at a character keeps it well formed.\<close>

lemma utf8_take:
  assumes "utf8_valid bs" and "is_char_boundary bs i" and "i \<le> length bs"
  shows "utf8_valid (take i bs)"
  using assms
proof (induction bs arbitrary: i rule: utf8_valid.induct)
  case (2 b bs)
  obtain n lo hi where lead: "utf8_lead b = Some (n, lo, hi)" and n: "n \<le> length bs"
    "n > 0 \<longrightarrow> lo \<le> hd bs \<and> hd bs \<le> hi" "list_all is_cont (take n bs)" "utf8_valid (drop n bs)"
    using 2(2) by (auto split: option.splits)
  show ?case
  proof (cases i)
    case (Suc j)
    have "\<not> j < n"
    proof
      assume j: "j < n"
      then have "is_cont (bs ! j)" using n(1,3) by (auto simp: list_all_length)
      then show False using 2(3) Suc j n(1) by (simp add: is_char_boundary_def)
    qed
    then have j: "n \<le> j" by simp
    have "is_char_boundary (drop n bs) (j - n)"
      using 2(3,4) Suc j by (auto simp: is_char_boundary_def)
    moreover have "j - n \<le> length (drop n bs)" using 2(4) Suc by simp
    ultimately have "utf8_valid (take (j - n) (drop n bs))" using 2(1) lead n(4) by blast
    moreover have "take (j - n) (drop n bs) = drop n (take j bs)" by (simp add: drop_take)
    ultimately have "utf8_valid (drop n (take j bs))" by simp
    moreover have "take n (take j bs) = take n bs" "n \<le> length (take j bs)"
      using j n(1) 2(4) Suc by (simp_all add: min_def)
    moreover have "n > 0 \<Longrightarrow> hd (take j bs) = hd bs" using j by (cases bs; cases j) simp_all
    ultimately show ?thesis using n(2,3) lead unfolding Suc by simp
  qed simp
qed simp

lemma floor_boundary: "i \<le> length t \<Longrightarrow>
  is_char_boundary t (floor_boundary_from t i) \<and> floor_boundary_from t i \<le> i"
  by (induction t i rule: floor_boundary_from.induct) (auto simp: is_char_boundary_def)

lemma utf8_floor:
  assumes "utf8_valid t"
  shows "utf8_valid (take (floor_char_boundary t i) t)" "floor_char_boundary t i \<le> i"
  using floor_boundary [of "min i (length t)" t] utf8_take [OF assms]
  by (auto simp: floor_char_boundary_def)

text \<open>A message that can be sent as it is, and what arrives: a close reason may be cut short.\<close>

fun sendable :: "ws_message \<Rightarrow> bool" where
  "sendable (TextMessage t) \<longleftrightarrow> utf8_valid t"
| "sendable (BinaryMessage d) \<longleftrightarrow> True"
| "sendable (PingMessage d) \<longleftrightarrow> length d \<le> 125"
| "sendable (PongMessage d) \<longleftrightarrow> length d \<le> 125"
| "sendable (CloseMessage None) \<longleftrightarrow> True"
| "sendable (CloseMessage (Some f)) \<longleftrightarrow> is_sendable (cf_code f) \<and> utf8_valid (cf_reason f)"

fun as_received :: "ws_message \<Rightarrow> ws_message" where
  "as_received (CloseMessage (Some f)) =
     CloseMessage (Some (f\<lparr>cf_reason := take (floor_char_boundary (cf_reason f) 123) (cf_reason f)\<rparr>))"
| "as_received m = m"

lemma floor_min: "floor_char_boundary text (min k (length text)) = floor_char_boundary text k"
  by (simp add: floor_char_boundary_def)

lemma control_sent:
  assumes "sendable item" and "frame_of item = (op, payload)" and "op_is_control op"
  shows "length payload \<le> 125 \<and> control_message op payload = Inr (Some (as_received item))"
proof (cases item)
  case (CloseMessage f)
  show ?thesis
  proof (cases f)
    case None
    then show ?thesis using CloseMessage assms by (auto simp: control_message_def close_frame_of_def)
  next
    case (Some cf)
    define reason where "reason = take (floor_char_boundary (cf_reason cf) 123) (cf_reason cf)"
    have cf: "is_sendable (cf_code cf)" "utf8_valid (cf_reason cf)" using assms(1) CloseMessage Some by simp_all
    then have "cf_code cf < 256 ^ 2" by (auto simp: is_sendable_def)
    then have two: "be_value (be_bytes 2 (cf_code cf)) = cf_code cf" by (rule be_value_bytes)
    have "be_bytes 2 (cf_code cf) = [of_nat (cf_code cf div 256 mod 256), of_nat (cf_code cf mod 256)]"
      by (simp add: numeral_2_eq_2)
    then obtain x y where ab: "be_bytes 2 (cf_code cf) = [x, y]" by blast
    have "op = Close" "payload = [x, y] @ reason"
      using assms(2) CloseMessage Some ab by (simp_all add: reason_def floor_min)
    moreover have "length reason \<le> 123" using utf8_floor(2) [OF cf(2), of 123] by (simp add: reason_def)
    moreover have "utf8_valid reason" using utf8_floor(1) [OF cf(2)] by (simp add: reason_def)
    moreover have "be_value [x, y] = cf_code cf" using two ab by simp
    ultimately show ?thesis
      using CloseMessage Some cf(1) by (cases cf) (simp add: control_message_def close_frame_of_def reason_def)
  qed
qed (use assms in \<open>auto simp: op_is_control_def control_message_def\<close>)

text \<open>What an encoder writes, and with which key.\<close>

lemma encode_frame_Inr:
  assumes "encode_frame c item dst = (Inr out, c')" and "frame_of item = (op, plain)"
  obtains payload z c1 key where "compressed_payload c op plain = (Inr (payload, z), c1)"
    "out = dst @ write_header True z op key (length payload) @ unmask key payload"
    "key = None \<longleftrightarrow> wc_role c = Server" "frame_key c1 = (Inr key, c')"
proof -
  from assms obtain payload z c1 key where p: "compressed_payload c op plain = (Inr (payload, z), c1)"
    and k: "frame_key c1 = (Inr key, c')"
    and out: "out = dst @ write_header True z op key (length payload) @ unmask key payload"
    by (auto simp: encode_frame_def split: prod.splits sum.splits)
  have "wc_role c1 = wc_role c" using p by (auto simp: compressed_payload_def split: option.splits if_splits prod.splits)
  then have "key = None \<longleftrightarrow> wc_role c = Server"
    using k by (cases "wc_role c"; cases "fst (next_key (wc_keys c1))")
      (auto simp: frame_key_def masks_def split: prod.splits if_splits)
  then show ?thesis using that p out k by blast
qed

lemma data_message:
  assumes "frame_of item = (op, plain)" and "\<not> op_is_control op" and "sendable item"
  shows "op = Text \<or> op = Binary" "length plain = message_len item"
    "finish r op False plain = (Inr item, r)" "as_received item = item"
    "op = Text \<Longrightarrow> utf8_valid plain" "item = (if op = Text then TextMessage plain else BinaryMessage plain)"
  using assms by (cases item; auto simp: op_is_control_def finish_def split: option.splits;
      case_tac x5; simp)+

text \<open>
  C15. A message one side sends without compression the other side receives: it decodes to the
  same message, only a close reason may be cut short, at a character; the bytes that follow it
  are untouched and so is the receiver. A ping, pong or close is received in the middle of a
  message in fragments as well.
\<close>

theorem codec_roundtrip:
  assumes "encode_frame c item dst = (Inr out, c')" and "wc_deflate c = None"
    and "wc_role r \<noteq> wc_role c" and "sendable item" and "message_len item < 2 ^ 63"
    and "op_is_control (fst (frame_of item)) \<or>
      wc_fragment r = None \<and> message_len item \<le> min (max_frame_size (wc_config r)) (max_message_size (wc_config r))"
  shows "\<exists>wire. out = dst @ wire \<and> decode r (wire @ rest) = (Inr (Some (as_received item)), r, rest)"
proof -
  obtain op plain where f: "frame_of item = (op, plain)" by fastforce
  from assms(1) f obtain payload z c1 key where p: "compressed_payload c op plain = (Inr (payload, z), c1)"
    and out: "out = dst @ write_header True z op key (length payload) @ unmask key payload"
    and key: "key = None \<longleftrightarrow> wc_role c = Server" by (rule encode_frame_Inr)
  have plain: "payload = plain" "z = False" using p assms(2) by (simp_all add: compressed_payload_def)
  define wire where "wire = write_header True False op key (length plain) @ unmask key plain"
  have keys: "key = None \<longleftrightarrow> wc_role r = Client"
    using key assms(3) by (cases "wc_role r"; cases "wc_role c") simp_all
  have "decode r (wire @ rest) = (Inr (Some (as_received item)), r, rest)"
  proof (cases "op_is_control op")
    case True
    from control_sent [OF assms(4) f True] show ?thesis
      using received_control [OF _ True keys wire_def] by simp
  next
    case False
    note data = data_message [OF f False assms(4)]
    have "wc_fragment r = None" "length plain \<le> max_frame_size (wc_config r)"
      "length plain \<le> max_message_size (wc_config r)" "length plain < 2 ^ 63"
      using assms(5,6) f False data(2) by simp_all
    from received_data [OF this(4) data(1) keys wire_def this(1) _ this(2,3) data(3) [of r], of rest]
    show ?thesis by (simp add: data(4))
  qed
  then show ?thesis using out plain by (auto simp: wire_def)
qed

text \<open>The same with compression, when the peer's decompressor undoes the compressor.\<close>

lemma codec_roundtrip_compressed:
  assumes "encode_frame c item dst = (Inr out, c')" and "frame_of item = (op, plain)"
    and "\<not> op_is_control op" and "sendable item" and "wc_role r \<noteq> wc_role c" and "wc_fragment r = None"
    and "wc_deflate c = Some z" and "worth_compressing z (length plain)"
    and "df_compress z (df_state z) plain = (Inr q, st)" and "wc_deflate r = Some w"
    and "df_decompress w (df_state w) q (max_message_size (wc_config r)) = (Inr plain, st')"
    and "length q < 2 ^ 63" and "length q \<le> max_frame_size (wc_config r)"
    and "length q \<le> max_message_size (wc_config r)"
  shows "\<exists>wire. out = dst @ wire \<and>
    decode r (wire @ rest) = (Inr (Some item), r\<lparr>wc_deflate := Some (w\<lparr>df_state := st'\<rparr>)\<rparr>, rest)"
proof -
  note data = data_message [OF assms(2-4)]
  from assms(1,2) obtain payload x c1 key where p: "compressed_payload c op plain = (Inr (payload, x), c1)"
    and out: "out = dst @ write_header True x op key (length payload) @ unmask key payload"
    and key: "key = None \<longleftrightarrow> wc_role c = Server" by (rule encode_frame_Inr)
  have q: "payload = q" "x = True" using p assms(7-9) data(1) by (auto simp: compressed_payload_def)
  define wire where "wire = write_header True True op key (length q) @ unmask key q"
  have keys: "key = None \<longleftrightarrow> wc_role r = Client"
    using key assms(5) by (cases "wc_role r"; cases "wc_role c") simp_all
  have fin: "finish r op True q = (Inr item, r\<lparr>wc_deflate := Some (w\<lparr>df_state := st'\<rparr>)\<rparr>)"
    using assms(10,11) data(5) by (subst data(6)) (simp add: finish_def)
  from received_data [OF assms(12) data(1) keys wire_def assms(6) _ assms(13,14) fin, of rest]
  show ?thesis using out q assms(10) by (auto simp: wire_def is_compressed_def)
qed

section \<open>What a peer can make the codec hold\<close>

lemma read_header_complete: "14 \<le> length buf \<Longrightarrow> read_header buf \<noteq> Inr None"
  by (auto simp: read_header_def read_length_def Let_def split: option.split if_splits)

lemma prefix_length_le: "read_header buf = Inr (Some h) \<Longrightarrow> prefix_length h \<le> 14"
  by (auto simp: read_header_def read_length_def Let_def split: option.splits if_splits sum.splits)

definition fragment_within :: "'z ws_codec \<Rightarrow> bool" where
  "fragment_within c \<longleftrightarrow>
     (case wc_fragment c of None \<Rightarrow> True | Some f \<Rightarrow> length (fr_payload f) \<le> max_message_size (wc_config c))"

definition frame_limit :: "'z ws_codec \<Rightarrow> nat" where
  "frame_limit c = max 125 (max_frame_size (wc_config c))"

definition message_limit :: "'z ws_codec \<Rightarrow> nat" where
  "message_limit c = max 125 (max_message_size (wc_config c))"

lemma check_header_length: "check_header c h = None \<Longrightarrow> payload_length h \<le> frame_limit c"
  by (auto simp: check_header_def frame_limit_def split: if_splits)

lemma control_message_len:
  assumes "control_message op payload = Inr (Some m)"
  shows "message_len m \<le> length payload"
  using assms
  by (auto simp: control_message_def close_frame_of_def Let_def split: if_splits sum.splits list.splits)

lemma finish_frame:
  assumes "finish c op z payload = (r, c1)"
  shows "wc_fragment c1 = wc_fragment c" "wc_config c1 = wc_config c"
    "\<not> is_compressed c \<Longrightarrow> \<not> is_compressed c1 \<and> (\<forall>m. r = Inr m \<longrightarrow> message_len m = length payload)"
  using assms
  by (auto simp: finish_def is_compressed_def Let_def split: if_splits option.splits sum.splits prod.splits)

lemma frame_done_within:
  assumes "frame_done c h payload = (r, c1)" and "fragment_within c" and "length payload = payload_length h"
    and "check_header c h = None"
  shows "fragment_within c1 \<and> wc_config c1 = wc_config c \<and> (\<not> is_compressed c \<longrightarrow> \<not> is_compressed c1 \<and>
    (\<forall>m. r = Inr (Some m) \<longrightarrow> message_len m \<le> message_limit c))"
proof (cases "op_is_control (opcode h)")
  case True
  have "length payload \<le> 125"
    using assms(3,4) True by (auto simp: check_header_def split: if_splits)
  then have "r = Inr (Some m) \<Longrightarrow> message_len m \<le> message_limit c" for m
    using assms(1) True control_message_len [of "opcode h" payload m] by (simp add: frame_done_def message_limit_def)
  then show ?thesis using assms(1,2) True by (auto simp: frame_done_def)
next
  case False
  define f where "f = fragment_of c h"
  consider (big) "length (fr_payload f) + payload_length h > max_message_size (wc_config c)"
    | (last) "length (fr_payload f) + payload_length h \<le> max_message_size (wc_config c)" "fin h"
    | (more) "length (fr_payload f) + payload_length h \<le> max_message_size (wc_config c)" "\<not> fin h" by linarith
  then show ?thesis
  proof cases
    case last
    obtain x where x: "finish (c\<lparr>wc_fragment := None\<rparr>) (fr_opcode f) (fr_compressed f) (fr_payload f @ payload) = (x, c1)"
      and r: "r = map_sum id Some x"
      using assms(1) False last by (auto simp: frame_done_def f_def Let_def split: prod.splits)
    have "length (fr_payload f @ payload) \<le> message_limit c"
      using last(1) assms(3) by (simp add: message_limit_def)
    then show ?thesis
      using finish_frame [OF x] r by (cases x) (auto simp: fragment_within_def is_compressed_def)
  qed (use assms False in \<open>auto simp: frame_done_def f_def [symmetric] Let_def fragment_within_def is_compressed_def\<close>)
qed

lemma limits_config: "wc_config c1 = wc_config c \<Longrightarrow> frame_limit c1 = frame_limit c \<and> message_limit c1 = message_limit c"
  by (simp add: frame_limit_def message_limit_def)

lemma decode_within:
  "fragment_within c \<Longrightarrow> (case decode c src of (r, c1, rest) \<Rightarrow>
     fragment_within c1 \<and> wc_config c1 = wc_config c \<and>
     (r = Inr None \<longrightarrow> length rest < 14 + frame_limit c) \<and>
     (\<not> is_compressed c \<longrightarrow> \<not> is_compressed c1 \<and> (\<forall>m. r = Inr (Some m) \<longrightarrow> message_len m \<le> message_limit c)))"
proof (induction c src rule: decode_induct)
  case (1 c src)
  consider "\<exists>e. read_header src = Inl e" | "read_header src = Inr None"
    | (bad) h e where "read_header src = Inr (Some h)" "check_header c h = Some e"
    | (short) h where "read_header src = Inr (Some h)" "check_header c h = None"
        "length src < prefix_length h + payload_length h"
    | (whole) h where "read_header src = Inr (Some h)" "check_header c h = None"
        "prefix_length h + payload_length h \<le> length src"
    by (metis not_le not_Some_eq sum.exhaust)
  then show ?case
  proof cases
    case 1
    then show ?thesis using "1.prems" by (auto simp: decode_frame [of c src])
  next
    case 2
    then have "length src < 14" using read_header_complete [of src] not_le by blast
    then show ?thesis using 2 "1.prems" by (simp add: decode_frame [of c src])
  next
    case bad
    then show ?thesis using "1.prems" by (simp add: decode_frame [of c src])
  next
    case short
    then have "length src < 14 + frame_limit c"
      using prefix_length_le [of src h] check_header_length [of c h] by simp
    then show ?thesis using short "1.prems" by (simp add: decode_frame [of c src])
  next
    case whole
    obtain r c1 where d: "frame_done c h (frame_payload h src) = (r, c1)" by fastforce
    have "length (frame_payload h src) = payload_length h" using whole(3) by (simp add: frame_payload_def)
    from frame_done_within [OF d "1.prems" this whole(2)]
    have within: "fragment_within c1" "wc_config c1 = wc_config c"
      "\<not> is_compressed c \<longrightarrow> \<not> is_compressed c1 \<and> (\<forall>m. r = Inr (Some m) \<longrightarrow> message_len m \<le> message_limit c)"
      by simp_all
    have eq: "decode c src = (if r = Inr None then decode c1 (drop (prefix_length h + payload_length h) src)
        else (r, c1, drop (prefix_length h + payload_length h) src))"
      using whole d by (simp add: decode_frame [of c src] Let_def)
    show ?thesis
    proof (cases "r = Inr None")
      case True
      from "1.IH" [OF whole d [unfolded True] within(1)] show ?thesis
        using within(2,3) limits_config [OF within(2)] unfolding eq True by (auto split: prod.splits)
    next
      case False
      then show ?thesis using within unfolding eq by simp
    qed
  qed
qed

text \<open>
  C16. What a peer can make the codec hold is bounded by its configuration: the message being
  assembled never exceeds the largest message, what is left in the buffer waiting for more
  bytes is less than one frame and its header, and without compression no message delivered is
  larger than the largest message (or a control frame).
\<close>

theorem codec_memory_bounded:
  assumes "fragment_within c" and "decode c src = (r, c1, rest)"
  shows "fragment_within c1 \<and> (r = Inr None \<longrightarrow> length rest < 14 + frame_limit c) \<and>
    (\<not> is_compressed c \<longrightarrow> (\<forall>m. r = Inr (Some m) \<longrightarrow> message_len m \<le> message_limit c))"
  using decode_within [OF assms(1), of src] assms(2) by simp

section \<open>Concrete runs\<close>

definition sample_codec :: "ws_role \<Rightarrow> unit ws_codec" where
  "sample_codec role = ws_codec_new role ws_config_default [Some (replicate 256 7)]"

text \<open>A text in two masked fragments with a ping between them.\<close>

definition sample_stream :: bytes where
  "sample_stream = [0x01, 0x82, 1, 2, 3, 4, 0x68 XOR 1, 0x65 XOR 2,
     0x89, 0x80, 0, 0, 0, 0, 0x80, 0x81, 0, 0, 0, 0, 0x79]"

lemma sample_stream_received:
  "fst (receive (sample_codec Server) sample_stream) = [PingMessage [], TextMessage [0x68, 0x65, 0x79]]"
  by code_simp

theorem chunking_irrelevant_witness:
  "fst (receive_chunks (sample_codec Server) [] [take 3 sample_stream, drop 3 sample_stream]) =
     [PingMessage [], TextMessage [0x68, 0x65, 0x79]]"
proof -
  have "receive_chunks (sample_codec Server) [] [take 3 sample_stream, drop 3 sample_stream] =
      receive_chunks (sample_codec Server) [] [sample_stream]"
    by (rule chunking_irrelevant) simp
  also have "fst \<dots> = fst (receive (sample_codec Server) sample_stream)"
    by (simp split: prod.split option.split)
  finally show ?thesis by (simp add: sample_stream_received)
qed

text \<open>A client's text, and the same bytes at a server.\<close>

lemma sample_encoded:
  "fst (encode_frame (sample_codec Client) (TextMessage [0x68, 0x69]) []) =
     Inr [0x81, 0x82, 7, 7, 7, 7, 0x68 XOR 7, 0x69 XOR 7]"
  by code_simp

theorem codec_roundtrip_witness:
  "decode (sample_codec Server) [0x81, 0x82, 7, 7, 7, 7, 0x6F, 0x6E, 1] =
     (Inr (Some (TextMessage [0x68, 0x69])), sample_codec Server, [1])"
proof -
  obtain c' where e: "encode_frame (sample_codec Client) (TextMessage [0x68, 0x69]) [] =
      (Inr [0x81, 0x82, 7, 7, 7, 7, 0x6F, 0x6E], c')"
    using sample_encoded by (cases "encode_frame (sample_codec Client) (TextMessage [0x68, 0x69]) []") simp
  have "sendable (TextMessage [0x68, 0x69])" by code_simp
  moreover have "wc_deflate (sample_codec Client) = None" "wc_role (sample_codec Server) \<noteq> wc_role (sample_codec Client)"
    "wc_fragment (sample_codec Server) = None" "wc_config (sample_codec Server) = ws_config_default"
    by (simp_all add: sample_codec_def ws_codec_new_def)
  ultimately show ?thesis
    using codec_roundtrip [OF e, of "sample_codec Server" "[1]"] by (simp add: ws_config_default_def)
qed

theorem codec_memory_bounded_witness:
  "\<exists>c1 rest. decode (sample_codec Server) (take 9 sample_stream) = (Inr None, c1, rest) \<and> fragment_within c1 \<and>
     length rest < 14 + frame_limit (sample_codec Server :: unit ws_codec)"
proof -
  have none: "fst (decode (sample_codec Server) (take 9 sample_stream)) = Inr None" by code_simp
  obtain c1 rest where d: "decode (sample_codec Server) (take 9 sample_stream) = (Inr None, c1, rest)"
    using none by (metis fst_conv prod_cases3)
  have "fragment_within (sample_codec Server)"
    by (simp add: fragment_within_def sample_codec_def ws_codec_new_def)
  from codec_memory_bounded [OF this d] d show ?thesis by blast
qed

end
