(* ===== verification/Decimal.thy ===== *)
theory Decimal
  imports Complex_Main Prelude "HOL-Library.Code_Target_Nat"
begin

text \<open>
  \<open>decimal.rs\<close>: the exact base-10 number every OCPP quantity is carried in, \<open>mantissa\<close> times
  ten to the minus \<open>scale\<close>.

  The mantissa is an integer that every operation checks against the range of \<open>i64\<close>, the
  scale a natural of at most 18. Intermediates the source keeps in \<open>i128\<close> or \<open>u128\<close> are
  integers and naturals: the ones that can leave their width are checked by the source, and the
  check is a branch here. Text is a string of characters below 256. The conversions from and to
  \<open>f64\<close> are not modelled.

  The lemmas show that addition, subtraction, comparison and every change of scale are exact,
  that rounding is to the nearest with ties to even, that division is rounded correctly
  whenever it answers, and that what is printed parses back to the same digits.
\<close>

section \<open>The type\<close>

record decimal =
  mantissa :: int
  scale :: nat

definition MAX_SCALE :: nat where
  "MAX_SCALE = 18"

definition decimal_zero :: decimal where
  "decimal_zero = \<lparr>mantissa = 0, scale = 0\<rparr>"

definition try_new :: "int \<Rightarrow> nat \<Rightarrow> decimal option" where
  "try_new m s = (if s > MAX_SCALE then None else Some \<lparr>mantissa = m, scale = s\<rparr>)"

definition from_i64 :: "int \<Rightarrow> decimal" where
  "from_i64 m = \<lparr>mantissa = m, scale = 0\<rparr>"

definition is_zero :: "decimal \<Rightarrow> bool" where
  "is_zero d \<longleftrightarrow> mantissa d = 0"

definition signum :: "decimal \<Rightarrow> int" where
  "signum d = (if mantissa d < 0 then -1 else if mantissa d > 0 then 1 else 0)"

definition eq_exact :: "decimal \<Rightarrow> decimal \<Rightarrow> bool" where
  "eq_exact a b \<longleftrightarrow> mantissa a = mantissa b \<and> scale a = scale b"

text \<open>A value the type can hold.\<close>

definition decimal_ok :: "decimal \<Rightarrow> bool" where
  "decimal_ok d \<longleftrightarrow> in_i64 (mantissa d) \<and> scale d \<le> MAX_SCALE"

section \<open>Scale and rounding\<close>

fun normalize_loop :: "int \<Rightarrow> nat \<Rightarrow> decimal" where
  "normalize_loop m 0 = \<lparr>mantissa = m, scale = 0\<rparr>"
| "normalize_loop m (Suc s) =
     (if m mod 10 = 0 then normalize_loop (m div 10) s else \<lparr>mantissa = m, scale = Suc s\<rparr>)"

definition normalized :: "decimal \<Rightarrow> decimal" where
  "normalized d =
     (let r = normalize_loop (mantissa d) (scale d) in
      if mantissa r = 0 then r\<lparr>scale := 0\<rparr> else r)"

definition rescale :: "decimal \<Rightarrow> nat \<Rightarrow> decimal option" where
  "rescale d s =
     (if s > MAX_SCALE then None
      else if s = scale d then Some d
      else if s > scale d then
        let m = mantissa d * 10 ^ (s - scale d) in
        if in_i64 m then Some \<lparr>mantissa = m, scale = s\<rparr> else None
      else
        let factor = 10 ^ (scale d - s) in
        if mantissa d mod factor \<noteq> 0 then None
        else Some \<lparr>mantissa = mantissa d div factor, scale = s\<rparr>)"

definition round_off :: "nat \<Rightarrow> nat \<Rightarrow> bool \<Rightarrow> nat" where
  "round_off magnitude digits sticky =
     (if digits = 0 then magnitude
      else if digits > 38 then 0
      else
        let divisor = 10 ^ digits;
            quotient = magnitude div divisor;
            remainder = magnitude mod divisor;
            half = divisor div 2
        in if remainder > half \<or> remainder = half \<and> (sticky \<or> quotient mod 2 = 1)
           then quotient + 1 else quotient)"

text \<open>The end \<open>round_to\<close>, \<open>checked_mul\<close> and \<open>checked_div\<close> share.\<close>

definition signed_result :: "bool \<Rightarrow> nat \<Rightarrow> nat \<Rightarrow> decimal option" where
  "signed_result negative rounded s =
     (if int rounded > i64_max then None
      else Some \<lparr>mantissa = (if negative then - int rounded else int rounded), scale = s\<rparr>)"

definition round_to :: "decimal \<Rightarrow> nat \<Rightarrow> decimal option" where
  "round_to d s =
     (if s \<ge> scale d then rescale d s
      else signed_result (mantissa d < 0) (round_off (nat \<bar>mantissa d\<bar>) (scale d - s) False) s)"

section \<open>Arithmetic\<close>

definition to_i128_at :: "decimal \<Rightarrow> nat \<Rightarrow> int option" where
  "to_i128_at d s = (if s < scale d then None else Some (mantissa d * 10 ^ (s - scale d)))"

definition narrow :: "int \<Rightarrow> nat \<Rightarrow> decimal option" where
  "narrow m s = (if m > i64_max \<or> m < i64_min then None else Some \<lparr>mantissa = m, scale = s\<rparr>)"

definition checked_add :: "decimal \<Rightarrow> decimal \<Rightarrow> decimal option" where
  "checked_add a b =
     (let s = (if scale a > scale b then scale a else scale b) in
      case (to_i128_at a s, to_i128_at b s) of
        (Some x, Some y) \<Rightarrow> narrow (x + y) s
      | _ \<Rightarrow> None)"

definition checked_sub :: "decimal \<Rightarrow> decimal \<Rightarrow> decimal option" where
  "checked_sub a b =
     (let s = (if scale a > scale b then scale a else scale b) in
      case (to_i128_at a s, to_i128_at b s) of
        (Some x, Some y) \<Rightarrow> narrow (x - y) s
      | _ \<Rightarrow> None)"

definition checked_mul :: "decimal \<Rightarrow> decimal \<Rightarrow> decimal option" where
  "checked_mul a b =
     (let s = scale a + scale b; product = mantissa a * mantissa b in
      if s \<le> MAX_SCALE then narrow product s
      else signed_result (product < 0) (round_off (nat \<bar>product\<bar>) (s - MAX_SCALE) False) MAX_SCALE)"

text \<open>\<open>u128::checked_mul\<close>.\<close>

definition u128_mul :: "nat \<Rightarrow> nat \<Rightarrow> nat option" where
  "u128_mul a b = (if a * b \<le> u128_max then Some (a * b) else None)"

definition checked_div :: "decimal \<Rightarrow> decimal \<Rightarrow> nat \<Rightarrow> decimal option" where
  "checked_div a b s =
     (if mantissa b = 0 \<or> s > MAX_SCALE then None
      else
        let shift = int s + int (scale b) - int (scale a) + 1;
            negative = ((mantissa a < 0) \<noteq> (mantissa b < 0));
            numerator = nat \<bar>mantissa a\<bar>;
            denominator = nat \<bar>mantissa b\<bar>
        in
        if \<bar>shift\<bar> > 38 then None
        else
          (case (if shift \<ge> 0 then u128_mul numerator (10 ^ nat shift) else Some numerator,
                 if shift \<ge> 0 then Some denominator else u128_mul denominator (10 ^ nat (- shift))) of
             (Some n, Some d) \<Rightarrow>
               signed_result negative (round_off (n div d) 1 (n mod d \<noteq> 0)) s
           | _ \<Rightarrow> None))"

fun grow :: "nat \<Rightarrow> int \<Rightarrow> nat \<Rightarrow> decimal option" where
  "grow left m s =
     (if left = 0 then Some \<lparr>mantissa = m, scale = s\<rparr>
      else
        let step = (if left > 18 then 18 else left); m' = m * 10 ^ step in
        if in_i64 m' then grow (left - step) m' s else None)"

declare grow.simps [simp del]

definition checked_pow10 :: "decimal \<Rightarrow> int \<Rightarrow> decimal option" where
  "checked_pow10 d ex =
     (if ex = 0 then Some d
      else if ex > 40 \<or> ex < -40 then (if mantissa d = 0 then Some decimal_zero else None)
      else if ex < 0 then
        let want = int (scale d) - ex in
        if want \<le> int MAX_SCALE then Some \<lparr>mantissa = mantissa d, scale = nat want\<rparr>
        else
          let surplus = nat (want - int MAX_SCALE) in
          if surplus > 18 then None
          else if mantissa d mod 10 ^ surplus \<noteq> 0 then None
          else Some \<lparr>mantissa = mantissa d div 10 ^ surplus, scale = MAX_SCALE\<rparr>
      else
        let spent = min (nat ex) (scale d)
        in grow (nat ex - spent) (mantissa d) (scale d - spent))"

definition checked_abs :: "decimal \<Rightarrow> decimal option" where
  "checked_abs d =
     (if mantissa d = i64_min then None else Some (d\<lparr>mantissa := \<bar>mantissa d\<bar>\<rparr>))"

definition checked_neg :: "decimal \<Rightarrow> decimal option" where
  "checked_neg d =
     (if mantissa d = i64_min then None else Some (d\<lparr>mantissa := - mantissa d\<rparr>))"

datatype ordering = Less | Equal | Greater

definition compare_int :: "int \<Rightarrow> int \<Rightarrow> ordering" where
  "compare_int x y = (if x < y then Less else if x > y then Greater else Equal)"

definition compare :: "decimal \<Rightarrow> decimal \<Rightarrow> ordering" where
  "compare a b =
     (let s = (if scale a > scale b then scale a else scale b) in
      case (to_i128_at a s, to_i128_at b s) of
        (Some x, Some y) \<Rightarrow> compare_int x y
      | _ \<Rightarrow> compare_int (mantissa a) (mantissa b))"

definition decimal_min :: "decimal \<Rightarrow> decimal \<Rightarrow> decimal" where
  "decimal_min a b = (if compare a b = Greater then b else a)"

definition decimal_max :: "decimal \<Rightarrow> decimal \<Rightarrow> decimal" where
  "decimal_max a b = (if compare a b = Less then b else a)"

text \<open>\<open>PartialEq\<close>, and what \<open>Hash\<close> feeds to the hasher.\<close>

definition decimal_eq :: "decimal \<Rightarrow> decimal \<Rightarrow> bool" where
  "decimal_eq a b \<longleftrightarrow> compare a b = Equal"

definition hash_key :: "decimal \<Rightarrow> int \<times> nat" where
  "hash_key d = (mantissa (normalized d), scale (normalized d))"

section \<open>Text\<close>

datatype parse_decimal_error = Invalid | Overflow

definition is_space :: "char \<Rightarrow> bool" where
  "is_space c \<longleftrightarrow> c = CHR '' '' \<or> c = CHR 0x09 \<or> c = CHR 0x0A \<or> c = CHR 0x0D"

definition is_digit :: "char \<Rightarrow> bool" where
  "is_digit c \<longleftrightarrow> 48 \<le> (of_char c :: nat) \<and> (of_char c :: nat) \<le> 57"

definition digit_value :: "char \<Rightarrow> nat" where
  "digit_value c = of_char c - 48"

definition ACCUMULATE_LIMIT :: nat where
  "ACCUMULATE_LIMIT = u128_max div 16"

record scan =
  magnitude :: nat
  fraction_digits :: int
  skipped_integer_digits :: int
  round_digit :: nat
  sticky :: bool
  dropped_any :: bool
  seen_digit :: bool
  seen_point :: bool

definition scan_start :: scan where
  "scan_start = \<lparr>magnitude = 0, fraction_digits = 0, skipped_integer_digits = 0, round_digit = 0,
     sticky = False, dropped_any = False, seen_digit = False, seen_point = False\<rparr>"

definition scan_digit :: "scan \<Rightarrow> nat \<Rightarrow> scan" where
  "scan_digit s digit =
     (if magnitude s < ACCUMULATE_LIMIT then
        s\<lparr>seen_digit := True, magnitude := magnitude s * 10 + digit,
          fraction_digits := fraction_digits s + (if seen_point s then 1 else 0)\<rparr>
      else
        let s1 = s\<lparr>seen_digit := True,
                    skipped_integer_digits :=
                      skipped_integer_digits s + (if seen_point s then 0 else 1)\<rparr>
        in if dropped_any s1 then s1\<lparr>sticky := sticky s1 \<or> digit \<noteq> 0\<rparr>
           else s1\<lparr>round_digit := digit, dropped_any := True\<rparr>)"

text \<open>The digit loop, and what it leaves unread; \<open>None\<close> is the second decimal point.\<close>

fun scan_digits :: "scan \<Rightarrow> string \<Rightarrow> (scan \<times> string) option" where
  "scan_digits s [] = Some (s, [])"
| "scan_digits s (c # cs) =
     (if c = CHR ''.'' then
        (if seen_point s then None else scan_digits (s\<lparr>seen_point := True\<rparr>) cs)
      else if \<not> is_digit c then Some (s, c # cs)
      else scan_digits (scan_digit s (digit_value c)) cs)"

definition rounded_magnitude :: "scan \<Rightarrow> nat" where
  "rounded_magnitude s =
     (if dropped_any s \<and>
         (round_digit s > 5 \<or> round_digit s = 5 \<and> (sticky s \<or> magnitude s mod 2 = 1))
      then magnitude s + 1 else magnitude s)"

fun scan_exponent :: "int \<Rightarrow> bool \<Rightarrow> string \<Rightarrow> int \<times> bool \<times> string" where
  "scan_exponent ex seen [] = (ex, seen, [])"
| "scan_exponent ex seen (c # cs) =
     (if is_digit c
      then scan_exponent (if ex < 1000000 then ex * 10 + int (digit_value c) else ex) True cs
      else (ex, seen, c # cs))"

definition is_sign :: "char \<Rightarrow> bool" where
  "is_sign c \<longleftrightarrow> c = CHR ''+'' \<or> c = CHR ''-''"

text \<open>The optional exponent; \<open>None\<close> is an \<open>e\<close> with no digits after it.\<close>

definition read_exponent :: "string \<Rightarrow> (int \<times> string) option" where
  "read_exponent t =
     (case t of
        c # cs \<Rightarrow>
          if c = CHR ''e'' \<or> c = CHR ''E'' then
            let signed = (cs \<noteq> [] \<and> is_sign (hd cs));
                negative = (signed \<and> hd cs = CHR ''-'');
                (ex, seen, rest) = scan_exponent 0 False (if signed then tl cs else cs)
            in if seen then Some (if negative then - ex else ex, rest) else None
          else Some (0, t)
      | [] \<Rightarrow> Some (0, t))"

fun fit :: "nat \<Rightarrow> nat \<Rightarrow> parse_decimal_error + nat \<times> nat" where
  "fit m 0 = (if int m > i64_max then Inl Overflow else Inr (m, 0))"
| "fit m (Suc s) =
     (if int m > i64_max then fit (round_off m 1 False) s else Inr (m, Suc s))"

text \<open>From the digits read to a value: the part of \<open>from_ascii\<close> after the text is consumed.\<close>

definition place :: "bool \<Rightarrow> nat \<Rightarrow> int \<Rightarrow> parse_decimal_error + decimal" where
  "place negative m sc =
     (if m = 0 then
        Inr \<lparr>mantissa = 0, scale = (if sc < 0 \<or> sc > int MAX_SCALE then 0 else nat sc)\<rparr>
      else
        (case (if sc < 0 then
                 (if - sc > 38 then None
                  else map_option (\<lambda>x. (x, 0)) (u128_mul m (10 ^ nat (- sc))))
               else if sc > int MAX_SCALE then
                 Some (if sc - int MAX_SCALE > 39 then 0
                       else round_off m (nat (sc - int MAX_SCALE)) False, MAX_SCALE)
               else Some (m, nat sc)) of
           None \<Rightarrow> Inl Overflow
         | Some (m1, s1) \<Rightarrow>
             (case fit m1 s1 of
                Inl e \<Rightarrow> Inl e
              | Inr (m2, s2) \<Rightarrow>
                  Inr \<lparr>mantissa = (if negative then - int m2 else int m2), scale = s2\<rparr>)))"

definition from_ascii :: "string \<Rightarrow> parse_decimal_error + decimal" where
  "from_ascii text =
     (let t = dropWhile is_space text;
          signed = (t \<noteq> [] \<and> is_sign (hd t));
          negative = (signed \<and> hd t = CHR ''-'') in
      case scan_digits scan_start (if signed then tl t else t) of
        None \<Rightarrow> Inl Invalid
      | Some (s, rest) \<Rightarrow>
          if \<not> seen_digit s then Inl Invalid
          else
            (case read_exponent rest of
               None \<Rightarrow> Inl Invalid
             | Some (ex, rest') \<Rightarrow>
                 if dropWhile is_space rest' \<noteq> [] then Inl Invalid
                 else place negative (rounded_magnitude s)
                        (fraction_digits s - skipped_integer_digits s - ex)))"

text \<open>\<open>from_literal\<close>, whose panics are \<open>None\<close>.\<close>

definition from_literal :: "string \<Rightarrow> decimal option" where
  "from_literal text =
     (let kept = filter (\<lambda>c. c \<noteq> CHR ''_'') text in
      if length kept > 64 then None
      else case from_ascii kept of Inr d \<Rightarrow> Some d | Inl e \<Rightarrow> None)"

text \<open>Integers in decimal, and padded with zeros on the left.\<close>

definition digit_char :: "nat \<Rightarrow> char" where
  "digit_char n = char_of (48 + n)"

fun digits :: "nat \<Rightarrow> string" where
  "digits n = (if n < 10 then [digit_char n] else digits (n div 10) @ [digit_char (n mod 10)])"

declare digits.simps [simp del]

definition padded :: "nat \<Rightarrow> nat \<Rightarrow> string" where
  "padded w n = replicate (w - length (digits n)) (CHR ''0'') @ digits n"

definition display :: "decimal \<Rightarrow> string" where
  "display d =
     (let m = nat \<bar>mantissa d\<bar>; sign = (if mantissa d < 0 then ''-'' else []) in
      if scale d = 0 then sign @ digits m
      else sign @ digits (m div 10 ^ scale d) @ ''.'' @ padded (scale d) (m mod 10 ^ scale d))"

section \<open>The number a value stands for\<close>

definition val :: "decimal \<Rightarrow> rat" where
  "val d = of_int (mantissa d) / 10 ^ scale d"

lemma decimal_eqI: "mantissa a = mantissa b \<Longrightarrow> scale a = scale b \<Longrightarrow> a = b"
  for a b :: decimal
  by (cases a; cases b) simp

lemma val_at:
  assumes "scale d \<le> s"
  shows "of_int (mantissa d * 10 ^ (s - scale d)) = val d * 10 ^ s"
proof -
  have "10 ^ s = (10 ^ scale d * 10 ^ (s - scale d) :: rat)"
    using assms by (simp flip: power_add)
  then show ?thesis by (simp add: val_def)
qed

lemma val_mantissa: "of_int (mantissa d) = val d * 10 ^ scale d"
  by (simp add: val_def)

text \<open>At one scale a number has one mantissa.\<close>

lemma val_same_scale: "val a = val b \<Longrightarrow> scale a = scale b \<Longrightarrow> a = b"
  by (rule decimal_eqI) (simp_all add: val_def)

lemma val_scaled_iff:
  "val c = q \<longleftrightarrow> of_int (mantissa c) = q * 10 ^ scale c"
  by (auto simp: val_def field_simps)

section \<open>Sums, differences, comparison\<close>

lemma larger_scale: "(if scale a > scale b then scale a else scale b) = max (scale a) (scale b)"
  by simp

lemma aligned_sum:
  assumes s: "s = max (scale a) (scale b)"
    and c: "(c :: decimal option) = narrow (mantissa a * 10 ^ (s - scale a) + k * (mantissa b * 10 ^ (s - scale b))) s"
    and a: "decimal_ok a" and b: "decimal_ok b"
  shows "case c of
      Some r \<Rightarrow> decimal_ok r \<and> scale r = s \<and> val r = val a + of_int k * val b
    | None \<Rightarrow> \<not> (\<exists>r. decimal_ok r \<and> scale r = s \<and> val r = val a + of_int k * val b)"
proof -
  let ?m = "mantissa a * 10 ^ (s - scale a) + k * (mantissa b * 10 ^ (s - scale b))"
  have "of_int ?m = of_int (mantissa a * 10 ^ (s - scale a)) +
      of_int k * (of_int (mantissa b * 10 ^ (s - scale b)) :: rat)" by simp
  also have "\<dots> = (val a + of_int k * val b) * 10 ^ s"
    unfolding val_at [of a s, OF max.cobounded1 [of "scale a" "scale b", folded s]]
      val_at [of b s, OF max.cobounded2 [of "scale b" "scale a", folded s]]
    by (simp add: algebra_simps)
  finally have m: "of_int ?m = (val a + of_int k * val b) * 10 ^ s" .
  have key: "val r = val a + of_int k * val b \<longleftrightarrow> mantissa r = ?m" if "scale r = s" for r
    unfolding val_scaled_iff that m [symmetric] of_int_eq_iff ..
  have s18: "s \<le> MAX_SCALE" using a b by (simp add: s decimal_ok_def)
  show ?thesis
  proof (cases "in_i64 ?m")
    case True
    then have "c = Some \<lparr>mantissa = ?m, scale = s\<rparr>"
      unfolding c narrow_def in_i64_def by (simp add: not_less)
    then show ?thesis using True s18 key by (simp add: decimal_ok_def)
  next
    case False
    then have "c = None"
      unfolding c narrow_def in_i64_def by (auto simp: not_le)
    then show ?thesis using False key by (auto simp: decimal_ok_def)
  qed
qed

text \<open>
  Subtraction, which is how a session's energy is computed, is exact: the difference comes
  at the larger of the two scales, it is the difference of the two numbers with nothing
  rounded, and it is refused exactly when no value of the type at that scale is that number.
\<close>

theorem checked_sub_exact:
  assumes "decimal_ok a" and "decimal_ok b"
  shows "case checked_sub a b of
      Some r \<Rightarrow> decimal_ok r \<and> scale r = max (scale a) (scale b) \<and> val r = val a - val b
    | None \<Rightarrow>
        \<not> (\<exists>r. decimal_ok r \<and> scale r = max (scale a) (scale b) \<and> val r = val a - val b)"
  using aligned_sum [OF refl, of "checked_sub a b" a b "-1"] assms
  unfolding checked_sub_def larger_scale Let_def to_i128_at_def by (simp split: option.splits)

theorem checked_sub_exact_witness:
  "checked_sub \<lparr>mantissa = 202, scale = 1\<rparr> \<lparr>mantissa = 1010, scale = 2\<rparr> =
     Some \<lparr>mantissa = 1010, scale = 2\<rparr> \<and>
   val \<lparr>mantissa = 1010, scale = 2\<rparr> =
     val \<lparr>mantissa = 202, scale = 1\<rparr> - val \<lparr>mantissa = 1010, scale = 2\<rparr>"
proof -
  have ok: "decimal_ok \<lparr>mantissa = 202, scale = 1\<rparr>" "decimal_ok \<lparr>mantissa = 1010, scale = 2\<rparr>"
    by (simp_all add: decimal_ok_def in_i64_def i64_min_def i64_max_def MAX_SCALE_def)
  have r: "checked_sub \<lparr>mantissa = 202, scale = 1\<rparr> \<lparr>mantissa = 1010, scale = 2\<rparr> =
      Some \<lparr>mantissa = 1010, scale = 2\<rparr>"
    by (simp add: checked_sub_def to_i128_at_def narrow_def i64_min_def i64_max_def)
  show ?thesis using checked_sub_exact [OF ok] unfolding r by simp
qed

lemma checked_add_exact:
  assumes "decimal_ok a" and "decimal_ok b"
  shows "case checked_add a b of
      Some r \<Rightarrow> decimal_ok r \<and> scale r = max (scale a) (scale b) \<and> val r = val a + val b
    | None \<Rightarrow>
        \<not> (\<exists>r. decimal_ok r \<and> scale r = max (scale a) (scale b) \<and> val r = val a + val b)"
  using aligned_sum [OF refl, of "checked_add a b" a b 1] assms
  unfolding checked_add_def larger_scale Let_def to_i128_at_def by (simp split: option.splits)

lemma val_less_iff:
  assumes "scale a \<le> s" and "scale b \<le> s"
  shows "val a < val b \<longleftrightarrow> mantissa a * 10 ^ (s - scale a) < mantissa b * 10 ^ (s - scale b)"
proof -
  have "mantissa a * 10 ^ (s - scale a) < mantissa b * 10 ^ (s - scale b) \<longleftrightarrow>
      (of_int (mantissa a * 10 ^ (s - scale a)) :: rat) < of_int (mantissa b * 10 ^ (s - scale b))"
    by (rule of_int_less_iff [symmetric])
  also have "\<dots> \<longleftrightarrow> val a * 10 ^ s < val b * 10 ^ s"
    by (simp only: val_at assms)
  also have "\<dots> \<longleftrightarrow> val a < val b" by simp
  finally show ?thesis by simp
qed

lemma compare_val:
  "compare a b = (if val a < val b then Less else if val b < val a then Greater else Equal)"
proof -
  let ?s = "max (scale a) (scale b)"
  have "scale a \<le> ?s" "scale b \<le> ?s" by simp_all
  note order = val_less_iff [OF this] val_less_iff [OF this(2) this(1)]
  show ?thesis
    unfolding compare_def larger_scale Let_def to_i128_at_def compare_int_def order by simp
qed

text \<open>
  Comparison is the order of the numbers, whatever the scales, so \<open>2.5\<close> and \<open>2.50\<close> are
  equal, and \<open>min\<close> and \<open>max\<close> are the smaller and the larger number.
\<close>

lemma compare_is_numeric:
  "compare a b = (if val a < val b then Less else if val b < val a then Greater else Equal) \<and>
   val (decimal_min a b) = min (val a) (val b) \<and> val (decimal_max a b) = max (val a) (val b)"
  by (auto simp: decimal_min_def decimal_max_def compare_val)

section \<open>Changes of scale\<close>

lemma div_exact_val:
  assumes "m mod 10 ^ k = 0"
  shows "of_int (m div 10 ^ k) = (of_int m / 10 ^ k :: rat)"
proof -
  have "m div 10 ^ k * 10 ^ k = m" using assms by (simp add: mod_0_imp_dvd)
  then have "of_int (m div 10 ^ k) * 10 ^ k = (of_int m :: rat)"
    by (metis of_int_mult of_int_power of_int_numeral)
  then show ?thesis by (simp add: field_simps)
qed

lemma in_i64_shrink: "in_i64 (m * 10 ^ k) \<Longrightarrow> in_i64 m"
proof -
  assume a: "in_i64 (m * 10 ^ k)"
  have one: "(1 :: int) \<le> 10 ^ k" by simp
  have "m \<le> m * 10 ^ k" if "m \<ge> 0" using mult_left_mono [OF one that] by simp
  moreover have "m * 10 ^ k \<le> m" if "m \<le> 0"
    using mult_left_mono_neg [OF one that] by simp
  ultimately show ?thesis
    using a unfolding in_i64_def i64_min_def i64_max_def by linarith
qed

lemma in_i64_div: "in_i64 m \<Longrightarrow> m mod 10 ^ k = 0 \<Longrightarrow> in_i64 (m div 10 ^ k)"
  using in_i64_shrink [of "m div 10 ^ k" k] by (simp add: mod_0_imp_dvd)

text \<open>
  Rewriting a value at another scale gives the value of the type at that scale with the
  same number when there is one, and nothing otherwise: no digit is ever lost.
\<close>

lemma rescale_exact:
  assumes "decimal_ok d"
  shows "rescale d s = Some c \<longleftrightarrow> decimal_ok c \<and> scale c = s \<and> val c = val d"
proof -
  consider "s > MAX_SCALE" | "s = scale d" "s \<le> MAX_SCALE" | "s > scale d" "s \<le> MAX_SCALE"
    | "s < scale d" "s \<le> MAX_SCALE" by linarith
  then show ?thesis
  proof cases
    case 1
    then show ?thesis by (auto simp: rescale_def decimal_ok_def)
  next
    case 2
    then show ?thesis using assms by (auto simp: rescale_def dest: val_same_scale)
  next
    case 3
    let ?m = "mantissa d * 10 ^ (s - scale d)"
    have key: "val c = val d \<longleftrightarrow> mantissa c = ?m" if "scale c = s"
      using val_at [of d s] 3 unfolding val_scaled_iff that by (metis less_imp_le of_int_eq_iff)
    then show ?thesis using 3 key by (cases c) (auto simp: rescale_def Let_def decimal_ok_def)
  next
    case 4
    let ?f = "10 ^ (scale d - s) :: int"
    have key: "val c = val d \<longleftrightarrow> mantissa c * ?f = mantissa d" if "scale c = s"
      using val_at [of c "scale d"] 4 unfolding that
      by (metis less_imp_le of_int_eq_iff val_mantissa mult_cancel_right power_not_zero zero_neq_numeral)
    show ?thesis
    proof (cases "mantissa d mod ?f = 0")
      case True
      then have m: "mantissa d div ?f * ?f = mantissa d" by (simp add: mod_0_imp_dvd)
      then have "mantissa c * ?f = mantissa d \<longleftrightarrow> mantissa c = mantissa d div ?f"
        by (metis mult_cancel_right power_not_zero zero_neq_numeral)
      then show ?thesis using 4 key assms True in_i64_div [of "mantissa d" "scale d - s"]
        by (cases c) (auto simp: rescale_def Let_def decimal_ok_def)
    next
      case False
      then have "mantissa c * ?f \<noteq> mantissa d" by (metis mod_mult_self2_is_0)
      then show ?thesis using 4 key False by (auto simp: rescale_def Let_def)
    qed
  qed
qed

lemma normalize_loop_val: "val (normalize_loop m s) = of_int m / 10 ^ s"
proof (induction m s rule: normalize_loop.induct)
  case (2 m s)
  then show ?case
    using div_exact_val [of m 1] by (auto simp: val_def)
qed (simp add: val_def)

lemma normalize_loop_shape:
  "scale (normalize_loop m s) \<le> s"
  "scale (normalize_loop m s) = 0 \<or> mantissa (normalize_loop m s) mod 10 \<noteq> 0"
  "in_i64 m \<Longrightarrow> in_i64 (mantissa (normalize_loop m s))"
  by (induction m s rule: normalize_loop.induct)
     (use in_i64_div [where k = 1] in \<open>auto simp: le_SucI\<close>)

lemma normalized_val: "val (normalized d) = val d"
  using normalize_loop_val [of "mantissa d" "scale d"]
  by (auto simp: normalized_def Let_def val_def)

lemma normalized_shape:
  "scale (normalized d) = 0 \<or> mantissa (normalized d) mod 10 \<noteq> 0"
  using normalize_loop_shape(2) [of "mantissa d" "scale d"] by (auto simp: normalized_def Let_def)

lemma normalized_ok: "decimal_ok d \<Longrightarrow> decimal_ok (normalized d)"
  using normalize_loop_shape(1,3) [of "mantissa d" "scale d"]
  by (auto simp: normalized_def Let_def decimal_ok_def intro: order_trans)

lemma same_val_scale:
  assumes "val a = val b" and "scale b = 0 \<or> mantissa b mod 10 \<noteq> 0"
  shows "scale b \<le> scale a"
proof (rule ccontr)
  assume "\<not> scale b \<le> scale a"
  then have lt: "scale a < scale b" by simp
  then have "of_int (mantissa a * 10 ^ (scale b - scale a)) = (of_int (mantissa b) :: rat)"
    using val_at [of a "scale b"] assms(1) by (simp add: val_mantissa [of b])
  then have "mantissa b = mantissa a * 10 ^ (scale b - scale a)" by (simp only: of_int_eq_iff)
  moreover have "(10 :: int) ^ (scale b - scale a) = 10 * 10 ^ (scale b - scale a - 1)"
    using lt by (simp flip: power_Suc)
  ultimately have "mantissa b mod 10 = 0" by simp
  with assms(2) lt show False by simp
qed

lemma normalized_eq_iff: "normalized a = normalized b \<longleftrightarrow> val a = val b"
proof
  assume "val a = val b"
  then have "val (normalized a) = val (normalized b)" by (simp add: normalized_val)
  moreover from this have "scale (normalized a) = scale (normalized b)"
    by (metis antisym same_val_scale normalized_shape)
  ultimately show "normalized a = normalized b" by (rule val_same_scale)
next
  assume "normalized a = normalized b"
  then show "val a = val b" by (metis normalized_val)
qed

text \<open>
  Removing trailing zeros keeps the number and gives it one form, so two values hash alike
  exactly when they are equal, and both exactly when they are the same number.
\<close>

theorem equality_and_hash_agree:
  "val (normalized a) = val a \<and> (decimal_eq a b \<longleftrightarrow> val a = val b) \<and>
   (hash_key a = hash_key b \<longleftrightarrow> decimal_eq a b)"
proof -
  have "decimal_eq a b \<longleftrightarrow> val a = val b" by (auto simp: decimal_eq_def compare_val)
  moreover have "hash_key a = hash_key b \<longleftrightarrow> normalized a = normalized b"
    using decimal_eqI by (auto simp: hash_key_def)
  ultimately show ?thesis by (simp add: normalized_val normalized_eq_iff)
qed

lemma grow_Some:
  "grow left m s = Some c \<longleftrightarrow> in_i64 (m * 10 ^ left) \<and> c = \<lparr>mantissa = m * 10 ^ left, scale = s\<rparr>"
  if "in_i64 m"
  using that
proof (induction left m s rule: grow.induct)
  case (1 left m s)
  show ?case
  proof (cases "left = 0")
    case True
    then show ?thesis using 1(2) by (auto simp: grow.simps)
  next
    case False
    define step where "step = (if left > 18 then 18 else left)"
    have pow: "m * 10 ^ step * 10 ^ (left - step) = m * 10 ^ left"
      by (simp add: step_def flip: power_add)
    have unfold: "grow left m s =
        (if in_i64 (m * 10 ^ step) then grow (left - step) (m * 10 ^ step) s else None)"
      using False by (subst grow.simps) (simp add: Let_def step_def)
    show ?thesis
    proof (cases "in_i64 (m * 10 ^ step)")
      case True
      with 1(1) [OF False step_def refl True True] show ?thesis unfolding unfold pow by simp
    next
      case not_in: False
      then have "\<not> in_i64 (m * 10 ^ left)" using in_i64_shrink [of "m * 10 ^ step" "left - step"] pow by auto
      with not_in show ?thesis unfolding unfold by simp
    qed
  qed
qed

text \<open>One value is another moved by powers of ten exactly when their mantissas line up.\<close>

lemma val_moved:
  "val c = val d * 10 powi ex \<longleftrightarrow>
     (let k = ex - int (scale d) + int (scale c) in
      if k \<ge> 0 then mantissa c = mantissa d * 10 ^ nat k else mantissa c * 10 ^ nat (- k) = mantissa d)"
proof -
  define k where "k = ex - int (scale d) + int (scale c)"
  have ex: "ex = k + int (scale d) - int (scale c)" by (simp add: k_def)
  have "val c = val d * 10 powi ex \<longleftrightarrow> of_int (mantissa c) = (of_int (mantissa d) * 10 powi k :: rat)"
    unfolding val_def ex by (simp add: power_int_add power_int_diff field_simps)
  also have "\<dots> \<longleftrightarrow> (if k \<ge> 0 then mantissa c = mantissa d * 10 ^ nat k
      else mantissa c * 10 ^ nat (- k) = mantissa d)"
  proof (cases "k \<ge> 0")
    case True
    then have "10 powi k = (of_int (10 ^ nat k) :: rat)" by (simp add: power_int_def)
    then show ?thesis using True by (simp only: if_True of_int_eq_iff flip: of_int_mult)
  next
    case False
    then have "10 powi k = inverse (of_int (10 ^ nat (- k)) :: rat)"
      by (simp add: power_int_def flip: power_inverse)
    then have "of_int (mantissa c) = (of_int (mantissa d) * 10 powi k :: rat) \<longleftrightarrow>
        of_int (mantissa c * 10 ^ nat (- k)) = (of_int (mantissa d) :: rat)"
      by (simp add: divide_inverse [symmetric] eq_divide_eq)
    then show ?thesis using False by (simp only: of_int_eq_iff if_False)
  qed
  finally show ?thesis unfolding Let_def k_def .
qed

lemma nineteen_digits:
  assumes "in_i64 m" and "m = c * 10 ^ k" and "k \<ge> 19"
  shows "m = 0"
proof (rule ccontr)
  assume "m \<noteq> 0"
  then have "c \<noteq> 0" using assms(2) by auto
  then have "1 \<le> \<bar>c\<bar>" by simp
  moreover have "(10 :: int) ^ 19 \<le> 10 ^ k" using assms(3) by (rule power_increasing) simp
  ultimately have "1 * 10 ^ 19 \<le> \<bar>c\<bar> * 10 ^ k" by (intro mult_mono) auto
  then have "10 ^ 19 \<le> \<bar>m\<bar>" using assms(2) by (simp add: abs_mult)
  then show False using assms(1) by (auto simp: in_i64_def i64_min_def i64_max_def)
qed

lemma checked_pow10_Some:
  assumes ok: "decimal_ok d" and c: "checked_pow10 d ex = Some c"
  shows "decimal_ok c \<and> val c = val d * 10 powi ex"
proof -
  consider "ex = 0" | "ex > 40 \<or> ex < -40" | "ex < 0" "ex \<ge> -40" "int (scale d) - ex \<le> int MAX_SCALE"
    | "ex < 0" "ex \<ge> -40" "int (scale d) - ex > int MAX_SCALE" | "ex > 0" "ex \<le> 40"
    by linarith
  then show ?thesis
  proof cases
    case 1
    then show ?thesis using ok c by (simp add: checked_pow10_def)
  next
    case 2
    then have "mantissa d = 0" "c = decimal_zero" using c by (auto simp: checked_pow10_def split: if_splits)
    then show ?thesis
      by (simp add: decimal_zero_def decimal_ok_def in_i64_def i64_min_def i64_max_def val_def)
  next
    case 3
    then have "c = \<lparr>mantissa = mantissa d, scale = nat (int (scale d) - ex)\<rparr>"
      using c by (simp add: checked_pow10_def Let_def)
    then show ?thesis using 3 ok unfolding val_moved by (auto simp: decimal_ok_def)
  next
    case 4
    define k where "k = nat (int (scale d) - ex - int MAX_SCALE)"
    have m: "mantissa d mod 10 ^ k = 0" and eq: "c = \<lparr>mantissa = mantissa d div 10 ^ k, scale = MAX_SCALE\<rparr>"
      using 4 c by (auto simp: checked_pow10_def Let_def k_def split: if_splits)
    have "mantissa d div 10 ^ k * 10 ^ k = mantissa d" using m by (simp add: mod_0_imp_dvd)
    moreover have "ex - int (scale d) + int MAX_SCALE < 0" "nat (- (ex - int (scale d) + int MAX_SCALE)) = k"
      using 4 by (auto simp: k_def)
    ultimately have "val c = val d * 10 powi ex" unfolding val_moved eq by simp
    then show ?thesis using ok in_i64_div [OF _ m] by (simp add: decimal_ok_def eq)
  next
    case 5
    define left where "left = nat ex - min (nat ex) (scale d)"
    have "grow left (mantissa d) (scale d - min (nat ex) (scale d)) = Some c"
      using 5 c by (simp add: checked_pow10_def Let_def left_def)
    then have eq: "in_i64 (mantissa d * 10 ^ left)"
        "c = \<lparr>mantissa = mantissa d * 10 ^ left, scale = scale d - min (nat ex) (scale d)\<rparr>"
      using ok by (simp_all add: grow_Some decimal_ok_def)
    have "ex - int (scale d) + int (scale d - min (nat ex) (scale d)) = int left"
      using 5 by (auto simp: left_def min_def)
    then have "val c = val d * 10 powi ex" unfolding val_moved eq(2) by simp
    moreover have "scale c \<le> MAX_SCALE" using eq(2) ok by (auto simp: decimal_ok_def)
    ultimately show ?thesis using eq by (simp add: decimal_ok_def)
  qed
qed

lemma checked_pow10_None:
  assumes ok: "decimal_ok d" "decimal_ok c" and v: "val c = val d * 10 powi ex"
    and nz: "mantissa d \<noteq> 0"
  shows "checked_pow10 d ex \<noteq> None"
proof
  assume none: "checked_pow10 d ex = None"
  define k where "k = ex - int (scale d) + int (scale c)"
  have up: "mantissa c = mantissa d * 10 ^ nat k" if "k \<ge> 0"
    using v that unfolding val_moved by (simp add: k_def)
  have down: "mantissa d = mantissa c * 10 ^ nat (- k)" if "k < 0"
    using v that unfolding val_moved by (simp add: k_def Let_def split: if_splits)
  have sc: "scale c \<le> 18" "scale d \<le> 18" and m: "in_i64 (mantissa c)" "in_i64 (mantissa d)"
    using ok by (simp_all add: decimal_ok_def MAX_SCALE_def)
  have "k < 19" if "k \<ge> 0"
    using nineteen_digits [OF m(1) up [OF that]] nz up [OF that] by (cases "k \<ge> 19") (auto simp: le_nat_iff)
  then have small: "k < 19" by linarith
  have "k > -19" if "k < 0"
    using nineteen_digits [OF m(2) down [OF that]] nz by (cases "k \<le> -19") (auto simp: le_nat_iff)
  then have large: "k > -19" by linarith
  consider "ex < 0" "int (scale d) - ex > 18" | "ex > 0" "ex \<le> 40"
    using none small large sc unfolding k_def
    by (auto simp: checked_pow10_def Let_def MAX_SCALE_def split: if_splits)
  then show False
  proof cases
    case 1
    define s where "s = nat (int (scale d) - ex - 18)"
    have k: "nat (- k) = s + (18 - scale c)" "k < 0" using 1 sc by (auto simp: k_def s_def)
    have "s \<le> 18" using k(1) large sc by linarith
    moreover have "mantissa d mod 10 ^ s = 0"
      using down [OF k(2)] unfolding k(1) power_add by (metis mod_mult_self2_is_0 mult.assoc mult.commute)
    moreover have "ex \<ge> -40" using large sc by (simp add: k_def)
    ultimately show False using none 1 by (simp add: checked_pow10_def Let_def MAX_SCALE_def s_def)
  next
    case 2
    define left where "left = nat ex - min (nat ex) (scale d)"
    have "grow left (mantissa d) (scale d - min (nat ex) (scale d)) = None"
      using 2 none by (simp add: checked_pow10_def Let_def left_def)
    then have out: "\<not> in_i64 (mantissa d * 10 ^ left)"
      using grow_Some [OF m(2)] by (metis option.distinct(1))
    then have "left \<noteq> 0" using m(2) by (metis mult.right_neutral power_0)
    then have "nat k = left + scale c" "k \<ge> 0" using 2 by (auto simp: left_def k_def min_def split: if_splits)
    then have "in_i64 (mantissa d * 10 ^ left * 10 ^ scale c)"
      using up m(1) by (simp add: power_add mult.assoc)
    then show False using out in_i64_shrink by blast
  qed
qed

text \<open>
  Moving the decimal point, which is how a unit multiplier is applied, is exact, and for a
  number other than zero it is refused exactly when no value of the type is the result.
\<close>

theorem checked_pow10_exact:
  assumes "decimal_ok d"
  shows "case checked_pow10 d ex of
      Some c \<Rightarrow> decimal_ok c \<and> val c = val d * 10 powi ex
    | None \<Rightarrow> is_zero d \<or> \<not> (\<exists>c. decimal_ok c \<and> val c = val d * 10 powi ex)"
  using checked_pow10_Some [OF assms, of ex] checked_pow10_None [OF assms, of _ ex]
  by (cases "checked_pow10 d ex") (auto simp: is_zero_def)

theorem checked_pow10_exact_witness:
  "checked_pow10 \<lparr>mantissa = 2935600, scale = 3\<rparr> (-3) = Some \<lparr>mantissa = 2935600, scale = 6\<rparr> \<and>
   val \<lparr>mantissa = 2935600, scale = 6\<rparr> = val \<lparr>mantissa = 2935600, scale = 3\<rparr> * 10 powi (-3)"
proof -
  have ok: "decimal_ok \<lparr>mantissa = 2935600, scale = 3\<rparr>"
    by (simp add: decimal_ok_def in_i64_def i64_min_def i64_max_def MAX_SCALE_def)
  have r: "checked_pow10 \<lparr>mantissa = 2935600, scale = 3\<rparr> (-3) = Some \<lparr>mantissa = 2935600, scale = 6\<rparr>"
    by (simp add: checked_pow10_def MAX_SCALE_def)
  show ?thesis using checked_pow10_exact [OF ok, of "-3"] unfolding r by simp
qed

text \<open>The exception: zero at the largest scale is refused although zero always fits.\<close>

lemma checked_pow10_refuses_zero:
  "checked_pow10 \<lparr>mantissa = 0, scale = 18\<rparr> (-19) = None"
  "checked_pow10 \<lparr>mantissa = 0, scale = 18\<rparr> (-41) = Some decimal_zero"
  by (simp_all add: checked_pow10_def MAX_SCALE_def)

section \<open>Rounding\<close>

text \<open>\<open>n\<close> is \<open>x\<close> rounded to the nearest integer, ties to the even one.\<close>

definition nearest_even :: "rat \<Rightarrow> int \<Rightarrow> bool" where
  "nearest_even x n \<longleftrightarrow> \<bar>x - of_int n\<bar> \<le> 1 / 2 \<and> (\<bar>x - of_int n\<bar> = 1 / 2 \<longrightarrow> even n)"

lemma nearest_even_neg: "nearest_even x n \<Longrightarrow> nearest_even (- x) (- n)"
  unfolding nearest_even_def by (simp add: abs_minus_commute)

lemma nearest_even_int: "nearest_even (of_int n) n"
  by (simp add: nearest_even_def)

lemma nearest_even_unique:
  assumes "nearest_even x a" and "nearest_even x b"
  shows "a = b"
proof (rule ccontr)
  assume "a \<noteq> b"
  then have far: "1 \<le> \<bar>a - b\<bar>" by simp
  have close: "\<bar>(of_int a :: rat) - of_int b\<bar> \<le> 1"
    using assms unfolding nearest_even_def abs_le_iff by linarith
  then have "\<bar>a - b\<bar> \<le> 1" by (metis of_int_1 of_int_abs of_int_diff of_int_le_iff)
  with far have one: "\<bar>a - b\<bar> = 1" by simp
  then have "\<bar>(of_int a :: rat) - of_int b\<bar> = 1" by (metis of_int_1 of_int_abs of_int_diff)
  then have "\<bar>x - of_int a\<bar> = 1 / 2 \<and> \<bar>x - of_int b\<bar> = 1 / 2"
    using assms unfolding nearest_even_def by linarith
  then have "even a \<and> even b" using assms by (auto simp: nearest_even_def)
  then show False using one by presburger
qed

lemma nearest_even_cases:
  fixes x :: rat
  assumes "0 \<le> x - of_int q" and "x - of_int q < 1"
    and "n = (if x - of_int q > 1 / 2 \<or> x - of_int q = 1 / 2 \<and> odd q then q + 1 else q)"
  shows "nearest_even x n"
proof -
  consider "x - of_int q < 1 / 2" | "x - of_int q = 1 / 2" | "x - of_int q > 1 / 2" by linarith
  then show ?thesis
    by cases (use assms in \<open>auto simp: nearest_even_def abs_if\<close>)
qed

text \<open>Comparing a scaled number with half of what it is scaled by.\<close>

lemma scaled_half:
  fixes y h :: rat
  assumes "0 < h" and "y * (2 * h) = z"
  shows "z > h \<longleftrightarrow> y > 1 / 2" "z = h \<longleftrightarrow> y = 1 / 2" "z < 2 * h \<longleftrightarrow> y < 1" "0 \<le> z \<longleftrightarrow> 0 \<le> y"
proof -
  have z: "z = (y * 2) * h" using assms(2) by simp
  have "z > h \<longleftrightarrow> y * 2 > 1" "z = h \<longleftrightarrow> y * 2 = 1" "z < 2 * h \<longleftrightarrow> y * 2 < 2" "0 \<le> z \<longleftrightarrow> 0 \<le> y * 2"
    unfolding z using assms(1) by (simp_all add: zero_le_mult_iff)
  then show "z > h \<longleftrightarrow> y > 1 / 2" "z = h \<longleftrightarrow> y = 1 / 2" "z < 2 * h \<longleftrightarrow> y < 1" "0 \<le> z \<longleftrightarrow> 0 \<le> y"
    by auto
qed

text \<open>
  Dropping digits rounds the number the digits stand for. The number is at least the digits
  kept so far and less than one more; \<open>sticky\<close> says whether it is more than them.
\<close>

lemma round_off_nearest:
  assumes k: "0 < k" "k \<le> 38" and lo: "of_nat m \<le> x * 10 ^ k" and hi: "x * 10 ^ k < of_nat m + 1"
    and st: "st \<longleftrightarrow> x * 10 ^ k \<noteq> of_nat m"
  shows "nearest_even x (int (round_off m k st))"
proof -
  define h q r where "h = (5 * 10 ^ (k - 1) :: nat)" and "q = m div 10 ^ k" and "r = m mod 10 ^ k"
  define e where "e = x * 10 ^ k - of_nat m"
  have D: "(10 :: nat) ^ k = 2 * h" using k(1) by (cases k) (simp_all add: h_def)
  have D': "(10 :: rat) ^ k = 2 * of_nat h"
    using arg_cong [OF D, of "of_nat :: nat \<Rightarrow> rat"] by simp
  have hpos: "0 < h" by (simp add: h_def)
  have m: "m = 2 * h * q + r" "r < 2 * h" using hpos by (simp_all add: q_def r_def D)
  have e: "0 \<le> e" "e < 1" "st \<longleftrightarrow> e \<noteq> 0" using lo hi st by (simp_all add: e_def)
  have "(x - of_int (int q)) * (2 * of_nat h) = of_nat r + e"
    using arg_cong [OF m(1), of "of_nat :: nat \<Rightarrow> rat"] by (simp add: e_def D' algebra_simps)
  note cmp = scaled_half [OF _ this]
  have less: "of_nat r + e < of_nat n" if "r < n" for n
  proof -
    have "of_nat (r + 1) \<le> (of_nat n :: rat)" using that by (intro of_nat_mono) simp
    then show ?thesis using e(2) by simp
  qed
  have above: "of_nat r + e > of_nat h \<longleftrightarrow> r > h \<or> r = h \<and> st"
    "of_nat r + e = of_nat h \<longleftrightarrow> r = h \<and> \<not> st"
    using less [of h] e of_nat_less_iff [of h r, where ?'a = rat] by (cases r h rule: linorder_cases; force)+
  have "round_off m k st = (if r > h \<or> r = h \<and> (st \<or> q mod 2 = 1) then q + 1 else q)"
    using k by (simp add: round_off_def Let_def D q_def r_def)
  then have "int (round_off m k st) =
      (if x - of_int (int q) > 1 / 2 \<or> x - of_int (int q) = 1 / 2 \<and> odd (int q) then int q + 1 else int q)"
    using cmp(1,2) hpos above by (auto simp: odd_iff_mod_2_eq_one)
  then show ?thesis
    using cmp(3,4) hpos less [OF m(2)] e(1) by (intro nearest_even_cases) auto
qed

lemma nearest_even_signed:
  assumes "nearest_even \<bar>x\<bar> (int n)" and "x < 0 \<Longrightarrow> neg" and "x > 0 \<Longrightarrow> \<not> neg"
  shows "nearest_even x (if neg then - int n else int n)"
proof -
  consider "x < 0" | "x = 0" | "x > 0" by linarith
  then show ?thesis
  proof cases
    case 2
    have "nearest_even 0 0" by (simp add: nearest_even_def)
    then have "int n = 0" using assms(1) 2 by (metis abs_zero nearest_even_unique)
    then show ?thesis using 2 by (simp add: nearest_even_def)
  qed (use assms nearest_even_neg [of "- x" "int n"] in auto)
qed

lemma signed_result_nearest:
  assumes "nearest_even \<bar>x\<bar> (int n)" and "x < 0 \<Longrightarrow> neg" and "x > 0 \<Longrightarrow> \<not> neg" and "s \<le> MAX_SCALE"
  shows "case signed_result neg n s of
      Some c \<Rightarrow> decimal_ok c \<and> scale c = s \<and> nearest_even x (mantissa c)
    | None \<Rightarrow> \<not> (\<exists>i. \<bar>i\<bar> \<le> i64_max \<and> nearest_even x i)"
proof -
  have near: "nearest_even x (if neg then - int n else int n)"
    using assms(1-3) by (rule nearest_even_signed)
  show ?thesis
  proof (cases "int n > i64_max")
    case True
    then have big: "\<bar>if neg then - int n else int n\<bar> > i64_max" by simp
    have "\<bar>i\<bar> > i64_max" if "nearest_even x i" for i
      using big unfolding nearest_even_unique [OF near that] .
    then have "\<not> (\<exists>i. \<bar>i\<bar> \<le> i64_max \<and> nearest_even x i)" by force
    then show ?thesis using True by (simp add: signed_result_def)
  next
    case False
    then show ?thesis using near assms(4)
      by (auto simp: signed_result_def decimal_ok_def in_i64_def i64_max_def i64_min_def)
  qed
qed

lemma abs_mantissa: "of_nat (nat \<bar>m\<bar>) = (\<bar>of_int m\<bar> :: rat)"
  by (simp add: of_nat_nat flip: of_int_abs)

lemma round_off_exact:
  assumes "x * 10 ^ k = of_nat m" and "0 < k" and "k \<le> 38"
  shows "nearest_even x (int (round_off m k False))"
  using assms by (intro round_off_nearest) auto

lemma round_to_case:
  assumes "decimal_ok d" and "s < scale d"
  shows "case round_to d s of
      Some c \<Rightarrow> decimal_ok c \<and> scale c = s \<and> nearest_even (val d * 10 ^ s) (mantissa c)
    | None \<Rightarrow> \<not> (\<exists>i. \<bar>i\<bar> \<le> i64_max \<and> nearest_even (val d * 10 ^ s) i)"
proof -
  have "(10 :: rat) ^ scale d = 10 ^ s * 10 ^ (scale d - s)" using assms(2) by (simp flip: power_add)
  then have "\<bar>val d * 10 ^ s\<bar> * 10 ^ (scale d - s) = of_nat (nat \<bar>mantissa d\<bar>)"
    unfolding abs_mantissa by (simp add: val_def abs_mult)
  then have near: "nearest_even \<bar>val d * 10 ^ s\<bar> (int (round_off (nat \<bar>mantissa d\<bar>) (scale d - s) False))"
    using assms by (intro round_off_exact) (auto simp: decimal_ok_def MAX_SCALE_def)
  have "val d * 10 ^ s < 0 \<longleftrightarrow> mantissa d < 0"
    by (simp add: val_def mult_less_0_iff divide_less_0_iff)
  with near show ?thesis
    using assms signed_result_nearest [OF near, of "mantissa d < 0" s]
    by (auto simp: round_to_def decimal_ok_def)
qed

lemma round_off_fits:
  assumes "0 < k" and "k \<le> 38" and "in_i64 m"
  shows "int (round_off (nat \<bar>m\<bar>) k st) \<le> i64_max"
proof -
  have "(10 :: nat) ^ 1 \<le> 10 ^ k" using assms(1) by (intro power_increasing) auto
  then have "nat \<bar>m\<bar> div 10 ^ k \<le> nat \<bar>m\<bar> div 10" by (intro div_le_mono2) simp_all
  moreover have "nat \<bar>m\<bar> \<le> 2 ^ 63" using assms(3) by (auto simp: in_i64_def i64_max_def i64_min_def)
  ultimately have "nat \<bar>m\<bar> div 10 ^ k \<le> 2 ^ 63 div 10" by (meson div_le_mono le_trans)
  then have "round_off (nat \<bar>m\<bar>) k st \<le> 2 ^ 63 div 10 + 1"
    using assms(1,2) by (simp add: round_off_def Let_def)
  then show ?thesis by (simp add: i64_max_def)
qed

text \<open>
  Rounding a value to fewer decimals always answers, with the nearest value at that scale
  and ties to the even digit.
\<close>

lemma round_to_nearest:
  assumes "decimal_ok d" and "s < scale d"
  shows "\<exists>c. round_to d s = Some c \<and> decimal_ok c \<and> scale c = s \<and>
    nearest_even (val d * 10 ^ s) (mantissa c)"
proof -
  have "scale d - s \<le> 38" using assms(1) unfolding decimal_ok_def MAX_SCALE_def by linarith
  then have "round_to d s \<noteq> None"
    using round_off_fits [of "scale d - s" "mantissa d" False] assms
    by (auto simp: round_to_def signed_result_def decimal_ok_def)
  then show ?thesis using round_to_case [OF assms] by (auto split: option.splits)
qed

lemma val_mult_scaled: "val a * val b * 10 ^ (scale a + scale b) = of_int (mantissa a * mantissa b)"
  by (simp add: val_def power_add)

lemma sign_of_product: "val a * val b < 0 \<longleftrightarrow> mantissa a * mantissa b < 0"
  by (simp add: val_def mult_less_0_iff divide_less_0_iff zero_less_divide_iff)

lemma nearest_even_of_int: "nearest_even (of_int m) i \<longleftrightarrow> i = m"
  using nearest_even_int nearest_even_unique by blast

text \<open>
  A product is the exact product of the two numbers, rounded to the nearest only when it
  needs more decimals than the type carries, and refused only when that does not fit.
\<close>

lemma checked_mul_nearest:
  assumes "decimal_ok a" and "decimal_ok b" and "s = min (scale a + scale b) MAX_SCALE"
  shows "case checked_mul a b of
      Some c \<Rightarrow> decimal_ok c \<and> scale c = s \<and> nearest_even (val a * val b * 10 ^ s) (mantissa c) \<and>
        (scale a + scale b \<le> MAX_SCALE \<longrightarrow> val c = val a * val b)
    | None \<Rightarrow> \<not> (\<exists>i. \<bar>i\<bar> \<le> i64_max \<and> nearest_even (val a * val b * 10 ^ s) i)"
proof (cases "scale a + scale b \<le> MAX_SCALE")
  case True
  have "nearest_even (val a * val b * 10 ^ (scale a + scale b)) i \<longleftrightarrow> i = mantissa a * mantissa b" for i
    unfolding val_mult_scaled by (rule nearest_even_of_int)
  moreover have "val \<lparr>mantissa = mantissa a * mantissa b, scale = scale a + scale b\<rparr> = val a * val b"
    by (simp add: val_def power_add)
  ultimately show ?thesis using True assms(3)
    by (auto simp: checked_mul_def Let_def narrow_def decimal_ok_def in_i64_def i64_max_def i64_min_def)
next
  case False
  let ?k = "scale a + scale b - MAX_SCALE" and ?p = "mantissa a * mantissa b"
  have "val a * val b * 10 ^ MAX_SCALE * 10 ^ ?k = of_int ?p"
    using False val_mult_scaled [of a b] by (simp add: mult.assoc flip: power_add)
  then have "\<bar>val a * val b * 10 ^ MAX_SCALE\<bar> * 10 ^ ?k = of_nat (nat \<bar>?p\<bar>)"
    unfolding abs_mantissa by (metis abs_mult abs_of_pos zero_less_numeral zero_less_power)
  then have near: "nearest_even \<bar>val a * val b * 10 ^ MAX_SCALE\<bar> (int (round_off (nat \<bar>?p\<bar>) ?k False))"
    using assms False by (intro round_off_exact) (auto simp: decimal_ok_def MAX_SCALE_def)
  have "val a * val b * 10 ^ MAX_SCALE < 0 \<longleftrightarrow> ?p < 0"
    using sign_of_product [of a b] by (simp add: mult_less_0_iff [of "val a * val b"])
  then show ?thesis
    using signed_result_nearest [OF near, of "?p < 0" MAX_SCALE] False assms(3)
    by (auto simp: checked_mul_def Let_def split: option.splits)
qed

lemma quotient_bounds:
  fixes n d :: nat
  assumes "0 < d" and "x = (of_nat n / of_nat d :: rat)"
  shows "of_nat (n div d) \<le> x" "x < of_nat (n div d) + 1" "n mod d \<noteq> 0 \<longleftrightarrow> x \<noteq> of_nat (n div d)"
proof -
  have n: "of_nat n = (of_nat d * of_nat (n div d) + of_nat (n mod d) :: rat)"
    by (metis div_mult_mod_eq mult.commute of_nat_add of_nat_mult)
  have "(of_nat (n mod d) :: rat) < of_nat d" using assms(1) by simp
  with n show "of_nat (n div d) \<le> x" "x < of_nat (n div d) + 1" "n mod d \<noteq> 0 \<longleftrightarrow> x \<noteq> of_nat (n div d)"
    using assms(1) unfolding assms(2) by (simp_all add: field_simps)
qed

lemma quotient_rounded:
  assumes "0 < d" and "x * 10 = (of_nat n / of_nat d :: rat)"
  shows "nearest_even x (int (round_off (n div d) 1 (n mod d \<noteq> 0)))"
  using quotient_bounds [OF assms(1), of "x * 10" n] assms(2) by (intro round_off_nearest) auto

text \<open>The two ways of bringing the quotient to the scale asked for, with one digit to spare.\<close>

lemma scaled_quotient:
  assumes "mantissa b \<noteq> 0" and "shift = int s + int (scale b) - int (scale a) + 1"
  shows "\<bar>val a / val b * 10 ^ s\<bar> * 10 =
    of_nat (nat \<bar>mantissa a\<bar> * 10 ^ nat shift) / of_nat (nat \<bar>mantissa b\<bar> * 10 ^ nat (- shift))"
proof -
  have "\<bar>val a / val b * 10 ^ s\<bar> * 10 =
      of_nat (nat \<bar>mantissa a\<bar>) / of_nat (nat \<bar>mantissa b\<bar>) * 10 powi shift"
    unfolding assms(2) abs_mantissa
    by (simp add: val_def abs_mult power_int_add power_int_diff field_simps)
  also have "(10 :: rat) powi shift = 10 ^ nat shift / 10 ^ nat (- shift)"
    by (cases "shift \<ge> 0") (simp_all add: power_int_def field_simps flip: power_inverse)
  finally show ?thesis by simp
qed

lemma checked_div_eq:
  assumes "mantissa b \<noteq> 0" and "s \<le> MAX_SCALE"
    and shift: "shift = int s + int (scale b) - int (scale a) + 1"
    and n: "n = nat \<bar>mantissa a\<bar> * 10 ^ nat shift" and d: "d = nat \<bar>mantissa b\<bar> * 10 ^ nat (- shift)"
    and small: "nat \<bar>mantissa a\<bar> \<le> u128_max" "nat \<bar>mantissa b\<bar> \<le> u128_max"
  shows "checked_div a b s =
    (if \<bar>shift\<bar> > 38 \<or> n > u128_max \<or> d > u128_max then None
     else signed_result ((mantissa a < 0) \<noteq> (mantissa b < 0)) (round_off (n div d) 1 (n mod d \<noteq> 0)) s)"
  using assms(1,2) small
  by (auto simp: checked_div_def Let_def u128_mul_def not_le n d simp flip: shift)

lemma i64_small: "in_i64 m \<Longrightarrow> nat \<bar>m\<bar> \<le> 2 ^ 63"
  by (auto simp: in_i64_def i64_max_def i64_min_def)

lemma shifted_fits:
  assumes "in_i64 m" and "k \<le> 19"
  shows "nat \<bar>m\<bar> * 10 ^ k \<le> u128_max"
proof -
  have "(10 :: nat) ^ k \<le> 10 ^ 19" using assms(2) by (rule power_increasing) simp
  then have "nat \<bar>m\<bar> * 10 ^ k \<le> 2 ^ 63 * 10 ^ 19" using i64_small [OF assms(1)] by (rule mult_le_mono [rotated])
  then show ?thesis by (simp add: u128_max_def)
qed

text \<open>
  A quotient is the nearest value at the scale asked for, ties to even. It is refused for a
  zero divisor, a scale the type does not have, a result that does not fit, or when the
  divisor is written with so many more decimals than the dividend that the working digits may
  run out.
\<close>

theorem checked_div_nearest:
  assumes "decimal_ok a" and "decimal_ok b"
  shows "case checked_div a b s of
      Some c \<Rightarrow> decimal_ok c \<and> scale c = s \<and> \<not> is_zero b \<and> nearest_even (val a / val b * 10 ^ s) (mantissa c)
    | None \<Rightarrow> is_zero b \<or> s > MAX_SCALE \<or> s + scale b > scale a + 18 \<or>
        \<not> (\<exists>i. \<bar>i\<bar> \<le> i64_max \<and> nearest_even (val a / val b * 10 ^ s) i)"
proof (cases "is_zero b \<or> s > MAX_SCALE")
  case True
  then show ?thesis by (auto simp: checked_div_def is_zero_def)
next
  case False
  define shift where "shift = int s + int (scale b) - int (scale a) + 1"
  define n d where "n = nat \<bar>mantissa a\<bar> * 10 ^ nat shift" and "d = nat \<bar>mantissa b\<bar> * 10 ^ nat (- shift)"
  let ?neg = "(mantissa a < 0) \<noteq> (mantissa b < 0)"
  have b: "mantissa b \<noteq> 0" and s: "s \<le> MAX_SCALE" using False by (auto simp: is_zero_def)
  have m: "in_i64 (mantissa a)" "in_i64 (mantissa b)" and sc: "scale a \<le> 18"
    using assms by (simp_all add: decimal_ok_def MAX_SCALE_def)
  have eq: "checked_div a b s = (if \<bar>shift\<bar> > 38 \<or> n > u128_max \<or> d > u128_max then None
      else signed_result ?neg (round_off (n div d) 1 (n mod d \<noteq> 0)) s)"
    using shifted_fits [OF m(1), of 0] shifted_fits [OF m(2), of 0]
    by (intro checked_div_eq b s shift_def n_def d_def) simp_all
  have "0 < d" using b by (simp add: d_def)
  moreover have "\<bar>val a / val b * 10 ^ s\<bar> * 10 = of_nat n / of_nat d"
    unfolding n_def d_def by (rule scaled_quotient [OF b shift_def])
  ultimately have near: "nearest_even \<bar>val a / val b * 10 ^ s\<bar> (int (round_off (n div d) 1 (n mod d \<noteq> 0)))"
    by (rule quotient_rounded)
  have sgn: "val a / val b * 10 ^ s < 0 \<Longrightarrow> ?neg" "val a / val b * 10 ^ s > 0 \<Longrightarrow> \<not> ?neg"
    by (auto simp: val_def mult_less_0_iff divide_less_0_iff zero_less_divide_iff zero_less_mult_iff)
  note rounded = signed_result_nearest [OF near sgn s]
  show ?thesis
  proof (cases "\<bar>shift\<bar> > 38 \<or> n > u128_max \<or> d > u128_max")
    case True
    have "s + scale b > scale a + 18"
    proof (rule ccontr)
      assume "\<not> s + scale b > scale a + 18"
      then have "nat shift \<le> 19" "nat (- shift) \<le> 19" "\<bar>shift\<bar> \<le> 38"
        using sc by (auto simp: shift_def)
      then show False using True shifted_fits [OF m(1)] shifted_fits [OF m(2)]
        by (auto simp: n_def d_def not_le [symmetric])
    qed
    then show ?thesis using True by (simp add: eq)
  next
    case False
    then show ?thesis using rounded b by (auto simp: eq is_zero_def split: option.splits)
  qed
qed

theorem checked_div_nearest_witness:
  "\<exists>c. checked_div \<lparr>mantissa = 2, scale = 0\<rparr> \<lparr>mantissa = -3, scale = 0\<rparr> 2 = Some c \<and> mantissa c = -67 \<and>
     nearest_even (val \<lparr>mantissa = 2, scale = 0\<rparr> / val \<lparr>mantissa = -3, scale = 0\<rparr> * 10 ^ 2) (-67)"
proof -
  have ok: "decimal_ok \<lparr>mantissa = 2, scale = 0\<rparr>" "decimal_ok \<lparr>mantissa = -3, scale = 0\<rparr>"
    by (simp_all add: decimal_ok_def in_i64_def i64_min_def i64_max_def MAX_SCALE_def)
  have r: "checked_div \<lparr>mantissa = 2, scale = 0\<rparr> \<lparr>mantissa = -3, scale = 0\<rparr> 2 = Some \<lparr>mantissa = -67, scale = 2\<rparr>"
    by (simp add: checked_div_def u128_mul_def u128_max_def round_off_def signed_result_def Let_def
        i64_max_def MAX_SCALE_def)
  from checked_div_nearest [OF ok, of 2] show ?thesis unfolding r by simp
qed

text \<open>
  The digits do run out: 40 divided by 9, with the 9 written to eighteen decimals, is refused
  at eighteen decimals although the quotient fits.
\<close>

lemma checked_div_refuses_fitting:
  "checked_div \<lparr>mantissa = 40, scale = 0\<rparr> \<lparr>mantissa = 9 * 10 ^ 18, scale = 18\<rparr> 18 = None \<and>
   val \<lparr>mantissa = 9 * 10 ^ 18, scale = 18\<rparr> = 9 \<and>
   checked_div \<lparr>mantissa = 40, scale = 0\<rparr> \<lparr>mantissa = 9, scale = 0\<rparr> 18 =
     Some \<lparr>mantissa = 4444444444444444444, scale = 18\<rparr>"
  by (simp add: checked_div_def u128_mul_def u128_max_def round_off_def signed_result_def Let_def
      i64_max_def MAX_SCALE_def val_def)

section \<open>Parsing and printing\<close>

text \<open>The number a string of digits stands for, read on from \<open>a\<close>.\<close>

definition number_from :: "nat \<Rightarrow> string \<Rightarrow> nat" where
  "number_from a ds = foldl (\<lambda>n c. n * 10 + digit_value c) a ds"

lemma number_from_simps [simp]:
  "number_from a [] = a" "number_from a (c # cs) = number_from (a * 10 + digit_value c) cs"
  "number_from a (xs @ ys) = number_from (number_from a xs) ys"
  by (simp_all add: number_from_def)

lemma number_from_ge: "a \<le> number_from a ds"
proof (induction ds arbitrary: a)
  case (Cons c cs)
  have "a \<le> a * 10 + digit_value c" by simp
  also have "\<dots> \<le> number_from (a * 10 + digit_value c) cs" by (rule Cons.IH)
  finally show ?case by simp
qed simp

lemma number_from_shift: "number_from a ds = a * 10 ^ length ds + number_from 0 ds"
proof (induction ds arbitrary: a)
  case (Cons c cs)
  show ?case using Cons.IH [of "a * 10 + digit_value c"] Cons.IH [of "digit_value c"]
    by (simp add: algebra_simps)
qed simp

lemma digit_char_digit:
  assumes "n < 10"
  shows "is_digit (digit_char n)" "digit_value (digit_char n) = n"
  using assms by (simp_all add: is_digit_def digit_value_def digit_char_def)

lemma digits_shape:
  "list_all is_digit (digits n)" "number_from 0 (digits n) = n" "digits n \<noteq> []"
proof (induction n rule: digits.induct)
  case (1 n)
  { case 1
    then show ?case using "1.IH"(1) by (subst digits.simps) (simp add: digit_char_digit)
  next
    case 2
    then show ?case using "1.IH"(2) by (subst digits.simps) (simp add: digit_char_digit)
  next
    case 3
    then show ?case by (subst digits.simps) simp
  }
qed

lemma length_digits: "n < 10 ^ k \<Longrightarrow> 0 < k \<Longrightarrow> length (digits n) \<le> k"
proof (induction n arbitrary: k rule: digits.induct)
  case (1 n)
  show ?case
  proof (cases "n < 10")
    case True
    then show ?thesis using 1(3) by (subst digits.simps) simp
  next
    case False
    then obtain j where k: "k = Suc j" "0 < j" using 1(2) by (cases k; cases "k - 1") auto
    then have "n div 10 < 10 ^ j" using 1(2) by (simp add: less_mult_imp_div_less mult.commute)
    then show ?thesis using 1(1) [OF False _ k(2)] False k(1) by (subst digits.simps) simp
  qed
qed

lemma number_from_zeros: "number_from 0 (replicate k (CHR ''0'')) = 0"
  by (induction k) (simp_all add: digit_value_def)

lemma padded_shape:
  assumes "n < 10 ^ w" and "0 < w"
  shows "list_all is_digit (padded w n)" "number_from 0 (padded w n) = n" "length (padded w n) = w"
  using digits_shape [of n] length_digits [OF assms]
  by (auto simp: padded_def number_from_zeros is_digit_def list_all_iff)

lemma digit_not_special:
  assumes "is_digit c"
  shows "c \<noteq> CHR ''.''" "\<not> is_space c" "\<not> is_sign c" "c \<noteq> CHR ''e''" "c \<noteq> CHR ''E''"
  using assms by (auto simp: is_digit_def is_space_def is_sign_def)

text \<open>Digits are read one by one while the accumulator has room.\<close>

lemma scan_digits_read:
  assumes "list_all is_digit ds" and "number_from (magnitude s) ds < ACCUMULATE_LIMIT"
  shows "scan_digits s (ds @ rest) =
    scan_digits (s\<lparr>magnitude := number_from (magnitude s) ds,
      fraction_digits := fraction_digits s + (if seen_point s then int (length ds) else 0),
      seen_digit := seen_digit s \<or> ds \<noteq> []\<rparr>) rest"
  using assms
proof (induction ds arbitrary: s)
  case (Cons c cs)
  have room: "magnitude s < ACCUMULATE_LIMIT"
    using Cons.prems(2) number_from_ge [of "magnitude s" "c # cs"] by simp
  let ?s = "scan_digit s (digit_value c)"
  have step: "scan_digits s ((c # cs) @ rest) = scan_digits ?s (cs @ rest)"
    using Cons.prems(1) digit_not_special [of c] by simp
  have s: "magnitude ?s = magnitude s * 10 + digit_value c" "seen_point ?s = seen_point s"
    "fraction_digits ?s = fraction_digits s + (if seen_point s then 1 else 0)" "seen_digit ?s"
    using room by (simp_all add: scan_digit_def)
  have "?s\<lparr>magnitude := x, fraction_digits := y, seen_digit := z\<rparr> =
      s\<lparr>magnitude := x, fraction_digits := y, seen_digit := z\<rparr>" for x y z
    using room by (simp add: scan_digit_def)
  then show ?case using Cons.IH [of ?s] Cons.prems unfolding step by (simp add: s add.assoc)
qed simp

lemma trailing_space:
  assumes "list_all is_space post"
  shows "scan_digits s post = Some (s, post)" "read_exponent post = Some (0, post)"
    "dropWhile is_space post = []"
proof -
  show "scan_digits s post = Some (s, post)" "read_exponent post = Some (0, post)"
    using assms by (cases post; force simp: is_space_def is_digit_def read_exponent_def)+
  show "dropWhile is_space post = []" using assms by (simp add: dropWhile_eq_Nil_conv list_all_iff)
qed

text \<open>The digits of a number without exponent, with or without a decimal point.\<close>

definition unsigned_text :: "string \<Rightarrow> string option \<Rightarrow> string" where
  "unsigned_text whole fraction =
     whole @ (case fraction of None \<Rightarrow> [] | Some ds \<Rightarrow> ''.'' @ ds)"

lemma scan_unsigned:
  assumes "list_all is_digit whole" and "list_all is_digit (case_option [] id fraction)"
    and "list_all is_space post"
    and "number_from 0 (whole @ case_option [] id fraction) < ACCUMULATE_LIMIT"
    and "whole @ case_option [] id fraction \<noteq> []"
  shows "\<exists>s. scan_digits scan_start (unsigned_text whole fraction @ post) = Some (s, post) \<and>
    seen_digit s \<and> magnitude s = number_from 0 (whole @ case_option [] id fraction) \<and>
    fraction_digits s = int (length (case_option [] id fraction)) \<and>
    skipped_integer_digits s = 0 \<and> \<not> dropped_any s"
proof (cases fraction)
  case None
  have "number_from (magnitude scan_start) whole < ACCUMULATE_LIMIT"
    using assms(4) None by (simp add: scan_start_def)
  from scan_digits_read [OF assms(1) this, of post] show ?thesis
    using None assms(5) trailing_space [OF assms(3)] by (simp add: unsigned_text_def scan_start_def)
next
  case (Some ds)
  have fits: "number_from (magnitude scan_start) whole < ACCUMULATE_LIMIT"
    using assms(4) Some number_from_ge [of "number_from 0 whole" ds] by (simp add: scan_start_def)
  define s where "s = scan_start\<lparr>magnitude := number_from 0 whole, seen_digit := whole \<noteq> [], seen_point := True\<rparr>"
  have "scan_digits scan_start (whole @ ''.'' @ ds @ post) = scan_digits s (ds @ post)"
    using scan_digits_read [OF assms(1) fits, of "''.'' @ ds @ post"] by (simp add: scan_start_def s_def)
  moreover have "list_all is_digit ds" "number_from (magnitude s) ds < ACCUMULATE_LIMIT"
    using assms(2,4) Some by (simp_all add: s_def)
  ultimately show ?thesis
    using Some assms(5) scan_digits_read [of ds s post] trailing_space [OF assms(3)]
    by (simp add: unsigned_text_def s_def scan_start_def)
qed

lemma unsigned_text_head:
  assumes "list_all is_digit whole" and "whole @ case_option [] id fraction \<noteq> []"
  shows "\<exists>c cs. unsigned_text whole fraction = c # cs \<and> \<not> is_space c \<and> \<not> is_sign c"
  using assms digit_not_special
  by (cases whole; cases fraction) (auto simp: unsigned_text_def is_space_def is_sign_def)

lemma fit_stops: "int m \<le> i64_max \<Longrightarrow> fit m k = Inr (m, k)"
  by (cases k) simp_all

lemma place_fits:
  assumes "int m \<le> i64_max" and "k \<le> MAX_SCALE"
  shows "place neg m (int k) = Inr \<lparr>mantissa = (if neg then - int m else int m), scale = k\<rparr>"
proof -
  from fit_stops [OF assms(1)] show ?thesis using assms(2) by (simp add: place_def)
qed

lemma from_ascii_placed:
  assumes "list_all is_space pre" and "list_all is_space post" and "sign = [] \<or> sign = ''+'' \<or> sign = ''-''"
    and "list_all is_digit whole" and "list_all is_digit (case_option [] id fraction)"
    and "whole @ case_option [] id fraction \<noteq> []"
    and "number_from 0 (whole @ case_option [] id fraction) < ACCUMULATE_LIMIT"
  shows "from_ascii (pre @ sign @ unsigned_text whole fraction @ post) =
    place (sign = ''-'') (number_from 0 (whole @ case_option [] id fraction))
      (int (length (case_option [] id fraction)))"
proof -
  let ?n = "number_from 0 (whole @ case_option [] id fraction)"
  define body where "body = unsigned_text whole fraction @ post"
  obtain c cs where head: "body = c # cs" "\<not> is_space c" "\<not> is_sign c"
    using unsigned_text_head [OF assms(4,6)] by (auto simp: body_def)
  have sign_space: "\<not> is_space (CHR ''+'')" "\<not> is_space (CHR ''-'')" by (simp_all add: is_space_def)
  have "dropWhile is_space (pre @ sign @ body) = dropWhile is_space (sign @ body)"
    using assms(1) by (simp add: list_all_iff dropWhile_append2)
  also have "\<dots> = sign @ body" using assms(3) sign_space head(1,2) by (elim disjE) simp_all
  finally have stripped: "dropWhile is_space (pre @ sign @ body) = sign @ body" .
  have signed: "(sign @ body \<noteq> [] \<and> is_sign (hd (sign @ body))) = (sign \<noteq> [])"
    "(if sign \<noteq> [] then tl (sign @ body) else sign @ body) = body"
    "(sign \<noteq> [] \<and> hd (sign @ body) = CHR ''-'') = (sign = ''-'')"
    using assms(3) head by (auto simp: is_sign_def)
  obtain s where s: "scan_digits scan_start body = Some (s, post)" "seen_digit s" "magnitude s = ?n"
    "fraction_digits s = int (length (case_option [] id fraction))"
    "skipped_integer_digits s = 0" "\<not> dropped_any s"
    using scan_unsigned [OF assms(4,5,2,7,6)] unfolding body_def by blast
  have "from_ascii (pre @ sign @ body) = place (sign = ''-'') ?n (int (length (case_option [] id fraction)))"
    using trailing_space(2,3) [OF assms(2)] s
    unfolding from_ascii_def stripped Let_def signed by (simp add: rounded_magnitude_def)
  then show ?thesis by (simp add: body_def)
qed

text \<open>
  Any number written without an exponent, with a sign or without, surrounded by white space
  or not, with leading zeros or not, parses to exactly its digits at the number of decimals it
  was written with, whenever the type can hold it.
\<close>

lemma from_ascii_text:
  assumes "list_all is_space pre" and "list_all is_space post" and "sign = [] \<or> sign = ''+'' \<or> sign = ''-''"
    and "list_all is_digit whole" and "list_all is_digit (case_option [] id fraction)"
    and "whole @ case_option [] id fraction \<noteq> []"
    and "int (number_from 0 (whole @ case_option [] id fraction)) \<le> i64_max"
    and "length (case_option [] id fraction) \<le> MAX_SCALE"
  shows "from_ascii (pre @ sign @ unsigned_text whole fraction @ post) =
    Inr \<lparr>mantissa = (if sign = ''-'' then -1 else 1) * int (number_from 0 (whole @ case_option [] id fraction)),
         scale = length (case_option [] id fraction)\<rparr>"
proof -
  have "number_from 0 (whole @ case_option [] id fraction) < ACCUMULATE_LIMIT"
    using assms(7) by (simp add: ACCUMULATE_LIMIT_def u128_max_def i64_max_def)
  from from_ascii_placed [OF assms(1-6) this] show ?thesis
    using place_fits [OF assms(7,8)] by simp
qed

lemma display_text:
  "display d = (if mantissa d < 0 then ''-'' else []) @
     unsigned_text (digits (nat \<bar>mantissa d\<bar> div 10 ^ scale d))
       (if scale d = 0 then None else Some (padded (scale d) (nat \<bar>mantissa d\<bar> mod 10 ^ scale d)))"
  by (simp add: display_def Let_def unsigned_text_def)

lemma display_placed:
  assumes "decimal_ok d"
  shows "from_ascii (display d) = place (mantissa d < 0) (nat \<bar>mantissa d\<bar>) (int (scale d))"
proof -
  let ?m = "nat \<bar>mantissa d\<bar>" and ?s = "scale d" and ?sign = "if mantissa d < 0 then ''-'' else []"
  define fraction where "fraction = (if ?s = 0 then None else Some (padded ?s (?m mod 10 ^ ?s)))"
  have fr: "list_all is_digit (case_option [] id fraction)" "length (case_option [] id fraction) = ?s"
    "number_from 0 (case_option [] id fraction) = ?m mod 10 ^ ?s"
    using padded_shape [of "?m mod 10 ^ ?s" ?s] by (auto simp: fraction_def)
  have n: "number_from 0 (digits (?m div 10 ^ ?s) @ case_option [] id fraction) = ?m"
    using fr(2,3) digits_shape(2) number_from_shift [of "?m div 10 ^ ?s" "case_option [] id fraction"]
      div_mult_mod_eq [of ?m "10 ^ ?s"] by simp
  moreover have "?m < ACCUMULATE_LIMIT"
    using assms i64_small [of "mantissa d"] by (simp add: decimal_ok_def ACCUMULATE_LIMIT_def u128_max_def)
  ultimately have "from_ascii ([] @ ?sign @ unsigned_text (digits (?m div 10 ^ ?s)) fraction @ []) =
      place (?sign = ''-'') ?m (int ?s)"
    using fr digits_shape [of "?m div 10 ^ ?s"] by (subst from_ascii_placed) auto
  then show ?thesis unfolding display_text fraction_def by (simp split: if_splits)
qed

text \<open>
  C13. What is printed parses back to the same value at the same scale, digit for digit, except for
  the one mantissa whose negation does not fit.
\<close>

theorem display_roundtrip:
  assumes "decimal_ok d" and "mantissa d \<noteq> i64_min"
  shows "from_ascii (display d) = Inr d"
proof -
  have "int (nat \<bar>mantissa d\<bar>) \<le> i64_max" "scale d \<le> MAX_SCALE"
    using assms by (auto simp: decimal_ok_def in_i64_def i64_max_def i64_min_def)
  from place_fits [OF this] show ?thesis unfolding display_placed [OF assms(1)] by (cases d) simp
qed

theorem display_roundtrip_witness:
  "from_ascii ''-2935.600'' = Inr \<lparr>mantissa = -2935600, scale = 3\<rparr>"
proof -
  have "decimal_ok \<lparr>mantissa = -2935600, scale = 3\<rparr>" "mantissa \<lparr>mantissa = -2935600, scale = 3\<rparr> \<noteq> i64_min"
    by (simp_all add: decimal_ok_def in_i64_def i64_min_def i64_max_def MAX_SCALE_def)
  moreover have "display \<lparr>mantissa = -2935600, scale = 3\<rparr> = ''-2935.600''" by code_simp
  ultimately show ?thesis using display_roundtrip [of "\<lparr>mantissa = -2935600, scale = 3\<rparr>"] by simp
qed

text \<open>
  The exception: the smallest mantissa prints and does not read back. Without decimals the
  text is refused as out of range, and with one it reads as a different number.
\<close>

lemma display_smallest_mantissa:
  "decimal_ok \<lparr>mantissa = i64_min, scale = 0\<rparr> \<and> decimal_ok \<lparr>mantissa = i64_min, scale = 1\<rparr> \<and>
   from_ascii (display \<lparr>mantissa = i64_min, scale = 0\<rparr>) = Inl Overflow \<and>
   from_ascii (display \<lparr>mantissa = i64_min, scale = 1\<rparr>) =
     Inr \<lparr>mantissa = -922337203685477581, scale = 0\<rparr> \<and>
   val \<lparr>mantissa = i64_min, scale = 1\<rparr> \<noteq> val \<lparr>mantissa = -922337203685477581, scale = 0\<rparr>"
proof (intro conjI)
  show "from_ascii (display \<lparr>mantissa = i64_min, scale = 0\<rparr>) = Inl Overflow"
    using display_placed [of "\<lparr>mantissa = i64_min, scale = 0\<rparr>"]
    by (simp add: i64_min_def i64_max_def in_i64_def decimal_ok_def place_def MAX_SCALE_def)
  have "fit (2 ^ 63) (Suc 0) = Inr (922337203685477581, 0)"
    by (simp add: i64_max_def round_off_def Let_def)
  then show "from_ascii (display \<lparr>mantissa = i64_min, scale = 1\<rparr>) =
      Inr \<lparr>mantissa = -922337203685477581, scale = 0\<rparr>"
    using display_placed [of "\<lparr>mantissa = i64_min, scale = 1\<rparr>"]
    by (simp add: i64_min_def i64_max_def in_i64_def decimal_ok_def place_def MAX_SCALE_def)
qed (simp_all add: decimal_ok_def in_i64_def i64_min_def i64_max_def MAX_SCALE_def val_def)

text \<open>
  Excess decimals are dropped in two steps, each rounding to the nearest, and that is not
  rounding to the nearest: this text is rounded up at its nineteenth significant digit although
  what follows it is below half.
\<close>

theorem from_ascii_rounds_twice:
  "from_ascii ''12.3456789012345678949'' = Inr \<lparr>mantissa = 1234567890123456790, scale = 17\<rparr> \<and>
   nearest_even (123456789012345678949 / 10 ^ 19 * 10 ^ 17) 1234567890123456789"
proof
  have "fit 12345678901234567895 18 = Inr (1234567890123456790, 17)"
    using fit.simps(2) [of 12345678901234567895 17] fit_stops [of 1234567890123456790 17]
    by (simp add: i64_max_def round_off_def Let_def)
  then show "from_ascii ''12.3456789012345678949'' = Inr \<lparr>mantissa = 1234567890123456790, scale = 17\<rparr>"
    using from_ascii_placed [of "[]" "[]" "[]" "''12''" "Some ''3456789012345678949''"]
    by (simp add: is_digit_def digit_value_def unsigned_text_def ACCUMULATE_LIMIT_def u128_max_def
        place_def MAX_SCALE_def round_off_def Let_def)
qed (simp add: nearest_even_def)

end
