(* ===== verification/Driver.thy ===== *)
theory Driver
  imports Engine_Timers Ws_Codec Decimal
begin

text \<open>
  \<open>transport/connection.rs\<close>: the loop that couples a WebSocket to an engine.

  The driver is the record \<open>driver\<close>: the engine, the callers waiting for an answer under the token
  of their call, and the timers the engine asked for. A caller is the number of its reply channel.
  What leaves the driver is kept in lists: the messages given to the socket, the answers given to
  callers, the requests given to handler tasks, the events announced. \<open>dr_taken\<close> lists the callers
  whose command the driver has taken; no operation reads it.

  \<open>session_loop\<close> runs over a script: what the socket lets through in each turn, and which branch
  of the \<open>select!\<close> is taken, at what time. Every order of the branches is a script. Texts of reasons
  for a log are left out; a text of OCPP is a list of characters on the engine's side and of the
  message, its bytes are the codec's matter.

  The lemmas show that every caller is answered exactly once, that the driver's timers are the
  engine's, and what a connection that breaks in the middle of a flush leaves for the next one.
\<close>

section \<open>State\<close>

datatype wire_message =
    WireText string
  | WireBinary bytes
  | WirePing bytes
  | WirePong bytes
  | WireClose "(nat \<times> string) option"

type_synonym call_answer = "call_failure + answer \<times> message_id option"

datatype driver_command =
    DriverCall string raw_value call_options nat
  | DriverRespond message_id "call_error + raw_value"
  | DriverRejectResult message_id call_error
  | DriverShutdown duration

datatype driver_notice =
    NoticeConnected version
  | NoticeDisconnected
  | NoticeBootState boot_state
  | NoticeClockSample clock_sample
  | NoticeViolation protocol_violation
  | NoticeResultRejected message_id call_error

record session_state =
  ss_connected :: bool
  ss_version :: version
  ss_boot :: boot_state
  ss_queued :: nat

datatype ended = EndedDisconnected | EndedClosed close_reason

record keepalive =
  ka_interval :: "duration option"
  ka_timeout :: duration

definition keepalive_default :: keepalive where
  "keepalive_default = \<lparr>ka_interval = Some (from_secs 60), ka_timeout = from_secs 30\<rparr>"

definition keepalive_every :: "duration \<Rightarrow> keepalive" where
  "keepalive_every d = keepalive_default\<lparr>ka_interval := Some d\<rparr>"

definition keepalive_disabled :: keepalive where
  "keepalive_disabled = \<lparr>ka_interval = None, ka_timeout = 0\<rparr>"

definition keepalive_with_timeout :: "duration \<Rightarrow> keepalive \<Rightarrow> keepalive" where
  "keepalive_with_timeout d k = k\<lparr>ka_timeout := d\<rparr>"

record ('s, 'g) driver =
  dr_engine :: "('s, 'g) engine"
  dr_pending :: "(call_token \<times> nat) list"
  dr_timers :: "timer \<Rightarrow> instant option"
  dr_pong_due :: "instant option"
  dr_state :: session_state
  dr_wire :: "wire_message list"
  dr_answers :: "(nat \<times> call_answer) list"
  dr_tasks :: "incoming_request list"
  dr_notices :: "driver_notice list"
  dr_taken :: "nat list"

definition driver_new :: "('s, 'g) engine \<Rightarrow> ('s, 'g) driver" where
  "driver_new e =
     \<lparr>dr_engine = e, dr_pending = [], dr_timers = (\<lambda>_. None), dr_pong_due = None,
      dr_state = \<lparr>ss_connected = False, ss_version = c_version (config e), ss_boot = BootIdle, ss_queued = 0\<rparr>,
      dr_wire = [], dr_answers = [], dr_tasks = [], dr_notices = [], dr_taken = []\<rparr>"

definition notify :: "driver_notice \<Rightarrow> ('s, 'g) driver \<Rightarrow> ('s, 'g) driver" where
  "notify n d = d\<lparr>dr_notices := dr_notices d @ [n]\<rparr>"

definition write_wire :: "wire_message \<Rightarrow> ('s, 'g) driver \<Rightarrow> ('s, 'g) driver" where
  "write_wire m d = d\<lparr>dr_wire := dr_wire d @ [m]\<rparr>"

definition answer_caller :: "nat \<Rightarrow> call_answer \<Rightarrow> ('s, 'g) driver \<Rightarrow> ('s, 'g) driver" where
  "answer_caller c r d = d\<lparr>dr_answers := dr_answers d @ [(c, r)]\<rparr>"

definition publish :: "bool \<Rightarrow> version \<Rightarrow> ('s, 'g) driver \<Rightarrow> ('s, 'g) driver" where
  "publish c v d =
     d\<lparr>dr_state := \<lparr>ss_connected = c, ss_version = v, ss_boot = boot (dr_engine d),
        ss_queued = queued (dr_engine d)\<rparr>\<rparr>"

definition next_deadline :: "('s, 'g) driver \<Rightarrow> instant set" where
  "next_deadline d = {due. \<exists>k. dr_timers d k = Some due}"

definition forget :: "call_token \<Rightarrow> (call_token \<times> nat) list \<Rightarrow> (call_token \<times> nat) list" where
  "forget t ps = filter (\<lambda>p. fst p \<noteq> t) ps"

definition abandon :: "call_failure \<Rightarrow> ('s, 'g) driver \<Rightarrow> ('s, 'g) driver" where
  "abandon why d =
     d\<lparr>dr_pending := [], dr_answers := dr_answers d @ map (\<lambda>(_, caller). (caller, Inl why)) (dr_pending d)\<rparr>"

section \<open>Commands\<close>

fun engine_error_text :: "engine_error \<Rightarrow> string" where
  "engine_error_text (UnknownAction a) = ''unknown action '' @ debug_str a"
| "engine_error_text (WrongDirectionError a) = ''this peer may not originate '' @ debug_str a"
| "engine_error_text (SendNotSupported a) = debug_str a @ '' is a SEND, which needs OCPP 2.1''"
| "engine_error_text (WrongMessageKindError a) =
     debug_str a @ '' was submitted with the wrong message kind''"
| "engine_error_text (NoSuchRequest i) = ''no outstanding request with id '' @ i"
| "engine_error_text CallResultErrorNotSupported = ''CALLRESULTERROR needs OCPP 2.1''"
| "engine_error_text ShuttingDown = ''engine is draining''"

fun apply_command :: "('s, 'g) env \<Rightarrow> instant \<Rightarrow> driver_command \<Rightarrow> ('s, 'g) driver \<Rightarrow> ('s, 'g) driver" where
  "apply_command v t (DriverCall action payload options caller) d0 =
     (let d = d0\<lparr>dr_taken := caller # dr_taken d0\<rparr> in
      case call_with v t action payload options (dr_engine d) of
        (Inr token, e) \<Rightarrow>
          d\<lparr>dr_engine := e, dr_pending := (token, caller) # forget token (dr_pending d)\<rparr>
      | (Inl err, e) \<Rightarrow>
          answer_caller caller (Inl (PeerRejected (internal_error (engine_error_text err)))) (d\<lparr>dr_engine := e\<rparr>))"
| "apply_command v t (DriverRejectResult i err) d =
     d\<lparr>dr_engine := snd (reject_result v t i err (dr_engine d))\<rparr>"
| "apply_command v t (DriverRespond i r) d =
     (case (case r of
              Inr payload \<Rightarrow> respond v t i payload (dr_engine d)
            | Inl err \<Rightarrow> respond_error v t i err (dr_engine d)) of
        (Inr _, e) \<Rightarrow> d\<lparr>dr_engine := e\<rparr>
      | (Inl err, e) \<Rightarrow>
          notify (NoticeViolation (UnexpectedResponse (case err of NoSuchRequest j \<Rightarrow> j | _ \<Rightarrow> i)))
            (d\<lparr>dr_engine := e\<rparr>))"
| "apply_command v t (DriverShutdown deadline) d =
     d\<lparr>dr_engine := shutdown t (instant_add t deadline) (dr_engine d)\<rparr>"

section \<open>Flushing\<close>

fun deliver :: "engine_output \<Rightarrow> ('s, 'g) driver \<Rightarrow> ('s, 'g) driver" where
  "deliver (Request r) d = d\<lparr>dr_tasks := dr_tasks d @ [r]\<rparr>"
| "deliver (Outcome oc) d =
     (case map_of (dr_pending d) (co_token oc) of
        Some caller \<Rightarrow>
          answer_caller caller
            (case co_result oc of Inl why \<Rightarrow> Inl why | Inr a \<Rightarrow> Inr (a, co_id oc))
            (d\<lparr>dr_pending := forget (co_token oc) (dr_pending d)\<rparr>)
      | None \<Rightarrow> d)"
| "deliver (SetTimer k due) d = d\<lparr>dr_timers := (dr_timers d)(k \<mapsto> due)\<rparr>"
| "deliver (ClearTimer k) d = d\<lparr>dr_timers := (dr_timers d)(k := None)\<rparr>"
| "deliver (BootStateChanged b) d = notify (NoticeBootState b) d"
| "deliver (ClockSampled s) d = notify (NoticeClockSample s) d"
| "deliver (ResultRejected i err) d = notify (NoticeResultRejected i err) d"
| "deliver (Violation x) d = notify (NoticeViolation x) d"
| "deliver (Transmit text) d = write_wire (WireText text) d"
| "deliver (engine_output.Close cr) d = d"

text \<open>
  What the socket does in one flush: how many messages it takes before one is refused (\<open>None\<close>:
  it takes all of them), and whether the flush of the socket at the end succeeds.
\<close>

record sink_fate =
  sf_feeds :: "nat option"
  sf_flush :: bool

definition sink_works :: sink_fate where
  "sink_works = \<lparr>sf_feeds = None, sf_flush = True\<rparr>"

definition refuses :: "nat option \<Rightarrow> engine_output \<Rightarrow> bool" where
  "refuses room x \<longleftrightarrow> room = Some 0 \<and> (case x of Transmit _ \<Rightarrow> True | _ \<Rightarrow> False)"

definition room_after :: "nat option \<Rightarrow> engine_output \<Rightarrow> nat option" where
  "room_after room x = (case x of Transmit _ \<Rightarrow> map_option (\<lambda>n. n - 1) room | _ \<Rightarrow> room)"

definition close_after :: "close_reason option \<Rightarrow> engine_output \<Rightarrow> close_reason option" where
  "close_after c x = (case x of engine_output.Close cr \<Rightarrow> Some cr | _ \<Rightarrow> c)"

lemma engine_deliver [simp]: "dr_engine (deliver x d) = dr_engine d"
  by (cases x) (simp_all add: notify_def write_wire_def answer_caller_def split: option.split)

text \<open>The loop of \<open>flush\<close>: the flag is false when the socket refused a message.\<close>

function flush_loop ::
  "nat option \<Rightarrow> close_reason option \<Rightarrow> ('s, 'g) driver \<Rightarrow> bool \<times> close_reason option \<times> ('s, 'g) driver" where
  "flush_loop room c d =
     (case poll_output (dr_engine d) of
        (None, e) \<Rightarrow> (True, c, d)
      | (Some x, e) \<Rightarrow>
          if refuses room x then (False, c, d\<lparr>dr_engine := e\<rparr>)
          else flush_loop (room_after room x) (close_after c x) (deliver x (d\<lparr>dr_engine := e\<rparr>)))"
  by pat_completeness auto

termination
  by (relation "measure (\<lambda>(room, c, d). length (outputs (dr_engine d)))")
    (auto simp: poll_output_def split: list.splits)

declare flush_loop.simps [simp del]

definition wrote :: "wire_message list \<Rightarrow> wire_message list \<Rightarrow> bool" where
  "wrote before after \<longleftrightarrow> length before < length after"

datatype flushed = FlushFailed | Flushed "close_reason option"

definition flush :: "sink_fate \<Rightarrow> ('s, 'g) driver \<Rightarrow> flushed \<times> ('s, 'g) driver" where
  "flush fate d =
     (case flush_loop (sf_feeds fate) None d of
        (False, _, d1) \<Rightarrow> (FlushFailed, d1)
      | (True, c, d1) \<Rightarrow>
          if wrote (dr_wire d) (dr_wire d1) \<and> \<not> sf_flush fate then (FlushFailed, d1)
          else (Flushed c, publish (engine.connected (dr_engine d1)) (version (dr_engine d1)) d1))"

section \<open>One turn of the loop\<close>

datatype driver_event =
    CommandTaken driver_command
  | CommandsClosed
  | MessageRead "(ws_error + wire_message) option"
  | TimersDue
  | PingDue
  | PongOverdue

text \<open>The texts of the socket's errors, which a close frame quotes.\<close>

definition hex_lower :: "u8 \<Rightarrow> string" where
  "hex_lower b =
     (let n = unat b in
      (if n < 16 then [] else [''0123456789abcdef'' ! (n div 16)]) @ [''0123456789abcdef'' ! (n mod 16)])"

fun protocol_error_text :: "protocol_error \<Rightarrow> string" where
  "protocol_error_text ReservedBits = ''a reserved bit was set''"
| "protocol_error_text (ReservedOpcode b) = ''reserved opcode 0x'' @ hex_lower b"
| "protocol_error_text UnmaskedFrameFromClient = ''a client must mask every frame it sends''"
| "protocol_error_text MaskedFrameFromServer = ''a server must not mask the frames it sends''"
| "protocol_error_text FragmentedControlFrame = ''a control frame must not be fragmented''"
| "protocol_error_text ControlFrameTooBig = ''a control frame must be at most 125 bytes''"
| "protocol_error_text UnexpectedContinuation = ''a continuation frame with no message in progress''"
| "protocol_error_text ExpectedContinuation = ''a new data frame while a message was still in progress''"
| "protocol_error_text (FrameTooBig n) = ''a frame of '' @ digits n @ '' bytes is too big''"
| "protocol_error_text MessageTooBig = ''the message is too big''"
| "protocol_error_text NonMinimalLength = ''a payload length that is not minimally encoded''"
| "protocol_error_text InvalidCloseFrame = ''a malformed close frame''"
| "protocol_error_text InvalidCloseReason = ''a close reason that is not UTF-8''"
| "protocol_error_text InvalidUtf8 = ''a text message that is not UTF-8''"
| "protocol_error_text CompressionNotNegotiated =
     ''RSV1 was set but permessage-deflate was not negotiated''"

fun deflate_error_text :: "deflate_error \<Rightarrow> string" where
  "deflate_error_text CompressFailed = ''could not compress the message''"
| "deflate_error_text DecompressFailed = ''the compressed message is corrupt''"
| "deflate_error_text InflatesTooLarge = ''the compressed message inflates past the size limit''"

fun ws_error_text :: "ws_error \<Rightarrow> string" where
  "ws_error_text (WsIo s) = ''i/o error: '' @ s"
| "ws_error_text (WsProtocol e) = ''websocket protocol error: '' @ protocol_error_text e"
| "ws_error_text (WsDeflate e) = ''permessage-deflate: '' @ deflate_error_text e"

text \<open>\<open>on_message\<close>; the flag says whether what is written to the socket goes out.\<close>

definition on_message ::
  "('s, 'g) env \<Rightarrow> instant \<Rightarrow> bool \<Rightarrow> (ws_error + wire_message) option \<Rightarrow> ('s, 'g) driver
    \<Rightarrow> ended option \<times> ('s, 'g) driver" where
  "on_message v t sent m d =
     (case m of
        Some (Inr (WireText text)) \<Rightarrow> (None, d\<lparr>dr_engine := handle v t (Received text) (dr_engine d)\<rparr>)
      | Some (Inr (WirePing payload)) \<Rightarrow>
          if sent then (None, write_wire (WirePong payload) d) else (Some EndedDisconnected, d)
      | Some (Inr (WirePong _)) \<Rightarrow> (None, d)
      | Some (Inr (WireBinary _)) \<Rightarrow> (None, d)
      | Some (Inr (WireClose frame)) \<Rightarrow>
          (Some EndedDisconnected,
           if sent then write_wire (WireClose (map_option (\<lambda>(k, _). (k, [])) frame)) d
           else d)
      | Some (Inl err) \<Rightarrow>
          (Some EndedDisconnected,
           case ws_close_code err of
             Some k \<Rightarrow>
               if sent then write_wire (WireClose (Some (k, ws_error_text err))) d else d
           | None \<Rightarrow> d)
      | None \<Rightarrow> (Some EndedDisconnected, d))"

definition is_pong :: "(ws_error + wire_message) option \<Rightarrow> bool" where
  "is_pong m = (case m of Some (Inr (WirePong _)) \<Rightarrow> True | _ \<Rightarrow> False)"

fun react ::
  "('s, 'g) env \<Rightarrow> keepalive \<Rightarrow> instant \<Rightarrow> bool \<Rightarrow> driver_event \<Rightarrow> ('s, 'g) driver
    \<Rightarrow> ended option \<times> ('s, 'g) driver" where
  "react v ka t sent (CommandTaken cmd) d = (None, apply_command v t cmd d)"
| "react v ka t sent CommandsClosed d = (Some (EndedClosed Requested), d)"
| "react v ka t sent (MessageRead m) d = on_message v t sent m (if is_pong m then d\<lparr>dr_pong_due := None\<rparr> else d)"
| "react v ka t sent TimersDue d =
     (let e = handle v t Timeout (dr_engine d) in
      (None, d\<lparr>dr_engine := e,
        dr_timers := (\<lambda>k. case dr_timers d k of
          Some due \<Rightarrow> if millis due > millis t then Some due else None | None \<Rightarrow> None)\<rparr>))"
| "react v ka t sent PingDue d =
     (let d1 = (if dr_pong_due d = None then d\<lparr>dr_pong_due := Some (instant_add t (ka_timeout ka))\<rparr> else d) in
      if sent then (None, write_wire (WirePing []) d1) else (Some EndedDisconnected, d1))"
| "react v ka t sent PongOverdue d = (Some EndedDisconnected, d)"

text \<open>The branches of the \<open>select!\<close> that can be taken.\<close>

definition ready :: "keepalive \<Rightarrow> instant \<Rightarrow> driver_event \<Rightarrow> ('s, 'g) driver \<Rightarrow> bool" where
  "ready ka t ev d \<longleftrightarrow>
     (case ev of
        TimersDue \<Rightarrow> \<exists>due \<in> next_deadline d. millis due \<le> millis t
      | PingDue \<Rightarrow> ka_interval ka \<noteq> None
      | PongOverdue \<Rightarrow> (case dr_pong_due d of Some due \<Rightarrow> millis due \<le> millis t | None \<Rightarrow> False)
      | _ \<Rightarrow> True)"

type_synonym turn = "sink_fate \<times> instant \<times> bool \<times> driver_event"

text \<open>\<open>None\<close>: the script is over and the connection is up.\<close>

fun session_loop ::
  "('s, 'g) env \<Rightarrow> keepalive \<Rightarrow> turn list \<Rightarrow> ('s, 'g) driver \<Rightarrow> ended option \<times> ('s, 'g) driver" where
  "session_loop v ka [] d = (None, d)"
| "session_loop v ka ((fate, t, sent, ev) # turns) d =
     (case flush fate d of
        (FlushFailed, d1) \<Rightarrow> (Some EndedDisconnected, d1)
      | (Flushed (Some cr), d1) \<Rightarrow> (Some (EndedClosed cr), d1)
      | (Flushed None, d1) \<Rightarrow>
          (case react v ka t sent ev d1 of
             (Some how, d2) \<Rightarrow> (Some how, d2)
           | (None, d2) \<Rightarrow> session_loop v ka turns d2))"

definition session_start :: "('s, 'g) env \<Rightarrow> instant \<Rightarrow> version \<Rightarrow> ('s, 'g) driver \<Rightarrow> ('s, 'g) driver" where
  "session_start v t w d =
     (let d1 = d\<lparr>dr_engine := handle v t (Connected w) (dr_engine d), dr_pong_due := None\<rparr>
      in notify (NoticeConnected w) (publish True w d1))"

definition session_end ::
  "('s, 'g) env \<Rightarrow> instant \<Rightarrow> version \<Rightarrow> sink_fate \<Rightarrow> ended \<Rightarrow> ('s, 'g) driver \<Rightarrow> ('s, 'g) driver" where
  "session_end v t w fate how d =
     (let d1 = d\<lparr>dr_engine := handle v t DisconnectedInput (dr_engine d)\<rparr>;
          d2 = notify NoticeDisconnected (publish False w (snd (flush fate d1)))
      in case how of
           EndedClosed _ \<Rightarrow> if sf_flush fate then write_wire (WireClose (Some (NORMAL, []))) d2 else d2
         | EndedDisconnected \<Rightarrow> d2)"

record connection =
  cn_start :: instant
  cn_version :: version
  cn_turns :: "turn list"
  cn_end :: instant
  cn_last :: sink_fate

definition run_connection ::
  "('s, 'g) env \<Rightarrow> keepalive \<Rightarrow> ('s, 'g) driver \<Rightarrow> connection \<Rightarrow> ('s, 'g) driver" where
  "run_connection v ka d c =
     (case session_loop v ka (cn_turns c) (session_start v (cn_start c) (cn_version c) d) of
        (Some how, d1) \<Rightarrow> session_end v (cn_end c) (cn_version c) (cn_last c) how d1
      | (None, d1) \<Rightarrow> d1)"


section \<open>What the engine's operations do to its tokens\<close>

lemma tokens_call_with:
  "(\<exists>err. fst (call_with v t a p opts e) = Inl err \<and> next_token (snd (call_with v t a p opts e)) = next_token e) \<or>
   (fst (call_with v t a p opts e) = Inr (next_token e) \<and>
    next_token (snd (call_with v t a p opts e)) = Suc (next_token e))"
proof (cases rule: call_with_cases [of v t a p opts e])
  case (refused err)
  then show ?thesis by (simp add: frame_simps)
next
  case (answered e1 why)
  then show ?thesis
    by (auto simp: fail_def frame_simps minted_def persist_call_def split: if_splits prod.splits sum.splits)
next
  case (queued k q e2 e3)
  then show ?thesis
    by (auto simp: frame_simps minted_def persist_call_def remember_solicited_def Let_def
        split: if_splits prod.splits sum.splits)
qed

lemma mono_call_with: "next_token e \<le> next_token (snd (call_with v t a p opts e))"
  using tokens_call_with [of v t a p opts e] by auto

lemma mono_call_timeout_due: "next_token (call_timeout_due v e) = next_token e"
  by (simp add: call_timeout_due_def frame_simps split: option.split)

lemma mono_heartbeat_due: "next_token e \<le> next_token (heartbeat_due v e)"
  using mono_call_with [of "e\<lparr>heartbeat_at := None\<rparr>"]
  by (auto simp: heartbeat_due_def send_heartbeat_def Let_def frame_simps split: option.split)

lemma mono_on_timeout: "next_token e \<le> next_token (on_timeout v e)"
proof -
  have "next_token (boot_retry_due x) = next_token x" for x :: "('a, 'b) engine"
    by (simp add: boot_retry_due_def frame_simps split: option.split)
  then show ?thesis
    using mono_heartbeat_due [of "call_timeout_due v e" v]
    by (simp add: on_timeout_def Let_def frame_simps mono_call_timeout_due)
qed

lemma mono_on_call: "next_token (on_call v i a p k e) = next_token e"
proof (cases rule: on_call_cases [of v i a p k e])
  case (rejected c e1)
  then show ?thesis by (auto simp: frame_simps)
next
  case (served e1 e2)
  have "e1 = e \<or> e1 = snd (peer_call_refused i e)" using served(3) by (auto split: if_splits)
  then show ?thesis using served(1,2) by (auto simp: frame_simps)
qed

lemma mono_take_inflight: "take_inflight i e = (r, e1) \<Longrightarrow> next_token e1 = next_token e"
  by (auto simp: take_inflight_def split: option.splits if_splits)

lemma mono_on_response:
  "next_token (on_call_result v i p e) = next_token e" "next_token (on_call_error v i err e) = next_token e"
proof -
  obtain r e1 where r: "take_inflight i e = (r, e1)" by fastforce
  then show "next_token (on_call_result v i p e) = next_token e" "next_token (on_call_error v i err e) = next_token e"
    using mono_take_inflight [OF r]
    by (auto simp: on_call_result_def on_call_error_def Let_def frame_simps split: option.split)
qed

lemma mono_on_received: "next_token (on_received v text e) = next_token e"
proof -
  have "next_token (on_malformed v err x) = next_token x" for err and x :: "('a, 'b) engine"
    by (simp add: on_malformed_def Let_def frame_simps split: frame_reply.split)
  then show ?thesis
    by (simp add: on_received_def Let_def frame_simps mono_on_call mono_on_response split: sum.split frame.split)
qed

lemma mono_handle: "next_token e \<le> next_token (handle v t i e)"
proof -
  have "next_token (on_disconnected v x) = next_token x" for x :: "('a, 'b) engine"
    by (simp add: on_disconnected_def Let_def frame_simps split: option.split)
  moreover have "next_token (on_connected v w x) = next_token x" for w and x :: "('a, 'b) engine"
    by (simp add: on_connected_def frame_simps)
  ultimately show ?thesis
    using mono_on_timeout [of "advance t e" v]
    by (simp add: handle_def Let_def frame_simps mono_on_received split: engine_input.split)
qed

lemma mono_answers:
  "next_token (snd (respond v t i p e)) = next_token e" "next_token (snd (respond_error v t i err e)) = next_token e"
  "next_token (snd (reject_result v t i err e)) = next_token e" "next_token (shutdown t due e) = next_token e"
  by (simp_all add: respond_def respond_error_def reject_result_def shutdown_def take_peer_request_def Let_def frame_simps)

section \<open>Every caller is answered once\<close>

text \<open>
  \<open>b\<close> holds the tokens of the outcomes the driver has taken from the engine: the callers still
  waiting have other tokens, and with the answers given they are the callers taken.
\<close>

definition books_kept :: "call_token multiset \<Rightarrow> ('s, 'g) driver \<Rightarrow> bool" where
  "books_kept b d \<longleftrightarrow> accounted b (dr_engine d) \<and> distinct (map fst (dr_pending d)) \<and>
     (\<forall>(t, c) \<in> set (dr_pending d). t < next_token (dr_engine d) \<and> t \<notin># b) \<and>
     mset (map fst (dr_answers d)) + mset (map snd (dr_pending d)) = mset (dr_taken d)"

definition in_order :: "('s, 'g) driver \<Rightarrow> bool" where
  "in_order d \<longleftrightarrow> (\<exists>b. books_kept b d)"

lemma forget_absent: "t \<notin> fst ` set ps \<Longrightarrow> forget t ps = ps"
  by (induction ps) (auto simp: forget_def)

lemma forget_present:
  "distinct (map fst ps) \<Longrightarrow> map_of ps t = Some c \<Longrightarrow>
   mset (map snd ps) = add_mset c (mset (map snd (forget t ps)))"
proof (induction ps)
  case (Cons p ps)
  then show ?case by (cases "fst p = t") (auto simp: forget_def forget_absent [unfolded forget_def] image_iff)
qed simp

lemma forget_distinct: "distinct (map fst ps) \<Longrightarrow> distinct (map fst (forget t ps))"
  by (induction ps) (auto simp: forget_def)

lemma books_engine:
  assumes "books_kept b d" and "accounted b e" and "next_token (dr_engine d) \<le> next_token e"
  shows "books_kept b (d\<lparr>dr_engine := e\<rparr>)"
  using assms by (fastforce simp: books_kept_def)

lemma books_aside:
  "books_kept b (notify n d) = books_kept b d" "books_kept b (write_wire m d) = books_kept b d"
  "books_kept b (publish c w d) = books_kept b d" "books_kept b (d\<lparr>dr_pong_due := x\<rparr>) = books_kept b d"
  "books_kept b (d\<lparr>dr_timers := ts\<rparr>) = books_kept b d" "books_kept b (d\<lparr>dr_tasks := rs\<rparr>) = books_kept b d"
  by (simp_all add: books_kept_def notify_def write_wire_def publish_def)

lemma books_apply:
  assumes "books_kept b d"
  shows "books_kept b (apply_command v t cmd d)"
proof (cases cmd)
  case (DriverCall a p opts caller)
  let ?e = "dr_engine d" and ?r = "call_with v t a p opts (dr_engine d)"
  have acc: "accounted b (snd ?r)"
    using assms by (simp add: books_kept_def inv_intros)
  have below: "x < next_token ?e" if "x \<in># b" for x
  proof -
    have "x \<in># mset [0..<next_token ?e]"
      using assms that by (metis accounted_def books_kept_def union_iff)
    then show ?thesis by simp
  qed
  consider (no) err where "fst ?r = Inl err" "next_token (snd ?r) = next_token ?e"
    | (yes) "fst ?r = Inr (next_token ?e)" "next_token (snd ?r) = Suc (next_token ?e)"
    using tokens_call_with by blast
  then show ?thesis
  proof cases
    case no
    then have "apply_command v t cmd d =
        answer_caller caller (Inl (PeerRejected (internal_error (engine_error_text err))))
          (d\<lparr>dr_taken := caller # dr_taken d, dr_engine := snd ?r\<rparr>)"
      using DriverCall by (cases ?r) (simp add: Let_def)
    then show ?thesis
      using assms acc no by (simp add: books_kept_def answer_caller_def)
  next
    case yes
    let ?t = "next_token ?e"
    have fresh: "?t \<notin> fst ` set (dr_pending d)" using assms by (fastforce simp: books_kept_def)
    have "apply_command v t cmd d =
        d\<lparr>dr_taken := caller # dr_taken d, dr_engine := snd ?r, dr_pending := (?t, caller) # dr_pending d\<rparr>"
      using DriverCall yes by (cases ?r) (simp add: Let_def forget_absent [OF fresh])
    then show ?thesis
      using assms acc yes(2) fresh below [of ?t] by (auto simp: books_kept_def image_iff less_Suc_eq split: prod.splits)
  qed
next
  case (DriverRespond i r)
  have "books_kept b (d\<lparr>dr_engine := snd (respond v t i p (dr_engine d))\<rparr>)" for p
    using assms by (intro books_engine) (auto simp: books_kept_def mono_answers inv_intros)
  moreover have "books_kept b (d\<lparr>dr_engine := snd (respond_error v t i err (dr_engine d))\<rparr>)" for err
    using assms by (intro books_engine) (auto simp: books_kept_def mono_answers inv_intros)
  ultimately show ?thesis
    using DriverRespond by (auto simp: books_aside split: sum.split prod.split) (metis snd_conv)+
next
  case (DriverRejectResult i err)
  then show ?thesis
    using assms by (auto intro!: books_engine simp: books_kept_def mono_answers inv_intros)
next
  case (DriverShutdown due)
  then show ?thesis
    using assms by (auto intro!: books_engine simp: books_kept_def mono_answers inv_intros)
qed


lemma accounted_polled:
  assumes "accounted b e" and "outputs e = x # xs"
  shows "accounted (b + mset (outcome_tokens [x])) (e\<lparr>outputs := xs\<rparr>)"
proof -
  have "outcome_tokens (x # xs) = outcome_tokens [x] @ outcome_tokens xs"
    by (metis append_Cons append_Nil outcome_tokens_append)
  then show ?thesis
    using assms by (simp add: accounted_def account_def held_tokens_def add_ac)
qed

lemma books_deliver:
  assumes "books_kept b d" and "outputs (dr_engine d) = x # xs"
  shows "books_kept (b + mset (outcome_tokens [x])) (deliver x (d\<lparr>dr_engine := (dr_engine d)\<lparr>outputs := xs\<rparr>\<rparr>))"
proof -
  let ?d = "d\<lparr>dr_engine := (dr_engine d)\<lparr>outputs := xs\<rparr>\<rparr>"
  have acc: "accounted (b + mset (outcome_tokens [x])) (dr_engine ?d)"
    using accounted_polled [OF _ assms(2)] assms(1) by (simp add: books_kept_def)
  show ?thesis
  proof (cases x)
    case (Outcome oc)
    let ?t = "co_token oc" and ?ps = "dr_pending d"
    have dist: "distinct (map fst ?ps)" using assms(1) by (simp add: books_kept_def)
    show ?thesis
    proof (cases "map_of ?ps ?t")
      case None
      then have "?t \<notin> fst ` set ?ps" by (simp add: map_of_eq_None_iff)
      then show ?thesis using None Outcome acc assms(1) by (force simp: books_kept_def)
    next
      case (Some c)
      from forget_present [OF dist this] Some show ?thesis
        using Outcome acc assms(1) forget_distinct [OF dist, of ?t]
        by (auto simp: books_kept_def answer_caller_def) (auto simp: forget_def)
    qed
  qed (use acc assms(1) in \<open>simp_all add: books_kept_def notify_def write_wire_def\<close>)
qed

lemma books_drop:
  assumes "books_kept b d" and "outputs (dr_engine d) = Transmit text # xs"
  shows "books_kept b (d\<lparr>dr_engine := (dr_engine d)\<lparr>outputs := xs\<rparr>\<rparr>)"
  using assms accounted_polled [of b "dr_engine d" "Transmit text" xs] by (simp add: books_kept_def)

lemma flush_loop_unfold:
  "flush_loop room c d =
     (case outputs (dr_engine d) of
        [] \<Rightarrow> (True, c, d)
      | x # xs \<Rightarrow>
          let d1 = d\<lparr>dr_engine := (dr_engine d)\<lparr>outputs := xs\<rparr>\<rparr> in
          if refuses room x then (False, c, d1)
          else flush_loop (room_after room x) (close_after c x) (deliver x d1))"
  by (subst flush_loop.simps) (simp add: poll_output_def split: list.split)

lemma flush_loop_invariant [consumes 1, case_names deliver drop]:
  assumes "P d"
    and "\<And>d x xs. P d \<Longrightarrow> outputs (dr_engine d) = x # xs \<Longrightarrow>
      P (deliver x (d\<lparr>dr_engine := (dr_engine d)\<lparr>outputs := xs\<rparr>\<rparr>))"
    and "\<And>d text xs. P d \<Longrightarrow> outputs (dr_engine d) = Transmit text # xs \<Longrightarrow>
      P (d\<lparr>dr_engine := (dr_engine d)\<lparr>outputs := xs\<rparr>\<rparr>)"
  shows "P (snd (snd (flush_loop room c d)))"
  using assms(1)
proof (induction "length (outputs (dr_engine d))" arbitrary: room c d rule: less_induct)
  case less
  show ?case
  proof (cases "outputs (dr_engine d)")
    case Nil
    then show ?thesis using less.prems by (simp add: flush_loop_unfold [of room c d])
  next
    case (Cons x xs)
    let ?d = "d\<lparr>dr_engine := (dr_engine d)\<lparr>outputs := xs\<rparr>\<rparr>"
    have "P (snd (snd (flush_loop (room_after room x) (close_after c x) (deliver x ?d))))"
      using Cons by (intro less.hyps) (auto intro: assms(2) less.prems)
    moreover have "P ?d" if "refuses room x"
      using that Cons assms(3) [OF less.prems] by (cases x) (auto simp: refuses_def)
    ultimately show ?thesis
      using Cons by (simp add: flush_loop_unfold [of room c d] Let_def)
  qed
qed

lemma flush_invariant:
  assumes "P d"
    and "\<And>d x xs. P d \<Longrightarrow> outputs (dr_engine d) = x # xs \<Longrightarrow>
      P (deliver x (d\<lparr>dr_engine := (dr_engine d)\<lparr>outputs := xs\<rparr>\<rparr>))"
    and "\<And>d text xs. P d \<Longrightarrow> outputs (dr_engine d) = Transmit text # xs \<Longrightarrow>
      P (d\<lparr>dr_engine := (dr_engine d)\<lparr>outputs := xs\<rparr>\<rparr>)"
    and "\<And>d c w. P d \<Longrightarrow> P (publish c w d)"
  shows "P (snd (flush fate d))"
proof -
  have "P (snd (snd (flush_loop (sf_feeds fate) None d)))"
    using assms(1,2,3) by (rule flush_loop_invariant)
  then show ?thesis
    using assms(4) by (auto simp: flush_def split: prod.split bool.split)
qed

lemma order_flush [inv_intros]: "in_order d \<Longrightarrow> in_order (snd (flush fate d))"
  by (rule flush_invariant) (auto simp: in_order_def books_aside dest: books_deliver books_drop)

lemma order_engine:
  assumes "in_order d"
  shows "in_order (d\<lparr>dr_engine := handle v t i (dr_engine d)\<rparr>)"
proof -
  obtain b where b: "books_kept b d" using assms by (auto simp: in_order_def)
  then have "accounted b (handle v t i (dr_engine d))" by (simp add: books_kept_def inv_intros)
  with b show ?thesis using books_engine mono_handle by (fastforce simp: in_order_def)
qed

lemma order_aside [inv_intros]:
  "in_order d \<Longrightarrow> in_order (notify n d)" "in_order d \<Longrightarrow> in_order (write_wire m d)"
  "in_order d \<Longrightarrow> in_order (publish c w d)" "in_order d \<Longrightarrow> in_order (d\<lparr>dr_pong_due := x\<rparr>)"
  "in_order d \<Longrightarrow> in_order (d\<lparr>dr_timers := ts\<rparr>)"
  by (simp_all add: in_order_def books_aside)

lemma order_apply: "in_order d \<Longrightarrow> in_order (apply_command v t cmd d)"
  by (auto simp: in_order_def intro: books_apply)

lemma order_react:
  assumes "in_order d"
  shows "in_order (snd (react v ka t sent ev d))"
proof (cases ev)
  case (MessageRead m)
  have "in_order (snd (on_message v t sent m x))" if "in_order x" for x
    using that
    by (auto simp: on_message_def intro: inv_intros order_engine split: option.split sum.split wire_message.split)
  then show ?thesis using MessageRead assms by (simp add: inv_intros)
next
  case TimersDue
  have "in_order ((d\<lparr>dr_engine := handle v t Timeout (dr_engine d)\<rparr>)\<lparr>dr_timers := ts\<rparr>)" for ts
    by (intro inv_intros order_engine assms)
  then show ?thesis using TimersDue by (simp add: Let_def)
qed (use assms in \<open>auto simp: Let_def intro!: inv_intros order_apply\<close>)

lemma order_session_loop: "in_order d \<Longrightarrow> in_order (snd (session_loop v ka turns d))"
proof (induction turns arbitrary: d)
  case (Cons turn turns)
  obtain fate t sent ev where turn: "turn = (fate, t, sent, ev)" by (cases turn)
  obtain r d1 where f: "flush fate d = (r, d1)" by fastforce
  then have d1: "in_order d1" using order_flush [OF Cons.prems, of fate] by simp
  obtain h d2 where g: "react v ka t sent ev d1 = (h, d2)" by fastforce
  then have "in_order d2" using order_react [OF d1, of v ka t sent ev] by simp
  then show ?case
    using turn f g d1 Cons.IH by (auto split: flushed.split option.split)
qed simp

lemma order_session_start: "in_order d \<Longrightarrow> in_order (session_start v t w d)"
  unfolding session_start_def Let_def by (intro inv_intros) (use order_engine [of d] order_aside(4) in fastforce)

lemma order_session_end: "in_order d \<Longrightarrow> in_order (session_end v t w fate how d)"
  by (auto simp: session_end_def Let_def intro!: inv_intros order_engine split: ended.split)

lemma order_run_connection: "in_order d \<Longrightarrow> in_order (run_connection v ka d c)"
  using order_session_loop [OF order_session_start [of d v "cn_start c" "cn_version c"], of v ka "cn_turns c"]
  by (auto simp: run_connection_def intro: order_session_end split: prod.split option.split)

interpretation driver_books: step_system "run_connection v ka" in_order
  by unfold_locales (rule order_run_connection)

lemma order_new:
  assumes "with_store v cfg s g = Inr e"
  shows "in_order (driver_new e)"
proof -
  have "accounted {#} e" by (rule accounted_with_store [OF assms])
  then show ?thesis by (auto simp: in_order_def books_kept_def driver_new_def)
qed


text \<open>
  C32. Every caller is answered exactly once. Over any connections, whatever the socket refuses, the
  peer sends and the application asks for, in whatever order, the callers whose commands the driver
  took are, once the driver is abandoned, the callers it gave an answer, each as often as it asked.
\<close>

theorem callers_answered_once:
  fixes v ka connections
  assumes "with_store v cfg s g = Inr e"
  defines "d \<equiv> foldl (run_connection v ka) (driver_new e) connections"
  shows "mset (map fst (dr_answers (abandon why d))) = mset (dr_taken d) \<and> dr_pending (abandon why d) = []"
proof -
  have "in_order d" unfolding d_def by (intro driver_books.run_inv order_new [OF assms(1)])
  then have "mset (map fst (dr_answers d)) + mset (map snd (dr_pending d)) = mset (dr_taken d)"
    by (auto simp: in_order_def books_kept_def)
  moreover have "map fst (dr_answers (abandon why d)) = map fst (dr_answers d) @ map snd (dr_pending d)"
    by (auto simp: abandon_def)
  moreover have "dr_pending (abandon why d) = []" by (simp add: abandon_def)
  ultimately show ?thesis by (simp only: mset_append)
qed

section \<open>The driver's timers are the engine's\<close>

definition wakes :: "('s, 'g) driver \<Rightarrow> bool" where
  "wakes d \<longleftrightarrow> on_the_clock (Some (dr_timers d CallTimeout)) (dr_engine d)"

lemma watch_cons:
  "on_the_clock a e \<Longrightarrow> outputs e = x # xs \<Longrightarrow> on_the_clock (watch a x) (e\<lparr>outputs := xs\<rparr>)"
  by (simp add: on_the_clock_def)

lemma watch_stuck: "foldl watch None xs = None"
  by (induction xs) (auto simp: watch_def split: engine_output.split)

lemma wakes_deliver:
  assumes "wakes d" and "outputs (dr_engine d) = x # xs"
  shows "wakes (deliver x (d\<lparr>dr_engine := (dr_engine d)\<lparr>outputs := xs\<rparr>\<rparr>))"
proof -
  have clock: "on_the_clock (watch (Some (dr_timers d CallTimeout)) x) ((dr_engine d)\<lparr>outputs := xs\<rparr>)"
    using watch_cons [OF _ assms(2)] assms(1) by (simp add: wakes_def)
  have "watch (Some (dr_timers d CallTimeout)) x \<noteq> None"
  proof
    assume "watch (Some (dr_timers d CallTimeout)) x = None"
    with clock show False by (simp add: on_the_clock_def watch_stuck)
  qed
  then have "watch (Some (dr_timers d CallTimeout)) x = Some (dr_timers (deliver x d) CallTimeout)"
    by (cases x) (auto simp: watch_def notify_def write_wire_def answer_caller_def split: if_splits option.split)
  moreover have "dr_timers (deliver x (d\<lparr>dr_engine := e\<rparr>)) = dr_timers (deliver x d)" for e
    by (cases x) (auto simp: notify_def write_wire_def answer_caller_def split: option.split)
  ultimately show ?thesis using clock by (simp add: wakes_def)
qed

lemma wakes_aside [inv_intros]:
  "wakes d \<Longrightarrow> wakes (notify n d)" "wakes d \<Longrightarrow> wakes (write_wire m d)" "wakes d \<Longrightarrow> wakes (publish c w d)"
  "wakes d \<Longrightarrow> wakes (d\<lparr>dr_pong_due := x\<rparr>)" "wakes d \<Longrightarrow> wakes (answer_caller caller r d)"
  "wakes d \<Longrightarrow> wakes (d\<lparr>dr_taken := cs\<rparr>)" "wakes d \<Longrightarrow> wakes (d\<lparr>dr_pending := ps\<rparr>)"
  by (simp_all add: wakes_def notify_def write_wire_def publish_def answer_caller_def)

lemma wakes_flush [inv_intros]:
  fixes d :: "('s, 'g) driver"
  shows "wakes d \<Longrightarrow> wakes (snd (flush fate d))"
proof (rule flush_invariant [where P = wakes])
  fix d :: "('s, 'g) driver" and s xs
  assume "wakes d" and "outputs (dr_engine d) = Transmit s # xs"
  then show "wakes (d\<lparr>dr_engine := (dr_engine d)\<lparr>outputs := xs\<rparr>\<rparr>)"
    by (simp add: wakes_def on_the_clock_def watch_def)
qed (auto intro: wakes_deliver wakes_aside)

lemma wakes_engine [inv_intros]:
  assumes "wakes d"
  shows "wakes (d\<lparr>dr_engine := handle v t i (dr_engine d)\<rparr>)"
    "wakes (d\<lparr>dr_engine := snd (call_with v t a p opts (dr_engine d))\<rparr>)"
    "wakes (d\<lparr>dr_engine := snd (respond v t mi p (dr_engine d))\<rparr>)"
    "wakes (d\<lparr>dr_engine := snd (respond_error v t mi err (dr_engine d))\<rparr>)"
    "wakes (d\<lparr>dr_engine := snd (reject_result v t mi err (dr_engine d))\<rparr>)"
    "wakes (d\<lparr>dr_engine := shutdown t due (dr_engine d)\<rparr>)"
  using assms by (simp_all add: wakes_def clock_handle clock_commands clock_call_with)

text \<open>What a completed flush leaves.\<close>

lemma flush_loop_done: "flush_loop room c d = (True, c', d') \<Longrightarrow> outputs (dr_engine d') = []"
proof (induction "length (outputs (dr_engine d))" arbitrary: room c d rule: less_induct)
  case less
  show ?case
  proof (cases "outputs (dr_engine d)")
    case Nil
    then show ?thesis using less.prems by (simp add: flush_loop_unfold [of room c d])
  next
    case (Cons x xs)
    then have "flush_loop (room_after room x) (close_after c x)
        (deliver x (d\<lparr>dr_engine := (dr_engine d)\<lparr>outputs := xs\<rparr>\<rparr>)) = (True, c', d')"
      using less.prems by (simp add: flush_loop_unfold [of room c d] Let_def split: if_splits)
    then show ?thesis by (rule less.hyps [rotated]) (simp add: Cons)
  qed
qed

lemma flushed_empty: "flush fate d = (Flushed c, d') \<Longrightarrow> outputs (dr_engine d') = []"
  by (auto simp: flush_def publish_def dest: flush_loop_done split: prod.splits bool.splits if_splits)

lemma flushed_timer:
  "wakes d \<Longrightarrow> outputs (dr_engine d) = [] \<Longrightarrow> dr_timers d CallTimeout = map_option f_deadline (inflight (dr_engine d))"
  by (simp add: wakes_def on_the_clock_def)


lemma call_timeout_due_twice: "call_timeout_due v (call_timeout_due v e) = call_timeout_due v e"
proof (cases "inflight (call_timeout_due v e)")
  case None
  then show ?thesis by (simp add: call_timeout_due_def [of v "call_timeout_due v e"])
next
  case (Some f)
  then have "call_timeout_due v e = e"
    by (auto simp: call_timeout_due_def frame_simps split: option.splits if_splits)
  then show ?thesis by simp
qed

lemma on_timeout_after_call: "on_timeout v e = on_timeout v (call_timeout_due v e)"
  by (simp add: on_timeout_def call_timeout_due_twice)

lemma wakes_timers_due:
  assumes "wakes d" and "outputs (dr_engine d) = []"
  shows "wakes (snd (react v ka t sent TimersDue d))"
proof -
  let ?e = "advance t (dr_engine d)"
  have timer: "dr_timers d CallTimeout = map_option f_deadline (inflight (dr_engine d))"
    by (rule flushed_timer [OF assms])
  have clock: "on_the_clock (Some (dr_timers d CallTimeout)) ?e"
    using assms(1) by (simp add: wakes_def inv_intros)
  have goal: "wakes (snd (react v ka t sent TimersDue d)) \<longleftrightarrow>
      on_the_clock (Some (case dr_timers d CallTimeout of
          Some due \<Rightarrow> if millis due > millis t then Some due else None | None \<Rightarrow> None)) (on_timeout v ?e)"
    by (simp add: wakes_def Let_def handle_def)
  show ?thesis
  proof (cases "inflight (dr_engine d)")
    case None
    then show ?thesis using goal clock timer by (simp add: inv_intros)
  next
    case (Some f)
    show ?thesis
    proof (cases "millis (f_deadline f) > millis t")
      case True
      then show ?thesis using goal clock timer Some by (simp add: inv_intros)
    next
      case False
      have "millis (now ?e) \<ge> millis t" by (simp add: advance_def)
      then have "call_timeout_due v ?e =
          requeue_or_fail v f CallTimedOut (emit (ClearTimer CallTimeout) (?e\<lparr>inflight := None\<rparr>))"
        using False Some by (simp add: call_timeout_due_def frame_simps)
      then have "on_the_clock (Some None) (call_timeout_due v ?e)"
        using assms(2) by (simp add: on_the_clock_def frame_simps watch_def)
      then have "on_the_clock (Some None) (on_timeout v ?e)"
        unfolding on_timeout_after_call [of v ?e] by (rule clock_on_timeout)
      then show ?thesis using goal timer Some False by simp
    qed
  qed
qed

lemma wakes_apply: "wakes d \<Longrightarrow> wakes (apply_command v t cmd d)"
proof (cases cmd)
  case (DriverCall a p opts caller)
  assume "wakes d"
  then have "wakes (d\<lparr>dr_taken := caller # dr_taken d, dr_engine := snd (call_with v t a p opts (dr_engine d))\<rparr>)"
    using wakes_engine(2) [of "d\<lparr>dr_taken := caller # dr_taken d\<rparr>" v t a p opts] by (simp add: inv_intros)
  then show ?thesis
    using DriverCall by (cases "call_with v t a p opts (dr_engine d)")
      (auto simp: Let_def intro: wakes_aside split: sum.split)
next
  case (DriverRespond i r)
  assume w: "wakes d"
  have "wakes (d\<lparr>dr_engine := e\<rparr>)" if "respond v t i p (dr_engine d) = (x, e)" for p x e
    using wakes_engine(3) [OF w, of v t i p] that by simp
  moreover have "wakes (d\<lparr>dr_engine := e\<rparr>)" if "respond_error v t i err (dr_engine d) = (x, e)" for err x e
    using wakes_engine(4) [OF w, of v t i err] that by simp
  ultimately show ?thesis
    using DriverRespond by (auto intro!: wakes_aside split: sum.splits prod.splits)
qed (auto intro: wakes_engine)

lemma wakes_react:
  assumes "wakes d" and "outputs (dr_engine d) = []"
  shows "wakes (snd (react v ka t sent ev d))"
proof (cases ev)
  case (MessageRead m)
  have "wakes (snd (on_message v t sent m x))" if "wakes x" for x
    using that
    by (auto simp: on_message_def intro: inv_intros split: option.split sum.split wire_message.split)
  then show ?thesis using MessageRead assms by (simp add: inv_intros)
next
  case TimersDue
  with assms show ?thesis by (simp only: wakes_timers_due)
qed (use assms in \<open>auto simp: Let_def intro!: inv_intros wakes_apply\<close>)

lemma wakes_session_loop: "wakes d \<Longrightarrow> wakes (snd (session_loop v ka turns d))"
proof (induction turns arbitrary: d)
  case (Cons turn turns)
  obtain fate t sent ev where turn: "turn = (fate, t, sent, ev)" by (cases turn)
  obtain r d1 where f: "flush fate d = (r, d1)" by fastforce
  then have d1: "wakes d1" using wakes_flush [OF Cons.prems, of fate] by simp
  obtain h d2 where g: "react v ka t sent ev d1 = (h, d2)" by fastforce
  have "wakes d2" if "r = Flushed c" for c
    using wakes_react [OF d1, of v ka t sent ev] flushed_empty f g that by fastforce
  then show ?case
    using turn f g d1 Cons.IH by (auto split: flushed.split option.split)
qed simp

lemma wakes_session_start: "wakes d \<Longrightarrow> wakes (session_start v t w d)"
  unfolding session_start_def Let_def by (intro inv_intros) (use wakes_engine(1) [of d] wakes_aside(4) in fastforce)

lemma wakes_session_end: "wakes d \<Longrightarrow> wakes (session_end v t w fate how d)"
  by (auto simp: session_end_def Let_def intro!: inv_intros split: ended.split)

lemma wakes_run_connection: "wakes d \<Longrightarrow> wakes (run_connection v ka d c)"
  using wakes_session_loop [OF wakes_session_start [of d v "cn_start c" "cn_version c"], of v ka "cn_turns c"]
  by (auto simp: run_connection_def intro: wakes_session_end split: prod.split option.split)

interpretation driver_timers: step_system "run_connection v ka" wakes
  by unfold_locales (rule wakes_run_connection)

lemma wakes_new:
  assumes "with_store v cfg s g = Inr e"
  shows "wakes (driver_new e)"
proof -
  have "outputs (foldl recover_entry x xs) = outputs x \<and> inflight (foldl recover_entry x xs) = inflight x"
    for x :: "('a, 'b) engine" and xs
    by (induction xs arbitrary: x) (simp_all add: recover_entry_def mint_token_def split: prod.split)
  with assms have "outputs e = [] \<and> inflight e = None"
    by (auto simp: with_store_def fresh_engine_def Let_def split: sum.splits)
  then show ?thesis by (simp add: wakes_def on_the_clock_def driver_new_def)
qed

text \<open>
  C33. A driver sleeps no longer than the call it waits for. Whenever a flush has gone through, on
  the first connection or any later one, the driver's timer for the call is armed exactly if a call
  is outstanding, and for its deadline, so that the earliest timer it waits for is no later.
\<close>

theorem driver_wakes_for_call:
  fixes v ka connections turns
  assumes "with_store v cfg s g = Inr e"
  defines "d \<equiv> foldl (run_connection v ka) (driver_new e) connections"
  assumes "session_loop v ka turns (session_start v t w d) = (None, d1)" and "flush fate d1 = (Flushed c, d2)"
  shows "dr_timers d2 CallTimeout = map_option f_deadline (inflight (dr_engine d2)) \<and>
    (\<forall>f. inflight (dr_engine d2) = Some f \<longrightarrow> (\<exists>due \<in> next_deadline d2. millis due \<le> millis (f_deadline f)))"
proof -
  have "wakes d" unfolding d_def by (intro driver_timers.run_inv wakes_new [OF assms(1)])
  then have "wakes d1"
    using wakes_session_loop [OF wakes_session_start [of d v t w], of v ka turns] assms(3) by simp
  then have "wakes d2" using wakes_flush [of d1 fate] assms(4) by simp
  from flushed_timer [OF this flushed_empty [OF assms(4)]]
  have timer: "dr_timers d2 CallTimeout = map_option f_deadline (inflight (dr_engine d2))" .
  then show ?thesis by (fastforce simp: next_deadline_def)
qed


section \<open>What a broken connection leaves behind\<close>

definition transmits :: "engine_output \<Rightarrow> bool" where
  "transmits x \<longleftrightarrow> (case x of Transmit _ \<Rightarrow> True | _ \<Rightarrow> False)"

lemma wire_deliver: "\<not> transmits x \<Longrightarrow> dr_wire (deliver x d) = dr_wire d"
  by (cases x) (auto simp: transmits_def notify_def answer_caller_def split: option.split)

lemma flush_loop_refused:
  assumes "outputs (dr_engine d) = xs @ Transmit a # ys" and "\<forall>x \<in> set xs. \<not> transmits x"
  shows "\<exists>c' d'. flush_loop (Some 0) c d = (False, c', d') \<and> dr_engine d' = (dr_engine d)\<lparr>outputs := ys\<rparr> \<and>
    dr_wire d' = dr_wire d"
  using assms
proof (induction xs arbitrary: c d)
  case Nil
  then show ?case by (simp add: flush_loop_unfold [of "Some 0" c d] Let_def refuses_def)
next
  case (Cons x xs)
  let ?d = "deliver x (d\<lparr>dr_engine := (dr_engine d)\<lparr>outputs := xs @ Transmit a # ys\<rparr>\<rparr>)"
  have quiet: "\<not> transmits x" using Cons.prems(2) by simp
  then have x: "\<not> refuses (Some 0) x" "room_after (Some 0) x = Some 0"
    by (auto simp: refuses_def room_after_def transmits_def split: engine_output.splits)
  have wire: "dr_wire ?d = dr_wire d" by (simp add: wire_deliver [OF quiet])
  have "\<exists>c' d'. flush_loop (Some 0) (close_after c x) ?d = (False, c', d') \<and>
      dr_engine d' = (dr_engine ?d)\<lparr>outputs := ys\<rparr> \<and> dr_wire d' = dr_wire ?d"
    using Cons.prems(2) by (intro Cons.IH) auto
  then show ?case using Cons.prems(1) x wire
    by (simp add: flush_loop_unfold [of "Some 0" c d] Let_def del: deliver.simps)
qed

lemma flush_refused:
  assumes "outputs (dr_engine d) = xs @ Transmit a # ys" and "\<forall>x \<in> set xs. \<not> transmits x"
    and "sf_feeds fate = Some 0"
  shows "fst (flush fate d) = FlushFailed" and "dr_engine (snd (flush fate d)) = (dr_engine d)\<lparr>outputs := ys\<rparr>"
    and "dr_wire (snd (flush fate d)) = dr_wire d"
  using flush_loop_refused [OF assms(1,2), of None] assms(3) by (auto simp: flush_def)

lemma flush_works:
  "\<exists>c' d'. flush_loop None c d = (True, c', d') \<and>
     dr_wire d' = dr_wire d @ [WireText s. Transmit s \<leftarrow> outputs (dr_engine d)]"
proof (induction "outputs (dr_engine d)" arbitrary: c d)
  case Nil
  then show ?case by (simp add: flush_loop_unfold [of None c d])
next
  case (Cons x xs)
  let ?d = "deliver x (d\<lparr>dr_engine := (dr_engine d)\<lparr>outputs := xs\<rparr>\<rparr>)"
  have "\<exists>c' d'. flush_loop None (close_after c x) ?d = (True, c', d') \<and>
      dr_wire d' = dr_wire ?d @ [WireText s. Transmit s \<leftarrow> outputs (dr_engine ?d)]"
    by (rule Cons.hyps(1)) simp
  moreover have "dr_wire ?d = dr_wire d @ (case x of Transmit s \<Rightarrow> [WireText s] | _ \<Rightarrow> [])"
    by (cases x) (auto simp: write_wire_def notify_def answer_caller_def split: option.split)
  moreover have "flush_loop None c d = flush_loop None (close_after c x) ?d"
    using Cons.hyps(2) [symmetric] 
    by (simp add: flush_loop_unfold [of None c d] Let_def refuses_def) (simp add: room_after_def split: engine_output.split)
  ultimately show ?case
    using Cons.hyps(2) [symmetric] by (simp del: deliver.simps)
qed

text \<open>The engine only adds to what it says.\<close>

definition adds :: "('s, 'g) engine \<Rightarrow> ('s, 'g) engine \<Rightarrow> bool" where
  "adds e e' \<longleftrightarrow> (\<exists>more. outputs e' = outputs e @ more)"

lemma adds_trans: "adds e e1 \<Longrightarrow> adds e1 e2 \<Longrightarrow> adds e e2"
  by (auto simp: adds_def)

lemma adds_quiet:
  "adds e e" "adds e (emit x e)" "adds e (ack_store v q e)" "adds e (set_attempts_store v q n e)" "adds e (check_drain e)"
  "adds e (advance t e)" "adds e (requeue_or_fail v f why e)"
  by (auto simp: adds_def emit_def ack_store_def set_attempts_store_def check_drain_def advance_def requeue_or_fail_def Let_def
      split: option.split prod.split sum.split)

lemma adds_sweep: "adds e (offline_sweep v kept rest e)"
proof (induction v kept rest e rule: offline_sweep.induct)
  case (2 v kept entry rest e)
  have "adds e (emit (outcome (p_token entry) None (p_action entry) (Inl Disconnected))
      (ack_store v (p_seq entry) (e\<lparr>queue := rest\<rparr>)))"
    by (auto simp: adds_def emit_def ack_store_def split: option.split prod.split sum.split)
  with 2 show ?case by (auto simp: adds_def)
qed (simp add: adds_def)

lemma adds_disconnected: "adds e (on_disconnected v e)"
proof -
  let ?e2 = "(emit (ClearTimer HeartbeatTimer) (emit (ClearTimer CallTimeout)
      (e\<lparr>connected := False, peer_inflight := {}\<rparr>)))\<lparr>heartbeat_at := None\<rparr>"
  let ?e3 = "case inflight ?e2 of Some f \<Rightarrow> requeue_or_fail v f Disconnected (?e2\<lparr>inflight := None\<rparr>) | None \<Rightarrow> ?e2"
  have "adds e (?e2\<lparr>inflight := x\<rparr>)" for x by (simp add: adds_def emit_def)
  moreover have "adds e ?e2" by (simp add: adds_def emit_def)
  ultimately have "adds e ?e3" using adds_trans adds_quiet(7) by (fastforce split: option.split)
  then show ?thesis
    using adds_trans [OF adds_trans [OF _ adds_sweep] adds_quiet(5)] by (simp add: on_disconnected_def Let_def)
qed

lemma adds_said: "adds e e' \<Longrightarrow> x \<in> set (outputs e) \<Longrightarrow> x \<in> set (outputs e')"
  by (auto simp: adds_def)

lemma failed_call_said:
  assumes "inflight e = Some f" and "\<not> f_transactional f"
  shows "outcome (f_token f) (Some (f_id f)) (f_action f) (Inl Disconnected) \<in> set (outputs (on_disconnected v e))"
proof -
  let ?x = "outcome (f_token f) (Some (f_id f)) (f_action f) (Inl Disconnected)"
  let ?e2 = "(emit (ClearTimer HeartbeatTimer) (emit (ClearTimer CallTimeout)
      (e\<lparr>connected := False, peer_inflight := {}\<rparr>)))\<lparr>heartbeat_at := None\<rparr>"
  let ?e3 = "requeue_or_fail v f Disconnected (?e2\<lparr>inflight := None\<rparr>)"
  have "?x \<in> set (outputs ?e3)" using assms(2) by (simp add: requeue_or_fail_def emit_def)
  then have "?x \<in> set (outputs (check_drain (offline_sweep v [] (queue ?e3) ?e3)))"
    by (rule adds_said [OF adds_trans [OF adds_sweep adds_quiet(5)]])
  then show ?thesis using assms(1) by (simp add: on_disconnected_def Let_def frame_simps)
qed

text \<open>
  What a connection that breaks in the middle of a flush could not write is written on the next
  connection. The flush at the end of a connection stops at the first message the broken socket
  refuses, and the messages behind it stay in the engine: they open the next connection, the call
  among them although the engine has by then reported that call as failed.
\<close>

theorem stale_frames_sent:
  fixes d :: "('s, 'g) driver" and v t w
  assumes "outputs (dr_engine d) = xs @ Transmit a # ys @ Transmit b # zs"
    and "\<forall>x \<in> set (xs @ ys). \<not> transmits x" and "sf_feeds fate = Some 0" and "sf_feeds fate' = Some 0"
    and "inflight (dr_engine d) = Some f" and "\<not> f_transactional f" and "Transmit stale \<in> set zs"
  defines "broken \<equiv> session_end v t w fate' EndedDisconnected (snd (flush fate d))"
  shows "fst (flush fate d) = FlushFailed \<and>
    outcome (f_token f) (Some (f_id f)) (f_action f) (Inl Disconnected)
      \<in> set (outputs (handle v t DisconnectedInput (dr_engine (snd (flush fate d))))) \<and>
    WireText stale \<notin> set (drop (length (dr_wire d)) (dr_wire broken)) \<and>
    WireText stale \<in> set (drop (length (dr_wire broken))
      (dr_wire (snd (flush sink_works (session_start v t' w' broken)))))"
proof -
  let ?d1 = "snd (flush fate d)"
  have f1: "fst (flush fate d) = FlushFailed" "dr_engine ?d1 = (dr_engine d)\<lparr>outputs := ys @ Transmit b # zs\<rparr>"
    "dr_wire ?d1 = dr_wire d"
    using flush_refused [OF assms(1) _ assms(3)] assms(2) by auto
  let ?e = "handle v t DisconnectedInput (dr_engine ?d1)"
  have failed: "outcome (f_token f) (Some (f_id f)) (f_action f) (Inl Disconnected) \<in> set (outputs ?e)"
    using failed_call_said [of "advance t (dr_engine ?d1)" f v] assms(5,6) f1(2)
    by (simp add: handle_def frame_simps)
  have "adds (dr_engine ?d1) ?e"
    by (simp add: handle_def) (rule adds_trans [OF adds_quiet(6) adds_disconnected])
  then obtain more where "outputs ?e = ys @ Transmit b # zs @ more" using f1(2) by (auto simp: adds_def)
  then have f2: "dr_engine broken = ?e\<lparr>outputs := zs @ more\<rparr>" "dr_wire broken = dr_wire d"
    using flush_refused [of "?d1\<lparr>dr_engine := ?e\<rparr>" ys b "zs @ more" fate'] assms(2,4) f1(3)
    by (auto simp: broken_def session_end_def publish_def notify_def Let_def)
  let ?e' = "handle v t' (Connected w') (dr_engine broken)"
  have "said_in (Transmit stale) (dr_engine broken)" using assms(7) f2(1) by (simp add: said_in_def)
  then have "said_in (Transmit stale) ((advance t' (dr_engine broken))\<lparr>version := w', connected := True, peer_inflight := {}\<rparr>)"
    by (simp add: said_in_def frame_simps)
  then have "said_in (Transmit stale) ?e'"
    by (simp add: handle_def on_connected_def inv_intros)
  then have "WireText stale \<in> set [WireText s. Transmit s \<leftarrow> outputs ?e']"
    by (force simp: said_in_def)
  moreover have "dr_wire (snd (flush sink_works (session_start v t' w' broken))) =
      dr_wire broken @ [WireText s. Transmit s \<leftarrow> outputs ?e']"
    using flush_works [of None "session_start v t' w' broken"]
    by (auto simp: flush_def sink_works_def session_start_def notify_def publish_def Let_def)
  ultimately show ?thesis using f1(1) failed f2(2) by simp
qed


section \<open>Witnesses\<close>

text \<open>A station without the boot gate that finds two streams and a call in its store.\<close>

definition stored_call :: "string \<Rightarrow> message_kind \<Rightarrow> queued_call" where
  "stored_call a k =
     \<lparr>qc_action = a, qc_payload = ''{}'', qc_kind = k, qc_attempts = 0, qc_transactional = False\<rparr>"

definition recovering :: "(mem_store, counter_ids) driver" where
  "recovering =
     session_start sample_env (at_ms 5) V2_1
       (driver_new (foldl recover_entry (sample_engine ((config_new ChargingStation V2_1)\<lparr>c_enforce_boot_gate := False\<rparr>))
         [(0, stored_call ''NotifyPeriodicEventStream'' Send), (1, stored_call ''NotifyPeriodicEventStream'' Send),
          (2, stored_call ''Heartbeat'' Call)]))"

definition refusing :: sink_fate where
  "refusing = \<lparr>sf_feeds = Some 0, sf_flush = False\<rparr>"

theorem stale_frames_sent_witness:
  "\<exists>stale f. inflight (dr_engine recovering) = Some f \<and> f_action f = ''Heartbeat'' \<and>
     WireText stale \<in> set (dr_wire (snd (flush sink_works (session_start sample_env (at_ms 20) V2_1
       (session_end sample_env (at_ms 6) V2_1 refusing EndedDisconnected (snd (flush refusing recovering)))))))"
proof -
  have "case outputs (dr_engine recovering) of
      Transmit a # x # Transmit b # y # Transmit c # _ \<Rightarrow> \<not> transmits x \<and> \<not> transmits y | _ \<Rightarrow> False"
    by code_simp
  then obtain a x b y c zs where
    o: "outputs (dr_engine recovering) = [] @ Transmit a # [x] @ Transmit b # y # Transmit c # zs" "\<not> transmits x"
    by (auto split: list.splits engine_output.splits)
  have "case inflight (dr_engine recovering) of
      Some f \<Rightarrow> \<not> f_transactional f \<and> f_action f = ''Heartbeat'' | None \<Rightarrow> False"
    by code_simp
  then obtain f where f: "inflight (dr_engine recovering) = Some f" "\<not> f_transactional f" "f_action f = ''Heartbeat''"
    by (auto split: option.splits)
  have r: "sf_feeds refusing = Some 0" by (simp add: refusing_def)
  have "\<forall>z \<in> set ([] @ [x]). \<not> transmits z" "Transmit c \<in> set (y # Transmit c # zs)" using o(2) by simp_all
  from stale_frames_sent [OF o(1) this(1) r r f(1,2) this(2), of sample_env "at_ms 6" V2_1 "at_ms 20" V2_1] f
  show ?thesis by (meson in_set_dropD)
qed

definition calling :: "turn list" where
  "calling = [(sink_works, at_ms 6, True, CommandTaken (DriverCall ''BootNotification'' ''{}'' options_default 7))]"

theorem driver_wakes_for_call_witness:
  "\<exists>d :: (mem_store, counter_ids) driver. dr_timers d CallTimeout = Some (at_ms 30006) \<and> inflight (dr_engine d) \<noteq> None"
proof -
  let ?e = "sample_engine (config_new ChargingStation V2_1)"
  let ?d = "session_start sample_env (at_ms 5) V2_1 (foldl (run_connection sample_env keepalive_default) (driver_new ?e) [])"
  let ?l = "session_loop sample_env keepalive_default calling ?d"
  have "case ?l of (None, d1) \<Rightarrow>
      (case flush sink_works d1 of
         (Flushed c, d2) \<Rightarrow>
           (case inflight (dr_engine d2) of Some f \<Rightarrow> f_deadline f = at_ms 30006 | None \<Rightarrow> False)
       | _ \<Rightarrow> False) | _ \<Rightarrow> False"
    by code_simp
  then obtain d1 c d2 f where run: "?l = (None, d1)" "flush sink_works d1 = (Flushed c, d2)"
    and f: "inflight (dr_engine d2) = Some f" "f_deadline f = at_ms 30006"
    by (auto split: prod.splits option.splits flushed.splits)
  from driver_wakes_for_call [OF sample_start run] f
  have "dr_timers d2 CallTimeout = Some (at_ms 30006)" by simp
  with f(1) show ?thesis by blast
qed

theorem callers_answered_once_witness:
  "map fst (dr_answers (abandon Disconnected (foldl (run_connection sample_env keepalive_default)
     (driver_new (sample_engine (config_new ChargingStation V2_1)))
     [\<lparr>cn_start = at_ms 5, cn_version = V2_1, cn_turns = calling @ [(refusing, at_ms 7, True, TimersDue)],
       cn_end = at_ms 8, cn_last = refusing\<rparr>]))) = [7]"
proof -
  let ?d = "foldl (run_connection sample_env keepalive_default)
     (driver_new (sample_engine (config_new ChargingStation V2_1)))
     [\<lparr>cn_start = at_ms 5, cn_version = V2_1, cn_turns = calling @ [(refusing, at_ms 7, True, TimersDue)],
       cn_end = at_ms 8, cn_last = refusing\<rparr>]"
  have "dr_taken ?d = [7]" by code_simp
  moreover from callers_answered_once [OF sample_start] 
  have "mset (map fst (dr_answers (abandon Disconnected ?d))) = mset (dr_taken ?d)" by (rule conjunct1)
  ultimately have "mset (map fst (dr_answers (abandon Disconnected ?d))) = {#7#}" by simp
  then show ?thesis by (metis mset_single_iff_right)
qed

end
