(* ===== verification/Texts.thy ===== *)
theory Texts
  imports Prelude
begin

text \<open>
  The operations of \<open>str\<close> that several components share: splitting at a character, joining,
  trimming and the ASCII case functions, with the facts that make a list printed with a
  separator readable again.
\<close>

section \<open>Splitting and joining\<close>

text \<open>\<open>str::split\<close> and \<open>str::split_once\<close> with a character, and \<open>join\<close>.\<close>

fun split_on :: "char \<Rightarrow> string \<Rightarrow> string list" where
  "split_on c [] = [[]]"
| "split_on c (x # xs) =
     (if x = c then [] # split_on c xs
      else (x # hd (split_on c xs)) # tl (split_on c xs))"

definition split_once :: "char \<Rightarrow> string \<Rightarrow> (string \<times> string) option" where
  "split_once c s =
     (if c \<in> set s
      then Some (takeWhile (\<lambda>x. x \<noteq> c) s, tl (dropWhile (\<lambda>x. x \<noteq> c) s)) else None)"

fun join :: "string \<Rightarrow> string list \<Rightarrow> string" where
  "join sep [] = []"
| "join sep [x] = x"
| "join sep (x # y # zs) = x @ sep @ join sep (y # zs)"

definition lower :: "char \<Rightarrow> char" where
  "lower c =
     (let n = of_char c :: nat in if 65 \<le> n \<and> n \<le> 90 then char_of (n + 32) else c)"

definition to_ascii_lowercase :: "string \<Rightarrow> string" where
  "to_ascii_lowercase s = map lower s"

definition eq_ignore_ascii_case :: "string \<Rightarrow> string \<Rightarrow> bool" where
  "eq_ignore_ascii_case a b \<longleftrightarrow> map lower a = map lower b"

lemma split_on_nonempty [simp]: "split_on c s \<noteq> []"
  by (induction s) auto

lemma split_on_none: "c \<notin> set s \<Longrightarrow> split_on c s = [s]"
  by (induction s) auto

lemma split_on_append: "c \<notin> set s \<Longrightarrow> split_on c (s @ c # r) = s # split_on c r"
  by (induction s) auto

lemma split_on_join:
  "xs \<noteq> [] \<Longrightarrow> \<forall>x \<in> set xs. c \<notin> set x \<Longrightarrow> split_on c (join [c] xs) = xs"
  by (induction "[c]" xs rule: join.induct) (simp_all add: split_on_none split_on_append)

lemma join_split_on: "join [c] (split_on c s) = s"
proof (induction s)
  case (Cons x xs)
  then show ?case
    by (cases "split_on c xs"; cases "tl (split_on c xs)") auto
qed simp

lemma split_on_parts: "x \<in> set (split_on c s) \<Longrightarrow> c \<notin> set x \<and> set x \<subseteq> set s"
proof (induction s arbitrary: x)
  case (Cons y ys)
  then show ?case
    by (cases "split_on c ys") (fastforce split: if_splits)+
qed simp

lemma split_once_append: "c \<notin> set a \<Longrightarrow> split_once c (a @ c # b) = Some (a, b)"
  by (simp add: split_once_def takeWhile_append dropWhile_append)

lemma split_once_none: "c \<notin> set s \<Longrightarrow> split_once c s = None"
  by (simp add: split_once_def)

section \<open>Trimming\<close>

text \<open>A text that neither begins nor ends with white space, so that \<open>trim\<close> leaves it alone.\<close>

definition trimmed :: "string \<Rightarrow> bool" where
  "trimmed s \<longleftrightarrow> (s \<noteq> [] \<longrightarrow> \<not> is_whitespace (hd s) \<and> \<not> is_whitespace (last s))"

lemma dropWhile_head: "s = [] \<or> \<not> P (hd s) \<Longrightarrow> dropWhile P s = s"
  by (cases s) auto

lemma trim_trimmed: "trimmed s \<Longrightarrow> trim s = s"
  by (cases "s = []") (simp_all add: trim_def trimmed_def dropWhile_head hd_rev)

lemma trim_space: "trimmed s \<Longrightarrow> trim (CHR '' '' # s) = s"
  using trim_trimmed [of s] by (simp add: trim_def is_whitespace_def Let_def)

lemma trimmed_all: "\<forall>c \<in> set s. \<not> is_whitespace c \<Longrightarrow> trimmed s"
  by (simp add: trimmed_def)

lemma set_trim: "set (trim s) \<subseteq> set s"
  unfolding trim_def set_rev
  using set_dropWhileD by (fastforce dest: set_dropWhileD)

end
