(* ===== verification/Deflate.thy ===== *)
theory Deflate
  imports Texts Decimal
begin

text \<open>
  \<open>transport/ws/deflate.rs\<close>: the negotiation of permessage-deflate, from the offers in a
  \<open>Sec-WebSocket-Extensions\<close> header to the parameters both ends use. The compressor behind it is
  a library and a parameter of the codec.

  The lemmas show which offer a server takes, and that a client reads the parameters the server
  uses out of whatever it answers.
\<close>

definition MAX_WINDOW_BITS :: nat where "MAX_WINDOW_BITS = 15"

definition MIN_WINDOW_BITS :: nat where "MIN_WINDOW_BITS = 9"

record deflate_params =
  server_no_context_takeover :: bool
  client_no_context_takeover :: bool

definition to_header :: "deflate_params \<Rightarrow> string" where
  "to_header p =
     ''permessage-deflate'' @
     (if server_no_context_takeover p then ''; server_no_context_takeover'' else []) @
     (if client_no_context_takeover p then ''; client_no_context_takeover'' else [])"

definition client_offer :: "deflate_params \<Rightarrow> string" where
  "client_offer p = to_header p"

datatype client_window = Absent | Announced | Bound nat

record deflate_offer =
  do_server_no_context_takeover :: bool
  do_client_no_context_takeover :: bool
  do_server_max_window_bits :: "nat option"
  do_client_max_window_bits :: client_window

datatype offer_error =
  Duplicate string | BadWindowBits string | UnknownParameter string | ExtensionNotOffered

text \<open>\<open>from_str\<close> of an unsigned integer type with the given greatest value.\<close>

definition parse_unsigned :: "nat \<Rightarrow> string \<Rightarrow> nat option" where
  "parse_unsigned greatest s =
     (let ds = (if s \<noteq> [] \<and> hd s = CHR ''+'' then tl s else s) in
      if ds = [] \<or> \<not> list_all is_digit ds then None
      else if number_from 0 ds \<le> greatest then Some (number_from 0 ds) else None)"

definition trim_matches :: "char \<Rightarrow> string \<Rightarrow> string" where
  "trim_matches c s = rev (dropWhile ((=) c) (rev (dropWhile ((=) c) s)))"

definition window_bits :: "string \<Rightarrow> offer_error + nat" where
  "window_bits v =
     (case parse_unsigned 255 v of
        None \<Rightarrow> Inl (BadWindowBits v)
      | Some bits \<Rightarrow>
          if \<not> (8 \<le> bits \<and> bits \<le> MAX_WINDOW_BITS) then Inl (BadWindowBits v)
          else Inr (max bits MIN_WINDOW_BITS))"

definition offer_part :: "string \<Rightarrow> string option \<Rightarrow> deflate_offer \<Rightarrow> offer_error + deflate_offer" where
  "offer_part n v q =
     (if n = ''server_no_context_takeover'' then
        (if do_server_no_context_takeover q then Inl (Duplicate n)
         else Inr (q\<lparr>do_server_no_context_takeover := True\<rparr>))
      else if n = ''client_no_context_takeover'' then
        (if do_client_no_context_takeover q then Inl (Duplicate n)
         else Inr (q\<lparr>do_client_no_context_takeover := True\<rparr>))
      else if n = ''server_max_window_bits'' then
        (if do_server_max_window_bits q \<noteq> None then Inl (Duplicate n)
         else
           (case v of
              None \<Rightarrow> Inl (BadWindowBits [])
            | Some v \<Rightarrow>
                (case window_bits v of
                   Inl e \<Rightarrow> Inl e
                 | Inr bits \<Rightarrow> Inr (q\<lparr>do_server_max_window_bits := Some bits\<rparr>))))
      else if n = ''client_max_window_bits'' then
        (if do_client_max_window_bits q \<noteq> Absent then Inl (Duplicate n)
         else
           (case v of
              None \<Rightarrow> Inr (q\<lparr>do_client_max_window_bits := Announced\<rparr>)
            | Some v \<Rightarrow>
                (case window_bits v of
                   Inl e \<Rightarrow> Inl e
                 | Inr bits \<Rightarrow> Inr (q\<lparr>do_client_max_window_bits := Bound bits\<rparr>))))
      else Inl (UnknownParameter n))"

fun offer_parts :: "string list \<Rightarrow> deflate_offer \<Rightarrow> offer_error + deflate_offer" where
  "offer_parts [] q = Inr q"
| "offer_parts (part # parts) q =
     (if part = [] then offer_parts parts q
      else
        (let (n, v) =
           (case split_once (CHR ''='') part of
              Some (n, v) \<Rightarrow> (trim n, Some (trim_matches (CHR 0x22) (trim v)))
            | None \<Rightarrow> (part, None))
         in case offer_part n v q of Inl e \<Rightarrow> Inl e | Inr q' \<Rightarrow> offer_parts parts q'))"

definition parse_offer :: "string \<Rightarrow> offer_error + deflate_offer option" where
  "parse_offer element =
     (let parts = map trim (split_on (CHR '';'') element) in
      if hd parts \<noteq> ''permessage-deflate'' then Inr None
      else
        (case offer_parts (tl parts)
            \<lparr>do_server_no_context_takeover = False, do_client_no_context_takeover = False,
             do_server_max_window_bits = None, do_client_max_window_bits = Absent\<rparr> of
           Inl e \<Rightarrow> Inl e
         | Inr q \<Rightarrow> Inr (Some q)))"

definition offer_params :: "deflate_offer \<Rightarrow> deflate_params" where
  "offer_params q =
     \<lparr>server_no_context_takeover = do_server_no_context_takeover q,
      client_no_context_takeover = do_client_no_context_takeover q\<rparr>"

definition takeable :: "string \<Rightarrow> deflate_offer option" where
  "takeable element =
     (case parse_offer element of
        Inr (Some q) \<Rightarrow>
          (case do_server_max_window_bits q of
             Some bits \<Rightarrow> if bits < MAX_WINDOW_BITS then None else Some q
           | None \<Rightarrow> Some q)
      | _ \<Rightarrow> None)"

fun first_takeable :: "string list \<Rightarrow> deflate_offer option" where
  "first_takeable [] = None"
| "first_takeable (e # es) = (case takeable e of Some q \<Rightarrow> Some q | None \<Rightarrow> first_takeable es)"

definition accept_offer :: "string option \<Rightarrow> (deflate_params \<times> string) option" where
  "accept_offer header =
     (case header of
        None \<Rightarrow> None
      | Some h \<Rightarrow>
          (case first_takeable (split_on (CHR '','') h) of
             None \<Rightarrow> None
           | Some q \<Rightarrow> Some (offer_params q, to_header (offer_params q))))"

definition accept_response :: "string option \<Rightarrow> offer_error + deflate_params option" where
  "accept_response header =
     (case header of
        None \<Rightarrow> Inr None
      | Some h \<Rightarrow>
          (case parse_offer (hd (split_on (CHR '','') h)) of
             Inl e \<Rightarrow> Inl e
           | Inr None \<Rightarrow> Inl ExtensionNotOffered
           | Inr (Some q) \<Rightarrow>
               (case do_client_max_window_bits q of
                  Bound bits \<Rightarrow>
                    if bits < MAX_WINDOW_BITS then Inl (BadWindowBits (digits bits))
                    else Inr (Some (offer_params q))
                | _ \<Rightarrow> Inr (Some (offer_params q)))))"

text \<open>To evaluate a split once for each character.\<close>

lemma split_on_eval [code]:
  "split_on c [] = [[]]"
  "split_on c (x # xs) =
     (case split_on c xs of
        [] \<Rightarrow> [[x]]
      | r # rs \<Rightarrow> if x = c then [] # r # rs else (x # r) # rs)"
  by (simp_all split: list.split)

section \<open>Both ends agree\<close>

lemma accept_response_header: "accept_response (Some (to_header p)) = Inr (Some p)"
proof -
  have "accept_response (Some (to_header \<lparr>server_no_context_takeover = s, client_no_context_takeover = c\<rparr>)) =
        Inr (Some \<lparr>server_no_context_takeover = s, client_no_context_takeover = c\<rparr>)" for s c
    by (induct s; induct c; code_simp)
  then show ?thesis by (cases p) simp
qed

lemma accept_offer_client: "accept_offer (Some (client_offer p)) = Some (p, to_header p)"
proof -
  have "accept_offer (Some (client_offer \<lparr>server_no_context_takeover = s, client_no_context_takeover = c\<rparr>)) =
        Some (\<lparr>server_no_context_takeover = s, client_no_context_takeover = c\<rparr>,
          to_header \<lparr>server_no_context_takeover = s, client_no_context_takeover = c\<rparr>)" for s c
    by (induct s; induct c; code_simp)
  then show ?thesis by (cases p) simp
qed

lemma first_takeable_Some:
  "first_takeable es = Some q \<longleftrightarrow>
     (\<exists>pre e post. es = pre @ e # post \<and> takeable e = Some q \<and> (\<forall>p \<in> set pre. takeable p = None))"
proof (induction es)
  case (Cons e es)
  show ?case
  proof (cases "takeable e")
    case None
    have "(\<exists>pre x post. e # es = pre @ x # post \<and> takeable x = Some q \<and> (\<forall>p \<in> set pre. takeable p = None)) \<longleftrightarrow>
        (\<exists>pre x post. es = pre @ x # post \<and> takeable x = Some q \<and> (\<forall>p \<in> set pre. takeable p = None))"
      (is "?l = ?r")
    proof
      assume ?l
      then obtain pre x post where pre: "e # es = pre @ x # post" "takeable x = Some q" "\<forall>p \<in> set pre. takeable p = None"
        by blast
      then obtain pre' where "pre = e # pre'" using None by (cases pre) auto
      then show ?r using pre by auto
    next
      assume ?r
      then obtain pre x post where "es = pre @ x # post" "takeable x = Some q" "\<forall>p \<in> set pre. takeable p = None"
        by blast
      then show ?l using None by (intro exI [of _ "e # pre"] exI [of _ x] exI [of _ post]) simp
    qed
    then show ?thesis using None Cons.IH by simp
  next
    case (Some r)
    show ?thesis
    proof
      assume "first_takeable (e # es) = Some q"
      then show "\<exists>pre x post. e # es = pre @ x # post \<and> takeable x = Some q \<and> (\<forall>p \<in> set pre. takeable p = None)"
        using Some by (intro exI [of _ "[]"] exI [of _ e] exI [of _ es]) simp
    next
      assume "\<exists>pre x post. e # es = pre @ x # post \<and> takeable x = Some q \<and> (\<forall>p \<in> set pre. takeable p = None)"
      then obtain pre x post where pre: "e # es = pre @ x # post" "takeable x = Some q" "\<forall>p \<in> set pre. takeable p = None"
        by blast
      then have "pre = []" using Some by (cases pre) auto
      then show "first_takeable (e # es) = Some q" using pre by simp
    qed
  qed
qed simp

lemma window_bits_bounds: "window_bits v = Inr bits \<Longrightarrow> 9 \<le> bits \<and> bits \<le> 15"
  by (auto simp: window_bits_def MAX_WINDOW_BITS_def MIN_WINDOW_BITS_def split: option.splits if_splits)

lemma offer_part_bits:
  "offer_part n v q = Inr q' \<Longrightarrow> \<forall>bits. do_server_max_window_bits q = Some bits \<longrightarrow> bits \<le> 15 \<Longrightarrow>
   do_server_max_window_bits q' = Some bits \<Longrightarrow> bits \<le> 15"
  by (auto simp: offer_part_def dest: window_bits_bounds split: if_splits option.splits sum.splits)

lemma offer_parts_bits:
  "offer_parts ps q = Inr q' \<Longrightarrow> \<forall>bits. do_server_max_window_bits q = Some bits \<longrightarrow> bits \<le> 15 \<Longrightarrow>
   do_server_max_window_bits q' = Some bits \<Longrightarrow> bits \<le> 15"
proof (induction ps q rule: offer_parts.induct)
  case (2 part parts q)
  show ?case
  proof (cases "part = []")
    case True
    then show ?thesis using 2 by simp
  next
    case False
    obtain n v where nv: "(case split_once (CHR ''='') part of
              Some (n, v) \<Rightarrow> (trim n, Some (trim_matches (CHR 0x22) (trim v)))
            | None \<Rightarrow> (part, None)) = (n, v)" by fastforce
    then obtain q1 where q1: "offer_part n v q = Inr q1" "offer_parts parts q1 = Inr q'"
      using 2(3) False by (auto split: sum.splits)
    have "\<forall>bits. do_server_max_window_bits q1 = Some bits \<longrightarrow> bits \<le> 15"
      using offer_part_bits [OF q1(1) 2(4)] by blast
    with 2(2) [OF False _ _ q1(1) q1(2) _ 2(5)] nv show ?thesis by metis
  qed
qed simp

lemma takeable_Some:
  "takeable e = Some q \<Longrightarrow> parse_offer e = Inr (Some q) \<and> do_server_max_window_bits q \<in> {None, Some 15}"
  by (fastforce simp: takeable_def parse_offer_def Let_def MAX_WINDOW_BITS_def dest: offer_parts_bits
      split: sum.splits option.splits if_splits)

text \<open>
  A server takes the first offer it can read that does not narrow its window, and the client
  reads out of its answer the very parameters the server uses.
\<close>

theorem deflate_agreed:
  assumes "accept_offer (Some h) = Some (p, answer)"
  shows "accept_response (Some answer) = Inr (Some p) \<and>
    (\<exists>pre e post q. split_on (CHR '','') h = pre @ e # post \<and> parse_offer e = Inr (Some q) \<and>
       p = offer_params q \<and> do_server_max_window_bits q \<in> {None, Some 15} \<and>
       (\<forall>x \<in> set pre. takeable x = None))"
proof -
  obtain q where q: "first_takeable (split_on (CHR '','') h) = Some q" "p = offer_params q" "answer = to_header p"
    using assms by (auto simp: accept_offer_def split: option.splits)
  then obtain pre e post where e: "split_on (CHR '','') h = pre @ e # post" "takeable e = Some q"
    "\<forall>x \<in> set pre. takeable x = None"
    by (auto simp: first_takeable_Some)
  then show ?thesis
    using q takeable_Some [OF e(2)] accept_response_header by blast
qed

theorem deflate_agreed_witness:
  "accept_offer (Some ''permessage-deflate; server_max_window_bits=10, permessage-deflate; client_no_context_takeover'') =
     Some (\<lparr>server_no_context_takeover = False, client_no_context_takeover = True\<rparr>,
       ''permessage-deflate; client_no_context_takeover'') \<and>
   accept_response (Some ''permessage-deflate; client_no_context_takeover'') =
     Inr (Some \<lparr>server_no_context_takeover = False, client_no_context_takeover = True\<rparr>)"
proof -
  have "accept_offer (Some ''permessage-deflate; server_max_window_bits=10, permessage-deflate; client_no_context_takeover'') =
     Some (\<lparr>server_no_context_takeover = False, client_no_context_takeover = True\<rparr>,
       ''permessage-deflate; client_no_context_takeover'')"
    by code_simp
  with deflate_agreed [OF this] show ?thesis by blast
qed

end
