(* ===== verification/Security.thy ===== *)
theory Security
  imports Ws_Codec Version Texts
begin

text \<open>
  \<open>transport/security.rs\<close>: the security profiles, the passwords of HTTP Basic authentication with
  the rules of each protocol version, and the credentials in an \<open>Authorization\<close> header.

  An identity and a password are the bytes of their UTF-8 text here, and a character of a header
  is a byte. Base 64 is a library: \<open>encode\<close> and \<open>decode\<close> are parameters, the record \<open>base64\<close>, and
  \<open>base64_ok\<close> is what the sources rely on.

  The lemmas show that what a client puts into the header is what a server reads out of it, that
  the comparison in constant time is equality, and that every key printed in hexadecimal is read
  back, but that other text is read too.
\<close>

section \<open>Security profiles\<close>

datatype security_profile = BasicAuth | TlsBasicAuth | TlsClientCertificate

fun profile_number :: "security_profile \<Rightarrow> nat" where
  "profile_number BasicAuth = 1"
| "profile_number TlsBasicAuth = 2"
| "profile_number TlsClientCertificate = 3"

definition profile_from_number :: "nat \<Rightarrow> security_profile option" where
  "profile_from_number n =
     (if n = 1 then Some BasicAuth
      else if n = 2 then Some TlsBasicAuth
      else if n = 3 then Some TlsClientCertificate
      else None)"

definition is_transport_encrypted :: "security_profile \<Rightarrow> bool" where
  "is_transport_encrypted p \<longleftrightarrow> p \<noteq> BasicAuth"

definition uses_basic_auth :: "security_profile \<Rightarrow> bool" where
  "uses_basic_auth p \<longleftrightarrow> p = BasicAuth \<or> p = TlsBasicAuth"

interpretation profile_wire: wire_enum profile_number profile_from_number
proof
  show "profile_from_number (profile_number p) = Some p" for p
    by (cases p) (simp_all add: profile_from_number_def)
  show "profile_from_number n = Some p \<Longrightarrow> n = profile_number p" for n p
    by (auto simp: profile_from_number_def split: if_splits)
qed

section \<open>Passwords\<close>

definition BASIC_AUTH_MIN_LEN :: nat where "BASIC_AUTH_MIN_LEN = 16"

definition BASIC_AUTH_MAX_LEN :: nat where "BASIC_AUTH_MAX_LEN = 64"

definition BASIC_AUTH_INTEROPERABLE_MAX_LEN :: nat where "BASIC_AUTH_INTEROPERABLE_MAX_LEN = 40"

datatype credential_error = PasswordLength nat | NotHex

text \<open>\<open>chars().count()\<close> of well-formed text, and \<open>u8::from_str_radix\<close> with base 16.\<close>

definition char_count :: "bytes \<Rightarrow> nat" where
  "char_count t = length (filter (\<lambda>b. \<not> is_cont b) t)"

definition from_hex_digit :: "char \<Rightarrow> nat option" where
  "from_hex_digit c =
     (let n = of_char c in
      if 48 \<le> n \<and> n \<le> 57 then Some (n - 48)
      else if 65 \<le> n \<and> n \<le> 70 then Some (n - 55)
      else if 97 \<le> n \<and> n \<le> 102 then Some (n - 87)
      else None)"

fun hex_number :: "nat \<Rightarrow> string \<Rightarrow> nat option" where
  "hex_number acc [] = Some acc"
| "hex_number acc (c # cs) =
     (case from_hex_digit c of None \<Rightarrow> None | Some d \<Rightarrow> hex_number (acc * 16 + d) cs)"

definition u8_from_hex :: "string \<Rightarrow> u8 option" where
  "u8_from_hex s =
     (let ds = (if s \<noteq> [] \<and> hd s = CHR ''+'' then tl s else s) in
      if ds = [] then None
      else
        (case hex_number 0 ds of
           None \<Rightarrow> None
         | Some n \<Rightarrow> if n \<le> 255 then Some (of_nat n) else None))"

fun hex_pairs :: "string \<Rightarrow> bytes option" where
  "hex_pairs [] = Some []"
| "hex_pairs [c] = (case u8_from_hex [c] of None \<Rightarrow> None | Some b \<Rightarrow> Some [b])"
| "hex_pairs (c # d # cs) =
     (case u8_from_hex [c, d] of
        None \<Rightarrow> None
      | Some b \<Rightarrow> (case hex_pairs cs of None \<Rightarrow> None | Some bs \<Rightarrow> Some (b # bs)))"

definition password_utf8 :: "bytes \<Rightarrow> credential_error + bytes" where
  "password_utf8 t =
     (if BASIC_AUTH_MIN_LEN \<le> char_count t \<and> char_count t \<le> BASIC_AUTH_MAX_LEN then Inr t
      else Inl (PasswordLength (char_count t)))"

definition password_hex :: "string \<Rightarrow> credential_error + bytes" where
  "password_hex key =
     (let t = trim key in
      if length t mod 2 \<noteq> 0 \<or> t = [] then Inl NotHex
      else (case hex_pairs t of None \<Rightarrow> Inl NotHex | Some bs \<Rightarrow> Inr bs))"

definition bytes_of :: "string \<Rightarrow> bytes" where
  "bytes_of s = map (\<lambda>c. of_nat (of_char c)) s"

definition password_for_version :: "version \<Rightarrow> string \<Rightarrow> credential_error + bytes" where
  "password_for_version v s = (if v = V1_6 then password_hex s else password_utf8 (bytes_of s))"

fun diff_loop :: "u8 \<Rightarrow> bytes \<Rightarrow> bytes \<Rightarrow> u8" where
  "diff_loop d (x # xs) (y # ys) = diff_loop (d OR (x XOR y)) xs ys"
| "diff_loop d _ _ = d"

definition constant_time_eq :: "bytes \<Rightarrow> bytes \<Rightarrow> bool" where
  "constant_time_eq a b = (if length a \<noteq> length b then False else diff_loop 0 a b = 0)"

section \<open>Credentials\<close>

record base64 =
  b64_encode :: "bytes \<Rightarrow> string"
  b64_decode :: "string \<Rightarrow> bytes option"

datatype credentials =
    NoCredentials
  | Basic (basic_user: bytes) (basic_password: bytes)
  | ClientCertificate bytes

definition COLON :: u8 where "COLON = 0x3A"

definition basic_auth_header :: "base64 \<Rightarrow> bytes \<Rightarrow> bytes \<Rightarrow> string" where
  "basic_auth_header b64 identity password = ''Basic '' @ b64_encode b64 (identity @ COLON # password)"

definition strip_prefix :: "string \<Rightarrow> string \<Rightarrow> string option" where
  "strip_prefix p s = (if take (length p) s = p then Some (drop (length p) s) else None)"

definition from_authorization_header :: "base64 \<Rightarrow> string \<Rightarrow> credentials" where
  "from_authorization_header b64 v =
     (case (case strip_prefix ''Basic '' v of Some e \<Rightarrow> Some e | None \<Rightarrow> strip_prefix ''basic '' v) of
        None \<Rightarrow> NoCredentials
      | Some encoded \<Rightarrow>
          (case b64_decode b64 (trim encoded) of
             None \<Rightarrow> NoCredentials
           | Some decoded \<Rightarrow>
               if COLON \<in> set decoded then
                 (let user = takeWhile (\<lambda>b. b \<noteq> COLON) decoded;
                      password = tl (dropWhile (\<lambda>b. b \<noteq> COLON) decoded) in
                  if utf8_valid user then Basic user password else NoCredentials)
               else NoCredentials))"

text \<open>
  What the library promises: decoding undoes encoding, the encoding of something is not empty, and
  encoded text has no white space.
\<close>

definition base64_ok :: "base64 \<Rightarrow> bool" where
  "base64_ok b64 \<longleftrightarrow>
     (\<forall>bs. b64_decode b64 (b64_encode b64 bs) = Some bs \<and> (bs \<noteq> [] \<longrightarrow> b64_encode b64 bs \<noteq> []) \<and>
        (\<forall>c \<in> set (b64_encode b64 bs). \<not> is_whitespace c \<and> of_char c < (128 :: nat)))"

section \<open>Lemmas\<close>

lemma xor_zero: "x XOR y = 0 \<longleftrightarrow> x = (y :: u8)"
  by (simp add: bit_eq_iff bit_xor_iff)

lemma diff_loop_zero: "length a = length b \<Longrightarrow> diff_loop d a b = 0 \<longleftrightarrow> d = 0 \<and> a = b"
  by (induction d a b rule: diff_loop.induct) (auto simp: or_eq_0_iff xor_zero)

lemma constant_time_eq_iff: "constant_time_eq a b \<longleftrightarrow> a = b"
  by (auto simp: constant_time_eq_def diff_loop_zero)

subsection \<open>Hexadecimal\<close>

text \<open>\<open>{:02X}\<close>.\<close>

definition hex_char :: "nat \<Rightarrow> char" where
  "hex_char n = char_of (if n < 10 then n + 48 else n + 55)"

definition hex2 :: "u8 \<Rightarrow> string" where
  "hex2 b = [hex_char (unat b div 16), hex_char (unat b mod 16)]"

lemma hex_digit_char: "n < 16 \<Longrightarrow> from_hex_digit (hex_char n) = Some n \<and> hex_char n \<noteq> CHR ''+''"
proof -
  assume "n < 16"
  then have "n \<in> set [0..<16]" by simp
  moreover have "list_all (\<lambda>n. from_hex_digit (hex_char n) = Some n \<and> hex_char n \<noteq> CHR ''+'') [0..<16]"
    by code_simp
  ultimately show ?thesis unfolding list_all_iff by blast
qed

lemma u8_from_hex2 [simp]: "u8_from_hex (hex2 b) = Some b"
proof -
  have b: "unat b < 256" using unsigned_less [of b, where 'a = nat] by simp
  then have "unat b div 16 < 16" "unat b mod 16 < 16" by simp_all
  then show ?thesis
    using b hex_digit_char [of "unat b div 16"] hex_digit_char [of "unat b mod 16"]
    by (simp add: u8_from_hex_def hex2_def Let_def)
qed

definition hex_text :: "bytes \<Rightarrow> string" where
  "hex_text bs = concat (map hex2 bs)"

lemma hex_pairs_text [simp]: "hex_pairs (hex_text bs) = Some bs"
proof (induction bs)
  case (Cons b bs)
  have "hex_text (b # bs) = [hex_char (unat b div 16), hex_char (unat b mod 16)] @ hex_text bs"
    by (simp add: hex_text_def hex2_def)
  then show ?case using Cons u8_from_hex2 [of b] by (simp add: hex2_def)
qed (simp add: hex_text_def)

lemma hex_char_plain: "n < 16 \<Longrightarrow> \<not> is_whitespace (hex_char n) \<and> of_char (hex_char n) < (128 :: nat)"
proof -
  assume "n < 16"
  then have "n \<in> set [0..<16]" by simp
  moreover have "list_all (\<lambda>n. \<not> is_whitespace (hex_char n) \<and> of_char (hex_char n) < (128 :: nat)) [0..<16]"
    by code_simp
  ultimately show ?thesis unfolding list_all_iff by blast
qed

lemma hex_text_plain: "c \<in> set (hex_text bs) \<Longrightarrow> \<not> is_whitespace c \<and> of_char c < (128 :: nat)"
proof -
  have "unat b div 16 < 16 \<and> unat b mod 16 < 16" for b :: u8 using unsigned_less [of b, where 'a = nat] by auto
  then show "c \<in> set (hex_text bs) \<Longrightarrow> ?thesis"
    by (auto simp: hex_text_def hex2_def hex_char_plain)
qed

lemma length_hex_text [simp]: "length (hex_text bs) = 2 * length bs"
  by (induction bs) (simp_all add: hex_text_def hex2_def)

lemma hex_text_empty [simp]: "hex_text bs = [] \<longleftrightarrow> bs = []"
  by (cases bs) (simp_all add: hex_text_def hex2_def)

text \<open>
  A key printed in hexadecimal is read back; and so is text that is not hexadecimal, as a sign
  stands for the first digit of a pair.
\<close>

theorem hex_key_roundtrip: "bs \<noteq> [] \<Longrightarrow> password_hex (hex_text bs) = Inr bs"
proof -
  assume "bs \<noteq> []"
  moreover have "trim (hex_text bs) = hex_text bs"
    by (rule trim_trimmed) (auto intro: trimmed_all simp: hex_text_plain)
  ultimately show ?thesis by (simp add: password_hex_def Let_def)
qed

theorem signed_pairs_are_hex: "password_hex ''+f+F'' = Inr [15, 15]"
  by code_simp

subsection \<open>HTTP Basic\<close>

lemma basic_auth_read:
  assumes "base64_ok b64" and "utf8_valid identity" and "COLON \<notin> set identity"
  shows "from_authorization_header b64 (basic_auth_header b64 identity password) = Basic identity password"
proof -
  let ?e = "b64_encode b64 (identity @ COLON # password)"
  have "trim ?e = ?e" "b64_decode b64 ?e = Some (identity @ COLON # password)"
    using assms(1) by (auto simp: base64_ok_def intro!: trim_trimmed trimmed_all)
  moreover have "takeWhile (\<lambda>b. b \<noteq> COLON) (identity @ COLON # password) = identity"
    "dropWhile (\<lambda>b. b \<noteq> COLON) (identity @ COLON # password) = COLON # password"
    using assms(3) by (auto simp: takeWhile_append dropWhile_append)
  ultimately show ?thesis
    using assms(2) by (simp add: from_authorization_header_def basic_auth_header_def strip_prefix_def)
qed

text \<open>Hexadecimal text is an encoding of the kind the library promises.\<close>

definition base64_hex :: base64 where
  "base64_hex = \<lparr>b64_encode = hex_text, b64_decode = hex_pairs\<rparr>"

lemma base64_hex_ok: "base64_ok base64_hex"
  by (auto simp: base64_ok_def base64_hex_def hex_text_plain)

end
