(* ===== verification/Handshake.thy ===== *)
theory Handshake
  imports Deflate Security Identifiers
begin

text \<open>
  \<open>transport/ws/handshake.rs\<close>: the HTTP upgrade that opens a connection, both ends of it.

  A head is ASCII text, a character for each byte of it; what a socket delivers is a list of
  reads, where the empty read is the end of the stream. The hash behind \<open>Sec-WebSocket-Accept\<close>,
  SHA-1 in base 64, is the parameter \<open>digest\<close>. Texts of an error are reduced to a name for it.

  The lemmas show that a head is read the same way however it arrives, that a server reads out of
  a request what the client put into it, a client out of the answer what the server put into it,
  and that an identity comes through a path unchanged.
\<close>

definition CRLF :: string where "CRLF = [CHR 0x0D, CHR 0x0A]"

definition WS_GUID :: string where "WS_GUID = ''258EAFA5-E914-47DA-95CA-C5AB0DC85B11''"

definition MAX_HEAD :: nat where "MAX_HEAD = 16 * 1024"

datatype transport_error =
  SocketClosed | HeadTooLarge | UnexpectedMethod string | MalformedResponse | RejectedWith nat |
  NotSwitched | AcceptMismatch

definition accept_key :: "(string \<Rightarrow> string) \<Rightarrow> string \<Rightarrow> string" where
  "accept_key digest key = digest (key @ WS_GUID)"

section \<open>Heads\<close>

record head =
  hd_target :: string
  hd_headers :: "(string \<times> string) list"
  hd_rest :: string

definition header :: "head \<Rightarrow> string \<Rightarrow> string option" where
  "header h n = map_option snd (List.find (\<lambda>(k, v). k = n) (hd_headers h))"

definition header_list :: "head \<Rightarrow> string \<Rightarrow> string option" where
  "header_list h n =
     foldl (\<lambda>joined (k, v).
         if k \<noteq> n then joined
         else (case joined of Some s \<Rightarrow> Some (s @ '','' @ v) | None \<Rightarrow> Some v)) None (hd_headers h)"

definition header_lists :: "head \<Rightarrow> string \<Rightarrow> string \<Rightarrow> bool" where
  "header_lists h n token \<longleftrightarrow>
     (case header_list h n of
        None \<Rightarrow> False
      | Some v \<Rightarrow> list_ex (\<lambda>item. eq_ignore_ascii_case (trim item) token) (split_on (CHR '','') v))"

fun find_head_end :: "string \<Rightarrow> nat option" where
  "find_head_end [] = None"
| "find_head_end (c # cs) =
     (if take 4 (c # cs) = CRLF @ CRLF then Some 0 else map_option Suc (find_head_end cs))"

fun read_until :: "string \<Rightarrow> string list \<Rightarrow> transport_error + nat \<times> string \<times> string list" where
  "read_until buffer [] = Inl SocketClosed"
| "read_until buffer (r # rs) =
     (if r = [] then Inl SocketClosed
      else
        (case find_head_end (buffer @ r) of
           Some e \<Rightarrow> Inr (e, buffer @ r, rs)
         | None \<Rightarrow> if length (buffer @ r) > MAX_HEAD then Inl HeadTooLarge else read_until (buffer @ r) rs))"

fun split_crlf :: "string \<Rightarrow> string list" where
  "split_crlf [] = [[]]"
| "split_crlf [c] = [[c]]"
| "split_crlf (c # d # cs) =
     (if c = CHR 0x0D \<and> d = CHR 0x0A then [] # split_crlf cs
      else (case split_crlf (d # cs) of [] \<Rightarrow> [[c]] | l # ls \<Rightarrow> (c # l) # ls))"

definition parse_line :: "string \<Rightarrow> (string \<times> string) option" where
  "parse_line line =
     (if line = [] then None
      else map_option (\<lambda>(n, v). (to_ascii_lowercase (trim n), trim v)) (split_once (CHR '':'') line))"

definition parse_head :: "string \<Rightarrow> string \<Rightarrow> head" where
  "parse_head t rest =
     (let lines = split_crlf t in
      \<lparr>hd_target = hd lines, hd_headers = List.map_filter parse_line (tl lines), hd_rest = rest\<rparr>)"

definition read_head :: "string list \<Rightarrow> transport_error + head \<times> string list" where
  "read_head reads =
     (case read_until [] reads of
        Inl e \<Rightarrow> Inl e
      | Inr (e, buffer, reads') \<Rightarrow> Inr (parse_head (take e buffer) (drop (e + 4) buffer), reads'))"

section \<open>Percent coding and identities\<close>

definition byte_of :: "char \<Rightarrow> u8" where
  "byte_of c = of_nat (of_char c)"

fun percent_bytes :: "string \<Rightarrow> bytes" where
  "percent_bytes (c # a # b # cs) =
     (if c = CHR ''%'' then
        (case u8_from_hex [a, b] of
           Some v \<Rightarrow> v # percent_bytes cs
         | None \<Rightarrow> byte_of c # percent_bytes (a # b # cs))
      else byte_of c # percent_bytes (a # b # cs))"
| "percent_bytes (c # cs) = byte_of c # percent_bytes cs"
| "percent_bytes [] = []"

text \<open>\<open>String::from_utf8_lossy\<close>: each longest beginning of a sequence that goes wrong is U+FFFD.\<close>

definition good_run :: "nat \<Rightarrow> u8 \<Rightarrow> u8 \<Rightarrow> bytes \<Rightarrow> nat" where
  "good_run n lo hi bs =
     (if n = 0 \<or> bs = [] \<or> \<not> (lo \<le> hd bs \<and> hd bs \<le> hi) then 0
      else 1 + length (takeWhile is_cont (take (n - 1) (tl bs))))"

function utf8_lossy :: "bytes \<Rightarrow> bytes" where
  "utf8_lossy [] = []"
| "utf8_lossy (b # bs) =
     (case utf8_lead b of
        None \<Rightarrow> [0xEF, 0xBF, 0xBD] @ utf8_lossy bs
      | Some (n, lo, hi) \<Rightarrow>
          if good_run n lo hi bs = n then b # take n bs @ utf8_lossy (drop n bs)
          else [0xEF, 0xBF, 0xBD] @ utf8_lossy (drop (good_run n lo hi bs) bs))"
  by pat_completeness auto
termination by (relation "measure length") auto

definition percent_decode :: "string \<Rightarrow> bytes" where
  "percent_decode s = utf8_lossy (percent_bytes s)"

definition unreserved :: "u8 \<Rightarrow> bool" where
  "unreserved b \<longleftrightarrow>
     (let n = unat b in
      65 \<le> n \<and> n \<le> 90 \<or> 97 \<le> n \<and> n \<le> 122 \<or> 48 \<le> n \<and> n \<le> 57 \<or> n = 45 \<or> n = 46 \<or> n = 95 \<or> n = 126)"

definition percent_encode :: "bytes \<Rightarrow> string" where
  "percent_encode bs = concat (map (\<lambda>b. if unreserved b then [char_of (unat b)] else CHR ''%'' # hex2 b) bs)"

text \<open>\<open>Identity::new\<close> on the UTF-8 bytes of its text; the control characters are C0, DEL and C1.\<close>

fun has_control :: "bytes \<Rightarrow> bool" where
  "has_control [] = False"
| "has_control (b # bs) =
     (b < 0x20 \<or> b = 0x7F \<or> (b = 0xC2 \<and> bs \<noteq> [] \<and> 0x80 \<le> hd bs \<and> hd bs \<le> 0x9F) \<or> has_control bs)"

definition identity_utf8 :: "bytes \<Rightarrow> identity_error + bytes" where
  "identity_utf8 t =
     (if t = [] then Inl IdEmpty
      else if char_count t > IDENTITY_MAX_LEN then Inl (IdTooLong (char_count t))
      else if COLON \<in> set t then Inl IdColon
      else if has_control t then Inl IdControl
      else Inr t)"

section \<open>The server\<close>

record upgrade_request =
  ur_path :: string
  ur_head :: head

fun split_where :: "(char \<Rightarrow> bool) \<Rightarrow> string \<Rightarrow> string list" where
  "split_where P [] = [[]]"
| "split_where P (c # cs) =
     (if P c then [] # split_where P cs
      else (case split_where P cs of [] \<Rightarrow> [[c]] | w # ws \<Rightarrow> (c # w) # ws))"

definition split_whitespace :: "string \<Rightarrow> string list" where
  "split_whitespace s = filter (\<lambda>w. w \<noteq> []) (split_where is_whitespace s)"

definition next_or_empty :: "string list \<Rightarrow> string" where
  "next_or_empty ws = (case ws of [] \<Rightarrow> [] | w # _ \<Rightarrow> w)"

definition read_request :: "string list \<Rightarrow> transport_error + upgrade_request \<times> string list" where
  "read_request reads =
     (case read_head reads of
        Inl e \<Rightarrow> Inl e
      | Inr (h, reads') \<Rightarrow>
          let parts = split_whitespace (hd_target h);
              method = next_or_empty parts;
              path = next_or_empty (drop 1 parts) in
          if \<not> eq_ignore_ascii_case method ''GET'' then Inl (UnexpectedMethod method)
          else Inr (\<lparr>ur_path = path, ur_head = h\<rparr>, reads'))"

definition request_identity :: "upgrade_request \<Rightarrow> bytes option" where
  "request_identity r =
     (let path = takeWhile (\<lambda>c. c \<noteq> CHR ''?'' \<and> c \<noteq> CHR ''#'') (ur_path r) in
      case List.find (\<lambda>seg. seg \<noteq> []) (rev (split_on (CHR ''/'') path)) of
        None \<Rightarrow> None
      | Some seg \<Rightarrow> (case identity_utf8 (percent_decode seg) of Inl _ \<Rightarrow> None | Inr i \<Rightarrow> Some i))"

definition request_subprotocols :: "upgrade_request \<Rightarrow> version list" where
  "request_subprotocols r =
     (case header_list (ur_head r) ''sec-websocket-protocol'' of
        None \<Rightarrow> []
      | Some v \<Rightarrow> List.map_filter (\<lambda>token. from_subprotocol (trim token)) (split_on (CHR '','') v))"

definition request_extensions :: "upgrade_request \<Rightarrow> string option" where
  "request_extensions r = header_list (ur_head r) ''sec-websocket-extensions''"

definition websocket_key :: "upgrade_request \<Rightarrow> string option" where
  "websocket_key r = header (ur_head r) ''sec-websocket-key''"

datatype upgrade_defect = NotAnUpgrade | UnsupportedVersion | MissingKey

definition upgrade_defect_of :: "upgrade_request \<Rightarrow> upgrade_defect option" where
  "upgrade_defect_of r =
     (if \<not> header_lists (ur_head r) ''upgrade'' ''websocket'' \<or>
         \<not> header_lists (ur_head r) ''connection'' ''upgrade''
      then Some NotAnUpgrade
      else if header (ur_head r) ''sec-websocket-version'' \<noteq> Some ''13'' then Some UnsupportedVersion
      else if header (ur_head r) ''sec-websocket-key'' = None then Some MissingKey
      else None)"

fun defect_status :: "upgrade_defect \<Rightarrow> nat \<times> string" where
  "defect_status UnsupportedVersion = (426, ''Upgrade Required'')"
| "defect_status NotAnUpgrade = (400, ''Bad Request'')"
| "defect_status MissingKey = (400, ''Bad Request'')"

definition optional_line :: "string \<Rightarrow> string option \<Rightarrow> string" where
  "optional_line n v = (case v of None \<Rightarrow> [] | Some s \<Rightarrow> n @ '': '' @ s @ CRLF)"

definition accept_text :: "(string \<Rightarrow> string) \<Rightarrow> string \<Rightarrow> string option \<Rightarrow> string option \<Rightarrow> string" where
  "accept_text digest key sub ext =
     ''HTTP/1.1 101 Switching Protocols'' @ CRLF @
     ''Upgrade: websocket'' @ CRLF @
     ''Connection: Upgrade'' @ CRLF @
     ''Sec-WebSocket-Accept: '' @ accept_key digest key @ CRLF @
     optional_line ''Sec-WebSocket-Protocol'' sub @
     optional_line ''Sec-WebSocket-Extensions'' ext @
     CRLF"

definition refusal_text :: "nat \<Rightarrow> string \<Rightarrow> string" where
  "refusal_text status reason =
     ''HTTP/1.1 '' @ digits status @ '' '' @ reason @ CRLF @
     (if status = 401 then
        ''WWW-Authenticate: Basic realm='' @ [CHR 0x22] @ ''OCPP'' @ [CHR 0x22] @ '', charset='' @
        [CHR 0x22] @ ''UTF-8'' @ [CHR 0x22] @ CRLF
      else if status = 426 then ''Sec-WebSocket-Version: 13'' @ CRLF
      else []) @
     ''Content-Length: 0'' @ CRLF @ ''Connection: close'' @ CRLF @ CRLF"

section \<open>The client\<close>

record client_request =
  cr_host :: string
  cr_path :: string
  cr_subprotocols :: string
  cr_authorization :: "string option"
  cr_extensions :: "string option"

record client_result =
  ch_subprotocol :: "string option"
  ch_extensions :: "string option"
  ch_rest :: string

definition request_text :: "string \<Rightarrow> client_request \<Rightarrow> string" where
  "request_text key r =
     ''GET '' @ cr_path r @ '' HTTP/1.1'' @ CRLF @
     ''Host: '' @ cr_host r @ CRLF @
     ''Upgrade: websocket'' @ CRLF @
     ''Connection: Upgrade'' @ CRLF @
     ''Sec-WebSocket-Version: 13'' @ CRLF @
     ''Sec-WebSocket-Key: '' @ key @ CRLF @
     ''Sec-WebSocket-Protocol: '' @ cr_subprotocols r @ CRLF @
     optional_line ''Authorization'' (cr_authorization r) @
     optional_line ''Sec-WebSocket-Extensions'' (cr_extensions r) @
     CRLF"

definition response_status :: "head \<Rightarrow> nat option" where
  "response_status h =
     (case drop 1 (split_whitespace (hd_target h)) of
        [] \<Rightarrow> None
      | code # _ \<Rightarrow> parse_unsigned 65535 code)"

definition client_result_of ::
  "(string \<Rightarrow> string) \<Rightarrow> string \<Rightarrow> string list \<Rightarrow> transport_error + client_result \<times> string list" where
  "client_result_of digest key reads =
     (case read_head reads of
        Inl e \<Rightarrow> Inl e
      | Inr (h, reads') \<Rightarrow>
          (case response_status h of
             None \<Rightarrow> Inl MalformedResponse
           | Some status \<Rightarrow>
               if status \<noteq> 101 then Inl (RejectedWith status)
               else if \<not> header_lists h ''upgrade'' ''websocket'' \<or> \<not> header_lists h ''connection'' ''upgrade''
               then Inl NotSwitched
               else if header h ''sec-websocket-accept'' \<noteq> Some (accept_key digest key) then Inl AcceptMismatch
               else
                 Inr (\<lparr>ch_subprotocol = header h ''sec-websocket-protocol'',
                       ch_extensions = header h ''sec-websocket-extensions'', ch_rest = hd_rest h\<rparr>, reads')))"

section \<open>Heads arrive in pieces\<close>

lemma find_head_end_fits: "find_head_end b = Some i \<Longrightarrow> i + 4 \<le> length b"
proof (induction b arbitrary: i)
  case (Cons c cs)
  show ?case
  proof (cases "take 4 (c # cs) = CRLF @ CRLF")
    case True
    then have "length (take 4 (c # cs)) = 4" by (simp add: CRLF_def)
    then show ?thesis using Cons.prems True by auto
  next
    case False
    then show ?thesis using Cons by fastforce
  qed
qed simp

lemma take_same: "n \<le> length b \<Longrightarrow> take n (b @ x) = take n b"
  by simp

lemma find_head_end_more: "find_head_end b = Some i \<Longrightarrow> find_head_end (b @ x) = Some i"
proof (induction b arbitrary: i)
  case (Cons c cs)
  have "4 \<le> length (c # cs)" using find_head_end_fits [OF Cons.prems] by simp
  then have "take 4 ((c # cs) @ x) = take 4 (c # cs)" by (rule take_same)
  then show ?case using Cons by (auto split: if_splits)
qed simp

lemma find_head_end_less: "find_head_end (b @ x) = Some e \<Longrightarrow> e + 4 \<le> length b \<Longrightarrow> find_head_end b = Some e"
proof (induction b arbitrary: e)
  case (Cons c cs)
  have "4 \<le> length (c # cs)" using Cons.prems(2) by simp
  then have "take 4 ((c # cs) @ x) = take 4 (c # cs)" by (rule take_same)
  then show ?case using Cons by (auto split: if_splits)
qed simp

lemma read_until_stream:
  assumes "find_head_end (buffer @ concat rs) = Some e" and "e + 3 \<le> MAX_HEAD" and "[] \<notin> set rs"
    and "find_head_end buffer = None"
  shows "\<exists>buf rs'. read_until buffer rs = Inr (e, buf, rs') \<and> buf @ concat rs' = buffer @ concat rs \<and> e + 4 \<le> length buf"
  using assms
proof (induction rs arbitrary: buffer)
  case (Cons r rs)
  show ?case
  proof (cases "find_head_end (buffer @ r)")
    case None
    have "\<not> e + 4 \<le> length (buffer @ r)"
      using find_head_end_less [of "buffer @ r" "concat rs" e] Cons.prems(1) None by auto
    then have "length (buffer @ r) \<le> MAX_HEAD" using Cons.prems(2) by simp
    moreover have "r \<noteq> []" using Cons.prems(3) by auto
    ultimately show ?thesis
      using Cons.IH [of "buffer @ r"] Cons.prems None by (simp del: length_append)
  next
    case (Some i)
    then have "i = e" using find_head_end_more [OF Some, of "concat rs"] Cons.prems(1) by simp
    then show ?thesis
      using Some Cons.prems(3) find_head_end_fits [OF Some]
      by (intro exI [of _ "buffer @ r"] exI [of _ rs]) auto
  qed
qed simp

text \<open>
  A head that ends within the limit is read whole however the stream is cut into reads, and
  what follows it is lost by none of them.
\<close>

lemma head_chunking_irrelevant:
  assumes "find_head_end (concat reads) = Some e" and "e + 3 \<le> MAX_HEAD" and "[] \<notin> set reads"
  shows "\<exists>rest reads'. read_head reads = Inr (parse_head (take e (concat reads)) rest, reads') \<and>
    rest @ concat reads' = drop (e + 4) (concat reads)"
proof -
  have "find_head_end [] = None" by simp
  with read_until_stream [of "[]" reads e] assms obtain buf rs' where
    b: "read_until [] reads = Inr (e, buf, rs')" "buf @ concat rs' = concat reads" "e + 4 \<le> length buf"
    by auto
  have "take e (concat reads) = take e buf" "drop (e + 4) (concat reads) = drop (e + 4) buf @ concat rs'"
    unfolding b(2) [symmetric] using b(3) by simp_all
  then show ?thesis using b by (simp add: read_head_def)
qed

section \<open>Heads that are written are read\<close>

definition lines_text :: "string list \<Rightarrow> string" where
  "lines_text ls = concat (map (\<lambda>l. l @ CRLF) ls)"

definition line_ok :: "string \<Rightarrow> bool" where
  "line_ok l \<longleftrightarrow> l \<noteq> [] \<and> CHR 0x0D \<notin> set l"

lemma lines_text_join: "ls \<noteq> [] \<Longrightarrow> lines_text ls = join CRLF ls @ CRLF"
  by (induction CRLF ls rule: join.induct) (simp_all add: lines_text_def)

lemma find_plain: "CHR 0x0D \<notin> set l \<Longrightarrow> find_head_end (l @ s) = map_option (\<lambda>i. i + length l) (find_head_end s)"
  by (induction l) (auto simp: CRLF_def option.map_comp comp_def option.map_ident)

lemma find_crlf: "c \<noteq> CHR 0x0D \<Longrightarrow> find_head_end (CRLF @ c # s) = map_option (\<lambda>i. i + 2) (find_head_end (c # s))"
  by (simp add: CRLF_def option.map_comp comp_def)

lemma find_end_join:
  "ls \<noteq> [] \<Longrightarrow> \<forall>l \<in> set ls. line_ok l \<Longrightarrow>
   find_head_end (join CRLF ls @ CRLF @ CRLF @ rest) = Some (length (join CRLF ls))"
proof (induction CRLF ls rule: join.induct)
  case (2 x)
  have "find_head_end (CRLF @ CRLF @ rest) = Some 0" by (simp add: CRLF_def)
  then show ?case using 2 by (simp add: find_plain line_ok_def)
next
  case (3 x y zs)
  obtain c y' where y: "y = c # y'" "c \<noteq> CHR 0x0D" using 3(3) by (cases y) (auto simp: line_ok_def)
  then obtain s where s: "join CRLF (y # zs) @ CRLF @ CRLF @ rest = c # s" by (cases zs) auto
  have "find_head_end (join CRLF (y # zs) @ CRLF @ CRLF @ rest) = Some (length (join CRLF (y # zs)))"
    using 3 by simp
  then have "find_head_end (CRLF @ join CRLF (y # zs) @ CRLF @ CRLF @ rest) = Some (2 + length (join CRLF (y # zs)))"
    unfolding s find_crlf [OF y(2)] by simp
  then show ?case
    using 3(3) find_plain [of x "CRLF @ join CRLF (y # zs) @ CRLF @ CRLF @ rest"]
    by (simp add: line_ok_def CRLF_def del: find_head_end.simps)
qed simp

lemma split_crlf_plain: "CHR 0x0D \<notin> set l \<Longrightarrow> split_crlf l = [l]"
  by (induction l rule: split_crlf.induct) auto

lemma split_crlf_append: "CHR 0x0D \<notin> set l \<Longrightarrow> split_crlf (l @ CRLF @ s) = l # split_crlf s"
proof (induction l)
  case Nil
  then show ?case by (simp add: CRLF_def)
next
  case (Cons c l)
  then show ?case by (cases l) (auto simp: CRLF_def)
qed

lemma split_crlf_join: "ls \<noteq> [] \<Longrightarrow> \<forall>l \<in> set ls. line_ok l \<Longrightarrow> split_crlf (join CRLF ls) = ls"
  by (induction CRLF ls rule: join.induct) (simp_all add: split_crlf_plain split_crlf_append line_ok_def)

lemma read_head_lines:
  assumes "concat reads = lines_text ls @ CRLF @ extra" and "ls \<noteq> []" and "\<forall>l \<in> set ls. line_ok l"
    and "length (lines_text ls) < MAX_HEAD" and "[] \<notin> set reads"
  shows "\<exists>rest reads'. read_head reads =
      Inr (\<lparr>hd_target = hd ls, hd_headers = List.map_filter parse_line (tl ls), hd_rest = rest\<rparr>, reads') \<and>
    rest @ concat reads' = extra"
proof -
  let ?e = "length (join CRLF ls)"
  have stream: "concat reads = join CRLF ls @ CRLF @ CRLF @ extra"
    using assms(1,2) by (simp add: lines_text_join)
  have "find_head_end (concat reads) = Some ?e" unfolding stream by (rule find_end_join [OF assms(2,3)])
  moreover have "?e + 3 \<le> MAX_HEAD" using assms(2,4) by (simp add: lines_text_join CRLF_def)
  moreover have "take ?e (concat reads) = join CRLF ls" "drop (?e + 4) (concat reads) = extra"
    unfolding stream by (simp_all add: CRLF_def)
  moreover have "parse_head (join CRLF ls) rest =
      \<lparr>hd_target = hd ls, hd_headers = List.map_filter parse_line (tl ls), hd_rest = rest\<rparr>" for rest
    using split_crlf_join [OF assms(2,3)] by (simp add: parse_head_def)
  ultimately show ?thesis using head_chunking_irrelevant [OF _ _ assms(5)] by metis
qed

section \<open>An identity in a path\<close>

lemma utf8_lossy_valid: "utf8_valid bs \<Longrightarrow> utf8_lossy bs = bs"
proof (induction bs rule: utf8_valid.induct)
  case (2 b bs)
  obtain n lo hi where lead: "utf8_lead b = Some (n, lo, hi)" and v: "n \<le> length bs"
    "n > 0 \<longrightarrow> lo \<le> hd bs \<and> hd bs \<le> hi" "list_all is_cont (take n bs)" "utf8_valid (drop n bs)"
    using 2(2) by (auto split: option.splits)
  have "good_run n lo hi bs = n"
  proof (cases "n = 0")
    case False
    then obtain x xs where bs: "bs = x # xs" using v(1) by (cases bs) auto
    have "list_all is_cont (take (n - 1) xs)" using v(3) False by (cases n) (auto simp: bs)
    then have all: "takeWhile is_cont (take (n - 1) xs) = take (n - 1) xs"
      unfolding takeWhile_eq_all_conv list_all_iff .
    show ?thesis using v(1,2) False unfolding good_run_def bs list.sel all by simp
  qed (simp add: good_run_def)
  then show ?case using 2(1) lead v(4) by simp
qed simp

lemma percent_bytes_plain: "c \<noteq> CHR ''%'' \<Longrightarrow> percent_bytes (c # s) = byte_of c # percent_bytes s"
  by (cases "(c # s)" rule: percent_bytes.cases) auto

lemma byte_of_char_of [simp]: "byte_of (char_of (unat b)) = b"
proof -
  have "unat b < 256" using unsigned_less [of b, where 'a = nat] by simp
  then show ?thesis by (simp add: byte_of_def)
qed

lemma percent_bytes_encode: "percent_bytes (percent_encode bs) = bs"
proof (induction bs)
  case (Cons b bs)
  show ?case
  proof (cases "unreserved b")
    case True
    have "char_of (unat b) \<noteq> CHR ''%''"
    proof
      assume "char_of (unat b) = CHR ''%''"
      then have "byte_of (CHR ''%'') = b" using byte_of_char_of [of b] by simp
      then have "unat b = 37" by (auto simp: byte_of_def)
      then show False using True by (simp add: unreserved_def)
    qed
    then show ?thesis
      using True Cons by (simp add: percent_encode_def percent_bytes_plain)
  next
    case False
    then have "percent_encode (b # bs) = CHR ''%'' # hex2 b @ percent_encode bs"
      by (simp add: percent_encode_def)
    then show ?thesis using Cons u8_from_hex2 [of b] by (simp add: hex2_def)
  qed
qed (simp add: percent_encode_def)

definition segment_char :: "char \<Rightarrow> bool" where
  "segment_char c \<longleftrightarrow>
     \<not> is_whitespace c \<and> c \<noteq> CHR ''/'' \<and> c \<noteq> CHR ''?'' \<and> c \<noteq> CHR ''#'' \<and> c \<noteq> CHR 0x0D"

lemma hex_char_segment: "n < 16 \<Longrightarrow> segment_char (hex_char n)"
proof -
  assume "n < 16"
  then have "n \<in> set [0..<16]" by simp
  moreover have "list_all (\<lambda>n. segment_char (hex_char n)) [0..<16]" by code_simp
  ultimately show ?thesis unfolding list_all_iff by blast
qed

lemma percent_encode_segment: "c \<in> set (percent_encode bs) \<Longrightarrow> segment_char c"
proof -
  have plain: "segment_char (char_of (unat b))" if "unreserved b" for b
  proof -
    have b: "unat b < 256" using unsigned_less [of b, where 'a = nat] by simp
    then have "of_char (char_of (unat b) :: char) = unat b" by simp
    moreover have "char_of (unat b) \<noteq> CHR ''/''" "char_of (unat b) \<noteq> CHR ''?''" "char_of (unat b) \<noteq> CHR ''#''"
      "char_of (unat b) \<noteq> CHR 0x0D"
      using that b by (auto simp: unreserved_def Let_def dest: arg_cong [of _ _ "of_char :: char \<Rightarrow> nat"])
    ultimately show ?thesis
      using that by (auto simp: segment_char_def unreserved_def is_whitespace_def Let_def)
  qed
  have "unat b div 16 < 16 \<and> unat b mod 16 < 16" for b :: u8
    using unsigned_less [of b, where 'a = nat] by auto
  moreover have "segment_char (CHR ''%'')" by code_simp
  ultimately show "c \<in> set (percent_encode bs) \<Longrightarrow> ?thesis"
    using plain by (auto simp: percent_encode_def hex2_def hex_char_segment split: if_splits)
qed

lemma split_on_concat: "split_on c (a @ c # b) = split_on c a @ split_on c b"
proof (induction a)
  case (Cons x a)
  then show ?case by (cases "split_on c a") auto
qed simp

lemma identity_in_path:
  assumes "identity_utf8 i = Inr i" and "utf8_valid i"
    and "CHR ''?'' \<notin> set base" and "CHR ''#'' \<notin> set base" and "ur_path r = base @ ''/'' @ percent_encode i"
  shows "request_identity r = Some i"
proof -
  let ?s = "percent_encode i"
  have s: "\<forall>c \<in> set ?s. segment_char c" using percent_encode_segment by blast
  have i: "i \<noteq> []" using assms(1) by (auto simp: identity_utf8_def split: if_splits)
  have ne: "?s \<noteq> []" using percent_bytes_encode [of i] i by (metis percent_bytes.simps(4))
  have tw: "takeWhile (\<lambda>c. c \<noteq> CHR ''?'' \<and> c \<noteq> CHR ''#'') (ur_path r) = ur_path r"
    unfolding assms(5) using s assms(3,4) by (auto simp: takeWhile_eq_all_conv segment_char_def)
  have sp: "split_on (CHR ''/'') (ur_path r) = split_on (CHR ''/'') base @ [?s]"
  proof -
    have "CHR ''/'' \<notin> set ?s" using s by (auto simp: segment_char_def)
    then show ?thesis unfolding assms(5) by (simp add: split_on_concat split_on_none)
  qed
  have "percent_decode ?s = i"
    by (simp add: percent_decode_def percent_bytes_encode utf8_lossy_valid assms(2))
  then show ?thesis unfolding request_identity_def Let_def tw sp using ne assms(1) by simp
qed

text \<open>
  An escape that is none is not left alone when its first digit is a sign.
\<close>

theorem signed_escape_decoded: "percent_decode ''a%+5b'' = [0x61, 5, 0x62] \<and> percent_decode ''a%z5b'' = bytes_of ''a%z5b''"
  by code_simp

section \<open>What is written is read\<close>

definition field_line :: "string \<times> string \<Rightarrow> string" where
  "field_line f = fst f @ '': '' @ snd f"

definition name_ok :: "string \<Rightarrow> bool" where
  "name_ok n \<longleftrightarrow> n \<noteq> [] \<and> trimmed n \<and> CHR '':'' \<notin> set n \<and> CHR 0x0D \<notin> set n"

definition field_ok :: "string \<Rightarrow> bool" where
  "field_ok v \<longleftrightarrow> trimmed v \<and> CHR 0x0D \<notin> set v"

lemma parse_field: "name_ok n \<Longrightarrow> field_ok v \<Longrightarrow> parse_line (field_line (n, v)) = Some (to_ascii_lowercase n, v)"
  using split_once_append [of "CHR '':''" n "CHR '' '' # v"]
  by (simp add: parse_line_def field_line_def name_ok_def field_ok_def trim_trimmed trim_space)

lemma parse_fields:
  "\<forall>(n, v) \<in> set fs. name_ok n \<and> field_ok v \<Longrightarrow>
   List.map_filter parse_line (map field_line fs) = map (\<lambda>(n, v). (to_ascii_lowercase n, v)) fs"
  by (induction fs) (auto simp: map_filter_simps parse_field)

lemma field_line_ok: "name_ok n \<Longrightarrow> field_ok v \<Longrightarrow> line_ok (field_line (n, v))"
  by (auto simp: line_ok_def field_line_def name_ok_def field_ok_def)

lemma read_head_fields:
  assumes "concat reads = lines_text (target # map field_line fs) @ CRLF @ extra" and "line_ok target"
    and "\<forall>(n, v) \<in> set fs. name_ok n \<and> field_ok v"
    and "length (lines_text (target # map field_line fs)) < MAX_HEAD" and "[] \<notin> set reads"
  shows "\<exists>rest reads'. read_head reads =
      Inr (\<lparr>hd_target = target, hd_headers = map (\<lambda>(n, v). (to_ascii_lowercase n, v)) fs, hd_rest = rest\<rparr>, reads') \<and>
    rest @ concat reads' = extra"
proof -
  have "\<forall>l \<in> set (target # map field_line fs). line_ok l"
    using assms(2,3) by (auto intro: field_line_ok)
  from read_head_lines [OF assms(1) _ this assms(4,5)] show ?thesis
    by (simp add: parse_fields [OF assms(3)])
qed

definition opt_field :: "string \<Rightarrow> string option \<Rightarrow> (string \<times> string) list" where
  "opt_field n v = (case v of None \<Rightarrow> [] | Some s \<Rightarrow> [(n, s)])"

lemma optional_line_field: "optional_line n v = lines_text (map field_line (opt_field n v))"
  by (simp add: optional_line_def opt_field_def lines_text_def field_line_def split: option.split)

definition request_fields :: "string \<Rightarrow> client_request \<Rightarrow> (string \<times> string) list" where
  "request_fields key r =
     [(''Host'', cr_host r), (''Upgrade'', ''websocket''), (''Connection'', ''Upgrade''),
      (''Sec-WebSocket-Version'', ''13''), (''Sec-WebSocket-Key'', key),
      (''Sec-WebSocket-Protocol'', cr_subprotocols r)] @
     opt_field ''Authorization'' (cr_authorization r) @
     opt_field ''Sec-WebSocket-Extensions'' (cr_extensions r)"

definition accept_fields :: "(string \<Rightarrow> string) \<Rightarrow> string \<Rightarrow> string option \<Rightarrow> string option \<Rightarrow> (string \<times> string) list" where
  "accept_fields digest key sub ext =
     [(''Upgrade'', ''websocket''), (''Connection'', ''Upgrade''),
      (''Sec-WebSocket-Accept'', accept_key digest key)] @
     opt_field ''Sec-WebSocket-Protocol'' sub @ opt_field ''Sec-WebSocket-Extensions'' ext"

lemma lines_text_simps [simp]:
  "lines_text [] = []" "lines_text (l # ls) = l @ CRLF @ lines_text ls"
  "lines_text (ls @ ls') = lines_text ls @ lines_text ls'"
  by (simp_all add: lines_text_def)

lemma request_text_lines:
  "request_text key r =
     lines_text ((''GET '' @ cr_path r @ '' HTTP/1.1'') # map field_line (request_fields key r)) @ CRLF"
  by (simp add: request_text_def request_fields_def optional_line_field) (simp add: field_line_def)

lemma accept_text_lines:
  "accept_text digest key sub ext =
     lines_text (''HTTP/1.1 101 Switching Protocols'' # map field_line (accept_fields digest key sub ext)) @ CRLF"
  by (simp add: accept_text_def accept_fields_def optional_line_field) (simp add: field_line_def)

definition opt_ok :: "string option \<Rightarrow> bool" where
  "opt_ok v \<longleftrightarrow> (case v of None \<Rightarrow> True | Some s \<Rightarrow> field_ok s)"

definition request_ok :: "string \<Rightarrow> client_request \<Rightarrow> bool" where
  "request_ok key r \<longleftrightarrow>
     cr_path r \<noteq> [] \<and> (\<forall>c \<in> set (cr_path r). \<not> is_whitespace c) \<and>
     field_ok (cr_host r) \<and> field_ok key \<and> field_ok (cr_subprotocols r) \<and>
     opt_ok (cr_authorization r) \<and> opt_ok (cr_extensions r)"

lemma names_ok:
  "list_all name_ok [''Host'', ''Upgrade'', ''Connection'', ''Sec-WebSocket-Version'', ''Sec-WebSocket-Key'',
     ''Sec-WebSocket-Protocol'', ''Authorization'', ''Sec-WebSocket-Extensions'', ''Sec-WebSocket-Accept'']"
  "list_all field_ok [''websocket'', ''Upgrade'', ''13'']"
  by code_simp+

lemma fields_ok:
  "request_ok key r \<Longrightarrow> \<forall>(n, v) \<in> set (request_fields key r). name_ok n \<and> field_ok v"
  "field_ok (accept_key digest k) \<Longrightarrow> opt_ok sub \<Longrightarrow> opt_ok ext \<Longrightarrow>
   \<forall>(n, v) \<in> set (accept_fields digest k sub ext). name_ok n \<and> field_ok v"
  using names_ok
  by (auto simp: request_fields_def accept_fields_def request_ok_def opt_field_def opt_ok_def split: option.splits)

lemma lowercase_names [simp]:
  "to_ascii_lowercase ''Host'' = ''host''" "to_ascii_lowercase ''Upgrade'' = ''upgrade''"
  "to_ascii_lowercase ''Connection'' = ''connection''"
  "to_ascii_lowercase ''Sec-WebSocket-Version'' = ''sec-websocket-version''"
  "to_ascii_lowercase ''Sec-WebSocket-Key'' = ''sec-websocket-key''"
  "to_ascii_lowercase ''Sec-WebSocket-Protocol'' = ''sec-websocket-protocol''"
  "to_ascii_lowercase ''Sec-WebSocket-Accept'' = ''sec-websocket-accept''"
  "to_ascii_lowercase ''Authorization'' = ''authorization''"
  "to_ascii_lowercase ''Sec-WebSocket-Extensions'' = ''sec-websocket-extensions''"
  by code_simp+

lemma split_where_word: "\<forall>c \<in> set w. \<not> P c \<Longrightarrow> split_where P w = [w]"
  by (induction w) auto

lemma split_where_append: "\<forall>c \<in> set w. \<not> P c \<Longrightarrow> P x \<Longrightarrow> split_where P (w @ x # s) = w # split_where P s"
  by (induction w) auto

lemma request_words:
  assumes "p \<noteq> []" and "\<forall>c \<in> set p. \<not> is_whitespace c"
  shows "split_whitespace (''GET '' @ p @ '' HTTP/1.1'') = [''GET'', p, ''HTTP/1.1'']"
proof -
  have sp: "is_whitespace (CHR '' '')" and get: "\<forall>c \<in> set ''GET''. \<not> is_whitespace c"
    and http: "\<forall>c \<in> set ''HTTP/1.1''. \<not> is_whitespace c"
    by code_simp+
  show ?thesis
    using split_where_append [OF get sp, of "p @ '' HTTP/1.1''"]
      split_where_append [OF assms(2) sp, of "''HTTP/1.1''"] split_where_word [OF http] assms(1)
    by (simp add: split_whitespace_def)
qed

lemma upgrade_tokens:
  "list_ex (\<lambda>item. eq_ignore_ascii_case (trim item) ''websocket'') (split_on (CHR '','') ''websocket'')"
  "list_ex (\<lambda>item. eq_ignore_ascii_case (trim item) ''upgrade'') (split_on (CHR '','') ''Upgrade'')"
  by code_simp+

text \<open>What a server finds in a request.\<close>

lemma request_read:
  assumes "request_ok key r" and "concat reads = request_text key r @ extra" and "[] \<notin> set reads"
    and "length (request_text key r) \<le> MAX_HEAD"
  shows "\<exists>q reads'. read_request reads = Inr (q, reads') \<and> ur_path q = cr_path r \<and>
    hd_rest (ur_head q) @ concat reads' = extra \<and> upgrade_defect_of q = None \<and>
    websocket_key q = Some key \<and> header (ur_head q) ''authorization'' = cr_authorization r \<and>
    header_list (ur_head q) ''sec-websocket-protocol'' = Some (cr_subprotocols r) \<and>
    request_extensions q = cr_extensions r"
proof -
  let ?t = "''GET '' @ cr_path r @ '' HTTP/1.1''"
  have p: "cr_path r \<noteq> []" "\<forall>c \<in> set (cr_path r). \<not> is_whitespace c" using assms(1) by (auto simp: request_ok_def)
  have "is_whitespace (CHR 0x0D)" by code_simp
  then have "line_ok ?t" using p(2) by (auto simp: line_ok_def)
  moreover have "concat reads = lines_text (?t # map field_line (request_fields key r)) @ CRLF @ extra"
    unfolding assms(2) request_text_lines by simp
  moreover have "length (lines_text (?t # map field_line (request_fields key r))) < MAX_HEAD"
    using assms(4) unfolding request_text_lines by (simp add: CRLF_def)
  ultimately obtain rest reads' where h: "read_head reads =
      Inr (\<lparr>hd_target = ?t, hd_headers = map (\<lambda>(n, v). (to_ascii_lowercase n, v)) (request_fields key r), hd_rest = rest\<rparr>, reads')"
    "rest @ concat reads' = extra"
    using read_head_fields [OF _ _ fields_ok(1) [OF assms(1)] _ assms(3)] by blast
  have get: "eq_ignore_ascii_case ''GET'' ''GET''" by (simp add: eq_ignore_ascii_case_def)
  let ?q = "\<lparr>ur_path = cr_path r, ur_head =
      \<lparr>hd_target = ?t, hd_headers = map (\<lambda>(n, v). (to_ascii_lowercase n, v)) (request_fields key r), hd_rest = rest\<rparr>\<rparr>"
  have "read_request reads = Inr (?q, reads')"
    using get by (simp add: read_request_def h(1) request_words [OF p, simplified] next_or_empty_def)
  moreover have "upgrade_defect_of ?q = None"
    using upgrade_tokens
    by (simp add: upgrade_defect_of_def header_lists_def header_list_def header_def request_fields_def opt_field_def
        split: option.split)
  moreover have "websocket_key ?q = Some key" "header (ur_head ?q) ''authorization'' = cr_authorization r"
    by (simp_all add: websocket_key_def header_def request_fields_def opt_field_def split: option.split)
  moreover have "header_list (ur_head ?q) ''sec-websocket-protocol'' = Some (cr_subprotocols r)"
    "request_extensions ?q = cr_extensions r"
    by (simp_all add: request_extensions_def header_list_def request_fields_def opt_field_def split: option.split)
  ultimately show ?thesis using h(2) by (intro exI [of _ ?q] exI [of _ reads']) simp
qed

text \<open>What a client finds in the answer.\<close>

lemma response_read:
  assumes "field_ok (accept_key digest key)" and "opt_ok sub" and "opt_ok ext"
    and "concat reads = accept_text digest key sub ext @ extra" and "[] \<notin> set reads"
    and "length (accept_text digest key sub ext) \<le> MAX_HEAD"
  shows "\<exists>rest reads'. client_result_of digest key reads =
      Inr (\<lparr>ch_subprotocol = sub, ch_extensions = ext, ch_rest = rest\<rparr>, reads') \<and> rest @ concat reads' = extra"
proof -
  let ?t = "''HTTP/1.1 101 Switching Protocols''"
  have "line_ok ?t" by code_simp
  moreover have "concat reads = lines_text (?t # map field_line (accept_fields digest key sub ext)) @ CRLF @ extra"
    unfolding assms(4) accept_text_lines by simp
  moreover have "length (lines_text (?t # map field_line (accept_fields digest key sub ext))) < MAX_HEAD"
    using assms(6) unfolding accept_text_lines by (simp add: CRLF_def)
  ultimately obtain rest reads' where h: "read_head reads =
      Inr (\<lparr>hd_target = ?t, hd_headers = map (\<lambda>(n, v). (to_ascii_lowercase n, v)) (accept_fields digest key sub ext), hd_rest = rest\<rparr>, reads')"
    "rest @ concat reads' = extra"
    using read_head_fields [OF _ _ fields_ok(2) [OF assms(1-3)] _ assms(5)] by blast
  let ?h = "\<lparr>hd_target = ?t, hd_headers = map (\<lambda>(n, v). (to_ascii_lowercase n, v)) (accept_fields digest key sub ext), hd_rest = rest\<rparr>"
  have "map_option Some (parse_unsigned 65535 (hd (drop 1 (split_whitespace ?t)))) = Some (Some 101)"
    "drop 1 (split_whitespace ?t) = [''101'', ''Switching'', ''Protocols'']"
    by code_simp+
  then have "response_status ?h = Some 101" by (simp add: response_status_def)
  moreover have "header_lists ?h ''upgrade'' ''websocket''" "header_lists ?h ''connection'' ''upgrade''"
    using upgrade_tokens
    by (simp_all add: header_lists_def header_list_def accept_fields_def opt_field_def split: option.split)
  moreover have "header ?h ''sec-websocket-accept'' = Some (accept_key digest key)"
    "header ?h ''sec-websocket-protocol'' = sub" "header ?h ''sec-websocket-extensions'' = ext"
    by (simp_all add: header_def accept_fields_def opt_field_def split: option.split)
  ultimately show ?thesis using h by (simp add: client_result_of_def)
qed

text \<open>
  The loop after the first \<open>n\<close> reads: it stops there with the head, or refuses there whatever may
  follow, or comes to the end of the stream.
\<close>

lemma read_until_stops:
  assumes "[] \<notin> set rs" and "length buffer \<le> MAX_HEAD"
  shows "case read_until buffer rs of
      Inr (e, buf, rest) \<Rightarrow>
        (\<exists>n < length rs. rest = drop (Suc n) rs \<and> buf = buffer @ concat (take (Suc n) rs) \<and>
           find_head_end buf = Some e \<and> length (buffer @ concat (take n rs)) \<le> MAX_HEAD)
    | Inl err \<Rightarrow>
        err = SocketClosed \<and> length (buffer @ concat rs) \<le> MAX_HEAD \<and>
          (rs \<noteq> [] \<longrightarrow> find_head_end (buffer @ concat rs) = None) \<or>
        err = HeadTooLarge \<and>
          (\<exists>n < length rs. find_head_end (buffer @ concat (take (Suc n) rs)) = None \<and>
             MAX_HEAD < length (buffer @ concat (take (Suc n) rs)) \<and> length (buffer @ concat (take n rs)) \<le> MAX_HEAD \<and>
             (\<forall>more. read_until buffer (take (Suc n) rs @ more) = Inl HeadTooLarge))"
  using assms
proof (induction rs arbitrary: buffer)
  case (Cons r rs)
  have r: "r \<noteq> []" using Cons.prems by auto
  consider (found) e where "find_head_end (buffer @ r) = Some e"
    | (long) "find_head_end (buffer @ r) = None" "MAX_HEAD < length (buffer @ r)"
    | (more) "find_head_end (buffer @ r) = None" "length (buffer @ r) \<le> MAX_HEAD"
    by (metis not_None_eq not_le)
  then show ?case
  proof cases
    case found
    then show ?thesis using r Cons.prems(2) by (auto intro!: exI [of _ 0])
  next
    case long
    then have "read_until buffer ((r # rs') @ more) = Inl HeadTooLarge" for rs' more using r by simp
    then show ?thesis using long r Cons.prems(2) by (auto intro!: exI [of _ 0])
  next
    case more
    have step: "read_until buffer (r # rs') = read_until (buffer @ r) rs'" for rs' using r more by simp
    have IH: "case read_until (buffer @ r) rs of
        Inr (e, buf, rest) \<Rightarrow>
          (\<exists>n < length rs. rest = drop (Suc n) rs \<and> buf = (buffer @ r) @ concat (take (Suc n) rs) \<and>
             find_head_end buf = Some e \<and> length ((buffer @ r) @ concat (take n rs)) \<le> MAX_HEAD)
      | Inl err \<Rightarrow>
          err = SocketClosed \<and> length ((buffer @ r) @ concat rs) \<le> MAX_HEAD \<and>
            (rs \<noteq> [] \<longrightarrow> find_head_end ((buffer @ r) @ concat rs) = None) \<or>
          err = HeadTooLarge \<and>
            (\<exists>n < length rs. find_head_end ((buffer @ r) @ concat (take (Suc n) rs)) = None \<and>
               MAX_HEAD < length ((buffer @ r) @ concat (take (Suc n) rs)) \<and>
               length ((buffer @ r) @ concat (take n rs)) \<le> MAX_HEAD \<and>
               (\<forall>more. read_until (buffer @ r) (take (Suc n) rs @ more) = Inl HeadTooLarge))"
      using Cons.IH [OF _ more(2)] Cons.prems(1) by simp
    show ?thesis
    proof (cases "read_until (buffer @ r) rs")
      case (Inl err)
      with IH consider "err = SocketClosed" "length ((buffer @ r) @ concat rs) \<le> MAX_HEAD"
          "rs \<noteq> [] \<longrightarrow> find_head_end ((buffer @ r) @ concat rs) = None"
        | n where "err = HeadTooLarge" "n < length rs" "find_head_end ((buffer @ r) @ concat (take (Suc n) rs)) = None"
          "MAX_HEAD < length ((buffer @ r) @ concat (take (Suc n) rs))" "length ((buffer @ r) @ concat (take n rs)) \<le> MAX_HEAD"
          "\<forall>more. read_until (buffer @ r) (take (Suc n) rs @ more) = Inl HeadTooLarge"
        by auto
      then show ?thesis
      proof cases
        case 1
        then show ?thesis using Inl more(1) unfolding step by (cases "rs = []") auto
      next
        case (2 n)
        then show ?thesis
          using Inl unfolding step by (auto simp: step simp del: read_until.simps intro!: exI [of _ "Suc n"])
      qed
    next
      case (Inr x)
      with IH obtain e n where n: "n < length rs" "x = (e, (buffer @ r) @ concat (take (Suc n) rs), drop (Suc n) rs)"
        "find_head_end ((buffer @ r) @ concat (take (Suc n) rs)) = Some e"
        "length ((buffer @ r) @ concat (take n rs)) \<le> MAX_HEAD"
        by (cases x) auto
      then show ?thesis using Inr unfolding step by (auto simp del: read_until.simps intro!: exI [of _ "Suc n"])
    qed
  qed
qed simp

lemma length_concat_nonempty: "[] \<notin> set rs \<Longrightarrow> length rs \<le> length (concat rs)"
proof (induction rs)
  case (Cons r rs)
  then obtain c r' where "r = c # r'" by (cases r) auto
  then show ?case using Cons by simp
qed simp

text \<open>One read more than what is within the limit: how many bytes, and how many reads, that may be.\<close>

lemma one_read_more:
  assumes "n < length rs" and "length (concat (take n rs)) \<le> MAX_HEAD" and "[] \<notin> set rs" and "\<forall>r \<in> set rs. length r \<le> k"
  shows "length (concat (take (Suc n) rs)) \<le> MAX_HEAD + k" and "Suc n \<le> MAX_HEAD + 1"
proof -
  have "length (rs ! n) \<le> k" using assms(1,4) by simp
  then show "length (concat (take (Suc n) rs)) \<le> MAX_HEAD + k"
    using assms(1,2) by (simp add: take_Suc_conv_app_nth)
  have "[] \<notin> set (take n rs)" using assms(3) by (meson in_set_takeD)
  then have "n \<le> length (concat (take n rs))" using length_concat_nonempty [of "take n rs"] assms(1) by simp
  then show "Suc n \<le> MAX_HEAD + 1" using assms(2) by simp
qed

text \<open>
  C31. However a peer dribbles or floods, reading a head ends, and holds no more than the limit and
  one read. The outcome rests on the first \<open>n\<close> reads alone, at most one more than the limit has bytes, which
  together hold at most the limit and one read of 1024 bytes. Either the end of the head is in them and
  what is left of the reads is what came after; or they exceed the limit without it, and the peer is
  refused there and then, whatever it sends next; or the stream ends before either.
\<close>

theorem head_read_ends:
  assumes "[] \<notin> set reads" and "\<forall>r \<in> set reads. length r \<le> 1024"
  shows "case read_head reads of
      Inr (h, rest) \<Rightarrow>
        (\<exists>n e. n \<le> MAX_HEAD + 1 \<and> length (concat (take n reads)) \<le> MAX_HEAD + 1024 \<and> rest = drop n reads \<and>
           find_head_end (concat (take n reads)) = Some e \<and>
           h = parse_head (take e (concat (take n reads))) (drop (e + 4) (concat (take n reads))))
    | Inl err \<Rightarrow>
        err = HeadTooLarge \<and>
          (\<exists>n. n \<le> MAX_HEAD + 1 \<and> length (concat (take n reads)) \<le> MAX_HEAD + 1024 \<and>
             MAX_HEAD < length (concat (take n reads)) \<and> find_head_end (concat (take n reads)) = None \<and>
             (\<forall>more. read_head (take n reads @ more) = Inl HeadTooLarge)) \<or>
        err = SocketClosed \<and> length reads \<le> MAX_HEAD \<and> length (concat reads) \<le> MAX_HEAD \<and>
          find_head_end (concat reads) = None"
proof (cases "read_until [] reads")
  case (Inl err)
  with read_until_stops [OF assms(1), of "[]"] consider
      "err = SocketClosed" "length (concat reads) \<le> MAX_HEAD" "reads \<noteq> [] \<longrightarrow> find_head_end (concat reads) = None"
    | n where "err = HeadTooLarge" "n < length reads" "find_head_end (concat (take (Suc n) reads)) = None"
      "MAX_HEAD < length (concat (take (Suc n) reads))" "length (concat (take n reads)) \<le> MAX_HEAD"
      "\<forall>more. read_until [] (take (Suc n) reads @ more) = Inl HeadTooLarge"
    by auto
  then show ?thesis
  proof cases
    case 1
    then show ?thesis
      using Inl length_concat_nonempty [OF assms(1)] by (cases "reads = []") (auto simp: read_head_def)
  next
    case (2 n)
    have "\<forall>more. read_head (take (Suc n) reads @ more) = Inl HeadTooLarge" using 2(6) by (simp add: read_head_def)
    note facts = one_read_more(2) [OF 2(2,5) assms] one_read_more(1) [OF 2(2,5) assms] 2(4) 2(3) this
    have head: "read_head reads = Inl err" using Inl by (simp add: read_head_def)
    show ?thesis
      unfolding head sum.case
      by (intro disjI1 conjI exI [of _ "Suc n"]) (fact 2(1) facts)+
  qed
next
  case (Inr x)
  obtain e buf rest where x: "x = (e, buf, rest)" by (cases x)
  with read_until_stops [OF assms(1), of "[]"] Inr obtain n where
    n: "n < length reads" "rest = drop (Suc n) reads" "buf = concat (take (Suc n) reads)" "find_head_end buf = Some e"
    "length (concat (take n reads)) \<le> MAX_HEAD"
    by auto
  let ?held = "concat (take (Suc n) reads)"
  have head: "read_head reads = Inr (parse_head (take e ?held) (drop (e + 4) ?held), rest)"
    using Inr x n(3) by (simp add: read_head_def)
  show ?thesis
    unfolding head sum.case prod.case
    by (rule exI [of _ "Suc n"], rule exI [of _ e])
      (use one_read_more [OF n(1,5) assms] n(2-4) in simp)
qed

text \<open>A peer that sends one byte at a time and no head, and one whose head ends in its second read.\<close>

theorem head_read_ends_witness:
  "read_head (replicate (MAX_HEAD + 5) ''x'') = Inl HeadTooLarge \<and>
   (\<exists>h. read_head [''GET / HTTP/1.1'', CRLF @ CRLF @ ''rest'', ''more''] = Inr (h, [''more'']) \<and> hd_rest h = ''rest'')"
proof -
  let ?x = "replicate (MAX_HEAD + 5) ''x''"
  have plain: "find_head_end (concat (take n ?x)) = None" for n
    using find_plain [of "concat (take n ?x)" "[]"] by (auto dest: in_set_takeD)
  have "length (concat ?x) = MAX_HEAD + 5" by (simp add: length_concat sum_list_replicate)
  then have "read_head ?x = Inl HeadTooLarge"
    using head_read_ends [of ?x] plain by (auto split: sum.splits)
  moreover have "case read_head [''GET / HTTP/1.1'', CRLF @ CRLF @ ''rest'', ''more''] of
      Inr (h, rest) \<Rightarrow> rest = [''more''] \<and> hd_rest h = ''rest'' | Inl _ \<Rightarrow> False"
    by code_simp
  ultimately show ?thesis by (auto split: sum.splits)
qed

end
