(* ===== verification/Btree.thy ===== *)
theory Btree
  imports Prelude "HOL-Library.List_Lexorder" "HOL-Library.Char_ord"
begin

text \<open>
  \<open>BTreeMap\<close>: an ordered map as the list of its entries in the order of iteration. Strings are
  ordered character by character, which on the text modelled here is the order of \<open>str\<close>.

  \<open>keyed_map\<close> is what its users rely on: how a lookup answers after an insertion and a removal,
  and how many entries there are then.
\<close>

fun bt_insert :: "'k :: linorder \<Rightarrow> 'v \<Rightarrow> ('k \<times> 'v) list \<Rightarrow> ('k \<times> 'v) list" where
  "bt_insert k v [] = [(k, v)]"
| "bt_insert k v ((k', v') # xs) =
     (if k < k' then (k, v) # (k', v') # xs
      else if k = k' then (k, v) # xs
      else (k', v') # bt_insert k v xs)"

definition bt_remove :: "'k \<Rightarrow> ('k \<times> 'v) list \<Rightarrow> ('k \<times> 'v) list" where
  "bt_remove k xs = filter (\<lambda>e. fst e \<noteq> k) xs"

definition bt_get :: "('k \<times> 'v) list \<Rightarrow> 'k \<Rightarrow> 'v option" where
  "bt_get xs k = map_of xs k"

definition bt_ok :: "('k :: linorder \<times> 'v) list \<Rightarrow> bool" where
  "bt_ok xs \<longleftrightarrow> sorted_wrt (<) (map fst xs)"

section \<open>The interface\<close>

locale keyed_map =
  fixes ok :: "'m \<Rightarrow> bool" and get :: "'m \<Rightarrow> 'k \<Rightarrow> 'v option"
    and put :: "'k \<Rightarrow> 'v \<Rightarrow> 'm \<Rightarrow> 'm" and del :: "'k \<Rightarrow> 'm \<Rightarrow> 'm" and count :: "'m \<Rightarrow> nat"
  assumes ok_put: "ok m \<Longrightarrow> ok (put k v m)"
    and ok_del: "ok m \<Longrightarrow> ok (del k m)"
    and get_put: "ok m \<Longrightarrow> get (put k v m) = (get m)(k \<mapsto> v)"
    and get_del: "ok m \<Longrightarrow> get (del k m) = (get m)(k := None)"
    and count_dom: "ok m \<Longrightarrow> count m = card (dom (get m)) \<and> finite (dom (get m))"
begin

text \<open>A patch: entries to store and, without a value, to delete, one after the other.\<close>

definition patch :: "('k \<times> 'v option) list \<Rightarrow> 'm \<Rightarrow> 'm" where
  "patch es m = foldl (\<lambda>m (k, v). case v of Some v \<Rightarrow> put k v m | None \<Rightarrow> del k m) m es"

lemma patch_snoc:
  "patch (es @ [(k, v)]) m = (case v of Some v \<Rightarrow> put k v (patch es m) | None \<Rightarrow> del k (patch es m))"
  by (cases v) (simp_all add: patch_def)

lemma patch_Nil [simp]: "patch [] m = m"
  by (simp add: patch_def)

lemma patch_ok: "ok m \<Longrightarrow> ok (patch es m)"
  by (induction es rule: rev_induct) (auto simp: patch_snoc ok_put ok_del split: option.splits)

text \<open>The last entry for a key decides, and a key without one keeps what it had.\<close>

lemma get_patch:
  "ok m \<Longrightarrow> get (patch es m) k = (case map_of (rev es) k of None \<Rightarrow> get m k | Some v \<Rightarrow> v)"
  by (induction es rule: rev_induct)
     (auto simp: patch_snoc get_put get_del patch_ok split: option.splits)

lemma count_put: "ok m \<Longrightarrow> count (put k v m) = (if get m k = None then count m + 1 else count m)"
  using count_dom [of m] count_dom [OF ok_put, of m k v]
  by (simp add: get_put card_insert_if domIff)

lemma count_del: "ok m \<Longrightarrow> count (del k m) = (if get m k = None then count m else count m - 1)"
proof -
  assume m: "ok m"
  have "dom (get (del k m)) = dom (get m) - {k}" using m by (auto simp: get_del split: if_splits)
  then show ?thesis
    using count_dom [OF m] count_dom [OF ok_del [OF m], of k]
    by (simp add: card_Diff_singleton_if domIff)
qed

lemma count_patch:
  assumes "ok m" and "distinct (map fst es)"
  shows "count (patch es m) + length (filter (\<lambda>(k, v). v = None \<and> get m k \<noteq> None) es) =
    count m + length (filter (\<lambda>(k, v). v \<noteq> None \<and> get m k = None) es)"
  using assms(2)
proof (induction es rule: rev_induct)
  case (snoc e es)
  obtain k v where e: "e = (k, v)" by fastforce
  have "map_of (rev es) k = None" using snoc.prems e by (simp add: map_of_eq_None_iff)
  then have old: "get (patch es m) k = get m k" using assms(1) by (simp add: get_patch)
  have "0 < count (patch es m)" if "get m k \<noteq> None"
    using that old count_dom [OF patch_ok [OF assms(1)], of es]
    by (metis card_gt_0_iff domIff empty_iff)
  then show ?case
    using snoc assms(1) old
    by (cases v) (auto simp: e patch_snoc count_put count_del patch_ok)
qed simp

end

section \<open>The ordered list is one\<close>

lemma bt_insert_keys: "fst ` set (bt_insert k v xs) = insert k (fst ` set xs)"
  by (induction k v xs rule: bt_insert.induct) auto

lemma bt_insert_ok: "bt_ok xs \<Longrightarrow> bt_ok (bt_insert k v xs)"
proof (induction k v xs rule: bt_insert.induct)
  case (2 k v k' v' xs)
  have "\<forall>x \<in> set (map fst (bt_insert k v xs)). x = k \<or> x \<in> fst ` set xs"
    using bt_insert_keys [of k v xs] by auto
  then show ?case using 2 by (fastforce simp: bt_ok_def)
qed (simp add: bt_ok_def)

lemma set_bt_insert: "bt_ok xs \<Longrightarrow> set (bt_insert k v xs) = insert (k, v) {e \<in> set xs. fst e \<noteq> k}"
proof (induction k v xs rule: bt_insert.induct)
  case (2 k v k' v' xs)
  then show ?case by (fastforce simp: bt_ok_def split: if_splits)
qed simp

lemma bt_get_insert: "bt_ok xs \<Longrightarrow> bt_get (bt_insert k v xs) = (bt_get xs)(k \<mapsto> v)"
  by (induction k v xs rule: bt_insert.induct) (auto simp: bt_get_def bt_ok_def fun_eq_iff)

lemma bt_get_remove: "bt_get (bt_remove k xs) = (bt_get xs)(k := None)"
  by (induction xs) (auto simp: bt_remove_def bt_get_def fun_eq_iff)

lemma bt_ok_distinct: "bt_ok xs \<Longrightarrow> distinct (map fst xs)"
  by (auto simp: bt_ok_def strict_sorted_iff)

lemma bt_remove_ok: "bt_ok xs \<Longrightarrow> bt_ok (bt_remove k xs)"
  by (induction xs) (auto simp: bt_ok_def bt_remove_def)

lemma bt_length: "bt_ok xs \<Longrightarrow> length xs = card (dom (bt_get xs)) \<and> finite (dom (bt_get xs))"
  using bt_ok_distinct [of xs] distinct_card [of "map fst xs"]
  by (simp add: bt_get_def [abs_def] dom_map_of_conv_image_fst finite_dom_map_of)

interpretation bt: keyed_map bt_ok bt_get bt_insert bt_remove length
  by unfold_locales
     (simp_all add: bt_insert_ok bt_remove_ok bt_get_insert bt_get_remove bt_length)

end
