(* ===== verification/Network_Profile.thy ===== *)
theory Network_Profile
  imports Btree Security
begin

text \<open>
  \<open>transport/network_profile.rs\<close>: the configuration slots of a station, the order in which it
  tries them, and the cycler that moves to the next after so many failures.

  Of the TLS configuration only its presence is kept. A panic of \<open>at\<close> is \<open>None\<close>. The cycler counts
  failures in \<open>u32\<close>; with more than one profile the count stays below the limit, and with one it
  decides nothing.

  The lemmas show that the profile of any position is there, so that \<open>at\<close> does not panic, and that
  a station whose attempts all fail gives each profile its number of attempts, in the order of
  priority, and then begins again.
\<close>

record network_profile =
  np_slot :: int
  np_url :: string
  np_versions :: "subprotocol_offer option"
  np_security :: security_profile
  np_password :: "bytes option"
  np_tls :: bool
  np_message_timeout :: "nat option"

definition network_profile_new :: "int \<Rightarrow> string \<Rightarrow> network_profile" where
  "network_profile_new slot url =
     \<lparr>np_slot = slot, np_url = url, np_versions = None, np_security = BasicAuth, np_password = None,
      np_tls = False, np_message_timeout = None\<rparr>"

definition security_profile_number :: "network_profile \<Rightarrow> nat" where
  "security_profile_number p = profile_number (np_security p)"

definition np_with_versions :: "version list \<Rightarrow> network_profile \<Rightarrow> network_profile" where
  "np_with_versions vs p = p\<lparr>np_versions := Some (subprotocol_new vs)\<rparr>"

definition np_with_security :: "security_profile \<Rightarrow> network_profile \<Rightarrow> network_profile" where
  "np_with_security s p = p\<lparr>np_security := s\<rparr>"

definition np_with_password :: "bytes \<Rightarrow> network_profile \<Rightarrow> network_profile" where
  "np_with_password pw p = p\<lparr>np_password := Some pw\<rparr>"

definition np_with_tls :: "network_profile \<Rightarrow> network_profile" where
  "np_with_tls p = p\<lparr>np_tls := True\<rparr>"

definition np_with_message_timeout :: "nat \<Rightarrow> network_profile \<Rightarrow> network_profile" where
  "np_with_message_timeout t p = p\<lparr>np_message_timeout := Some t\<rparr>"

section \<open>The slots and their order\<close>

record network_profiles =
  nps_slots :: "(int \<times> network_profile) list"
  nps_priority :: "int list"
  nps_attempts :: nat

datatype priority_error = EmptyPriority | NoSuchSlot int

definition network_profiles_new :: "network_profile list \<Rightarrow> network_profiles" where
  "network_profiles_new ps =
     (let (slots, priority) =
        foldl (\<lambda>(slots, priority) p.
          (bt_insert (np_slot p) p slots,
           if np_slot p \<in> set priority then priority else priority @ [np_slot p])) ([], []) ps
      in \<lparr>nps_slots = slots, nps_priority = priority, nps_attempts = 3\<rparr>)"

definition set_priority :: "int list \<Rightarrow> network_profiles \<Rightarrow> priority_error + network_profiles" where
  "set_priority order ps =
     (if order = [] then Inl EmptyPriority
      else
        (case List.find (\<lambda>slot. bt_get (nps_slots ps) slot = None) order of
           Some slot \<Rightarrow> Inl (NoSuchSlot slot)
         | None \<Rightarrow> Inr (ps\<lparr>nps_priority := order\<rparr>)))"

definition connection_attempts :: "nat \<Rightarrow> network_profiles \<Rightarrow> network_profiles" where
  "connection_attempts n ps = ps\<lparr>nps_attempts := max n 1\<rparr>"

definition configured_slots :: "network_profiles \<Rightarrow> int list" where
  "configured_slots ps = map fst (nps_slots ps)"

definition get_profile :: "int \<Rightarrow> network_profiles \<Rightarrow> network_profile option" where
  "get_profile slot ps = bt_get (nps_slots ps) slot"

definition profile_at :: "nat \<Rightarrow> network_profiles \<Rightarrow> network_profile option" where
  "profile_at i ps =
     (if nps_priority ps = [] then None
      else bt_get (nps_slots ps) (nps_priority ps ! (i mod length (nps_priority ps))))"

definition profiles_len :: "network_profiles \<Rightarrow> nat" where
  "profiles_len ps = length (nps_priority ps)"

section \<open>The cycler\<close>

record profile_cycler =
  pc_index :: nat
  pc_failures :: nat
  pc_limit :: nat
  pc_len :: nat

definition cycler_new :: "network_profiles \<Rightarrow> profile_cycler" where
  "cycler_new ps = \<lparr>pc_index = 0, pc_failures = 0, pc_limit = nps_attempts ps, pc_len = profiles_len ps\<rparr>"

definition succeeded :: "profile_cycler \<Rightarrow> profile_cycler" where
  "succeeded c = c\<lparr>pc_failures := 0\<rparr>"

definition failed :: "profile_cycler \<Rightarrow> bool \<times> profile_cycler" where
  "failed c =
     (let c1 = c\<lparr>pc_failures := pc_failures c + 1\<rparr> in
      if pc_failures c1 \<ge> pc_limit c1 \<and> pc_len c1 > 1
      then (True, c1\<lparr>pc_failures := 0, pc_index := (pc_index c1 + 1) mod pc_len c1\<rparr>)
      else (False, c1))"

section \<open>Every position has a profile\<close>

definition profiles_ok :: "network_profiles \<Rightarrow> bool" where
  "profiles_ok ps \<longleftrightarrow>
     bt_ok (nps_slots ps) \<and> nps_priority ps \<noteq> [] \<and> 0 < nps_attempts ps \<and>
     (\<forall>slot \<in> set (nps_priority ps). \<exists>p. bt_get (nps_slots ps) slot = Some p \<and> np_slot p = slot)"

lemma new_ok:
  assumes "ps \<noteq> []"
  shows "profiles_ok (network_profiles_new ps)"
proof -
  let ?step = "\<lambda>(slots, priority) p.
          (bt_insert (np_slot p) p slots,
           if np_slot p \<in> set priority then priority else priority @ [np_slot p])"
  have "bt_ok (fst (foldl ?step ([], []) ps)) \<and>
      set (snd (foldl ?step ([], []) ps)) = np_slot ` set ps \<and>
      (\<forall>slot \<in> np_slot ` set ps. \<exists>p. bt_get (fst (foldl ?step ([], []) ps)) slot = Some p \<and> np_slot p = slot)"
  proof (induction ps rule: rev_induct)
    case Nil
    then show ?case by (simp add: bt_ok_def)
  next
    case (snoc p ps)
    obtain slots pr where st: "foldl ?step ([], []) ps = (slots, pr)" by fastforce
    show ?case using snoc by (auto simp: st bt_insert_ok bt_get_insert)
  qed
  then show ?thesis
    using assms by (auto simp: profiles_ok_def network_profiles_new_def case_prod_unfold Let_def)
qed

lemma set_priority_ok:
  "profiles_ok ps \<Longrightarrow> (\<And>slot p. bt_get (nps_slots ps) slot = Some p \<Longrightarrow> np_slot p = slot) \<Longrightarrow>
   set_priority order ps = Inr ps' \<Longrightarrow> profiles_ok ps'"
  by (auto simp: profiles_ok_def set_priority_def find_None_iff split: if_splits option.splits)

section \<open>The rounds\<close>

definition after_failures :: "nat \<Rightarrow> profile_cycler \<Rightarrow> profile_cycler" where
  "after_failures n c = ((\<lambda>c. snd (failed c)) ^^ n) c"

lemma after_failures_Suc: "after_failures (Suc n) c = snd (failed (after_failures n c))"
  by (simp add: after_failures_def)

lemma cycler_position:
  assumes "0 < pc_limit c" and "0 < pc_len c" and "pc_index c = 0" and "pc_failures c = 0"
  shows "pc_index (after_failures n c) = n div pc_limit c mod pc_len c \<and>
    pc_limit (after_failures n c) = pc_limit c \<and> pc_len (after_failures n c) = pc_len c \<and>
    (1 < pc_len c \<longrightarrow> pc_failures (after_failures n c) = n mod pc_limit c)"
proof (induction n)
  case 0
  then show ?case using assms by (simp add: after_failures_def)
next
  case (Suc n)
  have "Suc n div pc_limit c = (if Suc (n mod pc_limit c) = pc_limit c then Suc (n div pc_limit c) else n div pc_limit c)"
    "Suc n mod pc_limit c = (if Suc (n mod pc_limit c) = pc_limit c then 0 else Suc (n mod pc_limit c))"
    using assms(1) by (simp_all add: div_Suc mod_Suc)
  moreover have "n mod pc_limit c < pc_limit c" using assms(1) by simp
  moreover have "pc_len c = 1" if "\<not> 1 < pc_len c" using assms(2) that by simp
  ultimately show ?case
    using Suc by (cases "1 < pc_len c") (auto simp: after_failures_Suc failed_def Let_def mod_Suc_eq)
qed

lemma concat_replicate_upt:
  "concat (map (\<lambda>i. replicate l (f i)) [0..<n]) = map (\<lambda>k. f (k div l)) [0..<n * l]"
proof (induction n)
  case (Suc n)
  have "map (\<lambda>k. f (k div l)) [n * l..<n * l + l] = replicate l (f n)"
    by (rule nth_equalityI) (simp_all add: div_mult_self1 add.commute)
  moreover have "[0..<Suc n * l] = [0..<n * l] @ [n * l..<n * l + l]"
    by (metis add.commute le0 mult_Suc upt_add_eq_append)
  ultimately show ?case using Suc by simp
qed simp


text \<open>
  C30. A station whose connection attempts all fail tries, in every round, the profile of each
  entry of the priority list for its number of attempts and in the order of the list, and there is
  always a profile to try.
\<close>

theorem failover_round:
  assumes "profiles_ok ps"
  defines "round \<equiv> nps_attempts ps * length (nps_priority ps)"
  shows "map (\<lambda>k. profile_at (pc_index (after_failures (r * round + k) (cycler_new ps))) ps) [0..<round] =
      concat (map (\<lambda>slot. replicate (nps_attempts ps) (get_profile slot ps)) (nps_priority ps)) \<and>
    (\<forall>slot \<in> set (nps_priority ps). get_profile slot ps \<noteq> None)"
proof
  let ?a = "nps_attempts ps" and ?pr = "nps_priority ps"
  have pos: "0 < ?a" "0 < length ?pr" "?pr \<noteq> []" using assms(1) by (auto simp: profiles_ok_def)
  have index: "pc_index (after_failures n (cycler_new ps)) = n div ?a mod length ?pr" for n
    using cycler_position [of "cycler_new ps" n] pos by (simp add: cycler_new_def profiles_len_def)
  have "(r * round + k) div ?a mod length ?pr = k div ?a mod length ?pr" for k
  proof -
    have "r * round + k = k + (r * length ?pr) * ?a" by (simp add: round_def ac_simps)
    then have "(r * round + k) div ?a = r * length ?pr + k div ?a"
      using pos(1) by (simp only: div_mult_self1 [of ?a k] neq0_conv)
    then show ?thesis by simp
  qed
  then have "map (\<lambda>k. profile_at (pc_index (after_failures (r * round + k) (cycler_new ps))) ps) [0..<round] =
      map (\<lambda>k. get_profile (?pr ! (k div ?a)) ps) [0..<length ?pr * ?a]"
    using pos by (auto simp: index profile_at_def get_profile_def round_def mult.commute less_mult_imp_div_less)
  also have "\<dots> = concat (map (\<lambda>i. replicate ?a (get_profile (?pr ! i) ps)) [0..<length ?pr])"
    by (rule concat_replicate_upt [symmetric])
  also have "map (\<lambda>i. replicate ?a (get_profile (?pr ! i) ps)) [0..<length ?pr] =
      map (\<lambda>slot. replicate ?a (get_profile slot ps)) ?pr"
    by (rule nth_equalityI) simp_all
  finally show "map (\<lambda>k. profile_at (pc_index (after_failures (r * round + k) (cycler_new ps))) ps) [0..<round] =
      concat (map (\<lambda>slot. replicate ?a (get_profile slot ps)) ?pr)" .
  show "\<forall>slot \<in> set ?pr. get_profile slot ps \<noteq> None"
    using assms(1) by (auto simp: profiles_ok_def get_profile_def)
qed

theorem failover_round_witness:
  "map (\<lambda>k. map_option np_url (profile_at (pc_index (after_failures (1 * 6 + k) (cycler_new
       (network_profiles_new [network_profile_new 0 ''ws://a'', network_profile_new 1 ''ws://b'']))))
       (network_profiles_new [network_profile_new 0 ''ws://a'', network_profile_new 1 ''ws://b'']))) [0..<6] =
   [Some ''ws://a'', Some ''ws://a'', Some ''ws://a'', Some ''ws://b'', Some ''ws://b'', Some ''ws://b'']"
proof -
  let ?ps = "network_profiles_new [network_profile_new 0 ''ws://a'', network_profile_new 1 ''ws://b'']"
  have ps: "nps_attempts ?ps = 3" "nps_priority ?ps = [0, 1]" by code_simp+
  have urls: "map_option np_url (get_profile 0 ?ps) = Some ''ws://a''" "map_option np_url (get_profile 1 ?ps) = Some ''ws://b''"
    by code_simp+
  have "profiles_ok ?ps" by (rule new_ok) simp
  from failover_round [OF this, of 1]
  have "map (\<lambda>k. profile_at (pc_index (after_failures (1 * 6 + k) (cycler_new ?ps))) ?ps) [0..<6] =
      concat (map (\<lambda>slot. replicate 3 (get_profile slot ?ps)) [0, 1])"
    unfolding ps by simp
  then have "map (map_option np_url) (map (\<lambda>k. profile_at (pc_index (after_failures (1 * 6 + k) (cycler_new ?ps))) ?ps) [0..<6]) =
      map (map_option np_url) (concat (map (\<lambda>slot. replicate 3 (get_profile slot ?ps)) [0, 1]))"
    by (rule arg_cong)
  then show ?thesis using urls by (simp add: comp_def numeral_3_eq_3)
qed

end
