(* ===== verification/Admission.thy ===== *)
theory Admission
  imports Handshake Network_Profile
begin

text \<open>
  How a connection comes about: \<open>accept\<close> of \<open>transport/csms.rs\<close> up to the session, and the
  connection of \<open>transport/station.rs\<close> from an endpoint to the codec.

  The application's \<open>Authenticator\<close> is the parameter \<open>authenticate\<close>; the URL of a profile is read
  by a library, so an endpoint starts from the parts of a URI. The remote address is left out.

  The lemmas show who is admitted, and that a station and a server that have a version in common
  come to the same version, compression and identity from the text between them.
\<close>

section \<open>The server's decision\<close>

datatype 's auth_outcome = AuthAccept 's | AuthReject | AuthUnknown

record auth =
  au_identity :: bytes
  au_credentials :: credentials
  au_profile :: security_profile
  au_path :: string
  au_offered :: "version list"

record csms_config =
  cs_versions :: subprotocol_offer
  cs_compression :: bool
  cs_max_connections :: nat

record tls_peer =
  tp_certificate :: "bytes option"
  tp_is_tls :: bool

datatype 's admission =
    Refused "bytes option" nat string
  | NoCommonVersion bytes string
  | Admitted bytes version 's "deflate_params option" string

definition connection_profile :: "tls_peer \<Rightarrow> security_profile" where
  "connection_profile t =
     (case tp_certificate t of
        Some _ \<Rightarrow> TlsClientCertificate
      | None \<Rightarrow> if tp_is_tls t then TlsBasicAuth else BasicAuth)"

definition presented :: "base64 \<Rightarrow> tls_peer \<Rightarrow> upgrade_request \<Rightarrow> credentials" where
  "presented b64 t q =
     (case tp_certificate t of
        Some der \<Rightarrow> ClientCertificate der
      | None \<Rightarrow>
          (case header (ur_head q) ''authorization'' of
             None \<Rightarrow> NoCredentials
           | Some v \<Rightarrow> from_authorization_header b64 v))"

definition usurped :: "credentials \<Rightarrow> bytes \<Rightarrow> bool" where
  "usurped c identity = (case c of Basic user _ \<Rightarrow> user \<noteq> identity | _ \<Rightarrow> False)"

definition refuse :: "bytes option \<Rightarrow> nat \<Rightarrow> string \<Rightarrow> 's admission" where
  "refuse i status reason = Refused i status (refusal_text status reason)"

definition server_deflate :: "bool \<Rightarrow> upgrade_request \<Rightarrow> (deflate_params \<times> string) option" where
  "server_deflate compression q = (if compression then accept_offer (request_extensions q) else None)"

definition admit ::
  "(string \<Rightarrow> string) \<Rightarrow> base64 \<Rightarrow> (auth \<Rightarrow> 's auth_outcome) \<Rightarrow> csms_config \<Rightarrow> nat \<Rightarrow> tls_peer
    \<Rightarrow> upgrade_request \<Rightarrow> 's admission" where
  "admit digest b64 authenticate cfg sessions t q =
     (case upgrade_defect_of q of
        Some d \<Rightarrow> refuse (request_identity q) (fst (defect_status d)) (snd (defect_status d))
      | None \<Rightarrow>
          (case request_identity q of
             None \<Rightarrow> refuse None 400 ''Bad Request''
           | Some identity \<Rightarrow>
               let c = presented b64 t q in
               if usurped c identity then refuse (Some identity) 401 ''Unauthorized''
               else
                 (case authenticate
                    \<lparr>au_identity = identity, au_credentials = c, au_profile = connection_profile t,
                     au_path = ur_path q, au_offered = request_subprotocols q\<rparr> of
                    AuthReject \<Rightarrow> refuse (Some identity) 401 ''Unauthorized''
                  | AuthUnknown \<Rightarrow> refuse (Some identity) 404 ''Not Found''
                  | AuthAccept session \<Rightarrow>
                      if sessions \<ge> cs_max_connections cfg
                      then refuse (Some identity) 503 ''Service Unavailable''
                      else
                        let key = (case websocket_key q of None \<Rightarrow> [] | Some k \<Rightarrow> k) in
                        (case select (subprotocol_new (request_subprotocols q)) (offered (cs_versions cfg)) of
                           None \<Rightarrow> NoCommonVersion identity (accept_text digest key None None)
                         | Some version \<Rightarrow>
                             let deflate = server_deflate (cs_compression cfg) q in
                             Admitted identity version session (map_option fst deflate)
                               (accept_text digest key (Some (subprotocol version)) (map_option snd deflate))))))"

section \<open>The station's side\<close>

record uri =
  uri_scheme :: "string option"
  uri_host :: "string option"
  uri_port :: "nat option"
  uri_path :: string

record endpoint =
  ep_slot :: int
  ep_host :: string
  ep_port :: nat
  ep_secure :: bool
  ep_authority :: string
  ep_path :: string
  ep_url :: string

datatype endpoint_error =
  BadUrl | TlsDisagrees int | NeedsPassword int | NeedsTls int | NoVersionOffered int

definition trim_end_slashes :: "string \<Rightarrow> string" where
  "trim_end_slashes s = rev (dropWhile (\<lambda>c. c = CHR ''/'') (rev s))"

definition endpoint_at :: "int \<Rightarrow> uri \<Rightarrow> bool \<Rightarrow> string \<Rightarrow> bytes \<Rightarrow> endpoint" where
  "endpoint_at slot u secure host identity =
     (let port = (case uri_port u of Some p \<Rightarrow> p | None \<Rightarrow> if secure then 443 else 80);
          path = trim_end_slashes (uri_path u) @ ''/'' @ percent_encode identity;
          authority = (case uri_port u of Some _ \<Rightarrow> host @ '':'' @ digits port | None \<Rightarrow> host) in
      \<lparr>ep_slot = slot, ep_host = host, ep_port = port, ep_secure = secure, ep_authority = authority,
       ep_path = path, ep_url = (if secure then ''wss'' else ''ws'') @ ''://'' @ authority @ path\<rparr>)"

definition endpoint_parse :: "int \<Rightarrow> uri option \<Rightarrow> bytes \<Rightarrow> endpoint_error + endpoint" where
  "endpoint_parse slot parsed identity =
     (case parsed of
        None \<Rightarrow> Inl BadUrl
      | Some u \<Rightarrow>
          let scheme = (case uri_scheme u of None \<Rightarrow> ''ws'' | Some s \<Rightarrow> s) in
          if scheme \<notin> {''ws'', ''http'', ''wss'', ''https''} then Inl BadUrl
          else
            (case uri_host u of
               None \<Rightarrow> Inl BadUrl
             | Some host \<Rightarrow> Inr (endpoint_at slot u (scheme = ''wss'' \<or> scheme = ''https'') host identity)))"

definition endpoint_for_profile ::
  "(string \<Rightarrow> uri option) \<Rightarrow> network_profile \<Rightarrow> bytes \<Rightarrow> subprotocol_offer \<Rightarrow> endpoint_error + endpoint" where
  "endpoint_for_profile parse p identity standing =
     (case endpoint_parse (np_slot p) (parse (np_url p)) identity of
        Inl e \<Rightarrow> Inl e
      | Inr ep \<Rightarrow>
          if ep_secure ep \<noteq> is_transport_encrypted (np_security p) then Inl (TlsDisagrees (np_slot p))
          else if uses_basic_auth (np_security p) \<and> np_password p = None then Inl (NeedsPassword (np_slot p))
          else if is_transport_encrypted (np_security p) \<and> \<not> np_tls p then Inl (NeedsTls (np_slot p))
          else if offered (case np_versions p of None \<Rightarrow> standing | Some vs \<Rightarrow> vs) = []
          then Inl (NoVersionOffered (np_slot p))
          else Inr ep)"

datatype connect_error =
    HandshakeFailed transport_error
  | VersionFailed negotiation_error
  | DeflateFailed offer_error
  | PasswordMissing

definition connect_request ::
  "base64 \<Rightarrow> network_profile \<Rightarrow> endpoint \<Rightarrow> bytes \<Rightarrow> subprotocol_offer \<Rightarrow> bool \<Rightarrow> client_request option" where
  "connect_request b64 p ep identity versions compression =
     (if uses_basic_auth (np_security p) \<and> np_password p = None then None
      else Some
        \<lparr>cr_host = ep_authority ep, cr_path = ep_path ep, cr_subprotocols = header_value versions,
         cr_authorization =
           (if uses_basic_auth (np_security p)
            then map_option (basic_auth_header b64 identity) (np_password p) else None),
         cr_extensions =
           (if compression
            then Some (client_offer \<lparr>server_no_context_takeover = False, client_no_context_takeover = False\<rparr>)
            else None)\<rparr>)"

definition connect_outcome ::
  "(string \<Rightarrow> string) \<Rightarrow> string \<Rightarrow> subprotocol_offer \<Rightarrow> bool \<Rightarrow> string list
    \<Rightarrow> connect_error + version \<times> deflate_params option \<times> string" where
  "connect_outcome digest key versions compression reads =
     (case client_result_of digest key reads of
        Inl e \<Rightarrow> Inl (HandshakeFailed e)
      | Inr (h, _) \<Rightarrow>
          (case accept versions (ch_subprotocol h) of
             Inl e \<Rightarrow> Inl (VersionFailed e)
           | Inr v \<Rightarrow>
               if \<not> compression then Inr (v, None, ch_rest h)
               else
                 (case accept_response (ch_extensions h) of
                    Inl e \<Rightarrow> Inl (DeflateFailed e)
                  | Inr params \<Rightarrow> Inr (v, params, ch_rest h))))"

section \<open>Who is admitted\<close>

lemma find_append: "List.find P (xs @ ys) = (case List.find P xs of None \<Rightarrow> List.find P ys | Some x \<Rightarrow> Some x)"
  by (induction xs) auto

lemma find_dedup_onto: "List.find P (dedup_onto acc vs) = List.find P (acc @ vs)"
proof (induction acc vs rule: dedup_onto.induct)
  case (2 acc v vs)
  have "v \<in> set acc \<Longrightarrow> P v \<Longrightarrow> List.find P acc \<noteq> None" by (auto simp: find_None_iff)
  then show ?case using 2 by (auto simp: find_append split: option.split)
qed (simp add: find_append)

lemma find_first: "List.find P vs = Some v \<Longrightarrow> \<exists>before after. vs = before @ v # after \<and> P v \<and> (\<forall>w \<in> set before. \<not> P w)"
proof (induction vs)
  case (Cons w vs)
  show ?case
  proof (cases "P w")
    case True
    then show ?thesis using Cons.prems by (intro exI [of _ "[]"] exI [of _ vs]) simp
  next
    case False
    then obtain before after where "vs = before @ v # after" "P v" "\<forall>u \<in> set before. \<not> P u" using Cons by auto
    then show ?thesis using False by (intro exI [of _ "w # before"] exI [of _ after]) simp
  qed
qed simp

text \<open>The version settled on is the first the peer named that this side supports.\<close>

lemma selected:
  assumes "select (subprotocol_new vs) supported = Some v"
  shows "\<exists>before after. vs = before @ v # after \<and> v \<in> set supported \<and> set before \<inter> set supported = {}"
  using assms find_first [of "\<lambda>v. v \<in> set supported" vs v]
  by (auto simp: select_def subprotocol_new_def find_dedup_onto)

text \<open>
  C28. A session is opened only for a well-formed upgrade, under the identity of its path, and only
  if the application's \<open>Authenticator\<close> accepted exactly what was presented: the client certificate, where
  TLS has verified one, whatever the request's header says, and else what that header says; with the security profile that goes
  with it. Basic credentials in another name never get that far. That a certificate is the
  identity's own is not checked here: it is left to the \<open>Authenticator\<close>, which is given both. The session is
  below the limit of connections, and in the first version the client named that the server has.
\<close>

theorem admission_justified:
  assumes "admit digest b64 authenticate cfg sessions t q = Admitted identity v session params answer"
  shows "upgrade_defect_of q = None \<and> request_identity q = Some identity \<and>
    (\<exists>c profile.
       authenticate \<lparr>au_identity = identity, au_credentials = c, au_profile = profile, au_path = ur_path q,
         au_offered = request_subprotocols q\<rparr> = AuthAccept session \<and>
       (case tp_certificate t of
          Some der \<Rightarrow> c = ClientCertificate der \<and> profile = TlsClientCertificate
        | None \<Rightarrow>
            profile = (if tp_is_tls t then TlsBasicAuth else BasicAuth) \<and>
            c = (case header (ur_head q) ''authorization'' of
                   None \<Rightarrow> NoCredentials | Some text \<Rightarrow> from_authorization_header b64 text) \<and>
            (\<forall>user password. c = Basic user password \<longrightarrow> user = identity))) \<and>
    (\<forall>user password. presented b64 t q = Basic user password \<longrightarrow> user = identity) \<and>
    authenticate \<lparr>au_identity = identity, au_credentials = presented b64 t q, au_profile = connection_profile t,
      au_path = ur_path q, au_offered = request_subprotocols q\<rparr> = AuthAccept session \<and>
    sessions < cs_max_connections cfg \<and>
    select (subprotocol_new (request_subprotocols q)) (offered (cs_versions cfg)) = Some v \<and>
    (\<exists>before after. request_subprotocols q = before @ v # after \<and> v \<in> set (offered (cs_versions cfg)) \<and>
       set before \<inter> set (offered (cs_versions cfg)) = {})"
proof -
  let ?accepted = "\<lambda>c profile. authenticate \<lparr>au_identity = identity, au_credentials = c, au_profile = profile,
      au_path = ur_path q, au_offered = request_subprotocols q\<rparr> = AuthAccept session"
  have "select (subprotocol_new (request_subprotocols q)) (offered (cs_versions cfg)) = Some v"
    using assms by (auto simp: admit_def refuse_def Let_def split: option.splits auth_outcome.splits if_splits)
  note version = this selected [OF this]
  have who: "upgrade_defect_of q = None \<and> request_identity q = Some identity \<and>
      (\<forall>user password. presented b64 t q = Basic user password \<longrightarrow> user = identity) \<and>
      ?accepted (presented b64 t q) (connection_profile t) \<and> sessions < cs_max_connections cfg"
    using assms
    by (auto simp: admit_def refuse_def Let_def usurped_def split: option.splits auth_outcome.splits if_splits)
  then have "case tp_certificate t of
      Some der \<Rightarrow> presented b64 t q = ClientCertificate der \<and> connection_profile t = TlsClientCertificate
    | None \<Rightarrow>
        connection_profile t = (if tp_is_tls t then TlsBasicAuth else BasicAuth) \<and>
        presented b64 t q = (case header (ur_head q) ''authorization'' of
          None \<Rightarrow> NoCredentials | Some text \<Rightarrow> from_authorization_header b64 text) \<and>
        (\<forall>user password. presented b64 t q = Basic user password \<longrightarrow> user = identity)"
    by (simp add: presented_def connection_profile_def split: option.split)
  with who have "\<exists>c profile. ?accepted c profile \<and>
      (case tp_certificate t of
          Some der \<Rightarrow> c = ClientCertificate der \<and> profile = TlsClientCertificate
        | None \<Rightarrow>
            profile = (if tp_is_tls t then TlsBasicAuth else BasicAuth) \<and>
            c = (case header (ur_head q) ''authorization'' of
                   None \<Rightarrow> NoCredentials | Some text \<Rightarrow> from_authorization_header b64 text) \<and>
            (\<forall>user password. c = Basic user password \<longrightarrow> user = identity))"
    by blast
  then show ?thesis using who version by blast
qed

section \<open>What the text between them says\<close>

lemma join_comma_split:
  "ts \<noteq> [] \<Longrightarrow> \<forall>t \<in> set ts. CHR '','' \<notin> set t \<Longrightarrow>
   split_on (CHR '','') (CHR '' '' # join_comma ts) = map ((#) (CHR '' '')) ts"
proof (induction ts rule: join_comma.induct)
  case (2 t)
  then show ?case using split_on_none [of "CHR '',''" "CHR '' '' # t"] by simp
next
  case (3 t u ts)
  have "split_on (CHR '','') ((CHR '' '' # t) @ CHR '','' # CHR '' '' # join_comma (u # ts)) =
      (CHR '' '' # t) # split_on (CHR '','') (CHR '' '' # join_comma (u # ts))"
    using 3(3) by (intro split_on_append) simp
  then show ?case using 3 by simp
qed simp

lemma subprotocol_text:
  "trimmed (subprotocol v)" "subprotocol v \<noteq> []" "CHR '','' \<notin> set (subprotocol v)"
  "\<forall>c \<in> set (subprotocol v). \<not> is_whitespace c" "trim (subprotocol v) = subprotocol v"
  "trim (CHR '' '' # subprotocol v) = subprotocol v"
proof -
  show t: "trimmed (subprotocol v)" by (induction v) code_simp+
  show "subprotocol v \<noteq> []" "CHR '','' \<notin> set (subprotocol v)" "\<forall>c \<in> set (subprotocol v). \<not> is_whitespace c"
    by (induction v; code_simp)+
  show "trim (subprotocol v) = subprotocol v" "trim (CHR '' '' # subprotocol v) = subprotocol v"
    using t by (simp_all add: trim_trimmed trim_space)
qed

lemma versions_read:
  "List.map_filter (\<lambda>token. from_subprotocol (trim token)) (split_on (CHR '','') (header_value s)) = offered s"
proof (cases "offered s")
  case Nil
  have "from_subprotocol (trim []) = None" by code_simp
  then show ?thesis using Nil by (simp add: header_value_def map_filter_simps)
next
  case (Cons v vs)
  have rest: "List.map_filter (\<lambda>token. from_subprotocol (trim token)) (map ((#) (CHR '' '')) (map subprotocol vs)) = vs"
    by (induction vs) (simp_all add: map_filter_simps subprotocol_text)
  show ?thesis
  proof (cases "vs = []")
    case True
    then show ?thesis
      using Cons by (simp add: header_value_def split_on_none subprotocol_text map_filter_simps)
  next
    case False
    then obtain w ws where ws: "map subprotocol vs = w # ws" by (cases vs) auto
    have "header_value s = subprotocol v @ CHR '','' # CHR '' '' # join_comma (map subprotocol vs)"
      by (simp add: header_value_def Cons ws)
    then have "split_on (CHR '','') (header_value s) = subprotocol v # map ((#) (CHR '' '')) (map subprotocol vs)"
      using join_comma_split [of "map subprotocol vs"] False
      by (simp add: split_on_append subprotocol_text)
    then show ?thesis using rest Cons by (simp add: map_filter_simps subprotocol_text)
  qed
qed

lemma join_comma_ends:
  "ts \<noteq> [] \<Longrightarrow> \<forall>t \<in> set ts. t \<noteq> [] \<Longrightarrow>
   join_comma ts \<noteq> [] \<and> hd (join_comma ts) = hd (hd ts) \<and> last (join_comma ts) = last (last ts)"
  by (induction ts rule: join_comma.induct) auto

lemma join_comma_chars: "set (join_comma ts) \<subseteq> \<Union> (set ` set ts) \<union> {CHR '','', CHR '' ''}"
  by (induction ts rule: join_comma.induct) auto

lemma header_value_ok: "field_ok (header_value s)"
proof (cases "offered s = []")
  case False
  let ?ts = "map subprotocol (offered s)"
  have ends: "header_value s \<noteq> [] \<and> hd (header_value s) = hd (hd ?ts) \<and> last (header_value s) = last (last ?ts)"
    using join_comma_ends [of ?ts] False subprotocol_text(2) by (simp add: header_value_def)
  have "hd (subprotocol v) \<in> set (subprotocol v) \<and> last (subprotocol v) \<in> set (subprotocol v)" for v
    using subprotocol_text(2) by simp
  then have "trimmed (header_value s)"
    using ends False subprotocol_text(4) unfolding trimmed_def by (simp add: hd_map last_map) metis
  moreover have "CHR 0x0D \<notin> set (subprotocol v)" for v by (induction v; code_simp)
  then have "CHR 0x0D \<notin> set (header_value s)"
    using join_comma_chars [of ?ts] by (auto simp: header_value_def)
  ultimately show ?thesis by (simp add: field_ok_def)
qed (simp add: header_value_def field_ok_def trimmed_def)

lemma basic_header_ok: "base64_ok b64 \<Longrightarrow> field_ok (basic_auth_header b64 identity password)"
proof -
  assume b: "base64_ok b64"
  let ?e = "b64_encode b64 (identity @ COLON # password)"
  have e: "?e \<noteq> []" "\<forall>c \<in> set ?e. \<not> is_whitespace c" using b by (auto simp: base64_ok_def)
  have "\<not> is_whitespace (CHR ''B'')" "is_whitespace (CHR 0x0D)" by code_simp+
  then show ?thesis
    using e by (auto simp: field_ok_def basic_auth_header_def trimmed_def)
qed

lemma deflate_header_ok: "field_ok (to_header p)"
proof -
  have "field_ok (to_header \<lparr>server_no_context_takeover = s, client_no_context_takeover = c\<rparr>)" for s c
    by (induct s; induct c; code_simp)
  then show ?thesis by (cases p) simp
qed


section \<open>Station and server\<close>

text \<open>What the server sees of a station.\<close>

definition shown :: "tls_peer \<Rightarrow> bytes \<Rightarrow> bytes option \<Rightarrow> credentials" where
  "shown t i password =
     (case tp_certificate t of Some der \<Rightarrow> ClientCertificate der | None \<Rightarrow> Basic i (the password))"

lemma endpoint_parse_path:
  "endpoint_parse slot (Some u) i = Inr ep \<Longrightarrow> ep_path ep = trim_end_slashes (uri_path u) @ ''/'' @ percent_encode i"
  unfolding endpoint_parse_def Let_def
  by (cases "uri_host u") (auto simp: endpoint_at_def Let_def simp del: insert_iff split: if_splits)

lemma endpoint_path:
  assumes "endpoint_for_profile parse p i standing = Inr ep"
  shows "\<exists>u. parse (np_url p) = Some u \<and> ep_path ep = trim_end_slashes (uri_path u) @ ''/'' @ percent_encode i"
proof -
  have ep: "endpoint_parse (np_slot p) (parse (np_url p)) i = Inr ep"
    using assms by (simp add: endpoint_for_profile_def split: sum.splits if_splits)
  then obtain u where u: "parse (np_url p) = Some u"
    by (cases "parse (np_url p)") (simp_all add: endpoint_parse_def)
  then show ?thesis using endpoint_parse_path [of "np_slot p" u i ep] ep by simp
qed

lemma trim_end_slashes_set: "set (trim_end_slashes s) \<subseteq> set s"
  using set_dropWhileD by (fastforce simp: trim_end_slashes_def)

lemma presented_shown:
  assumes "base64_ok b64" and "identity_utf8 i = Inr i" and "utf8_valid i"
    and "connect_request b64 p ep i versions compression = Some r"
    and "connection_profile t = np_security p" and "header (ur_head q) ''authorization'' = cr_authorization r"
  shows "presented b64 t q = shown t i (np_password p) \<and> \<not> usurped (presented b64 t q) i"
proof (cases "tp_certificate t")
  case None
  then have "uses_basic_auth (np_security p)"
    using assms(5) by (auto simp: connection_profile_def uses_basic_auth_def split: if_splits)
  then obtain pw where "np_password p = Some pw" "cr_authorization r = Some (basic_auth_header b64 i pw)"
    using assms(4) by (auto simp: connect_request_def split: if_splits)
  moreover have "COLON \<notin> set i" using assms(2) by (auto simp: identity_utf8_def split: if_splits)
  ultimately show ?thesis
    using None assms(6) basic_auth_read [OF assms(1,3)]
    by (simp add: presented_def shown_def usurped_def)
qed (simp add: presented_def shown_def usurped_def)

lemma request_is_ok:
  assumes "base64_ok b64" and "connect_request b64 p ep i versions compression = Some r"
    and "field_ok (ep_authority ep)" and "field_ok key" and "ep_path ep \<noteq> []"
    and "\<forall>c \<in> set (ep_path ep). \<not> is_whitespace c"
  shows "request_ok key r \<and> cr_path r = ep_path ep \<and> cr_subprotocols r = header_value versions \<and>
    cr_extensions r =
      (if compression
       then Some (client_offer \<lparr>server_no_context_takeover = False, client_no_context_takeover = False\<rparr>) else None)"
  using assms
  by (auto simp: connect_request_def request_ok_def opt_ok_def header_value_ok basic_header_ok client_offer_def
      deflate_header_ok split: if_splits option.splits)

text \<open>
  C27. A station that reaches a server over its endpoint, with credentials the application accepts
  and room for one more, is admitted under its identity exactly if they have a version in common;
  then both ends settle, from the bytes of the request and the answer however these are cut, on
  the same version, the one the station prefers, and on the same compression. Without a common
  version the station is told so and refuses to go on.
\<close>

theorem station_meets_server:
  fixes authenticate :: "auth \<Rightarrow> 's auth_outcome"
  assumes "base64_ok b64" and "identity_utf8 i = Inr i" and "utf8_valid i"
    and "endpoint_for_profile parse p i standing = Inr ep" and "field_ok (ep_authority ep)"
    and "\<forall>u. parse (np_url p) = Some u \<longrightarrow>
           (\<forall>c \<in> set (uri_path u). \<not> is_whitespace c \<and> c \<noteq> CHR ''?'' \<and> c \<noteq> CHR ''#'')"
    and "distinct (offered versions)" and "connect_request b64 p ep i versions compression = Some r"
    and "field_ok key" and "field_ok (accept_key digest key)" and "length (accept_key digest key) \<le> 100"
    and "concat reads = request_text key r @ extra" and "[] \<notin> set reads" and "length (request_text key r) \<le> MAX_HEAD"
    and "connection_profile t = np_security p"
    and "authenticate \<lparr>au_identity = i, au_credentials = shown t i (np_password p), au_profile = np_security p,
           au_path = ep_path ep, au_offered = offered versions\<rparr> = AuthAccept session"
    and "sessions < cs_max_connections cfg"
  shows "\<exists>q reads'. read_request reads = Inr (q, reads') \<and> hd_rest (ur_head q) @ concat reads' = extra \<and>
    (case select versions (offered (cs_versions cfg)) of
       None \<Rightarrow>
         \<exists>answer. admit digest b64 authenticate cfg sessions t q = NoCommonVersion i answer \<and>
           (\<forall>replies. [] \<notin> set replies \<longrightarrow> concat replies = answer \<longrightarrow>
              connect_outcome digest key versions compression replies = Inl (VersionFailed NoSubprotocol))
     | Some v \<Rightarrow>
         \<exists>params answer. admit digest b64 authenticate cfg sessions t q = Admitted i v session params answer \<and>
           (\<forall>replies first. [] \<notin> set replies \<longrightarrow> concat replies = answer @ first \<longrightarrow>
              (\<exists>rest. connect_outcome digest key versions compression replies = Inr (v, params, rest))))"
proof -
  let ?v = "select versions (offered (cs_versions cfg))"
  obtain u where u: "parse (np_url p) = Some u" "ep_path ep = trim_end_slashes (uri_path u) @ ''/'' @ percent_encode i"
    using endpoint_path [OF assms(4)] by blast
  have base: "CHR ''?'' \<notin> set (trim_end_slashes (uri_path u))" "CHR ''#'' \<notin> set (trim_end_slashes (uri_path u))"
    "\<forall>c \<in> set (trim_end_slashes (uri_path u)). \<not> is_whitespace c"
    using assms(6) u(1) trim_end_slashes_set [of "uri_path u"] by blast+
  have "\<not> is_whitespace (CHR ''/'')" by code_simp
  then have path: "ep_path ep \<noteq> []" "\<forall>c \<in> set (ep_path ep). \<not> is_whitespace c"
    using base(3) percent_encode_segment by (auto simp: u(2) segment_char_def)
  note r = request_is_ok [OF assms(1,8,5,9) path]
  from request_read [OF conjunct1 [OF r] assms(12-14)] obtain q reads' where q:
    "read_request reads = Inr (q, reads')" "ur_path q = cr_path r" "hd_rest (ur_head q) @ concat reads' = extra"
    "upgrade_defect_of q = None" "websocket_key q = Some key"
    "header (ur_head q) ''authorization'' = cr_authorization r"
    "header_list (ur_head q) ''sec-websocket-protocol'' = Some (cr_subprotocols r)"
    "request_extensions q = cr_extensions r" by blast
  have ident: "request_identity q = Some i"
    by (rule identity_in_path [OF assms(2,3) base(1,2)]) (simp add: q(2) r u(2))
  from presented_shown [OF assms(1-3,8,15) q(6)] have cred:
    "presented b64 t q = shown t i (np_password p)" "\<not> usurped (shown t i (np_password p)) i" by metis+
  have subs: "request_subprotocols q = offered versions"
    using q(7) r by (simp add: request_subprotocols_def versions_read)
  have new: "subprotocol_new (offered versions) = versions"
    using assms(7) by (cases versions) (simp add: subprotocol_new_def dedup_onto_distinct)
  define D where "D = server_deflate (cs_compression cfg) q"
  have admit: "admit digest b64 authenticate cfg sessions t q =
      (case ?v of
         None \<Rightarrow> NoCommonVersion i (accept_text digest key None None)
       | Some v \<Rightarrow> Admitted i v session (map_option fst D)
           (accept_text digest key (Some (subprotocol v)) (map_option snd D)))"
    using q(2,4,5) r ident cred subs new assms(15-17)
    by (cases ?v) (simp_all add: admit_def Let_def D_def)
  let ?p0 = "\<lparr>server_no_context_takeover = False, client_no_context_takeover = False\<rparr>"
  have D: "D = (if cs_compression cfg \<and> compression then Some (?p0, to_header ?p0) else None)"
    using q(8) r accept_offer_client [of ?p0] by (simp add: D_def server_deflate_def accept_offer_def)
  have lens: "length (to_header ?p0) \<le> 100" "length (subprotocol v) \<le> 100" for v
    by (simp add: to_header_def, cases v, simp_all)
  show ?thesis
  proof (cases ?v)
    case None
    have len: "length (accept_text digest key None None) \<le> MAX_HEAD"
      using assms(11) by (simp add: accept_text_def optional_line_def CRLF_def MAX_HEAD_def)
    have "connect_outcome digest key versions compression replies = Inl (VersionFailed NoSubprotocol)"
      if "[] \<notin> set replies" "concat replies = accept_text digest key None None" for replies
    proof -
      from response_read [OF assms(10), of None None replies "[]"] that len obtain rest replies' where
        "client_result_of digest key replies = Inr (\<lparr>ch_subprotocol = None, ch_extensions = None, ch_rest = rest\<rparr>, replies')"
        by (auto simp: opt_ok_def)
      then show ?thesis by (simp add: connect_outcome_def accept_def)
    qed
    then show ?thesis using q(1,3) admit None by auto
  next
    case (Some v)
    let ?a = "accept_text digest key (Some (subprotocol v)) (map_option snd D)"
    have len: "length ?a \<le> MAX_HEAD"
      using assms(11) lens(1) lens(2) [of v]
      by (simp add: D accept_text_def optional_line_def CRLF_def MAX_HEAD_def)
    have v: "v \<in> set (offered versions)" using selected [of "offered versions"] Some new by fastforce
    have oks: "opt_ok (Some (subprotocol v))" "opt_ok (map_option snd D)"
    proof -
      have "CHR 0x0D \<notin> set (subprotocol v)" by (induction v; code_simp)
      then show "opt_ok (Some (subprotocol v))" using subprotocol_text(1) by (simp add: opt_ok_def field_ok_def)
      show "opt_ok (map_option snd D)" using deflate_header_ok by (simp add: D opt_ok_def)
    qed
    have "\<exists>rest. connect_outcome digest key versions compression replies = Inr (v, map_option fst D, rest)"
      if "[] \<notin> set replies" "concat replies = ?a @ first" for replies first
    proof -
      from response_read [OF assms(10) oks that(2,1) len] obtain rest replies' where
        res: "client_result_of digest key replies =
          Inr (\<lparr>ch_subprotocol = Some (subprotocol v), ch_extensions = map_option snd D, ch_rest = rest\<rparr>, replies')"
        by blast
      have "accept versions (Some (subprotocol v)) = Inr v" using v by (simp add: accept_def)
      moreover have "accept_response (map_option snd D) = Inr (map_option fst D)"
        using accept_response_header [of ?p0] by (simp add: D accept_response_def)
      moreover have "map_option fst D = None" if "\<not> compression" using that by (simp add: D)
      ultimately show ?thesis using res by (simp add: connect_outcome_def)
    qed
    then show ?thesis using q(1,3) admit Some by auto
  qed
qed

section \<open>Examples\<close>

definition example_profile :: network_profile where
  "example_profile = np_with_password (bytes_of ''secret'') (network_profile_new 0 ''ws://csms/ocpp/'')"

definition example_uri :: "string \<Rightarrow> uri option" where
  "example_uri s = Some \<lparr>uri_scheme = Some ''ws'', uri_host = Some ''csms'', uri_port = None, uri_path = ''/ocpp/''\<rparr>"

definition example_endpoint :: endpoint where
  "example_endpoint = endpoint_at 0 (the (example_uri [])) False ''csms'' (bytes_of ''CS 1'')"

definition example_request :: client_request where
  "example_request =
     the (connect_request base64_hex example_profile example_endpoint (bytes_of ''CS 1'') subprotocol_default True)"

definition example_config :: csms_config where
  "example_config = \<lparr>cs_versions = subprotocol_new [V1_6, V2_0_1], cs_compression = True, cs_max_connections = 10\<rparr>"

theorem station_meets_server_witness:
  "\<exists>q reads' params answer.
     read_request [request_text ''nonce'' example_request] = Inr (q, reads') \<and>
     admit (\<lambda>_. ''proof'') base64_hex (\<lambda>a. AuthAccept (au_identity a)) example_config 0
       \<lparr>tp_certificate = None, tp_is_tls = False\<rparr> q = Admitted (bytes_of ''CS 1'') V2_0_1 (bytes_of ''CS 1'') params answer \<and>
     (\<exists>rest. connect_outcome (\<lambda>_. ''proof'') ''nonce'' subprotocol_default True [answer] = Inr (V2_0_1, params, rest))"
proof -
  have sel: "select subprotocol_default (offered (cs_versions example_config)) = Some V2_0_1" by code_simp
  have h0: "identity_utf8 (bytes_of ''CS 1'') = Inr (bytes_of ''CS 1'')"
    by code_simp
  have h1: "utf8_valid (bytes_of ''CS 1'')"
    by code_simp
  have h2: "endpoint_for_profile example_uri example_profile (bytes_of ''CS 1'') subprotocol_default = Inr example_endpoint"
    by code_simp
  have h3: "field_ok (ep_authority example_endpoint)"
    by code_simp
  have h4: "\<forall>u. example_uri (np_url example_profile) = Some u \<longrightarrow>
      (\<forall>c \<in> set (uri_path u). \<not> is_whitespace c \<and> c \<noteq> CHR ''?'' \<and> c \<noteq> CHR ''#'')"
    by (simp add: example_uri_def is_whitespace_def Let_def)
  have h5: "distinct (offered subprotocol_default)"
    by code_simp
  have h6: "connect_request base64_hex example_profile example_endpoint (bytes_of ''CS 1'') subprotocol_default True = Some example_request"
    by code_simp
  have h7: "field_ok ''nonce''"
    by code_simp
  have h8: "field_ok (accept_key (\<lambda>_. ''proof'') ''nonce'')"
    by code_simp
  have h9: "length (accept_key (\<lambda>_. ''proof'') ''nonce'') \<le> 100"
    by code_simp
  have h10: "concat [request_text ''nonce'' example_request] = request_text ''nonce'' example_request @ []"
    by simp
  have h11: "[] \<notin> set [request_text ''nonce'' example_request]"
    by (simp add: request_text_def)
  have h12: "length (request_text ''nonce'' example_request) \<le> MAX_HEAD"
    by code_simp
  have h13: "connection_profile \<lparr>tp_certificate = None, tp_is_tls = False\<rparr> = np_security example_profile"
    by code_simp
  have h14: "(\<lambda>a. AuthAccept (au_identity a)) \<lparr>au_identity = bytes_of ''CS 1'',
      au_credentials = shown \<lparr>tp_certificate = None, tp_is_tls = False\<rparr> (bytes_of ''CS 1'') (np_password example_profile),
      au_profile = np_security example_profile, au_path = ep_path example_endpoint,
      au_offered = offered subprotocol_default\<rparr> = AuthAccept (bytes_of ''CS 1'')"
    by simp
  have h15: "0 < cs_max_connections example_config"
    by (simp add: example_config_def)
  note meets = station_meets_server [where authenticate = "\<lambda>a. AuthAccept (au_identity a)", OF base64_hex_ok h0 h1 h2 h3 h4 h5 h6 h7 h8 h9 h10 h11 h12 h13 h14 h15, unfolded sel option.case]
  then obtain q reads' params answer where q: "read_request [request_text ''nonce'' example_request] = Inr (q, reads')"
    and a: "admit (\<lambda>_. ''proof'') base64_hex (\<lambda>a. AuthAccept (au_identity a)) example_config 0
             \<lparr>tp_certificate = None, tp_is_tls = False\<rparr> q = Admitted (bytes_of ''CS 1'') V2_0_1 (bytes_of ''CS 1'') params answer"
    and replies: "\<And>replies first. [] \<notin> set replies \<Longrightarrow> concat replies = answer @ first \<Longrightarrow>
       \<exists>rest. connect_outcome (\<lambda>_. ''proof'') ''nonce'' subprotocol_default True replies = Inr (V2_0_1, params, rest)"
    by blast
  have "answer \<noteq> []" using replies [of "[]" "[]"] by (auto simp: connect_outcome_def client_result_of_def read_head_def)
  then show ?thesis using q a replies [of "[answer]" "[]"] by auto
qed

theorem admission_justified_witness:
  "\<exists>params answer. admit (\<lambda>_. ''proof'') base64_hex (\<lambda>a. AuthAccept (au_identity a)) example_config 0
     \<lparr>tp_certificate = None, tp_is_tls = False\<rparr>
     \<lparr>ur_path = ''/ocpp/CS'', ur_head = \<lparr>hd_target = [], hd_headers =
        [(''upgrade'', ''websocket''), (''connection'', ''keep-alive, Upgrade''), (''sec-websocket-version'', ''13''),
         (''sec-websocket-key'', ''nonce''), (''sec-websocket-protocol'', ''ocpp1.6''),
         (''authorization'', ''Basic 43533A70'')], hd_rest = []\<rparr>\<rparr> = Admitted [67, 83] V1_6 [67, 83] params answer \<and>
   V1_6 \<in> set (offered (cs_versions example_config))"
proof -
  let ?a = "admit (\<lambda>_. ''proof'') base64_hex (\<lambda>a. AuthAccept (au_identity a)) example_config 0
     \<lparr>tp_certificate = None, tp_is_tls = False\<rparr>
     \<lparr>ur_path = ''/ocpp/CS'', ur_head = \<lparr>hd_target = [], hd_headers =
        [(''upgrade'', ''websocket''), (''connection'', ''keep-alive, Upgrade''), (''sec-websocket-version'', ''13''),
         (''sec-websocket-key'', ''nonce''), (''sec-websocket-protocol'', ''ocpp1.6''),
         (''authorization'', ''Basic 43533A70'')], hd_rest = []\<rparr>\<rparr>"
  have "case ?a of Admitted i v s params answer \<Rightarrow> i = [67, 83] \<and> v = V1_6 \<and> s = [67, 83] | _ \<Rightarrow> False"
    by code_simp
  then obtain params answer where a: "?a = Admitted [67, 83] V1_6 [67, 83] params answer"
    by (cases ?a) auto
  with admission_justified [OF a] show ?thesis by blast
qed

end
