(* ===== verification/Local_Controller.thy ===== *)
theory Local_Controller
  imports Driver Admission
begin

text \<open>
  \<open>transport/local_controller.rs\<close>: the relay that stands between a group of stations and the CSMS.

  For each station there are two legs, south to the station and north to the CSMS. \<open>attach\<close> is the
  admission of a station, with the connection upstream as its parameter \<open>upstream\<close> (\<open>None\<close>: it timed
  out) and \<open>upstream_request\<close> and \<open>upstream_outcome\<close> as what that connection says and makes of the
  answer. \<open>relay_loop\<close> runs over a script of what the two legs deliver; the application's \<open>Relay\<close> is
  a parameter. What is written to a leg is kept in a list, and an end of the stream, an error and a
  message are what a leg delivers, as in the driver. TLS and the listener are left out.

  The lemmas show that the CSMS judges the connection of a controller as it would have judged the
  station's, that a controller writes nothing of its own but answers to calls, and that it passes on
  every text in order.
\<close>

section \<open>What to do with a frame\<close>

datatype direction = Northbound | Southbound

datatype relay_decision =
    RelayForward
  | RelayReject call_error
  | RelayDrop
  | RelayReplace string

type_synonym relay = "bytes \<Rightarrow> direction \<Rightarrow> frame \<Rightarrow> relay_decision"

definition pass_through :: relay where
  "pass_through i dir f = RelayForward"

definition refuse_actions :: "string list \<Rightarrow> relay" where
  "refuse_actions actions i dir f =
     (case frame_action f of
        Some a \<Rightarrow>
          if list_ex (\<lambda>x. x = a) actions
          then RelayReject (call_error_new NotSupported ''handled by the local controller'')
          else RelayForward
      | None \<Rightarrow> RelayForward)"

datatype relayed = Forwarded string | Answered string | Dropped

definition decide_frame :: "serde \<Rightarrow> relay \<Rightarrow> bytes \<Rightarrow> direction \<Rightarrow> string \<Rightarrow> version \<Rightarrow> relayed" where
  "decide_frame j relay i dir text w =
     (case parse j text w of
        Inl _ \<Rightarrow> Forwarded text
      | Inr f \<Rightarrow>
          (case relay i dir f of
             RelayForward \<Rightarrow> Forwarded text
           | RelayReplace t \<Rightarrow> Forwarded t
           | RelayDrop \<Rightarrow> Dropped
           | RelayReject err \<Rightarrow>
               (case f of
                  FrameCall mid _ _ \<Rightarrow>
                    (case to_json j (FrameCallError mid (of_call_error err)) w of
                       None \<Rightarrow> Dropped
                     | Some t \<Rightarrow> Answered t)
                | _ \<Rightarrow> Dropped)))"

section \<open>The two legs\<close>

datatype side = South | North

fun opposite :: "side \<Rightarrow> side" where
  "opposite South = North"
| "opposite North = South"

fun heading :: "side \<Rightarrow> direction" where
  "heading South = Northbound"
| "heading North = Southbound"

record legs =
  lg_wire :: "side \<Rightarrow> wire_message list"
  lg_pong_due :: "side \<Rightarrow> instant option"

definition legs_new :: legs where
  "legs_new = \<lparr>lg_wire = (\<lambda>_. []), lg_pong_due = (\<lambda>_. None)\<rparr>"

definition write_leg :: "side \<Rightarrow> wire_message \<Rightarrow> legs \<Rightarrow> legs" where
  "write_leg s m l = l\<lparr>lg_wire := (lg_wire l)(s := lg_wire l s @ [m])\<rparr>"

text \<open>\<open>relay_one\<close> for what the leg \<open>s\<close> delivered; \<open>sent\<close> says whether a write goes out.\<close>

definition relay_one ::
  "serde \<Rightarrow> relay \<Rightarrow> bytes \<Rightarrow> version \<Rightarrow> side \<Rightarrow> bool \<Rightarrow> (ws_error + wire_message) option \<Rightarrow> legs \<Rightarrow> bool \<times> legs" where
  "relay_one j relay i w s sent m l =
     (let write = (\<lambda>to x. if sent then (True, write_leg to x l) else (False, l)) in
      case m of
        Some (Inr (WireText text)) \<Rightarrow>
          (case decide_frame j relay i (heading s) text w of
             Forwarded t \<Rightarrow> write (opposite s) (WireText t)
           | Answered t \<Rightarrow> write s (WireText t)
           | Dropped \<Rightarrow> (True, l))
      | Some (Inr (WirePing payload)) \<Rightarrow> write s (WirePong payload)
      | Some (Inr (WirePong _)) \<Rightarrow> (True, l\<lparr>lg_pong_due := (lg_pong_due l)(s := None)\<rparr>)
      | Some (Inr (WireClose frame)) \<Rightarrow> (False, snd (write (opposite s) (WireClose frame)))
      | Some (Inr (WireBinary _)) \<Rightarrow> (True, l)
      | Some (Inl _) \<Rightarrow> (False, l)
      | None \<Rightarrow> (False, l))"

datatype leg_event =
    Delivered side "(ws_error + wire_message) option"
  | LegPingDue instant
  | LegPongOverdue side

definition note_due :: "instant \<Rightarrow> side \<Rightarrow> legs \<Rightarrow> legs" where
  "note_due due s l = (case lg_pong_due l s of None \<Rightarrow> l\<lparr>lg_pong_due := (lg_pong_due l)(s := Some due)\<rparr> | Some _ \<Rightarrow> l)"

text \<open>One branch of the \<open>select!\<close>; the flags are those of its first and its second write.\<close>

fun leg_event_step ::
  "serde \<Rightarrow> relay \<Rightarrow> bytes \<Rightarrow> version \<Rightarrow> keepalive \<Rightarrow> bool \<times> bool \<Rightarrow> leg_event \<Rightarrow> legs \<Rightarrow> bool \<times> legs" where
  "leg_event_step j relay i w ka (sent, sent2) (Delivered s m) l = relay_one j relay i w s sent m l"
| "leg_event_step j relay i w ka (sent, sent2) (LegPingDue t) l =
     (let due = instant_add t (ka_timeout ka);
          l1 = note_due due North (note_due due South l) in
      if \<not> sent then (False, l1)
      else
        let l2 = write_leg South (WirePing []) l1 in
        if \<not> sent2 then (False, l2) else (True, write_leg North (WirePing []) l2))"
| "leg_event_step j relay i w ka sents (LegPongOverdue s) l = (False, l)"

text \<open>The flag says whether the loop is still running at the end of the script.\<close>

fun relay_loop ::
  "serde \<Rightarrow> relay \<Rightarrow> bytes \<Rightarrow> version \<Rightarrow> keepalive \<Rightarrow> ((bool \<times> bool) \<times> leg_event) list \<Rightarrow> legs \<Rightarrow> bool \<times> legs" where
  "relay_loop j relay i w ka [] l = (True, l)"
| "relay_loop j relay i w ka ((sents, ev) # evs) l =
     (case leg_event_step j relay i w ka sents ev l of
        (True, l1) \<Rightarrow> relay_loop j relay i w ka evs l1
      | (False, l1) \<Rightarrow> (False, l1))"

definition GOING_AWAY :: nat where "GOING_AWAY = 1001"

definition close_legs :: "bool \<times> bool \<Rightarrow> legs \<Rightarrow> legs" where
  "close_legs sents l =
     (let bye = WireClose (Some (GOING_AWAY, []));
          l1 = (if fst sents then write_leg South bye l else l)
      in if snd sents then write_leg North bye l1 else l1)"

definition relay_session ::
  "serde \<Rightarrow> relay \<Rightarrow> bytes \<Rightarrow> version \<Rightarrow> keepalive \<Rightarrow> ((bool \<times> bool) \<times> leg_event) list \<Rightarrow> bool \<times> bool \<Rightarrow> bool \<times> legs" where
  "relay_session j relay i w ka evs closing =
     (case relay_loop j relay i w ka evs legs_new of
        (True, l) \<Rightarrow> (True, l)
      | (False, l) \<Rightarrow> (False, close_legs closing l))"

section \<open>Attaching a station\<close>

datatype upstream_credentials = PassThroughCredentials | NoUpstreamCredentials

record controller =
  lc_versions :: "subprotocol_offer option"
  lc_compression :: bool
  lc_credentials :: upstream_credentials

definition northbound_offer :: "controller \<Rightarrow> upgrade_request \<Rightarrow> subprotocol_offer" where
  "northbound_offer lc q =
     (let offer = subprotocol_new (request_subprotocols q) in
      case lc_versions lc of
        Some limit \<Rightarrow> subprotocol_new (filter (\<lambda>v. v \<in> set (offered limit)) (offered offer))
      | None \<Rightarrow> offer)"

definition upstream_request ::
  "controller \<Rightarrow> uri \<Rightarrow> string \<Rightarrow> bytes \<Rightarrow> subprotocol_offer \<Rightarrow> string option \<Rightarrow> client_request" where
  "upstream_request lc u host i offer authorization =
     (let secure = (uri_scheme u = Some ''wss'' \<or> uri_scheme u = Some ''https'');
          port = (case uri_port u of Some p \<Rightarrow> p | None \<Rightarrow> if secure then 443 else 80) in
      \<lparr>cr_host = (case uri_port u of Some _ \<Rightarrow> host @ '':'' @ digits port | None \<Rightarrow> host),
       cr_path = trim_end_slashes (uri_path u) @ ''/'' @ percent_encode i,
       cr_subprotocols = header_value offer,
       cr_authorization =
         (case lc_credentials lc of PassThroughCredentials \<Rightarrow> authorization | NoUpstreamCredentials \<Rightarrow> None),
       cr_extensions =
         (if lc_compression lc
          then Some (client_offer \<lparr>server_no_context_takeover = False, client_no_context_takeover = False\<rparr>)
          else None)\<rparr>)"

definition upstream_outcome ::
  "(string \<Rightarrow> string) \<Rightarrow> string \<Rightarrow> controller \<Rightarrow> subprotocol_offer \<Rightarrow> string list
    \<Rightarrow> connect_error + version \<times> deflate_params option \<times> string" where
  "upstream_outcome digest key lc offer reads =
     (case client_result_of digest key reads of
        Inl err \<Rightarrow> Inl (HandshakeFailed err)
      | Inr (res, _) \<Rightarrow>
          (case accept offer (ch_subprotocol res) of
             Inl err \<Rightarrow> Inl (VersionFailed err)
           | Inr v \<Rightarrow>
               Inr (v,
                 if lc_compression lc
                 then (case accept_response (ch_extensions res) of Inr (Some params) \<Rightarrow> Some params | _ \<Rightarrow> None)
                 else None,
                 ch_rest res)))"

datatype attach_outcome =
    AttachRefused nat string
  | AttachTimedOut
  | AttachBadGateway connect_error string
  | Attached bytes version "deflate_params option" string

definition attach ::
  "(string \<Rightarrow> string) \<Rightarrow> controller
    \<Rightarrow> (bytes \<Rightarrow> subprotocol_offer \<Rightarrow> string option \<Rightarrow> (connect_error + version \<times> deflate_params option \<times> string) option)
    \<Rightarrow> upgrade_request \<Rightarrow> attach_outcome" where
  "attach digest lc upstream q =
     (case upgrade_defect_of q of
        Some d \<Rightarrow> AttachRefused (fst (defect_status d)) (refusal_text (fst (defect_status d)) (snd (defect_status d)))
      | None \<Rightarrow>
          (case request_identity q of
             None \<Rightarrow> AttachRefused 400 (refusal_text 400 ''Bad Request'')
           | Some i \<Rightarrow>
               (case upstream i (northbound_offer lc q) (header (ur_head q) ''authorization'') of
                  None \<Rightarrow> AttachTimedOut
                | Some (Inl err) \<Rightarrow> AttachBadGateway err (refusal_text 502 ''Bad Gateway'')
                | Some (Inr (v, _, _)) \<Rightarrow>
                    let key = (case websocket_key q of None \<Rightarrow> [] | Some k \<Rightarrow> k);
                        deflate = server_deflate (lc_compression lc) q
                    in Attached i v (map_option fst deflate)
                         (accept_text digest key (Some (subprotocol v)) (map_option snd deflate)))))"


section \<open>What is written to a leg\<close>

definition texts :: "wire_message list \<Rightarrow> string list" where
  "texts ws = List.map_filter (\<lambda>m. case m of WireText t \<Rightarrow> Some t | _ \<Rightarrow> None) ws"

lemma texts_simps [simp]:
  "texts [] = []" "texts (xs @ ys) = texts xs @ texts ys"
  "texts (WireText t # xs) = t # texts xs" "texts (WirePing b # xs) = texts xs" "texts (WirePong b # xs) = texts xs"
  "texts (WireClose c # xs) = texts xs" "texts (WireBinary b # xs) = texts xs"
  by (simp_all add: texts_def map_filter_simps List.map_filter_def)

lemma in_texts: "t \<in> set (texts ws) \<longleftrightarrow> WireText t \<in> set ws"
  by (induction ws) (auto simp: texts_def map_filter_simps split: wire_message.split)

lemma wire_write [simp]: "lg_wire (write_leg s m l) s' = (if s' = s then lg_wire l s @ [m] else lg_wire l s')"
  by (simp add: write_leg_def)

lemma wire_note_due [simp]: "lg_wire (note_due due s l) = lg_wire l"
  by (simp add: note_due_def split: option.split)

lemma opposite_opposite [simp]: "opposite (opposite s) = s" "opposite s \<noteq> s" "s \<noteq> opposite s"
  by (cases s; simp)+

lemma side_cases: "s' = s \<or> s' = opposite s"
  by (cases s; cases s'; simp)

text \<open>The texts a leg gets in one step.\<close>

definition passed :: "serde \<Rightarrow> relay \<Rightarrow> bytes \<Rightarrow> version \<Rightarrow> leg_event \<Rightarrow> side \<Rightarrow> string \<Rightarrow> bool" where
  "passed j relay i w ev s t \<longleftrightarrow>
     (\<exists>t0. ev = Delivered (opposite s) (Some (Inr (WireText t0))) \<and>
        decide_frame j relay i (heading (opposite s)) t0 w = Forwarded t)"

definition refused :: "serde \<Rightarrow> relay \<Rightarrow> bytes \<Rightarrow> version \<Rightarrow> leg_event \<Rightarrow> side \<Rightarrow> string \<Rightarrow> bool" where
  "refused j relay i w ev s t \<longleftrightarrow>
     (\<exists>t0 mid a p err. ev = Delivered s (Some (Inr (WireText t0))) \<and> parse j t0 w = Inr (FrameCall mid a p) \<and>
        relay i (heading s) (FrameCall mid a p) = RelayReject err \<and>
        to_json j (FrameCallError mid (of_call_error err)) w = Some t)"

lemma answered_call:
  "decide_frame j relay i dir t0 w = Answered t \<Longrightarrow>
   \<exists>mid a p err. parse j t0 w = Inr (FrameCall mid a p) \<and> relay i dir (FrameCall mid a p) = RelayReject err \<and>
     to_json j (FrameCallError mid (of_call_error err)) w = Some t"
  by (auto simp: decide_frame_def split: sum.splits relay_decision.splits frame.splits option.splits)

lemma relay_one_texts:
  assumes "relay_one j relay i w s sent m l = (b, l')" and "t \<in> set (texts (lg_wire l' s'))"
  shows "t \<in> set (texts (lg_wire l s')) \<or> passed j relay i w (Delivered s m) s' t \<or>
    refused j relay i w (Delivered s m) s' t"
proof -
  consider (said) t0 where "m = Some (Inr (WireText t0))" | (other) "texts (lg_wire l' s') = texts (lg_wire l s')"
    using assms(1)
    by (auto simp: relay_one_def Let_def split: option.splits sum.splits wire_message.splits if_splits)
  then show ?thesis
  proof cases
    case said
    show ?thesis
    proof (cases "decide_frame j relay i (heading s) t0 w")
      case (Forwarded t1)
      then show ?thesis
        using assms said side_cases [of s' s]
        by (auto simp: relay_one_def Let_def passed_def split: if_splits)
    next
      case (Answered t1)
      then show ?thesis
        using assms said answered_call [OF Answered]
        by (auto simp: relay_one_def Let_def refused_def split: if_splits)
    next
      case Dropped
      then show ?thesis using assms said by (simp add: relay_one_def)
    qed
  qed (use assms(2) in simp)
qed

lemma step_texts:
  assumes "leg_event_step j relay i w ka sents ev l = (b, l')" and "t \<in> set (texts (lg_wire l' s))"
  shows "t \<in> set (texts (lg_wire l s)) \<or> passed j relay i w ev s t \<or> refused j relay i w ev s t"
proof (cases ev)
  case (Delivered s' m)
  then show ?thesis using assms relay_one_texts by (cases sents) simp
next
  case (LegPingDue due)
  then show ?thesis using assms by (cases sents) (auto simp: Let_def split: if_splits)
next
  case (LegPongOverdue s')
  then show ?thesis using assms by (cases sents) simp
qed

lemma loop_texts:
  assumes "relay_loop j relay i w ka evs l = (b, l')" and "t \<in> set (texts (lg_wire l' s))"
  shows "t \<in> set (texts (lg_wire l s)) \<or> (\<exists>ev \<in> snd ` set evs. passed j relay i w ev s t \<or> refused j relay i w ev s t)"
  using assms
proof (induction evs arbitrary: l)
  case (Cons x evs)
  obtain sents ev where x: "x = (sents, ev)" by fastforce
  obtain go l1 where step: "leg_event_step j relay i w ka sents ev l = (go, l1)" by fastforce
  have one: "u \<in> set (texts (lg_wire l s)) \<or> passed j relay i w ev s u \<or> refused j relay i w ev s u"
    if "u \<in> set (texts (lg_wire l1 s))" for u
    using step_texts [OF step that] .
  show ?case
  proof (cases go)
    case True
    then have "relay_loop j relay i w ka evs l1 = (b, l')" using Cons.prems(1) x step by simp
    from Cons.IH [OF this Cons.prems(2)] one [of t] show ?thesis using x by auto
  next
    case False
    then have "l' = l1" using Cons.prems(1) x step by simp
    then show ?thesis using one [of t] Cons.prems(2) x by auto
  qed
qed simp

text \<open>
  A controller says nothing of its own. Whatever the two ends send and the application decides,
  every text written to a leg is one the other leg delivered, as the application let it through, or
  an error that answers a call this leg delivered, under the id of that call.
\<close>

theorem relay_never_originates:
  assumes "relay_session j relay i w ka evs closing = (running, l)" and "WireText t \<in> set (lg_wire l s)"
  shows "(\<exists>sents t0. (sents, Delivered (opposite s) (Some (Inr (WireText t0)))) \<in> set evs \<and>
      decide_frame j relay i (heading (opposite s)) t0 w = Forwarded t) \<or>
    (\<exists>sents t0 mid a p err. (sents, Delivered s (Some (Inr (WireText t0)))) \<in> set evs \<and>
      parse j t0 w = Inr (FrameCall mid a p) \<and> relay i (heading s) (FrameCall mid a p) = RelayReject err \<and>
      to_json j (FrameCallError mid (of_call_error err)) w = Some t)"
proof -
  obtain b l1 where loop: "relay_loop j relay i w ka evs legs_new = (b, l1)" by fastforce
  have "texts (lg_wire l s) = texts (lg_wire l1 s)"
    using assms(1) loop by (auto simp: relay_session_def close_legs_def Let_def split: bool.splits)
  then have "t \<in> set (texts (lg_wire l1 s))" using assms(2) in_texts by metis
  from loop_texts [OF loop this] show ?thesis
    by (fastforce simp: legs_new_def passed_def refused_def)
qed

section \<open>What is passed on, and when it ends\<close>

text \<open>What a leg is told by one event.\<close>

definition told :: "serde \<Rightarrow> relay \<Rightarrow> bytes \<Rightarrow> version \<Rightarrow> side \<Rightarrow> leg_event \<Rightarrow> string option" where
  "told j relay i w s ev =
     (case ev of
        Delivered s' (Some (Inr (WireText t0))) \<Rightarrow>
          (case decide_frame j relay i (heading s') t0 w of
             Forwarded t \<Rightarrow> if s' = opposite s then Some t else None
           | Answered t \<Rightarrow> if s' = s then Some t else None
           | Dropped \<Rightarrow> None)
      | _ \<Rightarrow> None)"

definition told_all :: "serde \<Rightarrow> relay \<Rightarrow> bytes \<Rightarrow> version \<Rightarrow> side \<Rightarrow> leg_event list \<Rightarrow> string list" where
  "told_all j relay i w s evs = List.map_filter (told j relay i w s) evs"

lemma told_all_simps [simp]:
  "told_all j relay i w s [] = []"
  "told_all j relay i w s (ev # evs) =
     (case told j relay i w s ev of None \<Rightarrow> [] | Some t \<Rightarrow> [t]) @ told_all j relay i w s evs"
  by (simp_all add: told_all_def map_filter_simps split: option.split)

lemma relay_one_told:
  fixes s :: side
  assumes "relay_one j relay i w s' sent m l = (b, l')"
  defines "new \<equiv> (case told j relay i w s (Delivered s' m) of None \<Rightarrow> [] | Some t \<Rightarrow> [t])"
  shows "texts (lg_wire l' s) = texts (lg_wire l s) @ new \<or> \<not> b \<and> texts (lg_wire l' s) = texts (lg_wire l s)"
  using assms(1) side_cases [of s s']
  by (auto simp: new_def told_def relay_one_def Let_def
      split: option.splits sum.splits wire_message.splits relayed.splits if_splits)

lemma step_told:
  fixes s :: side
  assumes "leg_event_step j relay i w ka sents ev l = (b, l')"
  defines "new \<equiv> (case told j relay i w s ev of None \<Rightarrow> [] | Some t \<Rightarrow> [t])"
  shows "texts (lg_wire l' s) = texts (lg_wire l s) @ new \<or> \<not> b \<and> texts (lg_wire l' s) = texts (lg_wire l s)"
proof (cases ev)
  case (Delivered s' m)
  then show ?thesis using assms(1) relay_one_told unfolding new_def by (cases sents) simp
next
  case (LegPingDue due)
  then show ?thesis
    using assms(1) unfolding new_def by (cases sents) (auto simp: told_def Let_def split: if_splits)
next
  case (LegPongOverdue s')
  then show ?thesis using assms(1) unfolding new_def by (cases sents) (auto simp: told_def)
qed

lemma loop_told:
  assumes "relay_loop j relay i w ka evs l = (b, l')"
  shows "\<exists>now later. map snd evs = now @ later \<and>
    texts (lg_wire l' s) = texts (lg_wire l s) @ told_all j relay i w s now \<and> (b \<longrightarrow> later = [])"
  using assms
proof (induction evs arbitrary: l)
  case (Cons x evs)
  obtain sents ev where x: "x = (sents, ev)" by fastforce
  obtain go l1 where step: "leg_event_step j relay i w ka sents ev l = (go, l1)" by fastforce
  note one = step_told [OF step, of s]
  show ?case
  proof (cases go)
    case True
    then have "relay_loop j relay i w ka evs l1 = (b, l')" using Cons.prems x step by simp
    from Cons.IH [OF this] obtain now later where
      "map snd evs = now @ later" "texts (lg_wire l' s) = texts (lg_wire l1 s) @ told_all j relay i w s now"
      "b \<longrightarrow> later = []" by blast
    then show ?thesis using one True x by (intro exI [of _ "ev # now"] exI [of _ later]) simp
  next
    case False
    then have l: "l' = l1" "\<not> b" using Cons.prems x step by simp_all
    from one consider "texts (lg_wire l' s) = texts (lg_wire l s) @ told_all j relay i w s [ev]"
      | "texts (lg_wire l' s) = texts (lg_wire l s) @ told_all j relay i w s []"
      using l(1) by auto
    then show ?thesis
    proof cases
      case 1
      then show ?thesis using x l(2) by (intro exI [of _ "[ev]"] exI [of _ "map snd evs"]) simp
    next
      case 2
      then show ?thesis using x l(2) by (intro exI [of _ "[]"] exI [of _ "ev # map snd evs"]) simp
    qed
  qed
qed simp

text \<open>
  C34. A controller is a wire. While it runs, the texts written to a leg are exactly those its
  application let through from the other leg and the errors it answered this leg with, in the order
  the frames came; when either leg ends, each leg has got a first part of them and then, as far as
  it can be written to, a close frame that sends it away.
\<close>

theorem relay_in_order:
  assumes "relay_session j relay i w ka evs closing = (running, l)"
  shows "\<exists>now later. map snd evs = now @ later \<and> texts (lg_wire l s) = told_all j relay i w s now \<and>
    (running \<longrightarrow> later = []) \<and>
    (\<not> running \<longrightarrow> (case s of South \<Rightarrow> fst closing | North \<Rightarrow> snd closing) \<longrightarrow>
       last (lg_wire l s) = WireClose (Some (GOING_AWAY, [])))"
proof -
  obtain b l1 where loop: "relay_loop j relay i w ka evs legs_new = (b, l1)" by fastforce
  from loop_told [OF loop, of s] obtain now later where
    n: "map snd evs = now @ later" "texts (lg_wire l1 s) = told_all j relay i w s now" "b \<longrightarrow> later = []"
    by (auto simp: legs_new_def)
  have "running = b" and "texts (lg_wire l s) = texts (lg_wire l1 s)"
    using assms loop by (auto simp: relay_session_def close_legs_def Let_def split: bool.splits)
  moreover have "last (lg_wire l s) = WireClose (Some (GOING_AWAY, []))"
    if "\<not> b" "case s of South \<Rightarrow> fst closing | North \<Rightarrow> snd closing"
    using assms loop that by (cases s) (auto simp: relay_session_def close_legs_def Let_def split: if_splits)
  ultimately show ?thesis using n by (intro exI [of _ now] exI [of _ later]) simp
qed

lemma forwarded_pass [simp]: "decide_frame j pass_through i dir t w = Forwarded t"
  by (simp add: decide_frame_def pass_through_def split: sum.split)

theorem relay_in_order_witness:
  "\<exists>l. relay_session sample_serde pass_through [65] V1_6 keepalive_default
       [((True, True), Delivered South (Some (Inr (WireText ''a'')))),
        ((True, True), Delivered North (Some (Inr (WireText ''b'')))),
        ((True, True), Delivered South (Some (Inr (WireText ''c'')))),
        ((True, True), Delivered South None)] (True, True) = (False, l) \<and>
     texts (lg_wire l North) = [''a'', ''c''] \<and> last (lg_wire l North) = WireClose (Some (GOING_AWAY, []))"
proof -
  let ?evs = "[((True, True), Delivered South (Some (Inr (WireText ''a'')))),
        ((True, True), Delivered North (Some (Inr (WireText ''b'')))),
        ((True, True), Delivered South (Some (Inr (WireText ''c'')))),
        ((True, True), Delivered South None)]"
  obtain l where l: "relay_session sample_serde pass_through [65] V1_6 keepalive_default ?evs (True, True) = (False, l)"
    by (simp add: relay_session_def relay_one_def)
  then have "texts (lg_wire l North) = [''a'', ''c'']"
    by (auto simp: relay_session_def relay_one_def close_legs_def Let_def legs_new_def)
  moreover from relay_in_order [OF l, of North] have "last (lg_wire l North) = WireClose (Some (GOING_AWAY, []))"
    by auto
  ultimately show ?thesis using l by blast
qed

section \<open>What the CSMS sees\<close>

datatype 's csms_verdict =
    VerdictRefused "bytes option" nat
  | VerdictNoVersion bytes
  | VerdictAdmitted bytes version 's

fun verdict :: "'s admission \<Rightarrow> 's csms_verdict" where
  "verdict (Refused i status answer) = VerdictRefused i status"
| "verdict (NoCommonVersion i answer) = VerdictNoVersion i"
| "verdict (Admitted i v session params answer) = VerdictAdmitted i v session"

text \<open>What the verdict on a request depends on, for an application that does not look at the path.\<close>

lemma verdict_depends:
  fixes authenticate :: "auth \<Rightarrow> 's auth_outcome"
  assumes "\<And>a path. authenticate (a\<lparr>au_path := path\<rparr>) = authenticate a"
    and "upgrade_defect_of q = None" and "upgrade_defect_of q' = None"
    and "request_identity q = request_identity q'" and "request_subprotocols q = request_subprotocols q'"
    and "header (ur_head q) ''authorization'' = header (ur_head q') ''authorization''"
  shows "verdict (admit digest b64 authenticate cfg sessions t q) = verdict (admit digest b64 authenticate cfg sessions t q')"
proof -
  have auth: "authenticate \<lparr>au_identity = i, au_credentials = c, au_profile = p, au_path = ur_path q, au_offered = vs\<rparr> =
      authenticate \<lparr>au_identity = i, au_credentials = c, au_profile = p, au_path = ur_path q', au_offered = vs\<rparr>" for i c p vs
    using assms(1) [of "ur_path q" "\<lparr>au_identity = i, au_credentials = c, au_profile = p, au_path = ur_path q', au_offered = vs\<rparr>"]
    by simp
  have "presented b64 t q = presented b64 t q'" by (simp add: presented_def assms(6) split: option.split)
  then show ?thesis
    by (simp add: admit_def refuse_def Let_def assms(2-5) auth split: option.split auth_outcome.split)
qed

text \<open>
  C35. A controller that passes credentials and versions through cannot be told from the station. The
  request it sends upstream, however the network cuts it, is read as a well-formed upgrade, and a
  CSMS whose application does not look at the path refuses it with the same status, or admits it as
  the same station with the same version and session, as it would the request of the station.
\<close>

theorem controller_invisible:
  fixes authenticate :: "auth \<Rightarrow> 's auth_outcome"
  assumes "\<And>a path. authenticate (a\<lparr>au_path := path\<rparr>) = authenticate a"
    and "upgrade_defect_of q0 = None" and "request_identity q0 = Some i" and "identity_utf8 i = Inr i" and "utf8_valid i"
    and "distinct (request_subprotocols q0)"
    and "opt_ok (header (ur_head q0) ''authorization'')"
    and "lc_versions lc = None" and "lc_credentials lc = PassThroughCredentials"
    and "r = upstream_request lc u host i (northbound_offer lc q0) (header (ur_head q0) ''authorization'')"
    and "\<forall>c \<in> set (uri_path u). \<not> is_whitespace c \<and> c \<noteq> CHR ''?'' \<and> c \<noteq> CHR ''#''"
    and "field_ok (cr_host r)" and "field_ok key"
    and "concat reads = request_text key r @ extra" and "[] \<notin> set reads" and "length (request_text key r) \<le> MAX_HEAD"
  shows "\<exists>q reads'. read_request reads = Inr (q, reads') \<and> upgrade_defect_of q = None \<and>
    verdict (admit digest b64 authenticate cfg sessions t q) = verdict (admit digest b64 authenticate cfg sessions t q0)"
proof -
  have base: "CHR ''?'' \<notin> set (trim_end_slashes (uri_path u))" "CHR ''#'' \<notin> set (trim_end_slashes (uri_path u))"
    "\<forall>c \<in> set (trim_end_slashes (uri_path u)). \<not> is_whitespace c"
    using assms(11) trim_end_slashes_set [of "uri_path u"] by blast+
  have path: "cr_path r = trim_end_slashes (uri_path u) @ ''/'' @ percent_encode i"
    and subs: "cr_subprotocols r = header_value (subprotocol_new (request_subprotocols q0))"
    and auth: "cr_authorization r = header (ur_head q0) ''authorization''"
    using assms(8,9) by (simp_all add: assms(10) upstream_request_def northbound_offer_def Let_def)
  have "\<not> is_whitespace (CHR ''/'')" by code_simp
  then have path_ok: "cr_path r \<noteq> []" "\<forall>c \<in> set (cr_path r). \<not> is_whitespace c"
    using base(3) percent_encode_segment by (auto simp: path segment_char_def)
  have "opt_ok (cr_extensions r)"
    by (simp add: assms(10) upstream_request_def Let_def opt_ok_def client_offer_def deflate_header_ok)
  then have "request_ok key r"
    using path_ok assms(7,12,13) by (simp add: request_ok_def subs auth header_value_ok)
  from request_read [OF this assms(14-16)] obtain q reads' where q:
    "read_request reads = Inr (q, reads')" "ur_path q = cr_path r" "upgrade_defect_of q = None"
    "header (ur_head q) ''authorization'' = cr_authorization r"
    "header_list (ur_head q) ''sec-websocket-protocol'' = Some (cr_subprotocols r)" by blast
  have "request_identity q = request_identity q0"
    using identity_in_path [OF assms(4,5) base(1,2)] q(2) path assms(3) by simp
  moreover have "request_subprotocols q = request_subprotocols q0"
    using q(5) assms(6)
    by (simp add: request_subprotocols_def versions_read subs)
      (simp add: subprotocol_new_def dedup_onto_distinct)
  ultimately show ?thesis
    using verdict_depends [where authenticate = authenticate, OF assms(1) q(3) assms(2)] q(1,3,4) auth by metis
qed

text \<open>A station behind a controller.\<close>

definition example_controller :: controller where
  "example_controller = \<lparr>lc_versions = None, lc_compression = True, lc_credentials = PassThroughCredentials\<rparr>"

definition example_upgrade :: upgrade_request where
  "example_upgrade =
     \<lparr>ur_path = ''/local/CS'', ur_head = \<lparr>hd_target = [], hd_headers =
        [(''upgrade'', ''websocket''), (''connection'', ''keep-alive, Upgrade''), (''sec-websocket-version'', ''13''),
         (''sec-websocket-key'', ''nonce''), (''sec-websocket-protocol'', ''ocpp1.6''),
         (''authorization'', ''Basic 43533A70'')], hd_rest = []\<rparr>\<rparr>"

theorem controller_invisible_witness:
  "\<exists>reads q reads' params answer. read_request reads = Inr (q, reads') \<and>
     admit (\<lambda>_. ''proof'') base64_hex (\<lambda>a. AuthAccept (au_identity a)) example_config 0
       \<lparr>tp_certificate = None, tp_is_tls = False\<rparr> q = Admitted [67, 83] V1_6 [67, 83] params answer"
proof -
  let ?a = "admit (\<lambda>_. ''proof'') base64_hex (\<lambda>a. AuthAccept (au_identity a)) example_config 0
       \<lparr>tp_certificate = None, tp_is_tls = False\<rparr>"
  let ?r = "upstream_request example_controller (the (example_uri [])) ''csms'' [67, 83]
      (northbound_offer example_controller example_upgrade) (header (ur_head example_upgrade) ''authorization'')"
  let ?q = example_upgrade
  have h1: "(\<lambda>a. AuthAccept (au_identity a)) ((a::auth)\<lparr>au_path := path\<rparr>) = (\<lambda>a. AuthAccept (au_identity a)) a" for a path
    by simp
  have h2: "upgrade_defect_of ?q = None" "request_identity ?q = Some [67, 83]" by code_simp+
  have h3: "identity_utf8 [67, 83] = Inr [67, 83]" "utf8_valid [67, 83]" by code_simp+
  have h4: "distinct (request_subprotocols ?q)" "opt_ok (header (ur_head ?q) ''authorization'')" by code_simp+
  have h5: "lc_versions example_controller = None" "lc_credentials example_controller = PassThroughCredentials"
    by (simp_all add: example_controller_def)
  have h6: "\<forall>c \<in> set (uri_path (the (example_uri []))). \<not> is_whitespace c \<and> c \<noteq> CHR ''?'' \<and> c \<noteq> CHR ''#''"
    by (simp add: example_uri_def is_whitespace_def Let_def)
  have h7: "field_ok (cr_host ?r)" "field_ok ''again''" by code_simp+
  have h8: "concat [request_text ''again'' ?r] = request_text ''again'' ?r @ []" by simp
  have h9: "[] \<notin> set [request_text ''again'' ?r]" by (simp add: request_text_def)
  have h10: "length (request_text ''again'' ?r) \<le> MAX_HEAD" by code_simp
  from controller_invisible [where authenticate = "\<lambda>a. AuthAccept (au_identity a)",
      OF h1 h2 h3 h4 h5 refl h6 h7 h8 h9 h10]
  obtain q reads' where q: "read_request [request_text ''again'' ?r] = Inr (q, reads')"
    and v: "verdict (?a q) = verdict (?a ?q)" by blast
  have "verdict (?a ?q) = VerdictAdmitted [67, 83] V1_6 [67, 83]" by code_simp
  with v obtain params answer where "?a q = Admitted [67, 83] V1_6 [67, 83] params answer"
    by (cases "?a q") auto
  with q show ?thesis by blast
qed

end
