(* ===== verification/Boot_Retry.thy ===== *)
theory Boot_Retry
  imports Engine_Account
begin

text \<open>
  The retry timer of the boot state machine of \<open>engine/mod.rs\<close>.

  A station told to wait arms \<open>boot_retry_at\<close>. Nothing but the timer itself takes it down again: the
  lemmas show that a station that boots once more before the timer falls due, because the CSMS asked
  for it, say, loses its acceptance when it does.
\<close>

lemma retry_kept [frame_simps]:
  "boot_retry_at (pump v e) = boot_retry_at e" "boot_retry_at (arm_heartbeat e) = boot_retry_at e"
  "boot_retry_at (emit x e) = boot_retry_at e"
proof -
  have "boot_retry_at (ack_store v q x) = boot_retry_at x" for q and x :: "('a, 'b) engine"
    by (simp add: ack_store_def emit_def split: option.split prod.split sum.split)
  moreover have "boot_retry_at (transmit v f x) = boot_retry_at x" for f and x :: "('a, 'b) engine"
    by (simp add: transmit_def emit_def arm_heartbeat_def Let_def split: option.split)
  ultimately show "boot_retry_at (pump v e) = boot_retry_at e"
    by (intro pump_induct [where P = "\<lambda>x. boot_retry_at x = boot_retry_at e"])
      (auto simp: send_entry_def start_call_def emit_def Let_def split: prod.split)
qed (simp_all add: emit_def arm_heartbeat_def Let_def split: option.split)

lemma accepted_keeps_retry:
  assumes "js_boot (js v) p = Some ans" and "ba_status ans = ''Accepted''"
  shows "boot (observe_boot_answer v p False e) = BootAccepted"
    and "boot_retry_at (observe_boot_answer v p False e) = boot_retry_at e"
  using assms
  by (simp_all add: observe_boot_answer_def boot_state_of_def Let_def frame_simps split: option.split)


lemma retry_kept_more:
  "boot_retry_at (advance t e) = boot_retry_at e" "boot_retry_at (ack_store v q e) = boot_retry_at e"
  "boot_retry_at (set_attempts_store v q n e) = boot_retry_at e"
  "boot_retry_at (remember_solicited v a p e) = boot_retry_at e"
  "boot_retry_at (snd (persist_call v b qc e)) = boot_retry_at e" "boot_retry_at (minted t e) = boot_retry_at e"
  "boot_retry_at (fail token i a why e) = boot_retry_at e"
  "boot_retry_at (requeue_or_fail v f why e) = boot_retry_at e"
  by (simp_all add: advance_def ack_store_def set_attempts_store_def remember_solicited_def persist_call_def minted_def
      fail_def requeue_or_fail_def emit_def Let_def split: option.split prod.split sum.split)

lemma retry_call_with:
  "boot_retry_at (snd (call_with v t a p opts e)) = boot_retry_at e"
proof (cases rule: call_with_cases [of v t a p opts e])
  case (answered e1 why)
  then have "boot_retry_at e1 = boot_retry_at e" by (metis retry_kept_more(5,6) snd_conv)
  then show ?thesis using answered(1) by (simp add: retry_kept_more)
next
  case (queued k q e2 e3)
  then have "boot_retry_at e2 = boot_retry_at e" by (metis retry_kept_more(5,6) snd_conv)
  then have "boot_retry_at e3 = boot_retry_at e" using queued(2) by (auto simp: retry_kept_more)
  then show ?thesis using queued(1) by (simp add: retry_kept)
qed (simp add: retry_kept_more)

lemma retry_before:
  "boot_retry_at (heartbeat_due v (call_timeout_due v e)) = boot_retry_at e"
  "now (heartbeat_due v (call_timeout_due v e)) = now e"
proof -
  have "now (snd (call_with v (now x) a p opts x)) = now x" for a p opts and x :: "('a, 'b) engine"
  proof (cases rule: call_with_cases [of v "now x" a p opts x])
    case (answered e1 why)
    then show ?thesis by (auto simp: fail_def frame_simps minted_def advance_def persist_call_def
          split: if_splits prod.splits sum.splits)
  next
    case (queued k q e2 e3)
    then show ?thesis by (auto simp: frame_simps minted_def advance_def persist_call_def remember_solicited_def Let_def
          split: if_splits prod.splits sum.splits)
  qed (simp add: advance_def)
  then have "now (snd (call_with v n a p opts x)) = n" if "now x = n" for n a p opts and x :: "('a, 'b) engine"
    using that by blast
  moreover have "now (call_timeout_due v e) = now e" "boot_retry_at (call_timeout_due v e) = boot_retry_at e"
    by (simp_all add: call_timeout_due_def frame_simps retry_kept retry_kept_more split: option.split)
  ultimately show "boot_retry_at (heartbeat_due v (call_timeout_due v e)) = boot_retry_at e"
    "now (heartbeat_due v (call_timeout_due v e)) = now e"
    by (simp_all add: heartbeat_due_def send_heartbeat_def Let_def frame_simps retry_kept retry_call_with split: option.split)
qed

text \<open>
  C36. Acceptance does not take down the timer of an earlier refusal. A station that was told to wait
  and is accepted before the timer falls due is thrown back to Idle when it does, and with the gate on
  sends nothing but a BootNotification and what is triggered from then on.
\<close>

theorem retry_revokes_acceptance:
  assumes "js_boot (js v) p = Some ans" and "ba_status ans = ''Accepted''"
    and "boot_retry_at e = Some due" and "millis due \<le> millis t"
  defines "e1 \<equiv> observe_boot_answer v p False e"
  shows "boot e1 = BootAccepted \<and> boot (handle v t Timeout e1) = BootIdle \<and>
    \<not> allows_traffic (boot (handle v t Timeout e1))"
proof -
  have e1: "boot e1 = BootAccepted" "boot_retry_at e1 = Some due"
    using accepted_keeps_retry [OF assms(1,2), of e] assms(3) by (simp_all add: e1_def)
  let ?x = "heartbeat_due v (call_timeout_due v (advance t e1))"
  have "millis (now ?x) \<ge> millis due" using assms(4) by (simp add: retry_before advance_def)
  then have "boot (boot_retry_due ?x) = BootIdle"
    by (simp add: boot_retry_due_def retry_before retry_kept_more e1 frame_simps)
  then have "boot (on_timeout v (advance t e1)) = BootIdle"
    by (simp add: on_timeout_def Let_def frame_simps)
  then show ?thesis using e1(1) by (simp add: handle_def Let_def allows_traffic_def)
qed

text \<open>A station that boots, is told to wait 300 seconds, boots again and is accepted at once.\<close>

definition booted_twice :: "(mem_store, counter_ids) engine" where
  "booted_twice = fst (run sample_env (sample_engine (config_new ChargingStation V2_1), [])
     [Handle (at_ms 5) (Connected V2_1),
      CallWith (at_ms 6) ''BootNotification'' ''{}'' options_default,
      Handle (at_ms 7) (Received (sample_text (FrameCallResult ''k0'' ''sPending'') V2_1)),
      CallWith (at_ms 8) ''BootNotification'' ''{}'' options_default])"

theorem retry_revokes_acceptance_witness:
  "boot (observe_boot_answer sample_env ''sAccepted'' False booted_twice) = BootAccepted \<and>
   boot (handle sample_env (at_ms 400000) Timeout (observe_boot_answer sample_env ''sAccepted'' False booted_twice)) = BootIdle"
proof -
  have due: "boot_retry_at booted_twice = Some (at_ms 300007)"
    by code_simp
  have ans: "js_boot (js sample_env) ''sAccepted'' = Some \<lparr>ba_status = ''Accepted'', ba_interval = Some 300, ba_current_time = None\<rparr>"
    by (simp add: sample_env_def sample_serde_def sample_str_def)
  have late: "millis (at_ms 300007) \<le> millis (at_ms 400000)"
    by (simp add: at_ms_def instant_from_millis_def)
  from retry_revokes_acceptance [OF ans _ due late] show ?thesis by simp
qed

end
