(* ===== verification/Router.thy ===== *)
theory Router
  imports Admission
begin

text \<open>
  The table of sessions of \<open>transport/csms.rs\<close>, \<open>Router::sessions\<close>, under every interleaving of the
  tasks that share it.

  A connection that has been accepted runs \<open>run_session\<close>, which takes the lock of the table twice: to
  \<open>Claim\<close> the identity, where a session already there is removed and drained or keeps the
  newcomer out, and to \<open>Insert\<close> its own session. In between it \<open>Spawn\<close>s the task that drives the
  connection, and that task takes the lock when the connection has ended, to remove the entry if
  it is still its own. A step is what happens under one lock, or the spawning; nothing orders the
  steps of different tasks, nor the end of a connection and the insertion of its session.

  The lemmas show what the table is worth when each session is inserted before it ends and before
  its identity is claimed again, and what goes wrong otherwise.
\<close>

record router =
  rt_sessions :: "bytes \<Rightarrow> nat option"
  rt_next :: nat
  rt_claimed :: "(bytes \<times> nat) list"
  rt_spawned :: "(bytes \<times> nat) list"
  rt_running :: "(bytes \<times> nat) list"
  rt_draining :: "nat list"

definition router_new :: router where
  "router_new =
     \<lparr>rt_sessions = (\<lambda>_. None), rt_next = 0, rt_claimed = [], rt_spawned = [], rt_running = [], rt_draining = []\<rparr>"

definition next_session_id :: "router \<Rightarrow> nat \<times> router" where
  "next_session_id r = (rt_next r, r\<lparr>rt_next := rt_next r + 1\<rparr>)"

definition claim :: "bool \<Rightarrow> bytes \<Rightarrow> router \<Rightarrow> router" where
  "claim supersede i r0 =
     (let (n, r) = next_session_id r0 in
      case rt_sessions r i of
        Some previous \<Rightarrow>
          if supersede
          then r\<lparr>rt_sessions := (rt_sessions r)(i := None), rt_draining := previous # rt_draining r,
                 rt_claimed := (i, n) # rt_claimed r\<rparr>
          else r
      | None \<Rightarrow> r\<lparr>rt_claimed := (i, n) # rt_claimed r\<rparr>)"

definition insert_session :: "bytes \<Rightarrow> nat \<Rightarrow> router \<Rightarrow> router" where
  "insert_session i n r = r\<lparr>rt_sessions := (rt_sessions r)(i \<mapsto> n), rt_spawned := removeAll (i, n) (rt_spawned r)\<rparr>"

definition spawn_session :: "bytes \<Rightarrow> nat \<Rightarrow> router \<Rightarrow> router" where
  "spawn_session i n r =
     r\<lparr>rt_claimed := removeAll (i, n) (rt_claimed r), rt_spawned := (i, n) # rt_spawned r,
       rt_running := (i, n) # rt_running r\<rparr>"

definition end_session :: "bytes \<Rightarrow> nat \<Rightarrow> router \<Rightarrow> router" where
  "end_session i n r =
     r\<lparr>rt_running := removeAll (i, n) (rt_running r),
       rt_sessions := (if rt_sessions r i = Some n then (rt_sessions r)(i := None) else rt_sessions r)\<rparr>"

datatype router_event = Claim bytes | Spawn bytes nat | Insert bytes nat | End bytes nat

inductive router_step :: "bool \<Rightarrow> router \<Rightarrow> router_event \<Rightarrow> router \<Rightarrow> bool" for supersede :: bool where
  claim: "router_step supersede r (Claim i) (claim supersede i r)"
| spawn: "(i, n) \<in> set (rt_claimed r) \<Longrightarrow> router_step supersede r (Spawn i n) (spawn_session i n r)"
| insert: "(i, n) \<in> set (rt_spawned r) \<Longrightarrow> router_step supersede r (Insert i n) (insert_session i n r)"
| ended: "(i, n) \<in> set (rt_running r) \<Longrightarrow> router_step supersede r (End i n) (end_session i n r)"

code_pred router_step .

inductive_cases router_stepE: "router_step supersede r e r'"

inductive_simps router_step_simps:
  "router_step supersede r (Claim i) r'" "router_step supersede r (Spawn i n) r'"
  "router_step supersede r (Insert i n) r'" "router_step supersede r (End i n) r'"

text \<open>Runs, and the runs in which nobody overtakes.\<close>

inductive router_run :: "bool \<Rightarrow> router \<Rightarrow> router_event list \<Rightarrow> router \<Rightarrow> bool" for supersede :: bool where
  none: "router_run supersede r [] r"
| more: "router_step supersede r e r1 \<Longrightarrow> router_run supersede r1 es r2 \<Longrightarrow> router_run supersede r (e # es) r2"

inductive_simps router_run_simps: "router_run supersede r [] r'" "router_run supersede r (e # es) r'"

definition being_opened :: "router \<Rightarrow> bytes \<Rightarrow> bool" where
  "being_opened r i \<longleftrightarrow> i \<in> fst ` set (rt_claimed r) \<or> i \<in> fst ` set (rt_spawned r)"

fun in_turn :: "router \<Rightarrow> router_event \<Rightarrow> bool" where
  "in_turn r (Claim i) = (\<not> being_opened r i)"
| "in_turn r (End i n) = ((i, n) \<notin> set (rt_spawned r))"
| "in_turn r _ = True"

inductive orderly_run :: "bool \<Rightarrow> router \<Rightarrow> router_event list \<Rightarrow> router \<Rightarrow> bool" for supersede :: bool where
  none: "orderly_run supersede r [] r"
| more: "orderly_run supersede r es r1 \<Longrightarrow> in_turn r1 e \<Longrightarrow> router_step supersede r1 e r2
    \<Longrightarrow> orderly_run supersede r (es @ [e]) r2"

section \<open>In turn\<close>

definition live :: "router \<Rightarrow> bytes \<Rightarrow> nat set" where
  "live r i = {n. (i, n) \<in> set (rt_running r) \<and> (i, n) \<notin> set (rt_spawned r) \<and> n \<notin> set (rt_draining r)}"

definition entering :: "router \<Rightarrow> (bytes \<times> nat) set" where
  "entering r = set (rt_claimed r) \<union> set (rt_spawned r)"

definition ids_ok :: "router \<Rightarrow> bool" where
  "ids_ok r \<longleftrightarrow>
     (\<forall>i n. (i, n) \<in> entering r \<union> set (rt_running r) \<or> rt_sessions r i = Some n \<or> n \<in> set (rt_draining r)
        \<longrightarrow> n < rt_next r) \<and>
     (\<forall>i i' n. (i, n) \<in> entering r \<union> set (rt_running r) \<longrightarrow> (i', n) \<in> entering r \<union> set (rt_running r) \<longrightarrow> i = i') \<and>
     set (rt_spawned r) \<subseteq> set (rt_running r) \<and> set (rt_claimed r) \<inter> set (rt_running r) = {}"

definition turns_ok :: "router \<Rightarrow> bool" where
  "turns_ok r \<longleftrightarrow>
     (\<forall>i n. (i, n) \<in> entering r \<longrightarrow> n \<notin> set (rt_draining r) \<and> rt_sessions r i = None \<and>
        (\<forall>n'. (i, n') \<in> entering r \<longrightarrow> n' = n)) \<and>
     (\<forall>i. live r i = set_option (rt_sessions r i))"

lemma new_router_ok: "ids_ok router_new \<and> turns_ok router_new"
  by (simp add: ids_ok_def turns_ok_def router_new_def entering_def live_def)

lemma session_running: "turns_ok r \<Longrightarrow> rt_sessions r i = Some n \<Longrightarrow> (i, n) \<in> set (rt_running r) \<and> n \<notin> set (rt_draining r)"
  by (auto simp: turns_ok_def live_def)

lemma ids_below:
  assumes "ids_ok r"
  shows "(i, n) \<in> entering r \<union> set (rt_running r) \<Longrightarrow> n < rt_next r" "rt_sessions r i = Some n \<Longrightarrow> n < rt_next r"
    "n \<in> set (rt_draining r) \<Longrightarrow> n < rt_next r"
  using assms unfolding ids_ok_def by metis+

lemma next_fresh:
  assumes "ids_ok r"
  shows "(i, rt_next r) \<notin> entering r \<union> set (rt_running r)" "rt_next r \<notin> set (rt_draining r)"
  using ids_below [OF assms] by blast+

lemma claim_ok:
  assumes "ids_ok r" and "turns_ok r" and "\<not> being_opened r i"
  shows "ids_ok (claim supersede i r) \<and> turns_ok (claim supersede i r)"
proof (cases "rt_sessions r i")
  case None
  have new: "(i', rt_next r) \<notin> entering r \<union> set (rt_running r)" "rt_next r \<notin> set (rt_draining r)" for i'
    using next_fresh [OF assms(1)] by simp_all
  have c: "claim supersede i r = r\<lparr>rt_next := rt_next r + 1, rt_claimed := (i, rt_next r) # rt_claimed r\<rparr>"
    using None by (simp add: claim_def next_session_id_def)
  have "ids_ok (claim supersede i r)"
    using assms(1) new unfolding c ids_ok_def entering_def
    by (auto intro: less_SucI)
  moreover have "turns_ok (claim supersede i r)"
    using assms(2,3) new None unfolding c turns_ok_def entering_def being_opened_def live_def
    by (auto simp: image_iff)
  ultimately show ?thesis ..
next
  case (Some previous)
  note prev = session_running [OF assms(2) Some]
  have new: "(i', rt_next r) \<notin> entering r \<union> set (rt_running r)" "rt_next r \<notin> set (rt_draining r)" "previous < rt_next r" for i'
    using next_fresh [OF assms(1)] ids_below(2) [OF assms(1) Some] by simp_all
  show ?thesis
  proof (cases supersede)
    case False
    then have "claim supersede i r = r\<lparr>rt_next := rt_next r + 1\<rparr>"
      using Some by (simp add: claim_def next_session_id_def)
    then show ?thesis
      using assms(1,2) by (auto simp: ids_ok_def turns_ok_def entering_def live_def intro: less_SucI)
  next
    case True
    then have c: "claim supersede i r =
        r\<lparr>rt_next := rt_next r + 1, rt_sessions := (rt_sessions r)(i := None),
          rt_draining := previous # rt_draining r, rt_claimed := (i, rt_next r) # rt_claimed r\<rparr>"
      using Some by (simp add: claim_def next_session_id_def)
    have "ids_ok (claim supersede i r)"
      using assms(1) new prev unfolding c ids_ok_def entering_def
      by (auto intro: less_SucI split: if_splits)
    moreover have "turns_ok (claim supersede i r)"
    proof -
      have other: "previous \<noteq> n" if "(i', n) \<in> entering r" for i' n
        using assms prev that by (auto simp: ids_ok_def being_opened_def entering_def image_iff)
      have "live (claim supersede i r) i' = set_option (rt_sessions (claim supersede i r) i')" for i'
      proof (cases "i' = i")
        case True
        have "live r i = {previous}" using assms(2) Some by (simp add: turns_ok_def)
        then show ?thesis using True unfolding c live_def by auto
      next
        case False
        have "(i', previous) \<notin> set (rt_running r)" using assms(1) prev False by (auto simp: ids_ok_def)
        then have "live (claim supersede i r) i' = live r i'" unfolding c live_def by auto
        then show ?thesis using assms(2) False by (simp add: c turns_ok_def)
      qed
      moreover have "n \<notin> set (rt_draining (claim supersede i r)) \<and> rt_sessions (claim supersede i r) i' = None \<and>
          (\<forall>n'. (i', n') \<in> entering (claim supersede i r) \<longrightarrow> n' = n)"
        if "(i', n) \<in> entering (claim supersede i r)" for i' n
        using that assms(2,3) other new unfolding c turns_ok_def entering_def being_opened_def
        by (auto simp: image_iff)
      ultimately show ?thesis unfolding turns_ok_def by blast
    qed
    ultimately show ?thesis ..
  qed
qed

lemma spawn_ok:
  assumes "ids_ok r" and "turns_ok r" and "(i, n) \<in> set (rt_claimed r)"
  shows "ids_ok (spawn_session i n r) \<and> turns_ok (spawn_session i n r)"
proof
  show "ids_ok (spawn_session i n r)"
    using assms(1,3) unfolding ids_ok_def spawn_session_def entering_def by auto
  have "(i, n) \<notin> set (rt_running r)" using assms(1,3) by (auto simp: ids_ok_def)
  then have "live (spawn_session i n r) = live r"
    by (auto simp: live_def spawn_session_def fun_eq_iff)
  moreover have "entering (spawn_session i n r) = entering r"
    using assms(3) by (auto simp: entering_def spawn_session_def)
  ultimately show "turns_ok (spawn_session i n r)"
    using assms(2) by (simp add: turns_ok_def spawn_session_def)
qed

lemma insert_ok:
  assumes "ids_ok r" and "turns_ok r" and "(i, n) \<in> set (rt_spawned r)"
  shows "ids_ok (insert_session i n r) \<and> turns_ok (insert_session i n r)"
proof
  have run: "(i, n) \<in> set (rt_running r)" using assms(1,3) by (auto simp: ids_ok_def)
  have now: "n \<notin> set (rt_draining r)" "rt_sessions r i = None" "\<And>n'. (i, n') \<in> entering r \<Longrightarrow> n' = n"
    using assms(2,3) by (auto simp: turns_ok_def entering_def)
  show "ids_ok (insert_session i n r)"
    using assms(1) run unfolding ids_ok_def insert_session_def entering_def by (auto split: if_splits)
  have "live (insert_session i n r) i' = set_option (rt_sessions (insert_session i n r) i')" for i'
  proof (cases "i' = i")
    case True
    have "live r i = {}" using assms(2) now(2) by (simp add: turns_ok_def)
    then show ?thesis
      using True run now by (auto simp: live_def insert_session_def entering_def)
  next
    case False
    then have "live (insert_session i n r) i' = live r i'" by (auto simp: live_def insert_session_def)
    then show ?thesis using False assms(2) by (simp add: turns_ok_def insert_session_def)
  qed
  moreover have "(i, n) \<notin> entering (insert_session i n r)"
    using assms(1) run by (auto simp: ids_ok_def entering_def insert_session_def)
  moreover have "entering (insert_session i n r) \<subseteq> entering r"
    by (auto simp: entering_def insert_session_def)
  ultimately show "turns_ok (insert_session i n r)"
    using assms(2) now(3) unfolding turns_ok_def insert_session_def by (auto 0 4)
qed

lemma end_ok:
  assumes "ids_ok r" and "turns_ok r" and "(i, n) \<in> set (rt_running r)" and "(i, n) \<notin> set (rt_spawned r)"
  shows "ids_ok (end_session i n r) \<and> turns_ok (end_session i n r)"
proof
  show "ids_ok (end_session i n r)"
    using assms(1,4) unfolding ids_ok_def end_session_def entering_def by (auto split: if_splits)
  have "live (end_session i n r) i' = set_option (rt_sessions (end_session i n r) i')" for i'
  proof (cases "i' = i")
    case True
    have "live (end_session i n r) i = live r i - {n}" by (auto simp: live_def end_session_def)
    then show ?thesis
      using True assms(2) by (auto simp: turns_ok_def end_session_def)
  next
    case False
    then have "live (end_session i n r) i' = live r i'" by (auto simp: live_def end_session_def)
    then show ?thesis using False assms(2) by (simp add: turns_ok_def end_session_def)
  qed
  moreover have "entering (end_session i n r) = entering r"
    by (simp add: entering_def end_session_def)
  ultimately show "turns_ok (end_session i n r)"
    using assms(2) unfolding turns_ok_def end_session_def by auto
qed

lemma orderly_ok: "orderly_run supersede r0 es r \<Longrightarrow> ids_ok r0 \<and> turns_ok r0 \<Longrightarrow> ids_ok r \<and> turns_ok r"
proof (induction rule: orderly_run.induct)
  case (more r es r1 e r2)
  then have ok: "ids_ok r1" "turns_ok r1" by simp_all
  from more(3) show ?case
    by (rule router_stepE)
       (use claim_ok [OF ok] spawn_ok [OF ok] insert_ok [OF ok] end_ok [OF ok] more(2) in simp_all)
qed simp

text \<open>
  C29. As long as every session is entered in the table before it ends and before its identity is
  claimed again, the table is the truth: for every identity it holds the one session that is
  alive and not being drained, and none if there is none; so no identity has two.
\<close>

theorem table_is_true_in_turn:
  assumes "orderly_run supersede router_new es r"
  shows "rt_sessions r i = Some n \<longleftrightarrow>
      (i, n) \<in> set (rt_running r) \<and> (i, n) \<notin> set (rt_spawned r) \<and> n \<notin> set (rt_draining r)"
proof -
  have "live r i = set_option (rt_sessions r i)"
    using orderly_ok [OF assms new_router_ok] by (simp add: turns_ok_def)
  then have "n \<in> live r i \<longleftrightarrow> rt_sessions r i = Some n" by auto
  then show ?thesis by (auto simp: live_def)
qed

section \<open>Out of turn\<close>

text \<open>A session that ended before it was inserted.\<close>

definition stale :: "router \<Rightarrow> bytes \<Rightarrow> nat \<Rightarrow> bool" where
  "stale r i n \<longleftrightarrow>
     rt_sessions r i = Some n \<and>
     (\<forall>m. (i, m) \<notin> set (rt_claimed r) \<union> set (rt_spawned r) \<union> set (rt_running r))"

lemma stale_step: "stale r i n \<Longrightarrow> router_step False r e r' \<Longrightarrow> stale r' i n"
proof (erule router_stepE)
  fix i' assume s: "stale r i n" "e = Claim i'" "r' = claim False i' r"
  show "stale r' i n"
  proof (cases "i' = i")
    case True
    then show ?thesis using s by (simp add: stale_def claim_def next_session_id_def)
  next
    case False
    then show ?thesis
      using s by (cases "rt_sessions r i'") (auto simp: stale_def claim_def next_session_id_def)
  qed
qed (auto simp: stale_def spawn_session_def insert_session_def end_session_def)

lemma stale_run: "router_run False r es r' \<Longrightarrow> stale r i n \<Longrightarrow> stale r' i n"
  by (induction rule: router_run.induct) (auto dest: stale_step)

lemma stale_reached: "\<exists>r. router_run supersede router_new [Claim i, Spawn i 0, End i 0, Insert i 0] r \<and> stale r i 0"
  by (simp add: router_run_simps router_step_simps)
     (simp add: stale_def router_new_def claim_def next_session_id_def spawn_session_def end_session_def insert_session_def)

text \<open>
  A connection that ends before its session is inserted stays in the table for good: where a
  newcomer does not supersede, no connection of that station is ever driven again, whatever
  happens, although none is alive.
\<close>

theorem ended_session_locks_out:
  "\<exists>es r. router_run False router_new es r \<and> i \<notin> fst ` set (rt_running r) \<and>
     (\<forall>es' r'. router_run False r es' r' \<longrightarrow> rt_sessions r' i \<noteq> None \<and> i \<notin> fst ` set (rt_running r'))"
proof -
  obtain r where r: "router_run False router_new [Claim i, Spawn i 0, End i 0, Insert i 0] r" "stale r i 0"
    using stale_reached by blast
  have "rt_sessions r' i \<noteq> None \<and> i \<notin> fst ` set (rt_running r')" if "router_run False r es' r'" for es' r'
    using stale_run [OF that r(2)] by (force simp: stale_def)
  then show ?thesis
    using r by (intro exI [of _ "[Claim i, Spawn i 0, End i 0, Insert i 0]"] exI [of _ r])
      (force simp: stale_def)
qed

text \<open>
  Two connections of one station that claim before either has inserted are both driven, and
  neither is drained, although the table, and so the application, knows only the later: the single
  active connection an identity is to have is not kept.
\<close>

theorem claims_overlap:
  "\<exists>es r. router_run supersede router_new es r \<and> {0, 1} \<subseteq> live r i \<and> rt_sessions r i = Some 1"
proof (intro exI conjI)
  show "router_run supersede router_new [Claim i, Claim i, Spawn i 0, Spawn i 1, Insert i 0, Insert i 1]
      (insert_session i 1 (insert_session i 0 (spawn_session i 1 (spawn_session i 0
        (claim supersede i (claim supersede i router_new))))))"
    by (simp add: router_run_simps router_step_simps)
       (simp add: router_new_def claim_def next_session_id_def spawn_session_def insert_session_def)
qed (simp_all add: live_def router_new_def claim_def next_session_id_def spawn_session_def insert_session_def)

theorem table_is_true_in_turn_witness:
  "rt_sessions (insert_session [67] 1 (spawn_session [67] 1 (claim True [67] (insert_session [67] 0
     (spawn_session [67] 0 (claim True [67] router_new)))))) [67] = Some 1 \<and>
   (1 :: nat) \<notin> set (rt_draining (insert_session [67] 1 (spawn_session [67] 1 (claim True [67] (insert_session [67] 0
     (spawn_session [67] 0 (claim True [67] router_new)))))))"
proof -
  let ?i = "[67] :: bytes"
  let ?r1 = "claim True ?i router_new"
  let ?r2 = "spawn_session ?i 0 ?r1"
  let ?r3 = "insert_session ?i 0 ?r2"
  let ?r4 = "claim True ?i ?r3"
  let ?r5 = "spawn_session ?i 1 ?r4"
  let ?r6 = "insert_session ?i 1 ?r5"
  note defs = router_new_def claim_def next_session_id_def spawn_session_def insert_session_def being_opened_def
  have 1: "orderly_run True router_new ([] @ [Claim ?i]) ?r1"
    by (rule orderly_run.more [OF orderly_run.none]) (simp_all add: router_step_simps defs)
  have 2: "orderly_run True router_new (([] @ [Claim ?i]) @ [Spawn ?i 0]) ?r2"
    by (rule orderly_run.more [OF 1]) (simp_all add: router_step_simps defs)
  have 3: "orderly_run True router_new ((([] @ [Claim ?i]) @ [Spawn ?i 0]) @ [Insert ?i 0]) ?r3"
    by (rule orderly_run.more [OF 2]) (simp_all add: router_step_simps, simp add: defs)
  have 4: "orderly_run True router_new (((([] @ [Claim ?i]) @ [Spawn ?i 0]) @ [Insert ?i 0]) @ [Claim ?i]) ?r4"
    by (rule orderly_run.more [OF 3]) (simp_all add: router_step_simps, simp add: defs)
  have 5: "orderly_run True router_new ((((([] @ [Claim ?i]) @ [Spawn ?i 0]) @ [Insert ?i 0]) @ [Claim ?i]) @ [Spawn ?i 1]) ?r5"
    by (rule orderly_run.more [OF 4]) (simp_all add: router_step_simps, simp add: defs)
  have 6: "orderly_run True router_new
      (((((([] @ [Claim ?i]) @ [Spawn ?i 0]) @ [Insert ?i 0]) @ [Claim ?i]) @ [Spawn ?i 1]) @ [Insert ?i 1]) ?r6"
    by (rule orderly_run.more [OF 5]) (simp_all add: router_step_simps, simp add: defs)
  have "rt_sessions ?r6 ?i = Some 1" by (simp add: defs)
  with table_is_true_in_turn [OF 6, of ?i 1] show ?thesis by simp
qed

theorem ended_session_locks_out_witness:
  "\<exists>es r. router_run False router_new es r \<and> [67] \<notin> fst ` set (rt_running r) \<and>
     rt_sessions (claim False [67] r) [67] \<noteq> None"
proof -
  obtain es r where r: "router_run False router_new es r" "[67] \<notin> fst ` set (rt_running r)"
    "\<forall>es' r'. router_run False r es' r' \<longrightarrow> rt_sessions r' [67] \<noteq> None \<and> [67] \<notin> fst ` set (rt_running r')"
    using ended_session_locks_out [of "[67]"] by blast
  have "router_run False r [Claim [67]] (claim False [67] r)"
    by (simp add: router_run_simps router_step_simps)
  with r show ?thesis by blast
qed
end
