(* ===== verification/Values.thy ===== *)
theory Values
  imports Texts Decimal
begin

text \<open>
  The values a station's configuration is made of are text; these are the readers of
  \<open>i64::from_str\<close> and \<open>bool\<close> both the OCPP 1.6 keys and the OCPP 2.x device model check them with,
  and what a whole number in text means to \<open>Decimal\<close>.
\<close>

definition parse_i64 :: "string \<Rightarrow> int option" where
  "parse_i64 s =
     (let signed = (s \<noteq> [] \<and> is_sign (hd s));
          ds = (if signed then tl s else s);
          n = (if signed \<and> hd s = CHR ''-'' then - int (number_from 0 ds) else int (number_from 0 ds))
      in if ds = [] \<or> \<not> list_all is_digit ds then None
         else if in_i64 n then Some n else None)"

definition is_boolean :: "string \<Rightarrow> bool" where
  "is_boolean s \<longleftrightarrow> s = ''true'' \<or> s = ''false''"

lemma parse_i64_text:
  assumes "parse_i64 s = Some n"
  shows "\<exists>sign ds. s = sign @ ds \<and> (sign = [] \<or> sign = ''+'' \<or> sign = ''-'') \<and> ds \<noteq> [] \<and>
    list_all is_digit ds \<and> in_i64 n \<and> n = (if sign = ''-'' then -1 else 1) * int (number_from 0 ds)"
proof (cases "s \<noteq> [] \<and> is_sign (hd s)")
  case True
  then have "s = [hd s] @ tl s" "hd s = CHR ''+'' \<or> hd s = CHR ''-''" by (auto simp: is_sign_def)
  then show ?thesis
    using assms True
    by (intro exI [of _ "[hd s]"] exI [of _ "tl s"])
       (auto simp: parse_i64_def Let_def split: if_splits)
next
  case False
  then show ?thesis
    using assms by (intro exI [of _ "[]"] exI [of _ s]) (auto simp: parse_i64_def Let_def split: if_splits)
qed

text \<open>
  \<open>Decimal\<close> reads every whole number of \<open>i64\<close> as itself but the smallest, which it refuses.
\<close>

lemma i64_as_decimal:
  assumes "parse_i64 s = Some n"
  shows "from_ascii s = (if n = i64_min then Inl Overflow else Inr \<lparr>mantissa = n, scale = 0\<rparr>)"
proof -
  obtain sign ds where s: "s = sign @ ds" "sign = [] \<or> sign = ''+'' \<or> sign = ''-''" "ds \<noteq> []"
    "list_all is_digit ds" "in_i64 n" "n = (if sign = ''-'' then -1 else 1) * int (number_from 0 ds)"
    using parse_i64_text [OF assms] by blast
  have small: "int (number_from 0 ds) \<le> i64_max + 1"
    using s(5,6) by (auto simp: in_i64_def i64_max_def i64_min_def split: if_splits)
  then have "number_from 0 (ds @ case_option [] id None) < ACCUMULATE_LIMIT"
    by (simp add: ACCUMULATE_LIMIT_def u128_max_def i64_max_def)
  from from_ascii_placed [OF _ _ s(2,4) _ _ this, of "[]" "[]"] s(3)
  have placed: "from_ascii s = place (sign = ''-'') (number_from 0 ds) (int 0)"
    by (simp add: s(1) unsigned_text_def)
  show ?thesis
  proof (cases "int (number_from 0 ds) \<le> i64_max")
    case True
    have "n \<noteq> i64_min" using True s(6) by (auto simp: i64_min_def i64_max_def split: if_splits)
    then show ?thesis
      unfolding placed place_fits [OF True le0] using s(6) by simp
  next
    case False
    then have n: "number_from 0 ds = 2 ^ 63" using small by (simp add: i64_max_def)
    then have "n = i64_min" using s(5,6) by (auto simp: i64_min_def i64_max_def in_i64_def split: if_splits)
    then show ?thesis unfolding placed n by (simp add: place_def i64_max_def)
  qed
qed

end
