(* ===== verification/Transactions.thy ===== *)
theory Transactions
  imports Texts Identifiers Decimal
begin

text \<open>
  \<open>station/transactions.rs\<close>: the OCPP 2.x transaction state machine of one EVSE, which turns what
  the EVSE observes into \<open>TransactionEvent\<close>s.

  A \<open>BTreeSet<TxPoint>\<close> is a set, iterated in the order of the enumeration. The generator of
  transaction ids is a state of any type with a function that draws the next id, the trait
  \<open>TransactionIds\<close>; what its contract promises is the locale \<open>transaction_ids\<close>. A \<open>seqNo\<close> is an
  integer: the source counts in \<open>i32\<close>, which a transaction leaves after two thousand million
  events. The time of an event is of any type.

  The lemmas show that the events of a machine are whole transactions, numbered from 0 without a
  gap and each under an id of its own, that a transaction ends at the first stop point that
  stops holding and at nothing else, and that every reason it reports is one the schemas define.
\<close>

section \<open>Conditions\<close>

datatype tx_point =
  ParkingBayOccupancy | EVConnected | Authorized | DataSigned | PowerPathClosed | EnergyTransfer

definition tx_points :: "tx_point list" where
  "tx_points = [ParkingBayOccupancy, EVConnected, Authorized, DataSigned, PowerPathClosed, EnergyTransfer]"

definition tx_point_as_str :: "tx_point \<Rightarrow> string" where
  "tx_point_as_str p =
     (case p of
        ParkingBayOccupancy \<Rightarrow> ''ParkingBayOccupancy''
      | EVConnected \<Rightarrow> ''EVConnected''
      | Authorized \<Rightarrow> ''Authorized''
      | DataSigned \<Rightarrow> ''DataSigned''
      | PowerPathClosed \<Rightarrow> ''PowerPathClosed''
      | EnergyTransfer \<Rightarrow> ''EnergyTransfer'')"

definition tx_point_from_wire :: "string \<Rightarrow> tx_point option" where
  "tx_point_from_wire s =
     (if s = ''ParkingBayOccupancy'' then Some ParkingBayOccupancy
      else if s = ''EVConnected'' then Some EVConnected
      else if s = ''Authorized'' then Some Authorized
      else if s = ''DataSigned'' then Some DataSigned
      else if s = ''PowerPathClosed'' then Some PowerPathClosed
      else if s = ''EnergyTransfer'' then Some EnergyTransfer
      else None)"

definition parse_list :: "string \<Rightarrow> tx_point set" where
  "parse_list s = set (List.map_filter (\<lambda>item. tx_point_from_wire (trim item)) (split_on (CHR '','') s))"

record conditions =
  parking_bay_occupied :: bool
  ev_connected :: bool
  authorized :: bool
  data_signed :: bool
  energy_transfer :: bool

definition conditions_default :: conditions where
  "conditions_default =
     \<lparr>parking_bay_occupied = False, ev_connected = False, authorized = False,
      data_signed = False, energy_transfer = False\<rparr>"

definition holds :: "conditions \<Rightarrow> tx_point \<Rightarrow> bool" where
  "holds c p =
     (case p of
        ParkingBayOccupancy \<Rightarrow> parking_bay_occupied c
      | EVConnected \<Rightarrow> ev_connected c
      | Authorized \<Rightarrow> authorized c
      | DataSigned \<Rightarrow> data_signed c
      | PowerPathClosed \<Rightarrow> authorized c \<and> ev_connected c
      | EnergyTransfer \<Rightarrow> energy_transfer c)"

section \<open>Events and ids\<close>

datatype 't tx_event =
    TxStarted (tx_id: string) (tx_seq: int) (tx_trigger: string) (tx_time: 't)
  | TxUpdated (tx_id: string) (tx_seq: int) (tx_trigger: string) (tx_time: 't)
  | TxEnded (tx_id: string) (tx_seq: int) (tx_trigger: string) (tx_reason: string) (tx_time: 't)

text \<open>
  \<open>RandomTransactionIds\<close>, given what \<open>uuid_v4\<close> answers for the entropy drawn, and
  \<open>CounterTransactionIds\<close>.
\<close>

definition random_transaction_next :: "u8 list option \<Rightarrow> nat \<Rightarrow> string \<times> nat" where
  "random_transaction_next entropy fallback =
     (case uuid_v4 entropy of
        Some i \<Rightarrow> (i, fallback)
      | None \<Rightarrow> (''degraded-'' @ digits (fallback + 1), fallback + 1))"

record counter_transaction_ids =
  ct_prefix :: string
  ct_next :: nat

definition counter_transaction_new :: "string \<Rightarrow> counter_transaction_ids" where
  "counter_transaction_new prefix = \<lparr>ct_prefix = prefix, ct_next = 1\<rparr>"

definition counter_transaction_next :: "counter_transaction_ids \<Rightarrow> string \<times> counter_transaction_ids" where
  "counter_transaction_next g = (ct_prefix g @ digits (ct_next g), g\<lparr>ct_next := ct_next g + 1\<rparr>)"

section \<open>The machine\<close>

record active_transaction =
  at_id :: string
  at_next_seq :: int

record 'g transaction_machine =
  start_points :: "tx_point set"
  stop_points :: "tx_point set"
  tx_ids :: 'g
  conditions_of :: conditions
  active_of :: "active_transaction option"

definition machine_new :: "tx_point set \<Rightarrow> tx_point set \<Rightarrow> 'g \<Rightarrow> 'g transaction_machine" where
  "machine_new starts stops g =
     \<lparr>start_points = starts, stop_points = stops, tx_ids = g, conditions_of = conditions_default,
      active_of = None\<rparr>"

definition with_defaults :: "'g \<Rightarrow> 'g transaction_machine" where
  "with_defaults g = machine_new {PowerPathClosed} {EVConnected, Authorized} g"

definition transaction_id_of :: "'g transaction_machine \<Rightarrow> string option" where
  "transaction_id_of m = map_option at_id (active_of m)"

definition trigger_for :: "conditions \<Rightarrow> conditions \<Rightarrow> string" where
  "trigger_for before after =
     (if authorized before \<noteq> authorized after then
        (if authorized after then ''Authorized'' else ''Deauthorized'')
      else if ev_connected before \<noteq> ev_connected after then
        (if ev_connected after then ''CablePluggedIn'' else ''EVCommunicationLost'')
      else if parking_bay_occupied before \<noteq> parking_bay_occupied after then
        (if parking_bay_occupied after then ''EVDetected'' else ''EVDeparted'')
      else if data_signed before \<noteq> data_signed after \<and> data_signed after then ''SignedDataReceived''
      else if energy_transfer before \<noteq> energy_transfer after then ''ChargingStateChanged''
      else ''Trigger'')"

definition stopped_reason :: "tx_point \<Rightarrow> conditions \<Rightarrow> conditions \<Rightarrow> string" where
  "stopped_reason p before after =
     (case p of
        EVConnected \<Rightarrow> ''EVDisconnected''
      | ParkingBayOccupancy \<Rightarrow> ''EVDisconnected''
      | Authorized \<Rightarrow> ''DeAuthorized''
      | PowerPathClosed \<Rightarrow>
          (if ev_connected before \<and> \<not> ev_connected after then ''EVDisconnected'' else ''DeAuthorized'')
      | EnergyTransfer \<Rightarrow> ''StoppedByEV''
      | DataSigned \<Rightarrow> ''Other'')"

text \<open>\<open>find\<close> over a \<open>BTreeSet\<close>, in the order of the enumeration.\<close>

definition first_point :: "(tx_point \<Rightarrow> bool) \<Rightarrow> tx_point set \<Rightarrow> tx_point option" where
  "first_point P s = List.find (\<lambda>p. p \<in> s \<and> P p) tx_points"

definition observe ::
  "('g \<Rightarrow> string \<times> 'g) \<Rightarrow> conditions \<Rightarrow> 't \<Rightarrow> 'g transaction_machine
     \<Rightarrow> 't tx_event list \<times> 'g transaction_machine" where
  "observe draw c now m =
     (let previous = conditions_of m; m1 = m\<lparr>conditions_of := c\<rparr> in
      case active_of m of
        None \<Rightarrow>
          (if first_point (\<lambda>p. \<not> holds previous p \<and> holds c p) (start_points m) \<noteq> None then
             let (i, g) = draw (tx_ids m) in
             ([TxStarted i 0 (trigger_for previous c) now],
              m1\<lparr>tx_ids := g, active_of := Some \<lparr>at_id = i, at_next_seq = 1\<rparr>\<rparr>)
           else ([], m1))
      | Some a \<Rightarrow>
          (case first_point (\<lambda>p. holds previous p \<and> \<not> holds c p) (stop_points m) of
             Some p \<Rightarrow>
               ([TxEnded (at_id a) (at_next_seq a) (trigger_for previous c)
                   (stopped_reason p previous c) now],
                m1\<lparr>active_of := None\<rparr>)
           | None \<Rightarrow>
               if previous \<noteq> c then
                 ([TxUpdated (at_id a) (at_next_seq a) (trigger_for previous c) now],
                  m1\<lparr>active_of := Some (a\<lparr>at_next_seq := at_next_seq a + 1\<rparr>)\<rparr>)
               else ([], m1)))"

definition update ::
  "string \<Rightarrow> 't \<Rightarrow> 'g transaction_machine \<Rightarrow> 't tx_event option \<times> 'g transaction_machine" where
  "update trigger now m =
     (case active_of m of
        None \<Rightarrow> (None, m)
      | Some a \<Rightarrow>
          (Some (TxUpdated (at_id a) (at_next_seq a) trigger now),
           m\<lparr>active_of := Some (a\<lparr>at_next_seq := at_next_seq a + 1\<rparr>)\<rparr>))"

definition abort ::
  "string \<Rightarrow> 't \<Rightarrow> 'g transaction_machine \<Rightarrow> 't tx_event option \<times> 'g transaction_machine" where
  "abort reason now m =
     (case active_of m of
        None \<Rightarrow> (None, m)
      | Some a \<Rightarrow>
          (Some (TxEnded (at_id a) (at_next_seq a) ''AbnormalCondition'' reason now),
           m\<lparr>active_of := None\<rparr>))"

definition resume :: "string \<Rightarrow> int \<Rightarrow> conditions \<Rightarrow> 'g transaction_machine \<Rightarrow> 'g transaction_machine" where
  "resume i n c m = m\<lparr>conditions_of := c, active_of := Some \<lparr>at_id = i, at_next_seq = n\<rparr>\<rparr>"

section \<open>Runs\<close>

datatype 't tx_input = Observe conditions 't | Update string 't | Abort string 't

fun tx_step ::
  "('g \<Rightarrow> string \<times> 'g) \<Rightarrow> 'g transaction_machine \<Rightarrow> 't tx_input \<Rightarrow> 't tx_event list \<times> 'g transaction_machine" where
  "tx_step draw m (Observe c now) = observe draw c now m"
| "tx_step draw m (Update trigger now) = (let (e, m1) = update trigger now m in (case_option [] (\<lambda>e. [e]) e, m1))"
| "tx_step draw m (Abort reason now) = (let (e, m1) = abort reason now m in (case_option [] (\<lambda>e. [e]) e, m1))"

fun tx_run ::
  "('g \<Rightarrow> string \<times> 'g) \<Rightarrow> 'g transaction_machine \<Rightarrow> 't tx_input list \<Rightarrow> 't tx_event list \<times> 'g transaction_machine" where
  "tx_run draw m [] = ([], m)"
| "tx_run draw m (i # is) =
     (let (es, m1) = tx_step draw m i; (es', m2) = tx_run draw m1 is in (es @ es', m2))"

text \<open>
  The order the messages of one station have to have: each transaction opens with number 0,
  goes on with consecutive numbers under its id, and is closed before the next one opens. The
  state is the open transaction; \<open>None\<close> as a result is a message out of order.
\<close>

fun in_order :: "active_transaction option \<Rightarrow> 't tx_event list \<Rightarrow> active_transaction option option" where
  "in_order now [] = Some now"
| "in_order None (TxStarted i n _ _ # es) =
     (if n = 0 then in_order (Some \<lparr>at_id = i, at_next_seq = 1\<rparr>) es else None)"
| "in_order (Some a) (TxUpdated i n _ _ # es) =
     (if i = at_id a \<and> n = at_next_seq a then in_order (Some \<lparr>at_id = i, at_next_seq = n + 1\<rparr>) es else None)"
| "in_order (Some a) (TxEnded i n _ _ _ # es) =
     (if i = at_id a \<and> n = at_next_seq a then in_order None es else None)"
| "in_order _ _ = None"

lemma in_order_append:
  "in_order now (es @ fs) =
     (case in_order now es of None \<Rightarrow> None | Some later \<Rightarrow> in_order later fs)"
  by (induction now es rule: in_order.induct) auto

lemma tx_step_in_order:
  "tx_step draw m i = (es, m') \<Longrightarrow> in_order (active_of m) es = Some (active_of m')"
  by (cases i)
     (auto simp: observe_def update_def abort_def Let_def split: option.splits if_splits prod.splits)

lemma tx_run_append:
  "tx_run draw m (is @ js) =
     (let (es, m1) = tx_run draw m is; (fs, m2) = tx_run draw m1 js in (es @ fs, m2))"
  by (induction "is" arbitrary: m) (auto split: prod.splits)

lemma tx_run_in_order:
  "in_order (active_of m) (fst (tx_run draw m is)) = Some (active_of (snd (tx_run draw m is)))"
proof (induction "is" arbitrary: m)
  case (Cons i "is")
  obtain es m1 where step: "tx_step draw m i = (es, m1)" by fastforce
  obtain fs m2 where run: "tx_run draw m1 is = (fs, m2)" by fastforce
  show ?case
    using tx_step_in_order [OF step] Cons.IH [of m1] by (simp add: step run in_order_append)
qed simp

text \<open>
  C21. Whatever is observed, requested and aborted, the events of a machine are in order: read
  from the start they are whole transactions, each opened with number 0 and numbered without a
  gap or a repetition up to the event that ends it, one after the other, and what is left open
  is the machine's current transaction with its next number.
\<close>

theorem events_in_order:
  "in_order (active_of m) (fst (tx_run draw m is)) = Some (active_of (snd (tx_run draw m is)))"
  by (rule tx_run_in_order)

section \<open>Every id is new\<close>

definition started_ids :: "'t tx_event list \<Rightarrow> string list" where
  "started_ids es = List.map_filter (\<lambda>e. case e of TxStarted i _ _ _ \<Rightarrow> Some i | _ \<Rightarrow> None) es"

lemma started_ids_simps [simp]:
  "started_ids [] = []"
  "started_ids (TxStarted i n g t # es) = i # started_ids es"
  "started_ids (TxUpdated i n g t # es) = started_ids es"
  "started_ids (TxEnded i n g r t # es) = started_ids es"
  "started_ids (es @ fs) = started_ids es @ started_ids fs"
  by (simp_all add: started_ids_def List.map_filter_def)

text \<open>
  The contract of \<open>TransactionIds\<close>: an id drawn is none of the ids \<open>issued\<close> before, and is one
  of them afterwards.
\<close>

locale transaction_ids =
  fixes draw :: "'g \<Rightarrow> string \<times> 'g" and issued :: "'g \<Rightarrow> string set"
  assumes draw_fresh: "draw g = (i, g') \<Longrightarrow> i \<notin> issued g \<and> issued g' = insert i (issued g)"
begin

lemma step_ids:
  "tx_step draw m i = (es, m') \<Longrightarrow> distinct (started_ids es) \<and>
   set (started_ids es) \<inter> issued (tx_ids m) = {} \<and>
   issued (tx_ids m') = issued (tx_ids m) \<union> set (started_ids es)"
  by (cases i)
     (auto simp: observe_def update_def abort_def Let_def dest: draw_fresh
           split: option.splits if_splits prod.splits)

lemma run_ids:
  "tx_run draw m is = (es, m') \<Longrightarrow> distinct (started_ids es) \<and>
   set (started_ids es) \<inter> issued (tx_ids m) = {} \<and>
   issued (tx_ids m') = issued (tx_ids m) \<union> set (started_ids es)"
proof (induction "is" arbitrary: m es)
  case (Cons i "is")
  obtain e1 m1 where step: "tx_step draw m i = (e1, m1)" by fastforce
  obtain e2 where "tx_run draw m1 is = (e2, m')" "es = e1 @ e2"
    using Cons.prems step by (auto split: prod.splits)
  with Cons.IH step_ids [OF step] show ?case by fastforce
qed simp

end

lemma digits_inj: "digits a = digits b \<longleftrightarrow> a = b"
  by (metis digits_shape(2))

definition counter_issued :: "counter_transaction_ids \<Rightarrow> string set" where
  "counter_issued g = (\<lambda>k. ct_prefix g @ digits k) ` {..<ct_next g}"

interpretation counter_tx: transaction_ids counter_transaction_next counter_issued
  by unfold_locales
     (auto simp: counter_transaction_next_def counter_issued_def digits_inj lessThan_Suc image_iff)

text \<open>The ids of a station whose transactions are named by a counter.\<close>

lemma counter_ids_distinct:
  "distinct (started_ids (fst (tx_run counter_transaction_next m is)))"
  using counter_tx.run_ids [of m "is"] by (metis prod.collapse)

section \<open>When a transaction begins and ends\<close>

lemma first_point_Some: "first_point P s = Some p \<Longrightarrow> p \<in> s \<and> P p"
  by (auto simp: first_point_def find_Some_iff)

lemma first_point_None: "first_point P s = None \<longleftrightarrow> (\<forall>p \<in> s. \<not> P p)"
proof -
  have "set tx_points = UNIV"
    using tx_point.exhaust by (auto simp: tx_points_def)
  then show ?thesis by (auto simp: first_point_def find_None_iff)
qed

definition ends :: "'t tx_event \<Rightarrow> bool" where
  "ends e = (case e of TxEnded _ _ _ _ _ \<Rightarrow> True | _ \<Rightarrow> False)"

lemma ends_simps [simp]:
  "\<not> ends (TxStarted i n g t)" "\<not> ends (TxUpdated i n g t)" "ends (TxEnded i n g r t)"
  by (simp_all add: ends_def)

abbreviation observations :: "(conditions \<times> 't) list \<Rightarrow> 't tx_input list" where
  "observations cs \<equiv> map (\<lambda>(c, t). Observe c t) cs"

text \<open>
  C22. A running transaction stays open through any sequence of observations in which no stop
  point stops holding, and is ended when one does: a stop point that never held ends nothing,
  however long it does not hold.
\<close>

theorem ends_when_stop_point_falls:
  assumes "active_of m = Some a"
  shows "(\<exists>e \<in> set (fst (tx_run draw m (observations cs))). ends e) \<longleftrightarrow>
    (\<exists>(b, c) \<in> set (zip (conditions_of m # map fst cs) (map fst cs)).
       \<exists>p \<in> stop_points m. holds b p \<and> \<not> holds c p)"
  using assms
proof (induction cs arbitrary: m a)
  case (Cons ct cs)
  obtain c t where ct: "ct = (c, t)" by fastforce
  obtain es m1 where step: "observe draw c t m = (es, m1)" by fastforce
  have m1: "stop_points m1 = stop_points m" "conditions_of m1 = c"
    using step Cons.prems by (auto simp: observe_def Let_def split: option.splits if_splits)
  have events: "set (fst (tx_run draw m (observations (ct # cs)))) =
      set es \<union> set (fst (tx_run draw m1 (observations cs)))"
    by (simp add: ct step split: prod.splits)
  have pairs: "set (zip (conditions_of m # map fst (ct # cs)) (map fst (ct # cs))) =
      insert (conditions_of m, c) (set (zip (conditions_of m1 # map fst cs) (map fst cs)))"
    by (simp add: ct m1)
  show ?case
  proof (cases "first_point (\<lambda>p. holds (conditions_of m) p \<and> \<not> holds c p) (stop_points m)")
    case (Some p)
    then have "\<exists>e \<in> set es. ends e"
      using step Cons.prems by (auto simp: observe_def Let_def)
    then show ?thesis
      unfolding events pairs using first_point_Some [OF Some] by auto
  next
    case None
    then have none: "\<not> (\<exists>p \<in> stop_points m. holds (conditions_of m) p \<and> \<not> holds c p)"
      by (simp add: first_point_None)
    have "\<not> (\<exists>e \<in> set es. ends e)" and "\<exists>a1. active_of m1 = Some a1"
      using step Cons.prems None by (auto simp: observe_def Let_def split: if_splits)
    then obtain a1 where a1: "active_of m1 = Some a1" and quiet: "\<not> (\<exists>e \<in> set es. ends e)" by blast
    show ?thesis
      unfolding events pairs bex_Un using Cons.IH [OF a1] quiet m1(1) by (simp add: none)
  qed
qed simp

text \<open>
  With the configuration of an OCPP 1.6 station a transaction is running exactly while the
  driver is authorized and the vehicle connected.
\<close>

theorem default_tracks_power_path:
  "transaction_id_of (snd (tx_run draw (with_defaults g) (observations cs))) \<noteq> None \<longleftrightarrow>
     cs \<noteq> [] \<and> holds (fst (last cs)) PowerPathClosed"
proof -
  define good where "good m \<longleftrightarrow> start_points m = {PowerPathClosed} \<and>
      stop_points m = {EVConnected, Authorized} \<and>
      (active_of m \<noteq> None \<longleftrightarrow> holds (conditions_of m) PowerPathClosed)" for m :: "'a transaction_machine"
  have step: "good m' \<and> conditions_of m' = c" if "good m" "observe draw c t m = (es, m')" for m m' c t es
  proof (cases "active_of m")
    case idle: None
    let ?start = "first_point (\<lambda>p. \<not> holds (conditions_of m) p \<and> holds c p) (start_points m)"
    show ?thesis
    proof (cases ?start)
      case None
      then have "\<forall>p \<in> start_points m. \<not> (\<not> holds (conditions_of m) p \<and> holds c p)"
        by (simp only: first_point_None not_False_eq_True)
      then have "\<not> holds c PowerPathClosed" using that(1) idle unfolding good_def by blast
      moreover have "m' = m\<lparr>conditions_of := c\<rparr>"
        using that(2) idle None by (simp add: observe_def)
      ultimately show ?thesis using that(1) idle unfolding good_def by simp
    next
      case (Some p)
      have "start_points m = {PowerPathClosed}" using that(1) unfolding good_def by (rule conjunct1)
      moreover have "p \<in> start_points m" and "holds c p" using first_point_Some [OF Some] by auto
      ultimately have "holds c PowerPathClosed" by simp
      moreover obtain i g where "draw (tx_ids m) = (i, g)" by fastforce
      then have "m' = m\<lparr>conditions_of := c, tx_ids := g, active_of := Some \<lparr>at_id = i, at_next_seq = 1\<rparr>\<rparr>"
        using that(2) idle Some by (simp add: observe_def)
      ultimately show ?thesis using that(1) unfolding good_def by simp
    qed
  next
    case (Some a)
    let ?stop = "first_point (\<lambda>p. holds (conditions_of m) p \<and> \<not> holds c p) (stop_points m)"
    have "?stop = None \<longleftrightarrow> (\<forall>p \<in> stop_points m. \<not> (holds (conditions_of m) p \<and> \<not> holds c p))"
      by (rule first_point_None)
    also have "\<dots> \<longleftrightarrow> holds c PowerPathClosed"
      using that(1) Some unfolding good_def by (auto simp: holds_def)
    finally have "?stop = None \<longleftrightarrow> holds c PowerPathClosed" .
    moreover have "start_points m' = start_points m \<and> stop_points m' = stop_points m \<and>
        conditions_of m' = c \<and> (active_of m' = None \<longleftrightarrow> ?stop \<noteq> None)"
      using that(2) Some by (auto simp: observe_def Let_def split: if_splits option.splits)
    ultimately show ?thesis using that(1) unfolding good_def by simp
  qed
  have "good m \<Longrightarrow> good (snd (tx_run draw m (observations cs))) \<and>
      conditions_of (snd (tx_run draw m (observations cs))) =
        (if cs = [] then conditions_of m else fst (last cs))" for m
  proof (induction cs arbitrary: m)
    case (Cons ct cs)
    obtain c t where ct: "ct = (c, t)" by fastforce
    obtain es m1 where s: "observe draw c t m = (es, m1)" by fastforce
    from step [OF Cons.prems s] Cons.IH [of m1] show ?case
      by (auto simp: ct s split: prod.splits)
  qed simp
  moreover have "good (with_defaults g)"
    by (simp add: good_def with_defaults_def machine_new_def conditions_default_def holds_def)
  ultimately show ?thesis
    by (auto simp: good_def transaction_id_of_def with_defaults_def machine_new_def
          conditions_default_def holds_def)
qed

section \<open>The reasons reported\<close>

definition v2_0_1_TRIGGER_REASONS :: "string list" where
  "v2_0_1_TRIGGER_REASONS =
     [''Authorized'', ''CablePluggedIn'', ''ChargingRateChanged'', ''ChargingStateChanged'',
      ''Deauthorized'', ''EnergyLimitReached'', ''EVCommunicationLost'',
      ''EVConnectTimeout'', ''MeterValueClock'', ''MeterValuePeriodic'',
      ''TimeLimitReached'', ''Trigger'', ''UnlockCommand'', ''StopAuthorized'',
      ''EVDeparted'', ''EVDetected'', ''RemoteStop'', ''RemoteStart'',
      ''AbnormalCondition'', ''SignedDataReceived'', ''ResetCommand'']"

definition v2_0_1_STOPPED_REASONS :: "string list" where
  "v2_0_1_STOPPED_REASONS =
     [''DeAuthorized'', ''EmergencyStop'', ''EnergyLimitReached'', ''EVDisconnected'',
      ''GroundFault'', ''ImmediateReset'', ''Local'', ''LocalOutOfCredit'', ''MasterPass'',
      ''Other'', ''OvercurrentFault'', ''PowerLoss'', ''PowerQuality'', ''Reboot'',
      ''Remote'', ''SOCLimitReached'', ''StoppedByEV'', ''TimeLimitReached'', ''Timeout'']"

definition v2_1_TRIGGER_REASONS :: "string list" where
  "v2_1_TRIGGER_REASONS =
     [''AbnormalCondition'', ''Authorized'', ''CablePluggedIn'', ''ChargingRateChanged'',
      ''ChargingStateChanged'', ''CostLimitReached'', ''Deauthorized'',
      ''EnergyLimitReached'', ''EVCommunicationLost'', ''EVConnectTimeout'', ''EVDeparted'',
      ''EVDetected'', ''LimitSet'', ''MeterValueClock'', ''MeterValuePeriodic'',
      ''OperationModeChanged'', ''RemoteStart'', ''RemoteStop'', ''ResetCommand'',
      ''RunningCost'', ''SignedDataReceived'', ''SoCLimitReached'', ''StopAuthorized'',
      ''TariffChanged'', ''TariffNotAccepted'', ''TimeLimitReached'', ''Trigger'',
      ''TxResumed'', ''UnlockCommand'']"

definition v2_1_STOPPED_REASONS :: "string list" where
  "v2_1_STOPPED_REASONS =
     [''DeAuthorized'', ''EmergencyStop'', ''EnergyLimitReached'', ''EVDisconnected'',
      ''GroundFault'', ''ImmediateReset'', ''MasterPass'', ''Local'', ''LocalOutOfCredit'',
      ''Other'', ''OvercurrentFault'', ''PowerLoss'', ''PowerQuality'', ''Reboot'',
      ''Remote'', ''SOCLimitReached'', ''StoppedByEV'', ''TimeLimitReached'', ''Timeout'',
      ''ReqEnergyTransferRejected'']"

definition own_triggers :: "string list" where
  "own_triggers =
     [''Authorized'', ''Deauthorized'', ''CablePluggedIn'', ''EVCommunicationLost'', ''EVDetected'',
      ''EVDeparted'', ''SignedDataReceived'', ''ChargingStateChanged'', ''Trigger'', ''AbnormalCondition'']"

definition own_reasons :: "string list" where
  "own_reasons = [''EVDisconnected'', ''DeAuthorized'', ''StoppedByEV'', ''Other'']"

lemma own_reasons_defined:
  "list_all (\<lambda>s. List.member v2_0_1_TRIGGER_REASONS s \<and> List.member v2_1_TRIGGER_REASONS s) own_triggers"
  "list_all (\<lambda>s. List.member v2_0_1_STOPPED_REASONS s \<and> List.member v2_1_STOPPED_REASONS s) own_reasons"
  by code_simp+

lemma if_in: "a \<in> S \<Longrightarrow> b \<in> S \<Longrightarrow> (if c then a else b) \<in> S"
  by simp

lemma own_reasons_given:
  shows "trigger_for b c \<in> set own_triggers" and "stopped_reason p b c \<in> set own_reasons"
    and "''AbnormalCondition'' \<in> set own_triggers"
proof -
  show "trigger_for b c \<in> set own_triggers"
    unfolding trigger_for_def own_triggers_def list.set
    by (intro if_in) (rule insertI1 | rule insertI2)+
  show "stopped_reason p b c \<in> set own_reasons"
    unfolding stopped_reason_def own_reasons_def list.set
    by (cases p; simp only: tx_point.case; (intro if_in)?) (rule insertI1 | rule insertI2)+
  show "''AbnormalCondition'' \<in> set own_triggers"
    unfolding own_triggers_def list.set by (rule insertI1 | rule insertI2)+
qed

text \<open>
  Every trigger and every stop reason the machine gives on its own is one that both OCPP
  2.0.1 and 2.1 define, so no event is answered with a constraint violation for it.
\<close>

theorem reasons_defined:
  assumes "e \<in> set (fst (observe draw c now m)) \<or> fst (abort reason now m) = Some e"
  shows "tx_trigger e \<in> set v2_0_1_TRIGGER_REASONS \<inter> set v2_1_TRIGGER_REASONS \<and>
    (e \<in> set (fst (observe draw c now m)) \<and> ends e \<longrightarrow>
       tx_reason e \<in> set v2_0_1_STOPPED_REASONS \<inter> set v2_1_STOPPED_REASONS)"
proof -
  have "s \<in> set v2_0_1_TRIGGER_REASONS \<inter> set v2_1_TRIGGER_REASONS" if "s \<in> set own_triggers" for s
    using own_reasons_defined(1) that by (simp add: list_all_iff)
  note trigger = this [OF own_reasons_given(1)] this [OF own_reasons_given(3)]
  have stop: "s \<in> set v2_0_1_STOPPED_REASONS \<inter> set v2_1_STOPPED_REASONS" if "s \<in> set own_reasons" for s
    using own_reasons_defined(2) that by (simp add: list_all_iff)
  note stop = this [OF own_reasons_given(2)]
  show ?thesis
    using assms trigger stop
    by (auto simp: observe_def abort_def Let_def split: option.splits if_splits prod.splits)
qed

section \<open>Reading the configured points\<close>

interpretation tx_point_wire: wire_enum tx_point_as_str tx_point_from_wire
proof
  show "tx_point_from_wire (tx_point_as_str p) = Some p" for p
    by (cases p) (simp_all add: tx_point_as_str_def tx_point_from_wire_def)
  show "tx_point_from_wire s = Some p \<Longrightarrow> s = tx_point_as_str p" for s p
    by (auto simp: tx_point_from_wire_def tx_point_as_str_def split: if_splits)
qed

lemma tx_point_text: "trimmed (tx_point_as_str p)" "CHR '','' \<notin> set (tx_point_as_str p)"
  by (cases p; simp add: tx_point_as_str_def trimmed_def is_whitespace_def Let_def)+

text \<open>A \<open>MemberList\<close> of points is read back as the set of its members.\<close>

lemma parse_list_join:
  assumes "ps \<noteq> []"
  shows "parse_list (join '','' (map tx_point_as_str ps)) = set ps"
proof -
  have "split_on (CHR '','') (join '','' (map tx_point_as_str ps)) = map tx_point_as_str ps"
    using assms by (intro split_on_join) (auto simp: tx_point_text)
  then show ?thesis
    by (simp add: parse_list_def List.map_filter_def trim_trimmed tx_point_text tx_point_wire.of_to
        comp_def image_image)
qed

text \<open>A machine restored from the id, the number and the conditions saved is the machine saved.\<close>

lemma resume_restores:
  "active_of m = Some a \<Longrightarrow>
   resume (at_id a) (at_next_seq a) (conditions_of m)
     (machine_new (start_points m) (stop_points m) (tx_ids m)) = m"
  by (cases m; cases a) (simp add: resume_def machine_new_def)

section \<open>Examples\<close>

definition cable_in :: conditions where
  "cable_in = conditions_default\<lparr>ev_connected := True\<rparr>"

definition charging :: conditions where
  "charging = cable_in\<lparr>authorized := True\<rparr>"

text \<open>
  The specification's own warning: with stop point \<open>EVConnected\<close> and a vehicle that never
  connects, the transaction stays open; once connected, pulling the cable ends it.
\<close>

theorem ends_when_stop_point_falls_witness:
  "\<not> (\<exists>e \<in> set (fst (tx_run counter_transaction_next
         (resume ''tx-1'' 1 (conditions_default\<lparr>parking_bay_occupied := True\<rparr>)
            (machine_new {ParkingBayOccupancy} {EVConnected} (counter_transaction_new ''tx-'')))
         (observations [(conditions_default, 1 :: nat)]))). ends e) \<and>
   (\<exists>e \<in> set (fst (tx_run counter_transaction_next
         (resume ''tx-1'' 1 charging (with_defaults (counter_transaction_new ''tx-'')))
         (observations [(cable_in, 1 :: nat)]))). ends e)"
proof
  let ?m = "resume ''tx-1'' 1 (conditions_default\<lparr>parking_bay_occupied := True\<rparr>)
    (machine_new {ParkingBayOccupancy} {EVConnected} (counter_transaction_new ''tx-''))"
  have "active_of ?m = Some \<lparr>at_id = ''tx-1'', at_next_seq = 1\<rparr>"
    by (simp add: resume_def)
  note open_bay = ends_when_stop_point_falls [OF this, of counter_transaction_next "[(conditions_default, 1 :: nat)]"]
  show "\<not> (\<exists>e \<in> set (fst (tx_run counter_transaction_next ?m (observations [(conditions_default, 1 :: nat)]))). ends e)"
    unfolding open_bay
    by (simp add: resume_def machine_new_def holds_def conditions_default_def)
  let ?n = "resume ''tx-1'' 1 charging (with_defaults (counter_transaction_new ''tx-''))"
  have "active_of ?n = Some \<lparr>at_id = ''tx-1'', at_next_seq = 1\<rparr>"
    by (simp add: resume_def)
  note ended = ends_when_stop_point_falls [OF this, of counter_transaction_next "[(cable_in, 1 :: nat)]"]
  show "\<exists>e \<in> set (fst (tx_run counter_transaction_next ?n (observations [(cable_in, 1 :: nat)]))). ends e"
    unfolding ended
    by (simp add: resume_def with_defaults_def machine_new_def holds_def charging_def cable_in_def
        conditions_default_def)
qed

theorem reasons_defined_witness:
  "tx_trigger (TxEnded ''tx-1'' 1 ''AbnormalCondition'' ''Remote'' (5 :: nat)) \<in> set v2_1_TRIGGER_REASONS"
proof -
  have "fst (abort ''Remote'' (5 :: nat)
      (resume ''tx-1'' 1 charging (with_defaults (counter_transaction_new ''tx-'')))) =
      Some (TxEnded ''tx-1'' 1 ''AbnormalCondition'' ''Remote'' 5)"
    by (simp add: abort_def resume_def)
  from reasons_defined [OF disjI2 [OF this], where draw = counter_transaction_next]
  show ?thesis by blast
qed

end
