(* ===== verification/Device_Model.thy ===== *)
theory Device_Model
  imports Btree Values Transactions "HOL-Library.Product_Lexorder" "HOL-Library.Option_ord"
begin

text \<open>
  \<open>station/device_model.rs\<close>: the components and variables of an OCPP 2.x station, the answers to
  \<open>GetVariables\<close> and \<open>SetVariables\<close>, and the inventory reports with their pages.

  A model is the map of \<open>Btree\<close> from component keys to the map of the component's variables. The
  attributes a variable supports are a set, iterated in the order of the enumeration, and its
  values a map. Whether a text is an RFC 3339 timestamp, \<open>DateTime::parse\<close>, is the parameter
  \<open>timestamp\<close> of what writes values. Errors of a read are the left of a sum; a write
  answers its status with the new model.

  The lemmas show what a write does and that a refused one does nothing; that no value of a
  write-only variable has an effect on any answer; that what is stored keeps to its declared type
  and, but for one number, to its limits; and that the pages of a report are the report.
\<close>

section \<open>Attributes, mutability and types\<close>

datatype attribute = Actual | Target | MinSet | MaxSet

definition attributes :: "attribute list" where
  "attributes = [Actual, Target, MinSet, MaxSet]"

definition attribute_as_str :: "attribute \<Rightarrow> string" where
  "attribute_as_str a =
     (case a of Actual \<Rightarrow> ''Actual'' | Target \<Rightarrow> ''Target'' | MinSet \<Rightarrow> ''MinSet'' | MaxSet \<Rightarrow> ''MaxSet'')"

definition attribute_from_wire :: "string \<Rightarrow> attribute option" where
  "attribute_from_wire s =
     (if s = ''Actual'' then Some Actual
      else if s = ''Target'' then Some Target
      else if s = ''MinSet'' then Some MinSet
      else if s = ''MaxSet'' then Some MaxSet
      else None)"

datatype mutability = ReadsOnly | WritesOnly | ReadsWrites

definition mutability_as_str :: "mutability \<Rightarrow> string" where
  "mutability_as_str m =
     (case m of ReadsOnly \<Rightarrow> ''ReadOnly'' | WritesOnly \<Rightarrow> ''WriteOnly'' | ReadsWrites \<Rightarrow> ''ReadWrite'')"

definition readable :: "mutability \<Rightarrow> bool" where
  "readable m \<longleftrightarrow> m \<noteq> WritesOnly"

definition writable :: "mutability \<Rightarrow> bool" where
  "writable m \<longleftrightarrow> m \<noteq> ReadsOnly"

datatype data_type =
  StringType | DecimalType | IntegerType | DateTimeType | BooleanType |
  OptionList | SequenceList | MemberList

definition data_type_as_str :: "data_type \<Rightarrow> string" where
  "data_type_as_str t =
     (case t of
        StringType \<Rightarrow> ''string''
      | DecimalType \<Rightarrow> ''decimal''
      | IntegerType \<Rightarrow> ''integer''
      | DateTimeType \<Rightarrow> ''dateTime''
      | BooleanType \<Rightarrow> ''boolean''
      | OptionList \<Rightarrow> ''OptionList''
      | SequenceList \<Rightarrow> ''SequenceList''
      | MemberList \<Rightarrow> ''MemberList'')"

definition data_type_from_wire :: "string \<Rightarrow> data_type option" where
  "data_type_from_wire s =
     (if s = ''string'' then Some StringType
      else if s = ''decimal'' then Some DecimalType
      else if s = ''integer'' then Some IntegerType
      else if s = ''dateTime'' then Some DateTimeType
      else if s = ''boolean'' then Some BooleanType
      else if s = ''OptionList'' then Some OptionList
      else if s = ''SequenceList'' then Some SequenceList
      else if s = ''MemberList'' then Some MemberList
      else None)"

definition listed :: "string list \<Rightarrow> string \<Rightarrow> bool" where
  "listed vs s \<longleftrightarrow> list_all (\<lambda>item. trim item \<in> set vs) (split_on (CHR '','') s)"

definition data_type_accepts :: "(string \<Rightarrow> bool) \<Rightarrow> data_type \<Rightarrow> string list \<Rightarrow> string \<Rightarrow> bool" where
  "data_type_accepts timestamp t vs s =
     (case t of
        StringType \<Rightarrow> True
      | BooleanType \<Rightarrow> is_boolean s
      | IntegerType \<Rightarrow> parse_i64 s \<noteq> None
      | DecimalType \<Rightarrow> \<not> isl (from_ascii s)
      | DateTimeType \<Rightarrow> timestamp s
      | OptionList \<Rightarrow> vs = [] \<or> s \<in> set vs
      | SequenceList \<Rightarrow> vs = [] \<or> listed vs s
      | MemberList \<Rightarrow> vs = [] \<or> listed vs s)"

interpretation attribute_wire: wire_enum attribute_as_str attribute_from_wire
proof
  show "attribute_from_wire (attribute_as_str a) = Some a" for a
    by (cases a) (simp_all add: attribute_as_str_def attribute_from_wire_def)
  show "attribute_from_wire s = Some a \<Longrightarrow> s = attribute_as_str a" for s a
    by (auto simp: attribute_from_wire_def attribute_as_str_def split: if_splits)
qed

interpretation data_type_wire: wire_enum data_type_as_str data_type_from_wire
proof
  show "data_type_from_wire (data_type_as_str t) = Some t" for t
    by (cases t) (simp_all add: data_type_as_str_def data_type_from_wire_def)
  show "data_type_from_wire s = Some t \<Longrightarrow> s = data_type_as_str t" for s t
    by (auto simp: data_type_from_wire_def data_type_as_str_def split: if_splits)
qed

section \<open>Keys\<close>

datatype component_key =
  ComponentKey (component_name: string) (component_instance: "string option")
    (component_evse: "32 word option") (component_connector: "32 word option")

datatype variable_key =
  VariableKey (variable_name: string) (variable_instance: "string option")

text \<open>The derived order: field by field, and no value before any.\<close>

fun component_fields :: "component_key \<Rightarrow> string \<times> string option \<times> 32 word option \<times> 32 word option" where
  "component_fields (ComponentKey n i e c) = (n, i, e, c)"

fun variable_fields :: "variable_key \<Rightarrow> string \<times> string option" where
  "variable_fields (VariableKey n i) = (n, i)"

instantiation component_key :: linorder
begin

definition less_eq_component_key :: "component_key \<Rightarrow> component_key \<Rightarrow> bool" where
  "less_eq_component_key a b \<longleftrightarrow> component_fields a \<le> component_fields b"

definition less_component_key :: "component_key \<Rightarrow> component_key \<Rightarrow> bool" where
  "less_component_key a b \<longleftrightarrow> component_fields a < component_fields b"

instance
proof
  fix a b :: component_key
  show "a \<le> b \<Longrightarrow> b \<le> a \<Longrightarrow> a = b"
    by (cases a; cases b) (auto simp: less_eq_component_key_def)
qed (auto simp: less_eq_component_key_def less_component_key_def)

end

instantiation variable_key :: linorder
begin

definition less_eq_variable_key :: "variable_key \<Rightarrow> variable_key \<Rightarrow> bool" where
  "less_eq_variable_key a b \<longleftrightarrow> variable_fields a \<le> variable_fields b"

definition less_variable_key :: "variable_key \<Rightarrow> variable_key \<Rightarrow> bool" where
  "less_variable_key a b \<longleftrightarrow> variable_fields a < variable_fields b"

instance
proof
  fix a b :: variable_key
  show "a \<le> b \<Longrightarrow> b \<le> a \<Longrightarrow> a = b"
    by (cases a; cases b) (auto simp: less_eq_variable_key_def)
qed (auto simp: less_eq_variable_key_def less_variable_key_def)

end

definition component_new :: "string \<Rightarrow> component_key" where
  "component_new n = ComponentKey n None None None"

fun component_with_instance :: "string \<Rightarrow> component_key \<Rightarrow> component_key" where
  "component_with_instance i (ComponentKey n _ e c) = ComponentKey n (Some i) e c"

fun component_at_evse :: "32 word \<Rightarrow> 32 word option \<Rightarrow> component_key \<Rightarrow> component_key" where
  "component_at_evse e c (ComponentKey n i _ _) = ComponentKey n i (Some e) c"

fun component_display :: "component_key \<Rightarrow> string" where
  "component_display (ComponentKey n i e c) =
     n @ (case i of None \<Rightarrow> [] | Some i \<Rightarrow> ''('' @ i @ '')'') @
     (case e of
        None \<Rightarrow> []
      | Some e \<Rightarrow> ''@evse'' @ digits (unat e) @
          (case c of None \<Rightarrow> [] | Some c \<Rightarrow> ''.'' @ digits (unat c)))"

definition variable_new :: "string \<Rightarrow> variable_key" where
  "variable_new n = VariableKey n None"

fun variable_with_instance :: "string \<Rightarrow> variable_key \<Rightarrow> variable_key" where
  "variable_with_instance i (VariableKey n _) = VariableKey n (Some i)"

fun variable_display :: "variable_key \<Rightarrow> string" where
  "variable_display (VariableKey n i) = n @ (case i of None \<Rightarrow> [] | Some i \<Rightarrow> ''['' @ i @ '']'')"

section \<open>Declarations\<close>

record variable_spec =
  spec_key :: variable_key
  spec_type :: data_type
  spec_mutability :: mutability
  spec_unit :: "string option"
  spec_list :: "string list"
  spec_min :: "decimal option"
  spec_max :: "decimal option"
  spec_persistent :: bool
  spec_constant :: bool
  spec_reboot :: bool
  spec_supported :: "attribute set"
  spec_values :: "attribute \<Rightarrow> string option"

definition spec_new :: "string \<Rightarrow> data_type \<Rightarrow> variable_spec" where
  "spec_new n t =
     \<lparr>spec_key = variable_new n, spec_type = t, spec_mutability = ReadsOnly, spec_unit = None,
      spec_list = [], spec_min = None, spec_max = None, spec_persistent = True,
      spec_constant = False, spec_reboot = False, spec_supported = {Actual},
      spec_values = (\<lambda>_. None)\<rparr>"

definition spec_instance :: "string \<Rightarrow> variable_spec \<Rightarrow> variable_spec" where
  "spec_instance i s = s\<lparr>spec_key := variable_with_instance i (spec_key s)\<rparr>"

definition mutable :: "mutability \<Rightarrow> variable_spec \<Rightarrow> variable_spec" where
  "mutable m s = s\<lparr>spec_mutability := m\<rparr>"

definition in_unit :: "string \<Rightarrow> variable_spec \<Rightarrow> variable_spec" where
  "in_unit u s = s\<lparr>spec_unit := Some u\<rparr>"

definition one_of :: "string list \<Rightarrow> variable_spec \<Rightarrow> variable_spec" where
  "one_of vs s = s\<lparr>spec_list := vs\<rparr>"

definition limits :: "decimal option \<Rightarrow> decimal option \<Rightarrow> variable_spec \<Rightarrow> variable_spec" where
  "limits lo hi s = s\<lparr>spec_min := lo, spec_max := hi\<rparr>"

definition reboot_required :: "variable_spec \<Rightarrow> variable_spec" where
  "reboot_required s = s\<lparr>spec_reboot := True\<rparr>"

definition as_constant :: "variable_spec \<Rightarrow> variable_spec" where
  "as_constant s = s\<lparr>spec_constant := True, spec_mutability := ReadsOnly\<rparr>"

definition valued :: "string \<Rightarrow> variable_spec \<Rightarrow> variable_spec" where
  "valued v s = s\<lparr>spec_values := (spec_values s)(Actual \<mapsto> v)\<rparr>"

definition with_attribute :: "attribute \<Rightarrow> string \<Rightarrow> variable_spec \<Rightarrow> variable_spec" where
  "with_attribute a v s =
     s\<lparr>spec_supported := insert a (spec_supported s), spec_values := (spec_values s)(a \<mapsto> v)\<rparr>"

definition supports :: "attribute \<Rightarrow> variable_spec \<Rightarrow> variable_spec" where
  "supports a s = s\<lparr>spec_supported := insert a (spec_supported s)\<rparr>"

definition supported_attributes :: "variable_spec \<Rightarrow> attribute list" where
  "supported_attributes s = filter (\<lambda>a. a \<in> spec_supported s) attributes"

section \<open>The registry\<close>

type_synonym device_model = "(component_key \<times> (variable_key \<times> variable_spec) list) list"

datatype get_status =
  GetAccepted | GetUnknownComponent | GetUnknownVariable | GetNotSupportedAttributeType | GetRejected

datatype set_status =
  SetAccepted | SetRebootRequired | SetUnknownComponent | SetUnknownVariable |
  SetNotSupportedAttributeType | SetRejected

definition dm_declare :: "component_key \<Rightarrow> variable_spec \<Rightarrow> device_model \<Rightarrow> device_model" where
  "dm_declare c s m =
     bt_insert c (bt_insert (spec_key s) s (case bt_get m c of None \<Rightarrow> [] | Some vs \<Rightarrow> vs)) m"

definition dm_len :: "device_model \<Rightarrow> nat" where
  "dm_len m = sum_list (map (\<lambda>(c, vs). length vs) m)"

definition dm_is_empty :: "device_model \<Rightarrow> bool" where
  "dm_is_empty m \<longleftrightarrow> dm_len m = 0"

definition dm_components :: "device_model \<Rightarrow> component_key list" where
  "dm_components m = map fst m"

definition dm_get :: "component_key \<Rightarrow> variable_key \<Rightarrow> attribute \<Rightarrow> device_model \<Rightarrow> get_status + string" where
  "dm_get c v a m =
     (case bt_get m c of
        None \<Rightarrow> Inl GetUnknownComponent
      | Some vs \<Rightarrow>
          (case bt_get vs v of
             None \<Rightarrow> Inl GetUnknownVariable
           | Some s \<Rightarrow>
               if \<not> readable (spec_mutability s) then Inl GetRejected
               else if a \<notin> spec_supported s then Inl GetNotSupportedAttributeType
               else Inr (case spec_values s a of None \<Rightarrow> [] | Some x \<Rightarrow> x)))"

definition outside :: "decimal option \<Rightarrow> decimal option \<Rightarrow> decimal \<Rightarrow> bool" where
  "outside lo hi n \<longleftrightarrow>
     (case lo of None \<Rightarrow> False | Some l \<Rightarrow> compare n l = Less) \<or>
     (case hi of None \<Rightarrow> False | Some h \<Rightarrow> compare n h = Greater)"

definition write_allowed :: "(string \<Rightarrow> bool) \<Rightarrow> variable_spec \<Rightarrow> string \<Rightarrow> bool" where
  "write_allowed timestamp s x \<longleftrightarrow>
     data_type_accepts timestamp (spec_type s) (spec_list s) x \<and>
     (spec_type s = IntegerType \<or> spec_type s = DecimalType \<longrightarrow>
        (case from_ascii x of Inl _ \<Rightarrow> True | Inr n \<Rightarrow> \<not> outside (spec_min s) (spec_max s) n))"

definition refusal :: "(string \<Rightarrow> bool) \<Rightarrow> attribute \<Rightarrow> string \<Rightarrow> variable_spec \<Rightarrow> set_status option" where
  "refusal timestamp a x s =
     (if \<not> writable (spec_mutability s) \<or> spec_constant s then Some SetRejected
      else if a \<notin> spec_supported s then Some SetNotSupportedAttributeType
      else if \<not> write_allowed timestamp s x then Some SetRejected
      else None)"

definition spec_store :: "attribute \<Rightarrow> string \<Rightarrow> variable_spec \<Rightarrow> variable_spec" where
  "spec_store a x s = s\<lparr>spec_values := (spec_values s)(a \<mapsto> x)\<rparr>"

definition dm_set ::
  "(string \<Rightarrow> bool) \<Rightarrow> component_key \<Rightarrow> variable_key \<Rightarrow> attribute \<Rightarrow> string \<Rightarrow> device_model
    \<Rightarrow> set_status \<times> device_model" where
  "dm_set timestamp c v a x m =
     (case bt_get m c of
        None \<Rightarrow> (SetUnknownComponent, m)
      | Some vs \<Rightarrow>
          (case bt_get vs v of
             None \<Rightarrow> (SetUnknownVariable, m)
           | Some s \<Rightarrow>
               (case refusal timestamp a x s of
                  Some status \<Rightarrow> (status, m)
                | None \<Rightarrow>
                    (if spec_reboot s then SetRebootRequired else SetAccepted,
                     bt_insert c (bt_insert v (spec_store a x s) vs) m))))"

section \<open>Reports\<close>

datatype report_base = FullInventory | ConfigurationInventory | SummaryInventory

record report_datum =
  rd_component :: component_key
  rd_variable :: variable_key
  rd_attributes :: "(attribute \<times> mutability \<times> string option) list"
  rd_mutability :: mutability
  rd_type :: data_type
  rd_unit :: "string option"
  rd_list :: "string list"
  rd_min :: "decimal option"
  rd_max :: "decimal option"
  rd_persistent :: bool
  rd_constant :: bool

definition is_summary_variable :: "string \<Rightarrow> bool" where
  "is_summary_variable n \<longleftrightarrow>
     n \<in> {''AvailabilityState'', ''Active'', ''Problem'', ''Tripped'', ''Overload'', ''Fallback''}"

definition included :: "report_base \<Rightarrow> variable_key \<Rightarrow> variable_spec \<Rightarrow> bool" where
  "included b v s \<longleftrightarrow>
     (case b of
        FullInventory \<Rightarrow> True
      | ConfigurationInventory \<Rightarrow> writable (spec_mutability s)
      | SummaryInventory \<Rightarrow> is_summary_variable (variable_name v))"

definition wanted :: "string option \<Rightarrow> string \<Rightarrow> bool" where
  "wanted f n \<longleftrightarrow> (case f of None \<Rightarrow> True | Some name \<Rightarrow> name = n)"

definition datum :: "component_key \<Rightarrow> variable_key \<Rightarrow> variable_spec \<Rightarrow> report_datum" where
  "datum c v s =
     \<lparr>rd_component = c, rd_variable = v,
      rd_attributes = map (\<lambda>a. (a, spec_mutability s,
         if readable (spec_mutability s) then spec_values s a else None)) (supported_attributes s),
      rd_mutability = spec_mutability s, rd_type = spec_type s, rd_unit = spec_unit s,
      rd_list = spec_list s, rd_min = spec_min s, rd_max = spec_max s,
      rd_persistent = spec_persistent s, rd_constant = spec_constant s\<rparr>"

definition report_component ::
  "report_base \<Rightarrow> string option \<Rightarrow> component_key \<Rightarrow> (variable_key \<times> variable_spec) list \<Rightarrow> report_datum list" where
  "report_component b vf c vs =
     map (\<lambda>(v, s). datum c v s)
       (filter (\<lambda>(v, s). wanted vf (variable_name v) \<and> included b v s) vs)"

definition dm_report :: "report_base \<Rightarrow> string option \<Rightarrow> string option \<Rightarrow> device_model \<Rightarrow> report_datum list" where
  "dm_report b cf vf m =
     concat (map (\<lambda>(c, vs). report_component b vf c vs)
       (filter (\<lambda>(c, vs). wanted cf (component_name c)) m))"

text \<open>\<open>chunks\<close>, and the pages with their number and whether another follows.\<close>

function chunks :: "nat \<Rightarrow> 'a list \<Rightarrow> 'a list list" where
  "chunks n xs = (if xs = [] \<or> n = 0 then [] else take n xs # chunks n (drop n xs))"
  by pat_completeness auto

termination
  by (relation "measure (\<lambda>(n, xs). length xs)") auto

declare chunks.simps [simp del]

fun number_pages :: "int \<Rightarrow> 'a list list \<Rightarrow> (int \<times> bool \<times> 'a list) list" where
  "number_pages seq [] = []"
| "number_pages seq (c # cs) = (seq, cs \<noteq> [], c) # number_pages (seq + 1) cs"

definition paginate :: "'a list \<Rightarrow> nat \<Rightarrow> (int \<times> bool \<times> 'a list) list" where
  "paginate xs per_page =
     (if chunks (max per_page 1) xs = [] then [(0, False, [])]
      else number_pages 0 (chunks (max per_page 1) xs))"


section \<open>The standard controllers\<close>

definition seconds :: "string \<Rightarrow> variable_spec" where
  "seconds n = in_unit ''s'' (spec_new n IntegerType)"

definition TX_POINT_VALUES :: "string list" where
  "TX_POINT_VALUES =
     [''ParkingBayOccupancy'', ''EVConnected'', ''Authorized'', ''DataSigned'', ''PowerPathClosed'', ''EnergyTransfer'']"

definition dm_defaults :: "(component_key \<times> variable_spec) list" where
  "dm_defaults =
     [(component_new ''OCPPCommCtrlr'', valued ''300'' (mutable ReadsWrites (seconds ''HeartbeatInterval''))),
      (component_new ''OCPPCommCtrlr'', valued ''30'' (spec_instance ''Default'' (seconds ''MessageTimeout''))),
      (component_new ''OCPPCommCtrlr'',
        valued ''3'' (mutable ReadsWrites (spec_instance ''TransactionEvent'' (spec_new ''MessageAttempts'' IntegerType)))),
      (component_new ''OCPPCommCtrlr'',
        valued ''60'' (mutable ReadsWrites (spec_instance ''TransactionEvent'' (seconds ''MessageAttemptInterval'')))),
      (component_new ''OCPPCommCtrlr'', valued ''60'' (mutable ReadsWrites (seconds ''WebSocketPingInterval''))),
      (component_new ''OCPPCommCtrlr'', valued ''10'' (mutable ReadsWrites (seconds ''RetryBackOffWaitMinimum''))),
      (component_new ''OCPPCommCtrlr'', valued ''10'' (mutable ReadsWrites (seconds ''RetryBackOffRandomRange''))),
      (component_new ''OCPPCommCtrlr'', valued ''3'' (mutable ReadsWrites (spec_new ''RetryBackOffRepeatTimes'' IntegerType))),
      (component_new ''OCPPCommCtrlr'', valued ''600'' (mutable ReadsWrites (seconds ''OfflineThreshold''))),
      (component_new ''OCPPCommCtrlr'', valued ''false'' (mutable ReadsWrites (spec_new ''QueueAllMessages'' BooleanType))),
      (component_new ''OCPPCommCtrlr'', valued ''0'' (mutable ReadsWrites (spec_new ''NetworkConfigurationPriority'' StringType))),
      (component_new ''OCPPCommCtrlr'', valued ''3'' (mutable ReadsWrites (spec_new ''NetworkProfileConnectionAttempts'' IntegerType))),
      (component_new ''SecurityCtrlr'',
        valued ''1'' (limits (Some (from_i64 1)) (Some (from_i64 3)) (spec_new ''SecurityProfile'' IntegerType))),
      (component_new ''SecurityCtrlr'', mutable WritesOnly (spec_new ''BasicAuthPassword'' StringType)),
      (component_new ''SecurityCtrlr'', as_constant (spec_new ''Identity'' StringType)),
      (component_new ''SecurityCtrlr'', mutable ReadsWrites (spec_new ''OrganizationName'' StringType)),
      (component_new ''TxCtrlr'',
        valued ''PowerPathClosed'' (one_of TX_POINT_VALUES (mutable ReadsWrites (spec_new ''TxStartPoint'' MemberList)))),
      (component_new ''TxCtrlr'',
        valued ''EVConnected'' (one_of TX_POINT_VALUES (mutable ReadsWrites (spec_new ''TxStopPoint'' MemberList)))),
      (component_new ''TxCtrlr'', valued ''true'' (mutable ReadsWrites (spec_new ''StopTxOnInvalidId'' BooleanType))),
      (component_new ''AuthCtrlr'', valued ''false'' (mutable ReadsWrites (spec_new ''AuthorizeRemoteStart'' BooleanType))),
      (component_new ''AuthCtrlr'', valued ''false'' (mutable ReadsWrites (spec_new ''LocalPreAuthorize'' BooleanType))),
      (component_new ''AuthCacheCtrlr'', valued ''true'' (mutable ReadsWrites (spec_new ''Enabled'' BooleanType))),
      (component_new ''LocalAuthListCtrlr'', valued ''true'' (mutable ReadsWrites (spec_new ''Enabled'' BooleanType))),
      (component_new ''LocalAuthListCtrlr'', valued ''0'' (spec_new ''Entries'' IntegerType)),
      (component_new ''ClockCtrlr'',
        valued ''Heartbeat''
          (one_of [''Heartbeat'', ''NTP'', ''GPS'', ''RealTimeClock'', ''MobileNetwork'', ''RadioTimeTransmitter'']
            (mutable ReadsWrites (spec_new ''TimeSource'' SequenceList)))),
      (component_new ''ClockCtrlr'', spec_new ''DateTime'' DateTimeType),
      (component_new ''DeviceDataCtrlr'', valued ''25'' (spec_instance ''GetReport'' (spec_new ''ItemsPerMessage'' IntegerType))),
      (component_new ''DeviceDataCtrlr'', valued ''65536'' (spec_instance ''GetReport'' (spec_new ''BytesPerMessage'' IntegerType)))]"

definition dm_with_defaults :: device_model where
  "dm_with_defaults = foldl (\<lambda>m (c, s). dm_declare c s m) [] dm_defaults"

section \<open>A model is well formed\<close>

definition dm_ok :: "device_model \<Rightarrow> bool" where
  "dm_ok m \<longleftrightarrow> bt_ok m \<and> (\<forall>(c, vs) \<in> set m. bt_ok vs \<and> (\<forall>(v, s) \<in> set vs. spec_key s = v))"

definition lookup :: "component_key \<Rightarrow> variable_key \<Rightarrow> device_model \<Rightarrow> variable_spec option" where
  "lookup c v m = (case bt_get m c of None \<Rightarrow> None | Some vs \<Rightarrow> bt_get vs v)"

lemma bt_getD: "bt_get xs k = Some v \<Longrightarrow> (k, v) \<in> set xs"
  by (simp add: bt_get_def map_of_SomeD)

lemma dm_ok_lookup: "dm_ok m \<Longrightarrow> lookup c v m = Some s \<Longrightarrow> spec_key s = v"
  by (fastforce simp: dm_ok_def lookup_def dest!: bt_getD split: option.splits)

lemma dm_ok_component: "dm_ok m \<Longrightarrow> bt_get m c = Some vs \<Longrightarrow> bt_ok vs"
  by (fastforce simp: dm_ok_def dest!: bt_getD)

lemma dm_ok_put:
  assumes "dm_ok m" and "vs = [] \<or> bt_get m c = Some vs"
  shows "dm_ok (bt_insert c (bt_insert (spec_key s) s vs) m)"
proof -
  have vs: "bt_ok vs \<and> (\<forall>(v, s) \<in> set vs. spec_key s = v)"
    using assms by (auto simp: dm_ok_def bt_ok_def dest!: bt_getD)
  then have "\<forall>(v, s) \<in> set (bt_insert (spec_key s) s vs). spec_key s = v"
    by (auto simp: set_bt_insert)
  then show ?thesis
    using assms(1) vs by (auto simp: dm_ok_def set_bt_insert bt_insert_ok)
qed

lemma dm_declare_ok: "dm_ok m \<Longrightarrow> dm_ok (dm_declare c s m)"
  unfolding dm_declare_def by (rule dm_ok_put) (auto split: option.splits)

definition declare_all :: "(component_key \<times> variable_spec) list \<Rightarrow> device_model" where
  "declare_all cs = foldl (\<lambda>m (c, s). dm_declare c s m) [] cs"

lemma declare_all_ok: "dm_ok (declare_all cs)"
  by (induction cs rule: rev_induct)
     (auto simp: declare_all_def dm_declare_ok, simp add: dm_ok_def bt_ok_def)

lemma lookup_declare:
  assumes "dm_ok m"
  shows "lookup c' v' (dm_declare c s m) =
    (if c' = c \<and> v' = spec_key s then Some s else lookup c' v' m)"
proof -
  have "bt_ok (case bt_get m c of None \<Rightarrow> [] | Some vs \<Rightarrow> vs)"
    using dm_ok_component [OF assms, of c] by (simp add: bt_ok_def split: option.splits)
  then show ?thesis
    using assms by (auto simp: dm_declare_def lookup_def dm_ok_def bt_get_insert bt_get_def split: option.splits)
qed

definition keyed :: "component_key \<times> variable_spec \<Rightarrow> (component_key \<times> variable_key) \<times> variable_spec" where
  "keyed e = ((fst e, spec_key (snd e)), snd e)"

lemma lookup_declared: "lookup c v (declare_all cs) = map_of (rev (map keyed cs)) (c, v)"
proof (induction cs rule: rev_induct)
  case Nil
  then show ?case by (simp add: declare_all_def lookup_def bt_get_def)
next
  case (snoc e es)
  then show ?case
    using lookup_declare [OF declare_all_ok [of es], of c v "fst e" "snd e"]
    by (cases e) (auto simp: declare_all_def keyed_def)
qed

lemma lookup_declare_all: "lookup c v (declare_all cs) = Some s \<Longrightarrow> (c, s) \<in> set cs \<and> spec_key s = v"
  by (auto simp: lookup_declared keyed_def dest!: map_of_SomeD)

section \<open>What a write does\<close>

definition took :: "set_status \<Rightarrow> bool" where
  "took st \<longleftrightarrow> st = SetAccepted \<or> st = SetRebootRequired"

lemma dm_set_cases:
  assumes "dm_ok m"
  obtains (refused) "snd (dm_set ts c v a x m) = m" "\<not> took (fst (dm_set ts c v a x m))"
      "\<forall>s. lookup c v m = Some s \<longrightarrow> refusal ts a x s \<noteq> None"
  | (taken) s vs where "lookup c v m = Some s" "refusal ts a x s = None" "bt_get m c = Some vs"
      "bt_get vs v = Some s" "took (fst (dm_set ts c v a x m))"
      "snd (dm_set ts c v a x m) = bt_insert c (bt_insert v (spec_store a x s) vs) m"
proof (cases "bt_get m c")
  case None
  then show thesis by (intro refused) (simp_all add: dm_set_def lookup_def took_def)
next
  case (Some vs)
  show thesis
  proof (cases "bt_get vs v")
    case None
    then show thesis using Some by (intro refused) (simp_all add: dm_set_def lookup_def took_def)
  next
    case s: (Some s)
    show thesis
    proof (cases "refusal ts a x s")
      case None
      then show thesis using Some s by (intro taken) (simp_all add: dm_set_def lookup_def took_def)
    next
      case (Some st)
      then have "\<not> took st" by (auto simp: refusal_def took_def split: if_splits)
      then show thesis
        using Some s \<open>bt_get m c = Some vs\<close>
        by (intro refused) (simp_all add: dm_set_def lookup_def)
    qed
  qed
qed

lemma dm_set_ok: "dm_ok m \<Longrightarrow> dm_ok (snd (dm_set ts c v a x m))"
proof -
  assume m: "dm_ok m"
  then show ?thesis
  proof (cases rule: dm_set_cases [OF m, of ts c v a x])
    case (2 s vs)
    then have "spec_key (spec_store a x s) = v"
      using dm_ok_lookup [OF m] by (simp add: spec_store_def)
    then show ?thesis using dm_ok_put [OF m, of vs c "spec_store a x s"] 2 by simp
  qed simp
qed

lemma lookup_put:
  assumes "dm_ok m" and "bt_get m c = Some vs"
  shows "lookup c' v' (bt_insert c (bt_insert v s vs) m) =
    (if c' = c \<and> v' = v then Some s else lookup c' v' m)"
  using assms dm_ok_component [OF assms] by (auto simp: lookup_def bt_get_insert dm_ok_def)

lemma dm_get_lookup:
  "dm_get c v a m =
     (case lookup c v m of
        None \<Rightarrow> Inl (if bt_get m c = None then GetUnknownComponent else GetUnknownVariable)
      | Some s \<Rightarrow>
          if \<not> readable (spec_mutability s) then Inl GetRejected
          else if a \<notin> spec_supported s then Inl GetNotSupportedAttributeType
          else Inr (case spec_values s a of None \<Rightarrow> [] | Some x \<Rightarrow> x))"
  by (simp add: dm_get_def lookup_def split: option.splits)

text \<open>
  A write takes exactly if the variable is there, can be written, supports the attribute and
  the value is allowed. Then the attribute reads as the value written, or stays unreadable, and
  nothing else reads differently; a write that does not take leaves the model as it is.
\<close>

theorem write_takes_or_not:
  assumes "dm_ok m"
  shows "(took (fst (dm_set ts c v a x m)) \<longleftrightarrow>
      (\<exists>s. lookup c v m = Some s \<and> writable (spec_mutability s) \<and> \<not> spec_constant s \<and>
         a \<in> spec_supported s \<and> write_allowed ts s x)) \<and>
    (\<not> took (fst (dm_set ts c v a x m)) \<longrightarrow> snd (dm_set ts c v a x m) = m) \<and>
    (took (fst (dm_set ts c v a x m)) \<longrightarrow>
      (\<forall>c' v' a'. dm_get c' v' a' (snd (dm_set ts c v a x m)) =
         (if (c', v', a') = (c, v, a) \<and> dm_get c v a m \<noteq> Inl GetRejected then Inr x
          else dm_get c' v' a' m)))"
proof (cases rule: dm_set_cases [OF assms, of ts c v a x])
  case 1
  then show ?thesis by (auto simp: refusal_def split: if_splits)
next
  case (2 s vs)
  have a: "writable (spec_mutability s)" "\<not> spec_constant s" "a \<in> spec_supported s" "write_allowed ts s x"
    using 2(2) by (auto simp: refusal_def split: if_splits)
  have "dm_get c' v' a' (snd (dm_set ts c v a x m)) =
      (if (c', v', a') = (c, v, a) \<and> dm_get c v a m \<noteq> Inl GetRejected then Inr x
       else dm_get c' v' a' m)" for c' v' a'
  proof -
    have there: "(bt_get (bt_insert c (bt_insert v (spec_store a x s) vs) m) c' = None) = (bt_get m c' = None)"
      using assms 2(3) by (simp add: bt_get_insert dm_ok_def)
    show ?thesis
      unfolding dm_get_lookup 2(6) lookup_put [OF assms 2(3)] there
      using 2(1) a(3) by (auto simp: spec_store_def)
  qed
  then show ?thesis using 2 a by blast
qed

section \<open>What a write-only variable holds is seen nowhere\<close>

text \<open>
  A system whose answers depend on a view of its state, and whose steps keep states with the same
  view apart in nothing else: then no sequence of requests tells the two states apart.
\<close>

locale unwinding =
  fixes step :: "'r \<Rightarrow> 's \<Rightarrow> 'o \<times> 's" and view :: "'s \<Rightarrow> 'v"
  assumes step_answer: "view s = view t \<Longrightarrow> fst (step r s) = fst (step r t)"
    and step_view: "view s = view t \<Longrightarrow> view (snd (step r s)) = view (snd (step r t))"
begin

fun answers :: "'r list \<Rightarrow> 's \<Rightarrow> 'o list" where
  "answers [] s = []"
| "answers (r # rs) s = fst (step r s) # answers rs (snd (step r s))"

lemma answers_agree: "view s = view t \<Longrightarrow> answers rs s = answers rs t"
proof (induction rs arbitrary: s t)
  case (Cons r rs)
  show ?case
    using step_answer [OF Cons.prems, of r] Cons.IH [OF step_view [OF Cons.prems, of r]] by simp
qed simp

end

definition public_spec :: "variable_spec \<Rightarrow> variable_spec" where
  "public_spec s = (if readable (spec_mutability s) then s else s\<lparr>spec_values := (\<lambda>_. None)\<rparr>)"

definition public_variables :: "(variable_key \<times> variable_spec) list \<Rightarrow> (variable_key \<times> variable_spec) list" where
  "public_variables vs = map (\<lambda>(v, s). (v, public_spec s)) vs"

definition public_model :: "device_model \<Rightarrow> device_model" where
  "public_model m = map (\<lambda>(c, vs). (c, public_variables vs)) m"

datatype dm_request =
    GetVariable component_key variable_key attribute
  | SetVariable component_key variable_key attribute string
  | GetReport report_base "string option" "string option" nat

datatype dm_answer =
    Got "get_status + string"
  | Set_Result set_status
  | Reported "(int \<times> bool \<times> report_datum list) list"

fun dm_step :: "(string \<Rightarrow> bool) \<Rightarrow> dm_request \<Rightarrow> device_model \<Rightarrow> dm_answer \<times> device_model" where
  "dm_step ts (GetVariable c v a) m = (Got (dm_get c v a m), m)"
| "dm_step ts (SetVariable c v a x) m = (let (st, m') = dm_set ts c v a x m in (Set_Result st, m'))"
| "dm_step ts (GetReport b cf vf n) m = (Reported (paginate (dm_report b cf vf m) n), m)"

fun dm_answers :: "(string \<Rightarrow> bool) \<Rightarrow> dm_request list \<Rightarrow> device_model \<Rightarrow> dm_answer list" where
  "dm_answers ts [] m = []"
| "dm_answers ts (r # rs) m = fst (dm_step ts r m) # dm_answers ts rs (snd (dm_step ts r m))"

lemma public_spec_fields [simp]:
  "spec_key (public_spec s) = spec_key s" "spec_type (public_spec s) = spec_type s"
  "spec_mutability (public_spec s) = spec_mutability s" "spec_unit (public_spec s) = spec_unit s"
  "spec_list (public_spec s) = spec_list s" "spec_min (public_spec s) = spec_min s"
  "spec_max (public_spec s) = spec_max s" "spec_persistent (public_spec s) = spec_persistent s"
  "spec_constant (public_spec s) = spec_constant s" "spec_reboot (public_spec s) = spec_reboot s"
  "spec_supported (public_spec s) = spec_supported s"
  by (simp_all add: public_spec_def)

lemma public_get_component: "bt_get (public_model m) c = map_option public_variables (bt_get m c)"
  by (induction m) (auto simp: bt_get_def public_model_def)

lemma public_get_variable: "bt_get (public_variables vs) v = map_option public_spec (bt_get vs v)"
  by (induction vs) (auto simp: bt_get_def public_variables_def)

lemmas public_get = public_get_component public_get_variable

lemma public_insert:
  "public_model (bt_insert c vs m) = bt_insert c (public_variables vs) (public_model m)"
  by (induction c vs m rule: bt_insert.induct) (simp_all add: public_model_def)

lemma public_variables_insert:
  "public_variables (bt_insert v s vs) = bt_insert v (public_spec s) (public_variables vs)"
  by (induction v s vs rule: bt_insert.induct) (simp_all add: public_variables_def)

lemma public_variables_idem [simp]: "public_variables (public_variables vs) = public_variables vs"
  by (induction vs) (auto simp: public_variables_def public_spec_def)

lemma public_model_idem [simp]: "public_model (public_model m) = public_model m"
  by (induction m) (auto simp: public_model_def)

lemma public_dm_get: "dm_get c v a (public_model m) = dm_get c v a m"
  by (auto simp: dm_get_def public_get public_spec_def split: option.splits)

lemma public_refusal: "refusal ts a x (public_spec s) = refusal ts a x s"
  by (cases "from_ascii x") (simp_all add: refusal_def write_allowed_def)

lemma public_store: "public_spec (spec_store a x (public_spec s)) = public_spec (spec_store a x s)"
  by (simp add: public_spec_def spec_store_def)

lemma public_dm_set:
  "fst (dm_set ts c v a x (public_model m)) = fst (dm_set ts c v a x m)"
  "public_model (snd (dm_set ts c v a x (public_model m))) = public_model (snd (dm_set ts c v a x m))"
  by (auto simp: dm_set_def public_get public_refusal public_insert public_variables_insert
      public_store public_model_idem public_variables_idem split: option.splits)

lemma public_report: "dm_report b cf vf (public_model m) = dm_report b cf vf m"
proof -
  have datum: "datum c v (public_spec s) = datum c v s" for c v s
    by (simp add: datum_def public_spec_def supported_attributes_def)
  have inc: "included b v (public_spec s) = included b v s" for v s
    by (simp add: included_def split: report_base.split)
  have comp: "report_component b vf c (public_variables vs) = report_component b vf c vs" for c vs
    by (induction vs) (auto simp: report_component_def public_variables_def datum inc)
  show ?thesis
    by (induction m) (auto simp: dm_report_def public_model_def comp)
qed

interpretation dm: unwinding "dm_step ts" public_model
proof
  fix s t :: device_model and r :: dm_request
  assume v: "public_model s = public_model t"
  show "fst (dm_step ts r s) = fst (dm_step ts r t)"
  proof (cases r)
    case (GetVariable c v a)
    then show ?thesis using public_dm_get [of c v a s] public_dm_get [of c v a t] v by simp
  next
    case (SetVariable c v a x)
    then show ?thesis
      using public_dm_set(1) [of ts c v a x s] public_dm_set(1) [of ts c v a x t] v
      by (simp add: case_prod_unfold Let_def)
  next
    case (GetReport b cf vf n)
    then show ?thesis using public_report [of b cf vf s] public_report [of b cf vf t] v by simp
  qed
  show "public_model (snd (dm_step ts r s)) = public_model (snd (dm_step ts r t))"
  proof (cases r)
    case (SetVariable c v a x)
    then show ?thesis
      using public_dm_set(2) [of ts c v a x s] public_dm_set(2) [of ts c v a x t] v
      by (simp add: case_prod_unfold Let_def)
  qed (simp_all add: v)
qed

lemma dm_answers_eq: "dm_answers ts rs m = dm.answers ts rs m"
  by (induction rs arbitrary: m) simp_all

lemma public_store_hidden:
  assumes "dm_ok m" and "lookup c v m = Some s" and "\<not> readable (spec_mutability s)"
  shows "public_model (snd (dm_set ts c v a x m)) = public_model m"
proof (cases rule: dm_set_cases [OF assms(1), of ts c v a x])
  case (2 s' vs)
  have [simp]: "s' = s" using 2(1) assms(2) by simp
  have hidden: "public_spec (spec_store a x s) = public_spec s"
    using assms(3) by (simp add: public_spec_def spec_store_def)
  have same: "bt_insert k (f y) (map (\<lambda>(k, y). (k, f y)) xs) = map (\<lambda>(k, y). (k, f y)) xs"
    if "bt_get xs k = Some y" "bt_ok xs" for k :: "'k :: linorder" and y :: 'y and f :: "'y \<Rightarrow> 'y" and xs
    using that by (induction xs) (auto simp: bt_get_def bt_ok_def dest!: map_of_SomeD split: if_splits)
  show ?thesis
    using same [OF 2(4) dm_ok_component [OF assms(1) 2(3)], of public_spec]
      same [OF 2(3), of public_variables] assms(1)
    by (simp add: 2(6) public_insert public_variables_insert hidden public_variables_def [symmetric]
        public_model_def [symmetric] dm_ok_def)
qed simp

text \<open>
  C25. Whatever is written to a write-only variable, and whether the write takes or not, every
  answer after it is the one that would have been given without it: to reads, to writes and
  their refusals, and in the pages of every report.
\<close>

theorem write_only_unseen:
  assumes "dm_ok m" and "lookup c v m = Some s" and "\<not> readable (spec_mutability s)"
  shows "dm_answers ts rs (snd (dm_set ts c v a x m)) = dm_answers ts rs m"
  unfolding dm_answers_eq
  by (rule dm.answers_agree [OF public_store_hidden [OF assms]])

section \<open>What a variable can come to hold\<close>

definition dm_run :: "(string \<Rightarrow> bool) \<Rightarrow> dm_request list \<Rightarrow> device_model \<Rightarrow> device_model" where
  "dm_run ts rs m = foldl (\<lambda>m r. snd (dm_step ts r m)) m rs"

definition written_from :: "(string \<Rightarrow> bool) \<Rightarrow> variable_spec \<Rightarrow> variable_spec \<Rightarrow> bool" where
  "written_from ts s0 s \<longleftrightarrow>
     s = s0\<lparr>spec_values := spec_values s\<rparr> \<and>
     (\<forall>a. spec_values s a = spec_values s0 a \<or> (\<exists>x. spec_values s a = Some x \<and> write_allowed ts s0 x))"

lemma written_from_refl: "written_from ts s s"
  by (simp add: written_from_def)

lemma written_from_trans: "written_from ts s0 s1 \<Longrightarrow> written_from ts s1 s2 \<Longrightarrow> written_from ts s0 s2"
proof -
  assume 1: "written_from ts s0 s1" and 2: "written_from ts s1 s2"
  have allowed: "write_allowed ts s1 x = write_allowed ts s0 x" for x
  proof -
    have "s1 = s0\<lparr>spec_values := spec_values s1\<rparr>" using 1 by (simp add: written_from_def)
    then have "spec_type s1 = spec_type s0 \<and> spec_list s1 = spec_list s0 \<and> spec_min s1 = spec_min s0 \<and>
        spec_max s1 = spec_max s0"
      by (cases s0; cases s1) simp
    then show ?thesis by (cases "from_ascii x") (simp_all add: write_allowed_def)
  qed
  have "s2 = s0\<lparr>spec_values := spec_values s2\<rparr>"
    using 1 2 by (cases s0; cases s1; cases s2) (simp add: written_from_def)
  moreover have "spec_values s2 a = spec_values s0 a \<or> (\<exists>x. spec_values s2 a = Some x \<and> write_allowed ts s0 x)" for a
    using 1 2 allowed by (simp add: written_from_def) metis
  ultimately show ?thesis by (simp add: written_from_def)
qed

lemma spec_store_written: "refusal ts a x s = None \<Longrightarrow> written_from ts s (spec_store a x s)"
  by (auto simp: written_from_def spec_store_def refusal_def split: if_splits)

lemma dm_step_written:
  assumes "dm_ok m"
  shows "dm_ok (snd (dm_step ts r m)) \<and>
    rel_option (written_from ts) (lookup c v m) (lookup c v (snd (dm_step ts r m)))"
proof -
  have refl: "rel_option (written_from ts) l l" for l
    by (cases l) (simp_all add: written_from_refl)
  show ?thesis
  proof (cases r)
    case (SetVariable c' v' a x)
    have "rel_option (written_from ts) (lookup c v m) (lookup c v (snd (dm_set ts c' v' a x m)))"
    proof (cases rule: dm_set_cases [OF assms, of ts c' v' a x])
      case (2 s vs)
      then show ?thesis
        using spec_store_written [OF 2(2)] refl by (simp add: lookup_put [OF assms 2(3)])
    qed (simp add: refl)
    then show ?thesis
      using SetVariable dm_set_ok [OF assms] by (simp add: case_prod_unfold Let_def)
  qed (simp_all add: assms refl)
qed

lemma dm_run_written:
  assumes "dm_ok m"
  shows "dm_ok (dm_run ts rs m) \<and> rel_option (written_from ts) (lookup c v m) (lookup c v (dm_run ts rs m))"
proof (induction rs rule: rev_induct)
  case Nil
  show ?case using assms by (cases "lookup c v m") (simp_all add: dm_run_def written_from_refl)
next
  case (snoc r rs)
  then have ok: "dm_ok (dm_run ts rs m)" by blast
  show ?case
    using snoc dm_step_written [OF ok, of ts r c v]
    by (cases "lookup c v m"; cases "lookup c v (dm_run ts rs m)";
        cases "lookup c v (snd (dm_step ts r (dm_run ts rs m)))")
       (auto simp: dm_run_def intro: written_from_trans)
qed

text \<open>The limits as numbers, and what a value that conforms to its declaration is.\<close>

definition in_limits :: "variable_spec \<Rightarrow> rat \<Rightarrow> bool" where
  "in_limits s q \<longleftrightarrow> (\<forall>l. spec_min s = Some l \<longrightarrow> val l \<le> q) \<and> (\<forall>h. spec_max s = Some h \<longrightarrow> q \<le> val h)"

definition conforms :: "(string \<Rightarrow> bool) \<Rightarrow> variable_spec \<Rightarrow> string \<Rightarrow> bool" where
  "conforms ts s x \<longleftrightarrow>
     data_type_accepts ts (spec_type s) (spec_list s) x \<and>
     (spec_type s = IntegerType \<longrightarrow>
        (\<forall>n. parse_i64 x = Some n \<longrightarrow> n = i64_min \<or> in_limits s (of_int n))) \<and>
     (spec_type s = DecimalType \<longrightarrow> (\<forall>n. from_ascii x = Inr n \<longrightarrow> in_limits s (val n)))"

lemma outside_in_limits: "outside (spec_min s) (spec_max s) n \<longleftrightarrow> \<not> in_limits s (val n)"
  by (auto simp: outside_def in_limits_def compare_val split: option.splits)

lemma val_int: "val \<lparr>mantissa = n, scale = 0\<rparr> = of_int n"
  by (simp add: val_def)

lemma write_allowed_conforms: "write_allowed ts s x \<Longrightarrow> conforms ts s x"
proof -
  assume w: "write_allowed ts s x"
  have "n = i64_min \<or> in_limits s (of_int n)" if "spec_type s = IntegerType" "parse_i64 x = Some n" for n
    using w that i64_as_decimal [OF that(2)] outside_in_limits [of s "\<lparr>mantissa = n, scale = 0\<rparr>"]
    by (auto simp: write_allowed_def val_int split: if_splits)
  moreover have "in_limits s (val n)" if "spec_type s = DecimalType" "from_ascii x = Inr n" for n
    using w that outside_in_limits [of s n] by (simp add: write_allowed_def)
  ultimately show ?thesis using w by (simp add: conforms_def write_allowed_def)
qed

lemma conforms_written: "written_from ts s0 s \<Longrightarrow> conforms ts s x = conforms ts s0 x"
proof -
  assume "written_from ts s0 s"
  then have "s = s0\<lparr>spec_values := spec_values s\<rparr>" by (simp add: written_from_def)
  then have "spec_type s = spec_type s0 \<and> spec_list s = spec_list s0 \<and> spec_min s = spec_min s0 \<and>
      spec_max s = spec_max s0"
    by (cases s0; cases s) simp
  then show ?thesis by (simp add: conforms_def in_limits_def)
qed

text \<open>
  C26. In a model declared with values that conform to their declarations, every value that any
  requests can leave behind conforms: it is one of the declared type, and a number is within the
  declared limits, unless it is the smallest number of \<open>i64\<close>.
\<close>

theorem stored_values_conform:
  assumes "\<forall>(c, s) \<in> set cs. \<forall>a x. spec_values s a = Some x \<longrightarrow> conforms ts s x"
    and "lookup c v (dm_run ts rs (declare_all cs)) = Some s" and "spec_values s a = Some x"
  shows "conforms ts s x"
proof -
  obtain s0 where s0: "lookup c v (declare_all cs) = Some s0" "written_from ts s0 s"
    using dm_run_written [OF declare_all_ok, of ts rs cs c v] assms(2)
    by (cases "lookup c v (declare_all cs)") auto
  have "spec_values s0 a = Some x \<or> write_allowed ts s0 x"
    using s0(2) assms(3) unfolding written_from_def by (metis option.inject)
  then have "conforms ts s0 x"
    using assms(1) lookup_declare_all [OF s0(1)] write_allowed_conforms by auto
  then show ?thesis using conforms_written [OF s0(2)] by simp
qed

text \<open>
  The exception is real: whatever limits an integer variable declares, the write of the
  smallest number of \<open>i64\<close> is accepted, as \<open>Decimal\<close> cannot read it and only a number that was
  read is compared with them.
\<close>

theorem smallest_integer_escapes_limits:
  assumes "lookup c v m = Some s" and "spec_type s = IntegerType" and "writable (spec_mutability s)"
    and "\<not> spec_constant s" and "a \<in> spec_supported s"
  shows "took (fst (dm_set ts c v a ''-9223372036854775808'' m)) \<and>
    (\<forall>l. spec_min s = Some l \<longrightarrow> of_int i64_min < val l \<longrightarrow> \<not> in_limits s (of_int i64_min))"
proof -
  have smallest: "parse_i64 ''-9223372036854775808'' = Some i64_min" by code_simp
  then have "write_allowed ts s ''-9223372036854775808''"
    using assms(2) i64_as_decimal [OF smallest]
    by (simp add: write_allowed_def data_type_accepts_def)
  then have "refusal ts a ''-9223372036854775808'' s = None"
    using assms by (simp add: refusal_def)
  then show ?thesis
    using assms(1) by (auto simp: dm_set_def lookup_def took_def in_limits_def split: option.splits)
qed

section \<open>What starts a transaction is read whole\<close>

lemma dm_with_defaults_all: "dm_with_defaults = declare_all dm_defaults"
  by (simp add: dm_with_defaults_def declare_all_def)

lemma tx_point_values: "set TX_POINT_VALUES = range tx_point_as_str"
proof -
  have "(UNIV :: tx_point set) = set tx_points" by (auto simp: tx_points_def intro: tx_point.exhaust)
  then have "range tx_point_as_str = tx_point_as_str ` set tx_points" by simp
  then show ?thesis by (simp add: tx_points_def tx_point_as_str_def TX_POINT_VALUES_def)
qed

lemma listed_points:
  assumes "listed TX_POINT_VALUES x"
  shows "\<exists>ps. ps \<noteq> [] \<and> map trim (split_on (CHR '','') x) = map tx_point_as_str ps \<and> parse_list x = set ps"
proof -
  have "\<forall>item \<in> set (split_on (CHR '','') x). \<exists>p. trim item = tx_point_as_str p"
    using assms by (auto simp: listed_def list_all_iff tx_point_values)
  then obtain f where f: "\<forall>item \<in> set (split_on (CHR '','') x). trim item = tx_point_as_str (f item)"
    by metis
  let ?ps = "map f (split_on (CHR '','') x)"
  have "map trim (split_on (CHR '','') x) = map tx_point_as_str ?ps" using f by simp
  moreover have "parse_list x = set ?ps"
    using f by (auto simp: parse_list_def List.map_filter_def tx_point_wire.of_to intro: image_eqI)
  ultimately show ?thesis by (intro exI [of _ ?ps]) simp
qed

lemma default_start_point:
  "lookup (component_new ''TxCtrlr'') (variable_new ''TxStartPoint'') dm_with_defaults =
     Some (valued ''PowerPathClosed''
       (one_of TX_POINT_VALUES (mutable ReadsWrites (spec_new ''TxStartPoint'' MemberList))))"
  by (simp add: dm_with_defaults_all lookup_declared dm_defaults_def keyed_def component_new_def variable_new_def
      valued_def one_of_def mutable_def spec_new_def seconds_def in_unit_def spec_instance_def limits_def as_constant_def)

text \<open>
  Whatever requests a station with the standard controllers has answered, the value of
  \<open>TxStartPoint\<close> reads as a list of points with at least one, and the transaction machine's own
  reader understands all of them: no part of it is dropped.
\<close>

theorem start_points_read_whole:
  "\<exists>x ps. dm_get (component_new ''TxCtrlr'') (variable_new ''TxStartPoint'') Actual
       (dm_run ts rs dm_with_defaults) = Inr x \<and>
     ps \<noteq> [] \<and> map trim (split_on (CHR '','') x) = map tx_point_as_str ps \<and> parse_list x = set ps"
proof -
  let ?c = "component_new ''TxCtrlr''" and ?v = "variable_new ''TxStartPoint''"
  let ?s0 = "valued ''PowerPathClosed'' (one_of TX_POINT_VALUES (mutable ReadsWrites (spec_new ''TxStartPoint'' MemberList)))"
  have "lookup ?c ?v dm_with_defaults = Some ?s0" by (rule default_start_point)
  then obtain s where s: "lookup ?c ?v (dm_run ts rs dm_with_defaults) = Some s" "written_from ts ?s0 s"
    using dm_run_written [OF declare_all_ok, of ts rs dm_defaults ?c ?v]
    by (cases "lookup ?c ?v (dm_run ts rs dm_with_defaults)") (auto simp: dm_with_defaults_all)
  have fields: "spec_mutability s = ReadsWrites" "Actual \<in> spec_supported s"
    using s(2) by (cases s; simp add: written_from_def valued_def one_of_def mutable_def spec_new_def)+
  have "\<exists>x. spec_values s Actual = Some x \<and> listed TX_POINT_VALUES x"
  proof -
    have "listed TX_POINT_VALUES ''PowerPathClosed''" "TX_POINT_VALUES \<noteq> []" by code_simp+
    then show ?thesis
      using s(2)
      by (auto simp: written_from_def valued_def one_of_def mutable_def spec_new_def write_allowed_def
          data_type_accepts_def dest: spec [of _ Actual])
  qed
  then obtain x where x: "spec_values s Actual = Some x" "listed TX_POINT_VALUES x" by blast
  then show ?thesis
    using listed_points [OF x(2)] s(1) fields
    by (simp add: dm_get_lookup readable_def)
qed

section \<open>The pages of a report\<close>

lemma chunks_concat: "0 < n \<Longrightarrow> concat (chunks n xs) = xs"
  by (induction n xs rule: chunks.induct) (subst chunks.simps, simp)

lemma chunks_sizes: "c \<in> set (chunks n xs) \<Longrightarrow> 0 < length c \<and> length c \<le> n"
  by (induction n xs rule: chunks.induct) (subst (asm) chunks.simps, auto split: if_splits)

lemma number_pages_nth:
  "i < length cs \<Longrightarrow> number_pages seq cs ! i = (seq + int i, Suc i < length cs, cs ! i)"
  by (induction cs arbitrary: seq i) (auto simp: nth_Cons split: nat.splits)

lemma number_pages_length [simp]: "length (number_pages seq cs) = length cs"
  by (induction cs arbitrary: seq) auto

text \<open>
  The pages of a report hold its data, once and in order, none more than was asked for; they
  are numbered from 0 without a gap, and all but the last one say that another follows. There is
  always a page.
\<close>

theorem pages_are_the_report:
  "concat (map (\<lambda>(q, tbc, c). c) (paginate xs n)) = xs \<and> paginate xs n \<noteq> [] \<and>
   (\<forall>i < length (paginate xs n). \<exists>c. paginate xs n ! i = (int i, Suc i < length (paginate xs n), c) \<and>
      length c \<le> max n 1)"
proof -
  have pos: "0 < max n 1" by simp
  let ?cs = "chunks (max n 1) xs"
  show ?thesis
  proof (cases "?cs = []")
    case True
    then show ?thesis using chunks_concat [OF pos, of xs] by (simp add: paginate_def)
  next
    case False
    have cs: "map (\<lambda>(q, tbc, c). c) (number_pages 0 ?cs) = ?cs"
      by (rule nth_equalityI) (simp_all add: number_pages_nth)
    then show ?thesis
      using False chunks_concat [OF pos, of xs] chunks_sizes [of _ "max n 1" xs]
      by (auto simp: paginate_def number_pages_nth cs)
  qed
qed

section \<open>Examples\<close>

lemma dm_defaults_ok: "dm_ok dm_with_defaults"
  by (simp add: dm_with_defaults_all declare_all_ok)

theorem write_takes_or_not_witness:
  "took (fst (dm_set (\<lambda>_. True) (component_new ''OCPPCommCtrlr'') (variable_new ''HeartbeatInterval'') Actual ''600'' dm_with_defaults)) \<and>
   dm_get (component_new ''OCPPCommCtrlr'') (variable_new ''HeartbeatInterval'') Actual
     (snd (dm_set (\<lambda>_. True) (component_new ''OCPPCommCtrlr'') (variable_new ''HeartbeatInterval'') Actual ''600'' dm_with_defaults)) = Inr ''600''"
proof -
  have t: "took (fst (dm_set (\<lambda>_. True) (component_new ''OCPPCommCtrlr'') (variable_new ''HeartbeatInterval'') Actual ''600'' dm_with_defaults))"
    by code_simp
  have "dm_get (component_new ''OCPPCommCtrlr'') (variable_new ''HeartbeatInterval'') Actual dm_with_defaults = Inr ''300''"
    by code_simp
  then show ?thesis
    using write_takes_or_not [OF dm_defaults_ok, of "\<lambda>_. True" "component_new ''OCPPCommCtrlr''"
        "variable_new ''HeartbeatInterval''" Actual "''600''"] t
    by simp
qed

theorem write_only_unseen_witness:
  "took (fst (dm_set (\<lambda>_. True) (component_new ''SecurityCtrlr'') (variable_new ''BasicAuthPassword'') Actual ''secret'' dm_with_defaults)) \<and>
   dm_answers (\<lambda>_. True)
     [GetVariable (component_new ''SecurityCtrlr'') (variable_new ''BasicAuthPassword'') Actual,
      GetReport FullInventory None None 10]
     (snd (dm_set (\<lambda>_. True) (component_new ''SecurityCtrlr'') (variable_new ''BasicAuthPassword'') Actual ''secret'' dm_with_defaults)) =
   dm_answers (\<lambda>_. True)
     [GetVariable (component_new ''SecurityCtrlr'') (variable_new ''BasicAuthPassword'') Actual,
      GetReport FullInventory None None 10] dm_with_defaults"
proof
  show "took (fst (dm_set (\<lambda>_. True) (component_new ''SecurityCtrlr'') (variable_new ''BasicAuthPassword'') Actual ''secret'' dm_with_defaults))"
    by code_simp
  have "lookup (component_new ''SecurityCtrlr'') (variable_new ''BasicAuthPassword'') dm_with_defaults =
      Some (mutable WritesOnly (spec_new ''BasicAuthPassword'' StringType))"
    by (simp add: dm_with_defaults_all lookup_declared dm_defaults_def keyed_def component_new_def variable_new_def
        valued_def one_of_def mutable_def spec_new_def seconds_def in_unit_def spec_instance_def limits_def as_constant_def)
  then show "dm_answers (\<lambda>_. True)
     [GetVariable (component_new ''SecurityCtrlr'') (variable_new ''BasicAuthPassword'') Actual,
      GetReport FullInventory None None 10]
     (snd (dm_set (\<lambda>_. True) (component_new ''SecurityCtrlr'') (variable_new ''BasicAuthPassword'') Actual ''secret'' dm_with_defaults)) =
   dm_answers (\<lambda>_. True)
     [GetVariable (component_new ''SecurityCtrlr'') (variable_new ''BasicAuthPassword'') Actual,
      GetReport FullInventory None None 10] dm_with_defaults"
    by (rule write_only_unseen [OF dm_defaults_ok]) (simp add: mutable_def readable_def)
qed

definition dial :: "component_key \<times> variable_spec" where
  "dial = (component_new ''Dial'',
     valued ''5'' (limits (Some (from_i64 1)) (Some (from_i64 9)) (mutable ReadsWrites (spec_new ''Level'' IntegerType))))"

theorem stored_values_conform_witness:
  "\<exists>s. lookup (component_new ''Dial'') (variable_new ''Level'')
       (dm_run (\<lambda>_. True)
         [SetVariable (component_new ''Dial'') (variable_new ''Level'') Actual ''7'',
          SetVariable (component_new ''Dial'') (variable_new ''Level'') Actual ''12''] (declare_all [dial])) = Some s \<and>
     spec_values s Actual = Some ''7'' \<and> conforms (\<lambda>_. True) s ''7''"
proof -
  let ?m = "dm_run (\<lambda>_. True)
         [SetVariable (component_new ''Dial'') (variable_new ''Level'') Actual ''7'',
          SetVariable (component_new ''Dial'') (variable_new ''Level'') Actual ''12''] (declare_all [dial])"
  have "map_option (\<lambda>s. spec_values s Actual) (lookup (component_new ''Dial'') (variable_new ''Level'') ?m) = Some (Some ''7'')"
    by code_simp
  then obtain s where s: "lookup (component_new ''Dial'') (variable_new ''Level'') ?m = Some s" "spec_values s Actual = Some ''7''"
    by auto
  have five: "parse_i64 ''5'' = Some 5" by code_simp
  have "\<forall>(c, s) \<in> set [dial]. \<forall>a x. spec_values s a = Some x \<longrightarrow> conforms (\<lambda>_. True) s x"
    by (auto simp: dial_def valued_def limits_def mutable_def spec_new_def conforms_def data_type_accepts_def
        in_limits_def from_i64_def val_int five split: if_splits)
  from stored_values_conform [OF this s] show ?thesis using s by blast
qed

theorem smallest_integer_escapes_limits_witness:
  "took (fst (dm_set (\<lambda>_. True) (component_new ''Dial'') (variable_new ''Level'') Actual ''-9223372036854775808'' (declare_all [dial])))"
proof -
  have "lookup (component_new ''Dial'') (variable_new ''Level'') (declare_all [dial]) = Some (snd dial)"
    by (simp add: lookup_declared keyed_def dial_def valued_def limits_def mutable_def spec_new_def variable_new_def)
  from smallest_integer_escapes_limits [OF this, of Actual "\<lambda>_. True"] show ?thesis
    by (simp add: dial_def valued_def limits_def mutable_def spec_new_def writable_def)
qed

end
