(* ===== verification/Standard_Components.thy ===== *)
theory Standard_Components
  imports Prelude
begin

text \<open>
  \<open>standard/components.rs\<close>: the components and variables OCPP 2.x standardises, a catalogue the
  sources generate from the specification's appendix, and the two lookups in it. The device model
  declares variables from it by name.
\<close>

datatype component_kind = Controller | Physical

record standard_variable =
  sv_name :: string
  sv_instance :: "string option"
  sv_attribute :: "string option"
  sv_type :: "string option"
  sv_unit :: "string option"

record standard_component =
  sc_name :: string
  sc_kind :: component_kind
  sc_variables :: "standard_variable list"

section \<open>The catalogue\<close>

definition ALIGNEDDATACTRLR :: "standard_variable list" where
  "ALIGNEDDATACTRLR =
     [\<lparr>sv_name = ''Enabled'', sv_instance = None, sv_attribute = None, sv_type = Some ''boolean'', sv_unit = None\<rparr>,
      \<lparr>sv_name = ''Available'', sv_instance = None, sv_attribute = None, sv_type = Some ''boolean'', sv_unit = None\<rparr>,
      \<lparr>sv_name = ''Interval'', sv_instance = None, sv_attribute = None, sv_type = Some ''integer'', sv_unit = Some ''s''\<rparr>,
      \<lparr>sv_name = ''Measurands'', sv_instance = None, sv_attribute = None, sv_type = Some ''MemberList'', sv_unit = None\<rparr>,
      \<lparr>sv_name = ''SendDuringIdle'', sv_instance = None, sv_attribute = None, sv_type = Some ''boolean'', sv_unit = None\<rparr>,
      \<lparr>sv_name = ''SignReadings'', sv_instance = None, sv_attribute = None, sv_type = Some ''boolean'', sv_unit = None\<rparr>,
      \<lparr>sv_name = ''TxEndedInterval'', sv_instance = None, sv_attribute = None, sv_type = Some ''integer'', sv_unit = Some ''s''\<rparr>,
      \<lparr>sv_name = ''TxEndedMeasurands'', sv_instance = None, sv_attribute = None, sv_type = Some ''MemberList'', sv_unit = None\<rparr>]"

definition AUTHCTRLR :: "standard_variable list" where
  "AUTHCTRLR =
     [\<lparr>sv_name = ''Enabled'', sv_instance = None, sv_attribute = None, sv_type = Some ''boolean'', sv_unit = None\<rparr>,
      \<lparr>sv_name = ''AdditionalInfoItemsPerMessage'', sv_instance = None, sv_attribute = None, sv_type = Some ''integer'', sv_unit = None\<rparr>,
      \<lparr>sv_name = ''AuthorizeRemoteStart'', sv_instance = None, sv_attribute = None, sv_type = Some ''boolean'', sv_unit = None\<rparr>,
      \<lparr>sv_name = ''DisableRemoteAuthorization'', sv_instance = None, sv_attribute = None, sv_type = Some ''boolean'', sv_unit = None\<rparr>,
      \<lparr>sv_name = ''LocalAuthorizeOffline'', sv_instance = None, sv_attribute = None, sv_type = Some ''boolean'', sv_unit = None\<rparr>,
      \<lparr>sv_name = ''LocalPreAuthorize'', sv_instance = None, sv_attribute = None, sv_type = Some ''boolean'', sv_unit = None\<rparr>,
      \<lparr>sv_name = ''MasterPassGroupId'', sv_instance = None, sv_attribute = None, sv_type = Some ''string'', sv_unit = None\<rparr>,
      \<lparr>sv_name = ''OfflineTxForUnknownIdEnabled'', sv_instance = None, sv_attribute = None, sv_type = Some ''boolean'', sv_unit = None\<rparr>]"

definition AUTHCACHECTRLR :: "standard_variable list" where
  "AUTHCACHECTRLR =
     [\<lparr>sv_name = ''Enabled'', sv_instance = None, sv_attribute = None, sv_type = Some ''boolean'', sv_unit = None\<rparr>,
      \<lparr>sv_name = ''Available'', sv_instance = None, sv_attribute = None, sv_type = Some ''boolean'', sv_unit = None\<rparr>,
      \<lparr>sv_name = ''LifeTime'', sv_instance = None, sv_attribute = None, sv_type = Some ''integer'', sv_unit = Some ''s''\<rparr>,
      \<lparr>sv_name = ''Policy'', sv_instance = None, sv_attribute = None, sv_type = Some ''OptionList'', sv_unit = None\<rparr>,
      \<lparr>sv_name = ''DisablePostAuthorize'', sv_instance = None, sv_attribute = None, sv_type = Some ''boolean'', sv_unit = None\<rparr>]"

definition CHADEMOCTRLR :: "standard_variable list" where
  "CHADEMOCTRLR =
     [\<lparr>sv_name = ''Enabled'', sv_instance = None, sv_attribute = None, sv_type = Some ''boolean'', sv_unit = None\<rparr>,
      \<lparr>sv_name = ''Active'', sv_instance = None, sv_attribute = None, sv_type = Some ''boolean'', sv_unit = None\<rparr>,
      \<lparr>sv_name = ''Complete'', sv_instance = None, sv_attribute = None, sv_type = Some ''boolean'', sv_unit = None\<rparr>,
      \<lparr>sv_name = ''Tripped'', sv_instance = None, sv_attribute = None, sv_type = Some ''boolean'', sv_unit = None\<rparr>,
      \<lparr>sv_name = ''Problem'', sv_instance = None, sv_attribute = None, sv_type = Some ''boolean'', sv_unit = None\<rparr>,
      \<lparr>sv_name = ''SelftestActive'', sv_instance = None, sv_attribute = Some ''Set'', sv_type = Some ''boolean'', sv_unit = None\<rparr>,
      \<lparr>sv_name = ''SelftestActive'', sv_instance = None, sv_attribute = None, sv_type = Some ''boolean'', sv_unit = None\<rparr>,
      \<lparr>sv_name = ''Specific'', sv_instance = None, sv_attribute = None, sv_type = None, sv_unit = None\<rparr>,
      \<lparr>sv_name = ''CHAdeMOProtocolNumber'', sv_instance = None, sv_attribute = None, sv_type = Some ''integer'', sv_unit = None\<rparr>,
      \<lparr>sv_name = ''VehicleStatus'', sv_instance = None, sv_attribute = None, sv_type = Some ''boolean'', sv_unit = None\<rparr>,
      \<lparr>sv_name = ''DynamicControl'', sv_instance = None, sv_attribute = None, sv_type = Some ''boolean'', sv_unit = None\<rparr>,
      \<lparr>sv_name = ''HighCurrentControl'', sv_instance = None, sv_attribute = None, sv_type = Some ''boolean'', sv_unit = None\<rparr>,
      \<lparr>sv_name = ''HighVoltageControl'', sv_instance = None, sv_attribute = None, sv_type = Some ''boolean'', sv_unit = None\<rparr>,
      \<lparr>sv_name = ''AutoManufacturerCode'', sv_instance = None, sv_attribute = None, sv_type = Some ''integer'', sv_unit = None\<rparr>]"

definition CLOCKCTRLR :: "standard_variable list" where
  "CLOCKCTRLR =
     [\<lparr>sv_name = ''DateTime'', sv_instance = None, sv_attribute = None, sv_type = Some ''dateTime'', sv_unit = None\<rparr>,
      \<lparr>sv_name = ''NtpServerUri'', sv_instance = None, sv_attribute = None, sv_type = Some ''string'', sv_unit = None\<rparr>,
      \<lparr>sv_name = ''NtpSource'', sv_instance = None, sv_attribute = None, sv_type = Some ''OptionList'', sv_unit = None\<rparr>,
      \<lparr>sv_name = ''TimeOffset'', sv_instance = None, sv_attribute = None, sv_type = Some ''string'', sv_unit = None\<rparr>,
      \<lparr>sv_name = ''NextTimeOffsetTransitionDateTime'', sv_instance = None, sv_attribute = None, sv_type = None, sv_unit = None\<rparr>,
      \<lparr>sv_name = ''TimeSource'', sv_instance = None, sv_attribute = None, sv_type = None, sv_unit = None\<rparr>,
      \<lparr>sv_name = ''TimeZone'', sv_instance = None, sv_attribute = None, sv_type = Some ''string'', sv_unit = None\<rparr>,
      \<lparr>sv_name = ''TimeAdjustmentReportingThreshold'', sv_instance = None, sv_attribute = None, sv_type = None, sv_unit = None\<rparr>]"

definition CUSTOMIZATIONCTRLR :: "standard_variable list" where
  "CUSTOMIZATIONCTRLR =
     [\<lparr>sv_name = ''CustomImplementationEnabled'', sv_instance = None, sv_attribute = None, sv_type = Some ''boolean'', sv_unit = None\<rparr>,
      \<lparr>sv_name = ''CustomTriggers'', sv_instance = None, sv_attribute = None, sv_type = Some ''MemberList'', sv_unit = None\<rparr>]"

definition DEVICEDATACTRLR :: "standard_variable list" where
  "DEVICEDATACTRLR =
     [\<lparr>sv_name = ''BytesPerMessage'', sv_instance = None, sv_attribute = None, sv_type = Some ''integer'', sv_unit = None\<rparr>,
      \<lparr>sv_name = ''ItemsPerMessage'', sv_instance = None, sv_attribute = None, sv_type = Some ''integer'', sv_unit = None\<rparr>,
      \<lparr>sv_name = ''ValueSize'', sv_instance = None, sv_attribute = None, sv_type = Some ''integer'', sv_unit = None\<rparr>]"

definition DISPLAYMESSAGECTRLR :: "standard_variable list" where
  "DISPLAYMESSAGECTRLR =
     [\<lparr>sv_name = ''Enabled'', sv_instance = None, sv_attribute = None, sv_type = Some ''boolean'', sv_unit = None\<rparr>,
      \<lparr>sv_name = ''Available'', sv_instance = None, sv_attribute = None, sv_type = Some ''boolean'', sv_unit = None\<rparr>,
      \<lparr>sv_name = ''DisplayMessages'', sv_instance = None, sv_attribute = None, sv_type = Some ''integer'', sv_unit = None\<rparr>,
      \<lparr>sv_name = ''PersonalMessageSize'', sv_instance = None, sv_attribute = None, sv_type = Some ''integer'', sv_unit = None\<rparr>,
      \<lparr>sv_name = ''SupportedFormats'', sv_instance = None, sv_attribute = None, sv_type = Some ''MemberList'', sv_unit = None\<rparr>,
      \<lparr>sv_name = ''SupportedPriorities'', sv_instance = None, sv_attribute = None, sv_type = Some ''MemberList'', sv_unit = None\<rparr>,
      \<lparr>sv_name = ''SupportedStates'', sv_instance = None, sv_attribute = None, sv_type = Some ''MemberList'', sv_unit = None\<rparr>,
      \<lparr>sv_name = ''Language'', sv_instance = None, sv_attribute = None, sv_type = Some ''OptionList'', sv_unit = None\<rparr>]"

definition ISO15118CTRLR :: "standard_variable list" where
  "ISO15118CTRLR =
     [\<lparr>sv_name = ''Enabled'', sv_instance = None, sv_attribute = None, sv_type = Some ''boolean'', sv_unit = None\<rparr>,
      \<lparr>sv_name = ''Active'', sv_instance = None, sv_attribute = None, sv_type = Some ''boolean'', sv_unit = None\<rparr>,
      \<lparr>sv_name = ''Tripped'', sv_instance = None, sv_attribute = None, sv_type = Some ''boolean'', sv_unit = None\<rparr>,
      \<lparr>sv_name = ''Complete'', sv_instance = None, sv_attribute = None, sv_type = Some ''boolean'', sv_unit = None\<rparr>,
      \<lparr>sv_name = ''Problem'', sv_instance = None, sv_attribute = None, sv_type = Some ''boolean'', sv_unit = None\<rparr>,
      \<lparr>sv_name = ''SeccId'', sv_instance = None, sv_attribute = None, sv_type = Some ''string'', sv_unit = None\<rparr>,
      \<lparr>sv_name = ''SelftestActive'', sv_instance = None, sv_attribute = Some ''Set'', sv_type = Some ''boolean'', sv_unit = None\<rparr>,
      \<lparr>sv_name = ''SelftestActive'', sv_instance = None, sv_attribute = None, sv_type = Some ''boolean'', sv_unit = None\<rparr>,
      \<lparr>sv_name = ''ContractValidationOffline'', sv_instance = None, sv_attribute = None, sv_type = Some ''boolean'', sv_unit = None\<rparr>,
      \<lparr>sv_name = ''CentralContractValidationAllowed'', sv_instance = None, sv_attribute = None, sv_type = Some ''boolean'', sv_unit = None\<rparr>,
      \<lparr>sv_name = ''PnCEnabled'', sv_instance = None, sv_attribute = None, sv_type = Some ''boolean'', sv_unit = None\<rparr>,
      \<lparr>sv_name = ''V2GCertificateInstallationEnabled'', sv_instance = None, sv_attribute = None, sv_type = Some ''boolean'', sv_unit = None\<rparr>,
      \<lparr>sv_name = ''ContractCertificateInstallationEnabled'', sv_instance = None, sv_attribute = None, sv_type = Some ''boolean'', sv_unit = None\<rparr>,
      \<lparr>sv_name = ''RequestMeteringReceipt'', sv_instance = None, sv_attribute = None, sv_type = Some ''boolean'', sv_unit = None\<rparr>,
      \<lparr>sv_name = ''OrganizationName'', sv_instance = None, sv_attribute = None, sv_type = Some ''string'', sv_unit = None\<rparr>,
      \<lparr>sv_name = ''CountryName'', sv_instance = None, sv_attribute = None, sv_type = Some ''string'', sv_unit = None\<rparr>,
      \<lparr>sv_name = ''Specific'', sv_instance = None, sv_attribute = None, sv_type = None, sv_unit = None\<rparr>,
      \<lparr>sv_name = ''MaxScheduleEntries'', sv_instance = None, sv_attribute = None, sv_type = Some ''integer'', sv_unit = None\<rparr>,
      \<lparr>sv_name = ''RequestedEnergyTransferMode'', sv_instance = None, sv_attribute = None, sv_type = None, sv_unit = None\<rparr>]"

definition LOCALAUTHLISTCTRLR :: "standard_variable list" where
  "LOCALAUTHLISTCTRLR =
     [\<lparr>sv_name = ''Enabled'', sv_instance = None, sv_attribute = None, sv_type = Some ''boolean'', sv_unit = None\<rparr>,
      \<lparr>sv_name = ''Entries'', sv_instance = None, sv_attribute = None, sv_type = Some ''integer'', sv_unit = None\<rparr>,
      \<lparr>sv_name = ''Available'', sv_instance = None, sv_attribute = None, sv_type = Some ''boolean'', sv_unit = None\<rparr>,
      \<lparr>sv_name = ''ItemsPerMessage'', sv_instance = None, sv_attribute = None, sv_type = Some ''integer'', sv_unit = None\<rparr>,
      \<lparr>sv_name = ''BytesPerMessage'', sv_instance = None, sv_attribute = None, sv_type = Some ''integer'', sv_unit = None\<rparr>,
      \<lparr>sv_name = ''Storage'', sv_instance = None, sv_attribute = None, sv_type = Some ''integer'', sv_unit = Some ''B''\<rparr>,
      \<lparr>sv_name = ''DisablePostAuthorize'', sv_instance = None, sv_attribute = None, sv_type = Some ''boolean'', sv_unit = None\<rparr>,
      \<lparr>sv_name = ''SupportsExpiryDateTime'', sv_instance = None, sv_attribute = None, sv_type = Some ''boolean'', sv_unit = None\<rparr>]"

definition MONITORINGCTRLR :: "standard_variable list" where
  "MONITORINGCTRLR =
     [\<lparr>sv_name = ''Enabled'', sv_instance = None, sv_attribute = None, sv_type = Some ''boolean'', sv_unit = None\<rparr>,
      \<lparr>sv_name = ''Available'', sv_instance = None, sv_attribute = None, sv_type = Some ''boolean'', sv_unit = None\<rparr>,
      \<lparr>sv_name = ''ItemsPerMessage'', sv_instance = None, sv_attribute = None, sv_type = Some ''integer'', sv_unit = None\<rparr>,
      \<lparr>sv_name = ''BytesPerMessage'', sv_instance = None, sv_attribute = None, sv_type = Some ''integer'', sv_unit = None\<rparr>,
      \<lparr>sv_name = ''MonitoringBase'', sv_instance = None, sv_attribute = None, sv_type = None, sv_unit = None\<rparr>,
      \<lparr>sv_name = ''MonitoringLevel'', sv_instance = None, sv_attribute = None, sv_type = Some ''integer'', sv_unit = None\<rparr>,
      \<lparr>sv_name = ''OfflineQueuingSeverity'', sv_instance = None, sv_attribute = None, sv_type = Some ''integer'', sv_unit = None\<rparr>,
      \<lparr>sv_name = ''ActiveMonitoringBase'', sv_instance = None, sv_attribute = None, sv_type = Some ''OptionList'', sv_unit = None\<rparr>,
      \<lparr>sv_name = ''ActiveMonitoringLevel'', sv_instance = None, sv_attribute = None, sv_type = Some ''integer'', sv_unit = None\<rparr>]"

definition OCPPCOMMCTRLR :: "standard_variable list" where
  "OCPPCOMMCTRLR =
     [\<lparr>sv_name = ''ActiveNetworkProfile'', sv_instance = None, sv_attribute = None, sv_type = Some ''integer'', sv_unit = None\<rparr>,
      \<lparr>sv_name = ''FileTransferProtocols'', sv_instance = None, sv_attribute = None, sv_type = Some ''MemberList'', sv_unit = None\<rparr>,
      \<lparr>sv_name = ''HeartbeatInterval'', sv_instance = None, sv_attribute = None, sv_type = Some ''integer'', sv_unit = Some ''s''\<rparr>,
      \<lparr>sv_name = ''MessageAttempts'', sv_instance = None, sv_attribute = None, sv_type = Some ''integer'', sv_unit = None\<rparr>,
      \<lparr>sv_name = ''MessageAttemptInterval'', sv_instance = None, sv_attribute = None, sv_type = Some ''integer'', sv_unit = Some ''s''\<rparr>,
      \<lparr>sv_name = ''MessageTimeout'', sv_instance = None, sv_attribute = None, sv_type = Some ''integer'', sv_unit = Some ''s''\<rparr>,
      \<lparr>sv_name = ''MinimumStatusDuration'', sv_instance = None, sv_attribute = None, sv_type = Some ''integer'', sv_unit = Some ''s''\<rparr>,
      \<lparr>sv_name = ''NetworkConfigurationPriority'', sv_instance = None, sv_attribute = None, sv_type = Some ''string'', sv_unit = None\<rparr>,
      \<lparr>sv_name = ''NetworkProfileConnectionAttempts'', sv_instance = None, sv_attribute = None, sv_type = Some ''integer'', sv_unit = None\<rparr>,
      \<lparr>sv_name = ''OfflineThreshold'', sv_instance = None, sv_attribute = None, sv_type = Some ''integer'', sv_unit = Some ''s''\<rparr>,
      \<lparr>sv_name = ''PublicKeyWithSignedMeterValue'', sv_instance = None, sv_attribute = None, sv_type = Some ''boolean'', sv_unit = None\<rparr>,
      \<lparr>sv_name = ''QueueAllMessages'', sv_instance = None, sv_attribute = None, sv_type = Some ''boolean'', sv_unit = None\<rparr>,
      \<lparr>sv_name = ''RetryBackOffRepeatTimes'', sv_instance = None, sv_attribute = None, sv_type = Some ''integer'', sv_unit = None\<rparr>,
      \<lparr>sv_name = ''RetryBackOffRandomRange'', sv_instance = None, sv_attribute = None, sv_type = Some ''integer'', sv_unit = None\<rparr>,
      \<lparr>sv_name = ''RetryBackOffWaitMinimum'', sv_instance = None, sv_attribute = None, sv_type = Some ''integer'', sv_unit = None\<rparr>,
      \<lparr>sv_name = ''UnlockOnEVSideDisconnect'', sv_instance = None, sv_attribute = None, sv_type = Some ''boolean'', sv_unit = None\<rparr>,
      \<lparr>sv_name = ''WebSocketPingInterval'', sv_instance = None, sv_attribute = None, sv_type = Some ''integer'', sv_unit = None\<rparr>,
      \<lparr>sv_name = ''FieldLength'', sv_instance = None, sv_attribute = None, sv_type = Some ''integer'', sv_unit = None\<rparr>]"

definition WEBPAYMENTSCTRLR :: "standard_variable list" where
  "WEBPAYMENTSCTRLR =
     []"

definition RESERVATIONCTRLR :: "standard_variable list" where
  "RESERVATIONCTRLR =
     [\<lparr>sv_name = ''Enabled'', sv_instance = None, sv_attribute = None, sv_type = Some ''boolean'', sv_unit = None\<rparr>,
      \<lparr>sv_name = ''Available'', sv_instance = None, sv_attribute = None, sv_type = Some ''boolean'', sv_unit = None\<rparr>,
      \<lparr>sv_name = ''NonEvseSpecific'', sv_instance = None, sv_attribute = None, sv_type = Some ''boolean'', sv_unit = None\<rparr>]"

definition SAMPLEDDATACTRLR :: "standard_variable list" where
  "SAMPLEDDATACTRLR =
     [\<lparr>sv_name = ''Enabled'', sv_instance = None, sv_attribute = None, sv_type = Some ''boolean'', sv_unit = None\<rparr>,
      \<lparr>sv_name = ''Available'', sv_instance = None, sv_attribute = None, sv_type = Some ''boolean'', sv_unit = None\<rparr>,
      \<lparr>sv_name = ''SignReadings'', sv_instance = None, sv_attribute = None, sv_type = Some ''boolean'', sv_unit = None\<rparr>,
      \<lparr>sv_name = ''TxEndedMeasurands'', sv_instance = None, sv_attribute = None, sv_type = Some ''MemberList'', sv_unit = None\<rparr>,
      \<lparr>sv_name = ''TxEndedInterval'', sv_instance = None, sv_attribute = None, sv_type = Some ''integer'', sv_unit = Some ''s''\<rparr>,
      \<lparr>sv_name = ''TxStartedMeasurands'', sv_instance = None, sv_attribute = None, sv_type = Some ''MemberList'', sv_unit = None\<rparr>,
      \<lparr>sv_name = ''TxUpdatedMeasurands'', sv_instance = None, sv_attribute = None, sv_type = Some ''MemberList'', sv_unit = None\<rparr>,
      \<lparr>sv_name = ''TxUpdatedInterval'', sv_instance = None, sv_attribute = None, sv_type = Some ''integer'', sv_unit = Some ''s''\<rparr>,
      \<lparr>sv_name = ''RegisterValuesWithoutPhases'', sv_instance = None, sv_attribute = None, sv_type = Some ''boolean'', sv_unit = None\<rparr>]"

definition SECURITYCTRLR :: "standard_variable list" where
  "SECURITYCTRLR =
     [\<lparr>sv_name = ''BasicAuthPassword'', sv_instance = None, sv_attribute = None, sv_type = Some ''string'', sv_unit = None\<rparr>,
      \<lparr>sv_name = ''Identity'', sv_instance = None, sv_attribute = None, sv_type = Some ''string'', sv_unit = None\<rparr>,
      \<lparr>sv_name = ''OrganizationName'', sv_instance = None, sv_attribute = None, sv_type = Some ''string'', sv_unit = None\<rparr>,
      \<lparr>sv_name = ''CertSigningWaitMinimum'', sv_instance = None, sv_attribute = None, sv_type = Some ''integer'', sv_unit = None\<rparr>,
      \<lparr>sv_name = ''CertSigningRepeatTimes'', sv_instance = None, sv_attribute = None, sv_type = Some ''integer'', sv_unit = None\<rparr>,
      \<lparr>sv_name = ''AllowSecurityProfileDowngrade'', sv_instance = None, sv_attribute = None, sv_type = Some ''boolean'', sv_unit = None\<rparr>]"

definition SMARTCHARGINGCTRLR :: "standard_variable list" where
  "SMARTCHARGINGCTRLR =
     [\<lparr>sv_name = ''Enabled'', sv_instance = None, sv_attribute = None, sv_type = Some ''boolean'', sv_unit = None\<rparr>,
      \<lparr>sv_name = ''Available'', sv_instance = None, sv_attribute = None, sv_type = Some ''boolean'', sv_unit = None\<rparr>,
      \<lparr>sv_name = ''ACPhaseSwitchingSupported'', sv_instance = None, sv_attribute = None, sv_type = Some ''boolean'', sv_unit = None\<rparr>,
      \<lparr>sv_name = ''ProfileStackLevel'', sv_instance = None, sv_attribute = None, sv_type = Some ''integer'', sv_unit = None\<rparr>,
      \<lparr>sv_name = ''RateUnit'', sv_instance = None, sv_attribute = None, sv_type = Some ''MemberList'', sv_unit = None\<rparr>,
      \<lparr>sv_name = ''PeriodsPerSchedule'', sv_instance = None, sv_attribute = None, sv_type = Some ''integer'', sv_unit = None\<rparr>,
      \<lparr>sv_name = ''ExternalControlSignalsEnabled'', sv_instance = None, sv_attribute = None, sv_type = Some ''boolean'', sv_unit = None\<rparr>,
      \<lparr>sv_name = ''NotifyChargingLimitWithSchedules'', sv_instance = None, sv_attribute = None, sv_type = Some ''boolean'', sv_unit = None\<rparr>,
      \<lparr>sv_name = ''Phases3to1'', sv_instance = None, sv_attribute = None, sv_type = Some ''boolean'', sv_unit = None\<rparr>,
      \<lparr>sv_name = ''Entries'', sv_instance = None, sv_attribute = None, sv_type = Some ''integer'', sv_unit = None\<rparr>,
      \<lparr>sv_name = ''LimitChangeSignificance'', sv_instance = None, sv_attribute = None, sv_type = Some ''integer'', sv_unit = None\<rparr>]"

definition TARIFFCOSTCTRLR :: "standard_variable list" where
  "TARIFFCOSTCTRLR =
     [\<lparr>sv_name = ''Enabled'', sv_instance = None, sv_attribute = None, sv_type = Some ''boolean'', sv_unit = None\<rparr>,
      \<lparr>sv_name = ''Available'', sv_instance = None, sv_attribute = None, sv_type = Some ''boolean'', sv_unit = None\<rparr>,
      \<lparr>sv_name = ''TariffFallbackMessage'', sv_instance = None, sv_attribute = None, sv_type = Some ''string'', sv_unit = None\<rparr>,
      \<lparr>sv_name = ''TotalCostFallbackMessage'', sv_instance = None, sv_attribute = None, sv_type = Some ''string'', sv_unit = None\<rparr>,
      \<lparr>sv_name = ''Currency'', sv_instance = None, sv_attribute = None, sv_type = Some ''string'', sv_unit = None\<rparr>]"

definition TXCTRLR :: "standard_variable list" where
  "TXCTRLR =
     [\<lparr>sv_name = ''EVConnectionTimeOut'', sv_instance = None, sv_attribute = None, sv_type = Some ''integer'', sv_unit = Some ''s''\<rparr>,
      \<lparr>sv_name = ''TxBeforeAcceptedEnabled'', sv_instance = None, sv_attribute = None, sv_type = Some ''boolean'', sv_unit = None\<rparr>,
      \<lparr>sv_name = ''TxStartPoint'', sv_instance = None, sv_attribute = None, sv_type = Some ''MemberList'', sv_unit = None\<rparr>,
      \<lparr>sv_name = ''TxStopPoint'', sv_instance = None, sv_attribute = None, sv_type = Some ''MemberList'', sv_unit = None\<rparr>,
      \<lparr>sv_name = ''MaxEnergyOnInvalidId'', sv_instance = None, sv_attribute = None, sv_type = Some ''integer'', sv_unit = Some ''Wh''\<rparr>,
      \<lparr>sv_name = ''StopTxOnInvalidId'', sv_instance = None, sv_attribute = None, sv_type = Some ''boolean'', sv_unit = None\<rparr>,
      \<lparr>sv_name = ''StopTxOnEVSideDisconnect'', sv_instance = None, sv_attribute = None, sv_type = Some ''boolean'', sv_unit = None\<rparr>]"

definition ACCESSBARRIER :: "standard_variable list" where
  "ACCESSBARRIER =
     [\<lparr>sv_name = ''Enabled'', sv_instance = None, sv_attribute = None, sv_type = Some ''boolean'', sv_unit = None\<rparr>,
      \<lparr>sv_name = ''Active'', sv_instance = None, sv_attribute = None, sv_type = Some ''boolean'', sv_unit = None\<rparr>,
      \<lparr>sv_name = ''Problem'', sv_instance = None, sv_attribute = None, sv_type = Some ''boolean'', sv_unit = None\<rparr>]"

definition ACDCCONVERTER :: "standard_variable list" where
  "ACDCCONVERTER =
     [\<lparr>sv_name = ''Enabled'', sv_instance = None, sv_attribute = None, sv_type = Some ''boolean'', sv_unit = None\<rparr>,
      \<lparr>sv_name = ''Problem'', sv_instance = None, sv_attribute = None, sv_type = Some ''boolean'', sv_unit = None\<rparr>,
      \<lparr>sv_name = ''Tripped'', sv_instance = None, sv_attribute = None, sv_type = Some ''boolean'', sv_unit = None\<rparr>,
      \<lparr>sv_name = ''Overload'', sv_instance = None, sv_attribute = None, sv_type = Some ''boolean'', sv_unit = None\<rparr>,
      \<lparr>sv_name = ''DCVoltage'', sv_instance = None, sv_attribute = None, sv_type = Some ''decimal'', sv_unit = Some ''V''\<rparr>,
      \<lparr>sv_name = ''DCCurrent'', sv_instance = None, sv_attribute = None, sv_type = Some ''decimal'', sv_unit = Some ''A''\<rparr>,
      \<lparr>sv_name = ''Power'', sv_instance = None, sv_attribute = None, sv_type = Some ''decimal'', sv_unit = Some ''W,kW''\<rparr>,
      \<lparr>sv_name = ''Temperature'', sv_instance = None, sv_attribute = None, sv_type = Some ''decimal'', sv_unit = Some ''Celsius,''\<rparr>,
      \<lparr>sv_name = ''FanSpeed'', sv_instance = None, sv_attribute = None, sv_type = Some ''decimal'', sv_unit = Some ''RPM''\<rparr>]"

definition ACPHASESELECTOR :: "standard_variable list" where
  "ACPHASESELECTOR =
     [\<lparr>sv_name = ''Enabled'', sv_instance = None, sv_attribute = None, sv_type = Some ''boolean'', sv_unit = None\<rparr>,
      \<lparr>sv_name = ''Active'', sv_instance = None, sv_attribute = None, sv_type = Some ''boolean'', sv_unit = None\<rparr>,
      \<lparr>sv_name = ''Problem'', sv_instance = None, sv_attribute = None, sv_type = Some ''boolean'', sv_unit = None\<rparr>,
      \<lparr>sv_name = ''PhaseRotation'', sv_instance = None, sv_attribute = None, sv_type = Some ''string'', sv_unit = None\<rparr>]"

definition ACTUATOR :: "standard_variable list" where
  "ACTUATOR =
     [\<lparr>sv_name = ''Enabled'', sv_instance = None, sv_attribute = None, sv_type = Some ''boolean'', sv_unit = None\<rparr>,
      \<lparr>sv_name = ''Active'', sv_instance = None, sv_attribute = None, sv_type = Some ''boolean'', sv_unit = None\<rparr>,
      \<lparr>sv_name = ''Problem'', sv_instance = None, sv_attribute = None, sv_type = Some ''boolean'', sv_unit = None\<rparr>,
      \<lparr>sv_name = ''State'', sv_instance = None, sv_attribute = None, sv_type = Some ''string'', sv_unit = None\<rparr>]"

definition AIRCOOLINGSYSTEM :: "standard_variable list" where
  "AIRCOOLINGSYSTEM =
     [\<lparr>sv_name = ''Enabled'', sv_instance = None, sv_attribute = None, sv_type = Some ''boolean'', sv_unit = None\<rparr>,
      \<lparr>sv_name = ''Active'', sv_instance = None, sv_attribute = None, sv_type = Some ''boolean'', sv_unit = None\<rparr>,
      \<lparr>sv_name = ''Problem'', sv_instance = None, sv_attribute = None, sv_type = Some ''boolean'', sv_unit = None\<rparr>,
      \<lparr>sv_name = ''FanSpeed'', sv_instance = None, sv_attribute = None, sv_type = Some ''decimal'', sv_unit = Some ''RPM''\<rparr>]"

definition AREAVENTILATION :: "standard_variable list" where
  "AREAVENTILATION =
     [\<lparr>sv_name = ''Enabled'', sv_instance = None, sv_attribute = None, sv_type = Some ''boolean'', sv_unit = None\<rparr>,
      \<lparr>sv_name = ''Active'', sv_instance = None, sv_attribute = None, sv_type = Some ''boolean'', sv_unit = None\<rparr>,
      \<lparr>sv_name = ''Problem'', sv_instance = None, sv_attribute = None, sv_type = Some ''boolean'', sv_unit = None\<rparr>,
      \<lparr>sv_name = ''FanSpeed'', sv_instance = None, sv_attribute = None, sv_type = Some ''decimal'', sv_unit = Some ''RPM''\<rparr>]"

definition BAYOCCUPANCYSENSOR :: "standard_variable list" where
  "BAYOCCUPANCYSENSOR =
     [\<lparr>sv_name = ''Enabled'', sv_instance = None, sv_attribute = None, sv_type = Some ''boolean'', sv_unit = None\<rparr>,
      \<lparr>sv_name = ''Active'', sv_instance = None, sv_attribute = None, sv_type = Some ''boolean'', sv_unit = None\<rparr>,
      \<lparr>sv_name = ''Percent'', sv_instance = None, sv_attribute = None, sv_type = Some ''decimal'', sv_unit = Some ''Percent''\<rparr>]"

definition BEACONLIGHTING :: "standard_variable list" where
  "BEACONLIGHTING =
     [\<lparr>sv_name = ''Enabled'', sv_instance = None, sv_attribute = None, sv_type = Some ''boolean'', sv_unit = None\<rparr>,
      \<lparr>sv_name = ''Active'', sv_instance = None, sv_attribute = None, sv_type = Some ''boolean'', sv_unit = None\<rparr>,
      \<lparr>sv_name = ''Problem'', sv_instance = None, sv_attribute = None, sv_type = Some ''boolean'', sv_unit = None\<rparr>,
      \<lparr>sv_name = ''Percent'', sv_instance = None, sv_attribute = None, sv_type = Some ''decimal'', sv_unit = Some ''Percent''\<rparr>,
      \<lparr>sv_name = ''Power'', sv_instance = None, sv_attribute = None, sv_type = Some ''decimal'', sv_unit = Some ''W,kW''\<rparr>,
      \<lparr>sv_name = ''Color'', sv_instance = None, sv_attribute = None, sv_type = Some ''string'', sv_unit = None\<rparr>]"

definition CABLEBREAKAWAYSENSOR :: "standard_variable list" where
  "CABLEBREAKAWAYSENSOR =
     [\<lparr>sv_name = ''Enabled'', sv_instance = None, sv_attribute = None, sv_type = Some ''boolean'', sv_unit = None\<rparr>,
      \<lparr>sv_name = ''Active'', sv_instance = None, sv_attribute = None, sv_type = Some ''boolean'', sv_unit = None\<rparr>,
      \<lparr>sv_name = ''Tripped'', sv_instance = None, sv_attribute = None, sv_type = Some ''boolean'', sv_unit = None\<rparr>]"

definition CASEACCESSSENSOR :: "standard_variable list" where
  "CASEACCESSSENSOR =
     [\<lparr>sv_name = ''Enabled'', sv_instance = None, sv_attribute = None, sv_type = Some ''boolean'', sv_unit = None\<rparr>,
      \<lparr>sv_name = ''Active'', sv_instance = None, sv_attribute = None, sv_type = Some ''boolean'', sv_unit = None\<rparr>,
      \<lparr>sv_name = ''Tripped'', sv_instance = None, sv_attribute = None, sv_type = Some ''boolean'', sv_unit = None\<rparr>,
      \<lparr>sv_name = ''Problem'', sv_instance = None, sv_attribute = None, sv_type = Some ''boolean'', sv_unit = None\<rparr>]"

definition CHARGINGSTATION :: "standard_variable list" where
  "CHARGINGSTATION =
     [\<lparr>sv_name = ''Enabled'', sv_instance = None, sv_attribute = None, sv_type = Some ''boolean'', sv_unit = None\<rparr>,
      \<lparr>sv_name = ''Problem'', sv_instance = None, sv_attribute = None, sv_type = Some ''boolean'', sv_unit = None\<rparr>,
      \<lparr>sv_name = ''Tripped'', sv_instance = None, sv_attribute = None, sv_type = Some ''boolean'', sv_unit = None\<rparr>,
      \<lparr>sv_name = ''Overload'', sv_instance = None, sv_attribute = None, sv_type = Some ''boolean'', sv_unit = None\<rparr>,
      \<lparr>sv_name = ''SupplyPhases'', sv_instance = None, sv_attribute = None, sv_type = Some ''integer'', sv_unit = None\<rparr>,
      \<lparr>sv_name = ''SupplyPhases'', sv_instance = None, sv_attribute = Some ''MaxLimit'', sv_type = Some ''integer'', sv_unit = None\<rparr>,
      \<lparr>sv_name = ''PhaseRotation'', sv_instance = None, sv_attribute = None, sv_type = Some ''string'', sv_unit = None\<rparr>,
      \<lparr>sv_name = ''ACVoltage'', sv_instance = None, sv_attribute = None, sv_type = Some ''decimal'', sv_unit = Some ''V''\<rparr>,
      \<lparr>sv_name = ''ACVoltage'', sv_instance = None, sv_attribute = Some ''MaxLimit'', sv_type = Some ''decimal'', sv_unit = Some ''V''\<rparr>,
      \<lparr>sv_name = ''ACCurrent'', sv_instance = None, sv_attribute = None, sv_type = Some ''decimal'', sv_unit = Some ''A''\<rparr>,
      \<lparr>sv_name = ''Power'', sv_instance = None, sv_attribute = None, sv_type = Some ''decimal'', sv_unit = Some ''W,kW''\<rparr>,
      \<lparr>sv_name = ''Power'', sv_instance = None, sv_attribute = Some ''MaxLimit'', sv_type = Some ''decimal'', sv_unit = Some ''W,kW''\<rparr>,
      \<lparr>sv_name = ''VoltageImbalance'', sv_instance = None, sv_attribute = None, sv_type = Some ''decimal'', sv_unit = Some ''Percent''\<rparr>,
      \<lparr>sv_name = ''CurrentImbalance'', sv_instance = None, sv_attribute = None, sv_type = Some ''decimal'', sv_unit = Some ''Percent''\<rparr>,
      \<lparr>sv_name = ''VendorName'', sv_instance = None, sv_attribute = None, sv_type = None, sv_unit = None\<rparr>,
      \<lparr>sv_name = ''Model'', sv_instance = None, sv_attribute = None, sv_type = Some ''string'', sv_unit = None\<rparr>,
      \<lparr>sv_name = ''ECVariant'', sv_instance = None, sv_attribute = None, sv_type = Some ''string'', sv_unit = None\<rparr>,
      \<lparr>sv_name = ''SerialNumber'', sv_instance = None, sv_attribute = None, sv_type = Some ''string'', sv_unit = None\<rparr>,
      \<lparr>sv_name = ''OperatingTimes'', sv_instance = None, sv_attribute = None, sv_type = Some ''string'', sv_unit = None\<rparr>,
      \<lparr>sv_name = ''ChargeProtocol'', sv_instance = None, sv_attribute = None, sv_type = Some ''string'', sv_unit = None\<rparr>,
      \<lparr>sv_name = ''AvailabilityState'', sv_instance = None, sv_attribute = None, sv_type = Some ''OptionList'', sv_unit = None\<rparr>,
      \<lparr>sv_name = ''AllowNewSessionsPendingFirmware'', sv_instance = None, sv_attribute = None, sv_type = None, sv_unit = None\<rparr>,
      \<lparr>sv_name = ''Update'', sv_instance = None, sv_attribute = None, sv_type = None, sv_unit = None\<rparr>]"

definition CHARGINGSTATUSINDICATOR :: "standard_variable list" where
  "CHARGINGSTATUSINDICATOR =
     [\<lparr>sv_name = ''Active'', sv_instance = None, sv_attribute = None, sv_type = Some ''boolean'', sv_unit = None\<rparr>,
      \<lparr>sv_name = ''Color'', sv_instance = None, sv_attribute = None, sv_type = Some ''string'', sv_unit = None\<rparr>]"

definition CONNECTEDEV :: "standard_variable list" where
  "CONNECTEDEV =
     []"

definition CONNECTOR :: "standard_variable list" where
  "CONNECTOR =
     [\<lparr>sv_name = ''Enabled'', sv_instance = None, sv_attribute = None, sv_type = Some ''boolean'', sv_unit = None\<rparr>,
      \<lparr>sv_name = ''Problem'', sv_instance = None, sv_attribute = None, sv_type = Some ''boolean'', sv_unit = None\<rparr>,
      \<lparr>sv_name = ''Tripped'', sv_instance = None, sv_attribute = None, sv_type = Some ''boolean'', sv_unit = None\<rparr>,
      \<lparr>sv_name = ''ConnectorType'', sv_instance = None, sv_attribute = None, sv_type = Some ''OptionList'', sv_unit = None\<rparr>,
      \<lparr>sv_name = ''SupplyPhases'', sv_instance = None, sv_attribute = None, sv_type = Some ''integer'', sv_unit = None\<rparr>,
      \<lparr>sv_name = ''SupplyPhases'', sv_instance = None, sv_attribute = Some ''MaxLimit'', sv_type = Some ''integer'', sv_unit = None\<rparr>,
      \<lparr>sv_name = ''PhaseRotation'', sv_instance = None, sv_attribute = None, sv_type = Some ''string'', sv_unit = None\<rparr>,
      \<lparr>sv_name = ''ChargeProtocol'', sv_instance = None, sv_attribute = None, sv_type = Some ''string'', sv_unit = None\<rparr>,
      \<lparr>sv_name = ''AvailabilityState'', sv_instance = None, sv_attribute = None, sv_type = Some ''OptionList'', sv_unit = None\<rparr>]"

definition CONNECTORHOLSTERRELEASE :: "standard_variable list" where
  "CONNECTORHOLSTERRELEASE =
     [\<lparr>sv_name = ''Enabled'', sv_instance = None, sv_attribute = None, sv_type = Some ''boolean'', sv_unit = None\<rparr>,
      \<lparr>sv_name = ''Active'', sv_instance = None, sv_attribute = None, sv_type = Some ''boolean'', sv_unit = None\<rparr>,
      \<lparr>sv_name = ''Problem'', sv_instance = None, sv_attribute = None, sv_type = Some ''boolean'', sv_unit = None\<rparr>,
      \<lparr>sv_name = ''State'', sv_instance = None, sv_attribute = None, sv_type = Some ''string'', sv_unit = None\<rparr>]"

definition CONNECTORHOLSTERSENSOR :: "standard_variable list" where
  "CONNECTORHOLSTERSENSOR =
     [\<lparr>sv_name = ''Enabled'', sv_instance = None, sv_attribute = None, sv_type = Some ''boolean'', sv_unit = None\<rparr>,
      \<lparr>sv_name = ''Active'', sv_instance = None, sv_attribute = None, sv_type = Some ''boolean'', sv_unit = None\<rparr>,
      \<lparr>sv_name = ''Problem'', sv_instance = None, sv_attribute = None, sv_type = Some ''boolean'', sv_unit = None\<rparr>]"

definition CONNECTORPLUGRETENTIONLOCK :: "standard_variable list" where
  "CONNECTORPLUGRETENTIONLOCK =
     [\<lparr>sv_name = ''Enabled'', sv_instance = None, sv_attribute = None, sv_type = Some ''boolean'', sv_unit = None\<rparr>,
      \<lparr>sv_name = ''Active'', sv_instance = None, sv_attribute = None, sv_type = Some ''boolean'', sv_unit = None\<rparr>,
      \<lparr>sv_name = ''Problem'', sv_instance = None, sv_attribute = None, sv_type = Some ''boolean'', sv_unit = None\<rparr>,
      \<lparr>sv_name = ''Tripped'', sv_instance = None, sv_attribute = None, sv_type = Some ''boolean'', sv_unit = None\<rparr>,
      \<lparr>sv_name = ''Tries'', sv_instance = None, sv_attribute = None, sv_type = Some ''integer'', sv_unit = None\<rparr>,
      \<lparr>sv_name = ''Tries'', sv_instance = None, sv_attribute = Some ''SetLimit'', sv_type = Some ''integer'', sv_unit = None\<rparr>,
      \<lparr>sv_name = ''Tries'', sv_instance = None, sv_attribute = Some ''MaxLimit'', sv_type = Some ''integer'', sv_unit = None\<rparr>]"

definition CONNECTORPROTECTIONRELEASE :: "standard_variable list" where
  "CONNECTORPROTECTIONRELEASE =
     [\<lparr>sv_name = ''Enabled'', sv_instance = None, sv_attribute = None, sv_type = Some ''boolean'', sv_unit = None\<rparr>,
      \<lparr>sv_name = ''Active'', sv_instance = None, sv_attribute = None, sv_type = Some ''boolean'', sv_unit = None\<rparr>,
      \<lparr>sv_name = ''Problem'', sv_instance = None, sv_attribute = None, sv_type = Some ''boolean'', sv_unit = None\<rparr>,
      \<lparr>sv_name = ''Tripped'', sv_instance = None, sv_attribute = None, sv_type = Some ''boolean'', sv_unit = None\<rparr>]"

definition CONTROLLER :: "standard_variable list" where
  "CONTROLLER =
     [\<lparr>sv_name = ''Active'', sv_instance = None, sv_attribute = None, sv_type = Some ''boolean'', sv_unit = None\<rparr>,
      \<lparr>sv_name = ''Problem'', sv_instance = None, sv_attribute = None, sv_type = Some ''boolean'', sv_unit = None\<rparr>,
      \<lparr>sv_name = ''Interval'', sv_instance = Some ''Heartbeat'', sv_attribute = None, sv_type = Some ''integer'', sv_unit = Some ''s''\<rparr>,
      \<lparr>sv_name = ''Manufacturer'', sv_instance = None, sv_attribute = None, sv_type = Some ''string'', sv_unit = None\<rparr>,
      \<lparr>sv_name = ''Model'', sv_instance = None, sv_attribute = None, sv_type = Some ''string'', sv_unit = None\<rparr>,
      \<lparr>sv_name = ''ECVariant'', sv_instance = None, sv_attribute = None, sv_type = Some ''string'', sv_unit = None\<rparr>,
      \<lparr>sv_name = ''SerialNumber'', sv_instance = None, sv_attribute = None, sv_type = Some ''string'', sv_unit = None\<rparr>,
      \<lparr>sv_name = ''VersionNumber'', sv_instance = None, sv_attribute = None, sv_type = Some ''string'', sv_unit = None\<rparr>,
      \<lparr>sv_name = ''VersionDate'', sv_instance = None, sv_attribute = None, sv_type = Some ''dateTime'', sv_unit = None\<rparr>,
      \<lparr>sv_name = ''FirmwareVersion'', sv_instance = None, sv_attribute = None, sv_type = Some ''string'', sv_unit = None\<rparr>,
      \<lparr>sv_name = ''MaxMsgElements'', sv_instance = None, sv_attribute = None, sv_type = None, sv_unit = None\<rparr>,
      \<lparr>sv_name = ''SelftestActive'', sv_instance = None, sv_attribute = Some ''Set'', sv_type = None, sv_unit = None\<rparr>,
      \<lparr>sv_name = ''SelftestActive'', sv_instance = None, sv_attribute = None, sv_type = None, sv_unit = None\<rparr>]"

definition CONTROLMETERING :: "standard_variable list" where
  "CONTROLMETERING =
     [\<lparr>sv_name = ''Power'', sv_instance = None, sv_attribute = None, sv_type = Some ''decimal'', sv_unit = Some ''W,kW''\<rparr>,
      \<lparr>sv_name = ''ACCurrent'', sv_instance = None, sv_attribute = None, sv_type = Some ''decimal'', sv_unit = Some ''A''\<rparr>,
      \<lparr>sv_name = ''DCCurrent'', sv_instance = None, sv_attribute = None, sv_type = Some ''decimal'', sv_unit = Some ''A''\<rparr>,
      \<lparr>sv_name = ''DCVoltage'', sv_instance = None, sv_attribute = None, sv_type = Some ''decimal'', sv_unit = Some ''V''\<rparr>]"

definition CPPWMCONTROLLER :: "standard_variable list" where
  "CPPWMCONTROLLER =
     [\<lparr>sv_name = ''Enabled'', sv_instance = None, sv_attribute = None, sv_type = Some ''boolean'', sv_unit = None\<rparr>,
      \<lparr>sv_name = ''Active'', sv_instance = None, sv_attribute = None, sv_type = Some ''boolean'', sv_unit = None\<rparr>,
      \<lparr>sv_name = ''Problem'', sv_instance = None, sv_attribute = None, sv_type = Some ''boolean'', sv_unit = None\<rparr>,
      \<lparr>sv_name = ''DCVoltage'', sv_instance = None, sv_attribute = None, sv_type = Some ''decimal'', sv_unit = Some ''V''\<rparr>,
      \<lparr>sv_name = ''State'', sv_instance = None, sv_attribute = None, sv_type = Some ''string'', sv_unit = None\<rparr>,
      \<lparr>sv_name = ''Percentage'', sv_instance = None, sv_attribute = None, sv_type = None, sv_unit = None\<rparr>,
      \<lparr>sv_name = ''SelftestActive'', sv_instance = None, sv_attribute = Some ''Set'', sv_type = None, sv_unit = None\<rparr>,
      \<lparr>sv_name = ''SelftestActive'', sv_instance = None, sv_attribute = None, sv_type = None, sv_unit = None\<rparr>]"

definition DATALINK :: "standard_variable list" where
  "DATALINK =
     [\<lparr>sv_name = ''Enabled'', sv_instance = None, sv_attribute = None, sv_type = Some ''boolean'', sv_unit = None\<rparr>,
      \<lparr>sv_name = ''Active'', sv_instance = None, sv_attribute = None, sv_type = Some ''boolean'', sv_unit = None\<rparr>,
      \<lparr>sv_name = ''Fallback'', sv_instance = None, sv_attribute = None, sv_type = Some ''boolean'', sv_unit = None\<rparr>,
      \<lparr>sv_name = ''Complete'', sv_instance = None, sv_attribute = None, sv_type = Some ''boolean'', sv_unit = None\<rparr>,
      \<lparr>sv_name = ''Problem'', sv_instance = None, sv_attribute = None, sv_type = Some ''boolean'', sv_unit = None\<rparr>,
      \<lparr>sv_name = ''IMSI'', sv_instance = None, sv_attribute = None, sv_type = Some ''string'', sv_unit = None\<rparr>,
      \<lparr>sv_name = ''ICCID'', sv_instance = None, sv_attribute = None, sv_type = Some ''string'', sv_unit = None\<rparr>,
      \<lparr>sv_name = ''NetworkAddress'', sv_instance = None, sv_attribute = None, sv_type = None, sv_unit = None\<rparr>,
      \<lparr>sv_name = ''SignalStrength'', sv_instance = None, sv_attribute = None, sv_type = Some ''decimal'', sv_unit = Some ''dBm''\<rparr>]"

definition DISPLAY :: "standard_variable list" where
  "DISPLAY =
     [\<lparr>sv_name = ''Enabled'', sv_instance = None, sv_attribute = None, sv_type = Some ''boolean'', sv_unit = None\<rparr>,
      \<lparr>sv_name = ''Problem'', sv_instance = None, sv_attribute = None, sv_type = Some ''boolean'', sv_unit = None\<rparr>,
      \<lparr>sv_name = ''Color'', sv_instance = None, sv_attribute = None, sv_type = Some ''string'', sv_unit = None\<rparr>,
      \<lparr>sv_name = ''Count'', sv_instance = Some ''HeightInChars'', sv_attribute = None, sv_type = Some ''integer'', sv_unit = None\<rparr>,
      \<lparr>sv_name = ''Count'', sv_instance = Some ''WidthInChars'', sv_attribute = None, sv_type = Some ''integer'', sv_unit = None\<rparr>,
      \<lparr>sv_name = ''DataText'', sv_instance = Some ''Visible'', sv_attribute = None, sv_type = Some ''string'', sv_unit = None\<rparr>,
      \<lparr>sv_name = ''State'', sv_instance = None, sv_attribute = None, sv_type = Some ''string'', sv_unit = None\<rparr>]"

definition ELECTRICALFEED :: "standard_variable list" where
  "ELECTRICALFEED =
     [\<lparr>sv_name = ''Enabled'', sv_instance = None, sv_attribute = None, sv_type = Some ''boolean'', sv_unit = None\<rparr>,
      \<lparr>sv_name = ''Active'', sv_instance = None, sv_attribute = None, sv_type = Some ''boolean'', sv_unit = None\<rparr>,
      \<lparr>sv_name = ''Problem'', sv_instance = None, sv_attribute = None, sv_type = Some ''boolean'', sv_unit = None\<rparr>,
      \<lparr>sv_name = ''PowerType'', sv_instance = None, sv_attribute = None, sv_type = None, sv_unit = None\<rparr>,
      \<lparr>sv_name = ''Power'', sv_instance = None, sv_attribute = None, sv_type = Some ''decimal'', sv_unit = Some ''W,kW''\<rparr>,
      \<lparr>sv_name = ''Energy'', sv_instance = None, sv_attribute = None, sv_type = Some ''decimal'', sv_unit = Some ''Wh''\<rparr>,
      \<lparr>sv_name = ''DCVoltage'', sv_instance = None, sv_attribute = None, sv_type = Some ''decimal'', sv_unit = Some ''V''\<rparr>,
      \<lparr>sv_name = ''SupplyPhases'', sv_instance = None, sv_attribute = None, sv_type = Some ''integer'', sv_unit = None\<rparr>,
      \<lparr>sv_name = ''PhaseRotation'', sv_instance = None, sv_attribute = None, sv_type = Some ''string'', sv_unit = None\<rparr>,
      \<lparr>sv_name = ''ACVoltage'', sv_instance = None, sv_attribute = None, sv_type = Some ''decimal'', sv_unit = Some ''V''\<rparr>]"

definition ELVSUPPLY :: "standard_variable list" where
  "ELVSUPPLY =
     [\<lparr>sv_name = ''EnergyImportRegister'', sv_instance = None, sv_attribute = None, sv_type = Some ''decimal'', sv_unit = Some ''Wh''\<rparr>,
      \<lparr>sv_name = ''Power'', sv_instance = None, sv_attribute = None, sv_type = Some ''decimal'', sv_unit = Some ''W,kW''\<rparr>,
      \<lparr>sv_name = ''Power'', sv_instance = None, sv_attribute = Some ''MaxLimit'', sv_type = Some ''decimal'', sv_unit = Some ''W,kW''\<rparr>,
      \<lparr>sv_name = ''Fallback'', sv_instance = None, sv_attribute = None, sv_type = Some ''boolean'', sv_unit = None\<rparr>,
      \<lparr>sv_name = ''StateOfCharge'', sv_instance = None, sv_attribute = None, sv_type = Some ''decimal'', sv_unit = Some ''Percent''\<rparr>,
      \<lparr>sv_name = ''Time'', sv_instance = None, sv_attribute = None, sv_type = None, sv_unit = None\<rparr>]"

definition EMERGENCYSTOPSENSOR :: "standard_variable list" where
  "EMERGENCYSTOPSENSOR =
     [\<lparr>sv_name = ''Enabled'', sv_instance = None, sv_attribute = None, sv_type = Some ''boolean'', sv_unit = None\<rparr>,
      \<lparr>sv_name = ''Active'', sv_instance = None, sv_attribute = None, sv_type = Some ''boolean'', sv_unit = None\<rparr>,
      \<lparr>sv_name = ''Tripped'', sv_instance = None, sv_attribute = None, sv_type = Some ''boolean'', sv_unit = None\<rparr>]"

definition ENVIRONMENTALLIGHTING :: "standard_variable list" where
  "ENVIRONMENTALLIGHTING =
     [\<lparr>sv_name = ''Enabled'', sv_instance = None, sv_attribute = None, sv_type = Some ''boolean'', sv_unit = None\<rparr>,
      \<lparr>sv_name = ''Active'', sv_instance = None, sv_attribute = None, sv_type = Some ''boolean'', sv_unit = None\<rparr>,
      \<lparr>sv_name = ''Problem'', sv_instance = None, sv_attribute = None, sv_type = Some ''boolean'', sv_unit = None\<rparr>,
      \<lparr>sv_name = ''Percent'', sv_instance = None, sv_attribute = None, sv_type = Some ''decimal'', sv_unit = Some ''Percent''\<rparr>,
      \<lparr>sv_name = ''Power'', sv_instance = None, sv_attribute = None, sv_type = Some ''decimal'', sv_unit = Some ''W,kW''\<rparr>,
      \<lparr>sv_name = ''Color'', sv_instance = None, sv_attribute = None, sv_type = Some ''string'', sv_unit = None\<rparr>]"

definition EVRETENTIONLOCK :: "standard_variable list" where
  "EVRETENTIONLOCK =
     [\<lparr>sv_name = ''Enabled'', sv_instance = None, sv_attribute = None, sv_type = Some ''boolean'', sv_unit = None\<rparr>,
      \<lparr>sv_name = ''Active'', sv_instance = None, sv_attribute = None, sv_type = Some ''boolean'', sv_unit = None\<rparr>,
      \<lparr>sv_name = ''Complete'', sv_instance = None, sv_attribute = None, sv_type = Some ''boolean'', sv_unit = None\<rparr>,
      \<lparr>sv_name = ''Problem'', sv_instance = None, sv_attribute = None, sv_type = Some ''boolean'', sv_unit = None\<rparr>]"

definition EVSE :: "standard_variable list" where
  "EVSE =
     [\<lparr>sv_name = ''Enabled'', sv_instance = None, sv_attribute = None, sv_type = Some ''boolean'', sv_unit = None\<rparr>,
      \<lparr>sv_name = ''Problem'', sv_instance = None, sv_attribute = None, sv_type = Some ''boolean'', sv_unit = None\<rparr>,
      \<lparr>sv_name = ''Tripped'', sv_instance = None, sv_attribute = None, sv_type = Some ''boolean'', sv_unit = None\<rparr>,
      \<lparr>sv_name = ''Overload'', sv_instance = None, sv_attribute = None, sv_type = Some ''boolean'', sv_unit = None\<rparr>,
      \<lparr>sv_name = ''SupplyPhases'', sv_instance = None, sv_attribute = None, sv_type = Some ''integer'', sv_unit = None\<rparr>,
      \<lparr>sv_name = ''PhaseRotation'', sv_instance = None, sv_attribute = None, sv_type = Some ''string'', sv_unit = None\<rparr>,
      \<lparr>sv_name = ''AllowReset'', sv_instance = None, sv_attribute = None, sv_type = Some ''boolean'', sv_unit = None\<rparr>,
      \<lparr>sv_name = ''ACVoltage'', sv_instance = None, sv_attribute = None, sv_type = Some ''decimal'', sv_unit = Some ''V''\<rparr>,
      \<lparr>sv_name = ''ACCurrent'', sv_instance = None, sv_attribute = None, sv_type = Some ''decimal'', sv_unit = Some ''A''\<rparr>,
      \<lparr>sv_name = ''DCVoltage'', sv_instance = None, sv_attribute = None, sv_type = Some ''decimal'', sv_unit = Some ''V''\<rparr>,
      \<lparr>sv_name = ''DCCurrent'', sv_instance = None, sv_attribute = None, sv_type = Some ''decimal'', sv_unit = Some ''A''\<rparr>,
      \<lparr>sv_name = ''Power'', sv_instance = None, sv_attribute = None, sv_type = Some ''decimal'', sv_unit = Some ''W,kW''\<rparr>,
      \<lparr>sv_name = ''VoltageImbalance'', sv_instance = None, sv_attribute = None, sv_type = Some ''decimal'', sv_unit = Some ''Percent''\<rparr>,
      \<lparr>sv_name = ''CurrentImbalance'', sv_instance = None, sv_attribute = None, sv_type = Some ''decimal'', sv_unit = Some ''Percent''\<rparr>,
      \<lparr>sv_name = ''ChargeProtocol'', sv_instance = None, sv_attribute = None, sv_type = Some ''string'', sv_unit = None\<rparr>,
      \<lparr>sv_name = ''ChargingTime'', sv_instance = None, sv_attribute = None, sv_type = Some ''decimal'', sv_unit = Some ''s''\<rparr>,
      \<lparr>sv_name = ''PostChargingTime'', sv_instance = None, sv_attribute = None, sv_type = Some ''decimal'', sv_unit = Some ''s''\<rparr>,
      \<lparr>sv_name = ''Count'', sv_instance = Some ''ChargingProfiles'', sv_attribute = None, sv_type = Some ''integer'', sv_unit = None\<rparr>,
      \<lparr>sv_name = ''Count'', sv_instance = Some ''ChargingProfiles'', sv_attribute = Some ''MaxLimit'', sv_type = Some ''integer'', sv_unit = None\<rparr>,
      \<lparr>sv_name = ''ISO15118EvseId'', sv_instance = None, sv_attribute = None, sv_type = Some ''string'', sv_unit = None\<rparr>]"

definition EXTERNALTEMPERATURESENSOR :: "standard_variable list" where
  "EXTERNALTEMPERATURESENSOR =
     [\<lparr>sv_name = ''Active'', sv_instance = None, sv_attribute = None, sv_type = Some ''boolean'', sv_unit = None\<rparr>,
      \<lparr>sv_name = ''Problem'', sv_instance = None, sv_attribute = None, sv_type = Some ''boolean'', sv_unit = None\<rparr>,
      \<lparr>sv_name = ''Temperature'', sv_instance = None, sv_attribute = None, sv_type = Some ''decimal'', sv_unit = Some ''Celsius,''\<rparr>]"

definition FISCALMETERING :: "standard_variable list" where
  "FISCALMETERING =
     [\<lparr>sv_name = ''Problem'', sv_instance = None, sv_attribute = None, sv_type = Some ''boolean'', sv_unit = None\<rparr>,
      \<lparr>sv_name = ''EnergyImport'', sv_instance = None, sv_attribute = None, sv_type = Some ''decimal'', sv_unit = Some ''Wh''\<rparr>,
      \<lparr>sv_name = ''EnergyImportRegister'', sv_instance = None, sv_attribute = None, sv_type = Some ''decimal'', sv_unit = Some ''Wh''\<rparr>,
      \<lparr>sv_name = ''EnergyExport'', sv_instance = None, sv_attribute = None, sv_type = Some ''decimal'', sv_unit = Some ''Wh''\<rparr>,
      \<lparr>sv_name = ''EnergyExportRegister'', sv_instance = None, sv_attribute = None, sv_type = Some ''decimal'', sv_unit = Some ''Wh''\<rparr>,
      \<lparr>sv_name = ''Manufacturer'', sv_instance = Some ''Meter'', sv_attribute = None, sv_type = Some ''string'', sv_unit = None\<rparr>,
      \<lparr>sv_name = ''Manufacturer'', sv_instance = Some ''CT'', sv_attribute = None, sv_type = Some ''string'', sv_unit = None\<rparr>,
      \<lparr>sv_name = ''Model'', sv_instance = Some ''Meter'', sv_attribute = None, sv_type = Some ''string'', sv_unit = None\<rparr>,
      \<lparr>sv_name = ''Model'', sv_instance = Some ''CT'', sv_attribute = None, sv_type = Some ''string'', sv_unit = None\<rparr>,
      \<lparr>sv_name = ''ECVariant'', sv_instance = None, sv_attribute = None, sv_type = Some ''string'', sv_unit = None\<rparr>,
      \<lparr>sv_name = ''SerialNumber'', sv_instance = Some ''Meter'', sv_attribute = None, sv_type = Some ''string'', sv_unit = None\<rparr>,
      \<lparr>sv_name = ''SerialNumber'', sv_instance = Some ''CT'', sv_attribute = None, sv_type = Some ''string'', sv_unit = None\<rparr>,
      \<lparr>sv_name = ''Certificate'', sv_instance = None, sv_attribute = None, sv_type = Some ''string'', sv_unit = None\<rparr>,
      \<lparr>sv_name = ''OptionsSet'', sv_instance = None, sv_attribute = None, sv_type = None, sv_unit = None\<rparr>,
      \<lparr>sv_name = ''OptionsSet'', sv_instance = None, sv_attribute = None, sv_type = None, sv_unit = None\<rparr>]"

definition FLOODSENSOR :: "standard_variable list" where
  "FLOODSENSOR =
     [\<lparr>sv_name = ''Enabled'', sv_instance = None, sv_attribute = None, sv_type = Some ''boolean'', sv_unit = None\<rparr>,
      \<lparr>sv_name = ''Active'', sv_instance = None, sv_attribute = None, sv_type = Some ''boolean'', sv_unit = None\<rparr>,
      \<lparr>sv_name = ''Tripped'', sv_instance = None, sv_attribute = None, sv_type = Some ''boolean'', sv_unit = None\<rparr>,
      \<lparr>sv_name = ''Height'', sv_instance = None, sv_attribute = None, sv_type = Some ''decimal'', sv_unit = Some ''m''\<rparr>,
      \<lparr>sv_name = ''Percent'', sv_instance = None, sv_attribute = None, sv_type = Some ''decimal'', sv_unit = Some ''Percent''\<rparr>]"

definition GROUNDISOLATIONPROTECTION :: "standard_variable list" where
  "GROUNDISOLATIONPROTECTION =
     [\<lparr>sv_name = ''Enabled'', sv_instance = None, sv_attribute = None, sv_type = Some ''boolean'', sv_unit = None\<rparr>,
      \<lparr>sv_name = ''Active'', sv_instance = None, sv_attribute = None, sv_type = Some ''boolean'', sv_unit = None\<rparr>,
      \<lparr>sv_name = ''Complete'', sv_instance = None, sv_attribute = None, sv_type = Some ''boolean'', sv_unit = None\<rparr>,
      \<lparr>sv_name = ''Problem'', sv_instance = None, sv_attribute = None, sv_type = Some ''boolean'', sv_unit = None\<rparr>,
      \<lparr>sv_name = ''Impedance'', sv_instance = None, sv_attribute = None, sv_type = Some ''decimal'', sv_unit = Some ''Ohm''\<rparr>]"

definition HEATER :: "standard_variable list" where
  "HEATER =
     [\<lparr>sv_name = ''Enabled'', sv_instance = None, sv_attribute = None, sv_type = Some ''boolean'', sv_unit = None\<rparr>,
      \<lparr>sv_name = ''Active'', sv_instance = None, sv_attribute = None, sv_type = Some ''boolean'', sv_unit = None\<rparr>,
      \<lparr>sv_name = ''Problem'', sv_instance = None, sv_attribute = None, sv_type = Some ''boolean'', sv_unit = None\<rparr>,
      \<lparr>sv_name = ''Tripped'', sv_instance = None, sv_attribute = None, sv_type = Some ''boolean'', sv_unit = None\<rparr>,
      \<lparr>sv_name = ''Power'', sv_instance = None, sv_attribute = None, sv_type = Some ''decimal'', sv_unit = Some ''W,kW''\<rparr>,
      \<lparr>sv_name = ''Power'', sv_instance = None, sv_attribute = Some ''MaxLimit'', sv_type = Some ''decimal'', sv_unit = Some ''W,kW''\<rparr>,
      \<lparr>sv_name = ''Power'', sv_instance = None, sv_attribute = Some ''MaxSet'', sv_type = Some ''decimal'', sv_unit = Some ''W,kW''\<rparr>,
      \<lparr>sv_name = ''Temperature'', sv_instance = None, sv_attribute = Some ''MinSet'', sv_type = Some ''decimal'', sv_unit = Some ''Celsius,''\<rparr>,
      \<lparr>sv_name = ''Temperature'', sv_instance = None, sv_attribute = Some ''MaxSet'', sv_type = Some ''decimal'', sv_unit = Some ''Celsius,''\<rparr>]"

definition HUMIDITYSENSOR :: "standard_variable list" where
  "HUMIDITYSENSOR =
     [\<lparr>sv_name = ''Enabled'', sv_instance = None, sv_attribute = None, sv_type = Some ''boolean'', sv_unit = None\<rparr>,
      \<lparr>sv_name = ''Problem'', sv_instance = None, sv_attribute = None, sv_type = Some ''boolean'', sv_unit = None\<rparr>,
      \<lparr>sv_name = ''Humidity'', sv_instance = None, sv_attribute = None, sv_type = Some ''decimal'', sv_unit = Some ''RH''\<rparr>]"

definition LIGHTSENSOR :: "standard_variable list" where
  "LIGHTSENSOR =
     [\<lparr>sv_name = ''Enabled'', sv_instance = None, sv_attribute = None, sv_type = Some ''boolean'', sv_unit = None\<rparr>,
      \<lparr>sv_name = ''Problem'', sv_instance = None, sv_attribute = None, sv_type = Some ''boolean'', sv_unit = None\<rparr>,
      \<lparr>sv_name = ''Light'', sv_instance = None, sv_attribute = None, sv_type = Some ''decimal'', sv_unit = Some ''lx''\<rparr>]"

definition LIQUIDCOOLINGSYSTEM :: "standard_variable list" where
  "LIQUIDCOOLINGSYSTEM =
     [\<lparr>sv_name = ''Enabled'', sv_instance = None, sv_attribute = None, sv_type = Some ''boolean'', sv_unit = None\<rparr>,
      \<lparr>sv_name = ''Active'', sv_instance = None, sv_attribute = None, sv_type = Some ''boolean'', sv_unit = None\<rparr>,
      \<lparr>sv_name = ''Problem'', sv_instance = None, sv_attribute = None, sv_type = Some ''boolean'', sv_unit = None\<rparr>,
      \<lparr>sv_name = ''Temperature'', sv_instance = None, sv_attribute = None, sv_type = Some ''decimal'', sv_unit = Some ''Celsius,''\<rparr>]"

definition LOCALAVAILABILITYSENSOR :: "standard_variable list" where
  "LOCALAVAILABILITYSENSOR =
     [\<lparr>sv_name = ''Enabled'', sv_instance = None, sv_attribute = None, sv_type = Some ''boolean'', sv_unit = None\<rparr>,
      \<lparr>sv_name = ''Active'', sv_instance = None, sv_attribute = None, sv_type = Some ''boolean'', sv_unit = None\<rparr>,
      \<lparr>sv_name = ''Problem'', sv_instance = None, sv_attribute = None, sv_type = Some ''boolean'', sv_unit = None\<rparr>]"

definition LOCALCONTROLLER :: "standard_variable list" where
  "LOCALCONTROLLER =
     []"

definition LOCALENERGYSTORAGE :: "standard_variable list" where
  "LOCALENERGYSTORAGE =
     [\<lparr>sv_name = ''EnergyCapacity'', sv_instance = None, sv_attribute = None, sv_type = Some ''decimal'', sv_unit = Some ''Wh''\<rparr>,
      \<lparr>sv_name = ''Identity'', sv_instance = None, sv_attribute = None, sv_type = Some ''string'', sv_unit = None\<rparr>]"

definition OVERCURRENTPROTECTION :: "standard_variable list" where
  "OVERCURRENTPROTECTION =
     [\<lparr>sv_name = ''Active'', sv_instance = None, sv_attribute = None, sv_type = Some ''boolean'', sv_unit = None\<rparr>,
      \<lparr>sv_name = ''Operated'', sv_instance = None, sv_attribute = None, sv_type = Some ''boolean'', sv_unit = None\<rparr>,
      \<lparr>sv_name = ''ACCurrent'', sv_instance = None, sv_attribute = None, sv_type = Some ''decimal'', sv_unit = Some ''A''\<rparr>]"

definition OVERCURRENTPROTECTIONRECLOSER :: "standard_variable list" where
  "OVERCURRENTPROTECTIONRECLOSER =
     [\<lparr>sv_name = ''Enabled'', sv_instance = None, sv_attribute = None, sv_type = Some ''boolean'', sv_unit = None\<rparr>,
      \<lparr>sv_name = ''Active'', sv_instance = None, sv_attribute = None, sv_type = Some ''boolean'', sv_unit = None\<rparr>,
      \<lparr>sv_name = ''Active'', sv_instance = None, sv_attribute = Some ''Set'', sv_type = Some ''boolean'', sv_unit = None\<rparr>,
      \<lparr>sv_name = ''Complete'', sv_instance = None, sv_attribute = None, sv_type = Some ''boolean'', sv_unit = None\<rparr>,
      \<lparr>sv_name = ''Problem'', sv_instance = None, sv_attribute = None, sv_type = Some ''boolean'', sv_unit = None\<rparr>,
      \<lparr>sv_name = ''Mode'', sv_instance = None, sv_attribute = None, sv_type = Some ''string'', sv_unit = None\<rparr>,
      \<lparr>sv_name = ''Tries'', sv_instance = None, sv_attribute = None, sv_type = Some ''integer'', sv_unit = None\<rparr>,
      \<lparr>sv_name = ''Tries'', sv_instance = None, sv_attribute = Some ''SetLimit'', sv_type = Some ''integer'', sv_unit = None\<rparr>,
      \<lparr>sv_name = ''Tries'', sv_instance = None, sv_attribute = Some ''MaxLimit'', sv_type = Some ''integer'', sv_unit = None\<rparr>]"

definition POWERCONTACTOR :: "standard_variable list" where
  "POWERCONTACTOR =
     [\<lparr>sv_name = ''Active'', sv_instance = None, sv_attribute = None, sv_type = Some ''boolean'', sv_unit = None\<rparr>,
      \<lparr>sv_name = ''Tripped'', sv_instance = None, sv_attribute = None, sv_type = Some ''boolean'', sv_unit = None\<rparr>,
      \<lparr>sv_name = ''Problem'', sv_instance = None, sv_attribute = None, sv_type = Some ''boolean'', sv_unit = None\<rparr>]"

definition RCD :: "standard_variable list" where
  "RCD =
     [\<lparr>sv_name = ''Tripped'', sv_instance = None, sv_attribute = None, sv_type = Some ''boolean'', sv_unit = None\<rparr>,
      \<lparr>sv_name = ''Operated'', sv_instance = None, sv_attribute = None, sv_type = Some ''boolean'', sv_unit = None\<rparr>]"

definition RCDRECLOSER :: "standard_variable list" where
  "RCDRECLOSER =
     [\<lparr>sv_name = ''Enabled'', sv_instance = None, sv_attribute = None, sv_type = Some ''boolean'', sv_unit = None\<rparr>,
      \<lparr>sv_name = ''Active'', sv_instance = None, sv_attribute = None, sv_type = Some ''boolean'', sv_unit = None\<rparr>,
      \<lparr>sv_name = ''Active'', sv_instance = None, sv_attribute = Some ''Set'', sv_type = Some ''boolean'', sv_unit = None\<rparr>,
      \<lparr>sv_name = ''Complete'', sv_instance = None, sv_attribute = None, sv_type = Some ''boolean'', sv_unit = None\<rparr>,
      \<lparr>sv_name = ''Problem'', sv_instance = None, sv_attribute = None, sv_type = Some ''boolean'', sv_unit = None\<rparr>,
      \<lparr>sv_name = ''Tries'', sv_instance = None, sv_attribute = None, sv_type = Some ''integer'', sv_unit = None\<rparr>,
      \<lparr>sv_name = ''Tries'', sv_instance = None, sv_attribute = Some ''SetLimit'', sv_type = Some ''integer'', sv_unit = None\<rparr>,
      \<lparr>sv_name = ''Tries'', sv_instance = None, sv_attribute = Some ''MaxLimit'', sv_type = Some ''integer'', sv_unit = None\<rparr>]"

definition REALTIMECLOCK :: "standard_variable list" where
  "REALTIMECLOCK =
     [\<lparr>sv_name = ''Active'', sv_instance = None, sv_attribute = None, sv_type = Some ''boolean'', sv_unit = None\<rparr>,
      \<lparr>sv_name = ''DCVoltage'', sv_instance = None, sv_attribute = None, sv_type = Some ''decimal'', sv_unit = Some ''V''\<rparr>,
      \<lparr>sv_name = ''Fallback'', sv_instance = None, sv_attribute = None, sv_type = Some ''boolean'', sv_unit = None\<rparr>,
      \<lparr>sv_name = ''Fallback'', sv_instance = None, sv_attribute = Some ''MaxLimit'', sv_type = Some ''boolean'', sv_unit = None\<rparr>,
      \<lparr>sv_name = ''Problem'', sv_instance = None, sv_attribute = None, sv_type = Some ''boolean'', sv_unit = None\<rparr>]"

definition SHOCKSENSOR :: "standard_variable list" where
  "SHOCKSENSOR =
     [\<lparr>sv_name = ''Enabled'', sv_instance = None, sv_attribute = None, sv_type = Some ''boolean'', sv_unit = None\<rparr>,
      \<lparr>sv_name = ''Active'', sv_instance = None, sv_attribute = None, sv_type = Some ''boolean'', sv_unit = None\<rparr>,
      \<lparr>sv_name = ''Force'', sv_instance = None, sv_attribute = None, sv_type = Some ''decimal'', sv_unit = Some ''N''\<rparr>]"

definition SPACESCOUNTSIGNAGE :: "standard_variable list" where
  "SPACESCOUNTSIGNAGE =
     [\<lparr>sv_name = ''Enabled'', sv_instance = None, sv_attribute = None, sv_type = Some ''boolean'', sv_unit = None\<rparr>,
      \<lparr>sv_name = ''Active'', sv_instance = None, sv_attribute = None, sv_type = Some ''boolean'', sv_unit = None\<rparr>,
      \<lparr>sv_name = ''Count'', sv_instance = None, sv_attribute = None, sv_type = Some ''integer'', sv_unit = None\<rparr>]"

definition SWITCH :: "standard_variable list" where
  "SWITCH =
     [\<lparr>sv_name = ''Enabled'', sv_instance = None, sv_attribute = None, sv_type = Some ''boolean'', sv_unit = None\<rparr>,
      \<lparr>sv_name = ''Active'', sv_instance = None, sv_attribute = None, sv_type = Some ''boolean'', sv_unit = None\<rparr>,
      \<lparr>sv_name = ''State'', sv_instance = None, sv_attribute = None, sv_type = Some ''string'', sv_unit = None\<rparr>]"

definition TEMPERATURESENSOR :: "standard_variable list" where
  "TEMPERATURESENSOR =
     [\<lparr>sv_name = ''Active'', sv_instance = None, sv_attribute = None, sv_type = Some ''boolean'', sv_unit = None\<rparr>,
      \<lparr>sv_name = ''Problem'', sv_instance = None, sv_attribute = None, sv_type = Some ''boolean'', sv_unit = None\<rparr>,
      \<lparr>sv_name = ''Temperature'', sv_instance = None, sv_attribute = None, sv_type = Some ''decimal'', sv_unit = Some ''Celsius,''\<rparr>]"

definition TILTSENSOR :: "standard_variable list" where
  "TILTSENSOR =
     [\<lparr>sv_name = ''Enabled'', sv_instance = None, sv_attribute = None, sv_type = Some ''boolean'', sv_unit = None\<rparr>,
      \<lparr>sv_name = ''Active'', sv_instance = None, sv_attribute = None, sv_type = Some ''boolean'', sv_unit = None\<rparr>,
      \<lparr>sv_name = ''Angle'', sv_instance = None, sv_attribute = None, sv_type = Some ''decimal'', sv_unit = Some ''Deg''\<rparr>]"

definition TOKENREADER :: "standard_variable list" where
  "TOKENREADER =
     [\<lparr>sv_name = ''Enabled'', sv_instance = None, sv_attribute = None, sv_type = Some ''boolean'', sv_unit = None\<rparr>,
      \<lparr>sv_name = ''Operated'', sv_instance = None, sv_attribute = None, sv_type = Some ''boolean'', sv_unit = None\<rparr>,
      \<lparr>sv_name = ''Problem'', sv_instance = None, sv_attribute = None, sv_type = Some ''boolean'', sv_unit = None\<rparr>,
      \<lparr>sv_name = ''Token'', sv_instance = None, sv_attribute = None, sv_type = Some ''string'', sv_unit = None\<rparr>,
      \<lparr>sv_name = ''TokenType'', sv_instance = None, sv_attribute = None, sv_type = Some ''OptionList'', sv_unit = None\<rparr>]"

definition UPSTREAMPROTECTIONTRIGGER :: "standard_variable list" where
  "UPSTREAMPROTECTIONTRIGGER =
     [\<lparr>sv_name = ''Enabled'', sv_instance = None, sv_attribute = None, sv_type = Some ''boolean'', sv_unit = None\<rparr>,
      \<lparr>sv_name = ''Active'', sv_instance = None, sv_attribute = Some ''Set'', sv_type = Some ''boolean'', sv_unit = None\<rparr>,
      \<lparr>sv_name = ''Tripped'', sv_instance = None, sv_attribute = None, sv_type = Some ''boolean'', sv_unit = None\<rparr>,
      \<lparr>sv_name = ''Problem'', sv_instance = None, sv_attribute = None, sv_type = Some ''boolean'', sv_unit = None\<rparr>]"

definition UIINPUT :: "standard_variable list" where
  "UIINPUT =
     [\<lparr>sv_name = ''Enabled'', sv_instance = None, sv_attribute = None, sv_type = Some ''boolean'', sv_unit = None\<rparr>,
      \<lparr>sv_name = ''Operated'', sv_instance = None, sv_attribute = None, sv_type = Some ''boolean'', sv_unit = None\<rparr>,
      \<lparr>sv_name = ''Active'', sv_instance = None, sv_attribute = None, sv_type = Some ''boolean'', sv_unit = None\<rparr>]"

definition VEHICLEIDSENSOR :: "standard_variable list" where
  "VEHICLEIDSENSOR =
     [\<lparr>sv_name = ''Enabled'', sv_instance = None, sv_attribute = None, sv_type = Some ''boolean'', sv_unit = None\<rparr>,
      \<lparr>sv_name = ''Active'', sv_instance = None, sv_attribute = None, sv_type = Some ''boolean'', sv_unit = None\<rparr>]"

definition COMPONENTS :: "standard_component list" where
  "COMPONENTS =
     [\<lparr>sc_name = ''AlignedDataCtrlr'', sc_kind = Controller, sc_variables = ALIGNEDDATACTRLR\<rparr>,
      \<lparr>sc_name = ''AuthCtrlr'', sc_kind = Controller, sc_variables = AUTHCTRLR\<rparr>,
      \<lparr>sc_name = ''AuthCacheCtrlr'', sc_kind = Controller, sc_variables = AUTHCACHECTRLR\<rparr>,
      \<lparr>sc_name = ''CHAdeMOCtrlr'', sc_kind = Controller, sc_variables = CHADEMOCTRLR\<rparr>,
      \<lparr>sc_name = ''ClockCtrlr'', sc_kind = Controller, sc_variables = CLOCKCTRLR\<rparr>,
      \<lparr>sc_name = ''CustomizationCtrlr'', sc_kind = Controller, sc_variables = CUSTOMIZATIONCTRLR\<rparr>,
      \<lparr>sc_name = ''DeviceDataCtrlr'', sc_kind = Controller, sc_variables = DEVICEDATACTRLR\<rparr>,
      \<lparr>sc_name = ''DisplayMessageCtrlr'', sc_kind = Controller, sc_variables = DISPLAYMESSAGECTRLR\<rparr>,
      \<lparr>sc_name = ''ISO15118Ctrlr'', sc_kind = Controller, sc_variables = ISO15118CTRLR\<rparr>,
      \<lparr>sc_name = ''LocalAuthListCtrlr'', sc_kind = Controller, sc_variables = LOCALAUTHLISTCTRLR\<rparr>,
      \<lparr>sc_name = ''MonitoringCtrlr'', sc_kind = Controller, sc_variables = MONITORINGCTRLR\<rparr>,
      \<lparr>sc_name = ''OCPPCommCtrlr'', sc_kind = Controller, sc_variables = OCPPCOMMCTRLR\<rparr>,
      \<lparr>sc_name = ''WebPaymentsCtrlr'', sc_kind = Controller, sc_variables = WEBPAYMENTSCTRLR\<rparr>,
      \<lparr>sc_name = ''ReservationCtrlr'', sc_kind = Controller, sc_variables = RESERVATIONCTRLR\<rparr>,
      \<lparr>sc_name = ''SampledDataCtrlr'', sc_kind = Controller, sc_variables = SAMPLEDDATACTRLR\<rparr>,
      \<lparr>sc_name = ''SecurityCtrlr'', sc_kind = Controller, sc_variables = SECURITYCTRLR\<rparr>,
      \<lparr>sc_name = ''SmartChargingCtrlr'', sc_kind = Controller, sc_variables = SMARTCHARGINGCTRLR\<rparr>,
      \<lparr>sc_name = ''TariffCostCtrlr'', sc_kind = Controller, sc_variables = TARIFFCOSTCTRLR\<rparr>,
      \<lparr>sc_name = ''TxCtrlr'', sc_kind = Controller, sc_variables = TXCTRLR\<rparr>,
      \<lparr>sc_name = ''AccessBarrier'', sc_kind = Physical, sc_variables = ACCESSBARRIER\<rparr>,
      \<lparr>sc_name = ''AcDcConverter'', sc_kind = Physical, sc_variables = ACDCCONVERTER\<rparr>,
      \<lparr>sc_name = ''AcPhaseSelector'', sc_kind = Physical, sc_variables = ACPHASESELECTOR\<rparr>,
      \<lparr>sc_name = ''Actuator'', sc_kind = Physical, sc_variables = ACTUATOR\<rparr>,
      \<lparr>sc_name = ''AirCoolingSystem'', sc_kind = Physical, sc_variables = AIRCOOLINGSYSTEM\<rparr>,
      \<lparr>sc_name = ''AreaVentilation'', sc_kind = Physical, sc_variables = AREAVENTILATION\<rparr>,
      \<lparr>sc_name = ''BayOccupancySensor'', sc_kind = Physical, sc_variables = BAYOCCUPANCYSENSOR\<rparr>,
      \<lparr>sc_name = ''BeaconLighting'', sc_kind = Physical, sc_variables = BEACONLIGHTING\<rparr>,
      \<lparr>sc_name = ''CableBreakawaySensor'', sc_kind = Physical, sc_variables = CABLEBREAKAWAYSENSOR\<rparr>,
      \<lparr>sc_name = ''CaseAccessSensor'', sc_kind = Physical, sc_variables = CASEACCESSSENSOR\<rparr>,
      \<lparr>sc_name = ''ChargingStation'', sc_kind = Physical, sc_variables = CHARGINGSTATION\<rparr>,
      \<lparr>sc_name = ''ChargingStatusIndicator'', sc_kind = Physical, sc_variables = CHARGINGSTATUSINDICATOR\<rparr>,
      \<lparr>sc_name = ''ConnectedEV'', sc_kind = Physical, sc_variables = CONNECTEDEV\<rparr>,
      \<lparr>sc_name = ''Connector'', sc_kind = Physical, sc_variables = CONNECTOR\<rparr>,
      \<lparr>sc_name = ''ConnectorHolsterRelease'', sc_kind = Physical, sc_variables = CONNECTORHOLSTERRELEASE\<rparr>,
      \<lparr>sc_name = ''ConnectorHolsterSensor'', sc_kind = Physical, sc_variables = CONNECTORHOLSTERSENSOR\<rparr>,
      \<lparr>sc_name = ''ConnectorPlugRetentionLock'', sc_kind = Physical, sc_variables = CONNECTORPLUGRETENTIONLOCK\<rparr>,
      \<lparr>sc_name = ''ConnectorProtectionRelease'', sc_kind = Physical, sc_variables = CONNECTORPROTECTIONRELEASE\<rparr>,
      \<lparr>sc_name = ''Controller'', sc_kind = Physical, sc_variables = CONTROLLER\<rparr>,
      \<lparr>sc_name = ''ControlMetering'', sc_kind = Physical, sc_variables = CONTROLMETERING\<rparr>,
      \<lparr>sc_name = ''CPPWMController'', sc_kind = Physical, sc_variables = CPPWMCONTROLLER\<rparr>,
      \<lparr>sc_name = ''DataLink'', sc_kind = Physical, sc_variables = DATALINK\<rparr>,
      \<lparr>sc_name = ''Display'', sc_kind = Physical, sc_variables = DISPLAY\<rparr>,
      \<lparr>sc_name = ''ElectricalFeed'', sc_kind = Physical, sc_variables = ELECTRICALFEED\<rparr>,
      \<lparr>sc_name = ''ELVSupply'', sc_kind = Physical, sc_variables = ELVSUPPLY\<rparr>,
      \<lparr>sc_name = ''EmergencyStopSensor'', sc_kind = Physical, sc_variables = EMERGENCYSTOPSENSOR\<rparr>,
      \<lparr>sc_name = ''EnvironmentalLighting'', sc_kind = Physical, sc_variables = ENVIRONMENTALLIGHTING\<rparr>,
      \<lparr>sc_name = ''EVRetentionLock'', sc_kind = Physical, sc_variables = EVRETENTIONLOCK\<rparr>,
      \<lparr>sc_name = ''EVSE'', sc_kind = Physical, sc_variables = EVSE\<rparr>,
      \<lparr>sc_name = ''ExternalTemperatureSensor'', sc_kind = Physical, sc_variables = EXTERNALTEMPERATURESENSOR\<rparr>,
      \<lparr>sc_name = ''FiscalMetering'', sc_kind = Physical, sc_variables = FISCALMETERING\<rparr>,
      \<lparr>sc_name = ''FloodSensor'', sc_kind = Physical, sc_variables = FLOODSENSOR\<rparr>,
      \<lparr>sc_name = ''GroundIsolationProtection'', sc_kind = Physical, sc_variables = GROUNDISOLATIONPROTECTION\<rparr>,
      \<lparr>sc_name = ''Heater'', sc_kind = Physical, sc_variables = HEATER\<rparr>,
      \<lparr>sc_name = ''HumiditySensor'', sc_kind = Physical, sc_variables = HUMIDITYSENSOR\<rparr>,
      \<lparr>sc_name = ''LightSensor'', sc_kind = Physical, sc_variables = LIGHTSENSOR\<rparr>,
      \<lparr>sc_name = ''LiquidCoolingSystem'', sc_kind = Physical, sc_variables = LIQUIDCOOLINGSYSTEM\<rparr>,
      \<lparr>sc_name = ''LocalAvailabilitySensor'', sc_kind = Physical, sc_variables = LOCALAVAILABILITYSENSOR\<rparr>,
      \<lparr>sc_name = ''LocalController'', sc_kind = Physical, sc_variables = LOCALCONTROLLER\<rparr>,
      \<lparr>sc_name = ''LocalEnergyStorage'', sc_kind = Physical, sc_variables = LOCALENERGYSTORAGE\<rparr>,
      \<lparr>sc_name = ''OverCurrentProtection'', sc_kind = Physical, sc_variables = OVERCURRENTPROTECTION\<rparr>,
      \<lparr>sc_name = ''OverCurrentProtectionRecloser'', sc_kind = Physical, sc_variables = OVERCURRENTPROTECTIONRECLOSER\<rparr>,
      \<lparr>sc_name = ''PowerContactor'', sc_kind = Physical, sc_variables = POWERCONTACTOR\<rparr>,
      \<lparr>sc_name = ''RCD'', sc_kind = Physical, sc_variables = RCD\<rparr>,
      \<lparr>sc_name = ''RCDRecloser'', sc_kind = Physical, sc_variables = RCDRECLOSER\<rparr>,
      \<lparr>sc_name = ''RealTimeClock'', sc_kind = Physical, sc_variables = REALTIMECLOCK\<rparr>,
      \<lparr>sc_name = ''ShockSensor'', sc_kind = Physical, sc_variables = SHOCKSENSOR\<rparr>,
      \<lparr>sc_name = ''SpacesCountSignage'', sc_kind = Physical, sc_variables = SPACESCOUNTSIGNAGE\<rparr>,
      \<lparr>sc_name = ''Switch'', sc_kind = Physical, sc_variables = SWITCH\<rparr>,
      \<lparr>sc_name = ''TemperatureSensor'', sc_kind = Physical, sc_variables = TEMPERATURESENSOR\<rparr>,
      \<lparr>sc_name = ''TiltSensor'', sc_kind = Physical, sc_variables = TILTSENSOR\<rparr>,
      \<lparr>sc_name = ''TokenReader'', sc_kind = Physical, sc_variables = TOKENREADER\<rparr>,
      \<lparr>sc_name = ''UpstreamProtectionTrigger'', sc_kind = Physical, sc_variables = UPSTREAMPROTECTIONTRIGGER\<rparr>,
      \<lparr>sc_name = ''UIInput'', sc_kind = Physical, sc_variables = UIINPUT\<rparr>,
      \<lparr>sc_name = ''VehicleIdSensor'', sc_kind = Physical, sc_variables = VEHICLEIDSENSOR\<rparr>]"

section \<open>Lookups\<close>

definition standard_component_named :: "string \<Rightarrow> standard_component option" where
  "standard_component_named n = List.find (\<lambda>c. sc_name c = n) COMPONENTS"

definition standard_variable_named :: "string \<Rightarrow> string \<Rightarrow> standard_variable option" where
  "standard_variable_named c n =
     (case standard_component_named c of
        None \<Rightarrow> None
      | Some c \<Rightarrow> List.find (\<lambda>v. sv_name v = n) (sc_variables c))"

text \<open>No two components share a name, so every one of them is found under its own.\<close>

lemma component_names_distinct: "distinct (map sc_name COMPONENTS)"
  by code_simp

lemma component_found: "standard_component_named n = Some c \<longleftrightarrow> c \<in> set COMPONENTS \<and> sc_name c = n"
proof
  assume "standard_component_named n = Some c"
  then show "c \<in> set COMPONENTS \<and> sc_name c = n"
    by (auto simp: standard_component_named_def find_Some_iff)
next
  assume c: "c \<in> set COMPONENTS \<and> sc_name c = n"
  then obtain i where i: "i < length COMPONENTS" "COMPONENTS ! i = c" by (auto simp: in_set_conv_nth)
  have "sc_name (COMPONENTS ! j) \<noteq> n" if "j < i" for j
    using component_names_distinct that i c nth_eq_iff_index_eq [of "map sc_name COMPONENTS" i j] by simp
  then show "standard_component_named n = Some c"
    using i c by (auto simp: standard_component_named_def find_Some_iff)
qed

end
