(* ===== verification/Standard_Model.thy ===== *)
theory Standard_Model
  imports Device_Model Standard_Components
begin

text \<open>
  \<open>DeviceModel::declare_standard\<close> of \<open>station/device_model.rs\<close>: declaring what the catalogue of
  \<open>Standard_Components\<close> associates with one component.

  The lemmas show what is declared then, and that the number answered counts some variables twice.
\<close>

definition standard_type :: "standard_variable \<Rightarrow> data_type" where
  "standard_type v =
     (case Option.bind (sv_type v) data_type_from_wire of None \<Rightarrow> StringType | Some t \<Rightarrow> t)"

definition standard_spec :: "standard_variable \<Rightarrow> variable_spec" where
  "standard_spec v =
     (let s = spec_new (sv_name v) (standard_type v);
          s = (case sv_instance v of None \<Rightarrow> s | Some i \<Rightarrow> spec_instance i s)
      in case sv_unit v of None \<Rightarrow> s | Some u \<Rightarrow> in_unit u s)"

definition standard_attribute :: "standard_variable \<Rightarrow> attribute option" where
  "standard_attribute v =
     (case Option.bind (sv_attribute v) attribute_from_wire of
        None \<Rightarrow> None | Some a \<Rightarrow> if a = Actual then None else Some a)"

definition declare_one :: "component_key \<Rightarrow> standard_variable \<Rightarrow> nat \<times> device_model \<Rightarrow> nat \<times> device_model" where
  "declare_one c v st =
     (let (declared, m) = st; s = standard_spec v in
      case standard_attribute v of
        None \<Rightarrow> (declared + 1, dm_declare c s m)
      | Some a \<Rightarrow>
          (case bt_get m c of
             None \<Rightarrow> (declared + 1, dm_declare c (supports a s) m)
           | Some vs \<Rightarrow>
               (case bt_get vs (spec_key s) of
                  None \<Rightarrow> (declared + 1, dm_declare c (supports a s) m)
                | Some e \<Rightarrow> (declared, bt_insert c (bt_insert (spec_key s) (supports a e) vs) m))))"

definition declare_standard :: "string \<Rightarrow> device_model \<Rightarrow> nat option \<times> device_model" where
  "declare_standard n m =
     (case standard_component_named n of
        None \<Rightarrow> (None, m)
      | Some c \<Rightarrow>
          (let (declared, m') = foldl (\<lambda>st v. declare_one (component_new (sc_name c)) v st) (0, m) (sc_variables c)
           in (Some declared, m')))"

section \<open>What is declared\<close>

definition standard_key :: "standard_variable \<Rightarrow> variable_key" where
  "standard_key v = VariableKey (sv_name v) (sv_instance v)"

lemma standard_spec_key [simp]: "spec_key (standard_spec v) = standard_key v"
  by (simp add: standard_spec_def standard_key_def spec_new_def spec_instance_def in_unit_def
      variable_new_def Let_def split: option.splits)

lemma supports_fields [simp]:
  "spec_key (supports a s) = spec_key s" "spec_type (supports a s) = spec_type s"
  "spec_mutability (supports a s) = spec_mutability s" "spec_values (supports a s) = spec_values s"
  "spec_supported (supports a s) = insert a (spec_supported s)"
  by (simp_all add: supports_def)

lemma standard_spec_fields [simp]:
  "spec_type (standard_spec v) = standard_type v" "spec_mutability (standard_spec v) = ReadsOnly"
  "spec_values (standard_spec v) = (\<lambda>_. None)" "spec_supported (standard_spec v) = {Actual}"
  by (simp_all add: standard_spec_def spec_new_def spec_instance_def in_unit_def Let_def split: option.splits)

text \<open>The variable one entry of the catalogue leaves behind, from the one that was there.\<close>

definition after_entry :: "standard_variable \<Rightarrow> variable_spec option \<Rightarrow> variable_spec" where
  "after_entry v old =
     (case standard_attribute v of
        None \<Rightarrow> standard_spec v
      | Some a \<Rightarrow> supports a (case old of None \<Rightarrow> standard_spec v | Some e \<Rightarrow> e))"

lemma declare_one_effect:
  fixes c :: component_key and v :: standard_variable
  assumes "dm_ok m"
  defines "old \<equiv> lookup c (standard_key v) m"
  shows "fst (declare_one c v (k, m)) = (if standard_attribute v = None \<or> old = None then k + 1 else k)"
    and "dm_ok (snd (declare_one c v (k, m)))"
    and "lookup c' v' (snd (declare_one c v (k, m))) =
       (if c' = c \<and> v' = standard_key v then Some (after_entry v old) else lookup c' v' m)"
proof -
  have "fst (declare_one c v (k, m)) = (if standard_attribute v = None \<or> old = None then k + 1 else k) \<and>
    dm_ok (snd (declare_one c v (k, m))) \<and>
    lookup c' v' (snd (declare_one c v (k, m))) =
       (if c' = c \<and> v' = standard_key v then Some (after_entry v old) else lookup c' v' m)"
  proof (cases "standard_attribute v")
    case None
    then show ?thesis
      using dm_declare_ok [OF assms(1)] lookup_declare [OF assms(1), of c' v' c "standard_spec v"]
      by (simp add: declare_one_def Let_def after_entry_def)
  next
    case (Some a)
    show ?thesis
    proof (cases old)
      case None
      then have "declare_one c v (k, m) = (k + 1, dm_declare c (supports a (standard_spec v)) m)"
        using Some by (auto simp: old_def declare_one_def Let_def lookup_def split: option.splits)
      then show ?thesis
        using dm_declare_ok [OF assms(1)] Some None
          lookup_declare [OF assms(1), of c' v' c "supports a (standard_spec v)"]
        by (simp add: after_entry_def)
    next
      case e: (Some e)
      then obtain vs where vs: "bt_get m c = Some vs" "bt_get vs (standard_key v) = Some e"
        by (auto simp: old_def lookup_def split: option.splits)
      then have one: "declare_one c v (k, m) = (k, bt_insert c (bt_insert (standard_key v) (supports a e) vs) m)"
        using Some by (simp add: declare_one_def Let_def)
      moreover have "spec_key (supports a e) = standard_key v"
        using dm_ok_lookup [OF assms(1)] e by (simp add: old_def)
      ultimately show ?thesis
        using dm_ok_put [OF assms(1), of vs c "supports a e"] vs e Some
          lookup_put [OF assms(1) vs(1), of c' v' "standard_key v" "supports a e"]
        by (simp add: after_entry_def)
    qed
  qed
  then show "fst (declare_one c v (k, m)) = (if standard_attribute v = None \<or> old = None then k + 1 else k)"
    and "dm_ok (snd (declare_one c v (k, m)))"
    and "lookup c' v' (snd (declare_one c v (k, m))) =
       (if c' = c \<and> v' = standard_key v then Some (after_entry v old) else lookup c' v' m)"
    by blast+
qed

text \<open>
  Entries that go together: those of one variable agree on its type, and none that names no
  attribute follows one that does, which would declare the variable anew and lose the attribute.
\<close>

definition together :: "standard_variable \<Rightarrow> standard_variable \<Rightarrow> bool" where
  "together v w \<longleftrightarrow>
     (standard_key v = standard_key w \<longrightarrow>
        standard_type v = standard_type w \<and> (standard_attribute w = None \<longrightarrow> standard_attribute v = None))"

definition declared_as :: "standard_variable \<Rightarrow> variable_spec \<Rightarrow> bool" where
  "declared_as v s \<longleftrightarrow>
     spec_type s = standard_type v \<and> \<not> writable (spec_mutability s) \<and> spec_values s = (\<lambda>_. None) \<and>
     Actual \<in> spec_supported s \<and> (\<forall>a. standard_attribute v = Some a \<longrightarrow> a \<in> spec_supported s)"

definition declare_listed :: "component_key \<Rightarrow> standard_variable list \<Rightarrow> device_model \<Rightarrow> nat \<times> device_model" where
  "declare_listed c vs m = foldl (\<lambda>st v. declare_one c v st) (0, m) vs"

lemma declare_listed_snoc:
  "declare_listed c (vs @ [v]) m = declare_one c v (declare_listed c vs m)"
  by (simp add: declare_listed_def)

lemma declare_listed_effect:
  assumes "dm_ok m" and "\<And>v. lookup c v m = None" and "sorted_wrt together vs"
  shows "dm_ok (snd (declare_listed c vs m)) \<and>
    card (standard_key ` set vs) \<le> fst (declare_listed c vs m) \<and> fst (declare_listed c vs m) \<le> length vs \<and>
    (\<forall>c' v'. c' \<noteq> c \<or> v' \<notin> standard_key ` set vs \<longrightarrow> lookup c' v' (snd (declare_listed c vs m)) = lookup c' v' m) \<and>
    (\<forall>v \<in> set vs. \<exists>s. lookup c (standard_key v) (snd (declare_listed c vs m)) = Some s \<and> declared_as v s)"
  using assms(3)
proof (induction vs rule: rev_induct)
  case Nil
  then show ?case using assms(1) by (simp add: declare_listed_def)
next
  case (snoc v vs)
  obtain k m' where st: "declare_listed c vs m = (k, m')" by fastforce
  have tog: "\<forall>w \<in> set vs. together w v" and IH: "dm_ok m'" "card (standard_key ` set vs) \<le> k" "k \<le> length vs"
    "\<And>c' v'. c' \<noteq> c \<or> v' \<notin> standard_key ` set vs \<Longrightarrow> lookup c' v' m' = lookup c' v' m"
    "\<And>v. v \<in> set vs \<Longrightarrow> \<exists>s. lookup c (standard_key v) m' = Some s \<and> declared_as v s"
    using snoc st by (auto simp: sorted_wrt_append)
  note effect = declare_one_effect [OF IH(1), where c = c and v = v and k = k]
  let ?old = "lookup c (standard_key v) m'" and ?new = "after_entry v (lookup c (standard_key v) m')"
  have old: "?old = None \<longleftrightarrow> standard_key v \<notin> standard_key ` set vs"
    using IH(4) [of c "standard_key v"] IH(5) assms(2) by fastforce
  have entry: "declared_as w ?new" if "w = v \<or> w \<in> set vs \<and> standard_key w = standard_key v" for w
  proof -
    have w: "standard_type w = standard_type v \<and> (standard_attribute v = None \<longrightarrow> standard_attribute w = None)"
      using that tog by (auto simp: together_def)
    have "\<exists>s. ?old = Some s \<and> declared_as w s" if "w \<in> set vs" "standard_key w = standard_key v" using IH(5) that by metis
    moreover have "spec_type s = standard_type v" if "?old = Some s" for s
    proof -
      from that obtain u where u: "u \<in> set vs" "standard_key u = standard_key v" using old by fastforce
      then show ?thesis using IH(5) [OF u(1)] that tog by (auto simp: declared_as_def together_def)
    qed
    moreover have "\<exists>u. declared_as u s" if "?old = Some s" for s
    proof -
      from that obtain u where u: "u \<in> set vs" "standard_key u = standard_key v" using old by fastforce
      then show ?thesis using IH(5) [OF u(1)] that by auto
    qed
    ultimately show ?thesis
      using w that by (auto simp: after_entry_def declared_as_def writable_def split: option.splits)
  qed
  have "card (standard_key ` set (vs @ [v])) = (if ?old = None then card (standard_key ` set vs) + 1 else card (standard_key ` set vs))"
    using old by (auto simp: insert_absorb card_insert_if)
  moreover have "\<exists>s. lookup c (standard_key w) (snd (declare_one c v (k, m'))) = Some s \<and> declared_as w s"
    if "w \<in> set (vs @ [v])" for w
    using that entry [of w] IH(5) [of w] by (auto simp: effect(3))
  ultimately show ?case
    using IH(2-4) by (simp add: declare_listed_snoc st effect)
qed

text \<open>What of an entry decides that, to be read off the catalogue once.\<close>

definition entry_facts :: "standard_variable \<Rightarrow> variable_key \<times> data_type \<times> attribute option" where
  "entry_facts v = (standard_key v, standard_type v, standard_attribute v)"

definition facts_together ::
  "variable_key \<times> data_type \<times> attribute option \<Rightarrow> variable_key \<times> data_type \<times> attribute option \<Rightarrow> bool" where
  "facts_together p q =
     (if fst p = fst q
      then fst (snd p) = fst (snd q) \<and> (if snd (snd q) = None then snd (snd p) = None else True) else True)"

lemma together_facts: "together v w = facts_together (entry_facts v) (entry_facts w)"
  by (auto simp: together_def facts_together_def entry_facts_def)

lemma catalogue_together: "list_all (\<lambda>c. sorted_wrt together (sc_variables c)) COMPONENTS"
proof -
  have "list_all (\<lambda>c. sorted_wrt facts_together (map entry_facts (sc_variables c))) COMPONENTS"
    by code_simp
  then show ?thesis by (simp add: sorted_wrt_map together_facts [abs_def])
qed

text \<open>
  Declaring a standard component the station does not have yet declares every variable the
  catalogue lists for it and no other, under its name and instance, with its type, read-only and
  without a value, and with every attribute listed that the model knows; nothing else in the model
  changes.
\<close>

theorem standard_component_declared:
  assumes "standard_component_named n = Some c" and "dm_ok m" and "\<forall>v. lookup (component_new n) v m = None"
  shows "\<exists>k m'. declare_standard n m = (Some k, m') \<and> dm_ok m' \<and>
    card (standard_key ` set (sc_variables c)) \<le> k \<and> k \<le> length (sc_variables c) \<and>
    (\<forall>v \<in> set (sc_variables c). \<exists>s. lookup (component_new n) (standard_key v) m' = Some s \<and>
       spec_type s = standard_type v \<and> \<not> writable (spec_mutability s) \<and> spec_values s = (\<lambda>_. None) \<and>
       (\<forall>a. Option.bind (sv_attribute v) attribute_from_wire = Some a \<longrightarrow> a \<in> spec_supported s)) \<and>
    (\<forall>c' v'. c' \<noteq> component_new n \<or> v' \<notin> standard_key ` set (sc_variables c) \<longrightarrow>
       lookup c' v' m' = lookup c' v' m)"
proof -
  have c: "c \<in> set COMPONENTS" "sc_name c = n" using assms(1) by (simp_all add: component_found)
  then have "sorted_wrt together (sc_variables c)"
    using catalogue_together by (simp add: list_all_iff)
  note effect = declare_listed_effect [OF assms(2) _ this, of "component_new n"]
  have attrs: "a \<in> spec_supported s"
    if "declared_as v s" "Option.bind (sv_attribute v) attribute_from_wire = Some a" for v s a
    using that by (cases "a = Actual") (auto simp: declared_as_def standard_attribute_def)
  let ?d = "declare_listed (component_new n) (sc_variables c) m"
  note effect' = effect [OF assms(3) [rule_format]]
  have d: "declare_standard n m = (Some (fst ?d), snd ?d)"
    using assms(1) c(2) by (simp add: declare_standard_def declare_listed_def case_prod_unfold Let_def)
  have listed: "\<forall>v \<in> set (sc_variables c). \<exists>s. lookup (component_new n) (standard_key v) (snd ?d) = Some s \<and>
       spec_type s = standard_type v \<and> \<not> writable (spec_mutability s) \<and> spec_values s = (\<lambda>_. None) \<and>
       (\<forall>a. Option.bind (sv_attribute v) attribute_from_wire = Some a \<longrightarrow> a \<in> spec_supported s)"
  proof
    fix v assume "v \<in> set (sc_variables c)"
    then obtain s where s: "lookup (component_new n) (standard_key v) (snd ?d) = Some s" "declared_as v s"
      using effect' by blast
    then show "\<exists>s. lookup (component_new n) (standard_key v) (snd ?d) = Some s \<and>
       spec_type s = standard_type v \<and> \<not> writable (spec_mutability s) \<and> spec_values s = (\<lambda>_. None) \<and>
       (\<forall>a. Option.bind (sv_attribute v) attribute_from_wire = Some a \<longrightarrow> a \<in> spec_supported s)"
      using attrs [OF s(2)] by (intro exI [of _ s]) (simp add: declared_as_def)
  qed
  show ?thesis
    by (intro exI conjI, rule d, insert effect' listed) (elim conjE, assumption)+
qed

section \<open>How many\<close>

lemma dm_len_lookup:
  "dm_ok m \<Longrightarrow> finite {e. lookup (fst e) (snd e) m \<noteq> None} \<and> dm_len m = card {e. lookup (fst e) (snd e) m \<noteq> None}"
proof (induction m)
  case Nil
  then show ?case by (simp add: lookup_def bt_get_def dm_len_def)
next
  case (Cons x m)
  obtain c vs where x: "x = (c, vs)" by fastforce
  have ok: "dm_ok m" "bt_ok vs" "c \<notin> fst ` set m" using Cons.prems by (auto simp: dm_ok_def bt_ok_def x)
  then have "bt_get m c = None" by (simp add: bt_get_def map_of_eq_None_iff)
  then have split: "{e. lookup (fst e) (snd e) (x # m) \<noteq> None} =
      Pair c ` dom (bt_get vs) \<union> {e. lookup (fst e) (snd e) m \<noteq> None}"
    and disjoint: "Pair c ` dom (bt_get vs) \<inter> {e. lookup (fst e) (snd e) m \<noteq> None} = {}"
    by (auto simp: lookup_def bt_get_def x split: if_splits)
  have "card (Pair c ` dom (bt_get vs)) = length vs" "finite (dom (bt_get vs))"
    using bt_length [OF ok(2)] by (simp_all add: card_image inj_on_def)
  then have "card (Pair c ` dom (bt_get vs) \<union> {e. lookup (fst e) (snd e) m \<noteq> None}) =
      length vs + card {e. lookup (fst e) (snd e) m \<noteq> None}"
    using Cons.IH [OF ok(1)] by (subst card_Un_disjoint [OF _ _ disjoint]) simp_all
  then show ?case
    using Cons.IH [OF ok(1)] \<open>finite (dom (bt_get vs))\<close> unfolding split by (simp add: dm_len_def x)
qed

fun counted :: "variable_key list \<Rightarrow> (variable_key \<times> data_type \<times> attribute option) list \<Rightarrow> nat" where
  "counted seen [] = 0"
| "counted seen (p # ps) =
     (if snd (snd p) = None \<or> fst p \<notin> set seen then 1 else 0) + counted (fst p # seen) ps"

lemma counted_snoc:
  "counted seen (ps @ [p]) =
     counted seen ps + (if snd (snd p) = None \<or> fst p \<notin> set seen \<union> fst ` set ps then 1 else 0)"
  by (induction ps arbitrary: seen) auto

lemma declare_listed_count:
  assumes "sorted_wrt together vs"
  shows "fst (declare_listed c vs []) = counted [] (map entry_facts vs)"
    and "dm_len (snd (declare_listed c vs [])) = length (remdups (map (\<lambda>v. fst (entry_facts v)) vs))"
proof -
  have empty: "dm_ok []" "\<And>c v. lookup c v [] = None"
    by (simp_all add: dm_ok_def bt_ok_def lookup_def bt_get_def)
  note effect = declare_listed_effect [OF empty(1) empty(2), of _ c]
  show "fst (declare_listed c vs []) = counted [] (map entry_facts vs)"
    using assms
  proof (induction vs rule: rev_induct)
    case Nil
    then show ?case by (simp add: declare_listed_def)
  next
    case (snoc v vs)
    obtain k m' where st: "declare_listed c vs [] = (k, m')" by fastforce
    have vs: "sorted_wrt together vs" using snoc.prems by (simp add: sorted_wrt_append)
    have ok: "dm_ok m'" using effect [OF vs] by (simp add: st)
    have "lookup c (standard_key v) m' = None \<longleftrightarrow> standard_key v \<notin> standard_key ` set vs"
      using effect [OF vs] empty(2) [of c "standard_key v"] by (fastforce simp: st)
    then show ?case
      using snoc.IH [OF vs] declare_one_effect(1) [OF ok, of c v k]
      by (simp add: declare_listed_snoc st counted_snoc entry_facts_def image_image)
  qed
  have "{e. lookup (fst e) (snd e) (snd (declare_listed c vs [])) \<noteq> None} = Pair c ` standard_key ` set vs"
    using effect [OF assms] empty(2) by fastforce
  then show "dm_len (snd (declare_listed c vs [])) = length (remdups (map (\<lambda>v. fst (entry_facts v)) vs))"
    using dm_len_lookup [of "snd (declare_listed c vs [])"] effect [OF assms]
    by (simp add: card_image inj_on_def length_remdups_card_conv entry_facts_def)
qed

definition miscounted :: "standard_component \<Rightarrow> bool" where
  "miscounted c \<longleftrightarrow>
     (let ps = map entry_facts (sc_variables c) in counted [] ps \<noteq> length (remdups (map fst ps)))"

text \<open>
  The number \<open>declare_standard\<close> answers, how many variables were declared, is not that number:
  for these of the standard components it counts a variable again for each entry whose attribute
  the model does not know, as \<open>MaxLimit\<close>, or that repeats it.
\<close>

theorem standard_count_overcounts:
  "map sc_name (filter (\<lambda>c. fst (declare_standard (sc_name c) []) \<noteq>
     Some (dm_len (snd (declare_standard (sc_name c) [])))) COMPONENTS) =
   [''CHAdeMOCtrlr'', ''ISO15118Ctrlr'', ''ChargingStation'', ''Connector'', ''ConnectorPlugRetentionLock'', ''Controller'', ''CPPWMController'', ''ELVSupply'', ''EVSE'', ''FiscalMetering'', ''Heater'', ''OverCurrentProtectionRecloser'', ''RCDRecloser'', ''RealTimeClock'']"
proof -
  have "(fst (declare_standard (sc_name c) []) \<noteq> Some (dm_len (snd (declare_standard (sc_name c) [])))) = miscounted c"
    if "c \<in> set COMPONENTS" for c
  proof -
    have "standard_component_named (sc_name c) = Some c" using that by (simp add: component_found)
    then have d: "declare_standard (sc_name c) [] =
        (Some (fst (declare_listed (component_new (sc_name c)) (sc_variables c) [])),
         snd (declare_listed (component_new (sc_name c)) (sc_variables c) []))"
      by (simp add: declare_standard_def declare_listed_def case_prod_unfold Let_def)
    have "sorted_wrt together (sc_variables c)" using that catalogue_together by (simp add: list_all_iff)
    then show ?thesis
      unfolding d by (simp add: declare_listed_count miscounted_def Let_def comp_def)
  qed
  then have "filter (\<lambda>c. fst (declare_standard (sc_name c) []) \<noteq>
     Some (dm_len (snd (declare_standard (sc_name c) [])))) COMPONENTS = filter miscounted COMPONENTS"
    by (rule filter_cong [OF refl])
  moreover have "map sc_name (filter miscounted COMPONENTS) =
   [''CHAdeMOCtrlr'', ''ISO15118Ctrlr'', ''ChargingStation'', ''Connector'', ''ConnectorPlugRetentionLock'', ''Controller'', ''CPPWMController'', ''ELVSupply'', ''EVSE'', ''FiscalMetering'', ''Heater'', ''OverCurrentProtectionRecloser'', ''RCDRecloser'', ''RealTimeClock'']"
    by code_simp
  ultimately show ?thesis by simp
qed

section \<open>Examples\<close>

theorem standard_component_declared_witness:
  "\<exists>s. lookup (component_new ''Heater'') (VariableKey ''Power'' None) (snd (declare_standard ''Heater'' [])) = Some s \<and>
     spec_type s = DecimalType \<and> MaxSet \<in> spec_supported s"
proof -
  let ?v = "\<lparr>sv_name = ''Power'', sv_instance = None, sv_attribute = Some ''MaxSet'', sv_type = Some ''decimal'', sv_unit = Some ''W,kW''\<rparr>"
  let ?c = "\<lparr>sc_name = ''Heater'', sc_kind = Physical, sc_variables = HEATER\<rparr>"
  have "?c \<in> set COMPONENTS" by (simp add: COMPONENTS_def)
  then have c: "standard_component_named ''Heater'' = Some ?c" by (simp add: component_found)
  have "?v \<in> set (sc_variables ?c)" by (simp add: HEATER_def)
  moreover have "standard_key ?v = VariableKey ''Power'' None" "standard_type ?v = DecimalType"
    "Option.bind (sv_attribute ?v) attribute_from_wire = Some MaxSet"
    by code_simp+
  moreover have "dm_ok []" "\<forall>v. lookup (component_new ''Heater'') v [] = None"
    by (simp_all add: dm_ok_def bt_ok_def lookup_def bt_get_def)
  note standard_component_declared [OF c this]
  ultimately show ?thesis by fastforce
qed

end
