(* ===== verification/Configuration.thy ===== *)
theory Configuration
  imports Btree Values
begin

text \<open>
  \<open>station/configuration.rs\<close>: the configuration keys of an OCPP 1.6 station, with the standard
  keys and their defaults, and the answers to \<open>ChangeConfiguration\<close> and \<open>GetConfiguration\<close>.

  The lemmas show that the value of a key is always one of its type, whatever is written to it,
  and that writing changes the one key it names or nothing; and that the key the sources call
  write-only is reported like any other.
\<close>

datatype configuration_status = KeyAccepted | KeyRejected | KeyRebootRequired | KeyNotSupported

datatype value_type = Text | Integer | Boolean | CsvList

definition value_type_accepts :: "value_type \<Rightarrow> string \<Rightarrow> bool" where
  "value_type_accepts t v =
     (case t of
        Text \<Rightarrow> True
      | CsvList \<Rightarrow> True
      | Integer \<Rightarrow> parse_i64 v \<noteq> None
      | Boolean \<Rightarrow> is_boolean v)"

datatype access = ReadOnly | ReadWrite | RebootRequired

record configuration_key =
  key_name :: string
  key_access :: access
  key_type :: value_type
  key_profile :: string
  key_value :: "string option"

type_synonym configuration_keys = "(string \<times> configuration_key) list"

definition key :: "string \<Rightarrow> access \<Rightarrow> value_type \<Rightarrow> string \<Rightarrow> configuration_key" where
  "key n a t p = \<lparr>key_name = n, key_access = a, key_type = t, key_profile = p, key_value = None\<rparr>"

definition with_value :: "configuration_key \<Rightarrow> string \<Rightarrow> configuration_key" where
  "with_value k v = k\<lparr>key_value := Some v\<rparr>"

definition default_keys :: "configuration_key list" where
  "default_keys =
     [with_value (key ''HeartbeatInterval'' ReadWrite Integer ''Core'') ''300'',
      with_value (key ''AllowOfflineTxForUnknownId'' ReadWrite Boolean ''Core'') ''false'',
      with_value (key ''AuthorizationCacheEnabled'' ReadWrite Boolean ''Core'') ''true'',
      with_value (key ''AuthorizeRemoteTxRequests'' ReadOnly Boolean ''Core'') ''false'',
      with_value (key ''ClockAlignedDataInterval'' ReadWrite Integer ''Core'') ''0'',
      with_value (key ''ConnectionTimeOut'' ReadWrite Integer ''Core'') ''60'',
      with_value (key ''ConnectorPhaseRotation'' ReadWrite CsvList ''Core'') ''Unknown'',
      with_value (key ''GetConfigurationMaxKeys'' ReadOnly Integer ''Core'') ''50'',
      with_value (key ''LocalAuthorizeOffline'' ReadWrite Boolean ''Core'') ''true'',
      with_value (key ''LocalPreAuthorize'' ReadWrite Boolean ''Core'') ''false'',
      with_value (key ''MeterValuesAlignedData'' ReadWrite CsvList ''Core'') [],
      with_value (key ''MeterValuesSampledData'' ReadWrite CsvList ''Core'') ''Energy.Active.Import.Register'',
      with_value (key ''MeterValueSampleInterval'' ReadWrite Integer ''Core'') ''60'',
      with_value (key ''NumberOfConnectors'' ReadOnly Integer ''Core'') ''1'',
      with_value (key ''ResetRetries'' ReadWrite Integer ''Core'') ''3'',
      with_value (key ''StopTransactionOnEVSideDisconnect'' ReadWrite Boolean ''Core'') ''true'',
      with_value (key ''StopTransactionOnInvalidId'' ReadWrite Boolean ''Core'') ''true'',
      with_value (key ''StopTxnAlignedData'' ReadWrite CsvList ''Core'') [],
      with_value (key ''StopTxnSampledData'' ReadWrite CsvList ''Core'') [],
      with_value (key ''SupportedFeatureProfiles'' ReadOnly CsvList ''Core'') ''Core,FirmwareManagement,LocalAuthListManagement,Reservation,SmartCharging,RemoteTrigger'',
      with_value (key ''TransactionMessageAttempts'' ReadWrite Integer ''Core'') ''3'',
      with_value (key ''TransactionMessageRetryInterval'' ReadWrite Integer ''Core'') ''60'',
      with_value (key ''UnlockConnectorOnEVSideDisconnect'' ReadWrite Boolean ''Core'') ''true'',
      with_value (key ''WebSocketPingInterval'' ReadWrite Integer ''Core'') ''60'',
      with_value (key ''LocalAuthListEnabled'' ReadWrite Boolean ''LocalAuthListManagement'') ''true'',
      with_value (key ''LocalAuthListMaxLength'' ReadOnly Integer ''LocalAuthListManagement'') ''0'',
      with_value (key ''SendLocalListMaxLength'' ReadOnly Integer ''LocalAuthListManagement'') ''0'',
      with_value (key ''ReserveConnectorZeroSupported'' ReadOnly Boolean ''Reservation'') ''false'',
      with_value (key ''ChargeProfileMaxStackLevel'' ReadOnly Integer ''SmartCharging'') ''3'',
      with_value (key ''ChargingScheduleAllowedChargingRateUnit'' ReadOnly CsvList ''SmartCharging'') ''Current,Power'',
      with_value (key ''ChargingScheduleMaxPeriods'' ReadOnly Integer ''SmartCharging'') ''10'',
      with_value (key ''MaxChargingProfilesInstalled'' ReadOnly Integer ''SmartCharging'') ''10'',
      key ''AuthorizationKey'' ReadWrite Text ''Security'',
      with_value (key ''SecurityProfile'' ReadWrite Integer ''Security'') ''1'',
      with_value (key ''AdditionalRootCertificateCheck'' ReadOnly Boolean ''Security'') ''false'',
      with_value (key ''CertificateSignedMaxChainSize'' ReadOnly Integer ''Security'') ''0'',
      with_value (key ''CertificateStoreMaxLength'' ReadOnly Integer ''Security'') ''0'',
      key ''CpoName'' ReadWrite Text ''Security'',
      with_value (key ''ConnectionUrl'' RebootRequired Text ''Core'') []]"

definition declare_key :: "configuration_key \<Rightarrow> configuration_keys \<Rightarrow> configuration_keys" where
  "declare_key k c = bt_insert (key_name k) k c"

definition keys_with_defaults :: configuration_keys where
  "keys_with_defaults = foldl (\<lambda>c k. bt_insert (key_name k) k c) [] default_keys"

definition remove_key :: "string \<Rightarrow> configuration_keys \<Rightarrow> configuration_keys" where
  "remove_key n c = filter (\<lambda>e. fst e \<noteq> n) c"

definition get_key :: "string \<Rightarrow> configuration_keys \<Rightarrow> configuration_key option" where
  "get_key n c = bt_get c n"

definition set_key :: "string \<Rightarrow> string \<Rightarrow> configuration_keys \<Rightarrow> configuration_status \<times> configuration_keys" where
  "set_key n v c =
     (case bt_get c n of
        None \<Rightarrow> (KeyNotSupported, c)
      | Some k \<Rightarrow>
          if key_access k = ReadOnly \<or> \<not> value_type_accepts (key_type k) v then (KeyRejected, c)
          else
            (if key_access k = RebootRequired then KeyRebootRequired else KeyAccepted,
             bt_insert n (k\<lparr>key_value := Some v\<rparr>) c))"

definition report_keys :: "string list \<Rightarrow> configuration_keys \<Rightarrow> configuration_key list \<times> string list" where
  "report_keys requested c =
     (if requested = [] then (map snd c, [])
      else (List.map_filter (bt_get c) requested, filter (\<lambda>n. bt_get c n = None) requested))"

section \<open>Every value is of its type\<close>

definition key_ok :: "configuration_key \<Rightarrow> bool" where
  "key_ok k \<longleftrightarrow> (case key_value k of None \<Rightarrow> True | Some v \<Rightarrow> value_type_accepts (key_type k) v)"

definition keys_ok :: "configuration_keys \<Rightarrow> bool" where
  "keys_ok c \<longleftrightarrow> bt_ok c \<and> list_all (\<lambda>(n, k). key_name k = n \<and> key_ok k) c"

lemma keys_ok_get: "keys_ok c \<Longrightarrow> bt_get c n = Some k \<Longrightarrow> key_name k = n \<and> key_ok k"
  by (auto simp: keys_ok_def bt_get_def list_all_iff dest!: map_of_SomeD)

lemma keys_ok_insert: "keys_ok c \<Longrightarrow> key_ok k \<Longrightarrow> keys_ok (bt_insert (key_name k) k c)"
  by (auto simp: keys_ok_def bt_insert_ok list_all_iff set_bt_insert)

definition write_keys :: "(string \<times> string) list \<Rightarrow> configuration_keys \<Rightarrow> configuration_keys" where
  "write_keys ws c = foldl (\<lambda>c (n, v). snd (set_key n v c)) c ws"

lemma set_key_ok: "keys_ok c \<Longrightarrow> keys_ok (snd (set_key n v c))"
proof -
  assume c: "keys_ok c"
  show ?thesis
  proof (cases "bt_get c n")
    case None
    then show ?thesis using c by (simp add: set_key_def)
  next
    case (Some k)
    then have "key_name k = n" using keys_ok_get [OF c] by blast
    then have "value_type_accepts (key_type k) v \<Longrightarrow> keys_ok (bt_insert n (k\<lparr>key_value := Some v\<rparr>) c)"
      using keys_ok_insert [OF c, of "k\<lparr>key_value := Some v\<rparr>"] by (simp add: key_ok_def)
    then show ?thesis using c Some by (simp add: set_key_def)
  qed
qed

lemma defaults_ok: "keys_ok keys_with_defaults"
  by code_simp

lemma write_keys_ok: "keys_ok c \<Longrightarrow> keys_ok (write_keys ws c)"
  by (induction ws rule: rev_induct) (auto simp: write_keys_def set_key_ok)

text \<open>What a key has become: itself with another value, and itself where it cannot be written.\<close>

definition become :: "configuration_key \<Rightarrow> configuration_key \<Rightarrow> bool" where
  "become k0 k \<longleftrightarrow> k = k0\<lparr>key_value := key_value k\<rparr> \<and> (key_access k0 = ReadOnly \<longrightarrow> k = k0)"

lemma become_refl: "become k k"
  by (simp add: become_def)

lemma become_trans: "become a b \<Longrightarrow> become b c \<Longrightarrow> become a c"
  by (cases a; cases b; cases c) (auto simp: become_def)

lemma set_key_becomes:
  assumes "keys_ok c" and "get_key n (snd (set_key m v c)) = Some k"
  shows "\<exists>k0. get_key n c = Some k0 \<and> become k0 k"
proof (cases "bt_get c m")
  case None
  then show ?thesis using assms(2) by (auto simp: set_key_def become_refl)
next
  case (Some k1)
  then show ?thesis
    using assms
    by (cases k1)
       (auto simp: set_key_def get_key_def bt_get_insert keys_ok_def become_def split: if_splits)
qed

lemma write_keys_become:
  assumes "keys_ok c" and "get_key n (write_keys ws c) = Some k"
  shows "\<exists>k0. get_key n c = Some k0 \<and> become k0 k"
  using assms(2)
proof (induction ws arbitrary: k rule: rev_induct)
  case Nil
  then show ?case by (auto simp: write_keys_def become_refl)
next
  case (snoc w ws)
  obtain m v where w: "w = (m, v)" by fastforce
  have "get_key n (snd (set_key m v (write_keys ws c))) = Some k"
    using snoc.prems by (simp add: write_keys_def w)
  from set_key_becomes [OF write_keys_ok [OF assms(1)] this] show ?case
    using snoc.IH become_trans by blast
qed

text \<open>
  Whatever is written to the standard keys, every key stays declared under its own name, and
  every value one of the key's type: a number is a number of \<open>i64\<close>, a flag is true or false.
  Nothing but the value changes, and of a read-only key not even that.
\<close>

theorem configuration_well_typed:
  assumes "get_key n (write_keys ws keys_with_defaults) = Some k"
  shows "key_name k = n \<and> (\<forall>v. key_value k = Some v \<longrightarrow> value_type_accepts (key_type k) v) \<and>
    (\<exists>k0. get_key n keys_with_defaults = Some k0 \<and> k = k0\<lparr>key_value := key_value k\<rparr> \<and>
       (key_access k0 = ReadOnly \<longrightarrow> k = k0))"
  using write_keys_become [OF defaults_ok assms]
    keys_ok_get [OF write_keys_ok [OF defaults_ok], of ws n k] assms
  by (auto simp: get_key_def key_ok_def become_def)

theorem configuration_well_typed_witness:
  "map_option key_value (get_key ''SecurityProfile'' (write_keys [(''SecurityProfile'', ''x''), (''SecurityProfile'', ''2'')] keys_with_defaults))
     = Some (Some ''2'') \<and>
   value_type_accepts Integer ''2''"
proof -
  let ?k = "with_value (key ''SecurityProfile'' ReadWrite Integer ''Security'') ''2''"
  have k: "get_key ''SecurityProfile'' (write_keys [(''SecurityProfile'', ''x''), (''SecurityProfile'', ''2'')] keys_with_defaults) = Some ?k"
    by code_simp
  from configuration_well_typed [OF k] show ?thesis
    unfolding k by (simp add: key_def with_value_def)
qed

text \<open>
  The secret is readable: once the CSMS has set \<open>AuthorizationKey\<close>, which the sources call
  write-only, never read back, a \<open>GetConfiguration\<close> without keys lists it with its value.
\<close>

theorem authorization_key_reported:
  "\<exists>k \<in> set (fst (report_keys [] (snd (set_key ''AuthorizationKey'' secret keys_with_defaults)))).
     key_name k = ''AuthorizationKey'' \<and> key_value k = Some secret"
proof -
  have k: "bt_get keys_with_defaults ''AuthorizationKey'' = Some (key ''AuthorizationKey'' ReadWrite Text ''Security'')"
    by code_simp
  have "(''AuthorizationKey'', (key ''AuthorizationKey'' ReadWrite Text ''Security'')\<lparr>key_value := Some secret\<rparr>)
      \<in> set (snd (set_key ''AuthorizationKey'' secret keys_with_defaults))"
    using k defaults_ok
    by (simp add: set_key_def key_def value_type_accepts_def set_bt_insert keys_ok_def)
  then have "(key ''AuthorizationKey'' ReadWrite Text ''Security'')\<lparr>key_value := Some secret\<rparr>
      \<in> set (fst (report_keys [] (snd (set_key ''AuthorizationKey'' secret keys_with_defaults))))"
    by (force simp: report_keys_def)
  then show ?thesis by (rule bexI [rotated]) (simp add: key_def)
qed

end
