(* ===== verification/Authorization.thy ===== *)
theory Authorization
  imports Btree
begin

text \<open>
  \<open>station/authorization.rs\<close>: the local authorization list, the authorization cache and the rule
  that chooses between them and the CSMS.

  Both are a \<open>BTreeMap\<close>, the list of its entries in order. A point in time is of any linearly
  ordered type. \<open>usize\<close> counts are naturals; the one subtraction that can leave their range is
  a result of its own, \<open>None\<close>, where a build with overflow checks panics. The recency clock
  of the cache is a natural: it would take \<open>2 ^ 64\<close> lookups to wrap.

  The lemmas show that the cache is a bounded list in order of use, that an update of the
  list is a patch in which the last entry for a token decides, and which knowledge and which
  switch each decision rests on; and where the list's limit and the decision's account of
  itself fail.
\<close>

section \<open>Verdicts\<close>

datatype authorization_status = Accepted | Blocked | ConcurrentTx | Expired | Invalid | Unknown

definition status_as_str :: "authorization_status \<Rightarrow> string" where
  "status_as_str s =
     (case s of
        Accepted \<Rightarrow> ''Accepted'' | Blocked \<Rightarrow> ''Blocked'' | ConcurrentTx \<Rightarrow> ''ConcurrentTx''
      | Expired \<Rightarrow> ''Expired'' | Invalid \<Rightarrow> ''Invalid'' | Unknown \<Rightarrow> ''Unknown'')"

record 't id_token_info =
  status :: authorization_status
  expires :: "'t option"
  group_id :: "string option"
  language :: "string option"

definition info_new :: "authorization_status \<Rightarrow> 't id_token_info" where
  "info_new s = \<lparr>status = s, expires = None, group_id = None, language = None\<rparr>"

definition info_accepted :: "'t id_token_info" where
  "info_accepted = \<lparr>status = Accepted, expires = None, group_id = None, language = None\<rparr>"

definition expiring :: "'t id_token_info \<Rightarrow> 't \<Rightarrow> 't id_token_info" where
  "expiring i t = i\<lparr>expires := Some t\<rparr>"

definition in_group :: "'t id_token_info \<Rightarrow> string \<Rightarrow> 't id_token_info" where
  "in_group i g = i\<lparr>group_id := Some g\<rparr>"

definition status_at :: "('t :: linorder) id_token_info \<Rightarrow> 't \<Rightarrow> authorization_status" where
  "status_at i now =
     (case expires i of
        Some expiry \<Rightarrow> if expiry \<le> now then Expired else status i
      | None \<Rightarrow> status i)"

section \<open>The local authorization list\<close>

datatype update_type = Full | Differential

datatype update_status = UpdateAccepted | UpdateFailed | UpdateNotSupported | VersionMismatch

record 't local_list =
  list_version :: int
  list_entries :: "(string \<times> 't id_token_info) list"
  list_limit :: "nat option"

definition list_new :: "'t local_list" where
  "list_new = \<lparr>list_version = 0, list_entries = [], list_limit = None\<rparr>"

definition list_bounded :: "nat \<Rightarrow> 't local_list" where
  "list_bounded n = list_new\<lparr>list_limit := Some n\<rparr>"

text \<open>How many entries the update announces; \<open>None\<close> is a count below zero.\<close>

definition projected ::
  "update_type \<Rightarrow> 't local_list \<Rightarrow> (string \<times> 't id_token_info option) list \<Rightarrow> nat option" where
  "projected u l es =
     (case u of
        Full \<Rightarrow> Some (length (filter (\<lambda>(_, info). info \<noteq> None) es))
      | Differential \<Rightarrow>
          let added = length (filter (\<lambda>(token, info). info \<noteq> None \<and> bt_get (list_entries l) token = None) es);
              removed = length (filter (\<lambda>(token, info). info = None \<and> bt_get (list_entries l) token \<noteq> None) es)
          in if removed \<le> length (list_entries l) + added
             then Some (length (list_entries l) + added - removed) else None)"

definition store_entries ::
  "(string \<times> 't id_token_info option) list \<Rightarrow> (string \<times> 't id_token_info) list
     \<Rightarrow> (string \<times> 't id_token_info) list" where
  "store_entries es m =
     foldl (\<lambda>m (token, info). case info of Some i \<Rightarrow> bt_insert token i m | None \<Rightarrow> bt_remove token m) m es"

definition update_list ::
  "update_type \<Rightarrow> int \<Rightarrow> (string \<times> 't id_token_info option) list \<Rightarrow> 't local_list
     \<Rightarrow> (update_status \<times> 't local_list) option" where
  "update_list u v es l =
     (if u = Differential \<and> v \<le> list_version l then Some (VersionMismatch, l)
      else
        (case projected u l es of
           None \<Rightarrow> None
         | Some n \<Rightarrow>
             if (case list_limit l of None \<Rightarrow> False | Some limit \<Rightarrow> n > limit) then Some (UpdateFailed, l)
             else
               Some (UpdateAccepted,
                     l\<lparr>list_entries := store_entries es (if u = Full then [] else list_entries l),
                       list_version := v\<rparr>)))"

definition clear_list :: "'t local_list \<Rightarrow> 't local_list" where
  "clear_list l = l\<lparr>list_entries := [], list_version := 0\<rparr>"

definition list_get :: "'t local_list \<Rightarrow> string \<Rightarrow> 't id_token_info option" where
  "list_get l token = bt_get (list_entries l) token"

section \<open>The authorization cache\<close>

type_synonym 't cached = "string \<times> nat \<times> 't id_token_info"

record 't auth_cache =
  cache_entries :: "'t cached list"
  cache_capacity :: nat
  cache_clock :: nat
  cache_enabled :: bool

definition cache_with_capacity :: "nat \<Rightarrow> 't auth_cache" where
  "cache_with_capacity n =
     \<lparr>cache_entries = [], cache_capacity = max n 1, cache_clock = 0, cache_enabled = True\<rparr>"

definition cache_default :: "'t auth_cache" where
  "cache_default = cache_with_capacity 512"

definition set_enabled :: "bool \<Rightarrow> 't auth_cache \<Rightarrow> 't auth_cache" where
  "set_enabled b c =
     (let c1 = c\<lparr>cache_enabled := b\<rparr> in if \<not> b then c1\<lparr>cache_entries := []\<rparr> else c1)"

text \<open>\<open>Iterator::min_by_key\<close>: the first of the least.\<close>

definition min_by_key :: "('a \<Rightarrow> nat) \<Rightarrow> 'a list \<Rightarrow> 'a option" where
  "min_by_key key xs =
     foldl (\<lambda>best x. case best of
                       None \<Rightarrow> Some x
                     | Some b \<Rightarrow> if key x < key b then Some x else Some b) None xs"

lemma min_by_key_snoc:
  "min_by_key key (xs @ [x]) =
     (case min_by_key key xs of None \<Rightarrow> Some x | Some b \<Rightarrow> if key x < key b then Some x else Some b)"
  by (simp add: min_by_key_def)

lemma min_by_key_Some:
  "min_by_key key xs = Some m \<Longrightarrow> m \<in> set xs \<and> (\<forall>x \<in> set xs. key m \<le> key x)"
proof (induction xs arbitrary: m rule: rev_induct)
  case Nil
  then show ?case by (simp add: min_by_key_def)
next
  case (snoc x xs)
  then show ?case
  proof (cases "min_by_key key xs")
    case None
    have "min_by_key key ys = None \<longleftrightarrow> ys = []" for ys
      by (induction ys rule: rev_induct) (auto simp: min_by_key_snoc min_by_key_def split: option.splits)
    then show ?thesis using snoc.prems None by (simp add: min_by_key_def)
  next
    case (Some b)
    then show ?thesis
      using snoc.prems snoc.IH [OF Some] by (force simp: min_by_key_snoc split: if_splits)
  qed
qed

definition used_at :: "'t cached \<Rightarrow> nat" where
  "used_at e = fst (snd e)"

function evict :: "nat \<Rightarrow> 't cached list \<Rightarrow> 't cached list" where
  "evict capacity es =
     (if length es > capacity then
        (case min_by_key used_at es of
           Some oldest \<Rightarrow> evict capacity (bt_remove (fst oldest) es)
         | None \<Rightarrow> es)
      else es)"
  by pat_completeness auto

termination
proof (relation "measure (\<lambda>(_, es). length es)")
  show "((capacity, bt_remove (fst oldest) es), capacity, es) \<in> measure (\<lambda>(_, es). length es)"
    if "min_by_key used_at es = Some oldest" for capacity and es :: "'a cached list" and oldest
  proof -
    have "oldest \<in> set es" using min_by_key_Some [OF that] by (rule conjunct1)
    then have "length (bt_remove (fst oldest) es) < length es"
      unfolding bt_remove_def by (rule length_filter_less) simp
    then show ?thesis by simp
  qed
qed (rule wf_measure)

declare evict.simps [simp del]

definition remember :: "string \<Rightarrow> 't id_token_info \<Rightarrow> 't auth_cache \<Rightarrow> 't auth_cache" where
  "remember token i c =
     (if \<not> cache_enabled c then c
      else
        let now = cache_clock c + 1 in
        c\<lparr>cache_clock := now,
          cache_entries := evict (cache_capacity c) (bt_insert token (now, i) (cache_entries c))\<rparr>)"

definition cache_get :: "string \<Rightarrow> 't auth_cache \<Rightarrow> 't id_token_info option \<times> 't auth_cache" where
  "cache_get token c =
     (if \<not> cache_enabled c then (None, c)
      else
        let now = cache_clock c + 1; c1 = c\<lparr>cache_clock := now\<rparr> in
        (case bt_get (cache_entries c) token of
           None \<Rightarrow> (None, c1)
         | Some (_, i) \<Rightarrow> (Some i, c1\<lparr>cache_entries := bt_insert token (now, i) (cache_entries c)\<rparr>)))"

definition clear_cache :: "'t auth_cache \<Rightarrow> 't auth_cache" where
  "clear_cache c = c\<lparr>cache_entries := []\<rparr>"

section \<open>The decision\<close>

datatype local_source = LocalList | Cache

datatype 't decision =
    Local local_source "'t id_token_info"
  | AskCsms
  | OfflineUnknown (start_anyway: bool)

record authorization_policy =
  local_auth_list_enabled :: bool
  local_authorize_offline :: bool
  local_pre_authorize :: bool
  offline_tx_for_unknown_id :: bool

definition policy_default :: authorization_policy where
  "policy_default =
     \<lparr>local_auth_list_enabled = True, local_authorize_offline = True, local_pre_authorize = False,
      offline_tx_for_unknown_id = False\<rparr>"

record 't authorizer =
  auth_list :: "'t local_list"
  auth_cache_of :: "'t auth_cache"
  auth_policy :: authorization_policy

definition authorizer_new :: "'t authorizer" where
  "authorizer_new = \<lparr>auth_list = list_new, auth_cache_of = cache_default, auth_policy = policy_default\<rparr>"

definition with_policy :: "authorization_policy \<Rightarrow> 't authorizer \<Rightarrow> 't authorizer" where
  "with_policy p a = a\<lparr>auth_policy := p\<rparr>"

text \<open>What is known locally: the list first, and the cache only when it says nothing.\<close>

definition local_answer ::
  "string \<Rightarrow> 't authorizer \<Rightarrow> (local_source \<times> 't id_token_info) option \<times> 't authorizer" where
  "local_answer token a =
     (case (if local_auth_list_enabled (auth_policy a) then list_get (auth_list a) token else None) of
        Some i \<Rightarrow> (Some (LocalList, i), a)
      | None \<Rightarrow>
          let (found, c) = cache_get token (auth_cache_of a)
          in (map_option (Pair Cache) found, a\<lparr>auth_cache_of := c\<rparr>))"

definition decide ::
  "string \<Rightarrow> bool \<Rightarrow> 't \<Rightarrow> ('t :: linorder) authorizer \<Rightarrow> 't decision \<times> 't authorizer" where
  "decide token online now a =
     (let may_use_local =
            (if online then local_pre_authorize (auth_policy a) else local_authorize_offline (auth_policy a));
          (found, a1) = local_answer token a;
          fallback = (if online then AskCsms else OfflineUnknown (offline_tx_for_unknown_id (auth_policy a)))
      in (case found of
            Some (source, i) \<Rightarrow>
              let s = status_at i now in
              if s = Accepted then
                (if may_use_local then Local source (i\<lparr>status := s\<rparr>)
                 else if online then AskCsms else fallback)
              else if \<not> online then Local source (i\<lparr>status := s\<rparr>)
              else if online then AskCsms else fallback
          | None \<Rightarrow> fallback, a1))"

definition authorizer_remember :: "string \<Rightarrow> 't id_token_info \<Rightarrow> 't authorizer \<Rightarrow> 't authorizer" where
  "authorizer_remember token i a = a\<lparr>auth_cache_of := remember token i (auth_cache_of a)\<rparr>"

section \<open>The cache is a bounded list in order of use\<close>

definition cache_ok :: "'t auth_cache \<Rightarrow> bool" where
  "cache_ok c \<longleftrightarrow>
     bt_ok (cache_entries c) \<and> distinct (map used_at (cache_entries c)) \<and>
     (\<forall>e \<in> set (cache_entries c). used_at e \<le> cache_clock c) \<and>
     length (cache_entries c) \<le> cache_capacity c \<and> 0 < cache_capacity c"

text \<open>The tokens and what is known of them, the one used last first.\<close>

definition by_recency :: "'t cached list \<Rightarrow> 't cached list" where
  "by_recency es = rev (sort_key used_at es)"

definition recency :: "'t auth_cache \<Rightarrow> (string \<times> 't id_token_info) list" where
  "recency c = map (\<lambda>(token, _, i). (token, i)) (by_recency (cache_entries c))"

lemma strict_by_key_unique:
  fixes f :: "'a \<Rightarrow> nat"
  assumes "sorted_wrt (\<lambda>a b. f b < f a) xs" and "sorted_wrt (\<lambda>a b. f b < f a) ys" and "set xs = set ys"
  shows "xs = ys"
  using assms
proof (induction xs arbitrary: ys)
  case (Cons x xs)
  then obtain y ys' where ys: "ys = y # ys'" by (cases ys) auto
  have "x = y"
  proof (rule ccontr)
    assume "x \<noteq> y"
    then have "x \<in> set ys'" and "y \<in> set xs" using Cons.prems(3) ys by auto
    then have "f x < f y" and "f y < f x" using Cons.prems(1,2) ys by auto
    then show False by simp
  qed
  moreover have "x \<notin> set xs" "y \<notin> set ys'" using Cons.prems ys by auto
  then have "set xs = set ys'" using Cons.prems(3) ys \<open>x = y\<close> by auto
  ultimately show ?case using Cons ys by simp
qed simp

lemma by_recency_sorted:
  assumes "distinct (map used_at es)"
  shows "sorted_wrt (\<lambda>a b. used_at b < used_at a) (by_recency es)" and "set (by_recency es) = set es"
proof -
  have "distinct (map used_at (sort_key used_at es))"
    using assms by (simp add: distinct_map distinct_sort)
  then have "sorted_wrt (<) (map used_at (sort_key used_at es))" by (simp add: strict_sorted_iff)
  then show "sorted_wrt (\<lambda>a b. used_at b < used_at a) (by_recency es)"
    by (simp add: by_recency_def sorted_wrt_rev sorted_wrt_map)
  show "set (by_recency es) = set es" by (simp add: by_recency_def)
qed

lemma by_recency_unique:
  "distinct (map used_at es) \<Longrightarrow> sorted_wrt (\<lambda>a b. used_at b < used_at a) rs \<Longrightarrow> set rs = set es \<Longrightarrow>
   by_recency es = rs"
  using by_recency_sorted by (intro strict_by_key_unique [of used_at]) auto

lemma bt_insert_stamps:
  assumes "bt_ok es" and "distinct (map used_at es)" and "\<forall>e \<in> set es. used_at e < now"
  shows "distinct (map used_at (bt_insert token (now, i) es))"
proof -
  have keys: "distinct (map fst (bt_insert token (now, i) es))"
    by (rule bt_ok_distinct [OF bt_insert_ok [OF assms(1)]])
  have "inj_on used_at (set (bt_insert token (now, i) es))"
    using assms by (auto simp: set_bt_insert inj_on_def distinct_map used_at_def)
  then show ?thesis using keys by (simp add: distinct_map)
qed

lemma by_recency_insert:
  assumes "bt_ok es" and "distinct (map used_at es)" and "\<forall>e \<in> set es. used_at e < now"
  shows "by_recency (bt_insert token (now, i) es) =
    (token, now, i) # filter (\<lambda>e. fst e \<noteq> token) (by_recency es)"
proof (rule by_recency_unique)
  show "distinct (map used_at (bt_insert token (now, i) es))" by (rule bt_insert_stamps [OF assms])
  show "sorted_wrt (\<lambda>a b. used_at b < used_at a) ((token, now, i) # filter (\<lambda>e. fst e \<noteq> token) (by_recency es))"
    using by_recency_sorted [OF assms(2)] assms(3)
    by (auto simp: sorted_wrt_filter used_at_def)
  show "set ((token, now, i) # filter (\<lambda>e. fst e \<noteq> token) (by_recency es)) =
      set (bt_insert token (now, i) es)"
    using by_recency_sorted(2) [OF assms(2)] assms(1) by (auto simp: set_bt_insert)
qed

lemma by_recency_remove_oldest:
  assumes "distinct (map fst es)" and "distinct (map used_at es)" and "min_by_key used_at es = Some m"
  shows "by_recency (bt_remove (fst m) es) = butlast (by_recency es)"
proof -
  note m = min_by_key_Some [OF assms(3)]
  have rs: "sorted_wrt (\<lambda>a b. used_at b < used_at a) (by_recency es)" "set (by_recency es) = set es"
    by (rule by_recency_sorted [OF assms(2)])+
  then obtain ys y where ys: "by_recency es = ys @ [y]"
    using m by (cases "by_recency es" rule: rev_cases) auto
  then have y: "\<forall>x \<in> set ys. used_at y < used_at x" "y \<in> set es"
    using rs by (auto simp: sorted_wrt_append)
  moreover have "m \<in> insert y (set ys)" and "used_at m \<le> used_at y" using m rs(2) ys y(2) by auto
  ultimately have "m = y" by fastforce
  have "by_recency (bt_remove (fst m) es) = ys"
  proof (rule by_recency_unique)
    show "distinct (map used_at (bt_remove (fst m) es))"
      using assms(2) by (simp add: bt_remove_def distinct_map_filter)
    show "sorted_wrt (\<lambda>a b. used_at b < used_at a) ys" using rs(1) ys by (simp add: sorted_wrt_append)
    have "fst x \<noteq> fst y" if "x \<in> set es" "x \<noteq> y" for x
      using assms(1) that y(2) by (auto simp: distinct_map inj_on_def)
    moreover have "y \<notin> set ys" using y(1) by blast
    moreover have "set es = insert y (set ys)" using rs(2) ys by auto
    ultimately show "set ys = set (bt_remove (fst m) es)"
      unfolding \<open>m = y\<close> bt_remove_def by force
  qed
  then show ?thesis using ys by simp
qed

lemma min_by_key_None: "min_by_key key xs = None \<longleftrightarrow> xs = []"
  by (induction xs rule: rev_induct) (auto simp: min_by_key_snoc min_by_key_def split: option.splits)

lemma evict_takes:
  assumes "bt_ok es" and "distinct (map used_at es)"
  shows "by_recency (evict n es) = take n (by_recency es) \<and> bt_ok (evict n es) \<and>
    set (evict n es) \<subseteq> set es \<and> distinct (map used_at (evict n es)) \<and> length (evict n es) = min n (length es)"
  using assms
proof (induction n es rule: evict.induct)
  case (1 n es)
  have len: "length (by_recency es) = length es" by (simp add: by_recency_def)
  show ?case
  proof (cases "length es > n")
    case True
    then obtain m where m: "min_by_key used_at es = Some m"
      using min_by_key_None [of used_at es] by (cases "min_by_key used_at es") auto
    let ?rest = "bt_remove (fst m) es"
    have "distinct (map used_at ?rest)" using 1(3) by (simp add: bt_remove_def distinct_map_filter)
    note IH = 1(1) [OF True m bt_remove_ok [OF 1(2)] this]
    have rest: "by_recency ?rest = butlast (by_recency es)"
      by (rule by_recency_remove_oldest [OF bt_ok_distinct [OF 1(2)] 1(3) m])
    then have "length ?rest = length es - 1"
      by (metis by_recency_def len length_butlast length_rev length_sort)
    moreover have "take n (butlast (by_recency es)) = take n (by_recency es)"
      using True len by (simp add: take_butlast)
    moreover have "set ?rest \<subseteq> set es" by (auto simp: bt_remove_def)
    ultimately show ?thesis
      using IH rest True m by (subst (1 2 3 4 5) evict.simps) auto
  next
    case False
    then show ?thesis using 1 len by (subst (1 2 3 4 5) evict.simps) simp
  qed
qed

lemma map_of_by_recency:
  assumes "bt_ok es" and "distinct (map used_at es)"
  shows "map_of (map (\<lambda>(token, _, i). (token, i)) (by_recency es)) token = map_option snd (bt_get es token)"
proof -
  have "distinct (map fst (sort_key used_at es))"
    using bt_ok_distinct [OF assms(1)] by (simp add: distinct_map distinct_sort)
  then have keys: "distinct (map fst (by_recency es))" by (simp add: by_recency_def rev_map [symmetric])
  then have "map_of (by_recency es) = map_of es"
    using by_recency_sorted(2) [OF assms(2)] bt_ok_distinct [OF assms(1)] by (intro map_of_inject_set [THEN iffD2]) auto
  moreover have "map_of (map (\<lambda>(token, _, i). (token, i)) rs) token = map_option snd (map_of rs token)"
    for rs :: "'a cached list"
    by (induction rs) auto
  ultimately show ?thesis by (simp add: bt_get_def)
qed

lemma recency_filter:
  "map (\<lambda>(token, _, i). (token, i)) (filter (\<lambda>e. fst e \<noteq> t) rs) =
   filter (\<lambda>e. fst e \<noteq> t) (map (\<lambda>(token, _, i). (token, i)) rs)" for rs :: "'t cached list"
  by (induction rs) auto

text \<open>
  C23. The cache refines a bounded list in order of use. What the CSMS answered goes to the
  front in place of what was known of the token, and only the entry used longest ago falls off
  the end; a lookup answers what the list holds and moves the token to the front. The clock and
  the stamps keep that order through any sequence of operations.
\<close>

theorem cache_is_lru:
  assumes "cache_ok c" and "cache_enabled c"
  shows "cache_ok (remember token i c) \<and>
    recency (remember token i c) =
      take (cache_capacity c) ((token, i) # filter (\<lambda>e. fst e \<noteq> token) (recency c)) \<and>
    cache_ok (snd (cache_get token c)) \<and> fst (cache_get token c) = map_of (recency c) token \<and>
    recency (snd (cache_get token c)) =
      (case map_of (recency c) token of
         None \<Rightarrow> recency c
       | Some known \<Rightarrow> (token, known) # filter (\<lambda>e. fst e \<noteq> token) (recency c))"
proof -
  let ?now = "cache_clock c + 1"
  have c: "bt_ok (cache_entries c)" "distinct (map used_at (cache_entries c))"
    "\<forall>e \<in> set (cache_entries c). used_at e < ?now" "length (cache_entries c) \<le> cache_capacity c"
    "0 < cache_capacity c"
    using assms(1) by (auto simp: cache_ok_def less_Suc_eq_le)
  have ins: "bt_ok (bt_insert token (?now, j) (cache_entries c))"
      "distinct (map used_at (bt_insert token (?now, j) (cache_entries c)))"
      "\<forall>e \<in> set (bt_insert token (?now, j) (cache_entries c)). used_at e \<le> ?now" for j
    using c bt_insert_ok [OF c(1)] bt_insert_stamps [OF c(1-3)]
    by (auto simp: set_bt_insert used_at_def intro: less_imp_le)
  have front: "map (\<lambda>(token, _, i). (token, i)) (by_recency (bt_insert token (?now, j) (cache_entries c))) =
      (token, j) # filter (\<lambda>e. fst e \<noteq> token) (recency c)" for j
    unfolding by_recency_insert [OF c(1-3)] recency_def recency_filter [symmetric] by simp
  note ev = evict_takes [OF ins(1,2) [of i], of "cache_capacity c"]
  have rem: "cache_ok (remember token i c) \<and> recency (remember token i c) =
      take (cache_capacity c) ((token, i) # filter (\<lambda>e. fst e \<noteq> token) (recency c))"
    using ev ins(3) [of i] c(5) assms(2) front [of i]
    by (auto simp: remember_def cache_ok_def Let_def recency_def take_map [symmetric])
  have found: "map_of (recency c) token = map_option snd (bt_get (cache_entries c) token)"
    unfolding recency_def by (rule map_of_by_recency [OF c(1,2)])
  show ?thesis
  proof (cases "bt_get (cache_entries c) token")
    case None
    then show ?thesis
      using rem found assms by (auto simp: cache_get_def Let_def cache_ok_def recency_def)
  next
    case (Some e)
    then have "length (bt_insert token (?now, snd e) (cache_entries c)) = length (cache_entries c)"
      using bt.count_put [OF c(1)] by simp
    then show ?thesis
      using rem found Some assms(2) ins [of "snd e"] c(4,5) front [of "snd e"]
      by (auto simp: cache_get_def Let_def cache_ok_def recency_def split: prod.splits)
  qed
qed

lemma cache_new_ok: "cache_ok (cache_with_capacity n) \<and> recency (cache_with_capacity n) = []"
  by (simp add: cache_ok_def cache_with_capacity_def bt_ok_def recency_def by_recency_def)

lemma cache_emptied:
  "cache_ok c \<Longrightarrow> cache_ok (clear_cache c) \<and> recency (clear_cache c) = [] \<and> cache_ok (set_enabled b c)"
  by (simp add: cache_ok_def clear_cache_def set_enabled_def bt_ok_def recency_def by_recency_def Let_def)

section \<open>Updates of the local list\<close>

lemma store_entries_patch: "store_entries es m = bt.patch es m"
  by (simp add: store_entries_def bt.patch_def)

text \<open>
  An accepted update of the local list is a patch: the last entry for a token decides, a
  token the update does not name keeps what it had in a differential update and is gone after
  a full one, and the version is the one announced. Any other answer leaves the list alone, and
  a differential update whose version does not advance is always refused.
\<close>

theorem list_update_patches:
  assumes "bt_ok (list_entries l)" and "update_list u v es l = Some (st, l')"
  shows "bt_ok (list_entries l') \<and>
    (if st = UpdateAccepted
     then list_version l' = v \<and>
       (\<forall>token. list_get l' token =
          (case map_of (rev es) token of
             Some info \<Rightarrow> info
           | None \<Rightarrow> if u = Full then None else list_get l token))
     else l' = l) \<and>
    (u = Differential \<and> v \<le> list_version l \<longrightarrow> st = VersionMismatch)"
proof -
  let ?base = "if u = Full then [] else list_entries l"
  have base: "bt_ok ?base" using assms(1) by (simp add: bt_ok_def)
  have "bt_ok (store_entries es ?base)" unfolding store_entries_patch by (rule bt.patch_ok [OF base])
  moreover have "bt_get (store_entries es ?base) token =
      (case map_of (rev es) token of
         Some info \<Rightarrow> info | None \<Rightarrow> if u = Full then None else list_get l token)" for token
    unfolding store_entries_patch bt.get_patch [OF base]
    by (simp add: list_get_def bt_get_def split: option.split)
  ultimately show ?thesis
    using assms by (auto simp: update_list_def list_get_def split: if_splits option.splits)
qed

text \<open>
  An update that names no token twice always gets an answer, and a list that holds no more
  than its limit still does afterwards.
\<close>

theorem list_limit_kept:
  assumes "bt_ok (list_entries l)" and "distinct (map fst es)"
    and "list_limit l = Some limit" and "length (list_entries l) \<le> limit"
  shows "\<exists>st l'. update_list u v es l = Some (st, l') \<and> length (list_entries l') \<le> limit"
proof -
  let ?base = "if u = Full then [] else list_entries l"
  have base: "bt_ok ?base" using assms(1) by (simp add: bt_ok_def)
  have "projected u l es = Some (length (store_entries es ?base))"
    using bt.count_patch [OF base assms(2)]
    by (cases u) (simp_all add: store_entries_patch projected_def Let_def bt_get_def case_prod_unfold)
  then show ?thesis using assms(3,4) by (auto simp: update_list_def)
qed

text \<open>
  A token named twice defeats both: deleting it twice takes the count
  below zero, and deleting it and storing it again hides a new entry from the limit.
\<close>

theorem list_limit_missed:
  "let l = snd (the (update_list Full 1 [(''A'', Some info_accepted), (''B'', Some info_accepted)]
         (list_bounded 2 :: nat local_list)))
   in update_list Differential 2 [(''A'', None), (''A'', None), (''B'', None)] l = None \<and>
      map_option (\<lambda>(st, l'). (st, length (list_entries l')))
        (update_list Differential 2
           [(''A'', None), (''A'', Some info_accepted), (''C'', Some info_accepted)] l) =
      Some (UpdateAccepted, 3)"
  unfolding Let_def by (intro conjI; code_simp)

section \<open>What a decision rests on\<close>

text \<open>
  What the local list and the cache say of a token: an entry, if the list, or the cache, is switched on and
  has one. The list goes before the cache.
\<close>

definition on_list :: "string \<Rightarrow> 't authorizer \<Rightarrow> 't id_token_info option" where
  "on_list token a =
     (if local_auth_list_enabled (auth_policy a) then map_of (list_entries (auth_list a)) token else None)"

definition in_cache :: "string \<Rightarrow> 't authorizer \<Rightarrow> 't id_token_info option" where
  "in_cache token a =
     (if cache_enabled (auth_cache_of a) then map_option snd (map_of (cache_entries (auth_cache_of a)) token) else None)"

definition known_locally :: "string \<Rightarrow> 't authorizer \<Rightarrow> (local_source \<times> 't id_token_info) option" where
  "known_locally token a =
     (case on_list token a of
        Some i \<Rightarrow> Some (LocalList, i)
      | None \<Rightarrow> map_option (Pair Cache) (in_cache token a))"

lemma local_answer_known: "fst (local_answer token a) = known_locally token a"
  by (auto simp: known_locally_def local_answer_def on_list_def in_cache_def list_get_def cache_get_def bt_get_def Let_def
    split: option.split prod.split)

lemma local_answer_frame:
  "snd (local_answer token a) =
     (if on_list token a = None then a\<lparr>auth_cache_of := snd (cache_get token (auth_cache_of a))\<rparr> else a)"
  by (auto simp: local_answer_def on_list_def list_get_def bt_get_def split: option.split prod.split)

lemma known_locally_source:
  "known_locally token a = Some (source, j) \<longleftrightarrow>
     (case source of
        LocalList \<Rightarrow> on_list token a = Some j
      | Cache \<Rightarrow> on_list token a = None \<and> in_cache token a = Some j)"
  by (cases source) (auto simp: known_locally_def split: option.split)

definition valid_now :: "('t :: linorder) id_token_info \<Rightarrow> 't \<Rightarrow> bool" where
  "valid_now i now \<longleftrightarrow> status i = Accepted \<and> (case expires i of None \<Rightarrow> True | Some t \<Rightarrow> now < t)"

lemma valid_now_status: "status_at i now = Accepted \<longleftrightarrow> valid_now i now"
  by (auto simp: status_at_def valid_now_def split: option.split)

text \<open>
  C24. A station starts charging without asking the CSMS only on good grounds: either the list, or
  the cache where the list is silent or switched off, has the token as accepted and not expired and the
  switch for the present state of the connection is on; or the station is offline, nothing usable is
  known of the token, and unknown tokens are allowed. What it answers is that entry, with its status as
  of now. Online, nothing is ever refused locally, and the CSMS is asked only when no valid entry may be used;
  and the cache counts as consulted only where the list is silent.
\<close>

theorem local_start_justified:
  assumes "decide token online now a = (d, a')"
  shows "(case d of
      Local source i \<Rightarrow>
        (\<exists>j. (case source of
                LocalList \<Rightarrow> on_list token a = Some j
              | Cache \<Rightarrow> on_list token a = None \<and> in_cache token a = Some j) \<and>
          i = j\<lparr>status := status_at j now\<rparr> \<and>
          (if valid_now j now
           then (if online then local_pre_authorize (auth_policy a) else local_authorize_offline (auth_policy a))
           else \<not> online))
    | AskCsms \<Rightarrow>
        online \<and>
        (\<forall>source j. known_locally token a = Some (source, j) \<and> valid_now j now \<longrightarrow>
           \<not> local_pre_authorize (auth_policy a))
    | OfflineUnknown start \<Rightarrow>
        \<not> online \<and> start = offline_tx_for_unknown_id (auth_policy a) \<and>
        (known_locally token a = None \<or>
         \<not> local_authorize_offline (auth_policy a) \<and>
         (\<exists>source j. known_locally token a = Some (source, j) \<and> valid_now j now))) \<and>
    auth_list a' = auth_list a \<and> auth_policy a' = auth_policy a \<and>
    auth_cache_of a' =
      (if on_list token a = None then snd (cache_get token (auth_cache_of a)) else auth_cache_of a)"
proof -
  have a': "a' = snd (local_answer token a)"
    using assms by (auto simp: decide_def Let_def split: prod.splits)
  have d: "d = fst (decide token online now a)" using assms by simp
  have decided: "d =
      (case known_locally token a of
         None \<Rightarrow> if online then AskCsms else OfflineUnknown (offline_tx_for_unknown_id (auth_policy a))
       | Some (source, j) \<Rightarrow>
           if valid_now j now then
             (if (if online then local_pre_authorize (auth_policy a) else local_authorize_offline (auth_policy a))
              then Local source (j\<lparr>status := status_at j now\<rparr>)
              else if online then AskCsms else OfflineUnknown (offline_tx_for_unknown_id (auth_policy a)))
           else if online then AskCsms else Local source (j\<lparr>status := status_at j now\<rparr>))"
    unfolding d decide_def local_answer_known [symmetric] valid_now_status [symmetric]
    by (auto simp: Let_def split: prod.split option.split)
  show ?thesis
  proof (cases "known_locally token a")
    case None
    then show ?thesis unfolding a' local_answer_frame decided by simp
  next
    case (Some e)
    then obtain source j where e: "known_locally token a = Some (source, j)" by (cases e) auto
    then show ?thesis
      unfolding a' local_answer_frame decided
      by (simp add: known_locally_source [symmetric])
  qed
qed

text \<open>
  \<open>OfflineUnknown\<close> does not mean the token is unknown: with \<open>LocalAuthorizeOffline\<close> off an
  accepted token of the local list is answered like one nobody knows, and started anyway
  when unknown tokens are.
\<close>

theorem offline_unknown_of_known:
  assumes "local_auth_list_enabled (auth_policy a)" and "list_get (auth_list a) token = Some i"
    and "status_at i now = Accepted" and "\<not> local_authorize_offline (auth_policy a)"
  shows "fst (decide token False now a) = OfflineUnknown (offline_tx_for_unknown_id (auth_policy a))"
  using assms by (simp add: decide_def local_answer_def Let_def)

section \<open>Examples\<close>

definition sample_authorizer :: "nat authorizer" where
  "sample_authorizer =
     authorizer_remember ''seen'' info_accepted
       (authorizer_new\<lparr>auth_list :=
          snd (the (update_list Full 1 [(''member'', Some (expiring info_accepted 100)),
            (''barred'', Some (info_new Blocked))] list_new))\<rparr>)"

theorem cache_is_lru_witness:
  "let c = remember ''B'' info_accepted (remember ''A'' info_accepted (cache_with_capacity 2 :: nat auth_cache));
       used = snd (cache_get ''A'' c)
   in map fst (recency (remember ''C'' info_accepted used)) = [''C'', ''A'']"
proof -
  let ?c = "remember ''B'' info_accepted (remember ''A'' info_accepted (cache_with_capacity 2 :: nat auth_cache))"
  let ?used = "snd (cache_get ''A'' ?c)"
  have "cache_ok ?used" "cache_enabled ?used" by code_simp+
  from cache_is_lru [OF this, of "''C''" info_accepted]
  have "recency (remember ''C'' info_accepted ?used) =
      take (cache_capacity ?used) ((''C'', info_accepted) # filter (\<lambda>e. fst e \<noteq> ''C'') (recency ?used))"
    by blast
  moreover have "map fst (take (cache_capacity ?used)
      ((''C'', info_accepted) # filter (\<lambda>e. fst e \<noteq> ''C'') (recency ?used))) = [''C'', ''A'']"
    by code_simp
  ultimately show ?thesis by simp
qed

theorem list_update_patches_witness:
  "list_get (snd (the (update_list Differential 2 [(''A'', None)]
     (snd (the (update_list Full 1 [(''A'', Some info_accepted)] (list_new :: nat local_list))))))) ''A'' = None"
proof -
  let ?l = "snd (the (update_list Full 1 [(''A'', Some info_accepted)] (list_new :: nat local_list)))"
  have ok: "bt_ok (list_entries ?l)" by code_simp
  obtain st l' where u: "update_list Differential 2 [(''A'', None)] ?l = Some (st, l')" and st: "st = UpdateAccepted"
    by (simp add: update_list_def projected_def list_new_def store_entries_def bt_get_def)
  from list_update_patches [OF ok u] have "list_get l' ''A'' = None" by (simp add: st)
  then show ?thesis using u by simp
qed

theorem list_limit_kept_witness:
  "\<exists>st l'. update_list Full 1 [(''A'', Some info_accepted), (''B'', Some info_accepted)]
     (list_bounded 1 :: nat local_list) = Some (st, l') \<and> length (list_entries l') \<le> 1"
  by (rule list_limit_kept) (simp_all add: list_bounded_def list_new_def bt_ok_def)

theorem local_start_justified_witness:
  "fst (decide ''member'' False 50 sample_authorizer) =
     Local LocalList \<lparr>status = Accepted, expires = Some 100, group_id = None, language = None\<rparr> \<and>
   (\<exists>j. on_list ''member'' sample_authorizer = Some j \<and> valid_now j 50)"
proof -
  obtain d a' where d: "decide ''member'' False 50 sample_authorizer = (d, a')" by fastforce
  have "fst (decide ''member'' False 50 sample_authorizer) =
      Local LocalList \<lparr>status = Accepted, expires = Some 100, group_id = None, language = None\<rparr>"
    by code_simp
  with local_start_justified [OF d] d obtain j where "on_list ''member'' sample_authorizer = Some j"
    "j\<lparr>status := status_at j 50\<rparr> = \<lparr>status = Accepted, expires = Some 100, group_id = None, language = None\<rparr>"
    by auto
  moreover from arg_cong [OF this(2), of status] have "valid_now j 50" by (simp add: valid_now_status)
  ultimately show ?thesis using \<open>fst (decide _ _ _ _) = _\<close> by blast
qed

theorem offline_unknown_of_known_witness:
  "fst (decide ''member'' False 50
     (with_policy (policy_default\<lparr>local_authorize_offline := False\<rparr>) sample_authorizer)) = OfflineUnknown False"
proof -
  let ?a = "with_policy (policy_default\<lparr>local_authorize_offline := False\<rparr>) sample_authorizer"
  have "local_auth_list_enabled (auth_policy ?a)" "\<not> local_authorize_offline (auth_policy ?a)"
    "list_get (auth_list ?a) ''member'' = Some (expiring info_accepted 100)"
    "status_at (expiring info_accepted 100 :: nat id_token_info) 50 = Accepted"
    by code_simp+
  from offline_unknown_of_known [OF this(1,3,4,2)] show ?thesis
    by (simp add: with_policy_def policy_default_def)
qed

end
