(* ===== verification/Ledger.thy ===== *)
theory Ledger
  imports Decimal
begin

text \<open>
  \<open>csms/ledger.rs\<close>: the CSMS's ledger of transactions, which recognises the messages a station
  repeats and the ones that never arrived.

  A \<open>BTreeMap\<close> is a map from the station and transaction to the record; the order in which
  the ledger lists its records is not modelled. A \<open>seqNo\<close> is an integer. The points in time come
  from an external library and are any linearly ordered type, and the text of a signed meter
  value is of any type.

  The lemmas show that the verdict on each event is the one its history calls for, that a
  retry changes nothing, and that the energy of a transaction does not depend on the order its
  events arrive in.
\<close>

section \<open>Events, verdicts and records\<close>

datatype event_kind = Started | Updated | Ended

record 's signed_reading =
  sr_value :: 's
  sr_context :: "string option"
  sr_measurand :: "string option"

record ('t, 's) transaction_event =
  te_identity :: string
  te_transaction_id :: string
  te_evse_id :: "int option"
  te_connector_id :: "int option"
  te_seq_no :: int
  te_kind :: event_kind
  te_timestamp :: 't
  te_offline :: bool
  te_meter_wh :: "decimal option"
  te_signed :: "'s signed_reading list"
  te_id_token :: "string option"
  te_stopped_reason :: "string option"

definition transaction_event_new ::
  "string \<Rightarrow> string \<Rightarrow> int \<Rightarrow> event_kind \<Rightarrow> 't \<Rightarrow> ('t, 's) transaction_event" where
  "transaction_event_new i t n k ts =
     \<lparr>te_identity = i, te_transaction_id = t, te_evse_id = None, te_connector_id = None,
      te_seq_no = n, te_kind = k, te_timestamp = ts, te_offline = False, te_meter_wh = None,
      te_signed = [], te_id_token = None, te_stopped_reason = None\<rparr>"

datatype ingested = Applied | AppliedWithGap "int list" | Duplicate | AfterEnd

record ('t, 's) ledger_record =
  lr_identity :: string
  lr_transaction_id :: string
  lr_evse_id :: "int option"
  lr_connector_id :: "int option"
  lr_started_at :: "'t option"
  lr_ended_at :: "'t option"
  lr_id_token :: "string option"
  lr_stopped_reason :: "string option"
  lr_meter_start_wh :: "decimal option"
  lr_meter_stop_wh :: "decimal option"
  lr_signed :: "'s signed_reading list"
  lr_had_offline_events :: bool
  lr_seen :: "int set"
  lr_unsequenced :: "(event_kind \<times> 't) set"
  lr_highest :: int

definition missing :: "('t, 's) ledger_record \<Rightarrow> int list" where
  "missing r = filter (\<lambda>n. n \<notin> lr_seen r) [0..lr_highest r]"

definition is_open :: "('t, 's) ledger_record \<Rightarrow> bool" where
  "is_open r \<longleftrightarrow> lr_ended_at r = None"

definition events_recorded :: "('t, 's) ledger_record \<Rightarrow> nat" where
  "events_recorded r = card (lr_seen r)"

definition signed_with_context :: "('t, 's) ledger_record \<Rightarrow> string \<Rightarrow> 's signed_reading list" where
  "signed_with_context r context = filter (\<lambda>s. sr_context s = Some context) (lr_signed r)"

definition energy_wh :: "('t, 's) ledger_record \<Rightarrow> decimal option" where
  "energy_wh r =
     (case (lr_meter_stop_wh r, lr_meter_start_wh r) of
        (Some b, Some a) \<Rightarrow> checked_sub b a
      | _ \<Rightarrow> None)"

section \<open>The ledger\<close>

type_synonym ledger_key = "string \<times> string"

record ('t, 's) ledger =
  ld_records :: "ledger_key \<Rightarrow> ('t, 's) ledger_record option"
  ld_next_seq :: "ledger_key \<Rightarrow> int option"

definition ledger_new :: "('t, 's) ledger" where
  "ledger_new = \<lparr>ld_records = (\<lambda>k. None), ld_next_seq = (\<lambda>k. None)\<rparr>"

definition transaction_key :: "('t, 's) transaction_event \<Rightarrow> ledger_key" where
  "transaction_key e = (te_identity e, te_transaction_id e)"

definition fresh_record :: "('t, 's) transaction_event \<Rightarrow> ('t, 's) ledger_record" where
  "fresh_record e =
     \<lparr>lr_identity = te_identity e, lr_transaction_id = te_transaction_id e, lr_evse_id = None,
      lr_connector_id = None, lr_started_at = None, lr_ended_at = None, lr_id_token = None,
      lr_stopped_reason = None, lr_meter_start_wh = None, lr_meter_stop_wh = None,
      lr_signed = [], lr_had_offline_events = False, lr_seen = {}, lr_unsequenced = {},
      lr_highest = -1\<rparr>"

definition first_of :: "'a option \<Rightarrow> 'a option \<Rightarrow> 'a option" where
  "first_of old new = (case old of None \<Rightarrow> new | Some x \<Rightarrow> Some x)"

text \<open>The fields every event touches, then the readings, then the start and the end.\<close>

definition note_event :: "('t, 's) transaction_event \<Rightarrow> ('t, 's) ledger_record \<Rightarrow> ('t, 's) ledger_record" where
  "note_event e r =
     r\<lparr>lr_seen := insert (te_seq_no e) (lr_seen r),
       lr_highest := max (lr_highest r) (te_seq_no e),
       lr_had_offline_events := (lr_had_offline_events r \<or> te_offline e),
       lr_evse_id := first_of (lr_evse_id r) (te_evse_id e),
       lr_connector_id := first_of (lr_connector_id r) (te_connector_id e),
       lr_signed := lr_signed r @ te_signed e,
       lr_id_token := first_of (lr_id_token r) (te_id_token e)\<rparr>"

definition note_meter ::
  "bool \<Rightarrow> ('t, 's) transaction_event \<Rightarrow> ('t, 's) ledger_record \<Rightarrow> ('t, 's) ledger_record" where
  "note_meter after_end e r =
     (case te_meter_wh e of
        None \<Rightarrow> r
      | Some wh \<Rightarrow>
          (case te_kind e of
             Started \<Rightarrow> r\<lparr>lr_meter_start_wh := Some wh\<rparr>
           | Ended \<Rightarrow> r\<lparr>lr_meter_stop_wh := Some wh\<rparr>
           | Updated \<Rightarrow>
               r\<lparr>lr_meter_start_wh := first_of (lr_meter_start_wh r) (Some wh),
                 lr_meter_stop_wh := (if after_end then lr_meter_stop_wh r else Some wh)\<rparr>))"

definition note_phase :: "('t, 's) transaction_event \<Rightarrow> ('t, 's) ledger_record \<Rightarrow> ('t, 's) ledger_record" where
  "note_phase e r =
     (case te_kind e of
        Started \<Rightarrow> r\<lparr>lr_started_at := Some (te_timestamp e)\<rparr>
      | Ended \<Rightarrow> r\<lparr>lr_ended_at := Some (te_timestamp e), lr_stopped_reason := te_stopped_reason e\<rparr>
      | Updated \<Rightarrow> r)"

definition ingest ::
  "('t, 's) ledger \<Rightarrow> ('t, 's) transaction_event \<Rightarrow> ingested \<times> ('t, 's) ledger" where
  "ingest l e =
     (let key = transaction_key e;
          r = (case ld_records l key of None \<Rightarrow> fresh_record e | Some r \<Rightarrow> r)
      in
      if te_seq_no e \<in> lr_seen r then (Duplicate, l\<lparr>ld_records := (ld_records l)(key \<mapsto> r)\<rparr>)
      else
        let after_end = (lr_ended_at r \<noteq> None);
            r1 = note_phase e (note_meter after_end e (note_event e r));
            l1 = l\<lparr>ld_records := (ld_records l)(key \<mapsto> r1)\<rparr>;
            gaps = missing r1
        in (if after_end then AfterEnd else if gaps = [] then Applied else AppliedWithGap gaps, l1))"

definition ingest_unsequenced ::
  "('t, 's) ledger \<Rightarrow> ('t, 's) transaction_event \<Rightarrow> ingested \<times> ('t, 's) ledger" where
  "ingest_unsequenced l e =
     (let key = transaction_key e; mark = (te_kind e, te_timestamp e) in
      if (case ld_records l key of None \<Rightarrow> False | Some r \<Rightarrow> mark \<in> lr_unsequenced r) then (Duplicate, l)
      else
        let n = (case ld_next_seq l key of None \<Rightarrow> 0 | Some n \<Rightarrow> n);
            (outcome, l1) = ingest (l\<lparr>ld_next_seq := (ld_next_seq l)(key \<mapsto> n + 1)\<rparr>) (e\<lparr>te_seq_no := n\<rparr>)
        in (outcome,
            case ld_records l1 key of
              None \<Rightarrow> l1
            | Some r \<Rightarrow> l1\<lparr>ld_records :=
                (ld_records l1)(key \<mapsto> r\<lparr>lr_unsequenced := insert mark (lr_unsequenced r)\<rparr>)\<rparr>))"

definition transaction_at :: "('t, 's) ledger \<Rightarrow> string \<Rightarrow> string \<Rightarrow> ('t, 's) ledger_record option" where
  "transaction_at l i t = ld_records l (i, t)"

definition open_transactions :: "('t, 's) ledger \<Rightarrow> string \<Rightarrow> ('t, 's) ledger_record set" where
  "open_transactions l i = {r \<in> ran (ld_records l). lr_identity r = i \<and> is_open r}"

definition incomplete :: "('t, 's) ledger \<Rightarrow> (('t, 's) ledger_record \<times> int list) set" where
  "incomplete l = {(r, missing r) | r. r \<in> ran (ld_records l) \<and> missing r \<noteq> []}"

definition prune_ended_before :: "('t :: linorder, 's) ledger \<Rightarrow> 't \<Rightarrow> nat \<times> ('t, 's) ledger" where
  "prune_ended_before l cutoff =
     (let kept = (\<lambda>k. case ld_records l k of
            None \<Rightarrow> None
          | Some r \<Rightarrow>
              (case lr_ended_at r of
                 None \<Rightarrow> Some r
               | Some ended \<Rightarrow> if ended \<ge> cutoff then Some r else None))
      in (card (dom (ld_records l)) - card (dom kept), l\<lparr>ld_records := kept\<rparr>))"

section \<open>What the history of events calls for\<close>

definition event_id :: "('t, 's) transaction_event \<Rightarrow> ledger_key \<times> int" where
  "event_id e = (transaction_key e, te_seq_no e)"

text \<open>The events that are not a repetition of an earlier one.\<close>

fun fresh_events ::
  "('t, 's) transaction_event list \<Rightarrow> ('t, 's) transaction_event list \<Rightarrow> ('t, 's) transaction_event list" where
  "fresh_events hist [] = []"
| "fresh_events hist (e # es) =
     (if event_id e \<in> event_id ` set hist then fresh_events hist es
      else e # fresh_events (hist @ [e]) es)"

definition numbers_of :: "('t, 's) transaction_event list \<Rightarrow> ledger_key \<Rightarrow> int list" where
  "numbers_of es key = map te_seq_no (filter (\<lambda>e. transaction_key e = key) es)"

text \<open>The verdict on an event after the events \<open>hist\<close>, without a ledger.\<close>

definition verdict :: "('t, 's) transaction_event list \<Rightarrow> ('t, 's) transaction_event \<Rightarrow> ingested" where
  "verdict hist e =
     (if event_id e \<in> event_id ` set hist then Duplicate
      else if list_ex (\<lambda>x. transaction_key x = transaction_key e \<and> te_kind x = Ended) hist then AfterEnd
      else
        let arrived = numbers_of (hist @ [e]) (transaction_key e);
            gaps = filter (\<lambda>n. n \<notin> set arrived) [0..foldr max arrived (-1)]
        in if gaps = [] then Applied else AppliedWithGap gaps)"

fun ingest_all :: "('t, 's) ledger \<Rightarrow> ('t, 's) transaction_event list \<Rightarrow> ingested list \<times> ('t, 's) ledger" where
  "ingest_all l [] = ([], l)"
| "ingest_all l (e # es) =
     (let (v, l1) = ingest l e; (vs, l2) = ingest_all l1 es in (v # vs, l2))"

fun verdicts :: "('t, 's) transaction_event list \<Rightarrow> ('t, 's) transaction_event list \<Rightarrow> ingested list" where
  "verdicts hist [] = []"
| "verdicts hist (e # es) =
     verdict hist e # verdicts (if event_id e \<in> event_id ` set hist then hist else hist @ [e]) es"

section \<open>The verdicts are the history's\<close>

definition events_of :: "ledger_key \<Rightarrow> ('t, 's) transaction_event list \<Rightarrow> ('t, 's) transaction_event list" where
  "events_of key es = filter (\<lambda>e. transaction_key e = key) es"

definition record_tracks :: "('t, 's) ledger_record \<Rightarrow> ('t, 's) transaction_event list \<Rightarrow> bool" where
  "record_tracks r es \<longleftrightarrow>
     lr_seen r = te_seq_no ` set es \<and> lr_highest r = foldr max (map te_seq_no es) (-1) \<and>
     (lr_ended_at r \<noteq> None \<longleftrightarrow> Ended \<in> te_kind ` set es)"

definition tracks :: "('t, 's) ledger \<Rightarrow> ('t, 's) transaction_event list \<Rightarrow> bool" where
  "tracks l hist \<longleftrightarrow>
     (\<forall>key. case ld_records l key of
        None \<Rightarrow> events_of key hist = []
      | Some r \<Rightarrow> record_tracks r (events_of key hist))"

lemma foldr_max_snoc: "foldr max (xs @ [n]) a = max (foldr max xs a) n" for a :: int
  by (induction xs) (simp_all add: max.assoc max.commute)

lemma record_fields:
  "lr_seen (note_phase e (note_meter b e (note_event e r))) = insert (te_seq_no e) (lr_seen r)"
  "lr_highest (note_phase e (note_meter b e (note_event e r))) = max (lr_highest r) (te_seq_no e)"
  "lr_ended_at (note_phase e (note_meter b e (note_event e r))) =
     (if te_kind e = Ended then Some (te_timestamp e) else lr_ended_at r)"
  "lr_meter_start_wh (note_phase e (note_meter b e (note_event e r))) =
     (if te_kind e = Started then (case te_meter_wh e of None \<Rightarrow> lr_meter_start_wh r | Some wh \<Rightarrow> Some wh)
      else if te_kind e = Updated then first_of (lr_meter_start_wh r) (te_meter_wh e)
      else lr_meter_start_wh r)"
  "lr_meter_stop_wh (note_phase e (note_meter b e (note_event e r))) =
     (if te_kind e = Ended \<or> te_kind e = Updated \<and> \<not> b
      then (case te_meter_wh e of None \<Rightarrow> lr_meter_stop_wh r | Some wh \<Rightarrow> Some wh)
      else lr_meter_stop_wh r)"
  by (cases "te_kind e"; cases "te_meter_wh e"; cases "lr_meter_start_wh r";
      simp add: note_phase_def note_meter_def note_event_def first_of_def)+

lemma record_tracks_step:
  assumes "record_tracks r es"
  shows "record_tracks (note_phase e (note_meter b e (note_event e r))) (es @ [e])"
  using assms by (auto simp: record_tracks_def record_fields foldr_max_snoc simp del: foldr_append)

lemma record_tracks_fresh: "record_tracks (fresh_record e) []"
  by (simp add: record_tracks_def fresh_record_def)

lemma seen_iff: "event_id e \<in> event_id ` set hist \<longleftrightarrow> te_seq_no e \<in> te_seq_no ` set (events_of (transaction_key e) hist)"
  by (force simp: event_id_def events_of_def)

lemma ended_iff:
  "list_ex (\<lambda>x. transaction_key x = key \<and> te_kind x = Ended) hist \<longleftrightarrow> Ended \<in> te_kind ` set (events_of key hist)"
  by (auto simp: list_ex_iff events_of_def image_iff)

lemma ingest_tracks:
  assumes "tracks l hist" and "ingest l e = (v, l1)"
  shows "v = verdict hist e \<and>
    (if event_id e \<in> event_id ` set hist then l1 = l else tracks l1 (hist @ [e]))"
proof -
  define key where "key = transaction_key e"
  define r where "r = (case ld_records l key of None \<Rightarrow> fresh_record e | Some r \<Rightarrow> r)"
  define r1 where "r1 = note_phase e (note_meter (lr_ended_at r \<noteq> None) e (note_event e r))"
  have at: "case ld_records l k of None \<Rightarrow> events_of k hist = [] | Some r \<Rightarrow> record_tracks r (events_of k hist)" for k
    using assms(1) unfolding tracks_def by blast
  have r: "record_tracks r (events_of key hist)"
    using at [of key] record_tracks_fresh [of e] by (auto simp: r_def split: option.splits)
  then have dup: "event_id e \<in> event_id ` set hist \<longleftrightarrow> te_seq_no e \<in> lr_seen r"
    by (simp add: seen_iff record_tracks_def key_def)
  have unfold: "ingest l e =
      (if te_seq_no e \<in> lr_seen r then (Duplicate, l\<lparr>ld_records := (ld_records l)(key \<mapsto> r)\<rparr>)
       else (if lr_ended_at r \<noteq> None then AfterEnd else if missing r1 = [] then Applied else AppliedWithGap (missing r1),
         l\<lparr>ld_records := (ld_records l)(key \<mapsto> r1)\<rparr>))"
    by (simp add: ingest_def Let_def key_def r_def r1_def)
  show ?thesis
  proof (cases "event_id e \<in> event_id ` set hist")
    case True
    then have "events_of key hist \<noteq> []" using seen_iff [of e hist] by (auto simp: key_def)
    then have "ld_records l key = Some r" using at [of key] by (auto simp: r_def split: option.splits)
    then have "l\<lparr>ld_records := (ld_records l)(key \<mapsto> r)\<rparr> = l" by (simp add: fun_upd_idem)
    then show ?thesis using True dup assms(2) unfold by (simp add: verdict_def)
  next
    case False
    have own: "events_of key (hist @ [e]) = events_of key hist @ [e]"
      and other: "k \<noteq> key \<Longrightarrow> events_of k (hist @ [e]) = events_of k hist" for k
      by (auto simp: events_of_def key_def)
    have r1: "record_tracks r1 (events_of key (hist @ [e]))"
      unfolding own r1_def by (rule record_tracks_step [OF r])
    have "numbers_of (hist @ [e]) key = map te_seq_no (events_of key (hist @ [e]))"
      by (simp add: numbers_of_def events_of_def)
    then have gaps: "missing r1 = filter (\<lambda>n. n \<notin> set (numbers_of (hist @ [e]) key))
        [0..foldr max (numbers_of (hist @ [e]) key) (-1)]"
      using r1 by (simp add: missing_def record_tracks_def)
    have "lr_ended_at r \<noteq> None \<longleftrightarrow> list_ex (\<lambda>x. transaction_key x = transaction_key e \<and> te_kind x = Ended) hist"
      using r ended_iff [of key hist] by (simp add: record_tracks_def key_def)
    then have "v = verdict hist e"
      using False dup assms(2) unfold gaps by (auto simp: verdict_def Let_def key_def)
    moreover have "tracks l1 (hist @ [e])"
      unfolding tracks_def
    proof
      fix k
      show "case ld_records l1 k of None \<Rightarrow> events_of k (hist @ [e]) = []
          | Some r \<Rightarrow> record_tracks r (events_of k (hist @ [e]))"
        using False dup assms(2) unfold r1 at [of k] other [of k] by (cases "k = key") (auto split: option.splits)
    qed
    ultimately show ?thesis using False by simp
  qed
qed

lemma ingest_all_tracks:
  assumes "tracks l hist"
  shows "fst (ingest_all l es) = verdicts hist es \<and>
    tracks (snd (ingest_all l es)) (hist @ fresh_events hist es) \<and>
    snd (ingest_all l es) = snd (ingest_all l (fresh_events hist es))"
  using assms
proof (induction es arbitrary: l hist)
  case (Cons e es)
  obtain v l1 where i: "ingest l e = (v, l1)" by fastforce
  from ingest_tracks [OF Cons.prems i] show ?case
    using Cons.IH [of l hist] Cons.IH [of l1 "hist @ [e]"] Cons.prems i
    by (auto simp: case_prod_unfold Let_def split: if_splits)
qed simp

text \<open>
  C17. The verdict on every event is the one its history calls for: a repetition of a sequence
  number is a duplicate; anything after the end of the transaction is flagged; otherwise the
  sequence numbers reported missing are exactly those up to the highest seen that never
  arrived. And the repetitions leave no trace: the ledger is the one the events without them give.
\<close>

theorem verdicts_from_history:
  "fst (ingest_all ledger_new es) = verdicts [] es \<and>
   snd (ingest_all ledger_new es) = snd (ingest_all ledger_new (fresh_events [] es))"
proof -
  have "tracks ledger_new []" by (simp add: tracks_def ledger_new_def events_of_def)
  then show ?thesis using ingest_all_tracks by blast
qed

section \<open>Energy does not depend on the order\<close>

text \<open>What a record knows about the readings at the two ends.\<close>

definition ends_known :: "decimal \<Rightarrow> decimal \<Rightarrow> ('t, 's) transaction_event list \<Rightarrow> ('t, 's) ledger_record \<Rightarrow> bool" where
  "ends_known a b es r \<longleftrightarrow>
     (Started \<in> te_kind ` set es \<longrightarrow> lr_meter_start_wh r = Some a) \<and>
     (Ended \<in> te_kind ` set es \<longrightarrow> lr_meter_stop_wh r = Some b \<and> lr_ended_at r \<noteq> None)"

lemma ends_known_step:
  assumes "ends_known a b es r"
    and "te_kind e = Started \<Longrightarrow> te_meter_wh e = Some a" and "te_kind e = Ended \<Longrightarrow> te_meter_wh e = Some b"
    and "lr_ended_at r \<noteq> None \<longleftrightarrow> Ended \<in> te_kind ` set es"
  shows "ends_known a b (es @ [e]) (note_phase e (note_meter (lr_ended_at r \<noteq> None) e (note_event e r)))"
  using assms
  by (cases "te_kind e") (auto simp: ends_known_def record_fields first_of_def split: option.splits)

definition ends_tracked ::
  "ledger_key \<Rightarrow> decimal \<Rightarrow> decimal \<Rightarrow> ('t, 's) transaction_event list \<Rightarrow> ('t, 's) ledger \<Rightarrow> bool" where
  "ends_tracked key a b hist l \<longleftrightarrow> tracks l hist \<and>
     (case ld_records l key of None \<Rightarrow> True | Some r \<Rightarrow> ends_known a b (events_of key hist) r)"

lemma ends_tracked_ingest:
  assumes "ends_tracked key a b hist l" and "event_id e \<notin> event_id ` set hist"
    and "transaction_key e = key \<Longrightarrow> te_kind e = Started \<Longrightarrow> te_meter_wh e = Some a"
    and "transaction_key e = key \<Longrightarrow> te_kind e = Ended \<Longrightarrow> te_meter_wh e = Some b"
  shows "ends_tracked key a b (hist @ [e]) (snd (ingest l e))"
proof -
  obtain v l1 where i: "ingest l e = (v, l1)" by fastforce
  have t: "tracks l hist" using assms(1) by (simp add: ends_tracked_def)
  have "case ld_records l1 key of None \<Rightarrow> True | Some r \<Rightarrow> ends_known a b (events_of key (hist @ [e])) r"
  proof (cases "transaction_key e = key")
    case False
    then have "events_of key (hist @ [e]) = events_of key hist" "ld_records l1 key = ld_records l key"
      using i by (auto simp: events_of_def ingest_def Let_def split: if_splits)
    then show ?thesis using assms(1) by (auto simp: ends_tracked_def split: option.splits)
  next
    case True
    define r where "r = (case ld_records l key of None \<Rightarrow> fresh_record e | Some r \<Rightarrow> r)"
    have at: "case ld_records l key of None \<Rightarrow> events_of key hist = [] | Some r \<Rightarrow> record_tracks r (events_of key hist)"
      using t unfolding tracks_def by blast
    have r: "record_tracks r (events_of key hist)" "ends_known a b (events_of key hist) r"
      using at record_tracks_fresh [of e] assms(1)
      by (auto simp: r_def ends_tracked_def ends_known_def split: option.splits)
    have "te_seq_no e \<notin> lr_seen r"
      using assms(2) r(1) True by (simp add: seen_iff record_tracks_def)
    then have "ld_records l1 key = Some (note_phase e (note_meter (lr_ended_at r \<noteq> None) e (note_event e r)))"
      using i True by (auto simp: ingest_def Let_def r_def)
    moreover have "events_of key (hist @ [e]) = events_of key hist @ [e]" using True by (simp add: events_of_def)
    ultimately show ?thesis
      using ends_known_step [OF r(2) assms(3,4) [OF True]] r(1) by (simp add: record_tracks_def)
  qed
  then show ?thesis
    using ingest_tracks [OF t i] assms(2) i by (simp add: ends_tracked_def)
qed

lemma fresh_events_subset: "set (fresh_events hist es) \<subseteq> set es"
  by (induction hist es rule: fresh_events.induct) auto

lemma fresh_events_complete:
  "x \<in> set es \<Longrightarrow> event_id x \<in> event_id ` (set hist \<union> set (fresh_events hist es))"
  by (induction hist es rule: fresh_events.induct) (auto split: if_splits)

lemma ends_tracked_all:
  assumes "ends_tracked key a b hist l"
    and "\<And>x. x \<in> set es \<Longrightarrow> transaction_key x = key \<Longrightarrow> te_kind x = Started \<Longrightarrow> te_meter_wh x = Some a"
    and "\<And>x. x \<in> set es \<Longrightarrow> transaction_key x = key \<Longrightarrow> te_kind x = Ended \<Longrightarrow> te_meter_wh x = Some b"
  shows "ends_tracked key a b (hist @ fresh_events hist es) (snd (ingest_all l es))"
  using assms
proof (induction es arbitrary: l hist)
  case (Cons e es)
  obtain v l1 where i: "ingest l e = (v, l1)" by fastforce
  show ?case
  proof (cases "event_id e \<in> event_id ` set hist")
    case True
    then have "l1 = l" using ingest_tracks [OF _ i, of hist] Cons.prems(1) by (simp add: ends_tracked_def)
    then show ?thesis using Cons.IH [OF Cons.prems(1)] Cons.prems(2,3) True i by (simp add: case_prod_unfold Let_def)
  next
    case False
    then have "ends_tracked key a b (hist @ [e]) l1"
      using ends_tracked_ingest [OF Cons.prems(1) False] Cons.prems(2,3) [of e] i by simp
    then show ?thesis using Cons.IH [of "hist @ [e]" l1] Cons.prems(2,3) False i by (simp add: case_prod_unfold Let_def)
  qed
qed simp

lemma energy_of_ends:
  assumes copies: "\<And>x y. x \<in> set es \<Longrightarrow> y \<in> set es \<Longrightarrow> event_id x = event_id y \<Longrightarrow> x = y"
    and a: "\<And>x. x \<in> set es \<Longrightarrow> transaction_key x = key \<Longrightarrow> te_kind x = Started \<Longrightarrow> te_meter_wh x = Some a"
    and b: "\<And>x. x \<in> set es \<Longrightarrow> transaction_key x = key \<Longrightarrow> te_kind x = Ended \<Longrightarrow> te_meter_wh x = Some b"
    and x: "x \<in> set es" "transaction_key x = key" "te_kind x = Started"
    and y: "y \<in> set es" "transaction_key y = key" "te_kind y = Ended"
  shows "\<exists>r. ld_records (snd (ingest_all ledger_new es)) key = Some r \<and> \<not> is_open r \<and> energy_wh r = checked_sub b a"
proof -
  let ?l = "snd (ingest_all ledger_new es)" and ?hist = "fresh_events [] es"
  have "ends_tracked key a b [] (ledger_new :: ('a, 'b) ledger)"
    by (simp add: ends_tracked_def tracks_def ledger_new_def events_of_def)
  then have "ends_tracked key a b ([] @ ?hist) ?l" using a b by (rule ends_tracked_all)
  then have t: "ends_tracked key a b ?hist ?l" by simp
  have "z \<in> set ?hist" if z: "z \<in> set es" for z
  proof -
    obtain w where "w \<in> set ?hist" "event_id z = event_id w"
      using fresh_events_complete [OF z, of "[]"] by auto
    moreover from this have "w = z"
      using copies [OF subsetD [OF fresh_events_subset] z] by metis
    ultimately show ?thesis by simp
  qed
  then have "x \<in> set (events_of key ?hist)" "y \<in> set (events_of key ?hist)"
    using x y by (simp_all add: events_of_def)
  then have kinds: "Started \<in> te_kind ` set (events_of key ?hist)" "Ended \<in> te_kind ` set (events_of key ?hist)"
    using x(3) y(3) by force+
  then have "events_of key ?hist \<noteq> []" by auto
  moreover have "case ld_records ?l key of None \<Rightarrow> events_of key ?hist = [] | Some r \<Rightarrow> record_tracks r (events_of key ?hist)"
    using t unfolding ends_tracked_def tracks_def by blast
  moreover have "case ld_records ?l key of None \<Rightarrow> True | Some r \<Rightarrow> ends_known a b (events_of key ?hist) r"
    using t by (simp add: ends_tracked_def)
  ultimately obtain r where "ld_records ?l key = Some r" "ends_known a b (events_of key ?hist) r"
    by (auto split: option.splits)
  then show ?thesis using kinds by (auto simp: ends_known_def energy_wh_def is_open_def)
qed

text \<open>
  The energy a transaction is billed by is its stop reading less its start reading, whatever
  the order its messages arrive in and however often each is repeated, as long as the two ends
  carry their readings and a repetition is a copy; and the transaction is closed.
\<close>

theorem energy_order_independent:
  assumes "\<And>x y. x \<in> set es \<Longrightarrow> y \<in> set es \<Longrightarrow> event_id x = event_id y \<Longrightarrow> x = y"
    and "\<And>x. x \<in> set es \<Longrightarrow> transaction_key x = key \<Longrightarrow> te_kind x = Started \<Longrightarrow> te_meter_wh x = Some a"
    and "\<And>x. x \<in> set es \<Longrightarrow> transaction_key x = key \<Longrightarrow> te_kind x = Ended \<Longrightarrow> te_meter_wh x = Some b"
    and "x \<in> set es" and "transaction_key x = key" and "te_kind x = Started"
    and "y \<in> set es" and "transaction_key y = key" and "te_kind y = Ended"
    and "set es' = set es"
  shows "\<exists>r r'. ld_records (snd (ingest_all ledger_new es)) key = Some r \<and>
    ld_records (snd (ingest_all ledger_new es')) key = Some r' \<and> \<not> is_open r \<and> \<not> is_open r' \<and>
    energy_wh r = checked_sub b a \<and> energy_wh r' = checked_sub b a"
proof -
  note energy = energy_of_ends [where key = key and a = a and b = b and x = x and y = y]
  have "\<exists>r. ld_records (snd (ingest_all ledger_new es)) key = Some r \<and> \<not> is_open r \<and> energy_wh r = checked_sub b a"
    by (rule energy) (use assms in blast)+
  moreover have "\<exists>r. ld_records (snd (ingest_all ledger_new es')) key = Some r \<and> \<not> is_open r \<and> energy_wh r = checked_sub b a"
    by (rule energy) (use assms in blast)+
  ultimately show ?thesis by blast
qed

definition sample_events :: "(nat, unit) transaction_event list" where
  "sample_events =
     [transaction_event_new ''CS'' ''T'' 1 Updated 5 \<lparr>te_meter_wh := Some \<lparr>mantissa = 7, scale = 0\<rparr>\<rparr>,
      transaction_event_new ''CS'' ''T'' 2 Ended 9 \<lparr>te_meter_wh := Some \<lparr>mantissa = 202, scale = 1\<rparr>\<rparr>,
      transaction_event_new ''CS'' ''T'' 0 Started 1 \<lparr>te_meter_wh := Some \<lparr>mantissa = 101, scale = 1\<rparr>\<rparr>]"

theorem energy_order_independent_witness:
  "\<exists>r. ld_records (snd (ingest_all ledger_new (rev sample_events @ sample_events))) (''CS'', ''T'') = Some r \<and>
     energy_wh r = Some \<lparr>mantissa = 101, scale = 1\<rparr>"
proof -
  have "\<exists>r r'. ld_records (snd (ingest_all ledger_new sample_events)) (''CS'', ''T'') = Some r \<and>
    ld_records (snd (ingest_all ledger_new (rev sample_events @ sample_events))) (''CS'', ''T'') = Some r' \<and>
    \<not> is_open r \<and> \<not> is_open r' \<and>
    energy_wh r = checked_sub \<lparr>mantissa = 202, scale = 1\<rparr> \<lparr>mantissa = 101, scale = 1\<rparr> \<and>
    energy_wh r' = checked_sub \<lparr>mantissa = 202, scale = 1\<rparr> \<lparr>mantissa = 101, scale = 1\<rparr>"
    by (rule energy_order_independent [where x = "sample_events ! 2" and y = "sample_events ! 1"])
      (auto simp: sample_events_def transaction_event_new_def event_id_def transaction_key_def)
  then show ?thesis
    by (auto simp: checked_sub_def to_i128_at_def narrow_def i64_min_def i64_max_def)
qed

section \<open>Messages without a sequence number\<close>

lemma ingest_records_key:
  "ingest l e = (v, l1) \<Longrightarrow> \<exists>r. ld_records l1 (transaction_key e) = Some r"
  by (auto simp: ingest_def Let_def split: if_splits)

text \<open>
  An OCPP 1.6 message, which has no sequence number, is recognised by its kind and timestamp:
  after any of its copies was ingested another is a duplicate and changes nothing.
\<close>

lemma unsequenced_retry:
  assumes "ingest_unsequenced l e = (v, l1)" and "transaction_key e' = transaction_key e"
    and "te_kind e' = te_kind e" and "te_timestamp e' = te_timestamp e"
  shows "ingest_unsequenced l1 e' = (Duplicate, l1)"
proof -
  let ?key = "transaction_key e" and ?mark = "(te_kind e, te_timestamp e)"
  have "\<exists>r. ld_records l1 ?key = Some r \<and> ?mark \<in> lr_unsequenced r"
  proof (cases "case ld_records l ?key of None \<Rightarrow> False | Some r \<Rightarrow> ?mark \<in> lr_unsequenced r")
    case True
    then have "l1 = l" using assms(1) by (simp add: ingest_unsequenced_def Let_def)
    then show ?thesis using True by (auto split: option.splits)
  next
    case False
    define n where "n = (case ld_next_seq l ?key of None \<Rightarrow> 0 | Some n \<Rightarrow> n)"
    obtain w l2 where i: "ingest (l\<lparr>ld_next_seq := (ld_next_seq l)(?key \<mapsto> n + 1)\<rparr>) (e\<lparr>te_seq_no := n\<rparr>) = (w, l2)"
      by fastforce
    have "transaction_key (e\<lparr>te_seq_no := n\<rparr>) = ?key" by (simp add: transaction_key_def)
    then obtain r where "ld_records l2 ?key = Some r" using ingest_records_key [OF i] by auto
    then show ?thesis using assms(1) False i by (auto simp: ingest_unsequenced_def Let_def n_def)
  qed
  then show ?thesis using assms(2-4) by (auto simp: ingest_unsequenced_def Let_def)
qed

end
