(* ===== verification/Station_Ledger.thy ===== *)
theory Station_Ledger
  imports Transactions Ledger
begin

text \<open>
  The two ends of a transaction: the events of a station's \<open>TransactionMachine\<close> and the ledger of
  the CSMS that receives them. \<open>reported\<close> is the ledger's event for a machine's event, the
  fields both carry; what a deployment adds (meter values, tokens, the EVSE) the machine does not
  know.

  The theorems show that the ledger accepts every event of a station in its order, and that
  once all of them have arrived, in whatever order and however often repeated, it misses
  nothing and has open exactly the transaction the station is running.
\<close>

definition reported :: "string \<Rightarrow> 't tx_event \<Rightarrow> ('t, 's) transaction_event" where
  "reported station e =
     (case e of
        TxStarted i n _ t \<Rightarrow> transaction_event_new station i n Started t
      | TxUpdated i n _ t \<Rightarrow> transaction_event_new station i n Updated t
      | TxEnded i n _ r t \<Rightarrow> (transaction_event_new station i n Ended t)\<lparr>te_stopped_reason := Some r\<rparr>)"

lemma reported_fields [simp]:
  "te_seq_no (reported s e) = tx_seq e"
  "transaction_key (reported s e) = (s, tx_id e)"
  "te_kind (reported s e) = Ended \<longleftrightarrow> ends e"
  by (cases e; simp add: reported_def transaction_event_new_def transaction_key_def)+

definition tx_numbers :: "string \<Rightarrow> 't tx_event list \<Rightarrow> int list" where
  "tx_numbers i es = map tx_seq (filter (\<lambda>e. tx_id e = i) es)"

lemma tx_numbers_snoc [simp]:
  "tx_numbers i [] = []"
  "tx_numbers i (es @ [e]) = tx_numbers i es @ (if tx_id e = i then [tx_seq e] else [])"
  by (simp_all add: tx_numbers_def)

lemma tx_numbers_iff: "n \<in> set (tx_numbers i es) \<longleftrightarrow> (\<exists>e \<in> set es. tx_id e = i \<and> tx_seq e = n)"
  by (auto simp: tx_numbers_def)

text \<open>What the events sent so far say of every transaction and of the one still open.\<close>

definition whole :: "'t tx_event list \<Rightarrow> active_transaction option \<Rightarrow> bool" where
  "whole es st \<longleftrightarrow>
     (\<forall>i. \<exists>n \<ge> 0. tx_numbers i es = [0..n - 1] \<and> (i \<in> set (started_ids es) \<longleftrightarrow> 0 < n)) \<and>
     (\<forall>i \<in> set (started_ids es).
        (\<forall>e \<in> set es. ends e \<longrightarrow> tx_id e \<noteq> i) \<longleftrightarrow> map_option at_id st = Some i) \<and>
     (\<forall>a. st = Some a \<longrightarrow> at_id a \<in> set (started_ids es) \<and>
        tx_numbers (at_id a) es = [0..at_next_seq a - 1] \<and> 0 < at_next_seq a)"

lemma whole_numbers:
  "whole es st \<Longrightarrow> \<exists>n \<ge> 0. tx_numbers i es = [0..n - 1] \<and> (i \<in> set (started_ids es) \<longleftrightarrow> 0 < n)"
  unfolding whole_def by (elim conjE allE [of _ i])

lemma upto_snoc: "0 \<le> n \<Longrightarrow> [0..n] = [0..n - 1] @ [n]" for n :: int
  by (rule upto_rec2)

lemma whole_opens:
  assumes "whole es None" and e: "e = TxStarted i 0 g t" and new: "i \<notin> set (started_ids es)"
  shows "whole (es @ [e]) (Some \<lparr>at_id = i, at_next_seq = 1\<rparr>) \<and> tx_numbers i es = []"
proof
  show empty: "tx_numbers i es = []" using assms(1) new unfolding whole_def by fastforce
  then have "\<forall>x \<in> set es. tx_id x \<noteq> i" using tx_numbers_iff [of _ i es] by fastforce
  then show "whole (es @ [e]) (Some \<lparr>at_id = i, at_next_seq = 1\<rparr>)"
    unfolding whole_def
  proof (intro conjI allI ballI impI)
    fix j
    show "\<exists>n \<ge> 0. tx_numbers j (es @ [e]) = [0..n - 1] \<and> (j \<in> set (started_ids (es @ [e])) \<longleftrightarrow> 0 < n)"
    proof (cases "j = i")
      case True
      then show ?thesis using empty e by (intro exI [of _ 1]) simp
    next
      case False
      then show ?thesis using assms(1) e unfolding whole_def by simp
    qed
  next
    fix j assume none: "\<forall>x \<in> set es. tx_id x \<noteq> i" and j: "j \<in> set (started_ids (es @ [e]))"
    then show "(\<forall>x \<in> set (es @ [e]). ends x \<longrightarrow> tx_id x \<noteq> j) \<longleftrightarrow>
        map_option at_id (Some \<lparr>at_id = i, at_next_seq = 1\<rparr>) = Some j"
      using assms(1) e new unfolding whole_def by auto
  qed (use e empty in auto)
qed

lemma whole_goes_on:
  assumes "whole es (Some a)" and e: "tx_id e = at_id a" "tx_seq e = at_next_seq a" "started_ids [e] = []"
  shows "whole (es @ [e]) (if ends e then None else Some \<lparr>at_id = at_id a, at_next_seq = at_next_seq a + 1\<rparr>) \<and>
    (\<forall>x \<in> set es. tx_id x = at_id a \<longrightarrow> \<not> ends x)"
proof
  have a: "at_id a \<in> set (started_ids es)" "tx_numbers (at_id a) es = [0..at_next_seq a - 1]" "0 < at_next_seq a"
    using assms(1) unfolding whole_def by auto
  show "\<forall>x \<in> set es. tx_id x = at_id a \<longrightarrow> \<not> ends x"
    using assms(1) a(1) unfolding whole_def by fastforce
  show "whole (es @ [e]) (if ends e then None else Some \<lparr>at_id = at_id a, at_next_seq = at_next_seq a + 1\<rparr>)"
    unfolding whole_def
  proof (intro conjI allI ballI impI)
    fix j
    show "\<exists>n \<ge> 0. tx_numbers j (es @ [e]) = [0..n - 1] \<and> (j \<in> set (started_ids (es @ [e])) \<longleftrightarrow> 0 < n)"
    proof (cases "j = at_id a")
      case True
      then show ?thesis using a e by (intro exI [of _ "at_next_seq a + 1"]) (simp add: upto_snoc)
    next
      case False
      then show ?thesis using assms(1) e unfolding whole_def by simp
    qed
  next
    fix j assume j: "j \<in> set (started_ids (es @ [e]))"
    then show "(\<forall>x \<in> set (es @ [e]). ends x \<longrightarrow> tx_id x \<noteq> j) \<longleftrightarrow>
        map_option at_id (if ends e then None else Some \<lparr>at_id = at_id a, at_next_seq = at_next_seq a + 1\<rparr>) = Some j"
      using assms(1) e unfolding whole_def by auto
  qed (use a e in \<open>auto simp: upto_snoc split: if_splits\<close>)
qed

lemma whole_step:
  assumes "whole es st" and "in_order st [e] = Some st'" and "distinct (started_ids (es @ [e]))"
  shows "whole (es @ [e]) st' \<and> (\<forall>x \<in> set es. tx_id x = tx_id e \<longrightarrow> \<not> ends x) \<and>
    (\<exists>n \<ge> 0. tx_numbers (tx_id e) es = [0..n - 1] \<and> tx_seq e = n)"
proof (cases st)
  case None
  then obtain i g t where e: "e = TxStarted i 0 g t" and st': "st' = Some \<lparr>at_id = i, at_next_seq = 1\<rparr>"
    using assms(2) by (cases e) (auto split: if_splits)
  have "i \<notin> set (started_ids es)" using assms(3) e by simp
  with whole_opens [OF assms(1) [unfolded None] e] have w: "whole (es @ [e]) st'" "tx_numbers i es = []"
    by (simp_all add: st')
  then have "\<forall>x \<in> set es. tx_id x \<noteq> i" using tx_numbers_iff [of _ i es] by fastforce
  then show ?thesis using w e by (intro conjI exI [of _ 0]) auto
next
  case (Some a)
  then have e: "tx_id e = at_id a" "tx_seq e = at_next_seq a" "started_ids [e] = []"
    and st': "st' = (if ends e then None else Some \<lparr>at_id = at_id a, at_next_seq = at_next_seq a + 1\<rparr>)"
    using assms(2) by (cases e; auto split: if_splits)+
  have "tx_numbers (at_id a) es = [0..at_next_seq a - 1]" "0 < at_next_seq a"
    using assms(1) Some unfolding whole_def by auto
  then show ?thesis
    using whole_goes_on [OF assms(1) [unfolded Some] e] e st' by (intro conjI exI [of _ "at_next_seq a"]) auto
qed

lemma whole_run:
  "in_order None es = Some st \<Longrightarrow> distinct (started_ids es) \<Longrightarrow> whole es st"
proof (induction es arbitrary: st rule: rev_induct)
  case Nil
  then show ?case by (auto simp: whole_def intro: exI [of _ 0])
next
  case (snoc e es)
  then obtain st1 where "in_order None es = Some st1" "in_order st1 [e] = Some st"
    by (auto simp: in_order_append split: option.splits)
  then show ?case using snoc whole_step [of es st1 e st] by simp
qed

section \<open>In the order sent\<close>

lemma foldr_max_bounds:
  "\<forall>x \<in> set xs. x \<le> n \<Longrightarrow> a \<le> n \<Longrightarrow> foldr max xs a \<le> n"
  "m \<in> set xs \<Longrightarrow> m \<le> foldr max xs a" for n :: int
  by (induction xs) auto

lemma foldr_max_is:
  "\<forall>x \<in> set xs. x \<le> n \<Longrightarrow> a \<le> n \<Longrightarrow> n \<in> set xs \<Longrightarrow> foldr max xs a = n" for n :: int
  by (intro antisym foldr_max_bounds)

lemma foldr_max_upto: "0 \<le> n \<Longrightarrow> foldr max ([0..n - 1] @ [n]) (-1) = n" for n :: int
  by (rule foldr_max_is) auto

lemma numbers_of_reported:
  "numbers_of (map (reported s) es) (s, i) = tx_numbers i es"
  by (induction es) (simp_all add: numbers_of_def tx_numbers_def)

lemma next_event_applied:
  fixes es :: "'t tx_event list" and s :: string
  defines "r \<equiv> reported s :: 't tx_event \<Rightarrow> ('t, 's) transaction_event"
  assumes "whole es st" and "in_order st [e] = Some st'" and "distinct (started_ids (es @ [e]))"
  shows "verdict (map r es) (r e) = Applied \<and>
    event_id (r e) \<notin> event_id ` set (map r es)"
proof -
  obtain n where n: "0 \<le> n" "tx_numbers (tx_id e) es = [0..n - 1]" "tx_seq e = n"
    and open_tx: "\<forall>x \<in> set es. tx_id x = tx_id e \<longrightarrow> \<not> ends x"
    using whole_step [OF assms(2-4)] by blast
  have "n \<notin> set (tx_numbers (tx_id e) es)" using n by simp
  then have new: "event_id (r e) \<notin> event_id ` set (map r es)"
    using n(3) by (auto simp: tx_numbers_iff event_id_def r_def)
  have "numbers_of (map r (es @ [e])) (s, tx_id e) = [0..n - 1] @ [n]"
    unfolding r_def numbers_of_reported using n by simp
  then have arrived: "numbers_of (map r es @ [r e]) (transaction_key (r e)) = [0..n - 1] @ [n]"
    by (simp add: r_def)
  have gaps: "filter (\<lambda>k. k \<notin> set ([0..n - 1] @ [n])) [0..foldr max ([0..n - 1] @ [n]) (-1)] = []"
    unfolding foldr_max_upto [OF n(1)] by (auto simp: filter_empty_conv)
  have "\<not> list_ex (\<lambda>x. transaction_key x = transaction_key (r e) \<and> te_kind x = Ended) (map r es)"
    using open_tx by (auto simp: list_ex_iff r_def)
  then show ?thesis
    using new gaps unfolding verdict_def by (simp add: arrived Let_def r_def [symmetric])
qed

lemma verdicts_in_order:
  fixes es fs :: "'t tx_event list" and s :: string
  defines "r \<equiv> reported s :: 't tx_event \<Rightarrow> ('t, 's) transaction_event"
  assumes "whole es st" and "in_order st fs = Some st'" and "distinct (started_ids (es @ fs))"
  shows "verdicts (map r es) (map r fs) = replicate (length fs) Applied"
  using assms(2-)
proof (induction fs arbitrary: es st)
  case (Cons f fs)
  then obtain st1 where st1: "in_order st [f] = Some st1" "in_order st1 fs = Some st'"
    using in_order_append [of st "[f]" fs] by (auto split: option.splits)
  have ids: "distinct (started_ids (es @ [f]))"
    using Cons.prems(3) started_ids_simps(5) [of "[f]" fs] by auto
  note w = whole_step [OF Cons.prems(1) st1(1) ids]
  have "verdict (map r es) (r f) = Applied \<and> event_id (r f) \<notin> event_id ` set (map r es)"
    unfolding r_def by (rule next_event_applied [OF Cons.prems(1) st1(1) ids])
  moreover have "verdicts (map r (es @ [f])) (map r fs) = replicate (length fs) Applied"
    using w st1(2) Cons.prems(3) by (intro Cons.IH [of _ st1]) auto
  ultimately show ?case by simp
qed simp

text \<open>
  The events of a station whose transactions are named by a counter, from the moment it starts.
\<close>

definition station_events ::
  "tx_point set \<Rightarrow> tx_point set \<Rightarrow> string \<Rightarrow> 't tx_input list \<Rightarrow> 't tx_event list" where
  "station_events starts stops prefix is =
     fst (tx_run counter_transaction_next (machine_new starts stops (counter_transaction_new prefix)) is)"

lemma station_events_whole:
  "in_order None (station_events starts stops prefix is) =
     Some (active_of (snd (tx_run counter_transaction_next
       (machine_new starts stops (counter_transaction_new prefix)) is))) \<and>
   distinct (started_ids (station_events starts stops prefix is))"
  using tx_run_in_order [of "machine_new starts stops (counter_transaction_new prefix)"
      counter_transaction_next "is"] counter_ids_distinct
  by (simp add: station_events_def machine_new_def)

text \<open>
  Delivered in the order sent, every event of a station is applied by the ledger: no
  verdict is a duplicate, a gap or an event after the end, whatever the station's
  configuration, observations, updates and aborts.
\<close>

theorem ledger_accepts_station:
  "fst (ingest_all ledger_new (map (reported s) (station_events starts stops prefix is)
       :: ('t, 's) transaction_event list)) =
     replicate (length (station_events starts stops prefix is)) Applied"
proof -
  define es where "es = station_events starts stops prefix is"
  define r where "r = (reported s :: 't tx_event \<Rightarrow> ('t, 's) transaction_event)"
  have "tracks (ledger_new :: ('t, 's) ledger) []"
    by (simp add: tracks_def ledger_new_def events_of_def)
  from ingest_all_tracks [OF this, of "map r es"]
  have "fst (ingest_all ledger_new (map r es)) = verdicts (map r []) (map r es)" by simp
  also have "\<dots> = replicate (length es) Applied"
    using station_events_whole [of starts stops prefix "is"] whole_run [of "[]" None]
    unfolding r_def es_def by (intro verdicts_in_order) auto
  finally show ?thesis by (simp only: r_def es_def)
qed

section \<open>In any order, with repetitions\<close>

lemma whole_identifies:
  assumes "whole es st" and "e \<in> set es" and "f \<in> set es" and "tx_id e = tx_id f" and "tx_seq e = tx_seq f"
  shows "e = f"
proof -
  obtain n where "tx_numbers (tx_id f) es = [0..n - 1]"
    using whole_numbers [OF assms(1)] by blast
  then have "distinct (map tx_seq (filter (\<lambda>e. tx_id e = tx_id f) es))" by (simp flip: tx_numbers_def)
  then have "inj_on tx_seq (set (filter (\<lambda>e. tx_id e = tx_id f) es))" by (simp add: distinct_map)
  then show ?thesis by (rule inj_onD) (use assms in auto)
qed

text \<open>Once every event has arrived, the ones not repetitions of others are all of them.\<close>

lemma arrived_all:
  fixes es :: "'t tx_event list" and xs :: "('t, 's) transaction_event list"
  assumes "whole es st" and "set xs = reported s ` set es"
  shows "set (fresh_events [] xs) = reported s ` set es"
proof
  show "set (fresh_events [] xs) \<subseteq> reported s ` set es"
    using fresh_events_subset [of "[]" xs] assms(2) by blast
  show "reported s ` set es \<subseteq> set (fresh_events [] xs)"
  proof
    fix x :: "('t, 's) transaction_event"
    assume "x \<in> reported s ` set es"
    then obtain e where e: "e \<in> set es" "x = reported s e" by blast
    then have "event_id x \<in> event_id ` set (fresh_events [] xs)"
      using fresh_events_complete [of x xs "[]"] assms(2) by auto
    then obtain y where y: "y \<in> set (fresh_events [] xs)" "event_id y = event_id x" by force
    then obtain f where f: "f \<in> set es" "y = reported s f"
      using fresh_events_subset [of "[]" xs] assms(2) by blast
    then have "f = e" using whole_identifies [OF assms(1) f(1) e(1)] y(2) e(2) by (simp add: event_id_def)
    then show "x \<in> set (fresh_events [] xs)" using y(1) f(2) e(2) by simp
  qed
qed

lemma complete_record:
  assumes "whole es st" and "record_tracks r (events_of (s', i) hist)" and "set hist = reported s ` set es"
  shows "missing r = []"
proof -
  have numbers: "te_seq_no ` set (events_of (s', i) hist) = (if s' = s then set (tx_numbers i es) else {})"
    using assms(3) by (force simp: events_of_def tx_numbers_def)
  obtain n where n: "0 \<le> n" "tx_numbers i es = [0..n - 1]" using whole_numbers [OF assms(1)] by blast
  have "foldr max (map te_seq_no (events_of (s', i) hist)) (-1) \<le> (if s' = s then n - 1 else -1)"
    using numbers n by (intro foldr_max_bounds(1)) (auto simp flip: set_map split: if_splits)
  then have high: "lr_highest r \<le> (if s' = s then n - 1 else -1)"
    using assms(2) by (simp add: record_tracks_def)
  have seen: "lr_seen r = (if s' = s then set [0..n - 1] else {})"
    using assms(2) numbers n by (simp add: record_tracks_def)
  show ?thesis
    using high by (auto simp: missing_def seen filter_empty_conv split: if_splits)
qed

lemma events_reported:
  assumes "set hist = reported s ` set es"
  shows "events_of (s, i) hist = [] \<longleftrightarrow> (\<forall>e \<in> set es. tx_id e \<noteq> i)"
    and "Ended \<in> te_kind ` set (events_of (s, i) hist) \<longleftrightarrow> (\<exists>e \<in> set es. ends e \<and> tx_id e = i)"
proof -
  have events: "set (events_of (s, i) hist) = reported s ` {e \<in> set es. tx_id e = i}"
    using assms by (auto simp: events_of_def)
  have "events_of (s, i) hist = [] \<longleftrightarrow> set (events_of (s, i) hist) = {}" by simp
  then show "events_of (s, i) hist = [] \<longleftrightarrow> (\<forall>e \<in> set es. tx_id e \<noteq> i)"
    unfolding events by blast
  have "Ended \<in> te_kind ` set (events_of (s, i) hist) \<longleftrightarrow>
      (\<exists>e \<in> {e \<in> set es. tx_id e = i}. te_kind (reported s e) = Ended)"
    unfolding events image_image by (simp add: image_iff eq_commute [of Ended])
  then show "Ended \<in> te_kind ` set (events_of (s, i) hist) \<longleftrightarrow> (\<exists>e \<in> set es. ends e \<and> tx_id e = i)"
    by auto
qed

text \<open>The ledger has a record for exactly the transactions it was told of.\<close>

lemma ingest_dom: "dom (ld_records (snd (ingest l e))) = insert (transaction_key e) (dom (ld_records l))"
  by (auto simp: ingest_def Let_def split: option.splits if_splits)

lemma ingest_all_dom:
  "dom (ld_records (snd (ingest_all l es))) = transaction_key ` set es \<union> dom (ld_records l)"
  by (induction es arbitrary: l) (auto simp: ingest_dom case_prod_unfold Let_def)

lemma open_record:
  assumes "whole es st" and "tracks l hist" and "set hist = reported s ` set es"
    and "dom (ld_records l) = transaction_key ` set hist"
  shows "(\<exists>r. transaction_at l s i = Some r \<and> is_open r) \<longleftrightarrow> map_option at_id st = Some i"
proof -
  obtain n where n: "0 \<le> n" "tx_numbers i es = [0..n - 1]" "i \<in> set (started_ids es) \<longleftrightarrow> 0 < n"
    using whole_numbers [OF assms(1)] by blast
  have "(\<exists>e \<in> set es. tx_id e = i) \<longleftrightarrow> tx_numbers i es \<noteq> []"
    by (simp add: tx_numbers_def filter_empty_conv)
  also have "\<dots> \<longleftrightarrow> i \<in> set (started_ids es)" using n by auto
  finally have started: "(s, i) \<in> dom (ld_records l) \<longleftrightarrow> i \<in> set (started_ids es)"
    using assms(3,4) by (auto simp: image_image)
  have alive: "i \<in> set (started_ids es) \<and> (\<forall>e \<in> set es. ends e \<longrightarrow> tx_id e \<noteq> i)
      \<longleftrightarrow> map_option at_id st = Some i"
    using assms(1) unfolding whole_def by auto
  have "case ld_records l (s, i) of None \<Rightarrow> events_of (s, i) hist = []
      | Some r \<Rightarrow> record_tracks r (events_of (s, i) hist)"
    using assms(2) unfolding tracks_def by blast
  then have "(\<exists>r. transaction_at l s i = Some r \<and> is_open r) \<longleftrightarrow>
      (s, i) \<in> dom (ld_records l) \<and> \<not> (\<exists>e \<in> set es. ends e \<and> tx_id e = i)"
    unfolding events_reported(2) [OF assms(3), symmetric]
    by (auto simp: transaction_at_def is_open_def record_tracks_def split: option.splits)
  then show ?thesis using started alive by blast
qed

text \<open>
  C20. Once every event a station sent has arrived, in whatever order and however often each was
  repeated, the ledger misses no sequence number of any transaction, and the transaction it
  holds open for the station is the one the station is running.
\<close>

theorem ledger_converges:
  fixes xs :: "('t, 's) transaction_event list"
  assumes "set xs = reported s ` set (station_events starts stops prefix is)"
    and "l = snd (ingest_all ledger_new xs)"
    and "m = snd (tx_run counter_transaction_next (machine_new starts stops (counter_transaction_new prefix)) is)"
  shows "incomplete l = {} \<and>
    ((\<exists>r. transaction_at l s i = Some r \<and> is_open r) \<longleftrightarrow> transaction_id_of m = Some i)"
proof -
  let ?es = "station_events starts stops prefix is"
  let ?hist = "fresh_events [] xs"
  have whole: "whole ?es (active_of m)"
    using station_events_whole [of starts stops prefix "is"] assms(3) by (intro whole_run) simp_all
  have hist: "set ?hist = reported s ` set ?es" by (rule arrived_all [OF whole assms(1)])
  have "tracks (ledger_new :: ('t, 's) ledger) []"
    by (simp add: tracks_def ledger_new_def events_of_def)
  from ingest_all_tracks [OF this, of xs] have tracks: "tracks l ?hist" unfolding assms(2) append_Nil by blast
  have dom: "dom (ld_records l) = transaction_key ` set ?hist"
    using hist assms(1) by (simp add: assms(2) ingest_all_dom ledger_new_def)
  have "missing r = []" if "ld_records l k = Some r" for k r
  proof -
    obtain s' i where k: "k = (s', i)" by fastforce
    have "record_tracks r (events_of (s', i) ?hist)"
      using tracks that k unfolding tracks_def by (metis option.simps(5))
    then show ?thesis by (rule complete_record [OF whole _ hist])
  qed
  then have "incomplete l = {}" by (auto simp: incomplete_def ran_def)
  then show ?thesis
    using open_record [OF whole tracks hist dom] by (simp add: transaction_id_of_def)
qed

text \<open>One session delivered backwards, with its start sent twice.\<close>

theorem ledger_converges_witness:
  "incomplete (snd (ingest_all ledger_new (map (reported ''CS-1'')
     [TxEnded ''tx-1'' 2 ''Deauthorized'' ''EVDisconnected'' (3 :: nat),
      TxStarted ''tx-1'' 0 ''Authorized'' 1, TxUpdated ''tx-1'' 1 ''ChargingStateChanged'' 2,
      TxStarted ''tx-1'' 0 ''Authorized'' 1] :: (nat, unit) transaction_event list))) = {}"
proof -
  let ?is = "[Observe charging 1, Observe (charging\<lparr>energy_transfer := True\<rparr>) 2, Observe conditions_default (3 :: nat)]"
  have events: "station_events {PowerPathClosed} {EVConnected} ''tx-'' ?is =
      [TxStarted ''tx-1'' 0 ''Authorized'' 1, TxUpdated ''tx-1'' 1 ''ChargingStateChanged'' 2,
       TxEnded ''tx-1'' 2 ''Deauthorized'' ''EVDisconnected'' 3]"
    by code_simp
  let ?xs = "map (reported ''CS-1'')
     [TxEnded ''tx-1'' 2 ''Deauthorized'' ''EVDisconnected'' (3 :: nat),
      TxStarted ''tx-1'' 0 ''Authorized'' 1, TxUpdated ''tx-1'' 1 ''ChargingStateChanged'' 2,
      TxStarted ''tx-1'' 0 ''Authorized'' 1] :: (nat, unit) transaction_event list"
  have "set ?xs = reported ''CS-1'' ` set (station_events {PowerPathClosed} {EVConnected} ''tx-'' ?is)"
    unfolding events by auto
  from ledger_converges [OF this refl refl] show ?thesis by blast
qed

end
