(* ===== verification/Smart_Charging.thy ===== *)
theory Smart_Charging
  imports Decimal "HOL-Library.Monad_Syntax"
begin

text \<open>
  \<open>station/smart_charging.rs\<close>: charging profiles, how they stack, and the composite schedule a
  station answers \<open>GetCompositeSchedule\<close> with.

  A \<open>DateTime\<close> is a type variable: its representation belongs to a library the repository
  only calls. The one thing the sources do with it is \<open>epoch\<close>, the whole seconds since 1970,
  which is the argument \<open>epoch\<close> of every definition that needs it, and nothing is assumed of
  it. Seconds are integers; \<open>composite_in_range\<close> shows that none of the sums and products the
  calculation forms leaves the range of \<open>i64\<close> for instants and offsets of a sensible size.

  The lemmas show that the composite schedule, read at any second of its window, is the limit
  the stacking rules give for that second, although it is only computed at the instants
  \<open>boundaries\<close> lists; that it repeats no step; and that those rules are the minimum over the
  purposes of the leading profile of each, plus local generation.
\<close>

section \<open>Profiles\<close>

definition CONVERSION_SCALE :: nat where
  "CONVERSION_SCALE = 3"

datatype rate_unit = W | A

datatype purpose =
    ChargingStationMaxProfile | TxDefaultProfile | TxProfile
  | ChargingStationExternalConstraints | PriorityCharging | LocalGeneration

datatype profile_kind = Absolute | Recurring | Relative

datatype recurrency = Daily | Weekly

definition recurrency_seconds :: "recurrency \<Rightarrow> int" where
  "recurrency_seconds r = (case r of Daily \<Rightarrow> 86400 | Weekly \<Rightarrow> 604800)"

record period =
  start_period :: int
  period_limit :: decimal
  number_phases :: "int option"
  phase_to_use :: "int option"

definition period_new :: "int \<Rightarrow> decimal \<Rightarrow> period" where
  "period_new t l = \<lparr>start_period = t, period_limit = l, number_phases = None, phase_to_use = None\<rparr>"

definition phases :: "period \<Rightarrow> int \<Rightarrow> period" where
  "phases p n = p\<lparr>number_phases := Some n\<rparr>"

record 'd schedule =
  schedule_id :: int
  schedule_start :: "'d option"
  schedule_duration :: "int option"
  schedule_unit :: rate_unit
  periods :: "period list"
  min_charging_rate :: "decimal option"

definition schedule_new :: "int \<Rightarrow> rate_unit \<Rightarrow> period list \<Rightarrow> 'd schedule" where
  "schedule_new i u ps =
     \<lparr>schedule_id = i, schedule_start = None, schedule_duration = None, schedule_unit = u,
      periods = sort_key start_period ps, min_charging_rate = None\<rparr>"

definition starting :: "'d schedule \<Rightarrow> 'd \<Rightarrow> 'd schedule" where
  "starting s t = s\<lparr>schedule_start := Some t\<rparr>"

definition lasting :: "'d schedule \<Rightarrow> int \<Rightarrow> 'd schedule" where
  "lasting s n = s\<lparr>schedule_duration := Some n\<rparr>"

definition period_at :: "'d schedule \<Rightarrow> int \<Rightarrow> period option" where
  "period_at s offset =
     (if offset < 0 \<or> (case schedule_duration s of None \<Rightarrow> False | Some d \<Rightarrow> offset \<ge> d) then None
      else List.find (\<lambda>p. start_period p \<le> offset) (rev (periods s)))"

record 'd profile =
  profile_id :: int
  stack_level :: int
  profile_purpose :: purpose
  kind :: profile_kind
  recurrency :: "recurrency option"
  valid_from :: "'d option"
  valid_to :: "'d option"
  profile_transaction :: "string option"
  profile_evse :: nat
  schedules :: "'d schedule list"

definition profile_new :: "int \<Rightarrow> int \<Rightarrow> purpose \<Rightarrow> profile_kind \<Rightarrow> 'd schedule \<Rightarrow> 'd profile" where
  "profile_new i level u k s =
     \<lparr>profile_id = i, stack_level = level, profile_purpose = u, kind = k, recurrency = None,
      valid_from = None, valid_to = None, profile_transaction = None, profile_evse = 0,
      schedules = [s]\<rparr>"

definition on_evse :: "'d profile \<Rightarrow> nat \<Rightarrow> 'd profile" where
  "on_evse p e = p\<lparr>profile_evse := e\<rparr>"

definition for_transaction :: "'d profile \<Rightarrow> string \<Rightarrow> 'd profile" where
  "for_transaction p t = p\<lparr>profile_transaction := Some t\<rparr>"

definition valid :: "'d profile \<Rightarrow> 'd option \<Rightarrow> 'd option \<Rightarrow> 'd profile" where
  "valid p from to = p\<lparr>valid_from := from, valid_to := to\<rparr>"

definition recurring :: "'d profile \<Rightarrow> recurrency \<Rightarrow> 'd profile" where
  "recurring p r = p\<lparr>kind := Recurring, recurrency := Some r\<rparr>"

text \<open>\<open>schedules.first()\<close>.\<close>

definition first_schedule :: "'d profile \<Rightarrow> 'd schedule option" where
  "first_schedule p = (case schedules p of [] \<Rightarrow> None | s # _ \<Rightarrow> Some s)"

definition valid_at :: "('d \<Rightarrow> int) \<Rightarrow> 'd profile \<Rightarrow> int \<Rightarrow> bool" where
  "valid_at epoch p t \<longleftrightarrow>
     (case valid_from p of None \<Rightarrow> True | Some d \<Rightarrow> epoch d \<le> t) \<and>
     (case valid_to p of None \<Rightarrow> True | Some d \<Rightarrow> t < epoch d)"

definition offset_at :: "('d \<Rightarrow> int) \<Rightarrow> 'd profile \<Rightarrow> int \<Rightarrow> int option \<Rightarrow> int option" where
  "offset_at epoch p t transaction_start =
     do { s \<leftarrow> first_schedule p;
          case kind p of
            Absolute \<Rightarrow>
              do { start \<leftarrow> map_option epoch (schedule_start s);
                   if t \<ge> start then Some (t - start) else None }
          | Relative \<Rightarrow>
              do { start \<leftarrow> transaction_start;
                   if t \<ge> start then Some (t - start) else None }
          | Recurring \<Rightarrow>
              do { start \<leftarrow> map_option epoch (schedule_start s);
                   every \<leftarrow> map_option recurrency_seconds (recurrency p);
                   if t < start then None else Some ((t - start) mod every) } }"

type_synonym profile_limit = "decimal \<times> rate_unit \<times> int option"

definition profile_limit_at ::
  "('d \<Rightarrow> int) \<Rightarrow> 'd profile \<Rightarrow> int \<Rightarrow> int option \<Rightarrow> profile_limit option" where
  "profile_limit_at epoch p t transaction_start =
     (if \<not> valid_at epoch p t then None
      else
        do { s \<leftarrow> first_schedule p;
             offset \<leftarrow> offset_at epoch p t transaction_start;
             step \<leftarrow> period_at s offset;
             Some (period_limit step, schedule_unit s, number_phases step) })"

section \<open>Amperes and watts\<close>

record supply_params =
  voltage :: decimal
  supply_phases :: int

definition supply_default :: supply_params where
  "supply_default = \<lparr>voltage = from_i64 230, supply_phases = 3\<rparr>"

definition convert ::
  "supply_params \<Rightarrow> decimal \<Rightarrow> rate_unit \<Rightarrow> rate_unit \<Rightarrow> int option \<Rightarrow> decimal option" where
  "convert s l from to n =
     (if from = to then Some l
      else
        do { factor \<leftarrow> checked_mul (voltage s)
               (from_i64 (max (case n of None \<Rightarrow> supply_phases s | Some k \<Rightarrow> k) 1));
             case (from, to) of
               (A, W) \<Rightarrow> checked_mul l factor
             | (W, A) \<Rightarrow> checked_div l factor CONVERSION_SCALE
             | _ \<Rightarrow> Some l })"

section \<open>The composite schedule\<close>

record composite_period =
  step_start :: int
  step_limit :: "decimal option"
  step_phases :: "int option"

text \<open>\<open>Option<Decimal>\<close> compares by \<open>PartialEq\<close> of the decimals, so by number.\<close>

definition same_step :: "composite_period \<Rightarrow> composite_period \<Rightarrow> bool" where
  "same_step a b \<longleftrightarrow> rel_option decimal_eq (step_limit a) (step_limit b) \<and> step_phases a = step_phases b"

record 'd composite_schedule =
  composite_evse :: nat
  composite_start :: 'd
  composite_duration :: int
  composite_unit :: rate_unit
  steps :: "composite_period list"

text \<open>\<open>Vec::dedup_by\<close>: drops an element that its last kept predecessor makes redundant.\<close>

fun dedup_from :: "('a \<Rightarrow> 'a \<Rightarrow> bool) \<Rightarrow> 'a \<Rightarrow> 'a list \<Rightarrow> 'a list" where
  "dedup_from same kept [] = [kept]"
| "dedup_from same kept (x # xs) =
     (if same kept x then dedup_from same kept xs else kept # dedup_from same x xs)"

definition dedup_by :: "('a \<Rightarrow> 'a \<Rightarrow> bool) \<Rightarrow> 'a list \<Rightarrow> 'a list" where
  "dedup_by same xs = (case xs of [] \<Rightarrow> [] | x # rest \<Rightarrow> dedup_from same x rest)"

definition fill_step :: "decimal \<Rightarrow> composite_period \<Rightarrow> composite_period" where
  "fill_step rated p = (if step_limit p = None then p\<lparr>step_limit := Some rated\<rparr> else p)"

definition fill_gaps :: "'d composite_schedule \<Rightarrow> decimal \<Rightarrow> 'd composite_schedule" where
  "fill_gaps c rated = c\<lparr>steps := dedup_by same_step (map (fill_step rated) (steps c))\<rparr>"

definition has_gaps :: "'d composite_schedule \<Rightarrow> bool" where
  "has_gaps c \<longleftrightarrow> list_ex (\<lambda>p. step_limit p = None) (steps c)"

record 'd profile_store =
  profiles :: "'d profile list"
  store_supply :: supply_params

definition profile_store_new :: "'d profile_store" where
  "profile_store_new = \<lparr>profiles = [], store_supply = supply_default\<rparr>"

definition install :: "'d profile_store \<Rightarrow> 'd profile \<Rightarrow> 'd profile_store" where
  "install st p =
     st\<lparr>profiles := filter (\<lambda>existing. profile_id existing \<noteq> profile_id p) (profiles st) @ [p]\<rparr>"

text \<open>\<open>Option::is_none_or(|wanted| field == wanted)\<close>.\<close>

definition criterion :: "'a option \<Rightarrow> 'a \<Rightarrow> bool" where
  "criterion wanted field = (case wanted of None \<Rightarrow> True | Some v \<Rightarrow> field = v)"

definition clear_matches ::
  "int option \<Rightarrow> nat option \<Rightarrow> purpose option \<Rightarrow> int option \<Rightarrow> 'd profile \<Rightarrow> bool" where
  "clear_matches i e u level p \<longleftrightarrow>
     criterion i (profile_id p) \<and> criterion e (profile_evse p) \<and>
     criterion u (profile_purpose p) \<and> criterion level (stack_level p)"

definition clear ::
  "'d profile_store \<Rightarrow> int option \<Rightarrow> nat option \<Rightarrow> purpose option \<Rightarrow> int option
     \<Rightarrow> nat \<times> 'd profile_store" where
  "clear st i e u level =
     (let kept = filter (\<lambda>p. \<not> clear_matches i e u level p) (profiles st)
      in (length (profiles st) - length kept, st\<lparr>profiles := kept\<rparr>))"

definition clear_transaction :: "'d profile_store \<Rightarrow> string \<Rightarrow> nat \<times> 'd profile_store" where
  "clear_transaction st t =
     (let kept = filter (\<lambda>p. profile_transaction p \<noteq> Some t) (profiles st)
      in (length (profiles st) - length kept, st\<lparr>profiles := kept\<rparr>))"

section \<open>The instants a limit can change at\<close>

fun walk :: "nat \<Rightarrow> int \<Rightarrow> int \<Rightarrow> int \<Rightarrow> int list" where
  "walk 0 t every end = []"
| "walk (Suc room) t every end = (if t < end then t # walk room (t + every) every end else [])"

definition anchors :: "('d \<Rightarrow> int) \<Rightarrow> 'd profile \<Rightarrow> 'd schedule \<Rightarrow> int \<Rightarrow> int \<Rightarrow> int option \<Rightarrow> int list" where
  "anchors epoch p s start end transaction_start =
     (case kind p of
        Absolute \<Rightarrow> (case schedule_start s of None \<Rightarrow> [] | Some d \<Rightarrow> [epoch d])
      | Relative \<Rightarrow> (case transaction_start of None \<Rightarrow> [] | Some t \<Rightarrow> [t])
      | Recurring \<Rightarrow>
          (case (schedule_start s, recurrency p) of
             (Some d, Some r) \<Rightarrow>
               let every = recurrency_seconds r; skipped = (start - epoch d) div every
               in walk 4096 (epoch d + skipped * every) every end
           | _ \<Rightarrow> []))"

definition in_window :: "int \<Rightarrow> int \<Rightarrow> int list \<Rightarrow> int list" where
  "in_window start end = filter (\<lambda>t. start \<le> t \<and> t < end)"

definition anchor_points :: "'d schedule \<Rightarrow> int \<Rightarrow> int list" where
  "anchor_points s anchor =
     map (\<lambda>step. anchor + start_period step) (periods s) @
     (case schedule_duration s of None \<Rightarrow> [] | Some d \<Rightarrow> [anchor + d])"

definition profile_points :: "('d \<Rightarrow> int) \<Rightarrow> 'd profile \<Rightarrow> int \<Rightarrow> int \<Rightarrow> int option \<Rightarrow> int list" where
  "profile_points epoch p start end transaction_start =
     (case valid_from p of None \<Rightarrow> [] | Some d \<Rightarrow> [epoch d]) @
     (case valid_to p of None \<Rightarrow> [] | Some d \<Rightarrow> [epoch d]) @
     (case first_schedule p of
        None \<Rightarrow> []
      | Some s \<Rightarrow> concat (map (anchor_points s) (anchors epoch p s start end transaction_start)))"

text \<open>The \<open>BTreeSet\<close>, in its iteration order.\<close>

definition boundaries :: "('d \<Rightarrow> int) \<Rightarrow> 'd profile list \<Rightarrow> int \<Rightarrow> int \<Rightarrow> int option \<Rightarrow> int list" where
  "boundaries epoch ps start end transaction_start =
     sorted_list_of_set (set (start #
       in_window start end (concat (map (\<lambda>p. profile_points epoch p start end transaction_start) ps))))"

section \<open>The stacking rules\<close>

text \<open>\<open>Iterator::max_by_key\<close>: the last of the greatest.\<close>

definition max_by_key :: "('a \<Rightarrow> int) \<Rightarrow> 'a list \<Rightarrow> 'a option" where
  "max_by_key key xs =
     foldl (\<lambda>best x. case best of
                       None \<Rightarrow> Some x
                     | Some b \<Rightarrow> if key b \<le> key x then Some x else Some b) None xs"

definition leading ::
  "('d \<Rightarrow> int) \<Rightarrow> supply_params \<Rightarrow> 'd profile list \<Rightarrow> int \<Rightarrow> rate_unit \<Rightarrow> int option \<Rightarrow> purpose
     \<Rightarrow> (decimal \<times> int option) option" where
  "leading epoch sply ps t u transaction_start wanted =
     (case max_by_key fst
             (List.map_filter
                (\<lambda>p. map_option (\<lambda>l. (stack_level p, l)) (profile_limit_at epoch p t transaction_start))
                (filter (\<lambda>p. profile_purpose p = wanted) ps)) of
        None \<Rightarrow> None
      | Some (_, l, unit, n) \<Rightarrow> map_option (\<lambda>c. (c, n)) (convert sply l unit u n))"

definition or_else :: "'a option \<Rightarrow> 'a option \<Rightarrow> 'a option" where
  "or_else a b = (case a of None \<Rightarrow> b | Some _ \<Rightarrow> a)"

text \<open>One turn of the loop over the two ceilings.\<close>

definition lower_of ::
  "(decimal \<times> int option) option \<Rightarrow> (decimal \<times> int option) option \<Rightarrow> (decimal \<times> int option) option" where
  "lower_of effective purpose_limit =
     (case purpose_limit of
        None \<Rightarrow> effective
      | Some (l, n) \<Rightarrow>
          (case effective of
             Some (current, current_phases) \<Rightarrow>
               if compare current l \<noteq> Greater then Some (current, current_phases) else Some (l, n)
           | None \<Rightarrow> Some (l, n)))"

definition with_generation ::
  "(decimal \<times> int option) option \<Rightarrow> (decimal \<times> int option) option \<Rightarrow> (decimal \<times> int option) option" where
  "with_generation effective generated =
     (case generated of
        None \<Rightarrow> effective
      | Some (generation, n) \<Rightarrow>
          (case effective of
             Some (current, current_phases) \<Rightarrow>
               Some (case checked_add current generation of None \<Rightarrow> current | Some added \<Rightarrow> added,
                     current_phases)
           | None \<Rightarrow> Some (generation, n)))"

definition limit_at ::
  "('d \<Rightarrow> int) \<Rightarrow> supply_params \<Rightarrow> 'd profile list \<Rightarrow> int \<Rightarrow> rate_unit \<Rightarrow> int option
     \<Rightarrow> (decimal \<times> int option) option" where
  "limit_at epoch sply ps t u transaction_start =
     (let lead = leading epoch sply ps t u transaction_start;
          session = or_else (lead PriorityCharging) (or_else (lead TxProfile) (lead TxDefaultProfile));
          effective = foldl (\<lambda>e wanted. lower_of e (lead wanted)) session
                        [ChargingStationMaxProfile, ChargingStationExternalConstraints]
      in with_generation effective (lead LocalGeneration))"

section \<open>The answer to GetCompositeSchedule\<close>

definition applies_to ::
  "nat \<Rightarrow> (string \<times> 'd) option \<Rightarrow> 'd profile \<Rightarrow> bool" where
  "applies_to e transaction p \<longleftrightarrow>
     (profile_evse p = 0 \<or> profile_evse p = e) \<and>
     (case profile_purpose p of
        TxProfile \<Rightarrow>
          (case (profile_transaction p, transaction) of
             (Some i, Some (running, _)) \<Rightarrow> i = running | (None, Some _) \<Rightarrow> True | _ \<Rightarrow> False)
      | PriorityCharging \<Rightarrow>
          (case (profile_transaction p, transaction) of
             (Some i, Some (running, _)) \<Rightarrow> i = running | (None, Some _) \<Rightarrow> True | _ \<Rightarrow> False)
      | _ \<Rightarrow> True)"

text \<open>What the loop does with the step of one instant.\<close>

definition push_step :: "composite_period list \<Rightarrow> composite_period \<Rightarrow> composite_period list" where
  "push_step ps step =
     (if ps \<noteq> [] \<and> same_step (last ps) step then ps
      else if ps = [] \<and> step_limit step = None then ps
      else ps @ [step])"

definition step_at :: "int \<Rightarrow> (decimal \<times> int option) option \<Rightarrow> composite_period" where
  "step_at t effective =
     \<lparr>step_start = t, step_limit = map_option fst effective,
      step_phases = Option.bind effective snd\<rparr>"

definition composite ::
  "('d \<Rightarrow> int) \<Rightarrow> 'd profile_store \<Rightarrow> nat \<Rightarrow> 'd \<Rightarrow> int \<Rightarrow> rate_unit \<Rightarrow> (string \<times> 'd) option
     \<Rightarrow> 'd composite_schedule" where
  "composite epoch st e from duration u transaction =
     (let start = epoch from;
          end = start + max duration 0;
          transaction_start = map_option (\<lambda>(_, t). epoch t) transaction;
          applicable = filter (applies_to e transaction) (profiles st);
          bs = boundaries epoch applicable start end transaction_start
      in \<lparr>composite_evse = e, composite_start = from, composite_duration = duration,
          composite_unit = u,
          steps = foldl (\<lambda>ps t. push_step ps
                     (step_at (t - start)
                        (limit_at epoch (store_supply st) applicable t u transaction_start))) [] bs\<rparr>)"

section \<open>Between two boundaries nothing changes\<close>

lemma find_cong: "(\<And>x. x \<in> set xs \<Longrightarrow> P x = Q x) \<Longrightarrow> List.find P xs = List.find Q xs"
  by (induction xs) auto

lemma period_at_constant:
  assumes "0 \<le> a" and "a \<le> b"
    and "\<forall>q \<in> set (periods s). \<not> (a < start_period q \<and> start_period q \<le> b)"
    and "\<forall>d. schedule_duration s = Some d \<longrightarrow> \<not> (a < d \<and> d \<le> b)"
  shows "period_at s a = period_at s b"
proof -
  have "List.find (\<lambda>q. start_period q \<le> a) (rev (periods s)) =
        List.find (\<lambda>q. start_period q \<le> b) (rev (periods s))"
    using assms(2,3) by (intro find_cong) force
  then show ?thesis
    using assms(1,2,4) by (auto simp: period_at_def split: option.splits)
qed

text \<open>A schedule that says something from its own start on, as OCPP requires of a schedule.\<close>

definition anchored :: "'d profile \<Rightarrow> bool" where
  "anchored p \<longleftrightarrow>
     (case first_schedule p of
        None \<Rightarrow> True
      | Some s \<Rightarrow> list_ex (\<lambda>q. start_period q = 0) (periods s))"

lemma walk_reaches:
  assumes "0 < every" and "k < room" and "t + int k * every < end"
  shows "t + int k * every \<in> set (walk room t every end)"
  using assms
proof (induction room arbitrary: t k)
  case (Suc room)
  show ?case
  proof (cases k)
    case 0
    then show ?thesis using Suc.prems by simp
  next
    case (Suc j)
    have "0 \<le> int k * every" using Suc.prems(1) by simp
    then have "t < end" using Suc.prems(3) by linarith
    moreover have "t + every + int j * every \<in> set (walk room (t + every) every end)"
      using Suc.prems Suc by (intro Suc.IH) (auto simp: algebra_simps)
    ultimately show ?thesis using Suc.prems Suc by (auto simp: algebra_simps)
  qed
qed simp

lemma recurrency_seconds_bounds: "86400 \<le> recurrency_seconds r" "recurrency_seconds r \<le> 604800"
  by (simp_all add: recurrency_seconds_def split: recurrency.splits)

text \<open>The longest window whose daily repetitions the walk lists in full, about eleven years.\<close>

definition longest_window :: int where
  "longest_window = 4095 * 86400"

lemma repetition_is_anchor:
  assumes "kind p = Recurring" and "schedule_start s = Some d" and "recurrency p = Some r"
    and "end \<le> start + longest_window"
    and "a = epoch d + k * recurrency_seconds r" and "a < end"
    and "(start - epoch d) div recurrency_seconds r \<le> k"
  shows "a \<in> set (anchors epoch p s start end ts)"
proof -
  define every where "every = recurrency_seconds r"
  define skipped where "skipped = (start - epoch d) div every"
  have every: "86400 \<le> every" using recurrency_seconds_bounds by (simp add: every_def)
  have "skipped * every + every > start - epoch d"
    using every by (smt (verit) mult_div_mod_eq mult.commute pos_mod_bound skipped_def)
  moreover have "k * every < end - epoch d" using assms(5,6) by (simp add: every_def)
  ultimately have "(k - skipped) * every < longest_window + every"
    using assms(4) by (simp add: algebra_simps)
  moreover have "longest_window + every \<le> 4096 * every"
    using every by (simp add: longest_window_def)
  ultimately have "(k - skipped) * every < 4096 * every" by linarith
  then have "k - skipped < 4096" using every by (simp add: mult_less_cancel_right)
  moreover have "skipped \<le> k" using assms(7) by (simp add: skipped_def every_def)
  ultimately have "epoch d + skipped * every + int (nat (k - skipped)) * every
      \<in> set (walk 4096 (epoch d + skipped * every) every end)"
    using every assms(5,6) by (intro walk_reaches) (auto simp: every_def algebra_simps)
  moreover have "epoch d + skipped * every + int (nat (k - skipped)) * every = a"
    using assms(5) \<open>skipped \<le> k\<close> by (simp add: every_def algebra_simps)
  ultimately show ?thesis
    using assms(1-3) by (simp add: anchors_def Let_def every_def skipped_def)
qed

text \<open>An offset counts from an anchor, and between two boundaries from the same one.\<close>

lemma offset_constant:
  assumes "first_schedule p = Some s" and "anchored p"
    and "start \<le> a" and "a \<le> b" and "b < end" and "end \<le> start + longest_window"
    and none: "\<forall>x \<in> set (profile_points epoch p start end ts). \<not> (a < x \<and> x \<le> b)"
  shows "(offset_at epoch p a ts = None \<and> offset_at epoch p b ts = None) \<or>
     (\<exists>x \<in> set (anchors epoch p s start end ts). x \<le> a \<and>
        offset_at epoch p a ts = Some (a - x) \<and> offset_at epoch p b ts = Some (b - x))"
proof -
  from assms(1,2) obtain q where q: "q \<in> set (periods s)" "start_period q = 0"
    by (auto simp: anchored_def list_ex_iff)
  have anchor: "x \<le> a \<or> b < x" if "x \<in> set (anchors epoch p s start end ts)" for x
  proof -
    have "x \<in> set (anchor_points s x)" using q by (force simp: anchor_points_def)
    then have "x \<in> set (profile_points epoch p start end ts)"
      using that assms(1) by (auto simp: profile_points_def)
    then show ?thesis using none by force
  qed
  show ?thesis
  proof (cases "kind p")
    case Absolute
    then show ?thesis
      using assms(1,4) anchor
      by (cases "schedule_start s") (auto simp: offset_at_def anchors_def)
  next
    case Relative
    then show ?thesis
      using assms(1,4) anchor by (cases ts) (auto simp: offset_at_def anchors_def)
  next
    case Recurring
    show ?thesis
    proof (cases "schedule_start s = None \<or> recurrency p = None")
      case True
      then show ?thesis
        using assms(1) Recurring by (auto simp: offset_at_def)
    next
      case False
      then obtain d r where d: "schedule_start s = Some d" "recurrency p = Some r" by auto
      define every where "every = recurrency_seconds r"
      define first where "first = epoch d"
      have every: "0 < every" using recurrency_seconds_bounds(1) [of r] by (simp add: every_def)
      have offset: "offset_at epoch p t ts = (if t < first then None else Some ((t - first) mod every))" for t
        using assms(1) d Recurring by (simp add: offset_at_def every_def first_def)
      define k where "k = (b - first) div every"
      define x where "x = first + k * every"
      have x: "x \<le> b" "b < x + every"
        using every unfolding x_def k_def
        by (smt (verit) mult_div_mod_eq mult.commute pos_mod_bound pos_mod_sign)+
      have "x \<in> set (anchors epoch p s start end ts)"
      proof (rule repetition_is_anchor [OF Recurring d assms(6)])
        show "x = epoch d + k * recurrency_seconds r" by (simp add: x_def first_def every_def)
        show "x < end" using x assms(5) by simp
        show "(start - epoch d) div recurrency_seconds r \<le> k"
          using assms(3,4) every unfolding k_def every_def first_def
          by (intro zdiv_mono1) auto
      qed
      with anchor x have "x \<le> a" by force
      have at: "(t - first) mod every = t - x" if "x \<le> t" "t < x + every" for t
      proof -
        have "t - first = (t - x) + k * every" by (simp add: x_def)
        then have "(t - first) mod every = (t - x) mod every" by (metis mod_mult_self1)
        then show ?thesis using that by simp
      qed
      show ?thesis
      proof (cases "first \<le> b")
        case True
        then have "0 \<le> k" using every by (simp add: k_def pos_imp_zdiv_nonneg_iff)
        then have "first \<le> x" using every by (simp add: x_def)
        then show ?thesis
          using \<open>x \<in> _\<close> \<open>x \<le> a\<close> x assms(4) offset at by (intro disjI2 bexI [of _ x]) auto
      next
        case False
        then show ?thesis using assms(4) offset by auto
      qed
    qed
  qed
qed

lemma profile_limit_constant:
  assumes "anchored p" and "start \<le> a" and "a \<le> b" and "b < end" and "end \<le> start + longest_window"
    and none: "\<forall>x \<in> set (profile_points epoch p start end ts). \<not> (a < x \<and> x \<le> b)"
  shows "profile_limit_at epoch p a ts = profile_limit_at epoch p b ts"
proof (cases "first_schedule p")
  case None
  then show ?thesis by (simp add: profile_limit_at_def)
next
  case (Some s)
  have "valid_at epoch p a = valid_at epoch p b"
    using none assms(3) by (auto simp: valid_at_def profile_points_def split: option.splits)
  moreover
  { fix x assume x: "x \<in> set (anchors epoch p s start end ts)" "x \<le> a"
    have points: "set (anchor_points s x) \<subseteq> set (profile_points epoch p start end ts)"
      using x Some by (auto simp: profile_points_def)
    have "period_at s (a - x) = period_at s (b - x)"
    proof (rule period_at_constant)
      show "\<forall>q \<in> set (periods s). \<not> (a - x < start_period q \<and> start_period q \<le> b - x)"
        using none points by (fastforce simp: anchor_points_def)
      show "\<forall>d. schedule_duration s = Some d \<longrightarrow> \<not> (a - x < d \<and> d \<le> b - x)"
        using none points by (fastforce simp: anchor_points_def)
    qed (use x assms(3) in auto) }
  ultimately show ?thesis
    using offset_constant [OF Some assms(1-5) none] Some by (auto simp: profile_limit_at_def)
qed

lemma map_filter_cong:
  "(\<And>x. x \<in> set xs \<Longrightarrow> f x = g x) \<Longrightarrow> List.map_filter f xs = List.map_filter g xs"
  by (induction xs) (auto simp: List.map_filter_def)

lemma limit_at_cong:
  assumes "\<forall>p \<in> set ps. profile_limit_at epoch p a ts = profile_limit_at epoch p b ts"
  shows "limit_at epoch sply ps a u ts = limit_at epoch sply ps b u ts"
proof -
  have "leading epoch sply ps a u ts wanted = leading epoch sply ps b u ts wanted" for wanted
  proof -
    have "List.map_filter (\<lambda>p. map_option (\<lambda>l. (stack_level p, l)) (profile_limit_at epoch p a ts))
            (filter (\<lambda>p. profile_purpose p = wanted) ps) =
          List.map_filter (\<lambda>p. map_option (\<lambda>l. (stack_level p, l)) (profile_limit_at epoch p b ts))
            (filter (\<lambda>p. profile_purpose p = wanted) ps)"
      using assms by (intro map_filter_cong) simp
    then show ?thesis by (simp add: leading_def)
  qed
  then show ?thesis by (simp add: limit_at_def Let_def)
qed

section \<open>The composite schedule at any second\<close>

text \<open>What a schedule says of an offset: its last step that has begun, or no constraint.\<close>

definition read_steps :: "composite_period list \<Rightarrow> int \<Rightarrow> composite_period" where
  "read_steps ps offset =
     (case List.find (\<lambda>s. step_start s \<le> offset) (rev ps) of
        None \<Rightarrow> step_at offset None
      | Some s \<Rightarrow> s)"

lemma decimal_eq_refl: "decimal_eq d d"
  by (simp add: decimal_eq_def compare_def compare_int_def Let_def split: option.splits)

lemma same_step_refl: "same_step s s"
  by (simp add: same_step_def option.rel_refl decimal_eq_refl)

lemma same_step_content:
  "step_limit a = step_limit b \<Longrightarrow> step_phases a = step_phases b \<Longrightarrow> same_step a b"
  by (simp add: same_step_def option.rel_refl decimal_eq_refl)

lemma read_steps_snoc:
  "read_steps (ps @ [s]) offset = (if step_start s \<le> offset then s else read_steps ps offset)"
  by (simp add: read_steps_def)

lemma read_steps_last:
  "ps \<noteq> [] \<Longrightarrow> step_start (last ps) \<le> offset \<Longrightarrow> read_steps ps offset = last ps"
  by (cases ps rule: rev_cases) (auto simp: read_steps_snoc)

text \<open>The loop over the boundaries, for any assignment \<open>f\<close> of limits to instants.\<close>

abbreviation push_all :: "int \<Rightarrow> (int \<Rightarrow> (decimal \<times> int option) option) \<Rightarrow> int list \<Rightarrow> composite_period list" where
  "push_all start f bs \<equiv> foldl (\<lambda>ps t. push_step ps (step_at (t - start) (f t))) [] bs"

lemma push_all_starts: "step_start ` set (push_all start f bs) \<subseteq> (\<lambda>t. t - start) ` set bs"
proof (induction bs rule: rev_induct)
  case (snoc t bs)
  then show ?case by (auto simp: push_step_def step_at_def)
qed simp

lemma push_all_reads:
  assumes "sorted_wrt (<) bs" and "b \<in> set bs" and "b \<le> t"
    and "\<forall>x \<in> set bs. x \<le> t \<longrightarrow> x \<le> b"
  shows "same_step (read_steps (push_all start f bs) (t - start)) (step_at (t - start) (f b))"
  using assms
proof (induction bs rule: rev_induct)
  case (snoc x bs)
  define ps where "ps = push_all start f bs"
  define s where "s = step_at (x - start) (f x)"
  have earlier: "step_start q < x - start" if "q \<in> set ps" for q
  proof -
    have "step_start q \<in> (\<lambda>t. t - start) ` set bs"
      using push_all_starts [of start f bs] that by (auto simp: ps_def)
    then show ?thesis using snoc.prems(1) by (auto simp: sorted_wrt_append)
  qed
  show ?case
  proof (cases "x \<le> t")
    case True
    then have "b = x" using snoc.prems by (fastforce simp: sorted_wrt_append)
    have goal: "same_step q s \<Longrightarrow> same_step q (step_at (t - start) (f b))" for q
      by (simp add: same_step_def s_def step_at_def \<open>b = x\<close>)
    have "same_step (read_steps (push_step ps s) (t - start)) s"
    proof (cases "ps \<noteq> [] \<and> same_step (last ps) s")
      case True
      then have "step_start (last ps) \<le> t - start"
        using earlier [of "last ps"] \<open>x \<le> t\<close> by simp
      then show ?thesis using True by (simp add: push_step_def read_steps_last)
    next
      case False
      show ?thesis
      proof (cases "ps = [] \<and> step_limit s = None")
        case True
        then have "f x = None" by (simp add: s_def step_at_def)
        then show ?thesis
          using True by (simp add: push_step_def read_steps_def s_def step_at_def same_step_def)
      next
        case no_gap: False
        have "step_start s \<le> t - start" using \<open>x \<le> t\<close> by (simp add: s_def step_at_def)
        moreover have "push_step ps s = ps @ [s]"
          using False no_gap by (auto simp: push_step_def)
        ultimately show ?thesis by (simp add: read_steps_snoc same_step_refl)
      qed
    qed
    then show ?thesis using goal by (simp add: ps_def s_def)
  next
    case False
    then have "b \<in> set bs" using snoc.prems by auto
    moreover have "sorted_wrt (<) bs" using snoc.prems(1) by (simp add: sorted_wrt_append)
    ultimately have "same_step (read_steps ps (t - start)) (step_at (t - start) (f b))"
      unfolding ps_def using snoc.prems by (intro snoc.IH) auto
    moreover have "read_steps (push_step ps s) (t - start) = read_steps ps (t - start)"
      using False by (auto simp: push_step_def read_steps_snoc s_def step_at_def)
    ultimately show ?thesis by (simp add: ps_def s_def)
  qed
qed simp

lemma boundaries_sorted: "sorted_wrt (<) (boundaries epoch ps start end ts)"
  unfolding boundaries_def by (rule strict_sorted_list_of_set)

lemma set_boundaries:
  "set (boundaries epoch ps start end ts) =
     insert start {x. start \<le> x \<and> x < end \<and> (\<exists>p \<in> set ps. x \<in> set (profile_points epoch p start end ts))}"
  unfolding boundaries_def by (subst set_sorted_list_of_set) (auto simp: in_window_def)

text \<open>The profiles that apply, and the limit the rules give at an offset into the window.\<close>

definition applicable :: "'d profile_store \<Rightarrow> nat \<Rightarrow> (string \<times> 'd) option \<Rightarrow> 'd profile list" where
  "applicable st e transaction = filter (applies_to e transaction) (profiles st)"

definition limit_after ::
  "('d \<Rightarrow> int) \<Rightarrow> 'd profile_store \<Rightarrow> nat \<Rightarrow> 'd \<Rightarrow> rate_unit \<Rightarrow> (string \<times> 'd) option \<Rightarrow> int
     \<Rightarrow> (decimal \<times> int option) option" where
  "limit_after epoch st e from u transaction offset =
     limit_at epoch (store_supply st) (applicable st e transaction) (epoch from + offset) u
       (map_option (\<lambda>(_, t). epoch t) transaction)"

lemma composite_steps:
  "steps (composite epoch st e from duration u transaction) =
     push_all (epoch from) (\<lambda>t. limit_after epoch st e from u transaction (t - epoch from))
       (boundaries epoch (applicable st e transaction) (epoch from) (epoch from + max duration 0)
          (map_option (\<lambda>(_, t). epoch t) transaction))"
  by (simp add: composite_def Let_def limit_after_def applicable_def)

text \<open>
  C18. At every second of its window the composite schedule says what the stacking rules give for
  that second: the step in force there has the limit, as a number, and the phase count of
  \<open>limit_at\<close>, and a second before the first step is unconstrained. The schedule is
  computed at the boundaries alone, so this is that none is missing. It needs every schedule
  that applies to begin with a step at 0, as OCPP requires, and a window of at most about eleven
  years, the 4096 repetitions the source lists.
\<close>

theorem composite_pointwise:
  assumes "\<forall>p \<in> set (applicable st e transaction). anchored p"
    and "0 \<le> offset" and "offset < duration" and "duration \<le> longest_window"
  shows "same_step (read_steps (steps (composite epoch st e from duration u transaction)) offset)
           (step_at offset (limit_after epoch st e from u transaction offset))"
proof -
  define ts where "ts = map_option (\<lambda>(_, t). epoch t) transaction"
  define ps where "ps = applicable st e transaction"
  define start where "start = epoch from"
  define t where "t = start + offset"
  define bs where "bs = boundaries epoch ps start (start + duration) ts"
  define b where "b = Max {x \<in> set bs. x \<le> t}"
  have "start \<in> {x \<in> set bs. x \<le> t}"
    using assms(2) by (simp add: bs_def set_boundaries t_def)
  then have b: "b \<in> set bs" "b \<le> t" "\<forall>x \<in> set bs. x \<le> t \<longrightarrow> x \<le> b" "start \<le> b"
    using Max_in [of "{x \<in> set bs. x \<le> t}"] Max_ge [of "{x \<in> set bs. x \<le> t}"]
    by (fastforce simp: b_def)+
  have "profile_limit_at epoch p b ts = profile_limit_at epoch p t ts" if p: "p \<in> set ps" for p
  proof (rule profile_limit_constant)
    show "\<forall>x \<in> set (profile_points epoch p start (start + duration) ts). \<not> (b < x \<and> x \<le> t)"
    proof (intro ballI notI, elim conjE)
      fix x assume x: "x \<in> set (profile_points epoch p start (start + duration) ts)" "b < x" "x \<le> t"
      then have "x \<in> set bs"
        using p b(4) assms(3) by (auto simp: bs_def set_boundaries t_def)
      with b(3) x show False by force
    qed
  qed (use assms p b in \<open>auto simp: ps_def t_def\<close>)
  then have "limit_after epoch st e from u transaction (b - start) =
      limit_after epoch st e from u transaction offset"
    unfolding limit_after_def ps_def ts_def start_def t_def
    by (intro limit_at_cong) (simp add: start_def ts_def)
  moreover have "same_step
      (read_steps (push_all start (\<lambda>t. limit_after epoch st e from u transaction (t - start)) bs)
         (t - start))
      (step_at (t - start) (limit_after epoch st e from u transaction (b - start)))"
    using b by (intro push_all_reads) (auto simp: bs_def boundaries_sorted)
  ultimately show ?thesis
    using assms(2,3)
    by (simp add: composite_steps bs_def ps_def ts_def start_def t_def)
qed

section \<open>The shape of a composite schedule\<close>

lemma successively_snoc:
  "successively P (xs @ [x]) \<longleftrightarrow> successively P xs \<and> (xs \<noteq> [] \<longrightarrow> P (last xs) x)"
  by (auto simp: successively_append_iff)

lemma push_all_shape:
  assumes "sorted_wrt (<) bs"
  shows "successively (\<lambda>a b. step_start a < step_start b \<and> \<not> same_step a b) (push_all start f bs) \<and>
         (push_all start f bs \<noteq> [] \<longrightarrow> step_limit (hd (push_all start f bs)) \<noteq> None)"
  using assms
proof (induction bs rule: rev_induct)
  case (snoc x bs)
  define ps where "ps = push_all start f bs"
  have earlier: "step_start q < x - start" if "q \<in> set ps" for q
  proof -
    have "step_start q \<in> (\<lambda>t. t - start) ` set bs"
      using push_all_starts [of start f bs] that by (auto simp: ps_def)
    then show ?thesis using snoc.prems by (auto simp: sorted_wrt_append)
  qed
  have "sorted_wrt (<) bs" using snoc.prems by (simp add: sorted_wrt_append)
  note IH = snoc.IH [OF this, folded ps_def]
  define s where "s = step_at (x - start) (f x)"
  have "step_start s = x - start" by (simp add: s_def step_at_def)
  then have "successively (\<lambda>a b. step_start a < step_start b \<and> \<not> same_step a b) (push_step ps s) \<and>
      (push_step ps s \<noteq> [] \<longrightarrow> step_limit (hd (push_step ps s)) \<noteq> None)"
    using IH earlier by (cases "ps = []") (auto simp: push_step_def successively_snoc)
  then show ?case by (simp add: ps_def s_def)
qed simp

text \<open>
  A composite schedule has no superfluous step: its steps begin at increasing offsets inside
  the window, no two neighbours say the same, and the first one constrains something.
\<close>

theorem composite_minimal:
  assumes "c = composite epoch st e from duration u transaction"
  shows "successively (\<lambda>a b. step_start a < step_start b \<and> \<not> same_step a b) (steps c) \<and>
    (\<forall>s \<in> set (steps c). 0 \<le> step_start s \<and> step_start s < max 1 duration) \<and>
    (steps c \<noteq> [] \<longrightarrow> step_limit (hd (steps c)) \<noteq> None)"
proof -
  define bs where "bs = boundaries epoch (applicable st e transaction) (epoch from)
    (epoch from + max duration 0) (map_option (\<lambda>(_, t). epoch t) transaction)"
  have "x - epoch from \<ge> 0 \<and> x - epoch from < max 1 duration" if "x \<in> set bs" for x
    using that by (auto simp: bs_def set_boundaries)
  moreover have c: "steps c = push_all (epoch from)
      (\<lambda>t. limit_after epoch st e from u transaction (t - epoch from)) bs"
    unfolding assms composite_steps bs_def ..
  then have "step_start ` set (steps c) \<subseteq> (\<lambda>t. t - epoch from) ` set bs"
    by (simp only: push_all_starts)
  ultimately have "\<forall>s \<in> set (steps c). 0 \<le> step_start s \<and> step_start s < max 1 duration"
    by fastforce
  then show ?thesis
    using push_all_shape [of bs "epoch from"
        "\<lambda>t. limit_after epoch st e from u transaction (t - epoch from)"]
    unfolding c by (simp add: bs_def boundaries_sorted)
qed

section \<open>Filling the gaps\<close>

lemma same_step_val:
  "same_step a b \<longleftrightarrow>
     map_option val (step_limit a) = map_option val (step_limit b) \<and> step_phases a = step_phases b"
proof -
  have "rel_option decimal_eq x y \<longleftrightarrow> map_option val x = map_option val y" for x y
    by (cases x; cases y) (auto simp: decimal_eq_def compare_val)
  then show ?thesis by (simp add: same_step_def)
qed

lemma read_steps_Cons:
  assumes "sorted_wrt (<) (map step_start (s # ps))"
  shows "read_steps (s # ps) offset =
    (if offset < step_start s then step_at offset None
     else if \<exists>p \<in> set ps. step_start p \<le> offset then read_steps ps offset else s)"
  using assms
proof (induction ps rule: rev_induct)
  case Nil
  then show ?case by (simp add: read_steps_def)
next
  case (snoc p ps)
  then show ?case
    by (simp only: read_steps_snoc append_Cons [symmetric]) (auto simp: sorted_wrt_append)
qed

lemma set_dedup_from: "set (dedup_from same kept xs) \<subseteq> set (kept # xs)"
  by (induction same kept xs rule: dedup_from.induct) auto

lemma dedup_from_hd: "dedup_from same kept xs \<noteq> [] \<and> hd (dedup_from same kept xs) = kept"
  by (induction same kept xs rule: dedup_from.induct) auto

lemma dedup_from_successively:
  "successively (\<lambda>a b. \<not> same a b) (dedup_from same kept xs)"
proof (induction same kept xs rule: dedup_from.induct)
  case (2 same kept x xs)
  then show ?case
    using dedup_from_hd [of same x xs] by (cases "dedup_from same x xs") auto
qed simp

lemma dedup_from_sorted:
  "sorted_wrt (<) (map step_start (kept # xs)) \<Longrightarrow>
   sorted_wrt (<) (map step_start (dedup_from same kept xs))"
proof (induction same kept xs rule: dedup_from.induct)
  case (2 same kept x xs)
  then show ?case using set_dedup_from [of same x xs] by fastforce
qed simp

lemma dedup_from_reads:
  assumes "sorted_wrt (<) (map step_start (kept # xs))"
  shows "same_step (read_steps (dedup_from same_step kept xs) offset) (read_steps (kept # xs) offset)"
  using assms
proof (induction same_step kept xs rule: dedup_from.induct)
  case (1 kept)
  then show ?case by (simp add: same_step_refl)
next
  case (2 kept x xs)
  let ?later = "\<exists>p \<in> set xs. step_start p \<le> offset"
  show ?case
  proof (cases "same_step kept x")
    case True
    have "sorted_wrt (<) (map step_start (kept # xs))" using "2.prems" by simp
    from "2.hyps"(1) [OF True this]
    have "same_step (read_steps (dedup_from same_step kept xs) offset) (read_steps (kept # xs) offset)" .
    moreover have "same_step (read_steps (kept # xs) offset) (read_steps (kept # x # xs) offset)"
      using True read_steps_Cons [OF "2.prems", of offset]
        read_steps_Cons [of x xs offset] read_steps_Cons [of kept xs offset] "2.prems"
      by (auto simp: same_step_refl)
    ultimately show ?thesis using True by (simp add: same_step_val)
  next
    case False
    have sorted: "sorted_wrt (<) (map step_start (x # xs))" using "2.prems" by simp
    note IH = "2.hyps"(2) [OF False this]
    have "sorted_wrt (<) (map step_start (dedup_from same_step kept (x # xs)))"
      by (rule dedup_from_sorted [OF "2.prems"])
    then have kept: "sorted_wrt (<) (map step_start (kept # dedup_from same_step x xs))"
      using False by simp
    have started: "(\<exists>p \<in> set (dedup_from same_step x xs). step_start p \<le> offset) \<longleftrightarrow>
        (\<exists>p \<in> set (x # xs). step_start p \<le> offset)"
    proof
      assume "\<exists>p \<in> set (x # xs). step_start p \<le> offset"
      then have "step_start x \<le> offset" using sorted by auto
      moreover have "x \<in> set (dedup_from same_step x xs)"
        using dedup_from_hd [of same_step x xs] by (metis list.set_sel(1))
      ultimately show "\<exists>p \<in> set (dedup_from same_step x xs). step_start p \<le> offset" by blast
    qed (use set_dedup_from in fastforce)
    show ?thesis
      using False IH
      by (simp add: read_steps_Cons [OF kept] read_steps_Cons [OF "2.prems"] started same_step_refl)
  qed
qed

lemma read_steps_fill:
  "read_steps (map (fill_step rated) ps) offset =
     (if \<exists>s \<in> set ps. step_start s \<le> offset then fill_step rated (read_steps ps offset)
      else step_at offset None)"
proof (induction ps rule: rev_induct)
  case Nil
  then show ?case by (simp add: read_steps_def)
next
  case (snoc s ps)
  have "step_start (fill_step rated s) = step_start s" by (simp add: fill_step_def)
  with snoc show ?case by (simp add: read_steps_snoc)
qed

text \<open>
  Filling the gaps of a schedule leaves no step without a limit and no repeated step, and
  from its first step on says the rated maximum exactly where the schedule had no limit and what
  the schedule said elsewhere. Before the first step it still says nothing.
\<close>

theorem fill_gaps_reads:
  assumes "sorted_wrt (<) (map step_start (steps c))"
  shows "\<not> has_gaps (fill_gaps c rated) \<and>
    successively (\<lambda>a b. \<not> same_step a b) (steps (fill_gaps c rated)) \<and>
    same_step (read_steps (steps (fill_gaps c rated)) offset)
      (if \<exists>s \<in> set (steps c). step_start s \<le> offset
       then fill_step rated (read_steps (steps c) offset) else step_at offset None)"
proof (cases "steps c")
  case Nil
  then show ?thesis
    by (simp add: fill_gaps_def dedup_by_def has_gaps_def read_steps_def same_step_refl)
next
  case (Cons s ps)
  let ?filled = "map (fill_step rated) ps"
  have filled: "steps (fill_gaps c rated) = dedup_from same_step (fill_step rated s) ?filled"
    by (simp add: fill_gaps_def dedup_by_def Cons)
  have starts: "map step_start (map (fill_step rated) xs) = map step_start xs" for xs
    by (simp add: fill_step_def)
  have "same_step (read_steps (steps (fill_gaps c rated)) offset)
      (read_steps (map (fill_step rated) (steps c)) offset)"
    using dedup_from_reads [of "fill_step rated s" ?filled offset]
      assms [unfolded Cons, folded starts [of "s # ps"]] unfolding filled Cons by simp
  moreover have "\<not> has_gaps (fill_gaps c rated)"
    using set_dedup_from [of same_step "fill_step rated s" ?filled]
    by (fastforce simp: has_gaps_def filled list_ex_iff fill_step_def split: if_splits)
  ultimately show ?thesis
    using dedup_from_successively [of same_step "fill_step rated s" ?filled]
    by (simp add: filled read_steps_fill)
qed

lemma boundaries_head:
  "\<exists>bs. boundaries epoch ps start end ts = start # bs \<and> (\<forall>x \<in> set bs. start < x)"
proof -
  have sorted: "sorted_wrt (<) (boundaries epoch ps start end ts)" by (rule boundaries_sorted)
  have "start \<in> set (boundaries epoch ps start end ts)"
    and "\<forall>x \<in> set (boundaries epoch ps start end ts). start \<le> x"
    by (auto simp: set_boundaries)
  with sorted show ?thesis
    by (cases "boundaries epoch ps start end ts") force+
qed

lemma leading_gap_dropped:
  assumes "limit_after epoch st e from u transaction 0 = None"
  shows "\<forall>s \<in> set (steps (composite epoch st e from duration u transaction)). 0 < step_start s"
proof -
  let ?f = "\<lambda>t. limit_after epoch st e from u transaction (t - epoch from)"
  obtain bs where bs: "boundaries epoch (applicable st e transaction) (epoch from)
      (epoch from + max duration 0) (map_option (\<lambda>(_, t). epoch t) transaction) = epoch from # bs"
    "\<forall>x \<in> set bs. epoch from < x"
    using boundaries_head by blast
  have "steps (composite epoch st e from duration u transaction) = push_all (epoch from) ?f bs"
    using assms by (simp add: composite_steps bs(1) push_step_def step_at_def)
  then have "step_start ` set (steps (composite epoch st e from duration u transaction))
      \<subseteq> (\<lambda>t. t - epoch from) ` set bs"
    by (simp only: push_all_starts)
  then show ?thesis using bs(2) by fastforce
qed

lemma set_dedup_by: "set (dedup_by same xs) \<subseteq> set xs"
  using set_dedup_from by (fastforce simp: dedup_by_def split: list.splits)

text \<open>
  A window that opens unconstrained keeps that gap through \<open>fill_gaps\<close>: no step of the
  filled schedule begins at offset 0, so its opening stretch still says nothing, although
  \<open>has_gaps\<close> denies that anything is left unconstrained.
\<close>

theorem opening_gap_never_filled:
  assumes "limit_after epoch st e from u transaction 0 = None"
    and "c = fill_gaps (composite epoch st e from duration u transaction) rated"
  shows "\<not> has_gaps c \<and> read_steps (steps c) 0 = step_at 0 None \<and>
    (\<forall>s \<in> set (steps c). 0 < step_start s)"
proof -
  let ?c = "composite epoch st e from duration u transaction"
  have "\<forall>s \<in> set (steps c). 0 < step_start s"
    using leading_gap_dropped [OF assms(1)] set_dedup_by [of same_step "map (fill_step rated) (steps ?c)"]
    by (fastforce simp: assms(2) fill_gaps_def fill_step_def split: if_splits)
  moreover from this have "List.find (\<lambda>s. step_start s \<le> 0) (rev (steps c)) = None"
    by (auto simp: find_None_iff)
  moreover have "\<not> has_gaps c"
    using set_dedup_by [of same_step "map (fill_step rated) (steps ?c)"]
    by (fastforce simp: assms(2) has_gaps_def fill_gaps_def list_ex_iff fill_step_def split: if_splits)
  ultimately show ?thesis by (simp add: read_steps_def)
qed

section \<open>What the stacking rules mean\<close>

lemma max_by_key_snoc:
  "max_by_key key (xs @ [x]) =
     (case max_by_key key xs of None \<Rightarrow> Some x | Some b \<Rightarrow> if key b \<le> key x then Some x else Some b)"
  by (simp add: max_by_key_def)

lemma max_by_key_None: "max_by_key key xs = None \<longleftrightarrow> xs = []"
  by (induction xs rule: rev_induct) (auto simp: max_by_key_snoc max_by_key_def split: option.splits)

lemma max_by_key_Some:
  "max_by_key key xs = Some m \<Longrightarrow> \<exists>as bs. xs = as @ m # bs \<and>
     (\<forall>x \<in> set as. key x \<le> key m) \<and> (\<forall>x \<in> set bs. key x < key m)"
proof (induction xs arbitrary: m rule: rev_induct)
  case Nil
  then show ?case by (simp add: max_by_key_def)
next
  case (snoc x xs)
  show ?case
  proof (cases "max_by_key key xs")
    case None
    then have "xs = []" by (simp add: max_by_key_None)
    then have "m = x" using snoc.prems by (simp add: max_by_key_def)
    then show ?thesis using \<open>xs = []\<close> by (intro exI [of _ "[]"]) simp
  next
    case (Some b)
    then obtain as bs where b: "xs = as @ b # bs" "\<forall>x \<in> set as. key x \<le> key b" "\<forall>x \<in> set bs. key x < key b"
      using snoc.IH by blast
    show ?thesis
    proof (cases "key b \<le> key x")
      case True
      then have "m = x" using snoc.prems Some by (simp add: max_by_key_snoc)
      moreover have "\<forall>y \<in> set xs. key y \<le> key x" using b True by fastforce
      ultimately have "m = x" "\<forall>y \<in> set xs. key y \<le> key x" by simp_all
      then show ?thesis by (intro exI [of _ xs] exI [of _ "[]"]) simp
    next
      case False
      then have "m = b" using snoc.prems Some by (simp add: max_by_key_snoc)
      then show ?thesis using b False by (intro exI [of _ as] exI [of _ "bs @ [x]"]) auto
    qed
  qed
qed

lemma map_filter_split:
  assumes "List.map_filter f xs = as @ m # bs"
  shows "\<exists>us p vs. xs = us @ p # vs \<and> f p = Some m \<and>
     List.map_filter f us = as \<and> List.map_filter f vs = bs"
  using assms
proof (induction xs arbitrary: as)
  case Nil
  then show ?case by simp
next
  case (Cons x xs)
  show ?case
  proof (cases "f x")
    case None
    then have "List.map_filter f xs = as @ m # bs" using Cons.prems by simp
    with Cons.IH obtain us p vs where
      "xs = us @ p # vs" "f p = Some m" "List.map_filter f us = as" "List.map_filter f vs = bs" by blast
    then show ?thesis using None by (intro exI [of _ "x # us"] exI [of _ p] exI [of _ vs]) simp
  next
    case (Some y)
    show ?thesis
    proof (cases as)
      case Nil
      then show ?thesis
        using Cons.prems Some by (intro exI [of _ "[]"] exI [of _ x] exI [of _ xs]) simp
    next
      case (Cons a as')
      then have "List.map_filter f xs = as' @ m # bs" using Cons.prems Some by simp
      with Cons.IH obtain us p vs where
        "xs = us @ p # vs" "f p = Some m" "List.map_filter f us = as'" "List.map_filter f vs = bs" by blast
      then show ?thesis
        using Some Cons Cons.prems by (intro exI [of _ "x # us"] exI [of _ p] exI [of _ vs]) simp
    qed
  qed
qed

lemma map_filter_filter:
  "List.map_filter f (filter P xs) = List.map_filter (\<lambda>x. if P x then f x else None) xs"
  by (induction xs) (auto split: option.splits)

lemma in_map_filter: "f x = Some y \<Longrightarrow> x \<in> set xs \<Longrightarrow> y \<in> set (List.map_filter f xs)"
  by (force simp: List.map_filter_def)

text \<open>
  Within a purpose the leading limit at an instant is that of the profile with the highest
  stack level among those that say something then, the one installed last among equals, in
  the unit asked for; and a purpose leads to nothing when no profile of it says anything or the
  leading limit has no value in that unit.
\<close>

theorem leading_profile:
  "(leading epoch sply ps t u ts wanted = None \<and>
      (\<forall>p \<in> set ps. profile_purpose p = wanted \<longrightarrow> profile_limit_at epoch p t ts = None)) \<or>
   (\<exists>us p vs l unit n. ps = us @ p # vs \<and> profile_purpose p = wanted \<and>
      profile_limit_at epoch p t ts = Some (l, unit, n) \<and>
      leading epoch sply ps t u ts wanted = map_option (\<lambda>c. (c, n)) (convert sply l unit u n) \<and>
      (\<forall>q \<in> set us. profile_purpose q = wanted \<and> profile_limit_at epoch q t ts \<noteq> None
         \<longrightarrow> stack_level q \<le> stack_level p) \<and>
      (\<forall>q \<in> set vs. profile_purpose q = wanted \<and> profile_limit_at epoch q t ts \<noteq> None
         \<longrightarrow> stack_level q < stack_level p))"
proof -
  define f where "f p = (if profile_purpose p = wanted
      then map_option (\<lambda>l. (stack_level p, l)) (profile_limit_at epoch p t ts) else None)" for p
  have leading: "leading epoch sply ps t u ts wanted =
      (case max_by_key fst (List.map_filter f ps) of
         None \<Rightarrow> None
       | Some (_, l, unit, n) \<Rightarrow> map_option (\<lambda>c. (c, n)) (convert sply l unit u n))"
    unfolding leading_def map_filter_filter f_def by simp
  have some: "\<exists>l. f q = Some (stack_level q, l)"
    if "profile_purpose q = wanted" "profile_limit_at epoch q t ts \<noteq> None" for q
    using that by (auto simp: f_def)
  show ?thesis
  proof (cases "max_by_key fst (List.map_filter f ps)")
    case None
    then have "List.map_filter f ps = []" by (simp add: max_by_key_None)
    then have "\<forall>p \<in> set ps. f p = None"
      using in_map_filter [of f] by (metis empty_iff empty_set not_Some_eq)
    then have "profile_limit_at epoch p t ts = None" if "p \<in> set ps" "profile_purpose p = wanted" for p
      using some [OF that(2)] that(1) by fastforce
    then show ?thesis using None by (intro disjI1) (simp add: leading)
  next
    case (Some m)
    then obtain as bs where split: "List.map_filter f ps = as @ m # bs"
      and order: "\<forall>x \<in> set as. fst x \<le> fst m" "\<forall>x \<in> set bs. fst x < fst m"
      using max_by_key_Some [OF Some] by blast
    then obtain us p vs where ps: "ps = us @ p # vs" "f p = Some m"
      "List.map_filter f us = as" "List.map_filter f vs = bs"
      using map_filter_split [OF split] by blast
    then obtain l unit n where p: "profile_purpose p = wanted"
      "profile_limit_at epoch p t ts = Some (l, unit, n)" "m = (stack_level p, l, unit, n)"
      by (cases "profile_limit_at epoch p t ts") (auto simp: f_def split: if_splits)
    have "stack_level q \<le> stack_level p"
      if "q \<in> set us" "profile_purpose q = wanted" "profile_limit_at epoch q t ts \<noteq> None" for q
      using some [OF that(2,3)] in_map_filter [of f q _ us] that(1) ps(3) order(1) p(3) by fastforce
    moreover have "stack_level q < stack_level p"
      if "q \<in> set vs" "profile_purpose q = wanted" "profile_limit_at epoch q t ts \<noteq> None" for q
      using some [OF that(2,3)] in_map_filter [of f q _ vs] that(1) ps(4) order(2) p(3) by fastforce
    moreover have "leading epoch sply ps t u ts wanted = map_option (\<lambda>c. (c, n)) (convert sply l unit u n)"
      using Some p(3) by (simp add: leading)
    ultimately show ?thesis using ps(1) p(1,2) by blast
  qed
qed

text \<open>
  C19. Across purposes the limit at an instant is the smallest of the session limit, the
  station maximum and the external constraint, as far as each says something, with the local
  generation added on top when the sum can be represented. The session limit is that of
  priority charging, else of the transaction profile, else of the default.
\<close>

theorem lowest_limit_wins:
  assumes "lead = leading epoch sply ps t u ts"
    and "limits = set_option (or_else (lead PriorityCharging) (or_else (lead TxProfile) (lead TxDefaultProfile)))
           \<union> set_option (lead ChargingStationMaxProfile)
           \<union> set_option (lead ChargingStationExternalConstraints)"
  shows "case limit_at epoch sply ps t u ts of
      None \<Rightarrow> limits = {} \<and> lead LocalGeneration = None
    | Some (l, n) \<Rightarrow>
        if limits = {} then lead LocalGeneration = Some (l, n)
        else \<exists>c. (c, n) \<in> limits \<and> (\<forall>(k, _) \<in> limits. val c \<le> val k) \<and>
          l = (case lead LocalGeneration of
                 None \<Rightarrow> c
               | Some (g, _) \<Rightarrow> (case checked_add c g of None \<Rightarrow> c | Some added \<Rightarrow> added))"
proof -
  have lower: "lower_of e c = None \<longleftrightarrow> e = None \<and> c = None" for e c
    by (auto simp: lower_of_def split: option.splits)
  have least: "\<exists>m n. lower_of e c = Some (m, n) \<and> (m, n) \<in> set_option e \<union> set_option c \<and>
      (\<forall>(k, _) \<in> set_option e \<union> set_option c. val m \<le> val k)" if "e \<noteq> None \<or> c \<noteq> None" for e c
    using that by (auto simp: lower_of_def compare_val split: option.splits)
  define session where "session = or_else (lead PriorityCharging) (or_else (lead TxProfile) (lead TxDefaultProfile))"
  define top where "top = lead ChargingStationMaxProfile"
  define ext where "ext = lead ChargingStationExternalConstraints"
  define e where "e = lower_of (lower_of session top) ext"
  have limits: "limits = set_option session \<union> set_option top \<union> set_option ext"
    by (simp add: assms(2) session_def top_def ext_def)
  have result: "limit_at epoch sply ps t u ts = with_generation e (lead LocalGeneration)"
    by (simp add: limit_at_def Let_def assms(1) e_def session_def top_def ext_def)
  show ?thesis
  proof (cases "limits = {}")
    case True
    then have "e = None" by (auto simp: limits e_def lower)
    then show ?thesis using True by (auto simp: result with_generation_def split: option.splits)
  next
    case False
    have "\<exists>m n. e = Some (m, n) \<and> (m, n) \<in> limits \<and> (\<forall>(k, _) \<in> limits. val m \<le> val k)"
    proof (cases "session = None \<and> top = None")
      case True
      then show ?thesis using False by (auto simp: limits e_def lower_of_def split: option.splits)
    next
      case some: False
      then have "session \<noteq> None \<or> top \<noteq> None" by simp
      from least [OF this] obtain m n where
        m: "lower_of session top = Some (m, n)" "(m, n) \<in> set_option session \<union> set_option top"
           "\<forall>(k, _) \<in> set_option session \<union> set_option top. val m \<le> val k" by blast
      with least [of "Some (m, n)" ext] show ?thesis
        unfolding limits e_def by (fastforce intro: order_trans)
    qed
    then obtain m n where m: "e = Some (m, n)" "(m, n) \<in> limits" "\<forall>(k, _) \<in> limits. val m \<le> val k"
      by blast
    then show ?thesis
      using False by (auto simp: result with_generation_def intro!: exI [of _ m] split: option.splits)
  qed
qed

section \<open>Installing and clearing\<close>

text \<open>
  Profile ids stay distinct, the profile just installed is the last, and every other id keeps
  what it had.
\<close>

lemma install_replaces:
  assumes "distinct (map profile_id (profiles st))"
  shows "distinct (map profile_id (profiles (install st p))) \<and> last (profiles (install st p)) = p \<and>
    (\<forall>q. profile_id q \<noteq> profile_id p \<longrightarrow> (q \<in> set (profiles (install st p)) \<longleftrightarrow> q \<in> set (profiles st)))"
  using assms by (auto simp: install_def distinct_map inj_on_def)

text \<open>Clearing removes exactly the profiles that match and says how many they were.\<close>

lemma clear_removes:
  "case clear st i e u level of (n, st') \<Rightarrow>
     profiles st' = filter (\<lambda>p. \<not> clear_matches i e u level p) (profiles st) \<and>
     n = length (filter (clear_matches i e u level) (profiles st))"
  using sum_length_filter_compl [of "clear_matches i e u level" "profiles st"]
  by (simp add: clear_def Let_def)

lemma clear_everything: "profiles (snd (clear st None None None None)) = []"
  by (simp add: clear_def Let_def clear_matches_def criterion_def)

section \<open>Widths\<close>

text \<open>
  Instants and offsets of up to \<open>2 ^ 60\<close> seconds, some thirty billion years, keep every instant
  the walk and the boundaries form inside \<open>i64\<close>.
\<close>

lemma walk_range:
  "x \<in> set (walk room t every end) \<Longrightarrow> 0 \<le> every \<Longrightarrow> t \<le> x \<and> x < end"
  by (induction room arbitrary: t) (fastforce split: if_splits)+

lemma anchors_range:
  assumes "x \<in> set (anchors epoch p s start end ts)"
    and "\<And>d. \<bar>epoch d\<bar> \<le> 2 ^ 60" and "\<bar>start\<bar> \<le> 2 ^ 60" and "\<bar>end\<bar> \<le> 2 ^ 61"
    and "\<And>t. ts = Some t \<Longrightarrow> \<bar>t\<bar> \<le> 2 ^ 60"
  shows "\<bar>x\<bar> \<le> 2 ^ 61"
proof (cases "kind p")
  case Recurring
  then obtain d r where d: "schedule_start s = Some d" "recurrency p = Some r"
    using assms(1)
    by (cases "schedule_start s"; cases "recurrency p") (auto simp: anchors_def)
  define every where "every = recurrency_seconds r"
  have every: "86400 \<le> every" "every \<le> 604800"
    using recurrency_seconds_bounds [of r] by (simp_all add: every_def)
  have x: "epoch d + (start - epoch d) div every * every \<le> x \<and> x < end"
    using assms(1) Recurring d every
    by (intro walk_range [of x 4096 _ every]) (simp_all add: anchors_def Let_def every_def)
  have "start - epoch d - every < (start - epoch d) div every * every"
    using every by (smt (verit) mult_div_mod_eq mult.commute pos_mod_bound)
  then have "start - every < x" using x by linarith
  then show ?thesis using x assms(3,4) every by (simp add: abs_le_iff)
next
  case Absolute
  then show ?thesis
    using assms(1) assms(2) [of "the (schedule_start s)"]
    by (cases "schedule_start s") (auto simp: anchors_def abs_le_iff)
next
  case Relative
  then show ?thesis
    using assms(1,5) by (cases ts) (force simp: anchors_def abs_le_iff)+
qed

lemma composite_in_range:
  assumes "x \<in> set (profile_points epoch p start end ts)"
    and "\<And>d. \<bar>epoch d\<bar> \<le> 2 ^ 60" and "\<bar>start\<bar> \<le> 2 ^ 60" and "\<bar>end\<bar> \<le> 2 ^ 61"
    and "\<And>t. ts = Some t \<Longrightarrow> \<bar>t\<bar> \<le> 2 ^ 60"
    and "\<And>s q. first_schedule p = Some s \<Longrightarrow> q \<in> set (periods s) \<Longrightarrow> \<bar>start_period q\<bar> \<le> 2 ^ 60"
    and "\<And>s d. first_schedule p = Some s \<Longrightarrow> schedule_duration s = Some d \<Longrightarrow> \<bar>d\<bar> \<le> 2 ^ 60"
  shows "in_i64 x"
proof -
  have "\<bar>x\<bar> \<le> 2 ^ 61 + 2 ^ 60"
  proof -
    consider d where "x = epoch d"
      | s a q where "first_schedule p = Some s" "a \<in> set (anchors epoch p s start end ts)"
          "q \<in> set (periods s)" "x = a + start_period q"
      | s a d where "first_schedule p = Some s" "a \<in> set (anchors epoch p s start end ts)"
          "schedule_duration s = Some d" "x = a + d"
    proof (cases "first_schedule p")
      case None
      then show ?thesis
        using assms(1) that(1)
        by (cases "valid_from p"; cases "valid_to p") (auto simp: profile_points_def)
    next
      case (Some s)
      then show ?thesis
        using assms(1) that
        by (cases "valid_from p"; cases "valid_to p"; cases "schedule_duration s")
           (auto simp: profile_points_def anchor_points_def)
    qed
    then show ?thesis
    proof cases
      case 1
      then show ?thesis using assms(2) [of d] by simp
    next
      case 2
      then show ?thesis using anchors_range [OF 2(2) assms(2-5)] assms(6) [OF 2(1,3)] by simp
    next
      case 3
      then show ?thesis using anchors_range [OF 3(2) assms(2-5)] assms(7) [OF 3(1,3)] by simp
    qed
  qed
  then show ?thesis by (simp add: in_i64_def i64_min_def i64_max_def abs_le_iff)
qed

section \<open>Examples\<close>

text \<open>A default of 16 A that drops to 10 A after an hour, under a station maximum of 12 A.\<close>

definition sample_store :: "int profile_store" where
  "sample_store =
     install (install profile_store_new
       (profile_new 1 0 TxDefaultProfile Absolute
         (starting (schedule_new 1 A [period_new 3600 (from_i64 10), period_new 0 (from_i64 16)]) 0)))
       (recurring (profile_new 2 0 ChargingStationMaxProfile Absolute
         (starting (lasting (schedule_new 2 A [period_new 0 (from_i64 12)]) 7200) 0)) Daily)"

theorem composite_pointwise_witness:
  "map (\<lambda>s. (step_start s, step_limit s)) (steps (composite (\<lambda>t. t) sample_store 1 0 100000 A None)) =
     [(0, Some (from_i64 12)), (3600, Some (from_i64 10))] \<and>
   same_step (read_steps (steps (composite (\<lambda>t. t) sample_store 1 0 100000 A None)) 90000)
     (step_at 90000 (limit_after (\<lambda>t. t) sample_store 1 0 A None 90000))"
proof
  show "map (\<lambda>s. (step_start s, step_limit s)) (steps (composite (\<lambda>t. t) sample_store 1 0 100000 A None)) =
      [(0, Some (from_i64 12)), (3600, Some (from_i64 10))]"
    by code_simp
  have "\<forall>p \<in> set (applicable sample_store 1 None). anchored p" by code_simp
  then show "same_step (read_steps (steps (composite (\<lambda>t. t) sample_store 1 0 100000 A None)) 90000)
      (step_at 90000 (limit_after (\<lambda>t. t) sample_store 1 0 A None 90000))"
    by (rule composite_pointwise) (simp_all add: longest_window_def)
qed

theorem composite_minimal_witness:
  "successively (\<lambda>a b. step_start a < step_start b \<and> \<not> same_step a b)
     (steps (composite (\<lambda>t. t) sample_store 1 0 100000 A None))"
  using composite_minimal [OF refl, of "\<lambda>t. t" sample_store 1 0 100000 A None] by blast

text \<open>A profile that only begins an hour in: the first hour is never filled.\<close>

definition late_store :: "int profile_store" where
  "late_store =
     install profile_store_new
       (profile_new 1 0 TxDefaultProfile Absolute
         (starting (schedule_new 1 A [period_new 0 (from_i64 10)]) 3600))"

theorem opening_gap_never_filled_witness:
  "steps (fill_gaps (composite (\<lambda>t. t) late_store 1 0 7200 A None) (from_i64 32)) =
     [step_at 3600 (Some (from_i64 10, None))] \<and>
   \<not> has_gaps (fill_gaps (composite (\<lambda>t. t) late_store 1 0 7200 A None) (from_i64 32))"
proof
  have "limit_after (\<lambda>t. t) late_store 1 0 A None 0 = None" by code_simp
  from opening_gap_never_filled [OF this refl, of 7200 "from_i64 32"]
  show "\<not> has_gaps (fill_gaps (composite (\<lambda>t. t) late_store 1 0 7200 A None) (from_i64 32))" by blast
qed code_simp

text \<open>
  A repetition whose schedule has nothing at offset 0 is not a boundary, so this composite
  carries the limit through the hour after each midnight in which the profile says nothing.
\<close>

lemma repetition_missed:
  assumes "st = install profile_store_new
      (recurring (profile_new 1 0 TxDefaultProfile Absolute
        (starting (schedule_new 1 A [period_new 3600 (from_i64 10)]) 0)) Daily)"
  shows "steps (composite (\<lambda>t. t) st 1 43200 86400 A None) = [step_at 0 (Some (from_i64 10, None))] \<and>
    limit_after (\<lambda>t. t) st 1 43200 A None 43200 = None"
  unfolding assms by (intro conjI; code_simp)

theorem leading_profile_witness:
  "\<exists>p \<in> set (profiles sample_store). profile_purpose p = TxDefaultProfile \<and>
     leading (\<lambda>t. t) supply_default (profiles sample_store) 7000 W None TxDefaultProfile =
       map_option (\<lambda>c. (c, None)) (convert supply_default (from_i64 10) A W None)"
proof -
  have some: "leading (\<lambda>t. t) supply_default (profiles sample_store) 7000 W None TxDefaultProfile \<noteq> None"
    by code_simp
  have one: "\<forall>p \<in> set (profiles sample_store). profile_purpose p = TxDefaultProfile \<longrightarrow>
      profile_limit_at (\<lambda>t. t) p 7000 None = Some (from_i64 10, A, None)"
    by code_simp
  show ?thesis
    using leading_profile [of "\<lambda>t. t" supply_default "profiles sample_store" 7000 W None TxDefaultProfile]
  proof
    assume "\<exists>us p vs l unit n. profiles sample_store = us @ p # vs \<and> profile_purpose p = TxDefaultProfile \<and>
      profile_limit_at (\<lambda>t. t) p 7000 None = Some (l, unit, n) \<and>
      leading (\<lambda>t. t) supply_default (profiles sample_store) 7000 W None TxDefaultProfile =
        map_option (\<lambda>c. (c, n)) (convert supply_default l unit W n) \<and>
      (\<forall>q \<in> set us. profile_purpose q = TxDefaultProfile \<and> profile_limit_at (\<lambda>t. t) q 7000 None \<noteq> None
         \<longrightarrow> stack_level q \<le> stack_level p) \<and>
      (\<forall>q \<in> set vs. profile_purpose q = TxDefaultProfile \<and> profile_limit_at (\<lambda>t. t) q 7000 None \<noteq> None
         \<longrightarrow> stack_level q < stack_level p)"
    then show ?thesis using one by fastforce
  qed (use some in blast)
qed

theorem lowest_limit_wins_witness:
  "\<exists>c. limit_at (\<lambda>t. t) supply_default (profiles sample_store) 0 A None = Some (c, None) \<and>
     val c \<le> val (from_i64 12)"
proof -
  let ?lead = "leading (\<lambda>t. t) supply_default (profiles sample_store) 0 A None"
  have limit: "limit_at (\<lambda>t. t) supply_default (profiles sample_store) 0 A None = Some (from_i64 12, None)"
    by code_simp
  have top: "?lead ChargingStationMaxProfile = Some (from_i64 12, None)" by code_simp
  have "?lead LocalGeneration = None" by code_simp
  then show ?thesis
    using lowest_limit_wins [OF refl refl, of "\<lambda>t. t" supply_default "profiles sample_store" 0 A None]
    by (auto simp: limit top)
qed

end
