(* ===== verification/File_Store.thy ===== *)
theory File_Store
  imports Message_Store Btree
begin

text \<open>
  \<open>engine/store_file.rs\<close>: the message store that survives a power cut, an append-only journal
  with one line of JSON per change.

  The journal is the text of the file. Encoding and decoding a line is \<open>serde_json\<close>'s, a
  parameter (\<open>codec\<close>) with what the store relies on as \<open>codec_ok\<close>. What the file system does
  is a parameter too: each write or rewrite consumes one \<open>io_event\<close> from a list kept in the
  store, which says whether it succeeds and, when it does not, how far it got; past the end of
  the list everything succeeds.

  The lemmas show that \<open>FileStore\<close> keeps the contract of \<open>message_store\<close> whatever the file
  system does, that on a file system that works a reopened journal holds exactly the live
  messages, that a crash in the middle of an append loses nothing that was reported as queued,
  and what a failed append does to the journal for good.
\<close>

section \<open>Journal records\<close>

record stored_call =
  sc_action :: string
  sc_payload :: string
  sc_send :: bool
  sc_attempts :: nat
  sc_transactional :: bool

definition from_call :: "queued_call \<Rightarrow> stored_call" where
  "from_call e =
     \<lparr>sc_action = qc_action e, sc_payload = qc_payload e, sc_send = (qc_kind e = Send),
      sc_attempts = qc_attempts e, sc_transactional = qc_transactional e\<rparr>"

datatype journal_record =
    RPush seq stored_call
  | RAck seq
  | RAttempts seq nat

record codec =
  encode :: "journal_record \<Rightarrow> string option"
  decode :: "string \<Rightarrow> journal_record option"
  raw_ok :: "string \<Rightarrow> bool"

definition into_call :: "codec \<Rightarrow> stored_call \<Rightarrow> store_error + queued_call" where
  "into_call c e =
     (if \<not> raw_ok c (sc_payload e) then Inl (StoreError ''stored payload is not JSON'')
      else Inr \<lparr>qc_action = sc_action e, qc_payload = sc_payload e,
                qc_kind = (if sc_send e then Send else Call), qc_attempts = sc_attempts e,
                qc_transactional = sc_transactional e\<rparr>)"

section \<open>The store\<close>

definition COMPACT_RATIO :: nat where
  "COMPACT_RATIO = 4"

definition COMPACT_FLOOR :: nat where
  "COMPACT_FLOOR = 64"

text \<open>
  What the file system does with one request: for an append, the write may stop after some
  bytes, or the flush may fail after a complete write; for a rewrite, it may fail before the
  new file replaces the old one, or after, when the journal cannot be reopened.
\<close>

datatype io_event = IoOk | WriteFails nat | SyncFails | RewriteFails | ReopenFails

record file_store =
  fs_codec :: codec
  fs_file :: string
  fs_attached :: bool
  fs_live :: "(seq \<times> queued_call) list"
  fs_next_seq :: seq
  fs_written :: nat
  fs_io :: "io_event list"

definition next_io :: "file_store \<Rightarrow> io_event \<times> file_store" where
  "next_io s = (case fs_io s of [] \<Rightarrow> (IoOk, s) | x # xs \<Rightarrow> (x, s\<lparr>fs_io := xs\<rparr>))"

text \<open>Bytes that reach the journal reach the file at \<open>path\<close> while the handle refers to it.\<close>

definition put :: "string \<Rightarrow> file_store \<Rightarrow> file_store" where
  "put t s = (if fs_attached s then s\<lparr>fs_file := fs_file s @ t\<rparr> else s)"

definition newline :: char where
  "newline = CHR 0x0A"

definition append_record :: "journal_record \<Rightarrow> file_store \<Rightarrow> (store_error + unit) \<times> file_store" where
  "append_record r s =
     (case encode (fs_codec s) r of
        None \<Rightarrow> (Inl (StoreError ''could not encode a journal record''), s)
      | Some text \<Rightarrow>
          let line = text @ [newline]; (io, s1) = next_io s in
          (case io of
             WriteFails n \<Rightarrow> (Inl (StoreError ''write''), put (take n line) s1)
           | SyncFails \<Rightarrow> (Inl (StoreError ''sync''), put line s1)
           | _ \<Rightarrow> (Inr (), (put line s1)\<lparr>fs_written := fs_written s1 + 1\<rparr>)))"

fun encode_all :: "codec \<Rightarrow> (seq \<times> queued_call) list \<Rightarrow> string option" where
  "encode_all c [] = Some []"
| "encode_all c ((q, e) # xs) =
     (case encode c (RPush q (from_call e)) of
        None \<Rightarrow> None
      | Some text \<Rightarrow> map_option (\<lambda>rest. text @ [newline] @ rest) (encode_all c xs))"

definition rewrite :: "file_store \<Rightarrow> (store_error + unit) \<times> file_store" where
  "rewrite s =
     (case encode_all (fs_codec s) (fs_live s) of
        None \<Rightarrow> (Inl (StoreError ''could not encode a journal record''), s)
      | Some text \<Rightarrow>
          let (io, s1) = next_io s in
          (case io of
             IoOk \<Rightarrow> (Inr (), s1\<lparr>fs_file := text, fs_attached := True, fs_written := length (fs_live s1)\<rparr>)
           | ReopenFails \<Rightarrow> (Inl (StoreError ''open''), s1\<lparr>fs_file := text, fs_attached := False\<rparr>)
           | _ \<Rightarrow> (Inl (StoreError ''rewrite''), s1)))"

definition compact_if_worthwhile :: "file_store \<Rightarrow> (store_error + unit) \<times> file_store" where
  "compact_if_worthwhile s =
     (if fs_written s \<ge> COMPACT_FLOOR \<and> fs_written s \<ge> length (fs_live s) * COMPACT_RATIO
      then rewrite s else (Inr (), s))"

definition file_push :: "file_store \<Rightarrow> queued_call \<Rightarrow> (store_error + seq) \<times> file_store" where
  "file_push s entry =
     (let q = fs_next_seq s in
      case append_record (RPush q (from_call entry)) s of
        (Inl e, s1) \<Rightarrow> (Inl e, s1)
      | (Inr _, s1) \<Rightarrow>
          (Inr q, s1\<lparr>fs_next_seq := fs_next_seq s1 + 1, fs_live := bt_insert q entry (fs_live s1)\<rparr>))"

definition file_pending :: "file_store \<Rightarrow> store_error + (seq \<times> queued_call) list" where
  "file_pending s = Inr (fs_live s)"

definition file_ack :: "file_store \<Rightarrow> seq \<Rightarrow> (store_error + unit) \<times> file_store" where
  "file_ack s q =
     (if q \<notin> fst ` set (fs_live s) then (Inr (), s)
      else
        (case append_record (RAck q) (s\<lparr>fs_live := without q (fs_live s)\<rparr>) of
           (Inl e, s1) \<Rightarrow> (Inl e, s1)
         | (Inr _, s1) \<Rightarrow> compact_if_worthwhile s1))"

definition file_set_attempts :: "file_store \<Rightarrow> seq \<Rightarrow> nat \<Rightarrow> (store_error + unit) \<times> file_store" where
  "file_set_attempts s q n =
     (if q \<notin> fst ` set (fs_live s) then (Inr (), s)
      else
        (case append_record (RAttempts q n) (s\<lparr>fs_live := with_attempts q n (fs_live s)\<rparr>) of
           (Inl e, s1) \<Rightarrow> (Inl e, s1)
         | (Inr _, s1) \<Rightarrow> compact_if_worthwhile s1))"

definition file_len :: "file_store \<Rightarrow> store_error + nat" where
  "file_len s = Inr (length (fs_live s))"

definition file_ops :: "file_store store_ops" where
  "file_ops = \<lparr>so_push = file_push, so_pending = file_pending, so_ack = file_ack,
     so_set_attempts = file_set_attempts, so_len = file_len\<rparr>"

section \<open>Opening a journal\<close>

text \<open>
  \<open>BufRead::lines\<close>: split at newlines, with a carriage return before one removed, and the
  rest of the file after the last one as a line of its own if there is any.
\<close>

definition strip_cr :: "string \<Rightarrow> string" where
  "strip_cr l = (if l \<noteq> [] \<and> last l = CHR 0x0D then butlast l else l)"

fun lines_from :: "string \<Rightarrow> string \<Rightarrow> string list" where
  "lines_from acc [] = (if acc = [] then [] else [acc])"
| "lines_from acc (c # cs) =
     (if c = newline then strip_cr acc # lines_from [] cs else lines_from (acc @ [c]) cs)"

definition lines :: "string \<Rightarrow> string list" where
  "lines t = lines_from [] t"

text \<open>
  The loop of \<open>replay\<close>: reading on, stopped at a line that does not parse, or refused. The
  reading state is the live messages, the next sequence number and every number pushed.
\<close>

datatype replay_state =
    Reading "(seq \<times> queued_call) list" seq "seq set"
  | Stopped "(seq \<times> queued_call) list" seq
  | Refused store_error

fun replay_line :: "codec \<Rightarrow> replay_state \<Rightarrow> string \<Rightarrow> replay_state" where
  "replay_line c (Reading live n pushed) t =
     (if trim t = [] then Reading live n pushed
      else
        (case decode c t of
           None \<Rightarrow> Stopped live n
         | Some (RPush q e) \<Rightarrow>
             if q \<in> pushed then Refused (StoreError ''sequence number was queued twice'')
             else (case into_call c e of
                     Inl err \<Rightarrow> Refused err
                   | Inr call \<Rightarrow> Reading (bt_insert q call live) (max n (q + 1)) (insert q pushed))
         | Some (RAck q) \<Rightarrow> Reading (without q live) (max n (q + 1)) pushed
         | Some (RAttempts q k) \<Rightarrow> Reading (with_attempts q k live) (max n (q + 1)) pushed))"
| "replay_line c st t = st"

definition replay_text :: "codec \<Rightarrow> string \<Rightarrow> replay_state" where
  "replay_text c text = foldl (replay_line c) (Reading [] 0 {}) (lines text)"

definition replay ::
  "codec \<Rightarrow> string option \<Rightarrow> store_error + (seq \<times> queued_call) list \<times> seq" where
  "replay c file =
     (case file of
        None \<Rightarrow> Inr ([], 0)
      | Some text \<Rightarrow>
          (case replay_text c text of
             Reading live n pushed \<Rightarrow> Inr (live, n)
           | Stopped live n \<Rightarrow> Inr (live, n)
           | Refused err \<Rightarrow> Inl err))"

definition file_open :: "codec \<Rightarrow> string option \<Rightarrow> io_event list \<Rightarrow> store_error + file_store" where
  "file_open c file io =
     (case replay c file of
        Inl err \<Rightarrow> Inl err
      | Inr (live, n) \<Rightarrow>
          (case rewrite \<lparr>fs_codec = c, fs_file = (case file of None \<Rightarrow> [] | Some t \<Rightarrow> t),
                  fs_attached = True, fs_live = live, fs_next_seq = n, fs_written = 0,
                  fs_io = io\<rparr> of
             (Inl err, s) \<Rightarrow> Inl err
           | (Inr _, s) \<Rightarrow> Inr s))"

section \<open>The contract, whatever the file system does\<close>

definition file_ok :: "file_store \<Rightarrow> bool" where
  "file_ok s \<longleftrightarrow> sorted_wrt (<) (map fst (fs_live s)) \<and> (\<forall>k \<in> fst ` set (fs_live s). k < fs_next_seq s)"

lemma bt_insert_last:
  "(\<And>k'. k' \<in> fst ` set xs \<Longrightarrow> k' < k) \<Longrightarrow> bt_insert k v xs = xs @ [(k, v)]"
  by (induction k v xs rule: bt_insert.induct) force+

lemma frame_put [frame_simps]:
  "fs_codec (put t s) = fs_codec s" "fs_live (put t s) = fs_live s"
  "fs_next_seq (put t s) = fs_next_seq s" "fs_written (put t s) = fs_written s"
  "fs_attached (put t s) = fs_attached s" "fs_io (put t s) = fs_io s"
  by (simp_all add: put_def)

lemma frame_next_io [frame_simps]:
  "fs_codec (snd (next_io s)) = fs_codec s" "fs_live (snd (next_io s)) = fs_live s"
  "fs_next_seq (snd (next_io s)) = fs_next_seq s" "fs_file (snd (next_io s)) = fs_file s"
  "fs_attached (snd (next_io s)) = fs_attached s" "fs_written (snd (next_io s)) = fs_written s"
  by (simp_all add: next_io_def split: list.split)

lemma frame_append_record [frame_simps]:
  "fs_live (snd (append_record r s)) = fs_live s"
  "fs_next_seq (snd (append_record r s)) = fs_next_seq s"
  "fs_codec (snd (append_record r s)) = fs_codec s"
  "fs_attached (snd (append_record r s)) = fs_attached s"
  using frame_next_io [of s]
  by (cases "next_io s", simp add: append_record_def Let_def frame_simps
      split: option.split io_event.split)+

lemma frame_rewrite [frame_simps]:
  "fs_live (snd (rewrite s)) = fs_live s" "fs_next_seq (snd (rewrite s)) = fs_next_seq s"
  "fs_codec (snd (rewrite s)) = fs_codec s"
  using frame_next_io [of s]
  by (cases "next_io s", simp add: rewrite_def Let_def split: option.split io_event.split)+

lemma frame_compact [frame_simps]:
  "fs_live (snd (compact_if_worthwhile s)) = fs_live s"
  "fs_next_seq (snd (compact_if_worthwhile s)) = fs_next_seq s"
  "fs_codec (snd (compact_if_worthwhile s)) = fs_codec s"
  by (simp_all add: compact_if_worthwhile_def frame_simps)

lemma live_append:
  "append_record r s = (x, s') \<Longrightarrow> fs_live s' = fs_live s \<and> fs_next_seq s' = fs_next_seq s"
  using frame_append_record [of r s] by simp

lemma live_compact:
  "compact_if_worthwhile s = (x, s') \<Longrightarrow> fs_live s' = fs_live s \<and> fs_next_seq s' = fs_next_seq s"
  using frame_compact [of s] by simp

lemma without_absent: "q \<notin> fst ` set xs \<Longrightarrow> without q xs = xs"
  unfolding without_def by (rule filter_True) force

lemma live_file_ack:
  assumes "file_ack s q = (r, s')"
  shows "fs_live s' = without q (fs_live s)" and "fs_next_seq s' = fs_next_seq s"
  using assms
  by (auto simp: file_ack_def without_absent split: if_splits prod.splits sum.splits
      dest!: live_append live_compact)

lemma live_file_set_attempts:
  assumes "file_set_attempts s q n = (r, s')"
  shows "fs_live s' = with_attempts q n (fs_live s)" and "fs_next_seq s' = fs_next_seq s"
  using assms
  by (auto simp: file_set_attempts_def with_attempts_absent split: if_splits prod.splits sum.splits
      dest!: live_append live_compact)

lemma insert_next:
  "file_ok s \<Longrightarrow> bt_insert (fs_next_seq s) c (fs_live s) = fs_live s @ [(fs_next_seq s, c)]"
  unfolding file_ok_def by (intro bt_insert_last) blast

lemma live_file_push:
  assumes "file_ok s" and "file_push s c = (r, s')"
  shows "case r of Inl e \<Rightarrow> fs_live s' = fs_live s \<and> fs_next_seq s' = fs_next_seq s
    | Inr q \<Rightarrow> q = fs_next_seq s \<and> fs_live s' = fs_live s @ [(q, c)] \<and> fs_next_seq s' = Suc (fs_next_seq s)"
proof -
  show ?thesis
    using assms(2) insert_next [OF assms(1)] by (auto simp: file_push_def Let_def split: prod.splits sum.splits dest!: live_append)
qed

interpretation journal: message_store file_ops fs_live file_ok
proof
  fix s :: file_store and c q s' assume "file_ok s" "so_push file_ops s c = (Inr q, s')"
  with live_file_push [of s c "Inr q" s'] show "file_ok s' \<and> fs_live s' = fs_live s @ [(q, c)]"
    by (fastforce simp: file_ops_def file_ok_def sorted_wrt_append)
next
  fix s :: file_store and c e s' assume "file_ok s" "so_push file_ops s c = (Inl e, s')"
  with live_file_push [of s c "Inl e" s'] show "file_ok s' \<and> fs_live s' = fs_live s"
    by (simp add: file_ops_def file_ok_def)
next
  fix s :: file_store and q r s' assume "file_ok s" "so_ack file_ops s q = (r, s')"
  then show "file_ok s' \<and> fs_live s' = without q (fs_live s)"
    using live_file_ack [of s q r s']
    by (fastforce simp: file_ops_def file_ok_def without_def sorted_wrt_map_filter)
next
  fix s :: file_store and q n r s' assume ok: "file_ok s" "so_set_attempts file_ops s q n = (r, s')"
  have "fst ` set (with_attempts q n (fs_live s)) = fst ` set (fs_live s)"
    by (metis map_fst_with_attempts set_map)
  with ok live_file_set_attempts [of s q n r s']
  show "file_ok s' \<and> fs_live s' = with_attempts q n (fs_live s)"
    by (simp add: file_ops_def file_ok_def)
qed (auto simp: file_ops_def file_pending_def file_len_def file_ok_def)

section \<open>What is on the device\<close>

text \<open>
  What the journal relies on of the JSON library: a record is written on one non-blank line
  that reads back as the same record, and no proper part of the line reads as one.
\<close>

definition codec_ok :: "codec \<Rightarrow> bool" where
  "codec_ok c \<longleftrightarrow>
     (\<forall>r t. encode c r = Some t \<longrightarrow>
        newline \<notin> set t \<and> trim t \<noteq> [] \<and> strip_cr t = t \<and> decode c t = Some r)"

definition prefixes_fail :: "codec \<Rightarrow> bool" where
  "prefixes_fail c \<longleftrightarrow> (\<forall>r t n. encode c r = Some t \<longrightarrow> n < length t \<longrightarrow> trim (take n t) \<noteq> [] \<longrightarrow>
     decode c (take n t) = None)"

definition complete :: "string \<Rightarrow> bool" where
  "complete t \<longleftrightarrow> t = [] \<or> last t = newline"

lemma lines_from_plain: "newline \<notin> set t \<Longrightarrow> lines_from acc (t @ u) = lines_from (acc @ t) u"
  by (induction t arbitrary: acc) auto

lemma lines_from_split:
  "lines_from acc (t @ newline # u) = lines_from acc (t @ [newline]) @ lines_from [] u"
  by (induction t arbitrary: acc) auto

lemma lines_complete: "complete t \<Longrightarrow> lines (t @ u) = lines t @ lines u"
proof (cases t rule: rev_cases)
  case (snoc xs x)
  assume "complete t"
  then have "x = newline" using snoc by (simp add: complete_def)
  then show ?thesis using snoc lines_from_split [of "[]" xs u] by (simp add: lines_def)
qed (simp add: lines_def)

lemma lines_line: "newline \<notin> set t \<Longrightarrow> lines (t @ [newline]) = [strip_cr t]"
  using lines_from_plain [of t "[]" "[newline]"] by (simp add: lines_def)

lemma lines_rest: "newline \<notin> set t \<Longrightarrow> lines t = (if t = [] then [] else [t])"
  using lines_from_plain [of t "[]" "[]"] by (simp add: lines_def)

lemma replay_append:
  assumes "codec_ok c" and "complete t" and "encode c r = Some u"
  shows "replay_text c (t @ u @ [newline]) = replay_line c (replay_text c t) u" and
    "complete (t @ u @ [newline])"
proof -
  have "newline \<notin> set u" "strip_cr u = u" using assms(1,3) by (simp_all add: codec_ok_def)
  then show "replay_text c (t @ u @ [newline]) = replay_line c (replay_text c t) u"
    using lines_complete [OF assms(2)] lines_line [of u] by (simp add: replay_text_def)
qed (simp add: complete_def)

text \<open>
  The journal is up to date: replaying it gives the live messages, and every number it
  mentions is behind the counter.
\<close>

definition up_to_date :: "file_store \<Rightarrow> bool" where
  "up_to_date s \<longleftrightarrow>
     file_ok s \<and> codec_ok (fs_codec s) \<and> fs_attached s \<and> complete (fs_file s) \<and>
     (\<forall>x \<in> set (fs_live s). raw_ok (fs_codec s) (qc_payload (snd x))) \<and>
     (\<exists>n pushed. replay_text (fs_codec s) (fs_file s) = Reading (fs_live s) n pushed \<and>
        n \<le> fs_next_seq s \<and> (\<forall>q \<in> pushed. q < fs_next_seq s))"

lemma into_from_call: "raw_ok c (qc_payload e) \<Longrightarrow> into_call c (from_call e) = Inr e"
  by (cases "qc_kind e") (simp_all add: into_call_def from_call_def)

text \<open>A record that was written in full, and what it does to a reader that has come so far.\<close>

lemma replay_written:
  assumes "up_to_date s" and "encode (fs_codec s) r = Some u"
    and "replay_text (fs_codec s) (fs_file s) = Reading (fs_live s) n pushed"
  shows "replay_text (fs_codec s) (fs_file s @ u @ [newline]) =
    (case r of
       RPush q e \<Rightarrow> replay_line (fs_codec s) (Reading (fs_live s) n pushed) u
     | RAck q \<Rightarrow> Reading (without q (fs_live s)) (max n (q + 1)) pushed
     | RAttempts q k \<Rightarrow> Reading (with_attempts q k (fs_live s)) (max n (q + 1)) pushed)"
proof -
  have "codec_ok (fs_codec s)" "complete (fs_file s)" using assms(1) by (simp_all add: up_to_date_def)
  moreover from this assms(2) have "trim u \<noteq> []" "decode (fs_codec s) u = Some r"
    by (simp_all add: codec_ok_def)
  ultimately show ?thesis
    using replay_append(1) [of "fs_codec s" "fs_file s" r u] assms(2,3)
    by (simp split: journal_record.split)
qed

lemma replay_pushed:
  assumes "up_to_date s" and "encode (fs_codec s) (RPush (fs_next_seq s) (from_call e)) = Some u"
    and "raw_ok (fs_codec s) (qc_payload e)"
    and "replay_text (fs_codec s) (fs_file s) = Reading (fs_live s) n pushed"
    and "\<forall>q \<in> pushed. q < fs_next_seq s" and "n \<le> fs_next_seq s"
  shows "replay_text (fs_codec s) (fs_file s @ u @ [newline]) =
    Reading (fs_live s @ [(fs_next_seq s, e)]) (fs_next_seq s + 1) (insert (fs_next_seq s) pushed)"
proof -
  have "trim u \<noteq> []" "decode (fs_codec s) u = Some (RPush (fs_next_seq s) (from_call e))"
    using assms(1,2) by (simp_all add: up_to_date_def codec_ok_def)
  moreover have "fs_next_seq s \<notin> pushed" using assms(5) by blast
  moreover have "bt_insert (fs_next_seq s) e (fs_live s) = fs_live s @ [(fs_next_seq s, e)]"
    using assms(1) by (simp add: up_to_date_def insert_next)
  ultimately show ?thesis
    using replay_written [OF assms(1,2,4)] assms(3,6) by (simp add: into_from_call max_def)
qed

text \<open>A journal written afresh holds its messages.\<close>

lemma replay_fresh:
  assumes "codec_ok c" and "encode_all c xs = Some t"
    and "sorted_wrt (<) (map fst xs)" and "\<forall>x \<in> set xs. raw_ok c (qc_payload (snd x))"
    and "\<forall>a \<in> fst ` set acc. \<forall>x \<in> fst ` set xs. a < x" and "\<forall>q \<in> pushed. \<forall>x \<in> fst ` set xs. q < x"
  shows "complete t \<and> (\<exists>m. foldl (replay_line c) (Reading acc n pushed) (lines t) =
    Reading (acc @ xs) m (pushed \<union> fst ` set xs) \<and>
    (\<forall>k. n \<le> k \<and> (\<forall>x \<in> fst ` set xs. x < k) \<longrightarrow> m \<le> k))"
  using assms(2-)
proof (induction xs arbitrary: t acc n pushed)
  case Nil
  then show ?case by (simp add: complete_def lines_def)
next
  case (Cons x xs)
  obtain q e where x: "x = (q, e)" by fastforce
  obtain u rest where u: "encode c (RPush q (from_call e)) = Some u" "encode_all c xs = Some rest"
    "t = u @ [newline] @ rest"
    using Cons.prems(1) x by (auto split: option.splits)
  have line: "newline \<notin> set u" "strip_cr u = u" "trim u \<noteq> []"
    "decode c u = Some (RPush q (from_call e))"
    using assms(1) u(1) by (simp_all add: codec_ok_def)
  have "lines t = u # lines rest"
    using lines_complete [of "u @ [newline]" rest] lines_line [OF line(1)] line(2) u(3)
    by (simp add: complete_def)
  moreover have "q \<notin> pushed" using Cons.prems(5) x by auto
  moreover have "bt_insert q e acc = acc @ [(q, e)]"
    using Cons.prems(4) x by (intro bt_insert_last) auto
  moreover have "into_call c (from_call e) = Inr e"
    using Cons.prems(3) x by (intro into_from_call) simp
  ultimately have step: "foldl (replay_line c) (Reading acc n pushed) (lines t) =
      foldl (replay_line c) (Reading (acc @ [(q, e)]) (max n (q + 1)) (insert q pushed)) (lines rest)"
    using line by simp
  have "complete rest \<and> (\<exists>m. foldl (replay_line c) (Reading (acc @ [(q, e)]) (max n (q + 1)) (insert q pushed)) (lines rest) =
      Reading ((acc @ [(q, e)]) @ xs) m (insert q pushed \<union> fst ` set xs) \<and>
      (\<forall>k. max n (q + 1) \<le> k \<and> (\<forall>x \<in> fst ` set xs. x < k) \<longrightarrow> m \<le> k))"
    using Cons.prems x by (intro Cons.IH u(2)) fastforce+
  then obtain m where m: "complete rest"
    "foldl (replay_line c) (Reading (acc @ [(q, e)]) (max n (q + 1)) (insert q pushed)) (lines rest) =
      Reading ((acc @ [(q, e)]) @ xs) m (insert q pushed \<union> fst ` set xs)"
    "\<forall>k. max n (q + 1) \<le> k \<and> (\<forall>x \<in> fst ` set xs. x < k) \<longrightarrow> m \<le> k"
    by blast
  moreover have "complete t" using m(1) u(3) by (auto simp: complete_def)
  ultimately show ?case using step x by auto
qed

lemma up_to_date_rewritten:
  assumes "up_to_date s" and "encode_all (fs_codec s) (fs_live s) = Some t"
  shows "up_to_date (s\<lparr>fs_file := t, fs_attached := True, fs_written := w\<rparr>)"
proof -
  obtain m where m: "complete t" "replay_text (fs_codec s) t = Reading (fs_live s) m (fst ` set (fs_live s))"
    "\<forall>k. (\<forall>x \<in> fst ` set (fs_live s). x < k) \<longrightarrow> m \<le> k"
    using replay_fresh [of "fs_codec s" "fs_live s" t "[]" "{}" 0] assms
    by (auto simp: replay_text_def up_to_date_def file_ok_def)
  moreover have "\<forall>x \<in> fst ` set (fs_live s). x < fs_next_seq s"
    using assms(1) by (simp add: up_to_date_def file_ok_def)
  moreover from this m(3) have "m \<le> fs_next_seq s" by blast
  ultimately show ?thesis
    using assms(1) by (simp add: up_to_date_def file_ok_def)
qed

text \<open>The operations, on a file system that works.\<close>

lemma append_works:
  assumes "fs_io s = []" and "fs_attached s"
  shows "append_record r s =
    (case encode (fs_codec s) r of
       None \<Rightarrow> (Inl (StoreError ''could not encode a journal record''), s)
     | Some u \<Rightarrow> (Inr (), s\<lparr>fs_file := fs_file s @ u @ [newline], fs_written := fs_written s + 1\<rparr>))"
  using assms by (simp add: append_record_def next_io_def put_def Let_def split: option.split)

lemma up_to_date_compact:
  assumes "up_to_date s" and "fs_io s = []" and "compact_if_worthwhile s = (r, s')"
  shows "up_to_date s' \<and> fs_io s' = []"
  using assms up_to_date_rewritten [OF assms(1)]
  by (auto simp: compact_if_worthwhile_def rewrite_def next_io_def Let_def split: if_splits option.splits)

lemma up_to_date_push:
  assumes "up_to_date s" and "fs_io s = []" and "raw_ok (fs_codec s) (qc_payload e)"
    and "file_push s e = (r, s')"
  shows "up_to_date s' \<and> fs_io s' = []"
proof (cases "encode (fs_codec s) (RPush (fs_next_seq s) (from_call e))")
  case None
  then show ?thesis
    using assms by (auto simp: file_push_def append_works up_to_date_def Let_def)
next
  case (Some u)
  let ?s = "s\<lparr>fs_file := fs_file s @ u @ [newline], fs_written := fs_written s + 1,
      fs_next_seq := fs_next_seq s + 1, fs_live := fs_live s @ [(fs_next_seq s, e)]\<rparr>"
  have ok: "file_ok s" "fs_attached s" using assms(1) by (simp_all add: up_to_date_def)
  have s': "s' = ?s"
    using Some assms(2,4) insert_next [OF ok(1)] ok(2) by (auto simp: file_push_def append_works Let_def)
  obtain n pushed where p: "replay_text (fs_codec s) (fs_file s) = Reading (fs_live s) n pushed"
    "n \<le> fs_next_seq s" "\<forall>q \<in> pushed. q < fs_next_seq s"
    using assms(1) by (auto simp: up_to_date_def)
  from replay_pushed [OF assms(1) Some assms(3) p(1,3,2)]
  have "replay_text (fs_codec s) (fs_file ?s) =
      Reading (fs_live ?s) (fs_next_seq ?s) (insert (fs_next_seq s) pushed)"
    by simp
  moreover have "file_ok ?s"
    using ok(1) by (fastforce simp: file_ok_def sorted_wrt_append)
  moreover have "\<forall>q \<in> insert (fs_next_seq s) pushed. q < fs_next_seq ?s"
    using p(3) by auto
  moreover have "complete (fs_file ?s)" by (simp add: complete_def)
  ultimately show ?thesis
    using s' assms(1,2,3) unfolding up_to_date_def
    by (intro conjI exI [of _ "fs_next_seq ?s"] exI [of _ "insert (fs_next_seq s) pushed"]) auto
qed

text \<open>Acknowledging and counting attempts: one more record about a number the store knows.\<close>

lemma up_to_date_change:
  assumes s: "up_to_date s" "fs_io s = []" and q: "q < fs_next_seq s"
    and r: "(r, live) = (RAck q, without q (fs_live s)) \<or> (r, live) = (RAttempts q n, with_attempts q n (fs_live s))"
    and enc: "encode (fs_codec s) r = Some u"
    and ok: "file_ok (s\<lparr>fs_live := live\<rparr>)" "\<forall>x \<in> set live. raw_ok (fs_codec s) (qc_payload (snd x))"
  shows "up_to_date (s\<lparr>fs_live := live, fs_file := fs_file s @ u @ [newline], fs_written := w\<rparr>)"
proof -
  obtain m pushed where p: "replay_text (fs_codec s) (fs_file s) = Reading (fs_live s) m pushed"
    "m \<le> fs_next_seq s" "\<forall>q \<in> pushed. q < fs_next_seq s"
    using s(1) by (auto simp: up_to_date_def)
  have "replay_text (fs_codec s) (fs_file s @ u @ [newline]) = Reading live (max m (q + 1)) pushed"
    using replay_written [OF s(1) enc p(1)] r by auto
  moreover have "max m (q + 1) \<le> fs_next_seq s" using p(2) q by simp
  moreover have "complete (fs_file s @ u @ [newline])" by (simp add: complete_def)
  ultimately show ?thesis
    using s ok p(3) by (simp add: up_to_date_def file_ok_def)
qed

lemma up_to_date_ack:
  assumes s: "up_to_date s" "fs_io s = []" and a: "file_ack s q = (r, s')"
    and enc: "encode (fs_codec s) (RAck q) \<noteq> None"
  shows "up_to_date s' \<and> fs_io s' = []"
proof (cases "q \<in> fst ` set (fs_live s)")
  case True
  obtain u where u: "encode (fs_codec s) (RAck q) = Some u" using enc by auto
  let ?s = "s\<lparr>fs_live := without q (fs_live s)\<rparr>"
  let ?s1 = "?s\<lparr>fs_file := fs_file s @ u @ [newline], fs_written := fs_written s + 1\<rparr>"
  have att: "fs_attached s" "file_ok s" using s(1) by (simp_all add: up_to_date_def)
  have "append_record (RAck q) ?s = (Inr (), ?s1)"
    using u s(2) att(1) by (simp add: append_works)
  with a True have c: "compact_if_worthwhile ?s1 = (r, s')" by (simp add: file_ack_def)
  have "q < fs_next_seq s" using True att(2) by (auto simp: file_ok_def)
  moreover have "file_ok ?s"
    using att(2) by (fastforce simp: file_ok_def without_def sorted_wrt_map_filter)
  moreover have "\<forall>x \<in> set (without q (fs_live s)). raw_ok (fs_codec s) (qc_payload (snd x))"
    using s(1) by (auto simp: up_to_date_def without_def)
  ultimately have "up_to_date ?s1"
    by (intro up_to_date_change [OF s _ _ u]) simp_all
  from up_to_date_compact [OF this _ c] s(2) show ?thesis by simp
qed (use s a in \<open>simp add: file_ack_def\<close>)

lemma up_to_date_set_attempts:
  assumes s: "up_to_date s" "fs_io s = []" and a: "file_set_attempts s q n = (r, s')"
    and enc: "encode (fs_codec s) (RAttempts q n) \<noteq> None"
  shows "up_to_date s' \<and> fs_io s' = []"
proof (cases "q \<in> fst ` set (fs_live s)")
  case True
  obtain u where u: "encode (fs_codec s) (RAttempts q n) = Some u" using enc by auto
  let ?s = "s\<lparr>fs_live := with_attempts q n (fs_live s)\<rparr>"
  let ?s1 = "?s\<lparr>fs_file := fs_file s @ u @ [newline], fs_written := fs_written s + 1\<rparr>"
  have att: "fs_attached s" "file_ok s" using s(1) by (simp_all add: up_to_date_def)
  have "append_record (RAttempts q n) ?s = (Inr (), ?s1)"
    using u s(2) att(1) by (simp add: append_works)
  with a True have c: "compact_if_worthwhile ?s1 = (r, s')" by (simp add: file_set_attempts_def)
  have "q < fs_next_seq s" using True att(2) by (auto simp: file_ok_def)
  moreover have keys: "fst ` set (with_attempts q n (fs_live s)) = fst ` set (fs_live s)"
    by (metis map_fst_with_attempts set_map)
  moreover have "file_ok ?s" using att(2) keys by (simp add: file_ok_def)
  moreover have "\<forall>x \<in> set (with_attempts q n (fs_live s)). raw_ok (fs_codec s) (qc_payload (snd x))"
    using s(1) by (auto simp: up_to_date_def with_attempts_def)
  ultimately have "up_to_date ?s1"
    by (intro up_to_date_change [OF s _ _ u]) simp_all
  from up_to_date_compact [OF this _ c] s(2) show ?thesis by simp
qed (use s a in \<open>simp add: file_set_attempts_def\<close>)

section \<open>Reopening\<close>

text \<open>A sequence of operations on a store.\<close>

datatype store_command = FPush queued_call | FAck seq | FAttempts seq nat

fun file_step :: "file_store \<Rightarrow> store_command \<Rightarrow> file_store" where
  "file_step s (FPush e) = snd (file_push s e)"
| "file_step s (FAck q) = snd (file_ack s q)"
| "file_step s (FAttempts q n) = snd (file_set_attempts s q n)"

definition encodes :: "codec \<Rightarrow> bool" where
  "encodes c \<longleftrightarrow> (\<forall>r. encode c r \<noteq> None)"

definition valid_command :: "codec \<Rightarrow> store_command \<Rightarrow> bool" where
  "valid_command c x \<longleftrightarrow> (case x of FPush e \<Rightarrow> raw_ok c (qc_payload e) | _ \<Rightarrow> True)"

lemma codec_step: "fs_codec (file_step s x) = fs_codec s"
  by (cases x) (auto simp: file_push_def file_ack_def file_set_attempts_def Let_def frame_simps
      split: prod.split sum.split dest!: arg_cong [of "append_record _ _" _ snd])

lemma up_to_date_run:
  assumes "up_to_date s" and "fs_io s = []" and "encodes (fs_codec s)"
    and "list_all (valid_command (fs_codec s)) xs"
  shows "up_to_date (foldl file_step s xs) \<and> fs_codec (foldl file_step s xs) = fs_codec s \<and>
    fs_io (foldl file_step s xs) = []"
  using assms
proof (induction xs arbitrary: s)
  case (Cons x xs)
  have "up_to_date (file_step s x) \<and> fs_io (file_step s x) = []"
  proof (cases x)
    case (FPush e)
    then show ?thesis
      using up_to_date_push [OF Cons.prems(1,2), of e] Cons.prems(4)
      by (cases "file_push s e") (simp add: valid_command_def)
  next
    case (FAck q)
    then show ?thesis
      using up_to_date_ack [OF Cons.prems(1,2), of q] Cons.prems(3)
      by (cases "file_ack s q") (simp add: encodes_def)
  next
    case (FAttempts q n)
    then show ?thesis
      using up_to_date_set_attempts [OF Cons.prems(1,2), of q n] Cons.prems(3)
      by (cases "file_set_attempts s q n") (simp add: encodes_def)
  qed
  with Cons.IH [of "file_step s x"] Cons.prems(3,4) show ?case by (simp add: codec_step)
qed simp

lemma up_to_date_open:
  assumes "codec_ok c" and "file_open c None [] = Inr s"
  shows "up_to_date s \<and> fs_io s = [] \<and> fs_codec s = c"
  using assms
  by (auto simp: file_open_def replay_def rewrite_def next_io_def up_to_date_def file_ok_def
      complete_def replay_text_def lines_def)

lemma reopen:
  assumes "codec_ok c" and "encodes c"
    and "replay c file = Inr (live, n)"
  shows "\<exists>s. file_open c file [] = Inr s \<and> fs_live s = live"
proof -
  have "\<exists>t. encode_all c xs = Some t" for xs
    using assms(2) by (induction xs) (auto simp: encodes_def split: option.split)
  then obtain t where "encode_all c live = Some t" by blast
  then show ?thesis
    using assms(3) by (simp add: file_open_def rewrite_def next_io_def)
qed

text \<open>
  C12. A message the file store reports as queued survives: on a file system that works,
  whatever has been pushed, acknowledged and counted since the journal was created, and however
  often it was compacted, opening the file again gives exactly the live messages, in order and
  with their attempt counts.
\<close>

theorem journal_replays:
  assumes "codec_ok c" and "encodes c" and "file_open c None [] = Inr s0"
    and "list_all (valid_command c) xs" and "s = foldl file_step s0 xs"
  shows "\<exists>s'. file_open c (Some (fs_file s)) [] = Inr s' \<and> fs_live s' = fs_live s"
proof -
  have s: "up_to_date s \<and> fs_codec s = c"
    using up_to_date_run [of s0 xs] up_to_date_open [OF assms(1,3)] assms(2,4,5) by simp
  then have "\<exists>n. replay c (Some (fs_file s)) = Inr (fs_live s, n)"
    by (auto simp: up_to_date_def replay_def)
  then show ?thesis using reopen [OF assms(1,2)] by blast
qed

text \<open>
  A crash in the middle of a push loses nothing that was reported as queued: if the write
  stops after any number of bytes, opening the file again gives the messages that were live
  before, with or without the one being written.
\<close>

theorem torn_push_recovers:
  assumes "codec_ok c" and "encodes c" and "prefixes_fail c" and "file_open c None [] = Inr s0"
    and "list_all (valid_command c) xs" and "s = foldl file_step s0 xs"
    and "raw_ok c (qc_payload e)"
    and "file_push (s\<lparr>fs_io := [WriteFails n]\<rparr>) e = (Inl err, s')"
  shows "\<exists>s''. file_open c (Some (fs_file s')) [] = Inr s'' \<and>
    (fs_live s'' = fs_live s \<or> fs_live s'' = fs_live s @ [(fs_next_seq s, e)])"
proof -
  have s: "up_to_date s" "fs_codec s = c"
    using up_to_date_run [of s0 xs] up_to_date_open [OF assms(1,4)] assms(2,5,6) by simp_all
  obtain m pushed where p: "replay_text c (fs_file s) = Reading (fs_live s) m pushed"
    "m \<le> fs_next_seq s" "\<forall>q \<in> pushed. q < fs_next_seq s"
    using s by (auto simp: up_to_date_def)
  have att: "fs_attached s" "complete (fs_file s)" using s(1) by (simp_all add: up_to_date_def)
  let ?r = "RPush (fs_next_seq s) (from_call e)"
  obtain u where u: "encode c ?r = Some u" using assms(2) by (auto simp: encodes_def)
  then have line: "newline \<notin> set u" "trim u \<noteq> []" "strip_cr u = u"
    using assms(1) by (simp_all add: codec_ok_def)
  have written: "fs_file s' = fs_file s @ take n (u @ [newline])"
    using assms(8) u s(2) att(1)
    by (auto simp: file_push_def append_record_def next_io_def put_def Let_def)
  have whole: "replay_text c (fs_file s @ u @ [newline]) =
      Reading (fs_live s @ [(fs_next_seq s, e)]) (fs_next_seq s + 1) (insert (fs_next_seq s) pushed)"
    using replay_pushed [of s e u m pushed] s u assms(7) p by simp
  have torn: "replay_text c (fs_file s @ take n u) = foldl (replay_line c) (replay_text c (fs_file s))
      (if take n u = [] then [] else [take n u])"
  proof -
    have "newline \<notin> set (take n u)" using line(1) by (auto dest: in_set_takeD)
    then show ?thesis
      using lines_complete [OF att(2), of "take n u"] lines_rest [of "take n u"]
      by (simp add: replay_text_def)
  qed
  consider (short) "n < length u" | (unended) "n = length u" | (full) "length u < n" by linarith
  then have "\<exists>live k. replay c (Some (fs_file s')) = Inr (live, k) \<and>
      (live = fs_live s \<or> live = fs_live s @ [(fs_next_seq s, e)])"
  proof cases
    case short
    then have "fs_file s' = fs_file s @ take n u" using written by simp
    moreover have "trim (take n u) \<noteq> [] \<Longrightarrow> decode c (take n u) = None"
      using assms(3) u short by (auto simp: prefixes_fail_def)
    ultimately show ?thesis using torn p(1) by (auto simp: replay_def)
  next
    case unended
    then have "fs_file s' = fs_file s @ take n u" using written by simp
    moreover have "replay_text c (fs_file s @ take n u) = replay_text c (fs_file s @ u @ [newline])"
      using torn unended line replay_append(1) [OF assms(1) att(2) u] by (auto simp: trim_def)
    ultimately show ?thesis using whole by (simp add: replay_def)
  next
    case full
    then have "fs_file s' = fs_file s @ u @ [newline]" using written by simp
    then show ?thesis using whole by (simp add: replay_def)
  qed
  then show ?thesis using reopen [OF assms(1,2)] by blast
qed

text \<open>
  A push that fails to flush makes the journal unusable: its line is in the file although
  the push was reported as failed and its sequence number not used up, so the next push that
  succeeds writes the same number again, and the journal that then holds a message reported as
  queued is refused when it is opened, as if two processes had written it.
\<close>

theorem failed_flush_poisons_journal:
  assumes "codec_ok c" and "encodes c" and "file_open c None [] = Inr s0"
    and "list_all (valid_command c) xs" and "s = foldl file_step s0 xs"
    and "raw_ok c (qc_payload e)"
    and "file_push (s\<lparr>fs_io := [SyncFails]\<rparr>) e = (r1, s1)" and "file_push s1 e' = (r2, s2)"
  shows "(\<exists>err. r1 = Inl err) \<and> r2 = Inr (fs_next_seq s) \<and>
    (\<exists>err. file_open c (Some (fs_file s2)) [] = Inl err)"
proof -
  have s: "up_to_date s" "fs_codec s = c"
    using up_to_date_run [of s0 xs] up_to_date_open [OF assms(1,3)] assms(2,4,5) by simp_all
  obtain m pushed where p: "replay_text c (fs_file s) = Reading (fs_live s) m pushed"
    "m \<le> fs_next_seq s" "\<forall>q \<in> pushed. q < fs_next_seq s"
    using s by (auto simp: up_to_date_def)
  have att: "fs_attached s" "complete (fs_file s)" using s(1) by (simp_all add: up_to_date_def)
  obtain u where u: "encode c (RPush (fs_next_seq s) (from_call e)) = Some u"
    using assms(2) by (auto simp: encodes_def)
  obtain u' where u': "encode c (RPush (fs_next_seq s) (from_call e')) = Some u'"
    using assms(2) by (auto simp: encodes_def)
  have one: "r1 = Inl (StoreError ''sync'')" "s1 = s\<lparr>fs_io := [], fs_file := fs_file s @ u @ [newline]\<rparr>"
    using assms(7) u s(2) att(1)
    by (auto simp: file_push_def append_record_def next_io_def put_def Let_def)
  have two: "r2 = Inr (fs_next_seq s)" "fs_file s2 = (fs_file s @ u @ [newline]) @ u' @ [newline]"
    using assms(8) one(2) u' s(2) att(1)
    by (auto simp: file_push_def append_record_def next_io_def put_def Let_def)
  have whole: "replay_text c (fs_file s @ u @ [newline]) =
      Reading (fs_live s @ [(fs_next_seq s, e)]) (fs_next_seq s + 1) (insert (fs_next_seq s) pushed)"
    using replay_pushed [of s e u m pushed] s u assms(6) p by simp
  have "trim u' \<noteq> []" "decode c u' = Some (RPush (fs_next_seq s) (from_call e'))"
    using assms(1) u' by (simp_all add: codec_ok_def)
  moreover have "replay_text c (fs_file s2) = replay_line c (replay_text c (fs_file s @ u @ [newline])) u'"
    unfolding two(2) by (rule replay_append(1) [OF assms(1) replay_append(2) [OF assms(1) att(2) u] u'])
  ultimately have "\<exists>err. replay_text c (fs_file s2) = Refused err"
    using whole by simp
  then show ?thesis using one(1) two(1) by (auto simp: file_open_def replay_def)
qed

section \<open>A concrete codec\<close>

text \<open>
  An encoding with the documented behaviour: a record as a list of numbers, each in unary and
  followed by a comma, and a closing brace.
\<close>

definition flag :: "bool \<Rightarrow> nat" where
  "flag b = (if b then 1 else 0)"

fun record_nums :: "journal_record \<Rightarrow> nat list" where
  "record_nums (RPush q e) =
     [0, q, flag (sc_send e), sc_attempts e, flag (sc_transactional e), length (sc_action e)] @
     map of_char (sc_action e) @ map of_char (sc_payload e)"
| "record_nums (RAck q) = [1, q]"
| "record_nums (RAttempts q n) = [2, q, n]"

definition nums_record :: "nat list \<Rightarrow> journal_record option" where
  "nums_record xs =
     (case xs of
        t # q # rest \<Rightarrow>
          if t = 1 \<and> rest = [] then Some (RAck q)
          else if t = 2 \<and> length rest = 1 then Some (RAttempts q (hd rest))
          else (case rest of
             snd' # att # tr # k # cs \<Rightarrow>
               if t = 0 then Some (RPush q \<lparr>sc_action = map char_of (take k cs),
                 sc_payload = map char_of (drop k cs), sc_send = (snd' = 1), sc_attempts = att,
                 sc_transactional = (tr = 1)\<rparr>) else None
           | _ \<Rightarrow> None)
      | _ \<Rightarrow> None)"

fun print_nums :: "nat list \<Rightarrow> string" where
  "print_nums [] = ''}''"
| "print_nums (n # ns) = replicate n CHR ''1'' @ CHR '','' # print_nums ns"

fun parse_nums :: "nat \<Rightarrow> string \<Rightarrow> nat list option" where
  "parse_nums k [] = None"
| "parse_nums k (c # cs) =
     (if c = CHR ''1'' then parse_nums (Suc k) cs
      else if c = CHR '','' then map_option (Cons k) (parse_nums 0 cs)
      else if c = CHR 0x7D \<and> cs = [] \<and> k = 0 then Some []
      else None)"

definition sample_codec :: codec where
  "sample_codec =
     \<lparr>encode = (\<lambda>r. Some (print_nums (record_nums r))),
      decode = (\<lambda>t. Option.bind (parse_nums 0 t) nums_record), raw_ok = (\<lambda>t. t \<noteq> [])\<rparr>"

lemma nums_record_nums: "nums_record (record_nums r) = Some r"
  by (cases r) (auto simp: nums_record_def flag_def comp_def map_idI)

lemma parse_unary: "parse_nums k (replicate n CHR ''1'' @ t) = parse_nums (k + n) t"
  by (induction n arbitrary: k) simp_all

lemma parse_print_nums: "parse_nums 0 (print_nums ns) = Some ns"
  by (induction ns) (simp_all add: parse_unary)

lemma set_print_nums: "set (print_nums ns) \<subseteq> {CHR ''1'', CHR '','', CHR 0x7D}"
  by (induction ns) auto

lemma print_nums_last: "\<exists>t. print_nums ns = t @ [CHR 0x7D] \<and> CHR 0x7D \<notin> set t"
proof (induction ns)
  case (Cons n ns)
  then obtain t where "print_nums ns = t @ [CHR 0x7D]" "CHR 0x7D \<notin> set t" by blast
  then show ?case
    by (intro exI [of _ "replicate n CHR ''1'' @ CHR '','' # t"]) auto
qed simp

lemma parse_needs_brace: "CHR 0x7D \<notin> set t \<Longrightarrow> parse_nums k t = None"
  by (induction k t rule: parse_nums.induct) auto

lemma sample_codec_ok: "codec_ok sample_codec" "encodes sample_codec" "prefixes_fail sample_codec"
proof -
  have line: "newline \<notin> set (print_nums ns) \<and> trim (print_nums ns) \<noteq> [] \<and> strip_cr (print_nums ns) = print_nums ns" for ns
  proof -
    obtain t where t: "print_nums ns = t @ [CHR 0x7D]" using print_nums_last by blast
    have "newline \<notin> set (print_nums ns)" using set_print_nums [of ns] by (auto simp: newline_def)
    moreover have "strip_cr (print_nums ns) = print_nums ns" by (simp add: strip_cr_def t)
    moreover have "\<not> is_whitespace (CHR 0x7D)" by (simp add: is_whitespace_def)
    then have "dropWhile is_whitespace (t @ [CHR 0x7D]) \<noteq> []"
      "\<exists>u. dropWhile is_whitespace (t @ [CHR 0x7D]) = u @ [CHR 0x7D]"
      by (auto simp: dropWhile_append)
    then have "trim (print_nums ns) \<noteq> []"
      using \<open>\<not> is_whitespace (CHR 0x7D)\<close> by (auto simp: trim_def t)
    ultimately show ?thesis by simp
  qed
  then show "codec_ok sample_codec"
    by (simp add: codec_ok_def sample_codec_def parse_print_nums nums_record_nums)
  show "encodes sample_codec" by (simp add: encodes_def sample_codec_def)
  have "parse_nums 0 (take n (print_nums ns)) = None" if n: "n < length (print_nums ns)" for n ns
  proof -
    obtain t where t: "print_nums ns = t @ [CHR 0x7D]" "CHR 0x7D \<notin> set t"
      using print_nums_last by blast
    then have "take n (print_nums ns) = take n t" using n by simp
    then show ?thesis using parse_needs_brace [of "take n t"] t(2) by (auto dest: in_set_takeD)
  qed
  then show "prefixes_fail sample_codec"
    by (simp add: prefixes_fail_def sample_codec_def)
qed

definition sample_call :: queued_call where
  "sample_call = \<lparr>qc_action = ''T'', qc_payload = ''p'', qc_kind = Call, qc_attempts = 0, qc_transactional = True\<rparr>"

definition sample_journal :: file_store where
  "sample_journal = \<lparr>fs_codec = sample_codec, fs_file = [], fs_attached = True, fs_live = [],
     fs_next_seq = 0, fs_written = 0, fs_io = []\<rparr>"

lemma sample_journal_open: "file_open sample_codec None [] = Inr sample_journal"
  by (simp add: file_open_def replay_def rewrite_def next_io_def sample_journal_def)

definition sample_changes :: "store_command list" where
  "sample_changes = [FPush sample_call, FPush sample_call, FAttempts 1 2, FAck 0]"

lemma sample_changes_valid: "list_all (valid_command sample_codec) sample_changes"
  by (simp add: sample_changes_def valid_command_def sample_codec_def sample_call_def)

theorem journal_replays_witness:
  "\<exists>s. file_open sample_codec (Some (fs_file (foldl file_step sample_journal sample_changes))) [] = Inr s \<and>
     fs_live s = [(1, sample_call\<lparr>qc_attempts := 2\<rparr>)]"
proof -
  have "fs_live (foldl file_step sample_journal sample_changes) = [(1, sample_call\<lparr>qc_attempts := 2\<rparr>)]"
    by code_simp
  with journal_replays [OF sample_codec_ok(1,2) sample_journal_open sample_changes_valid refl]
  show ?thesis by simp
qed

theorem torn_push_recovers_witness:
  "\<exists>s''. file_open sample_codec (Some (fs_file (snd (file_push (sample_journal\<lparr>fs_io := [WriteFails 9]\<rparr>) sample_call)))) [] = Inr s'' \<and>
     (fs_live s'' = [] \<or> fs_live s'' = [(0, sample_call)])"
proof -
  have "\<exists>err s'. file_push (sample_journal\<lparr>fs_io := [WriteFails 9]\<rparr>) sample_call = (Inl err, s')"
    by (simp add: file_push_def append_record_def next_io_def sample_journal_def sample_codec_def Let_def)
  then obtain err s' where p: "file_push (sample_journal\<lparr>fs_io := [WriteFails 9]\<rparr>) sample_call = (Inl err, s')"
    by blast
  have raw: "raw_ok sample_codec (qc_payload sample_call)" by (simp add: sample_codec_def sample_call_def)
  have "sample_journal = foldl file_step sample_journal []" by simp
  from torn_push_recovers [OF sample_codec_ok sample_journal_open _ this raw p] p show ?thesis
    by (simp add: sample_journal_def)
qed

theorem failed_flush_poisons_journal_witness:
  "\<exists>s1 s2 err err'. file_push (sample_journal\<lparr>fs_io := [SyncFails]\<rparr>) sample_call = (Inl err, s1) \<and>
     file_push s1 sample_call = (Inr 0, s2) \<and> file_open sample_codec (Some (fs_file s2)) [] = Inl err'"
proof -
  obtain r1 s1 where p1: "file_push (sample_journal\<lparr>fs_io := [SyncFails]\<rparr>) sample_call = (r1, s1)" by fastforce
  obtain r2 s2 where p2: "file_push s1 sample_call = (r2, s2)" by fastforce
  have raw: "raw_ok sample_codec (qc_payload sample_call)" by (simp add: sample_codec_def sample_call_def)
  have "sample_journal = foldl file_step sample_journal []" by simp
  from failed_flush_poisons_journal [OF sample_codec_ok(1,2) sample_journal_open _ this raw p1 p2] p1 p2
  show ?thesis by (auto simp: sample_journal_def)
qed

end
