(* ===== verification/Engine_Order.thy ===== *)
theory Engine_Order
  imports Engine_Account
begin

text \<open>
  What the engine holds, and in which order.

  \<open>orderly\<close>: the transaction calls the engine holds, the outstanding one first and then the
  queued ones, are in the order the application made them. \<open>patient\<close>: no call has been put
  on the wire more often than the retry policy allows. \<open>sparse\<close>: the peer never has more
  unanswered calls than the configuration allows. \<open>sound\<close> is all three, and every step of a
  session keeps it.
\<close>

section \<open>Definitions\<close>

definition held_transactions :: "('s, 'g) engine \<Rightarrow> call_token list" where
  "held_transactions e =
     (case inflight e of
        None \<Rightarrow> []
      | Some f \<Rightarrow> if f_transactional f then [f_token f] else []) @
     map p_token (filter p_transactional (queue e))"

definition orderly :: "('s, 'g) engine \<Rightarrow> bool" where
  "orderly e \<longleftrightarrow>
     sorted_wrt (<) (held_transactions e) \<and> (\<forall>t \<in> set (held_tokens e). t < next_token e)"

definition attempt_limit :: "('s, 'g) engine \<Rightarrow> nat" where
  "attempt_limit e = max 1 (rp_attempts (c_retry (config e)))"

definition patient :: "('s, 'g) engine \<Rightarrow> bool" where
  "patient e \<longleftrightarrow>
     (\<forall>p \<in> set (queue e). p_attempts p < attempt_limit e) \<and>
     (\<forall>f. inflight e = Some f \<longrightarrow> 1 \<le> f_attempts f \<and> f_attempts f \<le> attempt_limit e)"

definition peer_limit :: "('s, 'g) engine \<Rightarrow> nat" where
  "peer_limit e =
     (if c_inbound_concurrency (config e) = Reject then 1
      else max 1 (c_max_peer_requests (config e)))"

definition sparse :: "('s, 'g) engine \<Rightarrow> bool" where
  "sparse e \<longleftrightarrow> finite (peer_inflight e) \<and> card (peer_inflight e) \<le> peer_limit e"

definition sound :: "('s, 'g) engine \<Rightarrow> bool" where
  "sound e \<longleftrightarrow> orderly e \<and> patient e \<and> sparse e"

lemmas sound_defs = sound_def orderly_def patient_def sparse_def attempt_limit_def peer_limit_def
  held_transactions_def held_tokens_def

text \<open>The fields the invariant reads.\<close>

lemma sound_cong:
  assumes "queue x = queue e" "inflight x = inflight e" "next_token x = next_token e"
    "c_retry (config x) = c_retry (config e)" "peer_inflight x = peer_inflight e"
    "c_inbound_concurrency (config x) = c_inbound_concurrency (config e)"
    "c_max_peer_requests (config x) = c_max_peer_requests (config e)"
  shows "sound x = sound e"
  using assms by (simp add: sound_defs)

lemma sound_quiet [inv_intros]:
  "sound e \<Longrightarrow> sound (emit x e)" "sound e \<Longrightarrow> sound (arm_heartbeat e)"
  "sound e \<Longrightarrow> sound (transmit v f e)" "sound e \<Longrightarrow> sound (reject v i k c e)"
  "sound e \<Longrightarrow> sound (ack_store v q e)" "sound e \<Longrightarrow> sound (check_drain e)"
  "sound e \<Longrightarrow> sound (advance t e)" "sound e \<Longrightarrow> sound (snd (peer_call_refused i e))"
  "sound e \<Longrightarrow> sound (remember_solicited v a p e)" "sound e \<Longrightarrow> sound (snd (persist_call v b qc e))"
  "sound e \<Longrightarrow> sound (e\<lparr>heartbeat_at := h\<rparr>)" "sound e \<Longrightarrow> sound (e\<lparr>boot := bs\<rparr>)"
  "sound e \<Longrightarrow> sound (e\<lparr>heartbeat_interval := d\<rparr>)" "sound e \<Longrightarrow> sound (e\<lparr>boot_retry_at := h\<rparr>)"
  "sound e \<Longrightarrow> sound (e\<lparr>draining := h\<rparr>)" "sound e \<Longrightarrow> sound (e\<lparr>outputs := os\<rparr>)"
  "sound e \<Longrightarrow> sound (set_call_timeout dd e)" "sound e \<Longrightarrow> sound (set_id_generator g e)"
  by (erule iffD2 [OF sound_cong, rotated -1],
      (simp add: frame_simps set_call_timeout_def set_id_generator_def; fail)+)+

lemma sound_peers [inv_intros]:
  "sound e \<Longrightarrow> sound (e\<lparr>peer_inflight := {}\<rparr>)"
  "sound e \<Longrightarrow> sound (e\<lparr>peer_inflight := peer_inflight e - {i}\<rparr>)"
  by (auto simp: sound_def orderly_def patient_def sparse_def attempt_limit_def peer_limit_def
      held_transactions_def held_tokens_def intro: order_trans [OF card_Diff1_le])

section \<open>Taking calls out of the queue\<close>

lemma sorted_wrt_drop_one:
  assumes "sorted_wrt R (ys @ map f (filter P xs))"
  shows "sorted_wrt R (ys @ map f (filter P (remove_at i xs)))"
proof (cases "i < length xs")
  case True
  have "sorted_wrt R (ys @ map f (filter P (take i xs @ xs ! i # drop (Suc i) xs)))"
    using assms remove_at_split [OF True] by simp
  then show ?thesis by (auto simp: remove_at_def sorted_wrt_append split: if_splits)
qed (use assms in \<open>simp add: remove_at_def\<close>)

lemma sound_remove_at:
  assumes "sound e"
  shows "sound (e\<lparr>queue := remove_at i (queue e)\<rparr>)"
proof -
  have "sorted_wrt (<) (held_transactions (e\<lparr>queue := remove_at i (queue e)\<rparr>))"
    using assms sorted_wrt_drop_one by (auto simp: sound_def orderly_def held_transactions_def)
  then show ?thesis
    using assms
    by (auto simp: sound_def orderly_def patient_def sparse_def attempt_limit_def peer_limit_def
        held_tokens_def dest!: in_set_remove_atD)
qed

lemma sound_send_entry: "sound e \<Longrightarrow> sound (send_entry v i e)"
  by (drule sound_remove_at [where i = i], erule iffD1 [OF sound_cong, rotated -1])
    (simp_all add: frame_simps queue_send_entry)

text \<open>Starting the call the search found leaves the transactions in order.\<close>

lemma held_start_call:
  assumes "inflight e = None" and "next_of_kind Call e = Some i"
  shows "held_transactions (start_call v i e) = held_transactions e"
proof -
  have i: "i < length (queue e)" "eligible e i" using next_of_kind_Some [OF assms(2)] by simp_all
  let ?p = "queue e ! i"
  have "map p_token (filter p_transactional (queue e)) =
    (if p_transactional ?p then [p_token ?p] else []) @
    map p_token (filter p_transactional (remove_at i (queue e)))"
  proof (cases "p_transactional ?p")
    case True
    then have "position p_transactional (queue e) = Some i"
      using i(2) by (auto simp: eligible_def Let_def split: if_splits)
    then have "filter p_transactional (queue e) = ?p # filter p_transactional (remove_at i (queue e))"
      by (intro filter_remove_first) (auto simp: position_Some)
    with True show ?thesis by simp
  next
    case False
    then show ?thesis using filter_remove_at [OF i(1)] by simp
  qed
  then show ?thesis
    using assms(1)
    by (simp add: held_transactions_def start_call_def Let_def frame_simps split: prod.split)
qed

lemma sound_start_call:
  assumes "sound e" and "inflight e = None" and "next_of_kind Call e = Some i"
  shows "sound (start_call v i e)"
proof -
  have i: "queue e ! i \<in> set (queue e)" using next_of_kind_Some [OF assms(3)] by simp
  then have "p_attempts (queue e ! i) < attempt_limit e" "p_token (queue e ! i) < next_token e"
    using assms(1) by (auto simp: sound_def patient_def orderly_def held_tokens_def)
  moreover have "orderly (start_call v i e)"
    using assms calculation held_start_call [OF assms(2,3)]
    by (auto simp: sound_def orderly_def held_tokens_def queue_start_call frame_simps
        dest!: in_set_remove_atD)
      (auto simp: start_call_def Let_def frame_simps split: prod.splits)
  ultimately show ?thesis
    using assms(1)
    by (auto simp: sound_def patient_def sparse_def attempt_limit_def peer_limit_def
        start_call_def Let_def frame_simps split: prod.splits dest!: in_set_remove_atD)
qed

lemma sound_pump [inv_intros]: "sound e \<Longrightarrow> sound (pump v e)"
  by (rule pump_induct) (auto intro: sound_send_entry sound_start_call)

section \<open>Losing and regaining calls\<close>

lemma sound_drop_inflight:
  assumes "sound e" and "inflight e = Some f"
  shows "sound (e\<lparr>inflight := None\<rparr>)"
  using assms
  by (auto simp: sound_def orderly_def patient_def sparse_def attempt_limit_def peer_limit_def
      held_transactions_def held_tokens_def split: if_splits)

lemma sound_requeue_or_fail:
  assumes "sound (e\<lparr>inflight := Some f\<rparr>)" and "inflight e = None"
  shows "sound (requeue_or_fail v f why e)"
proof (cases "f_transactional f \<and> may_retry (c_retry (config e)) (f_attempts f)")
  case True
  then have "f_attempts f < attempt_limit e"
    by (simp add: attempt_limit_def may_retry_def)
  then show ?thesis
    using True assms
    by (auto simp: requeue_or_fail_def Let_def frame_simps sound_def orderly_def patient_def
        sparse_def attempt_limit_def peer_limit_def held_transactions_def held_tokens_def
        split: if_splits)
next
  case False
  have "sound e"
    using sound_drop_inflight [OF assms(1), of f]
    by (rule iffD1 [OF sound_cong, rotated -1]) (simp_all add: assms(2))
  then have "sound (ack_store v (f_seq f) e)" by (rule inv_intros)
  then show ?thesis using False by (auto simp: requeue_or_fail_def Let_def intro: inv_intros)
qed

lemma sorted_wrt_keep:
  assumes "sorted_wrt R (ys @ map f (filter P xs))"
  shows "sorted_wrt R (ys @ map f (filter P (filter Q xs)))"
  using assms by (induction xs) (auto simp: sorted_wrt_append split: if_splits)

lemma sound_offline_sweep:
  assumes "sound e"
  shows "sound (offline_sweep v [] (queue e) e)"
proof -
  have "sorted_wrt (<) (held_transactions (offline_sweep v [] (queue e) e))"
    using assms
    by (simp add: sound_def orderly_def held_transactions_def frame_simps sorted_wrt_keep
        del: filter_filter)
  then show ?thesis
    using assms
    by (auto simp: sound_def orderly_def patient_def sparse_def attempt_limit_def peer_limit_def
        held_tokens_def frame_simps)
qed

lemma sound_on_disconnected [inv_intros]:
  assumes "sound e"
  shows "sound (on_disconnected v e)"
proof -
  let ?e2 = "(emit (ClearTimer HeartbeatTimer) (emit (ClearTimer CallTimeout)
    (e\<lparr>connected := False, peer_inflight := {}\<rparr>)))\<lparr>heartbeat_at := None\<rparr>"
  have "sound (e\<lparr>connected := False, peer_inflight := {}\<rparr>)"
    using sound_peers(1) [OF assms] by (rule iffD2 [OF sound_cong, rotated -1]) simp_all
  then have e2: "sound ?e2" by (intro sound_quiet(1,11))
  have "sound (case inflight ?e2 of
      Some f \<Rightarrow> requeue_or_fail v f Disconnected (?e2\<lparr>inflight := None\<rparr>) | None \<Rightarrow> ?e2)"
  proof (cases "inflight ?e2")
    case None
    then show ?thesis using e2 by simp
  next
    case (Some f)
    have "sound ((?e2\<lparr>inflight := None\<rparr>)\<lparr>inflight := Some f\<rparr>)"
      using e2 by (rule iffD2 [OF sound_cong, rotated -1]) (use Some in simp_all)
    then show ?thesis using Some by (simp add: sound_requeue_or_fail)
  qed
  then show ?thesis
    unfolding on_disconnected_def Let_def by (intro inv_intros sound_offline_sweep)
qed

lemma sound_minted: "sound e \<Longrightarrow> sound (minted t e)"
  by (auto simp: minted_def frame_simps sound_def orderly_def patient_def sparse_def
      attempt_limit_def peer_limit_def held_transactions_def held_tokens_def less_Suc_eq
      split: option.splits)

text \<open>A new call goes to the end of the queue with a token above every other.\<close>

lemma sound_enqueue:
  assumes "sound e" and "p_attempts p < attempt_limit e" and "p_token p < next_token e"
    and "\<forall>t \<in> set (held_tokens e). t < p_token p"
  shows "sound (e\<lparr>queue := queue e @ [p]\<rparr>)"
  using assms
  by (auto simp: sound_def orderly_def patient_def sparse_def attempt_limit_def peer_limit_def
      held_transactions_def held_tokens_def sorted_wrt_append split: option.splits if_splits)

lemma sound_call_with [inv_intros]:
  assumes "sound e"
  shows "sound (snd (call_with v t a p opts e))"
proof (cases rule: call_with_cases [of v t a p opts e])
  case (refused err)
  then show ?thesis using assms by (auto intro: inv_intros)
next
  case (answered e1 why)
  have "sound e1"
    using answered(2) sound_minted [OF assms, of t] sound_quiet(10) [of "minted t e" v]
    by (metis snd_conv)
  then show ?thesis using answered(1) by (auto simp: fail_def intro: inv_intros)
next
  case (queued k q e2 e3)
  have e2: "e2 = snd (persist_call v (wants_persist e a opts) (stored_form e a p k) (minted t e))"
    using queued(3) by simp
  have "sound e3"
    using queued(2) e2 sound_minted [OF assms, of t] by (auto intro: inv_intros)
  moreover have "held_tokens e3 = held_tokens e" "next_token e3 = Suc (next_token e)"
    using queued(2) e2 by (auto simp: held_tokens_def frame_simps) (simp_all add: minted_def frame_simps)
  ultimately have "sound (e3\<lparr>queue := queue e3 @ [queued_form e a p k opts q]\<rparr>)"
    using assms by (intro sound_enqueue) (auto simp: queued_form_def sound_def orderly_def attempt_limit_def)
  then show ?thesis using queued(1) by (auto intro: inv_intros)
qed

section \<open>Every step\<close>

lemma sound_observe_boot_answer [inv_intros]:
  "sound e \<Longrightarrow> sound (observe_boot_answer v p out e)"
  by (auto simp: observe_boot_answer_def Let_def intro!: sound_quiet sound_pump split: option.split)

lemma sound_call_timeout_due [inv_intros]:
  assumes "sound e"
  shows "sound (call_timeout_due v e)"
proof (cases "inflight e")
  case None
  then show ?thesis using assms by (simp add: call_timeout_due_def)
next
  case (Some f)
  have "sound ((emit (ClearTimer CallTimeout) (e\<lparr>inflight := None\<rparr>))\<lparr>inflight := Some f\<rparr>)"
    using assms by (rule iffD2 [OF sound_cong, rotated -1]) (simp_all add: Some frame_simps)
  then show ?thesis
    using assms Some by (simp add: call_timeout_due_def sound_requeue_or_fail frame_simps)
qed

lemma sound_on_timeout [inv_intros]:
  assumes "sound e"
  shows "sound (on_timeout v e)"
proof -
  have hb: "sound (heartbeat_due v x)" if "sound x" for x
    using that
    by (auto simp: heartbeat_due_def send_heartbeat_def Let_def
        intro!: sound_quiet sound_call_with split: option.split)
  have "sound (boot_retry_due x)" if "sound x" for x :: "('a, 'b) engine"
  proof -
    have "sound (x\<lparr>boot_retry_at := None, boot := BootIdle\<rparr>)"
      using that by (rule iffD2 [OF sound_cong, rotated -1]) simp_all
    then show ?thesis using that by (auto simp: boot_retry_due_def intro: inv_intros split: option.split)
  qed
  from this [OF hb [OF sound_call_timeout_due [OF assms]]] show ?thesis
    by (simp add: on_timeout_def Let_def inv_intros)
qed

text \<open>A call of the peer is admitted only below the limit.\<close>

lemma peer_admitted:
  assumes "sparse e" and "peer_call_refused i e = (None, e1)"
  shows "Suc (card (peer_inflight e)) \<le> peer_limit e" and "i \<notin> peer_inflight e"
  using assms by (auto simp: peer_call_refused_def sparse_def peer_limit_def Let_def frame_simps
      split: if_splits)

lemma sound_on_call [inv_intros]:
  assumes "sound e"
  shows "sound (on_call v i a p k e)"
proof (cases rule: on_call_cases [of v i a p k e])
  case (rejected c e1)
  then have "sound e1" using assms by (auto intro: inv_intros)
  then show ?thesis using rejected(1) by (simp add: inv_intros)
next
  case (served e1 e2)
  have e1: "e1 = e \<or> e1 = snd (peer_call_refused i e)"
    using served(3) by (auto split: if_splits)
  then have e2: "sound e2" "peer_inflight e2 = peer_inflight e" "peer_limit e2 = peer_limit e"
    using assms served(2) by (auto simp: frame_simps peer_limit_def intro: inv_intros)
  have "sound (e2\<lparr>peer_inflight := insert i (peer_inflight e2)\<rparr>)" if "k = Call"
  proof -
    have "sparse e" using assms by (simp add: sound_def)
    from peer_admitted [OF this, of i e1] served(3) that
    have "Suc (card (peer_inflight e)) \<le> peer_limit e" "i \<notin> peer_inflight e" by simp_all
    then show ?thesis
      using e2 by (auto simp: sound_def orderly_def patient_def sparse_def attempt_limit_def
          peer_limit_def held_transactions_def held_tokens_def split: if_splits)
  qed
  then show ?thesis using served(1) e2(1) by (auto intro: inv_intros)
qed

lemma sound_taken:
  "sound e \<Longrightarrow> take_inflight i e = (r, e1) \<Longrightarrow> sound e1"
  using sound_drop_inflight [of e]
  by (cases "inflight e") (auto simp: take_inflight_def split: if_splits)

lemma sound_on_call_result [inv_intros]:
  assumes "sound e"
  shows "sound (on_call_result v i p e)"
proof (cases "take_inflight i e")
  case (Pair r e1)
  have "sound e1" by (rule sound_taken [OF assms Pair])
  then show ?thesis
    using Pair by (auto simp: on_call_result_def Let_def intro!: inv_intros split: option.split)
qed

lemma sound_on_call_error [inv_intros]:
  assumes "sound e"
  shows "sound (on_call_error v i err e)"
proof (cases "take_inflight i e")
  case (Pair r e1)
  have "sound e1" by (rule sound_taken [OF assms Pair])
  then show ?thesis
    using Pair by (auto simp: on_call_error_def Let_def intro!: inv_intros split: option.split)
qed

lemma sound_on_received [inv_intros]:
  assumes "sound e"
  shows "sound (on_received v text e)"
proof -
  have "sound (on_malformed v err x)" if "sound x" for err x
    using that by (auto simp: on_malformed_def Let_def intro!: inv_intros split: frame_reply.split)
  then show ?thesis
    using sound_quiet(2) [OF assms]
    by (auto simp: on_received_def Let_def intro!: inv_intros split: sum.split frame.split)
qed

lemma sound_handle [inv_intros]:
  assumes "sound e"
  shows "sound (handle v t i e)"
proof -
  have a: "sound (advance t e)" using assms by (rule inv_intros)
  have "sound ((advance t e)\<lparr>version := w, connected := True, peer_inflight := {}\<rparr>)" for w
    using sound_peers(1) [OF a] by (rule iffD2 [OF sound_cong, rotated -1]) simp_all
  then have "sound (on_connected v w (advance t e))" for w
    unfolding on_connected_def by (intro sound_pump sound_quiet(2))
  with a show ?thesis by (cases i) (simp_all add: handle_def Let_def inv_intros)
qed

lemma sound_cancel [inv_intros]:
  "sound e \<Longrightarrow> sound (snd (cancel v token e))"
  by (auto simp: cancel_def Let_def intro!: sound_quiet sound_remove_at split: option.split)

lemma sound_answers [inv_intros]:
  assumes "sound e"
  shows "sound (snd (respond v t i p e))" "sound (snd (respond_error v t i err e))"
    "sound (snd (reject_result v t i err e))" "sound (shutdown t d e)"
  using assms
  by (auto simp: respond_def respond_error_def reject_result_def shutdown_def take_peer_request_def
      Let_def intro!: sound_quiet sound_peers sound_observe_boot_answer)

definition session_sound :: "('s, 'g) session \<Rightarrow> bool" where
  "session_sound s \<longleftrightarrow> sound (fst s)"

lemma session_sound_step:
  assumes "session_sound s"
  shows "session_sound (step v s c)"
proof -
  obtain e log where s: "s = (e, log)" by fastforce
  then have "sound e" using assms by (simp add: session_sound_def)
  then show ?thesis
    using s
    by (cases c) (auto simp: session_sound_def poll_output_def drain_def
        intro!: inv_intros split: list.split)
qed

interpretation soundness: step_system "step v" session_sound
  by unfold_locales (rule session_sound_step)

text \<open>An engine built from a store whose messages have attempts left is sound.\<close>

lemma sound_recover:
  assumes "sound e"
    and "\<forall>(q, c) \<in> set xs. qc_attempts c < max 1 (rp_attempts (c_retry (config e)))"
  shows "sound (foldl recover_entry e xs)"
  using assms
proof (induction xs arbitrary: e)
  case (Cons x xs)
  obtain q c where x: "x = (q, c)" by fastforce
  let ?e = "minted (now e) e"
  have adv: "advance (now e) e = e" by (simp add: advance_def)
  have "sound (?e\<lparr>queue := queue ?e @ [\<lparr>p_token = next_token e, p_action = qc_action c,
      p_payload = qc_payload c, p_kind = qc_kind c, p_transactional = qc_transactional c,
      p_attempts = qc_attempts c, p_seq = Some q, p_not_before = None, p_triggered = False,
      p_queue_when_offline = True\<rparr>]\<rparr>)"
    using Cons.prems x sound_minted [OF Cons.prems(1), of "now e"]
    by (intro sound_enqueue)
      (auto simp: attempt_limit_def minted_def adv sound_def orderly_def held_tokens_def)
  then have "sound (recover_entry e x)"
    by (simp add: recover_entry_def mint_token_def x minted_def adv)
  moreover have "config (recover_entry e x) = config e"
    by (simp add: recover_entry_def mint_token_def split: prod.split)
  ultimately show ?case using Cons.IH [of "recover_entry e x"] Cons.prems(2) by simp
qed simp

lemma sound_fresh: "sound (fresh_engine cfg s g)"
  by (simp add: fresh_engine_def sound_defs)

definition attempts_left :: "('s, 'g) env \<Rightarrow> engine_config \<Rightarrow> 's \<Rightarrow> bool" where
  "attempts_left v cfg s \<longleftrightarrow>
     (case so_pending (st v) s of Inl err \<Rightarrow> True
      | Inr xs \<Rightarrow> list_all (\<lambda>(q, c). qc_attempts c < max 1 (rp_attempts (c_retry cfg))) xs)"

lemma sound_run:
  assumes "with_store v cfg s g = Inr e" and "attempts_left v cfg s"
  shows "sound (fst (run v (e, []) cs))"
proof -
  have "sound e"
    using assms sound_recover [OF sound_fresh]
    by (auto simp: with_store_def attempts_left_def list_all_iff Let_def fresh_engine_def
        split: sum.splits)
  then show ?thesis
    using soundness.run_inv [of "(e, [])" v cs] by (simp add: session_sound_def run_def)
qed

text \<open>
  C2. Transaction messages are delivered in the order they were made: in every reachable
  state, the transaction call on the wire (if one is) and then the queued transaction calls,
  front to back, are in strictly ascending order of acceptance. So the one on the wire is the
  oldest of all that are undelivered, through retries, reconnections and cancellations.
\<close>

theorem transactions_chronological:
  assumes "with_store v cfg s g = Inr e" and "attempts_left v cfg s"
  shows "sorted_wrt (<) (held_transactions (fst (run v (e, []) cs)))"
  using sound_run [OF assms] by (simp add: sound_def orderly_def)

text \<open>
  Two transaction messages made offline and a third after reconnecting; the first times out
  and goes back to the front of the queue.
\<close>

definition offline_run :: "counter_ids command list" where
  "offline_run =
     [CallWith (at_ms 1) ''TransactionEvent'' ''a'' options_triggered,
      CallWith (at_ms 2) ''TransactionEvent'' ''b'' options_triggered,
      Handle (at_ms 5) (Connected V2_1),
      CallWith (at_ms 6) ''TransactionEvent'' ''c'' options_triggered,
      Handle (at_ms 40000) Timeout]"

abbreviation offline_session :: "(mem_store, counter_ids) session" where
  "offline_session \<equiv>
     run sample_env (sample_engine (config_new ChargingStation V2_1), []) offline_run"

lemma sample_attempts_left: "attempts_left sample_env cfg mem_new"
  by (simp add: attempts_left_def sample_env_def mem_ops_def mem_pending_def mem_new_def)

theorem transactions_chronological_witness:
  "sorted_wrt (<) (held_transactions (fst offline_session)) \<and>
   held_transactions (fst offline_session) = [0, 1, 2]"
proof
  show "sorted_wrt (<) (held_transactions (fst offline_session))"
    by (rule transactions_chronological [OF sample_start sample_attempts_left])
  show "held_transactions (fst offline_session) = [0, 1, 2]" by code_simp
qed

text \<open>
  No call is put on the wire more often than the retry policy allows: in every reachable
  state the outstanding call has been transmitted between one and \<open>max 1 attempts\<close> times, and
  a queued call fewer than that.
\<close>

theorem retries_bounded:
  assumes "with_store v cfg s g = Inr e" and "attempts_left v cfg s"
    and "x = fst (run v (e, []) cs)"
  shows "(\<forall>p \<in> set (queue x). p_attempts p < max 1 (rp_attempts (c_retry (config x)))) \<and>
    (\<forall>f. inflight x = Some f \<longrightarrow>
       1 \<le> f_attempts f \<and> f_attempts f \<le> max 1 (rp_attempts (c_retry (config x))))"
  using sound_run [OF assms(1,2)] assms(3) by (simp add: sound_def patient_def attempt_limit_def)

theorem retries_bounded_witness:
  "list_all (\<lambda>p. p_attempts p < max 1 (rp_attempts (c_retry (config (fst offline_session)))))
     (queue (fst offline_session)) \<and>
   map p_attempts (queue (fst offline_session)) = [1, 0, 0]"
proof
  show "list_all (\<lambda>p. p_attempts p < max 1 (rp_attempts (c_retry (config (fst offline_session)))))
     (queue (fst offline_session))"
    unfolding list_all_iff
    using retries_bounded [OF sample_start sample_attempts_left refl,
        of "config_new ChargingStation V2_1" offline_run] by blast
  show "map p_attempts (queue (fst offline_session)) = [1, 0, 0]" by code_simp
qed

text \<open>
  The peer's unanswered calls are bounded: in every reachable state there are at most
  \<open>max 1 max_peer_requests\<close> of them, and at most one when the configuration rejects
  concurrent calls.
\<close>

theorem peer_requests_bounded:
  assumes "with_store v cfg s g = Inr e" and "attempts_left v cfg s"
    and "x = fst (run v (e, []) cs)"
  shows "finite (peer_inflight x) \<and>
    awaiting_response x \<le> max 1 (c_max_peer_requests (config x)) \<and>
    (c_inbound_concurrency (config x) = Reject \<longrightarrow> awaiting_response x \<le> 1)"
  using sound_run [OF assms(1,2), of cs] assms(3)
  by (auto simp: sound_def sparse_def peer_limit_def awaiting_response_def split: if_splits)

text \<open>A CSMS whose peer starts two calls at once.\<close>

definition eager_peer_run :: "counter_ids command list" where
  "eager_peer_run =
     [Handle (at_ms 1) (Connected V2_1),
      Handle (at_ms 2) (Received (sample_text (FrameCall ''a'' ''Heartbeat'' ''{}'') V2_1)),
      Handle (at_ms 3) (Received (sample_text (FrameCall ''b'' ''Heartbeat'' ''{}'') V2_1))]"

theorem peer_requests_bounded_witness:
  "let x = fst (run sample_env (sample_engine (config_new Csms V2_1), []) eager_peer_run) in
   awaiting_response x \<le> max 1 (c_max_peer_requests (config x)) \<and> awaiting_response x = 2"
proof -
  have "awaiting_response
      (fst (run sample_env (sample_engine (config_new Csms V2_1), []) eager_peer_run)) = 2"
    by code_simp
  with peer_requests_bounded [OF sample_start sample_attempts_left refl,
      of "config_new Csms V2_1" eager_peer_run]
  show ?thesis by (simp add: Let_def)
qed

end
