(* ===== verification/Engine_Durability.thy ===== *)
theory Engine_Durability
  imports Engine_Order
begin

text \<open>
  What a power cut cannot lose.

  A \<open>slip\<close> is what the store must know of a call that was made durable: its sequence number
  and the message itself (the attempt count is bookkeeping and is left out). \<open>filed\<close> says that
  the store's contents are exactly the slips of the calls the engine still holds, and that the
  transaction messages among them are held in the order of their sequence numbers. The locale
  \<open>stored_engine\<close> proves that every step keeps it, from nothing but the contract of
  \<open>message_store\<close>; its interpretation on \<open>MemStore\<close> gives the properties.
\<close>

section \<open>Slips\<close>

type_synonym slip = "seq \<times> queued_call"

definition slip_of :: "seq \<times> queued_call \<Rightarrow> slip" where
  "slip_of x = (fst x, (snd x)\<lparr>qc_attempts := 0\<rparr>)"

definition queue_slips :: "pending \<Rightarrow> slip list" where
  "queue_slips p =
     (case p_seq p of
        None \<Rightarrow> []
      | Some q \<Rightarrow> [(q, \<lparr>qc_action = p_action p, qc_payload = p_payload p, qc_kind = p_kind p,
                       qc_attempts = 0, qc_transactional = p_transactional p\<rparr>)])"

definition flight_slips :: "in_flight \<Rightarrow> slip list" where
  "flight_slips f =
     (case f_seq f of
        None \<Rightarrow> []
      | Some q \<Rightarrow> [(q, \<lparr>qc_action = f_action f, qc_payload = f_payload f, qc_kind = Call,
                       qc_attempts = 0, qc_transactional = f_transactional f\<rparr>)])"

definition held_slips :: "('s, 'g) engine \<Rightarrow> slip list" where
  "held_slips e =
     (case inflight e of None \<Rightarrow> [] | Some f \<Rightarrow> flight_slips f) @
     concat (map queue_slips (queue e))"

definition transaction_slips :: "slip list \<Rightarrow> slip list" where
  "transaction_slips xs = filter (\<lambda>x. qc_transactional (snd x)) xs"

definition in_seq_order :: "slip list \<Rightarrow> bool" where
  "in_seq_order xs \<longleftrightarrow> sorted_wrt (<) (map fst (transaction_slips xs))"

lemma in_seq_order_drop: "in_seq_order (xs @ ys @ zs) \<Longrightarrow> in_seq_order (xs @ zs)"
  unfolding in_seq_order_def transaction_slips_def filter_append map_append sorted_wrt_append
  by (metis UnCI set_append)

lemma slips_of_entry:
  "queue_slips \<lparr>p_token = t, p_action = f_action f, p_payload = f_payload f, p_kind = Call,
     p_transactional = f_transactional f, p_attempts = n, p_seq = f_seq f, p_not_before = b,
     p_triggered = c, p_queue_when_offline = d\<rparr> = flight_slips f"
  by (simp add: queue_slips_def flight_slips_def split: option.split)

lemma concat_remove_at:
  assumes "i < length xs"
  shows "concat (map f xs) = concat (map f (take i xs)) @ f (xs ! i) @ concat (map f (drop (Suc i) xs))"
    and "concat (map f (remove_at i xs)) = concat (map f (take i xs)) @ concat (map f (drop (Suc i) xs))"
proof -
  have "concat (map f xs) = concat (map f (take i xs @ xs ! i # drop (Suc i) xs))"
    using remove_at_split [OF assms] by simp
  then show "concat (map f xs) = concat (map f (take i xs)) @ f (xs ! i) @ concat (map f (drop (Suc i) xs))"
    by simp
  show "concat (map f (remove_at i xs)) = concat (map f (take i xs)) @ concat (map f (drop (Suc i) xs))"
    by (simp add: remove_at_def)
qed

section \<open>An engine and a store that keeps its contract\<close>

locale stored_engine = message_store "st v" contents store_ok
  for v :: "('s, 'g) env" and contents and store_ok
begin

definition on_file :: "slip multiset \<Rightarrow> 's \<Rightarrow> bool" where
  "on_file H s \<longleftrightarrow> store_ok s \<and> mset (map slip_of (contents s)) = H"

lemma on_file_push:
  assumes "on_file H s" and "so_push (st v) s c = (Inr q, s')" and "qc_attempts c = 0"
  shows "on_file (add_mset (q, c) H) s'" and "\<forall>x \<in># H. fst x < q"
proof -
  have ok: "store_ok s" using assms(1) by (simp add: on_file_def)
  have "c\<lparr>qc_attempts := 0\<rparr> = c" using assms(3) by simp
  with push_ok [OF ok assms(2)] assms(1) show "on_file (add_mset (q, c) H) s'"
    by (simp add: on_file_def slip_of_def)
  have "fst ` set_mset H = fst ` set (contents s)"
    using assms(1) by (force simp: on_file_def slip_of_def image_image)
  with push_fresh [OF ok assms(2)] show "\<forall>x \<in># H. fst x < q" by (metis imageI)
qed

lemma on_file_push_err:
  "on_file H s \<Longrightarrow> so_push (st v) s c = (Inl err, s') \<Longrightarrow> on_file H s'"
  using push_err by (auto simp: on_file_def)

lemma on_file_set_attempts:
  assumes "on_file H s" and "so_set_attempts (st v) s q n = (r, s')"
  shows "on_file H s'"
proof -
  have "map slip_of (with_attempts q n xs) = map slip_of xs" for xs
    by (auto simp: with_attempts_def slip_of_def)
  then show ?thesis
    using assms set_attempts_contents [of s q n r s'] by (simp add: on_file_def)
qed

lemma on_file_ack:
  assumes "on_file (add_mset x H) s" and "so_ack (st v) s (fst x) = (r, s')"
  shows "on_file H s'"
proof -
  have ok: "store_ok s" using assms(1) by (simp add: on_file_def)
  let ?keys = "image_mset fst (add_mset x H)"
  have "?keys = mset (map fst (contents s))"
  proof -
    have "image_mset fst (mset (map slip_of (contents s))) = mset (map fst (contents s))"
      by (simp add: slip_of_def comp_def multiset.map_comp)
    then show ?thesis using assms(1) by (simp add: on_file_def)
  qed
  then have "count ?keys (fst x) \<le> 1"
    using contents_distinct [OF ok] by (simp add: distinct_count_atmost_1)
  then have "count (image_mset fst H) (fst x) = 0" by simp
  then have "fst x \<notin># image_mset fst H" by (rule iffD2 [OF not_in_iff])
  then have "\<forall>y \<in># H. fst y \<noteq> fst x" by (metis imageI set_image_mset)
  then have "filter_mset (\<lambda>y. fst y \<noteq> fst x) H = filter_mset (\<lambda>y. True) H"
    by (intro filter_mset_cong) simp_all
  then have "filter_mset (\<lambda>y. fst y \<noteq> fst x) (add_mset x H) = H" by simp
  moreover have "map slip_of (without k xs) = filter (\<lambda>y. fst y \<noteq> k) (map slip_of xs)" for k xs
    by (simp add: without_def filter_map comp_def slip_of_def case_prod_unfold)
  ultimately show ?thesis
    using ack_contents [OF ok assms(2)] assms(1) by (simp add: on_file_def)
qed

text \<open>The invariant, and the helpers that touch neither the calls nor the store.\<close>

definition filed :: "('s, 'g) engine \<Rightarrow> bool" where
  "filed e \<longleftrightarrow> on_file (mset (held_slips e)) (store e) \<and> in_seq_order (held_slips e)"

lemma filed_cong:
  assumes "queue x = queue e" and "inflight x = inflight e" and "store x = store e"
  shows "filed x = filed e"
  using assms by (simp add: filed_def held_slips_def)

lemma filed_quiet [inv_intros]:
  "filed e \<Longrightarrow> filed (emit x e)" "filed e \<Longrightarrow> filed (arm_heartbeat e)"
  "filed e \<Longrightarrow> filed (transmit v f e)" "filed e \<Longrightarrow> filed (reject v i k c e)"
  "filed e \<Longrightarrow> filed (check_drain e)" "filed e \<Longrightarrow> filed (advance t e)"
  "filed e \<Longrightarrow> filed (snd (peer_call_refused i e))"
  "filed e \<Longrightarrow> filed (remember_solicited v a p e)" "filed e \<Longrightarrow> filed (minted t e)"
  "filed e \<Longrightarrow> filed (set_call_timeout dd e)" "filed e \<Longrightarrow> filed (set_id_generator g e)"
  by (erule iffD2 [OF filed_cong, rotated -1],
      (simp add: frame_simps minted_def set_call_timeout_def set_id_generator_def; fail)+)+

lemma filed_fields [inv_intros]:
  "filed e \<Longrightarrow> filed (e\<lparr>heartbeat_at := h\<rparr>)" "filed e \<Longrightarrow> filed (e\<lparr>boot := bs\<rparr>)"
  "filed e \<Longrightarrow> filed (e\<lparr>heartbeat_interval := d\<rparr>)" "filed e \<Longrightarrow> filed (e\<lparr>boot_retry_at := h\<rparr>)"
  "filed e \<Longrightarrow> filed (e\<lparr>draining := h\<rparr>)" "filed e \<Longrightarrow> filed (e\<lparr>outputs := os\<rparr>)"
  "filed e \<Longrightarrow> filed (e\<lparr>peer_inflight := is\<rparr>)" "filed e \<Longrightarrow> filed (e\<lparr>connected := b\<rparr>)"
  "filed e \<Longrightarrow> filed (e\<lparr>version := w\<rparr>)" "filed e \<Longrightarrow> filed (e\<lparr>ids := g\<rparr>)"
  by (erule iffD2 [OF filed_cong, rotated -1], (simp; fail)+)+

text \<open>Letting go of a call and acknowledging it in the store go together.\<close>

lemma filed_let_go:
  assumes "on_file (mset (xs @ ys @ zs)) (store e)" and "in_seq_order (xs @ ys @ zs)"
    and "held_slips e = xs @ zs"
    and "ys = (case q of None \<Rightarrow> [] | Some k \<Rightarrow> [(k, c)])"
  shows "filed (ack_store v q e)"
proof -
  have held: "held_slips (ack_store v q e) = xs @ zs"
    using assms(3) by (simp add: held_slips_def frame_simps)
  have "on_file (mset (xs @ zs)) (store (ack_store v q e))"
  proof (cases q)
    case (Some k)
    obtain r s where s: "so_ack (st v) (store e) k = (r, s)" by fastforce
    have "on_file (add_mset (k, c) (mset (xs @ zs))) (store e)"
      using assms(1,4) Some by simp
    from on_file_ack [OF this, of r s] s Some show ?thesis
      by (simp add: ack_store_def frame_simps split: sum.split)
  qed (use assms(1,4) in \<open>simp add: ack_store_def\<close>)
  then show ?thesis
    using held in_seq_order_drop [OF assms(2)] by (simp add: filed_def)
qed

lemma queue_slips_form: "\<exists>c. queue_slips p = (case p_seq p of None \<Rightarrow> [] | Some k \<Rightarrow> [(k, c)])"
  by (auto simp: queue_slips_def split: option.split)

lemma flight_slips_form: "\<exists>c. flight_slips f = (case f_seq f of None \<Rightarrow> [] | Some k \<Rightarrow> [(k, c)])"
  by (auto simp: flight_slips_def split: option.split)

lemma filed_drop_entry:
  assumes "filed e" and "i < length (queue e)"
  shows "filed (ack_store v (p_seq (queue e ! i)) (e\<lparr>queue := remove_at i (queue e)\<rparr>))"
proof -
  obtain c where c: "queue_slips (queue e ! i) = (case p_seq (queue e ! i) of None \<Rightarrow> [] | Some k \<Rightarrow> [(k, c)])"
    using queue_slips_form by blast
  let ?fl = "case inflight e of None \<Rightarrow> [] | Some f \<Rightarrow> flight_slips f"
  show ?thesis
    using assms(1)
    by (intro filed_let_go [OF _ _ _ c, of "?fl @ concat (map queue_slips (take i (queue e)))"
          "concat (map queue_slips (drop (Suc i) (queue e)))"])
      (simp_all add: filed_def held_slips_def concat_remove_at [OF assms(2), of queue_slips])
qed

lemma filed_drop_flight:
  assumes "filed (e\<lparr>inflight := Some f\<rparr>)" and "inflight e = None"
  shows "filed (ack_store v (f_seq f) e)"
proof -
  obtain c where c: "flight_slips f = (case f_seq f of None \<Rightarrow> [] | Some k \<Rightarrow> [(k, c)])"
    using flight_slips_form by blast
  show ?thesis
    using assms
    by (intro filed_let_go [OF _ _ _ c, of "[]" "concat (map queue_slips (queue e))"])
      (simp_all add: filed_def held_slips_def)
qed

lemma filed_send_entry:
  assumes "filed e" and "i < length (queue e)"
  shows "filed (send_entry v i e)"
proof -
  obtain m g where m: "next_id v (ids e) = (m, g)" by fastforce
  let ?p = "queue e ! i"
  let ?x = "transmit v (FrameSend m (p_action ?p) (p_payload ?p))
    (e\<lparr>queue := remove_at i (queue e), ids := g\<rparr>)"
  have "filed (transmit v (FrameSend m (p_action ?p) (p_payload ?p)) (e\<lparr>ids := g\<rparr>))"
    using assms(1) by (intro inv_intros)
  from filed_drop_entry [OF this, of i] assms(2)
  have y: "filed (ack_store v (p_seq ?p) (transmit v (FrameSend m (p_action ?p) (p_payload ?p))
      (e\<lparr>ids := g\<rparr>)\<lparr>queue := remove_at i (queue e)\<rparr>))" (is "filed (ack_store v _ ?y)")
    by (simp add: frame_simps)
  have "filed (ack_store v (p_seq ?p) ?x) = filed (ack_store v (p_seq ?p) ?y)"
    by (rule filed_cong)
      (simp_all add: frame_simps ack_store_def split: option.split prod.split sum.split)
  with y m show ?thesis by (simp add: send_entry_def Let_def inv_intros)
qed

text \<open>Starting a call moves its slip from the queue to the slot.\<close>

lemma slips_start_call:
  assumes "inflight e = None" and "next_of_kind Call e = Some i"
  shows "held_slips (start_call v i e) = queue_slips (queue e ! i) @
      concat (map queue_slips (remove_at i (queue e)))"
proof -
  have "p_kind (queue e ! i) = Call" using next_of_kind_Some [OF assms(2)] by simp
  then show ?thesis
    by (simp add: start_call_def held_slips_def flight_slips_def queue_slips_def Let_def frame_simps
        split: prod.split option.split)
qed

lemma filed_start_call:
  assumes "filed e" and "inflight e = None" and "next_of_kind Call e = Some i"
  shows "filed (start_call v i e)"
proof -
  have i: "i < length (queue e)" "eligible e i" using next_of_kind_Some [OF assms(3)] by simp_all
  let ?p = "queue e ! i"
  let ?l = "concat (map queue_slips (take i (queue e)))"
  let ?r = "concat (map queue_slips (drop (Suc i) (queue e)))"
  have e: "held_slips e = ?l @ queue_slips ?p @ ?r"
    using assms(2) concat_remove_at(1) [OF i(1), of queue_slips] by (simp add: held_slips_def)
  have x: "held_slips (start_call v i e) = queue_slips ?p @ ?l @ ?r"
    using slips_start_call [OF assms(2,3)] concat_remove_at(2) [OF i(1), of queue_slips] by simp
  have "transaction_slips (queue_slips ?p @ ?l @ ?r) = transaction_slips (?l @ queue_slips ?p @ ?r)"
  proof (cases "p_transactional ?p")
    case True
    then have "position p_transactional (queue e) = Some i"
      using i(2) by (auto simp: eligible_def Let_def split: if_splits)
    then have "\<forall>p \<in> set (take i (queue e)). \<not> p_transactional p"
      by (auto simp: position_Some in_set_conv_nth)
    then have "transaction_slips ?l = []"
      by (auto simp: transaction_slips_def filter_empty_conv queue_slips_def split: option.splits)
    then show ?thesis by (simp add: transaction_slips_def)
  next
    case False
    then have "transaction_slips (queue_slips ?p) = []"
      by (simp add: transaction_slips_def queue_slips_def split: option.split)
    then show ?thesis by (simp add: transaction_slips_def)
  qed
  then show ?thesis
    using assms(1) e x by (simp add: filed_def in_seq_order_def frame_simps ac_simps)
qed

lemma filed_pump [inv_intros]: "filed e \<Longrightarrow> filed (pump v e)"
  by (rule pump_induct) (auto intro: filed_send_entry filed_start_call dest: next_of_kind_Some)

lemma filed_requeue_or_fail:
  assumes "filed (e\<lparr>inflight := Some f\<rparr>)" and "inflight e = None"
  shows "filed (requeue_or_fail v f why e)"
proof (cases "f_transactional f \<and> may_retry (c_retry (config e)) (f_attempts f)")
  case True
  obtain nb entry where nb: "requeue_or_fail v f why e = emit (SetTimer TransactionRetry nb)
      ((set_attempts_store v (f_seq f) (f_attempts f) e)\<lparr>queue := entry # queue e\<rparr>)"
    "queue_slips entry = flight_slips f"
    using True by (auto simp: requeue_or_fail_def Let_def frame_simps queue_slips_def flight_slips_def
        split: option.splits)
  have "on_file H (store (set_attempts_store v q n e))" if "on_file H (store e)" for H q n
    using that on_file_set_attempts
    by (auto simp: set_attempts_store_def frame_simps split: option.split prod.split sum.split)
  then show ?thesis
    using assms nb by (simp add: filed_def held_slips_def frame_simps)
next
  case False
  then show ?thesis
    using filed_drop_flight [OF assms] by (auto simp: requeue_or_fail_def Let_def intro: inv_intros)
qed

lemma filed_offline_sweep:
  "filed (e\<lparr>queue := kept @ rest\<rparr>) \<Longrightarrow> filed (offline_sweep v kept rest e)"
proof (induction rest arbitrary: kept e)
  case (Cons entry rest)
  show ?case
  proof (cases "p_queue_when_offline entry")
    case True
    then show ?thesis using Cons.IH [of "kept @ [entry]" "e\<lparr>queue := rest\<rparr>"] Cons.prems by simp
  next
    case False
    let ?x = "emit (outcome (p_token entry) None (p_action entry) (Inl Disconnected))
      (ack_store v (p_seq entry) (e\<lparr>queue := rest\<rparr>))"
    have "filed (ack_store v (p_seq entry) (e\<lparr>queue := kept @ rest\<rparr>))"
      using filed_drop_entry [OF Cons.prems, of "length kept"] by (simp add: remove_at_def)
    moreover have "store (ack_store v q (e\<lparr>queue := ps\<rparr>)) = store (ack_store v q e)" for q ps
      by (simp add: ack_store_def frame_simps split: option.split prod.split sum.split)
    ultimately have "filed (?x\<lparr>queue := kept @ rest\<rparr>)"
      by (elim iffD2 [OF filed_cong, rotated -1]) (simp_all add: frame_simps)
    from Cons.IH [OF this] False show ?thesis by simp
  qed
qed simp

lemma filed_on_disconnected [inv_intros]:
  assumes "filed e"
  shows "filed (on_disconnected v e)"
proof -
  let ?e2 = "(emit (ClearTimer HeartbeatTimer) (emit (ClearTimer CallTimeout)
    (e\<lparr>connected := False, peer_inflight := {}\<rparr>)))\<lparr>heartbeat_at := None\<rparr>"
  have e2: "filed ?e2"
    using assms by (rule iffD2 [OF filed_cong, rotated -1]) (simp_all add: frame_simps)
  have "filed (case inflight ?e2 of
      Some f \<Rightarrow> requeue_or_fail v f Disconnected (?e2\<lparr>inflight := None\<rparr>) | None \<Rightarrow> ?e2)"
    (is "filed ?e3")
  proof (cases "inflight ?e2")
    case (Some f)
    have "filed ((?e2\<lparr>inflight := None\<rparr>)\<lparr>inflight := Some f\<rparr>)"
      using e2 by (rule iffD2 [OF filed_cong, rotated -1]) (use Some in simp_all)
    then show ?thesis using Some by (simp add: filed_requeue_or_fail)
  qed (use e2 in simp)
  then have "filed (offline_sweep v [] (queue ?e3) ?e3)"
    by (intro filed_offline_sweep) simp
  then show ?thesis unfolding on_disconnected_def Let_def by (rule inv_intros)
qed

text \<open>A new durable call is written to the store before it is queued.\<close>

lemma persisted:
  assumes "filed e" and "persist_call v b c e = (r, x)" and "qc_attempts c = 0"
  shows "held_slips x = held_slips e" and
    "case r of
       None \<Rightarrow> filed x
     | Some None \<Rightarrow> filed x
     | Some (Some q) \<Rightarrow> on_file (add_mset (q, c) (mset (held_slips e))) (store x) \<and>
         (\<forall>y \<in> set (held_slips e). fst y < q)"
proof -
  show "held_slips x = held_slips e"
    using assms(2) by (auto simp: persist_call_def held_slips_def frame_simps split: if_splits prod.splits sum.splits)
  have f: "on_file (mset (held_slips e)) (store e)" using assms(1) by (simp add: filed_def)
  show "case r of None \<Rightarrow> filed x | Some None \<Rightarrow> filed x
     | Some (Some q) \<Rightarrow> on_file (add_mset (q, c) (mset (held_slips e))) (store x) \<and>
         (\<forall>y \<in> set (held_slips e). fst y < q)"
  proof (cases b)
    case False
    then show ?thesis using assms(1,2) by (auto simp: persist_call_def)
  next
    case True
    obtain z s where z: "so_push (st v) (store e) c = (z, s)" by fastforce
    show ?thesis
    proof (cases z)
      case (Inl err)
      with z on_file_push_err [OF f] have "on_file (mset (held_slips e)) s" by blast
      then show ?thesis
        using assms(1,2) True z Inl by (auto simp: persist_call_def filed_def held_slips_def frame_simps)
    next
      case (Inr q)
      with z on_file_push [OF f _ assms(3), of q s] show ?thesis
        using assms(2) True by (auto simp: persist_call_def)
    qed
  qed
qed

lemma filed_enqueue:
  assumes "held_slips e = hs" and "in_seq_order hs"
    and "on_file (mset (hs @ queue_slips p)) (store e)"
    and "\<forall>x \<in> set (queue_slips p). \<forall>y \<in> set hs. fst y < fst x"
  shows "filed (e\<lparr>queue := queue e @ [p]\<rparr>)"
proof -
  have "held_slips (e\<lparr>queue := queue e @ [p]\<rparr>) = hs @ queue_slips p"
    using assms(1) by (auto simp: held_slips_def)
  moreover have "in_seq_order (hs @ queue_slips p)"
    using assms(2,4)
    by (auto simp: in_seq_order_def transaction_slips_def sorted_wrt_append queue_slips_def
        split: option.split)
  ultimately show ?thesis using assms(3) by (simp add: filed_def)
qed

lemma filed_call_with [inv_intros]:
  assumes "filed e"
  shows "filed (snd (call_with v t a p opts e))"
proof (cases rule: call_with_cases [of v t a p opts e])
  case (refused err)
  then show ?thesis using assms by (auto intro: inv_intros)
next
  case (answered e1 why)
  have m: "filed (minted t e)" using assms by (rule inv_intros)
  from answered(2) have "filed e1"
  proof
    assume "\<exists>k. persist_call v (wants_persist e a opts) (stored_form e a p k) (minted t e) = (None, e1)"
    then obtain k where
      "persist_call v (wants_persist e a opts) (stored_form e a p k) (minted t e) = (None, e1)" ..
    from persisted(2) [OF m this] show ?thesis by (simp add: stored_form_def)
  qed (use m in simp)
  then show ?thesis using answered(1) by (auto simp: fail_def intro: inv_intros)
next
  case (queued k q e2 e3)
  have m: "filed (minted t e)" using assms by (rule inv_intros)
  note pers = persisted [OF m queued(3)]
  let ?c = "stored_form e a p k" and ?p = "queued_form e a p k opts q"
  let ?hs = "held_slips (minted t e)"
  have slips: "queue_slips ?p = (case q of None \<Rightarrow> [] | Some n \<Rightarrow> [(n, ?c)])"
    by (simp add: queue_slips_def queued_form_def stored_form_def split: option.split)
  have e3: "held_slips e3 = ?hs" "store e3 = store e2"
    using queued(2) pers(1) by (auto simp: stored_form_def held_slips_def frame_simps)
  have "in_seq_order ?hs" using m by (simp add: filed_def)
  moreover have "on_file (mset (?hs @ queue_slips ?p)) (store e3)"
    using pers e3 slips m by (cases q) (auto simp: stored_form_def filed_def)
  moreover have "\<forall>x \<in> set (queue_slips ?p). \<forall>y \<in> set ?hs. fst y < fst x"
    using pers slips by (cases q) (auto simp: stored_form_def)
  ultimately have "filed (e3\<lparr>queue := queue e3 @ [?p]\<rparr>)"
    by (intro filed_enqueue [OF e3(1)])
  then show ?thesis using queued(1) by (auto intro: inv_intros)
qed

lemma filed_observe_boot_answer [inv_intros]:
  "filed e \<Longrightarrow> filed (observe_boot_answer v p out e)"
  by (auto simp: observe_boot_answer_def Let_def intro!: inv_intros split: option.split)

lemma filed_on_timeout [inv_intros]:
  assumes "filed e"
  shows "filed (on_timeout v e)"
proof -
  have "filed (call_timeout_due v e)"
  proof (cases "inflight e")
    case (Some f)
    have "filed ((emit (ClearTimer CallTimeout) (e\<lparr>inflight := None\<rparr>))\<lparr>inflight := Some f\<rparr>)"
      using assms by (rule iffD2 [OF filed_cong, rotated -1]) (simp_all add: Some frame_simps)
    then show ?thesis
      using assms Some by (simp add: call_timeout_due_def filed_requeue_or_fail frame_simps)
  qed (use assms in \<open>simp add: call_timeout_due_def\<close>)
  moreover have "filed (heartbeat_due v x)" if "filed x" for x
    using that by (auto simp: heartbeat_due_def send_heartbeat_def Let_def
        intro!: inv_intros split: option.split)
  moreover have "filed (boot_retry_due x)" if "filed x" for x
    using that by (auto simp: boot_retry_due_def intro!: inv_intros split: option.split)
  ultimately show ?thesis by (simp add: on_timeout_def Let_def inv_intros)
qed

lemma filed_on_call [inv_intros]:
  assumes "filed e"
  shows "filed (on_call v i a p k e)"
proof (cases rule: on_call_cases [of v i a p k e])
  case (rejected c e1)
  then have "filed e1" using assms by (auto intro: inv_intros)
  then show ?thesis using rejected(1) by (simp add: inv_intros)
next
  case (served e1 e2)
  have "e1 = e \<or> e1 = snd (peer_call_refused i e)"
    using served(3) by (auto split: if_splits)
  then have "filed e2" using assms served(2) by (auto intro: inv_intros)
  then show ?thesis using served(1) by (auto intro!: inv_intros)
qed

lemma filed_answered:
  assumes "filed e" and "take_inflight i e = (r, x)"
  shows "case r of None \<Rightarrow> filed x | Some f \<Rightarrow> filed (ack_store v (f_seq f) x)"
proof (cases r)
  case None
  then show ?thesis using assms by (auto simp: take_inflight_def split: option.splits if_splits)
next
  case (Some f)
  then have x: "x = e\<lparr>inflight := None\<rparr>" "inflight e = Some f"
    using assms(2) by (auto simp: take_inflight_def split: option.splits if_splits)
  have "filed (x\<lparr>inflight := Some f\<rparr>)"
    using assms(1) by (rule iffD2 [OF filed_cong, rotated -1]) (simp_all add: x)
  from filed_drop_flight [OF this] x Some show ?thesis by simp
qed

lemma filed_on_response [inv_intros]:
  assumes "filed e"
  shows "filed (on_call_result v i p e)" "filed (on_call_error v i err e)"
proof -
  obtain r x where r: "take_inflight i e = (r, x)" by fastforce
  have "filed (on_call_result v i p e) \<and> filed (on_call_error v i err e)"
  proof (cases r)
    case None
    with filed_answered [OF assms r] r show ?thesis
      by (auto simp: on_call_result_def on_call_error_def intro: inv_intros)
  next
    case (Some f)
    with filed_answered [OF assms r] have "filed (ack_store v (f_seq f) x)" by simp
    with r Some show ?thesis
      by (auto simp: on_call_result_def on_call_error_def Let_def intro!: inv_intros
          split: option.split)
  qed
  then show "filed (on_call_result v i p e)" "filed (on_call_error v i err e)" by simp_all
qed

lemma filed_on_received [inv_intros]:
  assumes "filed e"
  shows "filed (on_received v text e)"
proof -
  have "filed (on_malformed v err x)" if "filed x" for err x
    using that by (auto simp: on_malformed_def Let_def intro!: inv_intros split: frame_reply.split)
  then show ?thesis
    using filed_quiet(2) [OF assms]
    by (auto simp: on_received_def Let_def intro!: inv_intros split: sum.split frame.split)
qed

lemma filed_handle [inv_intros]: "filed e \<Longrightarrow> filed (handle v t i e)"
  by (auto simp: handle_def on_connected_def Let_def intro!: inv_intros split: engine_input.split)

lemma filed_cancel [inv_intros]:
  "filed e \<Longrightarrow> filed (snd (cancel v token e))"
  by (auto simp: cancel_def Let_def position_Some intro!: filed_quiet(1) filed_drop_entry
      split: option.split)

lemma filed_commands [inv_intros]:
  assumes "filed e"
  shows "filed (snd (respond v t i p e))" "filed (snd (respond_error v t i err e))"
    "filed (snd (reject_result v t i err e))" "filed (shutdown t d e)"
  using assms
  by (auto simp: respond_def respond_error_def reject_result_def shutdown_def take_peer_request_def
      Let_def intro!: inv_intros)

lemma filed_step: "filed (fst s) \<Longrightarrow> filed (fst (step v s c))"
  by (cases s; cases c) (auto simp: poll_output_def drain_def intro!: inv_intros split: list.split)

sublocale filing: step_system "step v" "\<lambda>s. filed (fst s)"
  by unfold_locales (rule filed_step)

text \<open>An engine is built with a slip for everything in the store, in the store's order.\<close>

lemma recovered:
  "held_slips (foldl recover_entry e xs) = held_slips e @ map slip_of xs"
  "store (foldl recover_entry e xs) = store e"
proof (induction xs arbitrary: e)
  case (Cons x xs)
  {
    case 1
    have "held_slips (recover_entry e x) = held_slips e @ [slip_of x]"
      by (simp add: recover_entry_def mint_token_def held_slips_def queue_slips_def slip_of_def
          split: prod.split)
    then show ?case using Cons.IH(1) [of "recover_entry e x"] by simp
  next
    case 2
    then show ?case
      using Cons.IH(2) [of "recover_entry e x"]
      by (simp add: recover_entry_def mint_token_def split: prod.split)
  }
qed simp_all

lemma filed_with_store:
  assumes "with_store v cfg s g = Inr e" and "store_ok s"
  shows "filed e" and "held_slips e = map slip_of (contents s)"
proof -
  obtain xs where xs: "so_pending (st v) s = Inr xs" "e = foldl recover_entry (fresh_engine cfg s g) xs"
    using assms(1) by (auto simp: with_store_def fresh_engine_def Let_def split: sum.splits)
  have "xs = contents s" by (rule pending_contents [OF assms(2) xs(1)])
  moreover have "held_slips (fresh_engine cfg s g) = []"
    by (simp add: fresh_engine_def held_slips_def)
  ultimately show held: "held_slips e = map slip_of (contents s)"
    using xs(2) recovered(1) [of "fresh_engine cfg s g" xs] by simp
  have "sorted_wrt (<) (map fst (transaction_slips (map slip_of (contents s))))"
    using contents_sorted [OF assms(2)]
    unfolding transaction_slips_def
    by (intro sorted_wrt_map_filter) (simp add: slip_of_def comp_def)
  then show "filed e"
    using held xs(2) recovered(2) [of "fresh_engine cfg s g" xs] assms(2)
    by (simp add: filed_def on_file_def in_seq_order_def fresh_engine_def)
qed

lemma run_filed:
  "with_store v cfg s g = Inr e \<Longrightarrow> store_ok s \<Longrightarrow> filed (fst (run v (e, []) cs))"
  using filing.run_inv [of "(e, [])" cs] filed_with_store(1) [of cfg s g e] by (simp add: run_def)

text \<open>Two lists with the same elements and strictly ascending keys are the same list.\<close>

lemma same_transactions:
  assumes "mset xs = mset ys" and "in_seq_order xs" and "in_seq_order ys"
  shows "transaction_slips xs = transaction_slips ys"
proof -
  let ?xs = "transaction_slips xs" and ?ys = "transaction_slips ys"
  have m: "mset ?xs = mset ?ys" using assms(1) by (simp add: transaction_slips_def)
  have d: "distinct (map fst ?ys)" "sorted (map fst ?xs)" "sorted (map fst ?ys)"
    using assms(2,3) by (simp_all add: in_seq_order_def strict_sorted_iff)
  have eq: "set ?xs = set ?ys" using m by (metis set_mset_mset)
  have "distinct (map fst ?xs)" using assms(2) by (simp add: in_seq_order_def strict_sorted_iff)
  moreover have "inj_on fst (set ?xs \<union> set ?ys)" using d(1) eq by (simp add: distinct_map)
  ultimately show ?thesis using d eq by (intro map_sorted_distinct_set_unique)
qed

lemma recovery:
  assumes "with_store v cfg s g = Inr e" and "store_ok s"
    and "with_store v cfg' (store (fst (run v (e, []) cs))) g' = Inr e'"
  shows "mset (held_slips e') = mset (held_slips (fst (run v (e, []) cs))) \<and>
    transaction_slips (held_slips e') = transaction_slips (held_slips (fst (run v (e, []) cs)))"
proof -
  let ?x = "fst (run v (e, []) cs)"
  have x: "filed ?x" by (rule run_filed [OF assms(1,2)])
  then have ok: "store_ok (store ?x)" by (simp add: filed_def on_file_def)
  have "mset (held_slips e') = mset (held_slips ?x)"
    using x filed_with_store(2) [OF assms(3) ok] by (simp add: filed_def on_file_def)
  moreover have "in_seq_order (held_slips e')"
    using filed_with_store(1) [OF assms(3) ok] by (simp add: filed_def)
  ultimately show ?thesis
    using same_transactions [of "held_slips e'" "held_slips ?x"] x by (simp add: filed_def)
qed

end

section \<open>The in-memory store\<close>

text \<open>Any environment around \<open>MemStore\<close>.\<close>

definition mem_env :: "serde \<Rightarrow> ('g \<Rightarrow> message_id \<times> 'g) \<Rightarrow> (frame \<Rightarrow> string) \<Rightarrow> (mem_store, 'g) env" where
  "mem_env j n err = \<lparr>js = j, st = mem_ops, next_id = n, json_error = err\<rparr>"

interpretation mem_engine: stored_engine "mem_env j n err" ms_entries mem_ok
  unfolding stored_engine_def mem_env_def by (simp add: mem.message_store_axioms)

text \<open>
  C5. A durable call is in the store exactly as long as the engine holds it: in every reachable
  state, the messages in the store are those of the queued and outstanding calls that were made
  durable, each once and with its payload unchanged, and nothing else.
\<close>

theorem store_matches_engine:
  assumes "with_store (mem_env j n err) cfg s g = Inr e" and "mem_ok s"
    and "x = fst (run (mem_env j n err) (e, []) cs)"
  shows "mset (map slip_of (ms_entries (store x))) = mset (held_slips x)"
  using mem_engine.run_filed [OF assms(1,2)] assms(3)
  by (simp add: mem_engine.filed_def mem_engine.on_file_def)

text \<open>
  C3. Nothing durable is lost or reordered by a restart: an engine built from the store an
  earlier engine left behind, at any moment of any run, holds exactly the durable calls the
  earlier one held, and the transaction messages among them in the same order.
\<close>

theorem restart_recovers:
  assumes "with_store (mem_env j n err) cfg s g = Inr e" and "mem_ok s"
    and "x = fst (run (mem_env j n err) (e, []) cs)"
    and "with_store (mem_env j n err) cfg' (store x) g' = Inr y"
  shows "mset (held_slips y) = mset (held_slips x) \<and>
    transaction_slips (held_slips y) = transaction_slips (held_slips x)"
  using mem_engine.recovery [OF assms(1,2), of cfg' cs g' y] assms(3,4) by simp

text \<open>
  A power cut with one transaction message on the wire and one behind it, after a third has
  been answered.
\<close>

definition power_cut_run :: "counter_ids command list" where
  "power_cut_run =
     [CallWith (at_ms 1) ''TransactionEvent'' ''a'' options_triggered,
      CallWith (at_ms 2) ''TransactionEvent'' ''b'' options_triggered,
      CallWith (at_ms 2) ''TransactionEvent'' ''c'' options_triggered,
      Handle (at_ms 5) (Connected V2_1),
      Handle (at_ms 6) (Received (sample_text (FrameCallResult ''k0'' ''{}'') V2_1))]"

definition power_cut :: "(mem_store, counter_ids) engine" where
  "power_cut = fst (run sample_env (sample_engine (config_new ChargingStation V2_1), []) power_cut_run)"

lemma sample_env_mem: "sample_env = mem_env sample_serde counter_source (\<lambda>_. [])"
  by (simp add: sample_env_def mem_env_def)

theorem store_matches_engine_witness:
  "mset (map slip_of (ms_entries (store power_cut))) = mset (held_slips power_cut) \<and>
   map (\<lambda>x. qc_payload (snd x)) (held_slips power_cut) = [''b'', ''c'']"
proof
  show "mset (map slip_of (ms_entries (store power_cut))) = mset (held_slips power_cut)"
    unfolding power_cut_def sample_env_mem
    by (rule store_matches_engine [OF sample_start [unfolded sample_env_mem] mem_ok_new(1) refl])
  show "map (\<lambda>x. qc_payload (snd x)) (held_slips power_cut) = [''b'', ''c'']" by code_simp
qed

theorem restart_recovers_witness:
  "\<exists>y. with_store sample_env (config_new ChargingStation V2_1) (store power_cut)
         (counter_with_prefix ''r'') = Inr y \<and>
     transaction_slips (held_slips y) = transaction_slips (held_slips power_cut) \<and>
     length (transaction_slips (held_slips power_cut)) = 2"
proof -
  obtain y where y: "with_store sample_env (config_new ChargingStation V2_1) (store power_cut)
      (counter_with_prefix ''r'') = Inr y"
    by (simp add: with_store_def sample_env_def mem_ops_def mem_pending_def Let_def)
  have "length (transaction_slips (held_slips power_cut)) = 2" by code_simp
  moreover have "transaction_slips (held_slips y) = transaction_slips (held_slips power_cut)"
    using restart_recovers [OF sample_start [unfolded sample_env_mem] mem_ok_new(1) refl
        y [unfolded power_cut_def sample_env_mem]]
    by (simp add: power_cut_def sample_env_mem)
  ultimately show ?thesis using y by blast
qed

end
