(* ===== verification/Engine_Gate.thy ===== *)
theory Engine_Gate
  imports Engine_Timers
begin

text \<open>
  What crosses the connection: which messages of the peer reach the application and what
  becomes of the others, what the station may say before it is accepted, what happens to
  responses nobody asked for, and when a drain closes the connection.
\<close>

section \<open>The station's boot gate\<close>

text \<open>\<open>text\<close> is the message of the queue entry \<open>p\<close>, under some id.\<close>

definition message_of :: "('s, 'g) env \<Rightarrow> version \<Rightarrow> pending \<Rightarrow> string \<Rightarrow> bool" where
  "message_of v w p text \<longleftrightarrow>
     (\<exists>i. to_json (js v) (FrameCall i (p_action p) (p_payload p)) w = Some text \<or>
          to_json (js v) (FrameSend i (p_action p) (p_payload p)) w = Some text)"

lemma transmits_arm_heartbeat: "Transmit t \<in> set (outputs (arm_heartbeat e)) \<longleftrightarrow> Transmit t \<in> set (outputs e)"
  by (simp add: arm_heartbeat_def emit_def Let_def split: option.split)

lemma transmits_transmit:
  "Transmit t \<in> set (outputs (transmit v f e)) \<longleftrightarrow>
   Transmit t \<in> set (outputs e) \<or> to_json (js v) f (version e) = Some t"
  by (auto simp: transmit_def transmits_arm_heartbeat emit_def split: option.split)

lemma transmits_ack_store: "Transmit t \<in> set (outputs (ack_store v q e)) \<longleftrightarrow> Transmit t \<in> set (outputs e)"
  by (simp add: ack_store_def emit_def split: option.split prod.split sum.split)

lemma transmits_send_entry:
  "Transmit t \<in> set (outputs (send_entry v i e)) \<Longrightarrow>
   Transmit t \<in> set (outputs e) \<or> message_of v (version e) (queue e ! i) t"
  by (auto simp: send_entry_def Let_def frame_simps transmits_transmit transmits_ack_store
      message_of_def outcome_def split: prod.splits)

lemma transmits_start_call:
  "Transmit t \<in> set (outputs (start_call v i e)) \<Longrightarrow>
   Transmit t \<in> set (outputs e) \<or> message_of v (version e) (queue e ! i) t"
  by (auto simp: start_call_def Let_def frame_simps transmits_transmit message_of_def
      split: prod.splits)

definition gate_closed :: "('s, 'g) engine \<Rightarrow> bool" where
  "gate_closed e \<longleftrightarrow>
     c_enforce_boot_gate (config e) \<and> c_role (config e) = ChargingStation \<and>
     \<not> allows_traffic (boot e)"

definition passes_gate :: "pending \<Rightarrow> bool" where
  "passes_gate p \<longleftrightarrow> p_action p = ''BootNotification'' \<or> p_triggered p"

lemma eligible_gate: "gate_closed e \<Longrightarrow> eligible e i \<Longrightarrow> passes_gate (queue e ! i)"
  by (auto simp: eligible_def gate_closed_def passes_gate_def Let_def split: if_splits)

text \<open>What the pump may have done to \<open>e\<close>, with the gate closed, when it has reached \<open>x\<close>.\<close>

definition gate_respected :: "('s, 'g) env \<Rightarrow> ('s, 'g) engine \<Rightarrow> ('s, 'g) engine \<Rightarrow> bool" where
  "gate_respected v e x \<longleftrightarrow>
     gate_closed x \<and> version x = version e \<and> set (queue x) \<subseteq> set (queue e) \<and>
     (\<forall>text. Transmit text \<in> set (outputs x) \<longrightarrow> Transmit text \<in> set (outputs e) \<or>
       (\<exists>p \<in> set (queue e). passes_gate p \<and> message_of v (version e) p text)) \<and>
     filter (\<lambda>p. \<not> passes_gate p) (queue x) = filter (\<lambda>p. \<not> passes_gate p) (queue e) \<and>
     (\<forall>f. inflight x = Some f \<longrightarrow>
        inflight e = Some f \<or> f_action f = ''BootNotification'' \<or> f_triggered f)"

lemma gate_next:
  assumes "gate_respected v e x" and "next_of_kind k x = Some i"
  shows "queue x ! i \<in> set (queue e) \<and> passes_gate (queue x ! i) \<and>
    filter (\<lambda>p. \<not> passes_gate p) (remove_at i (queue x)) = filter (\<lambda>p. \<not> passes_gate p) (queue x)"
proof -
  have i: "i < length (queue x)" "eligible x i" using next_of_kind_Some [OF assms(2)] by simp_all
  then have "passes_gate (queue x ! i)"
    using assms(1) eligible_gate [of x i] by (simp add: gate_respected_def)
  then show ?thesis
    using i assms(1) filter_remove_at [OF i(1)] nth_mem [OF i(1)]
    by (auto simp: gate_respected_def)
qed

lemma gate_step:
  assumes x: "gate_respected v e x" and i: "next_of_kind k x = Some i"
    and y: "gate_closed y" "version y = version x" "queue y = remove_at i (queue x)"
    and said: "\<And>t. Transmit t \<in> set (outputs y) \<Longrightarrow>
      Transmit t \<in> set (outputs x) \<or> message_of v (version x) (queue x ! i) t"
    and taken: "\<And>f. inflight y = Some f \<Longrightarrow> inflight x = Some f \<or>
      f_action f = p_action (queue x ! i) \<and> f_triggered f = p_triggered (queue x ! i)"
  shows "gate_respected v e y"
proof -
  note n = gate_next [OF x i]
  have "Transmit t \<in> set (outputs e) \<or>
      (\<exists>p \<in> set (queue e). passes_gate p \<and> message_of v (version e) p t)"
    if "Transmit t \<in> set (outputs y)" for t
  proof (cases "Transmit t \<in> set (outputs x)")
    case False
    then have "message_of v (version e) (queue x ! i) t"
      using x said [OF that] by (auto simp: gate_respected_def)
    then show ?thesis using n by blast
  qed (use x in \<open>simp add: gate_respected_def\<close>)
  moreover have "set (queue y) \<subseteq> set (queue e)"
    using x y(3) set_remove_at [of i "queue x"] by (auto simp: gate_respected_def)
  moreover have "inflight e = Some f \<or> f_action f = ''BootNotification'' \<or> f_triggered f"
    if "inflight y = Some f" for f
    using x n taken [OF that] by (auto simp: gate_respected_def passes_gate_def)
  ultimately show ?thesis
    using x y n by (simp add: gate_respected_def)
qed

lemma gate_respected_pump:
  assumes "gate_closed e"
  shows "gate_respected v e (pump v e)"
proof (rule pump_induct [where P = "gate_respected v e"])
  show "gate_respected v e e" using assms by (simp add: gate_respected_def)
next
  fix i x
  assume x: "gate_respected v e x" "next_of_kind Send x = Some i"
  then show "gate_respected v e (send_entry v i x)"
    by (rule gate_step)
      (use x(1) in \<open>auto simp: gate_respected_def gate_closed_def frame_simps queue_send_entry
        dest: transmits_send_entry\<close>)
next
  fix i x
  assume x: "gate_respected v e x" "inflight x = None" "next_of_kind Call x = Some i"
  have f: "f_action f = p_action (queue x ! i) \<and> f_triggered f = p_triggered (queue x ! i)"
    if "inflight (start_call v i x) = Some f" for f
    using that by (auto simp: start_call_def Let_def split: prod.splits)
  show "gate_respected v e (start_call v i x)"
    by (rule gate_step [OF x(1,3)])
      (use x(1) f in \<open>auto simp: gate_respected_def gate_closed_def frame_simps queue_start_call
        dest: transmits_start_call\<close>)
qed

text \<open>
  C6. Until the CSMS accepts it, a station says only what it may: with the boot gate closed,
  everything \<open>pump\<close> writes is a \<open>BootNotification\<close> or a message the CSMS asked for, from the
  queue; every other call stays queued, in order, and none of them becomes outstanding.
\<close>

theorem boot_gate_holds:
  assumes "gate_closed e"
  shows "(\<forall>text. Transmit text \<in> set (outputs (pump v e)) \<longrightarrow>
      Transmit text \<in> set (outputs e) \<or>
      (\<exists>p \<in> set (queue e). passes_gate p \<and> message_of v (version e) p text)) \<and>
    filter (\<lambda>p. \<not> passes_gate p) (queue (pump v e)) = filter (\<lambda>p. \<not> passes_gate p) (queue e) \<and>
    (\<forall>f. inflight (pump v e) = Some f \<longrightarrow>
       inflight e = Some f \<or> f_action f = ''BootNotification'' \<or> f_triggered f)"
  using gate_respected_pump [OF assms, of v] by (simp add: gate_respected_def)

text \<open>A station that has been answered \<open>Pending\<close>, with two calls queued before it connects.\<close>

definition unaccepted_station :: "(mem_store, counter_ids) engine" where
  "unaccepted_station =
     (fst (run sample_env (sample_engine (config_new ChargingStation V2_0_1), [])
        [CallWith (at_ms 1) ''TransactionEvent'' ''a'' options_default,
         CallWith (at_ms 2) ''TransactionEvent'' ''b'' options_default]))
     \<lparr>connected := True, boot := BootPending\<rparr>"

theorem boot_gate_holds_witness:
  "gate_closed unaccepted_station \<and> inflight (pump sample_env unaccepted_station) = None \<and>
   map p_payload (filter (\<lambda>p. \<not> passes_gate p) (queue (pump sample_env unaccepted_station)))
     = [''a'', ''b'']"
proof -
  have "gate_closed unaccepted_station" by code_simp
  moreover have "map p_payload (filter (\<lambda>p. \<not> passes_gate p) (queue unaccepted_station)) = [''a'', ''b'']"
    by code_simp
  moreover have "inflight (pump sample_env unaccepted_station) = None" by code_simp
  ultimately show ?thesis
    using boot_gate_holds [of unaccepted_station sample_env] by simp
qed

section \<open>The peer's messages\<close>

lemma said_reject:
  "k = Call \<Longrightarrow>
   (\<exists>text. to_json (js v) (FrameCallError i (of_call_error c)) (version e) = Some text \<and>
      said_in (Transmit text) (reject v i k c e)) \<or>
   to_json (js v) (FrameCallError i (of_call_error c)) (version e) = None"
  by (auto simp: reject_def transmit_def said_in_def transmits_arm_heartbeat frame_simps
      split: option.split)

text \<open>What \<open>on_received\<close> does to the engine before it looks at the frame.\<close>

definition greeted :: "frame \<Rightarrow> ('s, 'g) engine \<Rightarrow> ('s, 'g) engine" where
  "greeted f e =
     (if is_conforming (frame_id f) then arm_heartbeat e
      else emit (Violation (NonConformingMessageId (frame_id f))) (arm_heartbeat e))"

lemma frame_greeted [frame_simps]:
  "config (greeted f e) = config e" "store (greeted f e) = store e" "ids (greeted f e) = ids e"
  "queue (greeted f e) = queue e" "inflight (greeted f e) = inflight e"
  "peer_inflight (greeted f e) = peer_inflight e" "connected (greeted f e) = connected e"
  "version (greeted f e) = version e" "now (greeted f e) = now e"
  "next_token (greeted f e) = next_token e" "boot (greeted f e) = boot e"
  "solicited (greeted f e) = solicited e" "draining (greeted f e) = draining e"
  by (simp_all add: greeted_def frame_simps)

lemma handle_frame:
  assumes "parse (js v) text (version e) = Inr f"
  shows "handle v t (Received text) e =
    (let x = greeted f (advance t e) in
     case f of
       FrameCall i a p \<Rightarrow> on_call v i a p Call x
     | FrameSend i a p \<Rightarrow> on_call v i a p Send x
     | FrameCallResult i p \<Rightarrow> on_call_result v i p x
     | FrameCallError i err \<Rightarrow> on_call_error v i err x
     | FrameCallResultError i err \<Rightarrow> emit (ResultRejected i (to_call_error (js v) err)) x)"
  using assms by (simp add: handle_def on_received_def greeted_def Let_def frame_simps)

text \<open>The requests handed to the application.\<close>

lemma requests_quiet:
  "Request r \<in> set (outputs (arm_heartbeat e)) \<longleftrightarrow> Request r \<in> set (outputs e)"
  "Request r \<in> set (outputs (emit (Violation x) e)) \<longleftrightarrow> Request r \<in> set (outputs e)"
  "Request r \<in> set (outputs (snd (peer_call_refused i e))) \<longleftrightarrow> Request r \<in> set (outputs e)"
  "Request r \<in> set (outputs (greeted f e)) \<longleftrightarrow> Request r \<in> set (outputs e)"
  by (simp_all add: arm_heartbeat_def peer_call_refused_def greeted_def Let_def emit_def
      split: option.split)

lemma requests_reject:
  "Request r \<in> set (outputs (reject v i k c e)) \<longleftrightarrow> Request r \<in> set (outputs e)"
  by (simp add: reject_def transmit_def requests_quiet emit_def split: option.split)

definition admissible :: "('s, 'g) engine \<Rightarrow> incoming_request \<Rightarrow> bool" where
  "admissible e r \<longleftrightarrow>
     kind_of (version e) (ir_action r) = Some (ir_kind r) \<and>
     allows (case origin_of (version e) (ir_action r) of None \<Rightarrow> BothOrigin | Some x \<Rightarrow> x)
       (receives (c_role (config e))) \<and>
     (ir_kind r = Call \<longrightarrow> ir_id r \<notin> peer_inflight e) \<and>
     \<not> boot_gate_blocks (ir_action r) e"

lemma on_call_request:
  assumes "Request r \<in> set (outputs (on_call v i a p k e))" and "Request r \<notin> set (outputs e)"
  shows "r = \<lparr>ir_id = i, ir_action = a, ir_payload = p, ir_kind = k\<rparr> \<and> admissible e r \<and>
    (k = Call \<longrightarrow> i \<in> peer_inflight (on_call v i a p k e))"
proof (cases rule: on_call_cases [of v i a p k e])
  case (rejected c e1)
  then show ?thesis using assms by (auto simp: requests_reject requests_quiet)
next
  case (served e1 e2)
  have e1: "e1 = e \<or> e1 = snd (peer_call_refused i e)" "k = Call \<longrightarrow> i \<notin> peer_inflight e"
    using served(3) by (auto simp: peer_call_refused_def split: if_splits)
  then have same: "Request r \<in> set (outputs e1) \<longleftrightarrow> Request r \<in> set (outputs e)"
    "boot_gate_blocks a e1 = boot_gate_blocks a e"
    by (auto simp: requests_quiet boot_gate_blocks_def frame_simps)
  then have r: "r = \<lparr>ir_id = i, ir_action = a, ir_payload = p, ir_kind = k\<rparr>"
    using assms served(1,2) by (auto simp: emit_def split: if_splits)
  show ?thesis
    using r e1(2) same served by (auto simp: admissible_def frame_simps)
qed

text \<open>
  C7. Every \<open>CALL\<close> of the peer is either handed to the application or refused on the spot.
  When a well-formed \<open>CALL\<close> arrives, either the application gets exactly that request (and the
  action is defined in the negotiated version as a \<open>CALL\<close> its sender may make, its id is not
  one still being handled, the CSMS's boot gate lets it pass, and the engine now awaits the
  answer), or a \<open>CALLERROR\<close> with its id goes out, unless the library cannot serialize one.
\<close>

theorem calls_served_or_rejected:
  assumes "parse (js v) text (version e) = Inr (FrameCall i a p)"
    and "Request \<lparr>ir_id = i, ir_action = a, ir_payload = p, ir_kind = Call\<rparr> \<notin> set (outputs e)"
  shows "let x = handle v t (Received text) e;
             r = \<lparr>ir_id = i, ir_action = a, ir_payload = p, ir_kind = Call\<rparr> in
    Request r \<in> set (outputs x) \<and> admissible e r \<and> i \<in> peer_inflight x \<or>
    Request r \<notin> set (outputs x) \<and> peer_inflight x = peer_inflight e \<and>
    (\<exists>c. (\<exists>answer. to_json (js v) (FrameCallError i (of_call_error c)) (version e) = Some answer \<and>
            Transmit answer \<in> set (outputs x)) \<or>
         to_json (js v) (FrameCallError i (of_call_error c)) (version e) = None)"
proof -
  let ?r = "\<lparr>ir_id = i, ir_action = a, ir_payload = p, ir_kind = Call\<rparr>"
  define y where "y = greeted (FrameCall i a p) (advance t e)"
  have x: "handle v t (Received text) e = on_call v i a p Call y"
    using handle_frame [OF assms(1)] by (simp add: y_def)
  have y: "Request ?r \<notin> set (outputs y)" "admissible y ?r = admissible e ?r"
    "version y = version e" "peer_inflight y = peer_inflight e"
    using assms(2)
    by (simp_all add: y_def requests_quiet frame_simps admissible_def boot_gate_blocks_def)
  show ?thesis
  proof (cases rule: on_call_cases [of v i a p Call y])
    case (rejected c e1)
    from rejected(2) have e1: "version e1 = version y" "peer_inflight e1 = peer_inflight y"
      "Request ?r \<in> set (outputs e1) \<longleftrightarrow> Request ?r \<in> set (outputs y)"
      by (auto simp: frame_emit frame_peer_call_refused requests_quiet)
    have "Request ?r \<notin> set (outputs (reject v i Call c e1))"
      "peer_inflight (reject v i Call c e1) = peer_inflight e"
      using e1 y by (simp_all add: frame_reject requests_reject)
    with e1(1) y(3) rejected(1) said_reject [OF refl, of v i c e1] x show ?thesis
      unfolding Let_def said_in_def by auto
  next
    case (served e1 e2)
    then have "Request ?r \<in> set (outputs (on_call v i a p Call y))" by (simp add: frame_simps)
    with on_call_request [OF this y(1)] y(2) x show ?thesis by simp
  qed
qed

theorem calls_served_or_rejected_witness:
  "let e = fst (run sample_env (sample_engine (config_new Csms V2_1), []) [Handle (at_ms 1) (Connected V2_1)]);
       x = handle sample_env (at_ms 2)
             (Received (sample_text (FrameCall ''q'' ''Heartbeat'' ''{}'') V2_1)) e in
   Request \<lparr>ir_id = ''q'', ir_action = ''Heartbeat'', ir_payload = ''{}'', ir_kind = Call\<rparr> \<in> set (outputs x) \<and>
   ''q'' \<in> peer_inflight x"
proof -
  let ?e = "fst (run sample_env (sample_engine (config_new Csms V2_1), []) [Handle (at_ms 1) (Connected V2_1)])"
  let ?t = "sample_text (FrameCall ''q'' ''Heartbeat'' ''{}'') V2_1"
  have "parse (js sample_env) ?t (version ?e) = Inr (FrameCall ''q'' ''Heartbeat'' ''{}'')"
    "outputs ?e = []"
    by code_simp+
  moreover have "(''q'' \<in> peer_inflight (handle sample_env (at_ms 2) (Received ?t) ?e)) = True"
    "peer_inflight ?e = {}"
    by code_simp+
  ultimately show ?thesis
    using calls_served_or_rejected [of sample_env ?t ?e "''q''" "''Heartbeat''" "''{}''" "at_ms 2"]
    by (auto simp: Let_def)
qed

lemma transmits_peer_call_refused:
  "Transmit t \<in> set (outputs (snd (peer_call_refused i e))) \<longleftrightarrow> Transmit t \<in> set (outputs e)"
  by (simp add: peer_call_refused_def Let_def emit_def)

lemma transmits_greeted: "Transmit t \<in> set (outputs (greeted f e)) \<longleftrightarrow> Transmit t \<in> set (outputs e)"
  by (simp add: greeted_def transmits_arm_heartbeat emit_def)

text \<open>
  A \<open>SEND\<close> is never answered: whatever is wrong with it, receiving one writes nothing to
  the connection and leaves no request for the application to respond to.
\<close>

theorem send_never_answered:
  assumes "parse (js v) text (version e) = Inr (FrameSend i a p)"
    and "Transmit answer \<in> set (outputs (handle v t (Received text) e))"
  shows "Transmit answer \<in> set (outputs e) \<and>
    peer_inflight (handle v t (Received text) e) = peer_inflight e"
proof -
  define y where "y = greeted (FrameSend i a p) (advance t e)"
  have x: "handle v t (Received text) e = on_call v i a p Send y"
    using handle_frame [OF assms(1)] by (simp add: y_def)
  have y: "Transmit answer \<in> set (outputs y) \<longleftrightarrow> Transmit answer \<in> set (outputs e)"
    "peer_inflight y = peer_inflight e"
    by (simp_all add: y_def transmits_greeted frame_greeted frame_advance)
  show ?thesis
  proof (cases rule: on_call_cases [of v i a p Send y])
    case (rejected c e1)
    have "on_call v i a p Send y = e1" using rejected(1) by (simp add: reject_def)
    moreover have "Transmit answer \<in> set (outputs e1) \<longleftrightarrow> Transmit answer \<in> set (outputs y)"
      "peer_inflight e1 = peer_inflight y"
      using rejected(2)
      by (auto simp: frame_emit frame_peer_call_refused transmits_peer_call_refused)
    ultimately show ?thesis using assms(2) x y by simp
  next
    case (served e1 e2)
    then have "e1 = y" by simp
    with served(1,2) assms(2) x y show ?thesis by (auto simp: frame_emit split: if_splits)
  qed
qed

theorem send_never_answered_witness:
  "\<exists>e. Transmit ''earlier'' \<in> set (outputs (handle sample_env (at_ms 2)
      (Received (sample_text (FrameSend ''q'' ''Heartbeat'' ''{}'') V2_1)) e)) \<and>
    peer_inflight (handle sample_env (at_ms 2)
      (Received (sample_text (FrameSend ''q'' ''Heartbeat'' ''{}'') V2_1)) e) = {''p''}"
proof -
  let ?e = "(sample_engine (config_new Csms V2_1))\<lparr>peer_inflight := {''p''}, outputs := [Transmit ''earlier'']\<rparr>"
  let ?t = "sample_text (FrameSend ''q'' ''Heartbeat'' ''{}'') V2_1"
  have "parse (js sample_env) ?t (version ?e) = Inr (FrameSend ''q'' ''Heartbeat'' ''{}'')"
    "(Transmit ''earlier'' \<in> set (outputs (handle sample_env (at_ms 2) (Received ?t) ?e))) = True"
    by code_simp+
  with send_never_answered [of sample_env ?t ?e "''q''" "''Heartbeat''" "''{}''" "''earlier''" "at_ms 2"]
  show ?thesis by (intro exI [of _ ?e]) simp
qed

section \<open>Responses nobody asked for\<close>

definition response_id :: "frame \<Rightarrow> message_id option" where
  "response_id f = (case f of FrameCallResult i p \<Rightarrow> Some i | FrameCallError i err \<Rightarrow> Some i | _ \<Rightarrow> None)"

text \<open>
  A \<open>CALLRESULT\<close> or \<open>CALLERROR\<close> whose id is not the outstanding call's (an answer that
  comes after the timeout, twice, or from nowhere) changes nothing the engine holds: the
  outstanding call, the queue, the store and the boot state stay as they are, no outcome is
  reported, and the application is told of the violation.
\<close>

theorem stale_response_ignored:
  assumes "parse (js v) text (version e) = Inr f" and "response_id f = Some i"
    and "\<forall>g. inflight e = Some g \<longrightarrow> f_id g \<noteq> i"
  shows "let x = handle v t (Received text) e in
    queue x = queue e \<and> inflight x = inflight e \<and> store x = store e \<and> boot x = boot e \<and>
    next_token x = next_token e \<and> peer_inflight x = peer_inflight e \<and>
    outcome_tokens (outputs x) = outcome_tokens (outputs e) \<and>
    Violation (UnexpectedResponse i) \<in> set (outputs x)"
proof -
  define y where "y = greeted f (advance t e)"
  have "take_inflight i y = (None, y)"
    using assms(3) by (simp add: y_def take_inflight_def frame_greeted frame_advance split: option.split)
  then have x: "handle v t (Received text) e = emit (Violation (UnexpectedResponse i)) y"
    using handle_frame [OF assms(1), of t] assms(2)
    by (simp add: y_def response_id_def on_call_result_def on_call_error_def Let_def split: frame.splits)
  have "outcome_tokens (outputs y) = outcome_tokens (outputs e)"
    by (simp add: y_def greeted_def frame_emit account_simps frame_advance)
  then show ?thesis
    unfolding x Let_def by (simp add: frame_emit y_def frame_greeted frame_advance)
qed

theorem stale_response_ignored_witness:
  "let e = fst (run sample_env (sample_engine (config_new ChargingStation V2_1), [])
             [Handle (at_ms 5) (Connected V2_1),
              CallWith (at_ms 6) ''BootNotification'' ''{}'' options_default]);
       x = handle sample_env (at_ms 7) (Received (sample_text (FrameCallResult ''zz'' ''{}'') V2_1)) e in
   inflight x = inflight e \<and> inflight e \<noteq> None \<and> Violation (UnexpectedResponse ''zz'') \<in> set (outputs x)"
proof -
  let ?e = "fst (run sample_env (sample_engine (config_new ChargingStation V2_1), [])
    [Handle (at_ms 5) (Connected V2_1),
     CallWith (at_ms 6) ''BootNotification'' ''{}'' options_default])"
  let ?t = "sample_text (FrameCallResult ''zz'' ''{}'') V2_1"
  have "parse (js sample_env) ?t (version ?e) = Inr (FrameCallResult ''zz'' ''{}'')"
    "map_option f_id (inflight ?e) = Some ''k0''"
    by code_simp+
  moreover from this have "\<forall>g. inflight ?e = Some g \<longrightarrow> f_id g \<noteq> ''zz''" "inflight ?e \<noteq> None" by auto
  ultimately show ?thesis
    using stale_response_ignored [of sample_env ?t ?e "FrameCallResult ''zz'' ''{}''" "''zz''" "at_ms 7"]
    by (simp add: response_id_def Let_def)
qed

section \<open>Drain\<close>

text \<open>The reasons the engine has given for closing the connection, in the order of its outputs.\<close>

definition closes :: "('s, 'g) engine \<Rightarrow> close_reason list" where
  "closes e = concat (map (\<lambda>x. case x of Close r \<Rightarrow> [r] | _ \<Rightarrow> []) (outputs e))"

lemma closes_emit [frame_simps]:
  "closes (emit x e) = closes e @ (case x of Close r \<Rightarrow> [r] | _ \<Rightarrow> [])"
  by (simp add: closes_def emit_def)

lemma closes_fields [frame_simps]:
  "closes (e\<lparr>queue := ps\<rparr>) = closes e" "closes (e\<lparr>ids := g\<rparr>) = closes e"
  "closes (e\<lparr>inflight := fl\<rparr>) = closes e" "closes (e\<lparr>heartbeat_at := h\<rparr>) = closes e"
  "closes (e\<lparr>boot := b\<rparr>) = closes e" "closes (e\<lparr>boot_retry_at := h\<rparr>) = closes e"
  "closes (e\<lparr>draining := h\<rparr>) = closes e" "closes (e\<lparr>connected := c\<rparr>) = closes e"
  "closes (e\<lparr>peer_inflight := is\<rparr>) = closes e" "closes (e\<lparr>store := file\<rparr>) = closes e"
  "closes (e\<lparr>next_token := n\<rparr>) = closes e" "closes (e\<lparr>solicited := so\<rparr>) = closes e"
  "closes (e\<lparr>now := t\<rparr>) = closes e" "closes (e\<lparr>heartbeat_interval := d\<rparr>) = closes e"
  by (simp_all add: closes_def)

lemma closes_arm_heartbeat [frame_simps]: "closes (arm_heartbeat e) = closes e"
  by (simp add: arm_heartbeat_def Let_def frame_simps split: option.split)

lemma closes_transmit [frame_simps]: "closes (transmit v f e) = closes e"
  by (simp add: transmit_def frame_simps split: option.split)

lemma closes_quiet [frame_simps]:
  "closes (ack_store v q e) = closes e" "closes (set_attempts_store v q n e) = closes e"
  "closes (advance t e) = closes e" "closes (snd (persist_call v b qc e)) = closes e"
  "closes (remember_solicited v a p e) = closes e" "closes (minted t e) = closes e"
  by (simp_all add: ack_store_def set_attempts_store_def advance_def persist_call_def
      remember_solicited_def minted_def frame_simps Let_def
      split: option.split prod.split sum.split)

lemma closes_pump [frame_simps]: "closes (pump v e) = closes e"
  by (rule pump_induct [where P = "\<lambda>x. closes x = closes e"])
    (simp_all add: send_entry_def start_call_def Let_def frame_simps outcome_def split: prod.split)

lemma closes_requeue_or_fail [frame_simps]: "closes (requeue_or_fail v f why e) = closes e"
  by (simp add: requeue_or_fail_def Let_def frame_simps outcome_def)

lemma closes_offline_sweep [frame_simps]: "closes (offline_sweep v kept rest e) = closes e"
  by (induction v kept rest e rule: offline_sweep.induct) (simp_all add: frame_simps outcome_def)

lemma closes_observe_boot_answer [frame_simps]: "closes (observe_boot_answer v p out e) = closes e"
  by (simp add: observe_boot_answer_def Let_def frame_simps split: option.split)

lemma closes_greeted [frame_simps]: "closes (greeted f e) = closes e"
  by (simp add: greeted_def frame_simps)

text \<open>A draining engine starts no call of its own either.\<close>

lemma draining_refuses:
  assumes "draining e = Some d"
  shows "call_with v t a p opts e = (Inl ShuttingDown, advance t e)"
  using assms by (simp add: call_with_def call_refused_def Let_def frame_simps)

definition timers_due :: "('s, 'g) env \<Rightarrow> ('s, 'g) engine \<Rightarrow> ('s, 'g) engine" where
  "timers_due v e = boot_retry_due (heartbeat_due v (call_timeout_due v e))"

lemma draining_timers:
  assumes "draining e = Some d"
  shows "draining (timers_due v e) = Some d \<and> closes (timers_due v e) = closes e \<and> now (timers_due v e) = now e"
proof -
  define x where "x = call_timeout_due v e"
  have x: "draining x = Some d" "closes x = closes e" "now x = now e"
    using assms by (simp_all add: x_def call_timeout_due_def frame_simps split: option.split)
  define y where "y = heartbeat_due v x"
  have "draining y = Some d \<and> closes y = closes x \<and> now y = now x"
    using x(1) draining_refuses [of "x\<lparr>heartbeat_at := None\<rparr>" d v]
    by (simp add: y_def heartbeat_due_def send_heartbeat_def Let_def frame_simps advance_def split: option.split)
  then show ?thesis
    using x by (simp add: timers_due_def boot_retry_due_def frame_simps flip: x_def y_def split: option.split)
qed

text \<open>With nothing to do, the pump does nothing.\<close>

lemma pump_idle: "drain_complete e \<Longrightarrow> drain_complete (pump v e)"
  by (rule pump_induct [where P = drain_complete])
    (auto simp: drain_complete_def dest!: next_of_kind_Some)

definition idle :: "('s, 'g) engine \<Rightarrow> bool" where
  "idle e \<longleftrightarrow> queue e = [] \<and> inflight e = None"

lemma drain_complete_idle: "drain_complete e = idle e"
  by (auto simp: drain_complete_def idle_def)

text \<open>How a drain with the deadline \<open>d\<close> stands after \<open>check_drain\<close>.\<close>

definition drain_settled :: "close_reason list \<Rightarrow> instant \<Rightarrow> ('s, 'g) engine \<Rightarrow> bool" where
  "drain_settled said_before d e \<longleftrightarrow>
     (if drain_complete e then closes e = said_before @ [Drained] \<and> draining e = None
      else closes e = said_before \<and> draining e = Some d)"

lemma check_drain_settles:
  "draining z = Some d \<and> closes z = cs \<Longrightarrow> drain_settled cs d (check_drain z)"
  by (auto simp: drain_settled_def check_drain_def drain_complete_def frame_simps)

lemma disconnected_settles:
  "draining e = Some d \<Longrightarrow> drain_settled (closes e) d (on_disconnected v e)"
  unfolding on_disconnected_def Let_def
  by (rule check_drain_settles) (simp add: frame_simps split: option.split)

lemma answer_settles:
  assumes "take_inflight i e = (Some g, e\<lparr>inflight := None\<rparr>)" and "draining e = Some d"
  shows "drain_settled (closes e) d (on_call_result v i p e)" "drain_settled (closes e) d (on_call_error v i err e)"
proof -
  show "drain_settled (closes e) d (on_call_result v i p e)"
    unfolding on_call_result_def assms(1) Let_def prod.case option.case
    by (rule check_drain_settles) (simp add: frame_simps outcome_def assms(2) split: option.split)
  show "drain_settled (closes e) d (on_call_error v i err e)"
    unfolding on_call_error_def assms(1) Let_def prod.case option.case
    by (rule check_drain_settles) (simp add: frame_simps outcome_def assms(2))
qed

lemma answered_settles:
  assumes "parse (js v) text (version e) = Inr f" and "response_id f = Some (f_id g)" and "inflight e = Some g"
    and "draining e = Some d"
  shows "drain_settled (closes e) d (handle v t (Received text) e)"
proof -
  define y where "y = greeted f (advance t e)"
  have "take_inflight (f_id g) y = (Some g, y\<lparr>inflight := None\<rparr>)" "draining y = Some d" "closes y = closes e"
    using assms(3,4) by (simp_all add: y_def take_inflight_def frame_greeted frame_advance frame_simps)
  with answer_settles [of "f_id g" y g d v] show ?thesis
    using handle_frame [OF assms(1), of t] assms(2)
    by (auto simp: response_id_def Let_def simp flip: y_def split: frame.splits)
qed

text \<open>
  C9. A shutdown drains. Asked to shut down, an engine that is idle says at once that it is
  drained; one that is not arms the deadline and drains, and a second request changes nothing.
  While it drains every call is refused with \<open>ShuttingDown\<close> and queues nothing. Each input that can finish
  work (a timeout, a disconnection, the answer to the outstanding call) then settles the drain:
  if nothing is queued or outstanding after it, the engine says \<open>Close\<close> with \<open>Drained\<close>, once, and the drain is
  over; if a timeout finds the deadline past with work left, it says \<open>Close\<close> with
  \<open>DrainTimedOut\<close>, and the drain is over; and otherwise it says neither and drains on.
\<close>

theorem drain_contract:
  assumes "draining e = Some d"
    and "i = Timeout \<or> i = DisconnectedInput \<or>
      (\<exists>text f g. i = Received text \<and> parse (js v) text (version e) = Inr f \<and> inflight e = Some g \<and>
         response_id f = Some (f_id g))"
  shows "outputs (shutdown at deadline u) = outputs u @
      (if draining u \<noteq> None then []
       else SetTimer DrainDeadline deadline #
         (if idle u then [ClearTimer DrainDeadline, Close Drained] else [])) \<and>
    draining (shutdown at deadline u) =
      (if draining u \<noteq> None then draining u else if idle u then None else Some deadline) \<and>
    call_with v t a p opts e = (Inl ShuttingDown, advance t e) \<and>
    (let x = handle v t i e in
     if idle x then closes x = closes e @ [Drained] \<and> draining x = None
     else if i = Timeout \<and> max (millis t) (millis (now e)) \<ge> millis d
       then closes x = closes e @ [DrainTimedOut] \<and> draining x = None
     else closes x = closes e \<and> draining x = Some d)"
proof -
  have shut: "outputs (shutdown at deadline u) = outputs u @
      (if draining u \<noteq> None then []
       else SetTimer DrainDeadline deadline #
         (if idle u then [ClearTimer DrainDeadline, Close Drained] else []))"
    "draining (shutdown at deadline u) =
      (if draining u \<noteq> None then draining u else if idle u then None else Some deadline)"
    by (auto simp: shutdown_def check_drain_def drain_complete_idle Let_def frame_simps idle_def)
  have timeout: ?thesis if "i = Timeout"
  proof -
    define y where "y = timers_due v (advance t e)"
    have y: "draining y = Some d" "closes y = closes e" "millis (now y) = max (millis t) (millis (now e))"
      using draining_timers [of "advance t e" d v] assms(1) by (auto simp: y_def frame_simps advance_def)
    have x: "handle v t i e =
        (if drain_overdue y then (emit (Close DrainTimedOut) y)\<lparr>draining := None\<rparr> else check_drain (pump v y))"
      using that by (simp add: handle_def on_timeout_def timers_due_def y_def Let_def)
    show ?thesis
    proof (cases "drain_overdue y")
      case True
      then have "\<not> drain_complete y" "millis d \<le> millis (now y)" using y(1) by (auto simp: drain_overdue_def)
      then show ?thesis
        using True x y that shut draining_refuses [OF assms(1)] by (auto simp: drain_complete_def idle_def frame_simps Let_def)
    next
      case False
      then have "drain_complete y \<or> \<not> millis d \<le> millis (now y)" using y(1) by (auto simp: drain_overdue_def)
      moreover have "drain_settled (closes e) d (handle v t i e)"
        using False x y check_drain_settles [of "pump v y" d "closes e"] by (simp add: frame_simps)
      moreover have "drain_complete (check_drain z) = drain_complete z" for z :: "('a, 'b) engine"
        by (simp add: drain_complete_def frame_simps)
      ultimately show ?thesis
        using False x y shut draining_refuses [OF assms(1)] pump_idle [of y v]
        by (auto simp: drain_settled_def drain_complete_idle Let_def)
    qed
  qed
  have "drain_settled (closes e) d (handle v t i e)" if "i = DisconnectedInput"
    using that disconnected_settles [of "advance t e" d v] assms(1) by (simp add: handle_def frame_simps)
  then show ?thesis
    using timeout answered_settles [of v _ e _ _ d t] assms shut draining_refuses [OF assms(1)]
    by (auto simp: drain_settled_def drain_complete_idle Let_def)
qed

text \<open>
  A station with one queued transaction message, asked to drain; and the same once it has
  connected, sent the message, and is told the answer.
\<close>

definition draining_station :: "(mem_store, counter_ids) session" where
  "draining_station =
     run sample_env (sample_engine (config_new ChargingStation V2_1), [])
       [CallWith (at_ms 1) ''TransactionEvent'' ''a'' options_default,
        Shutdown (at_ms 2) (at_ms 60000)]"

definition finishing_station :: "(mem_store, counter_ids) session" where
  "finishing_station =
     run sample_env (sample_engine (config_new ChargingStation V2_1), [])
       [Handle (at_ms 1) (Connected V2_1),
        CallWith (at_ms 2) ''BootNotification'' ''{}'' options_default,
        Shutdown (at_ms 3) (at_ms 60000)]"

theorem drain_contract_witness:
  "(let x = handle sample_env (at_ms 60000) Timeout (fst draining_station) in
    closes x = closes (fst draining_station) @ [DrainTimedOut] \<and> draining x = None) \<and>
   (let x = handle sample_env (at_ms 4) (Received (sample_text (FrameCallResult ''k0'' ''{}'') V2_1)) (fst finishing_station) in
    closes x = closes (fst finishing_station) @ [Drained] \<and> draining x = None)"
proof -
  let ?t = "sample_text (FrameCallResult ''k0'' ''{}'') V2_1"
  have "draining (fst draining_station) = Some (at_ms 60000)" "millis (at_ms 60000) = 60000"
    "idle (handle sample_env (at_ms 60000) Timeout (fst draining_station)) = False"
    by code_simp+
  then have "let x = handle sample_env (at_ms 60000) Timeout (fst draining_station) in
      closes x = closes (fst draining_station) @ [DrainTimedOut] \<and> draining x = None"
    using drain_contract [where e = "fst draining_station" and d = "at_ms 60000" and i = Timeout and v = sample_env and t = "at_ms 60000" and at = "at_ms 2" and deadline = "at_ms 60000" and u = "fst draining_station" and a = "[]"
        and p = "[]" and opts = options_default] by (simp add: Let_def)
  moreover have f: "draining (fst finishing_station) = Some (at_ms 60000)"
    "parse (js sample_env) ?t (version (fst finishing_station)) = Inr (FrameCallResult ''k0'' ''{}'')"
    "map_option f_id (inflight (fst finishing_station)) = Some ''k0''"
    "idle (handle sample_env (at_ms 4) (Received ?t) (fst finishing_station)) = True"
    by code_simp+
  obtain g where "inflight (fst finishing_station) = Some g" "f_id g = ''k0''" using f(3) by auto
  then have "let x = handle sample_env (at_ms 4) (Received ?t) (fst finishing_station) in
      closes x = closes (fst finishing_station) @ [Drained] \<and> draining x = None"
    using drain_contract [where e = "fst finishing_station" and d = "at_ms 60000" and i = "Received ?t" and v = sample_env and t = "at_ms 4" and at = "at_ms 3"
        and deadline = "at_ms 60000" and u = "fst finishing_station" and a = "[]" and p = "[]" and opts = options_default] f
    by (simp add: Let_def response_id_def)
  ultimately show ?thesis by simp
qed
text \<open>
  Withdrawing the last queued call does not finish a drain: \<open>cancel\<close> leaves the engine
  idle and still draining, with no \<open>Close\<close> said. It is said at the drain deadline, not when
  the queue has been flushed.
\<close>

theorem cancel_leaves_drain_open:
  "let s = step sample_env draining_station (Cancel 0);
       s' = step sample_env s (Handle (at_ms 59999) (Connected V2_1));
       s'' = step sample_env s' (Handle (at_ms 60000) Timeout) in
   drain_complete (fst s) \<and> draining (fst s) \<noteq> None \<and> Close Drained \<notin> set (said s) \<and>
   drain_complete (fst s') \<and> Close Drained \<notin> set (said s') \<and> Close Drained \<in> set (said s'')"
  by code_simp

section \<open>The CSMS and its own answers\<close>

text \<open>
  The CSMS side reads every answer it gives as a verdict on the station's boot. Whatever
  request the answered id belongs to, a payload with a status of \<open>Accepted\<close>, \<open>Pending\<close> or
  \<open>Rejected\<close> (which many responses other than \<open>BootNotification\<close>'s have) becomes the boot
  state, although the code means to learn the verdict from the answer to a
  \<open>BootNotification\<close>.
\<close>

theorem csms_boot_state_from_any_answer:
  assumes "c_role (config e) = Csms" and "i \<in> peer_inflight e"
    and "js_boot (js v) payload = Some ans" and "boot_state_of (ba_status ans) = Some b"
  shows "fst (respond v t i payload e) = Inr () \<and> boot (snd (respond v t i payload e)) = b"
  using assms
  by (auto simp: respond_def take_peer_request_def observe_boot_answer_def Let_def frame_simps
      split: option.split)

text \<open>
  A CSMS whose station has been accepted refuses a \<open>DataTransfer\<close>; the station's next
  unsolicited call is then turned away with a \<open>SecurityError\<close>.
\<close>

definition refused_transfer :: "(mem_store, counter_ids) session" where
  "refused_transfer =
     run sample_env ((sample_engine (config_new Csms V2_0_1))\<lparr>boot := BootAccepted\<rparr>, [])
       [Handle (at_ms 1) (Connected V2_0_1),
        Handle (at_ms 2) (Received (sample_text (FrameCall ''q'' ''DataTransfer'' ''{}'') V2_0_1))]"

theorem csms_boot_state_from_any_answer_witness:
  "let e = snd (respond sample_env (at_ms 3) ''q'' ''sRejected'' (fst refused_transfer)) in
   boot (fst refused_transfer) = BootAccepted \<and> boot e = BootRejected \<and>
   boot_gate_blocks ''StatusNotification'' e"
proof -
  have "c_role (config (fst refused_transfer)) = Csms"
    "(''q'' \<in> peer_inflight (fst refused_transfer)) = True"
    "boot (fst refused_transfer) = BootAccepted"
    "boot_gate_blocks ''StatusNotification'' (snd (respond sample_env (at_ms 3) ''q'' ''sRejected'' (fst refused_transfer)))"
    by code_simp+
  moreover have "js_boot (js sample_env) ''sRejected'' =
      Some \<lparr>ba_status = ''Rejected'', ba_interval = Some 300, ba_current_time = None\<rparr>"
    by (simp add: sample_env_def sample_serde_def sample_str_def)
  ultimately show ?thesis
    using csms_boot_state_from_any_answer [of "fst refused_transfer" "''q''" sample_env "''sRejected''"
        "\<lparr>ba_status = ''Rejected'', ba_interval = Some 300, ba_current_time = None\<rparr>" BootRejected "at_ms 3"]
    by (simp add: boot_state_of_def Let_def)
qed

end
