(* ===== verification/Validation.thy ===== *)
theory Validation
  imports Decimal Texts
begin

text \<open>
  \<open>validate.rs\<close> and the enumeration macro of \<open>macros.rs\<close>: paths into a payload, violations, the
  checks the generated code calls, and the generated \<open>Validate\<close> implementations.

  The generated types differ only in their members, so a type is a \<open>shape\<close>: its members in the
  order of the struct, each with its name on the wire, whether it is required, and the checks its
  \<open>Validate\<close> implementation makes. \<open>validate_at\<close> is the body all these implementations have, with
  the path and the violations threaded through it as in the source; \<open>payload_new\<close> and
  \<open>with_member\<close> are their constructors and setters. Times and free JSON are values
  of the type parameter; the free members of \<open>CustomData\<close>, which nothing checks, are left out. The shapes themselves are in
  \<open>Messages_V1_6\<close>, \<open>Messages_V2_0_1\<close> and \<open>Messages_V2_1\<close>.

  The lemmas show that validation leaves the path where it was, that it reports exactly the
  constraints that are broken, each under the pointer of the member that breaks it, and that
  pointers can be read back.
\<close>

section \<open>Paths\<close>

datatype path_segment = Key string | Index nat

type_synonym validation_path = "path_segment list"

definition push_key :: "string \<Rightarrow> validation_path \<Rightarrow> validation_path" where
  "push_key k p = p @ [Key k]"

definition push_index :: "nat \<Rightarrow> validation_path \<Rightarrow> validation_path" where
  "push_index i p = p @ [Index i]"

definition path_pop :: "validation_path \<Rightarrow> validation_path" where
  "path_pop p = butlast p"

text \<open>\<open>str::replace\<close> with a single character.\<close>

definition replace_char :: "char \<Rightarrow> string \<Rightarrow> string \<Rightarrow> string" where
  "replace_char c r s = concat (map (\<lambda>x. if x = c then r else [x]) s)"

definition escape_token :: "string \<Rightarrow> string" where
  "escape_token k = replace_char (CHR ''/'') ''~1'' (replace_char (CHR 0x7E) ''~0'' k)"

fun segment_text :: "path_segment \<Rightarrow> string" where
  "segment_text (Key k) = escape_token k"
| "segment_text (Index i) = digits i"

definition to_pointer :: "validation_path \<Rightarrow> string" where
  "to_pointer p = concat (map (\<lambda>seg. CHR ''/'' # segment_text seg) p)"

section \<open>Violations\<close>

datatype violation_kind =
    OccurrenceViolation
  | TypeViolation
  | PropertyViolation
  | UnknownEnumValue
  | UnknownFieldViolation
  | ProtocolRuleViolation

fun violation_kind_text :: "violation_kind \<Rightarrow> string" where
  "violation_kind_text OccurrenceViolation = ''occurrence''"
| "violation_kind_text TypeViolation = ''type''"
| "violation_kind_text PropertyViolation = ''property''"
| "violation_kind_text UnknownEnumValue = ''unknown enum value''"
| "violation_kind_text UnknownFieldViolation = ''unknown field''"
| "violation_kind_text ProtocolRuleViolation = ''protocol''"

record violation =
  vn_path :: string
  vn_kind :: violation_kind
  vn_reason :: string

type_synonym violations = "violation list"

definition violation_text :: "violation \<Rightarrow> string" where
  "violation_text v = (if vn_path v = [] then vn_reason v else vn_path v @ '': '' @ vn_reason v)"

definition violations_text :: "violations \<Rightarrow> string" where
  "violations_text vs = join ''; '' (map violation_text vs)"

definition violations_push :: "validation_path \<Rightarrow> violation_kind \<Rightarrow> string \<Rightarrow> violations \<Rightarrow> violations" where
  "violations_push p k r out = out @ [\<lparr>vn_path = to_pointer p, vn_kind = k, vn_reason = r\<rparr>]"

definition first_violation :: "violations \<Rightarrow> violation option" where
  "first_violation out = (case out of [] \<Rightarrow> None | v # _ \<Rightarrow> Some v)"

definition retain_kinds :: "(violation_kind \<Rightarrow> bool) \<Rightarrow> violations \<Rightarrow> violations" where
  "retain_kinds keep out = filter (\<lambda>v. keep (vn_kind v)) out"

section \<open>The checks\<close>

text \<open>\<open>Decimal::new\<close> with a scale that is allowed, as in the generated bounds.\<close>

definition decimal_new :: "int \<Rightarrow> nat \<Rightarrow> decimal" where
  "decimal_new m s = \<lparr>mantissa = m, scale = s\<rparr>"

definition int_text :: "int \<Rightarrow> string" where
  "int_text i = (if i < 0 then ''-'' @ digits (nat (- i)) else digits (nat i))"

definition check_string ::
  "string \<Rightarrow> nat option \<Rightarrow> nat option \<Rightarrow> validation_path \<Rightarrow> violations \<Rightarrow> violations" where
  "check_string s lo hi p out =
     (let len = length s;
          out1 = (case hi of
            Some h \<Rightarrow>
              if len > h
              then violations_push p PropertyViolation
                     (''maxLength '' @ digits h @ '' exceeded (got '' @ digits len @ '' characters)'') out
              else out
          | None \<Rightarrow> out)
      in case lo of
           Some l \<Rightarrow>
             if len < l
             then violations_push p PropertyViolation
                    (''minLength '' @ digits l @ '' not reached (got '' @ digits len @ '' characters)'') out1
             else out1
         | None \<Rightarrow> out1)"

definition int_range ::
  "int \<Rightarrow> int option \<Rightarrow> int option \<Rightarrow> validation_path \<Rightarrow> violations \<Rightarrow> violations" where
  "int_range x lo hi p out =
     (let out1 = (case lo of
            Some l \<Rightarrow>
              if x < l
              then violations_push p PropertyViolation
                     (''minimum '' @ int_text l @ '' violated (got '' @ int_text x @ '')'') out
              else out
          | None \<Rightarrow> out)
      in case hi of
           Some h \<Rightarrow>
             if x > h
             then violations_push p PropertyViolation
                    (''maximum '' @ int_text h @ '' violated (got '' @ int_text x @ '')'') out1
             else out1
         | None \<Rightarrow> out1)"

definition number_range ::
  "decimal \<Rightarrow> decimal option \<Rightarrow> decimal option \<Rightarrow> validation_path \<Rightarrow> violations \<Rightarrow> violations" where
  "number_range x lo hi p out =
     (let out1 = (case lo of
            Some l \<Rightarrow>
              if compare x l = Less
              then violations_push p PropertyViolation
                     (''minimum '' @ display l @ '' violated (got '' @ display x @ '')'') out
              else out
          | None \<Rightarrow> out)
      in case hi of
           Some h \<Rightarrow>
             if compare x h = Greater
             then violations_push p PropertyViolation
                    (''maximum '' @ display h @ '' violated (got '' @ display x @ '')'') out1
             else out1
         | None \<Rightarrow> out1)"

definition list_len ::
  "nat \<Rightarrow> nat option \<Rightarrow> nat option \<Rightarrow> validation_path \<Rightarrow> violations \<Rightarrow> violations" where
  "list_len len lo hi p out =
     (let out1 = (case lo of
            Some l \<Rightarrow>
              if len < l
              then violations_push p OccurrenceViolation
                     (''minItems '' @ digits l @ '' not reached (got '' @ digits len @ '')'') out
              else out
          | None \<Rightarrow> out)
      in case hi of
           Some h \<Rightarrow>
             if len > h
             then violations_push p OccurrenceViolation
                    (''maxItems '' @ digits h @ '' exceeded (got '' @ digits len @ '')'') out1
             else out1
         | None \<Rightarrow> out1)"

definition unknown_enum_value :: "string \<Rightarrow> string \<Rightarrow> validation_path \<Rightarrow> violations \<Rightarrow> violations" where
  "unknown_enum_value s type_name p out =
     violations_push p UnknownEnumValue (debug_str s @ '' is not a defined value of '' @ type_name) out"

section \<open>Enumerations\<close>

text \<open>An enumeration of \<open>ocpp_enum!\<close>: its name and its variants with their wire values.\<close>

datatype enum_type = EnumType (enum_name: string) (enum_table: "(string \<times> string) list")

datatype enum_value = Variant string | UnknownValue string

definition VARIANTS :: "enum_type \<Rightarrow> string list" where
  "VARIANTS t = map snd (enum_table t)"

fun as_str :: "enum_type \<Rightarrow> enum_value \<Rightarrow> string" where
  "as_str t (Variant n) = (case map_of (enum_table t) n of Some w \<Rightarrow> w | None \<Rightarrow> [])"
| "as_str t (UnknownValue s) = s"

definition enum_from_wire :: "enum_type \<Rightarrow> string \<Rightarrow> enum_value" where
  "enum_from_wire t s =
     (case List.find (\<lambda>(n, w). w = s) (enum_table t) of Some (n, w) \<Rightarrow> Variant n | None \<Rightarrow> UnknownValue s)"

fun enum_is_known :: "enum_value \<Rightarrow> bool" where
  "enum_is_known (UnknownValue s) = False"
| "enum_is_known (Variant n) = True"

definition enum_from_str :: "enum_type \<Rightarrow> string \<Rightarrow> string + enum_value" where
  "enum_from_str t s =
     (case enum_from_wire t s of UnknownValue _ \<Rightarrow> Inl (enum_name t) | Variant n \<Rightarrow> Inr (Variant n))"

fun validate_enum :: "enum_type \<Rightarrow> enum_value \<Rightarrow> validation_path \<Rightarrow> violations \<Rightarrow> violations" where
  "validate_enum t (UnknownValue s) p out = unknown_enum_value s (enum_name t) p out"
| "validate_enum t (Variant n) p out = out"

section \<open>Shapes and payloads\<close>

datatype shape =
    StringOf "nat option" "nat option"
  | IntegerOf "int option" "int option"
  | NumberOf "decimal option" "decimal option"
  | FlagOf
  | PlainOf string
  | EnumOf enum_type
  | VecOf "nat option" "nat option" shape
  | StructOf string "member list"
and member =
    Required (member_name: string) (member_shape: shape)
  | Optional (member_name: string) (member_shape: shape)

datatype 'x payload =
    StringV string
  | IntegerV int
  | NumberV decimal
  | FlagV bool
  | PlainV 'x
  | EnumV enum_value
  | VecV "'x payload list"
  | StructV "(string \<times> 'x payload option) list"

text \<open>\<open>new\<close>, from the required members in their order, and the setters \<open>with_\<close>.\<close>

fun new_fields :: "member list \<Rightarrow> 'x payload list \<Rightarrow> (string \<times> 'x payload option) list" where
  "new_fields [] args = []"
| "new_fields (Optional k sh # ms) args = (k, None) # new_fields ms args"
| "new_fields (Required k sh # ms) (v # args) = (k, Some v) # new_fields ms args"
| "new_fields (Required k sh # ms) [] = (k, None) # new_fields ms []"

fun payload_new :: "shape \<Rightarrow> 'x payload list \<Rightarrow> 'x payload" where
  "payload_new (StructOf n ms) args = StructV (new_fields ms args)"
| "payload_new sh args = StructV []"

fun with_member :: "string \<Rightarrow> 'x payload \<Rightarrow> 'x payload \<Rightarrow> 'x payload" where
  "with_member k v (StructV fs) = StructV (map (\<lambda>(n, w). if n = k then (n, Some v) else (n, w)) fs)"
| "with_member k v w = w"

lemma size_member_shape [termination_simp, simp]: "size (member_shape m) < size m"
  by (cases m) simp_all

lemma size_member_le [simp]: "size (member_shape m) < Suc (size m + n)"
  using size_member_shape [of m] by linarith

section \<open>Validation\<close>

function (sequential)
  validate_at :: "shape \<Rightarrow> 'x payload \<Rightarrow> validation_path \<times> violations \<Rightarrow> validation_path \<times> violations"
and validate_members ::
  "member list \<Rightarrow> (string \<times> 'x payload option) list \<Rightarrow> validation_path \<times> violations
    \<Rightarrow> validation_path \<times> violations"
and validate_items ::
  "shape \<Rightarrow> nat \<Rightarrow> 'x payload list \<Rightarrow> validation_path \<times> violations \<Rightarrow> validation_path \<times> violations"
where
  "validate_at (StringOf lo hi) (StringV s) (p, out) = (p, check_string s lo hi p out)"
| "validate_at (IntegerOf lo hi) (IntegerV i) (p, out) = (p, int_range i lo hi p out)"
| "validate_at (NumberOf lo hi) (NumberV d) (p, out) = (p, number_range d lo hi p out)"
| "validate_at (EnumOf t) (EnumV e) (p, out) = (p, validate_enum t e p out)"
| "validate_at (VecOf lo hi sh) (VecV vs) (p, out) =
     validate_items sh 0 vs (p, list_len (length vs) lo hi p out)"
| "validate_at (StructOf n ms) (StructV fs) (p, out) = validate_members ms fs (p, out)"
| "validate_at _ _ (p, out) = (p, out)"
| "validate_members (m # ms) ((_, v) # fs) (p, out) =
     (let p0 = push_key (member_name m) p;
          (p1, out1) = (case v of Some w \<Rightarrow> validate_at (member_shape m) w (p0, out) | None \<Rightarrow> (p0, out))
      in validate_members ms fs (path_pop p1, out1))"
| "validate_members _ _ (p, out) = (p, out)"
| "validate_items sh i (v # vs) (p, out) =
     (let (p1, out1) = validate_at sh v (push_index i p, out)
      in validate_items sh (Suc i) vs (path_pop p1, out1))"
| "validate_items sh i [] (p, out) = (p, out)"
  by pat_completeness auto
termination
  by (relation "measures
      [\<lambda>x. case x of Inl (sh, v, _) \<Rightarrow> size sh | Inr (Inl (ms, fs, _)) \<Rightarrow> size_list size ms
         | Inr (Inr (sh, i, vs, _)) \<Rightarrow> size sh,
       \<lambda>x. case x of Inl _ \<Rightarrow> 0 | Inr (Inl _) \<Rightarrow> 0 | Inr (Inr (sh, i, vs, _)) \<Rightarrow> Suc (length vs)]") auto

definition validate :: "shape \<Rightarrow> 'x payload \<Rightarrow> violations + unit" where
  "validate sh v = (let out = snd (validate_at sh v ([], [])) in if out = [] then Inr () else Inl out)"

definition CustomData :: shape where
  "CustomData = StructOf ''CustomData'' [Required ''vendorId'' (StringOf None (Some 255))]"

section \<open>Well-formed shapes and payloads\<close>

text \<open>
  No struct has two members of one name, and no enumeration two variants of one name or two of one
  wire value.
\<close>

definition enum_ok :: "enum_type \<Rightarrow> bool" where
  "enum_ok t \<longleftrightarrow> distinct (map fst (enum_table t)) \<and> distinct (map snd (enum_table t))"

fun shape_ok :: "shape \<Rightarrow> bool" where
  "shape_ok (StructOf n ms) \<longleftrightarrow> distinct (map member_name ms) \<and> list_all (\<lambda>m. shape_ok (member_shape m)) ms"
| "shape_ok (VecOf lo hi sh) \<longleftrightarrow> shape_ok sh"
| "shape_ok (EnumOf t) \<longleftrightarrow> enum_ok t"
| "shape_ok _ \<longleftrightarrow> True"

definition in_i32 :: "int \<Rightarrow> bool" where
  "in_i32 i \<longleftrightarrow> - (2 ^ 31) \<le> i \<and> i < 2 ^ 31"

text \<open>A payload is a value of the Rust type.\<close>

function (sequential) has_shape :: "shape \<Rightarrow> 'x payload \<Rightarrow> bool"
and has_members :: "member list \<Rightarrow> (string \<times> 'x payload option) list \<Rightarrow> bool" where
  "has_shape (StringOf lo hi) (StringV s) \<longleftrightarrow> True"
| "has_shape (IntegerOf lo hi) (IntegerV i) \<longleftrightarrow> in_i32 i"
| "has_shape (NumberOf lo hi) (NumberV d) \<longleftrightarrow> True"
| "has_shape FlagOf (FlagV b) \<longleftrightarrow> True"
| "has_shape (PlainOf n) (PlainV x) \<longleftrightarrow> True"
| "has_shape (EnumOf t) (EnumV e) \<longleftrightarrow> (case e of Variant n \<Rightarrow> n \<in> fst ` set (enum_table t) | UnknownValue s \<Rightarrow> True)"
| "has_shape (VecOf lo hi sh) (VecV vs) \<longleftrightarrow> list_all (has_shape sh) vs"
| "has_shape (StructOf n ms) (StructV fs) \<longleftrightarrow> has_members ms fs"
| "has_shape _ _ \<longleftrightarrow> False"
| "has_members [] [] \<longleftrightarrow> True"
| "has_members (m # ms) ((k, v) # fs) \<longleftrightarrow>
     k = member_name m \<and>
     (case v of Some w \<Rightarrow> has_shape (member_shape m) w | None \<Rightarrow> (case m of Optional _ _ \<Rightarrow> True | Required _ _ \<Rightarrow> False)) \<and>
     has_members ms fs"
| "has_members _ _ \<longleftrightarrow> False"
  by pat_completeness auto
termination
  by (relation "measure (\<lambda>x. case x of Inl (sh, v) \<Rightarrow> size sh | Inr (ms, fs) \<Rightarrow> size_list size ms)")
    (auto intro: less_le_trans)

section \<open>Where a constraint is broken\<close>

text \<open>The part of a payload a path leads to, with its shape.\<close>

fun reach :: "shape \<Rightarrow> 'x payload \<Rightarrow> validation_path \<Rightarrow> (shape \<times> 'x payload) option" where
  "reach sh v [] = Some (sh, v)"
| "reach (StructOf n ms) (StructV fs) (Key k # p) =
     (case List.find (\<lambda>(m, f). member_name m = k) (zip ms fs) of
        Some (m, (_, Some w)) \<Rightarrow> reach (member_shape m) w p
      | _ \<Rightarrow> None)"
| "reach (VecOf lo hi sh) (VecV vs) (Index i # p) = (if i < length vs then reach sh (vs ! i) p else None)"
| "reach _ _ _ = None"

text \<open>The constraints of the schema, on one value.\<close>

definition below :: "'a::order \<Rightarrow> 'a option \<Rightarrow> bool" where
  "below x lo \<longleftrightarrow> (\<exists>l. lo = Some l \<and> x < l)"

definition above :: "'a::order \<Rightarrow> 'a option \<Rightarrow> bool" where
  "above x hi \<longleftrightarrow> (\<exists>h. hi = Some h \<and> h < x)"

fun broken :: "violation_kind \<Rightarrow> shape \<Rightarrow> 'x payload \<Rightarrow> bool" where
  "broken k (StringOf lo hi) (StringV s) \<longleftrightarrow> k = PropertyViolation \<and> (below (length s) lo \<or> above (length s) hi)"
| "broken k (IntegerOf lo hi) (IntegerV i) \<longleftrightarrow> k = PropertyViolation \<and> (below i lo \<or> above i hi)"
| "broken k (NumberOf lo hi) (NumberV d) \<longleftrightarrow>
     k = PropertyViolation \<and> (below (val d) (map_option val lo) \<or> above (val d) (map_option val hi))"
| "broken k (EnumOf t) (EnumV e) \<longleftrightarrow> k = UnknownEnumValue \<and> \<not> enum_is_known e"
| "broken k (VecOf lo hi sh) (VecV vs) \<longleftrightarrow> k = OccurrenceViolation \<and> (below (length vs) lo \<or> above (length vs) hi)"
| "broken k _ _ \<longleftrightarrow> False"


section \<open>What validation reports\<close>

text \<open>The violations of a run, as pairs of a pointer and a kind.\<close>

definition noted :: "violations \<Rightarrow> (string \<times> violation_kind) set" where
  "noted out = (\<lambda>x. (vn_path x, vn_kind x)) ` set out"

definition faults :: "validation_path \<Rightarrow> shape \<Rightarrow> 'x payload \<Rightarrow> (string \<times> violation_kind) set" where
  "faults p sh v = {(to_pointer (p @ r), k) | r k. \<exists>sh' w. reach sh v r = Some (sh', w) \<and> broken k sh' w}"

definition adds_faults :: "validation_path \<Rightarrow> (string \<times> violation_kind) set \<Rightarrow> violations \<Rightarrow>
    validation_path \<times> violations \<Rightarrow> bool" where
  "adds_faults p F out st \<longleftrightarrow> (\<exists>new. st = (p, out @ new) \<and> noted new = F)"

lemma noted_simps [simp]:
  "noted [] = {}" "noted (xs @ ys) = noted xs \<union> noted ys"
  "noted (x # xs) = insert (vn_path x, vn_kind x) (noted xs)"
  by (auto simp: noted_def)

lemma push_then_pop [simp]: "path_pop (push_key k p) = p" "path_pop (push_index i p) = p"
  by (simp_all add: path_pop_def push_key_def push_index_def)

lemma checks_report:
  "\<exists>new. check_string s lo hi p out = out @ new \<and>
     noted new = {(to_pointer p, k) | k. k = PropertyViolation \<and> (below (length s) lo \<or> above (length s) hi)}"
  "\<exists>new. int_range i lo' hi' p out = out @ new \<and>
     noted new = {(to_pointer p, k) | k. k = PropertyViolation \<and> (below i lo' \<or> above i hi')}"
  "\<exists>new. number_range d dl dh p out = out @ new \<and>
     noted new = {(to_pointer p, k) | k. k = PropertyViolation \<and>
       (below (val d) (map_option val dl) \<or> above (val d) (map_option val dh))}"
  "\<exists>new. list_len n lo hi p out = out @ new \<and>
     noted new = {(to_pointer p, k) | k. k = OccurrenceViolation \<and> (below n lo \<or> above n hi)}"
  "\<exists>new. validate_enum t e p out = out @ new \<and>
     noted new = {(to_pointer p, k) | k. k = UnknownEnumValue \<and> \<not> enum_is_known e}"
      apply (auto simp: check_string_def violations_push_def below_def above_def Let_def split: option.split)[1]
     apply (auto simp: int_range_def violations_push_def below_def above_def Let_def split: option.split)[1]
    apply (auto simp: number_range_def violations_push_def below_def above_def Let_def compare_val split: option.split)[1]
   apply (auto simp: list_len_def violations_push_def below_def above_def Let_def split: option.split)[1]
  apply (cases e; auto simp: unknown_enum_value_def violations_push_def)
  done

lemma reach_leaf: "r \<noteq> [] \<Longrightarrow> (\<forall>n ms. sh \<noteq> StructOf n ms) \<Longrightarrow> (\<forall>lo hi s. sh \<noteq> VecOf lo hi s) \<Longrightarrow> reach sh v r = None"
  by (cases r; cases sh; cases v; cases "hd r") auto

lemma faults_leaf:
  assumes "\<forall>n ms. sh \<noteq> StructOf n ms" and "\<forall>lo hi s. sh \<noteq> VecOf lo hi s"
  shows "faults p sh v = {(to_pointer p, k) | k. broken k sh v}"
proof -
  have "reach sh v r = Some y \<longleftrightarrow> r = [] \<and> y = (sh, v)" for r y
    using reach_leaf [OF _ assms, of r v] by (cases "r = []") auto
  then show ?thesis by (auto simp: faults_def)
qed


lemma split_paths:
  assumes "\<And>r. E r \<longleftrightarrow> r = [] \<and> B \<or> (\<exists>x s. r = x # s \<and> D x s)"
  shows "(\<exists>r. q = f (p @ r) \<and> E r) \<longleftrightarrow> q = f p \<and> B \<or> (\<exists>x s. q = f ((p @ [x]) @ s) \<and> D x s)"
  unfolding assms by (auto intro: exI [of _ "[]"])

definition fault_at :: "shape \<Rightarrow> 'x payload \<Rightarrow> violation_kind \<Rightarrow> validation_path \<Rightarrow> bool" where
  "fault_at sh v k r \<longleftrightarrow> (\<exists>sh' w. reach sh v r = Some (sh', w) \<and> broken k sh' w)"

lemma in_faults: "(q, k) \<in> faults p sh v \<longleftrightarrow> (\<exists>r. q = to_pointer (p @ r) \<and> fault_at sh v k r)"
  by (auto simp: faults_def fault_at_def)

lemma fault_vec:
  "fault_at (VecOf lo hi sh) (VecV vs) k r \<longleftrightarrow>
     r = [] \<and> broken k (VecOf lo hi sh) (VecV vs) \<or>
     (\<exists>x s. r = x # s \<and> (\<exists>j < length vs. x = Index j \<and> fault_at sh (vs ! j) k s))"
  by (cases r; cases "hd r") (auto simp: fault_at_def)

lemma faults_vec:
  "(q, k) \<in> faults p (VecOf lo hi sh) (VecV vs) \<longleftrightarrow>
     q = to_pointer p \<and> broken k (VecOf lo hi sh) (VecV vs) \<or>
     (\<exists>j < length vs. (q, k) \<in> faults (p @ [Index j]) sh (vs ! j))"
  unfolding in_faults split_paths [OF fault_vec] by blast

lemma find_zip:
  assumes "distinct (map member_name ms)"
  shows "List.find (\<lambda>(m, f). member_name m = k) (zip ms fs) = Some (m, f) \<longleftrightarrow>
    (m, f) \<in> set (zip ms fs) \<and> member_name m = k"
  using assms
proof (induction ms arbitrary: fs)
  case (Cons a ms)
  show ?case
  proof (cases fs)
    case (Cons b gs)
    have "member_name a \<noteq> member_name m" if "(m, f) \<in> set (zip ms gs)"
      using Cons.prems set_zip_leftD [OF that] by auto
    then show ?thesis using Cons.IH [of gs] Cons.prems Cons by auto
  qed simp
qed simp

definition member_faults ::
  "validation_path \<Rightarrow> member list \<Rightarrow> (string \<times> 'x payload option) list \<Rightarrow> (string \<times> violation_kind) set" where
  "member_faults p ms fs =
     (\<Union>(m, f) \<in> set (zip ms fs). case snd f of
        Some w \<Rightarrow> faults (p @ [Key (member_name m)]) (member_shape m) w | None \<Rightarrow> {})"

lemma fault_struct:
  assumes "distinct (map member_name ms)"
  shows "fault_at (StructOf n ms) (StructV fs) k r \<longleftrightarrow>
     r = [] \<and> False \<or>
     (\<exists>x s. r = x # s \<and>
       (\<exists>m a w. (m, a, Some w) \<in> set (zip ms fs) \<and> x = Key (member_name m) \<and> fault_at (member_shape m) w k s))"
proof (cases r)
  case Nil
  then show ?thesis by (simp add: fault_at_def)
next
  case (Cons seg q)
  show ?thesis
  proof (cases seg)
    case (Key key)
    note find = find_zip [OF assms, of key fs]
    have "reach (StructOf n ms) (StructV fs) r = Some y \<longleftrightarrow>
        (\<exists>m a w. List.find (\<lambda>(m, f). member_name m = key) (zip ms fs) = Some (m, a, Some w) \<and>
           reach (member_shape m) w q = Some y)" for y
      using Cons Key by (auto split: option.splits)
    then have "fault_at (StructOf n ms) (StructV fs) k r \<longleftrightarrow>
        (\<exists>m a w. ((m, a, Some w) \<in> set (zip ms fs) \<and> member_name m = key) \<and> fault_at (member_shape m) w k q)"
      unfolding fault_at_def find by blast
    then show ?thesis unfolding Cons Key by blast
  next
    case (Index i)
    then show ?thesis using Cons by (simp add: fault_at_def)
  qed
qed

lemma faults_struct:
  assumes "distinct (map member_name ms)"
  shows "faults p (StructOf n ms) (StructV fs) = member_faults p ms fs"
proof -
  have "(q, k) \<in> faults p (StructOf n ms) (StructV fs) \<longleftrightarrow> (q, k) \<in> member_faults p ms fs" for q k
  proof -
    have "(q, k) \<in> member_faults p ms fs \<longleftrightarrow>
        (\<exists>m a w. (m, a, Some w) \<in> set (zip ms fs) \<and> (q, k) \<in> faults (p @ [Key (member_name m)]) (member_shape m) w)"
      unfolding member_faults_def by (force split: option.splits)
    moreover have "(q, k) \<in> faults p (StructOf n ms) (StructV fs) \<longleftrightarrow>
        q = to_pointer p \<and> False \<or>
        (\<exists>x s. q = to_pointer ((p @ [x]) @ s) \<and>
          (\<exists>m a w. (m, a, Some w) \<in> set (zip ms fs) \<and> x = Key (member_name m) \<and> fault_at (member_shape m) w k s))"
      unfolding in_faults by (rule split_paths) (rule fault_struct [OF assms])
    ultimately show ?thesis unfolding in_faults by blast
  qed
  then show ?thesis by auto
qed

lemma adds_nothing: "adds_faults p {} out (p, out)"
  by (simp add: adds_faults_def)

lemma adds_more:
  assumes "adds_faults p F out (p1, out1)" and "adds_faults p2 G out1 st" and "H = F \<union> G"
  shows "adds_faults p2 H out st"
  using assms by (auto simp: adds_faults_def)

lemma adds_leaf:
  assumes "\<exists>new. out1 = out @ new \<and> noted new = {(to_pointer p, k) | k. broken k sh v}"
    and "\<forall>n ms. sh \<noteq> StructOf n ms" and "\<forall>lo hi s. sh \<noteq> VecOf lo hi s"
  shows "adds_faults p (faults p sh v) out (p, out1)"
  using assms(1) unfolding adds_faults_def faults_leaf [OF assms(2,3)] by blast

lemma leaves_add:
  "adds_faults p (faults p (StringOf lo hi) (StringV s)) out (p, check_string s lo hi p out)"
  "adds_faults p (faults p (IntegerOf lo' hi') (IntegerV i)) out (p, int_range i lo' hi' p out)"
  "adds_faults p (faults p (NumberOf dl dh) (NumberV d)) out (p, number_range d dl dh p out)"
  "adds_faults p (faults p (EnumOf t) (EnumV e)) out (p, validate_enum t e p out)"
proof -
  show "adds_faults p (faults p (StringOf lo hi) (StringV s)) out (p, check_string s lo hi p out)"
    by (rule adds_leaf) (simp_all only: broken.simps checks_report, simp_all)
  show "adds_faults p (faults p (IntegerOf lo' hi') (IntegerV i)) out (p, int_range i lo' hi' p out)"
    by (rule adds_leaf) (simp_all only: broken.simps checks_report, simp_all)
  show "adds_faults p (faults p (NumberOf dl dh) (NumberV d)) out (p, number_range d dl dh p out)"
    by (rule adds_leaf) (simp_all only: broken.simps checks_report, simp_all)
  show "adds_faults p (faults p (EnumOf t) (EnumV e)) out (p, validate_enum t e p out)"
    by (rule adds_leaf) (simp_all only: broken.simps checks_report, simp_all)
qed

lemma leaves_free [simp]: "faults p FlagOf (FlagV b) = {}" "faults p (PlainOf n) (PlainV x) = {}"
  by (simp_all add: faults_leaf)

lemma member_faults_Cons:
  "member_faults p (m # ms) ((k, v) # fs) =
     (case v of Some w \<Rightarrow> faults (push_key (member_name m) p) (member_shape m) w | None \<Rightarrow> {}) \<union> member_faults p ms fs"
  by (cases v) (simp_all add: member_faults_def push_key_def)

lemma items_faults_Cons:
  "(\<Union>j < length (v # vs). faults (p @ [Index (i + j)]) sh ((v # vs) ! j)) =
     faults (push_index i p) sh v \<union> (\<Union>j < length vs. faults (p @ [Index (Suc i + j)]) sh (vs ! j))"
  by (simp add: lessThan_Suc_eq_insert_0 push_index_def image_image)

lemma vec_adds:
  assumes "adds_faults p (\<Union>j < length vs. faults (p @ [Index (0 + j)]) sh (vs ! j)) (list_len (length vs) lo hi p out) st"
  shows "adds_faults p (faults p (VecOf lo hi sh) (VecV vs)) out st"
proof -
  obtain new where "list_len (length vs) lo hi p out = out @ new"
    "noted new = {(to_pointer p, k) | k. k = OccurrenceViolation \<and> (below (length vs) lo \<or> above (length vs) hi)}"
    using checks_report(4) by blast
  then have "adds_faults p {(to_pointer p, k) | k. broken k (VecOf lo hi sh) (VecV vs)} out
      (p, list_len (length vs) lo hi p out)"
    by (simp add: adds_faults_def)
  moreover have "faults p (VecOf lo hi sh) (VecV vs) =
      {(to_pointer p, k) | k. broken k (VecOf lo hi sh) (VecV vs)} \<union> (\<Union>j < length vs. faults (p @ [Index (0 + j)]) sh (vs ! j))"
    (is "?l = ?r")
  proof -
    have "(q, k) \<in> ?l \<longleftrightarrow> (q, k) \<in> ?r" for q k
      unfolding faults_vec by (simp only: UN_iff Un_iff mem_Collect_eq prod.inject lessThan_iff add_0 Bex_def) (simp del: broken.simps)
    then show ?thesis by (simp only: set_eq_iff split_paired_All simp_thms)
  qed
  ultimately show ?thesis by (rule adds_more [OF _ assms])
qed

lemma has_unchecked [simp]:
  "has_shape FlagOf v \<longleftrightarrow> (\<exists>b. v = FlagV b)" "has_shape (PlainOf n) v \<longleftrightarrow> (\<exists>x. v = PlainV x)"
  "has_shape sh (FlagV b) \<longleftrightarrow> sh = FlagOf" "has_shape sh (PlainV x) \<longleftrightarrow> (\<exists>n. sh = PlainOf n)"
  by (cases v; simp)+ (cases sh; simp)+

lemma validate_adds:
  fixes v :: "'x payload" and fs :: "(string \<times> 'x payload option) list" and vs :: "'x payload list"
  shows "shape_ok sh \<Longrightarrow> has_shape sh v \<Longrightarrow> adds_faults (fst st) (faults (fst st) sh v) (snd st) (validate_at sh v st)"
    and "list_all (\<lambda>m. shape_ok (member_shape m)) ms \<Longrightarrow> has_members ms fs \<Longrightarrow>
      adds_faults (fst st) (member_faults (fst st) ms fs) (snd st) (validate_members ms fs st)"
    and "shape_ok sh \<Longrightarrow> list_all (has_shape sh) vs \<Longrightarrow>
      adds_faults (fst st) (\<Union>j < length vs. faults (fst st @ [Index (i + j)]) sh (vs ! j)) (snd st)
        (validate_items sh i vs st)"
proof (induction sh v st and ms fs st and sh i vs st rule: validate_at_validate_members_validate_items.induct, goal_cases)
  case (5 lo hi sh vs p out)
  then show ?case by (simp add: vec_adds)
next
  case (6 n ms fs p out)
  then show ?case by (simp add: faults_struct)
next
  case (81 m ms k v fs p out)
  show ?case
  proof (cases v)
    case None
    then show ?thesis using 81 by (simp add: member_faults_Cons)
  next
    case (Some w)
    have "adds_faults (push_key (member_name m) p) (faults (push_key (member_name m) p) (member_shape m) w) out
        (validate_at (member_shape m) w (push_key (member_name m) p, out))"
      using 81 Some by simp
    then obtain new where new: "validate_at (member_shape m) w (push_key (member_name m) p, out) =
        (push_key (member_name m) p, out @ new)"
      "noted new = faults (push_key (member_name m) p) (member_shape m) w"
      by (auto simp: adds_faults_def)
    then have "adds_faults p (faults (push_key (member_name m) p) (member_shape m) w) out (p, out @ new)"
      by (simp add: adds_faults_def)
    from adds_more [OF this] show ?thesis using 81 Some new(1) by (simp add: member_faults_Cons)
  qed
next
  case (84 sh i v vs p out)
  have "adds_faults (push_index i p) (faults (push_index i p) sh v) out (validate_at sh v (push_index i p, out))"
    using 84 by simp
  then obtain new where new: "validate_at sh v (push_index i p, out) = (push_index i p, out @ new)"
    "noted new = faults (push_index i p) sh v"
    by (auto simp: adds_faults_def)
  then have "adds_faults p (faults (push_index i p) sh v) out (p, out @ new)"
    by (simp add: adds_faults_def)
  from adds_more [OF this] show ?case
    using 84 new(1) unfolding items_faults_Cons fst_conv snd_conv by simp
qed (auto simp: adds_nothing leaves_add member_faults_def)


section \<open>Reading a pointer\<close>

text \<open>\<open>str::replace\<close> with a pattern of two characters, and the way \<open>decode.rs\<close> reads a token.\<close>

fun replace_pair :: "char \<Rightarrow> char \<Rightarrow> string \<Rightarrow> string \<Rightarrow> string" where
  "replace_pair a b r (x # y # s) =
     (if x = a \<and> y = b then r @ replace_pair a b r s else x # replace_pair a b r (y # s))"
| "replace_pair a b r s = s"

definition unescape_token :: "string \<Rightarrow> string" where
  "unescape_token t =
     replace_pair (CHR 0x7E) (CHR ''0'') [CHR 0x7E] (replace_pair (CHR 0x7E) (CHR ''1'') ''/'' t)"

lemma replace_pair_skip [simp]: "x \<noteq> a \<Longrightarrow> replace_pair a b r (x # s) = x # replace_pair a b r s"
  by (cases s) auto

definition escaped :: "char \<Rightarrow> string" where
  "escaped c = (if c = CHR 0x7E then ''~0'' else if c = CHR ''/'' then ''~1'' else [c])"

lemma escape_token_map: "escape_token k = concat (map escaped k)"
  by (induction k) (auto simp: escape_token_def replace_char_def escaped_def)

theorem token_roundtrip: "unescape_token (escape_token k) = k"
proof -
  have first: "replace_pair (CHR 0x7E) (CHR ''1'') ''/'' (concat (map escaped k)) =
      concat (map (\<lambda>c. if c = CHR 0x7E then ''~0'' else [c]) k)"
    by (induction k) (auto simp: escaped_def)
  have "replace_pair (CHR 0x7E) (CHR ''0'') [CHR 0x7E] (concat (map (\<lambda>c. if c = CHR 0x7E then ''~0'' else [c]) k)) = k"
    by (induction k) auto
  then show ?thesis by (simp add: unescape_token_def escape_token_map first)
qed

lemma segment_no_slash: "CHR ''/'' \<notin> set (segment_text seg)"
proof (cases seg)
  case (Key k)
  then show ?thesis by (auto simp: escape_token_map escaped_def)
next
  case (Index i)
  have "\<not> is_digit (CHR ''/'')" by code_simp
  then show ?thesis using Index digits_shape(1) [of i] by (auto simp: list_all_iff)
qed

lemma pointer_tokens: "split_on (CHR ''/'') (to_pointer p) = [] # map segment_text p"
proof (induction p)
  case (Cons seg p)
  have "split_on (CHR ''/'') (segment_text seg @ to_pointer p) = segment_text seg # map segment_text p"
  proof (cases p)
    case Nil
    then show ?thesis using segment_no_slash by (simp add: to_pointer_def split_on_none)
  next
    case (Cons s q)
    then have "to_pointer p = CHR ''/'' # segment_text s @ to_pointer q" by (simp add: to_pointer_def)
    moreover have "split_on (CHR ''/'') (segment_text s @ to_pointer q) = map segment_text p"
      using Cons.IH calculation by simp
    ultimately show ?thesis using segment_no_slash by (simp add: split_on_append)
  qed
  then show ?case by (simp add: to_pointer_def)
qed (simp add: to_pointer_def)

lemma tokens_identify:
  "reach sh v p = Some x \<Longrightarrow> reach sh v p' = Some y \<Longrightarrow> map segment_text p = map segment_text p' \<Longrightarrow> p = p'"
proof (induction sh v p arbitrary: p' rule: reach.induct)
  case (2 n ms fs k p)
  obtain s q where p': "p' = s # q" using 2(4) by (cases p') auto
  obtain k' where s: "s = Key k'" using 2(3) p' by (cases s) auto
  have "escape_token k = escape_token k'" "map segment_text p = map segment_text q" using 2(4) p' s by simp_all
  then have "k = k'" by (metis token_roundtrip)
  with 2 p' s \<open>map segment_text p = map segment_text q\<close> show ?case by (auto split: option.splits)
next
  case (3 lo hi sh vs i p)
  obtain s q where p': "p' = s # q" using 3(4) by (cases p') auto
  obtain i' where s: "s = Index i'" using 3(3) p' by (cases s) auto
  have "digits i = digits i'" "map segment_text p = map segment_text q" using 3(4) p' s by simp_all
  then have "i = i'" by (metis digits_shape(2))
  with 3 p' s \<open>map segment_text p = map segment_text q\<close> show ?case by (auto split: if_splits)
qed auto

lemma pointer_identifies:
  assumes "reach sh v p = Some x" and "reach sh v p' = Some y" and "to_pointer p = to_pointer p'"
  shows "p = p'"
proof -
  have "map segment_text p = map segment_text p'" using pointer_tokens [of p] pointer_tokens [of p'] assms(3) by simp
  then show ?thesis using tokens_identify assms(1,2) by blast
qed

section \<open>What is noted\<close>

lemma validate_at_adds:
  assumes "shape_ok sh" and "has_shape sh v"
  obtains new where "validate_at sh v (p, out) = (p, out @ new)" "noted new = faults p sh v"
  using validate_adds(1) [OF assms, of "(p, out)"] by (auto simp: adds_faults_def)

text \<open>
  C37. Validation reports exactly what the schema forbids. For a value of any generated type, a
  violation is noted under a pointer and a kind exactly if the one place of the payload this
  pointer leads to breaks a constraint of that kind there (too long or short a text, a number out
  of range, too few or many items, an undefined value of an enumeration); the payload is accepted
  exactly if there is no such place, and the path is left where it was.
\<close>

theorem validation_exact:
  assumes "shape_ok sh" and "has_shape sh v"
  shows "fst (validate_at sh v (p, out)) = p \<and>
    ((q, k) \<in> noted (snd (validate_at sh v ([], []))) \<longleftrightarrow>
       (\<exists>!r. to_pointer r = q \<and> (\<exists>sh' w. reach sh v r = Some (sh', w) \<and> broken k sh' w))) \<and>
    (validate sh v = Inr () \<longleftrightarrow> (\<forall>k r sh' w. reach sh v r = Some (sh', w) \<longrightarrow> \<not> broken k sh' w))"
proof -
  obtain new where new: "validate_at sh v ([], []) = ([], [] @ new)" "noted new = faults [] sh v"
    by (rule validate_at_adds [OF assms])
  obtain more where more: "validate_at sh v (p, out) = (p, out @ more)"
    by (rule validate_at_adds [OF assms])
  have iff: "(q, k) \<in> noted new \<longleftrightarrow> (\<exists>r. to_pointer r = q \<and> fault_at sh v k r)" for q k
    using in_faults [of q k "[]" sh v] new(2) by auto
  have one: "r = r'" if "fault_at sh v k r" "fault_at sh v k r'" "to_pointer r = to_pointer r'" for r r'
    using that pointer_identifies unfolding fault_at_def by blast
  have "(\<exists>r. to_pointer r = q \<and> fault_at sh v k r) \<longleftrightarrow> (\<exists>!r. to_pointer r = q \<and> fault_at sh v k r)"
    using one by metis
  moreover have "new = [] \<longleftrightarrow> (\<forall>q k. (q, k) \<notin> noted new)"
    by (cases new) auto
  then have "validate sh v = Inr () \<longleftrightarrow> (\<forall>k r. \<not> fault_at sh v k r)"
    using iff new(1) by (auto simp: validate_def Let_def)
  ultimately show ?thesis using iff new(1) more by (simp add: fault_at_def)
qed

definition sample_shape :: shape where
  "sample_shape = StructOf ''Sample''
     [Required ''a/b'' (StringOf None (Some 2)), Optional ''list'' (VecOf (Some 1) None (IntegerOf (Some 0) None)),
      Optional ''customData'' CustomData]"

definition sample_payload :: "unit payload" where
  "sample_payload =
     with_member ''list'' (VecV [IntegerV 3, IntegerV (- 1)]) (payload_new sample_shape [StringV ''abc''])"

theorem validation_exact_witness:
  "map vn_path (snd (validate_at sample_shape sample_payload ([], []))) = [''/a~1b'', ''/list/1''] \<and>
   (\<exists>!r. to_pointer r = ''/list/1'' \<and>
      (\<exists>sh' w. reach sample_shape sample_payload r = Some (sh', w) \<and> broken PropertyViolation sh' w))"
proof -
  have ok: "shape_ok sample_shape" "has_shape sample_shape sample_payload" by code_simp+
  have v: "map (\<lambda>x. (vn_path x, vn_kind x)) (snd (validate_at sample_shape sample_payload ([], []))) =
      [(''/a~1b'', PropertyViolation), (''/list/1'', PropertyViolation)]"
    by code_simp
  then have "map fst (map (\<lambda>x. (vn_path x, vn_kind x)) (snd (validate_at sample_shape sample_payload ([], [])))) =
      [''/a~1b'', ''/list/1'']"
    by simp
  then have paths: "map vn_path (snd (validate_at sample_shape sample_payload ([], []))) = [''/a~1b'', ''/list/1'']"
    by (simp add: comp_def)
  have "(''/list/1'', PropertyViolation) \<in> set (map (\<lambda>x. (vn_path x, vn_kind x)) (snd (validate_at sample_shape sample_payload ([], []))))"
    unfolding v by (simp del: list.inject)
  then have "(''/list/1'', PropertyViolation) \<in> noted (snd (validate_at sample_shape sample_payload ([], [])))"
    by (simp only: noted_def set_map)
  with validation_exact [OF ok, of "[]" "[]" "''/list/1''" PropertyViolation] paths show ?thesis by blast
qed

section \<open>Constructors and enumerations\<close>

text \<open>
  What \<open>new\<close> and the setters build is of the type, if the arguments are, and has the given members.
\<close>

lemma new_fields_shape:
  "length args = length (filter (\<lambda>m. case m of Required _ _ \<Rightarrow> True | Optional _ _ \<Rightarrow> False) ms) \<Longrightarrow>
   list_all2 (\<lambda>m v. has_shape (member_shape m) v)
     (filter (\<lambda>m. case m of Required _ _ \<Rightarrow> True | Optional _ _ \<Rightarrow> False) ms) args \<Longrightarrow>
   has_members ms (new_fields ms args)"
  by (induction ms args rule: new_fields.induct) auto

lemma with_member_shape:
  "has_members ms fs \<Longrightarrow> (\<forall>m \<in> set ms. member_name m = k \<longrightarrow> has_shape (member_shape m) v) \<Longrightarrow>
   has_members ms (map (\<lambda>(n, w). if n = k then (n, Some v) else (n, w)) fs)"
  by (induction ms fs rule: has_shape_has_members.induct(2)) auto

text \<open>A declared wire value is read as its variant and written back, and nothing else is known.\<close>

lemma find_wire:
  "distinct (map snd xs) \<Longrightarrow> List.find (\<lambda>(n, w). w = s) xs = Some y \<longleftrightarrow> y \<in> set xs \<and> snd y = s"
  by (induction xs) (auto simp: image_iff)

lemma enum_wire_roundtrip:
  assumes ok: "enum_ok t"
  shows "as_str t (enum_from_wire t s) = s" and "enum_is_known (enum_from_wire t s) \<longleftrightarrow> s \<in> set (VARIANTS t)"
    and "n \<in> fst ` set (enum_table t) \<Longrightarrow> enum_from_wire t (as_str t (Variant n)) = Variant n"
proof -
  have assms: "distinct (map fst (enum_table t))" "distinct (map snd (enum_table t))"
    using ok by (simp_all add: enum_ok_def)
  have found: "List.find (\<lambda>(n, w). w = s) (enum_table t) = Some (n, w) \<longleftrightarrow> (n, w) \<in> set (enum_table t) \<and> w = s" for n w s
    using find_wire [OF assms(2), of s "(n, w)"] by simp
  show "as_str t (enum_from_wire t s) = s"
    using found assms(1) by (auto simp: enum_from_wire_def split: option.split)
  show "enum_is_known (enum_from_wire t s) \<longleftrightarrow> s \<in> set (VARIANTS t)"
    using found by (force simp: enum_from_wire_def VARIANTS_def find_None_iff image_iff split: option.split)
  show "enum_from_wire t (as_str t (Variant n)) = Variant n" if n: "n \<in> fst ` set (enum_table t)"
  proof -
    from n obtain w where w: "(n, w) \<in> set (enum_table t)" by force
    then have "map_of (enum_table t) n = Some w" using assms(1) by simp
    moreover have "List.find (\<lambda>(m, w'). w' = w) (enum_table t) = Some (n, w)" using found w by blast
    ultimately show ?thesis by (simp add: enum_from_wire_def)
  qed
qed

lemma CustomData_ok [simp]: "shape_ok CustomData"
  by (simp add: CustomData_def)

end
