(* ===== verification/Enums_V1_6.thy ===== *)
theory Enums_V1_6
  imports Validation
begin

text \<open>
  \<open>v1_6/enums.rs\<close>: the enumerations of OCPP 1.6, each with its variants and their wire values in
  the order of the source. The names carry the version, since the versions share most of them.
\<close>

definition AuthorizationStatus_V1_6 :: enum_type where
  "AuthorizationStatus_V1_6 = EnumType ''AuthorizationStatus''
     [(''Accepted'', ''Accepted''), (''Blocked'', ''Blocked''), (''Expired'', ''Expired''),
      (''Invalid'', ''Invalid''), (''ConcurrentTx'', ''ConcurrentTx'')]"

definition AvailabilityStatus_V1_6 :: enum_type where
  "AvailabilityStatus_V1_6 = EnumType ''AvailabilityStatus''
     [(''Accepted'', ''Accepted''), (''Rejected'', ''Rejected''), (''Scheduled'', ''Scheduled'')]"

definition AvailabilityType_V1_6 :: enum_type where
  "AvailabilityType_V1_6 = EnumType ''AvailabilityType''
     [(''Inoperative'', ''Inoperative''), (''Operative'', ''Operative'')]"

definition CancelReservationStatus_V1_6 :: enum_type where
  "CancelReservationStatus_V1_6 = EnumType ''CancelReservationStatus''
     [(''Accepted'', ''Accepted''), (''Rejected'', ''Rejected'')]"

definition CertificateSignedStatus_V1_6 :: enum_type where
  "CertificateSignedStatus_V1_6 = EnumType ''CertificateSignedStatus''
     [(''Accepted'', ''Accepted''), (''Rejected'', ''Rejected'')]"

definition CertificateUse_V1_6 :: enum_type where
  "CertificateUse_V1_6 = EnumType ''CertificateUse''
     [(''CentralSystemRootCertificate'', ''CentralSystemRootCertificate''),
      (''ManufacturerRootCertificate'', ''ManufacturerRootCertificate'')]"

definition ChargePointErrorCode_V1_6 :: enum_type where
  "ChargePointErrorCode_V1_6 = EnumType ''ChargePointErrorCode''
     [(''ConnectorLockFailure'', ''ConnectorLockFailure''),
      (''EVCommunicationError'', ''EVCommunicationError''), (''GroundFailure'', ''GroundFailure''),
      (''HighTemperature'', ''HighTemperature''), (''InternalError'', ''InternalError''),
      (''LocalListConflict'', ''LocalListConflict''), (''NoError'', ''NoError''),
      (''OtherError'', ''OtherError''), (''OverCurrentFailure'', ''OverCurrentFailure''),
      (''PowerMeterFailure'', ''PowerMeterFailure''), (''PowerSwitchFailure'', ''PowerSwitchFailure''),
      (''ReaderFailure'', ''ReaderFailure''), (''ResetFailure'', ''ResetFailure''),
      (''UnderVoltage'', ''UnderVoltage''), (''OverVoltage'', ''OverVoltage''),
      (''WeakSignal'', ''WeakSignal'')]"

definition ChargePointStatus_V1_6 :: enum_type where
  "ChargePointStatus_V1_6 = EnumType ''ChargePointStatus''
     [(''Available'', ''Available''), (''Preparing'', ''Preparing''), (''Charging'', ''Charging''),
      (''SuspendedEVSE'', ''SuspendedEVSE''), (''SuspendedEV'', ''SuspendedEV''),
      (''Finishing'', ''Finishing''), (''Reserved'', ''Reserved''), (''Unavailable'', ''Unavailable''),
      (''Faulted'', ''Faulted'')]"

definition ChargingProfileKind_V1_6 :: enum_type where
  "ChargingProfileKind_V1_6 = EnumType ''ChargingProfileKind''
     [(''Absolute'', ''Absolute''), (''Recurring'', ''Recurring''), (''Relative'', ''Relative'')]"

definition ChargingProfilePurpose_V1_6 :: enum_type where
  "ChargingProfilePurpose_V1_6 = EnumType ''ChargingProfilePurpose''
     [(''ChargePointMaxProfile'', ''ChargePointMaxProfile''),
      (''TxDefaultProfile'', ''TxDefaultProfile''), (''TxProfile'', ''TxProfile'')]"

definition ChargingProfileStatus_V1_6 :: enum_type where
  "ChargingProfileStatus_V1_6 = EnumType ''ChargingProfileStatus''
     [(''Accepted'', ''Accepted''), (''Rejected'', ''Rejected''), (''NotSupported'', ''NotSupported'')]"

definition ChargingRateUnit_V1_6 :: enum_type where
  "ChargingRateUnit_V1_6 = EnumType ''ChargingRateUnit''
     [(''A'', ''A''), (''W'', ''W'')]"

definition ClearCacheStatus_V1_6 :: enum_type where
  "ClearCacheStatus_V1_6 = EnumType ''ClearCacheStatus''
     [(''Accepted'', ''Accepted''), (''Rejected'', ''Rejected'')]"

definition ClearChargingProfileStatus_V1_6 :: enum_type where
  "ClearChargingProfileStatus_V1_6 = EnumType ''ClearChargingProfileStatus''
     [(''Accepted'', ''Accepted''), (''Unknown'', ''Unknown'')]"

definition ConfigurationStatus_V1_6 :: enum_type where
  "ConfigurationStatus_V1_6 = EnumType ''ConfigurationStatus''
     [(''Accepted'', ''Accepted''), (''Rejected'', ''Rejected''),
      (''RebootRequired'', ''RebootRequired''), (''NotSupported'', ''NotSupported'')]"

definition DataTransferStatus_V1_6 :: enum_type where
  "DataTransferStatus_V1_6 = EnumType ''DataTransferStatus''
     [(''Accepted'', ''Accepted''), (''Rejected'', ''Rejected''),
      (''UnknownMessageId'', ''UnknownMessageId''), (''UnknownVendorId'', ''UnknownVendorId'')]"

definition DeleteCertificateStatus_V1_6 :: enum_type where
  "DeleteCertificateStatus_V1_6 = EnumType ''DeleteCertificateStatus''
     [(''Accepted'', ''Accepted''), (''Failed'', ''Failed''), (''NotFound'', ''NotFound'')]"

definition DiagnosticsStatus_V1_6 :: enum_type where
  "DiagnosticsStatus_V1_6 = EnumType ''DiagnosticsStatus''
     [(''Idle'', ''Idle''), (''Uploaded'', ''Uploaded''), (''UploadFailed'', ''UploadFailed''),
      (''Uploading'', ''Uploading'')]"

definition ExtendedMessageTrigger_V1_6 :: enum_type where
  "ExtendedMessageTrigger_V1_6 = EnumType ''ExtendedMessageTrigger''
     [(''BootNotification'', ''BootNotification''),
      (''LogStatusNotification'', ''LogStatusNotification''),
      (''FirmwareStatusNotification'', ''FirmwareStatusNotification''), (''Heartbeat'', ''Heartbeat''),
      (''MeterValues'', ''MeterValues''),
      (''SignChargePointCertificate'', ''SignChargePointCertificate''),
      (''StatusNotification'', ''StatusNotification'')]"

definition FirmwareStatus_V1_6 :: enum_type where
  "FirmwareStatus_V1_6 = EnumType ''FirmwareStatus''
     [(''Downloaded'', ''Downloaded''), (''DownloadFailed'', ''DownloadFailed''),
      (''Downloading'', ''Downloading''), (''Idle'', ''Idle''),
      (''InstallationFailed'', ''InstallationFailed''), (''Installing'', ''Installing''),
      (''Installed'', ''Installed'')]"

definition GenericStatus_V1_6 :: enum_type where
  "GenericStatus_V1_6 = EnumType ''GenericStatus''
     [(''Accepted'', ''Accepted''), (''Rejected'', ''Rejected'')]"

definition GetCompositeScheduleStatus_V1_6 :: enum_type where
  "GetCompositeScheduleStatus_V1_6 = EnumType ''GetCompositeScheduleStatus''
     [(''Accepted'', ''Accepted''), (''Rejected'', ''Rejected'')]"

definition GetInstalledCertificateStatus_V1_6 :: enum_type where
  "GetInstalledCertificateStatus_V1_6 = EnumType ''GetInstalledCertificateStatus''
     [(''Accepted'', ''Accepted''), (''NotFound'', ''NotFound'')]"

definition HashAlgorithm_V1_6 :: enum_type where
  "HashAlgorithm_V1_6 = EnumType ''HashAlgorithm''
     [(''SHA256'', ''SHA256''), (''SHA384'', ''SHA384''), (''SHA512'', ''SHA512'')]"

definition InstallCertificateStatus_V1_6 :: enum_type where
  "InstallCertificateStatus_V1_6 = EnumType ''InstallCertificateStatus''
     [(''Accepted'', ''Accepted''), (''Failed'', ''Failed''), (''Rejected'', ''Rejected'')]"

definition Location_V1_6 :: enum_type where
  "Location_V1_6 = EnumType ''Location''
     [(''Cable'', ''Cable''), (''EV'', ''EV''), (''Inlet'', ''Inlet''), (''Outlet'', ''Outlet''),
      (''Body'', ''Body'')]"

definition LogStatus_V1_6 :: enum_type where
  "LogStatus_V1_6 = EnumType ''LogStatus''
     [(''Accepted'', ''Accepted''), (''Rejected'', ''Rejected''),
      (''AcceptedCanceled'', ''AcceptedCanceled'')]"

definition LogType_V1_6 :: enum_type where
  "LogType_V1_6 = EnumType ''LogType''
     [(''DiagnosticsLog'', ''DiagnosticsLog''), (''SecurityLog'', ''SecurityLog'')]"

definition Measurand_V1_6 :: enum_type where
  "Measurand_V1_6 = EnumType ''Measurand''
     [(''EnergyActiveExportRegister'', ''Energy.Active.Export.Register''),
      (''EnergyActiveImportRegister'', ''Energy.Active.Import.Register''),
      (''EnergyReactiveExportRegister'', ''Energy.Reactive.Export.Register''),
      (''EnergyReactiveImportRegister'', ''Energy.Reactive.Import.Register''),
      (''EnergyActiveExportInterval'', ''Energy.Active.Export.Interval''),
      (''EnergyActiveImportInterval'', ''Energy.Active.Import.Interval''),
      (''EnergyReactiveExportInterval'', ''Energy.Reactive.Export.Interval''),
      (''EnergyReactiveImportInterval'', ''Energy.Reactive.Import.Interval''),
      (''PowerActiveExport'', ''Power.Active.Export''),
      (''PowerActiveImport'', ''Power.Active.Import''), (''PowerOffered'', ''Power.Offered''),
      (''PowerReactiveExport'', ''Power.Reactive.Export''),
      (''PowerReactiveImport'', ''Power.Reactive.Import''), (''PowerFactor'', ''Power.Factor''),
      (''CurrentImport'', ''Current.Import''), (''CurrentExport'', ''Current.Export''),
      (''CurrentOffered'', ''Current.Offered''), (''Voltage'', ''Voltage''),
      (''Frequency'', ''Frequency''), (''Temperature'', ''Temperature''), (''SoC'', ''SoC''),
      (''RPM'', ''RPM'')]"

definition MessageTrigger_V1_6 :: enum_type where
  "MessageTrigger_V1_6 = EnumType ''MessageTrigger''
     [(''BootNotification'', ''BootNotification''),
      (''DiagnosticsStatusNotification'', ''DiagnosticsStatusNotification''),
      (''FirmwareStatusNotification'', ''FirmwareStatusNotification''), (''Heartbeat'', ''Heartbeat''),
      (''MeterValues'', ''MeterValues''), (''StatusNotification'', ''StatusNotification'')]"

definition Phase_V1_6 :: enum_type where
  "Phase_V1_6 = EnumType ''Phase''
     [(''L1'', ''L1''), (''L2'', ''L2''), (''L3'', ''L3''), (''N'', ''N''), (''L1N'', ''L1-N''),
      (''L2N'', ''L2-N''), (''L3N'', ''L3-N''), (''L1L2'', ''L1-L2''), (''L2L3'', ''L2-L3''),
      (''L3L1'', ''L3-L1'')]"

definition ReadingContext_V1_6 :: enum_type where
  "ReadingContext_V1_6 = EnumType ''ReadingContext''
     [(''InterruptionBegin'', ''Interruption.Begin''), (''InterruptionEnd'', ''Interruption.End''),
      (''SampleClock'', ''Sample.Clock''), (''SamplePeriodic'', ''Sample.Periodic''),
      (''TransactionBegin'', ''Transaction.Begin''), (''TransactionEnd'', ''Transaction.End''),
      (''Trigger'', ''Trigger''), (''Other'', ''Other'')]"

definition Reason_V1_6 :: enum_type where
  "Reason_V1_6 = EnumType ''Reason''
     [(''EmergencyStop'', ''EmergencyStop''), (''EVDisconnected'', ''EVDisconnected''),
      (''HardReset'', ''HardReset''), (''Local'', ''Local''), (''Other'', ''Other''),
      (''PowerLoss'', ''PowerLoss''), (''Reboot'', ''Reboot''), (''Remote'', ''Remote''),
      (''SoftReset'', ''SoftReset''), (''UnlockCommand'', ''UnlockCommand''),
      (''DeAuthorized'', ''DeAuthorized'')]"

definition RecurrencyKind_V1_6 :: enum_type where
  "RecurrencyKind_V1_6 = EnumType ''RecurrencyKind''
     [(''Daily'', ''Daily''), (''Weekly'', ''Weekly'')]"

definition RegistrationStatus_V1_6 :: enum_type where
  "RegistrationStatus_V1_6 = EnumType ''RegistrationStatus''
     [(''Accepted'', ''Accepted''), (''Pending'', ''Pending''), (''Rejected'', ''Rejected'')]"

definition RemoteStartStopStatus_V1_6 :: enum_type where
  "RemoteStartStopStatus_V1_6 = EnumType ''RemoteStartStopStatus''
     [(''Accepted'', ''Accepted''), (''Rejected'', ''Rejected'')]"

definition ReservationStatus_V1_6 :: enum_type where
  "ReservationStatus_V1_6 = EnumType ''ReservationStatus''
     [(''Accepted'', ''Accepted''), (''Faulted'', ''Faulted''), (''Occupied'', ''Occupied''),
      (''Rejected'', ''Rejected''), (''Unavailable'', ''Unavailable'')]"

definition ResetStatus_V1_6 :: enum_type where
  "ResetStatus_V1_6 = EnumType ''ResetStatus''
     [(''Accepted'', ''Accepted''), (''Rejected'', ''Rejected'')]"

definition ResetType_V1_6 :: enum_type where
  "ResetType_V1_6 = EnumType ''ResetType''
     [(''Hard'', ''Hard''), (''Soft'', ''Soft'')]"

definition SignedFirmwareStatus_V1_6 :: enum_type where
  "SignedFirmwareStatus_V1_6 = EnumType ''SignedFirmwareStatus''
     [(''Downloaded'', ''Downloaded''), (''DownloadFailed'', ''DownloadFailed''),
      (''Downloading'', ''Downloading''), (''DownloadScheduled'', ''DownloadScheduled''),
      (''DownloadPaused'', ''DownloadPaused''), (''Idle'', ''Idle''),
      (''InstallationFailed'', ''InstallationFailed''), (''Installing'', ''Installing''),
      (''Installed'', ''Installed''), (''InstallRebooting'', ''InstallRebooting''),
      (''InstallScheduled'', ''InstallScheduled''),
      (''InstallVerificationFailed'', ''InstallVerificationFailed''),
      (''InvalidSignature'', ''InvalidSignature''), (''SignatureVerified'', ''SignatureVerified'')]"

definition TriggerMessageStatus_V1_6 :: enum_type where
  "TriggerMessageStatus_V1_6 = EnumType ''TriggerMessageStatus''
     [(''Accepted'', ''Accepted''), (''Rejected'', ''Rejected''),
      (''NotImplemented'', ''NotImplemented'')]"

definition UnitOfMeasure_V1_6 :: enum_type where
  "UnitOfMeasure_V1_6 = EnumType ''UnitOfMeasure''
     [(''A'', ''A''), (''Celcius'', ''Celcius''), (''Celsius'', ''Celsius''),
      (''Fahrenheit'', ''Fahrenheit''), (''Hertz'', ''Hertz''), (''K'', ''K''),
      (''Percent'', ''Percent''), (''V'', ''V''), (''VA'', ''VA''), (''W'', ''W''), (''Wh'', ''Wh''),
      (''KVA'', ''kVA''), (''KW'', ''kW''), (''KWh'', ''kWh''), (''Kvar'', ''kvar''),
      (''Kvarh'', ''kvarh''), (''Var'', ''var''), (''Varh'', ''varh'')]"

definition UnlockStatus_V1_6 :: enum_type where
  "UnlockStatus_V1_6 = EnumType ''UnlockStatus''
     [(''Unlocked'', ''Unlocked''), (''UnlockFailed'', ''UnlockFailed''),
      (''NotSupported'', ''NotSupported'')]"

definition UpdateFirmwareStatus_V1_6 :: enum_type where
  "UpdateFirmwareStatus_V1_6 = EnumType ''UpdateFirmwareStatus''
     [(''Accepted'', ''Accepted''), (''Rejected'', ''Rejected''),
      (''AcceptedCanceled'', ''AcceptedCanceled''), (''InvalidCertificate'', ''InvalidCertificate''),
      (''RevokedCertificate'', ''RevokedCertificate'')]"

definition UpdateStatus_V1_6 :: enum_type where
  "UpdateStatus_V1_6 = EnumType ''UpdateStatus''
     [(''Accepted'', ''Accepted''), (''Failed'', ''Failed''), (''NotSupported'', ''NotSupported''),
      (''VersionMismatch'', ''VersionMismatch'')]"

definition UpdateType_V1_6 :: enum_type where
  "UpdateType_V1_6 = EnumType ''UpdateType''
     [(''Differential'', ''Differential''), (''Full'', ''Full'')]"

definition UploadLogStatus_V1_6 :: enum_type where
  "UploadLogStatus_V1_6 = EnumType ''UploadLogStatus''
     [(''BadMessage'', ''BadMessage''), (''Idle'', ''Idle''),
      (''NotSupportedOperation'', ''NotSupportedOperation''),
      (''PermissionDenied'', ''PermissionDenied''), (''Uploaded'', ''Uploaded''),
      (''UploadFailure'', ''UploadFailure''), (''Uploading'', ''Uploading'')]"

definition ValueFormat_V1_6 :: enum_type where
  "ValueFormat_V1_6 = EnumType ''ValueFormat''
     [(''Raw'', ''Raw''), (''SignedData'', ''SignedData'')]"

section \<open>Their names and values are distinct\<close>

lemma enums_ok_V1_6 [simp]:
  "enum_ok AuthorizationStatus_V1_6" "enum_ok AvailabilityStatus_V1_6"
  "enum_ok AvailabilityType_V1_6" "enum_ok CancelReservationStatus_V1_6"
  "enum_ok CertificateSignedStatus_V1_6" "enum_ok CertificateUse_V1_6"
  "enum_ok ChargePointErrorCode_V1_6" "enum_ok ChargePointStatus_V1_6"
  "enum_ok ChargingProfileKind_V1_6" "enum_ok ChargingProfilePurpose_V1_6"
  "enum_ok ChargingProfileStatus_V1_6" "enum_ok ChargingRateUnit_V1_6"
  "enum_ok ClearCacheStatus_V1_6" "enum_ok ClearChargingProfileStatus_V1_6"
  "enum_ok ConfigurationStatus_V1_6" "enum_ok DataTransferStatus_V1_6"
  "enum_ok DeleteCertificateStatus_V1_6" "enum_ok DiagnosticsStatus_V1_6"
  "enum_ok ExtendedMessageTrigger_V1_6" "enum_ok FirmwareStatus_V1_6" "enum_ok GenericStatus_V1_6"
  "enum_ok GetCompositeScheduleStatus_V1_6" "enum_ok GetInstalledCertificateStatus_V1_6"
  "enum_ok HashAlgorithm_V1_6" "enum_ok InstallCertificateStatus_V1_6" "enum_ok Location_V1_6"
  "enum_ok LogStatus_V1_6" "enum_ok LogType_V1_6" "enum_ok Measurand_V1_6"
  "enum_ok MessageTrigger_V1_6" "enum_ok Phase_V1_6" "enum_ok ReadingContext_V1_6"
  "enum_ok Reason_V1_6" "enum_ok RecurrencyKind_V1_6" "enum_ok RegistrationStatus_V1_6"
  "enum_ok RemoteStartStopStatus_V1_6" "enum_ok ReservationStatus_V1_6" "enum_ok ResetStatus_V1_6"
  "enum_ok ResetType_V1_6" "enum_ok SignedFirmwareStatus_V1_6" "enum_ok TriggerMessageStatus_V1_6"
  "enum_ok UnitOfMeasure_V1_6" "enum_ok UnlockStatus_V1_6" "enum_ok UpdateFirmwareStatus_V1_6"
  "enum_ok UpdateStatus_V1_6" "enum_ok UpdateType_V1_6" "enum_ok UploadLogStatus_V1_6"
  "enum_ok ValueFormat_V1_6"
  by (simp_all add:
    enum_ok_def AuthorizationStatus_V1_6_def AvailabilityStatus_V1_6_def AvailabilityType_V1_6_def
    CancelReservationStatus_V1_6_def CertificateSignedStatus_V1_6_def CertificateUse_V1_6_def
    ChargePointErrorCode_V1_6_def ChargePointStatus_V1_6_def ChargingProfileKind_V1_6_def
    ChargingProfilePurpose_V1_6_def ChargingProfileStatus_V1_6_def ChargingRateUnit_V1_6_def
    ClearCacheStatus_V1_6_def ClearChargingProfileStatus_V1_6_def ConfigurationStatus_V1_6_def
    DataTransferStatus_V1_6_def DeleteCertificateStatus_V1_6_def DiagnosticsStatus_V1_6_def
    ExtendedMessageTrigger_V1_6_def FirmwareStatus_V1_6_def GenericStatus_V1_6_def
    GetCompositeScheduleStatus_V1_6_def GetInstalledCertificateStatus_V1_6_def
    HashAlgorithm_V1_6_def InstallCertificateStatus_V1_6_def Location_V1_6_def LogStatus_V1_6_def
    LogType_V1_6_def Measurand_V1_6_def MessageTrigger_V1_6_def Phase_V1_6_def
    ReadingContext_V1_6_def Reason_V1_6_def RecurrencyKind_V1_6_def RegistrationStatus_V1_6_def
    RemoteStartStopStatus_V1_6_def ReservationStatus_V1_6_def ResetStatus_V1_6_def
    ResetType_V1_6_def SignedFirmwareStatus_V1_6_def TriggerMessageStatus_V1_6_def
    UnitOfMeasure_V1_6_def UnlockStatus_V1_6_def UpdateFirmwareStatus_V1_6_def UpdateStatus_V1_6_def
    UpdateType_V1_6_def UploadLogStatus_V1_6_def ValueFormat_V1_6_def)

end
