(* ===== verification/Message_Types.thy ===== *)
theory Message_Types
  imports Validation Actions
begin

text \<open>
  \<open>message.rs\<close>: what the trait \<open>Request\<close> says of a request besides its members. A response that does
  not exist is \<open>None\<close>; \<open>Confirmed\<close> and \<open>Unconfirmed\<close> are its two cases.
\<close>

datatype request_type =
  RequestType (rq_action: string) (rq_kind: message_kind) (rq_origin: origin)
    (rq_response: "shape option") (rq_shape: shape)

end
