(* ===== verification/Messages_V1_6.thy ===== *)
theory Messages_V1_6
  imports Enums_V1_6 Message_Types
begin

text \<open>
  \<open>v1_6/types.rs\<close> and \<open>v1_6/messages.rs\<close>: the data types and messages of OCPP 1.6. A shape lists the
  members in the order of the struct, with the checks of its \<open>Validate\<close> implementation; a request
  adds what its \<open>Request\<close> implementation says. A type stands after those it refers to.
\<close>

section \<open>Data types\<close>

definition IdTagInfo_V1_6 :: shape where
  "IdTagInfo_V1_6 = StructOf ''IdTagInfo'' [
      Required ''status'' (EnumOf AuthorizationStatus_V1_6),
      Optional ''expiryDate'' (PlainOf ''DateTime''),
      Optional ''parentIdTag'' (StringOf None (Some 20))]"

definition AuthorizationData_V1_6 :: shape where
  "AuthorizationData_V1_6 = StructOf ''AuthorizationData'' [
      Required ''idTag'' (StringOf None (Some 20)),
      Optional ''idTagInfo'' IdTagInfo_V1_6]"

definition CertificateHashData_V1_6 :: shape where
  "CertificateHashData_V1_6 = StructOf ''CertificateHashData'' [
      Required ''hashAlgorithm'' (EnumOf HashAlgorithm_V1_6),
      Required ''issuerNameHash'' (StringOf None (Some 128)),
      Required ''issuerKeyHash'' (StringOf None (Some 128)),
      Required ''serialNumber'' (StringOf None (Some 40))]"

definition ChargingSchedulePeriod_V1_6 :: shape where
  "ChargingSchedulePeriod_V1_6 = StructOf ''ChargingSchedulePeriod'' [
      Required ''startPeriod'' (IntegerOf None None),
      Required ''limit'' (NumberOf None None),
      Optional ''numberPhases'' (IntegerOf None None)]"

definition ChargingSchedule_V1_6 :: shape where
  "ChargingSchedule_V1_6 = StructOf ''ChargingSchedule'' [
      Required ''chargingRateUnit'' (EnumOf ChargingRateUnit_V1_6),
      Required ''chargingSchedulePeriod'' (VecOf None None ChargingSchedulePeriod_V1_6),
      Optional ''duration'' (IntegerOf None None),
      Optional ''startSchedule'' (PlainOf ''DateTime''),
      Optional ''minChargingRate'' (NumberOf None None)]"

definition ChargingProfile_V1_6 :: shape where
  "ChargingProfile_V1_6 = StructOf ''ChargingProfile'' [
      Required ''chargingProfileId'' (IntegerOf None None),
      Required ''stackLevel'' (IntegerOf None None),
      Required ''chargingProfilePurpose'' (EnumOf ChargingProfilePurpose_V1_6),
      Required ''chargingProfileKind'' (EnumOf ChargingProfileKind_V1_6),
      Required ''chargingSchedule'' ChargingSchedule_V1_6,
      Optional ''transactionId'' (IntegerOf None None),
      Optional ''recurrencyKind'' (EnumOf RecurrencyKind_V1_6),
      Optional ''validFrom'' (PlainOf ''DateTime''),
      Optional ''validTo'' (PlainOf ''DateTime'')]"

definition Firmware_V1_6 :: shape where
  "Firmware_V1_6 = StructOf ''Firmware'' [
      Required ''location'' (StringOf None (Some 512)),
      Required ''retrieveDateTime'' (PlainOf ''DateTime''),
      Required ''signingCertificate'' (StringOf None (Some 5500)),
      Required ''signature'' (StringOf None (Some 800)),
      Optional ''installDateTime'' (PlainOf ''DateTime'')]"

definition KeyValue_V1_6 :: shape where
  "KeyValue_V1_6 = StructOf ''KeyValue'' [
      Required ''key'' (StringOf None (Some 50)),
      Required ''readonly'' FlagOf,
      Optional ''value'' (StringOf None (Some 500))]"

definition LogParameters_V1_6 :: shape where
  "LogParameters_V1_6 = StructOf ''LogParameters'' [
      Required ''remoteLocation'' (StringOf None (Some 512)),
      Optional ''oldestTimestamp'' (PlainOf ''DateTime''),
      Optional ''latestTimestamp'' (PlainOf ''DateTime'')]"

definition SampledValue_V1_6 :: shape where
  "SampledValue_V1_6 = StructOf ''SampledValue'' [
      Required ''value'' (StringOf None None),
      Optional ''context'' (EnumOf ReadingContext_V1_6),
      Optional ''format'' (EnumOf ValueFormat_V1_6),
      Optional ''measurand'' (EnumOf Measurand_V1_6),
      Optional ''phase'' (EnumOf Phase_V1_6),
      Optional ''location'' (EnumOf Location_V1_6),
      Optional ''unit'' (EnumOf UnitOfMeasure_V1_6)]"

definition MeterValue_V1_6 :: shape where
  "MeterValue_V1_6 = StructOf ''MeterValue'' [
      Required ''timestamp'' (PlainOf ''DateTime''),
      Required ''sampledValue'' (VecOf (Some 1) None SampledValue_V1_6)]"

text \<open>No type has two members of one name; a type is checked after those it refers to.\<close>

lemma types_ok_0_V1_6 [simp]:
  "shape_ok CertificateHashData_V1_6" "shape_ok ChargingSchedulePeriod_V1_6"
  "shape_ok Firmware_V1_6" "shape_ok IdTagInfo_V1_6" "shape_ok KeyValue_V1_6"
  "shape_ok LogParameters_V1_6" "shape_ok SampledValue_V1_6"
  by (simp_all add:
    CertificateHashData_V1_6_def ChargingSchedulePeriod_V1_6_def Firmware_V1_6_def
    IdTagInfo_V1_6_def KeyValue_V1_6_def LogParameters_V1_6_def SampledValue_V1_6_def)

lemma types_ok_1_V1_6 [simp]:
  "shape_ok AuthorizationData_V1_6" "shape_ok ChargingSchedule_V1_6" "shape_ok MeterValue_V1_6"
  by (simp_all add:
    AuthorizationData_V1_6_def ChargingSchedule_V1_6_def MeterValue_V1_6_def)

lemma types_ok_2_V1_6 [simp]:
  "shape_ok ChargingProfile_V1_6"
  by (simp_all add:
    ChargingProfile_V1_6_def)

section \<open>Messages\<close>

definition AuthorizeResponse_V1_6 :: shape where
  "AuthorizeResponse_V1_6 = StructOf ''AuthorizeResponse'' [
      Required ''idTagInfo'' IdTagInfo_V1_6]"

definition BootNotificationResponse_V1_6 :: shape where
  "BootNotificationResponse_V1_6 = StructOf ''BootNotificationResponse'' [
      Required ''status'' (EnumOf RegistrationStatus_V1_6),
      Required ''currentTime'' (PlainOf ''DateTime''),
      Required ''interval'' (IntegerOf None None)]"

definition CancelReservationResponse_V1_6 :: shape where
  "CancelReservationResponse_V1_6 = StructOf ''CancelReservationResponse'' [
      Required ''status'' (EnumOf CancelReservationStatus_V1_6)]"

definition CertificateSignedResponse_V1_6 :: shape where
  "CertificateSignedResponse_V1_6 = StructOf ''CertificateSignedResponse'' [
      Required ''status'' (EnumOf CertificateSignedStatus_V1_6)]"

definition ChangeAvailabilityResponse_V1_6 :: shape where
  "ChangeAvailabilityResponse_V1_6 = StructOf ''ChangeAvailabilityResponse'' [
      Required ''status'' (EnumOf AvailabilityStatus_V1_6)]"

definition ChangeConfigurationResponse_V1_6 :: shape where
  "ChangeConfigurationResponse_V1_6 = StructOf ''ChangeConfigurationResponse'' [
      Required ''status'' (EnumOf ConfigurationStatus_V1_6)]"

definition ClearCacheResponse_V1_6 :: shape where
  "ClearCacheResponse_V1_6 = StructOf ''ClearCacheResponse'' [
      Required ''status'' (EnumOf ClearCacheStatus_V1_6)]"

definition ClearChargingProfileResponse_V1_6 :: shape where
  "ClearChargingProfileResponse_V1_6 = StructOf ''ClearChargingProfileResponse'' [
      Required ''status'' (EnumOf ClearChargingProfileStatus_V1_6)]"

definition DataTransferResponse_V1_6 :: shape where
  "DataTransferResponse_V1_6 = StructOf ''DataTransferResponse'' [
      Required ''status'' (EnumOf DataTransferStatus_V1_6),
      Optional ''data'' (StringOf None None)]"

definition DeleteCertificateResponse_V1_6 :: shape where
  "DeleteCertificateResponse_V1_6 = StructOf ''DeleteCertificateResponse'' [
      Required ''status'' (EnumOf DeleteCertificateStatus_V1_6)]"

definition DiagnosticsStatusNotificationResponse_V1_6 :: shape where
  "DiagnosticsStatusNotificationResponse_V1_6 = StructOf ''DiagnosticsStatusNotificationResponse'' []"

definition ExtendedTriggerMessageResponse_V1_6 :: shape where
  "ExtendedTriggerMessageResponse_V1_6 = StructOf ''ExtendedTriggerMessageResponse'' [
      Required ''status'' (EnumOf TriggerMessageStatus_V1_6)]"

definition FirmwareStatusNotificationResponse_V1_6 :: shape where
  "FirmwareStatusNotificationResponse_V1_6 = StructOf ''FirmwareStatusNotificationResponse'' []"

definition GetCompositeScheduleResponse_V1_6 :: shape where
  "GetCompositeScheduleResponse_V1_6 = StructOf ''GetCompositeScheduleResponse'' [
      Required ''status'' (EnumOf GetCompositeScheduleStatus_V1_6),
      Optional ''connectorId'' (IntegerOf None None),
      Optional ''scheduleStart'' (PlainOf ''DateTime''),
      Optional ''chargingSchedule'' ChargingSchedule_V1_6]"

definition GetConfigurationResponse_V1_6 :: shape where
  "GetConfigurationResponse_V1_6 = StructOf ''GetConfigurationResponse'' [
      Optional ''configurationKey'' (VecOf None None KeyValue_V1_6),
      Optional ''unknownKey'' (VecOf None None (StringOf None (Some 50)))]"

definition GetDiagnosticsResponse_V1_6 :: shape where
  "GetDiagnosticsResponse_V1_6 = StructOf ''GetDiagnosticsResponse'' [
      Optional ''fileName'' (StringOf None (Some 255))]"

definition GetInstalledCertificateIdsResponse_V1_6 :: shape where
  "GetInstalledCertificateIdsResponse_V1_6 = StructOf ''GetInstalledCertificateIdsResponse'' [
      Required ''status'' (EnumOf GetInstalledCertificateStatus_V1_6),
      Optional ''certificateHashData'' (VecOf (Some 1) None CertificateHashData_V1_6)]"

definition GetLocalListVersionResponse_V1_6 :: shape where
  "GetLocalListVersionResponse_V1_6 = StructOf ''GetLocalListVersionResponse'' [
      Required ''listVersion'' (IntegerOf None None)]"

definition GetLogResponse_V1_6 :: shape where
  "GetLogResponse_V1_6 = StructOf ''GetLogResponse'' [
      Required ''status'' (EnumOf LogStatus_V1_6),
      Optional ''filename'' (StringOf None (Some 255))]"

definition HeartbeatResponse_V1_6 :: shape where
  "HeartbeatResponse_V1_6 = StructOf ''HeartbeatResponse'' [
      Required ''currentTime'' (PlainOf ''DateTime'')]"

definition InstallCertificateResponse_V1_6 :: shape where
  "InstallCertificateResponse_V1_6 = StructOf ''InstallCertificateResponse'' [
      Required ''status'' (EnumOf InstallCertificateStatus_V1_6)]"

definition LogStatusNotificationResponse_V1_6 :: shape where
  "LogStatusNotificationResponse_V1_6 = StructOf ''LogStatusNotificationResponse'' []"

definition MeterValuesResponse_V1_6 :: shape where
  "MeterValuesResponse_V1_6 = StructOf ''MeterValuesResponse'' []"

definition RemoteStartTransactionResponse_V1_6 :: shape where
  "RemoteStartTransactionResponse_V1_6 = StructOf ''RemoteStartTransactionResponse'' [
      Required ''status'' (EnumOf RemoteStartStopStatus_V1_6)]"

definition RemoteStopTransactionResponse_V1_6 :: shape where
  "RemoteStopTransactionResponse_V1_6 = StructOf ''RemoteStopTransactionResponse'' [
      Required ''status'' (EnumOf RemoteStartStopStatus_V1_6)]"

definition ReserveNowResponse_V1_6 :: shape where
  "ReserveNowResponse_V1_6 = StructOf ''ReserveNowResponse'' [
      Required ''status'' (EnumOf ReservationStatus_V1_6)]"

definition ResetResponse_V1_6 :: shape where
  "ResetResponse_V1_6 = StructOf ''ResetResponse'' [
      Required ''status'' (EnumOf ResetStatus_V1_6)]"

definition SecurityEventNotificationResponse_V1_6 :: shape where
  "SecurityEventNotificationResponse_V1_6 = StructOf ''SecurityEventNotificationResponse'' []"

definition SendLocalListResponse_V1_6 :: shape where
  "SendLocalListResponse_V1_6 = StructOf ''SendLocalListResponse'' [
      Required ''status'' (EnumOf UpdateStatus_V1_6)]"

definition SetChargingProfileResponse_V1_6 :: shape where
  "SetChargingProfileResponse_V1_6 = StructOf ''SetChargingProfileResponse'' [
      Required ''status'' (EnumOf ChargingProfileStatus_V1_6)]"

definition SignCertificateResponse_V1_6 :: shape where
  "SignCertificateResponse_V1_6 = StructOf ''SignCertificateResponse'' [
      Required ''status'' (EnumOf GenericStatus_V1_6)]"

definition SignedFirmwareStatusNotificationResponse_V1_6 :: shape where
  "SignedFirmwareStatusNotificationResponse_V1_6 = StructOf ''SignedFirmwareStatusNotificationResponse'' []"

definition SignedUpdateFirmwareResponse_V1_6 :: shape where
  "SignedUpdateFirmwareResponse_V1_6 = StructOf ''SignedUpdateFirmwareResponse'' [
      Required ''status'' (EnumOf UpdateFirmwareStatus_V1_6)]"

definition StartTransactionResponse_V1_6 :: shape where
  "StartTransactionResponse_V1_6 = StructOf ''StartTransactionResponse'' [
      Required ''idTagInfo'' IdTagInfo_V1_6,
      Required ''transactionId'' (IntegerOf None None)]"

definition StatusNotificationResponse_V1_6 :: shape where
  "StatusNotificationResponse_V1_6 = StructOf ''StatusNotificationResponse'' []"

definition StopTransactionResponse_V1_6 :: shape where
  "StopTransactionResponse_V1_6 = StructOf ''StopTransactionResponse'' [
      Optional ''idTagInfo'' IdTagInfo_V1_6]"

definition TriggerMessageResponse_V1_6 :: shape where
  "TriggerMessageResponse_V1_6 = StructOf ''TriggerMessageResponse'' [
      Required ''status'' (EnumOf TriggerMessageStatus_V1_6)]"

definition UnlockConnectorResponse_V1_6 :: shape where
  "UnlockConnectorResponse_V1_6 = StructOf ''UnlockConnectorResponse'' [
      Required ''status'' (EnumOf UnlockStatus_V1_6)]"

definition UpdateFirmwareResponse_V1_6 :: shape where
  "UpdateFirmwareResponse_V1_6 = StructOf ''UpdateFirmwareResponse'' []"

definition AuthorizeRequest_V1_6 :: request_type where
  "AuthorizeRequest_V1_6 = RequestType ''Authorize'' Call ChargingStationOrigin (Some AuthorizeResponse_V1_6)
     (StructOf ''AuthorizeRequest'' [
      Required ''idTag'' (StringOf None (Some 20))])"

definition BootNotificationRequest_V1_6 :: request_type where
  "BootNotificationRequest_V1_6 = RequestType ''BootNotification'' Call ChargingStationOrigin (Some BootNotificationResponse_V1_6)
     (StructOf ''BootNotificationRequest'' [
      Required ''chargePointVendor'' (StringOf None (Some 20)),
      Required ''chargePointModel'' (StringOf None (Some 20)),
      Optional ''chargePointSerialNumber'' (StringOf None (Some 25)),
      Optional ''chargeBoxSerialNumber'' (StringOf None (Some 25)),
      Optional ''firmwareVersion'' (StringOf None (Some 50)),
      Optional ''iccid'' (StringOf None (Some 20)),
      Optional ''imsi'' (StringOf None (Some 20)),
      Optional ''meterType'' (StringOf None (Some 25)),
      Optional ''meterSerialNumber'' (StringOf None (Some 25))])"

definition CancelReservationRequest_V1_6 :: request_type where
  "CancelReservationRequest_V1_6 = RequestType ''CancelReservation'' Call CsmsOrigin (Some CancelReservationResponse_V1_6)
     (StructOf ''CancelReservationRequest'' [
      Required ''reservationId'' (IntegerOf None None)])"

definition CertificateSignedRequest_V1_6 :: request_type where
  "CertificateSignedRequest_V1_6 = RequestType ''CertificateSigned'' Call CsmsOrigin (Some CertificateSignedResponse_V1_6)
     (StructOf ''CertificateSignedRequest'' [
      Required ''certificateChain'' (StringOf None (Some 10000))])"

definition ChangeAvailabilityRequest_V1_6 :: request_type where
  "ChangeAvailabilityRequest_V1_6 = RequestType ''ChangeAvailability'' Call CsmsOrigin (Some ChangeAvailabilityResponse_V1_6)
     (StructOf ''ChangeAvailabilityRequest'' [
      Required ''connectorId'' (IntegerOf None None),
      Required ''type'' (EnumOf AvailabilityType_V1_6)])"

definition ChangeConfigurationRequest_V1_6 :: request_type where
  "ChangeConfigurationRequest_V1_6 = RequestType ''ChangeConfiguration'' Call CsmsOrigin (Some ChangeConfigurationResponse_V1_6)
     (StructOf ''ChangeConfigurationRequest'' [
      Required ''key'' (StringOf None (Some 50)),
      Required ''value'' (StringOf None (Some 500))])"

definition ClearCacheRequest_V1_6 :: request_type where
  "ClearCacheRequest_V1_6 = RequestType ''ClearCache'' Call CsmsOrigin (Some ClearCacheResponse_V1_6)
     (StructOf ''ClearCacheRequest'' [])"

definition ClearChargingProfileRequest_V1_6 :: request_type where
  "ClearChargingProfileRequest_V1_6 = RequestType ''ClearChargingProfile'' Call CsmsOrigin (Some ClearChargingProfileResponse_V1_6)
     (StructOf ''ClearChargingProfileRequest'' [
      Optional ''id'' (IntegerOf None None),
      Optional ''connectorId'' (IntegerOf None None),
      Optional ''chargingProfilePurpose'' (EnumOf ChargingProfilePurpose_V1_6),
      Optional ''stackLevel'' (IntegerOf None None)])"

definition DataTransferRequest_V1_6 :: request_type where
  "DataTransferRequest_V1_6 = RequestType ''DataTransfer'' Call BothOrigin (Some DataTransferResponse_V1_6)
     (StructOf ''DataTransferRequest'' [
      Required ''vendorId'' (StringOf None (Some 255)),
      Optional ''messageId'' (StringOf None (Some 50)),
      Optional ''data'' (StringOf None None)])"

definition DeleteCertificateRequest_V1_6 :: request_type where
  "DeleteCertificateRequest_V1_6 = RequestType ''DeleteCertificate'' Call CsmsOrigin (Some DeleteCertificateResponse_V1_6)
     (StructOf ''DeleteCertificateRequest'' [
      Required ''certificateHashData'' CertificateHashData_V1_6])"

definition DiagnosticsStatusNotificationRequest_V1_6 :: request_type where
  "DiagnosticsStatusNotificationRequest_V1_6 = RequestType ''DiagnosticsStatusNotification'' Call ChargingStationOrigin (Some DiagnosticsStatusNotificationResponse_V1_6)
     (StructOf ''DiagnosticsStatusNotificationRequest'' [
      Required ''status'' (EnumOf DiagnosticsStatus_V1_6)])"

definition ExtendedTriggerMessageRequest_V1_6 :: request_type where
  "ExtendedTriggerMessageRequest_V1_6 = RequestType ''ExtendedTriggerMessage'' Call CsmsOrigin (Some ExtendedTriggerMessageResponse_V1_6)
     (StructOf ''ExtendedTriggerMessageRequest'' [
      Required ''requestedMessage'' (EnumOf ExtendedMessageTrigger_V1_6),
      Optional ''connectorId'' (IntegerOf None None)])"

definition FirmwareStatusNotificationRequest_V1_6 :: request_type where
  "FirmwareStatusNotificationRequest_V1_6 = RequestType ''FirmwareStatusNotification'' Call ChargingStationOrigin (Some FirmwareStatusNotificationResponse_V1_6)
     (StructOf ''FirmwareStatusNotificationRequest'' [
      Required ''status'' (EnumOf FirmwareStatus_V1_6)])"

definition GetCompositeScheduleRequest_V1_6 :: request_type where
  "GetCompositeScheduleRequest_V1_6 = RequestType ''GetCompositeSchedule'' Call CsmsOrigin (Some GetCompositeScheduleResponse_V1_6)
     (StructOf ''GetCompositeScheduleRequest'' [
      Required ''connectorId'' (IntegerOf None None),
      Required ''duration'' (IntegerOf None None),
      Optional ''chargingRateUnit'' (EnumOf ChargingRateUnit_V1_6)])"

definition GetConfigurationRequest_V1_6 :: request_type where
  "GetConfigurationRequest_V1_6 = RequestType ''GetConfiguration'' Call CsmsOrigin (Some GetConfigurationResponse_V1_6)
     (StructOf ''GetConfigurationRequest'' [
      Optional ''key'' (VecOf None None (StringOf None (Some 50)))])"

definition GetDiagnosticsRequest_V1_6 :: request_type where
  "GetDiagnosticsRequest_V1_6 = RequestType ''GetDiagnostics'' Call CsmsOrigin (Some GetDiagnosticsResponse_V1_6)
     (StructOf ''GetDiagnosticsRequest'' [
      Required ''location'' (StringOf None None),
      Optional ''retries'' (IntegerOf None None),
      Optional ''retryInterval'' (IntegerOf None None),
      Optional ''startTime'' (PlainOf ''DateTime''),
      Optional ''stopTime'' (PlainOf ''DateTime'')])"

definition GetInstalledCertificateIdsRequest_V1_6 :: request_type where
  "GetInstalledCertificateIdsRequest_V1_6 = RequestType ''GetInstalledCertificateIds'' Call CsmsOrigin (Some GetInstalledCertificateIdsResponse_V1_6)
     (StructOf ''GetInstalledCertificateIdsRequest'' [
      Required ''certificateType'' (EnumOf CertificateUse_V1_6)])"

definition GetLocalListVersionRequest_V1_6 :: request_type where
  "GetLocalListVersionRequest_V1_6 = RequestType ''GetLocalListVersion'' Call CsmsOrigin (Some GetLocalListVersionResponse_V1_6)
     (StructOf ''GetLocalListVersionRequest'' [])"

definition GetLogRequest_V1_6 :: request_type where
  "GetLogRequest_V1_6 = RequestType ''GetLog'' Call CsmsOrigin (Some GetLogResponse_V1_6)
     (StructOf ''GetLogRequest'' [
      Required ''log'' LogParameters_V1_6,
      Required ''logType'' (EnumOf LogType_V1_6),
      Required ''requestId'' (IntegerOf None None),
      Optional ''retries'' (IntegerOf None None),
      Optional ''retryInterval'' (IntegerOf None None)])"

definition HeartbeatRequest_V1_6 :: request_type where
  "HeartbeatRequest_V1_6 = RequestType ''Heartbeat'' Call ChargingStationOrigin (Some HeartbeatResponse_V1_6)
     (StructOf ''HeartbeatRequest'' [])"

definition InstallCertificateRequest_V1_6 :: request_type where
  "InstallCertificateRequest_V1_6 = RequestType ''InstallCertificate'' Call CsmsOrigin (Some InstallCertificateResponse_V1_6)
     (StructOf ''InstallCertificateRequest'' [
      Required ''certificateType'' (EnumOf CertificateUse_V1_6),
      Required ''certificate'' (StringOf None (Some 5500))])"

definition LogStatusNotificationRequest_V1_6 :: request_type where
  "LogStatusNotificationRequest_V1_6 = RequestType ''LogStatusNotification'' Call ChargingStationOrigin (Some LogStatusNotificationResponse_V1_6)
     (StructOf ''LogStatusNotificationRequest'' [
      Required ''status'' (EnumOf UploadLogStatus_V1_6),
      Optional ''requestId'' (IntegerOf None None)])"

definition MeterValuesRequest_V1_6 :: request_type where
  "MeterValuesRequest_V1_6 = RequestType ''MeterValues'' Call ChargingStationOrigin (Some MeterValuesResponse_V1_6)
     (StructOf ''MeterValuesRequest'' [
      Required ''connectorId'' (IntegerOf None None),
      Required ''meterValue'' (VecOf (Some 1) None MeterValue_V1_6),
      Optional ''transactionId'' (IntegerOf None None)])"

definition RemoteStartTransactionRequest_V1_6 :: request_type where
  "RemoteStartTransactionRequest_V1_6 = RequestType ''RemoteStartTransaction'' Call CsmsOrigin (Some RemoteStartTransactionResponse_V1_6)
     (StructOf ''RemoteStartTransactionRequest'' [
      Required ''idTag'' (StringOf None (Some 20)),
      Optional ''connectorId'' (IntegerOf None None),
      Optional ''chargingProfile'' ChargingProfile_V1_6])"

definition RemoteStopTransactionRequest_V1_6 :: request_type where
  "RemoteStopTransactionRequest_V1_6 = RequestType ''RemoteStopTransaction'' Call CsmsOrigin (Some RemoteStopTransactionResponse_V1_6)
     (StructOf ''RemoteStopTransactionRequest'' [
      Required ''transactionId'' (IntegerOf None None)])"

definition ReserveNowRequest_V1_6 :: request_type where
  "ReserveNowRequest_V1_6 = RequestType ''ReserveNow'' Call CsmsOrigin (Some ReserveNowResponse_V1_6)
     (StructOf ''ReserveNowRequest'' [
      Required ''connectorId'' (IntegerOf None None),
      Required ''expiryDate'' (PlainOf ''DateTime''),
      Required ''idTag'' (StringOf None (Some 20)),
      Required ''reservationId'' (IntegerOf None None),
      Optional ''parentIdTag'' (StringOf None (Some 20))])"

definition ResetRequest_V1_6 :: request_type where
  "ResetRequest_V1_6 = RequestType ''Reset'' Call CsmsOrigin (Some ResetResponse_V1_6)
     (StructOf ''ResetRequest'' [
      Required ''type'' (EnumOf ResetType_V1_6)])"

definition SecurityEventNotificationRequest_V1_6 :: request_type where
  "SecurityEventNotificationRequest_V1_6 = RequestType ''SecurityEventNotification'' Call ChargingStationOrigin (Some SecurityEventNotificationResponse_V1_6)
     (StructOf ''SecurityEventNotificationRequest'' [
      Required ''type'' (StringOf None (Some 50)),
      Required ''timestamp'' (PlainOf ''DateTime''),
      Optional ''techInfo'' (StringOf None (Some 255))])"

definition SendLocalListRequest_V1_6 :: request_type where
  "SendLocalListRequest_V1_6 = RequestType ''SendLocalList'' Call CsmsOrigin (Some SendLocalListResponse_V1_6)
     (StructOf ''SendLocalListRequest'' [
      Required ''listVersion'' (IntegerOf None None),
      Required ''updateType'' (EnumOf UpdateType_V1_6),
      Optional ''localAuthorizationList'' (VecOf None None AuthorizationData_V1_6)])"

definition SetChargingProfileRequest_V1_6 :: request_type where
  "SetChargingProfileRequest_V1_6 = RequestType ''SetChargingProfile'' Call CsmsOrigin (Some SetChargingProfileResponse_V1_6)
     (StructOf ''SetChargingProfileRequest'' [
      Required ''connectorId'' (IntegerOf None None),
      Required ''csChargingProfiles'' ChargingProfile_V1_6])"

definition SignCertificateRequest_V1_6 :: request_type where
  "SignCertificateRequest_V1_6 = RequestType ''SignCertificate'' Call ChargingStationOrigin (Some SignCertificateResponse_V1_6)
     (StructOf ''SignCertificateRequest'' [
      Required ''csr'' (StringOf None (Some 5500))])"

definition SignedFirmwareStatusNotificationRequest_V1_6 :: request_type where
  "SignedFirmwareStatusNotificationRequest_V1_6 = RequestType ''SignedFirmwareStatusNotification'' Call ChargingStationOrigin (Some SignedFirmwareStatusNotificationResponse_V1_6)
     (StructOf ''SignedFirmwareStatusNotificationRequest'' [
      Required ''status'' (EnumOf SignedFirmwareStatus_V1_6),
      Optional ''requestId'' (IntegerOf None None)])"

definition SignedUpdateFirmwareRequest_V1_6 :: request_type where
  "SignedUpdateFirmwareRequest_V1_6 = RequestType ''SignedUpdateFirmware'' Call CsmsOrigin (Some SignedUpdateFirmwareResponse_V1_6)
     (StructOf ''SignedUpdateFirmwareRequest'' [
      Required ''requestId'' (IntegerOf None None),
      Required ''firmware'' Firmware_V1_6,
      Optional ''retries'' (IntegerOf None None),
      Optional ''retryInterval'' (IntegerOf None None)])"

definition StartTransactionRequest_V1_6 :: request_type where
  "StartTransactionRequest_V1_6 = RequestType ''StartTransaction'' Call ChargingStationOrigin (Some StartTransactionResponse_V1_6)
     (StructOf ''StartTransactionRequest'' [
      Required ''connectorId'' (IntegerOf None None),
      Required ''idTag'' (StringOf None (Some 20)),
      Required ''meterStart'' (IntegerOf None None),
      Required ''timestamp'' (PlainOf ''DateTime''),
      Optional ''reservationId'' (IntegerOf None None)])"

definition StatusNotificationRequest_V1_6 :: request_type where
  "StatusNotificationRequest_V1_6 = RequestType ''StatusNotification'' Call ChargingStationOrigin (Some StatusNotificationResponse_V1_6)
     (StructOf ''StatusNotificationRequest'' [
      Required ''connectorId'' (IntegerOf None None),
      Required ''errorCode'' (EnumOf ChargePointErrorCode_V1_6),
      Required ''status'' (EnumOf ChargePointStatus_V1_6),
      Optional ''info'' (StringOf None (Some 50)),
      Optional ''timestamp'' (PlainOf ''DateTime''),
      Optional ''vendorId'' (StringOf None (Some 255)),
      Optional ''vendorErrorCode'' (StringOf None (Some 50))])"

definition StopTransactionRequest_V1_6 :: request_type where
  "StopTransactionRequest_V1_6 = RequestType ''StopTransaction'' Call ChargingStationOrigin (Some StopTransactionResponse_V1_6)
     (StructOf ''StopTransactionRequest'' [
      Required ''meterStop'' (IntegerOf None None),
      Required ''timestamp'' (PlainOf ''DateTime''),
      Required ''transactionId'' (IntegerOf None None),
      Optional ''idTag'' (StringOf None (Some 20)),
      Optional ''reason'' (EnumOf Reason_V1_6),
      Optional ''transactionData'' (VecOf None None MeterValue_V1_6)])"

definition TriggerMessageRequest_V1_6 :: request_type where
  "TriggerMessageRequest_V1_6 = RequestType ''TriggerMessage'' Call CsmsOrigin (Some TriggerMessageResponse_V1_6)
     (StructOf ''TriggerMessageRequest'' [
      Required ''requestedMessage'' (EnumOf MessageTrigger_V1_6),
      Optional ''connectorId'' (IntegerOf None None)])"

definition UnlockConnectorRequest_V1_6 :: request_type where
  "UnlockConnectorRequest_V1_6 = RequestType ''UnlockConnector'' Call CsmsOrigin (Some UnlockConnectorResponse_V1_6)
     (StructOf ''UnlockConnectorRequest'' [
      Required ''connectorId'' (IntegerOf None None)])"

definition UpdateFirmwareRequest_V1_6 :: request_type where
  "UpdateFirmwareRequest_V1_6 = RequestType ''UpdateFirmware'' Call CsmsOrigin (Some UpdateFirmwareResponse_V1_6)
     (StructOf ''UpdateFirmwareRequest'' [
      Required ''location'' (StringOf None None),
      Required ''retrieveDate'' (PlainOf ''DateTime''),
      Optional ''retries'' (IntegerOf None None),
      Optional ''retryInterval'' (IntegerOf None None)])"

text \<open>The same for the messages.\<close>

lemma responses_ok_V1_6 [simp]:
  "shape_ok AuthorizeResponse_V1_6" "shape_ok BootNotificationResponse_V1_6"
  "shape_ok CancelReservationResponse_V1_6" "shape_ok CertificateSignedResponse_V1_6"
  "shape_ok ChangeAvailabilityResponse_V1_6" "shape_ok ChangeConfigurationResponse_V1_6"
  "shape_ok ClearCacheResponse_V1_6" "shape_ok ClearChargingProfileResponse_V1_6"
  "shape_ok DataTransferResponse_V1_6" "shape_ok DeleteCertificateResponse_V1_6"
  "shape_ok DiagnosticsStatusNotificationResponse_V1_6"
  "shape_ok ExtendedTriggerMessageResponse_V1_6"
  "shape_ok FirmwareStatusNotificationResponse_V1_6" "shape_ok GetCompositeScheduleResponse_V1_6"
  "shape_ok GetConfigurationResponse_V1_6" "shape_ok GetDiagnosticsResponse_V1_6"
  "shape_ok GetInstalledCertificateIdsResponse_V1_6" "shape_ok GetLocalListVersionResponse_V1_6"
  "shape_ok GetLogResponse_V1_6" "shape_ok HeartbeatResponse_V1_6"
  "shape_ok InstallCertificateResponse_V1_6" "shape_ok LogStatusNotificationResponse_V1_6"
  "shape_ok MeterValuesResponse_V1_6" "shape_ok RemoteStartTransactionResponse_V1_6"
  "shape_ok RemoteStopTransactionResponse_V1_6" "shape_ok ReserveNowResponse_V1_6"
  "shape_ok ResetResponse_V1_6" "shape_ok SecurityEventNotificationResponse_V1_6"
  "shape_ok SendLocalListResponse_V1_6" "shape_ok SetChargingProfileResponse_V1_6"
  "shape_ok SignCertificateResponse_V1_6" "shape_ok SignedFirmwareStatusNotificationResponse_V1_6"
  "shape_ok SignedUpdateFirmwareResponse_V1_6" "shape_ok StartTransactionResponse_V1_6"
  "shape_ok StatusNotificationResponse_V1_6" "shape_ok StopTransactionResponse_V1_6"
  "shape_ok TriggerMessageResponse_V1_6" "shape_ok UnlockConnectorResponse_V1_6"
  "shape_ok UpdateFirmwareResponse_V1_6"
  by (simp_all add:
    AuthorizeResponse_V1_6_def BootNotificationResponse_V1_6_def CancelReservationResponse_V1_6_def
    CertificateSignedResponse_V1_6_def ChangeAvailabilityResponse_V1_6_def
    ChangeConfigurationResponse_V1_6_def ClearCacheResponse_V1_6_def
    ClearChargingProfileResponse_V1_6_def DataTransferResponse_V1_6_def
    DeleteCertificateResponse_V1_6_def DiagnosticsStatusNotificationResponse_V1_6_def
    ExtendedTriggerMessageResponse_V1_6_def FirmwareStatusNotificationResponse_V1_6_def
    GetCompositeScheduleResponse_V1_6_def GetConfigurationResponse_V1_6_def
    GetDiagnosticsResponse_V1_6_def GetInstalledCertificateIdsResponse_V1_6_def
    GetLocalListVersionResponse_V1_6_def GetLogResponse_V1_6_def HeartbeatResponse_V1_6_def
    InstallCertificateResponse_V1_6_def LogStatusNotificationResponse_V1_6_def
    MeterValuesResponse_V1_6_def RemoteStartTransactionResponse_V1_6_def
    RemoteStopTransactionResponse_V1_6_def ReserveNowResponse_V1_6_def ResetResponse_V1_6_def
    SecurityEventNotificationResponse_V1_6_def SendLocalListResponse_V1_6_def
    SetChargingProfileResponse_V1_6_def SignCertificateResponse_V1_6_def
    SignedFirmwareStatusNotificationResponse_V1_6_def SignedUpdateFirmwareResponse_V1_6_def
    StartTransactionResponse_V1_6_def StatusNotificationResponse_V1_6_def
    StopTransactionResponse_V1_6_def TriggerMessageResponse_V1_6_def
    UnlockConnectorResponse_V1_6_def UpdateFirmwareResponse_V1_6_def)

lemma requests_ok_V1_6 [simp]:
  "shape_ok (rq_shape AuthorizeRequest_V1_6)" "shape_ok (rq_shape BootNotificationRequest_V1_6)"
  "shape_ok (rq_shape CancelReservationRequest_V1_6)"
  "shape_ok (rq_shape CertificateSignedRequest_V1_6)"
  "shape_ok (rq_shape ChangeAvailabilityRequest_V1_6)"
  "shape_ok (rq_shape ChangeConfigurationRequest_V1_6)"
  "shape_ok (rq_shape ClearCacheRequest_V1_6)"
  "shape_ok (rq_shape ClearChargingProfileRequest_V1_6)"
  "shape_ok (rq_shape DataTransferRequest_V1_6)"
  "shape_ok (rq_shape DeleteCertificateRequest_V1_6)"
  "shape_ok (rq_shape DiagnosticsStatusNotificationRequest_V1_6)"
  "shape_ok (rq_shape ExtendedTriggerMessageRequest_V1_6)"
  "shape_ok (rq_shape FirmwareStatusNotificationRequest_V1_6)"
  "shape_ok (rq_shape GetCompositeScheduleRequest_V1_6)"
  "shape_ok (rq_shape GetConfigurationRequest_V1_6)"
  "shape_ok (rq_shape GetDiagnosticsRequest_V1_6)"
  "shape_ok (rq_shape GetInstalledCertificateIdsRequest_V1_6)"
  "shape_ok (rq_shape GetLocalListVersionRequest_V1_6)" "shape_ok (rq_shape GetLogRequest_V1_6)"
  "shape_ok (rq_shape HeartbeatRequest_V1_6)" "shape_ok (rq_shape InstallCertificateRequest_V1_6)"
  "shape_ok (rq_shape LogStatusNotificationRequest_V1_6)"
  "shape_ok (rq_shape MeterValuesRequest_V1_6)"
  "shape_ok (rq_shape RemoteStartTransactionRequest_V1_6)"
  "shape_ok (rq_shape RemoteStopTransactionRequest_V1_6)"
  "shape_ok (rq_shape ReserveNowRequest_V1_6)" "shape_ok (rq_shape ResetRequest_V1_6)"
  "shape_ok (rq_shape SecurityEventNotificationRequest_V1_6)"
  "shape_ok (rq_shape SendLocalListRequest_V1_6)"
  "shape_ok (rq_shape SetChargingProfileRequest_V1_6)"
  "shape_ok (rq_shape SignCertificateRequest_V1_6)"
  "shape_ok (rq_shape SignedFirmwareStatusNotificationRequest_V1_6)"
  "shape_ok (rq_shape SignedUpdateFirmwareRequest_V1_6)"
  "shape_ok (rq_shape StartTransactionRequest_V1_6)"
  "shape_ok (rq_shape StatusNotificationRequest_V1_6)"
  "shape_ok (rq_shape StopTransactionRequest_V1_6)"
  "shape_ok (rq_shape TriggerMessageRequest_V1_6)"
  "shape_ok (rq_shape UnlockConnectorRequest_V1_6)"
  "shape_ok (rq_shape UpdateFirmwareRequest_V1_6)"
  by (simp_all add:
    AuthorizeRequest_V1_6_def BootNotificationRequest_V1_6_def CancelReservationRequest_V1_6_def
    CertificateSignedRequest_V1_6_def ChangeAvailabilityRequest_V1_6_def
    ChangeConfigurationRequest_V1_6_def ClearCacheRequest_V1_6_def
    ClearChargingProfileRequest_V1_6_def DataTransferRequest_V1_6_def
    DeleteCertificateRequest_V1_6_def DiagnosticsStatusNotificationRequest_V1_6_def
    ExtendedTriggerMessageRequest_V1_6_def FirmwareStatusNotificationRequest_V1_6_def
    GetCompositeScheduleRequest_V1_6_def GetConfigurationRequest_V1_6_def
    GetDiagnosticsRequest_V1_6_def GetInstalledCertificateIdsRequest_V1_6_def
    GetLocalListVersionRequest_V1_6_def GetLogRequest_V1_6_def HeartbeatRequest_V1_6_def
    InstallCertificateRequest_V1_6_def LogStatusNotificationRequest_V1_6_def
    MeterValuesRequest_V1_6_def RemoteStartTransactionRequest_V1_6_def
    RemoteStopTransactionRequest_V1_6_def ReserveNowRequest_V1_6_def ResetRequest_V1_6_def
    SecurityEventNotificationRequest_V1_6_def SendLocalListRequest_V1_6_def
    SetChargingProfileRequest_V1_6_def SignCertificateRequest_V1_6_def
    SignedFirmwareStatusNotificationRequest_V1_6_def SignedUpdateFirmwareRequest_V1_6_def
    StartTransactionRequest_V1_6_def StatusNotificationRequest_V1_6_def
    StopTransactionRequest_V1_6_def TriggerMessageRequest_V1_6_def UnlockConnectorRequest_V1_6_def
    UpdateFirmwareRequest_V1_6_def)

end
