(* ===== verification/Dispatch_V1_6.thy ===== *)
theory Dispatch_V1_6
  imports Messages_V1_6
begin

text \<open>
  \<open>v1_6/action.rs\<close>: the tables that tie the actions of OCPP 1.6 to their messages. \<open>CsRequest\<close> and the
  other three enumerations of payloads have a table of their variants, one of the action of each
  variant and one of what \<open>decode\<close> reads for an action; an action \<open>decode\<close> does not list is refused.
\<close>

definition transcode_request_V1_6 :: "(string \<times> request_type) list" where
  "transcode_request_V1_6 =
     [(''Authorize'', AuthorizeRequest_V1_6), (''BootNotification'', BootNotificationRequest_V1_6),
      (''CancelReservation'', CancelReservationRequest_V1_6),
      (''CertificateSigned'', CertificateSignedRequest_V1_6),
      (''ChangeAvailability'', ChangeAvailabilityRequest_V1_6),
      (''ChangeConfiguration'', ChangeConfigurationRequest_V1_6),
      (''ClearCache'', ClearCacheRequest_V1_6),
      (''ClearChargingProfile'', ClearChargingProfileRequest_V1_6),
      (''DataTransfer'', DataTransferRequest_V1_6),
      (''DeleteCertificate'', DeleteCertificateRequest_V1_6),
      (''DiagnosticsStatusNotification'', DiagnosticsStatusNotificationRequest_V1_6),
      (''ExtendedTriggerMessage'', ExtendedTriggerMessageRequest_V1_6),
      (''FirmwareStatusNotification'', FirmwareStatusNotificationRequest_V1_6),
      (''GetCompositeSchedule'', GetCompositeScheduleRequest_V1_6),
      (''GetConfiguration'', GetConfigurationRequest_V1_6),
      (''GetDiagnostics'', GetDiagnosticsRequest_V1_6),
      (''GetInstalledCertificateIds'', GetInstalledCertificateIdsRequest_V1_6),
      (''GetLocalListVersion'', GetLocalListVersionRequest_V1_6), (''GetLog'', GetLogRequest_V1_6),
      (''Heartbeat'', HeartbeatRequest_V1_6), (''InstallCertificate'', InstallCertificateRequest_V1_6),
      (''LogStatusNotification'', LogStatusNotificationRequest_V1_6),
      (''MeterValues'', MeterValuesRequest_V1_6),
      (''RemoteStartTransaction'', RemoteStartTransactionRequest_V1_6),
      (''RemoteStopTransaction'', RemoteStopTransactionRequest_V1_6),
      (''ReserveNow'', ReserveNowRequest_V1_6), (''Reset'', ResetRequest_V1_6),
      (''SecurityEventNotification'', SecurityEventNotificationRequest_V1_6),
      (''SendLocalList'', SendLocalListRequest_V1_6),
      (''SetChargingProfile'', SetChargingProfileRequest_V1_6),
      (''SignCertificate'', SignCertificateRequest_V1_6),
      (''SignedFirmwareStatusNotification'', SignedFirmwareStatusNotificationRequest_V1_6),
      (''SignedUpdateFirmware'', SignedUpdateFirmwareRequest_V1_6),
      (''StartTransaction'', StartTransactionRequest_V1_6),
      (''StatusNotification'', StatusNotificationRequest_V1_6),
      (''StopTransaction'', StopTransactionRequest_V1_6),
      (''TriggerMessage'', TriggerMessageRequest_V1_6),
      (''UnlockConnector'', UnlockConnectorRequest_V1_6),
      (''UpdateFirmware'', UpdateFirmwareRequest_V1_6)]"

definition transcode_response_V1_6 :: "(string \<times> shape option) list" where
  "transcode_response_V1_6 =
     [(''Authorize'', Some AuthorizeResponse_V1_6),
      (''BootNotification'', Some BootNotificationResponse_V1_6),
      (''CancelReservation'', Some CancelReservationResponse_V1_6),
      (''CertificateSigned'', Some CertificateSignedResponse_V1_6),
      (''ChangeAvailability'', Some ChangeAvailabilityResponse_V1_6),
      (''ChangeConfiguration'', Some ChangeConfigurationResponse_V1_6),
      (''ClearCache'', Some ClearCacheResponse_V1_6),
      (''ClearChargingProfile'', Some ClearChargingProfileResponse_V1_6),
      (''DataTransfer'', Some DataTransferResponse_V1_6),
      (''DeleteCertificate'', Some DeleteCertificateResponse_V1_6),
      (''DiagnosticsStatusNotification'', Some DiagnosticsStatusNotificationResponse_V1_6),
      (''ExtendedTriggerMessage'', Some ExtendedTriggerMessageResponse_V1_6),
      (''FirmwareStatusNotification'', Some FirmwareStatusNotificationResponse_V1_6),
      (''GetCompositeSchedule'', Some GetCompositeScheduleResponse_V1_6),
      (''GetConfiguration'', Some GetConfigurationResponse_V1_6),
      (''GetDiagnostics'', Some GetDiagnosticsResponse_V1_6),
      (''GetInstalledCertificateIds'', Some GetInstalledCertificateIdsResponse_V1_6),
      (''GetLocalListVersion'', Some GetLocalListVersionResponse_V1_6),
      (''GetLog'', Some GetLogResponse_V1_6), (''Heartbeat'', Some HeartbeatResponse_V1_6),
      (''InstallCertificate'', Some InstallCertificateResponse_V1_6),
      (''LogStatusNotification'', Some LogStatusNotificationResponse_V1_6),
      (''MeterValues'', Some MeterValuesResponse_V1_6),
      (''RemoteStartTransaction'', Some RemoteStartTransactionResponse_V1_6),
      (''RemoteStopTransaction'', Some RemoteStopTransactionResponse_V1_6),
      (''ReserveNow'', Some ReserveNowResponse_V1_6), (''Reset'', Some ResetResponse_V1_6),
      (''SecurityEventNotification'', Some SecurityEventNotificationResponse_V1_6),
      (''SendLocalList'', Some SendLocalListResponse_V1_6),
      (''SetChargingProfile'', Some SetChargingProfileResponse_V1_6),
      (''SignCertificate'', Some SignCertificateResponse_V1_6),
      (''SignedFirmwareStatusNotification'', Some SignedFirmwareStatusNotificationResponse_V1_6),
      (''SignedUpdateFirmware'', Some SignedUpdateFirmwareResponse_V1_6),
      (''StartTransaction'', Some StartTransactionResponse_V1_6),
      (''StatusNotification'', Some StatusNotificationResponse_V1_6),
      (''StopTransaction'', Some StopTransactionResponse_V1_6),
      (''TriggerMessage'', Some TriggerMessageResponse_V1_6),
      (''UnlockConnector'', Some UnlockConnectorResponse_V1_6),
      (''UpdateFirmware'', Some UpdateFirmwareResponse_V1_6)]"

definition CsRequest_V1_6 :: "(string \<times> request_type) list" where
  "CsRequest_V1_6 =
     [(''Authorize'', AuthorizeRequest_V1_6), (''BootNotification'', BootNotificationRequest_V1_6),
      (''DataTransfer'', DataTransferRequest_V1_6),
      (''DiagnosticsStatusNotification'', DiagnosticsStatusNotificationRequest_V1_6),
      (''FirmwareStatusNotification'', FirmwareStatusNotificationRequest_V1_6),
      (''Heartbeat'', HeartbeatRequest_V1_6),
      (''LogStatusNotification'', LogStatusNotificationRequest_V1_6),
      (''MeterValues'', MeterValuesRequest_V1_6),
      (''SecurityEventNotification'', SecurityEventNotificationRequest_V1_6),
      (''SignCertificate'', SignCertificateRequest_V1_6),
      (''SignedFirmwareStatusNotification'', SignedFirmwareStatusNotificationRequest_V1_6),
      (''StartTransaction'', StartTransactionRequest_V1_6),
      (''StatusNotification'', StatusNotificationRequest_V1_6),
      (''StopTransaction'', StopTransactionRequest_V1_6)]"

definition CsRequest_action_V1_6 :: "(string \<times> string) list" where
  "CsRequest_action_V1_6 =
     [(''Authorize'', ''Authorize''), (''BootNotification'', ''BootNotification''),
      (''DataTransfer'', ''DataTransfer''),
      (''DiagnosticsStatusNotification'', ''DiagnosticsStatusNotification''),
      (''FirmwareStatusNotification'', ''FirmwareStatusNotification''), (''Heartbeat'', ''Heartbeat''),
      (''LogStatusNotification'', ''LogStatusNotification''), (''MeterValues'', ''MeterValues''),
      (''SecurityEventNotification'', ''SecurityEventNotification''),
      (''SignCertificate'', ''SignCertificate''),
      (''SignedFirmwareStatusNotification'', ''SignedFirmwareStatusNotification''),
      (''StartTransaction'', ''StartTransaction''), (''StatusNotification'', ''StatusNotification''),
      (''StopTransaction'', ''StopTransaction'')]"

definition CsRequest_decode_V1_6 :: "(string \<times> request_type) list" where
  "CsRequest_decode_V1_6 =
     [(''Authorize'', AuthorizeRequest_V1_6), (''BootNotification'', BootNotificationRequest_V1_6),
      (''DataTransfer'', DataTransferRequest_V1_6),
      (''DiagnosticsStatusNotification'', DiagnosticsStatusNotificationRequest_V1_6),
      (''FirmwareStatusNotification'', FirmwareStatusNotificationRequest_V1_6),
      (''Heartbeat'', HeartbeatRequest_V1_6),
      (''LogStatusNotification'', LogStatusNotificationRequest_V1_6),
      (''MeterValues'', MeterValuesRequest_V1_6),
      (''SecurityEventNotification'', SecurityEventNotificationRequest_V1_6),
      (''SignCertificate'', SignCertificateRequest_V1_6),
      (''SignedFirmwareStatusNotification'', SignedFirmwareStatusNotificationRequest_V1_6),
      (''StartTransaction'', StartTransactionRequest_V1_6),
      (''StatusNotification'', StatusNotificationRequest_V1_6),
      (''StopTransaction'', StopTransactionRequest_V1_6)]"

definition CsResponse_V1_6 :: "(string \<times> shape) list" where
  "CsResponse_V1_6 =
     [(''Authorize'', AuthorizeResponse_V1_6), (''BootNotification'', BootNotificationResponse_V1_6),
      (''DataTransfer'', DataTransferResponse_V1_6),
      (''DiagnosticsStatusNotification'', DiagnosticsStatusNotificationResponse_V1_6),
      (''FirmwareStatusNotification'', FirmwareStatusNotificationResponse_V1_6),
      (''Heartbeat'', HeartbeatResponse_V1_6),
      (''LogStatusNotification'', LogStatusNotificationResponse_V1_6),
      (''MeterValues'', MeterValuesResponse_V1_6),
      (''SecurityEventNotification'', SecurityEventNotificationResponse_V1_6),
      (''SignCertificate'', SignCertificateResponse_V1_6),
      (''SignedFirmwareStatusNotification'', SignedFirmwareStatusNotificationResponse_V1_6),
      (''StartTransaction'', StartTransactionResponse_V1_6),
      (''StatusNotification'', StatusNotificationResponse_V1_6),
      (''StopTransaction'', StopTransactionResponse_V1_6)]"

definition CsResponse_action_V1_6 :: "(string \<times> string) list" where
  "CsResponse_action_V1_6 =
     [(''Authorize'', ''Authorize''), (''BootNotification'', ''BootNotification''),
      (''DataTransfer'', ''DataTransfer''),
      (''DiagnosticsStatusNotification'', ''DiagnosticsStatusNotification''),
      (''FirmwareStatusNotification'', ''FirmwareStatusNotification''), (''Heartbeat'', ''Heartbeat''),
      (''LogStatusNotification'', ''LogStatusNotification''), (''MeterValues'', ''MeterValues''),
      (''SecurityEventNotification'', ''SecurityEventNotification''),
      (''SignCertificate'', ''SignCertificate''),
      (''SignedFirmwareStatusNotification'', ''SignedFirmwareStatusNotification''),
      (''StartTransaction'', ''StartTransaction''), (''StatusNotification'', ''StatusNotification''),
      (''StopTransaction'', ''StopTransaction'')]"

definition CsResponse_decode_V1_6 :: "(string \<times> shape) list" where
  "CsResponse_decode_V1_6 =
     [(''Authorize'', AuthorizeResponse_V1_6), (''BootNotification'', BootNotificationResponse_V1_6),
      (''DataTransfer'', DataTransferResponse_V1_6),
      (''DiagnosticsStatusNotification'', DiagnosticsStatusNotificationResponse_V1_6),
      (''FirmwareStatusNotification'', FirmwareStatusNotificationResponse_V1_6),
      (''Heartbeat'', HeartbeatResponse_V1_6),
      (''LogStatusNotification'', LogStatusNotificationResponse_V1_6),
      (''MeterValues'', MeterValuesResponse_V1_6),
      (''SecurityEventNotification'', SecurityEventNotificationResponse_V1_6),
      (''SignCertificate'', SignCertificateResponse_V1_6),
      (''SignedFirmwareStatusNotification'', SignedFirmwareStatusNotificationResponse_V1_6),
      (''StartTransaction'', StartTransactionResponse_V1_6),
      (''StatusNotification'', StatusNotificationResponse_V1_6),
      (''StopTransaction'', StopTransactionResponse_V1_6)]"

definition CsmsRequest_V1_6 :: "(string \<times> request_type) list" where
  "CsmsRequest_V1_6 =
     [(''CancelReservation'', CancelReservationRequest_V1_6),
      (''CertificateSigned'', CertificateSignedRequest_V1_6),
      (''ChangeAvailability'', ChangeAvailabilityRequest_V1_6),
      (''ChangeConfiguration'', ChangeConfigurationRequest_V1_6),
      (''ClearCache'', ClearCacheRequest_V1_6),
      (''ClearChargingProfile'', ClearChargingProfileRequest_V1_6),
      (''DataTransfer'', DataTransferRequest_V1_6),
      (''DeleteCertificate'', DeleteCertificateRequest_V1_6),
      (''ExtendedTriggerMessage'', ExtendedTriggerMessageRequest_V1_6),
      (''GetCompositeSchedule'', GetCompositeScheduleRequest_V1_6),
      (''GetConfiguration'', GetConfigurationRequest_V1_6),
      (''GetDiagnostics'', GetDiagnosticsRequest_V1_6),
      (''GetInstalledCertificateIds'', GetInstalledCertificateIdsRequest_V1_6),
      (''GetLocalListVersion'', GetLocalListVersionRequest_V1_6), (''GetLog'', GetLogRequest_V1_6),
      (''InstallCertificate'', InstallCertificateRequest_V1_6),
      (''RemoteStartTransaction'', RemoteStartTransactionRequest_V1_6),
      (''RemoteStopTransaction'', RemoteStopTransactionRequest_V1_6),
      (''ReserveNow'', ReserveNowRequest_V1_6), (''Reset'', ResetRequest_V1_6),
      (''SendLocalList'', SendLocalListRequest_V1_6),
      (''SetChargingProfile'', SetChargingProfileRequest_V1_6),
      (''SignedUpdateFirmware'', SignedUpdateFirmwareRequest_V1_6),
      (''TriggerMessage'', TriggerMessageRequest_V1_6),
      (''UnlockConnector'', UnlockConnectorRequest_V1_6),
      (''UpdateFirmware'', UpdateFirmwareRequest_V1_6)]"

definition CsmsRequest_action_V1_6 :: "(string \<times> string) list" where
  "CsmsRequest_action_V1_6 =
     [(''CancelReservation'', ''CancelReservation''), (''CertificateSigned'', ''CertificateSigned''),
      (''ChangeAvailability'', ''ChangeAvailability''),
      (''ChangeConfiguration'', ''ChangeConfiguration''), (''ClearCache'', ''ClearCache''),
      (''ClearChargingProfile'', ''ClearChargingProfile''), (''DataTransfer'', ''DataTransfer''),
      (''DeleteCertificate'', ''DeleteCertificate''),
      (''ExtendedTriggerMessage'', ''ExtendedTriggerMessage''),
      (''GetCompositeSchedule'', ''GetCompositeSchedule''),
      (''GetConfiguration'', ''GetConfiguration''), (''GetDiagnostics'', ''GetDiagnostics''),
      (''GetInstalledCertificateIds'', ''GetInstalledCertificateIds''),
      (''GetLocalListVersion'', ''GetLocalListVersion''), (''GetLog'', ''GetLog''),
      (''InstallCertificate'', ''InstallCertificate''),
      (''RemoteStartTransaction'', ''RemoteStartTransaction''),
      (''RemoteStopTransaction'', ''RemoteStopTransaction''), (''ReserveNow'', ''ReserveNow''),
      (''Reset'', ''Reset''), (''SendLocalList'', ''SendLocalList''),
      (''SetChargingProfile'', ''SetChargingProfile''),
      (''SignedUpdateFirmware'', ''SignedUpdateFirmware''), (''TriggerMessage'', ''TriggerMessage''),
      (''UnlockConnector'', ''UnlockConnector''), (''UpdateFirmware'', ''UpdateFirmware'')]"

definition CsmsRequest_decode_V1_6 :: "(string \<times> request_type) list" where
  "CsmsRequest_decode_V1_6 =
     [(''CancelReservation'', CancelReservationRequest_V1_6),
      (''CertificateSigned'', CertificateSignedRequest_V1_6),
      (''ChangeAvailability'', ChangeAvailabilityRequest_V1_6),
      (''ChangeConfiguration'', ChangeConfigurationRequest_V1_6),
      (''ClearCache'', ClearCacheRequest_V1_6),
      (''ClearChargingProfile'', ClearChargingProfileRequest_V1_6),
      (''DataTransfer'', DataTransferRequest_V1_6),
      (''DeleteCertificate'', DeleteCertificateRequest_V1_6),
      (''ExtendedTriggerMessage'', ExtendedTriggerMessageRequest_V1_6),
      (''GetCompositeSchedule'', GetCompositeScheduleRequest_V1_6),
      (''GetConfiguration'', GetConfigurationRequest_V1_6),
      (''GetDiagnostics'', GetDiagnosticsRequest_V1_6),
      (''GetInstalledCertificateIds'', GetInstalledCertificateIdsRequest_V1_6),
      (''GetLocalListVersion'', GetLocalListVersionRequest_V1_6), (''GetLog'', GetLogRequest_V1_6),
      (''InstallCertificate'', InstallCertificateRequest_V1_6),
      (''RemoteStartTransaction'', RemoteStartTransactionRequest_V1_6),
      (''RemoteStopTransaction'', RemoteStopTransactionRequest_V1_6),
      (''ReserveNow'', ReserveNowRequest_V1_6), (''Reset'', ResetRequest_V1_6),
      (''SendLocalList'', SendLocalListRequest_V1_6),
      (''SetChargingProfile'', SetChargingProfileRequest_V1_6),
      (''SignedUpdateFirmware'', SignedUpdateFirmwareRequest_V1_6),
      (''TriggerMessage'', TriggerMessageRequest_V1_6),
      (''UnlockConnector'', UnlockConnectorRequest_V1_6),
      (''UpdateFirmware'', UpdateFirmwareRequest_V1_6)]"

definition CsmsResponse_V1_6 :: "(string \<times> shape) list" where
  "CsmsResponse_V1_6 =
     [(''CancelReservation'', CancelReservationResponse_V1_6),
      (''CertificateSigned'', CertificateSignedResponse_V1_6),
      (''ChangeAvailability'', ChangeAvailabilityResponse_V1_6),
      (''ChangeConfiguration'', ChangeConfigurationResponse_V1_6),
      (''ClearCache'', ClearCacheResponse_V1_6),
      (''ClearChargingProfile'', ClearChargingProfileResponse_V1_6),
      (''DataTransfer'', DataTransferResponse_V1_6),
      (''DeleteCertificate'', DeleteCertificateResponse_V1_6),
      (''ExtendedTriggerMessage'', ExtendedTriggerMessageResponse_V1_6),
      (''GetCompositeSchedule'', GetCompositeScheduleResponse_V1_6),
      (''GetConfiguration'', GetConfigurationResponse_V1_6),
      (''GetDiagnostics'', GetDiagnosticsResponse_V1_6),
      (''GetInstalledCertificateIds'', GetInstalledCertificateIdsResponse_V1_6),
      (''GetLocalListVersion'', GetLocalListVersionResponse_V1_6), (''GetLog'', GetLogResponse_V1_6),
      (''InstallCertificate'', InstallCertificateResponse_V1_6),
      (''RemoteStartTransaction'', RemoteStartTransactionResponse_V1_6),
      (''RemoteStopTransaction'', RemoteStopTransactionResponse_V1_6),
      (''ReserveNow'', ReserveNowResponse_V1_6), (''Reset'', ResetResponse_V1_6),
      (''SendLocalList'', SendLocalListResponse_V1_6),
      (''SetChargingProfile'', SetChargingProfileResponse_V1_6),
      (''SignedUpdateFirmware'', SignedUpdateFirmwareResponse_V1_6),
      (''TriggerMessage'', TriggerMessageResponse_V1_6),
      (''UnlockConnector'', UnlockConnectorResponse_V1_6),
      (''UpdateFirmware'', UpdateFirmwareResponse_V1_6)]"

definition CsmsResponse_action_V1_6 :: "(string \<times> string) list" where
  "CsmsResponse_action_V1_6 =
     [(''CancelReservation'', ''CancelReservation''), (''CertificateSigned'', ''CertificateSigned''),
      (''ChangeAvailability'', ''ChangeAvailability''),
      (''ChangeConfiguration'', ''ChangeConfiguration''), (''ClearCache'', ''ClearCache''),
      (''ClearChargingProfile'', ''ClearChargingProfile''), (''DataTransfer'', ''DataTransfer''),
      (''DeleteCertificate'', ''DeleteCertificate''),
      (''ExtendedTriggerMessage'', ''ExtendedTriggerMessage''),
      (''GetCompositeSchedule'', ''GetCompositeSchedule''),
      (''GetConfiguration'', ''GetConfiguration''), (''GetDiagnostics'', ''GetDiagnostics''),
      (''GetInstalledCertificateIds'', ''GetInstalledCertificateIds''),
      (''GetLocalListVersion'', ''GetLocalListVersion''), (''GetLog'', ''GetLog''),
      (''InstallCertificate'', ''InstallCertificate''),
      (''RemoteStartTransaction'', ''RemoteStartTransaction''),
      (''RemoteStopTransaction'', ''RemoteStopTransaction''), (''ReserveNow'', ''ReserveNow''),
      (''Reset'', ''Reset''), (''SendLocalList'', ''SendLocalList''),
      (''SetChargingProfile'', ''SetChargingProfile''),
      (''SignedUpdateFirmware'', ''SignedUpdateFirmware''), (''TriggerMessage'', ''TriggerMessage''),
      (''UnlockConnector'', ''UnlockConnector''), (''UpdateFirmware'', ''UpdateFirmware'')]"

definition CsmsResponse_decode_V1_6 :: "(string \<times> shape) list" where
  "CsmsResponse_decode_V1_6 =
     [(''CancelReservation'', CancelReservationResponse_V1_6),
      (''CertificateSigned'', CertificateSignedResponse_V1_6),
      (''ChangeAvailability'', ChangeAvailabilityResponse_V1_6),
      (''ChangeConfiguration'', ChangeConfigurationResponse_V1_6),
      (''ClearCache'', ClearCacheResponse_V1_6),
      (''ClearChargingProfile'', ClearChargingProfileResponse_V1_6),
      (''DataTransfer'', DataTransferResponse_V1_6),
      (''DeleteCertificate'', DeleteCertificateResponse_V1_6),
      (''ExtendedTriggerMessage'', ExtendedTriggerMessageResponse_V1_6),
      (''GetCompositeSchedule'', GetCompositeScheduleResponse_V1_6),
      (''GetConfiguration'', GetConfigurationResponse_V1_6),
      (''GetDiagnostics'', GetDiagnosticsResponse_V1_6),
      (''GetInstalledCertificateIds'', GetInstalledCertificateIdsResponse_V1_6),
      (''GetLocalListVersion'', GetLocalListVersionResponse_V1_6), (''GetLog'', GetLogResponse_V1_6),
      (''InstallCertificate'', InstallCertificateResponse_V1_6),
      (''RemoteStartTransaction'', RemoteStartTransactionResponse_V1_6),
      (''RemoteStopTransaction'', RemoteStopTransactionResponse_V1_6),
      (''ReserveNow'', ReserveNowResponse_V1_6), (''Reset'', ResetResponse_V1_6),
      (''SendLocalList'', SendLocalListResponse_V1_6),
      (''SetChargingProfile'', SetChargingProfileResponse_V1_6),
      (''SignedUpdateFirmware'', SignedUpdateFirmwareResponse_V1_6),
      (''TriggerMessage'', TriggerMessageResponse_V1_6),
      (''UnlockConnector'', UnlockConnectorResponse_V1_6),
      (''UpdateFirmware'', UpdateFirmwareResponse_V1_6)]"

definition block_V1_6 :: "(string \<times> string) list" where
  "block_V1_6 =
     [(''Authorize'', ''Core''), (''BootNotification'', ''Core''),
      (''CancelReservation'', ''Reservation''), (''CertificateSigned'', ''Security''),
      (''ChangeAvailability'', ''Core''), (''ChangeConfiguration'', ''Core''),
      (''ClearCache'', ''Core''), (''ClearChargingProfile'', ''SmartCharging''),
      (''DataTransfer'', ''Core''), (''DeleteCertificate'', ''Security''),
      (''DiagnosticsStatusNotification'', ''FirmwareManagement''),
      (''ExtendedTriggerMessage'', ''Security''),
      (''FirmwareStatusNotification'', ''FirmwareManagement''),
      (''GetCompositeSchedule'', ''SmartCharging''), (''GetConfiguration'', ''Core''),
      (''GetDiagnostics'', ''FirmwareManagement''), (''GetInstalledCertificateIds'', ''Security''),
      (''GetLocalListVersion'', ''LocalAuthListManagement''), (''GetLog'', ''Security''),
      (''Heartbeat'', ''Core''), (''InstallCertificate'', ''Security''),
      (''LogStatusNotification'', ''Security''), (''MeterValues'', ''Core''),
      (''RemoteStartTransaction'', ''Core''), (''RemoteStopTransaction'', ''Core''),
      (''ReserveNow'', ''Reservation''), (''Reset'', ''Core''),
      (''SecurityEventNotification'', ''Security''), (''SendLocalList'', ''LocalAuthListManagement''),
      (''SetChargingProfile'', ''SmartCharging''), (''SignCertificate'', ''Security''),
      (''SignedFirmwareStatusNotification'', ''Security''), (''SignedUpdateFirmware'', ''Security''),
      (''StartTransaction'', ''Core''), (''StatusNotification'', ''Core''),
      (''StopTransaction'', ''Core''), (''TriggerMessage'', ''RemoteTrigger''),
      (''UnlockConnector'', ''Core''), (''UpdateFirmware'', ''FirmwareManagement'')]"

end
