(* ===== verification/Messages_V2_0_1.thy ===== *)
theory Messages_V2_0_1
  imports Enums_V2_0_1 Message_Types
begin

text \<open>
  \<open>v2_0_1/types.rs\<close> and \<open>v2_0_1/messages.rs\<close>: the data types and messages of OCPP 2.0.1. A shape lists the
  members in the order of the struct, with the checks of its \<open>Validate\<close> implementation; a request
  adds what its \<open>Request\<close> implementation says. A type stands after those it refers to.
\<close>

section \<open>Data types\<close>

definition ACChargingParameters_V2_0_1 :: shape where
  "ACChargingParameters_V2_0_1 = StructOf ''ACChargingParameters'' [
      Required ''energyAmount'' (IntegerOf None None),
      Required ''evMinCurrent'' (IntegerOf None None),
      Required ''evMaxCurrent'' (IntegerOf None None),
      Required ''evMaxVoltage'' (IntegerOf None None),
      Optional ''customData'' CustomData]"

definition APN_V2_0_1 :: shape where
  "APN_V2_0_1 = StructOf ''APN'' [
      Required ''apn'' (StringOf None (Some 512)),
      Required ''apnAuthentication'' (EnumOf APNAuthentication_V2_0_1),
      Optional ''apnUserName'' (StringOf None (Some 20)),
      Optional ''apnPassword'' (StringOf None (Some 20)),
      Optional ''simPin'' (IntegerOf None None),
      Optional ''preferredNetwork'' (StringOf None (Some 6)),
      Optional ''useOnlyPreferredNetwork'' FlagOf,
      Optional ''customData'' CustomData]"

definition AdditionalInfo_V2_0_1 :: shape where
  "AdditionalInfo_V2_0_1 = StructOf ''AdditionalInfo'' [
      Required ''additionalIdToken'' (StringOf None (Some 36)),
      Required ''type'' (StringOf None (Some 50)),
      Optional ''customData'' CustomData]"

definition IdToken_V2_0_1 :: shape where
  "IdToken_V2_0_1 = StructOf ''IdToken'' [
      Required ''idToken'' (StringOf None (Some 36)),
      Required ''type'' (EnumOf IdTokenEnum_V2_0_1),
      Optional ''additionalInfo'' (VecOf (Some 1) None AdditionalInfo_V2_0_1),
      Optional ''customData'' CustomData]"

definition MessageContent_V2_0_1 :: shape where
  "MessageContent_V2_0_1 = StructOf ''MessageContent'' [
      Required ''format'' (EnumOf MessageFormat_V2_0_1),
      Required ''content'' (StringOf None (Some 512)),
      Optional ''language'' (StringOf None (Some 8)),
      Optional ''customData'' CustomData]"

definition IdTokenInfo_V2_0_1 :: shape where
  "IdTokenInfo_V2_0_1 = StructOf ''IdTokenInfo'' [
      Required ''status'' (EnumOf AuthorizationStatus_V2_0_1),
      Optional ''cacheExpiryDateTime'' (PlainOf ''DateTime''),
      Optional ''chargingPriority'' (IntegerOf None None),
      Optional ''language1'' (StringOf None (Some 8)),
      Optional ''evseId'' (VecOf (Some 1) None (IntegerOf None None)),
      Optional ''groupIdToken'' IdToken_V2_0_1,
      Optional ''language2'' (StringOf None (Some 8)),
      Optional ''personalMessage'' MessageContent_V2_0_1,
      Optional ''customData'' CustomData]"

definition AuthorizationData_V2_0_1 :: shape where
  "AuthorizationData_V2_0_1 = StructOf ''AuthorizationData'' [
      Required ''idToken'' IdToken_V2_0_1,
      Optional ''idTokenInfo'' IdTokenInfo_V2_0_1,
      Optional ''customData'' CustomData]"

definition CertificateHashData_V2_0_1 :: shape where
  "CertificateHashData_V2_0_1 = StructOf ''CertificateHashData'' [
      Required ''hashAlgorithm'' (EnumOf HashAlgorithm_V2_0_1),
      Required ''issuerNameHash'' (StringOf None (Some 128)),
      Required ''issuerKeyHash'' (StringOf None (Some 128)),
      Required ''serialNumber'' (StringOf None (Some 40)),
      Optional ''customData'' CustomData]"

definition CertificateHashDataChain_V2_0_1 :: shape where
  "CertificateHashDataChain_V2_0_1 = StructOf ''CertificateHashDataChain'' [
      Required ''certificateHashData'' CertificateHashData_V2_0_1,
      Required ''certificateType'' (EnumOf GetCertificateIdUse_V2_0_1),
      Optional ''childCertificateHashData'' (VecOf (Some 1) (Some 4) CertificateHashData_V2_0_1),
      Optional ''customData'' CustomData]"

definition ChargingLimit_V2_0_1 :: shape where
  "ChargingLimit_V2_0_1 = StructOf ''ChargingLimit'' [
      Required ''chargingLimitSource'' (EnumOf ChargingLimitSource_V2_0_1),
      Optional ''isGridCritical'' FlagOf,
      Optional ''customData'' CustomData]"

definition DCChargingParameters_V2_0_1 :: shape where
  "DCChargingParameters_V2_0_1 = StructOf ''DCChargingParameters'' [
      Required ''evMaxCurrent'' (IntegerOf None None),
      Required ''evMaxVoltage'' (IntegerOf None None),
      Optional ''energyAmount'' (IntegerOf None None),
      Optional ''evMaxPower'' (IntegerOf None None),
      Optional ''stateOfCharge'' (IntegerOf (Some 0) (Some 100)),
      Optional ''evEnergyCapacity'' (IntegerOf None None),
      Optional ''fullSoC'' (IntegerOf (Some 0) (Some 100)),
      Optional ''bulkSoC'' (IntegerOf (Some 0) (Some 100)),
      Optional ''customData'' CustomData]"

definition ChargingNeeds_V2_0_1 :: shape where
  "ChargingNeeds_V2_0_1 = StructOf ''ChargingNeeds'' [
      Required ''requestedEnergyTransfer'' (EnumOf EnergyTransferMode_V2_0_1),
      Optional ''acChargingParameters'' ACChargingParameters_V2_0_1,
      Optional ''dcChargingParameters'' DCChargingParameters_V2_0_1,
      Optional ''departureTime'' (PlainOf ''DateTime''),
      Optional ''customData'' CustomData]"

definition ChargingSchedulePeriod_V2_0_1 :: shape where
  "ChargingSchedulePeriod_V2_0_1 = StructOf ''ChargingSchedulePeriod'' [
      Required ''startPeriod'' (IntegerOf None None),
      Required ''limit'' (NumberOf None None),
      Optional ''numberPhases'' (IntegerOf None None),
      Optional ''phaseToUse'' (IntegerOf None None),
      Optional ''customData'' CustomData]"

definition RelativeTimeInterval_V2_0_1 :: shape where
  "RelativeTimeInterval_V2_0_1 = StructOf ''RelativeTimeInterval'' [
      Required ''start'' (IntegerOf None None),
      Optional ''duration'' (IntegerOf None None),
      Optional ''customData'' CustomData]"

definition Cost_V2_0_1 :: shape where
  "Cost_V2_0_1 = StructOf ''Cost'' [
      Required ''costKind'' (EnumOf CostKind_V2_0_1),
      Required ''amount'' (IntegerOf None None),
      Optional ''amountMultiplier'' (IntegerOf None None),
      Optional ''customData'' CustomData]"

definition ConsumptionCost_V2_0_1 :: shape where
  "ConsumptionCost_V2_0_1 = StructOf ''ConsumptionCost'' [
      Required ''startValue'' (NumberOf None None),
      Required ''cost'' (VecOf (Some 1) (Some 3) Cost_V2_0_1),
      Optional ''customData'' CustomData]"

definition SalesTariffEntry_V2_0_1 :: shape where
  "SalesTariffEntry_V2_0_1 = StructOf ''SalesTariffEntry'' [
      Required ''relativeTimeInterval'' RelativeTimeInterval_V2_0_1,
      Optional ''ePriceLevel'' (IntegerOf (Some 0) None),
      Optional ''consumptionCost'' (VecOf (Some 1) (Some 3) ConsumptionCost_V2_0_1),
      Optional ''customData'' CustomData]"

definition SalesTariff_V2_0_1 :: shape where
  "SalesTariff_V2_0_1 = StructOf ''SalesTariff'' [
      Required ''id'' (IntegerOf None None),
      Required ''salesTariffEntry'' (VecOf (Some 1) (Some 1024) SalesTariffEntry_V2_0_1),
      Optional ''salesTariffDescription'' (StringOf None (Some 32)),
      Optional ''numEPriceLevels'' (IntegerOf None None),
      Optional ''customData'' CustomData]"

definition ChargingSchedule_V2_0_1 :: shape where
  "ChargingSchedule_V2_0_1 = StructOf ''ChargingSchedule'' [
      Required ''id'' (IntegerOf None None),
      Required ''chargingRateUnit'' (EnumOf ChargingRateUnit_V2_0_1),
      Required ''chargingSchedulePeriod'' (VecOf (Some 1) (Some 1024) ChargingSchedulePeriod_V2_0_1),
      Optional ''startSchedule'' (PlainOf ''DateTime''),
      Optional ''duration'' (IntegerOf None None),
      Optional ''minChargingRate'' (NumberOf None None),
      Optional ''salesTariff'' SalesTariff_V2_0_1,
      Optional ''customData'' CustomData]"

definition ChargingProfile_V2_0_1 :: shape where
  "ChargingProfile_V2_0_1 = StructOf ''ChargingProfile'' [
      Required ''id'' (IntegerOf None None),
      Required ''stackLevel'' (IntegerOf None None),
      Required ''chargingProfilePurpose'' (EnumOf ChargingProfilePurpose_V2_0_1),
      Required ''chargingProfileKind'' (EnumOf ChargingProfileKind_V2_0_1),
      Required ''chargingSchedule'' (VecOf (Some 1) (Some 3) ChargingSchedule_V2_0_1),
      Optional ''recurrencyKind'' (EnumOf RecurrencyKind_V2_0_1),
      Optional ''validFrom'' (PlainOf ''DateTime''),
      Optional ''validTo'' (PlainOf ''DateTime''),
      Optional ''transactionId'' (StringOf None (Some 36)),
      Optional ''customData'' CustomData]"

definition ChargingProfileCriterion_V2_0_1 :: shape where
  "ChargingProfileCriterion_V2_0_1 = StructOf ''ChargingProfileCriterion'' [
      Optional ''chargingProfilePurpose'' (EnumOf ChargingProfilePurpose_V2_0_1),
      Optional ''stackLevel'' (IntegerOf None None),
      Optional ''chargingProfileId'' (VecOf (Some 1) None (IntegerOf None None)),
      Optional ''chargingLimitSource'' (VecOf (Some 1) (Some 4) (EnumOf ChargingLimitSource_V2_0_1)),
      Optional ''customData'' CustomData]"

definition Modem_V2_0_1 :: shape where
  "Modem_V2_0_1 = StructOf ''Modem'' [
      Optional ''iccid'' (StringOf None (Some 20)),
      Optional ''imsi'' (StringOf None (Some 20)),
      Optional ''customData'' CustomData]"

definition ChargingStation_V2_0_1 :: shape where
  "ChargingStation_V2_0_1 = StructOf ''ChargingStation'' [
      Required ''model'' (StringOf None (Some 20)),
      Required ''vendorName'' (StringOf None (Some 50)),
      Optional ''serialNumber'' (StringOf None (Some 25)),
      Optional ''modem'' Modem_V2_0_1,
      Optional ''firmwareVersion'' (StringOf None (Some 50)),
      Optional ''customData'' CustomData]"

definition ClearChargingProfile_V2_0_1 :: shape where
  "ClearChargingProfile_V2_0_1 = StructOf ''ClearChargingProfile'' [
      Optional ''evseId'' (IntegerOf None None),
      Optional ''chargingProfilePurpose'' (EnumOf ChargingProfilePurpose_V2_0_1),
      Optional ''stackLevel'' (IntegerOf None None),
      Optional ''customData'' CustomData]"

definition StatusInfo_V2_0_1 :: shape where
  "StatusInfo_V2_0_1 = StructOf ''StatusInfo'' [
      Required ''reasonCode'' (StringOf None (Some 20)),
      Optional ''additionalInfo'' (StringOf None (Some 512)),
      Optional ''customData'' CustomData]"

definition ClearMonitoringResult_V2_0_1 :: shape where
  "ClearMonitoringResult_V2_0_1 = StructOf ''ClearMonitoringResult'' [
      Required ''status'' (EnumOf ClearMonitoringStatus_V2_0_1),
      Required ''id'' (IntegerOf None None),
      Optional ''statusInfo'' StatusInfo_V2_0_1,
      Optional ''customData'' CustomData]"

definition EVSE_V2_0_1 :: shape where
  "EVSE_V2_0_1 = StructOf ''EVSE'' [
      Required ''id'' (IntegerOf None None),
      Optional ''connectorId'' (IntegerOf None None),
      Optional ''customData'' CustomData]"

definition Component_V2_0_1 :: shape where
  "Component_V2_0_1 = StructOf ''Component'' [
      Required ''name'' (StringOf None (Some 50)),
      Optional ''evse'' EVSE_V2_0_1,
      Optional ''instance'' (StringOf None (Some 50)),
      Optional ''customData'' CustomData]"

definition Variable_V2_0_1 :: shape where
  "Variable_V2_0_1 = StructOf ''Variable'' [
      Required ''name'' (StringOf None (Some 50)),
      Optional ''instance'' (StringOf None (Some 50)),
      Optional ''customData'' CustomData]"

definition ComponentVariable_V2_0_1 :: shape where
  "ComponentVariable_V2_0_1 = StructOf ''ComponentVariable'' [
      Required ''component'' Component_V2_0_1,
      Optional ''variable'' Variable_V2_0_1,
      Optional ''customData'' CustomData]"

definition CompositeSchedule_V2_0_1 :: shape where
  "CompositeSchedule_V2_0_1 = StructOf ''CompositeSchedule'' [
      Required ''chargingSchedulePeriod'' (VecOf (Some 1) None ChargingSchedulePeriod_V2_0_1),
      Required ''evseId'' (IntegerOf None None),
      Required ''duration'' (IntegerOf None None),
      Required ''scheduleStart'' (PlainOf ''DateTime''),
      Required ''chargingRateUnit'' (EnumOf ChargingRateUnit_V2_0_1),
      Optional ''customData'' CustomData]"

definition EventData_V2_0_1 :: shape where
  "EventData_V2_0_1 = StructOf ''EventData'' [
      Required ''eventId'' (IntegerOf None None),
      Required ''timestamp'' (PlainOf ''DateTime''),
      Required ''trigger'' (EnumOf EventTrigger_V2_0_1),
      Required ''actualValue'' (StringOf None (Some 2500)),
      Required ''component'' Component_V2_0_1,
      Required ''eventNotificationType'' (EnumOf EventNotification_V2_0_1),
      Required ''variable'' Variable_V2_0_1,
      Optional ''cause'' (IntegerOf None None),
      Optional ''techCode'' (StringOf None (Some 50)),
      Optional ''techInfo'' (StringOf None (Some 500)),
      Optional ''cleared'' FlagOf,
      Optional ''transactionId'' (StringOf None (Some 36)),
      Optional ''variableMonitoringId'' (IntegerOf None None),
      Optional ''customData'' CustomData]"

definition Firmware_V2_0_1 :: shape where
  "Firmware_V2_0_1 = StructOf ''Firmware'' [
      Required ''location'' (StringOf None (Some 512)),
      Required ''retrieveDateTime'' (PlainOf ''DateTime''),
      Optional ''installDateTime'' (PlainOf ''DateTime''),
      Optional ''signingCertificate'' (StringOf None (Some 5500)),
      Optional ''signature'' (StringOf None (Some 800)),
      Optional ''customData'' CustomData]"

definition GetVariableData_V2_0_1 :: shape where
  "GetVariableData_V2_0_1 = StructOf ''GetVariableData'' [
      Required ''component'' Component_V2_0_1,
      Required ''variable'' Variable_V2_0_1,
      Optional ''attributeType'' (EnumOf Attribute_V2_0_1),
      Optional ''customData'' CustomData]"

definition GetVariableResult_V2_0_1 :: shape where
  "GetVariableResult_V2_0_1 = StructOf ''GetVariableResult'' [
      Required ''attributeStatus'' (EnumOf GetVariableStatus_V2_0_1),
      Required ''component'' Component_V2_0_1,
      Required ''variable'' Variable_V2_0_1,
      Optional ''attributeStatusInfo'' StatusInfo_V2_0_1,
      Optional ''attributeType'' (EnumOf Attribute_V2_0_1),
      Optional ''attributeValue'' (StringOf None (Some 2500)),
      Optional ''customData'' CustomData]"

definition LogParameters_V2_0_1 :: shape where
  "LogParameters_V2_0_1 = StructOf ''LogParameters'' [
      Required ''remoteLocation'' (StringOf None (Some 512)),
      Optional ''oldestTimestamp'' (PlainOf ''DateTime''),
      Optional ''latestTimestamp'' (PlainOf ''DateTime''),
      Optional ''customData'' CustomData]"

definition MessageInfo_V2_0_1 :: shape where
  "MessageInfo_V2_0_1 = StructOf ''MessageInfo'' [
      Required ''id'' (IntegerOf None None),
      Required ''priority'' (EnumOf MessagePriority_V2_0_1),
      Required ''message'' MessageContent_V2_0_1,
      Optional ''display'' Component_V2_0_1,
      Optional ''state'' (EnumOf MessageState_V2_0_1),
      Optional ''startDateTime'' (PlainOf ''DateTime''),
      Optional ''endDateTime'' (PlainOf ''DateTime''),
      Optional ''transactionId'' (StringOf None (Some 36)),
      Optional ''customData'' CustomData]"

definition SignedMeterValue_V2_0_1 :: shape where
  "SignedMeterValue_V2_0_1 = StructOf ''SignedMeterValue'' [
      Required ''signedMeterData'' (StringOf None (Some 2500)),
      Required ''signingMethod'' (StringOf None (Some 50)),
      Required ''encodingMethod'' (StringOf None (Some 50)),
      Required ''publicKey'' (StringOf None (Some 2500)),
      Optional ''customData'' CustomData]"

definition UnitOfMeasure_V2_0_1 :: shape where
  "UnitOfMeasure_V2_0_1 = StructOf ''UnitOfMeasure'' [
      Optional ''unit'' (StringOf None (Some 20)),
      Optional ''multiplier'' (IntegerOf None None),
      Optional ''customData'' CustomData]"

definition SampledValue_V2_0_1 :: shape where
  "SampledValue_V2_0_1 = StructOf ''SampledValue'' [
      Required ''value'' (NumberOf None None),
      Optional ''context'' (EnumOf ReadingContext_V2_0_1),
      Optional ''measurand'' (EnumOf Measurand_V2_0_1),
      Optional ''phase'' (EnumOf Phase_V2_0_1),
      Optional ''location'' (EnumOf Location_V2_0_1),
      Optional ''signedMeterValue'' SignedMeterValue_V2_0_1,
      Optional ''unitOfMeasure'' UnitOfMeasure_V2_0_1,
      Optional ''customData'' CustomData]"

definition MeterValue_V2_0_1 :: shape where
  "MeterValue_V2_0_1 = StructOf ''MeterValue'' [
      Required ''sampledValue'' (VecOf (Some 1) None SampledValue_V2_0_1),
      Required ''timestamp'' (PlainOf ''DateTime''),
      Optional ''customData'' CustomData]"

definition VariableMonitoring_V2_0_1 :: shape where
  "VariableMonitoring_V2_0_1 = StructOf ''VariableMonitoring'' [
      Required ''id'' (IntegerOf None None),
      Required ''transaction'' FlagOf,
      Required ''value'' (NumberOf None None),
      Required ''type'' (EnumOf Monitor_V2_0_1),
      Required ''severity'' (IntegerOf None None),
      Optional ''customData'' CustomData]"

definition MonitoringData_V2_0_1 :: shape where
  "MonitoringData_V2_0_1 = StructOf ''MonitoringData'' [
      Required ''component'' Component_V2_0_1,
      Required ''variable'' Variable_V2_0_1,
      Required ''variableMonitoring'' (VecOf (Some 1) None VariableMonitoring_V2_0_1),
      Optional ''customData'' CustomData]"

definition VPN_V2_0_1 :: shape where
  "VPN_V2_0_1 = StructOf ''VPN'' [
      Required ''server'' (StringOf None (Some 512)),
      Required ''user'' (StringOf None (Some 20)),
      Required ''password'' (StringOf None (Some 20)),
      Required ''key'' (StringOf None (Some 255)),
      Required ''type'' (EnumOf VPNEnum_V2_0_1),
      Optional ''group'' (StringOf None (Some 20)),
      Optional ''customData'' CustomData]"

definition NetworkConnectionProfile_V2_0_1 :: shape where
  "NetworkConnectionProfile_V2_0_1 = StructOf ''NetworkConnectionProfile'' [
      Required ''ocppVersion'' (EnumOf OCPPVersion_V2_0_1),
      Required ''ocppTransport'' (EnumOf OCPPTransport_V2_0_1),
      Required ''ocppCsmsUrl'' (StringOf None (Some 512)),
      Required ''messageTimeout'' (IntegerOf None None),
      Required ''securityProfile'' (IntegerOf None None),
      Required ''ocppInterface'' (EnumOf OCPPInterface_V2_0_1),
      Optional ''apn'' APN_V2_0_1,
      Optional ''vpn'' VPN_V2_0_1,
      Optional ''customData'' CustomData]"

definition OCSPRequestData_V2_0_1 :: shape where
  "OCSPRequestData_V2_0_1 = StructOf ''OCSPRequestData'' [
      Required ''hashAlgorithm'' (EnumOf HashAlgorithm_V2_0_1),
      Required ''issuerNameHash'' (StringOf None (Some 128)),
      Required ''issuerKeyHash'' (StringOf None (Some 128)),
      Required ''serialNumber'' (StringOf None (Some 40)),
      Required ''responderURL'' (StringOf None (Some 512)),
      Optional ''customData'' CustomData]"

definition VariableAttribute_V2_0_1 :: shape where
  "VariableAttribute_V2_0_1 = StructOf ''VariableAttribute'' [
      Optional ''type'' (EnumOf Attribute_V2_0_1),
      Optional ''value'' (StringOf None (Some 2500)),
      Optional ''mutability'' (EnumOf Mutability_V2_0_1),
      Optional ''persistent'' FlagOf,
      Optional ''constant'' FlagOf,
      Optional ''customData'' CustomData]"

definition VariableCharacteristics_V2_0_1 :: shape where
  "VariableCharacteristics_V2_0_1 = StructOf ''VariableCharacteristics'' [
      Required ''dataType'' (EnumOf Data_V2_0_1),
      Required ''supportsMonitoring'' FlagOf,
      Optional ''unit'' (StringOf None (Some 16)),
      Optional ''minLimit'' (NumberOf None None),
      Optional ''maxLimit'' (NumberOf None None),
      Optional ''valuesList'' (StringOf None (Some 1000)),
      Optional ''customData'' CustomData]"

definition ReportData_V2_0_1 :: shape where
  "ReportData_V2_0_1 = StructOf ''ReportData'' [
      Required ''component'' Component_V2_0_1,
      Required ''variable'' Variable_V2_0_1,
      Required ''variableAttribute'' (VecOf (Some 1) (Some 4) VariableAttribute_V2_0_1),
      Optional ''variableCharacteristics'' VariableCharacteristics_V2_0_1,
      Optional ''customData'' CustomData]"

definition SetMonitoringData_V2_0_1 :: shape where
  "SetMonitoringData_V2_0_1 = StructOf ''SetMonitoringData'' [
      Required ''value'' (NumberOf None None),
      Required ''type'' (EnumOf Monitor_V2_0_1),
      Required ''severity'' (IntegerOf None None),
      Required ''component'' Component_V2_0_1,
      Required ''variable'' Variable_V2_0_1,
      Optional ''id'' (IntegerOf None None),
      Optional ''transaction'' FlagOf,
      Optional ''customData'' CustomData]"

definition SetMonitoringResult_V2_0_1 :: shape where
  "SetMonitoringResult_V2_0_1 = StructOf ''SetMonitoringResult'' [
      Required ''status'' (EnumOf SetMonitoringStatus_V2_0_1),
      Required ''type'' (EnumOf Monitor_V2_0_1),
      Required ''component'' Component_V2_0_1,
      Required ''variable'' Variable_V2_0_1,
      Required ''severity'' (IntegerOf None None),
      Optional ''id'' (IntegerOf None None),
      Optional ''statusInfo'' StatusInfo_V2_0_1,
      Optional ''customData'' CustomData]"

definition SetVariableData_V2_0_1 :: shape where
  "SetVariableData_V2_0_1 = StructOf ''SetVariableData'' [
      Required ''attributeValue'' (StringOf None (Some 1000)),
      Required ''component'' Component_V2_0_1,
      Required ''variable'' Variable_V2_0_1,
      Optional ''attributeType'' (EnumOf Attribute_V2_0_1),
      Optional ''customData'' CustomData]"

definition SetVariableResult_V2_0_1 :: shape where
  "SetVariableResult_V2_0_1 = StructOf ''SetVariableResult'' [
      Required ''attributeStatus'' (EnumOf SetVariableStatus_V2_0_1),
      Required ''component'' Component_V2_0_1,
      Required ''variable'' Variable_V2_0_1,
      Optional ''attributeType'' (EnumOf Attribute_V2_0_1),
      Optional ''attributeStatusInfo'' StatusInfo_V2_0_1,
      Optional ''customData'' CustomData]"

definition Transaction_V2_0_1 :: shape where
  "Transaction_V2_0_1 = StructOf ''Transaction'' [
      Required ''transactionId'' (StringOf None (Some 36)),
      Optional ''chargingState'' (EnumOf ChargingState_V2_0_1),
      Optional ''timeSpentCharging'' (IntegerOf None None),
      Optional ''stoppedReason'' (EnumOf Reason_V2_0_1),
      Optional ''remoteStartId'' (IntegerOf None None),
      Optional ''customData'' CustomData]"

text \<open>No type has two members of one name; a type is checked after those it refers to.\<close>

lemma types_ok_0_V2_0_1 [simp]:
  "shape_ok ACChargingParameters_V2_0_1" "shape_ok APN_V2_0_1" "shape_ok AdditionalInfo_V2_0_1"
  "shape_ok CertificateHashData_V2_0_1" "shape_ok ChargingLimit_V2_0_1"
  "shape_ok ChargingProfileCriterion_V2_0_1" "shape_ok ChargingSchedulePeriod_V2_0_1"
  "shape_ok ClearChargingProfile_V2_0_1" "shape_ok Cost_V2_0_1"
  "shape_ok DCChargingParameters_V2_0_1" "shape_ok EVSE_V2_0_1" "shape_ok Firmware_V2_0_1"
  "shape_ok LogParameters_V2_0_1" "shape_ok MessageContent_V2_0_1" "shape_ok Modem_V2_0_1"
  "shape_ok OCSPRequestData_V2_0_1" "shape_ok RelativeTimeInterval_V2_0_1"
  "shape_ok SignedMeterValue_V2_0_1" "shape_ok StatusInfo_V2_0_1" "shape_ok Transaction_V2_0_1"
  "shape_ok UnitOfMeasure_V2_0_1" "shape_ok VPN_V2_0_1" "shape_ok Variable_V2_0_1"
  "shape_ok VariableAttribute_V2_0_1" "shape_ok VariableCharacteristics_V2_0_1"
  "shape_ok VariableMonitoring_V2_0_1"
  by (simp_all add:
    ACChargingParameters_V2_0_1_def APN_V2_0_1_def AdditionalInfo_V2_0_1_def
    CertificateHashData_V2_0_1_def ChargingLimit_V2_0_1_def ChargingProfileCriterion_V2_0_1_def
    ChargingSchedulePeriod_V2_0_1_def ClearChargingProfile_V2_0_1_def Cost_V2_0_1_def
    DCChargingParameters_V2_0_1_def EVSE_V2_0_1_def Firmware_V2_0_1_def LogParameters_V2_0_1_def
    MessageContent_V2_0_1_def Modem_V2_0_1_def OCSPRequestData_V2_0_1_def
    RelativeTimeInterval_V2_0_1_def SignedMeterValue_V2_0_1_def StatusInfo_V2_0_1_def
    Transaction_V2_0_1_def UnitOfMeasure_V2_0_1_def VPN_V2_0_1_def Variable_V2_0_1_def
    VariableAttribute_V2_0_1_def VariableCharacteristics_V2_0_1_def VariableMonitoring_V2_0_1_def)

lemma types_ok_1_V2_0_1 [simp]:
  "shape_ok CertificateHashDataChain_V2_0_1" "shape_ok ChargingNeeds_V2_0_1"
  "shape_ok ChargingStation_V2_0_1" "shape_ok ClearMonitoringResult_V2_0_1"
  "shape_ok Component_V2_0_1" "shape_ok CompositeSchedule_V2_0_1"
  "shape_ok ConsumptionCost_V2_0_1" "shape_ok IdToken_V2_0_1"
  "shape_ok NetworkConnectionProfile_V2_0_1" "shape_ok SampledValue_V2_0_1"
  by (simp_all add:
    CertificateHashDataChain_V2_0_1_def ChargingNeeds_V2_0_1_def ChargingStation_V2_0_1_def
    ClearMonitoringResult_V2_0_1_def Component_V2_0_1_def CompositeSchedule_V2_0_1_def
    ConsumptionCost_V2_0_1_def IdToken_V2_0_1_def NetworkConnectionProfile_V2_0_1_def
    SampledValue_V2_0_1_def)

lemma types_ok_2_V2_0_1 [simp]:
  "shape_ok ComponentVariable_V2_0_1" "shape_ok EventData_V2_0_1"
  "shape_ok GetVariableData_V2_0_1" "shape_ok GetVariableResult_V2_0_1"
  "shape_ok IdTokenInfo_V2_0_1" "shape_ok MessageInfo_V2_0_1" "shape_ok MeterValue_V2_0_1"
  "shape_ok MonitoringData_V2_0_1" "shape_ok ReportData_V2_0_1" "shape_ok SalesTariffEntry_V2_0_1"
  "shape_ok SetMonitoringData_V2_0_1" "shape_ok SetMonitoringResult_V2_0_1"
  "shape_ok SetVariableData_V2_0_1" "shape_ok SetVariableResult_V2_0_1"
  by (simp_all add:
    ComponentVariable_V2_0_1_def EventData_V2_0_1_def GetVariableData_V2_0_1_def
    GetVariableResult_V2_0_1_def IdTokenInfo_V2_0_1_def MessageInfo_V2_0_1_def MeterValue_V2_0_1_def
    MonitoringData_V2_0_1_def ReportData_V2_0_1_def SalesTariffEntry_V2_0_1_def
    SetMonitoringData_V2_0_1_def SetMonitoringResult_V2_0_1_def SetVariableData_V2_0_1_def
    SetVariableResult_V2_0_1_def)

lemma types_ok_3_V2_0_1 [simp]:
  "shape_ok AuthorizationData_V2_0_1" "shape_ok SalesTariff_V2_0_1"
  by (simp_all add:
    AuthorizationData_V2_0_1_def SalesTariff_V2_0_1_def)

lemma types_ok_4_V2_0_1 [simp]:
  "shape_ok ChargingSchedule_V2_0_1"
  by (simp_all add:
    ChargingSchedule_V2_0_1_def)

lemma types_ok_5_V2_0_1 [simp]:
  "shape_ok ChargingProfile_V2_0_1"
  by (simp_all add:
    ChargingProfile_V2_0_1_def)

section \<open>Messages\<close>

definition AuthorizeResponse_V2_0_1 :: shape where
  "AuthorizeResponse_V2_0_1 = StructOf ''AuthorizeResponse'' [
      Required ''idTokenInfo'' IdTokenInfo_V2_0_1,
      Optional ''certificateStatus'' (EnumOf AuthorizeCertificateStatus_V2_0_1),
      Optional ''customData'' CustomData]"

definition BootNotificationResponse_V2_0_1 :: shape where
  "BootNotificationResponse_V2_0_1 = StructOf ''BootNotificationResponse'' [
      Required ''currentTime'' (PlainOf ''DateTime''),
      Required ''interval'' (IntegerOf None None),
      Required ''status'' (EnumOf RegistrationStatus_V2_0_1),
      Optional ''statusInfo'' StatusInfo_V2_0_1,
      Optional ''customData'' CustomData]"

definition CancelReservationResponse_V2_0_1 :: shape where
  "CancelReservationResponse_V2_0_1 = StructOf ''CancelReservationResponse'' [
      Required ''status'' (EnumOf CancelReservationStatus_V2_0_1),
      Optional ''statusInfo'' StatusInfo_V2_0_1,
      Optional ''customData'' CustomData]"

definition CertificateSignedResponse_V2_0_1 :: shape where
  "CertificateSignedResponse_V2_0_1 = StructOf ''CertificateSignedResponse'' [
      Required ''status'' (EnumOf CertificateSignedStatus_V2_0_1),
      Optional ''statusInfo'' StatusInfo_V2_0_1,
      Optional ''customData'' CustomData]"

definition ChangeAvailabilityResponse_V2_0_1 :: shape where
  "ChangeAvailabilityResponse_V2_0_1 = StructOf ''ChangeAvailabilityResponse'' [
      Required ''status'' (EnumOf ChangeAvailabilityStatus_V2_0_1),
      Optional ''statusInfo'' StatusInfo_V2_0_1,
      Optional ''customData'' CustomData]"

definition ClearCacheResponse_V2_0_1 :: shape where
  "ClearCacheResponse_V2_0_1 = StructOf ''ClearCacheResponse'' [
      Required ''status'' (EnumOf ClearCacheStatus_V2_0_1),
      Optional ''statusInfo'' StatusInfo_V2_0_1,
      Optional ''customData'' CustomData]"

definition ClearChargingProfileResponse_V2_0_1 :: shape where
  "ClearChargingProfileResponse_V2_0_1 = StructOf ''ClearChargingProfileResponse'' [
      Required ''status'' (EnumOf ClearChargingProfileStatus_V2_0_1),
      Optional ''statusInfo'' StatusInfo_V2_0_1,
      Optional ''customData'' CustomData]"

definition ClearDisplayMessageResponse_V2_0_1 :: shape where
  "ClearDisplayMessageResponse_V2_0_1 = StructOf ''ClearDisplayMessageResponse'' [
      Required ''status'' (EnumOf ClearMessageStatus_V2_0_1),
      Optional ''statusInfo'' StatusInfo_V2_0_1,
      Optional ''customData'' CustomData]"

definition ClearVariableMonitoringResponse_V2_0_1 :: shape where
  "ClearVariableMonitoringResponse_V2_0_1 = StructOf ''ClearVariableMonitoringResponse'' [
      Required ''clearMonitoringResult'' (VecOf (Some 1) None ClearMonitoringResult_V2_0_1),
      Optional ''customData'' CustomData]"

definition ClearedChargingLimitResponse_V2_0_1 :: shape where
  "ClearedChargingLimitResponse_V2_0_1 = StructOf ''ClearedChargingLimitResponse'' [
      Optional ''customData'' CustomData]"

definition CostUpdatedResponse_V2_0_1 :: shape where
  "CostUpdatedResponse_V2_0_1 = StructOf ''CostUpdatedResponse'' [
      Optional ''customData'' CustomData]"

definition CustomerInformationResponse_V2_0_1 :: shape where
  "CustomerInformationResponse_V2_0_1 = StructOf ''CustomerInformationResponse'' [
      Required ''status'' (EnumOf CustomerInformationStatus_V2_0_1),
      Optional ''statusInfo'' StatusInfo_V2_0_1,
      Optional ''customData'' CustomData]"

definition DataTransferResponse_V2_0_1 :: shape where
  "DataTransferResponse_V2_0_1 = StructOf ''DataTransferResponse'' [
      Required ''status'' (EnumOf DataTransferStatus_V2_0_1),
      Optional ''statusInfo'' StatusInfo_V2_0_1,
      Optional ''data'' (PlainOf ''Value''),
      Optional ''customData'' CustomData]"

definition DeleteCertificateResponse_V2_0_1 :: shape where
  "DeleteCertificateResponse_V2_0_1 = StructOf ''DeleteCertificateResponse'' [
      Required ''status'' (EnumOf DeleteCertificateStatus_V2_0_1),
      Optional ''statusInfo'' StatusInfo_V2_0_1,
      Optional ''customData'' CustomData]"

definition FirmwareStatusNotificationResponse_V2_0_1 :: shape where
  "FirmwareStatusNotificationResponse_V2_0_1 = StructOf ''FirmwareStatusNotificationResponse'' [
      Optional ''customData'' CustomData]"

definition Get15118EVCertificateResponse_V2_0_1 :: shape where
  "Get15118EVCertificateResponse_V2_0_1 = StructOf ''Get15118EVCertificateResponse'' [
      Required ''status'' (EnumOf Iso15118EVCertificateStatus_V2_0_1),
      Required ''exiResponse'' (StringOf None (Some 7500)),
      Optional ''statusInfo'' StatusInfo_V2_0_1,
      Optional ''customData'' CustomData]"

definition GetBaseReportResponse_V2_0_1 :: shape where
  "GetBaseReportResponse_V2_0_1 = StructOf ''GetBaseReportResponse'' [
      Required ''status'' (EnumOf GenericDeviceModelStatus_V2_0_1),
      Optional ''statusInfo'' StatusInfo_V2_0_1,
      Optional ''customData'' CustomData]"

definition GetCertificateStatusResponse_V2_0_1 :: shape where
  "GetCertificateStatusResponse_V2_0_1 = StructOf ''GetCertificateStatusResponse'' [
      Required ''status'' (EnumOf GetCertificateStatusEnum_V2_0_1),
      Optional ''statusInfo'' StatusInfo_V2_0_1,
      Optional ''ocspResult'' (StringOf None (Some 5500)),
      Optional ''customData'' CustomData]"

definition GetChargingProfilesResponse_V2_0_1 :: shape where
  "GetChargingProfilesResponse_V2_0_1 = StructOf ''GetChargingProfilesResponse'' [
      Required ''status'' (EnumOf GetChargingProfileStatus_V2_0_1),
      Optional ''statusInfo'' StatusInfo_V2_0_1,
      Optional ''customData'' CustomData]"

definition GetCompositeScheduleResponse_V2_0_1 :: shape where
  "GetCompositeScheduleResponse_V2_0_1 = StructOf ''GetCompositeScheduleResponse'' [
      Required ''status'' (EnumOf GenericStatus_V2_0_1),
      Optional ''statusInfo'' StatusInfo_V2_0_1,
      Optional ''schedule'' CompositeSchedule_V2_0_1,
      Optional ''customData'' CustomData]"

definition GetDisplayMessagesResponse_V2_0_1 :: shape where
  "GetDisplayMessagesResponse_V2_0_1 = StructOf ''GetDisplayMessagesResponse'' [
      Required ''status'' (EnumOf GetDisplayMessagesStatus_V2_0_1),
      Optional ''statusInfo'' StatusInfo_V2_0_1,
      Optional ''customData'' CustomData]"

definition GetInstalledCertificateIdsResponse_V2_0_1 :: shape where
  "GetInstalledCertificateIdsResponse_V2_0_1 = StructOf ''GetInstalledCertificateIdsResponse'' [
      Required ''status'' (EnumOf GetInstalledCertificateStatus_V2_0_1),
      Optional ''statusInfo'' StatusInfo_V2_0_1,
      Optional ''certificateHashDataChain'' (VecOf (Some 1) None CertificateHashDataChain_V2_0_1),
      Optional ''customData'' CustomData]"

definition GetLocalListVersionResponse_V2_0_1 :: shape where
  "GetLocalListVersionResponse_V2_0_1 = StructOf ''GetLocalListVersionResponse'' [
      Required ''versionNumber'' (IntegerOf None None),
      Optional ''customData'' CustomData]"

definition GetLogResponse_V2_0_1 :: shape where
  "GetLogResponse_V2_0_1 = StructOf ''GetLogResponse'' [
      Required ''status'' (EnumOf LogStatus_V2_0_1),
      Optional ''statusInfo'' StatusInfo_V2_0_1,
      Optional ''filename'' (StringOf None (Some 255)),
      Optional ''customData'' CustomData]"

definition GetMonitoringReportResponse_V2_0_1 :: shape where
  "GetMonitoringReportResponse_V2_0_1 = StructOf ''GetMonitoringReportResponse'' [
      Required ''status'' (EnumOf GenericDeviceModelStatus_V2_0_1),
      Optional ''statusInfo'' StatusInfo_V2_0_1,
      Optional ''customData'' CustomData]"

definition GetReportResponse_V2_0_1 :: shape where
  "GetReportResponse_V2_0_1 = StructOf ''GetReportResponse'' [
      Required ''status'' (EnumOf GenericDeviceModelStatus_V2_0_1),
      Optional ''statusInfo'' StatusInfo_V2_0_1,
      Optional ''customData'' CustomData]"

definition GetTransactionStatusResponse_V2_0_1 :: shape where
  "GetTransactionStatusResponse_V2_0_1 = StructOf ''GetTransactionStatusResponse'' [
      Required ''messagesInQueue'' FlagOf,
      Optional ''ongoingIndicator'' FlagOf,
      Optional ''customData'' CustomData]"

definition GetVariablesResponse_V2_0_1 :: shape where
  "GetVariablesResponse_V2_0_1 = StructOf ''GetVariablesResponse'' [
      Required ''getVariableResult'' (VecOf (Some 1) None GetVariableResult_V2_0_1),
      Optional ''customData'' CustomData]"

definition HeartbeatResponse_V2_0_1 :: shape where
  "HeartbeatResponse_V2_0_1 = StructOf ''HeartbeatResponse'' [
      Required ''currentTime'' (PlainOf ''DateTime''),
      Optional ''customData'' CustomData]"

definition InstallCertificateResponse_V2_0_1 :: shape where
  "InstallCertificateResponse_V2_0_1 = StructOf ''InstallCertificateResponse'' [
      Required ''status'' (EnumOf InstallCertificateStatus_V2_0_1),
      Optional ''statusInfo'' StatusInfo_V2_0_1,
      Optional ''customData'' CustomData]"

definition LogStatusNotificationResponse_V2_0_1 :: shape where
  "LogStatusNotificationResponse_V2_0_1 = StructOf ''LogStatusNotificationResponse'' [
      Optional ''customData'' CustomData]"

definition MeterValuesResponse_V2_0_1 :: shape where
  "MeterValuesResponse_V2_0_1 = StructOf ''MeterValuesResponse'' [
      Optional ''customData'' CustomData]"

definition NotifyChargingLimitResponse_V2_0_1 :: shape where
  "NotifyChargingLimitResponse_V2_0_1 = StructOf ''NotifyChargingLimitResponse'' [
      Optional ''customData'' CustomData]"

definition NotifyCustomerInformationResponse_V2_0_1 :: shape where
  "NotifyCustomerInformationResponse_V2_0_1 = StructOf ''NotifyCustomerInformationResponse'' [
      Optional ''customData'' CustomData]"

definition NotifyDisplayMessagesResponse_V2_0_1 :: shape where
  "NotifyDisplayMessagesResponse_V2_0_1 = StructOf ''NotifyDisplayMessagesResponse'' [
      Optional ''customData'' CustomData]"

definition NotifyEVChargingNeedsResponse_V2_0_1 :: shape where
  "NotifyEVChargingNeedsResponse_V2_0_1 = StructOf ''NotifyEVChargingNeedsResponse'' [
      Required ''status'' (EnumOf NotifyEVChargingNeedsStatus_V2_0_1),
      Optional ''statusInfo'' StatusInfo_V2_0_1,
      Optional ''customData'' CustomData]"

definition NotifyEVChargingScheduleResponse_V2_0_1 :: shape where
  "NotifyEVChargingScheduleResponse_V2_0_1 = StructOf ''NotifyEVChargingScheduleResponse'' [
      Required ''status'' (EnumOf GenericStatus_V2_0_1),
      Optional ''statusInfo'' StatusInfo_V2_0_1,
      Optional ''customData'' CustomData]"

definition NotifyEventResponse_V2_0_1 :: shape where
  "NotifyEventResponse_V2_0_1 = StructOf ''NotifyEventResponse'' [
      Optional ''customData'' CustomData]"

definition NotifyMonitoringReportResponse_V2_0_1 :: shape where
  "NotifyMonitoringReportResponse_V2_0_1 = StructOf ''NotifyMonitoringReportResponse'' [
      Optional ''customData'' CustomData]"

definition NotifyReportResponse_V2_0_1 :: shape where
  "NotifyReportResponse_V2_0_1 = StructOf ''NotifyReportResponse'' [
      Optional ''customData'' CustomData]"

definition PublishFirmwareResponse_V2_0_1 :: shape where
  "PublishFirmwareResponse_V2_0_1 = StructOf ''PublishFirmwareResponse'' [
      Required ''status'' (EnumOf GenericStatus_V2_0_1),
      Optional ''statusInfo'' StatusInfo_V2_0_1,
      Optional ''customData'' CustomData]"

definition PublishFirmwareStatusNotificationResponse_V2_0_1 :: shape where
  "PublishFirmwareStatusNotificationResponse_V2_0_1 = StructOf ''PublishFirmwareStatusNotificationResponse'' [
      Optional ''customData'' CustomData]"

definition ReportChargingProfilesResponse_V2_0_1 :: shape where
  "ReportChargingProfilesResponse_V2_0_1 = StructOf ''ReportChargingProfilesResponse'' [
      Optional ''customData'' CustomData]"

definition RequestStartTransactionResponse_V2_0_1 :: shape where
  "RequestStartTransactionResponse_V2_0_1 = StructOf ''RequestStartTransactionResponse'' [
      Required ''status'' (EnumOf RequestStartStopStatus_V2_0_1),
      Optional ''statusInfo'' StatusInfo_V2_0_1,
      Optional ''transactionId'' (StringOf None (Some 36)),
      Optional ''customData'' CustomData]"

definition RequestStopTransactionResponse_V2_0_1 :: shape where
  "RequestStopTransactionResponse_V2_0_1 = StructOf ''RequestStopTransactionResponse'' [
      Required ''status'' (EnumOf RequestStartStopStatus_V2_0_1),
      Optional ''statusInfo'' StatusInfo_V2_0_1,
      Optional ''customData'' CustomData]"

definition ReservationStatusUpdateResponse_V2_0_1 :: shape where
  "ReservationStatusUpdateResponse_V2_0_1 = StructOf ''ReservationStatusUpdateResponse'' [
      Optional ''customData'' CustomData]"

definition ReserveNowResponse_V2_0_1 :: shape where
  "ReserveNowResponse_V2_0_1 = StructOf ''ReserveNowResponse'' [
      Required ''status'' (EnumOf ReserveNowStatus_V2_0_1),
      Optional ''statusInfo'' StatusInfo_V2_0_1,
      Optional ''customData'' CustomData]"

definition ResetResponse_V2_0_1 :: shape where
  "ResetResponse_V2_0_1 = StructOf ''ResetResponse'' [
      Required ''status'' (EnumOf ResetStatus_V2_0_1),
      Optional ''statusInfo'' StatusInfo_V2_0_1,
      Optional ''customData'' CustomData]"

definition SecurityEventNotificationResponse_V2_0_1 :: shape where
  "SecurityEventNotificationResponse_V2_0_1 = StructOf ''SecurityEventNotificationResponse'' [
      Optional ''customData'' CustomData]"

definition SendLocalListResponse_V2_0_1 :: shape where
  "SendLocalListResponse_V2_0_1 = StructOf ''SendLocalListResponse'' [
      Required ''status'' (EnumOf SendLocalListStatus_V2_0_1),
      Optional ''statusInfo'' StatusInfo_V2_0_1,
      Optional ''customData'' CustomData]"

definition SetChargingProfileResponse_V2_0_1 :: shape where
  "SetChargingProfileResponse_V2_0_1 = StructOf ''SetChargingProfileResponse'' [
      Required ''status'' (EnumOf ChargingProfileStatus_V2_0_1),
      Optional ''statusInfo'' StatusInfo_V2_0_1,
      Optional ''customData'' CustomData]"

definition SetDisplayMessageResponse_V2_0_1 :: shape where
  "SetDisplayMessageResponse_V2_0_1 = StructOf ''SetDisplayMessageResponse'' [
      Required ''status'' (EnumOf DisplayMessageStatus_V2_0_1),
      Optional ''statusInfo'' StatusInfo_V2_0_1,
      Optional ''customData'' CustomData]"

definition SetMonitoringBaseResponse_V2_0_1 :: shape where
  "SetMonitoringBaseResponse_V2_0_1 = StructOf ''SetMonitoringBaseResponse'' [
      Required ''status'' (EnumOf GenericDeviceModelStatus_V2_0_1),
      Optional ''statusInfo'' StatusInfo_V2_0_1,
      Optional ''customData'' CustomData]"

definition SetMonitoringLevelResponse_V2_0_1 :: shape where
  "SetMonitoringLevelResponse_V2_0_1 = StructOf ''SetMonitoringLevelResponse'' [
      Required ''status'' (EnumOf GenericStatus_V2_0_1),
      Optional ''statusInfo'' StatusInfo_V2_0_1,
      Optional ''customData'' CustomData]"

definition SetNetworkProfileResponse_V2_0_1 :: shape where
  "SetNetworkProfileResponse_V2_0_1 = StructOf ''SetNetworkProfileResponse'' [
      Required ''status'' (EnumOf SetNetworkProfileStatus_V2_0_1),
      Optional ''statusInfo'' StatusInfo_V2_0_1,
      Optional ''customData'' CustomData]"

definition SetVariableMonitoringResponse_V2_0_1 :: shape where
  "SetVariableMonitoringResponse_V2_0_1 = StructOf ''SetVariableMonitoringResponse'' [
      Required ''setMonitoringResult'' (VecOf (Some 1) None SetMonitoringResult_V2_0_1),
      Optional ''customData'' CustomData]"

definition SetVariablesResponse_V2_0_1 :: shape where
  "SetVariablesResponse_V2_0_1 = StructOf ''SetVariablesResponse'' [
      Required ''setVariableResult'' (VecOf (Some 1) None SetVariableResult_V2_0_1),
      Optional ''customData'' CustomData]"

definition SignCertificateResponse_V2_0_1 :: shape where
  "SignCertificateResponse_V2_0_1 = StructOf ''SignCertificateResponse'' [
      Required ''status'' (EnumOf GenericStatus_V2_0_1),
      Optional ''statusInfo'' StatusInfo_V2_0_1,
      Optional ''customData'' CustomData]"

definition StatusNotificationResponse_V2_0_1 :: shape where
  "StatusNotificationResponse_V2_0_1 = StructOf ''StatusNotificationResponse'' [
      Optional ''customData'' CustomData]"

definition TransactionEventResponse_V2_0_1 :: shape where
  "TransactionEventResponse_V2_0_1 = StructOf ''TransactionEventResponse'' [
      Optional ''totalCost'' (NumberOf None None),
      Optional ''chargingPriority'' (IntegerOf None None),
      Optional ''idTokenInfo'' IdTokenInfo_V2_0_1,
      Optional ''updatedPersonalMessage'' MessageContent_V2_0_1,
      Optional ''customData'' CustomData]"

definition TriggerMessageResponse_V2_0_1 :: shape where
  "TriggerMessageResponse_V2_0_1 = StructOf ''TriggerMessageResponse'' [
      Required ''status'' (EnumOf TriggerMessageStatus_V2_0_1),
      Optional ''statusInfo'' StatusInfo_V2_0_1,
      Optional ''customData'' CustomData]"

definition UnlockConnectorResponse_V2_0_1 :: shape where
  "UnlockConnectorResponse_V2_0_1 = StructOf ''UnlockConnectorResponse'' [
      Required ''status'' (EnumOf UnlockStatus_V2_0_1),
      Optional ''statusInfo'' StatusInfo_V2_0_1,
      Optional ''customData'' CustomData]"

definition UnpublishFirmwareResponse_V2_0_1 :: shape where
  "UnpublishFirmwareResponse_V2_0_1 = StructOf ''UnpublishFirmwareResponse'' [
      Required ''status'' (EnumOf UnpublishFirmwareStatus_V2_0_1),
      Optional ''customData'' CustomData]"

definition UpdateFirmwareResponse_V2_0_1 :: shape where
  "UpdateFirmwareResponse_V2_0_1 = StructOf ''UpdateFirmwareResponse'' [
      Required ''status'' (EnumOf UpdateFirmwareStatus_V2_0_1),
      Optional ''statusInfo'' StatusInfo_V2_0_1,
      Optional ''customData'' CustomData]"

definition AuthorizeRequest_V2_0_1 :: request_type where
  "AuthorizeRequest_V2_0_1 = RequestType ''Authorize'' Call ChargingStationOrigin (Some AuthorizeResponse_V2_0_1)
     (StructOf ''AuthorizeRequest'' [
      Required ''idToken'' IdToken_V2_0_1,
      Optional ''certificate'' (StringOf None (Some 5500)),
      Optional ''iso15118CertificateHashData'' (VecOf (Some 1) (Some 4) OCSPRequestData_V2_0_1),
      Optional ''customData'' CustomData])"

definition BootNotificationRequest_V2_0_1 :: request_type where
  "BootNotificationRequest_V2_0_1 = RequestType ''BootNotification'' Call ChargingStationOrigin (Some BootNotificationResponse_V2_0_1)
     (StructOf ''BootNotificationRequest'' [
      Required ''chargingStation'' ChargingStation_V2_0_1,
      Required ''reason'' (EnumOf BootReason_V2_0_1),
      Optional ''customData'' CustomData])"

definition CancelReservationRequest_V2_0_1 :: request_type where
  "CancelReservationRequest_V2_0_1 = RequestType ''CancelReservation'' Call CsmsOrigin (Some CancelReservationResponse_V2_0_1)
     (StructOf ''CancelReservationRequest'' [
      Required ''reservationId'' (IntegerOf None None),
      Optional ''customData'' CustomData])"

definition CertificateSignedRequest_V2_0_1 :: request_type where
  "CertificateSignedRequest_V2_0_1 = RequestType ''CertificateSigned'' Call CsmsOrigin (Some CertificateSignedResponse_V2_0_1)
     (StructOf ''CertificateSignedRequest'' [
      Required ''certificateChain'' (StringOf None (Some 10000)),
      Optional ''certificateType'' (EnumOf CertificateSigningUse_V2_0_1),
      Optional ''customData'' CustomData])"

definition ChangeAvailabilityRequest_V2_0_1 :: request_type where
  "ChangeAvailabilityRequest_V2_0_1 = RequestType ''ChangeAvailability'' Call CsmsOrigin (Some ChangeAvailabilityResponse_V2_0_1)
     (StructOf ''ChangeAvailabilityRequest'' [
      Required ''operationalStatus'' (EnumOf OperationalStatus_V2_0_1),
      Optional ''evse'' EVSE_V2_0_1,
      Optional ''customData'' CustomData])"

definition ClearCacheRequest_V2_0_1 :: request_type where
  "ClearCacheRequest_V2_0_1 = RequestType ''ClearCache'' Call CsmsOrigin (Some ClearCacheResponse_V2_0_1)
     (StructOf ''ClearCacheRequest'' [
      Optional ''customData'' CustomData])"

definition ClearChargingProfileRequest_V2_0_1 :: request_type where
  "ClearChargingProfileRequest_V2_0_1 = RequestType ''ClearChargingProfile'' Call CsmsOrigin (Some ClearChargingProfileResponse_V2_0_1)
     (StructOf ''ClearChargingProfileRequest'' [
      Optional ''chargingProfileId'' (IntegerOf None None),
      Optional ''chargingProfileCriteria'' ClearChargingProfile_V2_0_1,
      Optional ''customData'' CustomData])"

definition ClearDisplayMessageRequest_V2_0_1 :: request_type where
  "ClearDisplayMessageRequest_V2_0_1 = RequestType ''ClearDisplayMessage'' Call CsmsOrigin (Some ClearDisplayMessageResponse_V2_0_1)
     (StructOf ''ClearDisplayMessageRequest'' [
      Required ''id'' (IntegerOf None None),
      Optional ''customData'' CustomData])"

definition ClearVariableMonitoringRequest_V2_0_1 :: request_type where
  "ClearVariableMonitoringRequest_V2_0_1 = RequestType ''ClearVariableMonitoring'' Call CsmsOrigin (Some ClearVariableMonitoringResponse_V2_0_1)
     (StructOf ''ClearVariableMonitoringRequest'' [
      Required ''id'' (VecOf (Some 1) None (IntegerOf None None)),
      Optional ''customData'' CustomData])"

definition ClearedChargingLimitRequest_V2_0_1 :: request_type where
  "ClearedChargingLimitRequest_V2_0_1 = RequestType ''ClearedChargingLimit'' Call ChargingStationOrigin (Some ClearedChargingLimitResponse_V2_0_1)
     (StructOf ''ClearedChargingLimitRequest'' [
      Required ''chargingLimitSource'' (EnumOf ChargingLimitSource_V2_0_1),
      Optional ''evseId'' (IntegerOf None None),
      Optional ''customData'' CustomData])"

definition CostUpdatedRequest_V2_0_1 :: request_type where
  "CostUpdatedRequest_V2_0_1 = RequestType ''CostUpdated'' Call CsmsOrigin (Some CostUpdatedResponse_V2_0_1)
     (StructOf ''CostUpdatedRequest'' [
      Required ''totalCost'' (NumberOf None None),
      Required ''transactionId'' (StringOf None (Some 36)),
      Optional ''customData'' CustomData])"

definition CustomerInformationRequest_V2_0_1 :: request_type where
  "CustomerInformationRequest_V2_0_1 = RequestType ''CustomerInformation'' Call CsmsOrigin (Some CustomerInformationResponse_V2_0_1)
     (StructOf ''CustomerInformationRequest'' [
      Required ''requestId'' (IntegerOf None None),
      Required ''report'' FlagOf,
      Required ''clear'' FlagOf,
      Optional ''customerCertificate'' CertificateHashData_V2_0_1,
      Optional ''idToken'' IdToken_V2_0_1,
      Optional ''customerIdentifier'' (StringOf None (Some 64)),
      Optional ''customData'' CustomData])"

definition DataTransferRequest_V2_0_1 :: request_type where
  "DataTransferRequest_V2_0_1 = RequestType ''DataTransfer'' Call BothOrigin (Some DataTransferResponse_V2_0_1)
     (StructOf ''DataTransferRequest'' [
      Required ''vendorId'' (StringOf None (Some 255)),
      Optional ''messageId'' (StringOf None (Some 50)),
      Optional ''data'' (PlainOf ''Value''),
      Optional ''customData'' CustomData])"

definition DeleteCertificateRequest_V2_0_1 :: request_type where
  "DeleteCertificateRequest_V2_0_1 = RequestType ''DeleteCertificate'' Call CsmsOrigin (Some DeleteCertificateResponse_V2_0_1)
     (StructOf ''DeleteCertificateRequest'' [
      Required ''certificateHashData'' CertificateHashData_V2_0_1,
      Optional ''customData'' CustomData])"

definition FirmwareStatusNotificationRequest_V2_0_1 :: request_type where
  "FirmwareStatusNotificationRequest_V2_0_1 = RequestType ''FirmwareStatusNotification'' Call ChargingStationOrigin (Some FirmwareStatusNotificationResponse_V2_0_1)
     (StructOf ''FirmwareStatusNotificationRequest'' [
      Required ''status'' (EnumOf FirmwareStatus_V2_0_1),
      Optional ''requestId'' (IntegerOf None None),
      Optional ''customData'' CustomData])"

definition Get15118EVCertificateRequest_V2_0_1 :: request_type where
  "Get15118EVCertificateRequest_V2_0_1 = RequestType ''Get15118EVCertificate'' Call ChargingStationOrigin (Some Get15118EVCertificateResponse_V2_0_1)
     (StructOf ''Get15118EVCertificateRequest'' [
      Required ''iso15118SchemaVersion'' (StringOf None (Some 50)),
      Required ''action'' (EnumOf CertificateAction_V2_0_1),
      Required ''exiRequest'' (StringOf None (Some 5600)),
      Optional ''customData'' CustomData])"

definition GetBaseReportRequest_V2_0_1 :: request_type where
  "GetBaseReportRequest_V2_0_1 = RequestType ''GetBaseReport'' Call CsmsOrigin (Some GetBaseReportResponse_V2_0_1)
     (StructOf ''GetBaseReportRequest'' [
      Required ''requestId'' (IntegerOf None None),
      Required ''reportBase'' (EnumOf ReportBase_V2_0_1),
      Optional ''customData'' CustomData])"

definition GetCertificateStatusRequest_V2_0_1 :: request_type where
  "GetCertificateStatusRequest_V2_0_1 = RequestType ''GetCertificateStatus'' Call ChargingStationOrigin (Some GetCertificateStatusResponse_V2_0_1)
     (StructOf ''GetCertificateStatusRequest'' [
      Required ''ocspRequestData'' OCSPRequestData_V2_0_1,
      Optional ''customData'' CustomData])"

definition GetChargingProfilesRequest_V2_0_1 :: request_type where
  "GetChargingProfilesRequest_V2_0_1 = RequestType ''GetChargingProfiles'' Call CsmsOrigin (Some GetChargingProfilesResponse_V2_0_1)
     (StructOf ''GetChargingProfilesRequest'' [
      Required ''requestId'' (IntegerOf None None),
      Required ''chargingProfile'' ChargingProfileCriterion_V2_0_1,
      Optional ''evseId'' (IntegerOf None None),
      Optional ''customData'' CustomData])"

definition GetCompositeScheduleRequest_V2_0_1 :: request_type where
  "GetCompositeScheduleRequest_V2_0_1 = RequestType ''GetCompositeSchedule'' Call CsmsOrigin (Some GetCompositeScheduleResponse_V2_0_1)
     (StructOf ''GetCompositeScheduleRequest'' [
      Required ''duration'' (IntegerOf None None),
      Required ''evseId'' (IntegerOf None None),
      Optional ''chargingRateUnit'' (EnumOf ChargingRateUnit_V2_0_1),
      Optional ''customData'' CustomData])"

definition GetDisplayMessagesRequest_V2_0_1 :: request_type where
  "GetDisplayMessagesRequest_V2_0_1 = RequestType ''GetDisplayMessages'' Call CsmsOrigin (Some GetDisplayMessagesResponse_V2_0_1)
     (StructOf ''GetDisplayMessagesRequest'' [
      Required ''requestId'' (IntegerOf None None),
      Optional ''id'' (VecOf (Some 1) None (IntegerOf None None)),
      Optional ''priority'' (EnumOf MessagePriority_V2_0_1),
      Optional ''state'' (EnumOf MessageState_V2_0_1),
      Optional ''customData'' CustomData])"

definition GetInstalledCertificateIdsRequest_V2_0_1 :: request_type where
  "GetInstalledCertificateIdsRequest_V2_0_1 = RequestType ''GetInstalledCertificateIds'' Call CsmsOrigin (Some GetInstalledCertificateIdsResponse_V2_0_1)
     (StructOf ''GetInstalledCertificateIdsRequest'' [
      Optional ''certificateType'' (VecOf (Some 1) None (EnumOf GetCertificateIdUse_V2_0_1)),
      Optional ''customData'' CustomData])"

definition GetLocalListVersionRequest_V2_0_1 :: request_type where
  "GetLocalListVersionRequest_V2_0_1 = RequestType ''GetLocalListVersion'' Call CsmsOrigin (Some GetLocalListVersionResponse_V2_0_1)
     (StructOf ''GetLocalListVersionRequest'' [
      Optional ''customData'' CustomData])"

definition GetLogRequest_V2_0_1 :: request_type where
  "GetLogRequest_V2_0_1 = RequestType ''GetLog'' Call CsmsOrigin (Some GetLogResponse_V2_0_1)
     (StructOf ''GetLogRequest'' [
      Required ''log'' LogParameters_V2_0_1,
      Required ''logType'' (EnumOf Log_V2_0_1),
      Required ''requestId'' (IntegerOf None None),
      Optional ''retries'' (IntegerOf None None),
      Optional ''retryInterval'' (IntegerOf None None),
      Optional ''customData'' CustomData])"

definition GetMonitoringReportRequest_V2_0_1 :: request_type where
  "GetMonitoringReportRequest_V2_0_1 = RequestType ''GetMonitoringReport'' Call CsmsOrigin (Some GetMonitoringReportResponse_V2_0_1)
     (StructOf ''GetMonitoringReportRequest'' [
      Required ''requestId'' (IntegerOf None None),
      Optional ''componentVariable'' (VecOf (Some 1) None ComponentVariable_V2_0_1),
      Optional ''monitoringCriteria'' (VecOf (Some 1) (Some 3) (EnumOf MonitoringCriterion_V2_0_1)),
      Optional ''customData'' CustomData])"

definition GetReportRequest_V2_0_1 :: request_type where
  "GetReportRequest_V2_0_1 = RequestType ''GetReport'' Call CsmsOrigin (Some GetReportResponse_V2_0_1)
     (StructOf ''GetReportRequest'' [
      Required ''requestId'' (IntegerOf None None),
      Optional ''componentVariable'' (VecOf (Some 1) None ComponentVariable_V2_0_1),
      Optional ''componentCriteria'' (VecOf (Some 1) (Some 4) (EnumOf ComponentCriterion_V2_0_1)),
      Optional ''customData'' CustomData])"

definition GetTransactionStatusRequest_V2_0_1 :: request_type where
  "GetTransactionStatusRequest_V2_0_1 = RequestType ''GetTransactionStatus'' Call CsmsOrigin (Some GetTransactionStatusResponse_V2_0_1)
     (StructOf ''GetTransactionStatusRequest'' [
      Optional ''transactionId'' (StringOf None (Some 36)),
      Optional ''customData'' CustomData])"

definition GetVariablesRequest_V2_0_1 :: request_type where
  "GetVariablesRequest_V2_0_1 = RequestType ''GetVariables'' Call CsmsOrigin (Some GetVariablesResponse_V2_0_1)
     (StructOf ''GetVariablesRequest'' [
      Required ''getVariableData'' (VecOf (Some 1) None GetVariableData_V2_0_1),
      Optional ''customData'' CustomData])"

definition HeartbeatRequest_V2_0_1 :: request_type where
  "HeartbeatRequest_V2_0_1 = RequestType ''Heartbeat'' Call ChargingStationOrigin (Some HeartbeatResponse_V2_0_1)
     (StructOf ''HeartbeatRequest'' [
      Optional ''customData'' CustomData])"

definition InstallCertificateRequest_V2_0_1 :: request_type where
  "InstallCertificateRequest_V2_0_1 = RequestType ''InstallCertificate'' Call CsmsOrigin (Some InstallCertificateResponse_V2_0_1)
     (StructOf ''InstallCertificateRequest'' [
      Required ''certificateType'' (EnumOf InstallCertificateUse_V2_0_1),
      Required ''certificate'' (StringOf None (Some 5500)),
      Optional ''customData'' CustomData])"

definition LogStatusNotificationRequest_V2_0_1 :: request_type where
  "LogStatusNotificationRequest_V2_0_1 = RequestType ''LogStatusNotification'' Call ChargingStationOrigin (Some LogStatusNotificationResponse_V2_0_1)
     (StructOf ''LogStatusNotificationRequest'' [
      Required ''status'' (EnumOf UploadLogStatus_V2_0_1),
      Optional ''requestId'' (IntegerOf None None),
      Optional ''customData'' CustomData])"

definition MeterValuesRequest_V2_0_1 :: request_type where
  "MeterValuesRequest_V2_0_1 = RequestType ''MeterValues'' Call ChargingStationOrigin (Some MeterValuesResponse_V2_0_1)
     (StructOf ''MeterValuesRequest'' [
      Required ''evseId'' (IntegerOf None None),
      Required ''meterValue'' (VecOf (Some 1) None MeterValue_V2_0_1),
      Optional ''customData'' CustomData])"

definition NotifyChargingLimitRequest_V2_0_1 :: request_type where
  "NotifyChargingLimitRequest_V2_0_1 = RequestType ''NotifyChargingLimit'' Call ChargingStationOrigin (Some NotifyChargingLimitResponse_V2_0_1)
     (StructOf ''NotifyChargingLimitRequest'' [
      Required ''chargingLimit'' ChargingLimit_V2_0_1,
      Optional ''chargingSchedule'' (VecOf (Some 1) None ChargingSchedule_V2_0_1),
      Optional ''evseId'' (IntegerOf None None),
      Optional ''customData'' CustomData])"

definition NotifyCustomerInformationRequest_V2_0_1 :: request_type where
  "NotifyCustomerInformationRequest_V2_0_1 = RequestType ''NotifyCustomerInformation'' Call ChargingStationOrigin (Some NotifyCustomerInformationResponse_V2_0_1)
     (StructOf ''NotifyCustomerInformationRequest'' [
      Required ''data'' (StringOf None (Some 512)),
      Required ''seqNo'' (IntegerOf None None),
      Required ''generatedAt'' (PlainOf ''DateTime''),
      Required ''requestId'' (IntegerOf None None),
      Optional ''tbc'' FlagOf,
      Optional ''customData'' CustomData])"

definition NotifyDisplayMessagesRequest_V2_0_1 :: request_type where
  "NotifyDisplayMessagesRequest_V2_0_1 = RequestType ''NotifyDisplayMessages'' Call ChargingStationOrigin (Some NotifyDisplayMessagesResponse_V2_0_1)
     (StructOf ''NotifyDisplayMessagesRequest'' [
      Required ''requestId'' (IntegerOf None None),
      Optional ''messageInfo'' (VecOf (Some 1) None MessageInfo_V2_0_1),
      Optional ''tbc'' FlagOf,
      Optional ''customData'' CustomData])"

definition NotifyEVChargingNeedsRequest_V2_0_1 :: request_type where
  "NotifyEVChargingNeedsRequest_V2_0_1 = RequestType ''NotifyEVChargingNeeds'' Call ChargingStationOrigin (Some NotifyEVChargingNeedsResponse_V2_0_1)
     (StructOf ''NotifyEVChargingNeedsRequest'' [
      Required ''chargingNeeds'' ChargingNeeds_V2_0_1,
      Required ''evseId'' (IntegerOf None None),
      Optional ''maxScheduleTuples'' (IntegerOf None None),
      Optional ''customData'' CustomData])"

definition NotifyEVChargingScheduleRequest_V2_0_1 :: request_type where
  "NotifyEVChargingScheduleRequest_V2_0_1 = RequestType ''NotifyEVChargingSchedule'' Call ChargingStationOrigin (Some NotifyEVChargingScheduleResponse_V2_0_1)
     (StructOf ''NotifyEVChargingScheduleRequest'' [
      Required ''timeBase'' (PlainOf ''DateTime''),
      Required ''chargingSchedule'' ChargingSchedule_V2_0_1,
      Required ''evseId'' (IntegerOf None None),
      Optional ''customData'' CustomData])"

definition NotifyEventRequest_V2_0_1 :: request_type where
  "NotifyEventRequest_V2_0_1 = RequestType ''NotifyEvent'' Call ChargingStationOrigin (Some NotifyEventResponse_V2_0_1)
     (StructOf ''NotifyEventRequest'' [
      Required ''generatedAt'' (PlainOf ''DateTime''),
      Required ''seqNo'' (IntegerOf None None),
      Required ''eventData'' (VecOf (Some 1) None EventData_V2_0_1),
      Optional ''tbc'' FlagOf,
      Optional ''customData'' CustomData])"

definition NotifyMonitoringReportRequest_V2_0_1 :: request_type where
  "NotifyMonitoringReportRequest_V2_0_1 = RequestType ''NotifyMonitoringReport'' Call ChargingStationOrigin (Some NotifyMonitoringReportResponse_V2_0_1)
     (StructOf ''NotifyMonitoringReportRequest'' [
      Required ''requestId'' (IntegerOf None None),
      Required ''seqNo'' (IntegerOf None None),
      Required ''generatedAt'' (PlainOf ''DateTime''),
      Optional ''monitor'' (VecOf (Some 1) None MonitoringData_V2_0_1),
      Optional ''tbc'' FlagOf,
      Optional ''customData'' CustomData])"

definition NotifyReportRequest_V2_0_1 :: request_type where
  "NotifyReportRequest_V2_0_1 = RequestType ''NotifyReport'' Call ChargingStationOrigin (Some NotifyReportResponse_V2_0_1)
     (StructOf ''NotifyReportRequest'' [
      Required ''requestId'' (IntegerOf None None),
      Required ''generatedAt'' (PlainOf ''DateTime''),
      Required ''seqNo'' (IntegerOf None None),
      Optional ''reportData'' (VecOf (Some 1) None ReportData_V2_0_1),
      Optional ''tbc'' FlagOf,
      Optional ''customData'' CustomData])"

definition PublishFirmwareRequest_V2_0_1 :: request_type where
  "PublishFirmwareRequest_V2_0_1 = RequestType ''PublishFirmware'' Call CsmsOrigin (Some PublishFirmwareResponse_V2_0_1)
     (StructOf ''PublishFirmwareRequest'' [
      Required ''location'' (StringOf None (Some 512)),
      Required ''checksum'' (StringOf None (Some 32)),
      Required ''requestId'' (IntegerOf None None),
      Optional ''retries'' (IntegerOf None None),
      Optional ''retryInterval'' (IntegerOf None None),
      Optional ''customData'' CustomData])"

definition PublishFirmwareStatusNotificationRequest_V2_0_1 :: request_type where
  "PublishFirmwareStatusNotificationRequest_V2_0_1 = RequestType ''PublishFirmwareStatusNotification'' Call ChargingStationOrigin (Some PublishFirmwareStatusNotificationResponse_V2_0_1)
     (StructOf ''PublishFirmwareStatusNotificationRequest'' [
      Required ''status'' (EnumOf PublishFirmwareStatus_V2_0_1),
      Optional ''location'' (VecOf (Some 1) None (StringOf None (Some 512))),
      Optional ''requestId'' (IntegerOf None None),
      Optional ''customData'' CustomData])"

definition ReportChargingProfilesRequest_V2_0_1 :: request_type where
  "ReportChargingProfilesRequest_V2_0_1 = RequestType ''ReportChargingProfiles'' Call ChargingStationOrigin (Some ReportChargingProfilesResponse_V2_0_1)
     (StructOf ''ReportChargingProfilesRequest'' [
      Required ''requestId'' (IntegerOf None None),
      Required ''chargingLimitSource'' (EnumOf ChargingLimitSource_V2_0_1),
      Required ''chargingProfile'' (VecOf (Some 1) None ChargingProfile_V2_0_1),
      Required ''evseId'' (IntegerOf None None),
      Optional ''tbc'' FlagOf,
      Optional ''customData'' CustomData])"

definition RequestStartTransactionRequest_V2_0_1 :: request_type where
  "RequestStartTransactionRequest_V2_0_1 = RequestType ''RequestStartTransaction'' Call CsmsOrigin (Some RequestStartTransactionResponse_V2_0_1)
     (StructOf ''RequestStartTransactionRequest'' [
      Required ''idToken'' IdToken_V2_0_1,
      Required ''remoteStartId'' (IntegerOf None None),
      Optional ''evseId'' (IntegerOf None None),
      Optional ''groupIdToken'' IdToken_V2_0_1,
      Optional ''chargingProfile'' ChargingProfile_V2_0_1,
      Optional ''customData'' CustomData])"

definition RequestStopTransactionRequest_V2_0_1 :: request_type where
  "RequestStopTransactionRequest_V2_0_1 = RequestType ''RequestStopTransaction'' Call CsmsOrigin (Some RequestStopTransactionResponse_V2_0_1)
     (StructOf ''RequestStopTransactionRequest'' [
      Required ''transactionId'' (StringOf None (Some 36)),
      Optional ''customData'' CustomData])"

definition ReservationStatusUpdateRequest_V2_0_1 :: request_type where
  "ReservationStatusUpdateRequest_V2_0_1 = RequestType ''ReservationStatusUpdate'' Call ChargingStationOrigin (Some ReservationStatusUpdateResponse_V2_0_1)
     (StructOf ''ReservationStatusUpdateRequest'' [
      Required ''reservationId'' (IntegerOf None None),
      Required ''reservationUpdateStatus'' (EnumOf ReservationUpdateStatus_V2_0_1),
      Optional ''customData'' CustomData])"

definition ReserveNowRequest_V2_0_1 :: request_type where
  "ReserveNowRequest_V2_0_1 = RequestType ''ReserveNow'' Call CsmsOrigin (Some ReserveNowResponse_V2_0_1)
     (StructOf ''ReserveNowRequest'' [
      Required ''id'' (IntegerOf None None),
      Required ''expiryDateTime'' (PlainOf ''DateTime''),
      Required ''idToken'' IdToken_V2_0_1,
      Optional ''connectorType'' (EnumOf Connector_V2_0_1),
      Optional ''evseId'' (IntegerOf None None),
      Optional ''groupIdToken'' IdToken_V2_0_1,
      Optional ''customData'' CustomData])"

definition ResetRequest_V2_0_1 :: request_type where
  "ResetRequest_V2_0_1 = RequestType ''Reset'' Call CsmsOrigin (Some ResetResponse_V2_0_1)
     (StructOf ''ResetRequest'' [
      Required ''type'' (EnumOf ResetEnum_V2_0_1),
      Optional ''evseId'' (IntegerOf None None),
      Optional ''customData'' CustomData])"

definition SecurityEventNotificationRequest_V2_0_1 :: request_type where
  "SecurityEventNotificationRequest_V2_0_1 = RequestType ''SecurityEventNotification'' Call ChargingStationOrigin (Some SecurityEventNotificationResponse_V2_0_1)
     (StructOf ''SecurityEventNotificationRequest'' [
      Required ''type'' (StringOf None (Some 50)),
      Required ''timestamp'' (PlainOf ''DateTime''),
      Optional ''techInfo'' (StringOf None (Some 255)),
      Optional ''customData'' CustomData])"

definition SendLocalListRequest_V2_0_1 :: request_type where
  "SendLocalListRequest_V2_0_1 = RequestType ''SendLocalList'' Call CsmsOrigin (Some SendLocalListResponse_V2_0_1)
     (StructOf ''SendLocalListRequest'' [
      Required ''versionNumber'' (IntegerOf None None),
      Required ''updateType'' (EnumOf Update_V2_0_1),
      Optional ''localAuthorizationList'' (VecOf (Some 1) None AuthorizationData_V2_0_1),
      Optional ''customData'' CustomData])"

definition SetChargingProfileRequest_V2_0_1 :: request_type where
  "SetChargingProfileRequest_V2_0_1 = RequestType ''SetChargingProfile'' Call CsmsOrigin (Some SetChargingProfileResponse_V2_0_1)
     (StructOf ''SetChargingProfileRequest'' [
      Required ''evseId'' (IntegerOf None None),
      Required ''chargingProfile'' ChargingProfile_V2_0_1,
      Optional ''customData'' CustomData])"

definition SetDisplayMessageRequest_V2_0_1 :: request_type where
  "SetDisplayMessageRequest_V2_0_1 = RequestType ''SetDisplayMessage'' Call CsmsOrigin (Some SetDisplayMessageResponse_V2_0_1)
     (StructOf ''SetDisplayMessageRequest'' [
      Required ''message'' MessageInfo_V2_0_1,
      Optional ''customData'' CustomData])"

definition SetMonitoringBaseRequest_V2_0_1 :: request_type where
  "SetMonitoringBaseRequest_V2_0_1 = RequestType ''SetMonitoringBase'' Call CsmsOrigin (Some SetMonitoringBaseResponse_V2_0_1)
     (StructOf ''SetMonitoringBaseRequest'' [
      Required ''monitoringBase'' (EnumOf MonitoringBase_V2_0_1),
      Optional ''customData'' CustomData])"

definition SetMonitoringLevelRequest_V2_0_1 :: request_type where
  "SetMonitoringLevelRequest_V2_0_1 = RequestType ''SetMonitoringLevel'' Call CsmsOrigin (Some SetMonitoringLevelResponse_V2_0_1)
     (StructOf ''SetMonitoringLevelRequest'' [
      Required ''severity'' (IntegerOf None None),
      Optional ''customData'' CustomData])"

definition SetNetworkProfileRequest_V2_0_1 :: request_type where
  "SetNetworkProfileRequest_V2_0_1 = RequestType ''SetNetworkProfile'' Call CsmsOrigin (Some SetNetworkProfileResponse_V2_0_1)
     (StructOf ''SetNetworkProfileRequest'' [
      Required ''configurationSlot'' (IntegerOf None None),
      Required ''connectionData'' NetworkConnectionProfile_V2_0_1,
      Optional ''customData'' CustomData])"

definition SetVariableMonitoringRequest_V2_0_1 :: request_type where
  "SetVariableMonitoringRequest_V2_0_1 = RequestType ''SetVariableMonitoring'' Call CsmsOrigin (Some SetVariableMonitoringResponse_V2_0_1)
     (StructOf ''SetVariableMonitoringRequest'' [
      Required ''setMonitoringData'' (VecOf (Some 1) None SetMonitoringData_V2_0_1),
      Optional ''customData'' CustomData])"

definition SetVariablesRequest_V2_0_1 :: request_type where
  "SetVariablesRequest_V2_0_1 = RequestType ''SetVariables'' Call CsmsOrigin (Some SetVariablesResponse_V2_0_1)
     (StructOf ''SetVariablesRequest'' [
      Required ''setVariableData'' (VecOf (Some 1) None SetVariableData_V2_0_1),
      Optional ''customData'' CustomData])"

definition SignCertificateRequest_V2_0_1 :: request_type where
  "SignCertificateRequest_V2_0_1 = RequestType ''SignCertificate'' Call ChargingStationOrigin (Some SignCertificateResponse_V2_0_1)
     (StructOf ''SignCertificateRequest'' [
      Required ''csr'' (StringOf None (Some 5500)),
      Optional ''certificateType'' (EnumOf CertificateSigningUse_V2_0_1),
      Optional ''customData'' CustomData])"

definition StatusNotificationRequest_V2_0_1 :: request_type where
  "StatusNotificationRequest_V2_0_1 = RequestType ''StatusNotification'' Call ChargingStationOrigin (Some StatusNotificationResponse_V2_0_1)
     (StructOf ''StatusNotificationRequest'' [
      Required ''timestamp'' (PlainOf ''DateTime''),
      Required ''connectorStatus'' (EnumOf ConnectorStatus_V2_0_1),
      Required ''evseId'' (IntegerOf None None),
      Required ''connectorId'' (IntegerOf None None),
      Optional ''customData'' CustomData])"

definition TransactionEventRequest_V2_0_1 :: request_type where
  "TransactionEventRequest_V2_0_1 = RequestType ''TransactionEvent'' Call ChargingStationOrigin (Some TransactionEventResponse_V2_0_1)
     (StructOf ''TransactionEventRequest'' [
      Required ''eventType'' (EnumOf TransactionEventEnum_V2_0_1),
      Required ''timestamp'' (PlainOf ''DateTime''),
      Required ''triggerReason'' (EnumOf TriggerReason_V2_0_1),
      Required ''seqNo'' (IntegerOf None None),
      Required ''transactionInfo'' Transaction_V2_0_1,
      Optional ''meterValue'' (VecOf (Some 1) None MeterValue_V2_0_1),
      Optional ''offline'' FlagOf,
      Optional ''numberOfPhasesUsed'' (IntegerOf None None),
      Optional ''cableMaxCurrent'' (IntegerOf None None),
      Optional ''reservationId'' (IntegerOf None None),
      Optional ''evse'' EVSE_V2_0_1,
      Optional ''idToken'' IdToken_V2_0_1,
      Optional ''customData'' CustomData])"

definition TriggerMessageRequest_V2_0_1 :: request_type where
  "TriggerMessageRequest_V2_0_1 = RequestType ''TriggerMessage'' Call CsmsOrigin (Some TriggerMessageResponse_V2_0_1)
     (StructOf ''TriggerMessageRequest'' [
      Required ''requestedMessage'' (EnumOf MessageTrigger_V2_0_1),
      Optional ''evse'' EVSE_V2_0_1,
      Optional ''customData'' CustomData])"

definition UnlockConnectorRequest_V2_0_1 :: request_type where
  "UnlockConnectorRequest_V2_0_1 = RequestType ''UnlockConnector'' Call CsmsOrigin (Some UnlockConnectorResponse_V2_0_1)
     (StructOf ''UnlockConnectorRequest'' [
      Required ''evseId'' (IntegerOf None None),
      Required ''connectorId'' (IntegerOf None None),
      Optional ''customData'' CustomData])"

definition UnpublishFirmwareRequest_V2_0_1 :: request_type where
  "UnpublishFirmwareRequest_V2_0_1 = RequestType ''UnpublishFirmware'' Call CsmsOrigin (Some UnpublishFirmwareResponse_V2_0_1)
     (StructOf ''UnpublishFirmwareRequest'' [
      Required ''checksum'' (StringOf None (Some 32)),
      Optional ''customData'' CustomData])"

definition UpdateFirmwareRequest_V2_0_1 :: request_type where
  "UpdateFirmwareRequest_V2_0_1 = RequestType ''UpdateFirmware'' Call CsmsOrigin (Some UpdateFirmwareResponse_V2_0_1)
     (StructOf ''UpdateFirmwareRequest'' [
      Required ''requestId'' (IntegerOf None None),
      Required ''firmware'' Firmware_V2_0_1,
      Optional ''retries'' (IntegerOf None None),
      Optional ''retryInterval'' (IntegerOf None None),
      Optional ''customData'' CustomData])"

text \<open>The same for the messages.\<close>

lemma responses_ok_V2_0_1 [simp]:
  "shape_ok AuthorizeResponse_V2_0_1" "shape_ok BootNotificationResponse_V2_0_1"
  "shape_ok CancelReservationResponse_V2_0_1" "shape_ok CertificateSignedResponse_V2_0_1"
  "shape_ok ChangeAvailabilityResponse_V2_0_1" "shape_ok ClearCacheResponse_V2_0_1"
  "shape_ok ClearChargingProfileResponse_V2_0_1" "shape_ok ClearDisplayMessageResponse_V2_0_1"
  "shape_ok ClearVariableMonitoringResponse_V2_0_1" "shape_ok ClearedChargingLimitResponse_V2_0_1"
  "shape_ok CostUpdatedResponse_V2_0_1" "shape_ok CustomerInformationResponse_V2_0_1"
  "shape_ok DataTransferResponse_V2_0_1" "shape_ok DeleteCertificateResponse_V2_0_1"
  "shape_ok FirmwareStatusNotificationResponse_V2_0_1"
  "shape_ok Get15118EVCertificateResponse_V2_0_1" "shape_ok GetBaseReportResponse_V2_0_1"
  "shape_ok GetCertificateStatusResponse_V2_0_1" "shape_ok GetChargingProfilesResponse_V2_0_1"
  "shape_ok GetCompositeScheduleResponse_V2_0_1" "shape_ok GetDisplayMessagesResponse_V2_0_1"
  "shape_ok GetInstalledCertificateIdsResponse_V2_0_1"
  "shape_ok GetLocalListVersionResponse_V2_0_1" "shape_ok GetLogResponse_V2_0_1"
  "shape_ok GetMonitoringReportResponse_V2_0_1" "shape_ok GetReportResponse_V2_0_1"
  "shape_ok GetTransactionStatusResponse_V2_0_1" "shape_ok GetVariablesResponse_V2_0_1"
  "shape_ok HeartbeatResponse_V2_0_1" "shape_ok InstallCertificateResponse_V2_0_1"
  "shape_ok LogStatusNotificationResponse_V2_0_1" "shape_ok MeterValuesResponse_V2_0_1"
  "shape_ok NotifyChargingLimitResponse_V2_0_1"
  "shape_ok NotifyCustomerInformationResponse_V2_0_1"
  "shape_ok NotifyDisplayMessagesResponse_V2_0_1" "shape_ok NotifyEVChargingNeedsResponse_V2_0_1"
  "shape_ok NotifyEVChargingScheduleResponse_V2_0_1" "shape_ok NotifyEventResponse_V2_0_1"
  "shape_ok NotifyMonitoringReportResponse_V2_0_1" "shape_ok NotifyReportResponse_V2_0_1"
  "shape_ok PublishFirmwareResponse_V2_0_1"
  "shape_ok PublishFirmwareStatusNotificationResponse_V2_0_1"
  "shape_ok ReportChargingProfilesResponse_V2_0_1"
  "shape_ok RequestStartTransactionResponse_V2_0_1"
  "shape_ok RequestStopTransactionResponse_V2_0_1"
  "shape_ok ReservationStatusUpdateResponse_V2_0_1" "shape_ok ReserveNowResponse_V2_0_1"
  "shape_ok ResetResponse_V2_0_1" "shape_ok SecurityEventNotificationResponse_V2_0_1"
  "shape_ok SendLocalListResponse_V2_0_1" "shape_ok SetChargingProfileResponse_V2_0_1"
  "shape_ok SetDisplayMessageResponse_V2_0_1" "shape_ok SetMonitoringBaseResponse_V2_0_1"
  "shape_ok SetMonitoringLevelResponse_V2_0_1" "shape_ok SetNetworkProfileResponse_V2_0_1"
  "shape_ok SetVariableMonitoringResponse_V2_0_1" "shape_ok SetVariablesResponse_V2_0_1"
  "shape_ok SignCertificateResponse_V2_0_1" "shape_ok StatusNotificationResponse_V2_0_1"
  "shape_ok TransactionEventResponse_V2_0_1" "shape_ok TriggerMessageResponse_V2_0_1"
  "shape_ok UnlockConnectorResponse_V2_0_1" "shape_ok UnpublishFirmwareResponse_V2_0_1"
  "shape_ok UpdateFirmwareResponse_V2_0_1"
  by (simp_all add:
    AuthorizeResponse_V2_0_1_def BootNotificationResponse_V2_0_1_def
    CancelReservationResponse_V2_0_1_def CertificateSignedResponse_V2_0_1_def
    ChangeAvailabilityResponse_V2_0_1_def ClearCacheResponse_V2_0_1_def
    ClearChargingProfileResponse_V2_0_1_def ClearDisplayMessageResponse_V2_0_1_def
    ClearVariableMonitoringResponse_V2_0_1_def ClearedChargingLimitResponse_V2_0_1_def
    CostUpdatedResponse_V2_0_1_def CustomerInformationResponse_V2_0_1_def
    DataTransferResponse_V2_0_1_def DeleteCertificateResponse_V2_0_1_def
    FirmwareStatusNotificationResponse_V2_0_1_def Get15118EVCertificateResponse_V2_0_1_def
    GetBaseReportResponse_V2_0_1_def GetCertificateStatusResponse_V2_0_1_def
    GetChargingProfilesResponse_V2_0_1_def GetCompositeScheduleResponse_V2_0_1_def
    GetDisplayMessagesResponse_V2_0_1_def GetInstalledCertificateIdsResponse_V2_0_1_def
    GetLocalListVersionResponse_V2_0_1_def GetLogResponse_V2_0_1_def
    GetMonitoringReportResponse_V2_0_1_def GetReportResponse_V2_0_1_def
    GetTransactionStatusResponse_V2_0_1_def GetVariablesResponse_V2_0_1_def
    HeartbeatResponse_V2_0_1_def InstallCertificateResponse_V2_0_1_def
    LogStatusNotificationResponse_V2_0_1_def MeterValuesResponse_V2_0_1_def
    NotifyChargingLimitResponse_V2_0_1_def NotifyCustomerInformationResponse_V2_0_1_def
    NotifyDisplayMessagesResponse_V2_0_1_def NotifyEVChargingNeedsResponse_V2_0_1_def
    NotifyEVChargingScheduleResponse_V2_0_1_def NotifyEventResponse_V2_0_1_def
    NotifyMonitoringReportResponse_V2_0_1_def NotifyReportResponse_V2_0_1_def
    PublishFirmwareResponse_V2_0_1_def PublishFirmwareStatusNotificationResponse_V2_0_1_def
    ReportChargingProfilesResponse_V2_0_1_def RequestStartTransactionResponse_V2_0_1_def
    RequestStopTransactionResponse_V2_0_1_def ReservationStatusUpdateResponse_V2_0_1_def
    ReserveNowResponse_V2_0_1_def ResetResponse_V2_0_1_def
    SecurityEventNotificationResponse_V2_0_1_def SendLocalListResponse_V2_0_1_def
    SetChargingProfileResponse_V2_0_1_def SetDisplayMessageResponse_V2_0_1_def
    SetMonitoringBaseResponse_V2_0_1_def SetMonitoringLevelResponse_V2_0_1_def
    SetNetworkProfileResponse_V2_0_1_def SetVariableMonitoringResponse_V2_0_1_def
    SetVariablesResponse_V2_0_1_def SignCertificateResponse_V2_0_1_def
    StatusNotificationResponse_V2_0_1_def TransactionEventResponse_V2_0_1_def
    TriggerMessageResponse_V2_0_1_def UnlockConnectorResponse_V2_0_1_def
    UnpublishFirmwareResponse_V2_0_1_def UpdateFirmwareResponse_V2_0_1_def)

lemma requests_ok_V2_0_1 [simp]:
  "shape_ok (rq_shape AuthorizeRequest_V2_0_1)"
  "shape_ok (rq_shape BootNotificationRequest_V2_0_1)"
  "shape_ok (rq_shape CancelReservationRequest_V2_0_1)"
  "shape_ok (rq_shape CertificateSignedRequest_V2_0_1)"
  "shape_ok (rq_shape ChangeAvailabilityRequest_V2_0_1)"
  "shape_ok (rq_shape ClearCacheRequest_V2_0_1)"
  "shape_ok (rq_shape ClearChargingProfileRequest_V2_0_1)"
  "shape_ok (rq_shape ClearDisplayMessageRequest_V2_0_1)"
  "shape_ok (rq_shape ClearVariableMonitoringRequest_V2_0_1)"
  "shape_ok (rq_shape ClearedChargingLimitRequest_V2_0_1)"
  "shape_ok (rq_shape CostUpdatedRequest_V2_0_1)"
  "shape_ok (rq_shape CustomerInformationRequest_V2_0_1)"
  "shape_ok (rq_shape DataTransferRequest_V2_0_1)"
  "shape_ok (rq_shape DeleteCertificateRequest_V2_0_1)"
  "shape_ok (rq_shape FirmwareStatusNotificationRequest_V2_0_1)"
  "shape_ok (rq_shape Get15118EVCertificateRequest_V2_0_1)"
  "shape_ok (rq_shape GetBaseReportRequest_V2_0_1)"
  "shape_ok (rq_shape GetCertificateStatusRequest_V2_0_1)"
  "shape_ok (rq_shape GetChargingProfilesRequest_V2_0_1)"
  "shape_ok (rq_shape GetCompositeScheduleRequest_V2_0_1)"
  "shape_ok (rq_shape GetDisplayMessagesRequest_V2_0_1)"
  "shape_ok (rq_shape GetInstalledCertificateIdsRequest_V2_0_1)"
  "shape_ok (rq_shape GetLocalListVersionRequest_V2_0_1)"
  "shape_ok (rq_shape GetLogRequest_V2_0_1)"
  "shape_ok (rq_shape GetMonitoringReportRequest_V2_0_1)"
  "shape_ok (rq_shape GetReportRequest_V2_0_1)"
  "shape_ok (rq_shape GetTransactionStatusRequest_V2_0_1)"
  "shape_ok (rq_shape GetVariablesRequest_V2_0_1)" "shape_ok (rq_shape HeartbeatRequest_V2_0_1)"
  "shape_ok (rq_shape InstallCertificateRequest_V2_0_1)"
  "shape_ok (rq_shape LogStatusNotificationRequest_V2_0_1)"
  "shape_ok (rq_shape MeterValuesRequest_V2_0_1)"
  "shape_ok (rq_shape NotifyChargingLimitRequest_V2_0_1)"
  "shape_ok (rq_shape NotifyCustomerInformationRequest_V2_0_1)"
  "shape_ok (rq_shape NotifyDisplayMessagesRequest_V2_0_1)"
  "shape_ok (rq_shape NotifyEVChargingNeedsRequest_V2_0_1)"
  "shape_ok (rq_shape NotifyEVChargingScheduleRequest_V2_0_1)"
  "shape_ok (rq_shape NotifyEventRequest_V2_0_1)"
  "shape_ok (rq_shape NotifyMonitoringReportRequest_V2_0_1)"
  "shape_ok (rq_shape NotifyReportRequest_V2_0_1)"
  "shape_ok (rq_shape PublishFirmwareRequest_V2_0_1)"
  "shape_ok (rq_shape PublishFirmwareStatusNotificationRequest_V2_0_1)"
  "shape_ok (rq_shape ReportChargingProfilesRequest_V2_0_1)"
  "shape_ok (rq_shape RequestStartTransactionRequest_V2_0_1)"
  "shape_ok (rq_shape RequestStopTransactionRequest_V2_0_1)"
  "shape_ok (rq_shape ReservationStatusUpdateRequest_V2_0_1)"
  "shape_ok (rq_shape ReserveNowRequest_V2_0_1)" "shape_ok (rq_shape ResetRequest_V2_0_1)"
  "shape_ok (rq_shape SecurityEventNotificationRequest_V2_0_1)"
  "shape_ok (rq_shape SendLocalListRequest_V2_0_1)"
  "shape_ok (rq_shape SetChargingProfileRequest_V2_0_1)"
  "shape_ok (rq_shape SetDisplayMessageRequest_V2_0_1)"
  "shape_ok (rq_shape SetMonitoringBaseRequest_V2_0_1)"
  "shape_ok (rq_shape SetMonitoringLevelRequest_V2_0_1)"
  "shape_ok (rq_shape SetNetworkProfileRequest_V2_0_1)"
  "shape_ok (rq_shape SetVariableMonitoringRequest_V2_0_1)"
  "shape_ok (rq_shape SetVariablesRequest_V2_0_1)"
  "shape_ok (rq_shape SignCertificateRequest_V2_0_1)"
  "shape_ok (rq_shape StatusNotificationRequest_V2_0_1)"
  "shape_ok (rq_shape TransactionEventRequest_V2_0_1)"
  "shape_ok (rq_shape TriggerMessageRequest_V2_0_1)"
  "shape_ok (rq_shape UnlockConnectorRequest_V2_0_1)"
  "shape_ok (rq_shape UnpublishFirmwareRequest_V2_0_1)"
  "shape_ok (rq_shape UpdateFirmwareRequest_V2_0_1)"
  by (simp_all add:
    AuthorizeRequest_V2_0_1_def BootNotificationRequest_V2_0_1_def
    CancelReservationRequest_V2_0_1_def CertificateSignedRequest_V2_0_1_def
    ChangeAvailabilityRequest_V2_0_1_def ClearCacheRequest_V2_0_1_def
    ClearChargingProfileRequest_V2_0_1_def ClearDisplayMessageRequest_V2_0_1_def
    ClearVariableMonitoringRequest_V2_0_1_def ClearedChargingLimitRequest_V2_0_1_def
    CostUpdatedRequest_V2_0_1_def CustomerInformationRequest_V2_0_1_def
    DataTransferRequest_V2_0_1_def DeleteCertificateRequest_V2_0_1_def
    FirmwareStatusNotificationRequest_V2_0_1_def Get15118EVCertificateRequest_V2_0_1_def
    GetBaseReportRequest_V2_0_1_def GetCertificateStatusRequest_V2_0_1_def
    GetChargingProfilesRequest_V2_0_1_def GetCompositeScheduleRequest_V2_0_1_def
    GetDisplayMessagesRequest_V2_0_1_def GetInstalledCertificateIdsRequest_V2_0_1_def
    GetLocalListVersionRequest_V2_0_1_def GetLogRequest_V2_0_1_def
    GetMonitoringReportRequest_V2_0_1_def GetReportRequest_V2_0_1_def
    GetTransactionStatusRequest_V2_0_1_def GetVariablesRequest_V2_0_1_def
    HeartbeatRequest_V2_0_1_def InstallCertificateRequest_V2_0_1_def
    LogStatusNotificationRequest_V2_0_1_def MeterValuesRequest_V2_0_1_def
    NotifyChargingLimitRequest_V2_0_1_def NotifyCustomerInformationRequest_V2_0_1_def
    NotifyDisplayMessagesRequest_V2_0_1_def NotifyEVChargingNeedsRequest_V2_0_1_def
    NotifyEVChargingScheduleRequest_V2_0_1_def NotifyEventRequest_V2_0_1_def
    NotifyMonitoringReportRequest_V2_0_1_def NotifyReportRequest_V2_0_1_def
    PublishFirmwareRequest_V2_0_1_def PublishFirmwareStatusNotificationRequest_V2_0_1_def
    ReportChargingProfilesRequest_V2_0_1_def RequestStartTransactionRequest_V2_0_1_def
    RequestStopTransactionRequest_V2_0_1_def ReservationStatusUpdateRequest_V2_0_1_def
    ReserveNowRequest_V2_0_1_def ResetRequest_V2_0_1_def SecurityEventNotificationRequest_V2_0_1_def
    SendLocalListRequest_V2_0_1_def SetChargingProfileRequest_V2_0_1_def
    SetDisplayMessageRequest_V2_0_1_def SetMonitoringBaseRequest_V2_0_1_def
    SetMonitoringLevelRequest_V2_0_1_def SetNetworkProfileRequest_V2_0_1_def
    SetVariableMonitoringRequest_V2_0_1_def SetVariablesRequest_V2_0_1_def
    SignCertificateRequest_V2_0_1_def StatusNotificationRequest_V2_0_1_def
    TransactionEventRequest_V2_0_1_def TriggerMessageRequest_V2_0_1_def
    UnlockConnectorRequest_V2_0_1_def UnpublishFirmwareRequest_V2_0_1_def
    UpdateFirmwareRequest_V2_0_1_def)

end
