(* ===== verification/Enums_V2_1.thy ===== *)
theory Enums_V2_1
  imports Validation
begin

text \<open>
  \<open>v2_1/enums.rs\<close>: the enumerations of OCPP 2.1, each with its variants and their wire values in
  the order of the source. The names carry the version, since the versions share most of them.
\<close>

definition APNAuthentication_V2_1 :: enum_type where
  "APNAuthentication_V2_1 = EnumType ''APNAuthentication''
     [(''PAP'', ''PAP''), (''CHAP'', ''CHAP''), (''NONE'', ''NONE''), (''AUTO'', ''AUTO'')]"

definition Attribute_V2_1 :: enum_type where
  "Attribute_V2_1 = EnumType ''Attribute''
     [(''Actual'', ''Actual''), (''Target'', ''Target''), (''MinSet'', ''MinSet''),
      (''MaxSet'', ''MaxSet'')]"

definition AuthorizationStatus_V2_1 :: enum_type where
  "AuthorizationStatus_V2_1 = EnumType ''AuthorizationStatus''
     [(''Accepted'', ''Accepted''), (''Blocked'', ''Blocked''), (''ConcurrentTx'', ''ConcurrentTx''),
      (''Expired'', ''Expired''), (''Invalid'', ''Invalid''), (''NoCredit'', ''NoCredit''),
      (''NotAllowedTypeEVSE'', ''NotAllowedTypeEVSE''), (''NotAtThisLocation'', ''NotAtThisLocation''),
      (''NotAtThisTime'', ''NotAtThisTime''), (''Unknown'', ''Unknown'')]"

definition AuthorizeCertificateStatus_V2_1 :: enum_type where
  "AuthorizeCertificateStatus_V2_1 = EnumType ''AuthorizeCertificateStatus''
     [(''Accepted'', ''Accepted''), (''SignatureError'', ''SignatureError''),
      (''CertificateExpired'', ''CertificateExpired''),
      (''CertificateRevoked'', ''CertificateRevoked''),
      (''NoCertificateAvailable'', ''NoCertificateAvailable''),
      (''CertChainError'', ''CertChainError''), (''ContractCancelled'', ''ContractCancelled'')]"

definition BatterySwapEvent_V2_1 :: enum_type where
  "BatterySwapEvent_V2_1 = EnumType ''BatterySwapEvent''
     [(''BatteryIn'', ''BatteryIn''), (''BatteryOut'', ''BatteryOut''),
      (''BatteryOutTimeout'', ''BatteryOutTimeout'')]"

definition BootReason_V2_1 :: enum_type where
  "BootReason_V2_1 = EnumType ''BootReason''
     [(''ApplicationReset'', ''ApplicationReset''), (''FirmwareUpdate'', ''FirmwareUpdate''),
      (''LocalReset'', ''LocalReset''), (''PowerUp'', ''PowerUp''), (''RemoteReset'', ''RemoteReset''),
      (''ScheduledReset'', ''ScheduledReset''), (''Triggered'', ''Triggered''),
      (''Unknown'', ''Unknown''), (''Watchdog'', ''Watchdog'')]"

definition CancelReservationStatus_V2_1 :: enum_type where
  "CancelReservationStatus_V2_1 = EnumType ''CancelReservationStatus''
     [(''Accepted'', ''Accepted''), (''Rejected'', ''Rejected'')]"

definition CertificateAction_V2_1 :: enum_type where
  "CertificateAction_V2_1 = EnumType ''CertificateAction''
     [(''Install'', ''Install''), (''Update'', ''Update'')]"

definition CertificateSignedStatus_V2_1 :: enum_type where
  "CertificateSignedStatus_V2_1 = EnumType ''CertificateSignedStatus''
     [(''Accepted'', ''Accepted''), (''Rejected'', ''Rejected'')]"

definition CertificateSigningUse_V2_1 :: enum_type where
  "CertificateSigningUse_V2_1 = EnumType ''CertificateSigningUse''
     [(''ChargingStationCertificate'', ''ChargingStationCertificate''),
      (''V2GCertificate'', ''V2GCertificate''), (''V2G20Certificate'', ''V2G20Certificate'')]"

definition CertificateStatusEnum_V2_1 :: enum_type where
  "CertificateStatusEnum_V2_1 = EnumType ''CertificateStatusEnum''
     [(''Good'', ''Good''), (''Revoked'', ''Revoked''), (''Unknown'', ''Unknown''),
      (''Failed'', ''Failed'')]"

definition CertificateStatusSource_V2_1 :: enum_type where
  "CertificateStatusSource_V2_1 = EnumType ''CertificateStatusSource''
     [(''CRL'', ''CRL''), (''OCSP'', ''OCSP'')]"

definition ChangeAvailabilityStatus_V2_1 :: enum_type where
  "ChangeAvailabilityStatus_V2_1 = EnumType ''ChangeAvailabilityStatus''
     [(''Accepted'', ''Accepted''), (''Rejected'', ''Rejected''), (''Scheduled'', ''Scheduled'')]"

definition ChargingProfileKind_V2_1 :: enum_type where
  "ChargingProfileKind_V2_1 = EnumType ''ChargingProfileKind''
     [(''Absolute'', ''Absolute''), (''Recurring'', ''Recurring''), (''Relative'', ''Relative''),
      (''Dynamic'', ''Dynamic'')]"

definition ChargingProfilePurpose_V2_1 :: enum_type where
  "ChargingProfilePurpose_V2_1 = EnumType ''ChargingProfilePurpose''
     [(''ChargingStationExternalConstraints'', ''ChargingStationExternalConstraints''),
      (''ChargingStationMaxProfile'', ''ChargingStationMaxProfile''),
      (''TxDefaultProfile'', ''TxDefaultProfile''), (''TxProfile'', ''TxProfile''),
      (''PriorityCharging'', ''PriorityCharging''), (''LocalGeneration'', ''LocalGeneration'')]"

definition ChargingProfileStatus_V2_1 :: enum_type where
  "ChargingProfileStatus_V2_1 = EnumType ''ChargingProfileStatus''
     [(''Accepted'', ''Accepted''), (''Rejected'', ''Rejected'')]"

definition ChargingRateUnit_V2_1 :: enum_type where
  "ChargingRateUnit_V2_1 = EnumType ''ChargingRateUnit''
     [(''W'', ''W''), (''A'', ''A'')]"

definition ChargingState_V2_1 :: enum_type where
  "ChargingState_V2_1 = EnumType ''ChargingState''
     [(''EVConnected'', ''EVConnected''), (''Charging'', ''Charging''),
      (''SuspendedEV'', ''SuspendedEV''), (''SuspendedEVSE'', ''SuspendedEVSE''), (''Idle'', ''Idle'')]"

definition ClearCacheStatus_V2_1 :: enum_type where
  "ClearCacheStatus_V2_1 = EnumType ''ClearCacheStatus''
     [(''Accepted'', ''Accepted''), (''Rejected'', ''Rejected'')]"

definition ClearChargingProfileStatus_V2_1 :: enum_type where
  "ClearChargingProfileStatus_V2_1 = EnumType ''ClearChargingProfileStatus''
     [(''Accepted'', ''Accepted''), (''Unknown'', ''Unknown'')]"

definition ClearMessageStatus_V2_1 :: enum_type where
  "ClearMessageStatus_V2_1 = EnumType ''ClearMessageStatus''
     [(''Accepted'', ''Accepted''), (''Unknown'', ''Unknown''), (''Rejected'', ''Rejected'')]"

definition ClearMonitoringStatus_V2_1 :: enum_type where
  "ClearMonitoringStatus_V2_1 = EnumType ''ClearMonitoringStatus''
     [(''Accepted'', ''Accepted''), (''Rejected'', ''Rejected''), (''NotFound'', ''NotFound'')]"

definition ComponentCriterion_V2_1 :: enum_type where
  "ComponentCriterion_V2_1 = EnumType ''ComponentCriterion''
     [(''Active'', ''Active''), (''Available'', ''Available''), (''Enabled'', ''Enabled''),
      (''Problem'', ''Problem'')]"

definition ConnectorStatus_V2_1 :: enum_type where
  "ConnectorStatus_V2_1 = EnumType ''ConnectorStatus''
     [(''Available'', ''Available''), (''Occupied'', ''Occupied''), (''Reserved'', ''Reserved''),
      (''Unavailable'', ''Unavailable''), (''Faulted'', ''Faulted'')]"

definition ControlMode_V2_1 :: enum_type where
  "ControlMode_V2_1 = EnumType ''ControlMode''
     [(''ScheduledControl'', ''ScheduledControl''), (''DynamicControl'', ''DynamicControl'')]"

definition CostDimensionEnum_V2_1 :: enum_type where
  "CostDimensionEnum_V2_1 = EnumType ''CostDimensionEnum''
     [(''Energy'', ''Energy''), (''MaxCurrent'', ''MaxCurrent''), (''MinCurrent'', ''MinCurrent''),
      (''MaxPower'', ''MaxPower''), (''MinPower'', ''MinPower''), (''IdleTIme'', ''IdleTIme''),
      (''ChargingTime'', ''ChargingTime'')]"

definition CostKind_V2_1 :: enum_type where
  "CostKind_V2_1 = EnumType ''CostKind''
     [(''CarbonDioxideEmission'', ''CarbonDioxideEmission''),
      (''RelativePricePercentage'', ''RelativePricePercentage''),
      (''RenewableGenerationPercentage'', ''RenewableGenerationPercentage'')]"

definition CustomerInformationStatus_V2_1 :: enum_type where
  "CustomerInformationStatus_V2_1 = EnumType ''CustomerInformationStatus''
     [(''Accepted'', ''Accepted''), (''Rejected'', ''Rejected''), (''Invalid'', ''Invalid'')]"

definition DERControl_V2_1 :: enum_type where
  "DERControl_V2_1 = EnumType ''DERControl''
     [(''EnterService'', ''EnterService''), (''FreqDroop'', ''FreqDroop''),
      (''FreqWatt'', ''FreqWatt''), (''FixedPFAbsorb'', ''FixedPFAbsorb''),
      (''FixedPFInject'', ''FixedPFInject''), (''FixedVar'', ''FixedVar''),
      (''Gradients'', ''Gradients''), (''HFMustTrip'', ''HFMustTrip''), (''HFMayTrip'', ''HFMayTrip''),
      (''HVMustTrip'', ''HVMustTrip''), (''HVMomCess'', ''HVMomCess''), (''HVMayTrip'', ''HVMayTrip''),
      (''LimitMaxDischarge'', ''LimitMaxDischarge''), (''LFMustTrip'', ''LFMustTrip''),
      (''LVMustTrip'', ''LVMustTrip''), (''LVMomCess'', ''LVMomCess''), (''LVMayTrip'', ''LVMayTrip''),
      (''PowerMonitoringMustTrip'', ''PowerMonitoringMustTrip''), (''VoltVar'', ''VoltVar''),
      (''VoltWatt'', ''VoltWatt''), (''WattPF'', ''WattPF''), (''WattVar'', ''WattVar'')]"

definition DERControlStatus_V2_1 :: enum_type where
  "DERControlStatus_V2_1 = EnumType ''DERControlStatus''
     [(''Accepted'', ''Accepted''), (''Rejected'', ''Rejected''), (''NotSupported'', ''NotSupported''),
      (''NotFound'', ''NotFound'')]"

definition DERUnit_V2_1 :: enum_type where
  "DERUnit_V2_1 = EnumType ''DERUnit''
     [(''NotApplicable'', ''Not_Applicable''), (''PctMaxW'', ''PctMaxW''),
      (''PctMaxVar'', ''PctMaxVar''), (''PctWAvail'', ''PctWAvail''),
      (''PctVarAvail'', ''PctVarAvail''), (''PctEffectiveV'', ''PctEffectiveV'')]"

definition Data_V2_1 :: enum_type where
  "Data_V2_1 = EnumType ''Data''
     [(''String'', ''string''), (''Decimal'', ''decimal''), (''Integer'', ''integer''),
      (''DateTime'', ''dateTime''), (''Boolean'', ''boolean''), (''OptionList'', ''OptionList''),
      (''SequenceList'', ''SequenceList''), (''MemberList'', ''MemberList'')]"

definition DataTransferStatus_V2_1 :: enum_type where
  "DataTransferStatus_V2_1 = EnumType ''DataTransferStatus''
     [(''Accepted'', ''Accepted''), (''Rejected'', ''Rejected''),
      (''UnknownMessageId'', ''UnknownMessageId''), (''UnknownVendorId'', ''UnknownVendorId'')]"

definition DayOfWeek_V2_1 :: enum_type where
  "DayOfWeek_V2_1 = EnumType ''DayOfWeek''
     [(''Monday'', ''Monday''), (''Tuesday'', ''Tuesday''), (''Wednesday'', ''Wednesday''),
      (''Thursday'', ''Thursday''), (''Friday'', ''Friday''), (''Saturday'', ''Saturday''),
      (''Sunday'', ''Sunday'')]"

definition DeleteCertificateStatus_V2_1 :: enum_type where
  "DeleteCertificateStatus_V2_1 = EnumType ''DeleteCertificateStatus''
     [(''Accepted'', ''Accepted''), (''Failed'', ''Failed''), (''NotFound'', ''NotFound'')]"

definition DisplayMessageStatus_V2_1 :: enum_type where
  "DisplayMessageStatus_V2_1 = EnumType ''DisplayMessageStatus''
     [(''Accepted'', ''Accepted''), (''NotSupportedMessageFormat'', ''NotSupportedMessageFormat''),
      (''Rejected'', ''Rejected''), (''NotSupportedPriority'', ''NotSupportedPriority''),
      (''NotSupportedState'', ''NotSupportedState''), (''UnknownTransaction'', ''UnknownTransaction''),
      (''LanguageNotSupported'', ''LanguageNotSupported'')]"

definition EnergyTransferMode_V2_1 :: enum_type where
  "EnergyTransferMode_V2_1 = EnumType ''EnergyTransferMode''
     [(''ACSinglePhase'', ''AC_single_phase''), (''ACTwoPhase'', ''AC_two_phase''),
      (''ACThreePhase'', ''AC_three_phase''), (''DC'', ''DC''), (''ACBPT'', ''AC_BPT''),
      (''ACBPTDER'', ''AC_BPT_DER''), (''ACDER'', ''AC_DER''), (''DCBPT'', ''DC_BPT''),
      (''DCACDP'', ''DC_ACDP''), (''DCACDPBPT'', ''DC_ACDP_BPT''), (''WPT'', ''WPT'')]"

definition EventNotification_V2_1 :: enum_type where
  "EventNotification_V2_1 = EnumType ''EventNotification''
     [(''HardWiredNotification'', ''HardWiredNotification''),
      (''HardWiredMonitor'', ''HardWiredMonitor''),
      (''PreconfiguredMonitor'', ''PreconfiguredMonitor''), (''CustomMonitor'', ''CustomMonitor'')]"

definition EventTrigger_V2_1 :: enum_type where
  "EventTrigger_V2_1 = EnumType ''EventTrigger''
     [(''Alerting'', ''Alerting''), (''Delta'', ''Delta''), (''Periodic'', ''Periodic'')]"

definition EvseKind_V2_1 :: enum_type where
  "EvseKind_V2_1 = EnumType ''EvseKind''
     [(''AC'', ''AC''), (''DC'', ''DC'')]"

definition FirmwareStatus_V2_1 :: enum_type where
  "FirmwareStatus_V2_1 = EnumType ''FirmwareStatus''
     [(''Downloaded'', ''Downloaded''), (''DownloadFailed'', ''DownloadFailed''),
      (''Downloading'', ''Downloading''), (''DownloadScheduled'', ''DownloadScheduled''),
      (''DownloadPaused'', ''DownloadPaused''), (''Idle'', ''Idle''),
      (''InstallationFailed'', ''InstallationFailed''), (''Installing'', ''Installing''),
      (''Installed'', ''Installed''), (''InstallRebooting'', ''InstallRebooting''),
      (''InstallScheduled'', ''InstallScheduled''),
      (''InstallVerificationFailed'', ''InstallVerificationFailed''),
      (''InvalidSignature'', ''InvalidSignature''), (''SignatureVerified'', ''SignatureVerified'')]"

definition GenericDeviceModelStatus_V2_1 :: enum_type where
  "GenericDeviceModelStatus_V2_1 = EnumType ''GenericDeviceModelStatus''
     [(''Accepted'', ''Accepted''), (''Rejected'', ''Rejected''), (''NotSupported'', ''NotSupported''),
      (''EmptyResultSet'', ''EmptyResultSet'')]"

definition GenericStatus_V2_1 :: enum_type where
  "GenericStatus_V2_1 = EnumType ''GenericStatus''
     [(''Accepted'', ''Accepted''), (''Rejected'', ''Rejected'')]"

definition GetCertificateIdUse_V2_1 :: enum_type where
  "GetCertificateIdUse_V2_1 = EnumType ''GetCertificateIdUse''
     [(''V2GRootCertificate'', ''V2GRootCertificate''), (''MORootCertificate'', ''MORootCertificate''),
      (''CSMSRootCertificate'', ''CSMSRootCertificate''),
      (''V2GCertificateChain'', ''V2GCertificateChain''),
      (''ManufacturerRootCertificate'', ''ManufacturerRootCertificate''),
      (''OEMRootCertificate'', ''OEMRootCertificate'')]"

definition GetCertificateStatusEnum_V2_1 :: enum_type where
  "GetCertificateStatusEnum_V2_1 = EnumType ''GetCertificateStatusEnum''
     [(''Accepted'', ''Accepted''), (''Failed'', ''Failed'')]"

definition GetChargingProfileStatus_V2_1 :: enum_type where
  "GetChargingProfileStatus_V2_1 = EnumType ''GetChargingProfileStatus''
     [(''Accepted'', ''Accepted''), (''NoProfiles'', ''NoProfiles'')]"

definition GetDisplayMessagesStatus_V2_1 :: enum_type where
  "GetDisplayMessagesStatus_V2_1 = EnumType ''GetDisplayMessagesStatus''
     [(''Accepted'', ''Accepted''), (''Unknown'', ''Unknown'')]"

definition GetInstalledCertificateStatus_V2_1 :: enum_type where
  "GetInstalledCertificateStatus_V2_1 = EnumType ''GetInstalledCertificateStatus''
     [(''Accepted'', ''Accepted''), (''NotFound'', ''NotFound'')]"

definition GetVariableStatus_V2_1 :: enum_type where
  "GetVariableStatus_V2_1 = EnumType ''GetVariableStatus''
     [(''Accepted'', ''Accepted''), (''Rejected'', ''Rejected''),
      (''UnknownComponent'', ''UnknownComponent''), (''UnknownVariable'', ''UnknownVariable''),
      (''NotSupportedAttributeType'', ''NotSupportedAttributeType'')]"

definition GridEventFault_V2_1 :: enum_type where
  "GridEventFault_V2_1 = EnumType ''GridEventFault''
     [(''CurrentImbalance'', ''CurrentImbalance''), (''LocalEmergency'', ''LocalEmergency''),
      (''LowInputPower'', ''LowInputPower''), (''OverCurrent'', ''OverCurrent''),
      (''OverFrequency'', ''OverFrequency''), (''OverVoltage'', ''OverVoltage''),
      (''PhaseRotation'', ''PhaseRotation''), (''RemoteEmergency'', ''RemoteEmergency''),
      (''UnderFrequency'', ''UnderFrequency''), (''UnderVoltage'', ''UnderVoltage''),
      (''VoltageImbalance'', ''VoltageImbalance'')]"

definition HashAlgorithm_V2_1 :: enum_type where
  "HashAlgorithm_V2_1 = EnumType ''HashAlgorithm''
     [(''SHA256'', ''SHA256''), (''SHA384'', ''SHA384''), (''SHA512'', ''SHA512'')]"

definition InstallCertificateStatus_V2_1 :: enum_type where
  "InstallCertificateStatus_V2_1 = EnumType ''InstallCertificateStatus''
     [(''Accepted'', ''Accepted''), (''Rejected'', ''Rejected''), (''Failed'', ''Failed'')]"

definition InstallCertificateUse_V2_1 :: enum_type where
  "InstallCertificateUse_V2_1 = EnumType ''InstallCertificateUse''
     [(''V2GRootCertificate'', ''V2GRootCertificate''), (''MORootCertificate'', ''MORootCertificate''),
      (''ManufacturerRootCertificate'', ''ManufacturerRootCertificate''),
      (''CSMSRootCertificate'', ''CSMSRootCertificate''),
      (''OEMRootCertificate'', ''OEMRootCertificate'')]"

definition IslandingDetection_V2_1 :: enum_type where
  "IslandingDetection_V2_1 = EnumType ''IslandingDetection''
     [(''NoAntiIslandingSupport'', ''NoAntiIslandingSupport''), (''RoCoF'', ''RoCoF''),
      (''UVPOVP'', ''UVP_OVP''), (''UFPOFP'', ''UFP_OFP''),
      (''VoltageVectorShift'', ''VoltageVectorShift''),
      (''ZeroCrossingDetection'', ''ZeroCrossingDetection''), (''OtherPassive'', ''OtherPassive''),
      (''ImpedanceMeasurement'', ''ImpedanceMeasurement''),
      (''ImpedanceAtFrequency'', ''ImpedanceAtFrequency''),
      (''SlipModeFrequencyShift'', ''SlipModeFrequencyShift''),
      (''SandiaFrequencyShift'', ''SandiaFrequencyShift''),
      (''SandiaVoltageShift'', ''SandiaVoltageShift''), (''FrequencyJump'', ''FrequencyJump''),
      (''RCLQFactor'', ''RCLQFactor''), (''OtherActive'', ''OtherActive'')]"

definition Iso15118EVCertificateStatus_V2_1 :: enum_type where
  "Iso15118EVCertificateStatus_V2_1 = EnumType ''Iso15118EVCertificateStatus''
     [(''Accepted'', ''Accepted''), (''Failed'', ''Failed'')]"

definition Location_V2_1 :: enum_type where
  "Location_V2_1 = EnumType ''Location''
     [(''Body'', ''Body''), (''Cable'', ''Cable''), (''EV'', ''EV''), (''Inlet'', ''Inlet''),
      (''Outlet'', ''Outlet''), (''Upstream'', ''Upstream'')]"

definition Log_V2_1 :: enum_type where
  "Log_V2_1 = EnumType ''Log''
     [(''DiagnosticsLog'', ''DiagnosticsLog''), (''SecurityLog'', ''SecurityLog''),
      (''DataCollectorLog'', ''DataCollectorLog'')]"

definition LogStatus_V2_1 :: enum_type where
  "LogStatus_V2_1 = EnumType ''LogStatus''
     [(''Accepted'', ''Accepted''), (''Rejected'', ''Rejected''),
      (''AcceptedCanceled'', ''AcceptedCanceled'')]"

definition Measurand_V2_1 :: enum_type where
  "Measurand_V2_1 = EnumType ''Measurand''
     [(''CurrentExport'', ''Current.Export''), (''CurrentExportOffered'', ''Current.Export.Offered''),
      (''CurrentExportMinimum'', ''Current.Export.Minimum''), (''CurrentImport'', ''Current.Import''),
      (''CurrentImportOffered'', ''Current.Import.Offered''),
      (''CurrentImportMinimum'', ''Current.Import.Minimum''),
      (''CurrentOffered'', ''Current.Offered''), (''DisplayPresentSOC'', ''Display.PresentSOC''),
      (''DisplayMinimumSOC'', ''Display.MinimumSOC''), (''DisplayTargetSOC'', ''Display.TargetSOC''),
      (''DisplayMaximumSOC'', ''Display.MaximumSOC''),
      (''DisplayRemainingTimeToMinimumSOC'', ''Display.RemainingTimeToMinimumSOC''),
      (''DisplayRemainingTimeToTargetSOC'', ''Display.RemainingTimeToTargetSOC''),
      (''DisplayRemainingTimeToMaximumSOC'', ''Display.RemainingTimeToMaximumSOC''),
      (''DisplayChargingComplete'', ''Display.ChargingComplete''),
      (''DisplayBatteryEnergyCapacity'', ''Display.BatteryEnergyCapacity''),
      (''DisplayInletHot'', ''Display.InletHot''),
      (''EnergyActiveExportInterval'', ''Energy.Active.Export.Interval''),
      (''EnergyActiveExportRegister'', ''Energy.Active.Export.Register''),
      (''EnergyActiveImportInterval'', ''Energy.Active.Import.Interval''),
      (''EnergyActiveImportRegister'', ''Energy.Active.Import.Register''),
      (''EnergyActiveImportCableLoss'', ''Energy.Active.Import.CableLoss''),
      (''EnergyActiveImportLocalGenerationRegister'', ''Energy.Active.Import.LocalGeneration.Register''),
      (''EnergyActiveNet'', ''Energy.Active.Net''),
      (''EnergyActiveSetpointInterval'', ''Energy.Active.Setpoint.Interval''),
      (''EnergyApparentExport'', ''Energy.Apparent.Export''),
      (''EnergyApparentImport'', ''Energy.Apparent.Import''),
      (''EnergyApparentNet'', ''Energy.Apparent.Net''),
      (''EnergyReactiveExportInterval'', ''Energy.Reactive.Export.Interval''),
      (''EnergyReactiveExportRegister'', ''Energy.Reactive.Export.Register''),
      (''EnergyReactiveImportInterval'', ''Energy.Reactive.Import.Interval''),
      (''EnergyReactiveImportRegister'', ''Energy.Reactive.Import.Register''),
      (''EnergyReactiveNet'', ''Energy.Reactive.Net''),
      (''EnergyRequestTarget'', ''EnergyRequest.Target''),
      (''EnergyRequestMinimum'', ''EnergyRequest.Minimum''),
      (''EnergyRequestMaximum'', ''EnergyRequest.Maximum''),
      (''EnergyRequestMinimumV2X'', ''EnergyRequest.Minimum.V2X''),
      (''EnergyRequestMaximumV2X'', ''EnergyRequest.Maximum.V2X''),
      (''EnergyRequestBulk'', ''EnergyRequest.Bulk''), (''Frequency'', ''Frequency''),
      (''PowerActiveExport'', ''Power.Active.Export''),
      (''PowerActiveImport'', ''Power.Active.Import''),
      (''PowerActiveSetpoint'', ''Power.Active.Setpoint''),
      (''PowerActiveResidual'', ''Power.Active.Residual''),
      (''PowerExportMinimum'', ''Power.Export.Minimum''),
      (''PowerExportOffered'', ''Power.Export.Offered''), (''PowerFactor'', ''Power.Factor''),
      (''PowerImportOffered'', ''Power.Import.Offered''),
      (''PowerImportMinimum'', ''Power.Import.Minimum''), (''PowerOffered'', ''Power.Offered''),
      (''PowerReactiveExport'', ''Power.Reactive.Export''),
      (''PowerReactiveImport'', ''Power.Reactive.Import''), (''SoC'', ''SoC''),
      (''Voltage'', ''Voltage''), (''VoltageMinimum'', ''Voltage.Minimum''),
      (''VoltageMaximum'', ''Voltage.Maximum'')]"

definition MessageFormat_V2_1 :: enum_type where
  "MessageFormat_V2_1 = EnumType ''MessageFormat''
     [(''ASCII'', ''ASCII''), (''HTML'', ''HTML''), (''URI'', ''URI''), (''UTF8'', ''UTF8''),
      (''QRCODE'', ''QRCODE'')]"

definition MessagePriority_V2_1 :: enum_type where
  "MessagePriority_V2_1 = EnumType ''MessagePriority''
     [(''AlwaysFront'', ''AlwaysFront''), (''InFront'', ''InFront''),
      (''NormalCycle'', ''NormalCycle'')]"

definition MessageState_V2_1 :: enum_type where
  "MessageState_V2_1 = EnumType ''MessageState''
     [(''Charging'', ''Charging''), (''Faulted'', ''Faulted''), (''Idle'', ''Idle''),
      (''Unavailable'', ''Unavailable''), (''Suspended'', ''Suspended''),
      (''Discharging'', ''Discharging'')]"

definition MessageTrigger_V2_1 :: enum_type where
  "MessageTrigger_V2_1 = EnumType ''MessageTrigger''
     [(''BootNotification'', ''BootNotification''),
      (''LogStatusNotification'', ''LogStatusNotification''),
      (''FirmwareStatusNotification'', ''FirmwareStatusNotification''), (''Heartbeat'', ''Heartbeat''),
      (''MeterValues'', ''MeterValues''),
      (''SignChargingStationCertificate'', ''SignChargingStationCertificate''),
      (''SignV2GCertificate'', ''SignV2GCertificate''),
      (''SignV2G20Certificate'', ''SignV2G20Certificate''),
      (''StatusNotification'', ''StatusNotification''), (''TransactionEvent'', ''TransactionEvent''),
      (''SignCombinedCertificate'', ''SignCombinedCertificate''),
      (''PublishFirmwareStatusNotification'', ''PublishFirmwareStatusNotification''),
      (''CustomTrigger'', ''CustomTrigger'')]"

definition MobilityNeedsMode_V2_1 :: enum_type where
  "MobilityNeedsMode_V2_1 = EnumType ''MobilityNeedsMode''
     [(''EVCC'', ''EVCC''), (''EVCCSECC'', ''EVCC_SECC'')]"

definition Monitor_V2_1 :: enum_type where
  "Monitor_V2_1 = EnumType ''Monitor''
     [(''UpperThreshold'', ''UpperThreshold''), (''LowerThreshold'', ''LowerThreshold''),
      (''Delta'', ''Delta''), (''Periodic'', ''Periodic''),
      (''PeriodicClockAligned'', ''PeriodicClockAligned''), (''TargetDelta'', ''TargetDelta''),
      (''TargetDeltaRelative'', ''TargetDeltaRelative'')]"

definition MonitoringBase_V2_1 :: enum_type where
  "MonitoringBase_V2_1 = EnumType ''MonitoringBase''
     [(''All'', ''All''), (''FactoryDefault'', ''FactoryDefault''),
      (''HardWiredOnly'', ''HardWiredOnly'')]"

definition MonitoringCriterion_V2_1 :: enum_type where
  "MonitoringCriterion_V2_1 = EnumType ''MonitoringCriterion''
     [(''ThresholdMonitoring'', ''ThresholdMonitoring''), (''DeltaMonitoring'', ''DeltaMonitoring''),
      (''PeriodicMonitoring'', ''PeriodicMonitoring'')]"

definition Mutability_V2_1 :: enum_type where
  "Mutability_V2_1 = EnumType ''Mutability''
     [(''ReadOnly'', ''ReadOnly''), (''WriteOnly'', ''WriteOnly''), (''ReadWrite'', ''ReadWrite'')]"

definition NotifyAllowedEnergyTransferStatus_V2_1 :: enum_type where
  "NotifyAllowedEnergyTransferStatus_V2_1 = EnumType ''NotifyAllowedEnergyTransferStatus''
     [(''Accepted'', ''Accepted''), (''Rejected'', ''Rejected'')]"

definition NotifyEVChargingNeedsStatus_V2_1 :: enum_type where
  "NotifyEVChargingNeedsStatus_V2_1 = EnumType ''NotifyEVChargingNeedsStatus''
     [(''Accepted'', ''Accepted''), (''Rejected'', ''Rejected''), (''Processing'', ''Processing''),
      (''NoChargingProfile'', ''NoChargingProfile'')]"

definition OCPPInterface_V2_1 :: enum_type where
  "OCPPInterface_V2_1 = EnumType ''OCPPInterface''
     [(''Wired0'', ''Wired0''), (''Wired1'', ''Wired1''), (''Wired2'', ''Wired2''),
      (''Wired3'', ''Wired3''), (''Wireless0'', ''Wireless0''), (''Wireless1'', ''Wireless1''),
      (''Wireless2'', ''Wireless2''), (''Wireless3'', ''Wireless3''), (''Any'', ''Any'')]"

definition OCPPTransport_V2_1 :: enum_type where
  "OCPPTransport_V2_1 = EnumType ''OCPPTransport''
     [(''SOAP'', ''SOAP''), (''JSON'', ''JSON'')]"

definition OCPPVersion_V2_1 :: enum_type where
  "OCPPVersion_V2_1 = EnumType ''OCPPVersion''
     [(''OCPP12'', ''OCPP12''), (''OCPP15'', ''OCPP15''), (''OCPP16'', ''OCPP16''),
      (''OCPP20'', ''OCPP20''), (''OCPP201'', ''OCPP201''), (''OCPP21'', ''OCPP21'')]"

definition OperationMode_V2_1 :: enum_type where
  "OperationMode_V2_1 = EnumType ''OperationMode''
     [(''Idle'', ''Idle''), (''ChargingOnly'', ''ChargingOnly''),
      (''CentralSetpoint'', ''CentralSetpoint''), (''ExternalSetpoint'', ''ExternalSetpoint''),
      (''ExternalLimits'', ''ExternalLimits''), (''CentralFrequency'', ''CentralFrequency''),
      (''LocalFrequency'', ''LocalFrequency''), (''LocalLoadBalancing'', ''LocalLoadBalancing'')]"

definition OperationalStatus_V2_1 :: enum_type where
  "OperationalStatus_V2_1 = EnumType ''OperationalStatus''
     [(''Inoperative'', ''Inoperative''), (''Operative'', ''Operative'')]"

definition PaymentStatus_V2_1 :: enum_type where
  "PaymentStatus_V2_1 = EnumType ''PaymentStatus''
     [(''Settled'', ''Settled''), (''Canceled'', ''Canceled''), (''Rejected'', ''Rejected''),
      (''Failed'', ''Failed'')]"

definition Phase_V2_1 :: enum_type where
  "Phase_V2_1 = EnumType ''Phase''
     [(''L1'', ''L1''), (''L2'', ''L2''), (''L3'', ''L3''), (''N'', ''N''), (''L1N'', ''L1-N''),
      (''L2N'', ''L2-N''), (''L3N'', ''L3-N''), (''L1L2'', ''L1-L2''), (''L2L3'', ''L2-L3''),
      (''L3L1'', ''L3-L1'')]"

definition PowerDuringCessation_V2_1 :: enum_type where
  "PowerDuringCessation_V2_1 = EnumType ''PowerDuringCessation''
     [(''Active'', ''Active''), (''Reactive'', ''Reactive'')]"

definition PreconditioningStatus_V2_1 :: enum_type where
  "PreconditioningStatus_V2_1 = EnumType ''PreconditioningStatus''
     [(''Unknown'', ''Unknown''), (''Ready'', ''Ready''), (''NotReady'', ''NotReady''),
      (''Preconditioning'', ''Preconditioning'')]"

definition PriorityChargingStatus_V2_1 :: enum_type where
  "PriorityChargingStatus_V2_1 = EnumType ''PriorityChargingStatus''
     [(''Accepted'', ''Accepted''), (''Rejected'', ''Rejected''), (''NoProfile'', ''NoProfile'')]"

definition PublishFirmwareStatus_V2_1 :: enum_type where
  "PublishFirmwareStatus_V2_1 = EnumType ''PublishFirmwareStatus''
     [(''Idle'', ''Idle''), (''DownloadScheduled'', ''DownloadScheduled''),
      (''Downloading'', ''Downloading''), (''Downloaded'', ''Downloaded''),
      (''Published'', ''Published''), (''DownloadFailed'', ''DownloadFailed''),
      (''DownloadPaused'', ''DownloadPaused''), (''InvalidChecksum'', ''InvalidChecksum''),
      (''ChecksumVerified'', ''ChecksumVerified''), (''PublishFailed'', ''PublishFailed'')]"

definition ReadingContext_V2_1 :: enum_type where
  "ReadingContext_V2_1 = EnumType ''ReadingContext''
     [(''InterruptionBegin'', ''Interruption.Begin''), (''InterruptionEnd'', ''Interruption.End''),
      (''Other'', ''Other''), (''SampleClock'', ''Sample.Clock''),
      (''SamplePeriodic'', ''Sample.Periodic''), (''TransactionBegin'', ''Transaction.Begin''),
      (''TransactionEnd'', ''Transaction.End''), (''Trigger'', ''Trigger'')]"

definition Reason_V2_1 :: enum_type where
  "Reason_V2_1 = EnumType ''Reason''
     [(''DeAuthorized'', ''DeAuthorized''), (''EmergencyStop'', ''EmergencyStop''),
      (''EnergyLimitReached'', ''EnergyLimitReached''), (''EVDisconnected'', ''EVDisconnected''),
      (''GroundFault'', ''GroundFault''), (''ImmediateReset'', ''ImmediateReset''),
      (''MasterPass'', ''MasterPass''), (''Local'', ''Local''),
      (''LocalOutOfCredit'', ''LocalOutOfCredit''), (''Other'', ''Other''),
      (''OvercurrentFault'', ''OvercurrentFault''), (''PowerLoss'', ''PowerLoss''),
      (''PowerQuality'', ''PowerQuality''), (''Reboot'', ''Reboot''), (''Remote'', ''Remote''),
      (''SOCLimitReached'', ''SOCLimitReached''), (''StoppedByEV'', ''StoppedByEV''),
      (''TimeLimitReached'', ''TimeLimitReached''), (''Timeout'', ''Timeout''),
      (''ReqEnergyTransferRejected'', ''ReqEnergyTransferRejected'')]"

definition RecurrencyKind_V2_1 :: enum_type where
  "RecurrencyKind_V2_1 = EnumType ''RecurrencyKind''
     [(''Daily'', ''Daily''), (''Weekly'', ''Weekly'')]"

definition RegistrationStatus_V2_1 :: enum_type where
  "RegistrationStatus_V2_1 = EnumType ''RegistrationStatus''
     [(''Accepted'', ''Accepted''), (''Pending'', ''Pending''), (''Rejected'', ''Rejected'')]"

definition ReportBase_V2_1 :: enum_type where
  "ReportBase_V2_1 = EnumType ''ReportBase''
     [(''ConfigurationInventory'', ''ConfigurationInventory''), (''FullInventory'', ''FullInventory''),
      (''SummaryInventory'', ''SummaryInventory'')]"

definition RequestStartStopStatus_V2_1 :: enum_type where
  "RequestStartStopStatus_V2_1 = EnumType ''RequestStartStopStatus''
     [(''Accepted'', ''Accepted''), (''Rejected'', ''Rejected'')]"

definition ReservationUpdateStatus_V2_1 :: enum_type where
  "ReservationUpdateStatus_V2_1 = EnumType ''ReservationUpdateStatus''
     [(''Expired'', ''Expired''), (''Removed'', ''Removed''), (''NoTransaction'', ''NoTransaction'')]"

definition ReserveNowStatus_V2_1 :: enum_type where
  "ReserveNowStatus_V2_1 = EnumType ''ReserveNowStatus''
     [(''Accepted'', ''Accepted''), (''Faulted'', ''Faulted''), (''Occupied'', ''Occupied''),
      (''Rejected'', ''Rejected''), (''Unavailable'', ''Unavailable'')]"

definition ResetEnum_V2_1 :: enum_type where
  "ResetEnum_V2_1 = EnumType ''ResetEnum''
     [(''Immediate'', ''Immediate''), (''OnIdle'', ''OnIdle''),
      (''ImmediateAndResume'', ''ImmediateAndResume'')]"

definition ResetStatus_V2_1 :: enum_type where
  "ResetStatus_V2_1 = EnumType ''ResetStatus''
     [(''Accepted'', ''Accepted''), (''Rejected'', ''Rejected''), (''Scheduled'', ''Scheduled'')]"

definition SendLocalListStatus_V2_1 :: enum_type where
  "SendLocalListStatus_V2_1 = EnumType ''SendLocalListStatus''
     [(''Accepted'', ''Accepted''), (''Failed'', ''Failed''),
      (''VersionMismatch'', ''VersionMismatch'')]"

definition SetMonitoringStatus_V2_1 :: enum_type where
  "SetMonitoringStatus_V2_1 = EnumType ''SetMonitoringStatus''
     [(''Accepted'', ''Accepted''), (''UnknownComponent'', ''UnknownComponent''),
      (''UnknownVariable'', ''UnknownVariable''),
      (''UnsupportedMonitorType'', ''UnsupportedMonitorType''), (''Rejected'', ''Rejected''),
      (''Duplicate'', ''Duplicate'')]"

definition SetNetworkProfileStatus_V2_1 :: enum_type where
  "SetNetworkProfileStatus_V2_1 = EnumType ''SetNetworkProfileStatus''
     [(''Accepted'', ''Accepted''), (''Rejected'', ''Rejected''), (''Failed'', ''Failed'')]"

definition SetVariableStatus_V2_1 :: enum_type where
  "SetVariableStatus_V2_1 = EnumType ''SetVariableStatus''
     [(''Accepted'', ''Accepted''), (''Rejected'', ''Rejected''),
      (''UnknownComponent'', ''UnknownComponent''), (''UnknownVariable'', ''UnknownVariable''),
      (''NotSupportedAttributeType'', ''NotSupportedAttributeType''),
      (''RebootRequired'', ''RebootRequired'')]"

definition TariffChangeStatus_V2_1 :: enum_type where
  "TariffChangeStatus_V2_1 = EnumType ''TariffChangeStatus''
     [(''Accepted'', ''Accepted''), (''Rejected'', ''Rejected''),
      (''TooManyElements'', ''TooManyElements''),
      (''ConditionNotSupported'', ''ConditionNotSupported''), (''TxNotFound'', ''TxNotFound''),
      (''NoCurrencyChange'', ''NoCurrencyChange'')]"

definition TariffClearStatus_V2_1 :: enum_type where
  "TariffClearStatus_V2_1 = EnumType ''TariffClearStatus''
     [(''Accepted'', ''Accepted''), (''Rejected'', ''Rejected''), (''NoTariff'', ''NoTariff'')]"

definition TariffCost_V2_1 :: enum_type where
  "TariffCost_V2_1 = EnumType ''TariffCost''
     [(''NormalCost'', ''NormalCost''), (''MinCost'', ''MinCost''), (''MaxCost'', ''MaxCost'')]"

definition TariffGetStatus_V2_1 :: enum_type where
  "TariffGetStatus_V2_1 = EnumType ''TariffGetStatus''
     [(''Accepted'', ''Accepted''), (''Rejected'', ''Rejected''), (''NoTariff'', ''NoTariff'')]"

definition TariffKind_V2_1 :: enum_type where
  "TariffKind_V2_1 = EnumType ''TariffKind''
     [(''DefaultTariff'', ''DefaultTariff''), (''DriverTariff'', ''DriverTariff'')]"

definition TariffSetStatus_V2_1 :: enum_type where
  "TariffSetStatus_V2_1 = EnumType ''TariffSetStatus''
     [(''Accepted'', ''Accepted''), (''Rejected'', ''Rejected''),
      (''TooManyElements'', ''TooManyElements''),
      (''ConditionNotSupported'', ''ConditionNotSupported''),
      (''DuplicateTariffId'', ''DuplicateTariffId'')]"

definition TransactionEventEnum_V2_1 :: enum_type where
  "TransactionEventEnum_V2_1 = EnumType ''TransactionEventEnum''
     [(''Ended'', ''Ended''), (''Started'', ''Started''), (''Updated'', ''Updated'')]"

definition TriggerMessageStatus_V2_1 :: enum_type where
  "TriggerMessageStatus_V2_1 = EnumType ''TriggerMessageStatus''
     [(''Accepted'', ''Accepted''), (''Rejected'', ''Rejected''),
      (''NotImplemented'', ''NotImplemented'')]"

definition TriggerReason_V2_1 :: enum_type where
  "TriggerReason_V2_1 = EnumType ''TriggerReason''
     [(''AbnormalCondition'', ''AbnormalCondition''), (''Authorized'', ''Authorized''),
      (''CablePluggedIn'', ''CablePluggedIn''), (''ChargingRateChanged'', ''ChargingRateChanged''),
      (''ChargingStateChanged'', ''ChargingStateChanged''),
      (''CostLimitReached'', ''CostLimitReached''), (''Deauthorized'', ''Deauthorized''),
      (''EnergyLimitReached'', ''EnergyLimitReached''),
      (''EVCommunicationLost'', ''EVCommunicationLost''), (''EVConnectTimeout'', ''EVConnectTimeout''),
      (''EVDeparted'', ''EVDeparted''), (''EVDetected'', ''EVDetected''), (''LimitSet'', ''LimitSet''),
      (''MeterValueClock'', ''MeterValueClock''), (''MeterValuePeriodic'', ''MeterValuePeriodic''),
      (''OperationModeChanged'', ''OperationModeChanged''), (''RemoteStart'', ''RemoteStart''),
      (''RemoteStop'', ''RemoteStop''), (''ResetCommand'', ''ResetCommand''),
      (''RunningCost'', ''RunningCost''), (''SignedDataReceived'', ''SignedDataReceived''),
      (''SoCLimitReached'', ''SoCLimitReached''), (''StopAuthorized'', ''StopAuthorized''),
      (''TariffChanged'', ''TariffChanged''), (''TariffNotAccepted'', ''TariffNotAccepted''),
      (''TimeLimitReached'', ''TimeLimitReached''), (''Trigger'', ''Trigger''),
      (''TxResumed'', ''TxResumed''), (''UnlockCommand'', ''UnlockCommand'')]"

definition UnlockStatus_V2_1 :: enum_type where
  "UnlockStatus_V2_1 = EnumType ''UnlockStatus''
     [(''Unlocked'', ''Unlocked''), (''UnlockFailed'', ''UnlockFailed''),
      (''OngoingAuthorizedTransaction'', ''OngoingAuthorizedTransaction''),
      (''UnknownConnector'', ''UnknownConnector'')]"

definition UnpublishFirmwareStatus_V2_1 :: enum_type where
  "UnpublishFirmwareStatus_V2_1 = EnumType ''UnpublishFirmwareStatus''
     [(''DownloadOngoing'', ''DownloadOngoing''), (''NoFirmware'', ''NoFirmware''),
      (''Unpublished'', ''Unpublished'')]"

definition Update_V2_1 :: enum_type where
  "Update_V2_1 = EnumType ''Update''
     [(''Differential'', ''Differential''), (''Full'', ''Full'')]"

definition UpdateFirmwareStatus_V2_1 :: enum_type where
  "UpdateFirmwareStatus_V2_1 = EnumType ''UpdateFirmwareStatus''
     [(''Accepted'', ''Accepted''), (''Rejected'', ''Rejected''),
      (''AcceptedCanceled'', ''AcceptedCanceled''), (''InvalidCertificate'', ''InvalidCertificate''),
      (''RevokedCertificate'', ''RevokedCertificate'')]"

definition UploadLogStatus_V2_1 :: enum_type where
  "UploadLogStatus_V2_1 = EnumType ''UploadLogStatus''
     [(''BadMessage'', ''BadMessage''), (''Idle'', ''Idle''),
      (''NotSupportedOperation'', ''NotSupportedOperation''),
      (''PermissionDenied'', ''PermissionDenied''), (''Uploaded'', ''Uploaded''),
      (''UploadFailure'', ''UploadFailure''), (''Uploading'', ''Uploading''),
      (''AcceptedCanceled'', ''AcceptedCanceled'')]"

definition VPNEnum_V2_1 :: enum_type where
  "VPNEnum_V2_1 = EnumType ''VPNEnum''
     [(''IKEv2'', ''IKEv2''), (''IPSec'', ''IPSec''), (''L2TP'', ''L2TP''), (''PPTP'', ''PPTP'')]"

section \<open>Their names and values are distinct\<close>

lemma enums_ok_V2_1 [simp]:
  "enum_ok APNAuthentication_V2_1" "enum_ok Attribute_V2_1" "enum_ok AuthorizationStatus_V2_1"
  "enum_ok AuthorizeCertificateStatus_V2_1" "enum_ok BatterySwapEvent_V2_1"
  "enum_ok BootReason_V2_1" "enum_ok CancelReservationStatus_V2_1"
  "enum_ok CertificateAction_V2_1" "enum_ok CertificateSignedStatus_V2_1"
  "enum_ok CertificateSigningUse_V2_1" "enum_ok CertificateStatusEnum_V2_1"
  "enum_ok CertificateStatusSource_V2_1" "enum_ok ChangeAvailabilityStatus_V2_1"
  "enum_ok ChargingProfileKind_V2_1" "enum_ok ChargingProfilePurpose_V2_1"
  "enum_ok ChargingProfileStatus_V2_1" "enum_ok ChargingRateUnit_V2_1"
  "enum_ok ChargingState_V2_1" "enum_ok ClearCacheStatus_V2_1"
  "enum_ok ClearChargingProfileStatus_V2_1" "enum_ok ClearMessageStatus_V2_1"
  "enum_ok ClearMonitoringStatus_V2_1" "enum_ok ComponentCriterion_V2_1"
  "enum_ok ConnectorStatus_V2_1" "enum_ok ControlMode_V2_1" "enum_ok CostDimensionEnum_V2_1"
  "enum_ok CostKind_V2_1" "enum_ok CustomerInformationStatus_V2_1" "enum_ok DERControl_V2_1"
  "enum_ok DERControlStatus_V2_1" "enum_ok DERUnit_V2_1" "enum_ok Data_V2_1"
  "enum_ok DataTransferStatus_V2_1" "enum_ok DayOfWeek_V2_1"
  "enum_ok DeleteCertificateStatus_V2_1" "enum_ok DisplayMessageStatus_V2_1"
  "enum_ok EnergyTransferMode_V2_1" "enum_ok EventNotification_V2_1" "enum_ok EventTrigger_V2_1"
  "enum_ok EvseKind_V2_1" "enum_ok FirmwareStatus_V2_1" "enum_ok GenericDeviceModelStatus_V2_1"
  "enum_ok GenericStatus_V2_1" "enum_ok GetCertificateIdUse_V2_1"
  "enum_ok GetCertificateStatusEnum_V2_1" "enum_ok GetChargingProfileStatus_V2_1"
  "enum_ok GetDisplayMessagesStatus_V2_1" "enum_ok GetInstalledCertificateStatus_V2_1"
  "enum_ok GetVariableStatus_V2_1" "enum_ok GridEventFault_V2_1" "enum_ok HashAlgorithm_V2_1"
  "enum_ok InstallCertificateStatus_V2_1" "enum_ok InstallCertificateUse_V2_1"
  "enum_ok IslandingDetection_V2_1" "enum_ok Iso15118EVCertificateStatus_V2_1"
  "enum_ok Location_V2_1" "enum_ok Log_V2_1" "enum_ok LogStatus_V2_1" "enum_ok Measurand_V2_1"
  "enum_ok MessageFormat_V2_1" "enum_ok MessagePriority_V2_1" "enum_ok MessageState_V2_1"
  "enum_ok MessageTrigger_V2_1" "enum_ok MobilityNeedsMode_V2_1" "enum_ok Monitor_V2_1"
  "enum_ok MonitoringBase_V2_1" "enum_ok MonitoringCriterion_V2_1" "enum_ok Mutability_V2_1"
  "enum_ok NotifyAllowedEnergyTransferStatus_V2_1" "enum_ok NotifyEVChargingNeedsStatus_V2_1"
  "enum_ok OCPPInterface_V2_1" "enum_ok OCPPTransport_V2_1" "enum_ok OCPPVersion_V2_1"
  "enum_ok OperationMode_V2_1" "enum_ok OperationalStatus_V2_1" "enum_ok PaymentStatus_V2_1"
  "enum_ok Phase_V2_1" "enum_ok PowerDuringCessation_V2_1" "enum_ok PreconditioningStatus_V2_1"
  "enum_ok PriorityChargingStatus_V2_1" "enum_ok PublishFirmwareStatus_V2_1"
  "enum_ok ReadingContext_V2_1" "enum_ok Reason_V2_1" "enum_ok RecurrencyKind_V2_1"
  "enum_ok RegistrationStatus_V2_1" "enum_ok ReportBase_V2_1"
  "enum_ok RequestStartStopStatus_V2_1" "enum_ok ReservationUpdateStatus_V2_1"
  "enum_ok ReserveNowStatus_V2_1" "enum_ok ResetEnum_V2_1" "enum_ok ResetStatus_V2_1"
  "enum_ok SendLocalListStatus_V2_1" "enum_ok SetMonitoringStatus_V2_1"
  "enum_ok SetNetworkProfileStatus_V2_1" "enum_ok SetVariableStatus_V2_1"
  "enum_ok TariffChangeStatus_V2_1" "enum_ok TariffClearStatus_V2_1" "enum_ok TariffCost_V2_1"
  "enum_ok TariffGetStatus_V2_1" "enum_ok TariffKind_V2_1" "enum_ok TariffSetStatus_V2_1"
  "enum_ok TransactionEventEnum_V2_1" "enum_ok TriggerMessageStatus_V2_1"
  "enum_ok TriggerReason_V2_1" "enum_ok UnlockStatus_V2_1" "enum_ok UnpublishFirmwareStatus_V2_1"
  "enum_ok Update_V2_1" "enum_ok UpdateFirmwareStatus_V2_1" "enum_ok UploadLogStatus_V2_1"
  "enum_ok VPNEnum_V2_1"
  by (simp_all add:
    enum_ok_def APNAuthentication_V2_1_def Attribute_V2_1_def AuthorizationStatus_V2_1_def
    AuthorizeCertificateStatus_V2_1_def BatterySwapEvent_V2_1_def BootReason_V2_1_def
    CancelReservationStatus_V2_1_def CertificateAction_V2_1_def CertificateSignedStatus_V2_1_def
    CertificateSigningUse_V2_1_def CertificateStatusEnum_V2_1_def CertificateStatusSource_V2_1_def
    ChangeAvailabilityStatus_V2_1_def ChargingProfileKind_V2_1_def ChargingProfilePurpose_V2_1_def
    ChargingProfileStatus_V2_1_def ChargingRateUnit_V2_1_def ChargingState_V2_1_def
    ClearCacheStatus_V2_1_def ClearChargingProfileStatus_V2_1_def ClearMessageStatus_V2_1_def
    ClearMonitoringStatus_V2_1_def ComponentCriterion_V2_1_def ConnectorStatus_V2_1_def
    ControlMode_V2_1_def CostDimensionEnum_V2_1_def CostKind_V2_1_def
    CustomerInformationStatus_V2_1_def DERControl_V2_1_def DERControlStatus_V2_1_def
    DERUnit_V2_1_def Data_V2_1_def DataTransferStatus_V2_1_def DayOfWeek_V2_1_def
    DeleteCertificateStatus_V2_1_def DisplayMessageStatus_V2_1_def EnergyTransferMode_V2_1_def
    EventNotification_V2_1_def EventTrigger_V2_1_def EvseKind_V2_1_def FirmwareStatus_V2_1_def
    GenericDeviceModelStatus_V2_1_def GenericStatus_V2_1_def GetCertificateIdUse_V2_1_def
    GetCertificateStatusEnum_V2_1_def GetChargingProfileStatus_V2_1_def
    GetDisplayMessagesStatus_V2_1_def GetInstalledCertificateStatus_V2_1_def
    GetVariableStatus_V2_1_def GridEventFault_V2_1_def HashAlgorithm_V2_1_def
    InstallCertificateStatus_V2_1_def InstallCertificateUse_V2_1_def IslandingDetection_V2_1_def
    Iso15118EVCertificateStatus_V2_1_def Location_V2_1_def Log_V2_1_def LogStatus_V2_1_def
    Measurand_V2_1_def MessageFormat_V2_1_def MessagePriority_V2_1_def MessageState_V2_1_def
    MessageTrigger_V2_1_def MobilityNeedsMode_V2_1_def Monitor_V2_1_def MonitoringBase_V2_1_def
    MonitoringCriterion_V2_1_def Mutability_V2_1_def NotifyAllowedEnergyTransferStatus_V2_1_def
    NotifyEVChargingNeedsStatus_V2_1_def OCPPInterface_V2_1_def OCPPTransport_V2_1_def
    OCPPVersion_V2_1_def OperationMode_V2_1_def OperationalStatus_V2_1_def PaymentStatus_V2_1_def
    Phase_V2_1_def PowerDuringCessation_V2_1_def PreconditioningStatus_V2_1_def
    PriorityChargingStatus_V2_1_def PublishFirmwareStatus_V2_1_def ReadingContext_V2_1_def
    Reason_V2_1_def RecurrencyKind_V2_1_def RegistrationStatus_V2_1_def ReportBase_V2_1_def
    RequestStartStopStatus_V2_1_def ReservationUpdateStatus_V2_1_def ReserveNowStatus_V2_1_def
    ResetEnum_V2_1_def ResetStatus_V2_1_def SendLocalListStatus_V2_1_def
    SetMonitoringStatus_V2_1_def SetNetworkProfileStatus_V2_1_def SetVariableStatus_V2_1_def
    TariffChangeStatus_V2_1_def TariffClearStatus_V2_1_def TariffCost_V2_1_def
    TariffGetStatus_V2_1_def TariffKind_V2_1_def TariffSetStatus_V2_1_def
    TransactionEventEnum_V2_1_def TriggerMessageStatus_V2_1_def TriggerReason_V2_1_def
    UnlockStatus_V2_1_def UnpublishFirmwareStatus_V2_1_def Update_V2_1_def
    UpdateFirmwareStatus_V2_1_def UploadLogStatus_V2_1_def VPNEnum_V2_1_def)

end
