(* ===== verification/Messages_V2_1.thy ===== *)
theory Messages_V2_1
  imports Enums_V2_1 Message_Types
begin

text \<open>
  \<open>v2_1/types.rs\<close> and \<open>v2_1/messages.rs\<close>: the data types and messages of OCPP 2.1. A shape lists the
  members in the order of the struct, with the checks of its \<open>Validate\<close> implementation; a request
  adds what its \<open>Request\<close> implementation says. A type stands after those it refers to.
\<close>

section \<open>Data types\<close>

definition ACChargingParameters_V2_1 :: shape where
  "ACChargingParameters_V2_1 = StructOf ''ACChargingParameters'' [
      Required ''energyAmount'' (NumberOf None None),
      Required ''evMinCurrent'' (NumberOf None None),
      Required ''evMaxCurrent'' (NumberOf None None),
      Required ''evMaxVoltage'' (NumberOf None None),
      Optional ''customData'' CustomData]"

definition APN_V2_1 :: shape where
  "APN_V2_1 = StructOf ''APN'' [
      Required ''apn'' (StringOf None (Some 2000)),
      Required ''apnAuthentication'' (EnumOf APNAuthentication_V2_1),
      Optional ''apnUserName'' (StringOf None (Some 50)),
      Optional ''apnPassword'' (StringOf None (Some 64)),
      Optional ''simPin'' (IntegerOf None None),
      Optional ''preferredNetwork'' (StringOf None (Some 6)),
      Optional ''useOnlyPreferredNetwork'' FlagOf,
      Optional ''customData'' CustomData]"

definition RationalNumber_V2_1 :: shape where
  "RationalNumber_V2_1 = StructOf ''RationalNumber'' [
      Required ''exponent'' (IntegerOf None None),
      Required ''value'' (IntegerOf None None),
      Optional ''customData'' CustomData]"

definition PriceRule_V2_1 :: shape where
  "PriceRule_V2_1 = StructOf ''PriceRule'' [
      Required ''energyFee'' RationalNumber_V2_1,
      Required ''powerRangeStart'' RationalNumber_V2_1,
      Optional ''parkingFeePeriod'' (IntegerOf None None),
      Optional ''carbonDioxideEmission'' (IntegerOf (Some 0) None),
      Optional ''renewableGenerationPercentage'' (IntegerOf (Some 0) (Some 100)),
      Optional ''parkingFee'' RationalNumber_V2_1,
      Optional ''customData'' CustomData]"

definition PriceRuleStack_V2_1 :: shape where
  "PriceRuleStack_V2_1 = StructOf ''PriceRuleStack'' [
      Required ''duration'' (IntegerOf None None),
      Required ''priceRule'' (VecOf (Some 1) (Some 8) PriceRule_V2_1),
      Optional ''customData'' CustomData]"

definition TaxRule_V2_1 :: shape where
  "TaxRule_V2_1 = StructOf ''TaxRule'' [
      Required ''taxRuleID'' (IntegerOf (Some 0) None),
      Required ''appliesToEnergyFee'' FlagOf,
      Required ''appliesToParkingFee'' FlagOf,
      Required ''appliesToOverstayFee'' FlagOf,
      Required ''appliesToMinimumMaximumCost'' FlagOf,
      Required ''taxRate'' RationalNumber_V2_1,
      Optional ''taxRuleName'' (StringOf None (Some 100)),
      Optional ''taxIncludedInPrice'' FlagOf,
      Optional ''customData'' CustomData]"

definition OverstayRule_V2_1 :: shape where
  "OverstayRule_V2_1 = StructOf ''OverstayRule'' [
      Required ''overstayFee'' RationalNumber_V2_1,
      Required ''startTime'' (IntegerOf None None),
      Required ''overstayFeePeriod'' (IntegerOf None None),
      Optional ''overstayRuleDescription'' (StringOf None (Some 32)),
      Optional ''customData'' CustomData]"

definition OverstayRuleList_V2_1 :: shape where
  "OverstayRuleList_V2_1 = StructOf ''OverstayRuleList'' [
      Required ''overstayRule'' (VecOf (Some 1) (Some 5) OverstayRule_V2_1),
      Optional ''overstayPowerThreshold'' RationalNumber_V2_1,
      Optional ''overstayTimeThreshold'' (IntegerOf None None),
      Optional ''customData'' CustomData]"

definition AdditionalSelectedServices_V2_1 :: shape where
  "AdditionalSelectedServices_V2_1 = StructOf ''AdditionalSelectedServices'' [
      Required ''serviceFee'' RationalNumber_V2_1,
      Required ''serviceName'' (StringOf None (Some 80)),
      Optional ''customData'' CustomData]"

definition AbsolutePriceSchedule_V2_1 :: shape where
  "AbsolutePriceSchedule_V2_1 = StructOf ''AbsolutePriceSchedule'' [
      Required ''timeAnchor'' (PlainOf ''DateTime''),
      Required ''priceScheduleID'' (IntegerOf (Some 0) None),
      Required ''currency'' (StringOf None (Some 3)),
      Required ''language'' (StringOf None (Some 8)),
      Required ''priceAlgorithm'' (StringOf None (Some 2000)),
      Required ''priceRuleStacks'' (VecOf (Some 1) (Some 1024) PriceRuleStack_V2_1),
      Optional ''priceScheduleDescription'' (StringOf None (Some 160)),
      Optional ''minimumCost'' RationalNumber_V2_1,
      Optional ''maximumCost'' RationalNumber_V2_1,
      Optional ''taxRules'' (VecOf (Some 1) (Some 10) TaxRule_V2_1),
      Optional ''overstayRuleList'' OverstayRuleList_V2_1,
      Optional ''additionalSelectedServices'' (VecOf (Some 1) (Some 5) AdditionalSelectedServices_V2_1),
      Optional ''customData'' CustomData]"

definition AdditionalInfo_V2_1 :: shape where
  "AdditionalInfo_V2_1 = StructOf ''AdditionalInfo'' [
      Required ''additionalIdToken'' (StringOf None (Some 255)),
      Required ''type'' (StringOf None (Some 50)),
      Optional ''customData'' CustomData]"

definition Address_V2_1 :: shape where
  "Address_V2_1 = StructOf ''Address'' [
      Required ''name'' (StringOf None (Some 50)),
      Required ''address1'' (StringOf None (Some 100)),
      Required ''city'' (StringOf None (Some 100)),
      Required ''country'' (StringOf None (Some 50)),
      Optional ''address2'' (StringOf None (Some 100)),
      Optional ''postalCode'' (StringOf None (Some 20)),
      Optional ''customData'' CustomData]"

definition IdToken_V2_1 :: shape where
  "IdToken_V2_1 = StructOf ''IdToken'' [
      Required ''idToken'' (StringOf None (Some 255)),
      Required ''type'' (StringOf None (Some 20)),
      Optional ''additionalInfo'' (VecOf (Some 1) None AdditionalInfo_V2_1),
      Optional ''customData'' CustomData]"

definition MessageContent_V2_1 :: shape where
  "MessageContent_V2_1 = StructOf ''MessageContent'' [
      Required ''format'' (EnumOf MessageFormat_V2_1),
      Required ''content'' (StringOf None (Some 1024)),
      Optional ''language'' (StringOf None (Some 8)),
      Optional ''customData'' CustomData]"

definition IdTokenInfo_V2_1 :: shape where
  "IdTokenInfo_V2_1 = StructOf ''IdTokenInfo'' [
      Required ''status'' (EnumOf AuthorizationStatus_V2_1),
      Optional ''cacheExpiryDateTime'' (PlainOf ''DateTime''),
      Optional ''chargingPriority'' (IntegerOf None None),
      Optional ''groupIdToken'' IdToken_V2_1,
      Optional ''language1'' (StringOf None (Some 8)),
      Optional ''language2'' (StringOf None (Some 8)),
      Optional ''evseId'' (VecOf (Some 1) None (IntegerOf (Some 0) None)),
      Optional ''personalMessage'' MessageContent_V2_1,
      Optional ''customData'' CustomData]"

definition AuthorizationData_V2_1 :: shape where
  "AuthorizationData_V2_1 = StructOf ''AuthorizationData'' [
      Required ''idToken'' IdToken_V2_1,
      Optional ''idTokenInfo'' IdTokenInfo_V2_1,
      Optional ''customData'' CustomData]"

definition BatteryData_V2_1 :: shape where
  "BatteryData_V2_1 = StructOf ''BatteryData'' [
      Required ''evseId'' (IntegerOf (Some 0) None),
      Required ''serialNumber'' (StringOf None (Some 50)),
      Required ''soC'' (NumberOf (Some (decimal_new 0 0)) (Some (decimal_new 100 0))),
      Required ''soH'' (NumberOf (Some (decimal_new 0 0)) (Some (decimal_new 100 0))),
      Optional ''productionDate'' (PlainOf ''DateTime''),
      Optional ''vendorInfo'' (StringOf None (Some 500)),
      Optional ''customData'' CustomData]"

definition CertificateHashData_V2_1 :: shape where
  "CertificateHashData_V2_1 = StructOf ''CertificateHashData'' [
      Required ''hashAlgorithm'' (EnumOf HashAlgorithm_V2_1),
      Required ''issuerNameHash'' (StringOf None (Some 128)),
      Required ''issuerKeyHash'' (StringOf None (Some 128)),
      Required ''serialNumber'' (StringOf None (Some 40)),
      Optional ''customData'' CustomData]"

definition CertificateHashDataChain_V2_1 :: shape where
  "CertificateHashDataChain_V2_1 = StructOf ''CertificateHashDataChain'' [
      Required ''certificateHashData'' CertificateHashData_V2_1,
      Required ''certificateType'' (EnumOf GetCertificateIdUse_V2_1),
      Optional ''childCertificateHashData'' (VecOf (Some 1) (Some 4) CertificateHashData_V2_1),
      Optional ''customData'' CustomData]"

definition CertificateStatus_V2_1 :: shape where
  "CertificateStatus_V2_1 = StructOf ''CertificateStatus'' [
      Required ''certificateHashData'' CertificateHashData_V2_1,
      Required ''source'' (EnumOf CertificateStatusSource_V2_1),
      Required ''status'' (EnumOf CertificateStatusEnum_V2_1),
      Required ''nextUpdate'' (PlainOf ''DateTime''),
      Optional ''customData'' CustomData]"

definition CertificateStatusRequestInfo_V2_1 :: shape where
  "CertificateStatusRequestInfo_V2_1 = StructOf ''CertificateStatusRequestInfo'' [
      Required ''certificateHashData'' CertificateHashData_V2_1,
      Required ''source'' (EnumOf CertificateStatusSource_V2_1),
      Required ''urls'' (VecOf (Some 1) (Some 5) (StringOf None (Some 2000))),
      Optional ''customData'' CustomData]"

definition ChargingLimit_V2_1 :: shape where
  "ChargingLimit_V2_1 = StructOf ''ChargingLimit'' [
      Required ''chargingLimitSource'' (StringOf None (Some 20)),
      Optional ''isLocalGeneration'' FlagOf,
      Optional ''isGridCritical'' FlagOf,
      Optional ''customData'' CustomData]"

definition DERChargingParameters_V2_1 :: shape where
  "DERChargingParameters_V2_1 = StructOf ''DERChargingParameters'' [
      Optional ''evSupportedDERControl'' (VecOf (Some 1) None (EnumOf DERControl_V2_1)),
      Optional ''evOverExcitedMaxDischargePower'' (NumberOf None None),
      Optional ''evOverExcitedPowerFactor'' (NumberOf None None),
      Optional ''evUnderExcitedMaxDischargePower'' (NumberOf None None),
      Optional ''evUnderExcitedPowerFactor'' (NumberOf None None),
      Optional ''maxApparentPower'' (NumberOf None None),
      Optional ''maxChargeApparentPower'' (NumberOf None None),
      Optional ''maxChargeApparentPower_L2'' (NumberOf None None),
      Optional ''maxChargeApparentPower_L3'' (NumberOf None None),
      Optional ''maxDischargeApparentPower'' (NumberOf None None),
      Optional ''maxDischargeApparentPower_L2'' (NumberOf None None),
      Optional ''maxDischargeApparentPower_L3'' (NumberOf None None),
      Optional ''maxChargeReactivePower'' (NumberOf None None),
      Optional ''maxChargeReactivePower_L2'' (NumberOf None None),
      Optional ''maxChargeReactivePower_L3'' (NumberOf None None),
      Optional ''minChargeReactivePower'' (NumberOf None None),
      Optional ''minChargeReactivePower_L2'' (NumberOf None None),
      Optional ''minChargeReactivePower_L3'' (NumberOf None None),
      Optional ''maxDischargeReactivePower'' (NumberOf None None),
      Optional ''maxDischargeReactivePower_L2'' (NumberOf None None),
      Optional ''maxDischargeReactivePower_L3'' (NumberOf None None),
      Optional ''minDischargeReactivePower'' (NumberOf None None),
      Optional ''minDischargeReactivePower_L2'' (NumberOf None None),
      Optional ''minDischargeReactivePower_L3'' (NumberOf None None),
      Optional ''nominalVoltage'' (NumberOf None None),
      Optional ''nominalVoltageOffset'' (NumberOf None None),
      Optional ''maxNominalVoltage'' (NumberOf None None),
      Optional ''minNominalVoltage'' (NumberOf None None),
      Optional ''evInverterManufacturer'' (StringOf None (Some 50)),
      Optional ''evInverterModel'' (StringOf None (Some 50)),
      Optional ''evInverterSerialNumber'' (StringOf None (Some 50)),
      Optional ''evInverterSwVersion'' (StringOf None (Some 50)),
      Optional ''evInverterHwVersion'' (StringOf None (Some 50)),
      Optional ''evIslandingDetectionMethod'' (VecOf (Some 1) None (EnumOf IslandingDetection_V2_1)),
      Optional ''evIslandingTripTime'' (NumberOf None None),
      Optional ''evMaximumLevel1DCInjection'' (NumberOf None None),
      Optional ''evDurationLevel1DCInjection'' (NumberOf None None),
      Optional ''evMaximumLevel2DCInjection'' (NumberOf None None),
      Optional ''evDurationLevel2DCInjection'' (NumberOf None None),
      Optional ''evReactiveSusceptance'' (NumberOf None None),
      Optional ''evSessionTotalDischargeEnergyAvailable'' (NumberOf None None),
      Optional ''customData'' CustomData]"

definition EVPowerScheduleEntry_V2_1 :: shape where
  "EVPowerScheduleEntry_V2_1 = StructOf ''EVPowerScheduleEntry'' [
      Required ''duration'' (IntegerOf None None),
      Required ''power'' (NumberOf None None),
      Optional ''customData'' CustomData]"

definition EVPowerSchedule_V2_1 :: shape where
  "EVPowerSchedule_V2_1 = StructOf ''EVPowerSchedule'' [
      Required ''evPowerScheduleEntries'' (VecOf (Some 1) (Some 1024) EVPowerScheduleEntry_V2_1),
      Required ''timeAnchor'' (PlainOf ''DateTime''),
      Optional ''customData'' CustomData]"

definition EVPriceRule_V2_1 :: shape where
  "EVPriceRule_V2_1 = StructOf ''EVPriceRule'' [
      Required ''energyFee'' (NumberOf None None),
      Required ''powerRangeStart'' (NumberOf None None),
      Optional ''customData'' CustomData]"

definition EVAbsolutePriceScheduleEntry_V2_1 :: shape where
  "EVAbsolutePriceScheduleEntry_V2_1 = StructOf ''EVAbsolutePriceScheduleEntry'' [
      Required ''duration'' (IntegerOf None None),
      Required ''evPriceRule'' (VecOf (Some 1) (Some 8) EVPriceRule_V2_1),
      Optional ''customData'' CustomData]"

definition EVAbsolutePriceSchedule_V2_1 :: shape where
  "EVAbsolutePriceSchedule_V2_1 = StructOf ''EVAbsolutePriceSchedule'' [
      Required ''timeAnchor'' (PlainOf ''DateTime''),
      Required ''currency'' (StringOf None (Some 3)),
      Required ''evAbsolutePriceScheduleEntries'' (VecOf (Some 1) (Some 1024) EVAbsolutePriceScheduleEntry_V2_1),
      Required ''priceAlgorithm'' (StringOf None (Some 2000)),
      Optional ''customData'' CustomData]"

definition EVEnergyOffer_V2_1 :: shape where
  "EVEnergyOffer_V2_1 = StructOf ''EVEnergyOffer'' [
      Required ''evPowerSchedule'' EVPowerSchedule_V2_1,
      Optional ''evAbsolutePriceSchedule'' EVAbsolutePriceSchedule_V2_1,
      Optional ''customData'' CustomData]"

definition DCChargingParameters_V2_1 :: shape where
  "DCChargingParameters_V2_1 = StructOf ''DCChargingParameters'' [
      Required ''evMaxCurrent'' (NumberOf None None),
      Required ''evMaxVoltage'' (NumberOf None None),
      Optional ''evMaxPower'' (NumberOf None None),
      Optional ''evEnergyCapacity'' (NumberOf None None),
      Optional ''energyAmount'' (NumberOf None None),
      Optional ''stateOfCharge'' (IntegerOf (Some 0) (Some 100)),
      Optional ''fullSoC'' (IntegerOf (Some 0) (Some 100)),
      Optional ''bulkSoC'' (IntegerOf (Some 0) (Some 100)),
      Optional ''customData'' CustomData]"

definition V2XChargingParameters_V2_1 :: shape where
  "V2XChargingParameters_V2_1 = StructOf ''V2XChargingParameters'' [
      Optional ''minChargePower'' (NumberOf None None),
      Optional ''minChargePower_L2'' (NumberOf None None),
      Optional ''minChargePower_L3'' (NumberOf None None),
      Optional ''maxChargePower'' (NumberOf None None),
      Optional ''maxChargePower_L2'' (NumberOf None None),
      Optional ''maxChargePower_L3'' (NumberOf None None),
      Optional ''minDischargePower'' (NumberOf None None),
      Optional ''minDischargePower_L2'' (NumberOf None None),
      Optional ''minDischargePower_L3'' (NumberOf None None),
      Optional ''maxDischargePower'' (NumberOf None None),
      Optional ''maxDischargePower_L2'' (NumberOf None None),
      Optional ''maxDischargePower_L3'' (NumberOf None None),
      Optional ''minChargeCurrent'' (NumberOf None None),
      Optional ''maxChargeCurrent'' (NumberOf None None),
      Optional ''minDischargeCurrent'' (NumberOf None None),
      Optional ''maxDischargeCurrent'' (NumberOf None None),
      Optional ''minVoltage'' (NumberOf None None),
      Optional ''maxVoltage'' (NumberOf None None),
      Optional ''evTargetEnergyRequest'' (NumberOf None None),
      Optional ''evMinEnergyRequest'' (NumberOf None None),
      Optional ''evMaxEnergyRequest'' (NumberOf None None),
      Optional ''evMinV2XEnergyRequest'' (NumberOf None None),
      Optional ''evMaxV2XEnergyRequest'' (NumberOf None None),
      Optional ''targetSoC'' (IntegerOf (Some 0) (Some 100)),
      Optional ''customData'' CustomData]"

definition ChargingNeeds_V2_1 :: shape where
  "ChargingNeeds_V2_1 = StructOf ''ChargingNeeds'' [
      Required ''requestedEnergyTransfer'' (EnumOf EnergyTransferMode_V2_1),
      Optional ''acChargingParameters'' ACChargingParameters_V2_1,
      Optional ''derChargingParameters'' DERChargingParameters_V2_1,
      Optional ''evEnergyOffer'' EVEnergyOffer_V2_1,
      Optional ''dcChargingParameters'' DCChargingParameters_V2_1,
      Optional ''v2xChargingParameters'' V2XChargingParameters_V2_1,
      Optional ''availableEnergyTransfer'' (VecOf (Some 1) None (EnumOf EnergyTransferMode_V2_1)),
      Optional ''controlMode'' (EnumOf ControlMode_V2_1),
      Optional ''mobilityNeedsMode'' (EnumOf MobilityNeedsMode_V2_1),
      Optional ''departureTime'' (PlainOf ''DateTime''),
      Optional ''customData'' CustomData]"

definition CostDimension_V2_1 :: shape where
  "CostDimension_V2_1 = StructOf ''CostDimension'' [
      Required ''type'' (EnumOf CostDimensionEnum_V2_1),
      Required ''volume'' (NumberOf None None),
      Optional ''customData'' CustomData]"

definition ChargingPeriod_V2_1 :: shape where
  "ChargingPeriod_V2_1 = StructOf ''ChargingPeriod'' [
      Required ''startPeriod'' (PlainOf ''DateTime''),
      Optional ''dimensions'' (VecOf (Some 1) None CostDimension_V2_1),
      Optional ''tariffId'' (StringOf None (Some 60)),
      Optional ''customData'' CustomData]"

definition V2XFreqWattPoint_V2_1 :: shape where
  "V2XFreqWattPoint_V2_1 = StructOf ''V2XFreqWattPoint'' [
      Required ''frequency'' (NumberOf None None),
      Required ''power'' (NumberOf None None),
      Optional ''customData'' CustomData]"

definition V2XSignalWattPoint_V2_1 :: shape where
  "V2XSignalWattPoint_V2_1 = StructOf ''V2XSignalWattPoint'' [
      Required ''signal'' (IntegerOf None None),
      Required ''power'' (NumberOf None None),
      Optional ''customData'' CustomData]"

definition ChargingSchedulePeriod_V2_1 :: shape where
  "ChargingSchedulePeriod_V2_1 = StructOf ''ChargingSchedulePeriod'' [
      Required ''startPeriod'' (IntegerOf None None),
      Optional ''limit'' (NumberOf None None),
      Optional ''limit_L2'' (NumberOf None None),
      Optional ''limit_L3'' (NumberOf None None),
      Optional ''numberPhases'' (IntegerOf (Some 0) (Some 3)),
      Optional ''phaseToUse'' (IntegerOf (Some 0) (Some 3)),
      Optional ''dischargeLimit'' (NumberOf None (Some (decimal_new 0 0))),
      Optional ''dischargeLimit_L2'' (NumberOf None (Some (decimal_new 0 0))),
      Optional ''dischargeLimit_L3'' (NumberOf None (Some (decimal_new 0 0))),
      Optional ''setpoint'' (NumberOf None None),
      Optional ''setpoint_L2'' (NumberOf None None),
      Optional ''setpoint_L3'' (NumberOf None None),
      Optional ''setpointReactive'' (NumberOf None None),
      Optional ''setpointReactive_L2'' (NumberOf None None),
      Optional ''setpointReactive_L3'' (NumberOf None None),
      Optional ''preconditioningRequest'' FlagOf,
      Optional ''evseSleep'' FlagOf,
      Optional ''v2xBaseline'' (NumberOf None None),
      Optional ''operationMode'' (EnumOf OperationMode_V2_1),
      Optional ''v2xFreqWattCurve'' (VecOf (Some 1) (Some 20) V2XFreqWattPoint_V2_1),
      Optional ''v2xSignalWattCurve'' (VecOf (Some 1) (Some 20) V2XSignalWattPoint_V2_1),
      Optional ''customData'' CustomData]"

definition LimitAtSoC_V2_1 :: shape where
  "LimitAtSoC_V2_1 = StructOf ''LimitAtSoC'' [
      Required ''soc'' (IntegerOf (Some 0) (Some 100)),
      Required ''limit'' (NumberOf None None),
      Optional ''customData'' CustomData]"

definition RelativeTimeInterval_V2_1 :: shape where
  "RelativeTimeInterval_V2_1 = StructOf ''RelativeTimeInterval'' [
      Required ''start'' (IntegerOf None None),
      Optional ''duration'' (IntegerOf None None),
      Optional ''customData'' CustomData]"

definition Cost_V2_1 :: shape where
  "Cost_V2_1 = StructOf ''Cost'' [
      Required ''costKind'' (EnumOf CostKind_V2_1),
      Required ''amount'' (IntegerOf None None),
      Optional ''amountMultiplier'' (IntegerOf None None),
      Optional ''customData'' CustomData]"

definition ConsumptionCost_V2_1 :: shape where
  "ConsumptionCost_V2_1 = StructOf ''ConsumptionCost'' [
      Required ''startValue'' (NumberOf None None),
      Required ''cost'' (VecOf (Some 1) (Some 3) Cost_V2_1),
      Optional ''customData'' CustomData]"

definition SalesTariffEntry_V2_1 :: shape where
  "SalesTariffEntry_V2_1 = StructOf ''SalesTariffEntry'' [
      Required ''relativeTimeInterval'' RelativeTimeInterval_V2_1,
      Optional ''ePriceLevel'' (IntegerOf (Some 0) None),
      Optional ''consumptionCost'' (VecOf (Some 1) (Some 3) ConsumptionCost_V2_1),
      Optional ''customData'' CustomData]"

definition SalesTariff_V2_1 :: shape where
  "SalesTariff_V2_1 = StructOf ''SalesTariff'' [
      Required ''id'' (IntegerOf (Some 0) None),
      Required ''salesTariffEntry'' (VecOf (Some 1) (Some 1024) SalesTariffEntry_V2_1),
      Optional ''salesTariffDescription'' (StringOf None (Some 32)),
      Optional ''numEPriceLevels'' (IntegerOf (Some 0) None),
      Optional ''customData'' CustomData]"

definition PriceLevelScheduleEntry_V2_1 :: shape where
  "PriceLevelScheduleEntry_V2_1 = StructOf ''PriceLevelScheduleEntry'' [
      Required ''duration'' (IntegerOf None None),
      Required ''priceLevel'' (IntegerOf (Some 0) None),
      Optional ''customData'' CustomData]"

definition PriceLevelSchedule_V2_1 :: shape where
  "PriceLevelSchedule_V2_1 = StructOf ''PriceLevelSchedule'' [
      Required ''priceLevelScheduleEntries'' (VecOf (Some 1) (Some 100) PriceLevelScheduleEntry_V2_1),
      Required ''timeAnchor'' (PlainOf ''DateTime''),
      Required ''priceScheduleId'' (IntegerOf (Some 0) None),
      Required ''numberOfPriceLevels'' (IntegerOf (Some 0) None),
      Optional ''priceScheduleDescription'' (StringOf None (Some 32)),
      Optional ''customData'' CustomData]"

definition ChargingSchedule_V2_1 :: shape where
  "ChargingSchedule_V2_1 = StructOf ''ChargingSchedule'' [
      Required ''id'' (IntegerOf None None),
      Required ''chargingRateUnit'' (EnumOf ChargingRateUnit_V2_1),
      Required ''chargingSchedulePeriod'' (VecOf (Some 1) (Some 1024) ChargingSchedulePeriod_V2_1),
      Optional ''limitAtSoC'' LimitAtSoC_V2_1,
      Optional ''startSchedule'' (PlainOf ''DateTime''),
      Optional ''duration'' (IntegerOf None None),
      Optional ''minChargingRate'' (NumberOf None None),
      Optional ''powerTolerance'' (NumberOf None None),
      Optional ''signatureId'' (IntegerOf (Some 0) None),
      Optional ''digestValue'' (StringOf None (Some 88)),
      Optional ''useLocalTime'' FlagOf,
      Optional ''randomizedDelay'' (IntegerOf (Some 0) None),
      Optional ''salesTariff'' SalesTariff_V2_1,
      Optional ''absolutePriceSchedule'' AbsolutePriceSchedule_V2_1,
      Optional ''priceLevelSchedule'' PriceLevelSchedule_V2_1,
      Optional ''customData'' CustomData]"

definition ChargingProfile_V2_1 :: shape where
  "ChargingProfile_V2_1 = StructOf ''ChargingProfile'' [
      Required ''id'' (IntegerOf None None),
      Required ''stackLevel'' (IntegerOf (Some 0) None),
      Required ''chargingProfilePurpose'' (EnumOf ChargingProfilePurpose_V2_1),
      Required ''chargingProfileKind'' (EnumOf ChargingProfileKind_V2_1),
      Required ''chargingSchedule'' (VecOf (Some 1) (Some 3) ChargingSchedule_V2_1),
      Optional ''recurrencyKind'' (EnumOf RecurrencyKind_V2_1),
      Optional ''validFrom'' (PlainOf ''DateTime''),
      Optional ''validTo'' (PlainOf ''DateTime''),
      Optional ''transactionId'' (StringOf None (Some 36)),
      Optional ''maxOfflineDuration'' (IntegerOf None None),
      Optional ''invalidAfterOfflineDuration'' FlagOf,
      Optional ''dynUpdateInterval'' (IntegerOf None None),
      Optional ''dynUpdateTime'' (PlainOf ''DateTime''),
      Optional ''priceScheduleSignature'' (StringOf None (Some 256)),
      Optional ''customData'' CustomData]"

definition ChargingProfileCriterion_V2_1 :: shape where
  "ChargingProfileCriterion_V2_1 = StructOf ''ChargingProfileCriterion'' [
      Optional ''chargingProfilePurpose'' (EnumOf ChargingProfilePurpose_V2_1),
      Optional ''stackLevel'' (IntegerOf (Some 0) None),
      Optional ''chargingProfileId'' (VecOf (Some 1) None (IntegerOf None None)),
      Optional ''chargingLimitSource'' (VecOf (Some 1) (Some 4) (StringOf None (Some 20))),
      Optional ''customData'' CustomData]"

definition ChargingScheduleUpdate_V2_1 :: shape where
  "ChargingScheduleUpdate_V2_1 = StructOf ''ChargingScheduleUpdate'' [
      Optional ''limit'' (NumberOf None None),
      Optional ''limit_L2'' (NumberOf None None),
      Optional ''limit_L3'' (NumberOf None None),
      Optional ''dischargeLimit'' (NumberOf None (Some (decimal_new 0 0))),
      Optional ''dischargeLimit_L2'' (NumberOf None (Some (decimal_new 0 0))),
      Optional ''dischargeLimit_L3'' (NumberOf None (Some (decimal_new 0 0))),
      Optional ''setpoint'' (NumberOf None None),
      Optional ''setpoint_L2'' (NumberOf None None),
      Optional ''setpoint_L3'' (NumberOf None None),
      Optional ''setpointReactive'' (NumberOf None None),
      Optional ''setpointReactive_L2'' (NumberOf None None),
      Optional ''setpointReactive_L3'' (NumberOf None None),
      Optional ''customData'' CustomData]"

definition Modem_V2_1 :: shape where
  "Modem_V2_1 = StructOf ''Modem'' [
      Optional ''iccid'' (StringOf None (Some 20)),
      Optional ''imsi'' (StringOf None (Some 20)),
      Optional ''customData'' CustomData]"

definition ChargingStation_V2_1 :: shape where
  "ChargingStation_V2_1 = StructOf ''ChargingStation'' [
      Required ''model'' (StringOf None (Some 20)),
      Required ''vendorName'' (StringOf None (Some 50)),
      Optional ''serialNumber'' (StringOf None (Some 25)),
      Optional ''modem'' Modem_V2_1,
      Optional ''firmwareVersion'' (StringOf None (Some 50)),
      Optional ''customData'' CustomData]"

definition ClearChargingProfile_V2_1 :: shape where
  "ClearChargingProfile_V2_1 = StructOf ''ClearChargingProfile'' [
      Optional ''evseId'' (IntegerOf (Some 0) None),
      Optional ''chargingProfilePurpose'' (EnumOf ChargingProfilePurpose_V2_1),
      Optional ''stackLevel'' (IntegerOf (Some 0) None),
      Optional ''customData'' CustomData]"

definition StatusInfo_V2_1 :: shape where
  "StatusInfo_V2_1 = StructOf ''StatusInfo'' [
      Required ''reasonCode'' (StringOf None (Some 20)),
      Optional ''additionalInfo'' (StringOf None (Some 1024)),
      Optional ''customData'' CustomData]"

definition ClearMonitoringResult_V2_1 :: shape where
  "ClearMonitoringResult_V2_1 = StructOf ''ClearMonitoringResult'' [
      Required ''status'' (EnumOf ClearMonitoringStatus_V2_1),
      Required ''id'' (IntegerOf (Some 0) None),
      Optional ''statusInfo'' StatusInfo_V2_1,
      Optional ''customData'' CustomData]"

definition ClearTariffsResult_V2_1 :: shape where
  "ClearTariffsResult_V2_1 = StructOf ''ClearTariffsResult'' [
      Required ''status'' (EnumOf TariffClearStatus_V2_1),
      Optional ''statusInfo'' StatusInfo_V2_1,
      Optional ''tariffId'' (StringOf None (Some 60)),
      Optional ''customData'' CustomData]"

definition EVSE_V2_1 :: shape where
  "EVSE_V2_1 = StructOf ''EVSE'' [
      Required ''id'' (IntegerOf (Some 0) None),
      Optional ''connectorId'' (IntegerOf (Some 0) None),
      Optional ''customData'' CustomData]"

definition Component_V2_1 :: shape where
  "Component_V2_1 = StructOf ''Component'' [
      Required ''name'' (StringOf None (Some 50)),
      Optional ''evse'' EVSE_V2_1,
      Optional ''instance'' (StringOf None (Some 50)),
      Optional ''customData'' CustomData]"

definition Variable_V2_1 :: shape where
  "Variable_V2_1 = StructOf ''Variable'' [
      Required ''name'' (StringOf None (Some 50)),
      Optional ''instance'' (StringOf None (Some 50)),
      Optional ''customData'' CustomData]"

definition ComponentVariable_V2_1 :: shape where
  "ComponentVariable_V2_1 = StructOf ''ComponentVariable'' [
      Required ''component'' Component_V2_1,
      Optional ''variable'' Variable_V2_1,
      Optional ''customData'' CustomData]"

definition CompositeSchedule_V2_1 :: shape where
  "CompositeSchedule_V2_1 = StructOf ''CompositeSchedule'' [
      Required ''evseId'' (IntegerOf (Some 0) None),
      Required ''duration'' (IntegerOf None None),
      Required ''scheduleStart'' (PlainOf ''DateTime''),
      Required ''chargingRateUnit'' (EnumOf ChargingRateUnit_V2_1),
      Required ''chargingSchedulePeriod'' (VecOf (Some 1) None ChargingSchedulePeriod_V2_1),
      Optional ''customData'' CustomData]"

definition PeriodicEventStreamParams_V2_1 :: shape where
  "PeriodicEventStreamParams_V2_1 = StructOf ''PeriodicEventStreamParams'' [
      Optional ''interval'' (IntegerOf (Some 0) None),
      Optional ''values'' (IntegerOf (Some 0) None),
      Optional ''customData'' CustomData]"

definition ConstantStreamData_V2_1 :: shape where
  "ConstantStreamData_V2_1 = StructOf ''ConstantStreamData'' [
      Required ''id'' (IntegerOf (Some 0) None),
      Required ''params'' PeriodicEventStreamParams_V2_1,
      Required ''variableMonitoringId'' (IntegerOf (Some 0) None),
      Optional ''customData'' CustomData]"

definition TotalPrice_V2_1 :: shape where
  "TotalPrice_V2_1 = StructOf ''TotalPrice'' [
      Optional ''exclTax'' (NumberOf None None),
      Optional ''inclTax'' (NumberOf None None),
      Optional ''customData'' CustomData]"

definition TaxRate_V2_1 :: shape where
  "TaxRate_V2_1 = StructOf ''TaxRate'' [
      Required ''type'' (StringOf None (Some 20)),
      Required ''tax'' (NumberOf None None),
      Optional ''stack'' (IntegerOf (Some 0) None),
      Optional ''customData'' CustomData]"

definition Price_V2_1 :: shape where
  "Price_V2_1 = StructOf ''Price'' [
      Optional ''exclTax'' (NumberOf None None),
      Optional ''inclTax'' (NumberOf None None),
      Optional ''taxRates'' (VecOf (Some 1) (Some 5) TaxRate_V2_1),
      Optional ''customData'' CustomData]"

definition TotalCost_V2_1 :: shape where
  "TotalCost_V2_1 = StructOf ''TotalCost'' [
      Required ''currency'' (StringOf None (Some 3)),
      Required ''typeOfCost'' (EnumOf TariffCost_V2_1),
      Required ''total'' TotalPrice_V2_1,
      Optional ''fixed'' Price_V2_1,
      Optional ''energy'' Price_V2_1,
      Optional ''chargingTime'' Price_V2_1,
      Optional ''idleTime'' Price_V2_1,
      Optional ''reservationTime'' Price_V2_1,
      Optional ''reservationFixed'' Price_V2_1,
      Optional ''customData'' CustomData]"

definition TotalUsage_V2_1 :: shape where
  "TotalUsage_V2_1 = StructOf ''TotalUsage'' [
      Required ''energy'' (NumberOf None None),
      Required ''chargingTime'' (IntegerOf None None),
      Required ''idleTime'' (IntegerOf None None),
      Optional ''reservationTime'' (IntegerOf None None),
      Optional ''customData'' CustomData]"

definition CostDetails_V2_1 :: shape where
  "CostDetails_V2_1 = StructOf ''CostDetails'' [
      Required ''totalCost'' TotalCost_V2_1,
      Required ''totalUsage'' TotalUsage_V2_1,
      Optional ''chargingPeriods'' (VecOf (Some 1) None ChargingPeriod_V2_1),
      Optional ''failureToCalculate'' FlagOf,
      Optional ''failureReason'' (StringOf None (Some 500)),
      Optional ''customData'' CustomData]"

definition DERCurvePoints_V2_1 :: shape where
  "DERCurvePoints_V2_1 = StructOf ''DERCurvePoints'' [
      Required ''x'' (NumberOf None None),
      Required ''y'' (NumberOf None None),
      Optional ''customData'' CustomData]"

definition Hysteresis_V2_1 :: shape where
  "Hysteresis_V2_1 = StructOf ''Hysteresis'' [
      Optional ''hysteresisHigh'' (NumberOf None None),
      Optional ''hysteresisLow'' (NumberOf None None),
      Optional ''hysteresisDelay'' (NumberOf None None),
      Optional ''hysteresisGradient'' (NumberOf None None),
      Optional ''customData'' CustomData]"

definition ReactivePowerParams_V2_1 :: shape where
  "ReactivePowerParams_V2_1 = StructOf ''ReactivePowerParams'' [
      Optional ''vRef'' (NumberOf None None),
      Optional ''autonomousVRefEnable'' FlagOf,
      Optional ''autonomousVRefTimeConstant'' (NumberOf None None),
      Optional ''customData'' CustomData]"

definition VoltageParams_V2_1 :: shape where
  "VoltageParams_V2_1 = StructOf ''VoltageParams'' [
      Optional ''hv10MinMeanValue'' (NumberOf None None),
      Optional ''hv10MinMeanTripDelay'' (NumberOf None None),
      Optional ''powerDuringCessation'' (EnumOf PowerDuringCessation_V2_1),
      Optional ''customData'' CustomData]"

definition DERCurve_V2_1 :: shape where
  "DERCurve_V2_1 = StructOf ''DERCurve'' [
      Required ''curveData'' (VecOf (Some 1) (Some 10) DERCurvePoints_V2_1),
      Required ''priority'' (IntegerOf (Some 0) None),
      Required ''yUnit'' (EnumOf DERUnit_V2_1),
      Optional ''hysteresis'' Hysteresis_V2_1,
      Optional ''reactivePowerParams'' ReactivePowerParams_V2_1,
      Optional ''voltageParams'' VoltageParams_V2_1,
      Optional ''responseTime'' (NumberOf None None),
      Optional ''startTime'' (PlainOf ''DateTime''),
      Optional ''duration'' (NumberOf None None),
      Optional ''customData'' CustomData]"

definition DERCurveGet_V2_1 :: shape where
  "DERCurveGet_V2_1 = StructOf ''DERCurveGet'' [
      Required ''curve'' DERCurve_V2_1,
      Required ''id'' (StringOf None (Some 36)),
      Required ''curveType'' (EnumOf DERControl_V2_1),
      Required ''isDefault'' FlagOf,
      Required ''isSuperseded'' FlagOf,
      Optional ''customData'' CustomData]"

definition EnterService_V2_1 :: shape where
  "EnterService_V2_1 = StructOf ''EnterService'' [
      Required ''priority'' (IntegerOf (Some 0) None),
      Required ''highVoltage'' (NumberOf None None),
      Required ''lowVoltage'' (NumberOf None None),
      Required ''highFreq'' (NumberOf None None),
      Required ''lowFreq'' (NumberOf None None),
      Optional ''delay'' (NumberOf None None),
      Optional ''randomDelay'' (NumberOf None None),
      Optional ''rampRate'' (NumberOf None None),
      Optional ''customData'' CustomData]"

definition EnterServiceGet_V2_1 :: shape where
  "EnterServiceGet_V2_1 = StructOf ''EnterServiceGet'' [
      Required ''enterService'' EnterService_V2_1,
      Required ''id'' (StringOf None (Some 36)),
      Optional ''customData'' CustomData]"

definition EventData_V2_1 :: shape where
  "EventData_V2_1 = StructOf ''EventData'' [
      Required ''eventId'' (IntegerOf (Some 0) None),
      Required ''timestamp'' (PlainOf ''DateTime''),
      Required ''trigger'' (EnumOf EventTrigger_V2_1),
      Required ''actualValue'' (StringOf None (Some 2500)),
      Required ''component'' Component_V2_1,
      Required ''eventNotificationType'' (EnumOf EventNotification_V2_1),
      Required ''variable'' Variable_V2_1,
      Optional ''cause'' (IntegerOf (Some 0) None),
      Optional ''techCode'' (StringOf None (Some 50)),
      Optional ''techInfo'' (StringOf None (Some 500)),
      Optional ''cleared'' FlagOf,
      Optional ''transactionId'' (StringOf None (Some 36)),
      Optional ''variableMonitoringId'' (IntegerOf (Some 0) None),
      Optional ''severity'' (IntegerOf (Some 0) None),
      Optional ''customData'' CustomData]"

definition Firmware_V2_1 :: shape where
  "Firmware_V2_1 = StructOf ''Firmware'' [
      Required ''location'' (StringOf None (Some 2000)),
      Required ''retrieveDateTime'' (PlainOf ''DateTime''),
      Optional ''installDateTime'' (PlainOf ''DateTime''),
      Optional ''signingCertificate'' (StringOf None (Some 5500)),
      Optional ''signature'' (StringOf None (Some 800)),
      Optional ''customData'' CustomData]"

definition FixedPF_V2_1 :: shape where
  "FixedPF_V2_1 = StructOf ''FixedPF'' [
      Required ''priority'' (IntegerOf (Some 0) None),
      Required ''displacement'' (NumberOf None None),
      Required ''excitation'' FlagOf,
      Optional ''startTime'' (PlainOf ''DateTime''),
      Optional ''duration'' (NumberOf None None),
      Optional ''customData'' CustomData]"

definition FixedPFGet_V2_1 :: shape where
  "FixedPFGet_V2_1 = StructOf ''FixedPFGet'' [
      Required ''fixedPF'' FixedPF_V2_1,
      Required ''id'' (StringOf None (Some 36)),
      Required ''isDefault'' FlagOf,
      Required ''isSuperseded'' FlagOf,
      Optional ''customData'' CustomData]"

definition FixedVar_V2_1 :: shape where
  "FixedVar_V2_1 = StructOf ''FixedVar'' [
      Required ''priority'' (IntegerOf (Some 0) None),
      Required ''setpoint'' (NumberOf None None),
      Required ''unit'' (EnumOf DERUnit_V2_1),
      Optional ''startTime'' (PlainOf ''DateTime''),
      Optional ''duration'' (NumberOf None None),
      Optional ''customData'' CustomData]"

definition FixedVarGet_V2_1 :: shape where
  "FixedVarGet_V2_1 = StructOf ''FixedVarGet'' [
      Required ''fixedVar'' FixedVar_V2_1,
      Required ''id'' (StringOf None (Some 36)),
      Required ''isDefault'' FlagOf,
      Required ''isSuperseded'' FlagOf,
      Optional ''customData'' CustomData]"

definition FreqDroop_V2_1 :: shape where
  "FreqDroop_V2_1 = StructOf ''FreqDroop'' [
      Required ''priority'' (IntegerOf (Some 0) None),
      Required ''overFreq'' (NumberOf None None),
      Required ''underFreq'' (NumberOf None None),
      Required ''overDroop'' (NumberOf None None),
      Required ''underDroop'' (NumberOf None None),
      Required ''responseTime'' (NumberOf None None),
      Optional ''startTime'' (PlainOf ''DateTime''),
      Optional ''duration'' (NumberOf None None),
      Optional ''customData'' CustomData]"

definition FreqDroopGet_V2_1 :: shape where
  "FreqDroopGet_V2_1 = StructOf ''FreqDroopGet'' [
      Required ''freqDroop'' FreqDroop_V2_1,
      Required ''id'' (StringOf None (Some 36)),
      Required ''isDefault'' FlagOf,
      Required ''isSuperseded'' FlagOf,
      Optional ''customData'' CustomData]"

definition GetVariableData_V2_1 :: shape where
  "GetVariableData_V2_1 = StructOf ''GetVariableData'' [
      Required ''component'' Component_V2_1,
      Required ''variable'' Variable_V2_1,
      Optional ''attributeType'' (EnumOf Attribute_V2_1),
      Optional ''customData'' CustomData]"

definition GetVariableResult_V2_1 :: shape where
  "GetVariableResult_V2_1 = StructOf ''GetVariableResult'' [
      Required ''attributeStatus'' (EnumOf GetVariableStatus_V2_1),
      Required ''component'' Component_V2_1,
      Required ''variable'' Variable_V2_1,
      Optional ''attributeStatusInfo'' StatusInfo_V2_1,
      Optional ''attributeType'' (EnumOf Attribute_V2_1),
      Optional ''attributeValue'' (StringOf None (Some 2500)),
      Optional ''customData'' CustomData]"

definition Gradient_V2_1 :: shape where
  "Gradient_V2_1 = StructOf ''Gradient'' [
      Required ''priority'' (IntegerOf (Some 0) None),
      Required ''gradient'' (NumberOf None None),
      Required ''softGradient'' (NumberOf None None),
      Optional ''customData'' CustomData]"

definition GradientGet_V2_1 :: shape where
  "GradientGet_V2_1 = StructOf ''GradientGet'' [
      Required ''gradient'' Gradient_V2_1,
      Required ''id'' (StringOf None (Some 36)),
      Optional ''customData'' CustomData]"

definition LimitMaxDischarge_V2_1 :: shape where
  "LimitMaxDischarge_V2_1 = StructOf ''LimitMaxDischarge'' [
      Required ''priority'' (IntegerOf (Some 0) None),
      Optional ''pctMaxDischargePower'' (NumberOf None None),
      Optional ''powerMonitoringMustTrip'' DERCurve_V2_1,
      Optional ''startTime'' (PlainOf ''DateTime''),
      Optional ''duration'' (NumberOf None None),
      Optional ''customData'' CustomData]"

definition LimitMaxDischargeGet_V2_1 :: shape where
  "LimitMaxDischargeGet_V2_1 = StructOf ''LimitMaxDischargeGet'' [
      Required ''id'' (StringOf None (Some 36)),
      Required ''isDefault'' FlagOf,
      Required ''isSuperseded'' FlagOf,
      Required ''limitMaxDischarge'' LimitMaxDischarge_V2_1,
      Optional ''customData'' CustomData]"

definition LogParameters_V2_1 :: shape where
  "LogParameters_V2_1 = StructOf ''LogParameters'' [
      Required ''remoteLocation'' (StringOf None (Some 2000)),
      Optional ''oldestTimestamp'' (PlainOf ''DateTime''),
      Optional ''latestTimestamp'' (PlainOf ''DateTime''),
      Optional ''customData'' CustomData]"

definition MessageInfo_V2_1 :: shape where
  "MessageInfo_V2_1 = StructOf ''MessageInfo'' [
      Required ''id'' (IntegerOf (Some 0) None),
      Required ''priority'' (EnumOf MessagePriority_V2_1),
      Required ''message'' MessageContent_V2_1,
      Optional ''display'' Component_V2_1,
      Optional ''state'' (EnumOf MessageState_V2_1),
      Optional ''startDateTime'' (PlainOf ''DateTime''),
      Optional ''endDateTime'' (PlainOf ''DateTime''),
      Optional ''transactionId'' (StringOf None (Some 36)),
      Optional ''messageExtra'' (VecOf (Some 1) (Some 4) MessageContent_V2_1),
      Optional ''customData'' CustomData]"

definition SignedMeterValue_V2_1 :: shape where
  "SignedMeterValue_V2_1 = StructOf ''SignedMeterValue'' [
      Required ''signedMeterData'' (StringOf None (Some 32768)),
      Required ''encodingMethod'' (StringOf None (Some 50)),
      Optional ''signingMethod'' (StringOf None (Some 50)),
      Optional ''publicKey'' (StringOf None (Some 2500)),
      Optional ''customData'' CustomData]"

definition UnitOfMeasure_V2_1 :: shape where
  "UnitOfMeasure_V2_1 = StructOf ''UnitOfMeasure'' [
      Optional ''unit'' (StringOf None (Some 20)),
      Optional ''multiplier'' (IntegerOf None None),
      Optional ''customData'' CustomData]"

definition SampledValue_V2_1 :: shape where
  "SampledValue_V2_1 = StructOf ''SampledValue'' [
      Required ''value'' (NumberOf None None),
      Optional ''measurand'' (EnumOf Measurand_V2_1),
      Optional ''context'' (EnumOf ReadingContext_V2_1),
      Optional ''phase'' (EnumOf Phase_V2_1),
      Optional ''location'' (EnumOf Location_V2_1),
      Optional ''signedMeterValue'' SignedMeterValue_V2_1,
      Optional ''unitOfMeasure'' UnitOfMeasure_V2_1,
      Optional ''customData'' CustomData]"

definition MeterValue_V2_1 :: shape where
  "MeterValue_V2_1 = StructOf ''MeterValue'' [
      Required ''sampledValue'' (VecOf (Some 1) None SampledValue_V2_1),
      Required ''timestamp'' (PlainOf ''DateTime''),
      Optional ''customData'' CustomData]"

definition VariableMonitoring_V2_1 :: shape where
  "VariableMonitoring_V2_1 = StructOf ''VariableMonitoring'' [
      Required ''id'' (IntegerOf (Some 0) None),
      Required ''transaction'' FlagOf,
      Required ''value'' (NumberOf None None),
      Required ''type'' (EnumOf Monitor_V2_1),
      Required ''severity'' (IntegerOf (Some 0) None),
      Required ''eventNotificationType'' (EnumOf EventNotification_V2_1),
      Optional ''customData'' CustomData]"

definition MonitoringData_V2_1 :: shape where
  "MonitoringData_V2_1 = StructOf ''MonitoringData'' [
      Required ''component'' Component_V2_1,
      Required ''variable'' Variable_V2_1,
      Required ''variableMonitoring'' (VecOf (Some 1) None VariableMonitoring_V2_1),
      Optional ''customData'' CustomData]"

definition VPN_V2_1 :: shape where
  "VPN_V2_1 = StructOf ''VPN'' [
      Required ''server'' (StringOf None (Some 2000)),
      Required ''user'' (StringOf None (Some 50)),
      Required ''password'' (StringOf None (Some 64)),
      Required ''key'' (StringOf None (Some 255)),
      Required ''type'' (EnumOf VPNEnum_V2_1),
      Optional ''group'' (StringOf None (Some 50)),
      Optional ''customData'' CustomData]"

definition NetworkConnectionProfile_V2_1 :: shape where
  "NetworkConnectionProfile_V2_1 = StructOf ''NetworkConnectionProfile'' [
      Required ''ocppInterface'' (EnumOf OCPPInterface_V2_1),
      Required ''ocppTransport'' (EnumOf OCPPTransport_V2_1),
      Required ''messageTimeout'' (IntegerOf None None),
      Required ''ocppCsmsUrl'' (StringOf None (Some 2000)),
      Required ''securityProfile'' (IntegerOf (Some 0) None),
      Optional ''apn'' APN_V2_1,
      Optional ''ocppVersion'' (EnumOf OCPPVersion_V2_1),
      Optional ''identity'' (StringOf None (Some 48)),
      Optional ''basicAuthPassword'' (StringOf None (Some 64)),
      Optional ''vpn'' VPN_V2_1,
      Optional ''customData'' CustomData]"

definition OCSPRequestData_V2_1 :: shape where
  "OCSPRequestData_V2_1 = StructOf ''OCSPRequestData'' [
      Required ''hashAlgorithm'' (EnumOf HashAlgorithm_V2_1),
      Required ''issuerNameHash'' (StringOf None (Some 128)),
      Required ''issuerKeyHash'' (StringOf None (Some 128)),
      Required ''serialNumber'' (StringOf None (Some 40)),
      Required ''responderURL'' (StringOf None (Some 2000)),
      Optional ''customData'' CustomData]"

definition VariableAttribute_V2_1 :: shape where
  "VariableAttribute_V2_1 = StructOf ''VariableAttribute'' [
      Optional ''type'' (EnumOf Attribute_V2_1),
      Optional ''value'' (StringOf None (Some 2500)),
      Optional ''mutability'' (EnumOf Mutability_V2_1),
      Optional ''persistent'' FlagOf,
      Optional ''constant'' FlagOf,
      Optional ''customData'' CustomData]"

definition VariableCharacteristics_V2_1 :: shape where
  "VariableCharacteristics_V2_1 = StructOf ''VariableCharacteristics'' [
      Required ''dataType'' (EnumOf Data_V2_1),
      Required ''supportsMonitoring'' FlagOf,
      Optional ''unit'' (StringOf None (Some 16)),
      Optional ''minLimit'' (NumberOf None None),
      Optional ''maxLimit'' (NumberOf None None),
      Optional ''maxElements'' (IntegerOf (Some 1) None),
      Optional ''valuesList'' (StringOf None (Some 1000)),
      Optional ''customData'' CustomData]"

definition ReportData_V2_1 :: shape where
  "ReportData_V2_1 = StructOf ''ReportData'' [
      Required ''component'' Component_V2_1,
      Required ''variable'' Variable_V2_1,
      Required ''variableAttribute'' (VecOf (Some 1) (Some 4) VariableAttribute_V2_1),
      Optional ''variableCharacteristics'' VariableCharacteristics_V2_1,
      Optional ''customData'' CustomData]"

definition SetMonitoringData_V2_1 :: shape where
  "SetMonitoringData_V2_1 = StructOf ''SetMonitoringData'' [
      Required ''value'' (NumberOf None None),
      Required ''type'' (EnumOf Monitor_V2_1),
      Required ''severity'' (IntegerOf (Some 0) None),
      Required ''component'' Component_V2_1,
      Required ''variable'' Variable_V2_1,
      Optional ''id'' (IntegerOf (Some 0) None),
      Optional ''periodicEventStream'' PeriodicEventStreamParams_V2_1,
      Optional ''transaction'' FlagOf,
      Optional ''customData'' CustomData]"

definition SetMonitoringResult_V2_1 :: shape where
  "SetMonitoringResult_V2_1 = StructOf ''SetMonitoringResult'' [
      Required ''status'' (EnumOf SetMonitoringStatus_V2_1),
      Required ''type'' (EnumOf Monitor_V2_1),
      Required ''component'' Component_V2_1,
      Required ''variable'' Variable_V2_1,
      Required ''severity'' (IntegerOf (Some 0) None),
      Optional ''id'' (IntegerOf (Some 0) None),
      Optional ''statusInfo'' StatusInfo_V2_1,
      Optional ''customData'' CustomData]"

definition SetVariableData_V2_1 :: shape where
  "SetVariableData_V2_1 = StructOf ''SetVariableData'' [
      Required ''attributeValue'' (StringOf None (Some 2500)),
      Required ''component'' Component_V2_1,
      Required ''variable'' Variable_V2_1,
      Optional ''attributeType'' (EnumOf Attribute_V2_1),
      Optional ''customData'' CustomData]"

definition SetVariableResult_V2_1 :: shape where
  "SetVariableResult_V2_1 = StructOf ''SetVariableResult'' [
      Required ''attributeStatus'' (EnumOf SetVariableStatus_V2_1),
      Required ''component'' Component_V2_1,
      Required ''variable'' Variable_V2_1,
      Optional ''attributeType'' (EnumOf Attribute_V2_1),
      Optional ''attributeStatusInfo'' StatusInfo_V2_1,
      Optional ''customData'' CustomData]"

definition StreamDataElement_V2_1 :: shape where
  "StreamDataElement_V2_1 = StructOf ''StreamDataElement'' [
      Required ''t'' (NumberOf None None),
      Required ''v'' (StringOf None (Some 2500)),
      Optional ''customData'' CustomData]"

definition TariffConditions_V2_1 :: shape where
  "TariffConditions_V2_1 = StructOf ''TariffConditions'' [
      Optional ''startTimeOfDay'' (StringOf None None),
      Optional ''endTimeOfDay'' (StringOf None None),
      Optional ''dayOfWeek'' (VecOf (Some 1) (Some 7) (EnumOf DayOfWeek_V2_1)),
      Optional ''validFromDate'' (StringOf None None),
      Optional ''validToDate'' (StringOf None None),
      Optional ''evseKind'' (EnumOf EvseKind_V2_1),
      Optional ''minEnergy'' (NumberOf None None),
      Optional ''maxEnergy'' (NumberOf None None),
      Optional ''minCurrent'' (NumberOf None None),
      Optional ''maxCurrent'' (NumberOf None None),
      Optional ''minPower'' (NumberOf None None),
      Optional ''maxPower'' (NumberOf None None),
      Optional ''minTime'' (IntegerOf None None),
      Optional ''maxTime'' (IntegerOf None None),
      Optional ''minChargingTime'' (IntegerOf None None),
      Optional ''maxChargingTime'' (IntegerOf None None),
      Optional ''minIdleTime'' (IntegerOf None None),
      Optional ''maxIdleTime'' (IntegerOf None None),
      Optional ''customData'' CustomData]"

definition TariffEnergyPrice_V2_1 :: shape where
  "TariffEnergyPrice_V2_1 = StructOf ''TariffEnergyPrice'' [
      Required ''priceKwh'' (NumberOf None None),
      Optional ''conditions'' TariffConditions_V2_1,
      Optional ''customData'' CustomData]"

definition TariffEnergy_V2_1 :: shape where
  "TariffEnergy_V2_1 = StructOf ''TariffEnergy'' [
      Required ''prices'' (VecOf (Some 1) None TariffEnergyPrice_V2_1),
      Optional ''taxRates'' (VecOf (Some 1) (Some 5) TaxRate_V2_1),
      Optional ''customData'' CustomData]"

definition TariffTimePrice_V2_1 :: shape where
  "TariffTimePrice_V2_1 = StructOf ''TariffTimePrice'' [
      Required ''priceMinute'' (NumberOf None None),
      Optional ''conditions'' TariffConditions_V2_1,
      Optional ''customData'' CustomData]"

definition TariffTime_V2_1 :: shape where
  "TariffTime_V2_1 = StructOf ''TariffTime'' [
      Required ''prices'' (VecOf (Some 1) None TariffTimePrice_V2_1),
      Optional ''taxRates'' (VecOf (Some 1) (Some 5) TaxRate_V2_1),
      Optional ''customData'' CustomData]"

definition TariffConditionsFixed_V2_1 :: shape where
  "TariffConditionsFixed_V2_1 = StructOf ''TariffConditionsFixed'' [
      Optional ''startTimeOfDay'' (StringOf None None),
      Optional ''endTimeOfDay'' (StringOf None None),
      Optional ''dayOfWeek'' (VecOf (Some 1) (Some 7) (EnumOf DayOfWeek_V2_1)),
      Optional ''validFromDate'' (StringOf None None),
      Optional ''validToDate'' (StringOf None None),
      Optional ''evseKind'' (EnumOf EvseKind_V2_1),
      Optional ''paymentBrand'' (StringOf None (Some 20)),
      Optional ''paymentRecognition'' (StringOf None (Some 20)),
      Optional ''customData'' CustomData]"

definition TariffFixedPrice_V2_1 :: shape where
  "TariffFixedPrice_V2_1 = StructOf ''TariffFixedPrice'' [
      Required ''priceFixed'' (NumberOf None None),
      Optional ''conditions'' TariffConditionsFixed_V2_1,
      Optional ''customData'' CustomData]"

definition TariffFixed_V2_1 :: shape where
  "TariffFixed_V2_1 = StructOf ''TariffFixed'' [
      Required ''prices'' (VecOf (Some 1) None TariffFixedPrice_V2_1),
      Optional ''taxRates'' (VecOf (Some 1) (Some 5) TaxRate_V2_1),
      Optional ''customData'' CustomData]"

definition Tariff_V2_1 :: shape where
  "Tariff_V2_1 = StructOf ''Tariff'' [
      Required ''tariffId'' (StringOf None (Some 60)),
      Required ''currency'' (StringOf None (Some 3)),
      Optional ''description'' (VecOf (Some 1) (Some 10) MessageContent_V2_1),
      Optional ''energy'' TariffEnergy_V2_1,
      Optional ''validFrom'' (PlainOf ''DateTime''),
      Optional ''chargingTime'' TariffTime_V2_1,
      Optional ''idleTime'' TariffTime_V2_1,
      Optional ''fixedFee'' TariffFixed_V2_1,
      Optional ''reservationTime'' TariffTime_V2_1,
      Optional ''reservationFixed'' TariffFixed_V2_1,
      Optional ''minCost'' Price_V2_1,
      Optional ''maxCost'' Price_V2_1,
      Optional ''customData'' CustomData]"

definition TariffAssignment_V2_1 :: shape where
  "TariffAssignment_V2_1 = StructOf ''TariffAssignment'' [
      Required ''tariffId'' (StringOf None (Some 60)),
      Required ''tariffKind'' (EnumOf TariffKind_V2_1),
      Optional ''validFrom'' (PlainOf ''DateTime''),
      Optional ''evseIds'' (VecOf (Some 1) None (IntegerOf (Some 0) None)),
      Optional ''idTokens'' (VecOf (Some 1) None (StringOf None (Some 255))),
      Optional ''customData'' CustomData]"

definition TransactionLimit_V2_1 :: shape where
  "TransactionLimit_V2_1 = StructOf ''TransactionLimit'' [
      Optional ''maxCost'' (NumberOf None None),
      Optional ''maxEnergy'' (NumberOf None None),
      Optional ''maxTime'' (IntegerOf None None),
      Optional ''maxSoC'' (IntegerOf (Some 0) (Some 100)),
      Optional ''customData'' CustomData]"

definition Transaction_V2_1 :: shape where
  "Transaction_V2_1 = StructOf ''Transaction'' [
      Required ''transactionId'' (StringOf None (Some 36)),
      Optional ''chargingState'' (EnumOf ChargingState_V2_1),
      Optional ''timeSpentCharging'' (IntegerOf None None),
      Optional ''stoppedReason'' (EnumOf Reason_V2_1),
      Optional ''remoteStartId'' (IntegerOf None None),
      Optional ''operationMode'' (EnumOf OperationMode_V2_1),
      Optional ''tariffId'' (StringOf None (Some 60)),
      Optional ''transactionLimit'' TransactionLimit_V2_1,
      Optional ''customData'' CustomData]"

text \<open>No type has two members of one name; a type is checked after those it refers to.\<close>

lemma types_ok_0_V2_1 [simp]:
  "shape_ok ACChargingParameters_V2_1" "shape_ok APN_V2_1" "shape_ok AdditionalInfo_V2_1"
  "shape_ok Address_V2_1" "shape_ok BatteryData_V2_1" "shape_ok CertificateHashData_V2_1"
  "shape_ok ChargingLimit_V2_1" "shape_ok ChargingProfileCriterion_V2_1"
  "shape_ok ChargingScheduleUpdate_V2_1" "shape_ok ClearChargingProfile_V2_1" "shape_ok Cost_V2_1"
  "shape_ok CostDimension_V2_1" "shape_ok DCChargingParameters_V2_1"
  "shape_ok DERChargingParameters_V2_1" "shape_ok DERCurvePoints_V2_1"
  "shape_ok EVPowerScheduleEntry_V2_1" "shape_ok EVPriceRule_V2_1" "shape_ok EVSE_V2_1"
  "shape_ok EnterService_V2_1" "shape_ok Firmware_V2_1" "shape_ok FixedPF_V2_1"
  "shape_ok FixedVar_V2_1" "shape_ok FreqDroop_V2_1" "shape_ok Gradient_V2_1"
  "shape_ok Hysteresis_V2_1" "shape_ok LimitAtSoC_V2_1" "shape_ok LogParameters_V2_1"
  "shape_ok MessageContent_V2_1" "shape_ok Modem_V2_1" "shape_ok OCSPRequestData_V2_1"
  "shape_ok PeriodicEventStreamParams_V2_1" "shape_ok PriceLevelScheduleEntry_V2_1"
  "shape_ok RationalNumber_V2_1" "shape_ok ReactivePowerParams_V2_1"
  "shape_ok RelativeTimeInterval_V2_1" "shape_ok SignedMeterValue_V2_1" "shape_ok StatusInfo_V2_1"
  "shape_ok StreamDataElement_V2_1" "shape_ok TariffAssignment_V2_1"
  "shape_ok TariffConditions_V2_1" "shape_ok TariffConditionsFixed_V2_1" "shape_ok TaxRate_V2_1"
  "shape_ok TotalPrice_V2_1" "shape_ok TotalUsage_V2_1" "shape_ok TransactionLimit_V2_1"
  "shape_ok UnitOfMeasure_V2_1" "shape_ok V2XChargingParameters_V2_1"
  "shape_ok V2XFreqWattPoint_V2_1" "shape_ok V2XSignalWattPoint_V2_1" "shape_ok VPN_V2_1"
  "shape_ok Variable_V2_1" "shape_ok VariableAttribute_V2_1"
  "shape_ok VariableCharacteristics_V2_1" "shape_ok VariableMonitoring_V2_1"
  "shape_ok VoltageParams_V2_1"
  by (simp_all add:
    ACChargingParameters_V2_1_def APN_V2_1_def AdditionalInfo_V2_1_def Address_V2_1_def
    BatteryData_V2_1_def CertificateHashData_V2_1_def ChargingLimit_V2_1_def
    ChargingProfileCriterion_V2_1_def ChargingScheduleUpdate_V2_1_def ClearChargingProfile_V2_1_def
    Cost_V2_1_def CostDimension_V2_1_def DCChargingParameters_V2_1_def
    DERChargingParameters_V2_1_def DERCurvePoints_V2_1_def EVPowerScheduleEntry_V2_1_def
    EVPriceRule_V2_1_def EVSE_V2_1_def EnterService_V2_1_def Firmware_V2_1_def FixedPF_V2_1_def
    FixedVar_V2_1_def FreqDroop_V2_1_def Gradient_V2_1_def Hysteresis_V2_1_def LimitAtSoC_V2_1_def
    LogParameters_V2_1_def MessageContent_V2_1_def Modem_V2_1_def OCSPRequestData_V2_1_def
    PeriodicEventStreamParams_V2_1_def PriceLevelScheduleEntry_V2_1_def RationalNumber_V2_1_def
    ReactivePowerParams_V2_1_def RelativeTimeInterval_V2_1_def SignedMeterValue_V2_1_def
    StatusInfo_V2_1_def StreamDataElement_V2_1_def TariffAssignment_V2_1_def
    TariffConditions_V2_1_def TariffConditionsFixed_V2_1_def TaxRate_V2_1_def TotalPrice_V2_1_def
    TotalUsage_V2_1_def TransactionLimit_V2_1_def UnitOfMeasure_V2_1_def
    V2XChargingParameters_V2_1_def V2XFreqWattPoint_V2_1_def V2XSignalWattPoint_V2_1_def
    VPN_V2_1_def Variable_V2_1_def VariableAttribute_V2_1_def VariableCharacteristics_V2_1_def
    VariableMonitoring_V2_1_def VoltageParams_V2_1_def)

lemma types_ok_1_V2_1 [simp]:
  "shape_ok AdditionalSelectedServices_V2_1" "shape_ok CertificateHashDataChain_V2_1"
  "shape_ok CertificateStatus_V2_1" "shape_ok CertificateStatusRequestInfo_V2_1"
  "shape_ok ChargingPeriod_V2_1" "shape_ok ChargingSchedulePeriod_V2_1"
  "shape_ok ChargingStation_V2_1" "shape_ok ClearMonitoringResult_V2_1"
  "shape_ok ClearTariffsResult_V2_1" "shape_ok Component_V2_1" "shape_ok ConstantStreamData_V2_1"
  "shape_ok ConsumptionCost_V2_1" "shape_ok DERCurve_V2_1"
  "shape_ok EVAbsolutePriceScheduleEntry_V2_1" "shape_ok EVPowerSchedule_V2_1"
  "shape_ok EnterServiceGet_V2_1" "shape_ok FixedPFGet_V2_1" "shape_ok FixedVarGet_V2_1"
  "shape_ok FreqDroopGet_V2_1" "shape_ok GradientGet_V2_1" "shape_ok IdToken_V2_1"
  "shape_ok NetworkConnectionProfile_V2_1" "shape_ok OverstayRule_V2_1" "shape_ok Price_V2_1"
  "shape_ok PriceLevelSchedule_V2_1" "shape_ok PriceRule_V2_1" "shape_ok SampledValue_V2_1"
  "shape_ok TariffEnergyPrice_V2_1" "shape_ok TariffFixedPrice_V2_1"
  "shape_ok TariffTimePrice_V2_1" "shape_ok TaxRule_V2_1" "shape_ok Transaction_V2_1"
  by (simp_all add:
    AdditionalSelectedServices_V2_1_def CertificateHashDataChain_V2_1_def CertificateStatus_V2_1_def
    CertificateStatusRequestInfo_V2_1_def ChargingPeriod_V2_1_def ChargingSchedulePeriod_V2_1_def
    ChargingStation_V2_1_def ClearMonitoringResult_V2_1_def ClearTariffsResult_V2_1_def
    Component_V2_1_def ConstantStreamData_V2_1_def ConsumptionCost_V2_1_def DERCurve_V2_1_def
    EVAbsolutePriceScheduleEntry_V2_1_def EVPowerSchedule_V2_1_def EnterServiceGet_V2_1_def
    FixedPFGet_V2_1_def FixedVarGet_V2_1_def FreqDroopGet_V2_1_def GradientGet_V2_1_def
    IdToken_V2_1_def NetworkConnectionProfile_V2_1_def OverstayRule_V2_1_def Price_V2_1_def
    PriceLevelSchedule_V2_1_def PriceRule_V2_1_def SampledValue_V2_1_def TariffEnergyPrice_V2_1_def
    TariffFixedPrice_V2_1_def TariffTimePrice_V2_1_def TaxRule_V2_1_def Transaction_V2_1_def)

lemma types_ok_2_V2_1 [simp]:
  "shape_ok ComponentVariable_V2_1" "shape_ok CompositeSchedule_V2_1" "shape_ok DERCurveGet_V2_1"
  "shape_ok EVAbsolutePriceSchedule_V2_1" "shape_ok EventData_V2_1"
  "shape_ok GetVariableData_V2_1" "shape_ok GetVariableResult_V2_1" "shape_ok IdTokenInfo_V2_1"
  "shape_ok LimitMaxDischarge_V2_1" "shape_ok MessageInfo_V2_1" "shape_ok MeterValue_V2_1"
  "shape_ok MonitoringData_V2_1" "shape_ok OverstayRuleList_V2_1" "shape_ok PriceRuleStack_V2_1"
  "shape_ok ReportData_V2_1" "shape_ok SalesTariffEntry_V2_1" "shape_ok SetMonitoringData_V2_1"
  "shape_ok SetMonitoringResult_V2_1" "shape_ok SetVariableData_V2_1"
  "shape_ok SetVariableResult_V2_1" "shape_ok TariffEnergy_V2_1" "shape_ok TariffFixed_V2_1"
  "shape_ok TariffTime_V2_1" "shape_ok TotalCost_V2_1"
  by (simp_all add:
    ComponentVariable_V2_1_def CompositeSchedule_V2_1_def DERCurveGet_V2_1_def
    EVAbsolutePriceSchedule_V2_1_def EventData_V2_1_def GetVariableData_V2_1_def
    GetVariableResult_V2_1_def IdTokenInfo_V2_1_def LimitMaxDischarge_V2_1_def MessageInfo_V2_1_def
    MeterValue_V2_1_def MonitoringData_V2_1_def OverstayRuleList_V2_1_def PriceRuleStack_V2_1_def
    ReportData_V2_1_def SalesTariffEntry_V2_1_def SetMonitoringData_V2_1_def
    SetMonitoringResult_V2_1_def SetVariableData_V2_1_def SetVariableResult_V2_1_def
    TariffEnergy_V2_1_def TariffFixed_V2_1_def TariffTime_V2_1_def TotalCost_V2_1_def)

lemma types_ok_3_V2_1 [simp]:
  "shape_ok AbsolutePriceSchedule_V2_1" "shape_ok AuthorizationData_V2_1"
  "shape_ok CostDetails_V2_1" "shape_ok EVEnergyOffer_V2_1" "shape_ok LimitMaxDischargeGet_V2_1"
  "shape_ok SalesTariff_V2_1" "shape_ok Tariff_V2_1"
  by (simp_all add:
    AbsolutePriceSchedule_V2_1_def AuthorizationData_V2_1_def CostDetails_V2_1_def
    EVEnergyOffer_V2_1_def LimitMaxDischargeGet_V2_1_def SalesTariff_V2_1_def Tariff_V2_1_def)

lemma types_ok_4_V2_1 [simp]:
  "shape_ok ChargingNeeds_V2_1" "shape_ok ChargingSchedule_V2_1"
  by (simp_all add:
    ChargingNeeds_V2_1_def ChargingSchedule_V2_1_def)

lemma types_ok_5_V2_1 [simp]:
  "shape_ok ChargingProfile_V2_1"
  by (simp_all add:
    ChargingProfile_V2_1_def)

section \<open>Messages\<close>

definition AFRRSignalResponse_V2_1 :: shape where
  "AFRRSignalResponse_V2_1 = StructOf ''AFRRSignalResponse'' [
      Required ''status'' (EnumOf GenericStatus_V2_1),
      Optional ''statusInfo'' StatusInfo_V2_1,
      Optional ''customData'' CustomData]"

definition AdjustPeriodicEventStreamResponse_V2_1 :: shape where
  "AdjustPeriodicEventStreamResponse_V2_1 = StructOf ''AdjustPeriodicEventStreamResponse'' [
      Required ''status'' (EnumOf GenericStatus_V2_1),
      Optional ''statusInfo'' StatusInfo_V2_1,
      Optional ''customData'' CustomData]"

definition AuthorizeResponse_V2_1 :: shape where
  "AuthorizeResponse_V2_1 = StructOf ''AuthorizeResponse'' [
      Required ''idTokenInfo'' IdTokenInfo_V2_1,
      Optional ''certificateStatus'' (EnumOf AuthorizeCertificateStatus_V2_1),
      Optional ''allowedEnergyTransfer'' (VecOf (Some 1) None (EnumOf EnergyTransferMode_V2_1)),
      Optional ''tariff'' Tariff_V2_1,
      Optional ''customData'' CustomData]"

definition BatterySwapResponse_V2_1 :: shape where
  "BatterySwapResponse_V2_1 = StructOf ''BatterySwapResponse'' [
      Optional ''customData'' CustomData]"

definition BootNotificationResponse_V2_1 :: shape where
  "BootNotificationResponse_V2_1 = StructOf ''BootNotificationResponse'' [
      Required ''currentTime'' (PlainOf ''DateTime''),
      Required ''interval'' (IntegerOf None None),
      Required ''status'' (EnumOf RegistrationStatus_V2_1),
      Optional ''statusInfo'' StatusInfo_V2_1,
      Optional ''customData'' CustomData]"

definition CancelReservationResponse_V2_1 :: shape where
  "CancelReservationResponse_V2_1 = StructOf ''CancelReservationResponse'' [
      Required ''status'' (EnumOf CancelReservationStatus_V2_1),
      Optional ''statusInfo'' StatusInfo_V2_1,
      Optional ''customData'' CustomData]"

definition CertificateSignedResponse_V2_1 :: shape where
  "CertificateSignedResponse_V2_1 = StructOf ''CertificateSignedResponse'' [
      Required ''status'' (EnumOf CertificateSignedStatus_V2_1),
      Optional ''statusInfo'' StatusInfo_V2_1,
      Optional ''customData'' CustomData]"

definition ChangeAvailabilityResponse_V2_1 :: shape where
  "ChangeAvailabilityResponse_V2_1 = StructOf ''ChangeAvailabilityResponse'' [
      Required ''status'' (EnumOf ChangeAvailabilityStatus_V2_1),
      Optional ''statusInfo'' StatusInfo_V2_1,
      Optional ''customData'' CustomData]"

definition ChangeTransactionTariffResponse_V2_1 :: shape where
  "ChangeTransactionTariffResponse_V2_1 = StructOf ''ChangeTransactionTariffResponse'' [
      Required ''status'' (EnumOf TariffChangeStatus_V2_1),
      Optional ''statusInfo'' StatusInfo_V2_1,
      Optional ''customData'' CustomData]"

definition ClearCacheResponse_V2_1 :: shape where
  "ClearCacheResponse_V2_1 = StructOf ''ClearCacheResponse'' [
      Required ''status'' (EnumOf ClearCacheStatus_V2_1),
      Optional ''statusInfo'' StatusInfo_V2_1,
      Optional ''customData'' CustomData]"

definition ClearChargingProfileResponse_V2_1 :: shape where
  "ClearChargingProfileResponse_V2_1 = StructOf ''ClearChargingProfileResponse'' [
      Required ''status'' (EnumOf ClearChargingProfileStatus_V2_1),
      Optional ''statusInfo'' StatusInfo_V2_1,
      Optional ''customData'' CustomData]"

definition ClearDERControlResponse_V2_1 :: shape where
  "ClearDERControlResponse_V2_1 = StructOf ''ClearDERControlResponse'' [
      Required ''status'' (EnumOf DERControlStatus_V2_1),
      Optional ''statusInfo'' StatusInfo_V2_1,
      Optional ''customData'' CustomData]"

definition ClearDisplayMessageResponse_V2_1 :: shape where
  "ClearDisplayMessageResponse_V2_1 = StructOf ''ClearDisplayMessageResponse'' [
      Required ''status'' (EnumOf ClearMessageStatus_V2_1),
      Optional ''statusInfo'' StatusInfo_V2_1,
      Optional ''customData'' CustomData]"

definition ClearTariffsResponse_V2_1 :: shape where
  "ClearTariffsResponse_V2_1 = StructOf ''ClearTariffsResponse'' [
      Required ''clearTariffsResult'' (VecOf (Some 1) None ClearTariffsResult_V2_1),
      Optional ''customData'' CustomData]"

definition ClearVariableMonitoringResponse_V2_1 :: shape where
  "ClearVariableMonitoringResponse_V2_1 = StructOf ''ClearVariableMonitoringResponse'' [
      Required ''clearMonitoringResult'' (VecOf (Some 1) None ClearMonitoringResult_V2_1),
      Optional ''customData'' CustomData]"

definition ClearedChargingLimitResponse_V2_1 :: shape where
  "ClearedChargingLimitResponse_V2_1 = StructOf ''ClearedChargingLimitResponse'' [
      Optional ''customData'' CustomData]"

definition ClosePeriodicEventStreamResponse_V2_1 :: shape where
  "ClosePeriodicEventStreamResponse_V2_1 = StructOf ''ClosePeriodicEventStreamResponse'' [
      Optional ''customData'' CustomData]"

definition CostUpdatedResponse_V2_1 :: shape where
  "CostUpdatedResponse_V2_1 = StructOf ''CostUpdatedResponse'' [
      Optional ''customData'' CustomData]"

definition CustomerInformationResponse_V2_1 :: shape where
  "CustomerInformationResponse_V2_1 = StructOf ''CustomerInformationResponse'' [
      Required ''status'' (EnumOf CustomerInformationStatus_V2_1),
      Optional ''statusInfo'' StatusInfo_V2_1,
      Optional ''customData'' CustomData]"

definition DataTransferResponse_V2_1 :: shape where
  "DataTransferResponse_V2_1 = StructOf ''DataTransferResponse'' [
      Required ''status'' (EnumOf DataTransferStatus_V2_1),
      Optional ''statusInfo'' StatusInfo_V2_1,
      Optional ''data'' (PlainOf ''Value''),
      Optional ''customData'' CustomData]"

definition DeleteCertificateResponse_V2_1 :: shape where
  "DeleteCertificateResponse_V2_1 = StructOf ''DeleteCertificateResponse'' [
      Required ''status'' (EnumOf DeleteCertificateStatus_V2_1),
      Optional ''statusInfo'' StatusInfo_V2_1,
      Optional ''customData'' CustomData]"

definition FirmwareStatusNotificationResponse_V2_1 :: shape where
  "FirmwareStatusNotificationResponse_V2_1 = StructOf ''FirmwareStatusNotificationResponse'' [
      Optional ''customData'' CustomData]"

definition Get15118EVCertificateResponse_V2_1 :: shape where
  "Get15118EVCertificateResponse_V2_1 = StructOf ''Get15118EVCertificateResponse'' [
      Required ''status'' (EnumOf Iso15118EVCertificateStatus_V2_1),
      Required ''exiResponse'' (StringOf None (Some 17000)),
      Optional ''statusInfo'' StatusInfo_V2_1,
      Optional ''remainingContracts'' (IntegerOf (Some 0) None),
      Optional ''customData'' CustomData]"

definition GetBaseReportResponse_V2_1 :: shape where
  "GetBaseReportResponse_V2_1 = StructOf ''GetBaseReportResponse'' [
      Required ''status'' (EnumOf GenericDeviceModelStatus_V2_1),
      Optional ''statusInfo'' StatusInfo_V2_1,
      Optional ''customData'' CustomData]"

definition GetCertificateChainStatusResponse_V2_1 :: shape where
  "GetCertificateChainStatusResponse_V2_1 = StructOf ''GetCertificateChainStatusResponse'' [
      Required ''certificateStatus'' (VecOf (Some 1) (Some 4) CertificateStatus_V2_1),
      Optional ''customData'' CustomData]"

definition GetCertificateStatusResponse_V2_1 :: shape where
  "GetCertificateStatusResponse_V2_1 = StructOf ''GetCertificateStatusResponse'' [
      Required ''status'' (EnumOf GetCertificateStatusEnum_V2_1),
      Optional ''statusInfo'' StatusInfo_V2_1,
      Optional ''ocspResult'' (StringOf None (Some 18000)),
      Optional ''customData'' CustomData]"

definition GetChargingProfilesResponse_V2_1 :: shape where
  "GetChargingProfilesResponse_V2_1 = StructOf ''GetChargingProfilesResponse'' [
      Required ''status'' (EnumOf GetChargingProfileStatus_V2_1),
      Optional ''statusInfo'' StatusInfo_V2_1,
      Optional ''customData'' CustomData]"

definition GetCompositeScheduleResponse_V2_1 :: shape where
  "GetCompositeScheduleResponse_V2_1 = StructOf ''GetCompositeScheduleResponse'' [
      Required ''status'' (EnumOf GenericStatus_V2_1),
      Optional ''statusInfo'' StatusInfo_V2_1,
      Optional ''schedule'' CompositeSchedule_V2_1,
      Optional ''customData'' CustomData]"

definition GetDERControlResponse_V2_1 :: shape where
  "GetDERControlResponse_V2_1 = StructOf ''GetDERControlResponse'' [
      Required ''status'' (EnumOf DERControlStatus_V2_1),
      Optional ''statusInfo'' StatusInfo_V2_1,
      Optional ''customData'' CustomData]"

definition GetDisplayMessagesResponse_V2_1 :: shape where
  "GetDisplayMessagesResponse_V2_1 = StructOf ''GetDisplayMessagesResponse'' [
      Required ''status'' (EnumOf GetDisplayMessagesStatus_V2_1),
      Optional ''statusInfo'' StatusInfo_V2_1,
      Optional ''customData'' CustomData]"

definition GetInstalledCertificateIdsResponse_V2_1 :: shape where
  "GetInstalledCertificateIdsResponse_V2_1 = StructOf ''GetInstalledCertificateIdsResponse'' [
      Required ''status'' (EnumOf GetInstalledCertificateStatus_V2_1),
      Optional ''statusInfo'' StatusInfo_V2_1,
      Optional ''certificateHashDataChain'' (VecOf (Some 1) None CertificateHashDataChain_V2_1),
      Optional ''customData'' CustomData]"

definition GetLocalListVersionResponse_V2_1 :: shape where
  "GetLocalListVersionResponse_V2_1 = StructOf ''GetLocalListVersionResponse'' [
      Required ''versionNumber'' (IntegerOf None None),
      Optional ''customData'' CustomData]"

definition GetLogResponse_V2_1 :: shape where
  "GetLogResponse_V2_1 = StructOf ''GetLogResponse'' [
      Required ''status'' (EnumOf LogStatus_V2_1),
      Optional ''statusInfo'' StatusInfo_V2_1,
      Optional ''filename'' (StringOf None (Some 255)),
      Optional ''customData'' CustomData]"

definition GetMonitoringReportResponse_V2_1 :: shape where
  "GetMonitoringReportResponse_V2_1 = StructOf ''GetMonitoringReportResponse'' [
      Required ''status'' (EnumOf GenericDeviceModelStatus_V2_1),
      Optional ''statusInfo'' StatusInfo_V2_1,
      Optional ''customData'' CustomData]"

definition GetPeriodicEventStreamResponse_V2_1 :: shape where
  "GetPeriodicEventStreamResponse_V2_1 = StructOf ''GetPeriodicEventStreamResponse'' [
      Optional ''constantStreamData'' (VecOf (Some 1) None ConstantStreamData_V2_1),
      Optional ''customData'' CustomData]"

definition GetReportResponse_V2_1 :: shape where
  "GetReportResponse_V2_1 = StructOf ''GetReportResponse'' [
      Required ''status'' (EnumOf GenericDeviceModelStatus_V2_1),
      Optional ''statusInfo'' StatusInfo_V2_1,
      Optional ''customData'' CustomData]"

definition GetTariffsResponse_V2_1 :: shape where
  "GetTariffsResponse_V2_1 = StructOf ''GetTariffsResponse'' [
      Required ''status'' (EnumOf TariffGetStatus_V2_1),
      Optional ''statusInfo'' StatusInfo_V2_1,
      Optional ''tariffAssignments'' (VecOf (Some 1) None TariffAssignment_V2_1),
      Optional ''customData'' CustomData]"

definition GetTransactionStatusResponse_V2_1 :: shape where
  "GetTransactionStatusResponse_V2_1 = StructOf ''GetTransactionStatusResponse'' [
      Required ''messagesInQueue'' FlagOf,
      Optional ''ongoingIndicator'' FlagOf,
      Optional ''customData'' CustomData]"

definition GetVariablesResponse_V2_1 :: shape where
  "GetVariablesResponse_V2_1 = StructOf ''GetVariablesResponse'' [
      Required ''getVariableResult'' (VecOf (Some 1) None GetVariableResult_V2_1),
      Optional ''customData'' CustomData]"

definition HeartbeatResponse_V2_1 :: shape where
  "HeartbeatResponse_V2_1 = StructOf ''HeartbeatResponse'' [
      Required ''currentTime'' (PlainOf ''DateTime''),
      Optional ''customData'' CustomData]"

definition InstallCertificateResponse_V2_1 :: shape where
  "InstallCertificateResponse_V2_1 = StructOf ''InstallCertificateResponse'' [
      Required ''status'' (EnumOf InstallCertificateStatus_V2_1),
      Optional ''statusInfo'' StatusInfo_V2_1,
      Optional ''customData'' CustomData]"

definition LogStatusNotificationResponse_V2_1 :: shape where
  "LogStatusNotificationResponse_V2_1 = StructOf ''LogStatusNotificationResponse'' [
      Optional ''customData'' CustomData]"

definition MeterValuesResponse_V2_1 :: shape where
  "MeterValuesResponse_V2_1 = StructOf ''MeterValuesResponse'' [
      Optional ''customData'' CustomData]"

definition NotifyAllowedEnergyTransferResponse_V2_1 :: shape where
  "NotifyAllowedEnergyTransferResponse_V2_1 = StructOf ''NotifyAllowedEnergyTransferResponse'' [
      Required ''status'' (EnumOf NotifyAllowedEnergyTransferStatus_V2_1),
      Optional ''statusInfo'' StatusInfo_V2_1,
      Optional ''customData'' CustomData]"

definition NotifyChargingLimitResponse_V2_1 :: shape where
  "NotifyChargingLimitResponse_V2_1 = StructOf ''NotifyChargingLimitResponse'' [
      Optional ''customData'' CustomData]"

definition NotifyCustomerInformationResponse_V2_1 :: shape where
  "NotifyCustomerInformationResponse_V2_1 = StructOf ''NotifyCustomerInformationResponse'' [
      Optional ''customData'' CustomData]"

definition NotifyDERAlarmResponse_V2_1 :: shape where
  "NotifyDERAlarmResponse_V2_1 = StructOf ''NotifyDERAlarmResponse'' [
      Optional ''customData'' CustomData]"

definition NotifyDERStartStopResponse_V2_1 :: shape where
  "NotifyDERStartStopResponse_V2_1 = StructOf ''NotifyDERStartStopResponse'' [
      Optional ''customData'' CustomData]"

definition NotifyDisplayMessagesResponse_V2_1 :: shape where
  "NotifyDisplayMessagesResponse_V2_1 = StructOf ''NotifyDisplayMessagesResponse'' [
      Optional ''customData'' CustomData]"

definition NotifyEVChargingNeedsResponse_V2_1 :: shape where
  "NotifyEVChargingNeedsResponse_V2_1 = StructOf ''NotifyEVChargingNeedsResponse'' [
      Required ''status'' (EnumOf NotifyEVChargingNeedsStatus_V2_1),
      Optional ''statusInfo'' StatusInfo_V2_1,
      Optional ''customData'' CustomData]"

definition NotifyEVChargingScheduleResponse_V2_1 :: shape where
  "NotifyEVChargingScheduleResponse_V2_1 = StructOf ''NotifyEVChargingScheduleResponse'' [
      Required ''status'' (EnumOf GenericStatus_V2_1),
      Optional ''statusInfo'' StatusInfo_V2_1,
      Optional ''customData'' CustomData]"

definition NotifyEventResponse_V2_1 :: shape where
  "NotifyEventResponse_V2_1 = StructOf ''NotifyEventResponse'' [
      Optional ''customData'' CustomData]"

definition NotifyMonitoringReportResponse_V2_1 :: shape where
  "NotifyMonitoringReportResponse_V2_1 = StructOf ''NotifyMonitoringReportResponse'' [
      Optional ''customData'' CustomData]"

definition NotifyPriorityChargingResponse_V2_1 :: shape where
  "NotifyPriorityChargingResponse_V2_1 = StructOf ''NotifyPriorityChargingResponse'' [
      Optional ''customData'' CustomData]"

definition NotifyReportResponse_V2_1 :: shape where
  "NotifyReportResponse_V2_1 = StructOf ''NotifyReportResponse'' [
      Optional ''customData'' CustomData]"

definition NotifySettlementResponse_V2_1 :: shape where
  "NotifySettlementResponse_V2_1 = StructOf ''NotifySettlementResponse'' [
      Optional ''receiptUrl'' (StringOf None (Some 2000)),
      Optional ''receiptId'' (StringOf None (Some 50)),
      Optional ''customData'' CustomData]"

definition NotifyWebPaymentStartedResponse_V2_1 :: shape where
  "NotifyWebPaymentStartedResponse_V2_1 = StructOf ''NotifyWebPaymentStartedResponse'' [
      Optional ''customData'' CustomData]"

definition OpenPeriodicEventStreamResponse_V2_1 :: shape where
  "OpenPeriodicEventStreamResponse_V2_1 = StructOf ''OpenPeriodicEventStreamResponse'' [
      Required ''status'' (EnumOf GenericStatus_V2_1),
      Optional ''statusInfo'' StatusInfo_V2_1,
      Optional ''customData'' CustomData]"

definition PublishFirmwareResponse_V2_1 :: shape where
  "PublishFirmwareResponse_V2_1 = StructOf ''PublishFirmwareResponse'' [
      Required ''status'' (EnumOf GenericStatus_V2_1),
      Optional ''statusInfo'' StatusInfo_V2_1,
      Optional ''customData'' CustomData]"

definition PublishFirmwareStatusNotificationResponse_V2_1 :: shape where
  "PublishFirmwareStatusNotificationResponse_V2_1 = StructOf ''PublishFirmwareStatusNotificationResponse'' [
      Optional ''customData'' CustomData]"

definition PullDynamicScheduleUpdateResponse_V2_1 :: shape where
  "PullDynamicScheduleUpdateResponse_V2_1 = StructOf ''PullDynamicScheduleUpdateResponse'' [
      Required ''status'' (EnumOf ChargingProfileStatus_V2_1),
      Optional ''scheduleUpdate'' ChargingScheduleUpdate_V2_1,
      Optional ''statusInfo'' StatusInfo_V2_1,
      Optional ''customData'' CustomData]"

definition ReportChargingProfilesResponse_V2_1 :: shape where
  "ReportChargingProfilesResponse_V2_1 = StructOf ''ReportChargingProfilesResponse'' [
      Optional ''customData'' CustomData]"

definition ReportDERControlResponse_V2_1 :: shape where
  "ReportDERControlResponse_V2_1 = StructOf ''ReportDERControlResponse'' [
      Optional ''customData'' CustomData]"

definition RequestBatterySwapResponse_V2_1 :: shape where
  "RequestBatterySwapResponse_V2_1 = StructOf ''RequestBatterySwapResponse'' [
      Required ''status'' (EnumOf GenericStatus_V2_1),
      Optional ''statusInfo'' StatusInfo_V2_1,
      Optional ''customData'' CustomData]"

definition RequestStartTransactionResponse_V2_1 :: shape where
  "RequestStartTransactionResponse_V2_1 = StructOf ''RequestStartTransactionResponse'' [
      Required ''status'' (EnumOf RequestStartStopStatus_V2_1),
      Optional ''statusInfo'' StatusInfo_V2_1,
      Optional ''transactionId'' (StringOf None (Some 36)),
      Optional ''customData'' CustomData]"

definition RequestStopTransactionResponse_V2_1 :: shape where
  "RequestStopTransactionResponse_V2_1 = StructOf ''RequestStopTransactionResponse'' [
      Required ''status'' (EnumOf RequestStartStopStatus_V2_1),
      Optional ''statusInfo'' StatusInfo_V2_1,
      Optional ''customData'' CustomData]"

definition ReservationStatusUpdateResponse_V2_1 :: shape where
  "ReservationStatusUpdateResponse_V2_1 = StructOf ''ReservationStatusUpdateResponse'' [
      Optional ''customData'' CustomData]"

definition ReserveNowResponse_V2_1 :: shape where
  "ReserveNowResponse_V2_1 = StructOf ''ReserveNowResponse'' [
      Required ''status'' (EnumOf ReserveNowStatus_V2_1),
      Optional ''statusInfo'' StatusInfo_V2_1,
      Optional ''customData'' CustomData]"

definition ResetResponse_V2_1 :: shape where
  "ResetResponse_V2_1 = StructOf ''ResetResponse'' [
      Required ''status'' (EnumOf ResetStatus_V2_1),
      Optional ''statusInfo'' StatusInfo_V2_1,
      Optional ''customData'' CustomData]"

definition SecurityEventNotificationResponse_V2_1 :: shape where
  "SecurityEventNotificationResponse_V2_1 = StructOf ''SecurityEventNotificationResponse'' [
      Optional ''customData'' CustomData]"

definition SendLocalListResponse_V2_1 :: shape where
  "SendLocalListResponse_V2_1 = StructOf ''SendLocalListResponse'' [
      Required ''status'' (EnumOf SendLocalListStatus_V2_1),
      Optional ''statusInfo'' StatusInfo_V2_1,
      Optional ''customData'' CustomData]"

definition SetChargingProfileResponse_V2_1 :: shape where
  "SetChargingProfileResponse_V2_1 = StructOf ''SetChargingProfileResponse'' [
      Required ''status'' (EnumOf ChargingProfileStatus_V2_1),
      Optional ''statusInfo'' StatusInfo_V2_1,
      Optional ''customData'' CustomData]"

definition SetDERControlResponse_V2_1 :: shape where
  "SetDERControlResponse_V2_1 = StructOf ''SetDERControlResponse'' [
      Required ''status'' (EnumOf DERControlStatus_V2_1),
      Optional ''statusInfo'' StatusInfo_V2_1,
      Optional ''supersededIds'' (VecOf (Some 1) (Some 24) (StringOf None (Some 36))),
      Optional ''customData'' CustomData]"

definition SetDefaultTariffResponse_V2_1 :: shape where
  "SetDefaultTariffResponse_V2_1 = StructOf ''SetDefaultTariffResponse'' [
      Required ''status'' (EnumOf TariffSetStatus_V2_1),
      Optional ''statusInfo'' StatusInfo_V2_1,
      Optional ''customData'' CustomData]"

definition SetDisplayMessageResponse_V2_1 :: shape where
  "SetDisplayMessageResponse_V2_1 = StructOf ''SetDisplayMessageResponse'' [
      Required ''status'' (EnumOf DisplayMessageStatus_V2_1),
      Optional ''statusInfo'' StatusInfo_V2_1,
      Optional ''customData'' CustomData]"

definition SetMonitoringBaseResponse_V2_1 :: shape where
  "SetMonitoringBaseResponse_V2_1 = StructOf ''SetMonitoringBaseResponse'' [
      Required ''status'' (EnumOf GenericDeviceModelStatus_V2_1),
      Optional ''statusInfo'' StatusInfo_V2_1,
      Optional ''customData'' CustomData]"

definition SetMonitoringLevelResponse_V2_1 :: shape where
  "SetMonitoringLevelResponse_V2_1 = StructOf ''SetMonitoringLevelResponse'' [
      Required ''status'' (EnumOf GenericStatus_V2_1),
      Optional ''statusInfo'' StatusInfo_V2_1,
      Optional ''customData'' CustomData]"

definition SetNetworkProfileResponse_V2_1 :: shape where
  "SetNetworkProfileResponse_V2_1 = StructOf ''SetNetworkProfileResponse'' [
      Required ''status'' (EnumOf SetNetworkProfileStatus_V2_1),
      Optional ''statusInfo'' StatusInfo_V2_1,
      Optional ''customData'' CustomData]"

definition SetVariableMonitoringResponse_V2_1 :: shape where
  "SetVariableMonitoringResponse_V2_1 = StructOf ''SetVariableMonitoringResponse'' [
      Required ''setMonitoringResult'' (VecOf (Some 1) None SetMonitoringResult_V2_1),
      Optional ''customData'' CustomData]"

definition SetVariablesResponse_V2_1 :: shape where
  "SetVariablesResponse_V2_1 = StructOf ''SetVariablesResponse'' [
      Required ''setVariableResult'' (VecOf (Some 1) None SetVariableResult_V2_1),
      Optional ''customData'' CustomData]"

definition SignCertificateResponse_V2_1 :: shape where
  "SignCertificateResponse_V2_1 = StructOf ''SignCertificateResponse'' [
      Required ''status'' (EnumOf GenericStatus_V2_1),
      Optional ''statusInfo'' StatusInfo_V2_1,
      Optional ''customData'' CustomData]"

definition StatusNotificationResponse_V2_1 :: shape where
  "StatusNotificationResponse_V2_1 = StructOf ''StatusNotificationResponse'' [
      Optional ''customData'' CustomData]"

definition TransactionEventResponse_V2_1 :: shape where
  "TransactionEventResponse_V2_1 = StructOf ''TransactionEventResponse'' [
      Optional ''totalCost'' (NumberOf None None),
      Optional ''chargingPriority'' (IntegerOf None None),
      Optional ''idTokenInfo'' IdTokenInfo_V2_1,
      Optional ''transactionLimit'' TransactionLimit_V2_1,
      Optional ''updatedPersonalMessage'' MessageContent_V2_1,
      Optional ''updatedPersonalMessageExtra'' (VecOf (Some 1) (Some 4) MessageContent_V2_1),
      Optional ''customData'' CustomData]"

definition TriggerMessageResponse_V2_1 :: shape where
  "TriggerMessageResponse_V2_1 = StructOf ''TriggerMessageResponse'' [
      Required ''status'' (EnumOf TriggerMessageStatus_V2_1),
      Optional ''statusInfo'' StatusInfo_V2_1,
      Optional ''customData'' CustomData]"

definition UnlockConnectorResponse_V2_1 :: shape where
  "UnlockConnectorResponse_V2_1 = StructOf ''UnlockConnectorResponse'' [
      Required ''status'' (EnumOf UnlockStatus_V2_1),
      Optional ''statusInfo'' StatusInfo_V2_1,
      Optional ''customData'' CustomData]"

definition UnpublishFirmwareResponse_V2_1 :: shape where
  "UnpublishFirmwareResponse_V2_1 = StructOf ''UnpublishFirmwareResponse'' [
      Required ''status'' (EnumOf UnpublishFirmwareStatus_V2_1),
      Optional ''customData'' CustomData]"

definition UpdateDynamicScheduleResponse_V2_1 :: shape where
  "UpdateDynamicScheduleResponse_V2_1 = StructOf ''UpdateDynamicScheduleResponse'' [
      Required ''status'' (EnumOf ChargingProfileStatus_V2_1),
      Optional ''statusInfo'' StatusInfo_V2_1,
      Optional ''customData'' CustomData]"

definition UpdateFirmwareResponse_V2_1 :: shape where
  "UpdateFirmwareResponse_V2_1 = StructOf ''UpdateFirmwareResponse'' [
      Required ''status'' (EnumOf UpdateFirmwareStatus_V2_1),
      Optional ''statusInfo'' StatusInfo_V2_1,
      Optional ''customData'' CustomData]"

definition UsePriorityChargingResponse_V2_1 :: shape where
  "UsePriorityChargingResponse_V2_1 = StructOf ''UsePriorityChargingResponse'' [
      Required ''status'' (EnumOf PriorityChargingStatus_V2_1),
      Optional ''statusInfo'' StatusInfo_V2_1,
      Optional ''customData'' CustomData]"

definition VatNumberValidationResponse_V2_1 :: shape where
  "VatNumberValidationResponse_V2_1 = StructOf ''VatNumberValidationResponse'' [
      Required ''vatNumber'' (StringOf None (Some 20)),
      Required ''status'' (EnumOf GenericStatus_V2_1),
      Optional ''company'' Address_V2_1,
      Optional ''statusInfo'' StatusInfo_V2_1,
      Optional ''evseId'' (IntegerOf (Some 0) None),
      Optional ''customData'' CustomData]"

definition AFRRSignalRequest_V2_1 :: request_type where
  "AFRRSignalRequest_V2_1 = RequestType ''AFRRSignal'' Call CsmsOrigin (Some AFRRSignalResponse_V2_1)
     (StructOf ''AFRRSignalRequest'' [
      Required ''timestamp'' (PlainOf ''DateTime''),
      Required ''signal'' (IntegerOf None None),
      Optional ''customData'' CustomData])"

definition AdjustPeriodicEventStreamRequest_V2_1 :: request_type where
  "AdjustPeriodicEventStreamRequest_V2_1 = RequestType ''AdjustPeriodicEventStream'' Call CsmsOrigin (Some AdjustPeriodicEventStreamResponse_V2_1)
     (StructOf ''AdjustPeriodicEventStreamRequest'' [
      Required ''id'' (IntegerOf (Some 0) None),
      Required ''params'' PeriodicEventStreamParams_V2_1,
      Optional ''customData'' CustomData])"

definition AuthorizeRequest_V2_1 :: request_type where
  "AuthorizeRequest_V2_1 = RequestType ''Authorize'' Call ChargingStationOrigin (Some AuthorizeResponse_V2_1)
     (StructOf ''AuthorizeRequest'' [
      Required ''idToken'' IdToken_V2_1,
      Optional ''certificate'' (StringOf None (Some 10000)),
      Optional ''iso15118CertificateHashData'' (VecOf (Some 1) (Some 4) OCSPRequestData_V2_1),
      Optional ''customData'' CustomData])"

definition BatterySwapRequest_V2_1 :: request_type where
  "BatterySwapRequest_V2_1 = RequestType ''BatterySwap'' Call ChargingStationOrigin (Some BatterySwapResponse_V2_1)
     (StructOf ''BatterySwapRequest'' [
      Required ''batteryData'' (VecOf (Some 1) None BatteryData_V2_1),
      Required ''eventType'' (EnumOf BatterySwapEvent_V2_1),
      Required ''idToken'' IdToken_V2_1,
      Required ''requestId'' (IntegerOf None None),
      Optional ''customData'' CustomData])"

definition BootNotificationRequest_V2_1 :: request_type where
  "BootNotificationRequest_V2_1 = RequestType ''BootNotification'' Call ChargingStationOrigin (Some BootNotificationResponse_V2_1)
     (StructOf ''BootNotificationRequest'' [
      Required ''chargingStation'' ChargingStation_V2_1,
      Required ''reason'' (EnumOf BootReason_V2_1),
      Optional ''customData'' CustomData])"

definition CancelReservationRequest_V2_1 :: request_type where
  "CancelReservationRequest_V2_1 = RequestType ''CancelReservation'' Call CsmsOrigin (Some CancelReservationResponse_V2_1)
     (StructOf ''CancelReservationRequest'' [
      Required ''reservationId'' (IntegerOf (Some 0) None),
      Optional ''customData'' CustomData])"

definition CertificateSignedRequest_V2_1 :: request_type where
  "CertificateSignedRequest_V2_1 = RequestType ''CertificateSigned'' Call CsmsOrigin (Some CertificateSignedResponse_V2_1)
     (StructOf ''CertificateSignedRequest'' [
      Required ''certificateChain'' (StringOf None (Some 10000)),
      Optional ''certificateType'' (EnumOf CertificateSigningUse_V2_1),
      Optional ''requestId'' (IntegerOf None None),
      Optional ''customData'' CustomData])"

definition ChangeAvailabilityRequest_V2_1 :: request_type where
  "ChangeAvailabilityRequest_V2_1 = RequestType ''ChangeAvailability'' Call CsmsOrigin (Some ChangeAvailabilityResponse_V2_1)
     (StructOf ''ChangeAvailabilityRequest'' [
      Required ''operationalStatus'' (EnumOf OperationalStatus_V2_1),
      Optional ''evse'' EVSE_V2_1,
      Optional ''customData'' CustomData])"

definition ChangeTransactionTariffRequest_V2_1 :: request_type where
  "ChangeTransactionTariffRequest_V2_1 = RequestType ''ChangeTransactionTariff'' Call CsmsOrigin (Some ChangeTransactionTariffResponse_V2_1)
     (StructOf ''ChangeTransactionTariffRequest'' [
      Required ''tariff'' Tariff_V2_1,
      Required ''transactionId'' (StringOf None (Some 36)),
      Optional ''customData'' CustomData])"

definition ClearCacheRequest_V2_1 :: request_type where
  "ClearCacheRequest_V2_1 = RequestType ''ClearCache'' Call CsmsOrigin (Some ClearCacheResponse_V2_1)
     (StructOf ''ClearCacheRequest'' [
      Optional ''customData'' CustomData])"

definition ClearChargingProfileRequest_V2_1 :: request_type where
  "ClearChargingProfileRequest_V2_1 = RequestType ''ClearChargingProfile'' Call CsmsOrigin (Some ClearChargingProfileResponse_V2_1)
     (StructOf ''ClearChargingProfileRequest'' [
      Optional ''chargingProfileId'' (IntegerOf None None),
      Optional ''chargingProfileCriteria'' ClearChargingProfile_V2_1,
      Optional ''customData'' CustomData])"

definition ClearDERControlRequest_V2_1 :: request_type where
  "ClearDERControlRequest_V2_1 = RequestType ''ClearDERControl'' Call CsmsOrigin (Some ClearDERControlResponse_V2_1)
     (StructOf ''ClearDERControlRequest'' [
      Required ''isDefault'' FlagOf,
      Optional ''controlType'' (EnumOf DERControl_V2_1),
      Optional ''controlId'' (StringOf None (Some 36)),
      Optional ''customData'' CustomData])"

definition ClearDisplayMessageRequest_V2_1 :: request_type where
  "ClearDisplayMessageRequest_V2_1 = RequestType ''ClearDisplayMessage'' Call CsmsOrigin (Some ClearDisplayMessageResponse_V2_1)
     (StructOf ''ClearDisplayMessageRequest'' [
      Required ''id'' (IntegerOf (Some 0) None),
      Optional ''customData'' CustomData])"

definition ClearTariffsRequest_V2_1 :: request_type where
  "ClearTariffsRequest_V2_1 = RequestType ''ClearTariffs'' Call CsmsOrigin (Some ClearTariffsResponse_V2_1)
     (StructOf ''ClearTariffsRequest'' [
      Optional ''tariffIds'' (VecOf (Some 1) None (StringOf None (Some 60))),
      Optional ''evseId'' (IntegerOf (Some 0) None),
      Optional ''customData'' CustomData])"

definition ClearVariableMonitoringRequest_V2_1 :: request_type where
  "ClearVariableMonitoringRequest_V2_1 = RequestType ''ClearVariableMonitoring'' Call CsmsOrigin (Some ClearVariableMonitoringResponse_V2_1)
     (StructOf ''ClearVariableMonitoringRequest'' [
      Required ''id'' (VecOf (Some 1) None (IntegerOf (Some 0) None)),
      Optional ''customData'' CustomData])"

definition ClearedChargingLimitRequest_V2_1 :: request_type where
  "ClearedChargingLimitRequest_V2_1 = RequestType ''ClearedChargingLimit'' Call ChargingStationOrigin (Some ClearedChargingLimitResponse_V2_1)
     (StructOf ''ClearedChargingLimitRequest'' [
      Required ''chargingLimitSource'' (StringOf None (Some 20)),
      Optional ''evseId'' (IntegerOf (Some 0) None),
      Optional ''customData'' CustomData])"

definition ClosePeriodicEventStreamRequest_V2_1 :: request_type where
  "ClosePeriodicEventStreamRequest_V2_1 = RequestType ''ClosePeriodicEventStream'' Call ChargingStationOrigin (Some ClosePeriodicEventStreamResponse_V2_1)
     (StructOf ''ClosePeriodicEventStreamRequest'' [
      Required ''id'' (IntegerOf (Some 0) None),
      Optional ''customData'' CustomData])"

definition CostUpdatedRequest_V2_1 :: request_type where
  "CostUpdatedRequest_V2_1 = RequestType ''CostUpdated'' Call CsmsOrigin (Some CostUpdatedResponse_V2_1)
     (StructOf ''CostUpdatedRequest'' [
      Required ''totalCost'' (NumberOf None None),
      Required ''transactionId'' (StringOf None (Some 36)),
      Optional ''customData'' CustomData])"

definition CustomerInformationRequest_V2_1 :: request_type where
  "CustomerInformationRequest_V2_1 = RequestType ''CustomerInformation'' Call CsmsOrigin (Some CustomerInformationResponse_V2_1)
     (StructOf ''CustomerInformationRequest'' [
      Required ''requestId'' (IntegerOf (Some 0) None),
      Required ''report'' FlagOf,
      Required ''clear'' FlagOf,
      Optional ''customerCertificate'' CertificateHashData_V2_1,
      Optional ''idToken'' IdToken_V2_1,
      Optional ''customerIdentifier'' (StringOf None (Some 64)),
      Optional ''customData'' CustomData])"

definition DataTransferRequest_V2_1 :: request_type where
  "DataTransferRequest_V2_1 = RequestType ''DataTransfer'' Call BothOrigin (Some DataTransferResponse_V2_1)
     (StructOf ''DataTransferRequest'' [
      Required ''vendorId'' (StringOf None (Some 255)),
      Optional ''messageId'' (StringOf None (Some 50)),
      Optional ''data'' (PlainOf ''Value''),
      Optional ''customData'' CustomData])"

definition DeleteCertificateRequest_V2_1 :: request_type where
  "DeleteCertificateRequest_V2_1 = RequestType ''DeleteCertificate'' Call CsmsOrigin (Some DeleteCertificateResponse_V2_1)
     (StructOf ''DeleteCertificateRequest'' [
      Required ''certificateHashData'' CertificateHashData_V2_1,
      Optional ''customData'' CustomData])"

definition FirmwareStatusNotificationRequest_V2_1 :: request_type where
  "FirmwareStatusNotificationRequest_V2_1 = RequestType ''FirmwareStatusNotification'' Call ChargingStationOrigin (Some FirmwareStatusNotificationResponse_V2_1)
     (StructOf ''FirmwareStatusNotificationRequest'' [
      Required ''status'' (EnumOf FirmwareStatus_V2_1),
      Optional ''requestId'' (IntegerOf None None),
      Optional ''statusInfo'' StatusInfo_V2_1,
      Optional ''customData'' CustomData])"

definition Get15118EVCertificateRequest_V2_1 :: request_type where
  "Get15118EVCertificateRequest_V2_1 = RequestType ''Get15118EVCertificate'' Call ChargingStationOrigin (Some Get15118EVCertificateResponse_V2_1)
     (StructOf ''Get15118EVCertificateRequest'' [
      Required ''iso15118SchemaVersion'' (StringOf None (Some 50)),
      Required ''action'' (EnumOf CertificateAction_V2_1),
      Required ''exiRequest'' (StringOf None (Some 11000)),
      Optional ''maximumContractCertificateChains'' (IntegerOf (Some 0) None),
      Optional ''prioritizedEMAIDs'' (VecOf (Some 1) (Some 8) (StringOf None (Some 255))),
      Optional ''customData'' CustomData])"

definition GetBaseReportRequest_V2_1 :: request_type where
  "GetBaseReportRequest_V2_1 = RequestType ''GetBaseReport'' Call CsmsOrigin (Some GetBaseReportResponse_V2_1)
     (StructOf ''GetBaseReportRequest'' [
      Required ''requestId'' (IntegerOf None None),
      Required ''reportBase'' (EnumOf ReportBase_V2_1),
      Optional ''customData'' CustomData])"

definition GetCertificateChainStatusRequest_V2_1 :: request_type where
  "GetCertificateChainStatusRequest_V2_1 = RequestType ''GetCertificateChainStatus'' Call ChargingStationOrigin (Some GetCertificateChainStatusResponse_V2_1)
     (StructOf ''GetCertificateChainStatusRequest'' [
      Required ''certificateStatusRequests'' (VecOf (Some 1) (Some 4) CertificateStatusRequestInfo_V2_1),
      Optional ''customData'' CustomData])"

definition GetCertificateStatusRequest_V2_1 :: request_type where
  "GetCertificateStatusRequest_V2_1 = RequestType ''GetCertificateStatus'' Call ChargingStationOrigin (Some GetCertificateStatusResponse_V2_1)
     (StructOf ''GetCertificateStatusRequest'' [
      Required ''ocspRequestData'' OCSPRequestData_V2_1,
      Optional ''customData'' CustomData])"

definition GetChargingProfilesRequest_V2_1 :: request_type where
  "GetChargingProfilesRequest_V2_1 = RequestType ''GetChargingProfiles'' Call CsmsOrigin (Some GetChargingProfilesResponse_V2_1)
     (StructOf ''GetChargingProfilesRequest'' [
      Required ''requestId'' (IntegerOf None None),
      Required ''chargingProfile'' ChargingProfileCriterion_V2_1,
      Optional ''evseId'' (IntegerOf (Some 0) None),
      Optional ''customData'' CustomData])"

definition GetCompositeScheduleRequest_V2_1 :: request_type where
  "GetCompositeScheduleRequest_V2_1 = RequestType ''GetCompositeSchedule'' Call CsmsOrigin (Some GetCompositeScheduleResponse_V2_1)
     (StructOf ''GetCompositeScheduleRequest'' [
      Required ''duration'' (IntegerOf None None),
      Required ''evseId'' (IntegerOf (Some 0) None),
      Optional ''chargingRateUnit'' (EnumOf ChargingRateUnit_V2_1),
      Optional ''customData'' CustomData])"

definition GetDERControlRequest_V2_1 :: request_type where
  "GetDERControlRequest_V2_1 = RequestType ''GetDERControl'' Call CsmsOrigin (Some GetDERControlResponse_V2_1)
     (StructOf ''GetDERControlRequest'' [
      Required ''requestId'' (IntegerOf None None),
      Optional ''isDefault'' FlagOf,
      Optional ''controlType'' (EnumOf DERControl_V2_1),
      Optional ''controlId'' (StringOf None (Some 36)),
      Optional ''customData'' CustomData])"

definition GetDisplayMessagesRequest_V2_1 :: request_type where
  "GetDisplayMessagesRequest_V2_1 = RequestType ''GetDisplayMessages'' Call CsmsOrigin (Some GetDisplayMessagesResponse_V2_1)
     (StructOf ''GetDisplayMessagesRequest'' [
      Required ''requestId'' (IntegerOf None None),
      Optional ''id'' (VecOf (Some 1) None (IntegerOf (Some 0) None)),
      Optional ''priority'' (EnumOf MessagePriority_V2_1),
      Optional ''state'' (EnumOf MessageState_V2_1),
      Optional ''customData'' CustomData])"

definition GetInstalledCertificateIdsRequest_V2_1 :: request_type where
  "GetInstalledCertificateIdsRequest_V2_1 = RequestType ''GetInstalledCertificateIds'' Call CsmsOrigin (Some GetInstalledCertificateIdsResponse_V2_1)
     (StructOf ''GetInstalledCertificateIdsRequest'' [
      Optional ''certificateType'' (VecOf (Some 1) None (EnumOf GetCertificateIdUse_V2_1)),
      Optional ''customData'' CustomData])"

definition GetLocalListVersionRequest_V2_1 :: request_type where
  "GetLocalListVersionRequest_V2_1 = RequestType ''GetLocalListVersion'' Call CsmsOrigin (Some GetLocalListVersionResponse_V2_1)
     (StructOf ''GetLocalListVersionRequest'' [
      Optional ''customData'' CustomData])"

definition GetLogRequest_V2_1 :: request_type where
  "GetLogRequest_V2_1 = RequestType ''GetLog'' Call CsmsOrigin (Some GetLogResponse_V2_1)
     (StructOf ''GetLogRequest'' [
      Required ''log'' LogParameters_V2_1,
      Required ''logType'' (EnumOf Log_V2_1),
      Required ''requestId'' (IntegerOf None None),
      Optional ''retries'' (IntegerOf (Some 0) None),
      Optional ''retryInterval'' (IntegerOf None None),
      Optional ''customData'' CustomData])"

definition GetMonitoringReportRequest_V2_1 :: request_type where
  "GetMonitoringReportRequest_V2_1 = RequestType ''GetMonitoringReport'' Call CsmsOrigin (Some GetMonitoringReportResponse_V2_1)
     (StructOf ''GetMonitoringReportRequest'' [
      Required ''requestId'' (IntegerOf None None),
      Optional ''componentVariable'' (VecOf (Some 1) None ComponentVariable_V2_1),
      Optional ''monitoringCriteria'' (VecOf (Some 1) (Some 3) (EnumOf MonitoringCriterion_V2_1)),
      Optional ''customData'' CustomData])"

definition GetPeriodicEventStreamRequest_V2_1 :: request_type where
  "GetPeriodicEventStreamRequest_V2_1 = RequestType ''GetPeriodicEventStream'' Call CsmsOrigin (Some GetPeriodicEventStreamResponse_V2_1)
     (StructOf ''GetPeriodicEventStreamRequest'' [
      Optional ''customData'' CustomData])"

definition GetReportRequest_V2_1 :: request_type where
  "GetReportRequest_V2_1 = RequestType ''GetReport'' Call CsmsOrigin (Some GetReportResponse_V2_1)
     (StructOf ''GetReportRequest'' [
      Required ''requestId'' (IntegerOf None None),
      Optional ''componentVariable'' (VecOf (Some 1) None ComponentVariable_V2_1),
      Optional ''componentCriteria'' (VecOf (Some 1) (Some 4) (EnumOf ComponentCriterion_V2_1)),
      Optional ''customData'' CustomData])"

definition GetTariffsRequest_V2_1 :: request_type where
  "GetTariffsRequest_V2_1 = RequestType ''GetTariffs'' Call CsmsOrigin (Some GetTariffsResponse_V2_1)
     (StructOf ''GetTariffsRequest'' [
      Required ''evseId'' (IntegerOf (Some 0) None),
      Optional ''customData'' CustomData])"

definition GetTransactionStatusRequest_V2_1 :: request_type where
  "GetTransactionStatusRequest_V2_1 = RequestType ''GetTransactionStatus'' Call CsmsOrigin (Some GetTransactionStatusResponse_V2_1)
     (StructOf ''GetTransactionStatusRequest'' [
      Optional ''transactionId'' (StringOf None (Some 36)),
      Optional ''customData'' CustomData])"

definition GetVariablesRequest_V2_1 :: request_type where
  "GetVariablesRequest_V2_1 = RequestType ''GetVariables'' Call CsmsOrigin (Some GetVariablesResponse_V2_1)
     (StructOf ''GetVariablesRequest'' [
      Required ''getVariableData'' (VecOf (Some 1) None GetVariableData_V2_1),
      Optional ''customData'' CustomData])"

definition HeartbeatRequest_V2_1 :: request_type where
  "HeartbeatRequest_V2_1 = RequestType ''Heartbeat'' Call ChargingStationOrigin (Some HeartbeatResponse_V2_1)
     (StructOf ''HeartbeatRequest'' [
      Optional ''customData'' CustomData])"

definition InstallCertificateRequest_V2_1 :: request_type where
  "InstallCertificateRequest_V2_1 = RequestType ''InstallCertificate'' Call CsmsOrigin (Some InstallCertificateResponse_V2_1)
     (StructOf ''InstallCertificateRequest'' [
      Required ''certificateType'' (EnumOf InstallCertificateUse_V2_1),
      Required ''certificate'' (StringOf None (Some 10000)),
      Optional ''customData'' CustomData])"

definition LogStatusNotificationRequest_V2_1 :: request_type where
  "LogStatusNotificationRequest_V2_1 = RequestType ''LogStatusNotification'' Call ChargingStationOrigin (Some LogStatusNotificationResponse_V2_1)
     (StructOf ''LogStatusNotificationRequest'' [
      Required ''status'' (EnumOf UploadLogStatus_V2_1),
      Optional ''requestId'' (IntegerOf None None),
      Optional ''statusInfo'' StatusInfo_V2_1,
      Optional ''customData'' CustomData])"

definition MeterValuesRequest_V2_1 :: request_type where
  "MeterValuesRequest_V2_1 = RequestType ''MeterValues'' Call ChargingStationOrigin (Some MeterValuesResponse_V2_1)
     (StructOf ''MeterValuesRequest'' [
      Required ''evseId'' (IntegerOf (Some 0) None),
      Required ''meterValue'' (VecOf (Some 1) None MeterValue_V2_1),
      Optional ''customData'' CustomData])"

definition NotifyAllowedEnergyTransferRequest_V2_1 :: request_type where
  "NotifyAllowedEnergyTransferRequest_V2_1 = RequestType ''NotifyAllowedEnergyTransfer'' Call CsmsOrigin (Some NotifyAllowedEnergyTransferResponse_V2_1)
     (StructOf ''NotifyAllowedEnergyTransferRequest'' [
      Required ''transactionId'' (StringOf None (Some 36)),
      Required ''allowedEnergyTransfer'' (VecOf (Some 1) None (EnumOf EnergyTransferMode_V2_1)),
      Optional ''customData'' CustomData])"

definition NotifyChargingLimitRequest_V2_1 :: request_type where
  "NotifyChargingLimitRequest_V2_1 = RequestType ''NotifyChargingLimit'' Call ChargingStationOrigin (Some NotifyChargingLimitResponse_V2_1)
     (StructOf ''NotifyChargingLimitRequest'' [
      Required ''chargingLimit'' ChargingLimit_V2_1,
      Optional ''chargingSchedule'' (VecOf (Some 1) None ChargingSchedule_V2_1),
      Optional ''evseId'' (IntegerOf (Some 0) None),
      Optional ''customData'' CustomData])"

definition NotifyCustomerInformationRequest_V2_1 :: request_type where
  "NotifyCustomerInformationRequest_V2_1 = RequestType ''NotifyCustomerInformation'' Call ChargingStationOrigin (Some NotifyCustomerInformationResponse_V2_1)
     (StructOf ''NotifyCustomerInformationRequest'' [
      Required ''data'' (StringOf None (Some 512)),
      Required ''seqNo'' (IntegerOf (Some 0) None),
      Required ''generatedAt'' (PlainOf ''DateTime''),
      Required ''requestId'' (IntegerOf (Some 0) None),
      Optional ''tbc'' FlagOf,
      Optional ''customData'' CustomData])"

definition NotifyDERAlarmRequest_V2_1 :: request_type where
  "NotifyDERAlarmRequest_V2_1 = RequestType ''NotifyDERAlarm'' Call ChargingStationOrigin (Some NotifyDERAlarmResponse_V2_1)
     (StructOf ''NotifyDERAlarmRequest'' [
      Required ''controlType'' (EnumOf DERControl_V2_1),
      Required ''timestamp'' (PlainOf ''DateTime''),
      Optional ''gridEventFault'' (EnumOf GridEventFault_V2_1),
      Optional ''alarmEnded'' FlagOf,
      Optional ''extraInfo'' (StringOf None (Some 200)),
      Optional ''customData'' CustomData])"

definition NotifyDERStartStopRequest_V2_1 :: request_type where
  "NotifyDERStartStopRequest_V2_1 = RequestType ''NotifyDERStartStop'' Call ChargingStationOrigin (Some NotifyDERStartStopResponse_V2_1)
     (StructOf ''NotifyDERStartStopRequest'' [
      Required ''controlId'' (StringOf None (Some 36)),
      Required ''started'' FlagOf,
      Required ''timestamp'' (PlainOf ''DateTime''),
      Optional ''supersededIds'' (VecOf (Some 1) (Some 24) (StringOf None (Some 36))),
      Optional ''customData'' CustomData])"

definition NotifyDisplayMessagesRequest_V2_1 :: request_type where
  "NotifyDisplayMessagesRequest_V2_1 = RequestType ''NotifyDisplayMessages'' Call ChargingStationOrigin (Some NotifyDisplayMessagesResponse_V2_1)
     (StructOf ''NotifyDisplayMessagesRequest'' [
      Required ''requestId'' (IntegerOf None None),
      Optional ''messageInfo'' (VecOf (Some 1) None MessageInfo_V2_1),
      Optional ''tbc'' FlagOf,
      Optional ''customData'' CustomData])"

definition NotifyEVChargingNeedsRequest_V2_1 :: request_type where
  "NotifyEVChargingNeedsRequest_V2_1 = RequestType ''NotifyEVChargingNeeds'' Call ChargingStationOrigin (Some NotifyEVChargingNeedsResponse_V2_1)
     (StructOf ''NotifyEVChargingNeedsRequest'' [
      Required ''evseId'' (IntegerOf (Some 1) None),
      Required ''chargingNeeds'' ChargingNeeds_V2_1,
      Optional ''maxScheduleTuples'' (IntegerOf (Some 0) None),
      Optional ''timestamp'' (PlainOf ''DateTime''),
      Optional ''customData'' CustomData])"

definition NotifyEVChargingScheduleRequest_V2_1 :: request_type where
  "NotifyEVChargingScheduleRequest_V2_1 = RequestType ''NotifyEVChargingSchedule'' Call ChargingStationOrigin (Some NotifyEVChargingScheduleResponse_V2_1)
     (StructOf ''NotifyEVChargingScheduleRequest'' [
      Required ''timeBase'' (PlainOf ''DateTime''),
      Required ''chargingSchedule'' ChargingSchedule_V2_1,
      Required ''evseId'' (IntegerOf (Some 1) None),
      Optional ''selectedChargingScheduleId'' (IntegerOf (Some 0) None),
      Optional ''powerToleranceAcceptance'' FlagOf,
      Optional ''customData'' CustomData])"

definition NotifyEventRequest_V2_1 :: request_type where
  "NotifyEventRequest_V2_1 = RequestType ''NotifyEvent'' Call ChargingStationOrigin (Some NotifyEventResponse_V2_1)
     (StructOf ''NotifyEventRequest'' [
      Required ''generatedAt'' (PlainOf ''DateTime''),
      Required ''seqNo'' (IntegerOf (Some 0) None),
      Required ''eventData'' (VecOf (Some 1) None EventData_V2_1),
      Optional ''tbc'' FlagOf,
      Optional ''customData'' CustomData])"

definition NotifyMonitoringReportRequest_V2_1 :: request_type where
  "NotifyMonitoringReportRequest_V2_1 = RequestType ''NotifyMonitoringReport'' Call ChargingStationOrigin (Some NotifyMonitoringReportResponse_V2_1)
     (StructOf ''NotifyMonitoringReportRequest'' [
      Required ''requestId'' (IntegerOf None None),
      Required ''seqNo'' (IntegerOf (Some 0) None),
      Required ''generatedAt'' (PlainOf ''DateTime''),
      Optional ''monitor'' (VecOf (Some 1) None MonitoringData_V2_1),
      Optional ''tbc'' FlagOf,
      Optional ''customData'' CustomData])"

definition NotifyPeriodicEventStreamRequest_V2_1 :: request_type where
  "NotifyPeriodicEventStreamRequest_V2_1 = RequestType ''NotifyPeriodicEventStream'' Send ChargingStationOrigin None
     (StructOf ''NotifyPeriodicEventStreamRequest'' [
      Required ''data'' (VecOf (Some 1) None StreamDataElement_V2_1),
      Required ''id'' (IntegerOf (Some 0) None),
      Required ''pending'' (IntegerOf (Some 0) None),
      Required ''basetime'' (PlainOf ''DateTime''),
      Optional ''customData'' CustomData])"

definition NotifyPriorityChargingRequest_V2_1 :: request_type where
  "NotifyPriorityChargingRequest_V2_1 = RequestType ''NotifyPriorityCharging'' Call ChargingStationOrigin (Some NotifyPriorityChargingResponse_V2_1)
     (StructOf ''NotifyPriorityChargingRequest'' [
      Required ''transactionId'' (StringOf None (Some 36)),
      Required ''activated'' FlagOf,
      Optional ''customData'' CustomData])"

definition NotifyReportRequest_V2_1 :: request_type where
  "NotifyReportRequest_V2_1 = RequestType ''NotifyReport'' Call ChargingStationOrigin (Some NotifyReportResponse_V2_1)
     (StructOf ''NotifyReportRequest'' [
      Required ''requestId'' (IntegerOf None None),
      Required ''generatedAt'' (PlainOf ''DateTime''),
      Required ''seqNo'' (IntegerOf (Some 0) None),
      Optional ''reportData'' (VecOf (Some 1) None ReportData_V2_1),
      Optional ''tbc'' FlagOf,
      Optional ''customData'' CustomData])"

definition NotifySettlementRequest_V2_1 :: request_type where
  "NotifySettlementRequest_V2_1 = RequestType ''NotifySettlement'' Call ChargingStationOrigin (Some NotifySettlementResponse_V2_1)
     (StructOf ''NotifySettlementRequest'' [
      Required ''pspRef'' (StringOf None (Some 255)),
      Required ''status'' (EnumOf PaymentStatus_V2_1),
      Required ''settlementAmount'' (NumberOf None None),
      Required ''settlementTime'' (PlainOf ''DateTime''),
      Optional ''transactionId'' (StringOf None (Some 36)),
      Optional ''statusInfo'' (StringOf None (Some 500)),
      Optional ''receiptId'' (StringOf None (Some 50)),
      Optional ''receiptUrl'' (StringOf None (Some 2000)),
      Optional ''vatCompany'' Address_V2_1,
      Optional ''vatNumber'' (StringOf None (Some 20)),
      Optional ''customData'' CustomData])"

definition NotifyWebPaymentStartedRequest_V2_1 :: request_type where
  "NotifyWebPaymentStartedRequest_V2_1 = RequestType ''NotifyWebPaymentStarted'' Call ChargingStationOrigin (Some NotifyWebPaymentStartedResponse_V2_1)
     (StructOf ''NotifyWebPaymentStartedRequest'' [
      Required ''evseId'' (IntegerOf (Some 0) None),
      Required ''timeout'' (IntegerOf None None),
      Optional ''customData'' CustomData])"

definition OpenPeriodicEventStreamRequest_V2_1 :: request_type where
  "OpenPeriodicEventStreamRequest_V2_1 = RequestType ''OpenPeriodicEventStream'' Call ChargingStationOrigin (Some OpenPeriodicEventStreamResponse_V2_1)
     (StructOf ''OpenPeriodicEventStreamRequest'' [
      Required ''constantStreamData'' ConstantStreamData_V2_1,
      Optional ''customData'' CustomData])"

definition PublishFirmwareRequest_V2_1 :: request_type where
  "PublishFirmwareRequest_V2_1 = RequestType ''PublishFirmware'' Call CsmsOrigin (Some PublishFirmwareResponse_V2_1)
     (StructOf ''PublishFirmwareRequest'' [
      Required ''location'' (StringOf None (Some 2000)),
      Required ''checksum'' (StringOf None (Some 32)),
      Required ''requestId'' (IntegerOf (Some 0) None),
      Optional ''retries'' (IntegerOf (Some 0) None),
      Optional ''retryInterval'' (IntegerOf (Some 0) None),
      Optional ''customData'' CustomData])"

definition PublishFirmwareStatusNotificationRequest_V2_1 :: request_type where
  "PublishFirmwareStatusNotificationRequest_V2_1 = RequestType ''PublishFirmwareStatusNotification'' Call ChargingStationOrigin (Some PublishFirmwareStatusNotificationResponse_V2_1)
     (StructOf ''PublishFirmwareStatusNotificationRequest'' [
      Required ''status'' (EnumOf PublishFirmwareStatus_V2_1),
      Optional ''location'' (VecOf (Some 1) None (StringOf None (Some 2000))),
      Optional ''requestId'' (IntegerOf (Some 0) None),
      Optional ''statusInfo'' StatusInfo_V2_1,
      Optional ''customData'' CustomData])"

definition PullDynamicScheduleUpdateRequest_V2_1 :: request_type where
  "PullDynamicScheduleUpdateRequest_V2_1 = RequestType ''PullDynamicScheduleUpdate'' Call ChargingStationOrigin (Some PullDynamicScheduleUpdateResponse_V2_1)
     (StructOf ''PullDynamicScheduleUpdateRequest'' [
      Required ''chargingProfileId'' (IntegerOf None None),
      Optional ''customData'' CustomData])"

definition ReportChargingProfilesRequest_V2_1 :: request_type where
  "ReportChargingProfilesRequest_V2_1 = RequestType ''ReportChargingProfiles'' Call ChargingStationOrigin (Some ReportChargingProfilesResponse_V2_1)
     (StructOf ''ReportChargingProfilesRequest'' [
      Required ''requestId'' (IntegerOf None None),
      Required ''chargingLimitSource'' (StringOf None (Some 20)),
      Required ''chargingProfile'' (VecOf (Some 1) None ChargingProfile_V2_1),
      Required ''evseId'' (IntegerOf (Some 0) None),
      Optional ''tbc'' FlagOf,
      Optional ''customData'' CustomData])"

definition ReportDERControlRequest_V2_1 :: request_type where
  "ReportDERControlRequest_V2_1 = RequestType ''ReportDERControl'' Call ChargingStationOrigin (Some ReportDERControlResponse_V2_1)
     (StructOf ''ReportDERControlRequest'' [
      Required ''requestId'' (IntegerOf None None),
      Optional ''curve'' (VecOf (Some 1) (Some 24) DERCurveGet_V2_1),
      Optional ''enterService'' (VecOf (Some 1) (Some 24) EnterServiceGet_V2_1),
      Optional ''fixedPFAbsorb'' (VecOf (Some 1) (Some 24) FixedPFGet_V2_1),
      Optional ''fixedPFInject'' (VecOf (Some 1) (Some 24) FixedPFGet_V2_1),
      Optional ''fixedVar'' (VecOf (Some 1) (Some 24) FixedVarGet_V2_1),
      Optional ''freqDroop'' (VecOf (Some 1) (Some 24) FreqDroopGet_V2_1),
      Optional ''gradient'' (VecOf (Some 1) (Some 24) GradientGet_V2_1),
      Optional ''limitMaxDischarge'' (VecOf (Some 1) (Some 24) LimitMaxDischargeGet_V2_1),
      Optional ''tbc'' FlagOf,
      Optional ''customData'' CustomData])"

definition RequestBatterySwapRequest_V2_1 :: request_type where
  "RequestBatterySwapRequest_V2_1 = RequestType ''RequestBatterySwap'' Call CsmsOrigin (Some RequestBatterySwapResponse_V2_1)
     (StructOf ''RequestBatterySwapRequest'' [
      Required ''idToken'' IdToken_V2_1,
      Required ''requestId'' (IntegerOf None None),
      Optional ''customData'' CustomData])"

definition RequestStartTransactionRequest_V2_1 :: request_type where
  "RequestStartTransactionRequest_V2_1 = RequestType ''RequestStartTransaction'' Call CsmsOrigin (Some RequestStartTransactionResponse_V2_1)
     (StructOf ''RequestStartTransactionRequest'' [
      Required ''idToken'' IdToken_V2_1,
      Required ''remoteStartId'' (IntegerOf None None),
      Optional ''evseId'' (IntegerOf (Some 1) None),
      Optional ''groupIdToken'' IdToken_V2_1,
      Optional ''chargingProfile'' ChargingProfile_V2_1,
      Optional ''customData'' CustomData])"

definition RequestStopTransactionRequest_V2_1 :: request_type where
  "RequestStopTransactionRequest_V2_1 = RequestType ''RequestStopTransaction'' Call CsmsOrigin (Some RequestStopTransactionResponse_V2_1)
     (StructOf ''RequestStopTransactionRequest'' [
      Required ''transactionId'' (StringOf None (Some 36)),
      Optional ''customData'' CustomData])"

definition ReservationStatusUpdateRequest_V2_1 :: request_type where
  "ReservationStatusUpdateRequest_V2_1 = RequestType ''ReservationStatusUpdate'' Call ChargingStationOrigin (Some ReservationStatusUpdateResponse_V2_1)
     (StructOf ''ReservationStatusUpdateRequest'' [
      Required ''reservationId'' (IntegerOf (Some 0) None),
      Required ''reservationUpdateStatus'' (EnumOf ReservationUpdateStatus_V2_1),
      Optional ''customData'' CustomData])"

definition ReserveNowRequest_V2_1 :: request_type where
  "ReserveNowRequest_V2_1 = RequestType ''ReserveNow'' Call CsmsOrigin (Some ReserveNowResponse_V2_1)
     (StructOf ''ReserveNowRequest'' [
      Required ''id'' (IntegerOf (Some 0) None),
      Required ''expiryDateTime'' (PlainOf ''DateTime''),
      Required ''idToken'' IdToken_V2_1,
      Optional ''connectorType'' (StringOf None (Some 20)),
      Optional ''evseId'' (IntegerOf (Some 0) None),
      Optional ''groupIdToken'' IdToken_V2_1,
      Optional ''customData'' CustomData])"

definition ResetRequest_V2_1 :: request_type where
  "ResetRequest_V2_1 = RequestType ''Reset'' Call CsmsOrigin (Some ResetResponse_V2_1)
     (StructOf ''ResetRequest'' [
      Required ''type'' (EnumOf ResetEnum_V2_1),
      Optional ''evseId'' (IntegerOf (Some 0) None),
      Optional ''customData'' CustomData])"

definition SecurityEventNotificationRequest_V2_1 :: request_type where
  "SecurityEventNotificationRequest_V2_1 = RequestType ''SecurityEventNotification'' Call ChargingStationOrigin (Some SecurityEventNotificationResponse_V2_1)
     (StructOf ''SecurityEventNotificationRequest'' [
      Required ''type'' (StringOf None (Some 50)),
      Required ''timestamp'' (PlainOf ''DateTime''),
      Optional ''techInfo'' (StringOf None (Some 255)),
      Optional ''customData'' CustomData])"

definition SendLocalListRequest_V2_1 :: request_type where
  "SendLocalListRequest_V2_1 = RequestType ''SendLocalList'' Call CsmsOrigin (Some SendLocalListResponse_V2_1)
     (StructOf ''SendLocalListRequest'' [
      Required ''versionNumber'' (IntegerOf None None),
      Required ''updateType'' (EnumOf Update_V2_1),
      Optional ''localAuthorizationList'' (VecOf (Some 1) None AuthorizationData_V2_1),
      Optional ''customData'' CustomData])"

definition SetChargingProfileRequest_V2_1 :: request_type where
  "SetChargingProfileRequest_V2_1 = RequestType ''SetChargingProfile'' Call CsmsOrigin (Some SetChargingProfileResponse_V2_1)
     (StructOf ''SetChargingProfileRequest'' [
      Required ''evseId'' (IntegerOf (Some 0) None),
      Required ''chargingProfile'' ChargingProfile_V2_1,
      Optional ''customData'' CustomData])"

definition SetDERControlRequest_V2_1 :: request_type where
  "SetDERControlRequest_V2_1 = RequestType ''SetDERControl'' Call CsmsOrigin (Some SetDERControlResponse_V2_1)
     (StructOf ''SetDERControlRequest'' [
      Required ''isDefault'' FlagOf,
      Required ''controlId'' (StringOf None (Some 36)),
      Required ''controlType'' (EnumOf DERControl_V2_1),
      Optional ''curve'' DERCurve_V2_1,
      Optional ''enterService'' EnterService_V2_1,
      Optional ''fixedPFAbsorb'' FixedPF_V2_1,
      Optional ''fixedPFInject'' FixedPF_V2_1,
      Optional ''fixedVar'' FixedVar_V2_1,
      Optional ''freqDroop'' FreqDroop_V2_1,
      Optional ''gradient'' Gradient_V2_1,
      Optional ''limitMaxDischarge'' LimitMaxDischarge_V2_1,
      Optional ''customData'' CustomData])"

definition SetDefaultTariffRequest_V2_1 :: request_type where
  "SetDefaultTariffRequest_V2_1 = RequestType ''SetDefaultTariff'' Call CsmsOrigin (Some SetDefaultTariffResponse_V2_1)
     (StructOf ''SetDefaultTariffRequest'' [
      Required ''evseId'' (IntegerOf (Some 0) None),
      Required ''tariff'' Tariff_V2_1,
      Optional ''customData'' CustomData])"

definition SetDisplayMessageRequest_V2_1 :: request_type where
  "SetDisplayMessageRequest_V2_1 = RequestType ''SetDisplayMessage'' Call CsmsOrigin (Some SetDisplayMessageResponse_V2_1)
     (StructOf ''SetDisplayMessageRequest'' [
      Required ''message'' MessageInfo_V2_1,
      Optional ''customData'' CustomData])"

definition SetMonitoringBaseRequest_V2_1 :: request_type where
  "SetMonitoringBaseRequest_V2_1 = RequestType ''SetMonitoringBase'' Call CsmsOrigin (Some SetMonitoringBaseResponse_V2_1)
     (StructOf ''SetMonitoringBaseRequest'' [
      Required ''monitoringBase'' (EnumOf MonitoringBase_V2_1),
      Optional ''customData'' CustomData])"

definition SetMonitoringLevelRequest_V2_1 :: request_type where
  "SetMonitoringLevelRequest_V2_1 = RequestType ''SetMonitoringLevel'' Call CsmsOrigin (Some SetMonitoringLevelResponse_V2_1)
     (StructOf ''SetMonitoringLevelRequest'' [
      Required ''severity'' (IntegerOf (Some 0) None),
      Optional ''customData'' CustomData])"

definition SetNetworkProfileRequest_V2_1 :: request_type where
  "SetNetworkProfileRequest_V2_1 = RequestType ''SetNetworkProfile'' Call CsmsOrigin (Some SetNetworkProfileResponse_V2_1)
     (StructOf ''SetNetworkProfileRequest'' [
      Required ''configurationSlot'' (IntegerOf None None),
      Required ''connectionData'' NetworkConnectionProfile_V2_1,
      Optional ''customData'' CustomData])"

definition SetVariableMonitoringRequest_V2_1 :: request_type where
  "SetVariableMonitoringRequest_V2_1 = RequestType ''SetVariableMonitoring'' Call CsmsOrigin (Some SetVariableMonitoringResponse_V2_1)
     (StructOf ''SetVariableMonitoringRequest'' [
      Required ''setMonitoringData'' (VecOf (Some 1) None SetMonitoringData_V2_1),
      Optional ''customData'' CustomData])"

definition SetVariablesRequest_V2_1 :: request_type where
  "SetVariablesRequest_V2_1 = RequestType ''SetVariables'' Call CsmsOrigin (Some SetVariablesResponse_V2_1)
     (StructOf ''SetVariablesRequest'' [
      Required ''setVariableData'' (VecOf (Some 1) None SetVariableData_V2_1),
      Optional ''customData'' CustomData])"

definition SignCertificateRequest_V2_1 :: request_type where
  "SignCertificateRequest_V2_1 = RequestType ''SignCertificate'' Call ChargingStationOrigin (Some SignCertificateResponse_V2_1)
     (StructOf ''SignCertificateRequest'' [
      Required ''csr'' (StringOf None (Some 5500)),
      Optional ''certificateType'' (EnumOf CertificateSigningUse_V2_1),
      Optional ''hashRootCertificate'' CertificateHashData_V2_1,
      Optional ''requestId'' (IntegerOf None None),
      Optional ''customData'' CustomData])"

definition StatusNotificationRequest_V2_1 :: request_type where
  "StatusNotificationRequest_V2_1 = RequestType ''StatusNotification'' Call ChargingStationOrigin (Some StatusNotificationResponse_V2_1)
     (StructOf ''StatusNotificationRequest'' [
      Required ''timestamp'' (PlainOf ''DateTime''),
      Required ''connectorStatus'' (EnumOf ConnectorStatus_V2_1),
      Required ''evseId'' (IntegerOf (Some 0) None),
      Required ''connectorId'' (IntegerOf (Some 0) None),
      Optional ''customData'' CustomData])"

definition TransactionEventRequest_V2_1 :: request_type where
  "TransactionEventRequest_V2_1 = RequestType ''TransactionEvent'' Call ChargingStationOrigin (Some TransactionEventResponse_V2_1)
     (StructOf ''TransactionEventRequest'' [
      Required ''eventType'' (EnumOf TransactionEventEnum_V2_1),
      Required ''timestamp'' (PlainOf ''DateTime''),
      Required ''triggerReason'' (EnumOf TriggerReason_V2_1),
      Required ''seqNo'' (IntegerOf (Some 0) None),
      Required ''transactionInfo'' Transaction_V2_1,
      Optional ''costDetails'' CostDetails_V2_1,
      Optional ''meterValue'' (VecOf (Some 1) None MeterValue_V2_1),
      Optional ''offline'' FlagOf,
      Optional ''numberOfPhasesUsed'' (IntegerOf (Some 0) (Some 3)),
      Optional ''cableMaxCurrent'' (IntegerOf None None),
      Optional ''reservationId'' (IntegerOf (Some 0) None),
      Optional ''preconditioningStatus'' (EnumOf PreconditioningStatus_V2_1),
      Optional ''evseSleep'' FlagOf,
      Optional ''evse'' EVSE_V2_1,
      Optional ''idToken'' IdToken_V2_1,
      Optional ''customData'' CustomData])"

definition TriggerMessageRequest_V2_1 :: request_type where
  "TriggerMessageRequest_V2_1 = RequestType ''TriggerMessage'' Call CsmsOrigin (Some TriggerMessageResponse_V2_1)
     (StructOf ''TriggerMessageRequest'' [
      Required ''requestedMessage'' (EnumOf MessageTrigger_V2_1),
      Optional ''evse'' EVSE_V2_1,
      Optional ''customTrigger'' (StringOf None (Some 50)),
      Optional ''customData'' CustomData])"

definition UnlockConnectorRequest_V2_1 :: request_type where
  "UnlockConnectorRequest_V2_1 = RequestType ''UnlockConnector'' Call CsmsOrigin (Some UnlockConnectorResponse_V2_1)
     (StructOf ''UnlockConnectorRequest'' [
      Required ''evseId'' (IntegerOf (Some 0) None),
      Required ''connectorId'' (IntegerOf (Some 0) None),
      Optional ''customData'' CustomData])"

definition UnpublishFirmwareRequest_V2_1 :: request_type where
  "UnpublishFirmwareRequest_V2_1 = RequestType ''UnpublishFirmware'' Call CsmsOrigin (Some UnpublishFirmwareResponse_V2_1)
     (StructOf ''UnpublishFirmwareRequest'' [
      Required ''checksum'' (StringOf None (Some 32)),
      Optional ''customData'' CustomData])"

definition UpdateDynamicScheduleRequest_V2_1 :: request_type where
  "UpdateDynamicScheduleRequest_V2_1 = RequestType ''UpdateDynamicSchedule'' Call CsmsOrigin (Some UpdateDynamicScheduleResponse_V2_1)
     (StructOf ''UpdateDynamicScheduleRequest'' [
      Required ''chargingProfileId'' (IntegerOf None None),
      Required ''scheduleUpdate'' ChargingScheduleUpdate_V2_1,
      Optional ''customData'' CustomData])"

definition UpdateFirmwareRequest_V2_1 :: request_type where
  "UpdateFirmwareRequest_V2_1 = RequestType ''UpdateFirmware'' Call CsmsOrigin (Some UpdateFirmwareResponse_V2_1)
     (StructOf ''UpdateFirmwareRequest'' [
      Required ''requestId'' (IntegerOf None None),
      Required ''firmware'' Firmware_V2_1,
      Optional ''retries'' (IntegerOf (Some 0) None),
      Optional ''retryInterval'' (IntegerOf None None),
      Optional ''customData'' CustomData])"

definition UsePriorityChargingRequest_V2_1 :: request_type where
  "UsePriorityChargingRequest_V2_1 = RequestType ''UsePriorityCharging'' Call CsmsOrigin (Some UsePriorityChargingResponse_V2_1)
     (StructOf ''UsePriorityChargingRequest'' [
      Required ''transactionId'' (StringOf None (Some 36)),
      Required ''activate'' FlagOf,
      Optional ''customData'' CustomData])"

definition VatNumberValidationRequest_V2_1 :: request_type where
  "VatNumberValidationRequest_V2_1 = RequestType ''VatNumberValidation'' Call ChargingStationOrigin (Some VatNumberValidationResponse_V2_1)
     (StructOf ''VatNumberValidationRequest'' [
      Required ''vatNumber'' (StringOf None (Some 20)),
      Optional ''evseId'' (IntegerOf (Some 0) None),
      Optional ''customData'' CustomData])"

text \<open>The same for the messages.\<close>

lemma responses_ok_V2_1 [simp]:
  "shape_ok AFRRSignalResponse_V2_1" "shape_ok AdjustPeriodicEventStreamResponse_V2_1"
  "shape_ok AuthorizeResponse_V2_1" "shape_ok BatterySwapResponse_V2_1"
  "shape_ok BootNotificationResponse_V2_1" "shape_ok CancelReservationResponse_V2_1"
  "shape_ok CertificateSignedResponse_V2_1" "shape_ok ChangeAvailabilityResponse_V2_1"
  "shape_ok ChangeTransactionTariffResponse_V2_1" "shape_ok ClearCacheResponse_V2_1"
  "shape_ok ClearChargingProfileResponse_V2_1" "shape_ok ClearDERControlResponse_V2_1"
  "shape_ok ClearDisplayMessageResponse_V2_1" "shape_ok ClearTariffsResponse_V2_1"
  "shape_ok ClearVariableMonitoringResponse_V2_1" "shape_ok ClearedChargingLimitResponse_V2_1"
  "shape_ok ClosePeriodicEventStreamResponse_V2_1" "shape_ok CostUpdatedResponse_V2_1"
  "shape_ok CustomerInformationResponse_V2_1" "shape_ok DataTransferResponse_V2_1"
  "shape_ok DeleteCertificateResponse_V2_1" "shape_ok FirmwareStatusNotificationResponse_V2_1"
  "shape_ok Get15118EVCertificateResponse_V2_1" "shape_ok GetBaseReportResponse_V2_1"
  "shape_ok GetCertificateChainStatusResponse_V2_1" "shape_ok GetCertificateStatusResponse_V2_1"
  "shape_ok GetChargingProfilesResponse_V2_1" "shape_ok GetCompositeScheduleResponse_V2_1"
  "shape_ok GetDERControlResponse_V2_1" "shape_ok GetDisplayMessagesResponse_V2_1"
  "shape_ok GetInstalledCertificateIdsResponse_V2_1" "shape_ok GetLocalListVersionResponse_V2_1"
  "shape_ok GetLogResponse_V2_1" "shape_ok GetMonitoringReportResponse_V2_1"
  "shape_ok GetPeriodicEventStreamResponse_V2_1" "shape_ok GetReportResponse_V2_1"
  "shape_ok GetTariffsResponse_V2_1" "shape_ok GetTransactionStatusResponse_V2_1"
  "shape_ok GetVariablesResponse_V2_1" "shape_ok HeartbeatResponse_V2_1"
  "shape_ok InstallCertificateResponse_V2_1" "shape_ok LogStatusNotificationResponse_V2_1"
  "shape_ok MeterValuesResponse_V2_1" "shape_ok NotifyAllowedEnergyTransferResponse_V2_1"
  "shape_ok NotifyChargingLimitResponse_V2_1" "shape_ok NotifyCustomerInformationResponse_V2_1"
  "shape_ok NotifyDERAlarmResponse_V2_1" "shape_ok NotifyDERStartStopResponse_V2_1"
  "shape_ok NotifyDisplayMessagesResponse_V2_1" "shape_ok NotifyEVChargingNeedsResponse_V2_1"
  "shape_ok NotifyEVChargingScheduleResponse_V2_1" "shape_ok NotifyEventResponse_V2_1"
  "shape_ok NotifyMonitoringReportResponse_V2_1" "shape_ok NotifyPriorityChargingResponse_V2_1"
  "shape_ok NotifyReportResponse_V2_1" "shape_ok NotifySettlementResponse_V2_1"
  "shape_ok NotifyWebPaymentStartedResponse_V2_1" "shape_ok OpenPeriodicEventStreamResponse_V2_1"
  "shape_ok PublishFirmwareResponse_V2_1"
  "shape_ok PublishFirmwareStatusNotificationResponse_V2_1"
  "shape_ok PullDynamicScheduleUpdateResponse_V2_1" "shape_ok ReportChargingProfilesResponse_V2_1"
  "shape_ok ReportDERControlResponse_V2_1" "shape_ok RequestBatterySwapResponse_V2_1"
  "shape_ok RequestStartTransactionResponse_V2_1" "shape_ok RequestStopTransactionResponse_V2_1"
  "shape_ok ReservationStatusUpdateResponse_V2_1" "shape_ok ReserveNowResponse_V2_1"
  "shape_ok ResetResponse_V2_1" "shape_ok SecurityEventNotificationResponse_V2_1"
  "shape_ok SendLocalListResponse_V2_1" "shape_ok SetChargingProfileResponse_V2_1"
  "shape_ok SetDERControlResponse_V2_1" "shape_ok SetDefaultTariffResponse_V2_1"
  "shape_ok SetDisplayMessageResponse_V2_1" "shape_ok SetMonitoringBaseResponse_V2_1"
  "shape_ok SetMonitoringLevelResponse_V2_1" "shape_ok SetNetworkProfileResponse_V2_1"
  "shape_ok SetVariableMonitoringResponse_V2_1" "shape_ok SetVariablesResponse_V2_1"
  "shape_ok SignCertificateResponse_V2_1" "shape_ok StatusNotificationResponse_V2_1"
  "shape_ok TransactionEventResponse_V2_1" "shape_ok TriggerMessageResponse_V2_1"
  "shape_ok UnlockConnectorResponse_V2_1" "shape_ok UnpublishFirmwareResponse_V2_1"
  "shape_ok UpdateDynamicScheduleResponse_V2_1" "shape_ok UpdateFirmwareResponse_V2_1"
  "shape_ok UsePriorityChargingResponse_V2_1" "shape_ok VatNumberValidationResponse_V2_1"
  by (simp_all add:
    AFRRSignalResponse_V2_1_def AdjustPeriodicEventStreamResponse_V2_1_def
    AuthorizeResponse_V2_1_def BatterySwapResponse_V2_1_def BootNotificationResponse_V2_1_def
    CancelReservationResponse_V2_1_def CertificateSignedResponse_V2_1_def
    ChangeAvailabilityResponse_V2_1_def ChangeTransactionTariffResponse_V2_1_def
    ClearCacheResponse_V2_1_def ClearChargingProfileResponse_V2_1_def
    ClearDERControlResponse_V2_1_def ClearDisplayMessageResponse_V2_1_def
    ClearTariffsResponse_V2_1_def ClearVariableMonitoringResponse_V2_1_def
    ClearedChargingLimitResponse_V2_1_def ClosePeriodicEventStreamResponse_V2_1_def
    CostUpdatedResponse_V2_1_def CustomerInformationResponse_V2_1_def DataTransferResponse_V2_1_def
    DeleteCertificateResponse_V2_1_def FirmwareStatusNotificationResponse_V2_1_def
    Get15118EVCertificateResponse_V2_1_def GetBaseReportResponse_V2_1_def
    GetCertificateChainStatusResponse_V2_1_def GetCertificateStatusResponse_V2_1_def
    GetChargingProfilesResponse_V2_1_def GetCompositeScheduleResponse_V2_1_def
    GetDERControlResponse_V2_1_def GetDisplayMessagesResponse_V2_1_def
    GetInstalledCertificateIdsResponse_V2_1_def GetLocalListVersionResponse_V2_1_def
    GetLogResponse_V2_1_def GetMonitoringReportResponse_V2_1_def
    GetPeriodicEventStreamResponse_V2_1_def GetReportResponse_V2_1_def GetTariffsResponse_V2_1_def
    GetTransactionStatusResponse_V2_1_def GetVariablesResponse_V2_1_def HeartbeatResponse_V2_1_def
    InstallCertificateResponse_V2_1_def LogStatusNotificationResponse_V2_1_def
    MeterValuesResponse_V2_1_def NotifyAllowedEnergyTransferResponse_V2_1_def
    NotifyChargingLimitResponse_V2_1_def NotifyCustomerInformationResponse_V2_1_def
    NotifyDERAlarmResponse_V2_1_def NotifyDERStartStopResponse_V2_1_def
    NotifyDisplayMessagesResponse_V2_1_def NotifyEVChargingNeedsResponse_V2_1_def
    NotifyEVChargingScheduleResponse_V2_1_def NotifyEventResponse_V2_1_def
    NotifyMonitoringReportResponse_V2_1_def NotifyPriorityChargingResponse_V2_1_def
    NotifyReportResponse_V2_1_def NotifySettlementResponse_V2_1_def
    NotifyWebPaymentStartedResponse_V2_1_def OpenPeriodicEventStreamResponse_V2_1_def
    PublishFirmwareResponse_V2_1_def PublishFirmwareStatusNotificationResponse_V2_1_def
    PullDynamicScheduleUpdateResponse_V2_1_def ReportChargingProfilesResponse_V2_1_def
    ReportDERControlResponse_V2_1_def RequestBatterySwapResponse_V2_1_def
    RequestStartTransactionResponse_V2_1_def RequestStopTransactionResponse_V2_1_def
    ReservationStatusUpdateResponse_V2_1_def ReserveNowResponse_V2_1_def ResetResponse_V2_1_def
    SecurityEventNotificationResponse_V2_1_def SendLocalListResponse_V2_1_def
    SetChargingProfileResponse_V2_1_def SetDERControlResponse_V2_1_def
    SetDefaultTariffResponse_V2_1_def SetDisplayMessageResponse_V2_1_def
    SetMonitoringBaseResponse_V2_1_def SetMonitoringLevelResponse_V2_1_def
    SetNetworkProfileResponse_V2_1_def SetVariableMonitoringResponse_V2_1_def
    SetVariablesResponse_V2_1_def SignCertificateResponse_V2_1_def
    StatusNotificationResponse_V2_1_def TransactionEventResponse_V2_1_def
    TriggerMessageResponse_V2_1_def UnlockConnectorResponse_V2_1_def
    UnpublishFirmwareResponse_V2_1_def UpdateDynamicScheduleResponse_V2_1_def
    UpdateFirmwareResponse_V2_1_def UsePriorityChargingResponse_V2_1_def
    VatNumberValidationResponse_V2_1_def)

lemma requests_ok_V2_1 [simp]:
  "shape_ok (rq_shape AFRRSignalRequest_V2_1)"
  "shape_ok (rq_shape AdjustPeriodicEventStreamRequest_V2_1)"
  "shape_ok (rq_shape AuthorizeRequest_V2_1)" "shape_ok (rq_shape BatterySwapRequest_V2_1)"
  "shape_ok (rq_shape BootNotificationRequest_V2_1)"
  "shape_ok (rq_shape CancelReservationRequest_V2_1)"
  "shape_ok (rq_shape CertificateSignedRequest_V2_1)"
  "shape_ok (rq_shape ChangeAvailabilityRequest_V2_1)"
  "shape_ok (rq_shape ChangeTransactionTariffRequest_V2_1)"
  "shape_ok (rq_shape ClearCacheRequest_V2_1)"
  "shape_ok (rq_shape ClearChargingProfileRequest_V2_1)"
  "shape_ok (rq_shape ClearDERControlRequest_V2_1)"
  "shape_ok (rq_shape ClearDisplayMessageRequest_V2_1)"
  "shape_ok (rq_shape ClearTariffsRequest_V2_1)"
  "shape_ok (rq_shape ClearVariableMonitoringRequest_V2_1)"
  "shape_ok (rq_shape ClearedChargingLimitRequest_V2_1)"
  "shape_ok (rq_shape ClosePeriodicEventStreamRequest_V2_1)"
  "shape_ok (rq_shape CostUpdatedRequest_V2_1)"
  "shape_ok (rq_shape CustomerInformationRequest_V2_1)"
  "shape_ok (rq_shape DataTransferRequest_V2_1)"
  "shape_ok (rq_shape DeleteCertificateRequest_V2_1)"
  "shape_ok (rq_shape FirmwareStatusNotificationRequest_V2_1)"
  "shape_ok (rq_shape Get15118EVCertificateRequest_V2_1)"
  "shape_ok (rq_shape GetBaseReportRequest_V2_1)"
  "shape_ok (rq_shape GetCertificateChainStatusRequest_V2_1)"
  "shape_ok (rq_shape GetCertificateStatusRequest_V2_1)"
  "shape_ok (rq_shape GetChargingProfilesRequest_V2_1)"
  "shape_ok (rq_shape GetCompositeScheduleRequest_V2_1)"
  "shape_ok (rq_shape GetDERControlRequest_V2_1)"
  "shape_ok (rq_shape GetDisplayMessagesRequest_V2_1)"
  "shape_ok (rq_shape GetInstalledCertificateIdsRequest_V2_1)"
  "shape_ok (rq_shape GetLocalListVersionRequest_V2_1)" "shape_ok (rq_shape GetLogRequest_V2_1)"
  "shape_ok (rq_shape GetMonitoringReportRequest_V2_1)"
  "shape_ok (rq_shape GetPeriodicEventStreamRequest_V2_1)"
  "shape_ok (rq_shape GetReportRequest_V2_1)" "shape_ok (rq_shape GetTariffsRequest_V2_1)"
  "shape_ok (rq_shape GetTransactionStatusRequest_V2_1)"
  "shape_ok (rq_shape GetVariablesRequest_V2_1)" "shape_ok (rq_shape HeartbeatRequest_V2_1)"
  "shape_ok (rq_shape InstallCertificateRequest_V2_1)"
  "shape_ok (rq_shape LogStatusNotificationRequest_V2_1)"
  "shape_ok (rq_shape MeterValuesRequest_V2_1)"
  "shape_ok (rq_shape NotifyAllowedEnergyTransferRequest_V2_1)"
  "shape_ok (rq_shape NotifyChargingLimitRequest_V2_1)"
  "shape_ok (rq_shape NotifyCustomerInformationRequest_V2_1)"
  "shape_ok (rq_shape NotifyDERAlarmRequest_V2_1)"
  "shape_ok (rq_shape NotifyDERStartStopRequest_V2_1)"
  "shape_ok (rq_shape NotifyDisplayMessagesRequest_V2_1)"
  "shape_ok (rq_shape NotifyEVChargingNeedsRequest_V2_1)"
  "shape_ok (rq_shape NotifyEVChargingScheduleRequest_V2_1)"
  "shape_ok (rq_shape NotifyEventRequest_V2_1)"
  "shape_ok (rq_shape NotifyMonitoringReportRequest_V2_1)"
  "shape_ok (rq_shape NotifyPeriodicEventStreamRequest_V2_1)"
  "shape_ok (rq_shape NotifyPriorityChargingRequest_V2_1)"
  "shape_ok (rq_shape NotifyReportRequest_V2_1)"
  "shape_ok (rq_shape NotifySettlementRequest_V2_1)"
  "shape_ok (rq_shape NotifyWebPaymentStartedRequest_V2_1)"
  "shape_ok (rq_shape OpenPeriodicEventStreamRequest_V2_1)"
  "shape_ok (rq_shape PublishFirmwareRequest_V2_1)"
  "shape_ok (rq_shape PublishFirmwareStatusNotificationRequest_V2_1)"
  "shape_ok (rq_shape PullDynamicScheduleUpdateRequest_V2_1)"
  "shape_ok (rq_shape ReportChargingProfilesRequest_V2_1)"
  "shape_ok (rq_shape ReportDERControlRequest_V2_1)"
  "shape_ok (rq_shape RequestBatterySwapRequest_V2_1)"
  "shape_ok (rq_shape RequestStartTransactionRequest_V2_1)"
  "shape_ok (rq_shape RequestStopTransactionRequest_V2_1)"
  "shape_ok (rq_shape ReservationStatusUpdateRequest_V2_1)"
  "shape_ok (rq_shape ReserveNowRequest_V2_1)" "shape_ok (rq_shape ResetRequest_V2_1)"
  "shape_ok (rq_shape SecurityEventNotificationRequest_V2_1)"
  "shape_ok (rq_shape SendLocalListRequest_V2_1)"
  "shape_ok (rq_shape SetChargingProfileRequest_V2_1)"
  "shape_ok (rq_shape SetDERControlRequest_V2_1)"
  "shape_ok (rq_shape SetDefaultTariffRequest_V2_1)"
  "shape_ok (rq_shape SetDisplayMessageRequest_V2_1)"
  "shape_ok (rq_shape SetMonitoringBaseRequest_V2_1)"
  "shape_ok (rq_shape SetMonitoringLevelRequest_V2_1)"
  "shape_ok (rq_shape SetNetworkProfileRequest_V2_1)"
  "shape_ok (rq_shape SetVariableMonitoringRequest_V2_1)"
  "shape_ok (rq_shape SetVariablesRequest_V2_1)" "shape_ok (rq_shape SignCertificateRequest_V2_1)"
  "shape_ok (rq_shape StatusNotificationRequest_V2_1)"
  "shape_ok (rq_shape TransactionEventRequest_V2_1)"
  "shape_ok (rq_shape TriggerMessageRequest_V2_1)"
  "shape_ok (rq_shape UnlockConnectorRequest_V2_1)"
  "shape_ok (rq_shape UnpublishFirmwareRequest_V2_1)"
  "shape_ok (rq_shape UpdateDynamicScheduleRequest_V2_1)"
  "shape_ok (rq_shape UpdateFirmwareRequest_V2_1)"
  "shape_ok (rq_shape UsePriorityChargingRequest_V2_1)"
  "shape_ok (rq_shape VatNumberValidationRequest_V2_1)"
  by (simp_all add:
    AFRRSignalRequest_V2_1_def AdjustPeriodicEventStreamRequest_V2_1_def AuthorizeRequest_V2_1_def
    BatterySwapRequest_V2_1_def BootNotificationRequest_V2_1_def CancelReservationRequest_V2_1_def
    CertificateSignedRequest_V2_1_def ChangeAvailabilityRequest_V2_1_def
    ChangeTransactionTariffRequest_V2_1_def ClearCacheRequest_V2_1_def
    ClearChargingProfileRequest_V2_1_def ClearDERControlRequest_V2_1_def
    ClearDisplayMessageRequest_V2_1_def ClearTariffsRequest_V2_1_def
    ClearVariableMonitoringRequest_V2_1_def ClearedChargingLimitRequest_V2_1_def
    ClosePeriodicEventStreamRequest_V2_1_def CostUpdatedRequest_V2_1_def
    CustomerInformationRequest_V2_1_def DataTransferRequest_V2_1_def
    DeleteCertificateRequest_V2_1_def FirmwareStatusNotificationRequest_V2_1_def
    Get15118EVCertificateRequest_V2_1_def GetBaseReportRequest_V2_1_def
    GetCertificateChainStatusRequest_V2_1_def GetCertificateStatusRequest_V2_1_def
    GetChargingProfilesRequest_V2_1_def GetCompositeScheduleRequest_V2_1_def
    GetDERControlRequest_V2_1_def GetDisplayMessagesRequest_V2_1_def
    GetInstalledCertificateIdsRequest_V2_1_def GetLocalListVersionRequest_V2_1_def
    GetLogRequest_V2_1_def GetMonitoringReportRequest_V2_1_def
    GetPeriodicEventStreamRequest_V2_1_def GetReportRequest_V2_1_def GetTariffsRequest_V2_1_def
    GetTransactionStatusRequest_V2_1_def GetVariablesRequest_V2_1_def HeartbeatRequest_V2_1_def
    InstallCertificateRequest_V2_1_def LogStatusNotificationRequest_V2_1_def
    MeterValuesRequest_V2_1_def NotifyAllowedEnergyTransferRequest_V2_1_def
    NotifyChargingLimitRequest_V2_1_def NotifyCustomerInformationRequest_V2_1_def
    NotifyDERAlarmRequest_V2_1_def NotifyDERStartStopRequest_V2_1_def
    NotifyDisplayMessagesRequest_V2_1_def NotifyEVChargingNeedsRequest_V2_1_def
    NotifyEVChargingScheduleRequest_V2_1_def NotifyEventRequest_V2_1_def
    NotifyMonitoringReportRequest_V2_1_def NotifyPeriodicEventStreamRequest_V2_1_def
    NotifyPriorityChargingRequest_V2_1_def NotifyReportRequest_V2_1_def
    NotifySettlementRequest_V2_1_def NotifyWebPaymentStartedRequest_V2_1_def
    OpenPeriodicEventStreamRequest_V2_1_def PublishFirmwareRequest_V2_1_def
    PublishFirmwareStatusNotificationRequest_V2_1_def PullDynamicScheduleUpdateRequest_V2_1_def
    ReportChargingProfilesRequest_V2_1_def ReportDERControlRequest_V2_1_def
    RequestBatterySwapRequest_V2_1_def RequestStartTransactionRequest_V2_1_def
    RequestStopTransactionRequest_V2_1_def ReservationStatusUpdateRequest_V2_1_def
    ReserveNowRequest_V2_1_def ResetRequest_V2_1_def SecurityEventNotificationRequest_V2_1_def
    SendLocalListRequest_V2_1_def SetChargingProfileRequest_V2_1_def SetDERControlRequest_V2_1_def
    SetDefaultTariffRequest_V2_1_def SetDisplayMessageRequest_V2_1_def
    SetMonitoringBaseRequest_V2_1_def SetMonitoringLevelRequest_V2_1_def
    SetNetworkProfileRequest_V2_1_def SetVariableMonitoringRequest_V2_1_def
    SetVariablesRequest_V2_1_def SignCertificateRequest_V2_1_def StatusNotificationRequest_V2_1_def
    TransactionEventRequest_V2_1_def TriggerMessageRequest_V2_1_def UnlockConnectorRequest_V2_1_def
    UnpublishFirmwareRequest_V2_1_def UpdateDynamicScheduleRequest_V2_1_def
    UpdateFirmwareRequest_V2_1_def UsePriorityChargingRequest_V2_1_def
    VatNumberValidationRequest_V2_1_def)

end
