(* ===== verification/Dispatch_V2_1.thy ===== *)
theory Dispatch_V2_1
  imports Messages_V2_1
begin

text \<open>
  \<open>v2_1/action.rs\<close>: the tables that tie the actions of OCPP 2.1 to their messages. \<open>CsRequest\<close> and the
  other three enumerations of payloads have a table of their variants, one of the action of each
  variant and one of what \<open>decode\<close> reads for an action; an action \<open>decode\<close> does not list is refused.
\<close>

definition transcode_request_V2_1 :: "(string \<times> request_type) list" where
  "transcode_request_V2_1 =
     [(''AFRRSignal'', AFRRSignalRequest_V2_1),
      (''AdjustPeriodicEventStream'', AdjustPeriodicEventStreamRequest_V2_1),
      (''Authorize'', AuthorizeRequest_V2_1), (''BatterySwap'', BatterySwapRequest_V2_1),
      (''BootNotification'', BootNotificationRequest_V2_1),
      (''CancelReservation'', CancelReservationRequest_V2_1),
      (''CertificateSigned'', CertificateSignedRequest_V2_1),
      (''ChangeAvailability'', ChangeAvailabilityRequest_V2_1),
      (''ChangeTransactionTariff'', ChangeTransactionTariffRequest_V2_1),
      (''ClearCache'', ClearCacheRequest_V2_1),
      (''ClearChargingProfile'', ClearChargingProfileRequest_V2_1),
      (''ClearDERControl'', ClearDERControlRequest_V2_1),
      (''ClearDisplayMessage'', ClearDisplayMessageRequest_V2_1),
      (''ClearTariffs'', ClearTariffsRequest_V2_1),
      (''ClearVariableMonitoring'', ClearVariableMonitoringRequest_V2_1),
      (''ClearedChargingLimit'', ClearedChargingLimitRequest_V2_1),
      (''ClosePeriodicEventStream'', ClosePeriodicEventStreamRequest_V2_1),
      (''CostUpdated'', CostUpdatedRequest_V2_1),
      (''CustomerInformation'', CustomerInformationRequest_V2_1),
      (''DataTransfer'', DataTransferRequest_V2_1),
      (''DeleteCertificate'', DeleteCertificateRequest_V2_1),
      (''FirmwareStatusNotification'', FirmwareStatusNotificationRequest_V2_1),
      (''Get15118EVCertificate'', Get15118EVCertificateRequest_V2_1),
      (''GetBaseReport'', GetBaseReportRequest_V2_1),
      (''GetCertificateChainStatus'', GetCertificateChainStatusRequest_V2_1),
      (''GetCertificateStatus'', GetCertificateStatusRequest_V2_1),
      (''GetChargingProfiles'', GetChargingProfilesRequest_V2_1),
      (''GetCompositeSchedule'', GetCompositeScheduleRequest_V2_1),
      (''GetDERControl'', GetDERControlRequest_V2_1),
      (''GetDisplayMessages'', GetDisplayMessagesRequest_V2_1),
      (''GetInstalledCertificateIds'', GetInstalledCertificateIdsRequest_V2_1),
      (''GetLocalListVersion'', GetLocalListVersionRequest_V2_1), (''GetLog'', GetLogRequest_V2_1),
      (''GetMonitoringReport'', GetMonitoringReportRequest_V2_1),
      (''GetPeriodicEventStream'', GetPeriodicEventStreamRequest_V2_1),
      (''GetReport'', GetReportRequest_V2_1), (''GetTariffs'', GetTariffsRequest_V2_1),
      (''GetTransactionStatus'', GetTransactionStatusRequest_V2_1),
      (''GetVariables'', GetVariablesRequest_V2_1), (''Heartbeat'', HeartbeatRequest_V2_1),
      (''InstallCertificate'', InstallCertificateRequest_V2_1),
      (''LogStatusNotification'', LogStatusNotificationRequest_V2_1),
      (''MeterValues'', MeterValuesRequest_V2_1),
      (''NotifyAllowedEnergyTransfer'', NotifyAllowedEnergyTransferRequest_V2_1),
      (''NotifyChargingLimit'', NotifyChargingLimitRequest_V2_1),
      (''NotifyCustomerInformation'', NotifyCustomerInformationRequest_V2_1),
      (''NotifyDERAlarm'', NotifyDERAlarmRequest_V2_1),
      (''NotifyDERStartStop'', NotifyDERStartStopRequest_V2_1),
      (''NotifyDisplayMessages'', NotifyDisplayMessagesRequest_V2_1),
      (''NotifyEVChargingNeeds'', NotifyEVChargingNeedsRequest_V2_1),
      (''NotifyEVChargingSchedule'', NotifyEVChargingScheduleRequest_V2_1),
      (''NotifyEvent'', NotifyEventRequest_V2_1),
      (''NotifyMonitoringReport'', NotifyMonitoringReportRequest_V2_1),
      (''NotifyPeriodicEventStream'', NotifyPeriodicEventStreamRequest_V2_1),
      (''NotifyPriorityCharging'', NotifyPriorityChargingRequest_V2_1),
      (''NotifyReport'', NotifyReportRequest_V2_1),
      (''NotifySettlement'', NotifySettlementRequest_V2_1),
      (''NotifyWebPaymentStarted'', NotifyWebPaymentStartedRequest_V2_1),
      (''OpenPeriodicEventStream'', OpenPeriodicEventStreamRequest_V2_1),
      (''PublishFirmware'', PublishFirmwareRequest_V2_1),
      (''PublishFirmwareStatusNotification'', PublishFirmwareStatusNotificationRequest_V2_1),
      (''PullDynamicScheduleUpdate'', PullDynamicScheduleUpdateRequest_V2_1),
      (''ReportChargingProfiles'', ReportChargingProfilesRequest_V2_1),
      (''ReportDERControl'', ReportDERControlRequest_V2_1),
      (''RequestBatterySwap'', RequestBatterySwapRequest_V2_1),
      (''RequestStartTransaction'', RequestStartTransactionRequest_V2_1),
      (''RequestStopTransaction'', RequestStopTransactionRequest_V2_1),
      (''ReservationStatusUpdate'', ReservationStatusUpdateRequest_V2_1),
      (''ReserveNow'', ReserveNowRequest_V2_1), (''Reset'', ResetRequest_V2_1),
      (''SecurityEventNotification'', SecurityEventNotificationRequest_V2_1),
      (''SendLocalList'', SendLocalListRequest_V2_1),
      (''SetChargingProfile'', SetChargingProfileRequest_V2_1),
      (''SetDERControl'', SetDERControlRequest_V2_1),
      (''SetDefaultTariff'', SetDefaultTariffRequest_V2_1),
      (''SetDisplayMessage'', SetDisplayMessageRequest_V2_1),
      (''SetMonitoringBase'', SetMonitoringBaseRequest_V2_1),
      (''SetMonitoringLevel'', SetMonitoringLevelRequest_V2_1),
      (''SetNetworkProfile'', SetNetworkProfileRequest_V2_1),
      (''SetVariableMonitoring'', SetVariableMonitoringRequest_V2_1),
      (''SetVariables'', SetVariablesRequest_V2_1), (''SignCertificate'', SignCertificateRequest_V2_1),
      (''StatusNotification'', StatusNotificationRequest_V2_1),
      (''TransactionEvent'', TransactionEventRequest_V2_1),
      (''TriggerMessage'', TriggerMessageRequest_V2_1),
      (''UnlockConnector'', UnlockConnectorRequest_V2_1),
      (''UnpublishFirmware'', UnpublishFirmwareRequest_V2_1),
      (''UpdateDynamicSchedule'', UpdateDynamicScheduleRequest_V2_1),
      (''UpdateFirmware'', UpdateFirmwareRequest_V2_1),
      (''UsePriorityCharging'', UsePriorityChargingRequest_V2_1),
      (''VatNumberValidation'', VatNumberValidationRequest_V2_1)]"

definition transcode_response_V2_1 :: "(string \<times> shape option) list" where
  "transcode_response_V2_1 =
     [(''AFRRSignal'', Some AFRRSignalResponse_V2_1),
      (''AdjustPeriodicEventStream'', Some AdjustPeriodicEventStreamResponse_V2_1),
      (''Authorize'', Some AuthorizeResponse_V2_1), (''BatterySwap'', Some BatterySwapResponse_V2_1),
      (''BootNotification'', Some BootNotificationResponse_V2_1),
      (''CancelReservation'', Some CancelReservationResponse_V2_1),
      (''CertificateSigned'', Some CertificateSignedResponse_V2_1),
      (''ChangeAvailability'', Some ChangeAvailabilityResponse_V2_1),
      (''ChangeTransactionTariff'', Some ChangeTransactionTariffResponse_V2_1),
      (''ClearCache'', Some ClearCacheResponse_V2_1),
      (''ClearChargingProfile'', Some ClearChargingProfileResponse_V2_1),
      (''ClearDERControl'', Some ClearDERControlResponse_V2_1),
      (''ClearDisplayMessage'', Some ClearDisplayMessageResponse_V2_1),
      (''ClearTariffs'', Some ClearTariffsResponse_V2_1),
      (''ClearVariableMonitoring'', Some ClearVariableMonitoringResponse_V2_1),
      (''ClearedChargingLimit'', Some ClearedChargingLimitResponse_V2_1),
      (''ClosePeriodicEventStream'', Some ClosePeriodicEventStreamResponse_V2_1),
      (''CostUpdated'', Some CostUpdatedResponse_V2_1),
      (''CustomerInformation'', Some CustomerInformationResponse_V2_1),
      (''DataTransfer'', Some DataTransferResponse_V2_1),
      (''DeleteCertificate'', Some DeleteCertificateResponse_V2_1),
      (''FirmwareStatusNotification'', Some FirmwareStatusNotificationResponse_V2_1),
      (''Get15118EVCertificate'', Some Get15118EVCertificateResponse_V2_1),
      (''GetBaseReport'', Some GetBaseReportResponse_V2_1),
      (''GetCertificateChainStatus'', Some GetCertificateChainStatusResponse_V2_1),
      (''GetCertificateStatus'', Some GetCertificateStatusResponse_V2_1),
      (''GetChargingProfiles'', Some GetChargingProfilesResponse_V2_1),
      (''GetCompositeSchedule'', Some GetCompositeScheduleResponse_V2_1),
      (''GetDERControl'', Some GetDERControlResponse_V2_1),
      (''GetDisplayMessages'', Some GetDisplayMessagesResponse_V2_1),
      (''GetInstalledCertificateIds'', Some GetInstalledCertificateIdsResponse_V2_1),
      (''GetLocalListVersion'', Some GetLocalListVersionResponse_V2_1),
      (''GetLog'', Some GetLogResponse_V2_1),
      (''GetMonitoringReport'', Some GetMonitoringReportResponse_V2_1),
      (''GetPeriodicEventStream'', Some GetPeriodicEventStreamResponse_V2_1),
      (''GetReport'', Some GetReportResponse_V2_1), (''GetTariffs'', Some GetTariffsResponse_V2_1),
      (''GetTransactionStatus'', Some GetTransactionStatusResponse_V2_1),
      (''GetVariables'', Some GetVariablesResponse_V2_1), (''Heartbeat'', Some HeartbeatResponse_V2_1),
      (''InstallCertificate'', Some InstallCertificateResponse_V2_1),
      (''LogStatusNotification'', Some LogStatusNotificationResponse_V2_1),
      (''MeterValues'', Some MeterValuesResponse_V2_1),
      (''NotifyAllowedEnergyTransfer'', Some NotifyAllowedEnergyTransferResponse_V2_1),
      (''NotifyChargingLimit'', Some NotifyChargingLimitResponse_V2_1),
      (''NotifyCustomerInformation'', Some NotifyCustomerInformationResponse_V2_1),
      (''NotifyDERAlarm'', Some NotifyDERAlarmResponse_V2_1),
      (''NotifyDERStartStop'', Some NotifyDERStartStopResponse_V2_1),
      (''NotifyDisplayMessages'', Some NotifyDisplayMessagesResponse_V2_1),
      (''NotifyEVChargingNeeds'', Some NotifyEVChargingNeedsResponse_V2_1),
      (''NotifyEVChargingSchedule'', Some NotifyEVChargingScheduleResponse_V2_1),
      (''NotifyEvent'', Some NotifyEventResponse_V2_1),
      (''NotifyMonitoringReport'', Some NotifyMonitoringReportResponse_V2_1),
      (''NotifyPeriodicEventStream'', None),
      (''NotifyPriorityCharging'', Some NotifyPriorityChargingResponse_V2_1),
      (''NotifyReport'', Some NotifyReportResponse_V2_1),
      (''NotifySettlement'', Some NotifySettlementResponse_V2_1),
      (''NotifyWebPaymentStarted'', Some NotifyWebPaymentStartedResponse_V2_1),
      (''OpenPeriodicEventStream'', Some OpenPeriodicEventStreamResponse_V2_1),
      (''PublishFirmware'', Some PublishFirmwareResponse_V2_1),
      (''PublishFirmwareStatusNotification'', Some PublishFirmwareStatusNotificationResponse_V2_1),
      (''PullDynamicScheduleUpdate'', Some PullDynamicScheduleUpdateResponse_V2_1),
      (''ReportChargingProfiles'', Some ReportChargingProfilesResponse_V2_1),
      (''ReportDERControl'', Some ReportDERControlResponse_V2_1),
      (''RequestBatterySwap'', Some RequestBatterySwapResponse_V2_1),
      (''RequestStartTransaction'', Some RequestStartTransactionResponse_V2_1),
      (''RequestStopTransaction'', Some RequestStopTransactionResponse_V2_1),
      (''ReservationStatusUpdate'', Some ReservationStatusUpdateResponse_V2_1),
      (''ReserveNow'', Some ReserveNowResponse_V2_1), (''Reset'', Some ResetResponse_V2_1),
      (''SecurityEventNotification'', Some SecurityEventNotificationResponse_V2_1),
      (''SendLocalList'', Some SendLocalListResponse_V2_1),
      (''SetChargingProfile'', Some SetChargingProfileResponse_V2_1),
      (''SetDERControl'', Some SetDERControlResponse_V2_1),
      (''SetDefaultTariff'', Some SetDefaultTariffResponse_V2_1),
      (''SetDisplayMessage'', Some SetDisplayMessageResponse_V2_1),
      (''SetMonitoringBase'', Some SetMonitoringBaseResponse_V2_1),
      (''SetMonitoringLevel'', Some SetMonitoringLevelResponse_V2_1),
      (''SetNetworkProfile'', Some SetNetworkProfileResponse_V2_1),
      (''SetVariableMonitoring'', Some SetVariableMonitoringResponse_V2_1),
      (''SetVariables'', Some SetVariablesResponse_V2_1),
      (''SignCertificate'', Some SignCertificateResponse_V2_1),
      (''StatusNotification'', Some StatusNotificationResponse_V2_1),
      (''TransactionEvent'', Some TransactionEventResponse_V2_1),
      (''TriggerMessage'', Some TriggerMessageResponse_V2_1),
      (''UnlockConnector'', Some UnlockConnectorResponse_V2_1),
      (''UnpublishFirmware'', Some UnpublishFirmwareResponse_V2_1),
      (''UpdateDynamicSchedule'', Some UpdateDynamicScheduleResponse_V2_1),
      (''UpdateFirmware'', Some UpdateFirmwareResponse_V2_1),
      (''UsePriorityCharging'', Some UsePriorityChargingResponse_V2_1),
      (''VatNumberValidation'', Some VatNumberValidationResponse_V2_1)]"

definition CsRequest_V2_1 :: "(string \<times> request_type) list" where
  "CsRequest_V2_1 =
     [(''Authorize'', AuthorizeRequest_V2_1), (''BatterySwap'', BatterySwapRequest_V2_1),
      (''BootNotification'', BootNotificationRequest_V2_1),
      (''ClearedChargingLimit'', ClearedChargingLimitRequest_V2_1),
      (''ClosePeriodicEventStream'', ClosePeriodicEventStreamRequest_V2_1),
      (''DataTransfer'', DataTransferRequest_V2_1),
      (''FirmwareStatusNotification'', FirmwareStatusNotificationRequest_V2_1),
      (''Get15118EVCertificate'', Get15118EVCertificateRequest_V2_1),
      (''GetCertificateChainStatus'', GetCertificateChainStatusRequest_V2_1),
      (''GetCertificateStatus'', GetCertificateStatusRequest_V2_1),
      (''Heartbeat'', HeartbeatRequest_V2_1),
      (''LogStatusNotification'', LogStatusNotificationRequest_V2_1),
      (''MeterValues'', MeterValuesRequest_V2_1),
      (''NotifyChargingLimit'', NotifyChargingLimitRequest_V2_1),
      (''NotifyCustomerInformation'', NotifyCustomerInformationRequest_V2_1),
      (''NotifyDERAlarm'', NotifyDERAlarmRequest_V2_1),
      (''NotifyDERStartStop'', NotifyDERStartStopRequest_V2_1),
      (''NotifyDisplayMessages'', NotifyDisplayMessagesRequest_V2_1),
      (''NotifyEVChargingNeeds'', NotifyEVChargingNeedsRequest_V2_1),
      (''NotifyEVChargingSchedule'', NotifyEVChargingScheduleRequest_V2_1),
      (''NotifyEvent'', NotifyEventRequest_V2_1),
      (''NotifyMonitoringReport'', NotifyMonitoringReportRequest_V2_1),
      (''NotifyPeriodicEventStream'', NotifyPeriodicEventStreamRequest_V2_1),
      (''NotifyPriorityCharging'', NotifyPriorityChargingRequest_V2_1),
      (''NotifyReport'', NotifyReportRequest_V2_1),
      (''NotifySettlement'', NotifySettlementRequest_V2_1),
      (''NotifyWebPaymentStarted'', NotifyWebPaymentStartedRequest_V2_1),
      (''OpenPeriodicEventStream'', OpenPeriodicEventStreamRequest_V2_1),
      (''PublishFirmwareStatusNotification'', PublishFirmwareStatusNotificationRequest_V2_1),
      (''PullDynamicScheduleUpdate'', PullDynamicScheduleUpdateRequest_V2_1),
      (''ReportChargingProfiles'', ReportChargingProfilesRequest_V2_1),
      (''ReportDERControl'', ReportDERControlRequest_V2_1),
      (''ReservationStatusUpdate'', ReservationStatusUpdateRequest_V2_1),
      (''SecurityEventNotification'', SecurityEventNotificationRequest_V2_1),
      (''SignCertificate'', SignCertificateRequest_V2_1),
      (''StatusNotification'', StatusNotificationRequest_V2_1),
      (''TransactionEvent'', TransactionEventRequest_V2_1),
      (''VatNumberValidation'', VatNumberValidationRequest_V2_1)]"

definition CsRequest_action_V2_1 :: "(string \<times> string) list" where
  "CsRequest_action_V2_1 =
     [(''Authorize'', ''Authorize''), (''BatterySwap'', ''BatterySwap''),
      (''BootNotification'', ''BootNotification''),
      (''ClearedChargingLimit'', ''ClearedChargingLimit''),
      (''ClosePeriodicEventStream'', ''ClosePeriodicEventStream''),
      (''DataTransfer'', ''DataTransfer''),
      (''FirmwareStatusNotification'', ''FirmwareStatusNotification''),
      (''Get15118EVCertificate'', ''Get15118EVCertificate''),
      (''GetCertificateChainStatus'', ''GetCertificateChainStatus''),
      (''GetCertificateStatus'', ''GetCertificateStatus''), (''Heartbeat'', ''Heartbeat''),
      (''LogStatusNotification'', ''LogStatusNotification''), (''MeterValues'', ''MeterValues''),
      (''NotifyChargingLimit'', ''NotifyChargingLimit''),
      (''NotifyCustomerInformation'', ''NotifyCustomerInformation''),
      (''NotifyDERAlarm'', ''NotifyDERAlarm''), (''NotifyDERStartStop'', ''NotifyDERStartStop''),
      (''NotifyDisplayMessages'', ''NotifyDisplayMessages''),
      (''NotifyEVChargingNeeds'', ''NotifyEVChargingNeeds''),
      (''NotifyEVChargingSchedule'', ''NotifyEVChargingSchedule''), (''NotifyEvent'', ''NotifyEvent''),
      (''NotifyMonitoringReport'', ''NotifyMonitoringReport''),
      (''NotifyPeriodicEventStream'', ''NotifyPeriodicEventStream''),
      (''NotifyPriorityCharging'', ''NotifyPriorityCharging''), (''NotifyReport'', ''NotifyReport''),
      (''NotifySettlement'', ''NotifySettlement''),
      (''NotifyWebPaymentStarted'', ''NotifyWebPaymentStarted''),
      (''OpenPeriodicEventStream'', ''OpenPeriodicEventStream''),
      (''PublishFirmwareStatusNotification'', ''PublishFirmwareStatusNotification''),
      (''PullDynamicScheduleUpdate'', ''PullDynamicScheduleUpdate''),
      (''ReportChargingProfiles'', ''ReportChargingProfiles''),
      (''ReportDERControl'', ''ReportDERControl''),
      (''ReservationStatusUpdate'', ''ReservationStatusUpdate''),
      (''SecurityEventNotification'', ''SecurityEventNotification''),
      (''SignCertificate'', ''SignCertificate''), (''StatusNotification'', ''StatusNotification''),
      (''TransactionEvent'', ''TransactionEvent''), (''VatNumberValidation'', ''VatNumberValidation'')]"

definition CsRequest_decode_V2_1 :: "(string \<times> request_type) list" where
  "CsRequest_decode_V2_1 =
     [(''Authorize'', AuthorizeRequest_V2_1), (''BatterySwap'', BatterySwapRequest_V2_1),
      (''BootNotification'', BootNotificationRequest_V2_1),
      (''ClearedChargingLimit'', ClearedChargingLimitRequest_V2_1),
      (''ClosePeriodicEventStream'', ClosePeriodicEventStreamRequest_V2_1),
      (''DataTransfer'', DataTransferRequest_V2_1),
      (''FirmwareStatusNotification'', FirmwareStatusNotificationRequest_V2_1),
      (''Get15118EVCertificate'', Get15118EVCertificateRequest_V2_1),
      (''GetCertificateChainStatus'', GetCertificateChainStatusRequest_V2_1),
      (''GetCertificateStatus'', GetCertificateStatusRequest_V2_1),
      (''Heartbeat'', HeartbeatRequest_V2_1),
      (''LogStatusNotification'', LogStatusNotificationRequest_V2_1),
      (''MeterValues'', MeterValuesRequest_V2_1),
      (''NotifyChargingLimit'', NotifyChargingLimitRequest_V2_1),
      (''NotifyCustomerInformation'', NotifyCustomerInformationRequest_V2_1),
      (''NotifyDERAlarm'', NotifyDERAlarmRequest_V2_1),
      (''NotifyDERStartStop'', NotifyDERStartStopRequest_V2_1),
      (''NotifyDisplayMessages'', NotifyDisplayMessagesRequest_V2_1),
      (''NotifyEVChargingNeeds'', NotifyEVChargingNeedsRequest_V2_1),
      (''NotifyEVChargingSchedule'', NotifyEVChargingScheduleRequest_V2_1),
      (''NotifyEvent'', NotifyEventRequest_V2_1),
      (''NotifyMonitoringReport'', NotifyMonitoringReportRequest_V2_1),
      (''NotifyPeriodicEventStream'', NotifyPeriodicEventStreamRequest_V2_1),
      (''NotifyPriorityCharging'', NotifyPriorityChargingRequest_V2_1),
      (''NotifyReport'', NotifyReportRequest_V2_1),
      (''NotifySettlement'', NotifySettlementRequest_V2_1),
      (''NotifyWebPaymentStarted'', NotifyWebPaymentStartedRequest_V2_1),
      (''OpenPeriodicEventStream'', OpenPeriodicEventStreamRequest_V2_1),
      (''PublishFirmwareStatusNotification'', PublishFirmwareStatusNotificationRequest_V2_1),
      (''PullDynamicScheduleUpdate'', PullDynamicScheduleUpdateRequest_V2_1),
      (''ReportChargingProfiles'', ReportChargingProfilesRequest_V2_1),
      (''ReportDERControl'', ReportDERControlRequest_V2_1),
      (''ReservationStatusUpdate'', ReservationStatusUpdateRequest_V2_1),
      (''SecurityEventNotification'', SecurityEventNotificationRequest_V2_1),
      (''SignCertificate'', SignCertificateRequest_V2_1),
      (''StatusNotification'', StatusNotificationRequest_V2_1),
      (''TransactionEvent'', TransactionEventRequest_V2_1),
      (''VatNumberValidation'', VatNumberValidationRequest_V2_1)]"

definition CsResponse_V2_1 :: "(string \<times> shape) list" where
  "CsResponse_V2_1 =
     [(''Authorize'', AuthorizeResponse_V2_1), (''BatterySwap'', BatterySwapResponse_V2_1),
      (''BootNotification'', BootNotificationResponse_V2_1),
      (''ClearedChargingLimit'', ClearedChargingLimitResponse_V2_1),
      (''ClosePeriodicEventStream'', ClosePeriodicEventStreamResponse_V2_1),
      (''DataTransfer'', DataTransferResponse_V2_1),
      (''FirmwareStatusNotification'', FirmwareStatusNotificationResponse_V2_1),
      (''Get15118EVCertificate'', Get15118EVCertificateResponse_V2_1),
      (''GetCertificateChainStatus'', GetCertificateChainStatusResponse_V2_1),
      (''GetCertificateStatus'', GetCertificateStatusResponse_V2_1),
      (''Heartbeat'', HeartbeatResponse_V2_1),
      (''LogStatusNotification'', LogStatusNotificationResponse_V2_1),
      (''MeterValues'', MeterValuesResponse_V2_1),
      (''NotifyChargingLimit'', NotifyChargingLimitResponse_V2_1),
      (''NotifyCustomerInformation'', NotifyCustomerInformationResponse_V2_1),
      (''NotifyDERAlarm'', NotifyDERAlarmResponse_V2_1),
      (''NotifyDERStartStop'', NotifyDERStartStopResponse_V2_1),
      (''NotifyDisplayMessages'', NotifyDisplayMessagesResponse_V2_1),
      (''NotifyEVChargingNeeds'', NotifyEVChargingNeedsResponse_V2_1),
      (''NotifyEVChargingSchedule'', NotifyEVChargingScheduleResponse_V2_1),
      (''NotifyEvent'', NotifyEventResponse_V2_1),
      (''NotifyMonitoringReport'', NotifyMonitoringReportResponse_V2_1),
      (''NotifyPriorityCharging'', NotifyPriorityChargingResponse_V2_1),
      (''NotifyReport'', NotifyReportResponse_V2_1),
      (''NotifySettlement'', NotifySettlementResponse_V2_1),
      (''NotifyWebPaymentStarted'', NotifyWebPaymentStartedResponse_V2_1),
      (''OpenPeriodicEventStream'', OpenPeriodicEventStreamResponse_V2_1),
      (''PublishFirmwareStatusNotification'', PublishFirmwareStatusNotificationResponse_V2_1),
      (''PullDynamicScheduleUpdate'', PullDynamicScheduleUpdateResponse_V2_1),
      (''ReportChargingProfiles'', ReportChargingProfilesResponse_V2_1),
      (''ReportDERControl'', ReportDERControlResponse_V2_1),
      (''ReservationStatusUpdate'', ReservationStatusUpdateResponse_V2_1),
      (''SecurityEventNotification'', SecurityEventNotificationResponse_V2_1),
      (''SignCertificate'', SignCertificateResponse_V2_1),
      (''StatusNotification'', StatusNotificationResponse_V2_1),
      (''TransactionEvent'', TransactionEventResponse_V2_1),
      (''VatNumberValidation'', VatNumberValidationResponse_V2_1)]"

definition CsResponse_action_V2_1 :: "(string \<times> string) list" where
  "CsResponse_action_V2_1 =
     [(''Authorize'', ''Authorize''), (''BatterySwap'', ''BatterySwap''),
      (''BootNotification'', ''BootNotification''),
      (''ClearedChargingLimit'', ''ClearedChargingLimit''),
      (''ClosePeriodicEventStream'', ''ClosePeriodicEventStream''),
      (''DataTransfer'', ''DataTransfer''),
      (''FirmwareStatusNotification'', ''FirmwareStatusNotification''),
      (''Get15118EVCertificate'', ''Get15118EVCertificate''),
      (''GetCertificateChainStatus'', ''GetCertificateChainStatus''),
      (''GetCertificateStatus'', ''GetCertificateStatus''), (''Heartbeat'', ''Heartbeat''),
      (''LogStatusNotification'', ''LogStatusNotification''), (''MeterValues'', ''MeterValues''),
      (''NotifyChargingLimit'', ''NotifyChargingLimit''),
      (''NotifyCustomerInformation'', ''NotifyCustomerInformation''),
      (''NotifyDERAlarm'', ''NotifyDERAlarm''), (''NotifyDERStartStop'', ''NotifyDERStartStop''),
      (''NotifyDisplayMessages'', ''NotifyDisplayMessages''),
      (''NotifyEVChargingNeeds'', ''NotifyEVChargingNeeds''),
      (''NotifyEVChargingSchedule'', ''NotifyEVChargingSchedule''), (''NotifyEvent'', ''NotifyEvent''),
      (''NotifyMonitoringReport'', ''NotifyMonitoringReport''),
      (''NotifyPriorityCharging'', ''NotifyPriorityCharging''), (''NotifyReport'', ''NotifyReport''),
      (''NotifySettlement'', ''NotifySettlement''),
      (''NotifyWebPaymentStarted'', ''NotifyWebPaymentStarted''),
      (''OpenPeriodicEventStream'', ''OpenPeriodicEventStream''),
      (''PublishFirmwareStatusNotification'', ''PublishFirmwareStatusNotification''),
      (''PullDynamicScheduleUpdate'', ''PullDynamicScheduleUpdate''),
      (''ReportChargingProfiles'', ''ReportChargingProfiles''),
      (''ReportDERControl'', ''ReportDERControl''),
      (''ReservationStatusUpdate'', ''ReservationStatusUpdate''),
      (''SecurityEventNotification'', ''SecurityEventNotification''),
      (''SignCertificate'', ''SignCertificate''), (''StatusNotification'', ''StatusNotification''),
      (''TransactionEvent'', ''TransactionEvent''), (''VatNumberValidation'', ''VatNumberValidation'')]"

definition CsResponse_decode_V2_1 :: "(string \<times> shape) list" where
  "CsResponse_decode_V2_1 =
     [(''Authorize'', AuthorizeResponse_V2_1), (''BatterySwap'', BatterySwapResponse_V2_1),
      (''BootNotification'', BootNotificationResponse_V2_1),
      (''ClearedChargingLimit'', ClearedChargingLimitResponse_V2_1),
      (''ClosePeriodicEventStream'', ClosePeriodicEventStreamResponse_V2_1),
      (''DataTransfer'', DataTransferResponse_V2_1),
      (''FirmwareStatusNotification'', FirmwareStatusNotificationResponse_V2_1),
      (''Get15118EVCertificate'', Get15118EVCertificateResponse_V2_1),
      (''GetCertificateChainStatus'', GetCertificateChainStatusResponse_V2_1),
      (''GetCertificateStatus'', GetCertificateStatusResponse_V2_1),
      (''Heartbeat'', HeartbeatResponse_V2_1),
      (''LogStatusNotification'', LogStatusNotificationResponse_V2_1),
      (''MeterValues'', MeterValuesResponse_V2_1),
      (''NotifyChargingLimit'', NotifyChargingLimitResponse_V2_1),
      (''NotifyCustomerInformation'', NotifyCustomerInformationResponse_V2_1),
      (''NotifyDERAlarm'', NotifyDERAlarmResponse_V2_1),
      (''NotifyDERStartStop'', NotifyDERStartStopResponse_V2_1),
      (''NotifyDisplayMessages'', NotifyDisplayMessagesResponse_V2_1),
      (''NotifyEVChargingNeeds'', NotifyEVChargingNeedsResponse_V2_1),
      (''NotifyEVChargingSchedule'', NotifyEVChargingScheduleResponse_V2_1),
      (''NotifyEvent'', NotifyEventResponse_V2_1),
      (''NotifyMonitoringReport'', NotifyMonitoringReportResponse_V2_1),
      (''NotifyPriorityCharging'', NotifyPriorityChargingResponse_V2_1),
      (''NotifyReport'', NotifyReportResponse_V2_1),
      (''NotifySettlement'', NotifySettlementResponse_V2_1),
      (''NotifyWebPaymentStarted'', NotifyWebPaymentStartedResponse_V2_1),
      (''OpenPeriodicEventStream'', OpenPeriodicEventStreamResponse_V2_1),
      (''PublishFirmwareStatusNotification'', PublishFirmwareStatusNotificationResponse_V2_1),
      (''PullDynamicScheduleUpdate'', PullDynamicScheduleUpdateResponse_V2_1),
      (''ReportChargingProfiles'', ReportChargingProfilesResponse_V2_1),
      (''ReportDERControl'', ReportDERControlResponse_V2_1),
      (''ReservationStatusUpdate'', ReservationStatusUpdateResponse_V2_1),
      (''SecurityEventNotification'', SecurityEventNotificationResponse_V2_1),
      (''SignCertificate'', SignCertificateResponse_V2_1),
      (''StatusNotification'', StatusNotificationResponse_V2_1),
      (''TransactionEvent'', TransactionEventResponse_V2_1),
      (''VatNumberValidation'', VatNumberValidationResponse_V2_1)]"

definition CsmsRequest_V2_1 :: "(string \<times> request_type) list" where
  "CsmsRequest_V2_1 =
     [(''AFRRSignal'', AFRRSignalRequest_V2_1),
      (''AdjustPeriodicEventStream'', AdjustPeriodicEventStreamRequest_V2_1),
      (''CancelReservation'', CancelReservationRequest_V2_1),
      (''CertificateSigned'', CertificateSignedRequest_V2_1),
      (''ChangeAvailability'', ChangeAvailabilityRequest_V2_1),
      (''ChangeTransactionTariff'', ChangeTransactionTariffRequest_V2_1),
      (''ClearCache'', ClearCacheRequest_V2_1),
      (''ClearChargingProfile'', ClearChargingProfileRequest_V2_1),
      (''ClearDERControl'', ClearDERControlRequest_V2_1),
      (''ClearDisplayMessage'', ClearDisplayMessageRequest_V2_1),
      (''ClearTariffs'', ClearTariffsRequest_V2_1),
      (''ClearVariableMonitoring'', ClearVariableMonitoringRequest_V2_1),
      (''CostUpdated'', CostUpdatedRequest_V2_1),
      (''CustomerInformation'', CustomerInformationRequest_V2_1),
      (''DataTransfer'', DataTransferRequest_V2_1),
      (''DeleteCertificate'', DeleteCertificateRequest_V2_1),
      (''GetBaseReport'', GetBaseReportRequest_V2_1),
      (''GetChargingProfiles'', GetChargingProfilesRequest_V2_1),
      (''GetCompositeSchedule'', GetCompositeScheduleRequest_V2_1),
      (''GetDERControl'', GetDERControlRequest_V2_1),
      (''GetDisplayMessages'', GetDisplayMessagesRequest_V2_1),
      (''GetInstalledCertificateIds'', GetInstalledCertificateIdsRequest_V2_1),
      (''GetLocalListVersion'', GetLocalListVersionRequest_V2_1), (''GetLog'', GetLogRequest_V2_1),
      (''GetMonitoringReport'', GetMonitoringReportRequest_V2_1),
      (''GetPeriodicEventStream'', GetPeriodicEventStreamRequest_V2_1),
      (''GetReport'', GetReportRequest_V2_1), (''GetTariffs'', GetTariffsRequest_V2_1),
      (''GetTransactionStatus'', GetTransactionStatusRequest_V2_1),
      (''GetVariables'', GetVariablesRequest_V2_1),
      (''InstallCertificate'', InstallCertificateRequest_V2_1),
      (''NotifyAllowedEnergyTransfer'', NotifyAllowedEnergyTransferRequest_V2_1),
      (''PublishFirmware'', PublishFirmwareRequest_V2_1),
      (''RequestBatterySwap'', RequestBatterySwapRequest_V2_1),
      (''RequestStartTransaction'', RequestStartTransactionRequest_V2_1),
      (''RequestStopTransaction'', RequestStopTransactionRequest_V2_1),
      (''ReserveNow'', ReserveNowRequest_V2_1), (''Reset'', ResetRequest_V2_1),
      (''SendLocalList'', SendLocalListRequest_V2_1),
      (''SetChargingProfile'', SetChargingProfileRequest_V2_1),
      (''SetDERControl'', SetDERControlRequest_V2_1),
      (''SetDefaultTariff'', SetDefaultTariffRequest_V2_1),
      (''SetDisplayMessage'', SetDisplayMessageRequest_V2_1),
      (''SetMonitoringBase'', SetMonitoringBaseRequest_V2_1),
      (''SetMonitoringLevel'', SetMonitoringLevelRequest_V2_1),
      (''SetNetworkProfile'', SetNetworkProfileRequest_V2_1),
      (''SetVariableMonitoring'', SetVariableMonitoringRequest_V2_1),
      (''SetVariables'', SetVariablesRequest_V2_1), (''TriggerMessage'', TriggerMessageRequest_V2_1),
      (''UnlockConnector'', UnlockConnectorRequest_V2_1),
      (''UnpublishFirmware'', UnpublishFirmwareRequest_V2_1),
      (''UpdateDynamicSchedule'', UpdateDynamicScheduleRequest_V2_1),
      (''UpdateFirmware'', UpdateFirmwareRequest_V2_1),
      (''UsePriorityCharging'', UsePriorityChargingRequest_V2_1)]"

definition CsmsRequest_action_V2_1 :: "(string \<times> string) list" where
  "CsmsRequest_action_V2_1 =
     [(''AFRRSignal'', ''AFRRSignal''), (''AdjustPeriodicEventStream'', ''AdjustPeriodicEventStream''),
      (''CancelReservation'', ''CancelReservation''), (''CertificateSigned'', ''CertificateSigned''),
      (''ChangeAvailability'', ''ChangeAvailability''),
      (''ChangeTransactionTariff'', ''ChangeTransactionTariff''), (''ClearCache'', ''ClearCache''),
      (''ClearChargingProfile'', ''ClearChargingProfile''), (''ClearDERControl'', ''ClearDERControl''),
      (''ClearDisplayMessage'', ''ClearDisplayMessage''), (''ClearTariffs'', ''ClearTariffs''),
      (''ClearVariableMonitoring'', ''ClearVariableMonitoring''), (''CostUpdated'', ''CostUpdated''),
      (''CustomerInformation'', ''CustomerInformation''), (''DataTransfer'', ''DataTransfer''),
      (''DeleteCertificate'', ''DeleteCertificate''), (''GetBaseReport'', ''GetBaseReport''),
      (''GetChargingProfiles'', ''GetChargingProfiles''),
      (''GetCompositeSchedule'', ''GetCompositeSchedule''), (''GetDERControl'', ''GetDERControl''),
      (''GetDisplayMessages'', ''GetDisplayMessages''),
      (''GetInstalledCertificateIds'', ''GetInstalledCertificateIds''),
      (''GetLocalListVersion'', ''GetLocalListVersion''), (''GetLog'', ''GetLog''),
      (''GetMonitoringReport'', ''GetMonitoringReport''),
      (''GetPeriodicEventStream'', ''GetPeriodicEventStream''), (''GetReport'', ''GetReport''),
      (''GetTariffs'', ''GetTariffs''), (''GetTransactionStatus'', ''GetTransactionStatus''),
      (''GetVariables'', ''GetVariables''), (''InstallCertificate'', ''InstallCertificate''),
      (''NotifyAllowedEnergyTransfer'', ''NotifyAllowedEnergyTransfer''),
      (''PublishFirmware'', ''PublishFirmware''), (''RequestBatterySwap'', ''RequestBatterySwap''),
      (''RequestStartTransaction'', ''RequestStartTransaction''),
      (''RequestStopTransaction'', ''RequestStopTransaction''), (''ReserveNow'', ''ReserveNow''),
      (''Reset'', ''Reset''), (''SendLocalList'', ''SendLocalList''),
      (''SetChargingProfile'', ''SetChargingProfile''), (''SetDERControl'', ''SetDERControl''),
      (''SetDefaultTariff'', ''SetDefaultTariff''), (''SetDisplayMessage'', ''SetDisplayMessage''),
      (''SetMonitoringBase'', ''SetMonitoringBase''), (''SetMonitoringLevel'', ''SetMonitoringLevel''),
      (''SetNetworkProfile'', ''SetNetworkProfile''),
      (''SetVariableMonitoring'', ''SetVariableMonitoring''), (''SetVariables'', ''SetVariables''),
      (''TriggerMessage'', ''TriggerMessage''), (''UnlockConnector'', ''UnlockConnector''),
      (''UnpublishFirmware'', ''UnpublishFirmware''),
      (''UpdateDynamicSchedule'', ''UpdateDynamicSchedule''), (''UpdateFirmware'', ''UpdateFirmware''),
      (''UsePriorityCharging'', ''UsePriorityCharging'')]"

definition CsmsRequest_decode_V2_1 :: "(string \<times> request_type) list" where
  "CsmsRequest_decode_V2_1 =
     [(''AFRRSignal'', AFRRSignalRequest_V2_1),
      (''AdjustPeriodicEventStream'', AdjustPeriodicEventStreamRequest_V2_1),
      (''CancelReservation'', CancelReservationRequest_V2_1),
      (''CertificateSigned'', CertificateSignedRequest_V2_1),
      (''ChangeAvailability'', ChangeAvailabilityRequest_V2_1),
      (''ChangeTransactionTariff'', ChangeTransactionTariffRequest_V2_1),
      (''ClearCache'', ClearCacheRequest_V2_1),
      (''ClearChargingProfile'', ClearChargingProfileRequest_V2_1),
      (''ClearDERControl'', ClearDERControlRequest_V2_1),
      (''ClearDisplayMessage'', ClearDisplayMessageRequest_V2_1),
      (''ClearTariffs'', ClearTariffsRequest_V2_1),
      (''ClearVariableMonitoring'', ClearVariableMonitoringRequest_V2_1),
      (''CostUpdated'', CostUpdatedRequest_V2_1),
      (''CustomerInformation'', CustomerInformationRequest_V2_1),
      (''DataTransfer'', DataTransferRequest_V2_1),
      (''DeleteCertificate'', DeleteCertificateRequest_V2_1),
      (''GetBaseReport'', GetBaseReportRequest_V2_1),
      (''GetChargingProfiles'', GetChargingProfilesRequest_V2_1),
      (''GetCompositeSchedule'', GetCompositeScheduleRequest_V2_1),
      (''GetDERControl'', GetDERControlRequest_V2_1),
      (''GetDisplayMessages'', GetDisplayMessagesRequest_V2_1),
      (''GetInstalledCertificateIds'', GetInstalledCertificateIdsRequest_V2_1),
      (''GetLocalListVersion'', GetLocalListVersionRequest_V2_1), (''GetLog'', GetLogRequest_V2_1),
      (''GetMonitoringReport'', GetMonitoringReportRequest_V2_1),
      (''GetPeriodicEventStream'', GetPeriodicEventStreamRequest_V2_1),
      (''GetReport'', GetReportRequest_V2_1), (''GetTariffs'', GetTariffsRequest_V2_1),
      (''GetTransactionStatus'', GetTransactionStatusRequest_V2_1),
      (''GetVariables'', GetVariablesRequest_V2_1),
      (''InstallCertificate'', InstallCertificateRequest_V2_1),
      (''NotifyAllowedEnergyTransfer'', NotifyAllowedEnergyTransferRequest_V2_1),
      (''PublishFirmware'', PublishFirmwareRequest_V2_1),
      (''RequestBatterySwap'', RequestBatterySwapRequest_V2_1),
      (''RequestStartTransaction'', RequestStartTransactionRequest_V2_1),
      (''RequestStopTransaction'', RequestStopTransactionRequest_V2_1),
      (''ReserveNow'', ReserveNowRequest_V2_1), (''Reset'', ResetRequest_V2_1),
      (''SendLocalList'', SendLocalListRequest_V2_1),
      (''SetChargingProfile'', SetChargingProfileRequest_V2_1),
      (''SetDERControl'', SetDERControlRequest_V2_1),
      (''SetDefaultTariff'', SetDefaultTariffRequest_V2_1),
      (''SetDisplayMessage'', SetDisplayMessageRequest_V2_1),
      (''SetMonitoringBase'', SetMonitoringBaseRequest_V2_1),
      (''SetMonitoringLevel'', SetMonitoringLevelRequest_V2_1),
      (''SetNetworkProfile'', SetNetworkProfileRequest_V2_1),
      (''SetVariableMonitoring'', SetVariableMonitoringRequest_V2_1),
      (''SetVariables'', SetVariablesRequest_V2_1), (''TriggerMessage'', TriggerMessageRequest_V2_1),
      (''UnlockConnector'', UnlockConnectorRequest_V2_1),
      (''UnpublishFirmware'', UnpublishFirmwareRequest_V2_1),
      (''UpdateDynamicSchedule'', UpdateDynamicScheduleRequest_V2_1),
      (''UpdateFirmware'', UpdateFirmwareRequest_V2_1),
      (''UsePriorityCharging'', UsePriorityChargingRequest_V2_1)]"

definition CsmsResponse_V2_1 :: "(string \<times> shape) list" where
  "CsmsResponse_V2_1 =
     [(''AFRRSignal'', AFRRSignalResponse_V2_1),
      (''AdjustPeriodicEventStream'', AdjustPeriodicEventStreamResponse_V2_1),
      (''CancelReservation'', CancelReservationResponse_V2_1),
      (''CertificateSigned'', CertificateSignedResponse_V2_1),
      (''ChangeAvailability'', ChangeAvailabilityResponse_V2_1),
      (''ChangeTransactionTariff'', ChangeTransactionTariffResponse_V2_1),
      (''ClearCache'', ClearCacheResponse_V2_1),
      (''ClearChargingProfile'', ClearChargingProfileResponse_V2_1),
      (''ClearDERControl'', ClearDERControlResponse_V2_1),
      (''ClearDisplayMessage'', ClearDisplayMessageResponse_V2_1),
      (''ClearTariffs'', ClearTariffsResponse_V2_1),
      (''ClearVariableMonitoring'', ClearVariableMonitoringResponse_V2_1),
      (''CostUpdated'', CostUpdatedResponse_V2_1),
      (''CustomerInformation'', CustomerInformationResponse_V2_1),
      (''DataTransfer'', DataTransferResponse_V2_1),
      (''DeleteCertificate'', DeleteCertificateResponse_V2_1),
      (''GetBaseReport'', GetBaseReportResponse_V2_1),
      (''GetChargingProfiles'', GetChargingProfilesResponse_V2_1),
      (''GetCompositeSchedule'', GetCompositeScheduleResponse_V2_1),
      (''GetDERControl'', GetDERControlResponse_V2_1),
      (''GetDisplayMessages'', GetDisplayMessagesResponse_V2_1),
      (''GetInstalledCertificateIds'', GetInstalledCertificateIdsResponse_V2_1),
      (''GetLocalListVersion'', GetLocalListVersionResponse_V2_1), (''GetLog'', GetLogResponse_V2_1),
      (''GetMonitoringReport'', GetMonitoringReportResponse_V2_1),
      (''GetPeriodicEventStream'', GetPeriodicEventStreamResponse_V2_1),
      (''GetReport'', GetReportResponse_V2_1), (''GetTariffs'', GetTariffsResponse_V2_1),
      (''GetTransactionStatus'', GetTransactionStatusResponse_V2_1),
      (''GetVariables'', GetVariablesResponse_V2_1),
      (''InstallCertificate'', InstallCertificateResponse_V2_1),
      (''NotifyAllowedEnergyTransfer'', NotifyAllowedEnergyTransferResponse_V2_1),
      (''PublishFirmware'', PublishFirmwareResponse_V2_1),
      (''RequestBatterySwap'', RequestBatterySwapResponse_V2_1),
      (''RequestStartTransaction'', RequestStartTransactionResponse_V2_1),
      (''RequestStopTransaction'', RequestStopTransactionResponse_V2_1),
      (''ReserveNow'', ReserveNowResponse_V2_1), (''Reset'', ResetResponse_V2_1),
      (''SendLocalList'', SendLocalListResponse_V2_1),
      (''SetChargingProfile'', SetChargingProfileResponse_V2_1),
      (''SetDERControl'', SetDERControlResponse_V2_1),
      (''SetDefaultTariff'', SetDefaultTariffResponse_V2_1),
      (''SetDisplayMessage'', SetDisplayMessageResponse_V2_1),
      (''SetMonitoringBase'', SetMonitoringBaseResponse_V2_1),
      (''SetMonitoringLevel'', SetMonitoringLevelResponse_V2_1),
      (''SetNetworkProfile'', SetNetworkProfileResponse_V2_1),
      (''SetVariableMonitoring'', SetVariableMonitoringResponse_V2_1),
      (''SetVariables'', SetVariablesResponse_V2_1), (''TriggerMessage'', TriggerMessageResponse_V2_1),
      (''UnlockConnector'', UnlockConnectorResponse_V2_1),
      (''UnpublishFirmware'', UnpublishFirmwareResponse_V2_1),
      (''UpdateDynamicSchedule'', UpdateDynamicScheduleResponse_V2_1),
      (''UpdateFirmware'', UpdateFirmwareResponse_V2_1),
      (''UsePriorityCharging'', UsePriorityChargingResponse_V2_1)]"

definition CsmsResponse_action_V2_1 :: "(string \<times> string) list" where
  "CsmsResponse_action_V2_1 =
     [(''AFRRSignal'', ''AFRRSignal''), (''AdjustPeriodicEventStream'', ''AdjustPeriodicEventStream''),
      (''CancelReservation'', ''CancelReservation''), (''CertificateSigned'', ''CertificateSigned''),
      (''ChangeAvailability'', ''ChangeAvailability''),
      (''ChangeTransactionTariff'', ''ChangeTransactionTariff''), (''ClearCache'', ''ClearCache''),
      (''ClearChargingProfile'', ''ClearChargingProfile''), (''ClearDERControl'', ''ClearDERControl''),
      (''ClearDisplayMessage'', ''ClearDisplayMessage''), (''ClearTariffs'', ''ClearTariffs''),
      (''ClearVariableMonitoring'', ''ClearVariableMonitoring''), (''CostUpdated'', ''CostUpdated''),
      (''CustomerInformation'', ''CustomerInformation''), (''DataTransfer'', ''DataTransfer''),
      (''DeleteCertificate'', ''DeleteCertificate''), (''GetBaseReport'', ''GetBaseReport''),
      (''GetChargingProfiles'', ''GetChargingProfiles''),
      (''GetCompositeSchedule'', ''GetCompositeSchedule''), (''GetDERControl'', ''GetDERControl''),
      (''GetDisplayMessages'', ''GetDisplayMessages''),
      (''GetInstalledCertificateIds'', ''GetInstalledCertificateIds''),
      (''GetLocalListVersion'', ''GetLocalListVersion''), (''GetLog'', ''GetLog''),
      (''GetMonitoringReport'', ''GetMonitoringReport''),
      (''GetPeriodicEventStream'', ''GetPeriodicEventStream''), (''GetReport'', ''GetReport''),
      (''GetTariffs'', ''GetTariffs''), (''GetTransactionStatus'', ''GetTransactionStatus''),
      (''GetVariables'', ''GetVariables''), (''InstallCertificate'', ''InstallCertificate''),
      (''NotifyAllowedEnergyTransfer'', ''NotifyAllowedEnergyTransfer''),
      (''PublishFirmware'', ''PublishFirmware''), (''RequestBatterySwap'', ''RequestBatterySwap''),
      (''RequestStartTransaction'', ''RequestStartTransaction''),
      (''RequestStopTransaction'', ''RequestStopTransaction''), (''ReserveNow'', ''ReserveNow''),
      (''Reset'', ''Reset''), (''SendLocalList'', ''SendLocalList''),
      (''SetChargingProfile'', ''SetChargingProfile''), (''SetDERControl'', ''SetDERControl''),
      (''SetDefaultTariff'', ''SetDefaultTariff''), (''SetDisplayMessage'', ''SetDisplayMessage''),
      (''SetMonitoringBase'', ''SetMonitoringBase''), (''SetMonitoringLevel'', ''SetMonitoringLevel''),
      (''SetNetworkProfile'', ''SetNetworkProfile''),
      (''SetVariableMonitoring'', ''SetVariableMonitoring''), (''SetVariables'', ''SetVariables''),
      (''TriggerMessage'', ''TriggerMessage''), (''UnlockConnector'', ''UnlockConnector''),
      (''UnpublishFirmware'', ''UnpublishFirmware''),
      (''UpdateDynamicSchedule'', ''UpdateDynamicSchedule''), (''UpdateFirmware'', ''UpdateFirmware''),
      (''UsePriorityCharging'', ''UsePriorityCharging'')]"

definition CsmsResponse_decode_V2_1 :: "(string \<times> shape) list" where
  "CsmsResponse_decode_V2_1 =
     [(''AFRRSignal'', AFRRSignalResponse_V2_1),
      (''AdjustPeriodicEventStream'', AdjustPeriodicEventStreamResponse_V2_1),
      (''CancelReservation'', CancelReservationResponse_V2_1),
      (''CertificateSigned'', CertificateSignedResponse_V2_1),
      (''ChangeAvailability'', ChangeAvailabilityResponse_V2_1),
      (''ChangeTransactionTariff'', ChangeTransactionTariffResponse_V2_1),
      (''ClearCache'', ClearCacheResponse_V2_1),
      (''ClearChargingProfile'', ClearChargingProfileResponse_V2_1),
      (''ClearDERControl'', ClearDERControlResponse_V2_1),
      (''ClearDisplayMessage'', ClearDisplayMessageResponse_V2_1),
      (''ClearTariffs'', ClearTariffsResponse_V2_1),
      (''ClearVariableMonitoring'', ClearVariableMonitoringResponse_V2_1),
      (''CostUpdated'', CostUpdatedResponse_V2_1),
      (''CustomerInformation'', CustomerInformationResponse_V2_1),
      (''DataTransfer'', DataTransferResponse_V2_1),
      (''DeleteCertificate'', DeleteCertificateResponse_V2_1),
      (''GetBaseReport'', GetBaseReportResponse_V2_1),
      (''GetChargingProfiles'', GetChargingProfilesResponse_V2_1),
      (''GetCompositeSchedule'', GetCompositeScheduleResponse_V2_1),
      (''GetDERControl'', GetDERControlResponse_V2_1),
      (''GetDisplayMessages'', GetDisplayMessagesResponse_V2_1),
      (''GetInstalledCertificateIds'', GetInstalledCertificateIdsResponse_V2_1),
      (''GetLocalListVersion'', GetLocalListVersionResponse_V2_1), (''GetLog'', GetLogResponse_V2_1),
      (''GetMonitoringReport'', GetMonitoringReportResponse_V2_1),
      (''GetPeriodicEventStream'', GetPeriodicEventStreamResponse_V2_1),
      (''GetReport'', GetReportResponse_V2_1), (''GetTariffs'', GetTariffsResponse_V2_1),
      (''GetTransactionStatus'', GetTransactionStatusResponse_V2_1),
      (''GetVariables'', GetVariablesResponse_V2_1),
      (''InstallCertificate'', InstallCertificateResponse_V2_1),
      (''NotifyAllowedEnergyTransfer'', NotifyAllowedEnergyTransferResponse_V2_1),
      (''PublishFirmware'', PublishFirmwareResponse_V2_1),
      (''RequestBatterySwap'', RequestBatterySwapResponse_V2_1),
      (''RequestStartTransaction'', RequestStartTransactionResponse_V2_1),
      (''RequestStopTransaction'', RequestStopTransactionResponse_V2_1),
      (''ReserveNow'', ReserveNowResponse_V2_1), (''Reset'', ResetResponse_V2_1),
      (''SendLocalList'', SendLocalListResponse_V2_1),
      (''SetChargingProfile'', SetChargingProfileResponse_V2_1),
      (''SetDERControl'', SetDERControlResponse_V2_1),
      (''SetDefaultTariff'', SetDefaultTariffResponse_V2_1),
      (''SetDisplayMessage'', SetDisplayMessageResponse_V2_1),
      (''SetMonitoringBase'', SetMonitoringBaseResponse_V2_1),
      (''SetMonitoringLevel'', SetMonitoringLevelResponse_V2_1),
      (''SetNetworkProfile'', SetNetworkProfileResponse_V2_1),
      (''SetVariableMonitoring'', SetVariableMonitoringResponse_V2_1),
      (''SetVariables'', SetVariablesResponse_V2_1), (''TriggerMessage'', TriggerMessageResponse_V2_1),
      (''UnlockConnector'', UnlockConnectorResponse_V2_1),
      (''UnpublishFirmware'', UnpublishFirmwareResponse_V2_1),
      (''UpdateDynamicSchedule'', UpdateDynamicScheduleResponse_V2_1),
      (''UpdateFirmware'', UpdateFirmwareResponse_V2_1),
      (''UsePriorityCharging'', UsePriorityChargingResponse_V2_1)]"

definition block_V2_1 :: "(string \<times> string) list" where
  "block_V2_1 =
     [(''AFRRSignal'', ''Q''), (''AdjustPeriodicEventStream'', ''N''), (''Authorize'', ''C''),
      (''BatterySwap'', ''S''), (''BootNotification'', ''B''), (''CancelReservation'', ''H''),
      (''CertificateSigned'', ''A''), (''ChangeAvailability'', ''G''),
      (''ChangeTransactionTariff'', ''I''), (''ClearCache'', ''C''), (''ClearChargingProfile'', ''K''),
      (''ClearDERControl'', ''R''), (''ClearDisplayMessage'', ''O''), (''ClearTariffs'', ''I''),
      (''ClearVariableMonitoring'', ''N''), (''ClearedChargingLimit'', ''K''),
      (''ClosePeriodicEventStream'', ''N''), (''CostUpdated'', ''I''),
      (''CustomerInformation'', ''N''), (''DataTransfer'', ''P''), (''DeleteCertificate'', ''M''),
      (''FirmwareStatusNotification'', ''L''), (''Get15118EVCertificate'', ''M''),
      (''GetBaseReport'', ''B''), (''GetCertificateChainStatus'', ''M''),
      (''GetCertificateStatus'', ''M''), (''GetChargingProfiles'', ''K''),
      (''GetCompositeSchedule'', ''K''), (''GetDERControl'', ''R''), (''GetDisplayMessages'', ''O''),
      (''GetInstalledCertificateIds'', ''M''), (''GetLocalListVersion'', ''D''), (''GetLog'', ''N''),
      (''GetMonitoringReport'', ''N''), (''GetPeriodicEventStream'', ''N''), (''GetReport'', ''B''),
      (''GetTariffs'', ''I''), (''GetTransactionStatus'', ''E''), (''GetVariables'', ''B''),
      (''Heartbeat'', ''B''), (''InstallCertificate'', ''M''), (''LogStatusNotification'', ''N''),
      (''MeterValues'', ''J''), (''NotifyAllowedEnergyTransfer'', ''Q''),
      (''NotifyChargingLimit'', ''K''), (''NotifyCustomerInformation'', ''N''),
      (''NotifyDERAlarm'', ''R''), (''NotifyDERStartStop'', ''R''), (''NotifyDisplayMessages'', ''O''),
      (''NotifyEVChargingNeeds'', ''K''), (''NotifyEVChargingSchedule'', ''K''),
      (''NotifyEvent'', ''N''), (''NotifyMonitoringReport'', ''N''),
      (''NotifyPeriodicEventStream'', ''N''), (''NotifyPriorityCharging'', ''K''),
      (''NotifyReport'', ''B''), (''NotifySettlement'', ''I''), (''NotifyWebPaymentStarted'', ''I''),
      (''OpenPeriodicEventStream'', ''N''), (''PublishFirmware'', ''L''),
      (''PublishFirmwareStatusNotification'', ''L''), (''PullDynamicScheduleUpdate'', ''K''),
      (''ReportChargingProfiles'', ''K''), (''ReportDERControl'', ''R''),
      (''RequestBatterySwap'', ''S''), (''RequestStartTransaction'', ''F''),
      (''RequestStopTransaction'', ''F''), (''ReservationStatusUpdate'', ''H''),
      (''ReserveNow'', ''H''), (''Reset'', ''B''), (''SecurityEventNotification'', ''A''),
      (''SendLocalList'', ''D''), (''SetChargingProfile'', ''K''), (''SetDERControl'', ''R''),
      (''SetDefaultTariff'', ''I''), (''SetDisplayMessage'', ''O''), (''SetMonitoringBase'', ''N''),
      (''SetMonitoringLevel'', ''N''), (''SetNetworkProfile'', ''B''),
      (''SetVariableMonitoring'', ''N''), (''SetVariables'', ''B''), (''SignCertificate'', ''A''),
      (''StatusNotification'', ''G''), (''TransactionEvent'', ''E''), (''TriggerMessage'', ''F''),
      (''UnlockConnector'', ''F''), (''UnpublishFirmware'', ''L''), (''UpdateDynamicSchedule'', ''K''),
      (''UpdateFirmware'', ''L''), (''UsePriorityCharging'', ''K''), (''VatNumberValidation'', ''I'')]"

end
