(* ===== verification/Decode.thy ===== *)
theory Decode
  imports Message_Types Rpc_Error Deflate
begin

text \<open>
  \<open>decode.rs\<close>: how a payload becomes a typed value, with the leniency knobs, the repair loop, the
  search for undefined members and the classification of every failure; and the conversion of a
  failure to the error of a CALLERROR.

  \<open>serde_json\<close>, \<open>serde_path_to_error\<close> and the derived deserializers are external: the record
  \<open>json_library\<close> holds what they answer for a type, which is given by its shape. A failure of
  theirs is its path as the library prints it, its category and its message. \<open>DateTime::parse\<close> is
  such a function too. An object is a list of its members in the order of \<open>serde_json::Map\<close>.

  The lemmas show what a payload that is decoded satisfies, what a repair may change, how the
  search for undefined members relates to the payloads it compares, and where repairs do not reach.
\<close>

section \<open>JSON\<close>

datatype json =
    JNull
  | JBool bool
  | JNumber string
  | JString string
  | JArray "json list"
  | JObject "(string \<times> json) list"

datatype serde_category = SyntaxError | EofError | IoError | DataError

record serde_error =
  se_path :: string
  se_category :: serde_category
  se_message :: string

record 'x json_library =
  lb_read :: "shape \<Rightarrow> string \<Rightarrow> serde_error + 'x payload"
  lb_read_tree :: "shape \<Rightarrow> json \<Rightarrow> serde_error + 'x payload"
  lb_tree :: "string \<Rightarrow> string + json"
  lb_write :: "shape \<Rightarrow> 'x payload \<Rightarrow> string + json"
  lb_text :: "json \<Rightarrow> raw_value"
  lb_number :: "string \<Rightarrow> bool"
  lb_date_time :: "string \<Rightarrow> bool"

section \<open>Options\<close>

datatype unknown_enum_values = RejectEnumValues | PreserveEnumValues
datatype unknown_fields = RejectFields | IgnoreFields
datatype datetime_leniency = StrictTimes | AllowNaive | AllowSpace
datatype numeric_strings = RejectNumericStrings | CoerceNumericStrings

record decode_options =
  do_enum_values :: unknown_enum_values
  do_fields :: unknown_fields
  do_datetime :: datetime_leniency
  do_numeric :: numeric_strings
  do_max_size :: nat
  do_max_repairs :: nat

definition options_strict :: decode_options where
  "options_strict =
     \<lparr>do_enum_values = RejectEnumValues, do_fields = IgnoreFields, do_datetime = StrictTimes,
      do_numeric = RejectNumericStrings, do_max_size = 1024 * 1024, do_max_repairs = 32\<rparr>"

definition options_pedantic :: decode_options where
  "options_pedantic = options_strict\<lparr>do_fields := RejectFields\<rparr>"

definition options_lenient :: decode_options where
  "options_lenient =
     \<lparr>do_enum_values = PreserveEnumValues, do_fields = IgnoreFields, do_datetime = AllowSpace,
      do_numeric = CoerceNumericStrings, do_max_size = 1024 * 1024, do_max_repairs = 32\<rparr>"

definition with_max_payload_size :: "nat \<Rightarrow> decode_options \<Rightarrow> decode_options" where
  "with_max_payload_size n opts = opts\<lparr>do_max_size := n\<rparr>"

definition repairs_enabled :: "decode_options \<Rightarrow> bool" where
  "repairs_enabled opts \<longleftrightarrow> do_datetime opts \<noteq> StrictTimes \<or> do_numeric opts = CoerceNumericStrings"

section \<open>Failures\<close>

datatype decode_error_kind =
    KindFormat
  | KindOccurrence
  | KindType
  | KindProperty
  | KindUnknownField
  | KindProtocol
  | KindUnsupportedAction

record decode_error =
  de_kind :: decode_error_kind
  de_path :: string
  de_reason :: string

definition decode_error_new :: "decode_error_kind \<Rightarrow> string \<Rightarrow> string \<Rightarrow> decode_error" where
  "decode_error_new k p r = \<lparr>de_kind = k, de_path = p, de_reason = r\<rparr>"

definition unsupported_action :: "string \<Rightarrow> decode_error" where
  "unsupported_action a =
     decode_error_new KindUnsupportedAction [] (''action '' @ debug_str a @ '' is not valid in this direction'')"

fun kind_of_violation :: "violation_kind \<Rightarrow> decode_error_kind" where
  "kind_of_violation OccurrenceViolation = KindOccurrence"
| "kind_of_violation TypeViolation = KindType"
| "kind_of_violation PropertyViolation = KindProperty"
| "kind_of_violation UnknownEnumValue = KindProperty"
| "kind_of_violation UnknownFieldViolation = KindUnknownField"
| "kind_of_violation ProtocolRuleViolation = KindProtocol"

definition from_violation :: "violation \<Rightarrow> decode_error" where
  "from_violation v = decode_error_new (kind_of_violation (vn_kind v)) (vn_path v) (vn_reason v)"

definition decode_error_text :: "decode_error \<Rightarrow> string" where
  "decode_error_text e = (if de_path e = [] then de_reason e else de_path e @ '': '' @ de_reason e)"

text \<open>\<open>From<DecodeError> for CallError\<close>; the details are the object of the path, if any, and the reason.\<close>

fun decode_error_code :: "decode_error_kind \<Rightarrow> error_code" where
  "decode_error_code KindFormat = FormatViolation"
| "decode_error_code KindOccurrence = OccurrenceConstraintViolation"
| "decode_error_code KindType = TypeConstraintViolation"
| "decode_error_code KindProperty = PropertyConstraintViolation"
| "decode_error_code KindUnknownField = ProtocolError"
| "decode_error_code KindProtocol = ProtocolError"
| "decode_error_code KindUnsupportedAction = NotSupported"

definition call_error_of_decode :: "'x json_library \<Rightarrow> decode_error \<Rightarrow> call_error" where
  "call_error_of_decode lib e =
     \<lparr>code = decode_error_code (de_kind e),
      description = cap_description (decode_error_text e),
      details = lb_text lib (JObject
        ((if de_path e = [] then [] else [(''path'', JString (de_path e))]) @ [(''reason'', JString (de_reason e))]))\<rparr>"

section \<open>Classification\<close>

definition starts_with :: "string \<Rightarrow> string \<Rightarrow> bool" where
  "starts_with s p \<longleftrightarrow> take (length p) s = p"

text \<open>\<open>str::rfind\<close> with a text: the part before its last occurrence.\<close>

fun before_last :: "string \<Rightarrow> string \<Rightarrow> string option" where
  "before_last p [] = (if p = [] then Some [] else None)"
| "before_last p (c # s) =
     (case before_last p s of
        Some b \<Rightarrow> Some (c # b)
      | None \<Rightarrow> if starts_with (c # s) p then Some [] else None)"

definition pointer_from :: "string \<Rightarrow> string" where
  "pointer_from path =
     (if path = [] \<or> path = ''.'' then []
      else concat (map (\<lambda>seg. CHR ''/'' # escape_token seg) (split_on (CHR ''.'') path)))"

definition data_error_kind :: "string \<Rightarrow> decode_error_kind" where
  "data_error_kind m =
     (if starts_with m ''missing field'' \<or> starts_with m ''invalid length'' then KindOccurrence
      else if starts_with m ''invalid type'' then KindType
      else if starts_with m ''unknown field'' then KindUnknownField
      else if starts_with m ''duplicate field'' then KindFormat
      else KindProperty)"

definition classify :: "serde_error \<Rightarrow> decode_error" where
  "classify e =
     decode_error_new
       (case se_category e of DataError \<Rightarrow> data_error_kind (se_message e) | _ \<Rightarrow> KindFormat)
       (pointer_from (se_path e))
       (case before_last '' at line '' (se_message e) of Some kept \<Rightarrow> kept | None \<Rightarrow> se_message e)"

section \<open>Repairs\<close>

text \<open>\<open>pointer_mut\<close>: the slot a pointer leads to, read and written.\<close>

definition pointer_keys :: "string \<Rightarrow> string list" where
  "pointer_keys p =
     (if p = [] then []
      else map unescape_token (split_on (CHR ''/'') (dropWhile (\<lambda>c. c = CHR ''/'') p)))"

fun slot :: "json \<Rightarrow> string list \<Rightarrow> json option" where
  "slot t [] = Some t"
| "slot (JObject fs) (k # ks) = (case map_of fs k of Some t \<Rightarrow> slot t ks | None \<Rightarrow> None)"
| "slot (JArray ts) (k # ks) =
     (case parse_unsigned u64_max k of
        Some i \<Rightarrow> if i < length ts then slot (ts ! i) ks else None
      | None \<Rightarrow> None)"
| "slot _ _ = None"

fun put_member :: "string \<Rightarrow> json \<Rightarrow> (string \<times> json) list \<Rightarrow> (string \<times> json) list" where
  "put_member k t [] = []"
| "put_member k t ((n, u) # fs) = (if n = k then (n, t) # fs else (n, u) # put_member k t fs)"

fun put_slot :: "json \<Rightarrow> string list \<Rightarrow> json \<Rightarrow> json" where
  "put_slot x [] t = x"
| "put_slot x (k # ks) (JObject fs) =
     (case map_of fs k of Some t \<Rightarrow> JObject (put_member k (put_slot x ks t) fs) | None \<Rightarrow> JObject fs)"
| "put_slot x (k # ks) (JArray ts) =
     (case parse_unsigned u64_max k of
        Some i \<Rightarrow> if i < length ts then JArray (ts[i := put_slot x ks (ts ! i)]) else JArray ts
      | None \<Rightarrow> JArray ts)"
| "put_slot x _ t = t"

text \<open>\<open>str::len\<close>: a scalar value below 256 takes one or two bytes.\<close>

definition utf8_len :: "string \<Rightarrow> nat" where
  "utf8_len s = sum_list (map (\<lambda>c. if (of_char c :: nat) < 128 then 1 else 2) s)"

text \<open>\<open>normalize_datetime\<close> of \<open>types.rs\<close>. \<open>rfind\<close> gives the index of a byte; the last sign is past the tenth
  byte when some sign is.\<close>

definition normalize_datetime :: "string \<Rightarrow> string" where
  "normalize_datetime text0 =
     (let trimmed = trim text0;
          with_t =
            (if CHR '' '' \<in> set trimmed \<and> CHR ''T'' \<notin> set trimmed
             then takeWhile (\<lambda>c. c \<noteq> CHR '' '') trimmed @ CHR ''T'' # tl (dropWhile (\<lambda>c. c \<noteq> CHR '' '') trimmed)
             else trimmed);
          has_offset =
            (with_t \<noteq> [] \<and> (last with_t = CHR ''Z'' \<or> last with_t = CHR ''z'') \<or>
             list_ex (\<lambda>i. with_t ! i \<in> {CHR ''+'', CHR ''-''} \<and> utf8_len (take i with_t) > 10) [0..<length with_t])
      in if has_offset then with_t else with_t @ ''Z'')"

text \<open>What a text is rewritten to, and \<open>apply_repair\<close>.\<close>

definition repaired_text :: "'x json_library \<Rightarrow> decode_error_kind \<Rightarrow> decode_options \<Rightarrow> string \<Rightarrow> json option" where
  "repaired_text lib kind opts s =
     (if do_numeric opts = CoerceNumericStrings \<and> kind = KindType \<and> lb_number lib s then Some (JNumber s)
      else if do_datetime opts \<noteq> StrictTimes \<and> kind = KindProperty then
        (if do_datetime opts \<noteq> AllowSpace \<and> CHR '' '' \<in> set s then None
         else if normalize_datetime s \<noteq> s \<and> lb_date_time lib (normalize_datetime s)
         then Some (JString (normalize_datetime s)) else None)
      else None)"

definition apply_repair :: "'x json_library \<Rightarrow> decode_options \<Rightarrow> decode_error \<Rightarrow> json \<Rightarrow> json option" where
  "apply_repair lib opts e t =
     (case slot t (pointer_keys (de_path e)) of
        Some (JString s) \<Rightarrow>
          (case repaired_text lib (de_kind e) opts s of
             Some x \<Rightarrow> Some (put_slot x (pointer_keys (de_path e)) t)
           | None \<Rightarrow> None)
      | _ \<Rightarrow> None)"

fun repair_loop ::
  "'x json_library \<Rightarrow> shape \<Rightarrow> decode_options \<Rightarrow> nat \<Rightarrow> json \<Rightarrow> decode_error \<Rightarrow> decode_error + 'x payload" where
  "repair_loop lib sh opts 0 t e = Inl e"
| "repair_loop lib sh opts (Suc n) t e =
     (case apply_repair lib opts e t of
        None \<Rightarrow> Inl e
      | Some t1 \<Rightarrow>
          (case lb_read_tree lib sh t1 of
             Inr v \<Rightarrow> Inr v
           | Inl next \<Rightarrow>
               let e1 = classify next
               in if e1 = e then Inl e1 else repair_loop lib sh opts n t1 e1))"

definition repair_and_parse ::
  "'x json_library \<Rightarrow> shape \<Rightarrow> string \<Rightarrow> decode_options \<Rightarrow> decode_error \<Rightarrow> decode_error + 'x payload" where
  "repair_and_parse lib sh s opts first =
     (case lb_tree lib s of
        Inl m \<Rightarrow> Inl (decode_error_new KindFormat [] m)
      | Inr t \<Rightarrow> repair_loop lib sh opts (do_max_repairs opts) t first)"

section \<open>Undefined members\<close>

definition render :: "string list \<Rightarrow> string" where
  "render path = concat (map (\<lambda>seg. CHR ''/'' # seg) path)"

fun is_null :: "json \<Rightarrow> bool" where
  "is_null JNull = True"
| "is_null _ = False"

function (sequential) diff :: "json \<Rightarrow> json \<Rightarrow> string list \<Rightarrow> string option"
and diff_members :: "(string \<times> json) list \<Rightarrow> (string \<times> json) list \<Rightarrow> string list \<Rightarrow> string option"
and diff_items :: "nat \<Rightarrow> json list \<Rightarrow> json list \<Rightarrow> string list \<Rightarrow> string option" where
  "diff (JObject w) (JObject ours) path = diff_members w ours path"
| "diff (JArray w) (JArray ours) path = diff_items 0 w ours path"
| "diff _ _ path = None"
| "diff_members [] ours path = None"
| "diff_members ((k, x) # w) ours path =
     (if is_null x then diff_members w ours path
      else
        let path1 = path @ [escape_token k];
            found = (case map_of ours k of None \<Rightarrow> Some (render path1) | Some mine \<Rightarrow> diff x mine path1)
        in (case found of Some p \<Rightarrow> Some p | None \<Rightarrow> diff_members w ours path))"
| "diff_items i (x # w) (mine # ours) path =
     (case diff x mine (path @ [digits i]) of Some p \<Rightarrow> Some p | None \<Rightarrow> diff_items (Suc i) w ours path)"
| "diff_items i _ _ path = None"
  by pat_completeness auto
termination
  by (relation "measure (\<lambda>x. case x of Inl (w, _, _) \<Rightarrow> size w | Inr (Inl (w, _, _)) \<Rightarrow> size_list (size_prod (\<lambda>x. 0) size) w
      | Inr (Inr (_, w, _, _)) \<Rightarrow> size_list size w)") auto

definition first_unknown_field ::
  "'x json_library \<Rightarrow> shape \<Rightarrow> string \<Rightarrow> 'x payload \<Rightarrow> decode_error + string option" where
  "first_unknown_field lib sh s v =
     (case lb_tree lib s of
        Inl m \<Rightarrow> Inl (decode_error_new KindFormat [] m)
      | Inr wire \<Rightarrow>
          (case lb_write lib sh v of
             Inl m \<Rightarrow> Inl (decode_error_new KindFormat [] m)
           | Inr ours \<Rightarrow> Inr (diff wire ours [])))"

section \<open>Decoding\<close>

definition trim_start :: "string \<Rightarrow> string" where
  "trim_start s = dropWhile is_whitespace s"

definition read_payload ::
  "'x json_library \<Rightarrow> shape \<Rightarrow> string \<Rightarrow> decode_options \<Rightarrow> decode_error + 'x payload" where
  "read_payload lib sh s opts =
     (case lb_read lib sh s of
        Inr v \<Rightarrow> Inr v
      | Inl e \<Rightarrow>
          if repairs_enabled opts then repair_and_parse lib sh s opts (classify e) else Inl (classify e))"

definition decode_payload ::
  "'x json_library \<Rightarrow> shape \<Rightarrow> raw_value \<Rightarrow> decode_options \<Rightarrow> decode_error + 'x payload" where
  "decode_payload lib sh s opts =
     (if utf8_len s > do_max_size opts
      then Inl (decode_error_new KindFormat []
        (''payload is '' @ digits (utf8_len s) @ '' bytes, limit is '' @ digits (do_max_size opts)))
      else if \<not> starts_with (trim_start s) [CHR 0x7B]
      then Inl (decode_error_new KindFormat [] ''payload is not a JSON object'')
      else
        (case read_payload lib sh s opts of
           Inl e \<Rightarrow> Inl e
         | Inr v \<Rightarrow>
             (case (if do_fields opts = RejectFields then first_unknown_field lib sh s v else Inr None) of
                Inl e \<Rightarrow> Inl e
              | Inr (Some path) \<Rightarrow>
                  Inl (decode_error_new KindUnknownField path ''member is not defined by the schema'')
              | Inr None \<Rightarrow>
                  (case validate sh v of
                     Inr _ \<Rightarrow> Inr v
                   | Inl vs \<Rightarrow>
                       let left = (if do_enum_values opts = PreserveEnumValues
                                   then retain_kinds (\<lambda>k. k \<noteq> UnknownEnumValue) vs else vs)
                       in (case first_violation left of
                             Some x \<Rightarrow> Inl (from_violation x)
                           | None \<Rightarrow> Inr v)))))"

definition transcode ::
  "'x json_library \<Rightarrow> shape \<Rightarrow> raw_value \<Rightarrow> decode_options \<Rightarrow> decode_error + raw_value" where
  "transcode lib sh s opts =
     (case decode_payload lib sh s opts of
        Inl e \<Rightarrow> Inl e
      | Inr v \<Rightarrow>
          (case lb_write lib sh v of
             Inl m \<Rightarrow> Inl (decode_error_new KindFormat [] m)
           | Inr t \<Rightarrow> Inr (lb_text lib t)))"

text \<open>\<open>CsRequest::decode\<close> and its three siblings, over the table of what they read for an action.\<close>

definition decode_in ::
  "'x json_library \<Rightarrow> (string \<times> shape) list \<Rightarrow> string \<Rightarrow> raw_value \<Rightarrow> decode_options
    \<Rightarrow> decode_error + 'x payload" where
  "decode_in lib table a s opts =
     (case map_of table a of
        None \<Rightarrow> Inl (unsupported_action a)
      | Some sh \<Rightarrow> decode_payload lib sh s opts)"


section \<open>Slots\<close>

lemma map_of_put_member:
  "map_of fs k = Some u \<Longrightarrow> map_of (put_member k t fs) j = (if j = k then Some t else map_of fs j)"
  by (induction fs) (auto split: if_splits)

lemma put_member_twice: "map_of fs k = Some u \<Longrightarrow> put_member k u (put_member k t fs) = fs"
  by (induction fs) (auto split: if_splits)

text \<open>Reading a slot that was written, and writing the old value back.\<close>

lemma slot_put: "slot t ks = Some u \<Longrightarrow> slot (put_slot x ks t) ks = Some x"
  by (induction t ks rule: slot.induct) (auto simp: map_of_put_member split: option.splits if_splits)

lemma put_back: "slot t ks = Some u \<Longrightarrow> put_slot u ks (put_slot x ks t) = t"
  by (induction t ks rule: slot.induct)
    (auto simp: map_of_put_member put_member_twice split: option.splits if_splits)

text \<open>
  A payload after some repairs: each rewrites one slot that held a text, to the number the text
  spells or to the time in its strict spelling, where the options allow it.
\<close>

inductive repaired :: "'x json_library \<Rightarrow> decode_options \<Rightarrow> json \<Rightarrow> nat \<Rightarrow> json \<Rightarrow> bool"
  for lib opts t where
  none: "repaired lib opts t 0 t"
| number: "repaired lib opts t n u \<Longrightarrow> slot u ks = Some (JString s) \<Longrightarrow>
    do_numeric opts = CoerceNumericStrings \<Longrightarrow> lb_number lib s \<Longrightarrow>
    repaired lib opts t (Suc n) (put_slot (JNumber s) ks u)"
| time: "repaired lib opts t n u \<Longrightarrow> slot u ks = Some (JString s) \<Longrightarrow>
    do_datetime opts = AllowSpace \<or> do_datetime opts = AllowNaive \<and> CHR '' '' \<notin> set s \<Longrightarrow>
    lb_date_time lib (normalize_datetime s) \<Longrightarrow>
    repaired lib opts t (Suc n) (put_slot (JString (normalize_datetime s)) ks u)"

lemma repaired_text_cases:
  assumes "repaired_text lib k opts s = Some x"
  obtains (number) "x = JNumber s" "do_numeric opts = CoerceNumericStrings" "lb_number lib s"
  | (time) "x = JString (normalize_datetime s)" "lb_date_time lib (normalize_datetime s)"
    "do_datetime opts = AllowSpace \<or> do_datetime opts = AllowNaive \<and> CHR '' '' \<notin> set s"
proof (cases "x = JNumber s \<and> do_numeric opts = CoerceNumericStrings \<and> lb_number lib s")
  case False
  then have "x = JString (normalize_datetime s)" "lb_date_time lib (normalize_datetime s)"
    "do_datetime opts = AllowSpace \<or> do_datetime opts \<noteq> StrictTimes \<and> CHR '' '' \<notin> set s"
    using assms by (auto simp: repaired_text_def split: if_splits)
  then show ?thesis by (intro time) (auto intro: datetime_leniency.exhaust [of "do_datetime opts"])
qed (use number in blast)

lemma apply_repair_one:
  assumes "apply_repair lib opts e u = Some u1" and "repaired lib opts t n u"
  shows "repaired lib opts t (Suc n) u1"
proof -
  obtain s x where s: "slot u (pointer_keys (de_path e)) = Some (JString s)"
    "repaired_text lib (de_kind e) opts s = Some x" "u1 = put_slot x (pointer_keys (de_path e)) u"
    using assms(1) by (auto simp: apply_repair_def split: option.splits json.splits)
  from s(2) show ?thesis
  proof (cases rule: repaired_text_cases)
    case number
    then show ?thesis using repaired.number [OF assms(2) s(1)] s(3) by simp
  next
    case time
    then show ?thesis using repaired.time [OF assms(2) s(1)] s(3) by simp
  qed
qed

lemma repair_loop_repairs:
  "repair_loop lib sh opts n u e = Inr v \<Longrightarrow> repaired lib opts t m u \<Longrightarrow>
   \<exists>k u1. k \<le> m + n \<and> m < k \<and> repaired lib opts t k u1 \<and> lb_read_tree lib sh u1 = Inr v"
proof (induction n arbitrary: u e m)
  case (Suc n)
  obtain u1 where u1: "apply_repair lib opts e u = Some u1"
    using Suc.prems(1) by (cases "apply_repair lib opts e u") auto
  have r: "repaired lib opts t (Suc m) u1" using apply_repair_one [OF u1 Suc.prems(2)] .
  show ?case
  proof (cases "lb_read_tree lib sh u1")
    case (Inr w)
    then show ?thesis using Suc.prems(1) u1 r by (intro exI [of _ "Suc m"] exI [of _ u1]) simp
  next
    case (Inl failure)
    then have "repair_loop lib sh opts n u1 (classify failure) = Inr v"
      using Suc.prems(1) u1 by (simp add: Let_def split: if_splits)
    from Suc.IH [OF this r] show ?thesis by fastforce
  qed
qed simp

section \<open>What the search for undefined members finds\<close>

text \<open>A member of the wire, not null, that an object of the other payload does not have.\<close>

inductive undefined_member :: "json \<Rightarrow> json \<Rightarrow> string list \<Rightarrow> bool" where
  here: "(k, x) \<in> set w \<Longrightarrow> \<not> is_null x \<Longrightarrow> map_of ours k = None \<Longrightarrow>
    undefined_member (JObject w) (JObject ours) [escape_token k]"
| deeper: "(k, x) \<in> set w \<Longrightarrow> \<not> is_null x \<Longrightarrow> map_of ours k = Some y \<Longrightarrow> undefined_member x y p \<Longrightarrow>
    undefined_member (JObject w) (JObject ours) (escape_token k # p)"
| inside: "i < length w \<Longrightarrow> i < length ours \<Longrightarrow> undefined_member (w ! i) (ours ! i) p \<Longrightarrow>
    undefined_member (JArray w) (JArray ours) (digits i # p)"

lemma undefined_in_object:
  "undefined_member (JObject w) (JObject ours) p \<longleftrightarrow>
     (\<exists>(k, x) \<in> set w. \<not> is_null x \<and>
        (case map_of ours k of
           None \<Rightarrow> p = [escape_token k]
         | Some y \<Rightarrow> \<exists>q. p = escape_token k # q \<and> undefined_member x y q))" (is "?l \<longleftrightarrow> ?r")
proof
  show "?l \<Longrightarrow> ?r" by (cases rule: undefined_member.cases) (auto, force+)
  assume ?r
  then obtain k x where x: "(k, x) \<in> set w" "\<not> is_null x"
    and at: "case map_of ours k of None \<Rightarrow> p = [escape_token k]
      | Some y \<Rightarrow> \<exists>q. p = escape_token k # q \<and> undefined_member x y q" by auto
  show ?l
  proof (cases "map_of ours k")
    case None
    then show ?thesis using undefined_member.here [OF x None] at by simp
  next
    case (Some y)
    then show ?thesis using undefined_member.deeper [OF x Some] at by auto
  qed
qed

lemma undefined_in_array:
  "undefined_member (JArray w) (JArray ours) p \<longleftrightarrow>
     (\<exists>i q. p = digits i # q \<and> i < length w \<and> i < length ours \<and> undefined_member (w ! i) (ours ! i) q)" (is "?l \<longleftrightarrow> ?r")
proof
  show "?l \<Longrightarrow> ?r" by (cases rule: undefined_member.cases) auto
  show "?r \<Longrightarrow> ?l" by (auto intro: undefined_member.inside)
qed

lemma undefined_elsewhere:
  "\<not> (\<exists>u v. w = JObject u \<and> ours = JObject v) \<Longrightarrow> \<not> (\<exists>u v. w = JArray u \<and> ours = JArray v) \<Longrightarrow>
   \<not> undefined_member w ours p"
  by (auto elim: undefined_member.cases)

text \<open>The answer of a search under a path, for the places it is after.\<close>

definition finds :: "string list \<Rightarrow> string option \<Rightarrow> (string list \<Rightarrow> bool) \<Rightarrow> bool" where
  "finds path r U \<longleftrightarrow> (case r of Some q \<Rightarrow> \<exists>p. q = render (path @ p) \<and> U p | None \<Rightarrow> \<forall>p. \<not> U p)"

lemma finds_nothing [simp]: "finds path None (\<lambda>p. False)"
  by (simp add: finds_def)

lemma finds_or:
  assumes "finds path r1 U1" and "r1 = None \<Longrightarrow> finds path r2 U2"
  shows "finds path (case r1 of Some q \<Rightarrow> Some q | None \<Rightarrow> r2) (\<lambda>p. U1 p \<or> U2 p)"
  using assms by (auto simp: finds_def split: option.splits)

lemma finds_under: "finds (path @ [seg]) r U \<Longrightarrow> finds path r (\<lambda>p. \<exists>q. p = seg # q \<and> U q)"
  by (auto simp: finds_def split: option.splits)

definition undefined_item :: "nat \<Rightarrow> json list \<Rightarrow> json list \<Rightarrow> string list \<Rightarrow> bool" where
  "undefined_item i ts us p \<longleftrightarrow>
     (\<exists>j q. p = digits (i + j) # q \<and> j < length ts \<and> j < length us \<and> undefined_member (ts ! j) (us ! j) q)"

lemma undefined_item_Cons:
  "undefined_item i (t # ts) (u # us) p \<longleftrightarrow>
     (\<exists>q. p = digits i # q \<and> undefined_member t u q) \<or> undefined_item (Suc i) ts us p"
proof -
  have split: "(\<exists>j. P j) \<longleftrightarrow> P 0 \<or> (\<exists>j. P (Suc j))" for P :: "nat \<Rightarrow> bool"
    by (metis not0_implies_Suc)
  show ?thesis
    unfolding undefined_item_def by (subst split) simp
qed

lemma undefined_object_Cons:
  "undefined_member (JObject ((k, x) # w)) (JObject ours) p \<longleftrightarrow>
     \<not> is_null x \<and>
        (case map_of ours k of
           None \<Rightarrow> p = [escape_token k]
         | Some y \<Rightarrow> \<exists>q. p = escape_token k # q \<and> undefined_member x y q) \<or>
     undefined_member (JObject w) (JObject ours) p"
  by (simp only: undefined_in_object set_simps) blast

lemma diff_finds:
  "finds path (diff w ours path) (undefined_member w ours)"
  "finds path' (diff_members ws os path') (undefined_member (JObject ws) (JObject os))"
  "finds path'' (diff_items i ts us path'') (undefined_item i ts us)"
proof (induction w ours path and ws os path' and i ts us path'' rule: diff_diff_members_diff_items.induct, goal_cases)
  case (2 w ours path)
  then show ?case by (simp add: finds_def undefined_in_array undefined_item_def)
next
  case (21 ours path)
  then show ?case by (simp add: finds_def undefined_in_object)
next
  case (22 k x w ours path)
  show ?case
  proof (cases "is_null x")
    case True
    then show ?thesis using 22(1) unfolding undefined_object_Cons by simp
  next
    case False
    let ?found = "case map_of ours k of None \<Rightarrow> Some (render (path @ [escape_token k])) | Some mine \<Rightarrow> diff x mine (path @ [escape_token k])"
    let ?U = "\<lambda>p. case map_of ours k of None \<Rightarrow> p = [escape_token k] | Some y \<Rightarrow> \<exists>q. p = escape_token k # q \<and> undefined_member x y q"
    have found: "finds path ?found ?U"
      using 22(2) False by (cases "map_of ours k") (simp_all add: finds_def [of path "Some _"] finds_under)
    have "finds path (diff_members w ours path) (undefined_member (JObject w) (JObject ours))" if "?found = None"
      using 22(3) False that by simp
    from finds_or [OF found this] show ?thesis
      using False unfolding undefined_object_Cons by (simp add: Let_def)
  qed
next
  case (23 i x w mine ours path)
  have "finds path (diff x mine (path @ [digits i])) (\<lambda>p. \<exists>q. p = digits i # q \<and> undefined_member x mine q)"
    using 23(1) by (rule finds_under)
  from finds_or [OF this 23(2)] show ?case
    unfolding undefined_item_Cons by simp
qed (simp_all add: finds_def undefined_elsewhere undefined_item_def)


section \<open>What a decoded payload satisfies\<close>

text \<open>The documented behaviour of the derived deserializers: what they give is of the type.\<close>

definition library_ok :: "'x json_library \<Rightarrow> bool" where
  "library_ok lib \<longleftrightarrow>
     (\<forall>sh s v. lb_read lib sh s = Inr v \<longrightarrow> has_shape sh v) \<and>
     (\<forall>sh t v. lb_read_tree lib sh t = Inr v \<longrightarrow> has_shape sh v)"

lemma read_payload_cases:
  assumes "read_payload lib sh s opts = Inr v"
  shows "lb_read lib sh s = Inr v \<or>
    repairs_enabled opts \<and>
    (\<exists>t n u. lb_tree lib s = Inr t \<and> 0 < n \<and> n \<le> do_max_repairs opts \<and> repaired lib opts t n u \<and>
       lb_read_tree lib sh u = Inr v)"
proof (cases "lb_read lib sh s")
  case (Inl e)
  then have r: "repairs_enabled opts" "repair_and_parse lib sh s opts (classify e) = Inr v"
    using assms by (auto simp: read_payload_def split: if_splits)
  then obtain t where t: "lb_tree lib s = Inr t" "repair_loop lib sh opts (do_max_repairs opts) t (classify e) = Inr v"
    by (auto simp: repair_and_parse_def split: sum.splits)
  from repair_loop_repairs [OF t(2) repaired.none] t(1) r(1) show ?thesis by auto
qed (use assms in \<open>simp add: read_payload_def\<close>)

lemma no_fault_left:
  assumes "shape_ok sh" and "has_shape sh v" and "fault_at sh v k r"
    and "validate sh v = Inr () \<or> validate sh v = Inl vs \<and> retain_kinds (\<lambda>k. k \<noteq> UnknownEnumValue) vs = []"
  shows "k = UnknownEnumValue \<and> validate sh v \<noteq> Inr ()"
proof -
  obtain new where new: "validate_at sh v ([], []) = ([], [] @ new)" "noted new = faults [] sh v"
    by (rule validate_at_adds [OF assms(1,2)])
  have "(to_pointer r, k) \<in> faults [] sh v" using in_faults [of "to_pointer r" k "[]"] assms(3) by auto
  then have "(to_pointer r, k) \<in> noted new" by (simp add: new(2))
  then obtain x where x: "x \<in> set new" "vn_kind x = k" by (auto simp: noted_def)
  then have "validate sh v = Inl new" using new(1) by (auto simp: validate_def Let_def)
  with assms(4) x show ?thesis by (auto simp: retain_kinds_def filter_empty_conv)
qed

text \<open>
  A library for one type, a struct with a number and a list of numbers, that reads two texts: in the
  first the number is spelled as a text, in the second an item of the list is.
\<close>

definition sample_type :: shape where
  "sample_type = StructOf ''Sample'' [Required ''n'' (IntegerOf (Some 0) (Some 9)), Optional ''list'' (VecOf None None (IntegerOf None None))]"

definition sample_value :: "int \<Rightarrow> unit payload" where
  "sample_value i = StructV [(''n'', Some (IntegerV i)), (''list'', None)]"

definition sample_tree :: "json \<Rightarrow> json" where
  "sample_tree x = JObject [(''n'', x)]"

definition quoted :: "string \<Rightarrow> string" where
  "quoted s = [CHR 0x22] @ s @ [CHR 0x22]"

definition number_as_text :: string where
  "number_as_text = ''{'' @ quoted ''n'' @ '':'' @ quoted ''7'' @ ''}''"

definition number_too_big :: string where
  "number_too_big = ''{'' @ quoted ''n'' @ '':12}''"

definition item_as_text :: string where
  "item_as_text = ''{'' @ quoted ''n'' @ '':7,'' @ quoted ''list'' @ '':['' @ quoted ''8'' @ '']}''"

definition type_error_at :: "string \<Rightarrow> serde_error" where
  "type_error_at p = \<lparr>se_path = p, se_category = DataError, se_message = ''invalid type: string, expected i32 at line 1 column 8''\<rparr>"

definition sample_library :: "unit json_library" where
  "sample_library =
     \<lparr>lb_read = (\<lambda>sh s. if sh = sample_type \<and> s = number_too_big then Inr (sample_value 12)
        else Inl (type_error_at (if s = item_as_text then ''list[0]'' else ''n''))),
      lb_read_tree = (\<lambda>sh t. if sh = sample_type \<and> t = sample_tree (JNumber ''7'') then Inr (sample_value 7)
        else Inl (type_error_at ''n'')),
      lb_tree = (\<lambda>s. Inr (if s = item_as_text
        then JObject [(''n'', JNumber ''7''), (''list'', JArray [JString ''8''])] else sample_tree (JString ''7''))),
      lb_write = (\<lambda>sh v. Inr (sample_tree (JNumber ''7''))),
      lb_text = (\<lambda>t. []),
      lb_number = (\<lambda>s. s = ''7''),
      lb_date_time = (\<lambda>s. False)\<rparr>"

lemma sample_library_ok: "library_ok sample_library"
proof -
  have "has_shape sample_type (sample_value 12)" "has_shape sample_type (sample_value 7)" by code_simp+
  then show ?thesis by (auto simp: library_ok_def sample_library_def split: if_splits)
qed

lemma sample_type_ok: "shape_ok sample_type"
  by code_simp

text \<open>
  C38. Only what the schema allows is decoded, and leniency forgives only what it names. A payload
  that decodes is within the size limit and an object; its value was read from the text as it
  came, or, with the knobs on, from the text with at most \<open>max_repairs\<close> texts rewritten to the numbers
  they spell or to strict times; no constraint of the schema is broken in it, except that an
  enumeration may hold an undefined value where the options preserve these; and where undefined
  members are refused there is none.
\<close>

theorem decode_justified:
  assumes "library_ok lib" and "shape_ok sh" and "decode_payload lib sh s opts = Inr v"
  shows "utf8_len s \<le> do_max_size opts \<and> starts_with (trim_start s) [CHR 0x7B] \<and>
    (lb_read lib sh s = Inr v \<or>
     repairs_enabled opts \<and>
     (\<exists>t n u. lb_tree lib s = Inr t \<and> 0 < n \<and> n \<le> do_max_repairs opts \<and> repaired lib opts t n u \<and>
        lb_read_tree lib sh u = Inr v)) \<and>
    (\<forall>k r sh' w. reach sh v r = Some (sh', w) \<and> broken k sh' w \<longrightarrow>
       k = UnknownEnumValue \<and> do_enum_values opts = PreserveEnumValues) \<and>
    (do_fields opts = RejectFields \<longrightarrow>
       (\<exists>wire ours. lb_tree lib s = Inr wire \<and> lb_write lib sh v = Inr ours \<and> (\<forall>p. \<not> undefined_member wire ours p)))"
proof -
  let ?unknown = "if do_fields opts = RejectFields then first_unknown_field lib sh s v else Inr None"
  have size: "utf8_len s \<le> do_max_size opts" "starts_with (trim_start s) [CHR 0x7B]"
    using assms(3) by (auto simp: decode_payload_def split: if_splits)
  obtain v' where v': "read_payload lib sh s opts = Inr v'"
    using assms(3) size by (auto simp: decode_payload_def split: sum.splits)
  have "v' = v" and unknown: "?unknown = Inr None"
    and valid: "validate sh v = Inr () \<or> (\<exists>vs. validate sh v = Inl vs \<and>
       first_violation (if do_enum_values opts = PreserveEnumValues
         then retain_kinds (\<lambda>k. k \<noteq> UnknownEnumValue) vs else vs) = None)"
    using assms(3) size v'
    by (auto simp: decode_payload_def Let_def split: sum.splits option.splits if_splits)
  note read = read_payload_cases [OF v' [unfolded \<open>v' = v\<close>]]
  have shape: "has_shape sh v" using read assms(1) by (auto simp: library_ok_def)
  have nonempty: "validate sh v \<noteq> Inl []" by (simp add: validate_def Let_def)
  have faults: "k = UnknownEnumValue \<and> do_enum_values opts = PreserveEnumValues" if "fault_at sh v k r" for k r
    using valid
  proof (elim disjE exE conjE)
    assume "validate sh v = Inr ()"
    with no_fault_left [OF assms(2) shape that] show ?thesis by blast
  next
    fix vs assume vs: "validate sh v = Inl vs"
      and left: "first_violation (if do_enum_values opts = PreserveEnumValues
         then retain_kinds (\<lambda>k. k \<noteq> UnknownEnumValue) vs else vs) = None"
    show ?thesis
    proof (cases "do_enum_values opts = PreserveEnumValues")
      case True
      then have "retain_kinds (\<lambda>k. k \<noteq> UnknownEnumValue) vs = []"
        using left by (simp add: first_violation_def split: list.splits)
      with no_fault_left [OF assms(2) shape that] vs True show ?thesis by blast
    next
      case False
      then have "vs = []" using left by (simp add: first_violation_def split: list.splits)
      with vs nonempty show ?thesis by simp
    qed
  qed
  have members: "\<exists>wire ours. lb_tree lib s = Inr wire \<and> lb_write lib sh v = Inr ours \<and> (\<forall>p. \<not> undefined_member wire ours p)"
    if "do_fields opts = RejectFields"
  proof -
    have "first_unknown_field lib sh s v = Inr None" using unknown that by simp
    then obtain wire ours where "lb_tree lib s = Inr wire" "lb_write lib sh v = Inr ours" "diff wire ours [] = None"
      by (auto simp: first_unknown_field_def split: sum.splits)
    then show ?thesis using diff_finds(1) [of "[]" wire ours] by (auto simp: finds_def)
  qed
  show ?thesis using size read faults members by (simp add: fault_at_def)
qed

theorem decode_justified_witness:
  "decode_payload sample_library sample_type number_as_text options_lenient = Inr (sample_value 7) \<and>
   (\<exists>t n u. lb_tree sample_library number_as_text = Inr t \<and> 0 < n \<and> n \<le> 32 \<and>
      repaired sample_library options_lenient t n u \<and> lb_read_tree sample_library sample_type u = Inr (sample_value 7))"
proof -
  have d: "decode_payload sample_library sample_type number_as_text options_lenient = Inr (sample_value 7)"
    by code_simp
  have "lb_read sample_library sample_type number_as_text \<noteq> Inr (sample_value 7)" by code_simp
  moreover have "do_max_repairs options_lenient = 32" by code_simp
  ultimately show ?thesis using decode_justified [OF sample_library_ok sample_type_ok d] d by auto
qed

lemma broken_kinds: "broken k sh v \<Longrightarrow> k \<in> {PropertyViolation, UnknownEnumValue, OccurrenceViolation}"
  by (induction k sh v rule: broken.induct) auto

text \<open>
  C39. A payload that can be read is judged by its constraints alone, and the refusal names the fault.
  With undefined members ignored, a text that reads as a value of the type is decoded to that value
  exactly when no constraint is broken in it, undefined enumeration values aside where they are
  preserved. Otherwise the error is of the class, and carries the pointer, of a constraint that is
  broken in the value; the CALLERROR has the code for that class.
\<close>

theorem refusal_names_fault:
  assumes "library_ok lib" and "shape_ok sh" and "do_fields opts = IgnoreFields"
    and "utf8_len s \<le> do_max_size opts" and "starts_with (trim_start s) [CHR 0x7B]"
    and "lb_read lib sh s = Inr v"
  shows "case decode_payload lib sh s opts of
      Inr w \<Rightarrow> w = v \<and>
        (\<forall>k r. fault_at sh v k r \<longrightarrow> k = UnknownEnumValue \<and> do_enum_values opts = PreserveEnumValues)
    | Inl e \<Rightarrow> (\<exists>k r. fault_at sh v k r \<and> \<not> (k = UnknownEnumValue \<and> do_enum_values opts = PreserveEnumValues) \<and>
        de_path e = to_pointer r \<and>
        code (call_error_of_decode lib e) =
          (case k of OccurrenceViolation \<Rightarrow> OccurrenceConstraintViolation | _ \<Rightarrow> PropertyConstraintViolation))"
proof -
  have shape: "has_shape sh v" using assms(1,6) by (auto simp: library_ok_def)
  obtain new where new: "validate_at sh v ([], []) = ([], [] @ new)" "noted new = faults [] sh v"
    by (rule validate_at_adds [OF assms(2) shape])
  define left where "left =
    (if do_enum_values opts = PreserveEnumValues then retain_kinds (\<lambda>k. k \<noteq> UnknownEnumValue) new else new)"
  have d: "decode_payload lib sh s opts =
      (case first_violation left of Some x \<Rightarrow> Inl (from_violation x) | None \<Rightarrow> Inr v)"
    using assms(3-6) new(1)
    by (auto simp: decode_payload_def read_payload_def validate_def Let_def first_violation_def retain_kinds_def left_def
      split: list.splits)
  have mem: "(\<exists>x \<in> set left. vn_path x = q \<and> vn_kind x = k) \<longleftrightarrow>
      (q, k) \<in> noted new \<and> \<not> (k = UnknownEnumValue \<and> do_enum_values opts = PreserveEnumValues)" for q k
    by (auto simp: noted_def retain_kinds_def left_def)
  show ?thesis
  proof (cases left)
    case Nil
    have "(to_pointer r, k) \<in> noted new" if "fault_at sh v k r" for k r
      using in_faults [of "to_pointer r" k "[]"] that new(2) by auto
    then have "\<forall>k r. fault_at sh v k r \<longrightarrow> k = UnknownEnumValue \<and> do_enum_values opts = PreserveEnumValues"
      using mem unfolding Nil by fastforce
    moreover have "decode_payload lib sh s opts = Inr v" using d Nil by (simp add: first_violation_def)
    ultimately show ?thesis by simp
  next
    case (Cons x xs)
    have x: "(vn_path x, vn_kind x) \<in> noted new"
      "\<not> (vn_kind x = UnknownEnumValue \<and> do_enum_values opts = PreserveEnumValues)"
      using mem [of "vn_path x" "vn_kind x"] unfolding Cons by auto
    then obtain r where r: "fault_at sh v (vn_kind x) r" "vn_path x = to_pointer r"
      using in_faults [of "vn_path x" "vn_kind x" "[]" sh v] new(2) by auto
    have kinds: "vn_kind x \<in> {PropertyViolation, UnknownEnumValue, OccurrenceViolation}"
      using r(1) broken_kinds unfolding fault_at_def by blast
    have "decode_payload lib sh s opts = Inl (from_violation x)" using d Cons by (simp add: first_violation_def)
    moreover have "code (call_error_of_decode lib (from_violation x)) =
        (case vn_kind x of OccurrenceViolation \<Rightarrow> OccurrenceConstraintViolation | _ \<Rightarrow> PropertyConstraintViolation)"
      using kinds by (auto simp: from_violation_def decode_error_new_def call_error_of_decode_def)
    ultimately show ?thesis
      using r x(2) by (auto simp: from_violation_def decode_error_new_def)
  qed
qed

theorem refusal_names_fault_witness:
  "lb_read sample_library sample_type number_too_big = Inr (sample_value 12) \<and>
   (\<exists>e k r. decode_payload sample_library sample_type number_too_big options_strict = Inl e \<and>
      de_path e = ''/n'' \<and> fault_at sample_type (sample_value 12) k r \<and> de_path e = to_pointer r)"
proof -
  have h: "do_fields options_strict = IgnoreFields" "utf8_len number_too_big \<le> do_max_size options_strict"
    "starts_with (trim_start number_too_big) [CHR 0x7B]"
    "lb_read sample_library sample_type number_too_big = Inr (sample_value 12)"
    by code_simp+
  have "map_sum de_path (\<lambda>v. v) (decode_payload sample_library sample_type number_too_big options_strict) = Inl ''/n''"
    by code_simp
  then obtain e where e: "decode_payload sample_library sample_type number_too_big options_strict = Inl e" "de_path e = ''/n''"
    by (cases "decode_payload sample_library sample_type number_too_big options_strict") simp_all
  show ?thesis
    using refusal_names_fault [OF sample_library_ok sample_type_ok h] e h(4) by auto
qed

section \<open>Where repairs do not reach\<close>

text \<open>No member name of the payload has a bracket.\<close>

fun plain_keys :: "json \<Rightarrow> bool" where
  "plain_keys (JObject fs) \<longleftrightarrow> list_all (\<lambda>(k, t). CHR ''['' \<notin> set k \<and> plain_keys t) fs"
| "plain_keys (JArray ts) \<longleftrightarrow> list_all plain_keys ts"
| "plain_keys t \<longleftrightarrow> True"

lemma parse_unsigned_chars: "parse_unsigned n s = Some i \<Longrightarrow> CHR ''['' \<notin> set s"
proof -
  assume s: "parse_unsigned n s = Some i"
  have "\<not> is_digit (CHR ''['')" by code_simp
  then have "CHR ''['' \<notin> set (if s \<noteq> [] \<and> hd s = CHR ''+'' then tl s else s)"
    using s by (auto simp: parse_unsigned_def Let_def list_all_iff split: if_splits)
  then show ?thesis by (cases s) (auto split: if_splits)
qed

lemma slot_bracket:
  "plain_keys t \<Longrightarrow> k \<in> set ks \<Longrightarrow> CHR ''['' \<in> set k \<Longrightarrow> slot t ks = None"
proof (induction t ks rule: slot.induct)
  case (2 fs k' ks)
  then show ?case by (auto simp: list_all_iff dest: map_of_SomeD split: option.splits)
next
  case (3 ts k' ks)
  then show ?case using parse_unsigned_chars [of u64_max k'] by (auto simp: list_all_iff split: option.splits)
qed auto

lemma replace_pair_keeps: "x \<in> set s \<Longrightarrow> x \<noteq> a \<Longrightarrow> x \<noteq> b \<Longrightarrow> x \<in> set (replace_pair a b r s)"
  by (induction a b r s rule: replace_pair.induct) auto

lemma split_on_keeps: "x \<in> set s \<Longrightarrow> x \<noteq> c \<Longrightarrow> \<exists>t \<in> set (split_on c s). x \<in> set t"
proof (induction s)
  case (Cons y s)
  obtain t ts where t: "split_on c s = t # ts" by (cases "split_on c s") auto
  then show ?case using Cons by auto
qed simp

lemma in_dropWhile: "x \<in> set s \<Longrightarrow> \<not> P x \<Longrightarrow> x \<in> set (dropWhile P s)"
  by (induction s) auto

lemma pointer_bracket:
  assumes "CHR ''['' \<in> set path"
  shows "\<exists>k \<in> set (pointer_keys (pointer_from path)). CHR ''['' \<in> set k"
proof -
  have ne: "path \<noteq> []" "path \<noteq> ''.''" using assms by auto
  obtain seg where seg: "seg \<in> set (split_on (CHR ''.'') path)" "CHR ''['' \<in> set seg"
    using split_on_keeps [OF assms, of "CHR ''.''"] by auto
  have "CHR ''['' \<in> set (escape_token seg)" using seg(2) by (auto simp: escape_token_map escaped_def)
  then have p: "CHR ''['' \<in> set (pointer_from path)" using seg(1) ne by (auto simp: pointer_from_def)
  then have "CHR ''['' \<in> set (dropWhile (\<lambda>c. c = CHR ''/'') (pointer_from path))"
    by (rule in_dropWhile) simp
  from split_on_keeps [OF this, of "CHR ''/''"] obtain tok where
    tok: "tok \<in> set (split_on (CHR ''/'') (dropWhile (\<lambda>c. c = CHR ''/'') (pointer_from path)))" "CHR ''['' \<in> set tok"
    by auto
  have "CHR ''['' \<in> set (unescape_token tok)"
    unfolding unescape_token_def using tok(2) by (intro replace_pair_keeps) simp_all
  then show ?thesis using tok(1) p by (auto simp: pointer_keys_def)
qed

text \<open>
  Leniency does not reach into arrays. \<open>serde_path_to_error\<close> prints an index in brackets, as in
  \<open>meterValue[0].timestamp\<close>, and \<open>pointer_from\<close> expects \<open>meterValue.0.timestamp\<close>: so a failure inside an array
  has a pointer that leads nowhere, no repair is tried whatever the options, and the payload is
  refused as by the strict decoder.
\<close>

theorem arrays_never_repaired:
  assumes "lb_read lib sh s = Inl e" and "CHR ''['' \<in> set (se_path e)"
    and "lb_tree lib s = Inr t" and "plain_keys t"
  shows "read_payload lib sh s opts = Inl (classify e)"
proof -
  have "slot t (pointer_keys (de_path (classify e))) = None"
    using pointer_bracket [OF assms(2)] slot_bracket [OF assms(4)]
    by (auto simp: classify_def decode_error_new_def)
  then have "apply_repair lib opts (classify e) t = None" by (simp add: apply_repair_def)
  then have "repair_loop lib sh opts n t (classify e) = Inl (classify e)" for n by (cases n) simp_all
  then show ?thesis using assms(1,3) by (simp add: read_payload_def repair_and_parse_def)
qed

theorem arrays_never_repaired_witness:
  "read_payload sample_library sample_type item_as_text options_lenient =
     Inl (classify (type_error_at ''list[0]'')) \<and>
   read_payload sample_library sample_type number_as_text options_lenient = Inr (sample_value 7)"
proof -
  have h: "lb_read sample_library sample_type item_as_text = Inl (type_error_at ''list[0]'')"
    "CHR ''['' \<in> set (se_path (type_error_at ''list[0]''))"
    "lb_tree sample_library item_as_text = Inr (JObject [(''n'', JNumber ''7''), (''list'', JArray [JString ''8''])])"
    "plain_keys (JObject [(''n'', JNumber ''7''), (''list'', JArray [JString ''8''])])"
    by code_simp+
  have "read_payload sample_library sample_type number_as_text options_lenient = Inr (sample_value 7)"
    by code_simp
  with arrays_never_repaired [OF h] show ?thesis by blast
qed

end
