(* ===== verification/Dispatch.thy ===== *)
theory Dispatch
  imports Dispatch_V1_6 Dispatch_V2_0_1 Dispatch_V2_1 Engine_Gate Decode
begin

text \<open>
  The message tables of the three versions side by side, and what makes them one protocol: every
  action has its request and its response, with the kind and the origin the action registry states,
  and the four enumerations of payloads split the messages by who sends the request.
\<close>

section \<open>The tables by version\<close>

fun requests :: "version \<Rightarrow> (string \<times> request_type) list" where
  "requests V1_6 = transcode_request_V1_6"
| "requests V2_0_1 = transcode_request_V2_0_1"
| "requests V2_1 = transcode_request_V2_1"

fun responses :: "version \<Rightarrow> (string \<times> shape option) list" where
  "responses V1_6 = transcode_response_V1_6"
| "responses V2_0_1 = transcode_response_V2_0_1"
| "responses V2_1 = transcode_response_V2_1"

fun cs_requests :: "version \<Rightarrow> (string \<times> request_type) list" where
  "cs_requests V1_6 = CsRequest_decode_V1_6"
| "cs_requests V2_0_1 = CsRequest_decode_V2_0_1"
| "cs_requests V2_1 = CsRequest_decode_V2_1"

fun csms_requests :: "version \<Rightarrow> (string \<times> request_type) list" where
  "csms_requests V1_6 = CsmsRequest_decode_V1_6"
| "csms_requests V2_0_1 = CsmsRequest_decode_V2_0_1"
| "csms_requests V2_1 = CsmsRequest_decode_V2_1"

fun cs_responses :: "version \<Rightarrow> (string \<times> shape) list" where
  "cs_responses V1_6 = CsResponse_decode_V1_6"
| "cs_responses V2_0_1 = CsResponse_decode_V2_0_1"
| "cs_responses V2_1 = CsResponse_decode_V2_1"

fun csms_responses :: "version \<Rightarrow> (string \<times> shape) list" where
  "csms_responses V1_6 = CsmsResponse_decode_V1_6"
| "csms_responses V2_0_1 = CsmsResponse_decode_V2_0_1"
| "csms_responses V2_1 = CsmsResponse_decode_V2_1"

text \<open>The variants of the enumerations and the actions they state are those \<open>decode\<close> reads.\<close>

lemma variants_decoded:
  "CsRequest_V1_6 = CsRequest_decode_V1_6" "CsmsRequest_V1_6 = CsmsRequest_decode_V1_6"
  "CsRequest_V2_0_1 = CsRequest_decode_V2_0_1" "CsmsRequest_V2_0_1 = CsmsRequest_decode_V2_0_1"
  "CsRequest_V2_1 = CsRequest_decode_V2_1" "CsmsRequest_V2_1 = CsmsRequest_decode_V2_1"
  "CsResponse_V1_6 = CsResponse_decode_V1_6" "CsmsResponse_V1_6 = CsmsResponse_decode_V1_6"
  "CsResponse_V2_0_1 = CsResponse_decode_V2_0_1" "CsmsResponse_V2_0_1 = CsmsResponse_decode_V2_0_1"
  "CsResponse_V2_1 = CsResponse_decode_V2_1" "CsmsResponse_V2_1 = CsmsResponse_decode_V2_1"
  by (simp_all only: CsRequest_V1_6_def CsRequest_decode_V1_6_def CsmsRequest_V1_6_def CsmsRequest_decode_V1_6_def
    CsRequest_V2_0_1_def CsRequest_decode_V2_0_1_def CsmsRequest_V2_0_1_def CsmsRequest_decode_V2_0_1_def
    CsRequest_V2_1_def CsRequest_decode_V2_1_def CsmsRequest_V2_1_def CsmsRequest_decode_V2_1_def
    CsResponse_V1_6_def CsResponse_decode_V1_6_def CsmsResponse_V1_6_def CsmsResponse_decode_V1_6_def
    CsResponse_V2_0_1_def CsResponse_decode_V2_0_1_def CsmsResponse_V2_0_1_def CsmsResponse_decode_V2_0_1_def
    CsResponse_V2_1_def CsResponse_decode_V2_1_def CsmsResponse_V2_1_def CsmsResponse_decode_V2_1_def)

section \<open>Requests and responses of every action\<close>

named_theorems heads

lemma heads_V1_6 [heads]:
  "rq_action AuthorizeRequest_V1_6 = ''Authorize''" "rq_kind AuthorizeRequest_V1_6 = Call"
  "rq_origin AuthorizeRequest_V1_6 = ChargingStationOrigin"
  "rq_response AuthorizeRequest_V1_6 = Some AuthorizeResponse_V1_6"
  "rq_action BootNotificationRequest_V1_6 = ''BootNotification''"
  "rq_kind BootNotificationRequest_V1_6 = Call"
  "rq_origin BootNotificationRequest_V1_6 = ChargingStationOrigin"
  "rq_response BootNotificationRequest_V1_6 = Some BootNotificationResponse_V1_6"
  "rq_action CancelReservationRequest_V1_6 = ''CancelReservation''"
  "rq_kind CancelReservationRequest_V1_6 = Call"
  "rq_origin CancelReservationRequest_V1_6 = CsmsOrigin"
  "rq_response CancelReservationRequest_V1_6 = Some CancelReservationResponse_V1_6"
  "rq_action CertificateSignedRequest_V1_6 = ''CertificateSigned''"
  "rq_kind CertificateSignedRequest_V1_6 = Call"
  "rq_origin CertificateSignedRequest_V1_6 = CsmsOrigin"
  "rq_response CertificateSignedRequest_V1_6 = Some CertificateSignedResponse_V1_6"
  "rq_action ChangeAvailabilityRequest_V1_6 = ''ChangeAvailability''"
  "rq_kind ChangeAvailabilityRequest_V1_6 = Call"
  "rq_origin ChangeAvailabilityRequest_V1_6 = CsmsOrigin"
  "rq_response ChangeAvailabilityRequest_V1_6 = Some ChangeAvailabilityResponse_V1_6"
  "rq_action ChangeConfigurationRequest_V1_6 = ''ChangeConfiguration''"
  "rq_kind ChangeConfigurationRequest_V1_6 = Call"
  "rq_origin ChangeConfigurationRequest_V1_6 = CsmsOrigin"
  "rq_response ChangeConfigurationRequest_V1_6 = Some ChangeConfigurationResponse_V1_6"
  "rq_action ClearCacheRequest_V1_6 = ''ClearCache''" "rq_kind ClearCacheRequest_V1_6 = Call"
  "rq_origin ClearCacheRequest_V1_6 = CsmsOrigin"
  "rq_response ClearCacheRequest_V1_6 = Some ClearCacheResponse_V1_6"
  "rq_action ClearChargingProfileRequest_V1_6 = ''ClearChargingProfile''"
  "rq_kind ClearChargingProfileRequest_V1_6 = Call"
  "rq_origin ClearChargingProfileRequest_V1_6 = CsmsOrigin"
  "rq_response ClearChargingProfileRequest_V1_6 = Some ClearChargingProfileResponse_V1_6"
  "rq_action DataTransferRequest_V1_6 = ''DataTransfer''" "rq_kind DataTransferRequest_V1_6 = Call"
  "rq_origin DataTransferRequest_V1_6 = BothOrigin"
  "rq_response DataTransferRequest_V1_6 = Some DataTransferResponse_V1_6"
  "rq_action DeleteCertificateRequest_V1_6 = ''DeleteCertificate''"
  "rq_kind DeleteCertificateRequest_V1_6 = Call"
  "rq_origin DeleteCertificateRequest_V1_6 = CsmsOrigin"
  "rq_response DeleteCertificateRequest_V1_6 = Some DeleteCertificateResponse_V1_6"
  "rq_action DiagnosticsStatusNotificationRequest_V1_6 = ''DiagnosticsStatusNotification''"
  "rq_kind DiagnosticsStatusNotificationRequest_V1_6 = Call"
  "rq_origin DiagnosticsStatusNotificationRequest_V1_6 = ChargingStationOrigin"
  "rq_response DiagnosticsStatusNotificationRequest_V1_6 = Some DiagnosticsStatusNotificationResponse_V1_6"
  "rq_action ExtendedTriggerMessageRequest_V1_6 = ''ExtendedTriggerMessage''"
  "rq_kind ExtendedTriggerMessageRequest_V1_6 = Call"
  "rq_origin ExtendedTriggerMessageRequest_V1_6 = CsmsOrigin"
  "rq_response ExtendedTriggerMessageRequest_V1_6 = Some ExtendedTriggerMessageResponse_V1_6"
  "rq_action FirmwareStatusNotificationRequest_V1_6 = ''FirmwareStatusNotification''"
  "rq_kind FirmwareStatusNotificationRequest_V1_6 = Call"
  "rq_origin FirmwareStatusNotificationRequest_V1_6 = ChargingStationOrigin"
  "rq_response FirmwareStatusNotificationRequest_V1_6 = Some FirmwareStatusNotificationResponse_V1_6"
  "rq_action GetCompositeScheduleRequest_V1_6 = ''GetCompositeSchedule''"
  "rq_kind GetCompositeScheduleRequest_V1_6 = Call"
  "rq_origin GetCompositeScheduleRequest_V1_6 = CsmsOrigin"
  "rq_response GetCompositeScheduleRequest_V1_6 = Some GetCompositeScheduleResponse_V1_6"
  "rq_action GetConfigurationRequest_V1_6 = ''GetConfiguration''"
  "rq_kind GetConfigurationRequest_V1_6 = Call"
  "rq_origin GetConfigurationRequest_V1_6 = CsmsOrigin"
  "rq_response GetConfigurationRequest_V1_6 = Some GetConfigurationResponse_V1_6"
  "rq_action GetDiagnosticsRequest_V1_6 = ''GetDiagnostics''"
  "rq_kind GetDiagnosticsRequest_V1_6 = Call" "rq_origin GetDiagnosticsRequest_V1_6 = CsmsOrigin"
  "rq_response GetDiagnosticsRequest_V1_6 = Some GetDiagnosticsResponse_V1_6"
  "rq_action GetInstalledCertificateIdsRequest_V1_6 = ''GetInstalledCertificateIds''"
  "rq_kind GetInstalledCertificateIdsRequest_V1_6 = Call"
  "rq_origin GetInstalledCertificateIdsRequest_V1_6 = CsmsOrigin"
  "rq_response GetInstalledCertificateIdsRequest_V1_6 = Some GetInstalledCertificateIdsResponse_V1_6"
  "rq_action GetLocalListVersionRequest_V1_6 = ''GetLocalListVersion''"
  "rq_kind GetLocalListVersionRequest_V1_6 = Call"
  "rq_origin GetLocalListVersionRequest_V1_6 = CsmsOrigin"
  "rq_response GetLocalListVersionRequest_V1_6 = Some GetLocalListVersionResponse_V1_6"
  "rq_action GetLogRequest_V1_6 = ''GetLog''" "rq_kind GetLogRequest_V1_6 = Call"
  "rq_origin GetLogRequest_V1_6 = CsmsOrigin"
  "rq_response GetLogRequest_V1_6 = Some GetLogResponse_V1_6"
  "rq_action HeartbeatRequest_V1_6 = ''Heartbeat''" "rq_kind HeartbeatRequest_V1_6 = Call"
  "rq_origin HeartbeatRequest_V1_6 = ChargingStationOrigin"
  "rq_response HeartbeatRequest_V1_6 = Some HeartbeatResponse_V1_6"
  "rq_action InstallCertificateRequest_V1_6 = ''InstallCertificate''"
  "rq_kind InstallCertificateRequest_V1_6 = Call"
  "rq_origin InstallCertificateRequest_V1_6 = CsmsOrigin"
  "rq_response InstallCertificateRequest_V1_6 = Some InstallCertificateResponse_V1_6"
  "rq_action LogStatusNotificationRequest_V1_6 = ''LogStatusNotification''"
  "rq_kind LogStatusNotificationRequest_V1_6 = Call"
  "rq_origin LogStatusNotificationRequest_V1_6 = ChargingStationOrigin"
  "rq_response LogStatusNotificationRequest_V1_6 = Some LogStatusNotificationResponse_V1_6"
  "rq_action MeterValuesRequest_V1_6 = ''MeterValues''" "rq_kind MeterValuesRequest_V1_6 = Call"
  "rq_origin MeterValuesRequest_V1_6 = ChargingStationOrigin"
  "rq_response MeterValuesRequest_V1_6 = Some MeterValuesResponse_V1_6"
  "rq_action RemoteStartTransactionRequest_V1_6 = ''RemoteStartTransaction''"
  "rq_kind RemoteStartTransactionRequest_V1_6 = Call"
  "rq_origin RemoteStartTransactionRequest_V1_6 = CsmsOrigin"
  "rq_response RemoteStartTransactionRequest_V1_6 = Some RemoteStartTransactionResponse_V1_6"
  "rq_action RemoteStopTransactionRequest_V1_6 = ''RemoteStopTransaction''"
  "rq_kind RemoteStopTransactionRequest_V1_6 = Call"
  "rq_origin RemoteStopTransactionRequest_V1_6 = CsmsOrigin"
  "rq_response RemoteStopTransactionRequest_V1_6 = Some RemoteStopTransactionResponse_V1_6"
  "rq_action ReserveNowRequest_V1_6 = ''ReserveNow''" "rq_kind ReserveNowRequest_V1_6 = Call"
  "rq_origin ReserveNowRequest_V1_6 = CsmsOrigin"
  "rq_response ReserveNowRequest_V1_6 = Some ReserveNowResponse_V1_6"
  "rq_action ResetRequest_V1_6 = ''Reset''" "rq_kind ResetRequest_V1_6 = Call"
  "rq_origin ResetRequest_V1_6 = CsmsOrigin"
  "rq_response ResetRequest_V1_6 = Some ResetResponse_V1_6"
  "rq_action SecurityEventNotificationRequest_V1_6 = ''SecurityEventNotification''"
  "rq_kind SecurityEventNotificationRequest_V1_6 = Call"
  "rq_origin SecurityEventNotificationRequest_V1_6 = ChargingStationOrigin"
  "rq_response SecurityEventNotificationRequest_V1_6 = Some SecurityEventNotificationResponse_V1_6"
  "rq_action SendLocalListRequest_V1_6 = ''SendLocalList''"
  "rq_kind SendLocalListRequest_V1_6 = Call" "rq_origin SendLocalListRequest_V1_6 = CsmsOrigin"
  "rq_response SendLocalListRequest_V1_6 = Some SendLocalListResponse_V1_6"
  "rq_action SetChargingProfileRequest_V1_6 = ''SetChargingProfile''"
  "rq_kind SetChargingProfileRequest_V1_6 = Call"
  "rq_origin SetChargingProfileRequest_V1_6 = CsmsOrigin"
  "rq_response SetChargingProfileRequest_V1_6 = Some SetChargingProfileResponse_V1_6"
  "rq_action SignCertificateRequest_V1_6 = ''SignCertificate''"
  "rq_kind SignCertificateRequest_V1_6 = Call"
  "rq_origin SignCertificateRequest_V1_6 = ChargingStationOrigin"
  "rq_response SignCertificateRequest_V1_6 = Some SignCertificateResponse_V1_6"
  "rq_action SignedFirmwareStatusNotificationRequest_V1_6 = ''SignedFirmwareStatusNotification''"
  "rq_kind SignedFirmwareStatusNotificationRequest_V1_6 = Call"
  "rq_origin SignedFirmwareStatusNotificationRequest_V1_6 = ChargingStationOrigin"
  "rq_response SignedFirmwareStatusNotificationRequest_V1_6 = Some SignedFirmwareStatusNotificationResponse_V1_6"
  "rq_action SignedUpdateFirmwareRequest_V1_6 = ''SignedUpdateFirmware''"
  "rq_kind SignedUpdateFirmwareRequest_V1_6 = Call"
  "rq_origin SignedUpdateFirmwareRequest_V1_6 = CsmsOrigin"
  "rq_response SignedUpdateFirmwareRequest_V1_6 = Some SignedUpdateFirmwareResponse_V1_6"
  "rq_action StartTransactionRequest_V1_6 = ''StartTransaction''"
  "rq_kind StartTransactionRequest_V1_6 = Call"
  "rq_origin StartTransactionRequest_V1_6 = ChargingStationOrigin"
  "rq_response StartTransactionRequest_V1_6 = Some StartTransactionResponse_V1_6"
  "rq_action StatusNotificationRequest_V1_6 = ''StatusNotification''"
  "rq_kind StatusNotificationRequest_V1_6 = Call"
  "rq_origin StatusNotificationRequest_V1_6 = ChargingStationOrigin"
  "rq_response StatusNotificationRequest_V1_6 = Some StatusNotificationResponse_V1_6"
  "rq_action StopTransactionRequest_V1_6 = ''StopTransaction''"
  "rq_kind StopTransactionRequest_V1_6 = Call"
  "rq_origin StopTransactionRequest_V1_6 = ChargingStationOrigin"
  "rq_response StopTransactionRequest_V1_6 = Some StopTransactionResponse_V1_6"
  "rq_action TriggerMessageRequest_V1_6 = ''TriggerMessage''"
  "rq_kind TriggerMessageRequest_V1_6 = Call" "rq_origin TriggerMessageRequest_V1_6 = CsmsOrigin"
  "rq_response TriggerMessageRequest_V1_6 = Some TriggerMessageResponse_V1_6"
  "rq_action UnlockConnectorRequest_V1_6 = ''UnlockConnector''"
  "rq_kind UnlockConnectorRequest_V1_6 = Call" "rq_origin UnlockConnectorRequest_V1_6 = CsmsOrigin"
  "rq_response UnlockConnectorRequest_V1_6 = Some UnlockConnectorResponse_V1_6"
  "rq_action UpdateFirmwareRequest_V1_6 = ''UpdateFirmware''"
  "rq_kind UpdateFirmwareRequest_V1_6 = Call" "rq_origin UpdateFirmwareRequest_V1_6 = CsmsOrigin"
  "rq_response UpdateFirmwareRequest_V1_6 = Some UpdateFirmwareResponse_V1_6"
  by (simp_all only: request_type.sel
    AuthorizeRequest_V1_6_def BootNotificationRequest_V1_6_def CancelReservationRequest_V1_6_def
    CertificateSignedRequest_V1_6_def ChangeAvailabilityRequest_V1_6_def
    ChangeConfigurationRequest_V1_6_def ClearCacheRequest_V1_6_def
    ClearChargingProfileRequest_V1_6_def DataTransferRequest_V1_6_def
    DeleteCertificateRequest_V1_6_def DiagnosticsStatusNotificationRequest_V1_6_def
    ExtendedTriggerMessageRequest_V1_6_def FirmwareStatusNotificationRequest_V1_6_def
    GetCompositeScheduleRequest_V1_6_def GetConfigurationRequest_V1_6_def
    GetDiagnosticsRequest_V1_6_def GetInstalledCertificateIdsRequest_V1_6_def
    GetLocalListVersionRequest_V1_6_def GetLogRequest_V1_6_def HeartbeatRequest_V1_6_def
    InstallCertificateRequest_V1_6_def LogStatusNotificationRequest_V1_6_def
    MeterValuesRequest_V1_6_def RemoteStartTransactionRequest_V1_6_def
    RemoteStopTransactionRequest_V1_6_def ReserveNowRequest_V1_6_def ResetRequest_V1_6_def
    SecurityEventNotificationRequest_V1_6_def SendLocalListRequest_V1_6_def
    SetChargingProfileRequest_V1_6_def SignCertificateRequest_V1_6_def
    SignedFirmwareStatusNotificationRequest_V1_6_def SignedUpdateFirmwareRequest_V1_6_def
    StartTransactionRequest_V1_6_def StatusNotificationRequest_V1_6_def
    StopTransactionRequest_V1_6_def TriggerMessageRequest_V1_6_def UnlockConnectorRequest_V1_6_def
    UpdateFirmwareRequest_V1_6_def)

lemma heads_V2_0_1 [heads]:
  "rq_action AuthorizeRequest_V2_0_1 = ''Authorize''" "rq_kind AuthorizeRequest_V2_0_1 = Call"
  "rq_origin AuthorizeRequest_V2_0_1 = ChargingStationOrigin"
  "rq_response AuthorizeRequest_V2_0_1 = Some AuthorizeResponse_V2_0_1"
  "rq_action BootNotificationRequest_V2_0_1 = ''BootNotification''"
  "rq_kind BootNotificationRequest_V2_0_1 = Call"
  "rq_origin BootNotificationRequest_V2_0_1 = ChargingStationOrigin"
  "rq_response BootNotificationRequest_V2_0_1 = Some BootNotificationResponse_V2_0_1"
  "rq_action CancelReservationRequest_V2_0_1 = ''CancelReservation''"
  "rq_kind CancelReservationRequest_V2_0_1 = Call"
  "rq_origin CancelReservationRequest_V2_0_1 = CsmsOrigin"
  "rq_response CancelReservationRequest_V2_0_1 = Some CancelReservationResponse_V2_0_1"
  "rq_action CertificateSignedRequest_V2_0_1 = ''CertificateSigned''"
  "rq_kind CertificateSignedRequest_V2_0_1 = Call"
  "rq_origin CertificateSignedRequest_V2_0_1 = CsmsOrigin"
  "rq_response CertificateSignedRequest_V2_0_1 = Some CertificateSignedResponse_V2_0_1"
  "rq_action ChangeAvailabilityRequest_V2_0_1 = ''ChangeAvailability''"
  "rq_kind ChangeAvailabilityRequest_V2_0_1 = Call"
  "rq_origin ChangeAvailabilityRequest_V2_0_1 = CsmsOrigin"
  "rq_response ChangeAvailabilityRequest_V2_0_1 = Some ChangeAvailabilityResponse_V2_0_1"
  "rq_action ClearCacheRequest_V2_0_1 = ''ClearCache''" "rq_kind ClearCacheRequest_V2_0_1 = Call"
  "rq_origin ClearCacheRequest_V2_0_1 = CsmsOrigin"
  "rq_response ClearCacheRequest_V2_0_1 = Some ClearCacheResponse_V2_0_1"
  "rq_action ClearChargingProfileRequest_V2_0_1 = ''ClearChargingProfile''"
  "rq_kind ClearChargingProfileRequest_V2_0_1 = Call"
  "rq_origin ClearChargingProfileRequest_V2_0_1 = CsmsOrigin"
  "rq_response ClearChargingProfileRequest_V2_0_1 = Some ClearChargingProfileResponse_V2_0_1"
  "rq_action ClearDisplayMessageRequest_V2_0_1 = ''ClearDisplayMessage''"
  "rq_kind ClearDisplayMessageRequest_V2_0_1 = Call"
  "rq_origin ClearDisplayMessageRequest_V2_0_1 = CsmsOrigin"
  "rq_response ClearDisplayMessageRequest_V2_0_1 = Some ClearDisplayMessageResponse_V2_0_1"
  "rq_action ClearVariableMonitoringRequest_V2_0_1 = ''ClearVariableMonitoring''"
  "rq_kind ClearVariableMonitoringRequest_V2_0_1 = Call"
  "rq_origin ClearVariableMonitoringRequest_V2_0_1 = CsmsOrigin"
  "rq_response ClearVariableMonitoringRequest_V2_0_1 = Some ClearVariableMonitoringResponse_V2_0_1"
  "rq_action ClearedChargingLimitRequest_V2_0_1 = ''ClearedChargingLimit''"
  "rq_kind ClearedChargingLimitRequest_V2_0_1 = Call"
  "rq_origin ClearedChargingLimitRequest_V2_0_1 = ChargingStationOrigin"
  "rq_response ClearedChargingLimitRequest_V2_0_1 = Some ClearedChargingLimitResponse_V2_0_1"
  "rq_action CostUpdatedRequest_V2_0_1 = ''CostUpdated''"
  "rq_kind CostUpdatedRequest_V2_0_1 = Call" "rq_origin CostUpdatedRequest_V2_0_1 = CsmsOrigin"
  "rq_response CostUpdatedRequest_V2_0_1 = Some CostUpdatedResponse_V2_0_1"
  "rq_action CustomerInformationRequest_V2_0_1 = ''CustomerInformation''"
  "rq_kind CustomerInformationRequest_V2_0_1 = Call"
  "rq_origin CustomerInformationRequest_V2_0_1 = CsmsOrigin"
  "rq_response CustomerInformationRequest_V2_0_1 = Some CustomerInformationResponse_V2_0_1"
  "rq_action DataTransferRequest_V2_0_1 = ''DataTransfer''"
  "rq_kind DataTransferRequest_V2_0_1 = Call" "rq_origin DataTransferRequest_V2_0_1 = BothOrigin"
  "rq_response DataTransferRequest_V2_0_1 = Some DataTransferResponse_V2_0_1"
  "rq_action DeleteCertificateRequest_V2_0_1 = ''DeleteCertificate''"
  "rq_kind DeleteCertificateRequest_V2_0_1 = Call"
  "rq_origin DeleteCertificateRequest_V2_0_1 = CsmsOrigin"
  "rq_response DeleteCertificateRequest_V2_0_1 = Some DeleteCertificateResponse_V2_0_1"
  "rq_action FirmwareStatusNotificationRequest_V2_0_1 = ''FirmwareStatusNotification''"
  "rq_kind FirmwareStatusNotificationRequest_V2_0_1 = Call"
  "rq_origin FirmwareStatusNotificationRequest_V2_0_1 = ChargingStationOrigin"
  "rq_response FirmwareStatusNotificationRequest_V2_0_1 = Some FirmwareStatusNotificationResponse_V2_0_1"
  "rq_action Get15118EVCertificateRequest_V2_0_1 = ''Get15118EVCertificate''"
  "rq_kind Get15118EVCertificateRequest_V2_0_1 = Call"
  "rq_origin Get15118EVCertificateRequest_V2_0_1 = ChargingStationOrigin"
  "rq_response Get15118EVCertificateRequest_V2_0_1 = Some Get15118EVCertificateResponse_V2_0_1"
  "rq_action GetBaseReportRequest_V2_0_1 = ''GetBaseReport''"
  "rq_kind GetBaseReportRequest_V2_0_1 = Call" "rq_origin GetBaseReportRequest_V2_0_1 = CsmsOrigin"
  "rq_response GetBaseReportRequest_V2_0_1 = Some GetBaseReportResponse_V2_0_1"
  "rq_action GetCertificateStatusRequest_V2_0_1 = ''GetCertificateStatus''"
  "rq_kind GetCertificateStatusRequest_V2_0_1 = Call"
  "rq_origin GetCertificateStatusRequest_V2_0_1 = ChargingStationOrigin"
  "rq_response GetCertificateStatusRequest_V2_0_1 = Some GetCertificateStatusResponse_V2_0_1"
  "rq_action GetChargingProfilesRequest_V2_0_1 = ''GetChargingProfiles''"
  "rq_kind GetChargingProfilesRequest_V2_0_1 = Call"
  "rq_origin GetChargingProfilesRequest_V2_0_1 = CsmsOrigin"
  "rq_response GetChargingProfilesRequest_V2_0_1 = Some GetChargingProfilesResponse_V2_0_1"
  "rq_action GetCompositeScheduleRequest_V2_0_1 = ''GetCompositeSchedule''"
  "rq_kind GetCompositeScheduleRequest_V2_0_1 = Call"
  "rq_origin GetCompositeScheduleRequest_V2_0_1 = CsmsOrigin"
  "rq_response GetCompositeScheduleRequest_V2_0_1 = Some GetCompositeScheduleResponse_V2_0_1"
  "rq_action GetDisplayMessagesRequest_V2_0_1 = ''GetDisplayMessages''"
  "rq_kind GetDisplayMessagesRequest_V2_0_1 = Call"
  "rq_origin GetDisplayMessagesRequest_V2_0_1 = CsmsOrigin"
  "rq_response GetDisplayMessagesRequest_V2_0_1 = Some GetDisplayMessagesResponse_V2_0_1"
  "rq_action GetInstalledCertificateIdsRequest_V2_0_1 = ''GetInstalledCertificateIds''"
  "rq_kind GetInstalledCertificateIdsRequest_V2_0_1 = Call"
  "rq_origin GetInstalledCertificateIdsRequest_V2_0_1 = CsmsOrigin"
  "rq_response GetInstalledCertificateIdsRequest_V2_0_1 = Some GetInstalledCertificateIdsResponse_V2_0_1"
  "rq_action GetLocalListVersionRequest_V2_0_1 = ''GetLocalListVersion''"
  "rq_kind GetLocalListVersionRequest_V2_0_1 = Call"
  "rq_origin GetLocalListVersionRequest_V2_0_1 = CsmsOrigin"
  "rq_response GetLocalListVersionRequest_V2_0_1 = Some GetLocalListVersionResponse_V2_0_1"
  "rq_action GetLogRequest_V2_0_1 = ''GetLog''" "rq_kind GetLogRequest_V2_0_1 = Call"
  "rq_origin GetLogRequest_V2_0_1 = CsmsOrigin"
  "rq_response GetLogRequest_V2_0_1 = Some GetLogResponse_V2_0_1"
  "rq_action GetMonitoringReportRequest_V2_0_1 = ''GetMonitoringReport''"
  "rq_kind GetMonitoringReportRequest_V2_0_1 = Call"
  "rq_origin GetMonitoringReportRequest_V2_0_1 = CsmsOrigin"
  "rq_response GetMonitoringReportRequest_V2_0_1 = Some GetMonitoringReportResponse_V2_0_1"
  "rq_action GetReportRequest_V2_0_1 = ''GetReport''" "rq_kind GetReportRequest_V2_0_1 = Call"
  "rq_origin GetReportRequest_V2_0_1 = CsmsOrigin"
  "rq_response GetReportRequest_V2_0_1 = Some GetReportResponse_V2_0_1"
  "rq_action GetTransactionStatusRequest_V2_0_1 = ''GetTransactionStatus''"
  "rq_kind GetTransactionStatusRequest_V2_0_1 = Call"
  "rq_origin GetTransactionStatusRequest_V2_0_1 = CsmsOrigin"
  "rq_response GetTransactionStatusRequest_V2_0_1 = Some GetTransactionStatusResponse_V2_0_1"
  "rq_action GetVariablesRequest_V2_0_1 = ''GetVariables''"
  "rq_kind GetVariablesRequest_V2_0_1 = Call" "rq_origin GetVariablesRequest_V2_0_1 = CsmsOrigin"
  "rq_response GetVariablesRequest_V2_0_1 = Some GetVariablesResponse_V2_0_1"
  "rq_action HeartbeatRequest_V2_0_1 = ''Heartbeat''" "rq_kind HeartbeatRequest_V2_0_1 = Call"
  "rq_origin HeartbeatRequest_V2_0_1 = ChargingStationOrigin"
  "rq_response HeartbeatRequest_V2_0_1 = Some HeartbeatResponse_V2_0_1"
  "rq_action InstallCertificateRequest_V2_0_1 = ''InstallCertificate''"
  "rq_kind InstallCertificateRequest_V2_0_1 = Call"
  "rq_origin InstallCertificateRequest_V2_0_1 = CsmsOrigin"
  "rq_response InstallCertificateRequest_V2_0_1 = Some InstallCertificateResponse_V2_0_1"
  "rq_action LogStatusNotificationRequest_V2_0_1 = ''LogStatusNotification''"
  "rq_kind LogStatusNotificationRequest_V2_0_1 = Call"
  "rq_origin LogStatusNotificationRequest_V2_0_1 = ChargingStationOrigin"
  "rq_response LogStatusNotificationRequest_V2_0_1 = Some LogStatusNotificationResponse_V2_0_1"
  "rq_action MeterValuesRequest_V2_0_1 = ''MeterValues''"
  "rq_kind MeterValuesRequest_V2_0_1 = Call"
  "rq_origin MeterValuesRequest_V2_0_1 = ChargingStationOrigin"
  "rq_response MeterValuesRequest_V2_0_1 = Some MeterValuesResponse_V2_0_1"
  "rq_action NotifyChargingLimitRequest_V2_0_1 = ''NotifyChargingLimit''"
  "rq_kind NotifyChargingLimitRequest_V2_0_1 = Call"
  "rq_origin NotifyChargingLimitRequest_V2_0_1 = ChargingStationOrigin"
  "rq_response NotifyChargingLimitRequest_V2_0_1 = Some NotifyChargingLimitResponse_V2_0_1"
  "rq_action NotifyCustomerInformationRequest_V2_0_1 = ''NotifyCustomerInformation''"
  "rq_kind NotifyCustomerInformationRequest_V2_0_1 = Call"
  "rq_origin NotifyCustomerInformationRequest_V2_0_1 = ChargingStationOrigin"
  "rq_response NotifyCustomerInformationRequest_V2_0_1 = Some NotifyCustomerInformationResponse_V2_0_1"
  "rq_action NotifyDisplayMessagesRequest_V2_0_1 = ''NotifyDisplayMessages''"
  "rq_kind NotifyDisplayMessagesRequest_V2_0_1 = Call"
  "rq_origin NotifyDisplayMessagesRequest_V2_0_1 = ChargingStationOrigin"
  "rq_response NotifyDisplayMessagesRequest_V2_0_1 = Some NotifyDisplayMessagesResponse_V2_0_1"
  "rq_action NotifyEVChargingNeedsRequest_V2_0_1 = ''NotifyEVChargingNeeds''"
  "rq_kind NotifyEVChargingNeedsRequest_V2_0_1 = Call"
  "rq_origin NotifyEVChargingNeedsRequest_V2_0_1 = ChargingStationOrigin"
  "rq_response NotifyEVChargingNeedsRequest_V2_0_1 = Some NotifyEVChargingNeedsResponse_V2_0_1"
  "rq_action NotifyEVChargingScheduleRequest_V2_0_1 = ''NotifyEVChargingSchedule''"
  "rq_kind NotifyEVChargingScheduleRequest_V2_0_1 = Call"
  "rq_origin NotifyEVChargingScheduleRequest_V2_0_1 = ChargingStationOrigin"
  "rq_response NotifyEVChargingScheduleRequest_V2_0_1 = Some NotifyEVChargingScheduleResponse_V2_0_1"
  "rq_action NotifyEventRequest_V2_0_1 = ''NotifyEvent''"
  "rq_kind NotifyEventRequest_V2_0_1 = Call"
  "rq_origin NotifyEventRequest_V2_0_1 = ChargingStationOrigin"
  "rq_response NotifyEventRequest_V2_0_1 = Some NotifyEventResponse_V2_0_1"
  "rq_action NotifyMonitoringReportRequest_V2_0_1 = ''NotifyMonitoringReport''"
  "rq_kind NotifyMonitoringReportRequest_V2_0_1 = Call"
  "rq_origin NotifyMonitoringReportRequest_V2_0_1 = ChargingStationOrigin"
  "rq_response NotifyMonitoringReportRequest_V2_0_1 = Some NotifyMonitoringReportResponse_V2_0_1"
  "rq_action NotifyReportRequest_V2_0_1 = ''NotifyReport''"
  "rq_kind NotifyReportRequest_V2_0_1 = Call"
  "rq_origin NotifyReportRequest_V2_0_1 = ChargingStationOrigin"
  "rq_response NotifyReportRequest_V2_0_1 = Some NotifyReportResponse_V2_0_1"
  "rq_action PublishFirmwareRequest_V2_0_1 = ''PublishFirmware''"
  "rq_kind PublishFirmwareRequest_V2_0_1 = Call"
  "rq_origin PublishFirmwareRequest_V2_0_1 = CsmsOrigin"
  "rq_response PublishFirmwareRequest_V2_0_1 = Some PublishFirmwareResponse_V2_0_1"
  "rq_action PublishFirmwareStatusNotificationRequest_V2_0_1 = ''PublishFirmwareStatusNotification''"
  "rq_kind PublishFirmwareStatusNotificationRequest_V2_0_1 = Call"
  "rq_origin PublishFirmwareStatusNotificationRequest_V2_0_1 = ChargingStationOrigin"
  "rq_response PublishFirmwareStatusNotificationRequest_V2_0_1 = Some PublishFirmwareStatusNotificationResponse_V2_0_1"
  "rq_action ReportChargingProfilesRequest_V2_0_1 = ''ReportChargingProfiles''"
  "rq_kind ReportChargingProfilesRequest_V2_0_1 = Call"
  "rq_origin ReportChargingProfilesRequest_V2_0_1 = ChargingStationOrigin"
  "rq_response ReportChargingProfilesRequest_V2_0_1 = Some ReportChargingProfilesResponse_V2_0_1"
  "rq_action RequestStartTransactionRequest_V2_0_1 = ''RequestStartTransaction''"
  "rq_kind RequestStartTransactionRequest_V2_0_1 = Call"
  "rq_origin RequestStartTransactionRequest_V2_0_1 = CsmsOrigin"
  "rq_response RequestStartTransactionRequest_V2_0_1 = Some RequestStartTransactionResponse_V2_0_1"
  "rq_action RequestStopTransactionRequest_V2_0_1 = ''RequestStopTransaction''"
  "rq_kind RequestStopTransactionRequest_V2_0_1 = Call"
  "rq_origin RequestStopTransactionRequest_V2_0_1 = CsmsOrigin"
  "rq_response RequestStopTransactionRequest_V2_0_1 = Some RequestStopTransactionResponse_V2_0_1"
  "rq_action ReservationStatusUpdateRequest_V2_0_1 = ''ReservationStatusUpdate''"
  "rq_kind ReservationStatusUpdateRequest_V2_0_1 = Call"
  "rq_origin ReservationStatusUpdateRequest_V2_0_1 = ChargingStationOrigin"
  "rq_response ReservationStatusUpdateRequest_V2_0_1 = Some ReservationStatusUpdateResponse_V2_0_1"
  "rq_action ReserveNowRequest_V2_0_1 = ''ReserveNow''" "rq_kind ReserveNowRequest_V2_0_1 = Call"
  "rq_origin ReserveNowRequest_V2_0_1 = CsmsOrigin"
  "rq_response ReserveNowRequest_V2_0_1 = Some ReserveNowResponse_V2_0_1"
  "rq_action ResetRequest_V2_0_1 = ''Reset''" "rq_kind ResetRequest_V2_0_1 = Call"
  "rq_origin ResetRequest_V2_0_1 = CsmsOrigin"
  "rq_response ResetRequest_V2_0_1 = Some ResetResponse_V2_0_1"
  "rq_action SecurityEventNotificationRequest_V2_0_1 = ''SecurityEventNotification''"
  "rq_kind SecurityEventNotificationRequest_V2_0_1 = Call"
  "rq_origin SecurityEventNotificationRequest_V2_0_1 = ChargingStationOrigin"
  "rq_response SecurityEventNotificationRequest_V2_0_1 = Some SecurityEventNotificationResponse_V2_0_1"
  "rq_action SendLocalListRequest_V2_0_1 = ''SendLocalList''"
  "rq_kind SendLocalListRequest_V2_0_1 = Call" "rq_origin SendLocalListRequest_V2_0_1 = CsmsOrigin"
  "rq_response SendLocalListRequest_V2_0_1 = Some SendLocalListResponse_V2_0_1"
  "rq_action SetChargingProfileRequest_V2_0_1 = ''SetChargingProfile''"
  "rq_kind SetChargingProfileRequest_V2_0_1 = Call"
  "rq_origin SetChargingProfileRequest_V2_0_1 = CsmsOrigin"
  "rq_response SetChargingProfileRequest_V2_0_1 = Some SetChargingProfileResponse_V2_0_1"
  "rq_action SetDisplayMessageRequest_V2_0_1 = ''SetDisplayMessage''"
  "rq_kind SetDisplayMessageRequest_V2_0_1 = Call"
  "rq_origin SetDisplayMessageRequest_V2_0_1 = CsmsOrigin"
  "rq_response SetDisplayMessageRequest_V2_0_1 = Some SetDisplayMessageResponse_V2_0_1"
  "rq_action SetMonitoringBaseRequest_V2_0_1 = ''SetMonitoringBase''"
  "rq_kind SetMonitoringBaseRequest_V2_0_1 = Call"
  "rq_origin SetMonitoringBaseRequest_V2_0_1 = CsmsOrigin"
  "rq_response SetMonitoringBaseRequest_V2_0_1 = Some SetMonitoringBaseResponse_V2_0_1"
  "rq_action SetMonitoringLevelRequest_V2_0_1 = ''SetMonitoringLevel''"
  "rq_kind SetMonitoringLevelRequest_V2_0_1 = Call"
  "rq_origin SetMonitoringLevelRequest_V2_0_1 = CsmsOrigin"
  "rq_response SetMonitoringLevelRequest_V2_0_1 = Some SetMonitoringLevelResponse_V2_0_1"
  "rq_action SetNetworkProfileRequest_V2_0_1 = ''SetNetworkProfile''"
  "rq_kind SetNetworkProfileRequest_V2_0_1 = Call"
  "rq_origin SetNetworkProfileRequest_V2_0_1 = CsmsOrigin"
  "rq_response SetNetworkProfileRequest_V2_0_1 = Some SetNetworkProfileResponse_V2_0_1"
  "rq_action SetVariableMonitoringRequest_V2_0_1 = ''SetVariableMonitoring''"
  "rq_kind SetVariableMonitoringRequest_V2_0_1 = Call"
  "rq_origin SetVariableMonitoringRequest_V2_0_1 = CsmsOrigin"
  "rq_response SetVariableMonitoringRequest_V2_0_1 = Some SetVariableMonitoringResponse_V2_0_1"
  "rq_action SetVariablesRequest_V2_0_1 = ''SetVariables''"
  "rq_kind SetVariablesRequest_V2_0_1 = Call" "rq_origin SetVariablesRequest_V2_0_1 = CsmsOrigin"
  "rq_response SetVariablesRequest_V2_0_1 = Some SetVariablesResponse_V2_0_1"
  "rq_action SignCertificateRequest_V2_0_1 = ''SignCertificate''"
  "rq_kind SignCertificateRequest_V2_0_1 = Call"
  "rq_origin SignCertificateRequest_V2_0_1 = ChargingStationOrigin"
  "rq_response SignCertificateRequest_V2_0_1 = Some SignCertificateResponse_V2_0_1"
  "rq_action StatusNotificationRequest_V2_0_1 = ''StatusNotification''"
  "rq_kind StatusNotificationRequest_V2_0_1 = Call"
  "rq_origin StatusNotificationRequest_V2_0_1 = ChargingStationOrigin"
  "rq_response StatusNotificationRequest_V2_0_1 = Some StatusNotificationResponse_V2_0_1"
  "rq_action TransactionEventRequest_V2_0_1 = ''TransactionEvent''"
  "rq_kind TransactionEventRequest_V2_0_1 = Call"
  "rq_origin TransactionEventRequest_V2_0_1 = ChargingStationOrigin"
  "rq_response TransactionEventRequest_V2_0_1 = Some TransactionEventResponse_V2_0_1"
  "rq_action TriggerMessageRequest_V2_0_1 = ''TriggerMessage''"
  "rq_kind TriggerMessageRequest_V2_0_1 = Call"
  "rq_origin TriggerMessageRequest_V2_0_1 = CsmsOrigin"
  "rq_response TriggerMessageRequest_V2_0_1 = Some TriggerMessageResponse_V2_0_1"
  "rq_action UnlockConnectorRequest_V2_0_1 = ''UnlockConnector''"
  "rq_kind UnlockConnectorRequest_V2_0_1 = Call"
  "rq_origin UnlockConnectorRequest_V2_0_1 = CsmsOrigin"
  "rq_response UnlockConnectorRequest_V2_0_1 = Some UnlockConnectorResponse_V2_0_1"
  "rq_action UnpublishFirmwareRequest_V2_0_1 = ''UnpublishFirmware''"
  "rq_kind UnpublishFirmwareRequest_V2_0_1 = Call"
  "rq_origin UnpublishFirmwareRequest_V2_0_1 = CsmsOrigin"
  "rq_response UnpublishFirmwareRequest_V2_0_1 = Some UnpublishFirmwareResponse_V2_0_1"
  "rq_action UpdateFirmwareRequest_V2_0_1 = ''UpdateFirmware''"
  "rq_kind UpdateFirmwareRequest_V2_0_1 = Call"
  "rq_origin UpdateFirmwareRequest_V2_0_1 = CsmsOrigin"
  "rq_response UpdateFirmwareRequest_V2_0_1 = Some UpdateFirmwareResponse_V2_0_1"
  by (simp_all only: request_type.sel
    AuthorizeRequest_V2_0_1_def BootNotificationRequest_V2_0_1_def
    CancelReservationRequest_V2_0_1_def CertificateSignedRequest_V2_0_1_def
    ChangeAvailabilityRequest_V2_0_1_def ClearCacheRequest_V2_0_1_def
    ClearChargingProfileRequest_V2_0_1_def ClearDisplayMessageRequest_V2_0_1_def
    ClearVariableMonitoringRequest_V2_0_1_def ClearedChargingLimitRequest_V2_0_1_def
    CostUpdatedRequest_V2_0_1_def CustomerInformationRequest_V2_0_1_def
    DataTransferRequest_V2_0_1_def DeleteCertificateRequest_V2_0_1_def
    FirmwareStatusNotificationRequest_V2_0_1_def Get15118EVCertificateRequest_V2_0_1_def
    GetBaseReportRequest_V2_0_1_def GetCertificateStatusRequest_V2_0_1_def
    GetChargingProfilesRequest_V2_0_1_def GetCompositeScheduleRequest_V2_0_1_def
    GetDisplayMessagesRequest_V2_0_1_def GetInstalledCertificateIdsRequest_V2_0_1_def
    GetLocalListVersionRequest_V2_0_1_def GetLogRequest_V2_0_1_def
    GetMonitoringReportRequest_V2_0_1_def GetReportRequest_V2_0_1_def
    GetTransactionStatusRequest_V2_0_1_def GetVariablesRequest_V2_0_1_def
    HeartbeatRequest_V2_0_1_def InstallCertificateRequest_V2_0_1_def
    LogStatusNotificationRequest_V2_0_1_def MeterValuesRequest_V2_0_1_def
    NotifyChargingLimitRequest_V2_0_1_def NotifyCustomerInformationRequest_V2_0_1_def
    NotifyDisplayMessagesRequest_V2_0_1_def NotifyEVChargingNeedsRequest_V2_0_1_def
    NotifyEVChargingScheduleRequest_V2_0_1_def NotifyEventRequest_V2_0_1_def
    NotifyMonitoringReportRequest_V2_0_1_def NotifyReportRequest_V2_0_1_def
    PublishFirmwareRequest_V2_0_1_def PublishFirmwareStatusNotificationRequest_V2_0_1_def
    ReportChargingProfilesRequest_V2_0_1_def RequestStartTransactionRequest_V2_0_1_def
    RequestStopTransactionRequest_V2_0_1_def ReservationStatusUpdateRequest_V2_0_1_def
    ReserveNowRequest_V2_0_1_def ResetRequest_V2_0_1_def
    SecurityEventNotificationRequest_V2_0_1_def SendLocalListRequest_V2_0_1_def
    SetChargingProfileRequest_V2_0_1_def SetDisplayMessageRequest_V2_0_1_def
    SetMonitoringBaseRequest_V2_0_1_def SetMonitoringLevelRequest_V2_0_1_def
    SetNetworkProfileRequest_V2_0_1_def SetVariableMonitoringRequest_V2_0_1_def
    SetVariablesRequest_V2_0_1_def SignCertificateRequest_V2_0_1_def
    StatusNotificationRequest_V2_0_1_def TransactionEventRequest_V2_0_1_def
    TriggerMessageRequest_V2_0_1_def UnlockConnectorRequest_V2_0_1_def
    UnpublishFirmwareRequest_V2_0_1_def UpdateFirmwareRequest_V2_0_1_def)

lemma heads_V2_1 [heads]:
  "rq_action AFRRSignalRequest_V2_1 = ''AFRRSignal''" "rq_kind AFRRSignalRequest_V2_1 = Call"
  "rq_origin AFRRSignalRequest_V2_1 = CsmsOrigin"
  "rq_response AFRRSignalRequest_V2_1 = Some AFRRSignalResponse_V2_1"
  "rq_action AdjustPeriodicEventStreamRequest_V2_1 = ''AdjustPeriodicEventStream''"
  "rq_kind AdjustPeriodicEventStreamRequest_V2_1 = Call"
  "rq_origin AdjustPeriodicEventStreamRequest_V2_1 = CsmsOrigin"
  "rq_response AdjustPeriodicEventStreamRequest_V2_1 = Some AdjustPeriodicEventStreamResponse_V2_1"
  "rq_action AuthorizeRequest_V2_1 = ''Authorize''" "rq_kind AuthorizeRequest_V2_1 = Call"
  "rq_origin AuthorizeRequest_V2_1 = ChargingStationOrigin"
  "rq_response AuthorizeRequest_V2_1 = Some AuthorizeResponse_V2_1"
  "rq_action BatterySwapRequest_V2_1 = ''BatterySwap''" "rq_kind BatterySwapRequest_V2_1 = Call"
  "rq_origin BatterySwapRequest_V2_1 = ChargingStationOrigin"
  "rq_response BatterySwapRequest_V2_1 = Some BatterySwapResponse_V2_1"
  "rq_action BootNotificationRequest_V2_1 = ''BootNotification''"
  "rq_kind BootNotificationRequest_V2_1 = Call"
  "rq_origin BootNotificationRequest_V2_1 = ChargingStationOrigin"
  "rq_response BootNotificationRequest_V2_1 = Some BootNotificationResponse_V2_1"
  "rq_action CancelReservationRequest_V2_1 = ''CancelReservation''"
  "rq_kind CancelReservationRequest_V2_1 = Call"
  "rq_origin CancelReservationRequest_V2_1 = CsmsOrigin"
  "rq_response CancelReservationRequest_V2_1 = Some CancelReservationResponse_V2_1"
  "rq_action CertificateSignedRequest_V2_1 = ''CertificateSigned''"
  "rq_kind CertificateSignedRequest_V2_1 = Call"
  "rq_origin CertificateSignedRequest_V2_1 = CsmsOrigin"
  "rq_response CertificateSignedRequest_V2_1 = Some CertificateSignedResponse_V2_1"
  "rq_action ChangeAvailabilityRequest_V2_1 = ''ChangeAvailability''"
  "rq_kind ChangeAvailabilityRequest_V2_1 = Call"
  "rq_origin ChangeAvailabilityRequest_V2_1 = CsmsOrigin"
  "rq_response ChangeAvailabilityRequest_V2_1 = Some ChangeAvailabilityResponse_V2_1"
  "rq_action ChangeTransactionTariffRequest_V2_1 = ''ChangeTransactionTariff''"
  "rq_kind ChangeTransactionTariffRequest_V2_1 = Call"
  "rq_origin ChangeTransactionTariffRequest_V2_1 = CsmsOrigin"
  "rq_response ChangeTransactionTariffRequest_V2_1 = Some ChangeTransactionTariffResponse_V2_1"
  "rq_action ClearCacheRequest_V2_1 = ''ClearCache''" "rq_kind ClearCacheRequest_V2_1 = Call"
  "rq_origin ClearCacheRequest_V2_1 = CsmsOrigin"
  "rq_response ClearCacheRequest_V2_1 = Some ClearCacheResponse_V2_1"
  "rq_action ClearChargingProfileRequest_V2_1 = ''ClearChargingProfile''"
  "rq_kind ClearChargingProfileRequest_V2_1 = Call"
  "rq_origin ClearChargingProfileRequest_V2_1 = CsmsOrigin"
  "rq_response ClearChargingProfileRequest_V2_1 = Some ClearChargingProfileResponse_V2_1"
  "rq_action ClearDERControlRequest_V2_1 = ''ClearDERControl''"
  "rq_kind ClearDERControlRequest_V2_1 = Call" "rq_origin ClearDERControlRequest_V2_1 = CsmsOrigin"
  "rq_response ClearDERControlRequest_V2_1 = Some ClearDERControlResponse_V2_1"
  "rq_action ClearDisplayMessageRequest_V2_1 = ''ClearDisplayMessage''"
  "rq_kind ClearDisplayMessageRequest_V2_1 = Call"
  "rq_origin ClearDisplayMessageRequest_V2_1 = CsmsOrigin"
  "rq_response ClearDisplayMessageRequest_V2_1 = Some ClearDisplayMessageResponse_V2_1"
  "rq_action ClearTariffsRequest_V2_1 = ''ClearTariffs''" "rq_kind ClearTariffsRequest_V2_1 = Call"
  "rq_origin ClearTariffsRequest_V2_1 = CsmsOrigin"
  "rq_response ClearTariffsRequest_V2_1 = Some ClearTariffsResponse_V2_1"
  "rq_action ClearVariableMonitoringRequest_V2_1 = ''ClearVariableMonitoring''"
  "rq_kind ClearVariableMonitoringRequest_V2_1 = Call"
  "rq_origin ClearVariableMonitoringRequest_V2_1 = CsmsOrigin"
  "rq_response ClearVariableMonitoringRequest_V2_1 = Some ClearVariableMonitoringResponse_V2_1"
  "rq_action ClearedChargingLimitRequest_V2_1 = ''ClearedChargingLimit''"
  "rq_kind ClearedChargingLimitRequest_V2_1 = Call"
  "rq_origin ClearedChargingLimitRequest_V2_1 = ChargingStationOrigin"
  "rq_response ClearedChargingLimitRequest_V2_1 = Some ClearedChargingLimitResponse_V2_1"
  "rq_action ClosePeriodicEventStreamRequest_V2_1 = ''ClosePeriodicEventStream''"
  "rq_kind ClosePeriodicEventStreamRequest_V2_1 = Call"
  "rq_origin ClosePeriodicEventStreamRequest_V2_1 = ChargingStationOrigin"
  "rq_response ClosePeriodicEventStreamRequest_V2_1 = Some ClosePeriodicEventStreamResponse_V2_1"
  "rq_action CostUpdatedRequest_V2_1 = ''CostUpdated''" "rq_kind CostUpdatedRequest_V2_1 = Call"
  "rq_origin CostUpdatedRequest_V2_1 = CsmsOrigin"
  "rq_response CostUpdatedRequest_V2_1 = Some CostUpdatedResponse_V2_1"
  "rq_action CustomerInformationRequest_V2_1 = ''CustomerInformation''"
  "rq_kind CustomerInformationRequest_V2_1 = Call"
  "rq_origin CustomerInformationRequest_V2_1 = CsmsOrigin"
  "rq_response CustomerInformationRequest_V2_1 = Some CustomerInformationResponse_V2_1"
  "rq_action DataTransferRequest_V2_1 = ''DataTransfer''" "rq_kind DataTransferRequest_V2_1 = Call"
  "rq_origin DataTransferRequest_V2_1 = BothOrigin"
  "rq_response DataTransferRequest_V2_1 = Some DataTransferResponse_V2_1"
  "rq_action DeleteCertificateRequest_V2_1 = ''DeleteCertificate''"
  "rq_kind DeleteCertificateRequest_V2_1 = Call"
  "rq_origin DeleteCertificateRequest_V2_1 = CsmsOrigin"
  "rq_response DeleteCertificateRequest_V2_1 = Some DeleteCertificateResponse_V2_1"
  "rq_action FirmwareStatusNotificationRequest_V2_1 = ''FirmwareStatusNotification''"
  "rq_kind FirmwareStatusNotificationRequest_V2_1 = Call"
  "rq_origin FirmwareStatusNotificationRequest_V2_1 = ChargingStationOrigin"
  "rq_response FirmwareStatusNotificationRequest_V2_1 = Some FirmwareStatusNotificationResponse_V2_1"
  "rq_action Get15118EVCertificateRequest_V2_1 = ''Get15118EVCertificate''"
  "rq_kind Get15118EVCertificateRequest_V2_1 = Call"
  "rq_origin Get15118EVCertificateRequest_V2_1 = ChargingStationOrigin"
  "rq_response Get15118EVCertificateRequest_V2_1 = Some Get15118EVCertificateResponse_V2_1"
  "rq_action GetBaseReportRequest_V2_1 = ''GetBaseReport''"
  "rq_kind GetBaseReportRequest_V2_1 = Call" "rq_origin GetBaseReportRequest_V2_1 = CsmsOrigin"
  "rq_response GetBaseReportRequest_V2_1 = Some GetBaseReportResponse_V2_1"
  "rq_action GetCertificateChainStatusRequest_V2_1 = ''GetCertificateChainStatus''"
  "rq_kind GetCertificateChainStatusRequest_V2_1 = Call"
  "rq_origin GetCertificateChainStatusRequest_V2_1 = ChargingStationOrigin"
  "rq_response GetCertificateChainStatusRequest_V2_1 = Some GetCertificateChainStatusResponse_V2_1"
  "rq_action GetCertificateStatusRequest_V2_1 = ''GetCertificateStatus''"
  "rq_kind GetCertificateStatusRequest_V2_1 = Call"
  "rq_origin GetCertificateStatusRequest_V2_1 = ChargingStationOrigin"
  "rq_response GetCertificateStatusRequest_V2_1 = Some GetCertificateStatusResponse_V2_1"
  "rq_action GetChargingProfilesRequest_V2_1 = ''GetChargingProfiles''"
  "rq_kind GetChargingProfilesRequest_V2_1 = Call"
  "rq_origin GetChargingProfilesRequest_V2_1 = CsmsOrigin"
  "rq_response GetChargingProfilesRequest_V2_1 = Some GetChargingProfilesResponse_V2_1"
  "rq_action GetCompositeScheduleRequest_V2_1 = ''GetCompositeSchedule''"
  "rq_kind GetCompositeScheduleRequest_V2_1 = Call"
  "rq_origin GetCompositeScheduleRequest_V2_1 = CsmsOrigin"
  "rq_response GetCompositeScheduleRequest_V2_1 = Some GetCompositeScheduleResponse_V2_1"
  "rq_action GetDERControlRequest_V2_1 = ''GetDERControl''"
  "rq_kind GetDERControlRequest_V2_1 = Call" "rq_origin GetDERControlRequest_V2_1 = CsmsOrigin"
  "rq_response GetDERControlRequest_V2_1 = Some GetDERControlResponse_V2_1"
  "rq_action GetDisplayMessagesRequest_V2_1 = ''GetDisplayMessages''"
  "rq_kind GetDisplayMessagesRequest_V2_1 = Call"
  "rq_origin GetDisplayMessagesRequest_V2_1 = CsmsOrigin"
  "rq_response GetDisplayMessagesRequest_V2_1 = Some GetDisplayMessagesResponse_V2_1"
  "rq_action GetInstalledCertificateIdsRequest_V2_1 = ''GetInstalledCertificateIds''"
  "rq_kind GetInstalledCertificateIdsRequest_V2_1 = Call"
  "rq_origin GetInstalledCertificateIdsRequest_V2_1 = CsmsOrigin"
  "rq_response GetInstalledCertificateIdsRequest_V2_1 = Some GetInstalledCertificateIdsResponse_V2_1"
  "rq_action GetLocalListVersionRequest_V2_1 = ''GetLocalListVersion''"
  "rq_kind GetLocalListVersionRequest_V2_1 = Call"
  "rq_origin GetLocalListVersionRequest_V2_1 = CsmsOrigin"
  "rq_response GetLocalListVersionRequest_V2_1 = Some GetLocalListVersionResponse_V2_1"
  "rq_action GetLogRequest_V2_1 = ''GetLog''" "rq_kind GetLogRequest_V2_1 = Call"
  "rq_origin GetLogRequest_V2_1 = CsmsOrigin"
  "rq_response GetLogRequest_V2_1 = Some GetLogResponse_V2_1"
  "rq_action GetMonitoringReportRequest_V2_1 = ''GetMonitoringReport''"
  "rq_kind GetMonitoringReportRequest_V2_1 = Call"
  "rq_origin GetMonitoringReportRequest_V2_1 = CsmsOrigin"
  "rq_response GetMonitoringReportRequest_V2_1 = Some GetMonitoringReportResponse_V2_1"
  "rq_action GetPeriodicEventStreamRequest_V2_1 = ''GetPeriodicEventStream''"
  "rq_kind GetPeriodicEventStreamRequest_V2_1 = Call"
  "rq_origin GetPeriodicEventStreamRequest_V2_1 = CsmsOrigin"
  "rq_response GetPeriodicEventStreamRequest_V2_1 = Some GetPeriodicEventStreamResponse_V2_1"
  "rq_action GetReportRequest_V2_1 = ''GetReport''" "rq_kind GetReportRequest_V2_1 = Call"
  "rq_origin GetReportRequest_V2_1 = CsmsOrigin"
  "rq_response GetReportRequest_V2_1 = Some GetReportResponse_V2_1"
  "rq_action GetTariffsRequest_V2_1 = ''GetTariffs''" "rq_kind GetTariffsRequest_V2_1 = Call"
  "rq_origin GetTariffsRequest_V2_1 = CsmsOrigin"
  "rq_response GetTariffsRequest_V2_1 = Some GetTariffsResponse_V2_1"
  "rq_action GetTransactionStatusRequest_V2_1 = ''GetTransactionStatus''"
  "rq_kind GetTransactionStatusRequest_V2_1 = Call"
  "rq_origin GetTransactionStatusRequest_V2_1 = CsmsOrigin"
  "rq_response GetTransactionStatusRequest_V2_1 = Some GetTransactionStatusResponse_V2_1"
  "rq_action GetVariablesRequest_V2_1 = ''GetVariables''" "rq_kind GetVariablesRequest_V2_1 = Call"
  "rq_origin GetVariablesRequest_V2_1 = CsmsOrigin"
  "rq_response GetVariablesRequest_V2_1 = Some GetVariablesResponse_V2_1"
  "rq_action HeartbeatRequest_V2_1 = ''Heartbeat''" "rq_kind HeartbeatRequest_V2_1 = Call"
  "rq_origin HeartbeatRequest_V2_1 = ChargingStationOrigin"
  "rq_response HeartbeatRequest_V2_1 = Some HeartbeatResponse_V2_1"
  "rq_action InstallCertificateRequest_V2_1 = ''InstallCertificate''"
  "rq_kind InstallCertificateRequest_V2_1 = Call"
  "rq_origin InstallCertificateRequest_V2_1 = CsmsOrigin"
  "rq_response InstallCertificateRequest_V2_1 = Some InstallCertificateResponse_V2_1"
  "rq_action LogStatusNotificationRequest_V2_1 = ''LogStatusNotification''"
  "rq_kind LogStatusNotificationRequest_V2_1 = Call"
  "rq_origin LogStatusNotificationRequest_V2_1 = ChargingStationOrigin"
  "rq_response LogStatusNotificationRequest_V2_1 = Some LogStatusNotificationResponse_V2_1"
  "rq_action MeterValuesRequest_V2_1 = ''MeterValues''" "rq_kind MeterValuesRequest_V2_1 = Call"
  "rq_origin MeterValuesRequest_V2_1 = ChargingStationOrigin"
  "rq_response MeterValuesRequest_V2_1 = Some MeterValuesResponse_V2_1"
  "rq_action NotifyAllowedEnergyTransferRequest_V2_1 = ''NotifyAllowedEnergyTransfer''"
  "rq_kind NotifyAllowedEnergyTransferRequest_V2_1 = Call"
  "rq_origin NotifyAllowedEnergyTransferRequest_V2_1 = CsmsOrigin"
  "rq_response NotifyAllowedEnergyTransferRequest_V2_1 = Some NotifyAllowedEnergyTransferResponse_V2_1"
  "rq_action NotifyChargingLimitRequest_V2_1 = ''NotifyChargingLimit''"
  "rq_kind NotifyChargingLimitRequest_V2_1 = Call"
  "rq_origin NotifyChargingLimitRequest_V2_1 = ChargingStationOrigin"
  "rq_response NotifyChargingLimitRequest_V2_1 = Some NotifyChargingLimitResponse_V2_1"
  "rq_action NotifyCustomerInformationRequest_V2_1 = ''NotifyCustomerInformation''"
  "rq_kind NotifyCustomerInformationRequest_V2_1 = Call"
  "rq_origin NotifyCustomerInformationRequest_V2_1 = ChargingStationOrigin"
  "rq_response NotifyCustomerInformationRequest_V2_1 = Some NotifyCustomerInformationResponse_V2_1"
  "rq_action NotifyDERAlarmRequest_V2_1 = ''NotifyDERAlarm''"
  "rq_kind NotifyDERAlarmRequest_V2_1 = Call"
  "rq_origin NotifyDERAlarmRequest_V2_1 = ChargingStationOrigin"
  "rq_response NotifyDERAlarmRequest_V2_1 = Some NotifyDERAlarmResponse_V2_1"
  "rq_action NotifyDERStartStopRequest_V2_1 = ''NotifyDERStartStop''"
  "rq_kind NotifyDERStartStopRequest_V2_1 = Call"
  "rq_origin NotifyDERStartStopRequest_V2_1 = ChargingStationOrigin"
  "rq_response NotifyDERStartStopRequest_V2_1 = Some NotifyDERStartStopResponse_V2_1"
  "rq_action NotifyDisplayMessagesRequest_V2_1 = ''NotifyDisplayMessages''"
  "rq_kind NotifyDisplayMessagesRequest_V2_1 = Call"
  "rq_origin NotifyDisplayMessagesRequest_V2_1 = ChargingStationOrigin"
  "rq_response NotifyDisplayMessagesRequest_V2_1 = Some NotifyDisplayMessagesResponse_V2_1"
  "rq_action NotifyEVChargingNeedsRequest_V2_1 = ''NotifyEVChargingNeeds''"
  "rq_kind NotifyEVChargingNeedsRequest_V2_1 = Call"
  "rq_origin NotifyEVChargingNeedsRequest_V2_1 = ChargingStationOrigin"
  "rq_response NotifyEVChargingNeedsRequest_V2_1 = Some NotifyEVChargingNeedsResponse_V2_1"
  "rq_action NotifyEVChargingScheduleRequest_V2_1 = ''NotifyEVChargingSchedule''"
  "rq_kind NotifyEVChargingScheduleRequest_V2_1 = Call"
  "rq_origin NotifyEVChargingScheduleRequest_V2_1 = ChargingStationOrigin"
  "rq_response NotifyEVChargingScheduleRequest_V2_1 = Some NotifyEVChargingScheduleResponse_V2_1"
  "rq_action NotifyEventRequest_V2_1 = ''NotifyEvent''" "rq_kind NotifyEventRequest_V2_1 = Call"
  "rq_origin NotifyEventRequest_V2_1 = ChargingStationOrigin"
  "rq_response NotifyEventRequest_V2_1 = Some NotifyEventResponse_V2_1"
  "rq_action NotifyMonitoringReportRequest_V2_1 = ''NotifyMonitoringReport''"
  "rq_kind NotifyMonitoringReportRequest_V2_1 = Call"
  "rq_origin NotifyMonitoringReportRequest_V2_1 = ChargingStationOrigin"
  "rq_response NotifyMonitoringReportRequest_V2_1 = Some NotifyMonitoringReportResponse_V2_1"
  "rq_action NotifyPeriodicEventStreamRequest_V2_1 = ''NotifyPeriodicEventStream''"
  "rq_kind NotifyPeriodicEventStreamRequest_V2_1 = Send"
  "rq_origin NotifyPeriodicEventStreamRequest_V2_1 = ChargingStationOrigin"
  "rq_response NotifyPeriodicEventStreamRequest_V2_1 = None"
  "rq_action NotifyPriorityChargingRequest_V2_1 = ''NotifyPriorityCharging''"
  "rq_kind NotifyPriorityChargingRequest_V2_1 = Call"
  "rq_origin NotifyPriorityChargingRequest_V2_1 = ChargingStationOrigin"
  "rq_response NotifyPriorityChargingRequest_V2_1 = Some NotifyPriorityChargingResponse_V2_1"
  "rq_action NotifyReportRequest_V2_1 = ''NotifyReport''" "rq_kind NotifyReportRequest_V2_1 = Call"
  "rq_origin NotifyReportRequest_V2_1 = ChargingStationOrigin"
  "rq_response NotifyReportRequest_V2_1 = Some NotifyReportResponse_V2_1"
  "rq_action NotifySettlementRequest_V2_1 = ''NotifySettlement''"
  "rq_kind NotifySettlementRequest_V2_1 = Call"
  "rq_origin NotifySettlementRequest_V2_1 = ChargingStationOrigin"
  "rq_response NotifySettlementRequest_V2_1 = Some NotifySettlementResponse_V2_1"
  "rq_action NotifyWebPaymentStartedRequest_V2_1 = ''NotifyWebPaymentStarted''"
  "rq_kind NotifyWebPaymentStartedRequest_V2_1 = Call"
  "rq_origin NotifyWebPaymentStartedRequest_V2_1 = ChargingStationOrigin"
  "rq_response NotifyWebPaymentStartedRequest_V2_1 = Some NotifyWebPaymentStartedResponse_V2_1"
  "rq_action OpenPeriodicEventStreamRequest_V2_1 = ''OpenPeriodicEventStream''"
  "rq_kind OpenPeriodicEventStreamRequest_V2_1 = Call"
  "rq_origin OpenPeriodicEventStreamRequest_V2_1 = ChargingStationOrigin"
  "rq_response OpenPeriodicEventStreamRequest_V2_1 = Some OpenPeriodicEventStreamResponse_V2_1"
  "rq_action PublishFirmwareRequest_V2_1 = ''PublishFirmware''"
  "rq_kind PublishFirmwareRequest_V2_1 = Call" "rq_origin PublishFirmwareRequest_V2_1 = CsmsOrigin"
  "rq_response PublishFirmwareRequest_V2_1 = Some PublishFirmwareResponse_V2_1"
  "rq_action PublishFirmwareStatusNotificationRequest_V2_1 = ''PublishFirmwareStatusNotification''"
  "rq_kind PublishFirmwareStatusNotificationRequest_V2_1 = Call"
  "rq_origin PublishFirmwareStatusNotificationRequest_V2_1 = ChargingStationOrigin"
  "rq_response PublishFirmwareStatusNotificationRequest_V2_1 = Some PublishFirmwareStatusNotificationResponse_V2_1"
  "rq_action PullDynamicScheduleUpdateRequest_V2_1 = ''PullDynamicScheduleUpdate''"
  "rq_kind PullDynamicScheduleUpdateRequest_V2_1 = Call"
  "rq_origin PullDynamicScheduleUpdateRequest_V2_1 = ChargingStationOrigin"
  "rq_response PullDynamicScheduleUpdateRequest_V2_1 = Some PullDynamicScheduleUpdateResponse_V2_1"
  "rq_action ReportChargingProfilesRequest_V2_1 = ''ReportChargingProfiles''"
  "rq_kind ReportChargingProfilesRequest_V2_1 = Call"
  "rq_origin ReportChargingProfilesRequest_V2_1 = ChargingStationOrigin"
  "rq_response ReportChargingProfilesRequest_V2_1 = Some ReportChargingProfilesResponse_V2_1"
  "rq_action ReportDERControlRequest_V2_1 = ''ReportDERControl''"
  "rq_kind ReportDERControlRequest_V2_1 = Call"
  "rq_origin ReportDERControlRequest_V2_1 = ChargingStationOrigin"
  "rq_response ReportDERControlRequest_V2_1 = Some ReportDERControlResponse_V2_1"
  "rq_action RequestBatterySwapRequest_V2_1 = ''RequestBatterySwap''"
  "rq_kind RequestBatterySwapRequest_V2_1 = Call"
  "rq_origin RequestBatterySwapRequest_V2_1 = CsmsOrigin"
  "rq_response RequestBatterySwapRequest_V2_1 = Some RequestBatterySwapResponse_V2_1"
  "rq_action RequestStartTransactionRequest_V2_1 = ''RequestStartTransaction''"
  "rq_kind RequestStartTransactionRequest_V2_1 = Call"
  "rq_origin RequestStartTransactionRequest_V2_1 = CsmsOrigin"
  "rq_response RequestStartTransactionRequest_V2_1 = Some RequestStartTransactionResponse_V2_1"
  "rq_action RequestStopTransactionRequest_V2_1 = ''RequestStopTransaction''"
  "rq_kind RequestStopTransactionRequest_V2_1 = Call"
  "rq_origin RequestStopTransactionRequest_V2_1 = CsmsOrigin"
  "rq_response RequestStopTransactionRequest_V2_1 = Some RequestStopTransactionResponse_V2_1"
  "rq_action ReservationStatusUpdateRequest_V2_1 = ''ReservationStatusUpdate''"
  "rq_kind ReservationStatusUpdateRequest_V2_1 = Call"
  "rq_origin ReservationStatusUpdateRequest_V2_1 = ChargingStationOrigin"
  "rq_response ReservationStatusUpdateRequest_V2_1 = Some ReservationStatusUpdateResponse_V2_1"
  "rq_action ReserveNowRequest_V2_1 = ''ReserveNow''" "rq_kind ReserveNowRequest_V2_1 = Call"
  "rq_origin ReserveNowRequest_V2_1 = CsmsOrigin"
  "rq_response ReserveNowRequest_V2_1 = Some ReserveNowResponse_V2_1"
  "rq_action ResetRequest_V2_1 = ''Reset''" "rq_kind ResetRequest_V2_1 = Call"
  "rq_origin ResetRequest_V2_1 = CsmsOrigin"
  "rq_response ResetRequest_V2_1 = Some ResetResponse_V2_1"
  "rq_action SecurityEventNotificationRequest_V2_1 = ''SecurityEventNotification''"
  "rq_kind SecurityEventNotificationRequest_V2_1 = Call"
  "rq_origin SecurityEventNotificationRequest_V2_1 = ChargingStationOrigin"
  "rq_response SecurityEventNotificationRequest_V2_1 = Some SecurityEventNotificationResponse_V2_1"
  "rq_action SendLocalListRequest_V2_1 = ''SendLocalList''"
  "rq_kind SendLocalListRequest_V2_1 = Call" "rq_origin SendLocalListRequest_V2_1 = CsmsOrigin"
  "rq_response SendLocalListRequest_V2_1 = Some SendLocalListResponse_V2_1"
  "rq_action SetChargingProfileRequest_V2_1 = ''SetChargingProfile''"
  "rq_kind SetChargingProfileRequest_V2_1 = Call"
  "rq_origin SetChargingProfileRequest_V2_1 = CsmsOrigin"
  "rq_response SetChargingProfileRequest_V2_1 = Some SetChargingProfileResponse_V2_1"
  "rq_action SetDERControlRequest_V2_1 = ''SetDERControl''"
  "rq_kind SetDERControlRequest_V2_1 = Call" "rq_origin SetDERControlRequest_V2_1 = CsmsOrigin"
  "rq_response SetDERControlRequest_V2_1 = Some SetDERControlResponse_V2_1"
  "rq_action SetDefaultTariffRequest_V2_1 = ''SetDefaultTariff''"
  "rq_kind SetDefaultTariffRequest_V2_1 = Call"
  "rq_origin SetDefaultTariffRequest_V2_1 = CsmsOrigin"
  "rq_response SetDefaultTariffRequest_V2_1 = Some SetDefaultTariffResponse_V2_1"
  "rq_action SetDisplayMessageRequest_V2_1 = ''SetDisplayMessage''"
  "rq_kind SetDisplayMessageRequest_V2_1 = Call"
  "rq_origin SetDisplayMessageRequest_V2_1 = CsmsOrigin"
  "rq_response SetDisplayMessageRequest_V2_1 = Some SetDisplayMessageResponse_V2_1"
  "rq_action SetMonitoringBaseRequest_V2_1 = ''SetMonitoringBase''"
  "rq_kind SetMonitoringBaseRequest_V2_1 = Call"
  "rq_origin SetMonitoringBaseRequest_V2_1 = CsmsOrigin"
  "rq_response SetMonitoringBaseRequest_V2_1 = Some SetMonitoringBaseResponse_V2_1"
  "rq_action SetMonitoringLevelRequest_V2_1 = ''SetMonitoringLevel''"
  "rq_kind SetMonitoringLevelRequest_V2_1 = Call"
  "rq_origin SetMonitoringLevelRequest_V2_1 = CsmsOrigin"
  "rq_response SetMonitoringLevelRequest_V2_1 = Some SetMonitoringLevelResponse_V2_1"
  "rq_action SetNetworkProfileRequest_V2_1 = ''SetNetworkProfile''"
  "rq_kind SetNetworkProfileRequest_V2_1 = Call"
  "rq_origin SetNetworkProfileRequest_V2_1 = CsmsOrigin"
  "rq_response SetNetworkProfileRequest_V2_1 = Some SetNetworkProfileResponse_V2_1"
  "rq_action SetVariableMonitoringRequest_V2_1 = ''SetVariableMonitoring''"
  "rq_kind SetVariableMonitoringRequest_V2_1 = Call"
  "rq_origin SetVariableMonitoringRequest_V2_1 = CsmsOrigin"
  "rq_response SetVariableMonitoringRequest_V2_1 = Some SetVariableMonitoringResponse_V2_1"
  "rq_action SetVariablesRequest_V2_1 = ''SetVariables''" "rq_kind SetVariablesRequest_V2_1 = Call"
  "rq_origin SetVariablesRequest_V2_1 = CsmsOrigin"
  "rq_response SetVariablesRequest_V2_1 = Some SetVariablesResponse_V2_1"
  "rq_action SignCertificateRequest_V2_1 = ''SignCertificate''"
  "rq_kind SignCertificateRequest_V2_1 = Call"
  "rq_origin SignCertificateRequest_V2_1 = ChargingStationOrigin"
  "rq_response SignCertificateRequest_V2_1 = Some SignCertificateResponse_V2_1"
  "rq_action StatusNotificationRequest_V2_1 = ''StatusNotification''"
  "rq_kind StatusNotificationRequest_V2_1 = Call"
  "rq_origin StatusNotificationRequest_V2_1 = ChargingStationOrigin"
  "rq_response StatusNotificationRequest_V2_1 = Some StatusNotificationResponse_V2_1"
  "rq_action TransactionEventRequest_V2_1 = ''TransactionEvent''"
  "rq_kind TransactionEventRequest_V2_1 = Call"
  "rq_origin TransactionEventRequest_V2_1 = ChargingStationOrigin"
  "rq_response TransactionEventRequest_V2_1 = Some TransactionEventResponse_V2_1"
  "rq_action TriggerMessageRequest_V2_1 = ''TriggerMessage''"
  "rq_kind TriggerMessageRequest_V2_1 = Call" "rq_origin TriggerMessageRequest_V2_1 = CsmsOrigin"
  "rq_response TriggerMessageRequest_V2_1 = Some TriggerMessageResponse_V2_1"
  "rq_action UnlockConnectorRequest_V2_1 = ''UnlockConnector''"
  "rq_kind UnlockConnectorRequest_V2_1 = Call" "rq_origin UnlockConnectorRequest_V2_1 = CsmsOrigin"
  "rq_response UnlockConnectorRequest_V2_1 = Some UnlockConnectorResponse_V2_1"
  "rq_action UnpublishFirmwareRequest_V2_1 = ''UnpublishFirmware''"
  "rq_kind UnpublishFirmwareRequest_V2_1 = Call"
  "rq_origin UnpublishFirmwareRequest_V2_1 = CsmsOrigin"
  "rq_response UnpublishFirmwareRequest_V2_1 = Some UnpublishFirmwareResponse_V2_1"
  "rq_action UpdateDynamicScheduleRequest_V2_1 = ''UpdateDynamicSchedule''"
  "rq_kind UpdateDynamicScheduleRequest_V2_1 = Call"
  "rq_origin UpdateDynamicScheduleRequest_V2_1 = CsmsOrigin"
  "rq_response UpdateDynamicScheduleRequest_V2_1 = Some UpdateDynamicScheduleResponse_V2_1"
  "rq_action UpdateFirmwareRequest_V2_1 = ''UpdateFirmware''"
  "rq_kind UpdateFirmwareRequest_V2_1 = Call" "rq_origin UpdateFirmwareRequest_V2_1 = CsmsOrigin"
  "rq_response UpdateFirmwareRequest_V2_1 = Some UpdateFirmwareResponse_V2_1"
  "rq_action UsePriorityChargingRequest_V2_1 = ''UsePriorityCharging''"
  "rq_kind UsePriorityChargingRequest_V2_1 = Call"
  "rq_origin UsePriorityChargingRequest_V2_1 = CsmsOrigin"
  "rq_response UsePriorityChargingRequest_V2_1 = Some UsePriorityChargingResponse_V2_1"
  "rq_action VatNumberValidationRequest_V2_1 = ''VatNumberValidation''"
  "rq_kind VatNumberValidationRequest_V2_1 = Call"
  "rq_origin VatNumberValidationRequest_V2_1 = ChargingStationOrigin"
  "rq_response VatNumberValidationRequest_V2_1 = Some VatNumberValidationResponse_V2_1"
  by (simp_all only: request_type.sel
    AFRRSignalRequest_V2_1_def AdjustPeriodicEventStreamRequest_V2_1_def AuthorizeRequest_V2_1_def
    BatterySwapRequest_V2_1_def BootNotificationRequest_V2_1_def CancelReservationRequest_V2_1_def
    CertificateSignedRequest_V2_1_def ChangeAvailabilityRequest_V2_1_def
    ChangeTransactionTariffRequest_V2_1_def ClearCacheRequest_V2_1_def
    ClearChargingProfileRequest_V2_1_def ClearDERControlRequest_V2_1_def
    ClearDisplayMessageRequest_V2_1_def ClearTariffsRequest_V2_1_def
    ClearVariableMonitoringRequest_V2_1_def ClearedChargingLimitRequest_V2_1_def
    ClosePeriodicEventStreamRequest_V2_1_def CostUpdatedRequest_V2_1_def
    CustomerInformationRequest_V2_1_def DataTransferRequest_V2_1_def
    DeleteCertificateRequest_V2_1_def FirmwareStatusNotificationRequest_V2_1_def
    Get15118EVCertificateRequest_V2_1_def GetBaseReportRequest_V2_1_def
    GetCertificateChainStatusRequest_V2_1_def GetCertificateStatusRequest_V2_1_def
    GetChargingProfilesRequest_V2_1_def GetCompositeScheduleRequest_V2_1_def
    GetDERControlRequest_V2_1_def GetDisplayMessagesRequest_V2_1_def
    GetInstalledCertificateIdsRequest_V2_1_def GetLocalListVersionRequest_V2_1_def
    GetLogRequest_V2_1_def GetMonitoringReportRequest_V2_1_def
    GetPeriodicEventStreamRequest_V2_1_def GetReportRequest_V2_1_def GetTariffsRequest_V2_1_def
    GetTransactionStatusRequest_V2_1_def GetVariablesRequest_V2_1_def HeartbeatRequest_V2_1_def
    InstallCertificateRequest_V2_1_def LogStatusNotificationRequest_V2_1_def
    MeterValuesRequest_V2_1_def NotifyAllowedEnergyTransferRequest_V2_1_def
    NotifyChargingLimitRequest_V2_1_def NotifyCustomerInformationRequest_V2_1_def
    NotifyDERAlarmRequest_V2_1_def NotifyDERStartStopRequest_V2_1_def
    NotifyDisplayMessagesRequest_V2_1_def NotifyEVChargingNeedsRequest_V2_1_def
    NotifyEVChargingScheduleRequest_V2_1_def NotifyEventRequest_V2_1_def
    NotifyMonitoringReportRequest_V2_1_def NotifyPeriodicEventStreamRequest_V2_1_def
    NotifyPriorityChargingRequest_V2_1_def NotifyReportRequest_V2_1_def
    NotifySettlementRequest_V2_1_def NotifyWebPaymentStartedRequest_V2_1_def
    OpenPeriodicEventStreamRequest_V2_1_def PublishFirmwareRequest_V2_1_def
    PublishFirmwareStatusNotificationRequest_V2_1_def PullDynamicScheduleUpdateRequest_V2_1_def
    ReportChargingProfilesRequest_V2_1_def ReportDERControlRequest_V2_1_def
    RequestBatterySwapRequest_V2_1_def RequestStartTransactionRequest_V2_1_def
    RequestStopTransactionRequest_V2_1_def ReservationStatusUpdateRequest_V2_1_def
    ReserveNowRequest_V2_1_def ResetRequest_V2_1_def SecurityEventNotificationRequest_V2_1_def
    SendLocalListRequest_V2_1_def SetChargingProfileRequest_V2_1_def SetDERControlRequest_V2_1_def
    SetDefaultTariffRequest_V2_1_def SetDisplayMessageRequest_V2_1_def
    SetMonitoringBaseRequest_V2_1_def SetMonitoringLevelRequest_V2_1_def
    SetNetworkProfileRequest_V2_1_def SetVariableMonitoringRequest_V2_1_def
    SetVariablesRequest_V2_1_def SignCertificateRequest_V2_1_def StatusNotificationRequest_V2_1_def
    TransactionEventRequest_V2_1_def TriggerMessageRequest_V2_1_def UnlockConnectorRequest_V2_1_def
    UnpublishFirmwareRequest_V2_1_def UpdateDynamicScheduleRequest_V2_1_def
    UpdateFirmwareRequest_V2_1_def UsePriorityChargingRequest_V2_1_def
    VatNumberValidationRequest_V2_1_def)

lemma requests_table:
  "map (\<lambda>(a, q). (a, rq_origin q)) (requests v) = origin_table v"
  by (cases v)
    (simp_all only: requests.simps origin_table.simps list.map prod.case heads
      transcode_request_V1_6_def transcode_request_V2_0_1_def transcode_request_V2_1_def
      v1_6_origin_table_def v2_0_1_origin_table_def v2_1_origin_table_def)

lemma responses_table:
  "map (\<lambda>(a, q). (a, rq_response q)) (requests v) = responses v"
  by (cases v)
    (simp_all only: requests.simps responses.simps list.map prod.case heads
      transcode_request_V1_6_def transcode_request_V2_0_1_def transcode_request_V2_1_def
      transcode_response_V1_6_def transcode_response_V2_0_1_def transcode_response_V2_1_def)

lemma requests_formed:
  "list_all (\<lambda>(a, q). rq_action q = a \<and> shape_ok (rq_shape q) \<and> (rq_kind q = Send \<longleftrightarrow> rq_response q = None) \<and>
     (rq_kind q = Send \<longleftrightarrow> v = V2_1 \<and> a = ''NotifyPeriodicEventStream'')) (requests v)"
  by (cases v) (simp_all add: heads
      transcode_request_V1_6_def transcode_request_V2_0_1_def transcode_request_V2_1_def)

lemma from_cs: "from_charging_station ChargingStationOrigin = True" "from_charging_station CsmsOrigin = False"
    "from_charging_station BothOrigin = True"
  and from_cm: "from_csms ChargingStationOrigin = False" "from_csms CsmsOrigin = True" "from_csms BothOrigin = True"
  by (simp_all add: from_charging_station_def from_csms_def)

text \<open>The rows of an origin, with rules that decide one row at a time.\<close>

definition sent_by :: "(origin \<Rightarrow> bool) \<Rightarrow> (string \<times> request_type) list \<Rightarrow> (string \<times> request_type) list" where
  "sent_by f xs = filter (\<lambda>(a, q). f (rq_origin q)) xs"

lemma sent_by_rows:
  "sent_by f [] = []"
  "f (rq_origin q) \<Longrightarrow> sent_by f ((a, q) # xs) = (a, q) # sent_by f xs"
  "\<not> f (rq_origin q) \<Longrightarrow> sent_by f ((a, q) # xs) = sent_by f xs"
  by (simp_all add: sent_by_def)

lemma cs_requests_split: "cs_requests v = sent_by from_charging_station (requests v)"
  by (cases v) (simp_all only: requests.simps cs_requests.simps sent_by_rows heads from_cs not_True_eq_False not_False_eq_True
      transcode_request_V1_6_def transcode_request_V2_0_1_def transcode_request_V2_1_def
      CsRequest_decode_V1_6_def CsRequest_decode_V2_0_1_def CsRequest_decode_V2_1_def)

lemma csms_requests_split: "csms_requests v = sent_by from_csms (requests v)"
  by (cases v) (simp_all only: requests.simps csms_requests.simps sent_by_rows heads from_cm not_True_eq_False not_False_eq_True
      transcode_request_V1_6_def transcode_request_V2_0_1_def transcode_request_V2_1_def
      CsmsRequest_decode_V1_6_def CsmsRequest_decode_V2_0_1_def CsmsRequest_decode_V2_1_def)

text \<open>The responses to them.\<close>

definition answers_to :: "(origin \<Rightarrow> bool) \<Rightarrow> (string \<times> request_type) list \<Rightarrow> (string \<times> shape) list" where
  "answers_to f xs =
     List.map_filter (\<lambda>(a, q). if f (rq_origin q) then map_option (Pair a) (rq_response q) else None) xs"

lemma answers_to_rows:
  "answers_to f [] = []"
  "f (rq_origin q) \<Longrightarrow> rq_response q = Some s \<Longrightarrow> answers_to f ((a, q) # xs) = (a, s) # answers_to f xs"
  "\<not> f (rq_origin q) \<Longrightarrow> answers_to f ((a, q) # xs) = answers_to f xs"
  "rq_response q = None \<Longrightarrow> answers_to f ((a, q) # xs) = answers_to f xs"
  by (simp_all add: answers_to_def map_filter_simps)

lemma cs_responses_split: "cs_responses v = answers_to from_charging_station (requests v)"
  by (cases v) (simp_all only: requests.simps cs_responses.simps answers_to_rows heads from_cs not_True_eq_False not_False_eq_True
      transcode_request_V1_6_def transcode_request_V2_0_1_def transcode_request_V2_1_def
      CsResponse_decode_V1_6_def CsResponse_decode_V2_0_1_def CsResponse_decode_V2_1_def)

lemma csms_responses_split: "csms_responses v = answers_to from_csms (requests v)"
  by (cases v) (simp_all only: requests.simps csms_responses.simps answers_to_rows heads from_cm not_True_eq_False not_False_eq_True
      transcode_request_V1_6_def transcode_request_V2_0_1_def transcode_request_V2_1_def
      CsmsResponse_decode_V1_6_def CsmsResponse_decode_V2_0_1_def CsmsResponse_decode_V2_1_def)

lemma answer_row:
  assumes "distinct (map fst xs)" and "(a, q) \<in> set xs" and "f (rq_origin q)" and "rq_response q = Some s"
  shows "map_of (answers_to f xs) a = Some s"
  using assms
proof (induction xs)
  case (Cons x xs)
  show ?case
  proof (cases "x = (a, q)")
    case True
    then show ?thesis using Cons.prems by (simp add: answers_to_rows(2))
  next
    case False
    then have in_xs: "(a, q) \<in> set xs" using Cons.prems(2) by auto
    then have "a \<in> fst ` set xs" by (rule image_eqI [rotated]) simp
    then have "fst x \<noteq> a" using Cons.prems(1) by auto
    moreover have "map_of (answers_to f xs) a = Some s" using Cons in_xs by simp
    ultimately show ?thesis
      by (cases x) (simp add: answers_to_def map_filter_simps split: option.split)
  qed
qed simp

section \<open>Decoding what the engine hands over\<close>

text \<open>The requests a role receives, as \<open>CsRequest::decode\<close> or \<open>CsmsRequest::decode\<close> reads them.\<close>

definition received_requests :: "role \<Rightarrow> version \<Rightarrow> (string \<times> request_type) list" where
  "received_requests r v = (case r of Csms \<Rightarrow> cs_requests v | ChargingStation \<Rightarrow> csms_requests v)"

definition decode_request ::
  "'x json_library \<Rightarrow> role \<Rightarrow> version \<Rightarrow> string \<Rightarrow> raw_value \<Rightarrow> decode_options \<Rightarrow> decode_error + 'x payload" where
  "decode_request lib r v a s opts = decode_in lib (map (\<lambda>(a, q). (a, rq_shape q)) (received_requests r v)) a s opts"

text \<open>The answers to them, as the peer that awaits them reads them with \<open>CsResponse::decode\<close> or \<open>CsmsResponse::decode\<close>.\<close>

definition awaited_responses :: "role \<Rightarrow> version \<Rightarrow> (string \<times> shape) list" where
  "awaited_responses r v = (case r of Csms \<Rightarrow> cs_responses v | ChargingStation \<Rightarrow> csms_responses v)"

definition decode_response ::
  "'x json_library \<Rightarrow> role \<Rightarrow> version \<Rightarrow> string \<Rightarrow> raw_value \<Rightarrow> decode_options \<Rightarrow> decode_error + 'x payload" where
  "decode_response lib r v a s opts = decode_in lib (awaited_responses r v) a s opts"

lemma requests_keys: "map fst (requests v) = all_actions v"
proof -
  have "map fst (map (\<lambda>(a, q). (a, rq_origin q)) (requests v)) = all_actions v"
    unfolding requests_table origin_table_keys ..
  then show ?thesis by (simp add: comp_def case_prod_beta)
qed

lemma actions_distinct: "distinct (all_actions v)"
proof -
  have "ascending (all_actions v)" by (induction v) code_simp+
  then show ?thesis by (rule ascending_distinct)
qed

lemma received_requests_split:
  "received_requests r v = filter (\<lambda>(a, q). allows (rq_origin q) (receives r)) (requests v)"
  by (cases r) (simp_all add: received_requests_def allows_def cs_requests_split csms_requests_split sent_by_def)

lemma awaited_responses_split:
  "awaited_responses r v = answers_to (\<lambda>og. allows og (receives r)) (requests v)"
  by (cases r) (simp_all add: awaited_responses_def allows_def cs_responses_split csms_responses_split)

lemma map_of_filter_distinct:
  "distinct (map fst xs) \<Longrightarrow> (a, q) \<in> set xs \<Longrightarrow> P (a, q) \<Longrightarrow> map_of (filter P xs) a = Some q"
  by (rule map_of_is_SomeI) (simp_all add: distinct_map_filter)

lemma request_row:
  assumes "origin_of v a = Some og"
  obtains q where "(a, q) \<in> set (requests v)" "rq_origin q = og"
proof -
  have "(a, og) \<in> set (map (\<lambda>(a, q). (a, rq_origin q)) (requests v))"
    unfolding requests_table using origin_of_table [OF assms] .
  then show ?thesis using that by auto
qed

text \<open>
  C40. The engine and the typed messages agree on every action. A request that the engine hands to the
  application is one its role may receive in the version of the connection, with the kind it came as;
  \<open>CsRequest::decode\<close> or \<open>CsmsRequest::decode\<close> knows the action and decodes the payload as the request
  of that action, whose type is well formed and has a response exactly if the message is a CALL; and the
  peer decodes the answer as that response. Neither ever finds the action unsupported.
\<close>

theorem served_requests_decode:
  assumes "Request r \<in> set (outputs (on_call env i a p k e))" and "Request r \<notin> set (outputs e)"
  shows "\<exists>q. (a, q) \<in> set (requests (version e)) \<and> rq_action q = a \<and> rq_kind q = k \<and>
    (a, rq_response q) \<in> set (responses (version e)) \<and> shape_ok (rq_shape q) \<and>
    decode_request lib (c_role (config e)) (version e) (ir_action r) (ir_payload r) opts =
      decode_payload lib (rq_shape q) p opts \<and>
    (case rq_response q of
       None \<Rightarrow> k = Send
     | Some rsp \<Rightarrow> decode_response lib (c_role (config e)) (version e) a answer opts = decode_payload lib rsp answer opts)"
proof -
  let ?v = "version e" and ?r = "c_role (config e)"
  have r: "ir_action r = a" "ir_payload r = p" "ir_kind r = k" "admissible e r"
    using on_call_request [OF assms] by auto
  then have known: "kind_of ?v a = Some k" by (simp add: admissible_def)
  then have "origin_of ?v a \<noteq> None" using kind_known origin_known by (metis option.distinct(1))
  then obtain og where og: "origin_of ?v a = Some og" by auto
  obtain q where q: "(a, q) \<in> set (requests ?v)" "rq_origin q = og" by (rule request_row [OF og])
  have formed: "rq_action q = a" "shape_ok (rq_shape q)" "rq_kind q = Send \<longleftrightarrow> rq_response q = None"
    "rq_kind q = Send \<longleftrightarrow> ?v = V2_1 \<and> a = ''NotifyPeriodicEventStream''"
    using requests_formed [of ?v] q(1) unfolding list_all_iff by auto
  have kind: "rq_kind q = k" using formed(4) kind_of_Send [of ?v a] known by (cases k; cases "rq_kind q") auto
  have "map_of (received_requests ?r ?v) a = Some q"
    unfolding received_requests_split
    using q r og actions_distinct [of ?v]
    by (intro map_of_filter_distinct) (auto simp: requests_keys admissible_def)
  then have "map_of (map (\<lambda>(a, q). (a, rq_shape q)) (received_requests ?r ?v)) a = Some (rq_shape q)"
    by (simp add: map_of_map case_prod_beta)
  then have "decode_request lib ?r ?v (ir_action r) (ir_payload r) opts = decode_payload lib (rq_shape q) p opts"
    using r by (simp add: decode_request_def decode_in_def)
  moreover have "(a, rq_response q) \<in> set (responses ?v)"
    unfolding responses_table [symmetric] using q(1) by force
  moreover have "decode_response lib ?r ?v a answer opts = decode_payload lib rsp answer opts"
    if "rq_response q = Some rsp" for rsp
  proof -
    have "map_of (awaited_responses ?r ?v) a = Some rsp"
      unfolding awaited_responses_split
      using q r og that actions_distinct [of ?v]
      by (intro answer_row [where q = q]) (auto simp: requests_keys admissible_def)
    then show ?thesis by (simp add: decode_response_def decode_in_def)
  qed
  ultimately show ?thesis using q(1) formed kind by (auto split: option.split)
qed

theorem served_requests_decode_witness:
  "let r = \<lparr>ir_id = ''q'', ir_action = ''Heartbeat'', ir_payload = ''{}'', ir_kind = Call\<rparr>;
       e = fst (run sample_env (sample_engine (config_new Csms V2_1), []) [Handle (at_ms 1) (Connected V2_1)]) in
   Request r \<in> set (outputs (on_call sample_env ''q'' ''Heartbeat'' ''{}'' Call e)) \<and>
   (\<exists>q. rq_action q = ''Heartbeat'' \<and>
     decode_request sample_library (c_role (config e)) (version e) (ir_action r) (ir_payload r) options_strict =
       decode_payload sample_library (rq_shape q) ''{}'' options_strict)"
proof -
  let ?r = "\<lparr>ir_id = ''q'', ir_action = ''Heartbeat'', ir_payload = ''{}'', ir_kind = Call\<rparr> :: incoming_request"
  let ?e = "fst (run sample_env (sample_engine (config_new Csms V2_1), []) [Handle (at_ms 1) (Connected V2_1)])"
  have "outputs ?e = []" by code_simp
  then have fresh: "Request ?r \<notin> set (outputs ?e)" by simp
  have "outputs (on_call sample_env ''q'' ''Heartbeat'' ''{}'' Call ?e) = [Request ?r]" by code_simp
  then have given: "Request ?r \<in> set (outputs (on_call sample_env ''q'' ''Heartbeat'' ''{}'' Call ?e))" by simp
  show ?thesis
    using given served_requests_decode [OF given fresh, of sample_library options_strict "''{}''"] unfolding Let_def by blast
qed

end
