(* ===== verification/Spec2Isabelle.thy ===== *)
theory Spec2Isabelle
  imports Local_Controller Boot_Retry Router Standard_Model Configuration Authorization Station_Ledger
    Smart_Charging File_Store Engine_Durability Engine_Gate Engine_Timers
    Dispatch
begin

text \<open>
  ocpp-kit is a Rust implementation of the Open Charge Point Protocol, versions 1.6, 2.0.1 and 2.1,
  for charging stations, for the central system (CSMS) and for the local controller between them.
  This development models it and proves what its parts promise. File names below are relative to
  \<open>src/src/\<close>, the sources of the crate.

  \<^bold>\<open>The program.\<close> A protocol engine without I/O (\<open>engine/\<close>) is a state machine: inputs, commands and
  timeouts go in, outputs come out of a queue. A driver (\<open>transport/connection.rs\<close>) couples it to a
  WebSocket (\<open>transport/ws/\<close>), opened by a station along its network profiles or accepted by the CSMS,
  perhaps through a local controller. What the engine sends and receives are OCPP-J frames (\<open>rpc/\<close>)
  whose payloads are the generated message types (\<open>v1_6/\<close>, \<open>v2_0_1/\<close>, \<open>v2_1/\<close>), checked by
  \<open>validate.rs\<close>. On top stand the parts of a station that keep state (\<open>station/\<close>: configuration and
  device model, authorization, smart charging, transactions) and the transaction ledger of the CSMS
  (\<open>csms/\<close>).

  \<^bold>\<open>Theories and code.\<close>
  \<^item> \<open>Prelude\<close>, \<open>Texts\<close>, \<open>Values\<close>, \<open>Btree\<close>: Rust's integer ranges, the string operations, \<open>BTreeMap\<close>, and
    the interfaces \<open>wire_enum\<close> (an enumeration with a wire spelling) and \<open>step_system\<close> (a machine whose
    steps keep an invariant). \<open>Serde_Json\<close>: the JSON library as a record of functions.
  \<^item> \<open>Version\<close> (\<open>version.rs\<close>), \<open>Identifiers\<close> (\<open>types.rs\<close>), \<open>Actions\<close> (\<open>message.rs\<close> and the action registries of
    the three \<open>action.rs\<close>), \<open>Decimal\<close> (\<open>decimal.rs\<close>).
  \<^item> \<open>Rpc_Error\<close>, \<open>Rpc_Frame\<close> (\<open>rpc/error.rs\<close>, \<open>rpc/frame.rs\<close>): error codes, frames, their parser and
    printer, and the answer to text that does not parse.
  \<^item> \<open>Validation\<close> (\<open>validate.rs\<close>, \<open>macros.rs\<close>), \<open>Enums_\<close>, \<open>Messages_\<close> and \<open>Dispatch_\<close> with the suffixes
    \<open>V1_6\<close>, \<open>V2_0_1\<close>, \<open>V2_1\<close>, and \<open>Message_Types\<close>: the enumerations, data types and messages of each version
    as \<open>shape\<close>s, one definition per struct, and the tables of \<open>action.rs\<close>. The generated Rust has one body
    for all constructors, setters and \<open>Validate\<close> implementations, up to the members; here it is
    written once (\<open>payload_new\<close>, \<open>with_member\<close>, \<open>validate_at\<close>) and a shape gives the members. A constant
    has the name of its struct with the version behind it.
  \<^item> \<open>Decode\<close> (\<open>decode.rs\<close>, and the conversion of its errors in \<open>rpc/error.rs\<close>): a payload to a typed value,
    with the repairs of the lenient options, and the class of every failure. \<open>Dispatch\<close> puts the tables of
    the versions side by side and connects them with the engine and with \<open>Decode\<close>.
  \<^item> \<open>Engine_Time\<close> (\<open>engine/time.rs\<close>, \<open>engine/backoff.rs\<close>), \<open>Message_Store\<close> (\<open>engine/queue.rs\<close>),
    \<open>File_Store\<close> (\<open>engine/store_file.rs\<close>), \<open>Engine\<close> (\<open>engine/mod.rs\<close>): a record \<open>engine\<close> with the fields of
    the struct and one definition per method. \<open>handle\<close> is the input side, \<open>call_with\<close>, \<open>respond\<close>,
    \<open>cancel\<close> and \<open>shutdown\<close> the commands, \<open>poll_output\<close> the output side.
  \<^item> \<open>Ws_Frame\<close>, \<open>Ws_Codec\<close>, \<open>Deflate\<close>, \<open>Handshake\<close> (\<open>transport/ws/\<close>): headers and masking, the codec, the
    negotiation of compression, the HTTP upgrade. \<open>Security\<close>, \<open>Network_Profile\<close>, \<open>Admission\<close>, \<open>Router\<close>,
    \<open>Driver\<close>, \<open>Local_Controller\<close> (the rest of \<open>transport/\<close>): credentials, configuration slots, how a
    connection comes about on both sides, the table of sessions, the loop of a connection, the relay.
  \<^item> \<open>Configuration\<close>, \<open>Device_Model\<close>, \<open>Standard_Components\<close>, \<open>Standard_Model\<close>, \<open>Authorization\<close>,
    \<open>Smart_Charging\<close>, \<open>Transactions\<close> (\<open>station/\<close>, \<open>standard/\<close>), \<open>Ledger\<close> (\<open>csms/ledger.rs\<close>).

  \<^bold>\<open>Conventions.\<close> A struct is a record, an enum a datatype, a fallible operation returns a sum whose left
  side is the error, state is passed and returned. Milliseconds, sequence numbers and counters are
  \<open>nat\<close> with the saturation of the source written out; \<open>i64\<close> mantissas are \<open>int\<close> with the range checked
  where the source checks it; bytes and frame headers are words. A string is a list of characters,
  one for each scalar value. What is not in the repository is a parameter: the JSON library and the derived
  deserializers, base 64, the hash of the handshake, the compressor, the store of an engine and its id generator, the
  random source, the application's handlers, authenticator and relay, what sockets and disks do.
  A hypothesis on one of them states its documented behaviour, and every theorem with hypotheses
  has a witness that runs it on a concrete input.

  \<^bold>\<open>What is shown.\<close>
  \<^item> Engine. \<open>Engine_Account\<close>: every accepted call is answered exactly once, over any run. \<open>Engine_Order\<close>:
    transaction messages leave in the order of their sequence numbers, retries and the peer's open
    requests are bounded. \<open>Engine_Durability\<close>: the store holds what the engine must not lose, and an
    engine built on it resumes there. \<open>Engine_Timers\<close>: one outstanding call at a time, with a timer whose
    expiry answers it. \<open>Engine_Gate\<close>: what may be said before the station is accepted, what becomes of
    every incoming call, how a shutdown drains and what it says at the end. \<open>Boot_Retry\<close>: a retry timer that outlives acceptance.
    These are invariants of runs, by the interpretations of \<open>step_system\<close> on the engine.
  \<^item> Storage. \<open>File_Store\<close>: a journal replays to the entries that were live, after torn writes and
    compactions too, and what a failed flush does to it.
  \<^item> Text and bytes. Round trips of frames (\<open>Rpc_Frame\<close>), headers and messages (\<open>Ws_Frame\<close>, \<open>Ws_Codec\<close>),
    decimals (\<open>Decimal\<close>) and error codes; the codec's independence of how the network cuts the bytes,
    and the bound on its memory; the rounding of decimals.
  \<^item> Payloads. \<open>Validation\<close>: what is reported are exactly the broken constraints, each under the pointer
    of its place. \<open>Enums_\<close> and \<open>Messages_\<close>: no enumeration and no struct of the three versions names
    anything twice, the hypothesis of the theorem on every generated type. \<open>Decode\<close>: what is decoded is
    within the schema up to what the options forgive, a refusal names a fault that is there, and
    where the repairs do not reach. \<open>Dispatch\<close>: what the engine hands over can be decoded, and its answer.
  \<^item> Connections. \<open>Handshake\<close>: reading a head ends within a limit of bytes, and each side reads what the other
    writes.
    \<open>Admission\<close>: who is admitted (a certificate is bound to its identity by the
    \<open>Authenticator\<close>, a parameter), and that station and server agree on version and compression.
    \<open>Router\<close>: the table of sessions under every interleaving, and the interleaving that locks a station
    out. \<open>Network_Profile\<close>: fail-over reaches every profile. \<open>Driver\<close>: every caller is answered once, the
    loop wakes for an outstanding call, and what a broken flush leaves behind. \<open>Local_Controller\<close>: the
    relay is a wire, and the CSMS cannot tell it from the station.
  \<^item> Station and CSMS. Composite schedules are the pointwise limit (\<open>Smart_Charging\<close>); events are whole
    transactions and end when a stop point falls (\<open>Transactions\<close>); the cache is a bounded list in order
    of use and decisions rest on the list, then on it (\<open>Authorization\<close>); write-only variables are never seen and stored
    values conform (\<open>Device_Model\<close>, \<open>Configuration\<close>); the catalogue is declared whole
    (\<open>Standard_Model\<close>); verdicts follow the history (\<open>Ledger\<close>), and the ledger of the CSMS converges to the
    transactions of the station whatever the network repeats and reorders (\<open>Station_Ledger\<close>).

  \<^bold>\<open>Bounds.\<close> Loops of the source are recursive functions with a termination proof. A fuel is only where the
  source has a bound of its own: the walk over the repetitions of a recurring profile takes the
  4096 steps of the source, enough for every window up to \<open>longest_window\<close> (4095 days), a head is read for
  at most \<open>MAX_HEAD\<close> bytes, and a payload is repaired at most \<open>max_repairs\<close> times. The runs of the engine,
  the driver, the router and the controller are lists of steps of any length.

  \<^bold>\<open>Not modelled.\<close> Metering (\<open>metering.rs\<close>) and the normalised events of the CSMS (\<open>csms/events.rs\<close>)
  beyond a signed reading. Signed messages (\<open>rpc/signed.rs\<close>) and TLS: calls of cryptographic libraries. Sockets, tasks, the reconnect loop of a
  station and the builders (\<open>transport/\<close>): asynchronous I/O and plumbing; their effect is the script of a
  run. The calendar arithmetic of \<open>DateTime\<close> is the library \<open>jiff\<close>'s. The code generator (\<open>xtask/\<close>), the
  command line and the test kit are not part of the running program.
\<close>

end
